(* ===== verification/Prelude.thy ===== *)
theory Prelude
  imports Complex_Main "HOL-Library.AList" "HOL-Library.Multiset"
begin

text \<open>
  Shared vocabulary of the development: the parts of the JavaScript library that the
  TypeScript sources call on strings, arrays, \<open>Map\<close> and \<open>Set\<close>, with the facts about
  them that the component theories use.

  Strings are lists of \<open>char\<close>, the bytes of the UTF-8 text. \<open>trim\<close> and \<open>toLowerCase\<close>
  act on the ASCII characters. Numbers that the code adds and compares as fractions are
  exact rationals; integers are \<open>nat\<close> or \<open>int\<close>. A \<open>Map\<close> is an association list in
  insertion order (\<open>AList.update\<close> overwrites in place or appends, as \<open>Map.set\<close> does), a
  \<open>Set\<close> is a duplicate-free list in insertion order.
\<close>

named_theorems js_eval \<open>equations that evaluate library calls on concrete arguments\<close>

section \<open>Characters and strings\<close>

type_synonym path = string

abbreviation nl :: char where
  "nl \<equiv> CHR 0x0A"

definition is_ws :: "char \<Rightarrow> bool" where
  "is_ws c \<longleftrightarrow> c = CHR 0x20 \<or> c = CHR 0x09 \<or> c = CHR 0x0A \<or> c = CHR 0x0B \<or> c = CHR 0x0C \<or> c = CHR 0x0D"

definition trim_start :: "string \<Rightarrow> string" where
  "trim_start s = dropWhile is_ws s"

definition trim_end :: "string \<Rightarrow> string" where
  "trim_end s = rev (dropWhile is_ws (rev s))"

definition trim :: "string \<Rightarrow> string" where
  "trim s = trim_end (trim_start s)"

definition lower_char :: "char \<Rightarrow> char" where
  "lower_char c =
     (let n = of_char c :: nat in if 65 \<le> n \<and> n \<le> 90 then char_of (n + 32) else c)"

definition to_lower :: "string \<Rightarrow> string" where
  "to_lower s = map lower_char s"

text \<open>The \<open>length\<close> of a string counts UTF-16 units: one for every character, two for those of four bytes.\<close>

definition utf16_length :: "string \<Rightarrow> nat" where
  "utf16_length s = sum_list (map (\<lambda>c. let n = of_char c :: nat in
     if 128 \<le> n \<and> n < 192 then 0 else if 240 \<le> n then 2 else 1) s)"

text \<open>\<open>slice(0, n)\<close>: the characters of the first \<open>n\<close> units; half of a character of two units is written
  as the replacement character.\<close>

fun take_units :: "nat \<Rightarrow> string \<Rightarrow> string" where
  "take_units n [] = []"
| "take_units n (c # s) =
     (let b = of_char c :: nat
      in if 128 \<le> b \<and> b < 192 then c # take_units n s
         else if n = 0 then []
         else if 240 \<le> b then (if n = 1 then [CHR 0xEF, CHR 0xBF, CHR 0xBD] else c # take_units (n - 2) s)
         else c # take_units (n - 1) s)"

fun split_on :: "char \<Rightarrow> string \<Rightarrow> string list" where
  "split_on c [] = [[]]"
| "split_on c (x # xs) =
     (if x = c then [] # split_on c xs
      else (case split_on c xs of [] \<Rightarrow> [[x]] | y # ys \<Rightarrow> (x # y) # ys))"

fun join :: "string \<Rightarrow> string list \<Rightarrow> string" where
  "join sep [] = []"
| "join sep [x] = x"
| "join sep (x # y # ys) = x @ sep @ join sep (y # ys)"

fun starts_with :: "string \<Rightarrow> string \<Rightarrow> bool" where
  "starts_with s [] = True"
| "starts_with [] (p # ps) = False"
| "starts_with (x # xs) (p # ps) = (x = p \<and> starts_with xs ps)"

definition ends_with :: "string \<Rightarrow> string \<Rightarrow> bool" where
  "ends_with s p = starts_with (rev s) (rev p)"

text \<open>
  \<open>cut_at p s\<close> cuts \<open>s\<close> at the first occurrence of \<open>p\<close>: the text before it and the text
  after it. It is \<open>indexOf\<close> with both halves returned.
\<close>

fun cut_at :: "string \<Rightarrow> string \<Rightarrow> (string \<times> string) option" where
  "cut_at p [] = (if p = [] then Some ([], []) else None)"
| "cut_at p (x # xs) =
     (if starts_with (x # xs) p then Some ([], drop (length p) (x # xs))
      else (case cut_at p xs of None \<Rightarrow> None | Some (a, b) \<Rightarrow> Some (x # a, b)))"

definition str_includes :: "string \<Rightarrow> string \<Rightarrow> bool" where
  "str_includes s p \<longleftrightarrow> cut_at p s \<noteq> None"

fun index_of :: "'a \<Rightarrow> 'a list \<Rightarrow> nat option" where
  "index_of x [] = None"
| "index_of x (y # ys) = (if x = y then Some 0 else map_option Suc (index_of x ys))"

lemma split_on_not_Nil [simp]: "split_on c s \<noteq> []"
  by (cases s) (auto split: list.split)

lemma split_on_no_sep: "c \<notin> set s \<Longrightarrow> split_on c s = [s]"
  by (induction s) auto

lemma split_on_append_sep:
  "split_on c (s @ c # t) = split_on c s @ split_on c t"
  by (induction s) (auto split: list.split)

lemma split_on_join: "xs \<noteq> [] \<Longrightarrow> split_on c (join [c] xs) = concat (map (split_on c) xs)"
  by (induction xs rule: induct_list012) (simp_all add: split_on_append_sep)

lemma split_on_join_lines: "x \<in> set xs \<Longrightarrow> c \<notin> set x \<Longrightarrow> x \<in> set (split_on c (join [c] xs))"
  by (subst split_on_join) (auto intro!: bexI [of _ x] simp: split_on_no_sep)

text \<open>Splitting a concatenation glues the last piece of the left part to the first piece of
  the right part.\<close>

lemma split_on_append:
  "split_on c (s @ t) =
     butlast (split_on c s) @ (last (split_on c s) @ hd (split_on c t)) # tl (split_on c t)"
proof (induction s)
  case Nil
  then show ?case by (cases "split_on c t") auto
next
  case (Cons x s)
  obtain y ys where y: "split_on c s = y # ys"
    by (cases "split_on c s") auto
  show ?case
  proof (cases "ys = []")
    case True
    with Cons y show ?thesis by auto
  next
    case False
    with Cons y show ?thesis by auto
  qed
qed

lemma last_split_on_no_sep: "c \<notin> set (last (split_on c s))"
  by (induction s) (auto split: list.split)

lemma split_on_last_empty: "last s = c \<Longrightarrow> s \<noteq> [] \<Longrightarrow> last (split_on c s) = []"
  by (cases s rule: rev_cases) (auto simp: split_on_append_sep)

lemma ends_with_single: "ends_with s [c] \<longleftrightarrow> s \<noteq> [] \<and> last s = c"
  by (cases s rule: rev_cases) (auto simp: ends_with_def)

lemma starts_with_iff: "starts_with s p \<longleftrightarrow> (\<exists>t. s = p @ t)"
  by (induction s p rule: starts_with.induct) auto

lemma starts_with_append [simp]: "starts_with (p @ t) p"
  by (auto simp: starts_with_iff)

lemma cut_at_Some: "cut_at p s = Some (a, b) \<Longrightarrow> s = a @ p @ b"
proof (induction s arbitrary: a b)
  case Nil
  then show ?case by (auto split: if_splits)
next
  case (Cons x xs)
  then show ?case
    by (auto simp: starts_with_iff split: if_splits option.splits)
qed

lemma cut_at_append: "p \<noteq> [] \<Longrightarrow> \<exists>u v. cut_at p (a @ p @ b) = Some (u, v)"
proof (induction a)
  case Nil
  then show ?case
    by (cases p) (auto simp: starts_with_iff)
next
  case (Cons x xs)
  then show ?case by (auto split: option.split)
qed

lemma str_includes_iff: "p \<noteq> [] \<Longrightarrow> str_includes s p \<longleftrightarrow> (\<exists>a b. s = a @ p @ b)"
proof
  assume "str_includes s p"
  then obtain a b where "cut_at p s = Some (a, b)" by (auto simp: str_includes_def)
  then have "s = a @ p @ b" by (rule cut_at_Some)
  then show "\<exists>a b. s = a @ p @ b" by blast
next
  assume "p \<noteq> []" "\<exists>a b. s = a @ p @ b"
  then show "str_includes s p" by (auto simp: str_includes_def dest: cut_at_append)
qed

section \<open>Decimal numerals\<close>

definition digit_char :: "nat \<Rightarrow> char" where
  "digit_char d = char_of (48 + d)"

fun show_nat :: "nat \<Rightarrow> string" where
  "show_nat n = (if n < 10 then [digit_char n] else show_nat (n div 10) @ [digit_char (n mod 10)])"

declare show_nat.simps [simp del]

definition is_digit :: "char \<Rightarrow> bool" where
  "is_digit c \<longleftrightarrow> 48 \<le> (of_char c :: nat) \<and> (of_char c :: nat) \<le> 57"

definition read_digits :: "string \<Rightarrow> nat" where
  "read_digits s = foldl (\<lambda>n c. 10 * n + (of_char c - 48)) 0 s"

lemma of_char_digit_char: "d < 10 \<Longrightarrow> of_char (digit_char d) = 48 + d"
  by (simp add: digit_char_def)

lemma is_digit_digit_char: "d < 10 \<Longrightarrow> is_digit (digit_char d)"
  by (simp add: is_digit_def of_char_digit_char)

lemma show_nat_digits: "c \<in> set (show_nat n) \<Longrightarrow> is_digit c"
proof (induction n rule: show_nat.induct)
  case (1 n)
  then show ?case
    by (subst (asm) show_nat.simps) (auto simp: is_digit_digit_char split: if_splits)
qed

lemma show_nat_not_Nil [simp]: "show_nat n \<noteq> []"
  by (subst show_nat.simps) simp

lemma read_show_nat: "read_digits (show_nat n) = n"
proof (induction n rule: show_nat.induct)
  case (1 n)
  show ?case
  proof (cases "n < 10")
    case True
    then show ?thesis
      by (subst show_nat.simps) (simp add: read_digits_def of_char_digit_char)
  next
    case False
    with 1 have "read_digits (show_nat (n div 10)) = n div 10" by simp
    with False show ?thesis
      by (subst show_nat.simps) (simp add: read_digits_def of_char_digit_char)
  qed
qed

lemma show_nat_inject [simp]: "show_nat m = show_nat n \<longleftrightarrow> m = n"
  by (metis read_show_nat)

text \<open>A decimal suffix after a separator that is no digit determines both parts.\<close>

lemma append_sep_digits_inject:
  assumes "\<not> is_digit c" "a @ c # show_nat m = b @ c # show_nat n"
  shows "a = b \<and> m = n"
proof -
  have nc: "c \<notin> set (show_nat k)" for k
    using assms(1) show_nat_digits by blast
  have "rev (show_nat m) @ c # rev a = rev (show_nat n) @ c # rev b"
    using arg_cong [OF assms(2), of rev] by simp
  then have "takeWhile (\<lambda>x. x \<noteq> c) (rev (show_nat m) @ c # rev a) =
      takeWhile (\<lambda>x. x \<noteq> c) (rev (show_nat n) @ c # rev b)"
    by simp
  moreover have "takeWhile (\<lambda>x. x \<noteq> c) (rev (show_nat k) @ c # r) = rev (show_nat k)" for k r
    using nc [of k] by (subst takeWhile_append2) auto
  ultimately have "show_nat m = show_nat n" by simp
  with assms(2) show ?thesis by simp
qed

section \<open>Arrays, maps and sets\<close>

text \<open>\<open>find\<close> and then assign to the found object: the first match is updated in place.\<close>

fun update_first :: "('a \<Rightarrow> bool) \<Rightarrow> ('a \<Rightarrow> 'a) \<Rightarrow> 'a list \<Rightarrow> 'a list" where
  "update_first P f [] = []"
| "update_first P f (x # xs) = (if P x then f x # xs else x # update_first P f xs)"

text \<open>\<open>Set.add\<close>.\<close>

definition set_add :: "'a \<Rightarrow> 'a list \<Rightarrow> 'a list" where
  "set_add x xs = (if x \<in> set xs then xs else xs @ [x])"

text \<open>\<open>new Set(xs)\<close>.\<close>

definition set_of :: "'a list \<Rightarrow> 'a list" where
  "set_of xs = foldl (\<lambda>s x. set_add x s) [] xs"

text \<open>\<open>xs ?? []\<close>.\<close>

definition list_or_empty :: "'a list option \<Rightarrow> 'a list" where
  "list_or_empty xs = (case xs of None \<Rightarrow> [] | Some ys \<Rightarrow> ys)"

text \<open>\<open>slice(-n)\<close>.\<close>

definition take_last :: "nat \<Rightarrow> 'a list \<Rightarrow> 'a list" where
  "take_last n xs = drop (length xs - n) xs"

lemma length_update_first [simp]: "length (update_first P f xs) = length xs"
  by (induction xs) auto

lemma update_first_none: "\<not> (\<exists>x \<in> set xs. P x) \<Longrightarrow> update_first P f xs = xs"
  by (induction xs) auto

lemma map_update_first: "(\<And>x. P x \<Longrightarrow> g (f x) = g x) \<Longrightarrow> map g (update_first P f xs) = map g xs"
  by (induction xs) auto

lemma update_first_set: "y \<in> set (update_first P f xs) \<Longrightarrow> y \<in> set xs \<or> (\<exists>x \<in> set xs. P x \<and> y = f x)"
  by (induction xs) (auto split: if_splits)

lemma find_update_first:
  "List.find P xs = Some x \<Longrightarrow> (\<And>z. P z \<Longrightarrow> P (f z)) \<Longrightarrow> List.find P (update_first P f xs) = Some (f x)"
  by (induction xs) (auto split: if_splits)

lemma find_update_first_other:
  "(\<And>z. P z \<Longrightarrow> \<not> Q z \<and> \<not> Q (f z)) \<Longrightarrow> List.find Q (update_first P f xs) = List.find Q xs"
  by (induction xs) auto

lemma list_all_update_first:
  "list_all Q xs \<Longrightarrow> (\<And>x. x \<in> set xs \<Longrightarrow> P x \<Longrightarrow> Q x \<Longrightarrow> Q (f x)) \<Longrightarrow> list_all Q (update_first P f xs)"
  by (induction xs) auto

lemma find_append: "List.find P (xs @ ys) = (case List.find P xs of Some x \<Rightarrow> Some x | None \<Rightarrow> List.find P ys)"
  by (induction xs) auto

lemma find_SomeD: "List.find P xs = Some x \<Longrightarrow> x \<in> set xs \<and> P x"
  by (induction xs) (auto split: if_splits)

lemma find_None_iff': "List.find P xs = None \<longleftrightarrow> (\<forall>x \<in> set xs. \<not> P x)"
  by (auto simp: find_None_iff)

lemma set_set_add [simp]: "set (set_add x xs) = insert x (set xs)"
  by (auto simp: set_add_def)

lemma distinct_set_add: "distinct xs \<Longrightarrow> distinct (set_add x xs)"
  by (simp add: set_add_def)

lemma set_foldl_set_add: "set (foldl (\<lambda>s x. set_add x s) s xs) = set s \<union> set xs"
  by (induction xs arbitrary: s) auto

lemma distinct_foldl_set_add: "distinct s \<Longrightarrow> distinct (foldl (\<lambda>s x. set_add x s) s xs)"
  by (induction xs arbitrary: s) (auto simp: distinct_set_add)

lemma set_set_of [simp]: "set (set_of xs) = set xs"
  by (simp add: set_of_def set_foldl_set_add)

lemma distinct_set_of [simp]: "distinct (set_of xs)"
  by (simp add: set_of_def distinct_foldl_set_add)

lemma set_of_Nil [simp]: "set_of [] = []"
  by (simp add: set_of_def)

lemma index_of_Some: "index_of x xs = Some i \<Longrightarrow> i < length xs \<and> xs ! i = x"
  by (induction xs arbitrary: i) (auto split: if_splits)

lemma index_of_None: "index_of x xs = None \<longleftrightarrow> x \<notin> set xs"
  by (induction xs) auto

lemma length_take_last [simp]: "length (take_last n xs) = min n (length xs)"
  by (simp add: take_last_def)

lemma rev_take_rev: "rev (take n (rev xs)) = take_last n xs"
  by (simp add: take_last_def take_rev)

lemma rev_take_last: "rev (take_last n xs) = take n (rev xs)"
  by (simp add: take_last_def take_rev)

lemma take_last_append: "take_last n (take_last n xs @ ys) = take_last n (xs @ ys)"
  by (cases "length xs \<le> n") (auto simp: take_last_def ac_simps)

lemma take_append_take: "take n (ys @ take n xs) = take n (ys @ xs)"
  by (cases "length ys \<le> n") (auto simp: take_append min_def)

lemma sorted_map_last: "sorted (map f xs) \<Longrightarrow> x \<in> set xs \<Longrightarrow> f x \<le> f (last xs)"
  by (cases xs rule: rev_cases) (auto simp: sorted_append)

lemma sorted_map_hd: "sorted (map f xs) \<Longrightarrow> x \<in> set xs \<Longrightarrow> f (hd xs) \<le> f x"
  by (cases xs) auto

section \<open>Interfaces shared by the components\<close>

text \<open>
  A component whose state is changed by a sequence of operations and whose well-formedness
  predicate every operation keeps: the predicate then holds after any sequence.
\<close>

locale stateful =
  fixes step :: "'s \<Rightarrow> 'e \<Rightarrow> 's"
    and inv :: "'s \<Rightarrow> bool"
    and ok :: "'e \<Rightarrow> bool"
  assumes step_inv: "inv s \<Longrightarrow> ok e \<Longrightarrow> inv (step s e)"
begin

lemma run_inv: "inv s \<Longrightarrow> list_all ok es \<Longrightarrow> inv (foldl step s es)"
  by (induction es arbitrary: s) (auto intro: step_inv)

lemma run_prefix_inv: "inv s \<Longrightarrow> list_all ok es \<Longrightarrow> inv (foldl step s (take n es))"
  by (rule run_inv) (auto simp: list_all_iff dest: in_set_takeD)

end

text \<open>A component with a measure of progress that no operation lowers.\<close>

locale monotone_state = stateful +
  fixes progress :: "'s \<Rightarrow> 'p::preorder"
  assumes step_progress: "inv s \<Longrightarrow> ok e \<Longrightarrow> progress s \<le> progress (step s e)"
begin

lemma run_progress: "inv s \<Longrightarrow> list_all ok es \<Longrightarrow> progress s \<le> progress (foldl step s es)"
proof (induction es arbitrary: s)
  case Nil
  then show ?case by simp
next
  case (Cons e es)
  then have "progress s \<le> progress (step s e)" by (simp add: step_progress)
  also have "\<dots> \<le> progress (foldl step (step s e) es)"
    using Cons by (auto intro: step_inv)
  finally show ?case by simp
qed

end

end
