(* ===== verification/Json.thy ===== *)
theory Json
  imports Prelude
begin

text \<open>
  JSON values, the common currency of the sources: trace events, sessions, configurations
  and tool schemas are all plain JavaScript objects. An object is the list of its entries
  in property order with distinct keys; an absent property is \<open>undefined\<close>, modelled by
  \<open>None\<close>. Numbers are exact rationals.
\<close>

datatype json =
    JNull
  | JBool bool
  | JNum rat
  | JStr string
  | JArr "json list"
  | JObj "(string \<times> json) list"

text \<open>Property access \<open>v.k\<close>; on a value that is no object it gives \<open>undefined\<close>.\<close>

fun jfield :: "string \<Rightarrow> json \<Rightarrow> json option" where
  "jfield k (JObj kvs) = map_of kvs k"
| "jfield k _ = None"

text \<open>\<open>typeof v === 'object' && v !== null\<close>.\<close>

fun is_object :: "json \<Rightarrow> bool" where
  "is_object (JObj _) = True"
| "is_object (JArr _) = True"
| "is_object _ = False"

text \<open>JavaScript truthiness of a possibly absent value.\<close>

fun truthy :: "json option \<Rightarrow> bool" where
  "truthy None = False"
| "truthy (Some JNull) = False"
| "truthy (Some (JBool b)) = b"
| "truthy (Some (JNum x)) = (x \<noteq> 0)"
| "truthy (Some (JStr s)) = (s \<noteq> [])"
| "truthy (Some _) = True"

fun as_str :: "json \<Rightarrow> string option" where
  "as_str (JStr s) = Some s"
| "as_str _ = None"

fun as_num :: "json \<Rightarrow> rat option" where
  "as_num (JNum x) = Some x"
| "as_num _ = None"

text \<open>An array all of whose elements are strings.\<close>

fun as_strs :: "json \<Rightarrow> string list option" where
  "as_strs (JArr xs) = those (map as_str xs)"
| "as_strs _ = None"

text \<open>The entries of an object literal: a property whose value is \<open>undefined\<close> is left out,
  as \<open>JSON.stringify\<close> does and as the schema library does for absent optional keys.\<close>

definition obj_of :: "(string \<times> json option) list \<Rightarrow> json" where
  "obj_of kvs = JObj (concat (map (\<lambda>(k, v). case v of None \<Rightarrow> [] | Some x \<Rightarrow> [(k, x)]) kvs))"

lemma jfield_obj_of_Nil [simp]: "jfield k (obj_of []) = None"
  by (simp add: obj_of_def)

lemma jfield_obj_of_Cons [simp]:
  "jfield k (obj_of ((k', v) # kvs)) =
     (if k' = k \<and> v \<noteq> None then v else jfield k (obj_of kvs))"
  by (auto simp: obj_of_def split: option.splits)

lemma is_object_obj_of [simp]: "is_object (obj_of kvs)"
  by (simp add: obj_of_def)

lemma those_map_as_str [simp]: "those (map as_str (map JStr xs)) = Some xs"
  by (induction xs) auto

lemma as_strs_map_JStr [simp]: "as_strs (JArr (map JStr xs)) = Some xs"
  by (simp del: map_map)

end
