(* ===== verification/Trace.thy ===== *)
theory Trace
  imports Json
begin

text \<open>
  Trace events: the TraceEvent schema of TasteKit (packages/core/schemas/trace.ts), the
  validation that autoManage runs on every line (src/contracts/trace.ts), and the filters of
  the trace reader (packages/core/tracing/reader.ts).

  The schema is written with the zod library: a missing property is accepted where the
  field is optional, \<open>null\<close> is not, and unknown properties are dropped. The test that a
  string is an ISO date time is zod's own; it is the parameter \<open>is_dt\<close>.
\<close>

section \<open>The event type\<close>

datatype actor = Agent | User | System

datatype event_type =
    Plan | Think | Tool_call | Tool_result | Approval_requested | Approval_response
  | Artifact_written | Memory_write | Evaluation | Error
  | Observation | Tension | Session_start | Session_end

datatype observation_category = Methodology | Process | Friction | Surprise | Quality

datatype tension_status = Pending | Resolved | Dissolved

record tension =
  tn_description :: string
  tn_involves :: "string list"
  tn_status :: tension_status

record cost =
  co_tokens :: "rat option"
  co_time_ms :: "rat option"

record trace_event =
  run_id :: string
  timestamp :: string
  actor :: actor
  skill_id :: "string option"
  playbook_id :: "string option"
  step_id :: "string option"
  event_type :: event_type
  tool_ref :: "string option"
  input_hash :: "string option"
  output_hash :: "string option"
  risk_score :: "rat option"
  principle_refs :: "string list option"
  cost :: "cost option"
  data :: "(string \<times> json) list option"
  error :: "string option"
  observation_category :: "observation_category option"
  tension :: "tension option"

section \<open>Names of the enumerations\<close>

fun actor_str :: "actor \<Rightarrow> string" where
  "actor_str Agent = ''agent''"
| "actor_str User = ''user''"
| "actor_str System = ''system''"

fun event_type_str :: "event_type \<Rightarrow> string" where
  "event_type_str Plan = ''plan''"
| "event_type_str Think = ''think''"
| "event_type_str Tool_call = ''tool_call''"
| "event_type_str Tool_result = ''tool_result''"
| "event_type_str Approval_requested = ''approval_requested''"
| "event_type_str Approval_response = ''approval_response''"
| "event_type_str Artifact_written = ''artifact_written''"
| "event_type_str Memory_write = ''memory_write''"
| "event_type_str Evaluation = ''evaluation''"
| "event_type_str Error = ''error''"
| "event_type_str Observation = ''observation''"
| "event_type_str Tension = ''tension''"
| "event_type_str Session_start = ''session_start''"
| "event_type_str Session_end = ''session_end''"

fun category_str :: "observation_category \<Rightarrow> string" where
  "category_str Methodology = ''methodology''"
| "category_str Process = ''process''"
| "category_str Friction = ''friction''"
| "category_str Surprise = ''surprise''"
| "category_str Quality = ''quality''"

fun tension_status_str :: "tension_status \<Rightarrow> string" where
  "tension_status_str Pending = ''pending''"
| "tension_status_str Resolved = ''resolved''"
| "tension_status_str Dissolved = ''dissolved''"

definition actors :: "actor list" where
  "actors = [Agent, User, System]"

definition event_types :: "event_type list" where
  "event_types = [Plan, Think, Tool_call, Tool_result, Approval_requested, Approval_response,
     Artifact_written, Memory_write, Evaluation, Error, Observation, Tension,
     Session_start, Session_end]"

definition categories :: "observation_category list" where
  "categories = [Methodology, Process, Friction, Surprise, Quality]"

definition tension_statuses :: "tension_status list" where
  "tension_statuses = [Pending, Resolved, Dissolved]"

text \<open>\<open>z.enum\<close>: the member with the given name.\<close>

definition enum_of :: "('a \<Rightarrow> string) \<Rightarrow> 'a list \<Rightarrow> json \<Rightarrow> 'a option" where
  "enum_of nm xs j = (case as_str j of None \<Rightarrow> None | Some s \<Rightarrow> List.find (\<lambda>x. nm x = s) xs)"

lemma enum_of_name:
  "x \<in> set xs \<Longrightarrow> inj_on nm (set xs) \<Longrightarrow> enum_of nm xs (JStr (nm x)) = Some x"
proof -
  assume x: "x \<in> set xs" and inj: "inj_on nm (set xs)"
  then have "List.find (\<lambda>y. nm y = nm x) xs \<noteq> None" by (auto simp: find_None_iff)
  then obtain y where y: "List.find (\<lambda>y. nm y = nm x) xs = Some y" by auto
  then have "y \<in> set xs" "nm y = nm x" by (auto dest: find_SomeD)
  with inj x have "y = x" by (auto dest: inj_onD)
  with y show ?thesis by (simp add: enum_of_def)
qed

lemma enum_actor [simp]: "enum_of actor_str actors (JStr (actor_str a)) = Some a"
  by (cases a) (simp_all add: enum_of_def actors_def)

lemma enum_event_type [simp]: "enum_of event_type_str event_types (JStr (event_type_str t)) = Some t"
  by (cases t) (simp_all add: enum_of_def event_types_def)

lemma enum_category [simp]: "enum_of category_str categories (JStr (category_str c)) = Some c"
  by (cases c) (simp_all add: enum_of_def categories_def)

lemma enum_tension_status [simp]:
  "enum_of tension_status_str tension_statuses (JStr (tension_status_str c)) = Some c"
  by (cases c) (simp_all add: enum_of_def tension_statuses_def)

section \<open>Validation\<close>

text \<open>A required property.\<close>

definition req :: "string \<Rightarrow> (json \<Rightarrow> 'a option) \<Rightarrow> json \<Rightarrow> 'a option" where
  "req k p j = Option.bind (jfield k j) p"

text \<open>An optional property: absent is accepted, present must validate.\<close>

definition opt :: "string \<Rightarrow> (json \<Rightarrow> 'a option) \<Rightarrow> json \<Rightarrow> 'a option option" where
  "opt k p j = (case jfield k j of None \<Rightarrow> Some None | Some v \<Rightarrow> map_option Some (p v))"

definition parse_risk :: "json \<Rightarrow> rat option" where
  "parse_risk j = (case as_num j of None \<Rightarrow> None
     | Some x \<Rightarrow> if 0 \<le> x \<and> x \<le> 1 then Some x else None)"

fun as_record :: "json \<Rightarrow> (string \<times> json) list option" where
  "as_record (JObj kvs) = Some kvs"
| "as_record _ = None"

definition parse_cost :: "json \<Rightarrow> cost option" where
  "parse_cost j = (if as_record j = None then None else
     Option.bind (opt ''tokens'' as_num j) (\<lambda>t.
     Option.bind (opt ''time_ms'' as_num j) (\<lambda>m.
       Some \<lparr>co_tokens = t, co_time_ms = m\<rparr>)))"

definition parse_tension :: "json \<Rightarrow> tension option" where
  "parse_tension j =
     Option.bind (req ''description'' as_str j) (\<lambda>d.
     Option.bind (req ''involves'' as_strs j) (\<lambda>i.
     Option.bind (req ''status'' (enum_of tension_status_str tension_statuses) j) (\<lambda>s.
       Some \<lparr>tn_description = d, tn_involves = i, tn_status = s\<rparr>)))"

definition schema_literal :: "json \<Rightarrow> unit option" where
  "schema_literal j = (if j = JStr ''trace_event.v1'' then Some () else None)"

definition parse_datetime :: "(string \<Rightarrow> bool) \<Rightarrow> json \<Rightarrow> string option" where
  "parse_datetime is_dt j = (case as_str j of None \<Rightarrow> None
     | Some s \<Rightarrow> if is_dt s then Some s else None)"

text \<open>\<open>TraceEventSchema.safeParse\<close>: \<open>None\<close> when validation fails.\<close>

definition parse_trace_event :: "(string \<Rightarrow> bool) \<Rightarrow> json \<Rightarrow> trace_event option" where
  "parse_trace_event is_dt j =
     Option.bind (req ''schema_version'' schema_literal j) (\<lambda>_.
     Option.bind (req ''run_id'' as_str j) (\<lambda>rid.
     Option.bind (req ''timestamp'' (parse_datetime is_dt) j) (\<lambda>ts.
     Option.bind (req ''actor'' (enum_of actor_str actors) j) (\<lambda>act.
     Option.bind (opt ''skill_id'' as_str j) (\<lambda>sk.
     Option.bind (opt ''playbook_id'' as_str j) (\<lambda>pb.
     Option.bind (opt ''step_id'' as_str j) (\<lambda>st.
     Option.bind (req ''event_type'' (enum_of event_type_str event_types) j) (\<lambda>et.
     Option.bind (opt ''tool_ref'' as_str j) (\<lambda>tr.
     Option.bind (opt ''input_hash'' as_str j) (\<lambda>ih.
     Option.bind (opt ''output_hash'' as_str j) (\<lambda>oh.
     Option.bind (opt ''risk_score'' parse_risk j) (\<lambda>rs.
     Option.bind (opt ''principle_refs'' as_strs j) (\<lambda>pr.
     Option.bind (opt ''cost'' parse_cost j) (\<lambda>co.
     Option.bind (opt ''data'' as_record j) (\<lambda>da.
     Option.bind (opt ''error'' as_str j) (\<lambda>er.
     Option.bind (opt ''observation_category'' (enum_of category_str categories) j) (\<lambda>oc.
     Option.bind (opt ''tension'' parse_tension j) (\<lambda>tn.
       Some \<lparr>run_id = rid, timestamp = ts, actor = act, skill_id = sk, playbook_id = pb,
         step_id = st, event_type = et, tool_ref = tr, input_hash = ih, output_hash = oh,
         risk_score = rs, principle_refs = pr, cost = co, data = da, error = er,
         observation_category = oc, tension = tn\<rparr>))))))))))))))))))"

text \<open>What validation guarantees beyond the types: the date and the risk range.\<close>

definition wf_event :: "(string \<Rightarrow> bool) \<Rightarrow> trace_event \<Rightarrow> bool" where
  "wf_event is_dt e \<longleftrightarrow> is_dt (timestamp e) \<and>
     (case risk_score e of None \<Rightarrow> True | Some x \<Rightarrow> 0 \<le> x \<and> x \<le> 1)"

section \<open>The validated object, as it is stored\<close>

definition cost_to_json :: "cost \<Rightarrow> json" where
  "cost_to_json c = obj_of [(''tokens'', map_option JNum (co_tokens c)),
     (''time_ms'', map_option JNum (co_time_ms c))]"

definition strs_to_json :: "string list \<Rightarrow> json" where
  "strs_to_json xs = JArr (map JStr xs)"

definition tension_to_json :: "tension \<Rightarrow> json" where
  "tension_to_json t = obj_of [(''description'', Some (JStr (tn_description t))),
     (''involves'', Some (strs_to_json (tn_involves t))),
     (''status'', Some (JStr (tension_status_str (tn_status t))))]"

text \<open>\<open>parsed.data\<close>: the properties in the order of the schema.\<close>

definition event_to_json :: "trace_event \<Rightarrow> json" where
  "event_to_json e = obj_of
     [(''schema_version'', Some (JStr ''trace_event.v1'')),
      (''run_id'', Some (JStr (run_id e))),
      (''timestamp'', Some (JStr (timestamp e))),
      (''actor'', Some (JStr (actor_str (actor e)))),
      (''skill_id'', map_option JStr (skill_id e)),
      (''playbook_id'', map_option JStr (playbook_id e)),
      (''step_id'', map_option JStr (step_id e)),
      (''event_type'', Some (JStr (event_type_str (event_type e)))),
      (''tool_ref'', map_option JStr (tool_ref e)),
      (''input_hash'', map_option JStr (input_hash e)),
      (''output_hash'', map_option JStr (output_hash e)),
      (''risk_score'', map_option JNum (risk_score e)),
      (''principle_refs'', map_option strs_to_json (principle_refs e)),
      (''cost'', map_option cost_to_json (cost e)),
      (''data'', map_option JObj (data e)),
      (''error'', map_option JStr (error e)),
      (''observation_category'', map_option (JStr \<circ> category_str) (observation_category e)),
      (''tension'', map_option tension_to_json (tension e))]"

lemma as_strs_strs_to_json [simp]: "as_strs (strs_to_json xs) = Some xs"
  by (simp add: strs_to_json_def del: map_map as_strs.simps)

lemma as_record_obj_of [simp]: "(as_record (obj_of kvs) = None) = False"
  by (simp add: obj_of_def)

lemma opt_some [simp]: "jfield k j = Some v \<Longrightarrow> p v = Some x \<Longrightarrow> opt k p j = Some (Some x)"
  by (simp add: opt_def)

lemma opt_roundtrip:
  "jfield k j = map_option f v \<Longrightarrow> (\<And>x. v = Some x \<Longrightarrow> p (f x) = Some x) \<Longrightarrow> opt k p j = Some v"
  by (cases v) (auto simp: opt_def)

lemma as_record_cost [simp]: "(as_record (cost_to_json c) = None) = False"
  by (simp add: cost_to_json_def)

lemma parse_cost_to_json [simp]: "parse_cost (cost_to_json c) = Some c"
proof -
  have "opt ''tokens'' as_num (cost_to_json c) = Some (co_tokens c)"
    by (rule opt_roundtrip [where f = JNum]) (auto simp: cost_to_json_def)
  moreover have "opt ''time_ms'' as_num (cost_to_json c) = Some (co_time_ms c)"
    by (rule opt_roundtrip [where f = JNum]) (auto simp: cost_to_json_def)
  ultimately show ?thesis
    by (simp add: parse_cost_def)
qed

lemma parse_tension_to_json [simp]: "parse_tension (tension_to_json t) = Some t"
  by (simp add: parse_tension_def tension_to_json_def req_def)

lemma parse_risk_wf [simp]: "wf_event is_dt e \<Longrightarrow> risk_score e = Some x \<Longrightarrow> parse_risk (JNum x) = Some x"
  by (simp add: wf_event_def parse_risk_def)

text \<open>Every property of the stored object reads back; \<open>stored\<close> collects the eighteen facts.\<close>

named_theorems stored \<open>validation of each property of a stored event\<close>

lemma stored_version [stored]: "req ''schema_version'' schema_literal (event_to_json e) = Some ()"
  by (simp add: req_def event_to_json_def schema_literal_def)

lemma stored_run [stored]: "req ''run_id'' as_str (event_to_json e) = Some (run_id e)"
  by (simp add: req_def event_to_json_def)

lemma stored_timestamp [stored]:
  "wf_event is_dt e \<Longrightarrow>
    req ''timestamp'' (parse_datetime is_dt) (event_to_json e) = Some (timestamp e)"
  by (simp add: req_def event_to_json_def parse_datetime_def wf_event_def)

lemma stored_actor [stored]: "req ''actor'' (enum_of actor_str actors) (event_to_json e) = Some (actor e)"
  by (simp add: req_def event_to_json_def)

lemma stored_event_type [stored]:
  "req ''event_type'' (enum_of event_type_str event_types) (event_to_json e) = Some (event_type e)"
  by (simp add: req_def event_to_json_def)

lemma stored_skill [stored]: "opt ''skill_id'' as_str (event_to_json e) = Some (skill_id e)"
  by (rule opt_roundtrip [where f = JStr]) (auto simp: event_to_json_def)

lemma stored_playbook [stored]: "opt ''playbook_id'' as_str (event_to_json e) = Some (playbook_id e)"
  by (rule opt_roundtrip [where f = JStr]) (auto simp: event_to_json_def)

lemma stored_step [stored]: "opt ''step_id'' as_str (event_to_json e) = Some (step_id e)"
  by (rule opt_roundtrip [where f = JStr]) (auto simp: event_to_json_def)

lemma stored_tool [stored]: "opt ''tool_ref'' as_str (event_to_json e) = Some (tool_ref e)"
  by (rule opt_roundtrip [where f = JStr]) (auto simp: event_to_json_def)

lemma stored_input [stored]: "opt ''input_hash'' as_str (event_to_json e) = Some (input_hash e)"
  by (rule opt_roundtrip [where f = JStr]) (auto simp: event_to_json_def)

lemma stored_output [stored]: "opt ''output_hash'' as_str (event_to_json e) = Some (output_hash e)"
  by (rule opt_roundtrip [where f = JStr]) (auto simp: event_to_json_def)

lemma stored_risk [stored]:
  "wf_event is_dt e \<Longrightarrow> opt ''risk_score'' parse_risk (event_to_json e) = Some (risk_score e)"
  by (rule opt_roundtrip [where f = JNum]) (auto simp: event_to_json_def)

lemma stored_principles [stored]:
  "opt ''principle_refs'' as_strs (event_to_json e) = Some (principle_refs e)"
  by (rule opt_roundtrip [where f = strs_to_json]) (auto simp: event_to_json_def)

lemma stored_cost [stored]: "opt ''cost'' parse_cost (event_to_json e) = Some (cost e)"
  by (rule opt_roundtrip [where f = cost_to_json]) (auto simp: event_to_json_def)

lemma stored_data [stored]: "opt ''data'' as_record (event_to_json e) = Some (data e)"
  by (rule opt_roundtrip [where f = JObj]) (auto simp: event_to_json_def)

lemma stored_error [stored]: "opt ''error'' as_str (event_to_json e) = Some (error e)"
  by (rule opt_roundtrip [where f = JStr]) (auto simp: event_to_json_def)

lemma stored_category [stored]:
  "opt ''observation_category'' (enum_of category_str categories) (event_to_json e) =
     Some (observation_category e)"
  by (rule opt_roundtrip [where f = "JStr \<circ> category_str"]) (auto simp: event_to_json_def)

lemma stored_tension [stored]: "opt ''tension'' parse_tension (event_to_json e) = Some (tension e)"
  by (rule opt_roundtrip [where f = tension_to_json]) (auto simp: event_to_json_def)

lemma parse_stored_event: "wf_event is_dt e \<Longrightarrow> parse_trace_event is_dt (event_to_json e) = Some e"
  by (simp add: parse_trace_event_def stored)

lemma parse_trace_event_wf:
  assumes "parse_trace_event is_dt j = Some e"
  shows "wf_event is_dt e"
proof -
  from assms obtain ts rs where "req ''timestamp'' (parse_datetime is_dt) j = Some ts"
      "opt ''risk_score'' parse_risk j = Some rs" "timestamp e = ts" "risk_score e = rs"
    by (auto simp: parse_trace_event_def bind_eq_Some_conv)
  then show ?thesis
    by (auto simp: wf_event_def req_def opt_def parse_datetime_def parse_risk_def bind_eq_Some_conv
        split: option.splits if_splits)
qed

section \<open>Filters of the trace reader\<close>

definition filterByEventType :: "trace_event list \<Rightarrow> event_type \<Rightarrow> trace_event list" where
  "filterByEventType es t = filter (\<lambda>e. event_type e = t) es"

definition filterBySkill :: "trace_event list \<Rightarrow> string \<Rightarrow> trace_event list" where
  "filterBySkill es s = filter (\<lambda>e. skill_id e = Some s) es"

definition filterByActor :: "trace_event list \<Rightarrow> actor \<Rightarrow> trace_event list" where
  "filterByActor es a = filter (\<lambda>e. actor e = a) es"

definition getErrors :: "trace_event list \<Rightarrow> trace_event list" where
  "getErrors es = filterByEventType es Error"

definition getApprovals :: "trace_event list \<Rightarrow> trace_event list \<times> trace_event list" where
  "getApprovals es = (filterByEventType es Approval_requested, filterByEventType es Approval_response)"

end
