(* ===== verification/Status.thy ===== *)
theory Status
  imports Trace
begin

text \<open>
  autoManage, src/status/derive.ts: the status of an agent from its trace events. Timestamps
  are compared by their milliseconds, \<open>new Date(t).getTime()\<close>, the parameter \<open>ms\<close>; validated
  events carry ISO date times, on which it is a number.
\<close>

datatype agent_status = Idle | Running | Blocked | In_error | Completed

record derived_status =
  status :: agent_status
  currentTask :: "string option"
  lastEventAt :: "string option"
  errorCount :: nat
  approvalsPending :: nat
  toolCalls :: nat
  runDurationMs :: int

definition count_type :: "event_type \<Rightarrow> trace_event list \<Rightarrow> nat" where
  "count_type t es = length (filter (\<lambda>e. event_type e = t) es)"

definition has_tool_ref :: "trace_event \<Rightarrow> bool" where
  "has_tool_ref e \<longleftrightarrow> (case tool_ref e of None \<Rightarrow> False | Some s \<Rightarrow> s \<noteq> [])"

text \<open>\<open>data.task ?? data.goal\<close>: the second when the first is \<open>undefined\<close> or \<open>null\<close>.\<close>

definition plan_task :: "trace_event option \<Rightarrow> json option" where
  "plan_task latestPlan = (case latestPlan of None \<Rightarrow> None | Some e \<Rightarrow>
     (case data e of None \<Rightarrow> None | Some d \<Rightarrow>
        (case map_of d ''task'' of
           None \<Rightarrow> map_of d ''goal''
         | Some JNull \<Rightarrow> map_of d ''goal''
         | Some v \<Rightarrow> Some v)))"

definition current_task :: "trace_event list \<Rightarrow> string option" where
  "current_task ordered =
     (let tool = (case List.find (\<lambda>e. event_type e = Tool_call \<and> has_tool_ref e) (rev ordered) of
            None \<Rightarrow> None | Some e \<Rightarrow> tool_ref e);
          planTask = plan_task (List.find (\<lambda>e. event_type e = Plan) (rev ordered))
      in (case planTask of
            Some (JStr s) \<Rightarrow> if trim s \<noteq> [] then Some s else tool
          | _ \<Rightarrow> tool))"

definition deriveStatus ::
  "(string \<Rightarrow> int) \<Rightarrow> trace_event list \<Rightarrow> int \<Rightarrow> int \<Rightarrow> derived_status" where
  "deriveStatus ms events nowMs stalenessMs =
     (if events = [] then
        \<lparr>status = Idle, currentTask = None, lastEventAt = None, errorCount = 0,
         approvalsPending = 0, toolCalls = 0, runDurationMs = 0\<rparr>
      else
        let ordered = sort_key (\<lambda>e. ms (timestamp e)) events;
            firstEvent = hd ordered;
            lastEvent = last ordered;
            pending = nat (max 0 (int (count_type Approval_requested ordered)
              - int (count_type Approval_response ordered)));
            lastTimestampMs = ms (timestamp lastEvent);
            st = (if event_type lastEvent = Error then In_error
                  else if 0 < pending then Blocked
                  else if event_type lastEvent = Session_end then Completed
                  else if nowMs - lastTimestampMs > stalenessMs then Idle
                  else Running)
        in \<lparr>status = st, currentTask = current_task ordered,
            lastEventAt = Some (timestamp lastEvent),
            errorCount = count_type Error ordered,
            approvalsPending = pending,
            toolCalls = count_type Tool_call ordered,
            runDurationMs = max 0 (ms (timestamp lastEvent) - ms (timestamp firstEvent))\<rparr>)"

section \<open>Facts about the chronological order\<close>

abbreviation chrono :: "(string \<Rightarrow> int) \<Rightarrow> trace_event list \<Rightarrow> trace_event list" where
  "chrono ms es \<equiv> sort_key (\<lambda>e. ms (timestamp e)) es"

lemma count_type_mset: "mset xs = mset ys \<Longrightarrow> count_type t xs = count_type t ys"
proof -
  assume "mset xs = mset ys"
  then have "mset (filter (\<lambda>e. event_type e = t) xs) = mset (filter (\<lambda>e. event_type e = t) ys)"
    by simp
  then show ?thesis unfolding count_type_def by (rule mset_eq_length)
qed

lemma count_type_sort [simp]: "count_type t (sort_key k es) = count_type t es"
  by (rule count_type_mset) simp

lemma count_type_append [simp]: "count_type t (xs @ ys) = count_type t xs + count_type t ys"
  by (simp add: count_type_def)

lemma chrono_not_Nil [simp]: "(sort_key k es = []) = (es = [])"
  by (metis length_0_conv length_sort)

lemma chrono_last_max: "e \<in> set es \<Longrightarrow> ms (timestamp e) \<le> ms (timestamp (last (chrono ms es)))"
  using sorted_map_last [of "\<lambda>e. ms (timestamp e)" "chrono ms es" e] by simp

lemma chrono_hd_min: "e \<in> set es \<Longrightarrow> ms (timestamp (hd (chrono ms es))) \<le> ms (timestamp e)"
  using sorted_map_hd [of "\<lambda>e. ms (timestamp e)" "chrono ms es" e] by simp

lemma chrono_last_in: "es \<noteq> [] \<Longrightarrow> last (chrono ms es) \<in> set es"
  by (metis chrono_not_Nil last_in_set set_sort)

lemma chrono_hd_in: "es \<noteq> [] \<Longrightarrow> hd (chrono ms es) \<in> set es"
  by (metis chrono_not_Nil hd_in_set set_sort)

lemma deriveStatus_cong:
  assumes eq: "chrono ms xs = chrono ms ys"
  shows "deriveStatus ms xs now stale = deriveStatus ms ys now stale"
proof -
  from eq have "xs = [] \<longleftrightarrow> ys = []" by (metis chrono_not_Nil)
  then show ?thesis by (simp only: deriveStatus_def eq)
qed

section \<open>Properties\<close>

text \<open>
  The derived status depends only on which events happened, not on the order in which files
  and batches delivered them: any two orderings of the same events, whose timestamps differ, give
  the same status, task, counters and duration.
\<close>

theorem deriveStatus_order_independent:
  assumes "mset xs = mset ys" and "inj_on (\<lambda>e. ms (timestamp e)) (set xs)"
  shows "deriveStatus ms xs now stale = deriveStatus ms ys now stale"
proof (rule deriveStatus_cong)
  show "chrono ms xs = chrono ms ys"
    by (rule sort_key_inj_key_eq) (use assms in simp_all)
qed

text \<open>
  The status ladder, with its precedence: an agent whose latest event is an error is in error
  whatever is pending; otherwise an unanswered approval blocks it even after a session end or a
  long silence; only then a session end completes it, and silence beyond the limit makes it idle.
  The counters count the whole history and the latest event is one of maximal time.
\<close>

theorem deriveStatus_ladder:
  assumes "es \<noteq> []" and "d = deriveStatus ms es now stale"
  shows "\<exists>latest \<in> set es. \<exists>first \<in> set es.
    (\<forall>e \<in> set es. ms (timestamp first) \<le> ms (timestamp e) \<and> ms (timestamp e) \<le> ms (timestamp latest))
    \<and> lastEventAt d = Some (timestamp latest)
    \<and> runDurationMs d = ms (timestamp latest) - ms (timestamp first)
    \<and> approvalsPending d = count_type Approval_requested es - count_type Approval_response es
    \<and> errorCount d = count_type Error es \<and> toolCalls d = count_type Tool_call es
    \<and> (status d = In_error \<longleftrightarrow> event_type latest = Error)
    \<and> (status d = Blocked \<longleftrightarrow> event_type latest \<noteq> Error \<and> 0 < approvalsPending d)
    \<and> (status d = Completed \<longleftrightarrow> event_type latest = Session_end \<and> approvalsPending d = 0)
    \<and> (status d = Running \<longleftrightarrow> event_type latest \<notin> {Error, Session_end} \<and> approvalsPending d = 0
        \<and> now - ms (timestamp latest) \<le> stale)"
proof -
  let ?l = "last (chrono ms es)" and ?f = "hd (chrono ms es)"
  have ends: "?l \<in> set es" "?f \<in> set es"
    using assms(1) by (simp_all only: chrono_last_in chrono_hd_in not_False_eq_True)
  have "ms (timestamp ?f) \<le> ms (timestamp ?l)"
    using ends by (simp add: chrono_last_max)
  then have dur: "runDurationMs d = ms (timestamp ?l) - ms (timestamp ?f)"
    using assms by (simp add: deriveStatus_def Let_def)
  have pend: "approvalsPending d = count_type Approval_requested es - count_type Approval_response es"
    using assms by (simp add: deriveStatus_def Let_def)
  show ?thesis
    using ends assms dur pend
    by (intro bexI [where x = ?l] bexI [where x = ?f])
      (auto simp: chrono_last_max chrono_hd_min deriveStatus_def Let_def)
qed

definition sample_event :: "event_type \<Rightarrow> string \<Rightarrow> trace_event" where
  "sample_event t ts = \<lparr>run_id = ''r1'', timestamp = ts, actor = Agent, skill_id = None,
     playbook_id = None, step_id = None, event_type = t, tool_ref = None, input_hash = None,
     output_hash = None, risk_score = None, principle_refs = None, cost = None, data = None,
     error = None, observation_category = None, tension = None\<rparr>"

theorem deriveStatus_order_independent_witness:
  "deriveStatus (int \<circ> length) [sample_event Plan ''1'', sample_event Error ''22''] 0 60000 =
   deriveStatus (int \<circ> length) [sample_event Error ''22'', sample_event Plan ''1''] 0 60000"
  by (rule deriveStatus_order_independent) (auto simp: sample_event_def inj_on_def)

theorem deriveStatus_ladder_witness:
  "\<exists>latest \<in> set [sample_event Session_end ''1''].
     lastEventAt (deriveStatus (int \<circ> length) [sample_event Session_end ''1''] 0 60000)
       = Some (timestamp latest)"
  using deriveStatus_ladder [OF _ refl, of "[sample_event Session_end ''1'']" "int \<circ> length" 0 60000]
  by auto

end
