(* ===== verification/Store.thy ===== *)
theory Store
  imports Status "HOL-Library.Char_ord" "HOL-Library.List_Lexorder"
begin

text \<open>
  autoManage, src/storage/sqlite.ts and migrations.ts: the SQLite store of agents and of their
  recent events. A table is the list of its rows in insertion order; \<open>recent_events.id\<close> is
  AUTOINCREMENT, so the next id is a counter of the database that never goes back. The
  database file is the field \<open>db_file\<close>: \<open>persist\<close> writes the whole database there when a path
  was configured.

  Values that the code takes from the clock are arguments. \<open>JSON.stringify\<close> and \<open>JSON.parse\<close>
  are the parameters \<open>jstr\<close> and \<open>jparse\<close>. Equal \<open>updated_at\<close> values leave the order of
  \<open>listAgents\<close> to SQLite; the model keeps row order.
\<close>

section \<open>Rows\<close>

record agent_snapshot =
  sn_agentId :: string
  sn_workspacePath :: string
  sn_displayName :: string
  sn_status :: agent_status
  sn_currentTask :: "string option"
  sn_lastEventAt :: "string option"
  sn_errorCount :: nat
  sn_approvalsPending :: nat
  sn_toolCalls :: nat
  sn_runDurationMs :: int

record agent_row =
  ar_snapshot :: agent_snapshot
  ar_created_at :: string
  ar_updated_at :: string

record new_event =
  ev_agentId :: string
  ev_runId :: string
  ev_eventType :: string
  ev_timestamp :: string
  ev_summary :: "string option"
  ev_rawEvent :: json

record stored_event = new_event +
  ev_id :: nat

record event_row =
  er_id :: nat
  er_agent_id :: string
  er_run_id :: string
  er_event_type :: string
  er_timestamp :: string
  er_summary :: "string option"
  er_raw_json :: string
  er_created_at :: string

record database =
  agents :: "agent_row list"
  recent_events :: "event_row list"
  next_id :: nat

record sqlite_store = database +
  retentionPerAgent :: int
  dbPath :: path
  db_file :: "database option"

section \<open>Operations\<close>

definition empty_db :: database where
  "empty_db = \<lparr>agents = [], recent_events = [], next_id = 1\<rparr>"

definition db_of :: "sqlite_store \<Rightarrow> database" where
  "db_of st = \<lparr>agents = agents st, recent_events = recent_events st, next_id = next_id st\<rparr>"

text \<open>\<open>create\<close>: open the file when a path is given and it exists; the schema statements are
  \<open>IF NOT EXISTS\<close> and leave an existing database as it is. \<open>disk\<close> is the file before.\<close>

definition store_create :: "path option \<Rightarrow> int option \<Rightarrow> database option \<Rightarrow> sqlite_store" where
  "store_create path_opt retention_opt disk =
     (let p = (case path_opt of None \<Rightarrow> [] | Some q \<Rightarrow> q);
          db = (case disk of Some d \<Rightarrow> if p \<noteq> [] then d else empty_db | None \<Rightarrow> empty_db)
      in \<lparr>agents = agents db, recent_events = recent_events db, next_id = next_id db,
          retentionPerAgent = (case retention_opt of None \<Rightarrow> 1000 | Some r \<Rightarrow> r),
          dbPath = p, db_file = disk\<rparr>)"

definition persist :: "sqlite_store \<Rightarrow> sqlite_store" where
  "persist st = (if dbPath st = [] then st else st\<lparr>db_file := Some (db_of st)\<rparr>)"

definition upsertAgent :: "sqlite_store \<Rightarrow> agent_snapshot \<Rightarrow> string \<Rightarrow> sqlite_store" where
  "upsertAgent st snapshot now =
     (let same = (\<lambda>r. sn_agentId (ar_snapshot r) = sn_agentId snapshot) in
      persist (st\<lparr>agents :=
        (if \<exists>r \<in> set (agents st). same r
         then update_first same (\<lambda>r. r\<lparr>ar_snapshot := snapshot, ar_updated_at := now\<rparr>) (agents st)
         else agents st @ [\<lparr>ar_snapshot = snapshot, ar_created_at = now, ar_updated_at = now\<rparr>])\<rparr>))"

definition insert_event :: "(json \<Rightarrow> string) \<Rightarrow> string \<Rightarrow> sqlite_store \<Rightarrow> new_event \<Rightarrow> sqlite_store" where
  "insert_event jstr now st event =
     st\<lparr>recent_events := recent_events st @
          [\<lparr>er_id = next_id st, er_agent_id = ev_agentId event, er_run_id = ev_runId event,
            er_event_type = ev_eventType event, er_timestamp = ev_timestamp event,
            er_summary = ev_summary event, er_raw_json = jstr (ev_rawEvent event),
            er_created_at = now\<rparr>],
        next_id := next_id st + 1\<rparr>"

text \<open>SQL \<open>LIMIT n\<close>: a negative limit is no limit.\<close>

definition sql_limit :: "int \<Rightarrow> 'a list \<Rightarrow> 'a list" where
  "sql_limit n xs = (if n < 0 then xs else take (nat n) xs)"

text \<open>\<open>SELECT ... WHERE agent_id = ? ORDER BY id DESC LIMIT ?\<close>.\<close>

definition latest_rows :: "event_row list \<Rightarrow> string \<Rightarrow> int \<Rightarrow> event_row list" where
  "latest_rows rows agentId limit =
     sql_limit limit (rev (sort_key er_id (filter (\<lambda>r. er_agent_id r = agentId) rows)))"

definition prune_agent :: "sqlite_store \<Rightarrow> string \<Rightarrow> sqlite_store" where
  "prune_agent st agentId =
     (let kept = map er_id (latest_rows (recent_events st) agentId (retentionPerAgent st)) in
      st\<lparr>recent_events := filter (\<lambda>r. \<not> (er_agent_id r = agentId \<and> er_id r \<notin> set kept)) (recent_events st)\<rparr>)"

definition appendEvents :: "(json \<Rightarrow> string) \<Rightarrow> sqlite_store \<Rightarrow> new_event list \<Rightarrow> string \<Rightarrow> sqlite_store" where
  "appendEvents jstr st events now =
     (let touched = set_of (map ev_agentId events);
          st1 = foldl (insert_event jstr now) st events
      in persist (foldl prune_agent st1 touched))"

text \<open>\<open>row.x ? String(row.x) : null\<close>: an empty text column reads as null.\<close>

definition text_or_null :: "string option \<Rightarrow> string option" where
  "text_or_null v = (case v of Some s \<Rightarrow> if s = [] then None else Some s | None \<Rightarrow> None)"

definition listAgents :: "sqlite_store \<Rightarrow> agent_snapshot list" where
  "listAgents st =
     map (\<lambda>r. (ar_snapshot r)\<lparr>sn_currentTask := text_or_null (sn_currentTask (ar_snapshot r)),
                sn_lastEventAt := text_or_null (sn_lastEventAt (ar_snapshot r))\<rparr>)
       (rev (sort_key ar_updated_at (rev (agents st))))"

definition row_event :: "(string \<Rightarrow> json option) \<Rightarrow> event_row \<Rightarrow> stored_event" where
  "row_event jparse r =
     \<lparr>ev_agentId = er_agent_id r, ev_runId = er_run_id r, ev_eventType = er_event_type r,
      ev_timestamp = er_timestamp r, ev_summary = text_or_null (er_summary r),
      ev_rawEvent = (case jparse (er_raw_json r) of Some j \<Rightarrow> j | None \<Rightarrow> JNull),
      ev_id = er_id r\<rparr>"

definition listRecentEvents ::
  "(string \<Rightarrow> json option) \<Rightarrow> sqlite_store \<Rightarrow> string \<Rightarrow> int \<Rightarrow> stored_event list" where
  "listRecentEvents jparse st agentId limit =
     map (row_event jparse) (latest_rows (recent_events st) agentId limit)"

definition store_close :: "sqlite_store \<Rightarrow> sqlite_store" where
  "store_close st = persist st"

section \<open>Invariant\<close>

definition rows_inv :: "event_row list \<Rightarrow> nat \<Rightarrow> bool" where
  "rows_inv rows n \<longleftrightarrow> sorted_wrt (<) (map er_id rows) \<and> (\<forall>r \<in> set rows. er_id r < n)"

definition db_inv :: "database \<Rightarrow> bool" where
  "db_inv d \<longleftrightarrow> rows_inv (recent_events d) (next_id d)
     \<and> distinct (map (sn_agentId \<circ> ar_snapshot) (agents d))"

definition agent_rows :: "sqlite_store \<Rightarrow> string \<Rightarrow> event_row list" where
  "agent_rows st a = filter (\<lambda>r. er_agent_id r = a) (recent_events st)"

text \<open>Ids ascend and lie below the counter, an agent has one row, and no agent keeps more events
  than the retention allows.\<close>

definition store_inv :: "sqlite_store \<Rightarrow> bool" where
  "store_inv st \<longleftrightarrow> db_inv (db_of st)
     \<and> (0 \<le> retentionPerAgent st \<longrightarrow> (\<forall>a. int (length (agent_rows st a)) \<le> retentionPerAgent st))"

lemmas store_defs = db_of_def persist_def insert_event_def prune_agent_def Let_def

lemma persist_fields [simp]:
  "agents (persist st) = agents st" "recent_events (persist st) = recent_events st"
  "next_id (persist st) = next_id st" "retentionPerAgent (persist st) = retentionPerAgent st"
  "dbPath (persist st) = dbPath st"
  by (simp_all add: persist_def)

lemma db_of_persist [simp]: "db_of (persist st) = db_of st"
  by (simp add: db_of_def)

lemma sort_key_rows: "rows_inv rows n \<Longrightarrow> sort_key er_id (filter P rows) = filter P rows"
proof -
  assume "rows_inv rows n"
  then have "sorted (map er_id rows)"
    by (auto simp: rows_inv_def intro: strict_sorted_imp_sorted)
  then have "sorted (map er_id (filter P rows))" by (rule sorted_filter)
  then show ?thesis by (rule sort_key_id_if_sorted)
qed

lemma rows_inv_filter: "rows_inv rows n \<Longrightarrow> rows_inv (filter P rows) n"
  by (auto simp: rows_inv_def sorted_wrt_map intro: sorted_wrt_filter)

lemma latest_rows_eq:
  "rows_inv rows n \<Longrightarrow>
     latest_rows rows a l = sql_limit l (rev (filter (\<lambda>r. er_agent_id r = a) rows))"
  by (simp add: latest_rows_def sort_key_rows)

lemma insert_event_fields [simp]:
  "next_id (insert_event jstr now st e) = next_id st + 1"
  "agents (insert_event jstr now st e) = agents st"
  "retentionPerAgent (insert_event jstr now st e) = retentionPerAgent st"
  "dbPath (insert_event jstr now st e) = dbPath st"
  by (simp_all add: insert_event_def)

lemma prune_agent_fields [simp]:
  "next_id (prune_agent st a) = next_id st"
  "agents (prune_agent st a) = agents st"
  "retentionPerAgent (prune_agent st a) = retentionPerAgent st"
  "dbPath (prune_agent st a) = dbPath st"
  by (simp_all add: prune_agent_def Let_def)

lemma agent_rows_persist [simp]: "agent_rows (persist st) a = agent_rows st a"
  by (simp add: agent_rows_def)

section \<open>Effect of the operations on one agent's rows\<close>

definition keep_last :: "int \<Rightarrow> 'a list \<Rightarrow> 'a list" where
  "keep_last n xs = (if n < 0 then xs else take_last (nat n) xs)"

lemma rev_sql_limit: "rev (sql_limit n (rev xs)) = keep_last n xs"
  by (simp add: sql_limit_def keep_last_def rev_take_rev)

lemma sql_limit_rev: "sql_limit n (rev xs) = rev (keep_last n xs)"
  by (metis rev_rev_ident rev_sql_limit)

lemma set_keep_last: "set (keep_last n xs) \<subseteq> set xs"
  by (auto simp: keep_last_def take_last_def dest: in_set_dropD)

lemma keep_last_idem [simp]: "keep_last n (keep_last n xs) = keep_last n xs"
  by (auto simp: keep_last_def take_last_def)

lemma keep_last_append: "keep_last n (keep_last n xs @ ys) = keep_last n (xs @ ys)"
  by (cases "length xs \<le> nat n") (auto simp: keep_last_def take_last_def ac_simps)

lemma map_keep_last: "map f (keep_last n xs) = keep_last n (map f xs)"
  by (simp add: keep_last_def take_last_def drop_map)

lemma keep_last_short: "int (length xs) \<le> n \<Longrightarrow> keep_last n xs = xs"
  by (auto simp: keep_last_def take_last_def)

lemma length_keep_last: "0 \<le> n \<Longrightarrow> int (length (keep_last n xs)) \<le> n"
  by (auto simp: keep_last_def)

lemma filter_keep_last:
  assumes "distinct (map f xs)"
  shows "filter (\<lambda>x. f x \<in> f ` set (keep_last n xs)) xs = keep_last n xs"
proof (cases "n < 0")
  case True
  then show ?thesis by (auto simp: keep_last_def intro: filter_True)
next
  case False
  let ?k = "length xs - nat n"
  have split: "xs = take ?k xs @ drop ?k xs" by simp
  have "f ` set (take ?k xs) \<inter> f ` set (drop ?k xs) = {}"
    using assms by (metis append_take_drop_id distinct_append list.set_map map_append)
  then have "filter (\<lambda>x. f x \<in> f ` set (drop ?k xs)) (take ?k xs) = []"
    by (auto simp: filter_empty_conv)
  moreover have "filter (\<lambda>x. f x \<in> f ` set (drop ?k xs)) (drop ?k xs) = drop ?k xs"
    by (auto intro: filter_True)
  ultimately have "filter (\<lambda>x. f x \<in> f ` set (drop ?k xs)) xs = drop ?k xs"
    by (metis append_Nil filter_append split)
  with False show ?thesis by (simp add: keep_last_def take_last_def)
qed

lemma rows_inv_distinct: "rows_inv rows n \<Longrightarrow> distinct (map er_id rows)"
  by (auto simp: rows_inv_def intro: strict_sorted_iff [THEN iffD1, THEN conjunct2])

lemma agent_rows_prune:
  assumes "rows_inv (recent_events st) n"
  shows "agent_rows (prune_agent st b) a =
    (if a = b then keep_last (retentionPerAgent st) (agent_rows st a) else agent_rows st a)"
proof (cases "a = b")
  case True
  let ?rows = "agent_rows st a"
  have d: "distinct (map er_id ?rows)"
    using assms rows_inv_distinct rows_inv_filter by (fastforce simp: agent_rows_def)
  have k: "latest_rows (recent_events st) a (retentionPerAgent st) =
      rev (keep_last (retentionPerAgent st) ?rows)"
    using latest_rows_eq [OF assms] by (simp add: agent_rows_def sql_limit_rev)
  have "agent_rows (prune_agent st a) a =
      filter (\<lambda>r. er_id r \<in> er_id ` set (keep_last (retentionPerAgent st) ?rows)) ?rows"
    unfolding prune_agent_def Let_def k agent_rows_def
    by (auto simp: image_iff intro!: filter_cong)
  with filter_keep_last [OF d] True show ?thesis by simp
next
  case False
  then show ?thesis
    by (simp add: prune_agent_def agent_rows_def Let_def) (auto intro: filter_cong)
qed

lemma rows_inv_prune: "rows_inv (recent_events st) n \<Longrightarrow> rows_inv (recent_events (prune_agent st a)) n"
  by (simp add: prune_agent_def Let_def rows_inv_filter)

lemma rows_inv_insert:
  "rows_inv (recent_events st) (next_id st) \<Longrightarrow>
     rows_inv (recent_events (insert_event jstr now st e)) (next_id (insert_event jstr now st e))"
  by (auto simp: rows_inv_def insert_event_def sorted_wrt_append)

interpretation inserting: monotone_state "insert_event jstr now"
  "\<lambda>st. rows_inv (recent_events st) (next_id st)" "\<lambda>_. True" next_id for jstr now
  by unfold_locales (simp_all add: rows_inv_insert del: insert_event_fields, simp)

interpretation pruning: stateful prune_agent "\<lambda>st. rows_inv (recent_events st) (next_id st)" "\<lambda>_. True"
  by unfold_locales (simp add: rows_inv_prune)

text \<open>The columns that a caller stores and reads back.\<close>

type_synonym event_columns = "string \<times> string \<times> string \<times> string option \<times> string"

definition row_columns :: "event_row \<Rightarrow> event_columns" where
  "row_columns r = (er_run_id r, er_event_type r, er_timestamp r, er_summary r, er_raw_json r)"

definition event_columns :: "(json \<Rightarrow> string) \<Rightarrow> new_event \<Rightarrow> event_columns" where
  "event_columns jstr e = (ev_runId e, ev_eventType e, ev_timestamp e, ev_summary e, jstr (ev_rawEvent e))"

definition history :: "sqlite_store \<Rightarrow> string \<Rightarrow> event_columns list" where
  "history st a = map row_columns (agent_rows st a)"

lemma history_insert:
  "history (insert_event jstr now st e) a =
     history st a @ (if ev_agentId e = a then [event_columns jstr e] else [])"
  by (simp add: history_def agent_rows_def insert_event_def row_columns_def event_columns_def)

lemma history_inserts:
  "history (foldl (insert_event jstr now) st es) a =
     history st a @ map (event_columns jstr) (filter (\<lambda>e. ev_agentId e = a) es)"
  by (induction es arbitrary: st) (auto simp: history_insert)

lemma fold_insert_fields [simp]:
  "retentionPerAgent (foldl (insert_event jstr now) st es) = retentionPerAgent st"
  "agents (foldl (insert_event jstr now) st es) = agents st"
  "dbPath (foldl (insert_event jstr now) st es) = dbPath st"
  by (induction es arbitrary: st) auto

lemma fold_prune_fields [simp]:
  "retentionPerAgent (foldl prune_agent st bs) = retentionPerAgent st"
  "agents (foldl prune_agent st bs) = agents st"
  "next_id (foldl prune_agent st bs) = next_id st"
  "dbPath (foldl prune_agent st bs) = dbPath st"
  by (induction bs arbitrary: st) auto

lemma agent_rows_prunes:
  "rows_inv (recent_events st) (next_id st) \<Longrightarrow>
     agent_rows (foldl prune_agent st bs) a =
       (if a \<in> set bs then keep_last (retentionPerAgent st) (agent_rows st a) else agent_rows st a)"
proof (induction bs arbitrary: st)
  case Nil
  then show ?case by simp
next
  case (Cons b bs)
  have "rows_inv (recent_events (prune_agent st b)) (next_id (prune_agent st b))"
    using Cons.prems by (simp add: rows_inv_prune)
  with Cons show ?case by (auto simp: agent_rows_prune)
qed

lemma rows_inv_append:
  "rows_inv (recent_events st) (next_id st) \<Longrightarrow>
     rows_inv (recent_events (appendEvents jstr st es now)) (next_id (appendEvents jstr st es now))"
proof -
  assume "rows_inv (recent_events st) (next_id st)"
  then have "rows_inv (recent_events (foldl (insert_event jstr now) st es))
      (next_id (foldl (insert_event jstr now) st es))"
    using inserting.run_inv [of st es jstr now] by (simp add: list_all_iff)
  then show ?thesis
    using pruning.run_inv by (fastforce simp: appendEvents_def Let_def list_all_iff)
qed

lemma append_fields [simp]:
  "retentionPerAgent (appendEvents jstr st es now) = retentionPerAgent st"
  "agents (appendEvents jstr st es now) = agents st"
  "dbPath (appendEvents jstr st es now) = dbPath st"
  by (simp_all add: appendEvents_def Let_def)

lemma history_append:
  assumes "store_inv st"
  shows "history (appendEvents jstr st es now) a = keep_last (retentionPerAgent st)
     (history st a @ map (event_columns jstr) (filter (\<lambda>e. ev_agentId e = a) es))"
proof -
  let ?st1 = "foldl (insert_event jstr now) st es"
  let ?new = "map (event_columns jstr) (filter (\<lambda>e. ev_agentId e = a) es)"
  have "rows_inv (recent_events st) (next_id st)"
    using assms by (simp add: store_inv_def db_inv_def db_of_def)
  then have ri: "rows_inv (recent_events ?st1) (next_id ?st1)"
    using inserting.run_inv [of st es jstr now] by (simp add: list_all_iff)
  have hist: "history (appendEvents jstr st es now) a =
      (if a \<in> ev_agentId ` set es then keep_last (retentionPerAgent st) (history ?st1 a)
       else history ?st1 a)"
    by (simp add: history_def appendEvents_def Let_def agent_rows_prunes [OF ri] map_keep_last)
  show ?thesis
  proof (cases "a \<in> ev_agentId ` set es")
    case True
    then show ?thesis by (simp add: hist history_inserts)
  next
    case False
    then have "?new = []" by (auto simp: filter_empty_conv)
    moreover have "keep_last (retentionPerAgent st) (history st a) = history st a"
    proof (cases "0 \<le> retentionPerAgent st")
      case True
      then have "int (length (history st a)) \<le> retentionPerAgent st"
        using assms by (simp add: store_inv_def history_def)
      then show ?thesis by (rule keep_last_short)
    qed (simp add: keep_last_def)
    ultimately show ?thesis using False by (simp add: hist history_inserts)
  qed
qed

lemma store_inv_append: "store_inv st \<Longrightarrow> store_inv (appendEvents jstr st es now)"
proof -
  assume inv: "store_inv st"
  have "length (agent_rows (appendEvents jstr st es now) a) = length (history (appendEvents jstr st es now) a)" for a
    by (simp add: history_def)
  then show ?thesis
    using inv rows_inv_append [of st jstr es now]
    by (auto simp: store_inv_def db_inv_def db_of_def history_append [OF inv] length_keep_last)
qed

section \<open>The event log, as its client sees it\<close>

text \<open>
  The contract that the ingestion service relies on: per agent the store is a bounded log. A
  batch appends its entries for that agent, and only the newest \<open>cap\<close> entries stay. What is kept
  after any number of batches does not depend on how the entries were batched.
\<close>

locale event_log =
  fixes append :: "'s \<Rightarrow> 'b \<Rightarrow> 's"
    and entries :: "'k \<Rightarrow> 'b \<Rightarrow> 'v list"
    and hist :: "'s \<Rightarrow> 'k \<Rightarrow> 'v list"
    and cap :: "'s \<Rightarrow> nat"
    and inv :: "'s \<Rightarrow> bool"
  assumes append_inv: "inv s \<Longrightarrow> inv (append s b)"
    and append_cap: "inv s \<Longrightarrow> cap (append s b) = cap s"
    and append_hist: "inv s \<Longrightarrow> hist (append s b) k = take_last (cap s) (hist s k @ entries k b)"
    and hist_cap: "inv s \<Longrightarrow> length (hist s k) \<le> cap s"

sublocale event_log \<subseteq> stateful append inv "\<lambda>_. True"
  by unfold_locales (rule append_inv)

context event_log
begin

lemma appends_hist:
  "inv s \<Longrightarrow> hist (foldl append s bs) k = take_last (cap s) (hist s k @ concat (map (entries k) bs))"
proof (induction bs arbitrary: s)
  case Nil
  then show ?case by (simp add: take_last_def hist_cap)
next
  case (Cons b bs)
  then show ?case
    by (simp add: append_inv append_cap append_hist take_last_append)
qed

lemma appends_recent:
  assumes "inv s" "n \<le> cap s"
  shows "take n (rev (hist (foldl append s bs) k)) = take n (rev (hist s k @ concat (map (entries k) bs)))"
proof -
  have "rev (hist (foldl append s bs) k) = take (cap s) (rev (hist s k @ concat (map (entries k) bs)))"
    by (simp only: appends_hist [OF assms(1)] rev_take_last)
  then show ?thesis using assms(2) by (simp only: take_take min_absorb1)
qed

end

type_synonym batch = "new_event list \<times> string"

definition append_batch :: "(json \<Rightarrow> string) \<Rightarrow> sqlite_store \<Rightarrow> batch \<Rightarrow> sqlite_store" where
  "append_batch jstr st b = appendEvents jstr st (fst b) (snd b)"

definition batch_columns :: "(json \<Rightarrow> string) \<Rightarrow> string \<Rightarrow> batch \<Rightarrow> event_columns list" where
  "batch_columns jstr a b = map (event_columns jstr) (filter (\<lambda>e. ev_agentId e = a) (fst b))"

interpretation log: event_log "append_batch jstr" "batch_columns jstr" history
  "\<lambda>st. nat (retentionPerAgent st)" "\<lambda>st. store_inv st \<and> 0 \<le> retentionPerAgent st" for jstr
proof unfold_locales
  fix s b k
  assume s: "store_inv s \<and> 0 \<le> retentionPerAgent s"
  then show "store_inv (append_batch jstr s b) \<and> 0 \<le> retentionPerAgent (append_batch jstr s b)"
    by (simp add: append_batch_def store_inv_append)
  show "nat (retentionPerAgent (append_batch jstr s b)) = nat (retentionPerAgent s)"
    by (simp add: append_batch_def)
  show "history (append_batch jstr s b) k =
      take_last (nat (retentionPerAgent s)) (history s k @ batch_columns jstr k b)"
    using s by (simp add: append_batch_def batch_columns_def history_append keep_last_def)
  show "length (history s k) \<le> nat (retentionPerAgent s)"
    using s by (auto simp: store_inv_def history_def nat_le_iff le_nat_iff)
qed

text \<open>What \<open>listRecentEvents\<close> reads of a row's columns.\<close>

type_synonym read_columns = "string \<times> string \<times> string \<times> string option \<times> json"

definition read_back :: "(string \<Rightarrow> json option) \<Rightarrow> event_columns \<Rightarrow> read_columns" where
  "read_back jparse c = (case c of (r, t, ts, s, raw) \<Rightarrow>
     (r, t, ts, text_or_null s, case jparse raw of Some j \<Rightarrow> j | None \<Rightarrow> JNull))"

definition columns_of :: "stored_event \<Rightarrow> read_columns" where
  "columns_of e = (ev_runId e, ev_eventType e, ev_timestamp e, ev_summary e, ev_rawEvent e)"

lemma columns_row_event [simp]: "columns_of (row_event jparse r) = read_back jparse (row_columns r)"
  by (simp add: columns_of_def row_event_def read_back_def row_columns_def)

lemma listRecentEvents_history:
  assumes "store_inv st" "0 \<le> n"
  shows "map columns_of (listRecentEvents jparse st a n) =
    map (read_back jparse) (take (nat n) (rev (history st a)))"
proof -
  have "rows_inv (recent_events st) (next_id st)"
    using assms by (simp add: store_inv_def db_inv_def db_of_def)
  then show ?thesis
    using assms(2)
    by (simp add: listRecentEvents_def latest_rows_eq sql_limit_def history_def agent_rows_def
        take_map rev_map)
qed

section \<open>Agents\<close>

definition agent_row_of :: "sqlite_store \<Rightarrow> string \<Rightarrow> agent_row option" where
  "agent_row_of st a = List.find (\<lambda>r. sn_agentId (ar_snapshot r) = a) (agents st)"

lemma upsert_fields [simp]:
  "recent_events (upsertAgent st s now) = recent_events st"
  "next_id (upsertAgent st s now) = next_id st"
  "retentionPerAgent (upsertAgent st s now) = retentionPerAgent st"
  "dbPath (upsertAgent st s now) = dbPath st"
  by (simp_all add: upsertAgent_def Let_def)

lemma upsert_ids:
  "map (sn_agentId \<circ> ar_snapshot) (agents (upsertAgent st s now)) =
    (if agent_row_of st (sn_agentId s) = None
     then map (sn_agentId \<circ> ar_snapshot) (agents st) @ [sn_agentId s]
     else map (sn_agentId \<circ> ar_snapshot) (agents st))"
  by (auto simp: upsertAgent_def Let_def agent_row_of_def find_None_iff map_update_first)

lemma agent_row_of_upsert:
  "agent_row_of (upsertAgent st s now) a =
    (if a = sn_agentId s then
       Some \<lparr>ar_snapshot = s,
         ar_created_at = (case agent_row_of st a of None \<Rightarrow> now | Some r \<Rightarrow> ar_created_at r),
         ar_updated_at = now\<rparr>
     else agent_row_of st a)"
proof (cases "agent_row_of st (sn_agentId s)")
  case None
  then have "\<not> (\<exists>r \<in> set (agents st). sn_agentId (ar_snapshot r) = sn_agentId s)"
    by (auto simp: agent_row_of_def find_None_iff)
  with None show ?thesis
    by (auto simp: agent_row_of_def upsertAgent_def Let_def find_append split: option.split)
next
  case (Some r)
  then have ex: "\<exists>r \<in> set (agents st). sn_agentId (ar_snapshot r) = sn_agentId s"
    by (auto simp: agent_row_of_def dest: find_SomeD)
  let ?f = "\<lambda>r. r\<lparr>ar_snapshot := s, ar_updated_at := now\<rparr>"
  show ?thesis
  proof (cases "a = sn_agentId s")
    case True
    then have "agent_row_of (upsertAgent st s now) a = Some (?f r)"
      using ex Some by (simp add: agent_row_of_def upsertAgent_def Let_def find_update_first)
    then show ?thesis using True Some by (cases r) simp
  next
    case False
    then show ?thesis
      using ex by (simp add: agent_row_of_def upsertAgent_def Let_def find_update_first_other)
  qed
qed

lemma store_inv_upsert: "store_inv st \<Longrightarrow> store_inv (upsertAgent st s now)"
proof -
  assume inv: "store_inv st"
  have "distinct (map (sn_agentId \<circ> ar_snapshot) (agents (upsertAgent st s now)))"
    using inv unfolding upsert_ids
    by (auto simp: store_inv_def db_inv_def db_of_def agent_row_of_def find_None_iff)
  then show ?thesis
    using inv by (simp add: store_inv_def db_inv_def db_of_def agent_rows_def)
qed

lemma store_inv_create: "disk = None \<or> p = [] \<Longrightarrow> store_inv (store_create (Some p) r disk)"
  by (auto simp: store_create_def store_inv_def db_inv_def rows_inv_def db_of_def empty_db_def
      agent_rows_def Let_def split: option.split)

section \<open>Properties\<close>

text \<open>
  C4. The store is a bounded log per agent: after any sequence of batches, for any agents
  interleaved in them, listing the newest \<open>n\<close> events of an agent (up to the retention) returns
  exactly the last \<open>n\<close> events that were ever appended for it, newest first, with every column as
  it was stored.
\<close>

theorem recent_events_window:
  assumes "store_inv st" "0 \<le> n" "n \<le> retentionPerAgent st"
  shows "map columns_of (listRecentEvents jparse (foldl (append_batch jstr) st bs) a n) =
    take (nat n) (rev (map (read_back jparse)
      (history st a @ concat (map (batch_columns jstr a) bs))))"
proof -
  let ?st = "foldl (append_batch jstr) st bs"
  have inv: "store_inv st \<and> 0 \<le> retentionPerAgent st" using assms by simp
  then have "store_inv ?st \<and> 0 \<le> retentionPerAgent ?st"
    by (rule log.run_inv) (simp add: list_all_iff)
  then have "map columns_of (listRecentEvents jparse ?st a n) =
      map (read_back jparse) (take (nat n) (rev (history ?st a)))"
    using assms by (simp add: listRecentEvents_history)
  also have "take (nat n) (rev (history ?st a)) =
      take (nat n) (rev (history st a @ concat (map (batch_columns jstr a) bs)))"
    by (rule log.appends_recent [OF inv]) (use assms in simp)
  finally show ?thesis by (simp only: take_map rev_map)
qed

definition sample_new_event :: "string \<Rightarrow> string \<Rightarrow> new_event" where
  "sample_new_event a t = \<lparr>ev_agentId = a, ev_runId = ''r'', ev_eventType = t, ev_timestamp = ''t'',
     ev_summary = None, ev_rawEvent = JNull\<rparr>"

theorem recent_events_window_witness:
  "map columns_of (listRecentEvents (\<lambda>_. None)
      (foldl (append_batch (\<lambda>_. ''null'')) (store_create None (Some 2) None)
        [([sample_new_event ''a'' ''plan'', sample_new_event ''b'' ''think''], ''1''),
         ([sample_new_event ''a'' ''error''], ''2'')]) ''a'' 1)
    = [(''r'', ''error'', ''t'', None, JNull)]"
proof -
  let ?st = "store_create None (Some 2) None"
  have "store_inv ?st"
    by (simp add: store_create_def store_inv_def db_inv_def rows_inv_def db_of_def empty_db_def
        agent_rows_def)
  moreover have "retentionPerAgent ?st = 2" by (simp add: store_create_def)
  moreover have "history ?st a = []" for a
    by (simp add: store_create_def history_def agent_rows_def empty_db_def)
  ultimately show ?thesis
    using recent_events_window [of ?st 1 "\<lambda>_. None" "\<lambda>_. ''null''"
        "[([sample_new_event ''a'' ''plan'', sample_new_event ''b'' ''think''], ''1''),
         ([sample_new_event ''a'' ''error''], ''2'')]" "''a''"]
    by (simp add: batch_columns_def sample_new_event_def read_back_def event_columns_def text_or_null_def)
qed

text \<open>
  Upserting an agent writes exactly its row: the row then holds the snapshot and the new
  update time, keeps its creation time when it existed, no other agent's row and no event changes,
  and the store stays well formed (one row per agent).
\<close>

theorem upsert_agent_exact:
  assumes "store_inv st"
  shows "agent_row_of (upsertAgent st s now) a =
      (if a = sn_agentId s then
         Some \<lparr>ar_snapshot = s,
           ar_created_at = (case agent_row_of st a of None \<Rightarrow> now | Some r \<Rightarrow> ar_created_at r),
           ar_updated_at = now\<rparr>
       else agent_row_of st a)
    \<and> recent_events (upsertAgent st s now) = recent_events st
    \<and> store_inv (upsertAgent st s now)"
  using assms by (simp add: agent_row_of_upsert store_inv_upsert)

definition sample_snapshot :: "string \<Rightarrow> agent_snapshot" where
  "sample_snapshot a = \<lparr>sn_agentId = a, sn_workspacePath = a, sn_displayName = a, sn_status = Idle,
     sn_currentTask = None, sn_lastEventAt = None, sn_errorCount = 0, sn_approvalsPending = 0,
     sn_toolCalls = 0, sn_runDurationMs = 0\<rparr>"

theorem upsert_agent_exact_witness:
  "agent_row_of (upsertAgent (upsertAgent (store_create None None None) (sample_snapshot ''a'') ''t1'')
      (sample_snapshot ''a'') ''t2'') ''a''
    = Some \<lparr>ar_snapshot = sample_snapshot ''a'', ar_created_at = ''t1'', ar_updated_at = ''t2''\<rparr>"
proof -
  let ?e = "store_create None None None"
  have e: "store_inv ?e"
    by (simp add: store_create_def store_inv_def db_inv_def rows_inv_def db_of_def empty_db_def
        agent_rows_def)
  have n: "agent_row_of ?e ''a'' = None"
    by (simp add: store_create_def agent_row_of_def empty_db_def)
  from upsert_agent_exact [OF e, of "sample_snapshot ''a''" "''t1''" "''a''"]
  have s: "store_inv (upsertAgent ?e (sample_snapshot ''a'') ''t1'')"
    and r: "agent_row_of (upsertAgent ?e (sample_snapshot ''a'') ''t1'') ''a''
      = Some \<lparr>ar_snapshot = sample_snapshot ''a'', ar_created_at = ''t1'', ar_updated_at = ''t1''\<rparr>"
    by (simp_all add: n) (simp_all add: sample_snapshot_def)
  show ?thesis
    using upsert_agent_exact [OF s, of "sample_snapshot ''a''" "''t2''" "''a''"] r
    by (simp add: sample_snapshot_def)
qed

text \<open>
  The database file is always current: when a path is configured, opening the file written by
  any operation gives back the same tables and the same id counter, so ids stay unique across a
  restart.
\<close>

theorem reopen_after_write:
  assumes "dbPath st \<noteq> []"
    and "st' \<in> {appendEvents jstr st es now, upsertAgent st s now, store_close st}"
  shows "db_of (store_create (Some (dbPath st)) ret (db_file st')) = db_of st'
    \<and> db_file st' = Some (db_of st')"
proof -
  have "db_file (persist x) = Some (db_of x)" if "dbPath x \<noteq> []" for x
    using that by (simp add: persist_def)
  then have "db_file st' = Some (db_of st')"
    using assms by (auto simp: appendEvents_def upsertAgent_def store_close_def Let_def)
  then show ?thesis
    using assms(1) by (simp add: store_create_def db_of_def Let_def)
qed

theorem reopen_after_write_witness:
  "db_of (store_create (Some ''db'') None
     (db_file (store_close (store_create (Some ''db'') None None)))) = empty_db"
proof -
  let ?st = "store_create (Some ''db'') None None"
  have p: "dbPath ?st = ''db''" by (simp add: store_create_def)
  have "db_of (store_create (Some (dbPath ?st)) None (db_file (store_close ?st))) = db_of (store_close ?st)"
    by (rule reopen_after_write [THEN conjunct1]) (simp_all add: p)
  then show ?thesis
    by (simp add: p store_close_def) (simp add: store_create_def db_of_def empty_db_def)
qed

end
