(* ===== verification/Runtime.thy ===== *)
theory Runtime
  imports Store
begin

text \<open>
  autoManage, src/runtime/events.ts and app/api/stream/route.ts: the messages of the stream, the
  event bus, and the lifetime of one server-sent-events connection. A callback is identified by
  a number. The emitter calls the listeners of the message's type in the order they were added;
  \<open>off\<close> removes the last added instance.
\<close>

section \<open>Messages\<close>

record dashboard_event =
  de_runId :: string
  de_eventType :: string
  de_timestamp :: string
  de_summary :: "string option"

datatype alert_level = Warning | Error_level

record alert =
  al_id :: string
  al_level :: alert_level
  al_message :: string
  al_agentId :: "string option"
  al_createdAt :: string

datatype stream_message =
    Agent_updated agent_snapshot
  | New_event string dashboard_event
  | Alert alert

datatype stream_type = T_agent_updated | T_new_event | T_alert

fun message_type :: "stream_message \<Rightarrow> stream_type" where
  "message_type (Agent_updated _) = T_agent_updated"
| "message_type (New_event _ _) = T_new_event"
| "message_type (Alert _) = T_alert"

section \<open>The bus\<close>

type_synonym bus = "(stream_type \<times> nat) list"

definition subscribe :: "bus \<Rightarrow> stream_type \<Rightarrow> nat \<Rightarrow> bus" where
  "subscribe b t callback = b @ [(t, callback)]"

definition unsubscribe :: "bus \<Rightarrow> stream_type \<Rightarrow> nat \<Rightarrow> bus" where
  "unsubscribe b t callback = rev (remove1 (t, callback) (rev b))"

definition publish :: "bus \<Rightarrow> stream_message \<Rightarrow> (nat \<times> stream_message) list" where
  "publish b m = map (\<lambda>l. (snd l, m)) (filter (\<lambda>l. fst l = message_type m) b)"

lemma publish_subscribe: "publish (subscribe b t c) m =
    publish b m @ (if t = message_type m then [(c, m)] else [])"
  by (simp add: publish_def subscribe_def)

lemma mset_subscribe: "mset (subscribe b t c) = add_mset (t, c) (mset b)"
  by (simp add: subscribe_def)

lemma mset_unsubscribe: "mset (unsubscribe b t c) = mset b - {#(t, c)#}"
  by (simp add: unsubscribe_def)

lemma unsubscribe_subscribe [simp]: "unsubscribe (subscribe b t c) t c = b"
  by (simp add: unsubscribe_def subscribe_def)

section \<open>One stream connection\<close>

text \<open>
  The route's \<open>start\<close> writes a ready message, subscribes the three writers and starts the
  heartbeat; \<open>cancel\<close> runs the cleanup once and forgets it.
\<close>

datatype sse_output = Ready | Message stream_message

record connection =
  cn_bus :: bus
  cn_writer :: nat
  cn_heartbeat :: bool
  cn_cleanup :: bool
  cn_sent :: "sse_output list"

definition stream_start :: "bus \<Rightarrow> nat \<Rightarrow> connection" where
  "stream_start b writer =
     \<lparr>cn_bus = subscribe (subscribe (subscribe b T_agent_updated writer) T_new_event writer) T_alert writer,
      cn_writer = writer, cn_heartbeat = True, cn_cleanup = True, cn_sent = [Ready]\<rparr>"

definition stream_cancel :: "connection \<Rightarrow> connection" where
  "stream_cancel c =
     (if cn_cleanup c then
        c\<lparr>cn_heartbeat := False,
          cn_bus := unsubscribe (unsubscribe (unsubscribe (cn_bus c) T_agent_updated (cn_writer c))
                      T_new_event (cn_writer c)) T_alert (cn_writer c),
          cn_cleanup := False\<rparr>
      else c)"

definition stream_heartbeat :: "connection \<Rightarrow> connection" where
  "stream_heartbeat c = (if cn_heartbeat c then c\<lparr>cn_sent := cn_sent c @ [Ready]\<rparr> else c)"

definition stream_publish :: "connection \<Rightarrow> stream_message \<Rightarrow> connection" where
  "stream_publish c m =
     c\<lparr>cn_sent := cn_sent c @ map (\<lambda>d. Message (snd d)) (filter (\<lambda>d. fst d = cn_writer c) (publish (cn_bus c) m))\<rparr>"

text \<open>What can happen to the shared bus and to this connection: a message, a heartbeat tick,
  another connection's subscription or its removal, and the cancellation.\<close>

datatype stream_event =
  Publish stream_message | Tick | Other_subscribe stream_type nat | Other_unsubscribe stream_type nat | Cancel

fun stream_step :: "connection \<Rightarrow> stream_event \<Rightarrow> connection" where
  "stream_step c (Publish m) = stream_publish c m"
| "stream_step c Tick = stream_heartbeat c"
| "stream_step c (Other_subscribe t w) = c\<lparr>cn_bus := subscribe (cn_bus c) t w\<rparr>"
| "stream_step c (Other_unsubscribe t w) = c\<lparr>cn_bus := unsubscribe (cn_bus c) t w\<rparr>"
| "stream_step c Cancel = stream_cancel c"

text \<open>Other connections use other callbacks.\<close>

fun foreign :: "nat \<Rightarrow> stream_event \<Rightarrow> bool" where
  "foreign w (Other_subscribe _ v) = (v \<noteq> w)"
| "foreign w (Other_unsubscribe _ v) = (v \<noteq> w)"
| "foreign w _ = True"

text \<open>While the connection lives its writer is subscribed exactly once per type; afterwards
  not at all, and no heartbeat is left running.\<close>

definition connection_inv :: "nat \<Rightarrow> connection \<Rightarrow> bool" where
  "connection_inv w c \<longleftrightarrow> cn_writer c = w \<and> cn_heartbeat c = cn_cleanup c
     \<and> (\<forall>t. count (mset (cn_bus c)) (t, w) = (if cn_cleanup c then 1 else 0))"

lemma connection_inv_start: "(\<And>t. (t, w) \<notin> set b) \<Longrightarrow> connection_inv w (stream_start b w)"
proof -
  assume a: "\<And>t. (t, w) \<notin> set b"
  have "count (mset (cn_bus (stream_start b w))) (t, w) = 1" for t
    using a by (cases t) (simp_all add: stream_start_def mset_subscribe not_in_iff [symmetric] del: mset_append)
  then show ?thesis by (simp add: connection_inv_def) (simp add: stream_start_def)
qed

lemma connection_inv_step: "connection_inv w c \<Longrightarrow> foreign w e \<Longrightarrow> connection_inv w (stream_step c e)"
proof (induction c e rule: stream_step.induct)
  case (5 c)
  then show ?case
    by (auto simp: connection_inv_def stream_cancel_def mset_unsubscribe)
      (metis (no_types) stream_type.exhaust)+
qed (auto simp: connection_inv_def stream_publish_def stream_heartbeat_def mset_subscribe mset_unsubscribe)

interpretation conn: stateful stream_step "connection_inv w" "foreign w" for w
  by unfold_locales (rule connection_inv_step)

text \<open>What the client of a living connection receives for one event.\<close>

fun outcome :: "stream_event \<Rightarrow> sse_output list" where
  "outcome (Publish m) = [Message m]"
| "outcome Tick = [Ready]"
| "outcome _ = []"

lemma filter_replicate_count: "filter (\<lambda>y. y = x) xs = replicate (count (mset xs) x) x"
  by (induction xs) auto

lemma filter_once: "count (mset xs) x = 1 \<Longrightarrow> filter (\<lambda>y. y = x) xs = [x]"
  by (simp add: filter_replicate_count)

lemma publish_to_writer:
  assumes "count (mset b) (message_type m, w) = 1"
  shows "filter (\<lambda>d. fst d = w) (publish b m) = [(w, m)]"
proof -
  have "filter (\<lambda>d. fst d = w) (publish b m) =
      map (\<lambda>l. (snd l, m)) (filter (\<lambda>l. l = (message_type m, w)) b)"
    by (induction b) (auto simp: publish_def)
  with filter_once [OF assms] show ?thesis by simp
qed

lemma living_step:
  assumes "connection_inv w c" "cn_cleanup c" "e \<noteq> Cancel"
  shows "cn_sent (stream_step c e) = cn_sent c @ outcome e \<and> cn_cleanup (stream_step c e)"
proof (cases e)
  case (Publish m)
  then have "count (mset (cn_bus c)) (message_type m, w) = 1"
    using assms by (simp add: connection_inv_def)
  from publish_to_writer [OF this] show ?thesis
    using assms Publish by (simp add: stream_publish_def connection_inv_def)
qed (use assms in \<open>auto simp: connection_inv_def stream_heartbeat_def\<close>)

lemma dead_step: "\<not> cn_cleanup c \<Longrightarrow> \<not> cn_cleanup (stream_step c e)"
  by (cases e) (auto simp: stream_publish_def stream_heartbeat_def stream_cancel_def)

lemma dead_run: "\<not> cn_cleanup c \<Longrightarrow> \<not> cn_cleanup (foldl stream_step c es)"
  by (induction es arbitrary: c) (auto dest: dead_step)

lemma cancelled_run: "Cancel \<in> set es \<Longrightarrow> \<not> cn_cleanup (foldl stream_step c es)"
proof (induction es arbitrary: c)
  case Nil
  then show ?case by simp
next
  case (Cons e es)
  have "\<not> cn_cleanup (stream_step c Cancel)" by (simp add: stream_cancel_def)
  then have "\<not> cn_cleanup (foldl stream_step (stream_step c Cancel) es)" by (rule dead_run)
  with Cons show ?case by (cases "e = Cancel") (simp_all del: stream_step.simps)
qed

lemma living_run:
  "connection_inv w c \<Longrightarrow> cn_cleanup c \<Longrightarrow> list_all (foreign w) es \<Longrightarrow> Cancel \<notin> set es \<Longrightarrow>
     cn_sent (foldl stream_step c es) = cn_sent c @ concat (map outcome es)"
proof (induction es arbitrary: c)
  case Nil
  then show ?case by simp
next
  case (Cons e es)
  then have "cn_sent (stream_step c e) = cn_sent c @ outcome e" "cn_cleanup (stream_step c e)"
    using living_step by (metis list.set_intros(1))+
  with Cons show ?case by (simp add: connection_inv_step)
qed

section \<open>Properties\<close>

text \<open>
  The life of a stream connection, whatever the other connections do: until it is cancelled
  the client receives the initial ready message, every published message exactly once and every
  heartbeat, in order; once cancelled, in whatever state, none of its callbacks is left on the bus
  and its heartbeat is stopped.
\<close>

theorem stream_connection_lifecycle:
  assumes "\<And>t. (t, w) \<notin> set b" and "list_all (foreign w) es"
  shows "(Cancel \<notin> set es \<longrightarrow>
      cn_sent (foldl stream_step (stream_start b w) es) = Ready # concat (map outcome es))
    \<and> (Cancel \<in> set es \<longrightarrow>
      (\<forall>t. (t, w) \<notin> set (cn_bus (foldl stream_step (stream_start b w) es)))
      \<and> \<not> cn_heartbeat (foldl stream_step (stream_start b w) es))"
proof -
  let ?c = "stream_start b w"
  have inv: "connection_inv w ?c" using assms(1) by (rule connection_inv_start)
  then have run: "connection_inv w (foldl stream_step ?c es)"
    using assms(2) by (rule conn.run_inv)
  have "cn_cleanup ?c" "cn_sent ?c = [Ready]" by (simp_all add: stream_start_def)
  then have "Cancel \<notin> set es \<Longrightarrow> cn_sent (foldl stream_step ?c es) = Ready # concat (map outcome es)"
    using living_run [OF inv _ assms(2)] by simp
  moreover have "Cancel \<in> set es \<Longrightarrow> (t, w) \<notin> set (cn_bus (foldl stream_step ?c es))" for t
    using run cancelled_run [of es ?c] by (simp add: connection_inv_def count_mset_0_iff)
  moreover have "Cancel \<in> set es \<Longrightarrow> \<not> cn_heartbeat (foldl stream_step ?c es)"
    using run cancelled_run [of es ?c] by (simp add: connection_inv_def)
  ultimately show ?thesis by blast
qed

theorem stream_connection_lifecycle_witness:
  "cn_sent (foldl stream_step (stream_start [(T_alert, 1)] 7) [Tick, Other_unsubscribe T_alert 1]) = [Ready, Ready]"
  using stream_connection_lifecycle [of 7 "[(T_alert, 1)]" "[Tick, Other_unsubscribe T_alert 1]"]
  by simp

end
