(* ===== verification/Parser.thy ===== *)
theory Parser
  imports Trace
begin

text \<open>
  autoManage, src/ingest/parser.ts: a batch of raw lines becomes the validated trace events of
  it and the counters of what was dropped. \<open>JSON.parse\<close> is the parameter \<open>jparse\<close>, \<open>None\<close>
  where it throws.
\<close>

record parser_stats =
  totalLines :: nat
  parsedEvents :: nat
  malformedLines :: nat
  invalidEvents :: nat
  unknownSchemaVersion :: nat

definition zero_stats :: parser_stats where
  "zero_stats = \<lparr>totalLines = 0, parsedEvents = 0, malformedLines = 0, invalidEvents = 0,
     unknownSchemaVersion = 0\<rparr>"

definition hasExpectedTraceSchemaVersion :: "json option \<Rightarrow> bool" where
  "hasExpectedTraceSchemaVersion v \<longleftrightarrow> v = Some (JStr ''trace_event.v1'')"

text \<open>What happens to one line.\<close>

datatype line_result =
  Blank | Malformed | Unknown_version | Invalid | Parsed trace_event

definition parse_line :: "(string \<Rightarrow> json option) \<Rightarrow> (string \<Rightarrow> bool) \<Rightarrow> string \<Rightarrow> line_result" where
  "parse_line jparse is_dt rawLine =
     (let line = trim rawLine in
      if line = [] then Blank
      else (case jparse line of
          None \<Rightarrow> Malformed
        | Some decoded \<Rightarrow>
            if \<not> is_object decoded \<or> \<not> hasExpectedTraceSchemaVersion (jfield ''schema_version'' decoded)
            then Unknown_version
            else (case parse_trace_event is_dt decoded of
                None \<Rightarrow> Invalid
              | Some e \<Rightarrow> Parsed e)))"

fun count_line :: "line_result \<Rightarrow> trace_event list \<times> parser_stats \<Rightarrow> trace_event list \<times> parser_stats" where
  "count_line Blank (es, st) = (es, st)"
| "count_line Malformed (es, st) =
     (es, st\<lparr>totalLines := totalLines st + 1, malformedLines := malformedLines st + 1\<rparr>)"
| "count_line Unknown_version (es, st) =
     (es, st\<lparr>totalLines := totalLines st + 1, unknownSchemaVersion := unknownSchemaVersion st + 1\<rparr>)"
| "count_line Invalid (es, st) =
     (es, st\<lparr>totalLines := totalLines st + 1, invalidEvents := invalidEvents st + 1\<rparr>)"
| "count_line (Parsed e) (es, st) = (es @ [e], st\<lparr>totalLines := totalLines st + 1\<rparr>)"

definition parseTraceLines ::
  "(string \<Rightarrow> json option) \<Rightarrow> (string \<Rightarrow> bool) \<Rightarrow> string list \<Rightarrow> trace_event list \<times> parser_stats" where
  "parseTraceLines jparse is_dt ls =
     (case foldl (\<lambda>acc l. count_line (parse_line jparse is_dt l) acc) ([], zero_stats) ls of
        (es, st) \<Rightarrow> (es, st\<lparr>parsedEvents := length es\<rparr>))"

text \<open>Every counted line is in exactly one class.\<close>

definition balanced :: "parser_stats \<Rightarrow> bool" where
  "balanced st \<longleftrightarrow> totalLines st =
     parsedEvents st + malformedLines st + invalidEvents st + unknownSchemaVersion st"

definition mergeParserStats :: "parser_stats \<Rightarrow> parser_stats \<Rightarrow> parser_stats" where
  "mergeParserStats target update =
     \<lparr>totalLines = totalLines target + totalLines update,
      parsedEvents = parsedEvents target + parsedEvents update,
      malformedLines = malformedLines target + malformedLines update,
      invalidEvents = invalidEvents target + invalidEvents update,
      unknownSchemaVersion = unknownSchemaVersion target + unknownSchemaVersion update\<rparr>"

lemma balanced_zero [simp]: "balanced zero_stats"
  by (simp add: balanced_def zero_stats_def)

lemma balanced_merge: "balanced a \<Longrightarrow> balanced b \<Longrightarrow> balanced (mergeParserStats a b)"
  by (simp add: balanced_def mergeParserStats_def)

definition line_event :: "line_result \<Rightarrow> trace_event list" where
  "line_event r = (case r of Parsed e \<Rightarrow> [e] | _ \<Rightarrow> [])"

definition balanced_acc :: "trace_event list \<times> parser_stats \<Rightarrow> bool" where
  "balanced_acc acc \<longleftrightarrow> (case acc of (es, st) \<Rightarrow>
     totalLines st = length es + malformedLines st + invalidEvents st + unknownSchemaVersion st)"

lemma count_line_balanced: "balanced_acc acc \<Longrightarrow> balanced_acc (count_line r acc)"
  by (cases acc; cases r) (auto simp: balanced_acc_def)

lemma count_line_events: "fst (count_line r acc) = fst acc @ line_event r"
  by (cases acc; cases r) (auto simp: line_event_def)

interpretation counting: stateful "\<lambda>acc r. count_line r acc" balanced_acc "\<lambda>_. True"
  by unfold_locales (simp add: count_line_balanced)

lemma fold_count_map:
  "foldl (\<lambda>acc l. count_line (parse_line jp dt l) acc) a ls =
     foldl (\<lambda>acc r. count_line r acc) a (map (parse_line jp dt) ls)"
  by (simp add: foldl_map)

lemma fold_count_events:
  "fst (foldl (\<lambda>acc r. count_line r acc) acc rs) = fst acc @ concat (map line_event rs)"
  by (induction rs arbitrary: acc) (auto simp: count_line_events)

lemma parseTraceLines_events:
  "fst (parseTraceLines jp dt ls) = concat (map (line_event \<circ> parse_line jp dt) ls)"
  using fold_count_events [of "([], zero_stats)" "map (parse_line jp dt) ls"]
  by (auto simp: parseTraceLines_def fold_count_map split: prod.split)

lemma parseTraceLines_parsed: "parsedEvents (snd (parseTraceLines jp dt ls)) = length (fst (parseTraceLines jp dt ls))"
  by (simp add: parseTraceLines_def split: prod.split)

lemma parseTraceLines_balanced: "balanced (snd (parseTraceLines jp dt ls))"
proof -
  have "balanced_acc ([], zero_stats)" by (simp add: balanced_acc_def zero_stats_def)
  then have "balanced_acc (foldl (\<lambda>acc r. count_line r acc) ([], zero_stats) (map (parse_line jp dt) ls))"
    by (rule counting.run_inv) (simp add: list_all_iff)
  then show ?thesis
    by (simp add: parseTraceLines_def fold_count_map balanced_def balanced_acc_def split: prod.splits)
qed

lemma parse_line_wf: "Parsed e = parse_line jp dt l \<Longrightarrow> wf_event dt e"
  by (auto simp: parse_line_def Let_def dest: parse_trace_event_wf split: if_splits option.splits line_result.splits)

lemma parseTraceLines_wf: "e \<in> set (fst (parseTraceLines jp dt ls)) \<Longrightarrow> wf_event dt e"
  by (auto simp: parseTraceLines_events line_event_def dest: parse_line_wf split: line_result.splits)

lemma parseTraceLines_append:
  "fst (parseTraceLines jp dt (xs @ ys)) = fst (parseTraceLines jp dt xs) @ fst (parseTraceLines jp dt ys)"
  by (simp add: parseTraceLines_events)

end
