(* ===== verification/Paths.thy ===== *)
theory Paths
  imports Prelude
begin

text \<open>
  Path arithmetic of \<open>node:path\<close> on POSIX paths without dot segments, and the candidate lookup
  that both programs use to find a directory in the current or in the legacy layout: autoManage,
  src/contracts/paths.ts, and the resolvers of TasteKit, packages/core/utils/filesystem.ts. The
  file system enters as the predicate \<open>exists\<close>, \<open>existsSync\<close>.
\<close>

section \<open>node:path\<close>

definition strip_slashes :: "path \<Rightarrow> path" where
  "strip_slashes p = rev (dropWhile (\<lambda>c. c = CHR ''/'') (rev p))"

definition basename :: "path \<Rightarrow> string" where
  "basename p = rev (takeWhile (\<lambda>c. c \<noteq> CHR ''/'') (rev (strip_slashes p)))"

definition dirname :: "path \<Rightarrow> path" where
  "dirname p =
     (if p = [] then ''.''
      else let core = strip_slashes p;
               upto = dropWhile (\<lambda>c. c \<noteq> CHR ''/'') (rev core)
           in if core = [] then ''/''
              else if upto = [] then ''.''
              else if length upto = 1 then ''/''
              else if length upto = 2 \<and> hd p = CHR ''/'' then ''//''
              else rev (tl upto))"

definition path_join :: "path \<Rightarrow> string list \<Rightarrow> path" where
  "path_join p segs = foldl (\<lambda>q s. if q = [] then s else if s = [] then q
     else if last q = CHR ''/'' then q @ s else q @ CHR ''/'' # s) p segs"

section \<open>Candidate lookup\<close>

text \<open>The first candidate that exists, else the given default.\<close>

fun first_existing :: "('a \<Rightarrow> bool) \<Rightarrow> 'a list \<Rightarrow> 'a \<Rightarrow> 'a" where
  "first_existing exists [] d = d"
| "first_existing exists (p # ps) d = (if exists p then p else first_existing exists ps d)"

lemma first_existing_cases:
  "first_existing ex ps d = d \<and> (\<forall>p \<in> set ps. \<not> ex p)
   \<or> (\<exists>qs p rs. ps = qs @ p # rs \<and> ex p \<and> (\<forall>q \<in> set qs. \<not> ex q) \<and> first_existing ex ps d = p)"
proof (induction ps)
  case Nil
  then show ?case by simp
next
  case (Cons p ps)
  show ?case
  proof (cases "ex p")
    case True
    then show ?thesis by force
  next
    case False
    with Cons show ?thesis
      by (metis (no_types, lifting) append_Cons first_existing.simps(2) set_ConsD)
  qed
qed

lemma first_existing_exists: "\<exists>p \<in> set ps. ex p \<Longrightarrow> ex (first_existing ex ps d)"
  by (induction ps) auto

lemma first_existing_mem: "first_existing ex ps d \<in> insert d (set ps)"
  by (induction ps) auto

section \<open>autoManage trace directories\<close>

definition resolveTastekitRoot :: "path \<Rightarrow> path" where
  "resolveTastekitRoot workspacePath =
     (if basename workspacePath = ''.tastekit'' then workspacePath
      else path_join workspacePath [''.tastekit''])"

definition getTracePathCandidates :: "path \<Rightarrow> path \<times> path" where
  "getTracePathCandidates workspacePath =
     (let root = resolveTastekitRoot workspacePath
      in (path_join root [''ops'', ''traces''], path_join root [''traces'']))"

definition resolveTraceDirectory :: "(path \<Rightarrow> bool) \<Rightarrow> path \<Rightarrow> path" where
  "resolveTraceDirectory exists workspacePath =
     (case getTracePathCandidates workspacePath of (canonical, legacy) \<Rightarrow>
        first_existing exists [canonical, legacy] canonical)"

end
