(* ===== verification/Tailer.thy ===== *)
theory Tailer
  imports Prelude
begin

text \<open>
  autoManage, src/ingest/tailer.ts and src/ingest/watcher.ts: reading the lines that were
  appended to a trace file since the last read, and the watcher that calls the tailer on
  every file event. The file is the list of its bytes; strings are their UTF-8 bytes, so
  \<open>Buffer.toString('utf-8')\<close> copies well-formed sequences and puts the three bytes of
  U+FFFD for every ill-formed one.
\<close>

section \<open>UTF-8 decoding\<close>

definition in_range :: "nat \<Rightarrow> nat \<Rightarrow> char \<Rightarrow> bool" where
  "in_range lo hi c \<longleftrightarrow> lo \<le> of_char c \<and> of_char c \<le> hi"

definition is_cont :: "char \<Rightarrow> bool" where
  "is_cont c = in_range 128 191 c"

text \<open>The second byte of a three- or four-byte sequence, given its lead byte.\<close>

definition second_ok :: "char \<Rightarrow> char \<Rightarrow> bool" where
  "second_ok b c =
     (if b = CHR 0xE0 then in_range 160 191 c
      else if b = CHR 0xED then in_range 128 159 c
      else if b = CHR 0xF0 then in_range 144 191 c
      else if b = CHR 0xF4 then in_range 128 143 c
      else is_cont c)"

definition replacement :: string where
  "replacement = [CHR 0xEF, CHR 0xBF, CHR 0xBD]"

text \<open>
  Decoding at a lead byte \<open>b\<close> followed by \<open>r\<close>: whether a complete sequence starts there, and how
  many bytes of \<open>r\<close> belong to it (to the sequence, or to the longest ill-formed part of one).
\<close>

definition utf8_step :: "char \<Rightarrow> string \<Rightarrow> bool \<times> nat" where
  "utf8_step b r =
     (if in_range 0 127 b then (True, 0)
      else if in_range 194 223 b then
        (case r of c # _ \<Rightarrow> if is_cont c then (True, 1) else (False, 0) | [] \<Rightarrow> (False, 0))
      else if in_range 224 239 b then
        (case r of
           c # d # _ \<Rightarrow> if second_ok b c then (if is_cont d then (True, 2) else (False, 1)) else (False, 0)
         | [c] \<Rightarrow> (False, if second_ok b c then 1 else 0)
         | [] \<Rightarrow> (False, 0))
      else if in_range 240 244 b then
        (case r of
           c # d # e # _ \<Rightarrow>
             if second_ok b c then
               (if is_cont d then (if is_cont e then (True, 3) else (False, 2)) else (False, 1))
             else (False, 0)
         | [c, d] \<Rightarrow> (False, if second_ok b c then (if is_cont d then 2 else 1) else 0)
         | [c] \<Rightarrow> (False, if second_ok b c then 1 else 0)
         | [] \<Rightarrow> (False, 0))
      else (False, 0))"

fun utf8_decode :: "string \<Rightarrow> string" where
  "utf8_decode [] = []"
| "utf8_decode (b # r) =
     (if fst (utf8_step b r) then b # take (snd (utf8_step b r)) r else replacement)
       @ utf8_decode (drop (snd (utf8_step b r)) r)"

text \<open>Well-formed text: complete sequences only.\<close>

fun utf8_valid :: "string \<Rightarrow> bool" where
  "utf8_valid [] = True"
| "utf8_valid (b # r) = (fst (utf8_step b r) \<and> utf8_valid (drop (snd (utf8_step b r)) r))"

lemma utf8_step_complete:
  assumes "fst (utf8_step b r)"
  shows "snd (utf8_step b r) \<le> length r \<and> utf8_step b (r @ s) = utf8_step b r"
  using assms unfolding utf8_step_def by (auto split: if_splits list.splits)

lemma utf8_decode_append: "utf8_valid a \<Longrightarrow> utf8_decode (a @ b) = a @ utf8_decode b"
proof (induction a rule: utf8_valid.induct)
  case 1
  then show ?case by simp
next
  case (2 c r)
  let ?n = "snd (utf8_step c r)"
  from 2 have c: "fst (utf8_step c r)" and v: "utf8_valid (drop ?n r)" by auto
  from utf8_step_complete [OF c, of b] have n: "?n \<le> length r" and e: "utf8_step c (r @ b) = utf8_step c r"
    by auto
  from 2 v have "utf8_decode (drop ?n r @ b) = drop ?n r @ utf8_decode b" by simp
  with c n e show ?case
    by (simp add: append_assoc [symmetric] del: append_assoc)
qed

lemma utf8_decode_valid: "utf8_valid a \<Longrightarrow> utf8_decode a = a"
  using utf8_decode_append [of a "[]"] by simp

lemma utf8_step_ascii [simp]: "in_range 0 127 b \<Longrightarrow> utf8_step b r = (True, 0)"
  by (simp add: utf8_step_def)

lemma utf8_valid_ascii: "list_all (in_range 0 127) s \<Longrightarrow> utf8_valid s"
  by (induction s) auto

section \<open>The tailer\<close>

record tailer =
  offsets :: "path \<rightharpoonup> nat"
  remainders :: "path \<rightharpoonup> string"

record tail_result =
  tr_lines :: "string list"
  tr_offset :: nat
  tr_rotated :: bool

definition new_tailer :: tailer where
  "new_tailer = \<lparr>offsets = Map.empty, remainders = Map.empty\<rparr>"

definition readAppendedLines :: "tailer \<Rightarrow> path \<Rightarrow> string \<Rightarrow> tail_result \<times> tailer" where
  "readAppendedLines t filePath bytes =
     (let previousOffset = (case offsets t filePath of None \<Rightarrow> 0 | Some n \<Rightarrow> n);
          wasRotated = length bytes < previousOffset;
          startOffset = (if wasRotated then 0 else previousOffset);
          previousRemainder = (if wasRotated then [] else
            (case remainders t filePath of None \<Rightarrow> [] | Some r \<Rightarrow> r));
          textChunk = utf8_decode (drop startOffset bytes);
          mergedText = previousRemainder @ textChunk;
          segments = split_on nl mergedText;
          trailingRemainder = (if ends_with mergedText [nl] then [] else last segments);
          segments' = (if ends_with mergedText [nl] then segments else butlast segments);
          ls = filter (\<lambda>segment. 0 < length segment) (map trim segments')
      in (\<lparr>tr_lines = ls, tr_offset = length bytes, tr_rotated = wasRotated\<rparr>,
          \<lparr>offsets = (offsets t)(filePath \<mapsto> length bytes),
           remainders = (remainders t)(filePath \<mapsto> trailingRemainder)\<rparr>))"

definition reset :: "tailer \<Rightarrow> path \<Rightarrow> tailer" where
  "reset t filePath = \<lparr>offsets = (offsets t)(filePath := None),
     remainders = (remainders t)(filePath := None)\<rparr>"

section \<open>Specification: the complete lines of a text\<close>

definition keep_lines :: "string list \<Rightarrow> string list" where
  "keep_lines segs = filter (\<lambda>s. 0 < length s) (map trim segs)"

definition complete_lines :: "string \<Rightarrow> string list" where
  "complete_lines s = keep_lines (butlast (split_on nl s))"

definition open_line :: "string \<Rightarrow> string" where
  "open_line s = last (split_on nl s)"

lemma trim_Nil [simp]: "trim [] = []"
  by (simp add: trim_def trim_start_def trim_end_def)

lemma keep_lines_append [simp]: "keep_lines (xs @ ys) = keep_lines xs @ keep_lines ys"
  by (simp add: keep_lines_def)

lemma complete_lines_append:
  "complete_lines (s @ t) = complete_lines s @ complete_lines (open_line s @ t)"
proof -
  obtain y ys where y: "split_on nl t = y # ys" by (cases "split_on nl t") auto
  have o: "split_on nl (open_line s) = [open_line s]"
    by (rule split_on_no_sep) (simp add: open_line_def last_split_on_no_sep)
  have "split_on nl (open_line s @ t) = (open_line s @ y) # ys"
    using y o by (simp add: split_on_append)
  moreover have "split_on nl (s @ t) = butlast (split_on nl s) @ (open_line s @ y) # ys"
    using y by (simp add: split_on_append open_line_def)
  ultimately show ?thesis
    by (simp add: complete_lines_def butlast_append)
qed

lemma open_line_append: "open_line (s @ t) = open_line (open_line s @ t)"
proof -
  have "split_on nl (open_line s) = [open_line s]"
    by (rule split_on_no_sep) (simp add: open_line_def last_split_on_no_sep)
  then show ?thesis
    by (simp add: open_line_def split_on_append)
qed

text \<open>
  The contract of a line buffer: pushing text returns the lines it completes and keeps the
  unfinished one. The lines of a whole run do not depend on how the text was cut.
\<close>

locale line_buffer =
  fixes push :: "'s \<Rightarrow> string \<Rightarrow> string list \<times> 's"
    and pending :: "'s \<Rightarrow> string"
    and inv :: "'s \<Rightarrow> bool"
    and ok :: "string \<Rightarrow> bool"
  assumes push_inv: "inv s \<Longrightarrow> ok x \<Longrightarrow> inv (snd (push s x))"
    and push_lines: "inv s \<Longrightarrow> ok x \<Longrightarrow> fst (push s x) = complete_lines (pending s @ x)"
    and push_pending: "inv s \<Longrightarrow> ok x \<Longrightarrow> pending (snd (push s x)) = open_line (pending s @ x)"
begin

fun push_all :: "'s \<Rightarrow> string list \<Rightarrow> string list" where
  "push_all s [] = []"
| "push_all s (x # xs) = fst (push s x) @ push_all (snd (push s x)) xs"

lemma push_all_lines:
  "inv s \<Longrightarrow> list_all ok xs \<Longrightarrow> nl \<notin> set (pending s) \<Longrightarrow>
     push_all s xs = complete_lines (pending s @ concat xs)"
proof (induction xs arbitrary: s)
  case Nil
  then show ?case by (simp add: complete_lines_def split_on_no_sep keep_lines_def)
next
  case (Cons x xs)
  let ?s = "snd (push s x)"
  have p: "pending ?s = open_line (pending s @ x)" using Cons.prems by (simp add: push_pending)
  then have "nl \<notin> set (pending ?s)" by (simp add: open_line_def last_split_on_no_sep)
  then have "push_all ?s xs = complete_lines (pending ?s @ concat xs)"
    using Cons by (simp add: push_inv)
  then show ?case
    using Cons.prems p complete_lines_append [of "pending s @ x" "concat xs"]
    by (simp add: push_lines)
qed

end

section \<open>The tailer is a line buffer for every growing file\<close>

text \<open>
  The state of the run: the tailer and the content of the file at its last read. The
  tailer agrees with the content when its offset is the content's length and its remainder
  the content's unfinished line.
\<close>

definition tail_inv :: "path \<Rightarrow> tailer \<times> string \<Rightarrow> bool" where
  "tail_inv p s \<longleftrightarrow> (case s of (t, content) \<Rightarrow>
     (offsets t p = Some (length content) \<and> remainders t p = Some (open_line content))
     \<or> (offsets t p = None \<and> remainders t p = None \<and> content = []))"

definition tail_push :: "path \<Rightarrow> tailer \<times> string \<Rightarrow> string \<Rightarrow> string list \<times> (tailer \<times> string)" where
  "tail_push p s x = (case s of (t, content) \<Rightarrow>
     (case readAppendedLines t p (content @ x) of
        (r, t') \<Rightarrow> (tr_lines r, (t', content @ x))))"

definition tail_pending :: "tailer \<times> string \<Rightarrow> string" where
  "tail_pending s = open_line (snd s)"

text \<open>What one read does, on every branch, in terms of the specification.\<close>

lemma segments_spec:
  "filter (\<lambda>s. 0 < length s) (map trim
      (if ends_with m [nl] then split_on nl m else butlast (split_on nl m))) = complete_lines m"
proof (cases "ends_with m [nl]")
  case True
  then have "last (split_on nl m) = []"
    by (simp add: ends_with_single split_on_last_empty)
  then have "split_on nl m = butlast (split_on nl m) @ [[]]"
    by (metis append_butlast_last_id split_on_not_Nil)
  then have "keep_lines (split_on nl m) = keep_lines (butlast (split_on nl m)) @ keep_lines [[]]"
    by (metis keep_lines_append)
  then show ?thesis
    using True by (simp add: complete_lines_def keep_lines_def)
next
  case False
  then show ?thesis by (simp add: complete_lines_def keep_lines_def)
qed

lemma remainder_spec:
  "(if ends_with m [nl] then [] else last (split_on nl m)) = open_line m"
  by (auto simp: open_line_def ends_with_single split_on_last_empty)

lemma readAppendedLines_eq:
  assumes "previous = (case offsets t p of None \<Rightarrow> 0 | Some n \<Rightarrow> n)"
    and "m = (if length bytes < previous then utf8_decode bytes
       else (case remainders t p of None \<Rightarrow> [] | Some r \<Rightarrow> r) @ utf8_decode (drop previous bytes))"
  shows "readAppendedLines t p bytes =
     (\<lparr>tr_lines = complete_lines m, tr_offset = length bytes, tr_rotated = length bytes < previous\<rparr>,
      \<lparr>offsets = (offsets t)(p \<mapsto> length bytes), remainders = (remainders t)(p \<mapsto> open_line m)\<rparr>)"
proof (cases "length bytes < previous")
  case True
  then show ?thesis
    using assms
    by (simp add: readAppendedLines_def Let_def segments_spec [symmetric] remainder_spec [symmetric])
next
  case False
  then show ?thesis
    using assms
    by (simp add: readAppendedLines_def Let_def segments_spec [symmetric] remainder_spec [symmetric])
qed

lemma tail_push_eq:
  assumes "tail_inv p (t, content)" "utf8_valid x"
  shows "tail_push p (t, content) x =
    (complete_lines (open_line content @ x),
     (\<lparr>offsets = (offsets t)(p \<mapsto> length (content @ x)),
       remainders = (remainders t)(p \<mapsto> open_line (content @ x))\<rparr>, content @ x))"
proof -
  have "open_line [] = []" by (simp add: open_line_def)
  then show ?thesis
    using assms
    by (auto simp: tail_push_def tail_inv_def readAppendedLines_eq [OF refl refl]
        utf8_decode_valid open_line_append [of content x])
qed

interpretation tail: line_buffer "tail_push p" tail_pending "tail_inv p" utf8_valid for p
proof unfold_locales
  fix s x
  assume s: "tail_inv p s" and x: "utf8_valid x"
  obtain t content where st: "s = (t, content)" by (cases s)
  note eq = tail_push_eq [OF s [unfolded st] x]
  show "tail_inv p (snd (tail_push p s x))"
    by (simp add: st eq tail_inv_def)
  show "fst (tail_push p s x) = complete_lines (tail_pending s @ x)"
    by (simp add: st eq tail_pending_def)
  show "tail_pending (snd (tail_push p s x)) = open_line (tail_pending s @ x)"
    by (simp add: st eq tail_pending_def open_line_append [of content x])
qed

text \<open>Reading a file each time text was appended to it: the lines of all the reads.\<close>

fun read_growing :: "tailer \<Rightarrow> path \<Rightarrow> string \<Rightarrow> string list \<Rightarrow> string list" where
  "read_growing t p content [] = []"
| "read_growing t p content (x # xs) =
     (case readAppendedLines t p (content @ x) of
        (r, t') \<Rightarrow> tr_lines r @ read_growing t' p (content @ x) xs)"

lemma read_growing_push_all: "read_growing t p content xs = tail.push_all p (t, content) xs"
  by (induction xs arbitrary: t content) (auto simp: tail_push_def split: prod.split)

section \<open>The watcher\<close>

datatype delivery = Ignored | Nothing_new | Delivered "string list" | Failed

text \<open>\<open>extname\<close> of a path: from the last dot of the last component, unless that dot starts it.\<close>

definition extname :: "path \<Rightarrow> string" where
  "extname p = (let b = last (split_on (CHR ''/'') p); parts = split_on (CHR ''.'') b in
     if length parts < 2 \<or> (length parts = 2 \<and> hd parts = []) then []
     else CHR ''.'' # last parts)"

record watcher =
  wt_tailer :: tailer
  wt_watching :: bool

text \<open>\<open>start\<close> does nothing when a watcher runs or no path is given; the library's watcher object
  is the flag \<open>wt_watching\<close>.\<close>

definition watcher_start :: "watcher \<Rightarrow> path list \<Rightarrow> watcher" where
  "watcher_start w paths = (if wt_watching w \<or> paths = [] then w else w\<lparr>wt_watching := True\<rparr>)"

definition watcher_close :: "watcher \<Rightarrow> watcher" where
  "watcher_close w = (if \<not> wt_watching w then w else w\<lparr>wt_watching := False\<rparr>)"

text \<open>\<open>handleFile\<close>; the bytes are \<open>None\<close> when reading the file throws.\<close>

definition handleFile :: "watcher \<Rightarrow> path \<Rightarrow> string option \<Rightarrow> delivery \<times> watcher" where
  "handleFile w filePath bytes =
     (if extname filePath \<noteq> ''.jsonl'' then (Ignored, w)
      else (case bytes of None \<Rightarrow> (Failed, w)
        | Some bs \<Rightarrow>
            (case readAppendedLines (wt_tailer w) filePath bs of (r, t') \<Rightarrow>
               (if tr_lines r = [] then Nothing_new else Delivered (tr_lines r),
                w\<lparr>wt_tailer := t'\<rparr>))))"

section \<open>Properties\<close>

text \<open>
  C3. Tailing is lossless and duplicate-free: however the growth of a file is cut into reads
  (at character boundaries), the lines delivered over all reads are exactly the complete,
  non-blank, trimmed lines of the final content, in order; a line still being written is
  held back until its newline arrives.
\<close>

theorem tailing_is_chunk_independent:
  assumes "offsets t p = None" "remainders t p = None" "list_all utf8_valid xs"
  shows "read_growing t p [] xs = complete_lines (concat xs)"
proof -
  have "tail_inv p (t, [])" using assms by (simp add: tail_inv_def)
  moreover have "open_line [] = []" by (simp add: open_line_def)
  ultimately show ?thesis
    using tail.push_all_lines [of p "(t, [])" xs] assms(3)
    by (simp add: read_growing_push_all tail_pending_def)
qed

theorem tailing_is_chunk_independent_witness:
  "read_growing new_tailer ''a.jsonl'' [] [''{1'', ''2}'' @ [nl] @ ''{3'', ''}'', [nl]] = [''{12}'', ''{3}'']"
proof -
  have "read_growing new_tailer ''a.jsonl'' [] [''{1'', ''2}'' @ [nl] @ ''{3'', ''}'', [nl]]
      = complete_lines (concat [''{1'', ''2}'' @ [nl] @ ''{3'', ''}'', [nl]])"
    by (rule tailing_is_chunk_independent) (simp_all add: new_tailer_def in_range_def)
  also have "\<dots> = [''{12}'', ''{3}'']"
    by (simp add: complete_lines_def keep_lines_def trim_def trim_start_def trim_end_def is_ws_def)
  finally show ?thesis .
qed

text \<open>
  A read that finds the file shorter than its recorded offset restarts from the beginning:
  it reports the rotation, drops the old unfinished line, returns the complete lines of the new
  content, and leaves the tailer as a fresh reader of that content would; other files keep their
  offsets and remainders.
\<close>

theorem rotation_restarts:
  assumes "offsets t p = Some n" "length bytes < n" "utf8_valid bytes"
  shows "readAppendedLines t p bytes =
    (\<lparr>tr_lines = complete_lines bytes, tr_offset = length bytes, tr_rotated = True\<rparr>,
     \<lparr>offsets = (offsets t)(p \<mapsto> length bytes), remainders = (remainders t)(p \<mapsto> open_line bytes)\<rparr>)"
  using assms by (simp add: readAppendedLines_eq [OF refl refl] utf8_decode_valid)

theorem rotation_restarts_witness:
  "tr_lines (fst (readAppendedLines \<lparr>offsets = [''f'' \<mapsto> 9], remainders = [''f'' \<mapsto> ''old'']\<rparr> ''f''
      (''new'' @ [nl]))) = [''new'']"
proof -
  let ?t = "\<lparr>offsets = [''f'' \<mapsto> 9], remainders = [''f'' \<mapsto> ''old'']\<rparr>"
  have "readAppendedLines ?t ''f'' (''new'' @ [nl]) =
    (\<lparr>tr_lines = complete_lines (''new'' @ [nl]), tr_offset = length (''new'' @ [nl]), tr_rotated = True\<rparr>,
     \<lparr>offsets = (offsets ?t)(''f'' \<mapsto> length (''new'' @ [nl])),
      remainders = (remainders ?t)(''f'' \<mapsto> open_line (''new'' @ [nl]))\<rparr>)"
    by (rule rotation_restarts [where n = 9]) (simp_all add: in_range_def)
  then show ?thesis
    by (simp add: complete_lines_def keep_lines_def trim_def trim_start_def trim_end_def is_ws_def)
qed

end
