(* ===== verification/Service.thy ===== *)
theory Service
  imports Runtime Parser Paths Tailer
begin

text \<open>
  autoManage, src/ingest/service.ts: the ingestion service. A batch of raw lines of a trace file
  is validated, the agent's status is derived from its stored history and the new events, the
  snapshot and the events go to the store, and the stream bus is told. The library calls the
  service depends on are the fields of \<open>js_env\<close>; the clock readings of one call are a \<open>tick\<close>.
\<close>

section \<open>State\<close>

record js_env =
  jparse :: "string \<Rightarrow> json option"
  jstr :: "json \<Rightarrow> string"
  is_dt :: "string \<Rightarrow> bool"
  ms :: "string \<Rightarrow> int"

record tick =
  tk_now :: int
  tk_upsert :: string
  tk_append :: string
  tk_alert_ms :: nat
  tk_alert_iso :: string

record service =
  sv_store :: sqlite_store
  sv_stalenessMs :: int
  sv_stats :: parser_stats
  sv_watched :: "path list"
  sv_watcher :: watcher
  sv_published :: "stream_message list"

definition new_service :: "sqlite_store \<Rightarrow> int option \<Rightarrow> service" where
  "new_service store stalenessMs =
     \<lparr>sv_store = store, sv_stalenessMs = (case stalenessMs of None \<Rightarrow> 60000 | Some n \<Rightarrow> n),
      sv_stats = zero_stats, sv_watched = [],
      sv_watcher = \<lparr>wt_tailer = new_tailer, wt_watching = False\<rparr>, sv_published = []\<rparr>"

section \<open>Pure helpers\<close>

definition summarizeEvent :: "trace_event \<Rightarrow> string" where
  "summarizeEvent e =
     (if event_type e = Error \<and> (\<exists>m. error e = Some m \<and> m \<noteq> []) then the (error e)
      else if event_type e = Tool_call \<and> has_tool_ref e then ''tool_call:'' @ the (tool_ref e)
      else if event_type e = Approval_requested then ''approval requested''
      else event_type_str (event_type e))"

definition extractWorkspaceFromTracePath :: "path \<Rightarrow> path" where
  "extractWorkspaceFromTracePath filePath =
     (case cut_at ''/.tastekit/'' filePath of
        None \<Rightarrow> dirname (dirname filePath)
      | Some (before, _) \<Rightarrow> before)"

definition toStoredEvents :: "string \<Rightarrow> trace_event list \<Rightarrow> new_event list" where
  "toStoredEvents agentId events =
     map (\<lambda>e. \<lparr>ev_agentId = agentId, ev_runId = run_id e, ev_eventType = event_type_str (event_type e),
       ev_timestamp = timestamp e, ev_summary = Some (summarizeEvent e), ev_rawEvent = event_to_json e\<rparr>)
     events"

definition to_dashboard_event :: "trace_event \<Rightarrow> dashboard_event" where
  "to_dashboard_event e = \<lparr>de_runId = run_id e, de_eventType = event_type_str (event_type e),
     de_timestamp = timestamp e, de_summary = Some (summarizeEvent e)\<rparr>"

fun status_str :: "agent_status \<Rightarrow> string" where
  "status_str Idle = ''idle''"
| "status_str Running = ''running''"
| "status_str Blocked = ''blocked''"
| "status_str In_error = ''error''"
| "status_str Completed = ''completed''"

section \<open>Ingestion\<close>

text \<open>The stored history of an agent, oldest first, as far as it still validates.\<close>

definition existing_events :: "js_env \<Rightarrow> sqlite_store \<Rightarrow> string \<Rightarrow> trace_event list" where
  "existing_events env st agentId =
     rev (List.map_filter (\<lambda>e. parse_trace_event (is_dt env) (ev_rawEvent e))
       (listRecentEvents (jparse env) st agentId 1000))"

definition make_snapshot :: "path \<Rightarrow> derived_status \<Rightarrow> agent_snapshot" where
  "make_snapshot workspacePath derived =
     \<lparr>sn_agentId = workspacePath, sn_workspacePath = workspacePath,
      sn_displayName = (if basename workspacePath \<noteq> [] then basename workspacePath else workspacePath),
      sn_status = status derived, sn_currentTask = currentTask derived,
      sn_lastEventAt = lastEventAt derived, sn_errorCount = errorCount derived,
      sn_approvalsPending = approvalsPending derived, sn_toolCalls = toolCalls derived,
      sn_runDurationMs = runDurationMs derived\<rparr>"

definition make_alert :: "agent_snapshot \<Rightarrow> tick \<Rightarrow> alert" where
  "make_alert snapshot tk =
     \<lparr>al_id = sn_agentId snapshot @ ''-'' @ show_nat (tk_alert_ms tk) @ ''-'' @ status_str (sn_status snapshot),
      al_level = (if sn_status snapshot = In_error then Error_level else Warning),
      al_message = (if sn_status snapshot = In_error
        then ''Agent '' @ sn_displayName snapshot @ '' reported an error.''
        else ''Agent '' @ sn_displayName snapshot @ '' is waiting on approval.''),
      al_agentId = Some (sn_agentId snapshot), al_createdAt = tk_alert_iso tk\<rparr>"

definition messages_for :: "agent_snapshot \<Rightarrow> trace_event list \<Rightarrow> tick \<Rightarrow> stream_message list" where
  "messages_for snapshot events tk =
     [Agent_updated snapshot]
     @ map (\<lambda>e. New_event (sn_agentId snapshot) (to_dashboard_event e)) events
     @ (if sn_status snapshot = Blocked \<or> sn_status snapshot = In_error
        then [Alert (make_alert snapshot tk)] else [])"

definition ingestLines :: "js_env \<Rightarrow> service \<Rightarrow> path \<Rightarrow> string list \<Rightarrow> tick \<Rightarrow> service" where
  "ingestLines env sv filePath ls tk =
     (case parseTraceLines (jparse env) (is_dt env) ls of (events, stats) \<Rightarrow>
        let sv1 = sv\<lparr>sv_stats := mergeParserStats (sv_stats sv) stats\<rparr> in
        if events = [] then sv1
        else
          let workspacePath = extractWorkspaceFromTracePath filePath;
              agentId = workspacePath;
              combined = existing_events env (sv_store sv) agentId @ events;
              derived = deriveStatus (ms env) combined (tk_now tk) (sv_stalenessMs sv);
              snapshot = make_snapshot workspacePath derived;
              st1 = upsertAgent (sv_store sv) snapshot (tk_upsert tk);
              st2 = appendEvents (jstr env) st1 (toStoredEvents agentId events) (tk_append tk)
          in sv1\<lparr>sv_store := st2, sv_published := sv_published sv @ messages_for snapshot events tk\<rparr>)"

text \<open>\<open>ingestWorkspace\<close>: every .jsonl file of the trace directory in name order. The file system
  is given by \<open>exists\<close>, \<open>readdir\<close> and \<open>read\<close>; the \<open>i\<close>-th file is ingested at \<open>tk i\<close>.\<close>

definition trace_files :: "(path \<Rightarrow> string list) \<Rightarrow> path \<Rightarrow> string list" where
  "trace_files readdir dir = sort (filter (\<lambda>n. ends_with n ''.jsonl'') (readdir dir))"

definition ingestWorkspace ::
  "js_env \<Rightarrow> (path \<Rightarrow> bool) \<Rightarrow> (path \<Rightarrow> string list) \<Rightarrow> (path \<Rightarrow> string) \<Rightarrow> service \<Rightarrow> path
     \<Rightarrow> (nat \<Rightarrow> tick) \<Rightarrow> service" where
  "ingestWorkspace env exists readdir read sv workspacePath tk =
     (let dir = resolveTraceDirectory exists workspacePath in
      if \<not> exists dir then sv
      else foldl (\<lambda>sv (i, name).
             let filePath = path_join dir [name]
             in ingestLines env sv filePath (split_on nl (read filePath)) (tk i))
           sv (List.enumerate 0 (trace_files readdir dir)))"

definition startWatchingDirectories :: "service \<Rightarrow> path list \<Rightarrow> service" where
  "startWatchingDirectories sv dirs =
     sv\<lparr>sv_watched := dirs, sv_watcher := watcher_start (sv_watcher sv) dirs\<rparr>"

definition stopWatching :: "service \<Rightarrow> service" where
  "stopWatching sv = sv\<lparr>sv_watcher := watcher_close (sv_watcher sv), sv_watched := []\<rparr>"

text \<open>A file event of the watcher: the tailer's new lines go to \<open>ingestLines\<close>.\<close>

definition onFileEvent :: "js_env \<Rightarrow> service \<Rightarrow> path \<Rightarrow> string option \<Rightarrow> tick \<Rightarrow> service" where
  "onFileEvent env sv filePath bytes tk =
     (case handleFile (sv_watcher sv) filePath bytes of (d, w) \<Rightarrow>
        let sv1 = sv\<lparr>sv_watcher := w\<rparr> in
        (case d of Delivered ls \<Rightarrow> ingestLines env sv1 filePath ls tk | _ \<Rightarrow> sv1))"

definition service_listAgents :: "service \<Rightarrow> agent_snapshot list" where
  "service_listAgents sv = listAgents (sv_store sv)"

definition listAgentEvents :: "js_env \<Rightarrow> service \<Rightarrow> string \<Rightarrow> int \<Rightarrow> stored_event list" where
  "listAgentEvents env sv agentId limit = listRecentEvents (jparse env) (sv_store sv) agentId limit"

record health =
  h_parserStats :: parser_stats
  h_watchedDirectories :: "path list"
  h_stalenessMs :: int

definition getHealth :: "service \<Rightarrow> health" where
  "getHealth sv = \<lparr>h_parserStats = sv_stats sv, h_watchedDirectories = sv_watched sv,
     h_stalenessMs = sv_stalenessMs sv\<rparr>"

section \<open>A run of the service\<close>

record call =
  cl_file :: path
  cl_lines :: "string list"
  cl_tick :: tick

definition ingest :: "js_env \<Rightarrow> service \<Rightarrow> call \<Rightarrow> service" where
  "ingest env sv c = ingestLines env sv (cl_file c) (cl_lines c) (cl_tick c)"

definition call_events :: "js_env \<Rightarrow> call \<Rightarrow> trace_event list" where
  "call_events env c = fst (parseTraceLines (jparse env) (is_dt env) (cl_lines c))"

definition call_agent :: "call \<Rightarrow> string" where
  "call_agent c = extractWorkspaceFromTracePath (cl_file c)"

text \<open>The events of an agent in a sequence of calls.\<close>

definition agent_events :: "js_env \<Rightarrow> string \<Rightarrow> call list \<Rightarrow> trace_event list" where
  "agent_events env a cs = concat (map (\<lambda>c. if call_agent c = a then call_events env c else []) cs)"

text \<open>\<open>JSON.parse\<close> reads back what \<open>JSON.stringify\<close> wrote, for the given events.\<close>

definition reads_back :: "js_env \<Rightarrow> trace_event list \<Rightarrow> bool" where
  "reads_back env es \<longleftrightarrow> list_all (\<lambda>e. jparse env (jstr env (event_to_json e)) = Some (event_to_json e)) es"

abbreviation columns_for :: "js_env \<Rightarrow> string \<Rightarrow> trace_event list \<Rightarrow> event_columns list" where
  "columns_for env a es \<equiv> map (event_columns (jstr env)) (toStoredEvents a es)"

lemma ingest_empty: "call_events env c = [] \<Longrightarrow>
    ingest env sv c = sv\<lparr>sv_stats := mergeParserStats (sv_stats sv)
      (snd (parseTraceLines (jparse env) (is_dt env) (cl_lines c)))\<rparr>"
  by (auto simp: ingest_def ingestLines_def call_events_def split: prod.split)

text \<open>The status that a call derives.\<close>

definition call_snapshot :: "js_env \<Rightarrow> service \<Rightarrow> call \<Rightarrow> agent_snapshot" where
  "call_snapshot env sv c = make_snapshot (call_agent c)
     (deriveStatus (ms env) (existing_events env (sv_store sv) (call_agent c) @ call_events env c)
       (tk_now (cl_tick c)) (sv_stalenessMs sv))"

lemma ingest_events: "call_events env c \<noteq> [] \<Longrightarrow>
    ingest env sv c = sv\<lparr>
      sv_stats := mergeParserStats (sv_stats sv)
        (snd (parseTraceLines (jparse env) (is_dt env) (cl_lines c))),
      sv_store := appendEvents (jstr env)
        (upsertAgent (sv_store sv) (call_snapshot env sv c) (tk_upsert (cl_tick c)))
        (toStoredEvents (call_agent c) (call_events env c)) (tk_append (cl_tick c)),
      sv_published := sv_published sv @ messages_for (call_snapshot env sv c) (call_events env c) (cl_tick c)\<rparr>"
  by (auto simp: ingest_def ingestLines_def call_events_def call_snapshot_def call_agent_def Let_def
      split: prod.split)

lemma make_snapshot_id [simp]: "sn_agentId (make_snapshot w d) = w"
  by (simp add: make_snapshot_def)

lemma call_snapshot_id [simp]: "sn_agentId (call_snapshot env sv c) = call_agent c"
  by (simp add: call_snapshot_def)

lemma filter_toStored:
  "filter (\<lambda>e. ev_agentId e = a) (toStoredEvents b es) = (if a = b then toStoredEvents b es else [])"
  by (auto simp: toStoredEvents_def filter_empty_conv intro: filter_True)

lemma toStored_append: "toStoredEvents a (xs @ ys) = toStoredEvents a xs @ toStoredEvents a ys"
  by (simp add: toStoredEvents_def)

lemma toStored_Nil [simp]: "toStoredEvents a [] = []"
  by (simp add: toStoredEvents_def)

lemma toStored_eq_Nil [simp]: "toStoredEvents a es = [] \<longleftrightarrow> es = []"
  by (simp add: toStoredEvents_def)

definition service_inv :: "service \<Rightarrow> bool" where
  "service_inv sv \<longleftrightarrow> store_inv (sv_store sv) \<and> 0 \<le> retentionPerAgent (sv_store sv)
     \<and> balanced (sv_stats sv)"

lemma history_upsert [simp]: "history (upsertAgent st s now) a = history st a"
  by (simp add: history_def agent_rows_def)

lemma service_inv_ingest: "service_inv sv \<Longrightarrow> service_inv (ingest env sv c)"
  by (cases "call_events env c = []")
    (simp_all add: ingest_empty ingest_events service_inv_def balanced_merge
      parseTraceLines_balanced store_inv_append store_inv_upsert)

interpretation serving: stateful "ingest env" service_inv "\<lambda>_. True" for env
  by unfold_locales (rule service_inv_ingest)

lemma ingest_fields [simp]:
  "retentionPerAgent (sv_store (ingest env sv c)) = retentionPerAgent (sv_store sv)"
  "sv_stalenessMs (ingest env sv c) = sv_stalenessMs sv"
  by (cases "call_events env c = []"; simp add: ingest_empty ingest_events)+

lemma run_fields [simp]:
  "retentionPerAgent (sv_store (foldl (ingest env) sv cs)) = retentionPerAgent (sv_store sv)"
  "sv_stalenessMs (foldl (ingest env) sv cs) = sv_stalenessMs sv"
  by (induction cs arbitrary: sv) auto

lemma ingest_history:
  assumes "service_inv sv"
  shows "history (sv_store (ingest env sv c)) a = keep_last (retentionPerAgent (sv_store sv))
    (history (sv_store sv) a @ columns_for env a (agent_events env a [c]))"
proof (cases "call_events env c = []")
  case True
  have "keep_last (retentionPerAgent (sv_store sv)) (history (sv_store sv) a) = history (sv_store sv) a"
    by (rule keep_last_short) (use assms in \<open>simp add: service_inv_def store_inv_def history_def\<close>)
  then show ?thesis by (simp add: ingest_empty agent_events_def True)
next
  case False
  have "store_inv (upsertAgent (sv_store sv) s t)" for s t
    using assms by (simp add: service_inv_def store_inv_upsert)
  then show ?thesis
    using False by (simp add: ingest_events history_append filter_toStored agent_events_def)
qed

lemma run_history:
  "service_inv sv \<Longrightarrow> history (sv_store (foldl (ingest env) sv cs)) a =
    keep_last (retentionPerAgent (sv_store sv))
      (history (sv_store sv) a @ columns_for env a (agent_events env a cs))"
proof (induction cs arbitrary: sv)
  case Nil
  have "keep_last (retentionPerAgent (sv_store sv)) (history (sv_store sv) a) = history (sv_store sv) a"
    by (rule keep_last_short) (use Nil in \<open>simp add: service_inv_def store_inv_def history_def\<close>)
  then show ?case by (simp add: agent_events_def)
next
  case (Cons c cs)
  then have "service_inv (ingest env sv c)" by (simp add: service_inv_ingest)
  from Cons.IH [OF this] Cons.prems show ?case
    by (simp add: ingest_history keep_last_append)
      (simp add: agent_events_def toStored_append)
qed

text \<open>An event that was stored reads back as itself.\<close>

lemma read_back_event:
  assumes "wf_event (is_dt env) e" "jparse env (jstr env (event_to_json e)) = Some (event_to_json e)"
    and "c \<in> set (columns_for env a [e])"
  shows "parse_trace_event (is_dt env) (snd (snd (snd (snd (read_back (jparse env) c))))) = Some e"
  using assms by (simp add: toStoredEvents_def event_columns_def read_back_def parse_stored_event)

lemma agent_events_wf: "e \<in> set (agent_events env a cs) \<Longrightarrow> wf_event (is_dt env) e"
  by (auto simp: agent_events_def call_events_def dest: parseTraceLines_wf split: if_splits)

lemma map_filter_some: "(\<And>x. x \<in> set xs \<Longrightarrow> f (g x) = Some x) \<Longrightarrow> List.map_filter f (map g xs) = xs"
  by (induction xs) (auto simp: List.map_filter_simps)

lemma map_filter_cong_map: "List.map_filter (\<lambda>x. f (h x)) xs = List.map_filter f (map h xs)"
  by (induction xs) (auto simp: List.map_filter_simps split: option.split)

lemma map_filter_rev: "rev (List.map_filter f (rev xs)) = List.map_filter f xs"
  by (simp add: List.map_filter_def rev_map [symmetric] rev_filter [symmetric])

lemma existing_events_history:
  assumes "store_inv st" "history st a = columns_for env a es"
    and "reads_back env es" "list_all (wf_event (is_dt env)) es"
  shows "existing_events env st a = take_last 1000 es"
proof -
  let ?f = "\<lambda>c. parse_trace_event (is_dt env) (snd (snd (snd (snd c))))"
  let ?g = "\<lambda>e. read_back (jparse env) (hd (columns_for env a [e]))"
  have "map columns_of (listRecentEvents (jparse env) st a 1000) =
      rev (map (read_back (jparse env)) (take_last 1000 (columns_for env a es)))"
    by (simp only: listRecentEvents_history [OF assms(1)] assms(2) rev_map rev_take_last [symmetric])
      (simp add: rev_map rev_take_last)
  moreover have "take_last 1000 (columns_for env a es) = columns_for env a (take_last 1000 es)"
    by (simp add: take_last_def toStoredEvents_def drop_map)
  moreover have "map (read_back (jparse env)) (columns_for env a xs) = map ?g xs" for xs
    by (simp add: toStoredEvents_def)
  ultimately have cols: "map columns_of (listRecentEvents (jparse env) st a 1000) =
      rev (map ?g (take_last 1000 es))"
    by simp
  have "existing_events env st a =
      rev (List.map_filter ?f (map columns_of (listRecentEvents (jparse env) st a 1000)))"
    unfolding existing_events_def map_filter_cong_map [symmetric] by (simp add: columns_of_def)
  also have "\<dots> = List.map_filter ?f (map ?g (take_last 1000 es))"
    unfolding cols by (rule map_filter_rev)
  also have "\<dots> = take_last 1000 es"
  proof (rule map_filter_some)
    fix e
    assume "e \<in> set (take_last 1000 es)"
    then have "e \<in> set es" by (auto simp: take_last_def dest: in_set_dropD)
    then show "?f (?g e) = Some e"
      using assms(3,4) read_back_event [of env e "hd (columns_for env a [e])" a]
      by (auto simp: reads_back_def list_all_iff toStoredEvents_def)
  qed
  finally show ?thesis .
qed

lemma service_inv_new: "service_inv (new_service (store_create None (Some r) None) stal)" if "0 \<le> r"
  using that by (simp add: service_inv_def new_service_def store_create_def store_inv_def db_inv_def
      rows_inv_def db_of_def empty_db_def agent_rows_def balanced_zero)

lemma history_new [simp]: "history (sv_store (new_service (store_create None r None) stal)) a = []"
  by (simp add: new_service_def store_create_def history_def agent_rows_def empty_db_def)

lemma new_service_fields [simp]:
  "retentionPerAgent (sv_store (new_service (store_create None (Some r) None) stal)) = r"
  "sv_stalenessMs (new_service st stal) = (case stal of None \<Rightarrow> 60000 | Some n \<Rightarrow> n)"
  by (simp_all add: new_service_def store_create_def)

lemma reads_back_keep_last: "reads_back env es \<Longrightarrow> reads_back env (keep_last r es)"
  using set_keep_last [of r es] by (auto simp: reads_back_def list_all_iff)

lemma keep_last_columns: "keep_last r (columns_for env a es) = columns_for env a (keep_last r es)"
  by (simp add: toStoredEvents_def map_keep_last)

text \<open>The history that a call reads after any sequence of earlier calls.\<close>

lemma existing_after_run:
  assumes "0 \<le> r" "reads_back env (agent_events env a cs)"
  shows "existing_events env (sv_store (foldl (ingest env)
      (new_service (store_create None (Some r) None) stal) cs)) a
    = take_last 1000 (keep_last r (agent_events env a cs))"
proof -
  let ?sv = "foldl (ingest env) (new_service (store_create None (Some r) None) stal) cs"
  have "service_inv ?sv"
    using service_inv_new [OF assms(1)] by (rule serving.run_inv) (simp add: list_all_iff)
  then have "store_inv (sv_store ?sv)" by (simp add: service_inv_def)
  moreover have "history (sv_store ?sv) a = columns_for env a (keep_last r (agent_events env a cs))"
    using run_history [OF service_inv_new [OF assms(1)], where env = env and cs = cs and a = a]
    by (simp add: keep_last_columns)
  moreover have "list_all (wf_event (is_dt env)) (keep_last r (agent_events env a cs))"
    using set_keep_last agent_events_wf by (fastforce simp: list_all_iff)
  ultimately show ?thesis
    using assms(2) by (intro existing_events_history reads_back_keep_last)
qed

lemma ingest_row:
  assumes "store_inv (sv_store sv)" "call_events env c \<noteq> []"
  shows "map_option ar_snapshot (agent_row_of (sv_store (ingest env sv c)) a) =
    (if a = call_agent c then Some (call_snapshot env sv c)
     else map_option ar_snapshot (agent_row_of (sv_store sv) a))"
  using assms by (simp add: ingest_events agent_row_of_def)
    (simp add: agent_row_of_upsert [unfolded agent_row_of_def])

section \<open>Properties\<close>

text \<open>
  C1. The status an agent is shown with rests on its whole retained history, through the store:
  after any sequence of ingestions for any agents, a further batch with at least one valid event
  leaves the agent's row with the status derived from the last 1000 retained events of all the
  batches of that agent, in order, followed by the new ones, although these events went through
  JSON text and the pruned table in between; the rows of the other agents keep their snapshot.
\<close>

theorem status_covers_history:
  assumes "0 \<le> r" "call_events env c \<noteq> []" "reads_back env (agent_events env (call_agent c) cs)"
  shows "map_option ar_snapshot (agent_row_of (sv_store (ingest env
      (foldl (ingest env) (new_service (store_create None (Some r) None) stal) cs) c)) a) =
    (if a = call_agent c then
       Some (make_snapshot a (deriveStatus (ms env)
         (take_last 1000 (keep_last r (agent_events env a cs)) @ call_events env c)
         (tk_now (cl_tick c)) (case stal of None \<Rightarrow> 60000 | Some n \<Rightarrow> n)))
     else map_option ar_snapshot (agent_row_of (sv_store
       (foldl (ingest env) (new_service (store_create None (Some r) None) stal) cs)) a))"
proof -
  let ?sv = "foldl (ingest env) (new_service (store_create None (Some r) None) stal) cs"
  have "service_inv ?sv"
    using service_inv_new [OF assms(1)] by (rule serving.run_inv) (simp add: list_all_iff)
  then show ?thesis
    using assms by (simp add: ingest_row service_inv_def call_snapshot_def existing_after_run)
qed

text \<open>
  What a batch publishes: nothing when no line is valid; otherwise one agent update with the
  snapshot that was stored, then one message per event in file order, then an alert exactly when
  the agent is blocked or in error. The parse counters stay balanced (every line counted is either
  parsed, invalid JSON or invalid against the schema) after any sequence of batches.
\<close>

theorem batch_publishes:
  assumes "service_inv sv"
  shows "(call_events env c = [] \<longrightarrow> sv_published (ingest env sv c) = sv_published sv
        \<and> sv_store (ingest env sv c) = sv_store sv)
    \<and> (call_events env c \<noteq> [] \<longrightarrow>
        (\<exists>snapshot alerts. map_option ar_snapshot (agent_row_of (sv_store (ingest env sv c)) (call_agent c)) = Some snapshot
          \<and> sv_published (ingest env sv c) = sv_published sv @ Agent_updated snapshot
              # map (\<lambda>e. New_event (call_agent c) (to_dashboard_event e)) (call_events env c) @ alerts
          \<and> (alerts \<noteq> [] \<longleftrightarrow> sn_status snapshot \<in> {Blocked, In_error}) \<and> length alerts \<le> 1))
    \<and> balanced (sv_stats (ingest env sv c))"
proof -
  have "balanced (sv_stats (ingest env sv c))"
    using service_inv_ingest [OF assms] by (simp add: service_inv_def)
  moreover have "store_inv (sv_store sv)" using assms by (simp add: service_inv_def)
  ultimately show ?thesis
    by (simp add: ingest_row) (auto simp: ingest_empty ingest_events messages_for_def)
qed

definition sample_env :: js_env where
  "sample_env = \<lparr>jparse = (\<lambda>s. if s = ''x'' then Some (event_to_json (sample_event Plan ''1'')) else None),
     jstr = (\<lambda>_. ''x''), is_dt = (\<lambda>_. True), ms = int \<circ> length\<rparr>"

definition sample_call :: call where
  "sample_call = \<lparr>cl_file = ''/w/.tastekit/traces/t.jsonl'', cl_lines = [''x'', ''{''],
     cl_tick = \<lparr>tk_now = 5, tk_upsert = ''u'', tk_append = ''v'', tk_alert_ms = 7, tk_alert_iso = ''z''\<rparr>\<rparr>"

lemma sample_call_events: "call_events sample_env sample_call = [sample_event Plan ''1'']"
  by code_simp

theorem status_covers_history_witness:
  "\<exists>snapshot. map_option ar_snapshot (agent_row_of (sv_store (ingest sample_env
      (foldl (ingest sample_env) (new_service (store_create None (Some 2) None) None) [sample_call]) sample_call))
      (call_agent sample_call)) = Some snapshot"
proof -
  have "reads_back sample_env (agent_events sample_env (call_agent sample_call) [sample_call])"
    by code_simp
  from status_covers_history [OF _ _ this, where r = 2 and stal = None and a = "call_agent sample_call"]
  show ?thesis by (fastforce simp add: sample_call_events)
qed

theorem batch_publishes_witness:
  "balanced (sv_stats (ingest sample_env (new_service (store_create None (Some 2) None) None) sample_call))"
  using batch_publishes [OF service_inv_new [of 2 None], of sample_env sample_call] by simp

end
