(* ===== verification/Dashboard.thy ===== *)
theory Dashboard
  imports Service
begin

text \<open>
  autoManage, src/ui/state.ts: the reducer of the dashboard, and its agreement with the service
  that publishes the messages. A \<open>Record<string, ...>\<close> is an association list in insertion order.
\<close>

section \<open>The reducer\<close>

record dashboard =
  db_agents :: "agent_snapshot list"
  db_eventsByAgent :: "(string \<times> dashboard_event list) list"
  db_alerts :: "alert list"

definition createDashboardState :: "agent_snapshot list \<Rightarrow> dashboard" where
  "createDashboardState ags = \<lparr>db_agents = ags, db_eventsByAgent = [], db_alerts = []\<rparr>"

definition events_of :: "dashboard \<Rightarrow> string \<Rightarrow> dashboard_event list" where
  "events_of d a = (case map_of (db_eventsByAgent d) a of None \<Rightarrow> [] | Some es \<Rightarrow> es)"

fun applyStreamEvent :: "dashboard \<Rightarrow> stream_message \<Rightarrow> dashboard" where
  "applyStreamEvent d (Agent_updated s) =
     (let same = (\<lambda>x. sn_agentId x = sn_agentId s) in
      d\<lparr>db_agents := (if \<exists>x \<in> set (db_agents d). same x then update_first same (\<lambda>_. s) (db_agents d)
                      else s # db_agents d)\<rparr>)"
| "applyStreamEvent d (New_event a e) =
     d\<lparr>db_eventsByAgent := AList.update a (take 200 (e # events_of d a)) (db_eventsByAgent d)\<rparr>"
| "applyStreamEvent d (Alert al) = d\<lparr>db_alerts := take 50 (al # db_alerts d)\<rparr>"

text \<open>The agents are listed once each, and the event and alert lists are bounded.\<close>

definition dashboard_inv :: "dashboard \<Rightarrow> bool" where
  "dashboard_inv d \<longleftrightarrow> distinct (map sn_agentId (db_agents d))
     \<and> list_all (\<lambda>(a, es). length es \<le> 200) (db_eventsByAgent d) \<and> length (db_alerts d) \<le> 50"

lemma dashboard_inv_create: "distinct (map sn_agentId ags) \<Longrightarrow> dashboard_inv (createDashboardState ags)"
  by (simp add: dashboard_inv_def createDashboardState_def)

lemma list_all_alist_update:
  "list_all P xs \<Longrightarrow> P (k, v) \<Longrightarrow> list_all P (AList.update k v xs)"
  by (induction xs) auto

lemma distinct_update_first:
  "distinct (map g xs) \<Longrightarrow> (\<And>x. P x \<Longrightarrow> g (f x) = g x) \<Longrightarrow> distinct (map g (update_first P f xs))"
  by (simp add: map_update_first)

lemma dashboard_inv_step: "dashboard_inv d \<Longrightarrow> dashboard_inv (applyStreamEvent d m)"
proof (cases m)
  case (Agent_updated s)
  moreover have "map sn_agentId (update_first (\<lambda>x. sn_agentId x = sn_agentId s) (\<lambda>_. s) xs) = map sn_agentId xs" for xs
    by (rule map_update_first) simp
  moreover assume "dashboard_inv d"
  ultimately show ?thesis by (auto simp: dashboard_inv_def Let_def)
qed (auto simp: dashboard_inv_def intro!: list_all_alist_update)

interpretation board: stateful applyStreamEvent dashboard_inv "\<lambda>_. True"
  by unfold_locales (rule dashboard_inv_step)

definition shown :: "dashboard \<Rightarrow> string \<Rightarrow> agent_snapshot option" where
  "shown d a = List.find (\<lambda>x. sn_agentId x = a) (db_agents d)"

text \<open>What a message says about an agent.\<close>

fun update_of :: "string \<Rightarrow> stream_message \<Rightarrow> agent_snapshot option" where
  "update_of a (Agent_updated s) = (if sn_agentId s = a then Some s else None)"
| "update_of a _ = None"

fun event_of :: "string \<Rightarrow> stream_message \<Rightarrow> dashboard_event list" where
  "event_of a (New_event b e) = (if a = b then [e] else [])"
| "event_of a _ = []"

fun alert_of :: "stream_message \<Rightarrow> alert list" where
  "alert_of (Alert al) = [al]"
| "alert_of _ = []"

lemma shown_step: "shown (applyStreamEvent d m) a =
    (case update_of a m of Some s \<Rightarrow> Some s | None \<Rightarrow> shown d a)"
proof (cases m)
  case (Agent_updated s)
  let ?P = "\<lambda>x. sn_agentId x = sn_agentId s"
  show ?thesis
  proof (cases "\<exists>x \<in> set (db_agents d). ?P x")
    case True
    then obtain y where y: "List.find ?P (db_agents d) = Some y"
      by (cases "List.find ?P (db_agents d)") (auto simp: find_None_iff)
    from find_update_first [OF y, of "\<lambda>_. s"]
    have "List.find ?P (update_first ?P (\<lambda>_. s) (db_agents d)) = Some s" by simp
    moreover have "a \<noteq> sn_agentId s \<Longrightarrow>
        List.find (\<lambda>x. sn_agentId x = a) (update_first ?P (\<lambda>_. s) (db_agents d)) = shown d a"
      unfolding shown_def by (rule find_update_first_other) auto
    ultimately show ?thesis using True Agent_updated by (auto simp: shown_def Let_def)
  next
    case False
    then show ?thesis using Agent_updated by (auto simp: shown_def Let_def)
  qed
qed (simp_all add: shown_def)

lemma events_step: "events_of (applyStreamEvent d m) a = take 200 (rev (event_of a m) @ events_of d a)"
  if "dashboard_inv d"
proof -
  have "length (events_of d a) \<le> 200"
    using that by (auto simp: dashboard_inv_def events_of_def list_all_iff dest: map_of_SomeD split: option.split)
  then show ?thesis
    by (cases m) (auto simp: events_of_def update_conv' Let_def)
qed

lemma alerts_step: "db_alerts (applyStreamEvent d m) = take 50 (rev (alert_of m) @ db_alerts d)"
  if "dashboard_inv d"
  using that by (cases m) (auto simp: dashboard_inv_def Let_def)

lemma events_run:
  "dashboard_inv d \<Longrightarrow> events_of (foldl applyStreamEvent d msgs) a =
    take 200 (rev (concat (map (event_of a) msgs)) @ events_of d a)"
proof (induction msgs arbitrary: d)
  case Nil
  have "length (events_of d a) \<le> 200"
    using Nil by (auto simp: dashboard_inv_def events_of_def list_all_iff dest: map_of_SomeD split: option.split)
  then show ?case by simp
next
  case (Cons m msgs)
  then show ?case by (simp add: dashboard_inv_step events_step take_append_take del: take_append)
qed

lemma alerts_run:
  "dashboard_inv d \<Longrightarrow> db_alerts (foldl applyStreamEvent d msgs) =
    take 50 (rev (concat (map alert_of msgs)) @ db_alerts d)"
proof (induction msgs arbitrary: d)
  case Nil
  then show ?case by (simp add: dashboard_inv_def)
next
  case (Cons m msgs)
  then show ?case by (simp add: dashboard_inv_step alerts_step take_append_take del: take_append)
qed

text \<open>
  The reducer is the bounded log it promises: after any stream of messages, the events shown
  for an agent are its last 200, newest first, the alerts are the last 50, newest first, and every
  agent occurs at most once.
\<close>

theorem dashboard_bounded_log:
  assumes "distinct (map sn_agentId ags)"
  shows "events_of (foldl applyStreamEvent (createDashboardState ags) msgs) a
      = take 200 (rev (concat (map (event_of a) msgs)))
    \<and> db_alerts (foldl applyStreamEvent (createDashboardState ags) msgs)
      = take 50 (rev (concat (map alert_of msgs)))
    \<and> dashboard_inv (foldl applyStreamEvent (createDashboardState ags) msgs)"
proof -
  have i: "dashboard_inv (createDashboardState ags)" using assms by (rule dashboard_inv_create)
  have "dashboard_inv (foldl applyStreamEvent (createDashboardState ags) msgs)"
    using i by (rule board.run_inv) (simp add: list_all_iff)
  then show ?thesis
    using events_run [OF i, of msgs a] alerts_run [OF i, of msgs]
    by (simp add: createDashboardState_def events_of_def)
qed

lemma shown_messages:
  "shown (foldl applyStreamEvent d (messages_for s es tk)) a =
     (if sn_agentId s = a then Some s else shown d a)"
proof -
  have "shown (foldl applyStreamEvent d' (map (\<lambda>e. New_event b (to_dashboard_event e)) es)) a
      = shown d' a" for d' b
    by (induction es arbitrary: d') (simp_all add: shown_step del: applyStreamEvent.simps)
  then show ?thesis
    by (auto simp: messages_for_def shown_step simp del: applyStreamEvent.simps)
qed

definition in_step :: "service \<Rightarrow> dashboard \<Rightarrow> bool" where
  "in_step sv d \<longleftrightarrow> store_inv (sv_store sv)
     \<and> (\<forall>a. shown d a = map_option ar_snapshot (agent_row_of (sv_store sv) a))"

text \<open>The page receives what a batch adds to the published messages.\<close>

definition receive :: "js_env \<Rightarrow> service \<times> dashboard \<Rightarrow> call \<Rightarrow> service \<times> dashboard" where
  "receive env p c = (case p of (sv, d) \<Rightarrow>
     let sv' = ingest env sv c
     in (sv', foldl applyStreamEvent d (drop (length (sv_published sv)) (sv_published sv'))))"

lemma receive_in_step: "in_step sv d \<Longrightarrow> case receive env (sv, d) c of (sv', d') \<Rightarrow> in_step sv' d'"
proof (cases "call_events env c = []")
  case True
  then show "in_step sv d \<Longrightarrow> ?thesis" by (simp add: receive_def ingest_empty in_step_def)
next
  case False
  assume i: "in_step sv d"
  then have "store_inv (sv_store (ingest env sv c))"
    using False by (simp add: in_step_def ingest_events store_inv_append store_inv_upsert)
  moreover have "drop (length (sv_published sv)) (sv_published (ingest env sv c)) =
      messages_for (call_snapshot env sv c) (call_events env c) (cl_tick c)"
    using False by (simp add: ingest_events)
  ultimately show ?thesis
    using i False by (auto simp: receive_def in_step_def shown_messages ingest_row Let_def)
qed

interpretation following: stateful "receive env" "\<lambda>(sv, d). in_step sv d" "\<lambda>_. True" for env
  by unfold_locales (use receive_in_step in \<open>fastforce split: prod.splits\<close>)

lemma receive_service: "fst (foldl (receive env) (sv, d) cs) = foldl (ingest env) sv cs"
  by (induction cs arbitrary: sv d) (auto simp: receive_def Let_def)

text \<open>
  C2. The dashboard agrees with the store: a page that starts from the agents of the store and
  applies every message the service publishes shows, after any sequence of batches, exactly the
  snapshot the store holds for every agent.
\<close>

theorem dashboard_shows_store:
  assumes "store_inv (sv_store sv)"
    and "\<And>a. shown d a = map_option ar_snapshot (agent_row_of (sv_store sv) a)"
  shows "shown (snd (foldl (receive env) (sv, d) cs)) a =
    map_option ar_snapshot (agent_row_of (sv_store (foldl (ingest env) sv cs)) a)"
proof -
  have "case foldl (receive env) (sv, d) cs of (sv', d') \<Rightarrow> in_step sv' d'"
    by (rule following.run_inv) (use assms in \<open>simp_all add: in_step_def list_all_iff\<close>)
  then show ?thesis
    using receive_service [of env sv d cs] by (auto simp: in_step_def split: prod.splits)
qed

definition sample_alert :: alert where
  "sample_alert = \<lparr>al_id = ''1'', al_level = Warning, al_message = ''m'', al_agentId = None, al_createdAt = ''t''\<rparr>"

theorem dashboard_bounded_log_witness:
  "db_alerts (foldl applyStreamEvent (createDashboardState [sample_snapshot ''a''])
      [Agent_updated (sample_snapshot ''a''), Alert sample_alert]) = [sample_alert]"
  using dashboard_bounded_log [of "[sample_snapshot ''a'']"
      "[Agent_updated (sample_snapshot ''a''), Alert sample_alert]"] by simp

theorem dashboard_shows_store_witness:
  "shown (snd (foldl (receive sample_env)
      (new_service (store_create None None None) None, createDashboardState []) [sample_call]))
      (call_agent sample_call)
    = map_option ar_snapshot (agent_row_of (sv_store (foldl (ingest sample_env)
      (new_service (store_create None None None) None) [sample_call])) (call_agent sample_call))"
  by (rule dashboard_shows_store)
    (simp_all add: new_service_def store_create_def store_inv_def db_inv_def rows_inv_def db_of_def
      empty_db_def agent_rows_def shown_def createDashboardState_def agent_row_of_def)

end
