(* ===== verification/Client.thy ===== *)
theory Client
  imports Dashboard
begin

text \<open>
  autoManage, src/ui/dashboard-client.tsx, src/ui/agent-card.tsx, src/runtime/service.ts and the
  routes app/api/agents and app/api/agents/[agentId]/events: the page of the dashboard as a state
  machine over the replies to its requests, the messages of the stream and the clicks of the user,
  composed with the service that answers the requests. A request has a number; the cleanup of an
  effect makes the page ignore the replies to the requests the effect made.
\<close>

section \<open>The process-wide service\<close>

definition getTraceDirsFromEnv :: "string option \<Rightarrow> path list" where
  "getTraceDirsFromEnv raw =
     (case raw of None \<Rightarrow> []
      | Some r \<Rightarrow> if r = [] then [] else filter (\<lambda>v. v \<noteq> []) (map trim (split_on CHR '','' r)))"

text \<open>The first caller creates the service; its outcome, also a failure to open the store, is kept.\<close>

definition getIngestionService ::
  "(string + sqlite_store) \<Rightarrow> string option \<Rightarrow> (string + service) option \<Rightarrow> (string + service) option" where
  "getIngestionService opened raw global =
     (case global of
        Some p \<Rightarrow> Some p
      | None \<Rightarrow> Some (case opened of
            Inl e \<Rightarrow> Inl e
          | Inr st \<Rightarrow> let sv = new_service st (Some 60000); dirs = getTraceDirsFromEnv raw
                     in Inr (if dirs \<noteq> [] then startWatchingDirectories sv dirs else sv)))"

section \<open>A text as a part of an address\<close>

text \<open>\<open>encodeURIComponent\<close> and \<open>decodeURIComponent\<close> on the bytes of a text; \<open>None\<close> is the \<open>URIError\<close> of a
  text that is not well-formed, or of a \<open>%\<close> that does not begin an encoded character.\<close>

definition unescaped :: "char \<Rightarrow> bool" where
  "unescaped c \<longleftrightarrow> c \<in> set ''ABCDEFGHIJKLMNOPQRSTUVWXYZabcdefghijklmnopqrstuvwxyz0123456789-_.!~*()'' \<or> c = CHR 0x27"

definition hex_digit :: "nat \<Rightarrow> char" where
  "hex_digit n = ''0123456789ABCDEF'' ! n"

definition hex_value :: "char \<Rightarrow> nat option" where
  "hex_value c = (let n = of_char c :: nat in
     if 48 \<le> n \<and> n \<le> 57 then Some (n - 48)
     else if 65 \<le> n \<and> n \<le> 70 then Some (n - 55)
     else if 97 \<le> n \<and> n \<le> 102 then Some (n - 87) else None)"

definition escape_char :: "char \<Rightarrow> string" where
  "escape_char c = (let n = of_char c :: nat in
     if unescaped c then [c] else [CHR ''%'', hex_digit (n div 16), hex_digit (n mod 16)])"

definition encodeURIComponent :: "string \<Rightarrow> string option" where
  "encodeURIComponent s = (if utf8_valid s then Some (concat (map escape_char s)) else None)"

fun unescape :: "string \<Rightarrow> string option" where
  "unescape [] = Some []"
| "unescape (c # s) =
     (if c = CHR ''%'' then
        (case s of
           x # y # r \<Rightarrow>
             (case (hex_value x, hex_value y) of
                (Some a, Some b) \<Rightarrow> map_option (Cons (char_of (16 * a + b))) (unescape r)
              | _ \<Rightarrow> None)
         | _ \<Rightarrow> None)
      else map_option (Cons c) (unescape s))"

definition decodeURIComponent :: "string \<Rightarrow> string option" where
  "decodeURIComponent s = (case unescape s of None \<Rightarrow> None | Some t \<Rightarrow> if utf8_valid t then Some t else None)"

lemma hex_round: "n < 16 \<Longrightarrow> hex_value (hex_digit n) = Some n"
proof -
  have "list_all (\<lambda>n. hex_value (hex_digit n) = Some n) [0..<16]" by code_simp
  then show "n < 16 \<Longrightarrow> hex_value (hex_digit n) = Some n" by (simp only: list_all_iff set_upt) simp
qed

lemma unescaped_percent [simp]: "\<not> unescaped CHR ''%''"
  by code_simp

lemma unescape_escaped: "unescape (escape_char c @ s) = map_option (Cons c) (unescape s)"
proof (cases "unescaped c")
  case True
  then have "c \<noteq> CHR ''%''" by auto
  with True show ?thesis by (simp add: escape_char_def)
next
  case False
  let ?n = "of_char c :: nat"
  have "?n < 256" by simp
  then have "?n div 16 < 16" using less_mult_imp_div_less [of ?n 16 16] by simp
  moreover have "?n mod 16 < 16" by simp
  ultimately show ?thesis using False by (simp add: escape_char_def hex_round Let_def)
qed

lemma unescape_encoded: "unescape (concat (map escape_char s)) = Some s"
  by (induction s) (simp_all add: unescape_escaped)

lemma decode_encoded: "encodeURIComponent s = Some t \<Longrightarrow> decodeURIComponent t = Some s"
  by (auto simp: encodeURIComponent_def decodeURIComponent_def unescape_encoded split: if_splits)

lemma unescape_plain: "CHR ''%'' \<notin> set s \<Longrightarrow> unescape s = Some s"
  by (induction s) auto

lemma decode_plain: "utf8_valid s \<Longrightarrow> CHR ''%'' \<notin> set s \<Longrightarrow> decodeURIComponent s = Some s"
  by (simp add: decodeURIComponent_def unescape_plain)

text \<open>A text that was decoded already and has a \<open>%\<close> is read wrongly, or not at all.\<close>

lemma second_decoding: "decodeURIComponent ''100%'' = None" "decodeURIComponent ''a%20b'' = Some ''a b''"
  by code_simp+

section \<open>The routes\<close>

text \<open>\<open>Number.parseInt(s, 10)\<close>; \<open>None\<close> is \<open>NaN\<close>. Integers are exact.\<close>

definition parseInt :: "string \<Rightarrow> int option" where
  "parseInt s =
     (let t = trim_start s;
          (neg, r) = (case t of c # u \<Rightarrow> if c = CHR ''-'' then (True, u)
              else if c = CHR ''+'' then (False, u) else (False, t) | [] \<Rightarrow> (False, []));
          ds = takeWhile is_digit r
      in if ds = [] then None else Some ((if neg then - 1 else 1) * int (read_digits ds)))"

definition event_limit :: "string option \<Rightarrow> int" where
  "event_limit limitParam =
     (case limitParam of
        None \<Rightarrow> 100
      | Some s \<Rightarrow> if s = [] then 100
          else (case parseInt s of None \<Rightarrow> 100 | Some n \<Rightarrow> if 0 < n then n else 100))"

definition agents_route :: "service \<Rightarrow> agent_snapshot list" where
  "agents_route sv = service_listAgents sv"

text \<open>The fields of a stored event that the page reads.\<close>

definition event_view :: "stored_event \<Rightarrow> dashboard_event" where
  "event_view e = \<lparr>de_runId = ev_runId e, de_eventType = ev_eventType e,
     de_timestamp = ev_timestamp e, de_summary = ev_summary e\<rparr>"

text \<open>The route is given \<open>params.agentId\<close>; its answer repeats it. \<open>None\<close> is an answer that is no JSON,
  because the handler threw.\<close>

definition listed_events :: "js_env \<Rightarrow> service \<Rightarrow> string \<Rightarrow> string option \<Rightarrow> dashboard_event list" where
  "listed_events env sv agentId limitParam =
     map event_view (listAgentEvents env sv agentId (event_limit limitParam))"

definition events_route ::
  "js_env \<Rightarrow> service \<Rightarrow> string \<Rightarrow> string option \<Rightarrow> (string \<times> dashboard_event list) option" where
  "events_route env sv param limitParam =
     map_option (\<lambda>agentId. (param, listed_events env sv agentId limitParam)) (decodeURIComponent param)"

text \<open>The request of the page for the events of an agent. What the web framework gives the route for a
  part of the address is the parameter \<open>segment\<close>. \<open>None\<close> where the page gets no answer that it can read.\<close>

definition events_request ::
  "js_env \<Rightarrow> (string \<Rightarrow> string) \<Rightarrow> service \<Rightarrow> string \<Rightarrow> (string \<times> dashboard_event list) option" where
  "events_request env segment sv selectedAgentId =
     Option.bind (encodeURIComponent selectedAgentId) (\<lambda>encoded. events_route env sv (segment encoded) (Some ''100''))"

definition health_route :: "service \<Rightarrow> health" where
  "health_route sv = getHealth sv"

text \<open>runtime/sse.ts: one event of the stream as text.\<close>

datatype sse_name = Ready_event | Named stream_type

fun sse_event_name :: "sse_name \<Rightarrow> string" where
  "sse_event_name Ready_event = ''ready''"
| "sse_event_name (Named T_agent_updated) = ''agent_updated''"
| "sse_event_name (Named T_new_event) = ''new_event''"
| "sse_event_name (Named T_alert) = ''alert''"

definition formatSseEvent :: "(json \<Rightarrow> string) \<Rightarrow> sse_name \<Rightarrow> json \<Rightarrow> string" where
  "formatSseEvent stringify type payload =
     ''event: '' @ sse_event_name type @ [nl] @ ''data: '' @ stringify payload @ [nl, nl]"

lemma sse_event_name_line: "nl \<notin> set (sse_event_name t)"
  by (cases t rule: sse_event_name.cases) simp_all

lemma sse_event_name_inject [simp]: "sse_event_name t = sse_event_name u \<longleftrightarrow> t = u"
  by (cases t rule: sse_event_name.cases; cases u rule: sse_event_name.cases) simp_all

text \<open>When the text of a value has no line break, as \<open>JSON.stringify\<close> without an indentation writes it, an
  event is two lines and a blank line, and a text of events is cut into them.\<close>

lemma sse_event_lines:
  assumes "nl \<notin> set (stringify payload)"
  shows "split_on nl (formatSseEvent stringify t payload @ rest) =
    [''event: '' @ sse_event_name t, ''data: '' @ stringify payload, []] @ split_on nl rest"
proof -
  have "split_on nl (formatSseEvent stringify t payload @ rest) =
      split_on nl ((''event: '' @ sse_event_name t) @ nl # (''data: '' @ stringify payload) @ nl # [] @ nl # rest)"
    by (simp add: formatSseEvent_def)
  also have "\<dots> = split_on nl (''event: '' @ sse_event_name t) @ split_on nl (''data: '' @ stringify payload) @ split_on nl [] @ split_on nl rest"
    by (simp only: split_on_append_sep)
  also have "split_on nl (''event: '' @ sse_event_name t) = [''event: '' @ sse_event_name t]"
    by (rule split_on_no_sep) (simp add: sse_event_name_line)
  also have "split_on nl (''data: '' @ stringify payload) = [''data: '' @ stringify payload]"
    by (rule split_on_no_sep) (simp add: assms)
  finally show ?thesis by simp
qed

section \<open>The page\<close>

datatype action =
    Hydrate_agents "agent_snapshot list"
  | Hydrate_events string "dashboard_event list"
  | Stream_event stream_message

fun dashboardReducer :: "dashboard \<Rightarrow> action \<Rightarrow> dashboard" where
  "dashboardReducer d (Hydrate_agents ags) = d\<lparr>db_agents := ags\<rparr>"
| "dashboardReducer d (Hydrate_events a es) = d\<lparr>db_eventsByAgent := AList.update a es (db_eventsByAgent d)\<rparr>"
| "dashboardReducer d (Stream_event m) = applyStreamEvent d m"

datatype ask = Ask_agents | Ask_events string

record client =
  dc_state :: dashboard
  dc_selected :: "string option"
  dc_live :: "(nat \<times> ask) list"
  dc_asked :: nat
  dc_stream :: bool

text \<open>The two effects that depend on the selection: the cleanup of the earlier run drops its requests,
  then the agents are requested and, for a selected agent, its events.\<close>

definition selected_id :: "client \<Rightarrow> string" where
  "selected_id c = (case dc_selected c of None \<Rightarrow> [] | Some a \<Rightarrow> a)"

definition run_effects :: "client \<Rightarrow> client" where
  "run_effects c =
     (let n = dc_asked c; a = selected_id c
      in if a = [] then c\<lparr>dc_live := [(n, Ask_agents)], dc_asked := n + 1\<rparr>
         else c\<lparr>dc_live := [(n, Ask_agents), (n + 1, Ask_events a)], dc_asked := n + 2\<rparr>)"

definition setSelectedAgentId :: "client \<Rightarrow> string \<Rightarrow> client" where
  "setSelectedAgentId c a = (if dc_selected c = Some a then c else run_effects (c\<lparr>dc_selected := Some a\<rparr>))"

definition mount :: client where
  "mount = run_effects \<lparr>dc_state = createDashboardState [], dc_selected = None, dc_live = [],
     dc_asked = 0, dc_stream = True\<rparr>"

definition dispatch :: "client \<Rightarrow> action \<Rightarrow> client" where
  "dispatch c x = c\<lparr>dc_state := dashboardReducer (dc_state c) x\<rparr>"

definition settle :: "client \<Rightarrow> nat \<Rightarrow> client" where
  "settle c k = c\<lparr>dc_live := filter (\<lambda>q. fst q \<noteq> k) (dc_live c)\<rparr>"

text \<open>What can happen to the page. The text of a stream message is read by \<open>read\<close>, \<open>None\<close> where
  \<open>JSON.parse\<close> raises.\<close>

datatype page_event =
    Agents_reply nat "agent_snapshot list"
  | Events_reply nat "dashboard_event list"
  | Request_failed nat
  | Stream_text stream_type string
  | Select string
  | Unmount

definition parseStreamPayload ::
  "(stream_type \<Rightarrow> string \<Rightarrow> stream_message option) \<Rightarrow> stream_type \<Rightarrow> string \<Rightarrow> stream_message option" where
  "parseStreamPayload read eventType raw = read eventType raw"

text \<open>How a request for events ends.\<close>

definition reply_of :: "nat \<Rightarrow> (string \<times> dashboard_event list) option \<Rightarrow> page_event" where
  "reply_of k answer = (case answer of None \<Rightarrow> Request_failed k | Some (_, es) \<Rightarrow> Events_reply k es)"

fun page_step :: "(stream_type \<Rightarrow> string \<Rightarrow> stream_message option) \<Rightarrow> client \<Rightarrow> page_event \<Rightarrow> client" where
  "page_step read c (Agents_reply k ags) =
     (if map_of (dc_live c) k = Some Ask_agents then
        (let c' = dispatch (settle c k) (Hydrate_agents ags)
         in if selected_id c = [] \<and> ags \<noteq> [] then setSelectedAgentId c' (sn_agentId (hd ags)) else c')
      else c)"
| "page_step read c (Events_reply k es) =
     (case map_of (dc_live c) k of
        Some (Ask_events a) \<Rightarrow> dispatch (settle c k) (Hydrate_events a es)
      | _ \<Rightarrow> c)"
| "page_step read c (Request_failed k) = settle c k"
| "page_step read c (Stream_text t raw) =
     (if dc_stream c then
        (case parseStreamPayload read t raw of None \<Rightarrow> c | Some m \<Rightarrow> dispatch c (Stream_event m))
      else c)"
| "page_step read c (Select a) = (if dc_stream c then setSelectedAgentId c a else c)"
| "page_step read c Unmount = c\<lparr>dc_live := [], dc_stream := False\<rparr>"

section \<open>What is shown\<close>

definition selectedEvents :: "client \<Rightarrow> dashboard_event list" where
  "selectedEvents c = (if selected_id c = [] then [] else events_of (dc_state c) (selected_id c))"

fun statusTone :: "agent_status \<Rightarrow> string" where
  "statusTone Running = ''border-emerald-500/50 bg-emerald-500/10''"
| "statusTone Blocked = ''border-amber-500/50 bg-amber-500/10''"
| "statusTone In_error = ''border-rose-500/50 bg-rose-500/10''"
| "statusTone Completed = ''border-sky-500/50 bg-sky-500/10''"
| "statusTone Idle = ''border-slate-700 bg-slate-900/50''"

record agent_card =
  cd_status :: string
  cd_class :: string
  cd_texts :: "string list"
  cd_select :: string

definition AgentCard :: "agent_snapshot \<Rightarrow> bool \<Rightarrow> agent_card" where
  "AgentCard agent selected =
     \<lparr>cd_status = status_str (sn_status agent),
      cd_class = ''w-full rounded-xl border p-4 text-left transition '' @ statusTone (sn_status agent) @ '' ''
        @ (if selected then ''ring-2 ring-slate-300/40'' else []),
      cd_texts = [sn_displayName agent, status_str (sn_status agent),
        (case sn_currentTask agent of None \<Rightarrow> ''No active task'' | Some t \<Rightarrow> t),
        ''errors: '' @ show_nat (sn_errorCount agent),
        ''approvals: '' @ show_nat (sn_approvalsPending agent),
        ''tools: '' @ show_nat (sn_toolCalls agent)],
      cd_select = sn_agentId agent\<rparr>"

definition agent_cards :: "client \<Rightarrow> agent_card list" where
  "agent_cards c = map (\<lambda>s. AgentCard s (dc_selected c = Some (sn_agentId s))) (db_agents (dc_state c))"

definition pending_queue :: "client \<Rightarrow> string" where
  "pending_queue c =
     (let waiting = filter (\<lambda>s. 0 < sn_approvalsPending s) (db_agents (dc_state c))
      in if waiting = [] then ''No pending approvals.''
         else join '' | '' (map (\<lambda>s. sn_displayName s @ '': '' @ show_nat (sn_approvalsPending s)) waiting))"

fun level_title :: "alert_level \<Rightarrow> string" where
  "level_title Warning = ''WARNING''"
| "level_title Error_level = ''ERROR''"

definition alert_items :: "client \<Rightarrow> (string \<times> string) list" where
  "alert_items c = map (\<lambda>al. (level_title (al_level al), al_message al)) (take 5 (db_alerts (dc_state c)))"

definition viewer_items :: "client \<Rightarrow> (string \<times> string \<times> string) list" where
  "viewer_items c = map (\<lambda>e. (de_timestamp e, de_eventType e,
     (case de_summary e of None \<Rightarrow> ''No summary'' | Some s \<Rightarrow> s))) (selectedEvents c)"

section \<open>The invariant of the page\<close>

text \<open>Request numbers are used once, and the only events that the page still waits for are those of
  the agent that is selected.\<close>

definition page_inv :: "client \<Rightarrow> bool" where
  "page_inv c \<longleftrightarrow> distinct (map fst (dc_live c))
     \<and> list_all (\<lambda>(k, q). k < dc_asked c \<and> (\<forall>a. q = Ask_events a \<longrightarrow> a \<noteq> [] \<and> dc_selected c = Some a)) (dc_live c)
     \<and> (dc_stream c \<or> dc_live c = [])"

lemma client_fields [simp]:
  "dc_live (dispatch c x) = dc_live c" "dc_selected (dispatch c x) = dc_selected c"
  "dc_asked (dispatch c x) = dc_asked c" "dc_stream (dispatch c x) = dc_stream c"
  "dc_state (dispatch c x) = dashboardReducer (dc_state c) x" "selected_id (dispatch c x) = selected_id c"
  "dc_state (settle c k) = dc_state c" "dc_selected (settle c k) = dc_selected c"
  "dc_asked (settle c k) = dc_asked c" "dc_stream (settle c k) = dc_stream c"
  "selected_id (settle c k) = selected_id c" "dc_state (run_effects c) = dc_state c"
  "dc_selected (run_effects c) = dc_selected c" "dc_stream (run_effects c) = dc_stream c"
  "dc_state (setSelectedAgentId c a) = dc_state c" "dc_stream (setSelectedAgentId c a) = dc_stream c"
  "dc_selected (setSelectedAgentId c a) = Some a"
  by (simp_all add: dispatch_def settle_def selected_id_def run_effects_def setSelectedAgentId_def Let_def)

lemma page_inv_effects: "dc_stream c \<Longrightarrow> page_inv (run_effects c)"
  by (auto simp: page_inv_def run_effects_def selected_id_def Let_def split: option.splits)

lemma page_inv_mount: "page_inv mount"
  unfolding mount_def by (rule page_inv_effects) simp

lemma page_inv_dispatch [simp]: "page_inv (dispatch c x) = page_inv c"
  by (simp add: page_inv_def)

lemma page_inv_settle: "page_inv c \<Longrightarrow> page_inv (settle c k)"
  by (auto simp: page_inv_def settle_def list_all_iff distinct_map_filter)

lemma page_inv_select: "page_inv c \<Longrightarrow> dc_stream c \<Longrightarrow> page_inv (setSelectedAgentId c a)"
  by (auto simp: setSelectedAgentId_def intro: page_inv_effects)

lemma live_stream: "page_inv c \<Longrightarrow> map_of (dc_live c) k = Some q \<Longrightarrow> dc_stream c"
  by (auto simp: page_inv_def)

lemma page_inv_step: "page_inv c \<Longrightarrow> page_inv (page_step read c e)"
proof (cases e)
  case (Agents_reply k ags)
  moreover assume "page_inv c"
  ultimately show ?thesis
    by (auto simp: Let_def page_inv_settle live_stream intro!: page_inv_select)
next
  case Unmount
  then show ?thesis by (simp add: page_inv_def)
qed (auto simp: page_inv_settle page_inv_select split: option.split ask.split)

interpretation page: stateful "page_step read" page_inv "\<lambda>_. True" for read
  by unfold_locales (rule page_inv_step)

lemma live_events:
  assumes "page_inv c" "map_of (dc_live c) k = Some (Ask_events a)"
  shows "dc_selected c = Some a \<and> a \<noteq> [] \<and> dc_stream c"
proof -
  have "(k, Ask_events a) \<in> set (dc_live c)" using assms(2) by (rule map_of_SomeD)
  then show ?thesis using assms(1) by (auto simp: page_inv_def list_all_iff)
qed

section \<open>The trace viewer\<close>

lemma events_of_update [simp]:
  "events_of (d\<lparr>db_eventsByAgent := AList.update a es (db_eventsByAgent d)\<rparr>) b = (if a = b then es else events_of d b)"
  by (auto simp: events_of_def update_conv')

text \<open>A reply to a request for events has an effect only while its agent is selected; it then replaces
  the events of that agent, whatever the stream added before, and changes no other agent's.\<close>

lemma events_reply:
  assumes "page_inv c" "map_of (dc_live c) k = Some (Ask_events a)"
  shows "selectedEvents (page_step read c (Events_reply k es)) = es
    \<and> (b \<noteq> a \<longrightarrow> events_of (dc_state (page_step read c (Events_reply k es))) b = events_of (dc_state c) b)
    \<and> dc_selected (page_step read c (Events_reply k es)) = Some a"
  using assms live_events [OF assms] by (simp add: selectedEvents_def selected_id_def)

lemma late_reply_ignored:
  assumes "map_of (dc_live c) k = None"
  shows "page_step read c (Agents_reply k ags) = c" "page_step read c (Events_reply k es) = c"
  using assms by simp_all

text \<open>A change of the selection drops the requests made before.\<close>

lemma selection_drops_requests:
  assumes "page_inv c" "dc_stream c" "dc_selected c \<noteq> Some a" "k < dc_asked c"
  shows "map_of (dc_live (page_step read c (Select a))) k = None"
  using assms by (simp add: setSelectedAgentId_def run_effects_def Let_def)

definition texts_of :: "(stream_message \<Rightarrow> string) \<Rightarrow> stream_message list \<Rightarrow> page_event list" where
  "texts_of print msgs = map (\<lambda>m. Stream_text (message_type m) (print m)) msgs"

lemma stream_texts:
  assumes "\<And>m. m \<in> set msgs \<Longrightarrow> read (message_type m) (print m) = Some m" "dc_stream c"
  shows "foldl (page_step read) c (texts_of print msgs) =
    c\<lparr>dc_state := foldl applyStreamEvent (dc_state c) msgs\<rparr>"
  using assms
proof (induction msgs arbitrary: c)
  case Nil
  then show ?case by (simp add: texts_of_def)
next
  case (Cons m msgs)
  have "page_step read c (Stream_text (message_type m) (print m)) = dispatch c (Stream_event m)"
    using Cons.prems by (simp add: parseStreamPayload_def)
  then show ?case
    using Cons.IH [of "dispatch c (Stream_event m)"] Cons.prems by (simp add: texts_of_def dispatch_def)
qed

lemma events_of_step:
  "length (events_of d a) \<le> 200 \<Longrightarrow>
    events_of (applyStreamEvent d m) a = take 200 (rev (event_of a m) @ events_of d a)"
  by (cases m) (auto simp: Let_def events_of_def update_conv')

lemma events_of_stream:
  "length (events_of d a) \<le> 200 \<Longrightarrow>
    events_of (foldl applyStreamEvent d msgs) a = take 200 (rev (concat (map (event_of a) msgs)) @ events_of d a)"
proof (induction msgs arbitrary: d)
  case Nil
  then show ?case by simp
next
  case (Cons m msgs)
  have "events_of (applyStreamEvent d m) a = take 200 (rev (event_of a m) @ events_of d a)"
    using Cons.prems by (rule events_of_step)
  then show ?case using Cons.IH [of "applyStreamEvent d m"] by (simp add: take_append_take del: take_append)
qed

lemma viewer_stream:
  assumes "page_inv c" "map_of (dc_live c) k = Some (Ask_events a)" "length es \<le> 200"
    and "\<And>m. m \<in> set msgs \<Longrightarrow> read (message_type m) (print m) = Some m"
  shows "selectedEvents (foldl (page_step read) (page_step read c (Events_reply k es)) (texts_of print msgs)) =
    take 200 (rev (concat (map (event_of a) msgs)) @ es)"
proof -
  let ?c = "page_step read c (Events_reply k es)"
  have s: "selectedEvents ?c = es" "dc_selected ?c = Some a" "a \<noteq> []" "dc_stream ?c"
    using events_reply [OF assms(1,2)] live_events [OF assms(1,2)] assms(2) by auto
  then have e: "events_of (dc_state ?c) a = es" by (simp add: selectedEvents_def selected_id_def)
  have "foldl (page_step read) ?c (texts_of print msgs) = ?c\<lparr>dc_state := foldl applyStreamEvent (dc_state ?c) msgs\<rparr>"
    using assms(4) s(4) by (rule stream_texts)
  then show ?thesis
    using s(2,3) e assms(3) by (simp add: selectedEvents_def selected_id_def events_of_stream del: page_step.simps)
qed

section \<open>Agreement with the service\<close>

definition view_of :: "event_columns \<Rightarrow> dashboard_event" where
  "view_of r = (case r of (run, kind, time, summary, raw) \<Rightarrow>
     \<lparr>de_runId = run, de_eventType = kind, de_timestamp = time, de_summary = text_or_null summary\<rparr>)"

lemma event_view_columns: "event_view e = (case columns_of e of (run, kind, time, summary, raw) \<Rightarrow>
    \<lparr>de_runId = run, de_eventType = kind, de_timestamp = time, de_summary = summary\<rparr>)"
  by (simp add: event_view_def columns_of_def)

lemma limit_positive: "0 < event_limit p"
  by (simp add: event_limit_def split: option.split)

lemma listed_events_history:
  assumes "store_inv (sv_store sv)"
  shows "listed_events env sv a p = take (nat (event_limit p)) (map view_of (rev (history (sv_store sv) a)))"
proof -
  have l: "0 \<le> event_limit p" using limit_positive [of p] by simp
  let ?f = "\<lambda>r. case r of (run, kind, time, summary, raw) \<Rightarrow>
    \<lparr>de_runId = run, de_eventType = kind, de_timestamp = time, de_summary = summary\<rparr>"
  have "listed_events env sv a p =
      map ?f (map columns_of (listRecentEvents (jparse env) (sv_store sv) a (event_limit p)))"
    by (simp add: listed_events_def listAgentEvents_def event_view_columns)
  also have "\<dots> = map ?f (map (read_back (jparse env)) (take (nat (event_limit p)) (rev (history (sv_store sv) a))))"
    by (simp only: listRecentEvents_history [OF assms l])
  finally show ?thesis
    by (simp add: take_map view_of_def read_back_def split_def)
qed

lemma summary_not_empty: "summarizeEvent e \<noteq> []"
  by (cases "event_type e") (auto simp: summarizeEvent_def)

lemma view_of_stored: "map view_of (columns_for env a es) = map to_dashboard_event es"
  using summary_not_empty
  by (simp add: view_of_def event_columns_def toStoredEvents_def to_dashboard_event_def text_or_null_def)

lemma take_rev_keep_last: "int n \<le> r \<Longrightarrow> take n (rev (keep_last r xs)) = take n (rev xs)"
  by (cases "xs = []") (auto simp: sql_limit_rev [symmetric] sql_limit_def min_def)

lemma events_of_messages:
  "concat (map (event_of a) (messages_for s es tk)) = (if a = sn_agentId s then map to_dashboard_event es else [])"
  by (auto simp: messages_for_def comp_def)

definition published_since :: "service \<Rightarrow> service \<Rightarrow> stream_message list" where
  "published_since sv sv' = drop (length (sv_published sv)) (sv_published sv')"

lemma published_run:
  "\<exists>ms. sv_published (foldl (ingest env) sv cs) = sv_published sv @ ms
    \<and> concat (map (event_of a) ms) = map to_dashboard_event (agent_events env a cs)"
proof (induction cs arbitrary: sv)
  case Nil
  then show ?case by (simp add: agent_events_def)
next
  case (Cons c cs)
  obtain ms where ms: "sv_published (foldl (ingest env) (ingest env sv c) cs) = sv_published (ingest env sv c) @ ms"
    "concat (map (event_of a) ms) = map to_dashboard_event (agent_events env a cs)"
    using Cons.IH by blast
  show ?case
  proof (cases "call_events env c = []")
    case True
    then show ?thesis using ms by (simp add: ingest_empty agent_events_def)
  next
    case False
    then show ?thesis
      using ms by (simp add: ingest_events agent_events_def events_of_messages)
  qed
qed

lemma published_events:
  "concat (map (event_of a) (published_since sv (foldl (ingest env) sv cs))) =
    map to_dashboard_event (agent_events env a cs)"
  using published_run [of env sv cs a] by (auto simp: published_since_def)

lemma listed_events_run:
  assumes "service_inv sv" "event_limit p \<le> retentionPerAgent (sv_store sv)"
  shows "listed_events env (foldl (ingest env) sv cs) a p =
    take (nat (event_limit p)) (rev (map to_dashboard_event (agent_events env a cs)) @ listed_events env sv a p)"
proof -
  let ?sv = "foldl (ingest env) sv cs" and ?n = "nat (event_limit p)"
  have inv: "store_inv (sv_store sv)" using assms(1) by (simp add: service_inv_def)
  have "service_inv ?sv" using assms(1) by (rule serving.run_inv) (simp add: list_all_iff)
  then have "store_inv (sv_store ?sv)" by (simp add: service_inv_def)
  then have "listed_events env ?sv a p = take ?n (map view_of (rev (history (sv_store ?sv) a)))"
    by (rule listed_events_history)
  also have "\<dots> = map view_of (take ?n (rev (keep_last (retentionPerAgent (sv_store sv))
      (history (sv_store sv) a @ columns_for env a (agent_events env a cs)))))"
    by (simp add: run_history [OF assms(1)] take_map)
  also have "\<dots> = map view_of (take ?n (rev (history (sv_store sv) a @ columns_for env a (agent_events env a cs))))"
    using assms(2) limit_positive [of p] by (subst take_rev_keep_last) auto
  also have "\<dots> = take ?n (rev (map to_dashboard_event (agent_events env a cs))
      @ map view_of (rev (history (sv_store sv) a)))"
    by (simp only: rev_append take_map [symmetric] map_append rev_map [symmetric] view_of_stored)
  also have "\<dots> = take ?n (rev (map to_dashboard_event (agent_events env a cs)) @ listed_events env sv a p)"
    by (simp add: listed_events_history [OF inv])
  finally show ?thesis .
qed

lemma limit_100: "event_limit (Some ''100'') = 100"
  by code_simp

lemma request_answered:
  assumes "utf8_valid a" "CHR ''%'' \<notin> set a" "encodeURIComponent a = Some encoded"
    and "segment encoded = encoded \<or> decodeURIComponent encoded = Some (segment encoded)"
  shows "events_request env segment sv a = Some (segment encoded, listed_events env sv a (Some ''100''))"
proof -
  have there: "decodeURIComponent encoded = Some a" by (rule decode_encoded [OF assms(3)])
  have "decodeURIComponent (segment encoded) = Some a"
    using assms(4)
  proof
    assume "segment encoded = encoded"
    then show ?thesis using there by simp
  next
    assume "decodeURIComponent encoded = Some (segment encoded)"
    then show ?thesis using there decode_plain [OF assms(1,2)] by simp
  qed
  then show ?thesis by (simp add: events_request_def events_route_def assms(3))
qed

lemma viewer_agrees:
  assumes "map_of (dc_live (foldl (page_step read) mount evs)) k = Some (Ask_events a)"
    and "service_inv sv" "100 \<le> retentionPerAgent (sv_store sv)"
    and "\<And>m. m \<in> set (published_since sv (foldl (ingest env) sv cs)) \<Longrightarrow> read (message_type m) (print m) = Some m"
  shows "take 100 (selectedEvents (foldl (page_step read)
      (page_step read (foldl (page_step read) mount evs) (Events_reply k (listed_events env sv a (Some ''100''))))
      (texts_of print (published_since sv (foldl (ingest env) sv cs)))))
    = listed_events env (foldl (ingest env) sv cs) a (Some ''100'')"
proof -
  let ?c = "foldl (page_step read) mount evs" and ?es = "listed_events env sv a (Some ''100'')"
  have inv: "page_inv ?c" using page_inv_mount by (rule page.run_inv) (simp add: list_all_iff)
  have "store_inv (sv_store sv)" using assms(2) by (simp add: service_inv_def)
  then have "length ?es \<le> 200" by (simp add: listed_events_history limit_100)
  with inv assms(1) have "selectedEvents (foldl (page_step read) (page_step read ?c (Events_reply k ?es))
      (texts_of print (published_since sv (foldl (ingest env) sv cs)))) =
    take 200 (rev (concat (map (event_of a) (published_since sv (foldl (ingest env) sv cs)))) @ ?es)"
    by (rule viewer_stream) (rule assms(4))
  then have "selectedEvents (foldl (page_step read) (page_step read ?c (Events_reply k ?es))
      (texts_of print (published_since sv (foldl (ingest env) sv cs)))) =
    take 200 (rev (map to_dashboard_event (agent_events env a cs)) @ ?es)"
    by (simp only: published_events)
  then show ?thesis
    using listed_events_run [OF assms(2), of "Some ''100''" env cs a] assms(3)
    by (simp add: limit_100 min_def del: page_step.simps take_append)
qed

text \<open>
  C40. The trace viewer follows the store: on any page that was reached from a fresh load, when the answer
  to the request for the selected agent's events arrives and the messages published since are
  delivered after it, the newest 100 events that are shown are the ones that the same request would
  now fetch, after any number of ingested batches, for a service that retains at least 100 events per agent.
  The page encodes the id of the agent and the route decodes what it is given; the id is a well-formed
  text without a percent sign, and the web framework gives the route the encoded id as it was sent, or
  decoded. Both requests are then answered.
\<close>

theorem viewer_agrees_with_store:
  assumes "map_of (dc_live (foldl (page_step read) mount evs)) k = Some (Ask_events a)"
    and "service_inv sv" "100 \<le> retentionPerAgent (sv_store sv)"
    and "\<And>m. m \<in> set (published_since sv (foldl (ingest env) sv cs)) \<Longrightarrow> read (message_type m) (print m) = Some m"
    and "utf8_valid a" "CHR ''%'' \<notin> set a" "encodeURIComponent a = Some encoded"
    and "segment encoded = encoded \<or> decodeURIComponent encoded = Some (segment encoded)"
  shows "events_request env segment sv a \<noteq> None
     \<and> map_option snd (events_request env segment (foldl (ingest env) sv cs) a)
       = Some (take 100 (selectedEvents (foldl (page_step read)
           (page_step read (foldl (page_step read) mount evs) (reply_of k (events_request env segment sv a)))
           (texts_of print (published_since sv (foldl (ingest env) sv cs))))))"
  using viewer_agrees [where print = print, OF assms(1-4)]
  by (simp add: request_answered [where segment = segment, OF assms(5-8)] reply_of_def del: page_step.simps)

text \<open>The order matters: a reply that was computed before a batch and arrives after its messages
  replaces them by the older events.\<close>

lemma late_reply_overwrites:
  assumes "page_inv c" "map_of (dc_live c) k = Some (Ask_events a)"
    and "\<And>m. m \<in> set msgs \<Longrightarrow> read (message_type m) (print m) = Some m"
  shows "selectedEvents (page_step read (foldl (page_step read) c (texts_of print msgs)) (Events_reply k es)) = es"
proof -
  have s: "dc_stream c" using live_events [OF assms(1,2)] by simp
  have "foldl (page_step read) c (texts_of print msgs) = c\<lparr>dc_state := foldl applyStreamEvent (dc_state c) msgs\<rparr>"
    using assms(3) s by (rule stream_texts)
  moreover have "page_inv (c\<lparr>dc_state := d\<rparr>)" for d using assms(1) by (simp add: page_inv_def)
  ultimately show ?thesis
    using events_reply [of "c\<lparr>dc_state := foldl applyStreamEvent (dc_state c) msgs\<rparr>" k a read es]
      assms(2) by (simp del: page_step.simps)
qed

definition sample_service :: service where
  "sample_service = new_service (store_create None (Some 500) None) None"

definition sample_messages :: "stream_message list" where
  "sample_messages = published_since sample_service (foldl (ingest sample_env) sample_service [sample_call])"

definition sample_read :: "stream_type \<Rightarrow> string \<Rightarrow> stream_message option" where
  "sample_read t s = List.find (\<lambda>m. message_type m = t) sample_messages"

lemma sample_messages_read: "m \<in> set sample_messages \<Longrightarrow> sample_read (message_type m) s = Some m"
proof -
  assume m: "m \<in> set sample_messages"
  obtain snapshot alerts where p: "sample_messages = Agent_updated snapshot
      # map (\<lambda>e. New_event (call_agent sample_call) (to_dashboard_event e)) (call_events sample_env sample_call) @ alerts"
    and "alerts = [] \<or> (\<exists>al. alerts = [Alert al])"
    unfolding sample_messages_def published_since_def
    by (simp add: ingest_events sample_call_events messages_for_def)
  then show ?thesis using m unfolding sample_read_def p by (auto simp: sample_call_events)
qed

lemma sample_page:
  "map_of (dc_live (foldl (page_step sample_read) mount [Select ''/w''])) 2 = Some (Ask_events ''/w'')"
  by (simp add: mount_def run_effects_def setSelectedAgentId_def selected_id_def Let_def)

lemma sample_service_inv: "service_inv sample_service"
  unfolding sample_service_def by (rule service_inv_new) simp

lemma sample_encoded: "encodeURIComponent ''/w'' = Some ''%2Fw''"
  by code_simp

theorem viewer_agrees_with_store_witness:
  "map_option snd (events_request sample_env (\<lambda>s. s) (foldl (ingest sample_env) sample_service [sample_call]) ''/w'')
    = Some (take 100 (selectedEvents (foldl (page_step sample_read)
        (page_step sample_read (foldl (page_step sample_read) mount [Select ''/w''])
          (reply_of 2 (events_request sample_env (\<lambda>s. s) sample_service ''/w'')))
        (texts_of (\<lambda>_. []) (published_since sample_service (foldl (ingest sample_env) sample_service [sample_call]))))))"
proof -
  have "utf8_valid ''/w''" "CHR ''%'' \<notin> set ''/w''" by code_simp+
  then show ?thesis
    using viewer_agrees_with_store [OF sample_page sample_service_inv _ _ _ _ sample_encoded,
        where env = sample_env and print = "\<lambda>_. []" and segment = "\<lambda>s. s" and cs = "[sample_call]"] sample_messages_read
    by (simp add: sample_messages_def sample_service_def del: page_step.simps)
qed

end
