(* ===== verification/Rubric.thy ===== *)
theory Rubric
  imports Prelude
begin

text \<open>
  TasteKit core, interview/rubric.ts and interview/universal-rubric.ts: the rubric of an
  interview, its depths, the seven universal dimensions, and the dimensions an interview of a
  given depth explores. Text is kept byte by byte, weights are exact.
\<close>

named_theorems rubric_data \<open>the fields of the rubric data that the interview engine branches on\<close>

section \<open>Depths\<close>

datatype depth = Quick | Guided | Operator

fun depth_rank :: "depth \<Rightarrow> nat" where
  "depth_rank Quick = 0"
| "depth_rank Guided = 1"
| "depth_rank Operator = 2"

text \<open>The depths are ordered: each explores what the one before explores, and more.\<close>

instantiation depth :: linorder
begin

definition less_eq_depth :: "depth \<Rightarrow> depth \<Rightarrow> bool" where
  "less_eq_depth a b \<longleftrightarrow> depth_rank a \<le> depth_rank b"

definition less_depth :: "depth \<Rightarrow> depth \<Rightarrow> bool" where
  "less_depth a b \<longleftrightarrow> depth_rank a < depth_rank b"

instance
proof
  fix a b :: depth
  show "a \<le> b \<Longrightarrow> b \<le> a \<Longrightarrow> a = b"
    by (cases a; cases b) (simp_all add: less_eq_depth_def)
qed (auto simp: less_eq_depth_def less_depth_def)

end

section \<open>Rubrics\<close>

datatype constitution_section = Principles | Tone | Tradeoffs | Evidence_policy | Taboos | Domain_specific

record cascade =
  cascade_target :: string
  cascade_weight :: rat
  cascade_condition :: "string option"

record rubric_dimension =
  dim_id :: string
  dim_name :: string
  dim_description :: string
  maps_to :: "constitution_section list"
  depth_tiers :: "depth list"
  exploration_hints :: "string list"
  coverage_criteria :: "string list"
  sub_areas :: "string list option"
  cascade_to :: "cascade list option"

record domain_rubric =
  domain_id :: string
  rubric_version :: string
  interview_goal :: string
  dimensions :: "rubric_dimension list"
  includes_universal :: bool

text \<open>The targets and weights of a dimension's cascades.\<close>

definition cascades :: "rubric_dimension \<Rightarrow> (string \<times> rat) list" where
  "cascades d = (case cascade_to d of None \<Rightarrow> []
     | Some cs \<Rightarrow> map (\<lambda>c. (cascade_target c, cascade_weight c)) cs)"

section \<open>The universal dimensions\<close>

definition universal_core_purpose :: rubric_dimension where
  \<open>universal_core_purpose = \<lparr>
    dim_id = ''core_purpose'',
    dim_name = ''Core Purpose & Goals'',
    dim_description = ''What the user wants to achieve with their agent. Their primary mission, success criteria, and the problem they are solving.'',
    maps_to = [Principles],
    depth_tiers = [Quick, Guided, Operator],
    exploration_hints = [''Start broad: what problem are they solving?'',
     ''Dig into what success looks like concretely'',
     ''Understand if this is personal, professional, or both'',
     ''Listen for implicit principles in how they describe their goals''],
    coverage_criteria = [''Clear primary goal stated'',
     ''At least one success metric or criteria identified'',
     ''Context for why this matters to them''],
    sub_areas = None,
    cascade_to = Some [\<lparr>cascade_target = ''guiding_principles'', cascade_weight = 1 / 5, cascade_condition = None\<rparr>]\<rparr>\<close>

definition universal_guiding_principles :: rubric_dimension where
  \<open>universal_guiding_principles = \<lparr>
    dim_id = ''guiding_principles'',
    dim_name = ''Guiding Principles & Values'',
    dim_description = ''The non-negotiable principles that should guide agent behavior. What matters most when making tradeoff decisions.'',
    maps_to = [Principles],
    depth_tiers = [Quick, Guided, Operator],
    exploration_hints = [''Ask about past experiences where an AI did something they hated'',
     ''Ask about what "good" looks like vs. "great"'',
     ''Probe for implicit values (e.g., if they say "just get it done" that implies speed over perfection)'',
     ''At operator depth: ask for priority ordering between conflicting principles''],
    coverage_criteria = [''At least 2-3 distinct principles identified'',
     ''Rationale understood for each'',
     ''Priority ordering established (at guided+ depth)''],
    sub_areas = None,
    cascade_to = Some [\<lparr>cascade_target = ''communication_tone'', cascade_weight = 3 / 20, cascade_condition = None\<rparr>]\<rparr>\<close>

definition universal_communication_tone :: rubric_dimension where
  \<open>universal_communication_tone = \<lparr>
    dim_id = ''communication_tone'',
    dim_name = ''Communication Style & Tone'',
    dim_description = ''How the agent should communicate. Voice, register, vocabulary level, formatting preferences.'',
    maps_to = [Tone],
    depth_tiers = [Quick, Guided, Operator],
    exploration_hints = [''Ask them to describe the voice in 3-5 adjectives'',
     ''Ask for examples of communication they admire vs. what annoys them'',
     ''Probe formatting: do they want bullet points? Headers? Prose?'',
     ''At operator depth: explore context-specific tone differences''],
    coverage_criteria = [''Voice descriptors captured'',
     ''At least one "never do" for tone'',
     ''Formatting preference expressed''],
    sub_areas = None,
    cascade_to = None\<rparr>\<close>

definition universal_autonomy_boundaries :: rubric_dimension where
  \<open>universal_autonomy_boundaries = \<lparr>
    dim_id = ''autonomy_boundaries'',
    dim_name = ''Autonomy & Decision Boundaries'',
    dim_description = ''How much latitude the agent has. When to ask vs. when to act. Risk tolerance.'',
    maps_to = [Tradeoffs, Taboos],
    depth_tiers = [Quick, Guided, Operator],
    exploration_hints = [''Frame as a spectrum: "always ask" to "fully autonomous"'',
     ''Probe with concrete scenarios: "what if the agent encounters X?"'',
     ''Understand their risk tolerance for different action types'',
     ''At operator depth: explore specific escalation triggers''],
    coverage_criteria = [''General autonomy level established'',
     ''At least one escalation scenario identified'',
     ''Risk tolerance direction clear''],
    sub_areas = None,
    cascade_to = Some [\<lparr>cascade_target = ''hard_boundaries'', cascade_weight = 3 / 10, cascade_condition = Some ''Strong autonomy preference implies specific boundary needs''\<rparr>]\<rparr>\<close>

definition universal_accuracy_evidence :: rubric_dimension where
  \<open>universal_accuracy_evidence = \<lparr>
    dim_id = ''accuracy_evidence'',
    dim_name = ''Accuracy & Evidence Standards'',
    dim_description = ''How the agent should handle facts, uncertainty, citations, and claims.'',
    maps_to = [Evidence_policy, Tradeoffs],
    depth_tiers = [Guided, Operator],
    exploration_hints = [''Ask about accuracy vs. speed preference'',
     ''Probe when citations are needed vs. not'',
     ''Ask how the agent should express uncertainty'',
     ''At operator depth: domain-specific evidence requirements''],
    coverage_criteria = [''Accuracy/speed tradeoff positioned'',
     ''Citation expectations set'',
     ''Uncertainty language preference expressed''],
    sub_areas = None,
    cascade_to = Some [\<lparr>cascade_target = ''hard_boundaries'', cascade_weight = 3 / 20, cascade_condition = Some ''Evidence standards hint at safety boundaries''\<rparr>]\<rparr>\<close>

definition universal_hard_boundaries :: rubric_dimension where
  \<open>universal_hard_boundaries = \<lparr>
    dim_id = ''hard_boundaries'',
    dim_name = ''Hard Boundaries & Taboos'',
    dim_description = ''Things the agent must never do. Topics to avoid. Actions that always require human approval.'',
    maps_to = [Taboos],
    depth_tiers = [Guided, Operator],
    exploration_hints = [''Ask about past negative experiences with AI agents'',
     ''Probe for sensitive topics in their domain'',
     ''Ask what would make them lose trust in the agent'',
     ''At operator depth: distinguish "never do" from "always escalate"''],
    coverage_criteria = [''At least one "never do" rule identified'',
     ''At least one escalation trigger identified''],
    sub_areas = None,
    cascade_to = None\<rparr>\<close>

definition universal_cost_resource_sensitivity :: rubric_dimension where
  \<open>universal_cost_resource_sensitivity = \<lparr>
    dim_id = ''cost_resource_sensitivity'',
    dim_name = ''Cost & Resource Sensitivity'',
    dim_description = ''How cost-sensitive they are. Token budget awareness. Preference for efficiency vs. thoroughness.'',
    maps_to = [Tradeoffs],
    depth_tiers = [Operator],
    exploration_hints = [''Ask about budget constraints or token awareness'',
     ''Probe whether they prefer shorter responses to save cost'',
     ''Understand if they have rate limits or usage caps''],
    coverage_criteria = [''Cost sensitivity level established''],
    sub_areas = None,
    cascade_to = None\<rparr>\<close>

definition UNIVERSAL_DIMENSIONS :: "rubric_dimension list" where
  "UNIVERSAL_DIMENSIONS = [
    universal_core_purpose, universal_guiding_principles, universal_communication_tone,
    universal_autonomy_boundaries, universal_accuracy_evidence, universal_hard_boundaries,
    universal_cost_resource_sensitivity]"

lemma universal_facts [rubric_data]:
  "dim_id universal_core_purpose = ''core_purpose''"
  "depth_tiers universal_core_purpose = [Quick, Guided, Operator]"
  "cascades universal_core_purpose = [(''guiding_principles'', 1 / 5)]"
  "dim_id universal_guiding_principles = ''guiding_principles''"
  "depth_tiers universal_guiding_principles = [Quick, Guided, Operator]"
  "cascades universal_guiding_principles = [(''communication_tone'', 3 / 20)]"
  "dim_id universal_communication_tone = ''communication_tone''"
  "depth_tiers universal_communication_tone = [Quick, Guided, Operator]"
  "cascades universal_communication_tone = []"
  "dim_id universal_autonomy_boundaries = ''autonomy_boundaries''"
  "depth_tiers universal_autonomy_boundaries = [Quick, Guided, Operator]"
  "cascades universal_autonomy_boundaries = [(''hard_boundaries'', 3 / 10)]"
  "dim_id universal_accuracy_evidence = ''accuracy_evidence''"
  "depth_tiers universal_accuracy_evidence = [Guided, Operator]"
  "cascades universal_accuracy_evidence = [(''hard_boundaries'', 3 / 20)]"
  "dim_id universal_hard_boundaries = ''hard_boundaries''"
  "depth_tiers universal_hard_boundaries = [Guided, Operator]"
  "cascades universal_hard_boundaries = []"
  "dim_id universal_cost_resource_sensitivity = ''cost_resource_sensitivity''"
  "depth_tiers universal_cost_resource_sensitivity = [Operator]"
  "cascades universal_cost_resource_sensitivity = []"
  by (simp_all add: cascades_def universal_core_purpose_def universal_guiding_principles_def universal_communication_tone_def universal_autonomy_boundaries_def universal_accuracy_evidence_def universal_hard_boundaries_def universal_cost_resource_sensitivity_def)

section \<open>Selection by depth\<close>

definition getDimensionsForDepth ::
  "domain_rubric \<Rightarrow> depth \<Rightarrow> rubric_dimension list \<Rightarrow> rubric_dimension list" where
  "getDimensionsForDepth rubric depth universalDimensions =
     (let domainDims = filter (\<lambda>d. depth \<in> set (depth_tiers d)) (dimensions rubric);
          universalDims = (if includes_universal rubric
            then filter (\<lambda>d. depth \<in> set (depth_tiers d)) universalDimensions else [])
      in universalDims @ domainDims)"

end
