(* ===== verification/Interview.thy ===== *)
theory Interview
  imports Rubric Prompts Json
begin

text \<open>
  TasteKit core, interview/interviewer.ts and interview/session.ts: the interview engine. The
  model is asked through \<open>llm\<close>, a function of the conversation (every request of a run has a
  longer conversation than the one before, so any sequence of answers is one); it may fail.
  Clock readings and \<open>JSON.parse\<close> are fields of \<open>interview_env\<close>. The metadata that the model
  writes is untyped JSON and is kept as such: a \<open>confidence_delta\<close> that is no number is added and
  compared the way JavaScript does it.
\<close>

section \<open>Values of any type\<close>

text \<open>What the operators of JavaScript rest on: the rounding of a sum to a double, \<open>String(v)\<close> for a
  value that is no string, and the two comparisons of \<open>Number(s)\<close> with a number (false for \<open>NaN\<close>).\<close>

record js =
  js_double :: "rat \<Rightarrow> rat"
  js_text :: "json \<Rightarrow> string"
  js_str_above :: "string \<Rightarrow> rat \<Rightarrow> bool"
  js_str_from :: "string \<Rightarrow> rat \<Rightarrow> bool"

text \<open>Rounding keeps the order, and what is rounded stays; 0 and 1.5 are doubles, and 0.3 is not
  rounded to 0.\<close>

definition rounding :: "(rat \<Rightarrow> rat) \<Rightarrow> bool" where
  "rounding r \<longleftrightarrow> mono r \<and> (\<forall>x. r (r x) = r x) \<and> r 0 = 0 \<and> r (3 / 2) = 3 / 2
     \<and> 0 < r (3 / 10)"

fun js_prim :: "json \<Rightarrow> rat option" where
  "js_prim (JNum x) = Some x"
| "js_prim (JBool b) = Some (if b then 1 else 0)"
| "js_prim JNull = Some 0"
| "js_prim _ = None"

definition numeric :: "json \<Rightarrow> bool" where
  "numeric v \<longleftrightarrow> js_prim v \<noteq> None"

definition js_string :: "js \<Rightarrow> json \<Rightarrow> string" where
  "js_string js v = (case v of JStr s \<Rightarrow> s | _ \<Rightarrow> js_text js v)"

text \<open>\<open>a + b\<close>: a sum, or a concatenation as soon as one side is a string, an array or an object.\<close>

definition js_plus :: "js \<Rightarrow> json \<Rightarrow> json \<Rightarrow> json" where
  "js_plus js a b = (case (js_prim a, js_prim b) of
     (Some x, Some y) \<Rightarrow> JNum (js_double js (x + y))
   | _ \<Rightarrow> JStr (js_string js a @ js_string js b))"

text \<open>\<open>v > x\<close> and \<open>v >= x\<close>.\<close>

definition js_above :: "js \<Rightarrow> json \<Rightarrow> rat \<Rightarrow> bool" where
  "js_above js v x = (case js_prim v of Some y \<Rightarrow> x < y | None \<Rightarrow> js_str_above js (js_string js v) x)"

definition js_from :: "js \<Rightarrow> json \<Rightarrow> rat \<Rightarrow> bool" where
  "js_from js v x = (case js_prim v of Some y \<Rightarrow> x \<le> y | None \<Rightarrow> js_str_from js (js_string js v) x)"

section \<open>State\<close>

datatype cov_status = Not_started | In_progress | Covered | Skipped

record signal =
  sg_weight :: json
  sg_source :: json
  sg_turn :: nat
  sg_excerpt :: "json option"

record coverage =
  cv_id :: string
  cv_status :: cov_status
  cv_confidence :: "json option"
  cv_threshold :: "rat option"
  cv_signals :: "signal list option"
  cv_anti_signals :: "json list option"
  cv_summary :: "json option"
  cv_facts :: "json option"
  cv_relevant_turns :: "nat list"

datatype speaker = Interviewer | User

record turn =
  tn_number :: nat
  tn_role :: speaker
  tn_content :: string
  tn_timestamp :: string

record interview =
  iv_transcript :: "turn list"
  iv_coverage :: "coverage list"
  iv_is_complete :: bool
  iv_turn_count :: nat
  iv_answers :: "json option"

datatype llm_role = System_role | User_role | Assistant_role

type_synonym llm_message = "llm_role \<times> string"

record interview_env =
  llm :: "llm_message list \<Rightarrow> string option"
  ie_parse :: "string \<Rightarrow> json option"
  ie_js :: js
  ie_now :: "nat \<Rightarrow> string"

abbreviation ie_text :: "interview_env \<Rightarrow> json \<Rightarrow> string" where
  "ie_text env \<equiv> js_text (ie_js env)"

text \<open>The engine with what it tells its callbacks: the messages shown and the states saved.\<close>

record engine =
  en_rubric :: domain_rubric
  en_depth :: depth
  en_dimensions :: "rubric_dimension list"
  en_state :: interview
  en_history :: "llm_message list"
  en_shown :: "string list"
  en_saved :: "interview list"

definition fresh_coverage :: "rubric_dimension \<Rightarrow> coverage" where
  "fresh_coverage d = \<lparr>cv_id = dim_id d, cv_status = Not_started, cv_confidence = Some (JNum 0),
     cv_threshold = Some (3 / 2), cv_signals = Some [], cv_anti_signals = Some [],
     cv_summary = None, cv_facts = None, cv_relevant_turns = []\<rparr>"

definition fresh_interview :: "rubric_dimension list \<Rightarrow> interview" where
  "fresh_interview ds = \<lparr>iv_transcript = [], iv_coverage = map fresh_coverage ds,
     iv_is_complete = False, iv_turn_count = 0, iv_answers = None\<rparr>"

definition rebuildHistory :: "interview \<Rightarrow> llm_message list" where
  "rebuildHistory st =
     map (\<lambda>t. (if tn_role t = Interviewer then Assistant_role else User_role, tn_content t)) (iv_transcript st)"

definition new_interviewer ::
  "domain_rubric \<Rightarrow> depth \<Rightarrow> rubric_dimension list \<Rightarrow> interview option \<Rightarrow> engine" where
  "new_interviewer rubric depth universal resumeFrom =
     (let ds = getDimensionsForDepth rubric depth universal in
      \<lparr>en_rubric = rubric, en_depth = depth, en_dimensions = ds,
        en_state = (case resumeFrom of Some st \<Rightarrow> st | None \<Rightarrow> fresh_interview ds),
        en_history = (case resumeFrom of Some st \<Rightarrow> rebuildHistory st | None \<Rightarrow> []),
        en_shown = [], en_saved = []\<rparr>)"

section \<open>Reading a response\<close>

record update =
  up_status :: "json option"
  up_summary :: "json option"
  up_facts :: "json option"
  up_turn :: nat
  up_delta :: "json option"
  up_source :: "json option"
  up_anti :: "json option"

definition cov_open :: string where
  "cov_open = ''<!--COVERAGE''"

definition cov_close :: string where
  "cov_close = ''COVERAGE-->''"

text \<open>The leftmost coverage block: what is before it, its body, and what is after it.\<close>

definition coverage_block :: "string \<Rightarrow> (string \<times> string \<times> string) option" where
  "coverage_block raw =
     (case cut_at cov_open raw of None \<Rightarrow> None
      | Some (before, rest) \<Rightarrow>
          (case cut_at cov_close rest of None \<Rightarrow> None
           | Some (body, after) \<Rightarrow> Some (before, body, after)))"

text \<open>\<open>Object.entries\<close>.\<close>

fun entries_of :: "json \<Rightarrow> (string \<times> json) list" where
  "entries_of (JObj kvs) = kvs"
| "entries_of (JArr xs) = map (\<lambda>(i, x). (show_nat i, x)) (List.enumerate 0 xs)"
| "entries_of (JStr s) = map (\<lambda>(i, c). (show_nat i, JStr [c])) (List.enumerate 0 s)"
| "entries_of _ = []"

definition read_update :: "nat \<Rightarrow> json \<Rightarrow> update" where
  "read_update turn u = \<lparr>up_status = jfield ''status'' u, up_summary = jfield ''summary'' u,
     up_facts = jfield ''facts'' u, up_turn = turn, up_delta = jfield ''confidence_delta'' u,
     up_source = jfield ''signal_source'' u, up_anti = jfield ''anti_signals'' u\<rparr>"

text \<open>The loop over the entries; a \<open>null\<close> entry throws and keeps what was read before it.\<close>

fun read_updates :: "nat \<Rightarrow> (string \<times> json) list \<Rightarrow> (string \<times> update) list \<times> bool" where
  "read_updates turn [] = ([], True)"
| "read_updates turn ((k, u) # us) =
     (if u = JNull then ([], False)
      else (case read_updates turn us of (r, ok) \<Rightarrow> ((k, read_update turn u) # r, ok)))"

definition parsed_metadata :: "nat \<Rightarrow> json \<Rightarrow> (string \<times> update) list \<times> bool" where
  "parsed_metadata turn parsed =
     (if parsed = JNull then ([], False)
      else
        let (us, ok) = (if truthy (jfield ''dimension_updates'' parsed)
               then read_updates turn (entries_of (the (jfield ''dimension_updates'' parsed)))
               else ([], True))
        in (us, ok \<and> truthy (jfield ''should_complete'' parsed)))"

definition parseResponse ::
  "interview_env \<Rightarrow> nat \<Rightarrow> string \<Rightarrow> string \<times> (string \<times> update) list \<times> bool" where
  "parseResponse env turn raw =
     (case coverage_block raw of
        None \<Rightarrow> (trim raw, [], False)
      | Some (before, body, after) \<Rightarrow>
          (trim (before @ after),
           (case ie_parse env (trim body) of None \<Rightarrow> ([], False) | Some parsed \<Rightarrow> parsed_metadata turn parsed)))"

section \<open>Coverage\<close>

text \<open>\<open>delta && delta > 0 && source !== 'anti'\<close>.\<close>

definition positive_delta :: "js \<Rightarrow> update \<Rightarrow> json option" where
  "positive_delta js u =
     (case up_delta u of
        None \<Rightarrow> None
      | Some v \<Rightarrow> if truthy (Some v) \<and> js_above js v 0 \<and> up_source u \<noteq> Some (JStr ''anti'') then Some v else None)"

definition nullish :: "'a option \<Rightarrow> 'a \<Rightarrow> 'a" where
  "nullish x d = (case x of None \<Rightarrow> d | Some y \<Rightarrow> y)"

definition source_of :: "update \<Rightarrow> json" where
  "source_of u = (case up_source u of None \<Rightarrow> JStr ''explicit'' | Some JNull \<Rightarrow> JStr ''explicit'' | Some s \<Rightarrow> s)"

text \<open>\<open>existing.confidence ?? 0\<close>.\<close>

definition confidence_of :: "coverage \<Rightarrow> json" where
  "confidence_of c = (case cv_confidence c of None \<Rightarrow> JNum 0 | Some JNull \<Rightarrow> JNum 0 | Some v \<Rightarrow> v)"

definition add_signal :: "js \<Rightarrow> signal \<Rightarrow> coverage \<Rightarrow> coverage" where
  "add_signal js s c = c\<lparr>cv_signals := Some (nullish (cv_signals c) [] @ [s]),
     cv_confidence := Some (js_plus js (confidence_of c) (sg_weight s))\<rparr>"

text \<open>\<open>existing.confidence >= x\<close>, false when the confidence is undefined.\<close>

definition conf_ge :: "js \<Rightarrow> coverage \<Rightarrow> rat \<Rightarrow> bool" where
  "conf_ge js c x = (case cv_confidence c of None \<Rightarrow> False | Some v \<Rightarrow> js_from js v x)"

definition threshold_of :: "coverage \<Rightarrow> rat" where
  "threshold_of c = nullish (cv_threshold c) (3 / 2)"

definition with_signal :: "js \<Rightarrow> nat \<Rightarrow> update \<Rightarrow> coverage \<Rightarrow> coverage" where
  "with_signal js turn u c =
     (case positive_delta js u of None \<Rightarrow> c
      | Some x \<Rightarrow> add_signal js \<lparr>sg_weight = x, sg_source = source_of u, sg_turn = turn, sg_excerpt = up_summary u\<rparr> c)"

definition with_anti :: "update \<Rightarrow> coverage \<Rightarrow> coverage" where
  "with_anti u c =
     (case up_anti u of
        Some (JArr xs) \<Rightarrow> if xs \<noteq> [] then c\<lparr>cv_anti_signals := Some (nullish (cv_anti_signals c) [] @ xs)\<rparr> else c
      | _ \<Rightarrow> c)"

definition derive_status :: "js \<Rightarrow> coverage \<Rightarrow> coverage" where
  "derive_status js c =
     (if conf_ge js c (threshold_of c) then c\<lparr>cv_status := Covered\<rparr>
      else if conf_ge js c (js_double js (3 / 10)) then c\<lparr>cv_status := In_progress\<rparr> else c)"

definition with_notes :: "update \<Rightarrow> coverage \<Rightarrow> coverage" where
  "with_notes u c =
     c\<lparr>cv_status := (if up_status u = Some (JStr ''skipped'') then Skipped else cv_status c),
       cv_summary := (if truthy (up_summary u) then up_summary u else cv_summary c),
       cv_facts := (if truthy (up_facts u) then up_facts u else cv_facts c),
       cv_relevant_turns := cv_relevant_turns c @ [up_turn u]\<rparr>"

definition apply_update :: "js \<Rightarrow> nat \<Rightarrow> update \<Rightarrow> coverage \<Rightarrow> coverage" where
  "apply_update js turn u c = with_notes u (derive_status js (with_anti u (with_signal js turn u c)))"

definition resolves :: "js \<Rightarrow> nat \<Rightarrow> update \<Rightarrow> coverage \<Rightarrow> bool" where
  "resolves js turn u c \<longleftrightarrow> (let c' = with_anti u (with_signal js turn u c) in conf_ge js c' (threshold_of c'))"

definition apply_cascade :: "js \<Rightarrow> nat \<Rightarrow> string \<Rightarrow> rat \<Rightarrow> coverage \<Rightarrow> coverage" where
  "apply_cascade js turn from_id w c =
     (if cv_status c = Covered \<or> cv_status c = Skipped then c
      else
        let c' = add_signal js \<lparr>sg_weight = JNum w, sg_source = JStr ''inferred'', sg_turn = turn,
                   sg_excerpt = Some (JStr (''Cascaded from '' @ from_id))\<rparr> c
        in if conf_ge js c' (threshold_of c') then c'\<lparr>cv_status := Covered\<rparr>
           else if conf_ge js c' (js_double js (3 / 10)) \<and> cv_status c' = Not_started then c'\<lparr>cv_status := In_progress\<rparr>
           else c')"

abbreviation on_dim :: "string \<Rightarrow> (coverage \<Rightarrow> coverage) \<Rightarrow> coverage list \<Rightarrow> coverage list" where
  "on_dim k f cs \<equiv> update_first (\<lambda>c. cv_id c = k) f cs"

definition update_step ::
  "js \<Rightarrow> nat \<Rightarrow> coverage list \<times> string list \<Rightarrow> string \<times> update \<Rightarrow> coverage list \<times> string list" where
  "update_step js turn acc ku =
     (case (acc, ku) of ((cs, resolved), (k, u)) \<Rightarrow>
        (case List.find (\<lambda>c. cv_id c = k) cs of
           None \<Rightarrow> (cs, resolved)
         | Some existing \<Rightarrow>
             (on_dim k (apply_update js turn u) cs,
              if resolves js turn u existing then resolved @ [k] else resolved)))"

definition cascade_step ::
  "js \<Rightarrow> rubric_dimension list \<Rightarrow> nat \<Rightarrow> coverage list \<Rightarrow> string \<Rightarrow> coverage list" where
  "cascade_step js ds turn cs k =
     (case List.find (\<lambda>d. dim_id d = k) ds of
        None \<Rightarrow> cs
      | Some d \<Rightarrow> foldl (\<lambda>cs (t, w). on_dim t (apply_cascade js turn k w) cs) cs (cascades d))"

definition applyCascades ::
  "js \<Rightarrow> rubric_dimension list \<Rightarrow> nat \<Rightarrow> string list \<Rightarrow> coverage list \<Rightarrow> coverage list" where
  "applyCascades js ds turn resolved cs = foldl (cascade_step js ds turn) cs resolved"

definition applyCoverageUpdates ::
  "js \<Rightarrow> rubric_dimension list \<Rightarrow> nat \<Rightarrow> (string \<times> update) list \<Rightarrow> coverage list \<Rightarrow> coverage list" where
  "applyCoverageUpdates js ds turn updates cs =
     (case foldl (update_step js turn) (cs, []) updates of
        (cs', resolved) \<Rightarrow> applyCascades js ds turn resolved cs')"

definition dim_done :: "js \<Rightarrow> coverage \<Rightarrow> bool" where
  "dim_done js c \<longleftrightarrow> cv_status c = Covered \<or> cv_status c = Skipped
     \<or> js_from js (confidence_of c) (threshold_of c)"

definition allDimensionsCovered :: "js \<Rightarrow> interview \<Rightarrow> bool" where
  "allDimensionsCovered js st = list_all (dim_done js) (iv_coverage st)"

section \<open>Prompts\<close>

fun depth_str :: "depth \<Rightarrow> string" where
  "depth_str Quick = ''quick''"
| "depth_str Guided = ''guided''"
| "depth_str Operator = ''operator''"

fun cov_status_str :: "cov_status \<Rightarrow> string" where
  "cov_status_str Not_started = ''not_started''"
| "cov_status_str In_progress = ''in_progress''"
| "cov_status_str Covered = ''covered''"
| "cov_status_str Skipped = ''skipped''"

definition dimension_line :: "coverage list \<Rightarrow> rubric_dimension \<Rightarrow> string" where
  "dimension_line cs d =
     (let st = (case List.find (\<lambda>c. cv_id c = dim_id d) cs of None \<Rightarrow> Not_started | Some c \<Rightarrow> cv_status c)
      in ''- **'' @ dim_name d @ ''** ('' @ dim_id d @ '') ['' @ cov_status_str st @ '']: '' @ dim_description d
         @ [nl] @ ''  Hints: '' @ join ''; '' (exploration_hints d)
         @ [nl] @ ''  Covered when: '' @ join ''; '' (coverage_criteria d))"

fun depth_guide :: "depth \<Rightarrow> string" where
  "depth_guide Quick = ''Be efficient. Cover essentials and move on. 5-8 exchanges total.''"
| "depth_guide Operator = ''Go deep. Ask for examples. Explore edge cases. Challenge assumptions. 15-25 exchanges.''"
| "depth_guide Guided = ''Be thorough but natural. 8-15 exchanges.''"

definition buildSystemPrompt :: "engine \<Rightarrow> string" where
  "buildSystemPrompt en =
     interviewer_prompt_1 @ domain_id (en_rubric en)
     @ interviewer_prompt_2 @ interview_goal (en_rubric en)
     @ interviewer_prompt_3 @ depth_str (en_depth en)
     @ interviewer_prompt_4 @ join [nl, nl] (map (dimension_line (iv_coverage (en_state en))) (en_dimensions en))
     @ interviewer_prompt_5 @ depth_guide (en_depth en)
     @ interviewer_prompt_6"

section \<open>The run\<close>

definition addTurn :: "interview_env \<Rightarrow> speaker \<Rightarrow> string \<Rightarrow> interview \<Rightarrow> interview" where
  "addTurn env role text st =
     (let n = iv_turn_count st + 1 in
      st\<lparr>iv_turn_count := n,
         iv_transcript := iv_transcript st
           @ [\<lparr>tn_number = n, tn_role = role, tn_content = text, tn_timestamp = ie_now env n\<rparr>]\<rparr>)"

text \<open>What follows an answer of the model: the turn is recorded, the coverage updated, the
  message shown and the state saved.\<close>

definition take_response :: "interview_env \<Rightarrow> bool \<Rightarrow> string \<Rightarrow> engine \<Rightarrow> engine \<times> bool" where
  "take_response env remember raw en =
     (case parseResponse env (iv_turn_count (en_state en)) raw of (msg, updates, shouldComplete) \<Rightarrow>
        let st1 = addTurn env Interviewer msg (en_state en);
            st2 = st1\<lparr>iv_coverage :=
              applyCoverageUpdates (ie_js env) (en_dimensions en) (iv_turn_count st1) updates (iv_coverage st1)\<rparr>
        in (en\<lparr>en_state := st2,
               en_history := (if remember then en_history en @ [(Assistant_role, raw)] else en_history en),
               en_shown := en_shown en @ [msg], en_saved := en_saved en @ [st2]\<rparr>,
            shouldComplete))"

definition start_run :: "engine \<Rightarrow> engine" where
  "start_run en = en\<lparr>en_history :=
     (System_role, buildSystemPrompt en) # filter (\<lambda>m. fst m \<noteq> System_role) (en_history en)\<rparr>"

text \<open>The opening message, when the interview is new; None when the model fails.\<close>

definition kickoff :: string where
  "kickoff = ''Please begin the interview.''"

definition open_interview :: "interview_env \<Rightarrow> engine \<Rightarrow> engine \<times> bool" where
  "open_interview env en =
     (if iv_transcript (en_state en) \<noteq> [] then (en, True)
      else
        let en1 = en\<lparr>en_history := en_history en @ [(User_role, kickoff)]\<rparr> in
        (case llm env (en_history en1) of
           None \<Rightarrow> (en1, False)
         | Some opening \<Rightarrow> (fst (take_response env False opening en1), True)))"

definition is_command :: "string \<Rightarrow> string \<Rightarrow> bool" where
  "is_command name inp \<longleftrightarrow> trim (to_lower inp) = name"

definition hear_user :: "interview_env \<Rightarrow> string \<Rightarrow> engine \<Rightarrow> engine" where
  "hear_user env inp en =
     (if is_command ''/skip'' inp then
        en\<lparr>en_state := addTurn env User ''[User requested to skip this topic]'' (en_state en),
           en_history := en_history en @ [(User_role, ''[User requested to skip this topic and move on]'')]\<rparr>
      else
        en\<lparr>en_state := addTurn env User inp (en_state en),
           en_history := en_history en @ [(User_role, inp)]\<rparr>)"

text \<open>One exchange; the flag tells whether the model answered.\<close>

definition exchange :: "interview_env \<Rightarrow> string \<Rightarrow> engine \<Rightarrow> engine \<times> bool" where
  "exchange env inp en =
     (let en1 = hear_user env inp en in
      (case llm env (en_history en1) of
         None \<Rightarrow> (en1, False)
       | Some raw \<Rightarrow>
           (case take_response env True raw en1 of (en2, shouldComplete) \<Rightarrow>
              (if shouldComplete \<or> allDimensionsCovered (ie_js env) (en_state en2)
               then en2\<lparr>en_state := (en_state en2)\<lparr>iv_is_complete := True\<rparr>\<rparr> else en2, True))))"

section \<open>Extraction\<close>

definition getEmptyAnswers :: json where
  "getEmptyAnswers = JObj [
     (''principles'', JArr []),
     (''tone'', JObj [(''voice_keywords'', JArr []), (''forbidden_phrases'', JArr []),
        (''formatting_rules'', JArr []), (''source_dimensions'', JArr [])]),
     (''tradeoffs'', JObj [(''accuracy_vs_speed'', JNum (1 / 2)), (''cost_sensitivity'', JNum (1 / 2)),
        (''autonomy_level'', JNum (1 / 2)), (''source_dimensions'', JArr [])]),
     (''evidence_policy'', JObj [(''require_citations_for'', JArr []),
        (''uncertainty_language_rules'', JArr []), (''source_dimensions'', JArr [])]),
     (''taboos'', JObj [(''never_do'', JArr []), (''must_escalate'', JArr []), (''source_dimensions'', JArr [])]),
     (''domain_specific'', JObj [])]"

text \<open>\<open>facts?.join(', ') ?? 'None'\<close>; a value that is no array has no \<open>join\<close> and throws.\<close>

fun facts_text :: "interview_env \<Rightarrow> json option \<Rightarrow> string option" where
  "facts_text env None = Some ''None''"
| "facts_text env (Some JNull) = Some ''None''"
| "facts_text env (Some (JArr xs)) =
     Some (join '', '' (map (\<lambda>x. if x = JNull then [] else ie_text env x) xs))"
| "facts_text env (Some _) = None"

definition summary_text :: "interview_env \<Rightarrow> json option \<Rightarrow> string" where
  "summary_text env s = (case s of None \<Rightarrow> ''No summary'' | Some v \<Rightarrow> ie_text env v)"

definition covered_text :: "interview_env \<Rightarrow> coverage \<Rightarrow> string option" where
  "covered_text env c = map_option
     (\<lambda>f. cv_id c @ '': '' @ summary_text env (cv_summary c) @ [nl] @ ''Facts: '' @ f)
     (facts_text env (cv_facts c))"

fun speaker_str :: "speaker \<Rightarrow> string" where
  "speaker_str Interviewer = ''interviewer''"
| "speaker_str User = ''user''"

definition extraction_prompt :: "interview_env \<Rightarrow> interview \<Rightarrow> string option" where
  "extraction_prompt env st =
     map_option (\<lambda>ds. extraction_prompt_1 @ join [nl, nl] ds
        @ extraction_prompt_2
        @ join [nl] (map (\<lambda>t. ''['' @ speaker_str (tn_role t) @ '']: '' @ tn_content t) (iv_transcript st))
        @ extraction_prompt_3)
       (those (map (covered_text env) (filter (\<lambda>c. cv_status c = Covered) (iv_coverage st))))"

text \<open>\<open>replace(/^```json?\s*/m, '')\<close>: the first line that starts with the fence loses it.\<close>

definition fence_rest :: "string \<Rightarrow> string option" where
  "fence_rest s = (if starts_with s ''```jso'' then
     (let r = drop 6 s in Some (trim_start (if starts_with r ''n'' then tl r else r))) else None)"

fun strip_open_fence :: "bool \<Rightarrow> string \<Rightarrow> string" where
  "strip_open_fence line_start [] = []"
| "strip_open_fence line_start (c # cs) =
     (case (if line_start then fence_rest (c # cs) else None) of
        Some r \<Rightarrow> r
      | None \<Rightarrow> c # strip_open_fence (c = nl \<or> c = CHR 0x0D) cs)"

text \<open>\<open>replace(/\s*```\s*$/m, '')\<close>: after the fence the white space reaches the end of the text, or
  is cut back to the last line end it contains.\<close>

definition close_rest :: "string \<Rightarrow> string option" where
  "close_rest s =
     (let r = trim_start s in
      if starts_with r ''```'' then
        (let t = drop 3 r; w = takeWhile is_ws t; u = dropWhile is_ws t in
         if u = [] then Some []
         else if \<exists>c \<in> set w. c = nl \<or> c = CHR 0x0D
           then Some (drop (length w - 1 - length (takeWhile (\<lambda>c. c \<noteq> nl \<and> c \<noteq> CHR 0x0D) (rev w))) w @ u)
         else None)
      else None)"

fun strip_close_fence :: "string \<Rightarrow> string" where
  "strip_close_fence [] = []"
| "strip_close_fence (c # cs) =
     (case close_rest (c # cs) of Some r \<Rightarrow> r | None \<Rightarrow> c # strip_close_fence cs)"

definition clean_json :: "string \<Rightarrow> string" where
  "clean_json s = trim (strip_close_fence (strip_open_fence True s))"

definition extraction_system :: string where
  "extraction_system = ''You are a data extraction assistant. Output only valid JSON. No markdown code fences.''"

text \<open>None when it throws.\<close>

definition extractStructuredAnswers :: "interview_env \<Rightarrow> interview \<Rightarrow> json option" where
  "extractStructuredAnswers env st =
     (case extraction_prompt env st of None \<Rightarrow> None
      | Some p \<Rightarrow>
          (case llm env [(System_role, extraction_system), (User_role, p)] of None \<Rightarrow> None
           | Some r \<Rightarrow> Some (case ie_parse env (clean_json r) of None \<Rightarrow> getEmptyAnswers | Some a \<Rightarrow> a)))"

section \<open>Outcomes\<close>

datatype run_result = Answers json | Saved json | Waiting | Failed

definition finish_run :: "interview_env \<Rightarrow> engine \<Rightarrow> engine \<times> run_result" where
  "finish_run env en =
     (case extractStructuredAnswers env (en_state en) of
        None \<Rightarrow> (en, Failed)
      | Some a \<Rightarrow>
          let st = (en_state en)\<lparr>iv_answers := Some a\<rparr>
          in (en\<lparr>en_state := st, en_saved := en_saved en @ [st]\<rparr>, Answers a))"

definition save_run :: "engine \<Rightarrow> engine \<times> run_result" where
  "save_run en =
     (en\<lparr>en_saved := en_saved en @ [en_state en],
         en_shown := en_shown en @ [''Session saved. Run with --resume to continue later.'']\<rparr>,
      Saved (case iv_answers (en_state en) of None \<Rightarrow> getEmptyAnswers | Some JNull \<Rightarrow> getEmptyAnswers | Some a \<Rightarrow> a))"

text \<open>The main loop over what the user types; \<open>Waiting\<close> when the input is used up.\<close>

fun interview_loop :: "interview_env \<Rightarrow> engine \<Rightarrow> string list \<Rightarrow> engine \<times> run_result" where
  "interview_loop env en [] =
     (if iv_is_complete (en_state en) then finish_run env en else (en, Waiting))"
| "interview_loop env en (inp # inps) =
     (if iv_is_complete (en_state en) then finish_run env en
      else if is_command ''/save'' inp then save_run en
      else (case exchange env inp en of
              (en', True) \<Rightarrow> interview_loop env en' inps
            | (en', False) \<Rightarrow> (en', Failed)))"

definition run_interview :: "interview_env \<Rightarrow> engine \<Rightarrow> string list \<Rightarrow> engine \<times> run_result" where
  "run_interview env en inps =
     (case open_interview env (start_run en) of
        (en', True) \<Rightarrow> interview_loop env en' inps
      | (en', False) \<Rightarrow> (en', Failed))"

section \<open>What every interview keeps\<close>

text \<open>The confidence that a list of signals adds up to.\<close>

definition total :: "js \<Rightarrow> signal list \<Rightarrow> json" where
  "total js ss = foldl (js_plus js) (JNum 0) (map sg_weight ss)"

text \<open>The status that a confidence stands for.\<close>

definition status_of :: "js \<Rightarrow> json \<Rightarrow> cov_status" where
  "status_of js v =
     (if js_from js v (3 / 2) then Covered
      else if js_from js v (js_double js (3 / 10)) then In_progress else Not_started)"

text \<open>Every signal counts for the topic and carries a turn of the interview.\<close>

definition signals_ok :: "js \<Rightarrow> nat \<Rightarrow> signal list \<Rightarrow> bool" where
  "signals_ok js n ss \<longleftrightarrow> list_all (\<lambda>s. js_above js (sg_weight s) 0 \<and> sg_turn s \<le> n) ss"

abbreviation numeric_signals :: "signal list \<Rightarrow> bool" where
  "numeric_signals ss \<equiv> list_all (\<lambda>s. numeric (sg_weight s)) ss"

text \<open>The confidence is what the signals add up to, and when they are numbers the status is the one
  the confidence stands for unless the topic was skipped.\<close>

definition cov_ok :: "js \<Rightarrow> nat \<Rightarrow> coverage \<Rightarrow> bool" where
  "cov_ok js n c \<longleftrightarrow>
     (case cv_signals c of None \<Rightarrow> False
      | Some ss \<Rightarrow>
          cv_confidence c = Some (total js ss) \<and> signals_ok js n ss
          \<and> (numeric_signals ss \<longrightarrow> cv_status c \<noteq> Skipped \<longrightarrow> cv_status c = status_of js (total js ss)))
     \<and> cv_threshold c = Some (3 / 2)"

lemma cov_okE:
  assumes "cov_ok js n c"
  obtains ss where "cv_signals c = Some ss" "cv_confidence c = Some (total js ss)" "signals_ok js n ss"
    "numeric_signals ss \<Longrightarrow> cv_status c \<noteq> Skipped \<Longrightarrow> cv_status c = status_of js (total js ss)"
    "cv_threshold c = Some (3 / 2)"
  using assms unfolding cov_ok_def by (auto split: option.splits)

lemma total_simps [simp]:
  "total js [] = JNum 0"
  "total js (ss @ [s]) = js_plus js (total js ss) (sg_weight s)"
  by (simp_all add: total_def)

lemma signals_ok_simps [simp]:
  "signals_ok js n []"
  "signals_ok js n (ss @ [s]) \<longleftrightarrow> signals_ok js n ss \<and> js_above js (sg_weight s) 0 \<and> sg_turn s \<le> n"
  by (simp_all add: signals_ok_def)

lemma js_plus_not_null: "js_plus js a b \<noteq> JNull"
  by (auto simp: js_plus_def split: option.split)

lemma total_not_null: "total js ss \<noteq> JNull"
  by (cases ss rule: rev_cases) (simp_all add: js_plus_not_null)

lemma confidence_total: "cv_confidence c = Some (total js ss) \<Longrightarrow> confidence_of c = total js ss"
  using total_not_null [of js ss] by (auto simp: confidence_of_def split: json.split)

lemma cov_ok_mono: "cov_ok js m c \<Longrightarrow> m \<le> n \<Longrightarrow> cov_ok js n c"
  by (auto simp: cov_ok_def signals_ok_def list_all_iff split: option.splits)

text \<open>What the comparisons and the sum do to numbers.\<close>

lemma js_from_num [simp]: "js_from js (JNum x) y = (y \<le> x)"
  by (simp add: js_from_def)

lemma roundingD: "rounding r \<Longrightarrow> x \<le> y \<Longrightarrow> r x \<le> r y"
  by (simp add: rounding_def monoD)

lemma rounding_simps:
  "rounding r \<Longrightarrow> r (r x) = r x" "rounding r \<Longrightarrow> r 0 = 0" "rounding r \<Longrightarrow> r (3 / 2) = 3 / 2"
  by (simp_all add: rounding_def)

lemma rounding_above:
  assumes "rounding r" "r y = y" "y \<le> x"
  shows "y \<le> r x"
  using roundingD [OF assms(1,3)] assms(2) by simp

lemma numeric_above:
  "numeric v \<Longrightarrow> js_above js v 0 \<Longrightarrow> \<exists>y > 0. js_prim v = Some y"
  by (auto simp: numeric_def js_above_def)

lemma js_plus_grows:
  assumes "rounding (js_double js)" "js_double js x = x" "numeric v" "js_above js v 0"
  obtains y where "js_plus js (JNum x) v = JNum y" "x \<le> y" "js_double js y = y"
    "\<And>z. js_prim v = Some z \<Longrightarrow> js_double js z = z \<Longrightarrow> 0 \<le> x \<Longrightarrow> z \<le> y"
proof -
  obtain w where w: "0 < w" "js_prim v = Some w" using numeric_above [OF assms(3,4)] by blast
  show thesis
  proof
    show "js_plus js (JNum x) v = JNum (js_double js (x + w))" by (simp add: js_plus_def w)
    show "x \<le> js_double js (x + w)" using assms(1,2) w by (auto intro: rounding_above)
    show "js_double js (js_double js (x + w)) = js_double js (x + w)" using assms(1) by (rule rounding_simps)
    show "z \<le> js_double js (x + w)" if "js_prim v = Some z" "js_double js z = z" "0 \<le> x" for z
      using that w assms(1) by (auto intro: rounding_above)
  qed
qed

lemma total_numeric:
  assumes "rounding (js_double js)" "signals_ok js n ss" "numeric_signals ss"
  obtains x where "total js ss = JNum x" "0 \<le> x" "js_double js x = x"
proof -
  have "\<exists>x. total js ss = JNum x \<and> 0 \<le> x \<and> js_double js x = x"
    using assms(2,3)
  proof (induction ss rule: rev_induct)
    case Nil
    with assms(1) show ?case by (simp add: rounding_simps)
  next
    case (snoc s ss)
    then obtain x where x: "total js ss = JNum x" "0 \<le> x" "js_double js x = x" by auto
    with snoc.prems show ?case
      by (auto elim: js_plus_grows [OF assms(1) x(3), of "sg_weight s"])
  qed
  with that show thesis by blast
qed

lemma cov_ok_fresh: "rounding (js_double js) \<Longrightarrow> cov_ok js n (fresh_coverage d)"
  by (simp add: rounding_def cov_ok_def fresh_coverage_def status_of_def)

lemma cov_ok_threshold: "cov_ok js n c \<Longrightarrow> threshold_of c = 3 / 2"
  by (erule cov_okE) (simp add: threshold_of_def nullish_def)

text \<open>After a signal the status has to be derived again; until then the entry is only half right.\<close>

definition cov_half :: "js \<Rightarrow> nat \<Rightarrow> coverage \<Rightarrow> bool" where
  "cov_half js n c \<longleftrightarrow>
     (\<exists>ss. cv_signals c = Some ss \<and> cv_confidence c = Some (total js ss) \<and> signals_ok js n ss
        \<and> (numeric_signals ss \<longrightarrow>
             (cv_status c = Covered \<longrightarrow> js_from js (total js ss) (3 / 2))
             \<and> (cv_status c = In_progress \<longrightarrow> js_from js (total js ss) (js_double js (3 / 10)))))
     \<and> cv_threshold c = Some (3 / 2)"

lemma cov_half_of_ok: "cov_ok js n c \<Longrightarrow> cov_half js n c"
  by (erule cov_okE) (cases "cv_status c"; auto simp: cov_half_def status_of_def split: if_splits)

lemma total_grows:
  assumes "rounding (js_double js)" "signals_ok js n (ss @ [s])" "numeric_signals (ss @ [s])"
    "js_from js (total js ss) y"
  shows "js_from js (total js (ss @ [s])) y"
proof -
  from assms(2,3) have s: "signals_ok js n ss" "numeric_signals ss" "js_above js (sg_weight s) 0" "numeric (sg_weight s)"
    by simp_all
  obtain x where x: "total js ss = JNum x" "js_double js x = x" using total_numeric [OF assms(1) s(1,2)] by metis
  then obtain z where "js_plus js (JNum x) (sg_weight s) = JNum z" "x \<le> z"
    using js_plus_grows [OF assms(1) x(2) s(4,3)] by blast
  with assms(4) x(1) show ?thesis by simp
qed

lemma cov_half_signal:
  assumes "rounding (js_double js)" "cov_half js n c" "js_above js (sg_weight s) 0" "sg_turn s \<le> n"
  shows "cov_half js n (add_signal js s c)"
proof -
  obtain ss where ss: "cv_signals c = Some ss" "cv_confidence c = Some (total js ss)" "signals_ok js n ss"
      "cv_threshold c = Some (3 / 2)"
    and st: "numeric_signals ss \<Longrightarrow> cv_status c = Covered \<Longrightarrow> js_from js (total js ss) (3 / 2)"
      "numeric_signals ss \<Longrightarrow> cv_status c = In_progress \<Longrightarrow> js_from js (total js ss) (js_double js (3 / 10))"
    using assms(2) by (auto simp: cov_half_def)
  have ok: "signals_ok js n (ss @ [s])" using ss(3) assms(3,4) by simp
  have "numeric_signals (ss @ [s]) \<Longrightarrow> cv_status c = Covered \<Longrightarrow> js_from js (total js (ss @ [s])) (3 / 2)"
    "numeric_signals (ss @ [s]) \<Longrightarrow> cv_status c = In_progress \<Longrightarrow> js_from js (total js (ss @ [s])) (js_double js (3 / 10))"
    by (rule total_grows [OF assms(1) ok], assumption, rule st, simp, assumption)+
  with ss ok show ?thesis
    by (simp add: cov_half_def add_signal_def nullish_def confidence_total)
qed

lemma with_signal_cases:
  obtains "with_signal js n u c = c" "positive_delta js u = None"
  | s where "with_signal js n u c = add_signal js s c" "js_above js (sg_weight s) 0" "sg_turn s = n"
      "positive_delta js u = Some (sg_weight s)"
proof (cases "positive_delta js u")
  case None
  with that(1) show ?thesis by (simp add: with_signal_def)
next
  case (Some x)
  then have "js_above js x 0" by (auto simp: positive_delta_def split: option.splits if_splits)
  with Some show ?thesis
    by (intro that(2) [of "\<lparr>sg_weight = x, sg_source = source_of u, sg_turn = n, sg_excerpt = up_summary u\<rparr>"])
      (simp_all add: with_signal_def)
qed

lemma cov_half_with_signal:
  "rounding (js_double js) \<Longrightarrow> cov_half js n c \<Longrightarrow> cov_half js n (with_signal js n u c)"
  by (rule with_signal_cases [of js n u c]) (auto intro: cov_half_signal)

lemma cov_half_anti: "cov_half js n c \<Longrightarrow> cov_half js n (with_anti u c)"
  by (auto simp: with_anti_def cov_half_def split: option.split json.split)

lemma derive_ok: "cov_half js n c \<Longrightarrow> cov_ok js n (derive_status js c)"
  by (cases "cv_status c")
    (auto simp: cov_half_def derive_status_def conf_ge_def threshold_of_def nullish_def cov_ok_def status_of_def)

lemma notes_ok: "cov_ok js n c \<Longrightarrow> cov_ok js n (with_notes u c)"
  by (auto simp: cov_ok_def with_notes_def split: option.splits)

lemma apply_update_ok:
  "rounding (js_double js) \<Longrightarrow> cov_ok js n c \<Longrightarrow> cov_ok js n (apply_update js n u c)"
  by (simp add: apply_update_def notes_ok derive_ok cov_half_anti cov_half_with_signal cov_half_of_ok)

text \<open>The signal of a cascade, with the status that follows from it.\<close>

definition cascade_signal :: "nat \<Rightarrow> string \<Rightarrow> rat \<Rightarrow> signal" where
  "cascade_signal n k w = \<lparr>sg_weight = JNum w, sg_source = JStr ''inferred'', sg_turn = n,
     sg_excerpt = Some (JStr (''Cascaded from '' @ k))\<rparr>"

lemma cascade_signal_fields [simp]: "sg_weight (cascade_signal n k w) = JNum w" "sg_turn (cascade_signal n k w) = n"
  by (simp_all add: cascade_signal_def)

lemma numeric_num [simp]: "numeric (JNum x)" and above_num [simp]: "js_above js (JNum x) y = (y < x)"
  by (simp_all add: numeric_def js_above_def)

lemma apply_cascade_cases:
  obtains "apply_cascade js n k w c = c"
  | "cv_status c = Not_started \<or> cv_status c = In_progress"
    "apply_cascade js n k w c =
       (let c' = add_signal js (cascade_signal n k w) c
        in if cv_status c = Not_started then derive_status js c'
           else if conf_ge js c' (threshold_of c') then c'\<lparr>cv_status := Covered\<rparr> else c')"
proof (cases "cv_status c")
  case Not_started
  have "cv_status (add_signal js s c) = cv_status c" for s by (simp add: add_signal_def)
  with Not_started show ?thesis
    by (intro that(2)) (simp_all add: apply_cascade_def cascade_signal_def Let_def derive_status_def)
next
  case In_progress
  have "cv_status (add_signal js s c) = cv_status c" for s by (simp add: add_signal_def)
  with In_progress show ?thesis
    by (intro that(2)) (simp_all add: apply_cascade_def cascade_signal_def Let_def)
qed (auto intro: that(1) simp: apply_cascade_def)

lemma apply_cascade_ok:
  assumes "rounding (js_double js)" "cov_ok js n c" "0 < w"
  shows "cov_ok js n (apply_cascade js n k w c)"
proof (rule apply_cascade_cases [of js n k w c])
  show "apply_cascade js n k w c = c \<Longrightarrow> ?thesis" using assms(2) by simp
  let ?c = "add_signal js (cascade_signal n k w) c"
  have h: "cov_half js n ?c" using cov_half_signal [OF assms(1) cov_half_of_ok [OF assms(2)]] assms(3) by simp
  have st: "cv_status ?c = cv_status c" by (simp add: add_signal_def)
  assume s: "cv_status c = Not_started \<or> cv_status c = In_progress"
    and e: "apply_cascade js n k w c =
       (let c' = add_signal js (cascade_signal n k w) c
        in if cv_status c = Not_started then derive_status js c'
           else if conf_ge js c' (threshold_of c') then c'\<lparr>cv_status := Covered\<rparr> else c')"
  show ?thesis
  proof (cases "cv_status c = Not_started")
    case True
    with derive_ok [OF h] show ?thesis by (simp add: e Let_def)
  next
    case False
    with s st have "cv_status ?c = In_progress" by simp
    with h have "cov_ok js n (if conf_ge js ?c (threshold_of ?c) then ?c\<lparr>cv_status := Covered\<rparr> else ?c)"
      by (auto simp: cov_half_def conf_ge_def threshold_of_def nullish_def cov_ok_def status_of_def)
    with False show ?thesis by (simp add: e Let_def)
  qed
qed

text \<open>No change touches the id of an entry.\<close>

lemma apply_update_id [simp]: "cv_id (apply_update js n u c) = cv_id c"
  by (auto simp: apply_update_def with_notes_def derive_status_def with_anti_def with_signal_def add_signal_def
      split: option.split json.split)

lemma apply_cascade_id [simp]: "cv_id (apply_cascade js n k w c) = cv_id c"
  by (simp add: apply_cascade_def add_signal_def Let_def)

definition positive_cascades :: "rubric_dimension list \<Rightarrow> bool" where
  "positive_cascades ds \<longleftrightarrow> list_all (\<lambda>d. list_all (\<lambda>(t, w). 0 < w) (cascades d)) ds"

text \<open>A property of the coverage list that every single change keeps is kept by a whole response,
  cascades included; the updates may have to meet a condition.\<close>

locale coverage_invariant =
  fixes js :: js and turn :: nat and fit :: "update \<Rightarrow> bool" and P :: "coverage list \<Rightarrow> bool"
  assumes keeps_update: "P cs \<Longrightarrow> fit u \<Longrightarrow> P (on_dim k (apply_update js turn u) cs)"
    and keeps_cascade: "P cs \<Longrightarrow> 0 < w \<Longrightarrow> P (on_dim t (apply_cascade js turn k w) cs)"
begin

lemma fold_cascades: "P cs \<Longrightarrow> list_all (\<lambda>(t, w). 0 < w) tws \<Longrightarrow>
    P (foldl (\<lambda>cs (t, w). on_dim t (apply_cascade js turn k w) cs) cs tws)"
  by (induction tws arbitrary: cs) (auto simp: keeps_cascade)

lemma cascade: "P cs \<Longrightarrow> positive_cascades ds \<Longrightarrow> P (cascade_step js ds turn cs k)"
  by (auto simp: cascade_step_def positive_cascades_def list_all_iff fold_cascades
      split: option.split dest!: find_SomeD)

lemma cascading: "P cs \<Longrightarrow> positive_cascades ds \<Longrightarrow> P (applyCascades js ds turn r cs)"
  unfolding applyCascades_def by (induction r arbitrary: cs) (auto intro: cascade)

lemma update: "P (fst acc) \<Longrightarrow> fit (snd ku) \<Longrightarrow> P (fst (update_step js turn acc ku))"
  by (auto simp: update_step_def keeps_update split: prod.split option.split)

lemma updating: "P (fst acc) \<Longrightarrow> list_all (\<lambda>ku. fit (snd ku)) us \<Longrightarrow> P (fst (foldl (update_step js turn) acc us))"
proof (induction us arbitrary: acc)
  case Nil
  then show ?case by simp
next
  case (Cons ku us)
  then have "P (fst (update_step js turn acc ku))" by (intro update) simp_all
  from Cons.IH [OF this] Cons.prems show ?case by simp
qed

lemma response:
  assumes "P cs" "positive_cascades ds" "list_all (\<lambda>ku. fit (snd ku)) us"
  shows "P (applyCoverageUpdates js ds turn us cs)"
  using updating [of "(cs, [])" us] assms
  by (auto simp: applyCoverageUpdates_def cascading split: prod.split)

end

lemma on_dim_ok: "list_all Q cs \<Longrightarrow> (\<And>c. Q c \<Longrightarrow> Q (f c)) \<Longrightarrow> list_all Q (on_dim k f cs)"
  by (rule list_all_update_first) auto

lemma on_dim_ids: "(\<And>c. cv_id (f c) = cv_id c) \<Longrightarrow> map cv_id (on_dim k f cs) = map cv_id cs"
  by (rule map_update_first)

interpretation keeping: coverage_invariant js n "\<lambda>_. True" "\<lambda>cs. map cv_id cs = ids" for js n ids
  by unfold_locales (auto simp: on_dim_ids)

interpretation accounting: coverage_invariant js n "\<lambda>_. True"
  "\<lambda>cs. rounding (js_double js) \<longrightarrow> list_all (cov_ok js n) cs" for js n
  by unfold_locales (auto intro: on_dim_ok apply_update_ok apply_cascade_ok)

lemma response_ids:
  "positive_cascades ds \<Longrightarrow> map cv_id (applyCoverageUpdates js ds n us cs) = map cv_id cs"
  by (rule keeping.response [OF refl]) (simp_all add: list_all_iff)

lemma response_ok:
  "rounding (js_double js) \<Longrightarrow> positive_cascades ds \<Longrightarrow> list_all (cov_ok js n) cs \<Longrightarrow>
    list_all (cov_ok js n) (applyCoverageUpdates js ds n us cs)"
  using accounting.response [of js n cs ds us] by (simp add: list_all_iff)

section \<open>The state of an interview\<close>

definition turns_ok :: "interview \<Rightarrow> bool" where
  "turns_ok st \<longleftrightarrow> map tn_number (iv_transcript st) = [1..<Suc (iv_turn_count st)]"

definition interview_ok :: "js \<Rightarrow> rubric_dimension list \<Rightarrow> interview \<Rightarrow> bool" where
  "interview_ok js ds st \<longleftrightarrow> turns_ok st \<and> map cv_id (iv_coverage st) = map dim_id ds
     \<and> list_all (cov_ok js (iv_turn_count st)) (iv_coverage st)"

lemma turns_ok_length: "turns_ok st \<Longrightarrow> length (iv_transcript st) = iv_turn_count st"
  unfolding turns_ok_def by (metis diff_Suc_1 length_map length_upt)

lemma interview_ok_fresh: "rounding (js_double js) \<Longrightarrow> interview_ok js ds (fresh_interview ds)"
  by (simp add: interview_ok_def fresh_interview_def turns_ok_def list_all_iff cov_ok_fresh)
    (simp add: fresh_coverage_def)

lemma addTurn_fields [simp]:
  "iv_coverage (addTurn env r t st) = iv_coverage st"
  "iv_turn_count (addTurn env r t st) = Suc (iv_turn_count st)"
  "iv_is_complete (addTurn env r t st) = iv_is_complete st"
  "iv_answers (addTurn env r t st) = iv_answers st"
  by (simp_all add: addTurn_def)

lemma turns_ok_addTurn: "turns_ok st \<Longrightarrow> turns_ok (addTurn env r t st)"
  by (simp add: turns_ok_def addTurn_def)

lemma interview_ok_addTurn: "interview_ok js ds st \<Longrightarrow> interview_ok js ds (addTurn env r t st)"
  by (auto simp: interview_ok_def turns_ok_addTurn list_all_iff intro: cov_ok_mono)

lemma interview_ok_coverage:
  assumes "rounding (js_double js)" "interview_ok js ds st" "positive_cascades ds"
  shows "interview_ok js ds
    (st\<lparr>iv_coverage := applyCoverageUpdates js ds (iv_turn_count st) us (iv_coverage st)\<rparr>)"
  using assms by (simp add: interview_ok_def turns_ok_def response_ids response_ok)

definition engine_ok :: "js \<Rightarrow> engine \<Rightarrow> bool" where
  "engine_ok js en \<longleftrightarrow> positive_cascades (en_dimensions en)
     \<and> interview_ok js (en_dimensions en) (en_state en)
     \<and> list_all (interview_ok js (en_dimensions en)) (en_saved en)"

lemma interview_ok_flags [simp]:
  "interview_ok js ds (st\<lparr>iv_is_complete := b\<rparr>) = interview_ok js ds st"
  "interview_ok js ds (st\<lparr>iv_answers := a\<rparr>) = interview_ok js ds st"
  by (simp_all add: interview_ok_def turns_ok_def)

lemma take_response_ok:
  "rounding (js_double (ie_js env)) \<Longrightarrow> engine_ok (ie_js env) en \<Longrightarrow> engine_ok (ie_js env) (fst (take_response env b raw en))"
proof -
  assume r: "rounding (js_double (ie_js env))" and ok: "engine_ok (ie_js env) en"
  obtain msg us sc where p: "parseResponse env (iv_turn_count (en_state en)) raw = (msg, us, sc)"
    by (cases "parseResponse env (iv_turn_count (en_state en)) raw")
  have "interview_ok (ie_js env) (en_dimensions en) (addTurn env Interviewer msg (en_state en))"
    using ok by (simp add: engine_ok_def interview_ok_addTurn)
  from interview_ok_coverage [OF r this, of us] show ?thesis
    using ok by (simp add: take_response_def p Let_def engine_ok_def)
qed

lemma take_response_dims [simp]: "en_dimensions (fst (take_response env b raw en)) = en_dimensions en"
  by (simp add: take_response_def Let_def split: prod.split)

lemma hear_user_ok: "engine_ok (ie_js env) en \<Longrightarrow> engine_ok (ie_js env) (hear_user env inp en)"
  by (simp add: hear_user_def engine_ok_def interview_ok_addTurn)

lemma engine_ok_complete: "engine_ok js en \<Longrightarrow> engine_ok js (en\<lparr>en_state := (en_state en)\<lparr>iv_is_complete := b\<rparr>\<rparr>)"
  by (simp add: engine_ok_def)

lemma exchange_cases:
  obtains "exchange env inp en = (hear_user env inp en, False)"
  | raw en' sc where "llm env (en_history (hear_user env inp en)) = Some raw"
      "take_response env True raw (hear_user env inp en) = (en', sc)"
      "exchange env inp en = (if sc \<or> allDimensionsCovered (ie_js env) (en_state en')
         then en'\<lparr>en_state := (en_state en')\<lparr>iv_is_complete := True\<rparr>\<rparr> else en', True)"
proof (cases "llm env (en_history (hear_user env inp en))")
  case None
  with that(1) show ?thesis by (simp add: exchange_def Let_def)
next
  case (Some raw)
  then show ?thesis
    by (cases "take_response env True raw (hear_user env inp en)")
      (rule that(2), auto simp: exchange_def Let_def)
qed

lemma exchange_ok:
  assumes "rounding (js_double (ie_js env))" "engine_ok (ie_js env) en"
  shows "engine_ok (ie_js env) (fst (exchange env inp en))"
proof (rule exchange_cases [of env inp en])
  assume "exchange env inp en = (hear_user env inp en, False)"
  with assms show ?thesis by (simp add: hear_user_ok)
next
  fix raw en' sc
  assume r: "take_response env True raw (hear_user env inp en) = (en', sc)"
    and e: "exchange env inp en = (if sc \<or> allDimensionsCovered (ie_js env) (en_state en')
         then en'\<lparr>en_state := (en_state en')\<lparr>iv_is_complete := True\<rparr>\<rparr> else en', True)"
  have "engine_ok (ie_js env) en'"
    using take_response_ok [OF assms(1) hear_user_ok [OF assms(2)], of True raw inp] r by simp
  then show ?thesis unfolding e by (simp add: engine_ok_complete)
qed

interpretation interviewing: stateful "\<lambda>en inp. fst (exchange env inp en)" "engine_ok (ie_js env)" "\<lambda>_. rounding (js_double (ie_js env))" for env
  by unfold_locales (rule exchange_ok)

lemma finish_run_ok: "engine_ok (ie_js env) en \<Longrightarrow> engine_ok (ie_js env) (fst (finish_run env en))"
  by (simp add: finish_run_def engine_ok_def Let_def split: option.split)

lemma save_run_ok: "engine_ok js en \<Longrightarrow> engine_ok js (fst (save_run en))"
  by (simp add: save_run_def engine_ok_def)

lemma loop_ok: "rounding (js_double (ie_js env)) \<Longrightarrow> engine_ok (ie_js env) en \<Longrightarrow> engine_ok (ie_js env) (fst (interview_loop env en inps))"
proof (induction inps arbitrary: en)
  case Nil
  then show ?case by (simp add: finish_run_ok)
next
  case (Cons inp inps)
  obtain en' b where e: "exchange env inp en = (en', b)" by fastforce
  with exchange_ok [OF Cons.prems, of inp] have "engine_ok (ie_js env) en'" by simp
  with Cons e show ?case
    by (cases b) (simp_all add: finish_run_ok save_run_ok)
qed

lemma open_interview_ok:
  assumes "rounding (js_double (ie_js env))" "engine_ok (ie_js env) en"
  shows "engine_ok (ie_js env) (fst (open_interview env en))"
proof -
  let ?en = "en\<lparr>en_history := en_history en @ [(User_role, kickoff)]\<rparr>"
  have "engine_ok (ie_js env) ?en" using assms(2) by (simp add: engine_ok_def)
  with assms take_response_ok [OF assms(1) this] show ?thesis
    by (simp add: open_interview_def Let_def split: option.split)
qed

lemma run_ok:
  assumes "rounding (js_double (ie_js env))" "engine_ok (ie_js env) en"
  shows "engine_ok (ie_js env) (fst (run_interview env en inps))"
proof -
  have "engine_ok (ie_js env) (start_run en)" using assms(2) by (simp add: start_run_def engine_ok_def)
  then have o: "engine_ok (ie_js env) (fst (open_interview env (start_run en)))" using assms(1) by (intro open_interview_ok)
  obtain en' b where e: "open_interview env (start_run en) = (en', b)" by fastforce
  with o have "engine_ok (ie_js env) en'" by simp
  with e assms(1) show ?thesis by (cases b) (simp_all add: run_interview_def loop_ok)
qed

end
