(* ===== verification/Domain_Rubrics.thy ===== *)
theory Domain_Rubrics
  imports Rubric
begin

text \<open>
  TasteKit core, domains/*/rubric.ts: the interview rubrics of the six domains, dimension by
  dimension, with the facts the interview reads of each (\<open>rubric_data\<close>).
\<close>

section \<open>domains/content-agent/rubric.ts\<close>

definition content_brand_identity :: rubric_dimension where
  \<open>content_brand_identity = \<lparr>
    dim_id = ''brand_identity'',
    dim_name = ''Brand Identity & Persona'',
    dim_description = ''Who is this content for? What brand/persona is being built? Personal brand, business, or AI influencer? What archetype fits?'',
    maps_to = [Principles, Tone],
    depth_tiers = [Quick, Guided, Operator],
    exploration_hints = [''Understand whether personal, business, or AI influencer'',
     ''Ask what the brand name/handle is'',
     ''Probe for brand personality: edgy? professional? funny?'',
     ''Listen for implicit identity cues in how they talk about their content''],
    coverage_criteria = [''Brand type identified (personal/business/AI)'',
     ''Brand voice archetype(s) captured'',
     ''Brand name/handle known''],
    sub_areas = None,
    cascade_to = None\<rparr>\<close>

definition content_target_platforms :: rubric_dimension where
  \<open>content_target_platforms = \<lparr>
    dim_id = ''target_platforms'',
    dim_name = ''Target Platforms'',
    dim_description = ''Which social media platforms and content channels the agent will create for. Primary vs. secondary.'',
    maps_to = [Domain_specific],
    depth_tiers = [Quick, Guided, Operator],
    exploration_hints = [''Ask which platforms, but also which is PRIMARY'',
     ''Understand if content should be adapted per platform or uniform'',
     ''Probe posting frequency expectations''],
    coverage_criteria = [''Platform list captured'',
     ''Primary platform identified''],
    sub_areas = None,
    cascade_to = None\<rparr>\<close>

definition content_content_workflow :: rubric_dimension where
  \<open>content_content_workflow = \<lparr>
    dim_id = ''content_workflow'',
    dim_name = ''Workflow & Autonomy'',
    dim_description = ''How the user wants to work with the content agent. Level of autonomy for ideation, creation, and scheduling.'',
    maps_to = [Tradeoffs, Domain_specific],
    depth_tiers = [Quick, Guided, Operator],
    exploration_hints = [''Frame the spectrum: manual topic selection to full autopilot'',
     ''Ask about the approval workflow: review everything vs. trust the agent'',
     ''Probe for research autonomy: should agent independently find trends?''],
    coverage_criteria = [''Workflow mode identified (manual/assisted/autopilot)'',
     ''Approval expectations set''],
    sub_areas = None,
    cascade_to = None\<rparr>\<close>

definition content_content_goal :: rubric_dimension where
  \<open>content_content_goal = \<lparr>
    dim_id = ''content_goal'',
    dim_name = ''Content Strategy Goal'',
    dim_description = ''The primary purpose of the content: traffic, engagement, leads, thought leadership, entertainment.'',
    maps_to = [Principles, Domain_specific],
    depth_tiers = [Quick, Guided, Operator],
    exploration_hints = [''Ask what success looks like for their content'',
     ''Probe the business outcome behind the content strategy'',
     ''Understand target audience demographics and interests''],
    coverage_criteria = [''Primary content goal identified'',
     ''Target audience described''],
    sub_areas = None,
    cascade_to = None\<rparr>\<close>

definition content_brand_voice_detail :: rubric_dimension where
  \<open>content_brand_voice_detail = \<lparr>
    dim_id = ''brand_voice_detail'',
    dim_name = ''Detailed Voice & Vocabulary'',
    dim_description = ''Specific adjectives, vocabulary level, sentence structure, humor style, and emotional register of the brand voice.'',
    maps_to = [Tone],
    depth_tiers = [Guided, Operator],
    exploration_hints = [''Ask for 5-10 adjectives that describe the voice'',
     ''Probe vocabulary level: simple or sophisticated?'',
     ''Ask about humor: is it part of the voice?'',
     ''Explore example accounts they admire tonally''],
    coverage_criteria = [''Voice adjectives captured'',
     ''Vocabulary level understood'',
     ''Example voices/accounts referenced''],
    sub_areas = None,
    cascade_to = None\<rparr>\<close>

definition content_content_types :: rubric_dimension where
  \<open>content_content_types = \<lparr>
    dim_id = ''content_types'',
    dim_name = ''Content Formats & Types'',
    dim_description = ''What types of content the agent will produce: short-form text, long-form, threads, carousels, video scripts, stories.'',
    maps_to = [Domain_specific],
    depth_tiers = [Guided, Operator],
    exploration_hints = [''Walk through format types and ask which they use'',
     ''Understand if they want the agent to suggest new formats'',
     ''Probe for format-specific preferences (thread length, carousel slide count, etc.)''],
    coverage_criteria = [''Active content types listed'',
     ''Format preferences expressed''],
    sub_areas = None,
    cascade_to = None\<rparr>\<close>

definition content_forbidden_topics :: rubric_dimension where
  \<open>content_forbidden_topics = \<lparr>
    dim_id = ''forbidden_topics'',
    dim_name = ''Off-Limits Topics & Phrases'',
    dim_description = ''Topics, words, phrases, or positions the agent should never include in content.'',
    maps_to = [Taboos, Tone],
    depth_tiers = [Guided, Operator],
    exploration_hints = [''Ask about sensitive topics in their niche'',
     ''Probe for phrases that sound wrong for their brand'',
     ''Ask about political/controversial topic boundaries''],
    coverage_criteria = [''Forbidden topics/phrases listed'',
     ''Sensitive area boundaries set''],
    sub_areas = None,
    cascade_to = None\<rparr>\<close>

definition content_posting_cadence :: rubric_dimension where
  \<open>content_posting_cadence = \<lparr>
    dim_id = ''posting_cadence'',
    dim_name = ''Posting Cadence & Scheduling'',
    dim_description = ''Posting frequency, best times, content calendar approach.'',
    maps_to = [Domain_specific],
    depth_tiers = [Guided, Operator],
    exploration_hints = [''Ask about desired posting frequency per platform'',
     ''Probe for timing preferences (morning/evening, weekday/weekend)'',
     ''Ask about content batching vs. real-time posting''],
    coverage_criteria = [''Posting frequency per platform established''],
    sub_areas = None,
    cascade_to = None\<rparr>\<close>

definition content_research_autonomy :: rubric_dimension where
  \<open>content_research_autonomy = \<lparr>
    dim_id = ''research_autonomy'',
    dim_name = ''Trend Research & Ideation'',
    dim_description = ''Whether and how the agent should independently research trends, competitor content, and winning formulas.'',
    maps_to = [Tradeoffs, Domain_specific],
    depth_tiers = [Guided, Operator],
    exploration_hints = [''Ask if the agent should proactively bring content ideas'',
     ''Probe for how they currently find content inspiration'',
     ''Understand comfort level with agent analyzing competitor accounts''],
    coverage_criteria = [''Research autonomy level set'',
     ''Ideation expectations established''],
    sub_areas = None,
    cascade_to = None\<rparr>\<close>

definition content_tools_integrations :: rubric_dimension where
  \<open>content_tools_integrations = \<lparr>
    dim_id = ''tools_integrations'',
    dim_name = ''Tools & Integrations'',
    dim_description = ''Available tools: image generation, scheduling platform, analytics access.'',
    maps_to = [Domain_specific],
    depth_tiers = [Guided, Operator],
    exploration_hints = [''Ask about image generation capabilities'',
     ''Ask about scheduling tools (Postiz, Buffer, etc.)'',
     ''Probe for analytics access and reporting needs''],
    coverage_criteria = [''Available tools identified'',
     ''Integration expectations set''],
    sub_areas = None,
    cascade_to = None\<rparr>\<close>

definition content_success_metrics :: rubric_dimension where
  \<open>content_success_metrics = \<lparr>
    dim_id = ''success_metrics'',
    dim_name = ''Performance Metrics & Learning'',
    dim_description = ''Which metrics matter, whether the agent should analyze performance, and how it should learn from results.'',
    maps_to = [Domain_specific],
    depth_tiers = [Guided, Operator],
    exploration_hints = [''Ask which metrics they actually track today'',
     ''Probe for how they want the agent to learn from performance data'',
     ''Understand if they want regular performance reports''],
    coverage_criteria = [''Key metrics identified'',
     ''Performance learning expectations set''],
    sub_areas = None,
    cascade_to = None\<rparr>\<close>

definition content_audience_engagement :: rubric_dimension where
  \<open>content_audience_engagement = \<lparr>
    dim_id = ''audience_engagement'',
    dim_name = ''Audience & Engagement Style'',
    dim_description = ''How the agent should think about the audience. Engagement strategy, community building, reply behavior.'',
    maps_to = [Principles, Domain_specific],
    depth_tiers = [Guided, Operator],
    exploration_hints = [''Ask about reply/engagement philosophy'',
     ''Probe for community building goals'',
     ''Understand if the agent should engage with comments/mentions''],
    coverage_criteria = [''Engagement philosophy captured''],
    sub_areas = None,
    cascade_to = None\<rparr>\<close>

definition content_exemplar_content :: rubric_dimension where
  \<open>content_exemplar_content = \<lparr>
    dim_id = ''exemplar_content'',
    dim_name = ''Exemplar Content & Anti-Examples'',
    dim_description = ''Specific posts, accounts, or content pieces that represent the ideal vs. what to avoid.'',
    maps_to = [Tone, Principles],
    depth_tiers = [Operator],
    exploration_hints = [''Ask for links to posts they wish they had written'',
     ''Ask for examples of content they find cringeworthy in their niche'',
     ''Probe for what makes the good examples good and the bad ones bad''],
    coverage_criteria = [''At least 2-3 positive examples referenced'',
     ''At least 1 anti-example referenced''],
    sub_areas = None,
    cascade_to = None\<rparr>\<close>

definition content_platform_adaptation :: rubric_dimension where
  \<open>content_platform_adaptation = \<lparr>
    dim_id = ''platform_adaptation'',
    dim_name = ''Cross-Platform Adaptation Rules'',
    dim_description = ''How content should change between platforms. Tone shifts, format changes, audience assumptions.'',
    maps_to = [Tone, Domain_specific],
    depth_tiers = [Operator],
    exploration_hints = [''Ask how their voice differs between platforms'',
     ''Probe for platform-specific do/don't rules'',
     ''Understand repurposing strategy (long-form to short-form, etc.)''],
    coverage_criteria = [''Platform-specific rules captured''],
    sub_areas = None,
    cascade_to = None\<rparr>\<close>

definition content_edge_cases_content :: rubric_dimension where
  \<open>content_edge_cases_content = \<lparr>
    dim_id = ''edge_cases_content'',
    dim_name = ''Edge Cases & Crisis Content'',
    dim_description = ''How to handle controversial moments, trending topics, crisis situations.'',
    maps_to = [Taboos, Domain_specific],
    depth_tiers = [Operator],
    exploration_hints = [''Ask what to do when a controversial topic trends in their niche'',
     ''Probe for crisis communication guidelines'',
     ''Ask about newsjacking: when is it appropriate?''],
    coverage_criteria = [''Crisis/controversy guidelines set''],
    sub_areas = None,
    cascade_to = None\<rparr>\<close>

definition content_growth_experimentation :: rubric_dimension where
  \<open>content_growth_experimentation = \<lparr>
    dim_id = ''growth_experimentation'',
    dim_name = ''Growth & Experimentation'',
    dim_description = ''Willingness to experiment with new formats, viral strategies, A/B testing content.'',
    maps_to = [Tradeoffs, Domain_specific],
    depth_tiers = [Operator],
    exploration_hints = [''Ask about comfort level with experimental content'',
     ''Probe for A/B testing interest'',
     ''Understand growth targets and timeline''],
    coverage_criteria = [''Experimentation tolerance set''],
    sub_areas = None,
    cascade_to = None\<rparr>\<close>

definition ContentAgentRubric :: domain_rubric where
  \<open>ContentAgentRubric = \<lparr>
    domain_id = ''content-agent'',
    rubric_version = ''0.5.0'',
    interview_goal = ''Understand the user's brand voice, content strategy, platform preferences, and workflow expectations for their content creation agent.'',
    dimensions = [
    content_brand_identity, content_target_platforms, content_content_workflow,
    content_content_goal, content_brand_voice_detail, content_content_types,
    content_forbidden_topics, content_posting_cadence, content_research_autonomy,
    content_tools_integrations, content_success_metrics, content_audience_engagement,
    content_exemplar_content, content_platform_adaptation, content_edge_cases_content,
    content_growth_experimentation],
    includes_universal = True\<rparr>\<close>

lemma content_facts [rubric_data]:
  "dim_id content_brand_identity = ''brand_identity''"
  "depth_tiers content_brand_identity = [Quick, Guided, Operator]"
  "cascades content_brand_identity = []"
  "dim_id content_target_platforms = ''target_platforms''"
  "depth_tiers content_target_platforms = [Quick, Guided, Operator]"
  "cascades content_target_platforms = []"
  "dim_id content_content_workflow = ''content_workflow''"
  "depth_tiers content_content_workflow = [Quick, Guided, Operator]"
  "cascades content_content_workflow = []"
  "dim_id content_content_goal = ''content_goal''"
  "depth_tiers content_content_goal = [Quick, Guided, Operator]"
  "cascades content_content_goal = []"
  "dim_id content_brand_voice_detail = ''brand_voice_detail''"
  "depth_tiers content_brand_voice_detail = [Guided, Operator]"
  "cascades content_brand_voice_detail = []"
  "dim_id content_content_types = ''content_types''"
  "depth_tiers content_content_types = [Guided, Operator]"
  "cascades content_content_types = []"
  "dim_id content_forbidden_topics = ''forbidden_topics''"
  "depth_tiers content_forbidden_topics = [Guided, Operator]"
  "cascades content_forbidden_topics = []"
  "dim_id content_posting_cadence = ''posting_cadence''"
  "depth_tiers content_posting_cadence = [Guided, Operator]"
  "cascades content_posting_cadence = []"
  "dim_id content_research_autonomy = ''research_autonomy''"
  "depth_tiers content_research_autonomy = [Guided, Operator]"
  "cascades content_research_autonomy = []"
  "dim_id content_tools_integrations = ''tools_integrations''"
  "depth_tiers content_tools_integrations = [Guided, Operator]"
  "cascades content_tools_integrations = []"
  "dim_id content_success_metrics = ''success_metrics''"
  "depth_tiers content_success_metrics = [Guided, Operator]"
  "cascades content_success_metrics = []"
  "dim_id content_audience_engagement = ''audience_engagement''"
  "depth_tiers content_audience_engagement = [Guided, Operator]"
  "cascades content_audience_engagement = []"
  "dim_id content_exemplar_content = ''exemplar_content''"
  "depth_tiers content_exemplar_content = [Operator]"
  "cascades content_exemplar_content = []"
  "dim_id content_platform_adaptation = ''platform_adaptation''"
  "depth_tiers content_platform_adaptation = [Operator]"
  "cascades content_platform_adaptation = []"
  "dim_id content_edge_cases_content = ''edge_cases_content''"
  "depth_tiers content_edge_cases_content = [Operator]"
  "cascades content_edge_cases_content = []"
  "dim_id content_growth_experimentation = ''growth_experimentation''"
  "depth_tiers content_growth_experimentation = [Operator]"
  "cascades content_growth_experimentation = []"
  by (simp_all add: cascades_def content_brand_identity_def content_target_platforms_def content_content_workflow_def content_content_goal_def content_brand_voice_detail_def content_content_types_def content_forbidden_topics_def content_posting_cadence_def content_research_autonomy_def content_tools_integrations_def content_success_metrics_def content_audience_engagement_def content_exemplar_content_def content_platform_adaptation_def content_edge_cases_content_def content_growth_experimentation_def)

section \<open>domains/development-agent/rubric.ts\<close>

definition development_engineering_identity :: rubric_dimension where
  \<open>development_engineering_identity = \<lparr>
    dim_id = ''engineering_identity'',
    dim_name = ''Engineering Identity'',
    dim_description = ''How they see themselves as a developer. Craftsperson, pragmatist, scientist, artist? What kind of engineer are they?'',
    maps_to = [Principles],
    depth_tiers = [Quick, Guided, Operator],
    exploration_hints = [''Ask how they would describe their engineering style in a sentence'',
     ''Probe for role models or engineering philosophies they admire'',
     ''Listen for self-identification: are they a systems thinker, product engineer, infrastructure person?'',
     ''Understand whether they prioritize shipping or craftsmanship''],
    coverage_criteria = [''Engineering identity/archetype captured'',
     ''Primary motivation understood (shipping, quality, learning, impact)''],
    sub_areas = None,
    cascade_to = None\<rparr>\<close>

definition development_core_technical_values :: rubric_dimension where
  \<open>development_core_technical_values = \<lparr>
    dim_id = ''core_technical_values'',
    dim_name = ''Core Technical Values'',
    dim_description = (''Their 3-5 non-negotiable technical values. Simplicity, correctness, velocity, readability, performance, security '' @ [CHR 0xE2, CHR 0x80, CHR 0x94] @ '' what matters most?''),
    maps_to = [Principles],
    depth_tiers = [Quick, Guided, Operator],
    exploration_hints = [''Ask what their top 3 non-negotiable values are when writing code'',
     ''Challenge with tradeoff scenarios: "if you had to choose between readable and fast?"'',
     ''Ask what annoys them most in a codebase'',
     ''Listen for implicit values in their complaints and preferences''],
    coverage_criteria = [''At least 3 core values identified'',
     ''Priority ordering established'',
     ''At least one tradeoff position expressed''],
    sub_areas = None,
    cascade_to = None\<rparr>\<close>

definition development_collaboration_style :: rubric_dimension where
  \<open>development_collaboration_style = \<lparr>
    dim_id = ''collaboration_style'',
    dim_name = ''Collaboration Style'',
    dim_description = ''How they work with other developers and how the agent should fit into that. Code review expectations, pair programming mindset.'',
    maps_to = [Principles, Tone],
    depth_tiers = [Quick, Guided, Operator],
    exploration_hints = [''Ask if they think of the agent as a pair programmer, junior dev, or tool'',
     ''Probe for code review preferences: what do they look for?'',
     ''Understand async vs. sync collaboration preferences'',
     ''At operator depth: how should the agent handle disagreements?''],
    coverage_criteria = [''Agent relationship model established (peer, assistant, tool)'',
     ''Code review expectations expressed''],
    sub_areas = None,
    cascade_to = None\<rparr>\<close>

definition development_learning_philosophy :: rubric_dimension where
  \<open>development_learning_philosophy = \<lparr>
    dim_id = ''learning_philosophy'',
    dim_name = ''Learning & Growth Philosophy'',
    dim_description = ''How they approach new technology, learning from mistakes, and experimentation in codebases.'',
    maps_to = [Tradeoffs, Principles],
    depth_tiers = [Quick, Guided, Operator],
    exploration_hints = [''Ask about their stance on new vs. battle-tested technology'',
     ''Probe for how they learn best: docs, examples, trial and error?'',
     ''Understand experimentation tolerance in production codebases''],
    coverage_criteria = [''Innovation vs. stability position captured'',
     ''Learning style understood''],
    sub_areas = None,
    cascade_to = None\<rparr>\<close>

definition development_failure_tolerance :: rubric_dimension where
  \<open>development_failure_tolerance = \<lparr>
    dim_id = ''failure_tolerance'',
    dim_name = ''Failure & Mistake Philosophy'',
    dim_description = ''How they think about bugs, mistakes, and learning from failures. Perfectionist or "fail fast"?'',
    maps_to = [Tradeoffs, Principles],
    depth_tiers = [Quick, Guided, Operator],
    exploration_hints = [''Ask what they do when they find a bug they introduced'',
     ''Probe their stance on "move fast and break things" vs. careful shipping'',
     ''Understand how they want the agent to handle its own mistakes''],
    coverage_criteria = [''Error tolerance level captured'',
     ''Agent mistake handling expectation set''],
    sub_areas = None,
    cascade_to = None\<rparr>\<close>

definition development_code_quality_bar :: rubric_dimension where
  \<open>development_code_quality_bar = \<lparr>
    dim_id = ''code_quality_bar'',
    dim_name = ''Code Quality Bar'',
    dim_description = ''What "good code" means to them. Readable? Performant? Minimal? Well-tested? DRY? Pragmatic duplication?'',
    maps_to = [Principles],
    depth_tiers = [Guided, Operator],
    exploration_hints = [''Ask what they notice first when reading someone else's code'',
     ''Probe their DRY stance: is duplication sometimes acceptable?'',
     ''Ask for their definition of "production-ready" code'',
     ''Understand testing expectations as part of quality''],
    coverage_criteria = [''Quality definition captured'',
     ''Testing expectations as part of quality expressed''],
    sub_areas = None,
    cascade_to = None\<rparr>\<close>

definition development_output_format_preferences :: rubric_dimension where
  \<open>development_output_format_preferences = \<lparr>
    dim_id = ''output_format_preferences'',
    dim_name = ''Output Format Preferences'',
    dim_description = ''How they want the agent to present code. Full files? Diffs? Explanations alongside? Comments in code?'',
    maps_to = [Tone, Domain_specific],
    depth_tiers = [Guided, Operator],
    exploration_hints = [''Ask if they prefer full file output or targeted diffs'',
     ''Probe for explanation expectations: inline comments? separate section?'',
     ''Understand verbosity preference: minimal changes or thorough context?''],
    coverage_criteria = [''Output format preference expressed'',
     ''Explanation style captured''],
    sub_areas = None,
    cascade_to = None\<rparr>\<close>

definition development_naming_conventions :: rubric_dimension where
  \<open>development_naming_conventions = \<lparr>
    dim_id = ''naming_conventions'',
    dim_name = ''Naming Conventions'',
    dim_description = ''Variable, function, file, and module naming philosophy. Case style, descriptiveness, abbreviation tolerance.'',
    maps_to = [Tone, Domain_specific],
    depth_tiers = [Guided, Operator],
    exploration_hints = [''Ask about naming style: verbose descriptive or terse?'',
     ''Probe for abbreviation tolerance'',
     ''Ask about file naming: kebab-case? camelCase?'',
     ''Understand naming-specific pet peeves''],
    coverage_criteria = [''Naming style preference captured'',
     ''At least one specific convention mentioned''],
    sub_areas = None,
    cascade_to = None\<rparr>\<close>

definition development_code_structure_preferences :: rubric_dimension where
  \<open>development_code_structure_preferences = \<lparr>
    dim_id = ''code_structure_preferences'',
    dim_name = ''Code Structure & Organization'',
    dim_description = ''Module organization, file size limits, separation of concerns, directory structure opinions.'',
    maps_to = [Principles, Domain_specific],
    depth_tiers = [Guided, Operator],
    exploration_hints = [''Ask about preferred file organization patterns'',
     ''Probe for file size preferences: when is a file too big?'',
     ''Understand separation of concerns philosophy'',
     ''Ask about single responsibility at the module level''],
    coverage_criteria = [''Organization philosophy captured'',
     ''File size/complexity threshold expressed''],
    sub_areas = None,
    cascade_to = None\<rparr>\<close>

definition development_testing_output_expectations :: rubric_dimension where
  \<open>development_testing_output_expectations = \<lparr>
    dim_id = ''testing_output_expectations'',
    dim_name = ''Testing Philosophy & Output'',
    dim_description = ''Test naming, assertion style, what to test vs. skip, TDD vs. test-after, unit vs. integration focus.'',
    maps_to = [Principles, Domain_specific],
    depth_tiers = [Guided, Operator],
    exploration_hints = [''Ask about TDD vs. test-after preference'',
     ''Probe for unit vs. integration vs. e2e balance'',
     ''Ask about test naming conventions'',
     ''Understand coverage expectations: percentage or coverage of critical paths?''],
    coverage_criteria = [''Testing approach captured (TDD vs. test-after)'',
     ''Coverage expectations expressed''],
    sub_areas = None,
    cascade_to = None\<rparr>\<close>

definition development_commit_message_format :: rubric_dimension where
  \<open>development_commit_message_format = \<lparr>
    dim_id = ''commit_message_format'',
    dim_name = ''Commit Message Format'',
    dim_description = ''Conventional commits, detail level, scope expectations, squash vs. granular commits.'',
    maps_to = [Tone, Domain_specific],
    depth_tiers = [Guided, Operator],
    exploration_hints = [''Ask about commit message format (conventional commits, free-form, etc.)'',
     ''Probe for commit granularity: atomic or batched?'',
     ''Understand squash-on-merge vs. clean history preferences''],
    coverage_criteria = [''Commit format preference captured'',
     ''Granularity preference expressed''],
    sub_areas = None,
    cascade_to = None\<rparr>\<close>

definition development_pr_description_quality :: rubric_dimension where
  \<open>development_pr_description_quality = \<lparr>
    dim_id = ''pr_description_quality'',
    dim_name = ''PR Description Quality'',
    dim_description = ''What a good PR description includes. Summary style, test plan, screenshots, linked issues.'',
    maps_to = [Tone, Domain_specific],
    depth_tiers = [Guided, Operator],
    exploration_hints = [''Ask what they always want to see in a PR description'',
     ''Probe for template usage'',
     ''Understand review expectations for the agent's PRs''],
    coverage_criteria = [''PR description expectations captured''],
    sub_areas = None,
    cascade_to = None\<rparr>\<close>

definition development_documentation_voice :: rubric_dimension where
  \<open>development_documentation_voice = \<lparr>
    dim_id = ''documentation_voice'',
    dim_name = ''Documentation Voice'',
    dim_description = ''Technical writing style, audience assumptions, when docs are needed, inline vs. external documentation.'',
    maps_to = [Tone, Domain_specific],
    depth_tiers = [Guided, Operator],
    exploration_hints = [''Ask when they think documentation is necessary vs. overkill'',
     ''Probe for inline comment philosophy: minimal or thorough?'',
     ''Understand README expectations''],
    coverage_criteria = [''Documentation philosophy captured'',
     ''Comment style preference expressed''],
    sub_areas = None,
    cascade_to = None\<rparr>\<close>

definition development_error_message_philosophy :: rubric_dimension where
  \<open>development_error_message_philosophy = \<lparr>
    dim_id = ''error_message_philosophy'',
    dim_name = ''Error Message Philosophy'',
    dim_description = ''User-facing vs. developer error messages. Actionable errors, error handling patterns.'',
    maps_to = [Principles, Domain_specific],
    depth_tiers = [Guided, Operator],
    exploration_hints = [''Ask about their error handling philosophy: defensive or fail-fast?'',
     ''Probe for error message quality expectations'',
     ''Understand logging verbosity preferences''],
    coverage_criteria = [''Error handling philosophy captured''],
    sub_areas = None,
    cascade_to = None\<rparr>\<close>

definition development_logging_approach :: rubric_dimension where
  \<open>development_logging_approach = \<lparr>
    dim_id = ''logging_approach'',
    dim_name = ''Logging & Observability'',
    dim_description = ''What to log, log levels, structured logging opinions, debugging approach.'',
    maps_to = [Domain_specific],
    depth_tiers = [Guided, Operator],
    exploration_hints = [''Ask about logging philosophy: when is a log line warranted?'',
     ''Probe for structured logging opinions'',
     ''Understand debugging approach: printf, debugger, or both?''],
    coverage_criteria = [''Logging philosophy captured''],
    sub_areas = None,
    cascade_to = None\<rparr>\<close>

definition development_type_safety_stance :: rubric_dimension where
  \<open>development_type_safety_stance = \<lparr>
    dim_id = ''type_safety_stance'',
    dim_name = ''Type Safety Stance'',
    dim_description = ''Strict typing preferences, use of any/unknown, generics philosophy, type inference reliance.'',
    maps_to = [Principles, Domain_specific],
    depth_tiers = [Guided, Operator],
    exploration_hints = [''Ask about strict mode, any vs. unknown, generics usage'',
     ''Probe for type inference tolerance vs. explicit annotations'',
     ''Understand opinions on type-driven development''],
    coverage_criteria = [''Type safety preference captured''],
    sub_areas = None,
    cascade_to = None\<rparr>\<close>

definition development_ci_cd_philosophy :: rubric_dimension where
  \<open>development_ci_cd_philosophy = \<lparr>
    dim_id = ''ci_cd_philosophy'',
    dim_name = ''CI/CD Philosophy'',
    dim_description = ''Pipeline expectations, deployment safety, rollback approach, branch protection opinions.'',
    maps_to = [Domain_specific, Tradeoffs],
    depth_tiers = [Operator],
    exploration_hints = [''Ask about deployment frequency and safety nets'',
     ''Probe for rollback strategy'',
     ''Understand branch protection and merge requirements''],
    coverage_criteria = [''Deployment philosophy captured'',
     ''Safety requirements expressed''],
    sub_areas = None,
    cascade_to = None\<rparr>\<close>

definition development_incident_response :: rubric_dimension where
  \<open>development_incident_response = \<lparr>
    dim_id = ''incident_response'',
    dim_name = ''Incident Response'',
    dim_description = ''How the agent should behave during outages or critical bugs. Urgency, communication, rollback authority.'',
    maps_to = [Taboos, Domain_specific],
    depth_tiers = [Operator],
    exploration_hints = [''Ask how the agent should handle production issues'',
     ''Probe for escalation procedures'',
     ''Understand hotfix vs. proper-fix tradeoff tolerance''],
    coverage_criteria = [''Incident handling expectations set''],
    sub_areas = None,
    cascade_to = None\<rparr>\<close>

definition development_api_design_principles :: rubric_dimension where
  \<open>development_api_design_principles = \<lparr>
    dim_id = ''api_design_principles'',
    dim_name = ''API Design Principles'',
    dim_description = ''REST vs. GraphQL, versioning, error format, endpoint naming, backward compatibility opinions.'',
    maps_to = [Principles, Domain_specific],
    depth_tiers = [Operator],
    exploration_hints = [''Ask about API design opinions'',
     ''Probe for backward compatibility stance'',
     ''Understand error response format preferences''],
    coverage_criteria = [''API design preferences captured''],
    sub_areas = None,
    cascade_to = None\<rparr>\<close>

definition development_technical_debt_management :: rubric_dimension where
  \<open>development_technical_debt_management = \<lparr>
    dim_id = ''technical_debt_management'',
    dim_name = ''Technical Debt Management'',
    dim_description = ''When to take on debt, when to pay it down, tracking approach, refactoring cadence.'',
    maps_to = [Tradeoffs, Principles],
    depth_tiers = [Operator],
    exploration_hints = [''Ask about their relationship with technical debt'',
     ''Probe for refactoring triggers and boundaries'',
     ''Understand boy scout rule adherence''],
    coverage_criteria = [''Tech debt philosophy captured''],
    sub_areas = None,
    cascade_to = None\<rparr>\<close>

definition development_legacy_code_approach :: rubric_dimension where
  \<open>development_legacy_code_approach = \<lparr>
    dim_id = ''legacy_code_approach'',
    dim_name = ''Legacy Code Approach'',
    dim_description = ''How to handle legacy code. Migration strategies, strangler fig, big-bang rewrite opinions.'',
    maps_to = [Principles, Domain_specific],
    depth_tiers = [Operator],
    exploration_hints = [''Ask about their approach to working with legacy codebases'',
     ''Probe for migration strategy preferences'',
     ''Understand tolerance for "leave it as-is" vs. "improve as you go"''],
    coverage_criteria = [''Legacy code approach captured''],
    sub_areas = None,
    cascade_to = None\<rparr>\<close>

definition development_mentoring_voice :: rubric_dimension where
  \<open>development_mentoring_voice = \<lparr>
    dim_id = ''mentoring_voice'',
    dim_name = ''Mentoring & Teaching Voice'',
    dim_description = ''If the agent is helping less experienced developers, what teaching style to use. Patient, Socratic, direct?'',
    maps_to = [Tone, Principles],
    depth_tiers = [Operator],
    exploration_hints = [''Ask how they mentor junior developers'',
     ''Probe for teaching philosophy: explain why or just show how?'',
     ''Understand when the agent should be pedagogical vs. efficient''],
    coverage_criteria = [''Teaching/mentoring style captured''],
    sub_areas = None,
    cascade_to = None\<rparr>\<close>

definition development_open_source_etiquette :: rubric_dimension where
  \<open>development_open_source_etiquette = \<lparr>
    dim_id = ''open_source_etiquette'',
    dim_name = ''Open Source Etiquette'',
    dim_description = ''Contributing to open source, license awareness, community interaction style.'',
    maps_to = [Principles, Domain_specific],
    depth_tiers = [Operator],
    exploration_hints = [''Ask about open source contribution experience'',
     ''Probe for license awareness and preference'',
     ''Understand community engagement expectations''],
    coverage_criteria = [''Open source stance captured''],
    sub_areas = None,
    cascade_to = None\<rparr>\<close>

definition development_tech_stack_opinions :: rubric_dimension where
  \<open>development_tech_stack_opinions = \<lparr>
    dim_id = ''tech_stack_opinions'',
    dim_name = ''Tech Stack Opinions'',
    dim_description = ''Strong opinions about frameworks, libraries, patterns. What they love, hate, and refuse to use.'',
    maps_to = [Domain_specific, Principles],
    depth_tiers = [Operator],
    exploration_hints = [''Ask about frameworks and libraries they love and hate'',
     ''Probe for design pattern opinions'',
     ''Understand "never use" list for technologies''],
    coverage_criteria = [''Key tech stack opinions captured''],
    sub_areas = None,
    cascade_to = None\<rparr>\<close>

definition DevelopmentAgentRubric :: domain_rubric where
  \<open>DevelopmentAgentRubric = \<lparr>
    domain_id = ''development-agent'',
    rubric_version = ''0.5.0'',
    interview_goal = ''Understand the developer's engineering philosophy, code quality standards, workflow preferences, and collaboration style to configure an agent that writes code the way they would.'',
    dimensions = [
    development_engineering_identity, development_core_technical_values,
    development_collaboration_style, development_learning_philosophy,
    development_failure_tolerance, development_code_quality_bar,
    development_output_format_preferences, development_naming_conventions,
    development_code_structure_preferences, development_testing_output_expectations,
    development_commit_message_format, development_pr_description_quality,
    development_documentation_voice, development_error_message_philosophy,
    development_logging_approach, development_type_safety_stance, development_ci_cd_philosophy,
    development_incident_response, development_api_design_principles,
    development_technical_debt_management, development_legacy_code_approach,
    development_mentoring_voice, development_open_source_etiquette,
    development_tech_stack_opinions],
    includes_universal = True\<rparr>\<close>

lemma development_facts [rubric_data]:
  "dim_id development_engineering_identity = ''engineering_identity''"
  "depth_tiers development_engineering_identity = [Quick, Guided, Operator]"
  "cascades development_engineering_identity = []"
  "dim_id development_core_technical_values = ''core_technical_values''"
  "depth_tiers development_core_technical_values = [Quick, Guided, Operator]"
  "cascades development_core_technical_values = []"
  "dim_id development_collaboration_style = ''collaboration_style''"
  "depth_tiers development_collaboration_style = [Quick, Guided, Operator]"
  "cascades development_collaboration_style = []"
  "dim_id development_learning_philosophy = ''learning_philosophy''"
  "depth_tiers development_learning_philosophy = [Quick, Guided, Operator]"
  "cascades development_learning_philosophy = []"
  "dim_id development_failure_tolerance = ''failure_tolerance''"
  "depth_tiers development_failure_tolerance = [Quick, Guided, Operator]"
  "cascades development_failure_tolerance = []"
  "dim_id development_code_quality_bar = ''code_quality_bar''"
  "depth_tiers development_code_quality_bar = [Guided, Operator]"
  "cascades development_code_quality_bar = []"
  "dim_id development_output_format_preferences = ''output_format_preferences''"
  "depth_tiers development_output_format_preferences = [Guided, Operator]"
  "cascades development_output_format_preferences = []"
  "dim_id development_naming_conventions = ''naming_conventions''"
  "depth_tiers development_naming_conventions = [Guided, Operator]"
  "cascades development_naming_conventions = []"
  "dim_id development_code_structure_preferences = ''code_structure_preferences''"
  "depth_tiers development_code_structure_preferences = [Guided, Operator]"
  "cascades development_code_structure_preferences = []"
  "dim_id development_testing_output_expectations = ''testing_output_expectations''"
  "depth_tiers development_testing_output_expectations = [Guided, Operator]"
  "cascades development_testing_output_expectations = []"
  "dim_id development_commit_message_format = ''commit_message_format''"
  "depth_tiers development_commit_message_format = [Guided, Operator]"
  "cascades development_commit_message_format = []"
  "dim_id development_pr_description_quality = ''pr_description_quality''"
  "depth_tiers development_pr_description_quality = [Guided, Operator]"
  "cascades development_pr_description_quality = []"
  "dim_id development_documentation_voice = ''documentation_voice''"
  "depth_tiers development_documentation_voice = [Guided, Operator]"
  "cascades development_documentation_voice = []"
  "dim_id development_error_message_philosophy = ''error_message_philosophy''"
  "depth_tiers development_error_message_philosophy = [Guided, Operator]"
  "cascades development_error_message_philosophy = []"
  "dim_id development_logging_approach = ''logging_approach''"
  "depth_tiers development_logging_approach = [Guided, Operator]"
  "cascades development_logging_approach = []"
  "dim_id development_type_safety_stance = ''type_safety_stance''"
  "depth_tiers development_type_safety_stance = [Guided, Operator]"
  "cascades development_type_safety_stance = []"
  "dim_id development_ci_cd_philosophy = ''ci_cd_philosophy''"
  "depth_tiers development_ci_cd_philosophy = [Operator]"
  "cascades development_ci_cd_philosophy = []"
  "dim_id development_incident_response = ''incident_response''"
  "depth_tiers development_incident_response = [Operator]"
  "cascades development_incident_response = []"
  "dim_id development_api_design_principles = ''api_design_principles''"
  "depth_tiers development_api_design_principles = [Operator]"
  "cascades development_api_design_principles = []"
  "dim_id development_technical_debt_management = ''technical_debt_management''"
  "depth_tiers development_technical_debt_management = [Operator]"
  "cascades development_technical_debt_management = []"
  "dim_id development_legacy_code_approach = ''legacy_code_approach''"
  "depth_tiers development_legacy_code_approach = [Operator]"
  "cascades development_legacy_code_approach = []"
  "dim_id development_mentoring_voice = ''mentoring_voice''"
  "depth_tiers development_mentoring_voice = [Operator]"
  "cascades development_mentoring_voice = []"
  "dim_id development_open_source_etiquette = ''open_source_etiquette''"
  "depth_tiers development_open_source_etiquette = [Operator]"
  "cascades development_open_source_etiquette = []"
  "dim_id development_tech_stack_opinions = ''tech_stack_opinions''"
  "depth_tiers development_tech_stack_opinions = [Operator]"
  "cascades development_tech_stack_opinions = []"
  by (simp_all add: cascades_def development_engineering_identity_def development_core_technical_values_def development_collaboration_style_def development_learning_philosophy_def development_failure_tolerance_def development_code_quality_bar_def development_output_format_preferences_def development_naming_conventions_def development_code_structure_preferences_def development_testing_output_expectations_def development_commit_message_format_def development_pr_description_quality_def development_documentation_voice_def development_error_message_philosophy_def development_logging_approach_def development_type_safety_stance_def development_ci_cd_philosophy_def development_incident_response_def development_api_design_principles_def development_technical_debt_management_def development_legacy_code_approach_def development_mentoring_voice_def development_open_source_etiquette_def development_tech_stack_opinions_def)

section \<open>domains/general-agent/rubric.ts\<close>

definition general_mission_scope :: rubric_dimension where
  \<open>general_mission_scope = \<lparr>
    dim_id = ''mission_scope'',
    dim_name = ''Mission Scope and Boundaries'',
    dim_description = ''Defines what this agent is primarily responsible for and what is out of scope.'',
    maps_to = [Principles, Domain_specific],
    depth_tiers = [Quick, Guided, Operator],
    exploration_hints = [''Identify primary jobs-to-be-done and recurring requests.'',
     ''Clarify what the agent should explicitly decline or defer.''],
    coverage_criteria = [''Core mission areas are named with examples.'',
     ''Out-of-scope categories are explicit.''],
    sub_areas = None,
    cascade_to = Some [\<lparr>cascade_target = ''prioritization_framework'', cascade_weight = 1 / 5, cascade_condition = None\<rparr>]\<rparr>\<close>

definition general_decision_style :: rubric_dimension where
  \<open>general_decision_style = \<lparr>
    dim_id = ''decision_style'',
    dim_name = ''Decision-Making Style'',
    dim_description = ''How the agent should reason through tradeoffs and present recommendations.'',
    maps_to = [Tradeoffs, Domain_specific],
    depth_tiers = [Quick, Guided, Operator],
    exploration_hints = [''Ask if user prefers options-first vs recommendation-first outputs.'',
     ''Probe tolerance for ambiguity vs decisive recommendations.''],
    coverage_criteria = [''Preferred recommendation format is clear.'',
     ''Decision confidence and uncertainty style is defined.''],
    sub_areas = None,
    cascade_to = Some [\<lparr>cascade_target = ''autonomy_boundaries'', cascade_weight = 1 / 5, cascade_condition = None\<rparr>]\<rparr>\<close>

definition general_autonomy_boundaries :: rubric_dimension where
  \<open>general_autonomy_boundaries = \<lparr>
    dim_id = ''autonomy_boundaries'',
    dim_name = ''Autonomy and Approval Boundaries'',
    dim_description = ''When the agent should act independently versus ask for confirmation.'',
    maps_to = [Tradeoffs, Taboos, Domain_specific],
    depth_tiers = [Quick, Guided, Operator],
    exploration_hints = [''Capture irreversible actions that always need approval.'',
     ''Identify safe low-risk actions that can be automated.''],
    coverage_criteria = [''Autonomous action envelope is explicitly bounded.'',
     ''Escalation triggers and approval points are documented.''],
    sub_areas = None,
    cascade_to = None\<rparr>\<close>

definition general_communication_contract :: rubric_dimension where
  \<open>general_communication_contract = \<lparr>
    dim_id = ''communication_contract'',
    dim_name = ''Communication Contract'',
    dim_description = ''Preferred voice, response structure, and reporting cadence for day-to-day interaction.'',
    maps_to = [Tone, Principles],
    depth_tiers = [Quick, Guided, Operator],
    exploration_hints = [''Ask about brevity vs detail and preferred formatting.'',
     ''Probe how often proactive updates are expected.''],
    coverage_criteria = [''Tone and formatting preferences are concrete.'',
     ''Update cadence and status-report style are specified.''],
    sub_areas = None,
    cascade_to = None\<rparr>\<close>

definition general_evidence_rigor :: rubric_dimension where
  \<open>general_evidence_rigor = \<lparr>
    dim_id = ''evidence_rigor'',
    dim_name = ''Evidence and Verification Rigor'',
    dim_description = ''How strongly the agent should verify claims, cite sources, and annotate uncertainty.'',
    maps_to = [Evidence_policy, Domain_specific],
    depth_tiers = [Quick, Guided, Operator],
    exploration_hints = [''Determine citation expectations by task type.'',
     ''Capture red lines for unsupported claims.''],
    coverage_criteria = [''Verification depth expectations are defined.'',
     ''Citation and uncertainty rules are explicit.''],
    sub_areas = None,
    cascade_to = Some [\<lparr>cascade_target = ''quality_bar'', cascade_weight = 1 / 5, cascade_condition = None\<rparr>]\<rparr>\<close>

definition general_risk_escalation :: rubric_dimension where
  \<open>general_risk_escalation = \<lparr>
    dim_id = ''risk_escalation'',
    dim_name = ''Risk and Escalation Policy'',
    dim_description = ''Operational and ethical situations that require immediate escalation.'',
    maps_to = [Taboos, Tradeoffs, Domain_specific],
    depth_tiers = [Quick, Guided, Operator],
    exploration_hints = [''Identify legal, financial, reputational, or privacy-sensitive triggers.'',
     ''Clarify stop/ask/escalate behavior under uncertainty.''],
    coverage_criteria = [''High-risk categories are enumerated.'',
     ''Escalation response and fallback behavior are explicit.''],
    sub_areas = None,
    cascade_to = None\<rparr>\<close>

definition general_planning_horizon :: rubric_dimension where
  \<open>general_planning_horizon = \<lparr>
    dim_id = ''planning_horizon'',
    dim_name = ''Planning Horizon and Cadence'',
    dim_description = ''How far ahead the agent should plan and how often plans should be revisited.'',
    maps_to = [Tradeoffs, Domain_specific],
    depth_tiers = [Guided, Operator],
    exploration_hints = [''Capture short-term execution cadence and long-range planning expectations.'',
     ''Ask how frequently priorities should be re-evaluated.''],
    coverage_criteria = [''Near-term vs long-term planning balance is clear.'',
     ''Review and replanning cadence is specified.''],
    sub_areas = None,
    cascade_to = None\<rparr>\<close>

definition general_tooling_preferences :: rubric_dimension where
  \<open>general_tooling_preferences = \<lparr>
    dim_id = ''tooling_preferences'',
    dim_name = ''Tooling and Systems Preferences'',
    dim_description = ''Preferred tools, integrations, and operational systems for execution.'',
    maps_to = [Domain_specific],
    depth_tiers = [Guided, Operator],
    exploration_hints = [''Identify preferred toolchain and any banned tools.'',
     ''Capture reliability expectations for external systems.''],
    coverage_criteria = [''Must-use and must-avoid tools are listed.'',
     ''Integration expectations and failure fallback behavior are defined.''],
    sub_areas = None,
    cascade_to = None\<rparr>\<close>

definition general_context_window_management :: rubric_dimension where
  \<open>general_context_window_management = \<lparr>
    dim_id = ''context_window_management'',
    dim_name = ''Context Management Strategy'',
    dim_description = ''How the agent should retain, summarize, and refresh context across tasks.'',
    maps_to = [Principles, Domain_specific],
    depth_tiers = [Guided, Operator],
    exploration_hints = [''Ask what context should be persisted versus treated as ephemeral.'',
     ''Probe summarization style when context grows large.''],
    coverage_criteria = [''Persistence vs ephemerality expectations are explicit.'',
     ''Summarization and context refresh behavior is defined.''],
    sub_areas = None,
    cascade_to = None\<rparr>\<close>

definition general_output_artifact_preferences :: rubric_dimension where
  \<open>general_output_artifact_preferences = \<lparr>
    dim_id = ''output_artifact_preferences'',
    dim_name = ''Output Artifact Preferences'',
    dim_description = ''Preferred deliverable types, templates, and acceptance format.'',
    maps_to = [Tone, Domain_specific],
    depth_tiers = [Guided, Operator],
    exploration_hints = [''Identify expected artifact formats (checklists, plans, memos, diffs, etc.).'',
     ''Capture structure and completeness expectations per artifact type.''],
    coverage_criteria = [''Primary output formats are identified.'',
     ''Acceptance criteria for output quality and completeness are explicit.''],
    sub_areas = None,
    cascade_to = None\<rparr>\<close>

definition general_feedback_loop :: rubric_dimension where
  \<open>general_feedback_loop = \<lparr>
    dim_id = ''feedback_loop'',
    dim_name = ''Feedback and Iteration Loop'',
    dim_description = ''How the user gives feedback and how the agent should adapt over time.'',
    maps_to = [Principles, Domain_specific],
    depth_tiers = [Guided, Operator],
    exploration_hints = [''Determine preferred correction granularity and iteration cadence.'',
     ''Ask how quickly behavior should adapt after feedback.''],
    coverage_criteria = [''Feedback intake style and loop timing are clear.'',
     ''Adaptation expectations after corrections are explicit.''],
    sub_areas = None,
    cascade_to = None\<rparr>\<close>

definition general_quality_bar :: rubric_dimension where
  \<open>general_quality_bar = \<lparr>
    dim_id = ''quality_bar'',
    dim_name = ''Quality Bar and Exit Criteria'',
    dim_description = (''What '' @ [CHR 0xE2, CHR 0x80, CHR 0x9C] @ ''good enough'' @ [CHR 0xE2, CHR 0x80, CHR 0x9D] @ '' looks like before the agent reports completion.''),
    maps_to = [Principles, Evidence_policy, Domain_specific],
    depth_tiers = [Guided, Operator],
    exploration_hints = [''Capture mandatory checks before delivery.'',
     ''Identify acceptable risk and residual uncertainty thresholds.''],
    coverage_criteria = [''Completion criteria are measurable and explicit.'',
     ''Required validations/checks are listed.''],
    sub_areas = None,
    cascade_to = None\<rparr>\<close>

definition general_exception_handling :: rubric_dimension where
  \<open>general_exception_handling = \<lparr>
    dim_id = ''exception_handling'',
    dim_name = ''Exception and Incident Handling'',
    dim_description = ''How the agent should respond when workflows break or assumptions fail.'',
    maps_to = [Taboos, Domain_specific],
    depth_tiers = [Operator],
    exploration_hints = [''Probe fallback behavior for missing data, tool outages, and contradictory inputs.'',
     ''Capture incident communication expectations.''],
    coverage_criteria = [''Failure-mode fallback behavior is explicit.'',
     ''Incident reporting and escalation details are defined.''],
    sub_areas = None,
    cascade_to = None\<rparr>\<close>

definition general_collaboration_style :: rubric_dimension where
  \<open>general_collaboration_style = \<lparr>
    dim_id = ''collaboration_style'',
    dim_name = ''Collaboration and Stakeholder Style'',
    dim_description = ''How the agent should interact with teammates, reviewers, and decision-makers.'',
    maps_to = [Tone, Principles, Domain_specific],
    depth_tiers = [Operator],
    exploration_hints = [''Ask whether the agent should be neutral facilitator vs assertive advisor.'',
     ''Capture audience-specific communication adaptations.''],
    coverage_criteria = [''Stakeholder communication style is explicit.'',
     ''Role-based tone and detail adjustments are defined.''],
    sub_areas = None,
    cascade_to = None\<rparr>\<close>

definition general_prioritization_framework :: rubric_dimension where
  \<open>general_prioritization_framework = \<lparr>
    dim_id = ''prioritization_framework'',
    dim_name = ''Prioritization Framework'',
    dim_description = ''Rules for ranking tasks and choosing what to execute first.'',
    maps_to = [Principles, Domain_specific],
    depth_tiers = [Operator],
    exploration_hints = [''Identify ranking factors (impact, urgency, reversibility, effort).'',
     ''Capture tie-breakers and conflict resolution behavior.''],
    coverage_criteria = [''Priority scoring logic is explicit.'',
     ''Conflict and tie-break handling is documented.''],
    sub_areas = None,
    cascade_to = None\<rparr>\<close>

definition general_performance_constraints :: rubric_dimension where
  \<open>general_performance_constraints = \<lparr>
    dim_id = ''performance_constraints'',
    dim_name = ''Performance and Cost Constraints'',
    dim_description = ''Latency, depth, and resource-cost expectations across work types.'',
    maps_to = [Tradeoffs, Domain_specific],
    depth_tiers = [Operator],
    exploration_hints = [''Probe acceptable latency for different classes of work.'',
     ''Capture cost-vs-thoroughness thresholds.''],
    coverage_criteria = [''Performance targets and cost sensitivity are explicit.'',
     ''Fallback behavior when constraints conflict is defined.''],
    sub_areas = None,
    cascade_to = None\<rparr>\<close>

definition general_memory_retention_preferences :: rubric_dimension where
  \<open>general_memory_retention_preferences = \<lparr>
    dim_id = ''memory_retention_preferences'',
    dim_name = ''Memory and Retention Preferences'',
    dim_description = ''What long-term memory is useful, and what should be dropped or redacted.'',
    maps_to = [Domain_specific, Evidence_policy],
    depth_tiers = [Operator],
    exploration_hints = [''Determine retention horizon and salience rules for memory writes.'',
     ''Capture privacy boundaries for stored context.''],
    coverage_criteria = [''Retention and forgetting policy is explicit.'',
     ''Sensitive-memory handling rules are defined.''],
    sub_areas = None,
    cascade_to = None\<rparr>\<close>

definition general_governance_auditability :: rubric_dimension where
  \<open>general_governance_auditability = \<lparr>
    dim_id = ''governance_auditability'',
    dim_name = ''Governance and Auditability'',
    dim_description = ''How actions should be logged, reviewed, and justified for accountability.'',
    maps_to = [Evidence_policy, Taboos, Domain_specific],
    depth_tiers = [Operator],
    exploration_hints = [''Ask what audit trails are required for high-impact actions.'',
     ''Capture expectations for decision rationale and traceability.''],
    coverage_criteria = [''Audit/logging expectations are explicit.'',
     ''Decision traceability and review workflow are defined.''],
    sub_areas = None,
    cascade_to = None\<rparr>\<close>

definition GeneralAgentRubric :: domain_rubric where
  \<open>GeneralAgentRubric = \<lparr>
    domain_id = ''general-agent'',
    rubric_version = ''1.0.0'',
    interview_goal = ''Capture how the user wants a general-purpose agent to plan, act, communicate, and escalate across mixed workflows.'',
    dimensions = [
    general_mission_scope, general_decision_style, general_autonomy_boundaries,
    general_communication_contract, general_evidence_rigor, general_risk_escalation,
    general_planning_horizon, general_tooling_preferences, general_context_window_management,
    general_output_artifact_preferences, general_feedback_loop, general_quality_bar,
    general_exception_handling, general_collaboration_style, general_prioritization_framework,
    general_performance_constraints, general_memory_retention_preferences,
    general_governance_auditability],
    includes_universal = True\<rparr>\<close>

lemma general_facts [rubric_data]:
  "dim_id general_mission_scope = ''mission_scope''"
  "depth_tiers general_mission_scope = [Quick, Guided, Operator]"
  "cascades general_mission_scope = [(''prioritization_framework'', 1 / 5)]"
  "dim_id general_decision_style = ''decision_style''"
  "depth_tiers general_decision_style = [Quick, Guided, Operator]"
  "cascades general_decision_style = [(''autonomy_boundaries'', 1 / 5)]"
  "dim_id general_autonomy_boundaries = ''autonomy_boundaries''"
  "depth_tiers general_autonomy_boundaries = [Quick, Guided, Operator]"
  "cascades general_autonomy_boundaries = []"
  "dim_id general_communication_contract = ''communication_contract''"
  "depth_tiers general_communication_contract = [Quick, Guided, Operator]"
  "cascades general_communication_contract = []"
  "dim_id general_evidence_rigor = ''evidence_rigor''"
  "depth_tiers general_evidence_rigor = [Quick, Guided, Operator]"
  "cascades general_evidence_rigor = [(''quality_bar'', 1 / 5)]"
  "dim_id general_risk_escalation = ''risk_escalation''"
  "depth_tiers general_risk_escalation = [Quick, Guided, Operator]"
  "cascades general_risk_escalation = []"
  "dim_id general_planning_horizon = ''planning_horizon''"
  "depth_tiers general_planning_horizon = [Guided, Operator]"
  "cascades general_planning_horizon = []"
  "dim_id general_tooling_preferences = ''tooling_preferences''"
  "depth_tiers general_tooling_preferences = [Guided, Operator]"
  "cascades general_tooling_preferences = []"
  "dim_id general_context_window_management = ''context_window_management''"
  "depth_tiers general_context_window_management = [Guided, Operator]"
  "cascades general_context_window_management = []"
  "dim_id general_output_artifact_preferences = ''output_artifact_preferences''"
  "depth_tiers general_output_artifact_preferences = [Guided, Operator]"
  "cascades general_output_artifact_preferences = []"
  "dim_id general_feedback_loop = ''feedback_loop''"
  "depth_tiers general_feedback_loop = [Guided, Operator]"
  "cascades general_feedback_loop = []"
  "dim_id general_quality_bar = ''quality_bar''"
  "depth_tiers general_quality_bar = [Guided, Operator]"
  "cascades general_quality_bar = []"
  "dim_id general_exception_handling = ''exception_handling''"
  "depth_tiers general_exception_handling = [Operator]"
  "cascades general_exception_handling = []"
  "dim_id general_collaboration_style = ''collaboration_style''"
  "depth_tiers general_collaboration_style = [Operator]"
  "cascades general_collaboration_style = []"
  "dim_id general_prioritization_framework = ''prioritization_framework''"
  "depth_tiers general_prioritization_framework = [Operator]"
  "cascades general_prioritization_framework = []"
  "dim_id general_performance_constraints = ''performance_constraints''"
  "depth_tiers general_performance_constraints = [Operator]"
  "cascades general_performance_constraints = []"
  "dim_id general_memory_retention_preferences = ''memory_retention_preferences''"
  "depth_tiers general_memory_retention_preferences = [Operator]"
  "cascades general_memory_retention_preferences = []"
  "dim_id general_governance_auditability = ''governance_auditability''"
  "depth_tiers general_governance_auditability = [Operator]"
  "cascades general_governance_auditability = []"
  by (simp_all add: cascades_def general_mission_scope_def general_decision_style_def general_autonomy_boundaries_def general_communication_contract_def general_evidence_rigor_def general_risk_escalation_def general_planning_horizon_def general_tooling_preferences_def general_context_window_management_def general_output_artifact_preferences_def general_feedback_loop_def general_quality_bar_def general_exception_handling_def general_collaboration_style_def general_prioritization_framework_def general_performance_constraints_def general_memory_retention_preferences_def general_governance_auditability_def)

section \<open>domains/research-agent/rubric.ts\<close>

definition research_research_methodology :: rubric_dimension where
  \<open>research_research_methodology = \<lparr>
    dim_id = ''research_methodology'',
    dim_name = ''Research Methodology'',
    dim_description = ''How they approach research. Systematic and structured, exploratory and creative, or hypothesis-driven and scientific?'',
    maps_to = [Principles],
    depth_tiers = [Quick, Guided, Operator],
    exploration_hints = [''Ask how they typically start a research project'',
     ''Probe for whether they prefer structured frameworks or open exploration'',
     ''Understand if they formulate hypotheses before researching or let findings guide them'',
     ''Listen for implicit research philosophy in how they describe past projects''],
    coverage_criteria = [''Research approach identified (systematic/exploratory/hypothesis-driven)'',
     ''Starting methodology understood''],
    sub_areas = None,
    cascade_to = None\<rparr>\<close>

definition research_source_preferences :: rubric_dimension where
  \<open>research_source_preferences = \<lparr>
    dim_id = ''source_preferences'',
    dim_name = ''Source Preferences & Hierarchy'',
    dim_description = ''What types of sources they trust most. Academic papers, news outlets, industry reports, government data, primary interviews, social media signals.'',
    maps_to = [Principles, Domain_specific],
    depth_tiers = [Quick, Guided, Operator],
    exploration_hints = [''Ask which sources they consider authoritative in their field'',
     ''Probe for source hierarchy: what sources are gold standard vs. supplementary?'',
     ''Understand tolerance for non-academic or informal sources'',
     ''Ask about primary vs. secondary source preferences''],
    coverage_criteria = [''Preferred source types identified'',
     ''Source authority hierarchy established''],
    sub_areas = None,
    cascade_to = None\<rparr>\<close>

definition research_synthesis_style :: rubric_dimension where
  \<open>research_synthesis_style = \<lparr>
    dim_id = ''synthesis_style'',
    dim_name = ''Synthesis & Presentation Style'',
    dim_description = ''How findings should be synthesized and presented. Executive summary, deep analysis, bullet points, narrative form.'',
    maps_to = [Tone, Domain_specific],
    depth_tiers = [Quick, Guided, Operator],
    exploration_hints = [''Ask how they prefer to receive research findings'',
     ''Probe for narrative vs. structured preferences'',
     ''Understand whether they want conclusions or just organized facts'',
     ''Ask about the audience they typically share research with''],
    coverage_criteria = [''Synthesis style identified'',
     ''Presentation format preference captured''],
    sub_areas = None,
    cascade_to = None\<rparr>\<close>

definition research_output_format :: rubric_dimension where
  \<open>research_output_format = \<lparr>
    dim_id = ''output_format'',
    dim_name = ''Output Format & Structure'',
    dim_description = ''Deliverable format preferences. Report structure, visualization approach, data table formatting, section organization.'',
    maps_to = [Tone, Domain_specific],
    depth_tiers = [Quick, Guided, Operator],
    exploration_hints = [''Ask about preferred report structure (sections, headings, length)'',
     ''Probe for visualization preferences: charts, tables, or text?'',
     ''Understand formatting expectations: markdown, docs, slides?'',
     ''Ask about appendix vs. inline detail preferences''],
    coverage_criteria = [''Output format preference expressed'',
     ''Structure expectations captured''],
    sub_areas = None,
    cascade_to = None\<rparr>\<close>

definition research_depth_vs_breadth :: rubric_dimension where
  \<open>research_depth_vs_breadth = \<lparr>
    dim_id = ''depth_vs_breadth'',
    dim_name = ''Depth vs. Breadth Preference'',
    dim_description = ''Whether research should go deep on fewer topics or cover breadth across many. Thoroughness vs. speed tradeoff.'',
    maps_to = [Tradeoffs],
    depth_tiers = [Quick, Guided, Operator],
    exploration_hints = [''Ask whether they prefer comprehensive depth or quick overviews'',
     ''Probe with a tradeoff: "Would you rather have 3 deeply analyzed sources or 15 summarized?"'',
     ''Understand time sensitivity: when is "good enough" acceptable?'',
     ''Ask about their tolerance for incomplete but fast results''],
    coverage_criteria = [''Depth vs. breadth position captured'',
     ''Speed vs. thoroughness tradeoff expressed''],
    sub_areas = None,
    cascade_to = None\<rparr>\<close>

definition research_citation_standards :: rubric_dimension where
  \<open>research_citation_standards = \<lparr>
    dim_id = ''citation_standards'',
    dim_name = ''Citation & Attribution Standards'',
    dim_description = ''How rigorous citations should be. Inline links, footnotes, academic formatting, or informal attribution.'',
    maps_to = [Principles, Domain_specific],
    depth_tiers = [Guided, Operator],
    exploration_hints = [''Ask about citation expectations: academic rigor or casual links?'',
     ''Probe for formatting preferences (APA, inline URLs, footnotes)'',
     ''Understand whether every claim needs a source or just key ones'',
     ''Ask about link freshness: do they want archive links for durability?''],
    coverage_criteria = [''Citation rigor level set'',
     ''Attribution format preference captured''],
    sub_areas = None,
    cascade_to = None\<rparr>\<close>

definition research_bias_awareness :: rubric_dimension where
  \<open>research_bias_awareness = \<lparr>
    dim_id = ''bias_awareness'',
    dim_name = ''Bias Awareness & Perspective Balance'',
    dim_description = ''How to handle biased sources and whether to represent multiple perspectives. Neutral reporting vs. opinionated synthesis.'',
    maps_to = [Principles],
    depth_tiers = [Guided, Operator],
    exploration_hints = [''Ask how they want the agent to handle conflicting sources'',
     ''Probe for multi-perspective requirements: should both sides be presented?'',
     ''Understand their stance on flagging potential bias in sources'',
     ''Ask whether they want the agent to note when evidence is one-sided''],
    coverage_criteria = [''Bias handling approach captured'',
     ''Perspective balance requirement expressed''],
    sub_areas = None,
    cascade_to = None\<rparr>\<close>

definition research_data_interpretation :: rubric_dimension where
  \<open>research_data_interpretation = \<lparr>
    dim_id = ''data_interpretation'',
    dim_name = ''Data Interpretation & Visualization'',
    dim_description = ''Comfort level with statistics, data tables, and charts. Whether the agent should interpret data or present it raw.'',
    maps_to = [Domain_specific],
    depth_tiers = [Guided, Operator],
    exploration_hints = [''Ask about statistical comfort: should the agent analyze numbers or just present them?'',
     ''Probe for visualization preferences: tables, charts, or narrative descriptions?'',
     ''Understand whether they want statistical significance noted'',
     ''Ask about data formatting preferences (percentages, absolutes, comparisons)''],
    coverage_criteria = [''Data interpretation expectations set'',
     ''Visualization preferences expressed''],
    sub_areas = None,
    cascade_to = None\<rparr>\<close>

definition research_competitive_analysis_style :: rubric_dimension where
  \<open>research_competitive_analysis_style = \<lparr>
    dim_id = ''competitive_analysis_style'',
    dim_name = ''Competitive & Market Analysis'',
    dim_description = ''How to approach competitor or market research. Framework usage, comparison matrices, SWOT analysis.'',
    maps_to = [Domain_specific],
    depth_tiers = [Guided, Operator],
    exploration_hints = [''Ask if competitive analysis is part of their research needs'',
     ''Probe for preferred frameworks (SWOT, Porter's Five Forces, feature matrices)'',
     ''Understand how they want competitors presented: side-by-side or narrative?'',
     ''Ask about ethical boundaries in competitive research''],
    coverage_criteria = [''Competitive analysis approach captured''],
    sub_areas = None,
    cascade_to = None\<rparr>\<close>

definition research_temporal_scope :: rubric_dimension where
  \<open>research_temporal_scope = \<lparr>
    dim_id = ''temporal_scope'',
    dim_name = ''Temporal Scope & Recency'',
    dim_description = ''How recent sources should be. Whether historical context matters or only current data is relevant.'',
    maps_to = [Domain_specific],
    depth_tiers = [Guided, Operator],
    exploration_hints = [''Ask about time horizons: how recent must sources be?'',
     ''Probe for historical context needs: is trend analysis important?'',
     ''Understand whether outdated sources should be flagged or excluded'',
     ''Ask about real-time monitoring vs. snapshot research''],
    coverage_criteria = [''Temporal scope preferences set''],
    sub_areas = None,
    cascade_to = None\<rparr>\<close>

definition research_cross_referencing :: rubric_dimension where
  \<open>research_cross_referencing = \<lparr>
    dim_id = ''cross_referencing'',
    dim_name = ''Cross-Referencing & Verification'',
    dim_description = ''Multi-source verification requirements. How many independent sources confirm a claim before it's considered reliable.'',
    maps_to = [Principles, Domain_specific],
    depth_tiers = [Guided, Operator],
    exploration_hints = [''Ask about verification standards: single source or multi-source?'',
     ''Probe for how they handle conflicting data across sources'',
     ''Understand their threshold for "confirmed" vs. "reported"'',
     ''Ask about triangulation expectations''],
    coverage_criteria = [''Verification standards captured'',
     ''Multi-source requirements expressed''],
    sub_areas = None,
    cascade_to = None\<rparr>\<close>

definition research_fact_checking_rigor :: rubric_dimension where
  \<open>research_fact_checking_rigor = \<lparr>
    dim_id = ''fact_checking_rigor'',
    dim_name = ''Fact-Checking Rigor'',
    dim_description = ''How aggressively claims should be verified. High rigor (verify everything) vs. pragmatic (trust authoritative sources).'',
    maps_to = [Principles],
    depth_tiers = [Guided, Operator],
    exploration_hints = [''Ask about their fact-checking expectations'',
     ''Probe for which types of claims need verification vs. can be taken at face value'',
     ''Understand tolerance for unverified but plausible information'',
     ''Ask about flagging uncertain vs. verified claims''],
    coverage_criteria = [''Fact-checking rigor level set''],
    sub_areas = None,
    cascade_to = None\<rparr>\<close>

definition research_research_tools :: rubric_dimension where
  \<open>research_research_tools = \<lparr>
    dim_id = ''research_tools'',
    dim_name = ''Research Tools & Sources'',
    dim_description = ''Available databases, APIs, search tools. What tools the agent has access to and preferences for using them.'',
    maps_to = [Domain_specific],
    depth_tiers = [Guided, Operator],
    exploration_hints = [''Ask about available research tools and databases'',
     ''Probe for search engine preferences (Google Scholar, Semantic Scholar, etc.)'',
     ''Understand access to paywalled content or specialized APIs'',
     ''Ask about tool usage preferences and limitations''],
    coverage_criteria = [''Available tools identified'',
     ''Tool preferences expressed''],
    sub_areas = None,
    cascade_to = None\<rparr>\<close>

definition research_methodology_documentation :: rubric_dimension where
  \<open>research_methodology_documentation = \<lparr>
    dim_id = ''methodology_documentation'',
    dim_name = ''Methodology Documentation'',
    dim_description = ''Whether and how the research process itself should be documented. Reproducibility, audit trail, methodology sections.'',
    maps_to = [Domain_specific],
    depth_tiers = [Operator],
    exploration_hints = [''Ask whether they want the research methodology documented alongside findings'',
     ''Probe for audit trail requirements: should search queries be logged?'',
     ''Understand reproducibility expectations'',
     ''Ask about methodology sections in reports''],
    coverage_criteria = [''Documentation expectations for research process set''],
    sub_areas = None,
    cascade_to = None\<rparr>\<close>

definition research_hypothesis_framing :: rubric_dimension where
  \<open>research_hypothesis_framing = \<lparr>
    dim_id = ''hypothesis_framing'',
    dim_name = ''Hypothesis Framing & Recommendations'',
    dim_description = ''Whether findings should be presented neutrally or with recommendations. Descriptive vs. prescriptive research output.'',
    maps_to = [Tone, Principles],
    depth_tiers = [Operator],
    exploration_hints = [''Ask whether the agent should make recommendations or stay neutral'',
     ''Probe for opinion tolerance: is it okay to frame findings with a point of view?'',
     ''Understand the line between analysis and advocacy'',
     ''Ask about confidence-level labeling for recommendations''],
    coverage_criteria = [''Recommendation vs. neutral stance captured''],
    sub_areas = None,
    cascade_to = None\<rparr>\<close>

definition research_stakeholder_communication :: rubric_dimension where
  \<open>research_stakeholder_communication = \<lparr>
    dim_id = ''stakeholder_communication'',
    dim_name = ''Stakeholder Communication'',
    dim_description = ''Adapting research output for different audiences. Technical vs. executive summaries, jargon level, detail depth.'',
    maps_to = [Tone],
    depth_tiers = [Operator],
    exploration_hints = [''Ask about different audiences who consume the research'',
     ''Probe for how output should change based on audience (executive vs. technical)'',
     ''Understand jargon tolerance for different stakeholders'',
     ''Ask about multi-format output needs''],
    coverage_criteria = [''Audience adaptation expectations captured''],
    sub_areas = None,
    cascade_to = None\<rparr>\<close>

definition research_research_ethics :: rubric_dimension where
  \<open>research_research_ethics = \<lparr>
    dim_id = ''research_ethics'',
    dim_name = ''Research Ethics & Privacy'',
    dim_description = ''Ethical boundaries in research. Privacy considerations, consent for data collection, responsible use of personal data.'',
    maps_to = [Taboos, Principles],
    depth_tiers = [Operator],
    exploration_hints = [''Ask about ethical boundaries in research data collection'',
     ''Probe for privacy considerations: what data is off-limits?'',
     ''Understand their stance on scraping, public vs. private data'',
     ''Ask about responsible disclosure considerations''],
    coverage_criteria = [''Research ethics boundaries set''],
    sub_areas = None,
    cascade_to = None\<rparr>\<close>

definition research_uncertainty_quantification :: rubric_dimension where
  \<open>research_uncertainty_quantification = \<lparr>
    dim_id = ''uncertainty_quantification'',
    dim_name = ''Uncertainty & Confidence Levels'',
    dim_description = ''How to express uncertainty in findings. Confidence intervals, certainty language, hedging style.'',
    maps_to = [Domain_specific, Tradeoffs],
    depth_tiers = [Operator],
    exploration_hints = [''Ask how they want uncertainty communicated in findings'',
     ''Probe for confidence level labeling preferences'',
     ''Understand statistical significance expectations'',
     ''Ask about hedging language tolerance vs. definitive statements''],
    coverage_criteria = [''Uncertainty communication style captured''],
    sub_areas = None,
    cascade_to = None\<rparr>\<close>

definition ResearchAgentRubric :: domain_rubric where
  \<open>ResearchAgentRubric = \<lparr>
    domain_id = ''research-agent'',
    rubric_version = ''0.5.0'',
    interview_goal = ''Understand the user's research methodology, source preferences, synthesis style, and quality standards to configure an agent that researches the way they would.'',
    dimensions = [
    research_research_methodology, research_source_preferences, research_synthesis_style,
    research_output_format, research_depth_vs_breadth, research_citation_standards,
    research_bias_awareness, research_data_interpretation, research_competitive_analysis_style,
    research_temporal_scope, research_cross_referencing, research_fact_checking_rigor,
    research_research_tools, research_methodology_documentation, research_hypothesis_framing,
    research_stakeholder_communication, research_research_ethics,
    research_uncertainty_quantification],
    includes_universal = True\<rparr>\<close>

lemma research_facts [rubric_data]:
  "dim_id research_research_methodology = ''research_methodology''"
  "depth_tiers research_research_methodology = [Quick, Guided, Operator]"
  "cascades research_research_methodology = []"
  "dim_id research_source_preferences = ''source_preferences''"
  "depth_tiers research_source_preferences = [Quick, Guided, Operator]"
  "cascades research_source_preferences = []"
  "dim_id research_synthesis_style = ''synthesis_style''"
  "depth_tiers research_synthesis_style = [Quick, Guided, Operator]"
  "cascades research_synthesis_style = []"
  "dim_id research_output_format = ''output_format''"
  "depth_tiers research_output_format = [Quick, Guided, Operator]"
  "cascades research_output_format = []"
  "dim_id research_depth_vs_breadth = ''depth_vs_breadth''"
  "depth_tiers research_depth_vs_breadth = [Quick, Guided, Operator]"
  "cascades research_depth_vs_breadth = []"
  "dim_id research_citation_standards = ''citation_standards''"
  "depth_tiers research_citation_standards = [Guided, Operator]"
  "cascades research_citation_standards = []"
  "dim_id research_bias_awareness = ''bias_awareness''"
  "depth_tiers research_bias_awareness = [Guided, Operator]"
  "cascades research_bias_awareness = []"
  "dim_id research_data_interpretation = ''data_interpretation''"
  "depth_tiers research_data_interpretation = [Guided, Operator]"
  "cascades research_data_interpretation = []"
  "dim_id research_competitive_analysis_style = ''competitive_analysis_style''"
  "depth_tiers research_competitive_analysis_style = [Guided, Operator]"
  "cascades research_competitive_analysis_style = []"
  "dim_id research_temporal_scope = ''temporal_scope''"
  "depth_tiers research_temporal_scope = [Guided, Operator]"
  "cascades research_temporal_scope = []"
  "dim_id research_cross_referencing = ''cross_referencing''"
  "depth_tiers research_cross_referencing = [Guided, Operator]"
  "cascades research_cross_referencing = []"
  "dim_id research_fact_checking_rigor = ''fact_checking_rigor''"
  "depth_tiers research_fact_checking_rigor = [Guided, Operator]"
  "cascades research_fact_checking_rigor = []"
  "dim_id research_research_tools = ''research_tools''"
  "depth_tiers research_research_tools = [Guided, Operator]"
  "cascades research_research_tools = []"
  "dim_id research_methodology_documentation = ''methodology_documentation''"
  "depth_tiers research_methodology_documentation = [Operator]"
  "cascades research_methodology_documentation = []"
  "dim_id research_hypothesis_framing = ''hypothesis_framing''"
  "depth_tiers research_hypothesis_framing = [Operator]"
  "cascades research_hypothesis_framing = []"
  "dim_id research_stakeholder_communication = ''stakeholder_communication''"
  "depth_tiers research_stakeholder_communication = [Operator]"
  "cascades research_stakeholder_communication = []"
  "dim_id research_research_ethics = ''research_ethics''"
  "depth_tiers research_research_ethics = [Operator]"
  "cascades research_research_ethics = []"
  "dim_id research_uncertainty_quantification = ''uncertainty_quantification''"
  "depth_tiers research_uncertainty_quantification = [Operator]"
  "cascades research_uncertainty_quantification = []"
  by (simp_all add: cascades_def research_research_methodology_def research_source_preferences_def research_synthesis_style_def research_output_format_def research_depth_vs_breadth_def research_citation_standards_def research_bias_awareness_def research_data_interpretation_def research_competitive_analysis_style_def research_temporal_scope_def research_cross_referencing_def research_fact_checking_rigor_def research_research_tools_def research_methodology_documentation_def research_hypothesis_framing_def research_stakeholder_communication_def research_research_ethics_def research_uncertainty_quantification_def)

section \<open>domains/sales-agent/rubric.ts\<close>

definition sales_sales_philosophy :: rubric_dimension where
  \<open>sales_sales_philosophy = \<lparr>
    dim_id = ''sales_philosophy'',
    dim_name = ''Sales Philosophy'',
    dim_description = ''Their fundamental approach to selling. Consultative, challenger, solution-oriented, relationship-based, or transactional.'',
    maps_to = [Principles],
    depth_tiers = [Quick, Guided, Operator],
    exploration_hints = [''Ask how they would describe their sales approach in a sentence'',
     ''Probe for whether they prioritize relationships or efficiency'',
     ''Understand if they see sales as helping or persuading'',
     ''Listen for methodology clues: do they mention SPIN, Challenger, MEDDIC?''],
    coverage_criteria = [''Sales methodology/philosophy identified'',
     ''Core selling belief captured''],
    sub_areas = None,
    cascade_to = None\<rparr>\<close>

definition sales_communication_style :: rubric_dimension where
  \<open>sales_communication_style = \<lparr>
    dim_id = ''communication_style'',
    dim_name = ''Sales Communication Style'',
    dim_description = ''How they communicate with prospects and clients. Direct, warm, professional, casual, data-driven.'',
    maps_to = [Tone],
    depth_tiers = [Quick, Guided, Operator],
    exploration_hints = [''Ask how they want the agent to sound in emails and calls'',
     ''Probe for formality level: LinkedIn professional or startup casual?'',
     ''Understand whether they lead with data or stories'',
     ''Ask about humor and personality in sales communication''],
    coverage_criteria = [''Communication tone captured'',
     ''Formality level established''],
    sub_areas = None,
    cascade_to = None\<rparr>\<close>

definition sales_lead_qualification :: rubric_dimension where
  \<open>sales_lead_qualification = \<lparr>
    dim_id = ''lead_qualification'',
    dim_name = ''Lead Qualification Criteria'',
    dim_description = ''What makes a good lead. Qualification frameworks, deal-breakers, ideal customer profile.'',
    maps_to = [Principles, Domain_specific],
    depth_tiers = [Quick, Guided, Operator],
    exploration_hints = [''Ask what their ideal customer looks like'',
     ''Probe for qualification criteria: budget, authority, need, timeline?'',
     ''Understand deal-breakers: what disqualifies a lead immediately?'',
     ''Ask about scoring: do they use a formal scoring system?''],
    coverage_criteria = [''Ideal customer profile captured'',
     ''Qualification criteria established''],
    sub_areas = None,
    cascade_to = None\<rparr>\<close>

definition sales_deal_management :: rubric_dimension where
  \<open>sales_deal_management = \<lparr>
    dim_id = ''deal_management'',
    dim_name = ''Deal Management & Pipeline'',
    dim_description = ''How they manage deals through the pipeline. Stage definitions, progression criteria, win/loss analysis.'',
    maps_to = [Domain_specific, Tradeoffs],
    depth_tiers = [Quick, Guided, Operator],
    exploration_hints = [''Ask about their pipeline stages and what moves a deal forward'',
     ''Probe for deal velocity preferences: fast close or patient nurture?'',
     ''Understand how they handle stalled deals'',
     ''Ask about CRM usage and data hygiene expectations''],
    coverage_criteria = [''Pipeline management approach captured'',
     ''Deal progression philosophy expressed''],
    sub_areas = None,
    cascade_to = None\<rparr>\<close>

definition sales_customer_relationship :: rubric_dimension where
  \<open>sales_customer_relationship = \<lparr>
    dim_id = ''customer_relationship'',
    dim_name = ''Customer Relationship Approach'',
    dim_description = ''How they build and maintain customer relationships. Trust-building, value delivery, long-term thinking.'',
    maps_to = [Principles, Tone],
    depth_tiers = [Quick, Guided, Operator],
    exploration_hints = [''Ask about their view on customer relationships vs. transactions'',
     ''Probe for post-sale relationship expectations'',
     ''Understand whether they value lifetime value or individual deal size'',
     ''Ask about referral and expansion strategies''],
    coverage_criteria = [''Relationship philosophy captured'',
     ''Long-term vs. transactional stance expressed''],
    sub_areas = None,
    cascade_to = None\<rparr>\<close>

definition sales_outreach_cadence :: rubric_dimension where
  \<open>sales_outreach_cadence = \<lparr>
    dim_id = ''outreach_cadence'',
    dim_name = ''Outreach Cadence & Timing'',
    dim_description = ''How frequently to reach out, follow-up timing, and persistence limits before moving on.'',
    maps_to = [Domain_specific],
    depth_tiers = [Guided, Operator],
    exploration_hints = [''Ask about ideal follow-up timing after initial outreach'',
     ''Probe for persistence: how many touchpoints before giving up?'',
     ''Understand multi-channel cadence (email, phone, social)'',
     ''Ask about timing preferences: morning/afternoon, weekday/weekend''],
    coverage_criteria = [''Follow-up cadence established'',
     ''Persistence limits set''],
    sub_areas = None,
    cascade_to = None\<rparr>\<close>

definition sales_objection_handling :: rubric_dimension where
  \<open>sales_objection_handling = \<lparr>
    dim_id = ''objection_handling'',
    dim_name = ''Objection Handling'',
    dim_description = ''Approach to handling objections. Empathetic listening, data-driven responses, reframing, or addressing head-on.'',
    maps_to = [Principles, Tone],
    depth_tiers = [Guided, Operator],
    exploration_hints = [''Ask how they typically handle the most common objections'',
     ''Probe for their philosophy: is an objection a buying signal or a stop sign?'',
     ''Understand whether the agent should rebut or acknowledge and move on'',
     ''Ask about the line between persistence and pushiness''],
    coverage_criteria = [''Objection handling philosophy captured'',
     ''Tone for difficult conversations set''],
    sub_areas = None,
    cascade_to = None\<rparr>\<close>

definition sales_proposal_style :: rubric_dimension where
  \<open>sales_proposal_style = \<lparr>
    dim_id = ''proposal_style'',
    dim_name = ''Proposal & Presentation Style'',
    dim_description = ''How proposals and sales materials should look. Level of customization, data inclusion, design expectations.'',
    maps_to = [Tone, Domain_specific],
    depth_tiers = [Guided, Operator],
    exploration_hints = [''Ask about proposal format preferences (deck, doc, email)'',
     ''Probe for customization level: template-based or fully custom?'',
     ''Understand data/ROI inclusion expectations'',
     ''Ask about design and branding requirements''],
    coverage_criteria = [''Proposal format preference captured'',
     ''Customization expectations set''],
    sub_areas = None,
    cascade_to = None\<rparr>\<close>

definition sales_crm_workflow :: rubric_dimension where
  \<open>sales_crm_workflow = \<lparr>
    dim_id = ''crm_workflow'',
    dim_name = ''CRM & Data Workflow'',
    dim_description = ''How CRM data should be maintained. Data entry standards, pipeline hygiene, activity logging.'',
    maps_to = [Domain_specific],
    depth_tiers = [Guided, Operator],
    exploration_hints = [''Ask about CRM usage: which system and how religiously they use it'',
     ''Probe for data entry expectations: what must be logged?'',
     ''Understand activity tracking: calls, emails, meetings'',
     ''Ask about pipeline hygiene and deal cleanup cadence''],
    coverage_criteria = [''CRM expectations captured'',
     ''Data hygiene standards set''],
    sub_areas = None,
    cascade_to = None\<rparr>\<close>

definition sales_follow_up_philosophy :: rubric_dimension where
  \<open>sales_follow_up_philosophy = \<lparr>
    dim_id = ''follow_up_philosophy'',
    dim_name = ''Follow-Up Philosophy'',
    dim_description = ''When and how to follow up. Persistence vs. respect, value-add vs. check-in, timing philosophy.'',
    maps_to = [Principles],
    depth_tiers = [Guided, Operator],
    exploration_hints = [''Ask about their follow-up philosophy: persistent or respectful?'',
     ''Probe for value-add follow-ups vs. simple check-ins'',
     ''Understand when "no" means "no" vs. "not yet"'',
     ''Ask about re-engagement strategies for cold leads''],
    coverage_criteria = [''Follow-up philosophy captured''],
    sub_areas = None,
    cascade_to = None\<rparr>\<close>

definition sales_negotiation_approach :: rubric_dimension where
  \<open>sales_negotiation_approach = \<lparr>
    dim_id = ''negotiation_approach'',
    dim_name = ''Negotiation Approach'',
    dim_description = ''Negotiation tactics and philosophy. Win-win vs. competitive, discount authority, deal structure flexibility.'',
    maps_to = [Tradeoffs, Domain_specific],
    depth_tiers = [Guided, Operator],
    exploration_hints = [''Ask about their negotiation style: collaborative or competitive?'',
     ''Probe for discount authority: when are discounts acceptable?'',
     ''Understand deal structure flexibility (terms, payment, scope)'',
     ''Ask about walking away: when is a deal not worth pursuing?''],
    coverage_criteria = [''Negotiation style captured'',
     ''Discount/pricing flexibility expressed''],
    sub_areas = None,
    cascade_to = None\<rparr>\<close>

definition sales_reporting_preferences :: rubric_dimension where
  \<open>sales_reporting_preferences = \<lparr>
    dim_id = ''reporting_preferences'',
    dim_name = ''Sales Reporting & Metrics'',
    dim_description = ''Which metrics matter most. Report format, frequency, and depth of analysis expected.'',
    maps_to = [Domain_specific],
    depth_tiers = [Guided, Operator],
    exploration_hints = [''Ask which sales metrics they track most closely'',
     ''Probe for reporting cadence: daily, weekly, monthly?'',
     ''Understand dashboard vs. narrative report preferences'',
     ''Ask about forecast accuracy expectations''],
    coverage_criteria = [''Key metrics identified'',
     ''Reporting preferences captured''],
    sub_areas = None,
    cascade_to = None\<rparr>\<close>

definition sales_territory_focus :: rubric_dimension where
  \<open>sales_territory_focus = \<lparr>
    dim_id = ''territory_focus'',
    dim_name = ''Territory & Market Focus'',
    dim_description = ''Target market segment, industry verticals, geographic focus, account size preferences.'',
    maps_to = [Domain_specific],
    depth_tiers = [Guided, Operator],
    exploration_hints = [''Ask about target market segment or industry'',
     ''Probe for geographic focus or restrictions'',
     ''Understand ideal account size and deal value range'',
     ''Ask about vertical specialization vs. horizontal approach''],
    coverage_criteria = [''Target market defined''],
    sub_areas = None,
    cascade_to = None\<rparr>\<close>

definition sales_enterprise_vs_smb :: rubric_dimension where
  \<open>sales_enterprise_vs_smb = \<lparr>
    dim_id = ''enterprise_vs_smb'',
    dim_name = ''Enterprise vs. SMB Approach'',
    dim_description = ''How selling changes based on customer size. Enterprise motions, SMB velocity, mid-market hybrid.'',
    maps_to = [Domain_specific, Tradeoffs],
    depth_tiers = [Operator],
    exploration_hints = [''Ask whether they sell to enterprise, SMB, or both'',
     ''Probe for how the sales motion changes by customer size'',
     ''Understand resource allocation between segments'',
     ''Ask about enterprise-specific requirements (security reviews, procurement)''],
    coverage_criteria = [''Customer size strategy captured''],
    sub_areas = None,
    cascade_to = None\<rparr>\<close>

definition sales_multi_stakeholder :: rubric_dimension where
  \<open>sales_multi_stakeholder = \<lparr>
    dim_id = ''multi_stakeholder'',
    dim_name = ''Multi-Stakeholder Deals'',
    dim_description = ''Handling multiple decision-makers. Champion building, executive sponsorship, committee selling.'',
    maps_to = [Domain_specific],
    depth_tiers = [Operator],
    exploration_hints = [''Ask how they navigate deals with multiple decision-makers'',
     ''Probe for champion identification and development strategy'',
     ''Understand executive engagement approach'',
     ''Ask about buying committee dynamics''],
    coverage_criteria = [''Multi-stakeholder approach captured''],
    sub_areas = None,
    cascade_to = None\<rparr>\<close>

definition sales_competitive_positioning :: rubric_dimension where
  \<open>sales_competitive_positioning = \<lparr>
    dim_id = ''competitive_positioning'',
    dim_name = ''Competitive Positioning'',
    dim_description = ''How to handle competitor mentions. Head-to-head comparisons, differentiation messaging, competitor respect.'',
    maps_to = [Principles, Taboos],
    depth_tiers = [Operator],
    exploration_hints = [''Ask how they want the agent to handle competitor mentions'',
     ''Probe for whether to compare directly or differentiate subtly'',
     ''Understand if badmouthing competitors is off-limits'',
     ''Ask about competitive battle card usage''],
    coverage_criteria = [''Competitive positioning approach captured''],
    sub_areas = None,
    cascade_to = None\<rparr>\<close>

definition sales_pricing_strategy :: rubric_dimension where
  \<open>sales_pricing_strategy = \<lparr>
    dim_id = ''pricing_strategy'',
    dim_name = ''Pricing & Discount Strategy'',
    dim_description = ''How to handle pricing conversations. Discount policies, value-based pricing, bundle strategies.'',
    maps_to = [Tradeoffs, Taboos],
    depth_tiers = [Operator],
    exploration_hints = [''Ask about pricing conversation philosophy: lead with price or value?'',
     ''Probe for discount authority and limits'',
     ''Understand value-based pricing vs. list price approach'',
     ''Ask about bundle or package deal strategies''],
    coverage_criteria = [''Pricing philosophy captured'',
     ''Discount boundaries set''],
    sub_areas = None,
    cascade_to = None\<rparr>\<close>

definition sales_compliance_awareness :: rubric_dimension where
  \<open>sales_compliance_awareness = \<lparr>
    dim_id = ''compliance_awareness'',
    dim_name = ''Sales Compliance & Ethics'',
    dim_description = ''Regulatory considerations in sales. Anti-spam laws, data privacy, industry-specific compliance, ethical boundaries.'',
    maps_to = [Taboos, Principles],
    depth_tiers = [Operator],
    exploration_hints = [''Ask about compliance requirements in their industry'',
     ''Probe for email/outreach regulations they need to follow'',
     ''Understand data privacy obligations (GDPR, CCPA)'',
     ''Ask about ethical boundaries: what sales tactics are off-limits?''],
    coverage_criteria = [''Compliance requirements captured'',
     ''Ethical boundaries set''],
    sub_areas = None,
    cascade_to = None\<rparr>\<close>

definition SalesAgentRubric :: domain_rubric where
  \<open>SalesAgentRubric = \<lparr>
    domain_id = ''sales-agent'',
    rubric_version = ''0.5.0'',
    interview_goal = ''Understand the user's sales philosophy, communication style, deal management preferences, and customer relationship approach to configure an agent that sells the way they would.'',
    dimensions = [
    sales_sales_philosophy, sales_communication_style, sales_lead_qualification,
    sales_deal_management, sales_customer_relationship, sales_outreach_cadence,
    sales_objection_handling, sales_proposal_style, sales_crm_workflow,
    sales_follow_up_philosophy, sales_negotiation_approach, sales_reporting_preferences,
    sales_territory_focus, sales_enterprise_vs_smb, sales_multi_stakeholder,
    sales_competitive_positioning, sales_pricing_strategy, sales_compliance_awareness],
    includes_universal = True\<rparr>\<close>

lemma sales_facts [rubric_data]:
  "dim_id sales_sales_philosophy = ''sales_philosophy''"
  "depth_tiers sales_sales_philosophy = [Quick, Guided, Operator]"
  "cascades sales_sales_philosophy = []"
  "dim_id sales_communication_style = ''communication_style''"
  "depth_tiers sales_communication_style = [Quick, Guided, Operator]"
  "cascades sales_communication_style = []"
  "dim_id sales_lead_qualification = ''lead_qualification''"
  "depth_tiers sales_lead_qualification = [Quick, Guided, Operator]"
  "cascades sales_lead_qualification = []"
  "dim_id sales_deal_management = ''deal_management''"
  "depth_tiers sales_deal_management = [Quick, Guided, Operator]"
  "cascades sales_deal_management = []"
  "dim_id sales_customer_relationship = ''customer_relationship''"
  "depth_tiers sales_customer_relationship = [Quick, Guided, Operator]"
  "cascades sales_customer_relationship = []"
  "dim_id sales_outreach_cadence = ''outreach_cadence''"
  "depth_tiers sales_outreach_cadence = [Guided, Operator]"
  "cascades sales_outreach_cadence = []"
  "dim_id sales_objection_handling = ''objection_handling''"
  "depth_tiers sales_objection_handling = [Guided, Operator]"
  "cascades sales_objection_handling = []"
  "dim_id sales_proposal_style = ''proposal_style''"
  "depth_tiers sales_proposal_style = [Guided, Operator]"
  "cascades sales_proposal_style = []"
  "dim_id sales_crm_workflow = ''crm_workflow''"
  "depth_tiers sales_crm_workflow = [Guided, Operator]"
  "cascades sales_crm_workflow = []"
  "dim_id sales_follow_up_philosophy = ''follow_up_philosophy''"
  "depth_tiers sales_follow_up_philosophy = [Guided, Operator]"
  "cascades sales_follow_up_philosophy = []"
  "dim_id sales_negotiation_approach = ''negotiation_approach''"
  "depth_tiers sales_negotiation_approach = [Guided, Operator]"
  "cascades sales_negotiation_approach = []"
  "dim_id sales_reporting_preferences = ''reporting_preferences''"
  "depth_tiers sales_reporting_preferences = [Guided, Operator]"
  "cascades sales_reporting_preferences = []"
  "dim_id sales_territory_focus = ''territory_focus''"
  "depth_tiers sales_territory_focus = [Guided, Operator]"
  "cascades sales_territory_focus = []"
  "dim_id sales_enterprise_vs_smb = ''enterprise_vs_smb''"
  "depth_tiers sales_enterprise_vs_smb = [Operator]"
  "cascades sales_enterprise_vs_smb = []"
  "dim_id sales_multi_stakeholder = ''multi_stakeholder''"
  "depth_tiers sales_multi_stakeholder = [Operator]"
  "cascades sales_multi_stakeholder = []"
  "dim_id sales_competitive_positioning = ''competitive_positioning''"
  "depth_tiers sales_competitive_positioning = [Operator]"
  "cascades sales_competitive_positioning = []"
  "dim_id sales_pricing_strategy = ''pricing_strategy''"
  "depth_tiers sales_pricing_strategy = [Operator]"
  "cascades sales_pricing_strategy = []"
  "dim_id sales_compliance_awareness = ''compliance_awareness''"
  "depth_tiers sales_compliance_awareness = [Operator]"
  "cascades sales_compliance_awareness = []"
  by (simp_all add: cascades_def sales_sales_philosophy_def sales_communication_style_def sales_lead_qualification_def sales_deal_management_def sales_customer_relationship_def sales_outreach_cadence_def sales_objection_handling_def sales_proposal_style_def sales_crm_workflow_def sales_follow_up_philosophy_def sales_negotiation_approach_def sales_reporting_preferences_def sales_territory_focus_def sales_enterprise_vs_smb_def sales_multi_stakeholder_def sales_competitive_positioning_def sales_pricing_strategy_def sales_compliance_awareness_def)

section \<open>domains/support-agent/rubric.ts\<close>

definition support_support_philosophy :: rubric_dimension where
  \<open>support_support_philosophy = \<lparr>
    dim_id = ''support_philosophy'',
    dim_name = ''Support Philosophy'',
    dim_description = ''Core support approach. Help-first, efficiency-first, education-first, or empathy-first. What matters most when helping customers.'',
    maps_to = [Principles],
    depth_tiers = [Quick, Guided, Operator],
    exploration_hints = [''Ask what good customer support means to them'',
     ''Probe for whether they prioritize speed, thoroughness, or empathy'',
     ''Understand if they want to educate customers or just solve problems'',
     ''Listen for their stance on self-service vs. high-touch support''],
    coverage_criteria = [''Support philosophy identified (help-first/efficiency-first/education-first/empathy-first)'',
     ''Core support value captured''],
    sub_areas = None,
    cascade_to = None\<rparr>\<close>

definition support_tone_and_empathy :: rubric_dimension where
  \<open>support_tone_and_empathy = \<lparr>
    dim_id = ''tone_and_empathy'',
    dim_name = ''Tone & Empathy Approach'',
    dim_description = ''Communication tone when dealing with different customer emotions. Frustrated customers, confused customers, angry customers.'',
    maps_to = [Tone],
    depth_tiers = [Quick, Guided, Operator],
    exploration_hints = [''Ask how the agent should respond to a frustrated customer'',
     ''Probe for empathy level: warm and personal, or calm and professional?'',
     ''Understand if they want the agent to match customer energy or remain neutral'',
     ''Ask about apology philosophy: when and how to apologize''],
    coverage_criteria = [''Empathy approach captured'',
     ''Tone for different emotional states set''],
    sub_areas = None,
    cascade_to = None\<rparr>\<close>

definition support_escalation_approach :: rubric_dimension where
  \<open>support_escalation_approach = \<lparr>
    dim_id = ''escalation_approach'',
    dim_name = ''Escalation Triggers & Process'',
    dim_description = ''When and how to escalate to humans. What situations require immediate escalation vs. agent handling.'',
    maps_to = [Principles, Taboos],
    depth_tiers = [Quick, Guided, Operator],
    exploration_hints = [''Ask what situations must always be escalated to a human'',
     ''Probe for their escalation philosophy: eager to escalate or try to resolve first?'',
     ''Understand urgency classification: what's critical vs. what can wait?'',
     ''Ask about escalation communication: how to tell the customer it's being escalated''],
    coverage_criteria = [''Escalation triggers defined'',
     ''Escalation process expectations set''],
    sub_areas = None,
    cascade_to = None\<rparr>\<close>

definition support_knowledge_management :: rubric_dimension where
  \<open>support_knowledge_management = \<lparr>
    dim_id = ''knowledge_management'',
    dim_name = ''Knowledge Base Usage'',
    dim_description = ''How to use and contribute to the knowledge base. Reference existing articles, create new ones, update outdated content.'',
    maps_to = [Domain_specific],
    depth_tiers = [Quick, Guided, Operator],
    exploration_hints = [''Ask if they have a knowledge base the agent should reference'',
     ''Probe for whether the agent should suggest knowledge base improvements'',
     ''Understand if responses should link to articles or provide inline answers'',
     ''Ask about knowledge base maintenance expectations''],
    coverage_criteria = [''Knowledge base role defined'',
     ''Article referencing preference captured''],
    sub_areas = None,
    cascade_to = None\<rparr>\<close>

definition support_response_style :: rubric_dimension where
  \<open>support_response_style = \<lparr>
    dim_id = ''response_style'',
    dim_name = ''Response Style & Format'',
    dim_description = ''Response length, formality, technical level. Short and direct, detailed and thorough, or adaptive based on the question.'',
    maps_to = [Tone, Domain_specific],
    depth_tiers = [Quick, Guided, Operator],
    exploration_hints = [''Ask about preferred response length: concise or detailed?'',
     ''Probe for technical level: should the agent adjust based on the customer?'',
     ''Understand formatting preferences: bullet points, numbered steps, or prose?'',
     ''Ask about template usage vs. personalized responses''],
    coverage_criteria = [''Response length preference captured'',
     ''Technical level adaptation rules set''],
    sub_areas = None,
    cascade_to = None\<rparr>\<close>

definition support_ticket_triage :: rubric_dimension where
  \<open>support_ticket_triage = \<lparr>
    dim_id = ''ticket_triage'',
    dim_name = ''Ticket Triage & Prioritization'',
    dim_description = ''How to assess and prioritize incoming tickets. Categorization rules, priority criteria, auto-assignment logic.'',
    maps_to = [Domain_specific],
    depth_tiers = [Guided, Operator],
    exploration_hints = [''Ask about ticket categorization: how do they sort incoming requests?'',
     ''Probe for priority criteria: what makes a ticket critical vs. low priority?'',
     ''Understand auto-response expectations for different ticket types'',
     ''Ask about SLA implications for different priority levels''],
    coverage_criteria = [''Triage criteria established'',
     ''Priority classification rules set''],
    sub_areas = None,
    cascade_to = None\<rparr>\<close>

definition support_resolution_workflow :: rubric_dimension where
  \<open>support_resolution_workflow = \<lparr>
    dim_id = ''resolution_workflow'',
    dim_name = ''Resolution Workflow'',
    dim_description = ''Steps for resolving customer issues. Troubleshooting approach, documentation requirements, follow-up protocol.'',
    maps_to = [Domain_specific, Principles],
    depth_tiers = [Guided, Operator],
    exploration_hints = [''Ask about their standard resolution workflow'',
     ''Probe for troubleshooting approach: systematic diagnosis or common-fix-first?'',
     ''Understand documentation requirements: what gets recorded for each resolution?'',
     ''Ask about follow-up: do they verify the customer's issue is fully resolved?''],
    coverage_criteria = [''Resolution workflow captured'',
     ''Documentation requirements set''],
    sub_areas = None,
    cascade_to = None\<rparr>\<close>

definition support_customer_communication :: rubric_dimension where
  \<open>support_customer_communication = \<lparr>
    dim_id = ''customer_communication'',
    dim_name = ''Customer Communication Rules'',
    dim_description = ''Template vs. personalized responses, multi-channel communication, customer communication lifecycle.'',
    maps_to = [Tone],
    depth_tiers = [Guided, Operator],
    exploration_hints = [''Ask about template vs. personalized response preferences'',
     ''Probe for communication channel differences: email vs. chat vs. social'',
     ''Understand closing message preferences: how to end a conversation'',
     ''Ask about proactive communication: should the agent reach out with updates?''],
    coverage_criteria = [''Communication rules per channel captured''],
    sub_areas = None,
    cascade_to = None\<rparr>\<close>

definition support_sla_awareness :: rubric_dimension where
  \<open>support_sla_awareness = \<lparr>
    dim_id = ''sla_awareness'',
    dim_name = ''SLA Compliance & Response Times'',
    dim_description = ''Service level agreement targets. Response time expectations, resolution time goals, priority-based SLAs.'',
    maps_to = [Tradeoffs, Domain_specific],
    depth_tiers = [Guided, Operator],
    exploration_hints = [''Ask about response time targets (first response, resolution)'',
     ''Probe for SLA differences by priority level or customer tier'',
     ''Understand how the agent should behave when approaching an SLA breach'',
     ''Ask about SLA reporting expectations''],
    coverage_criteria = [''SLA targets captured'',
     ''Priority-based response expectations set''],
    sub_areas = None,
    cascade_to = None\<rparr>\<close>

definition support_documentation_style :: rubric_dimension where
  \<open>support_documentation_style = \<lparr>
    dim_id = ''documentation_style'',
    dim_name = ''Documentation & Knowledge Articles'',
    dim_description = ''How to write resolution documentation and knowledge articles. Technical level, structure, audience assumptions.'',
    maps_to = [Tone, Domain_specific],
    depth_tiers = [Guided, Operator],
    exploration_hints = [''Ask about resolution note format and detail level'',
     ''Probe for knowledge article writing style'',
     ''Understand whether articles target end-users or internal team'',
     ''Ask about screenshot/media expectations in documentation''],
    coverage_criteria = [''Documentation style captured''],
    sub_areas = None,
    cascade_to = None\<rparr>\<close>

definition support_feedback_collection :: rubric_dimension where
  \<open>support_feedback_collection = \<lparr>
    dim_id = ''feedback_collection'',
    dim_name = ''Customer Feedback & CSAT'',
    dim_description = ''How and when to collect customer satisfaction feedback. Survey timing, question types, follow-up on negative feedback.'',
    maps_to = [Domain_specific],
    depth_tiers = [Guided, Operator],
    exploration_hints = [''Ask about CSAT collection practices'',
     ''Probe for survey timing: after every interaction or selectively?'',
     ''Understand negative feedback handling: should the agent follow up?'',
     ''Ask about feedback data usage and reporting''],
    coverage_criteria = [''Feedback collection approach captured''],
    sub_areas = None,
    cascade_to = None\<rparr>\<close>

definition support_multi_channel :: rubric_dimension where
  \<open>support_multi_channel = \<lparr>
    dim_id = ''multi_channel'',
    dim_name = ''Multi-Channel Support'',
    dim_description = ''Channel-specific communication rules. How tone, format, and response expectations change across email, chat, phone, social.'',
    maps_to = [Domain_specific],
    depth_tiers = [Guided, Operator],
    exploration_hints = [''Ask which support channels they operate on'',
     ''Probe for tone/format differences between channels'',
     ''Understand channel-switching etiquette (chat to email, etc.)'',
     ''Ask about response time expectations per channel''],
    coverage_criteria = [''Active channels identified'',
     ''Channel-specific rules captured''],
    sub_areas = None,
    cascade_to = None\<rparr>\<close>

definition support_known_issue_handling :: rubric_dimension where
  \<open>support_known_issue_handling = \<lparr>
    dim_id = ''known_issue_handling'',
    dim_name = ''Known Issue Communication'',
    dim_description = ''How to communicate known issues and workarounds. Transparency level, workaround format, status update cadence.'',
    maps_to = [Domain_specific, Principles],
    depth_tiers = [Guided, Operator],
    exploration_hints = [''Ask how the agent should handle tickets for known issues'',
     ''Probe for transparency: acknowledge the issue upfront or troubleshoot first?'',
     ''Understand workaround communication format'',
     ''Ask about status update expectations for ongoing issues''],
    coverage_criteria = [''Known issue handling approach captured''],
    sub_areas = None,
    cascade_to = None\<rparr>\<close>

definition support_vip_handling :: rubric_dimension where
  \<open>support_vip_handling = \<lparr>
    dim_id = ''vip_handling'',
    dim_name = ''VIP & High-Value Customer Treatment'',
    dim_description = ''Special handling for high-value customers. Different SLAs, white-glove service, executive escalation paths.'',
    maps_to = [Domain_specific, Tradeoffs],
    depth_tiers = [Operator],
    exploration_hints = [''Ask about VIP or tiered customer treatment'',
     ''Probe for what makes a customer "high-value" in their context'',
     ''Understand different service levels for different tiers'',
     ''Ask about executive escalation paths for VIP issues''],
    coverage_criteria = [''VIP treatment rules captured''],
    sub_areas = None,
    cascade_to = None\<rparr>\<close>

definition support_crisis_communication :: rubric_dimension where
  \<open>support_crisis_communication = \<lparr>
    dim_id = ''crisis_communication'',
    dim_name = ''Crisis & Outage Communication'',
    dim_description = ''How to communicate during major incidents. Outage messaging, status page updates, customer proactive outreach.'',
    maps_to = [Tone, Taboos],
    depth_tiers = [Operator],
    exploration_hints = [''Ask about crisis communication protocols'',
     ''Probe for outage messaging guidelines: what to say and what not to say'',
     ''Understand proactive communication expectations during incidents'',
     ''Ask about status page and social media communication during crises''],
    coverage_criteria = [''Crisis communication guidelines set''],
    sub_areas = None,
    cascade_to = None\<rparr>\<close>

definition support_root_cause_analysis :: rubric_dimension where
  \<open>support_root_cause_analysis = \<lparr>
    dim_id = ''root_cause_analysis'',
    dim_name = ''Root Cause Analysis & Pattern Detection'',
    dim_description = ''Identifying recurring issues, detecting patterns, escalating systemic problems to engineering/product.'',
    maps_to = [Domain_specific],
    depth_tiers = [Operator],
    exploration_hints = [''Ask about pattern detection expectations'',
     ''Probe for how recurring issues should be escalated to product/engineering'',
     ''Understand bug report format and detail expectations'',
     ''Ask about trend analysis and reporting cadence''],
    coverage_criteria = [''Pattern detection expectations captured''],
    sub_areas = None,
    cascade_to = None\<rparr>\<close>

definition support_team_coordination :: rubric_dimension where
  \<open>support_team_coordination = \<lparr>
    dim_id = ''team_coordination'',
    dim_name = ''Cross-Team Coordination'',
    dim_description = ''Working with engineering, product, and other teams. Internal communication style, handoff protocols.'',
    maps_to = [Domain_specific],
    depth_tiers = [Operator],
    exploration_hints = [''Ask about how support interacts with engineering and product teams'',
     ''Probe for internal communication style and tools'',
     ''Understand handoff protocols for complex issues'',
     ''Ask about internal escalation vs. external escalation differences''],
    coverage_criteria = [''Cross-team coordination approach captured''],
    sub_areas = None,
    cascade_to = None\<rparr>\<close>

definition support_quality_assurance :: rubric_dimension where
  \<open>support_quality_assurance = \<lparr>
    dim_id = ''quality_assurance'',
    dim_name = ''Quality Assurance & Monitoring'',
    dim_description = ''QA process for support interactions. CSAT monitoring, response quality review, continuous improvement approach.'',
    maps_to = [Domain_specific, Principles],
    depth_tiers = [Operator],
    exploration_hints = [''Ask about support quality measurement'',
     ''Probe for review processes: are responses audited?'',
     ''Understand continuous improvement expectations'',
     ''Ask about metrics-driven quality improvement''],
    coverage_criteria = [''QA expectations captured''],
    sub_areas = None,
    cascade_to = None\<rparr>\<close>

definition SupportAgentRubric :: domain_rubric where
  \<open>SupportAgentRubric = \<lparr>
    domain_id = ''support-agent'',
    rubric_version = ''0.5.0'',
    interview_goal = ''Understand the user's support philosophy, communication tone, escalation preferences, and quality standards to configure an agent that helps customers the way they would.'',
    dimensions = [
    support_support_philosophy, support_tone_and_empathy, support_escalation_approach,
    support_knowledge_management, support_response_style, support_ticket_triage,
    support_resolution_workflow, support_customer_communication, support_sla_awareness,
    support_documentation_style, support_feedback_collection, support_multi_channel,
    support_known_issue_handling, support_vip_handling, support_crisis_communication,
    support_root_cause_analysis, support_team_coordination, support_quality_assurance],
    includes_universal = True\<rparr>\<close>

lemma support_facts [rubric_data]:
  "dim_id support_support_philosophy = ''support_philosophy''"
  "depth_tiers support_support_philosophy = [Quick, Guided, Operator]"
  "cascades support_support_philosophy = []"
  "dim_id support_tone_and_empathy = ''tone_and_empathy''"
  "depth_tiers support_tone_and_empathy = [Quick, Guided, Operator]"
  "cascades support_tone_and_empathy = []"
  "dim_id support_escalation_approach = ''escalation_approach''"
  "depth_tiers support_escalation_approach = [Quick, Guided, Operator]"
  "cascades support_escalation_approach = []"
  "dim_id support_knowledge_management = ''knowledge_management''"
  "depth_tiers support_knowledge_management = [Quick, Guided, Operator]"
  "cascades support_knowledge_management = []"
  "dim_id support_response_style = ''response_style''"
  "depth_tiers support_response_style = [Quick, Guided, Operator]"
  "cascades support_response_style = []"
  "dim_id support_ticket_triage = ''ticket_triage''"
  "depth_tiers support_ticket_triage = [Guided, Operator]"
  "cascades support_ticket_triage = []"
  "dim_id support_resolution_workflow = ''resolution_workflow''"
  "depth_tiers support_resolution_workflow = [Guided, Operator]"
  "cascades support_resolution_workflow = []"
  "dim_id support_customer_communication = ''customer_communication''"
  "depth_tiers support_customer_communication = [Guided, Operator]"
  "cascades support_customer_communication = []"
  "dim_id support_sla_awareness = ''sla_awareness''"
  "depth_tiers support_sla_awareness = [Guided, Operator]"
  "cascades support_sla_awareness = []"
  "dim_id support_documentation_style = ''documentation_style''"
  "depth_tiers support_documentation_style = [Guided, Operator]"
  "cascades support_documentation_style = []"
  "dim_id support_feedback_collection = ''feedback_collection''"
  "depth_tiers support_feedback_collection = [Guided, Operator]"
  "cascades support_feedback_collection = []"
  "dim_id support_multi_channel = ''multi_channel''"
  "depth_tiers support_multi_channel = [Guided, Operator]"
  "cascades support_multi_channel = []"
  "dim_id support_known_issue_handling = ''known_issue_handling''"
  "depth_tiers support_known_issue_handling = [Guided, Operator]"
  "cascades support_known_issue_handling = []"
  "dim_id support_vip_handling = ''vip_handling''"
  "depth_tiers support_vip_handling = [Operator]"
  "cascades support_vip_handling = []"
  "dim_id support_crisis_communication = ''crisis_communication''"
  "depth_tiers support_crisis_communication = [Operator]"
  "cascades support_crisis_communication = []"
  "dim_id support_root_cause_analysis = ''root_cause_analysis''"
  "depth_tiers support_root_cause_analysis = [Operator]"
  "cascades support_root_cause_analysis = []"
  "dim_id support_team_coordination = ''team_coordination''"
  "depth_tiers support_team_coordination = [Operator]"
  "cascades support_team_coordination = []"
  "dim_id support_quality_assurance = ''quality_assurance''"
  "depth_tiers support_quality_assurance = [Operator]"
  "cascades support_quality_assurance = []"
  by (simp_all add: cascades_def support_support_philosophy_def support_tone_and_empathy_def support_escalation_approach_def support_knowledge_management_def support_response_style_def support_ticket_triage_def support_resolution_workflow_def support_customer_communication_def support_sla_awareness_def support_documentation_style_def support_feedback_collection_def support_multi_channel_def support_known_issue_handling_def support_vip_handling_def support_crisis_communication_def support_root_cause_analysis_def support_team_coordination_def support_quality_assurance_def)

section \<open>The registry\<close>

definition DOMAIN_RUBRICS :: "(string \<times> domain_rubric) list" where
  "DOMAIN_RUBRICS = [
     (''content-agent'', ContentAgentRubric),
     (''development-agent'', DevelopmentAgentRubric),
     (''general-agent'', GeneralAgentRubric),
     (''research-agent'', ResearchAgentRubric),
     (''sales-agent'', SalesAgentRubric),
     (''support-agent'', SupportAgentRubric)]"

definition getDomainRubric :: "string \<Rightarrow> domain_rubric option" where
  "getDomainRubric k = map_of DOMAIN_RUBRICS k"

text \<open>The dimensions of an interview, as the interviewer asks for them.\<close>

abbreviation dims_at :: "domain_rubric \<Rightarrow> depth \<Rightarrow> rubric_dimension list" where
  "dims_at r d \<equiv> getDimensionsForDepth r d UNIVERSAL_DIMENSIONS"

lemma rubric_fields [rubric_data]:
  "domain_id ContentAgentRubric = ''content-agent''" "includes_universal ContentAgentRubric"
  "domain_id DevelopmentAgentRubric = ''development-agent''" "includes_universal DevelopmentAgentRubric"
  "domain_id GeneralAgentRubric = ''general-agent''" "includes_universal GeneralAgentRubric"
  "domain_id ResearchAgentRubric = ''research-agent''" "includes_universal ResearchAgentRubric"
  "domain_id SalesAgentRubric = ''sales-agent''" "includes_universal SalesAgentRubric"
  "domain_id SupportAgentRubric = ''support-agent''" "includes_universal SupportAgentRubric"
  by (simp_all add: ContentAgentRubric_def DevelopmentAgentRubric_def GeneralAgentRubric_def
      ResearchAgentRubric_def SalesAgentRubric_def SupportAgentRubric_def)

text \<open>What the engine reads of a dimension.\<close>

definition dim_key :: "rubric_dimension \<Rightarrow> string \<times> depth list \<times> (string \<times> rat) list" where
  "dim_key d = (dim_id d, depth_tiers d, cascades d)"

definition keys_at :: "(string \<times> depth list \<times> (string \<times> rat) list) list \<Rightarrow> depth \<Rightarrow>
    (string \<times> (string \<times> rat) list) list" where
  "keys_at ks dep = map (\<lambda>(i, ts, cs). (i, cs)) (filter (\<lambda>(i, ts, cs). dep \<in> set ts) ks)"

lemma keys_of_dims:
  assumes "includes_universal r"
  shows "map (\<lambda>d. (dim_id d, cascades d)) (dims_at r dep) =
    keys_at (map dim_key (UNIVERSAL_DIMENSIONS @ dimensions r)) dep"
proof -
  have "map (\<lambda>d. (dim_id d, cascades d)) (filter (\<lambda>d. dep \<in> set (depth_tiers d)) ds) =
      keys_at (map dim_key ds) dep" for ds
    by (induction ds) (auto simp: keys_at_def dim_key_def)
  then show ?thesis using assms by (simp add: getDimensionsForDepth_def keys_at_def)
qed

lemma universal_keys:
  "map dim_key UNIVERSAL_DIMENSIONS = [
     (''core_purpose'', [Quick, Guided, Operator], [(''guiding_principles'', 1 / 5)]),
     (''guiding_principles'', [Quick, Guided, Operator], [(''communication_tone'', 3 / 20)]),
     (''communication_tone'', [Quick, Guided, Operator], []),
     (''autonomy_boundaries'', [Quick, Guided, Operator], [(''hard_boundaries'', 3 / 10)]),
     (''accuracy_evidence'', [Guided, Operator], [(''hard_boundaries'', 3 / 20)]),
     (''hard_boundaries'', [Guided, Operator], []),
     (''cost_resource_sensitivity'', [Operator], [])]"
  by (simp add: dim_key_def UNIVERSAL_DIMENSIONS_def rubric_data)

lemma content_keys:
  "map dim_key (dimensions ContentAgentRubric) = [
     (''brand_identity'', [Quick, Guided, Operator], []),
     (''target_platforms'', [Quick, Guided, Operator], []),
     (''content_workflow'', [Quick, Guided, Operator], []),
     (''content_goal'', [Quick, Guided, Operator], []),
     (''brand_voice_detail'', [Guided, Operator], []),
     (''content_types'', [Guided, Operator], []),
     (''forbidden_topics'', [Guided, Operator], []),
     (''posting_cadence'', [Guided, Operator], []),
     (''research_autonomy'', [Guided, Operator], []),
     (''tools_integrations'', [Guided, Operator], []),
     (''success_metrics'', [Guided, Operator], []),
     (''audience_engagement'', [Guided, Operator], []),
     (''exemplar_content'', [Operator], []),
     (''platform_adaptation'', [Operator], []),
     (''edge_cases_content'', [Operator], []),
     (''growth_experimentation'', [Operator], [])]"
  by (simp add: dim_key_def ContentAgentRubric_def rubric_data)

lemma development_keys:
  "map dim_key (dimensions DevelopmentAgentRubric) = [
     (''engineering_identity'', [Quick, Guided, Operator], []),
     (''core_technical_values'', [Quick, Guided, Operator], []),
     (''collaboration_style'', [Quick, Guided, Operator], []),
     (''learning_philosophy'', [Quick, Guided, Operator], []),
     (''failure_tolerance'', [Quick, Guided, Operator], []),
     (''code_quality_bar'', [Guided, Operator], []),
     (''output_format_preferences'', [Guided, Operator], []),
     (''naming_conventions'', [Guided, Operator], []),
     (''code_structure_preferences'', [Guided, Operator], []),
     (''testing_output_expectations'', [Guided, Operator], []),
     (''commit_message_format'', [Guided, Operator], []),
     (''pr_description_quality'', [Guided, Operator], []),
     (''documentation_voice'', [Guided, Operator], []),
     (''error_message_philosophy'', [Guided, Operator], []),
     (''logging_approach'', [Guided, Operator], []),
     (''type_safety_stance'', [Guided, Operator], []),
     (''ci_cd_philosophy'', [Operator], []),
     (''incident_response'', [Operator], []),
     (''api_design_principles'', [Operator], []),
     (''technical_debt_management'', [Operator], []),
     (''legacy_code_approach'', [Operator], []),
     (''mentoring_voice'', [Operator], []),
     (''open_source_etiquette'', [Operator], []),
     (''tech_stack_opinions'', [Operator], [])]"
  by (simp add: dim_key_def DevelopmentAgentRubric_def rubric_data)

lemma general_keys:
  "map dim_key (dimensions GeneralAgentRubric) = [
     (''mission_scope'', [Quick, Guided, Operator], [(''prioritization_framework'', 1 / 5)]),
     (''decision_style'', [Quick, Guided, Operator], [(''autonomy_boundaries'', 1 / 5)]),
     (''autonomy_boundaries'', [Quick, Guided, Operator], []),
     (''communication_contract'', [Quick, Guided, Operator], []),
     (''evidence_rigor'', [Quick, Guided, Operator], [(''quality_bar'', 1 / 5)]),
     (''risk_escalation'', [Quick, Guided, Operator], []),
     (''planning_horizon'', [Guided, Operator], []),
     (''tooling_preferences'', [Guided, Operator], []),
     (''context_window_management'', [Guided, Operator], []),
     (''output_artifact_preferences'', [Guided, Operator], []),
     (''feedback_loop'', [Guided, Operator], []),
     (''quality_bar'', [Guided, Operator], []),
     (''exception_handling'', [Operator], []),
     (''collaboration_style'', [Operator], []),
     (''prioritization_framework'', [Operator], []),
     (''performance_constraints'', [Operator], []),
     (''memory_retention_preferences'', [Operator], []),
     (''governance_auditability'', [Operator], [])]"
  by (simp add: dim_key_def GeneralAgentRubric_def rubric_data)

lemma research_keys:
  "map dim_key (dimensions ResearchAgentRubric) = [
     (''research_methodology'', [Quick, Guided, Operator], []),
     (''source_preferences'', [Quick, Guided, Operator], []),
     (''synthesis_style'', [Quick, Guided, Operator], []),
     (''output_format'', [Quick, Guided, Operator], []),
     (''depth_vs_breadth'', [Quick, Guided, Operator], []),
     (''citation_standards'', [Guided, Operator], []),
     (''bias_awareness'', [Guided, Operator], []),
     (''data_interpretation'', [Guided, Operator], []),
     (''competitive_analysis_style'', [Guided, Operator], []),
     (''temporal_scope'', [Guided, Operator], []),
     (''cross_referencing'', [Guided, Operator], []),
     (''fact_checking_rigor'', [Guided, Operator], []),
     (''research_tools'', [Guided, Operator], []),
     (''methodology_documentation'', [Operator], []),
     (''hypothesis_framing'', [Operator], []),
     (''stakeholder_communication'', [Operator], []),
     (''research_ethics'', [Operator], []),
     (''uncertainty_quantification'', [Operator], [])]"
  by (simp add: dim_key_def ResearchAgentRubric_def rubric_data)

lemma sales_keys:
  "map dim_key (dimensions SalesAgentRubric) = [
     (''sales_philosophy'', [Quick, Guided, Operator], []),
     (''communication_style'', [Quick, Guided, Operator], []),
     (''lead_qualification'', [Quick, Guided, Operator], []),
     (''deal_management'', [Quick, Guided, Operator], []),
     (''customer_relationship'', [Quick, Guided, Operator], []),
     (''outreach_cadence'', [Guided, Operator], []),
     (''objection_handling'', [Guided, Operator], []),
     (''proposal_style'', [Guided, Operator], []),
     (''crm_workflow'', [Guided, Operator], []),
     (''follow_up_philosophy'', [Guided, Operator], []),
     (''negotiation_approach'', [Guided, Operator], []),
     (''reporting_preferences'', [Guided, Operator], []),
     (''territory_focus'', [Guided, Operator], []),
     (''enterprise_vs_smb'', [Operator], []),
     (''multi_stakeholder'', [Operator], []),
     (''competitive_positioning'', [Operator], []),
     (''pricing_strategy'', [Operator], []),
     (''compliance_awareness'', [Operator], [])]"
  by (simp add: dim_key_def SalesAgentRubric_def rubric_data)

lemma support_keys:
  "map dim_key (dimensions SupportAgentRubric) = [
     (''support_philosophy'', [Quick, Guided, Operator], []),
     (''tone_and_empathy'', [Quick, Guided, Operator], []),
     (''escalation_approach'', [Quick, Guided, Operator], []),
     (''knowledge_management'', [Quick, Guided, Operator], []),
     (''response_style'', [Quick, Guided, Operator], []),
     (''ticket_triage'', [Guided, Operator], []),
     (''resolution_workflow'', [Guided, Operator], []),
     (''customer_communication'', [Guided, Operator], []),
     (''sla_awareness'', [Guided, Operator], []),
     (''documentation_style'', [Guided, Operator], []),
     (''feedback_collection'', [Guided, Operator], []),
     (''multi_channel'', [Guided, Operator], []),
     (''known_issue_handling'', [Guided, Operator], []),
     (''vip_handling'', [Operator], []),
     (''crisis_communication'', [Operator], []),
     (''root_cause_analysis'', [Operator], []),
     (''team_coordination'', [Operator], []),
     (''quality_assurance'', [Operator], [])]"
  by (simp add: dim_key_def SupportAgentRubric_def rubric_data)


text \<open>Tiers that contain a depth contain every deeper one.\<close>

definition tiers_closed :: "rubric_dimension \<Rightarrow> bool" where
  "tiers_closed d \<longleftrightarrow> depth_tiers d \<in> set [[Quick, Guided, Operator], [Guided, Operator], [Operator]]"

lemma dims_at_mono:
  assumes "list_all tiers_closed UNIVERSAL_DIMENSIONS" "list_all tiers_closed (dimensions r)" "a \<le> b"
  shows "set (dims_at r a) \<subseteq> set (dims_at r b)"
proof -
  have "tiers_closed d \<Longrightarrow> a \<in> set (depth_tiers d) \<Longrightarrow> b \<in> set (depth_tiers d)" for d
    using assms(3) by (cases a; cases b) (auto simp: tiers_closed_def less_eq_depth_def)
  then show ?thesis
    using assms(1,2) by (auto simp: getDimensionsForDepth_def list_all_iff)
qed

lemma tiers_closed_key: "tiers_closed d \<longleftrightarrow>
    fst (snd (dim_key d)) \<in> set [[Quick, Guided, Operator], [Guided, Operator], [Operator]]"
  by (simp add: tiers_closed_def dim_key_def)

lemma tiers_closed_keys: "list_all tiers_closed ds \<longleftrightarrow>
    list_all (\<lambda>k. fst (snd k) \<in> set [[Quick, Guided, Operator], [Guided, Operator], [Operator]]) (map dim_key ds)"
  by (induction ds) (simp_all add: tiers_closed_key)

lemma universal_tiers: "list_all tiers_closed UNIVERSAL_DIMENSIONS"
  unfolding tiers_closed_keys universal_keys by simp

lemma domain_tiers:
  "list_all tiers_closed (dimensions ContentAgentRubric)"
  "list_all tiers_closed (dimensions DevelopmentAgentRubric)"
  "list_all tiers_closed (dimensions GeneralAgentRubric)"
  "list_all tiers_closed (dimensions ResearchAgentRubric)"
  "list_all tiers_closed (dimensions SalesAgentRubric)"
  "list_all tiers_closed (dimensions SupportAgentRubric)"
  unfolding tiers_closed_keys content_keys development_keys general_keys research_keys sales_keys support_keys
  by simp_all

lemma dims_ids: "includes_universal r \<Longrightarrow> map dim_id (dims_at r dep) =
    map fst (keys_at (map dim_key (UNIVERSAL_DIMENSIONS @ dimensions r)) dep)"
  using arg_cong [OF keys_of_dims [of r dep], of "map fst"] by (simp add: o_def)

lemma dims_cascades: "includes_universal r \<Longrightarrow> map cascades (dims_at r dep) =
    map snd (keys_at (map dim_key (UNIVERSAL_DIMENSIONS @ dimensions r)) dep)"
  using arg_cong [OF keys_of_dims [of r dep], of "map snd"] by (simp add: o_def)

lemma length_dims: "includes_universal r \<Longrightarrow> length (dims_at r dep) =
    length (keys_at (map dim_key (UNIVERSAL_DIMENSIONS @ dimensions r)) dep)"
  using arg_cong [OF keys_of_dims [of r dep], of length] by simp

lemmas all_keys = map_append universal_keys content_keys development_keys general_keys research_keys sales_keys support_keys

lemma content_positive: "list_all (\<lambda>cs. list_all (\<lambda>(t, w). 0 < w) cs) (map cascades (dims_at ContentAgentRubric dep))"
  by (cases dep) (simp_all add: dims_cascades rubric_fields all_keys keys_at_def)

lemma content_distinct: "distinct (map dim_id (dims_at ContentAgentRubric dep))"
  by (cases dep) (simp_all add: dims_ids rubric_fields all_keys keys_at_def)

lemma content_counts:
  "length (dims_at ContentAgentRubric Quick) = 8"
  "length (dims_at ContentAgentRubric Guided) = 18"
  "length (dims_at ContentAgentRubric Operator) = 23"
  by (simp_all add: length_dims rubric_fields all_keys keys_at_def)

lemma development_positive: "list_all (\<lambda>cs. list_all (\<lambda>(t, w). 0 < w) cs) (map cascades (dims_at DevelopmentAgentRubric dep))"
  by (cases dep) (simp_all add: dims_cascades rubric_fields all_keys keys_at_def)

lemma development_distinct: "distinct (map dim_id (dims_at DevelopmentAgentRubric dep))"
  by (cases dep) (simp_all add: dims_ids rubric_fields all_keys keys_at_def)

lemma development_counts:
  "length (dims_at DevelopmentAgentRubric Quick) = 9"
  "length (dims_at DevelopmentAgentRubric Guided) = 22"
  "length (dims_at DevelopmentAgentRubric Operator) = 31"
  by (simp_all add: length_dims rubric_fields all_keys keys_at_def)

lemma general_positive: "list_all (\<lambda>cs. list_all (\<lambda>(t, w). 0 < w) cs) (map cascades (dims_at GeneralAgentRubric dep))"
  by (cases dep) (simp_all add: dims_cascades rubric_fields all_keys keys_at_def)

lemma general_distinct: "\<not> distinct (map dim_id (dims_at GeneralAgentRubric dep))"
  by (cases dep) (simp_all add: dims_ids rubric_fields all_keys keys_at_def)

lemma general_counts:
  "length (dims_at GeneralAgentRubric Quick) = 10"
  "length (dims_at GeneralAgentRubric Guided) = 18"
  "length (dims_at GeneralAgentRubric Operator) = 25"
  by (simp_all add: length_dims rubric_fields all_keys keys_at_def)

lemma research_positive: "list_all (\<lambda>cs. list_all (\<lambda>(t, w). 0 < w) cs) (map cascades (dims_at ResearchAgentRubric dep))"
  by (cases dep) (simp_all add: dims_cascades rubric_fields all_keys keys_at_def)

lemma research_distinct: "distinct (map dim_id (dims_at ResearchAgentRubric dep))"
  by (cases dep) (simp_all add: dims_ids rubric_fields all_keys keys_at_def)

lemma research_counts:
  "length (dims_at ResearchAgentRubric Quick) = 9"
  "length (dims_at ResearchAgentRubric Guided) = 19"
  "length (dims_at ResearchAgentRubric Operator) = 25"
  by (simp_all add: length_dims rubric_fields all_keys keys_at_def)

lemma sales_positive: "list_all (\<lambda>cs. list_all (\<lambda>(t, w). 0 < w) cs) (map cascades (dims_at SalesAgentRubric dep))"
  by (cases dep) (simp_all add: dims_cascades rubric_fields all_keys keys_at_def)

lemma sales_distinct: "distinct (map dim_id (dims_at SalesAgentRubric dep))"
  by (cases dep) (simp_all add: dims_ids rubric_fields all_keys keys_at_def)

lemma sales_counts:
  "length (dims_at SalesAgentRubric Quick) = 9"
  "length (dims_at SalesAgentRubric Guided) = 19"
  "length (dims_at SalesAgentRubric Operator) = 25"
  by (simp_all add: length_dims rubric_fields all_keys keys_at_def)

lemma support_positive: "list_all (\<lambda>cs. list_all (\<lambda>(t, w). 0 < w) cs) (map cascades (dims_at SupportAgentRubric dep))"
  by (cases dep) (simp_all add: dims_cascades rubric_fields all_keys keys_at_def)

lemma support_distinct: "distinct (map dim_id (dims_at SupportAgentRubric dep))"
  by (cases dep) (simp_all add: dims_ids rubric_fields all_keys keys_at_def)

lemma support_counts:
  "length (dims_at SupportAgentRubric Quick) = 9"
  "length (dims_at SupportAgentRubric Guided) = 19"
  "length (dims_at SupportAgentRubric Operator) = 25"
  by (simp_all add: length_dims rubric_fields all_keys keys_at_def)

lemmas domain_positive = content_positive development_positive general_positive research_positive sales_positive support_positive

lemmas domain_distinct = content_distinct development_distinct general_distinct research_distinct sales_distinct support_distinct

lemmas domain_counts = content_counts development_counts general_counts research_counts sales_counts support_counts


lemma registered:
  assumes "getDomainRubric k = Some r"
  obtains "k = ''content-agent''" "r = ContentAgentRubric"
    | "k = ''development-agent''" "r = DevelopmentAgentRubric"
    | "k = ''general-agent''" "r = GeneralAgentRubric"
    | "k = ''research-agent''" "r = ResearchAgentRubric"
    | "k = ''sales-agent''" "r = SalesAgentRubric"
    | "k = ''support-agent''" "r = SupportAgentRubric"
proof -
  have "(k, r) \<in> set DOMAIN_RUBRICS"
    using assms by (auto simp: getDomainRubric_def dest: map_of_SomeD)
  then show ?thesis
    unfolding DOMAIN_RUBRICS_def list.set insert_iff empty_iff prod.inject
    by - (elim disjE conjE; (rule that; assumption | erule FalseE))
qed

section \<open>Properties\<close>

text \<open>
  The rubrics are sound data for the interview engine: for every registered domain and every
  depth, all cascade weights are positive and a deeper interview explores every topic of a
  shallower one; the topics are pairwise distinct in every domain but one (the general agent has
  the autonomy topic twice, once from the universal dimensions and once as its own). The number of
  topics of each interview is as listed; for five of the domains it is not the number that the
  comment of the rubric states.
\<close>

theorem rubrics_for_interviews:
  assumes "getDomainRubric k = Some r"
  shows "domain_id r = k
    \<and> list_all (\<lambda>cs. list_all (\<lambda>(t, w). 0 < w) cs) (map cascades (dims_at r dep))
    \<and> (a \<le> b \<longrightarrow> set (dims_at r a) \<subseteq> set (dims_at r b))
    \<and> (distinct (map dim_id (dims_at r dep)) \<longleftrightarrow> k \<noteq> ''general-agent'')
    \<and> map (\<lambda>dep. length (dims_at r dep)) [Quick, Guided, Operator] =
        (if k = ''content-agent'' then [8, 18, 23] else if k = ''development-agent'' then [9, 22, 31]
         else if k = ''general-agent'' then [10, 18, 25] else [9, 19, 25])"
  by (rule registered [OF assms]; hypsubst; intro conjI impI)
    (simp_all only: rubric_fields domain_positive domain_distinct domain_counts list.map
      dims_at_mono [OF universal_tiers] domain_tiers list.inject char.inject if_True if_False
      simp_thms not_False_eq_True)

theorem rubrics_for_interviews_witness:
  "length (dims_at DevelopmentAgentRubric Operator) = 31"
  using rubrics_for_interviews [of "''development-agent''" DevelopmentAgentRubric]
  by (simp add: getDomainRubric_def DOMAIN_RUBRICS_def)

end
