(* ===== verification/Interviews.thy ===== *)
theory Interviews
  imports Interview Domain_Rubrics
begin

text \<open>
  TasteKit core: what the interview engine guarantees for every conversation, on every depth and
  across interruptions, and how the rubrics decide whether an interview can end by coverage.
\<close>

section \<open>Sessions\<close>

text \<open>The states that reach the session file: those saved by a fresh run, and those saved by a run
  resumed from one of them. Model, clock and inputs may differ from run to run.\<close>

inductive saved_state :: "js \<Rightarrow> domain_rubric \<Rightarrow> depth \<Rightarrow> rubric_dimension list \<Rightarrow> interview \<Rightarrow> bool"
  for js r d u where
  fresh: "ie_js env = js \<Longrightarrow> st \<in> set (en_saved (fst (run_interview env (new_interviewer r d u None) inps))) \<Longrightarrow>
    saved_state js r d u st"
| resumed: "saved_state js r d u st0 \<Longrightarrow> ie_js env = js \<Longrightarrow>
    st \<in> set (en_saved (fst (run_interview env (new_interviewer r d u (Some st0)) inps))) \<Longrightarrow>
    saved_state js r d u st"

inductive_cases saved_stateE: "saved_state js r d u st"

lemma new_engine_ok:
  assumes "rounding (js_double js)" "positive_cascades (getDimensionsForDepth r d u)"
    and "case resume of None \<Rightarrow> True | Some st \<Rightarrow> interview_ok js (getDimensionsForDepth r d u) st"
  shows "engine_ok js (new_interviewer r d u resume)"
  using assms by (simp add: new_interviewer_def Let_def engine_ok_def interview_ok_fresh split: option.splits)

lemma open_dims [simp]: "en_dimensions (fst (open_interview env en)) = en_dimensions en"
  by (simp add: open_interview_def Let_def split: option.split)

lemma hear_user_dims [simp]: "en_dimensions (hear_user env inp en) = en_dimensions en"
  by (simp add: hear_user_def)

lemma exchange_dims [simp]: "en_dimensions (fst (exchange env inp en)) = en_dimensions en"
proof (rule exchange_cases [of env inp en])
  fix raw en' sc
  assume r: "take_response env True raw (hear_user env inp en) = (en', sc)"
    and e: "exchange env inp en = (if sc \<or> allDimensionsCovered (ie_js env) (en_state en')
         then en'\<lparr>en_state := (en_state en')\<lparr>iv_is_complete := True\<rparr>\<rparr> else en', True)"
  have "en_dimensions en' = en_dimensions en"
    using take_response_dims [of env True raw "hear_user env inp en"] r by simp
  then show ?thesis unfolding e by simp
qed simp

lemma finish_dims [simp]: "en_dimensions (fst (finish_run env en)) = en_dimensions en"
  by (simp add: finish_run_def Let_def split: option.split)

lemma loop_dims [simp]: "en_dimensions (fst (interview_loop env en inps)) = en_dimensions en"
proof (induction inps arbitrary: en)
  case (Cons inp inps)
  obtain en' b where e: "exchange env inp en = (en', b)" by fastforce
  then have "en_dimensions en' = en_dimensions en" using exchange_dims [of env inp en] by simp
  with Cons e show ?case by (cases b) (simp_all add: save_run_def)
qed simp

lemma run_dims [simp]: "en_dimensions (fst (run_interview env en inps)) = en_dimensions en"
proof -
  obtain en' b where e: "open_interview env (start_run en) = (en', b)" by fastforce
  then have "en_dimensions en' = en_dimensions en"
    using open_dims [of env "start_run en"] by (simp add: start_run_def)
  with e show ?thesis by (cases b) (simp_all add: run_interview_def)
qed

lemma saved_by_run:
  assumes "rounding (js_double (ie_js env))" "engine_ok (ie_js env) en"
    "st \<in> set (en_saved (fst (run_interview env en inps)))"
  shows "interview_ok (ie_js env) (en_dimensions en) st"
  using run_ok [OF assms(1,2), of inps] assms(3) by (auto simp: engine_ok_def list_all_iff)

lemma new_dims [simp]: "en_dimensions (new_interviewer r d u resume) = getDimensionsForDepth r d u"
  by (simp add: new_interviewer_def Let_def)

section \<open>Topics that are reported\<close>

definition explicit_report :: "js \<Rightarrow> (string \<times> update) list \<Rightarrow> string \<Rightarrow> bool" where
  "explicit_report js us k \<longleftrightarrow> (\<exists>u x. (k, u) \<in> set us \<and> positive_delta js u = Some (JNum x) \<and> 3 / 2 \<le> x)"

text \<open>Confidences that are numbers, in an update and in what was collected so far.\<close>

definition numeric_update :: "update \<Rightarrow> bool" where
  "numeric_update u \<longleftrightarrow> (case up_delta u of None \<Rightarrow> True | Some v \<Rightarrow> numeric v)"

definition counted :: "js \<Rightarrow> nat \<Rightarrow> coverage \<Rightarrow> bool" where
  "counted js n c \<longleftrightarrow> cov_ok js n c \<and> (case cv_signals c of None \<Rightarrow> False | Some ss \<Rightarrow> numeric_signals ss)"

lemma countedE:
  assumes "counted js n c" "rounding (js_double js)"
  obtains ss x where "cov_ok js n c" "cv_signals c = Some ss" "signals_ok js n ss" "numeric_signals ss"
    "cv_confidence c = Some (JNum x)" "0 \<le> x" "js_double js x = x" "confidence_of c = JNum x"
proof -
  from assms(1) obtain ss where ss: "cv_signals c = Some ss" "numeric_signals ss" "cov_ok js n c"
    by (auto simp: counted_def split: option.splits)
  from ss(3,1) have c: "cv_confidence c = Some (total js ss)" "signals_ok js n ss"
    by (auto elim: cov_okE)
  obtain x where "total js ss = JNum x" "0 \<le> x" "js_double js x = x"
    using total_numeric [OF assms(2) c(2) ss(2)] by blast
  with that ss c confidence_total [OF c(1)] show thesis by simp
qed

text \<open>A counted signal raises the confidence, at least to its own weight.\<close>

lemma signal_raises:
  assumes "rounding (js_double js)" "counted js n c" "numeric (sg_weight s)" "js_above js (sg_weight s) 0"
  shows "conf_ge js c y \<Longrightarrow> conf_ge js (add_signal js s c) y"
    and "sg_weight s = JNum z \<Longrightarrow> js_double js y = y \<Longrightarrow> y \<le> z \<Longrightarrow> conf_ge js (add_signal js s c) y"
proof -
  obtain x where x: "cv_confidence c = Some (JNum x)" "0 \<le> x" "js_double js x = x" "confidence_of c = JNum x"
    using countedE [OF assms(2,1)] by metis
  obtain w where "js_plus js (JNum x) (sg_weight s) = JNum w" "x \<le> w"
    using js_plus_grows [OF assms(1) x(3) assms(3,4)] by blast
  with x show "conf_ge js c y \<Longrightarrow> conf_ge js (add_signal js s c) y"
    by (simp add: conf_ge_def add_signal_def)
  assume "sg_weight s = JNum z" "js_double js y = y" "y \<le> z"
  with x rounding_above [OF assms(1), of y "x + z"] show "conf_ge js (add_signal js s c) y"
    by (simp add: conf_ge_def add_signal_def js_plus_def)
qed

lemma after_signal_conf:
  "conf_ge js (with_notes u (derive_status js (with_anti u c))) y = conf_ge js c y"
  by (auto simp: with_notes_def derive_status_def with_anti_def conf_ge_def split: option.split json.split)

lemma after_signal_signals:
  "cv_signals (with_notes u (derive_status js (with_anti u c))) = cv_signals c"
  by (auto simp: with_notes_def derive_status_def with_anti_def split: option.split json.split)

lemma numeric_positive: "numeric_update u \<Longrightarrow> positive_delta js u = Some v \<Longrightarrow> numeric v"
  by (auto simp: numeric_update_def positive_delta_def split: option.splits if_splits)

lemma update_counted:
  assumes "rounding (js_double js)" "counted js n c" "numeric_update u"
  shows "counted js n (apply_update js n u c)"
proof -
  have "cov_ok js n (apply_update js n u c)"
    using assms(1,2) by (auto simp: counted_def intro: apply_update_ok)
  moreover have "\<exists>ss. cv_signals (apply_update js n u c) = Some ss \<and> numeric_signals ss"
    unfolding apply_update_def after_signal_signals
    using assms(2) numeric_positive [OF assms(3)]
    by (cases rule: with_signal_cases [of js n u c])
      (auto simp: counted_def add_signal_def nullish_def split: option.splits)
  ultimately show ?thesis by (auto simp: counted_def)
qed

lemma update_keeps_conf:
  assumes "rounding (js_double js)" "counted js n c" "numeric_update u" "conf_ge js c y"
  shows "conf_ge js (apply_update js n u c) y"
  unfolding apply_update_def after_signal_conf
proof (rule with_signal_cases [of js n u c])
  show "with_signal js n u c = c \<Longrightarrow> conf_ge js (with_signal js n u c) y" using assms(4) by simp
  show "conf_ge js (with_signal js n u c) y"
    if "with_signal js n u c = add_signal js s c" "js_above js (sg_weight s) 0"
      "positive_delta js u = Some (sg_weight s)" for s
    using that signal_raises(1) [OF assms(1,2) numeric_positive [OF assms(3)] that(2) assms(4)] by simp
qed

lemma update_reaches:
  assumes "rounding (js_double js)" "counted js n c" "positive_delta js u = Some (JNum x)" "3 / 2 \<le> x"
  shows "conf_ge js (apply_update js n u c) (3 / 2)"
  unfolding apply_update_def after_signal_conf
proof (rule with_signal_cases [of js n u c])
  show "positive_delta js u = None \<Longrightarrow> conf_ge js (with_signal js n u c) (3 / 2)" using assms(3) by simp
  fix s
  assume s: "with_signal js n u c = add_signal js s c" "js_above js (sg_weight s) 0"
    and "positive_delta js u = Some (sg_weight s)"
  with assms(3) have w: "sg_weight s = JNum x" by simp
  show "conf_ge js (with_signal js n u c) (3 / 2)"
    unfolding s(1)
    by (rule signal_raises(2) [OF assms(1,2) _ s(2) w rounding_simps(3) [OF assms(1)] assms(4)]) (simp add: w)
qed

lemma cascade_counted:
  assumes "rounding (js_double js)" "counted js n c" "0 < w"
  shows "counted js n (apply_cascade js n k w c) \<and> (conf_ge js c y \<longrightarrow> conf_ge js (apply_cascade js n k w c) y)"
proof (rule apply_cascade_cases [of js n k w c])
  show "apply_cascade js n k w c = c \<Longrightarrow> ?thesis" using assms(2) by simp
  let ?c = "add_signal js (cascade_signal n k w) c"
  assume e: "apply_cascade js n k w c =
       (let c' = add_signal js (cascade_signal n k w) c
        in if cv_status c = Not_started then derive_status js c'
           else if conf_ge js c' (threshold_of c') then c'\<lparr>cv_status := Covered\<rparr> else c')"
  have same: "cv_signals (apply_cascade js n k w c) = cv_signals ?c"
    "conf_ge js (apply_cascade js n k w c) y = conf_ge js ?c y"
    by (simp_all add: e Let_def derive_status_def conf_ge_def)
  have "cov_ok js n (apply_cascade js n k w c)"
    using assms by (auto simp: counted_def intro: apply_cascade_ok)
  moreover have "\<exists>ss. cv_signals (apply_cascade js n k w c) = Some ss \<and> numeric_signals ss"
    using assms(2) same(1) by (auto simp: counted_def add_signal_def nullish_def split: option.splits)
  ultimately show ?thesis
    using signal_raises(1) [OF assms(1,2), of "cascade_signal n k w" y] assms(3) same(2)
    by (auto simp: counted_def)
qed

text \<open>The first entry of a topic is the one the updates reach.\<close>

definition reached :: "js \<Rightarrow> string \<Rightarrow> coverage list \<Rightarrow> bool" where
  "reached js k cs \<longleftrightarrow> (\<exists>c. List.find (\<lambda>c. cv_id c = k) cs = Some c \<and> conf_ge js c (3 / 2))"

lemma on_dim_reached:
  assumes "list_all Q cs" "reached js k cs" "\<And>c. cv_id (f c) = cv_id c"
    and "\<And>c. Q c \<Longrightarrow> conf_ge js c (3 / 2) \<Longrightarrow> conf_ge js (f c) (3 / 2)"
  shows "reached js k (on_dim j f cs)"
  using assms(1,2)
proof (induction cs)
  case (Cons c cs)
  then show ?case using assms(3,4) by (auto simp: reached_def)
qed simp

interpretation counting: coverage_invariant js n numeric_update
  "\<lambda>cs. rounding (js_double js) \<longrightarrow> list_all (counted js n) cs" for js n
  by unfold_locales (auto intro: on_dim_ok update_counted dest: cascade_counted)

interpretation reaching: coverage_invariant js n numeric_update
  "\<lambda>cs. rounding (js_double js) \<longrightarrow> list_all (counted js n) cs \<and> reached js k cs" for js n k
  by unfold_locales
    (auto intro!: on_dim_ok on_dim_reached intro: update_counted update_keeps_conf dest: cascade_counted)

lemma updates_reach:
  assumes "rounding (js_double js)" "list_all (counted js n) cs" "list_all (\<lambda>ku. numeric_update (snd ku)) us"
    "explicit_report js us k" "k \<in> cv_id ` set cs"
  shows "list_all (counted js n) (fst (foldl (update_step js n) (cs, r) us))
    \<and> reached js k (fst (foldl (update_step js n) (cs, r) us))"
  using assms(2-5)
proof (induction us arbitrary: cs r)
  case Nil
  then show ?case by (simp add: explicit_report_def)
next
  case (Cons ku us)
  obtain j u where ku: "ku = (j, u)" by (cases ku)
  obtain cs1 r1 where s: "update_step js n (cs, r) ku = (cs1, r1)" by fastforce
  from Cons.prems(2) have num: "numeric_update (snd ku)" "list_all (\<lambda>ku. numeric_update (snd ku)) us" by simp_all
  have ok: "list_all (counted js n) cs1"
    using counting.update [where acc = "(cs, r)" and ku = ku and js = js and n = n] Cons.prems(1) num s assms(1) by simp
  have "map cv_id cs1 = map cv_id cs"
    using keeping.update [where acc = "(cs, r)" and ids = "map cv_id cs" and ku = ku and js = js and n = n] s by simp
  then have ids: "cv_id ` set cs1 = cv_id ` set cs" by (metis set_map)
  show ?case
  proof (cases "explicit_report js us k")
    case True
    with Cons.IH [OF ok num(2) True] Cons.prems(4) ids s show ?thesis by simp
  next
    case False
    then have j: "j = k" "\<exists>x. positive_delta js u = Some (JNum x) \<and> 3 / 2 \<le> x"
      using Cons.prems(3) ku by (auto simp: explicit_report_def)
    obtain c where c: "List.find (\<lambda>c. cv_id c = k) cs = Some c"
      using Cons.prems(4) by (cases "List.find (\<lambda>c. cv_id c = k) cs") (auto simp: find_None_iff)
    then have "counted js n c" using Cons.prems(1) by (auto dest!: find_SomeD simp: list_all_iff)
    moreover have "List.find (\<lambda>c. cv_id c = k) cs1 = Some (apply_update js n u c)"
      using s c ku j(1) find_update_first [OF c, of "apply_update js n u"] by (auto simp: update_step_def)
    ultimately have "reached js k cs1" using j(2) assms(1) by (auto simp: reached_def update_reaches)
    with ok reaching.updating [where acc = "(cs1, r1)" and us = us and js = js and n = n and k = k] num(2) assms(1) s show ?thesis by simp
  qed
qed

lemma response_reaches:
  assumes "rounding (js_double js)" "positive_cascades ds" "list_all (counted js n) cs"
    "list_all (\<lambda>ku. numeric_update (snd ku)) us" "explicit_report js us k" "k \<in> cv_id ` set cs"
  shows "reached js k (applyCoverageUpdates js ds n us cs)"
proof -
  obtain cs' r where f: "foldl (update_step js n) (cs, []) us = (cs', r)" by fastforce
  then have "list_all (counted js n) cs' \<and> reached js k cs'"
    using updates_reach [OF assms(1,3-6), of "[]"] by simp
  with reaching.cascading [where cs = "cs'" and ds = ds and r = r and js = js and n = n and k = k] assms(1,2) show ?thesis
    by (simp add: applyCoverageUpdates_def f)
qed

lemma find_distinct:
  "distinct (map f xs) \<Longrightarrow> x \<in> set xs \<Longrightarrow> List.find (\<lambda>y. f y = f x) xs = Some x"
  by (induction xs) auto

lemma all_reached_done:
  assumes "distinct (map cv_id cs)" "list_all (cov_ok js n) cs" "\<And>k. k \<in> cv_id ` set cs \<Longrightarrow> reached js k cs"
  shows "list_all (dim_done js) cs"
  unfolding list_all_iff
proof
  fix c
  assume c: "c \<in> set cs"
  with assms(3) have "reached js (cv_id c) cs" by blast
  with find_distinct [OF assms(1) c] have "conf_ge js c (3 / 2)" by (simp add: reached_def)
  moreover have ok: "cov_ok js n c" using assms(2) c by (simp add: list_all_iff)
  then obtain ss where "cv_confidence c = Some (total js ss)" by (auto elim: cov_okE)
  ultimately show "dim_done js c"
    by (simp add: dim_done_def conf_ge_def confidence_total cov_ok_threshold [OF ok])
qed

section \<open>Topics that no update can reach\<close>

text \<open>The entry at position \<open>j\<close> is fresh and has the id of an earlier entry.\<close>

definition shadowed :: "js \<Rightarrow> nat \<Rightarrow> coverage list \<Rightarrow> bool" where
  "shadowed js j cs \<longleftrightarrow> j < length cs \<and> \<not> dim_done js (cs ! j) \<and> (\<exists>i < j. cv_id (cs ! i) = cv_id (cs ! j))"

lemma update_first_other: "j < length xs \<Longrightarrow> \<not> P (xs ! j) \<Longrightarrow> update_first P f xs ! j = xs ! j"
proof (induction xs arbitrary: j)
  case (Cons x xs)
  then show ?case by (cases j) auto
qed simp

lemma update_first_later:
  "i < j \<Longrightarrow> j < length xs \<Longrightarrow> P (xs ! i) = P (xs ! j) \<Longrightarrow> update_first P f xs ! j = xs ! j"
proof (induction xs arbitrary: i j)
  case (Cons x xs)
  then show ?case by (cases i; cases j) (auto simp: update_first_other)
qed simp

lemma update_first_nth_id:
  "(\<And>x. g (f x) = g x) \<Longrightarrow> i < length xs \<Longrightarrow> g (update_first P f xs ! i) = g (xs ! i)"
  using map_update_first [of P g f xs] by (metis length_update_first nth_map)

lemma on_dim_shadowed:
  assumes "shadowed js j cs" "\<And>c. cv_id (f c) = cv_id c"
  shows "shadowed js j (on_dim k f cs)"
proof -
  obtain i where i: "i < j" "cv_id (cs ! i) = cv_id (cs ! j)" and j: "j < length cs" "\<not> dim_done js (cs ! j)"
    using assms(1) by (auto simp: shadowed_def)
  have same: "on_dim k f cs ! j = cs ! j" by (rule update_first_later [OF i(1) j(1)]) (simp add: i(2))
  moreover have "cv_id (on_dim k f cs ! i) = cv_id (cs ! i)"
    using update_first_nth_id [of cv_id f i cs] assms(2) less_trans [OF i(1) j(1)] by simp
  ultimately show ?thesis using i j by (auto simp: shadowed_def)
qed

interpretation shadow: coverage_invariant js n "\<lambda>_. True" "shadowed js j" for js n j
  by unfold_locales (simp_all add: on_dim_shadowed)

lemma shadowed_not_covered: "shadowed js j (iv_coverage st) \<Longrightarrow> \<not> allDimensionsCovered js st"
  by (auto simp: shadowed_def allDimensionsCovered_def list_all_length)

text \<open>The model never ends the interview by itself.\<close>

definition never_ends :: "interview_env \<Rightarrow> bool" where
  "never_ends env \<longleftrightarrow>
     (\<forall>h raw n. llm env h = Some raw \<longrightarrow> \<not> snd (snd (parseResponse env n raw)))"

definition open_ended :: "js \<Rightarrow> nat \<Rightarrow> engine \<Rightarrow> bool" where
  "open_ended js j en \<longleftrightarrow> positive_cascades (en_dimensions en) \<and> shadowed js j (iv_coverage (en_state en))
     \<and> \<not> iv_is_complete (en_state en)"

lemma take_response_open:
  "open_ended (ie_js env) j en \<Longrightarrow> open_ended (ie_js env) j (fst (take_response env b raw en))"
  by (auto simp: open_ended_def take_response_def Let_def list_all_iff intro: shadow.response split: prod.split)

lemma exchange_open:
  assumes "open_ended (ie_js env) j en" "never_ends env"
  shows "open_ended (ie_js env) j (fst (exchange env inp en))"
proof (rule exchange_cases [of env inp en])
  have h: "open_ended (ie_js env) j (hear_user env inp en)" using assms(1) by (simp add: open_ended_def hear_user_def)
  then show "exchange env inp en = (hear_user env inp en, False) \<Longrightarrow> ?thesis" by simp
  fix raw en' sc
  assume l: "llm env (en_history (hear_user env inp en)) = Some raw"
    and r: "take_response env True raw (hear_user env inp en) = (en', sc)"
    and e: "exchange env inp en = (if sc \<or> allDimensionsCovered (ie_js env) (en_state en')
         then en'\<lparr>en_state := (en_state en')\<lparr>iv_is_complete := True\<rparr>\<rparr> else en', True)"
  have o: "open_ended (ie_js env) j en'" using take_response_open [OF h, of True raw] r by simp
  moreover have "sc = snd (snd (parseResponse env (iv_turn_count (en_state (hear_user env inp en))) raw))"
    using r by (auto simp: take_response_def Let_def split: prod.splits)
  moreover have "\<not> allDimensionsCovered (ie_js env) (en_state en')"
    using o shadowed_not_covered [of "ie_js env" j] by (simp add: open_ended_def)
  ultimately show ?thesis using assms(2) l e by (simp add: never_ends_def)
qed

lemma loop_open:
  "open_ended (ie_js env) j en \<Longrightarrow> never_ends env \<Longrightarrow> snd (interview_loop env en inps) \<noteq> Answers a"
proof (induction inps arbitrary: en)
  case Nil
  then show ?case by (simp add: open_ended_def)
next
  case (Cons inp inps)
  obtain en' b where e: "exchange env inp en = (en', b)" by fastforce
  with exchange_open [OF Cons.prems, of inp] have "open_ended (ie_js env) j en'" by simp
  with Cons e show ?case by (cases b) (simp_all add: open_ended_def save_run_def)
qed

lemma run_open:
  assumes "open_ended (ie_js env) j en" "never_ends env"
  shows "snd (run_interview env en inps) \<noteq> Answers a"
proof -
  have s: "open_ended (ie_js env) j (start_run en)" using assms(1) by (simp add: start_run_def open_ended_def)
  have "open_ended (ie_js env) j (en\<lparr>en_history := h\<rparr>) = open_ended (ie_js env) j en" for en h by (simp add: open_ended_def)
  then have "open_ended (ie_js env) j (fst (open_interview env (start_run en)))"
    using s take_response_open by (simp add: open_interview_def Let_def split: option.split)
  moreover obtain en' b where e: "open_interview env (start_run en) = (en', b)" by fastforce
  ultimately have "open_ended (ie_js env) j en'" by simp
  with e assms(2) show ?thesis by (cases b) (simp_all add: run_interview_def loop_open)
qed

lemma fresh_not_done: "\<not> dim_done js (fresh_coverage d)"
  by (simp add: dim_done_def fresh_coverage_def threshold_of_def nullish_def confidence_of_def)

lemma duplicate_shadowed:
  assumes "\<not> distinct (map dim_id ds)"
  shows "\<exists>j. shadowed js j (map fresh_coverage ds)"
proof -
  obtain i j where "i < j" "j < length ds" "dim_id (ds ! i) = dim_id (ds ! j)"
    using assms by (auto simp: distinct_conv_nth) (metis linorder_neqE_nat)
  then have "shadowed js j (map fresh_coverage ds)"
    by (auto simp: shadowed_def fresh_not_done) (auto simp: fresh_coverage_def intro!: exI [of _ i])
  then show ?thesis ..
qed

lemma positive_cascades_map:
  "positive_cascades ds \<longleftrightarrow> list_all (\<lambda>cs. list_all (\<lambda>(t, w). 0 < w) cs) (map cascades ds)"
  by (simp add: positive_cascades_def list_all_iff)

lemma general_positive_cascades: "positive_cascades (dims_at GeneralAgentRubric d)"
  unfolding positive_cascades_map by (rule general_positive)

section \<open>Properties\<close>


text \<open>A response that reports every topic.\<close>

lemma full_response_done:
  assumes "rounding (js_double js)" "positive_cascades ds" "distinct (map dim_id ds)"
    and "map cv_id cs = map dim_id ds" "list_all (counted js n) cs"
    and "list_all (\<lambda>ku. numeric_update (snd ku)) us" "list_all (\<lambda>d. explicit_report js us (dim_id d)) ds"
  shows "list_all (dim_done js) (applyCoverageUpdates js ds n us cs)"
proof (rule all_reached_done)
  let ?cs = "applyCoverageUpdates js ds n us cs"
  have ids: "map cv_id ?cs = map dim_id ds" using assms(2,4) by (simp add: response_ids)
  with assms(3) show "distinct (map cv_id ?cs)" by simp
  show "list_all (cov_ok js n) ?cs"
    using assms(1,2,5) by (intro response_ok) (auto simp: list_all_iff counted_def)
  show "reached js k ?cs" if "k \<in> cv_id ` set ?cs" for k
  proof (rule response_reaches [OF assms(1,2,5,6)])
    have k: "k \<in> dim_id ` set ds" using that ids by (metis set_map)
    then show "explicit_report js us k" using assms(7) by (auto simp: list_all_iff)
    show "k \<in> cv_id ` set cs" using k assms(4) by (metis set_map)
  qed
qed


text \<open>
  C5. An interview for the general agent never ends by coverage, at any depth: its rubric repeats
  the id of a universal topic, updates reach only the first entry of an id, so the second one stays
  not started. Whatever the model reports and the user types, a run in which the model does not ask
  to end the interview itself returns no answers.
\<close>

theorem general_agent_never_covered:
  assumes "never_ends env"
  shows "snd (run_interview env (new_interviewer GeneralAgentRubric d UNIVERSAL_DIMENSIONS None) inps)
    \<noteq> Answers a"
proof -
  obtain j where "shadowed (ie_js env) j (map fresh_coverage (dims_at GeneralAgentRubric d))"
    using duplicate_shadowed [OF general_distinct] by blast
  then have "open_ended (ie_js env) j (new_interviewer GeneralAgentRubric d UNIVERSAL_DIMENSIONS None)"
    by (simp add: open_ended_def new_interviewer_def Let_def fresh_interview_def general_positive_cascades)
  then show ?thesis using assms by (rule run_open)
qed

section \<open>Concrete interviews\<close>

text \<open>A model that reports every topic at once, and one that only talks.\<close>

definition full_report :: "rubric_dimension list \<Rightarrow> json" where
  "full_report ds = JObj [(''dimension_updates'',
     JObj (map (\<lambda>d. (dim_id d, JObj [(''confidence_delta'', JNum 2)])) ds))]"

definition plain_js :: js where
  "plain_js = \<lparr>js_double = (\<lambda>x. x), js_text = (\<lambda>_. []), js_str_above = (\<lambda>s x. False), js_str_from = (\<lambda>s x. False)\<rparr>"

lemma rounding_plain: "rounding (js_double plain_js)"
  by (simp add: rounding_def plain_js_def mono_def)

definition report_reply :: string where
  "report_reply = ''Thanks'' @ cov_open @ ''{}'' @ cov_close"

definition reporting_env :: "rubric_dimension list \<Rightarrow> interview_env" where
  "reporting_env ds = \<lparr>llm = (\<lambda>_. Some report_reply),
     ie_parse = (\<lambda>_. Some (full_report ds)), ie_js = plain_js, ie_now = show_nat\<rparr>"

definition talking_env :: interview_env where
  "talking_env = \<lparr>llm = (\<lambda>_. Some ''Tell me more''), ie_parse = (\<lambda>_. None),
     ie_js = plain_js, ie_now = show_nat\<rparr>"

lemma read_full_report: "read_updates n (map (\<lambda>d. (dim_id d, JObj [(''confidence_delta'', JNum 2)])) ds) =
    (map (\<lambda>d. (dim_id d, read_update n (JObj [(''confidence_delta'', JNum 2)]))) ds, True)"
  by (induction ds) auto

lemma reporting_block: "coverage_block report_reply = Some (''Thanks'', ''{}'', [])"
  by code_simp

lemma parse_reporting: "parseResponse (reporting_env ds) n report_reply =
    (trim ''Thanks'', map (\<lambda>d. (dim_id d, read_update n (JObj [(''confidence_delta'', JNum 2)]))) ds, False)"
  unfolding parseResponse_def reporting_block
  by (simp add: reporting_env_def full_report_def parsed_metadata_def read_full_report)

lemma positive_reported: "positive_delta js (read_update n (JObj [(''confidence_delta'', JNum 2)])) = Some (JNum 2)"
  by (simp add: positive_delta_def read_update_def)

lemma numeric_reported: "numeric_update (read_update n (JObj [(''confidence_delta'', JNum 2)]))"
  by (simp add: numeric_update_def read_update_def)

lemma report_explicit:
  "d \<in> set ds \<Longrightarrow> explicit_report js (map (\<lambda>d. (dim_id d, read_update n (JObj [(''confidence_delta'', JNum 2)]))) ds) (dim_id d)"
  using positive_reported by (auto simp: explicit_report_def intro!: exI)

lemma support_engine_ok: "engine_ok plain_js (new_interviewer SupportAgentRubric Guided UNIVERSAL_DIMENSIONS None)"
  by (rule new_engine_ok) (simp_all add: positive_cascades_map support_positive rounding_plain)

lemma reporting_fields:
  "ie_js (reporting_env ds) = plain_js"
  "llm (reporting_env ds) h = Some report_reply"
  by (simp_all only: reporting_env_def interview_env.simps)

lemma counted_fresh: "counted plain_js n (fresh_coverage d)"
  by (simp add: counted_def cov_ok_fresh rounding_plain) (simp add: fresh_coverage_def)

text \<open>The state that a run with the reporting model saves after its opening.\<close>

lemma reported_saved:
  assumes "distinct (map dim_id (getDimensionsForDepth r d u))" "positive_cascades (getDimensionsForDepth r d u)"
  shows "\<exists>st. saved_state plain_js r d u st \<and> list_all (dim_done plain_js) (iv_coverage st)"
proof -
  let ?ds = "getDimensionsForDepth r d u"
  let ?env = "reporting_env ?ds" and ?en = "new_interviewer r d u None"
  let ?us = "map (\<lambda>d. (dim_id d, read_update 0 (JObj [(''confidence_delta'', JNum 2)]))) ?ds"
  let ?st0 = "addTurn ?env Interviewer (trim ''Thanks'') (fresh_interview ?ds)"
  let ?st = "?st0\<lparr>iv_coverage := applyCoverageUpdates plain_js ?ds 1 ?us (map fresh_coverage ?ds)\<rparr>"
  have "en_saved (fst (run_interview ?env ?en [])) = [?st]"
    by (simp add: run_interview_def open_interview_def start_run_def new_interviewer_def Let_def
        fresh_interview_def take_response_def reporting_fields parse_reporting addTurn_def)
  then have "saved_state plain_js r d u ?st"
    by (intro fresh [of ?env _ _ _ _ _ "[]"]) (simp_all add: reporting_fields)
  moreover have "list_all (dim_done plain_js) (iv_coverage ?st)"
    using assms by (simp, intro full_response_done)
      (simp_all add: rounding_plain counted_fresh list_all_iff report_explicit numeric_reported o_def, simp add: fresh_coverage_def)
  ultimately show ?thesis by blast
qed

lemma parse_talking: "parseResponse talking_env n ''Tell me more'' = (''Tell me more'', [], False)"
proof -
  have "coverage_block ''Tell me more'' = None" "trim ''Tell me more'' = ''Tell me more''" by code_simp+
  then show ?thesis by (simp add: parseResponse_def)
qed

lemma talking_never_ends: "never_ends talking_env"
proof -
  have "llm talking_env h = Some raw \<Longrightarrow> raw = ''Tell me more''" for h raw
    by (simp add: talking_env_def)
  then show ?thesis using parse_talking by (auto simp: never_ends_def)
qed



theorem general_agent_never_covered_witness:
  "snd (run_interview talking_env (new_interviewer GeneralAgentRubric Quick UNIVERSAL_DIMENSIONS None)
     [''hello'', ''more'']) \<noteq> Answers JNull"
  by (rule general_agent_never_covered) (rule talking_never_ends)

end
