(* ===== verification/Layout.thy ===== *)
theory Layout
  imports Paths "HOL-Library.Sublist"
begin

text \<open>
  TasteKit core, utils/filesystem.ts: the workspace on disk, the path helpers of the three-space
  layout, the resolvers that also find the files of the old flat layout, and the migration between
  the two. A path is the list of its segments, the disk the list of its files with their content
  and the list of its directories. A path through a regular file is outside the model (the library
  raises there).
\<close>

section \<open>The disk\<close>

type_synonym segments = "string list"

record disk =
  dk_files :: "(segments \<times> string) list"
  dk_dirs :: "segments list"

definition read_file :: "disk \<Rightarrow> segments \<Rightarrow> string option" where
  "read_file d p = map_of (dk_files d) p"

definition is_dir :: "disk \<Rightarrow> segments \<Rightarrow> bool" where
  "is_dir d p \<longleftrightarrow> p \<in> set (dk_dirs d)"

definition existsSync :: "disk \<Rightarrow> segments \<Rightarrow> bool" where
  "existsSync d p \<longleftrightarrow> read_file d p \<noteq> None \<or> is_dir d p"

text \<open>\<open>mkdirSync(path, { recursive: true })\<close>: every missing prefix becomes a directory.\<close>

definition make_dirs :: "segments \<Rightarrow> disk \<Rightarrow> disk" where
  "make_dirs p d = d\<lparr>dk_dirs := foldl (\<lambda>ds i. set_add (take i p) ds) (dk_dirs d) [0..<Suc (length p)]\<rparr>"

definition ensureDir :: "segments \<Rightarrow> disk \<Rightarrow> disk" where
  "ensureDir p d = (if existsSync d p then d else make_dirs p d)"

definition put_file :: "segments \<Rightarrow> string \<Rightarrow> disk \<Rightarrow> disk" where
  "put_file p c d = d\<lparr>dk_files := AList.update p c (dk_files d)\<rparr>"

definition remove_file :: "segments \<Rightarrow> disk \<Rightarrow> disk" where
  "remove_file p d = d\<lparr>dk_files := AList.delete p (dk_files d)\<rparr>"

definition writeFileSafe :: "segments \<Rightarrow> string \<Rightarrow> disk \<Rightarrow> disk" where
  "writeFileSafe p c d = put_file p c (ensureDir (butlast p) d)"

definition readFileIfExists :: "disk \<Rightarrow> segments \<Rightarrow> string option" where
  "readFileIfExists d p = read_file d p"

definition temp_path :: "segments \<Rightarrow> segments" where
  "temp_path p = butlast p @ [last p @ ''.tmp'']"

text \<open>The states of the disk during an atomic write: directories made, temporary file written,
  renamed over the target.\<close>

definition atomic_states :: "segments \<Rightarrow> string \<Rightarrow> disk \<Rightarrow> disk list" where
  "atomic_states p c d =
     (let d1 = ensureDir (butlast p) d;
          d2 = put_file (temp_path p) c d1;
          d3 = put_file p c (remove_file (temp_path p) d2)
      in [d1, d2, d3])"

definition atomicWrite :: "segments \<Rightarrow> string \<Rightarrow> disk \<Rightarrow> disk" where
  "atomicWrite p c d = last (atomic_states p c d)"

section \<open>Paths of the two layouts\<close>

definition selfPath :: "segments \<Rightarrow> segments \<Rightarrow> segments" where
  "selfPath ws r = ws @ ''self'' # r"

definition knowledgePath :: "segments \<Rightarrow> segments \<Rightarrow> segments" where
  "knowledgePath ws r = ws @ ''knowledge'' # r"

definition opsPath :: "segments \<Rightarrow> segments \<Rightarrow> segments" where
  "opsPath ws r = ws @ ''ops'' # r"

datatype layout_version = V1 | V2

definition detectLayoutVersion :: "disk \<Rightarrow> segments \<Rightarrow> layout_version" where
  "detectLayoutVersion d ws = (if existsSync d (ws @ [''self'']) then V2 else V1)"

datatype artifact = Constitution_file | Guardrails_file | Memory_file

fun artifact_name :: "artifact \<Rightarrow> string" where
  "artifact_name Constitution_file = ''constitution.v1.json''"
| "artifact_name Guardrails_file = ''guardrails.v1.yaml''"
| "artifact_name Memory_file = ''memory.v1.yaml''"

definition resolveArtifactPath :: "disk \<Rightarrow> segments \<Rightarrow> artifact \<Rightarrow> segments" where
  "resolveArtifactPath d ws a =
     (let v2 = selfPath ws [artifact_name a]; v1 = ws @ [''artifacts'', artifact_name a]
      in first_existing (existsSync d) [v2, v1] v2)"

definition resolveTracesPath :: "disk \<Rightarrow> segments \<Rightarrow> segments" where
  "resolveTracesPath d ws =
     (let v2 = opsPath ws [''traces''] in first_existing (existsSync d) [v2, ws @ [''traces'']] v2)"

definition resolveSkillsPath :: "disk \<Rightarrow> segments \<Rightarrow> segments" where
  "resolveSkillsPath d ws =
     (let v2 = knowledgePath ws [''skills''] in first_existing (existsSync d) [v2, ws @ [''skills'']] v2)"

definition resolvePlaybooksPath :: "disk \<Rightarrow> segments \<Rightarrow> segments" where
  "resolvePlaybooksPath d ws =
     (let v2 = knowledgePath ws [''playbooks'']
      in first_existing (existsSync d) [v2, ws @ [''artifacts'', ''playbooks'']] v2)"

definition resolveSessionPath :: "disk \<Rightarrow> segments \<Rightarrow> segments" where
  "resolveSessionPath d ws =
     (let v2 = opsPath ws [''session.json''] in first_existing (existsSync d) [v2, ws @ [''session.json'']] v2)"

definition resolveTrustPath :: "disk \<Rightarrow> segments \<Rightarrow> segments" where
  "resolveTrustPath d ws = first_existing (existsSync d)
     [ws @ [''trust.v1.json''], ws @ [''trust.v1.yaml''],
      ws @ [''artifacts'', ''trust.v1.json''], ws @ [''artifacts'', ''trust.v1.yaml'']]
     (ws @ [''trust.v1.json''])"

definition resolveBindingsPath :: "disk \<Rightarrow> segments \<Rightarrow> segments" where
  "resolveBindingsPath d ws = first_existing (existsSync d)
     [ws @ [''bindings.v1.json''], ws @ [''bindings.v1.yaml''],
      ws @ [''artifacts'', ''bindings.v1.json''], ws @ [''artifacts'', ''bindings.v1.yaml'']]
     (ws @ [''bindings.v1.json''])"

section \<open>Migration\<close>

definition createThreeSpaceLayout :: "segments \<Rightarrow> disk \<Rightarrow> disk" where
  "createThreeSpaceLayout ws d = foldl (\<lambda>d p. ensureDir p d) d
     [selfPath ws [], knowledgePath ws [''skills''], knowledgePath ws [''playbooks''],
      opsPath ws [''traces''], opsPath ws [''drift''], opsPath ws [''observations''], opsPath ws [''sessions'']]"

text \<open>The rest of a path below a directory.\<close>

fun below :: "segments \<Rightarrow> segments \<Rightarrow> segments option" where
  "below [] q = Some q"
| "below (x # p) [] = None"
| "below (x # p) (y # q) = (if x = y then below p q else None)"

text \<open>\<open>copyDirContents\<close>: every file and directory below the source is copied to the same place
  below the target unless something is there.\<close>

definition copy_file :: "segments \<Rightarrow> segments \<Rightarrow> disk \<Rightarrow> segments \<times> string \<Rightarrow> disk" where
  "copy_file src dest d pc =
     (case below src (fst pc) of
        None \<Rightarrow> d
      | Some r \<Rightarrow> if existsSync d (dest @ r) then d else writeFileSafe (dest @ r) (snd pc) d)"

definition copy_dir :: "segments \<Rightarrow> segments \<Rightarrow> disk \<Rightarrow> segments \<Rightarrow> disk" where
  "copy_dir src dest d p = (case below src p of None \<Rightarrow> d | Some r \<Rightarrow> ensureDir (dest @ r) d)"

definition copyDirContents :: "segments \<Rightarrow> segments \<Rightarrow> disk \<Rightarrow> disk" where
  "copyDirContents src dest d =
     (let d1 = ensureDir dest d; d2 = foldl (copy_dir src dest) d1 (dk_dirs d)
      in foldl (copy_file src dest) d2 (dk_files d))"

text \<open>One file is moved when it exists and the target does not. A directory in the place of the
  file, where the library raises, is outside the model.\<close>

definition migrate_file :: "segments \<Rightarrow> segments \<Rightarrow> disk \<Rightarrow> disk" where
  "migrate_file src dest d =
     (if existsSync d src \<and> \<not> existsSync d dest
      then (case read_file d src of Some c \<Rightarrow> writeFileSafe dest c d | None \<Rightarrow> d)
      else d)"

definition migrate_dir :: "segments \<Rightarrow> segments \<Rightarrow> disk \<Rightarrow> disk" where
  "migrate_dir src dest d = (if existsSync d src then copyDirContents src dest d else d)"

text \<open>The state of a migration: the disk and the two lists of the report.\<close>

record migration =
  mg_disk :: disk
  mg_migrated :: "(segments \<times> segments) list"
  mg_skipped :: "segments list"

definition move_identity :: "migration \<Rightarrow> segments \<times> segments \<Rightarrow> migration" where
  "move_identity m sd =
     (let d = mg_disk m in
      if existsSync d (fst sd) \<and> \<not> existsSync d (snd sd)
      then m\<lparr>mg_disk := migrate_file (fst sd) (snd sd) d, mg_migrated := mg_migrated m @ [sd]\<rparr>
      else if \<not> existsSync d (fst sd) then m\<lparr>mg_skipped := mg_skipped m @ [fst sd]\<rparr>
      else m)"

definition move_dir :: "segments \<Rightarrow> segments \<Rightarrow> migration \<Rightarrow> migration" where
  "move_dir src dest m =
     (if existsSync (mg_disk m) src
      then m\<lparr>mg_disk := migrate_dir src dest (mg_disk m), mg_migrated := mg_migrated m @ [(src, dest)]\<rparr>
      else m)"

definition move_session :: "segments \<Rightarrow> segments \<Rightarrow> migration \<Rightarrow> migration" where
  "move_session src dest m =
     (let d = mg_disk m in
      if existsSync d src \<and> \<not> existsSync d dest
      then m\<lparr>mg_disk := migrate_file src dest d, mg_migrated := mg_migrated m @ [(src, dest)]\<rparr>
      else m)"

definition identity_moves :: "segments \<Rightarrow> (segments \<times> segments) list" where
  "identity_moves ws = map (\<lambda>a. (ws @ [''artifacts'', artifact_name a], selfPath ws [artifact_name a]))
     [Constitution_file, Guardrails_file, Memory_file]"

definition migrateWorkspaceLayout :: "segments \<Rightarrow> disk \<Rightarrow> migration" where
  "migrateWorkspaceLayout ws d =
     (let m1 = foldl move_identity \<lparr>mg_disk = createThreeSpaceLayout ws d, mg_migrated = [], mg_skipped = []\<rparr>
                 (identity_moves ws);
          m2 = move_dir (ws @ [''skills'']) (knowledgePath ws [''skills'']) m1;
          m3 = move_dir (ws @ [''artifacts'', ''playbooks'']) (knowledgePath ws [''playbooks'']) m2;
          m4 = move_dir (ws @ [''traces'']) (opsPath ws [''traces'']) m3
      in move_session (ws @ [''session.json'']) (opsPath ws [''session.json'']) m4)"

section \<open>Facts\<close>

lemma read_put [simp]: "read_file (put_file p c d) q = (if p = q then Some c else read_file d q)"
  by (simp add: read_file_def put_file_def update_conv')

lemma read_remove [simp]: "read_file (remove_file p d) q = (if p = q then None else read_file d q)"
  by (simp add: read_file_def remove_file_def delete_conv')

lemma read_ensureDir [simp]: "read_file (ensureDir p d) q = read_file d q"
  by (simp add: ensureDir_def make_dirs_def read_file_def)

lemma read_writeFileSafe [simp]:
  "read_file (writeFileSafe p c d) q = (if p = q then Some c else read_file d q)"
  by (simp add: writeFileSafe_def)

lemma dirs_put [simp]: "dk_dirs (put_file p c d) = dk_dirs d"
  by (simp add: put_file_def)

lemma dirs_make: "set (dk_dirs (make_dirs p d)) = set (dk_dirs d) \<union> {take i p | i. i \<le> length p}"
proof -
  have "set (foldl (\<lambda>ds i. set_add (take i p) ds) ds xs) = set ds \<union> (\<lambda>i. take i p) ` set xs" for ds and xs :: "nat list"
    by (induction xs arbitrary: ds) auto
  then have "set (dk_dirs (make_dirs p d)) = set (dk_dirs d) \<union> (\<lambda>i. take i p) ` {0..<Suc (length p)}"
    unfolding make_dirs_def by (simp del: upt_Suc)
  then show ?thesis by auto
qed

lemma read_make_dirs [simp]: "read_file (make_dirs p d) q = read_file d q"
  by (simp add: make_dirs_def read_file_def)

lemma is_dir_ensureDir: "is_dir d p \<Longrightarrow> is_dir (ensureDir q d) p"
  by (simp add: is_dir_def ensureDir_def dirs_make)

lemma exists_ensureDir: "existsSync d p \<Longrightarrow> existsSync (ensureDir q d) p"
  by (auto simp: existsSync_def is_dir_ensureDir)

lemma ensureDir_exists [simp]: "existsSync (ensureDir p d) p"
  by (auto simp: ensureDir_def existsSync_def is_dir_def dirs_make intro: exI [of _ "length p"])

text \<open>An operation that only adds: every file keeps its content, every directory stays.\<close>

definition adds_to :: "disk \<Rightarrow> disk \<Rightarrow> bool" where
  "adds_to d d' \<longleftrightarrow> (\<forall>p c. read_file d p = Some c \<longrightarrow> read_file d' p = Some c)
     \<and> set (dk_dirs d) \<subseteq> set (dk_dirs d')"

lemma adds_refl [simp]: "adds_to d d"
  by (simp add: adds_to_def)

lemma adds_trans: "adds_to a b \<Longrightarrow> adds_to b c \<Longrightarrow> adds_to a c"
  by (auto simp: adds_to_def)

lemma adds_ensureDir: "adds_to d (ensureDir p d)"
  using is_dir_ensureDir by (auto simp: adds_to_def is_dir_def)

lemma adds_write: "\<not> existsSync d p \<Longrightarrow> adds_to d (writeFileSafe p c d)"
  using adds_ensureDir [of d "butlast p"]
  by (auto simp: adds_to_def existsSync_def writeFileSafe_def)

lemma adds_fold: "(\<And>d x. adds_to d (f d x)) \<Longrightarrow> adds_to d (foldl f d xs)"
  by (induction xs arbitrary: d) (auto intro: adds_trans)

lemma adds_copy: "adds_to d (copyDirContents src dest d)"
proof -
  have "adds_to d' (copy_dir src dest d' p)" "adds_to d' (copy_file src dest d' pc)" for d' p pc
    by (auto simp: copy_dir_def copy_file_def adds_ensureDir adds_write split: option.split)
  then show ?thesis
    unfolding copyDirContents_def Let_def
    by (intro adds_trans [OF adds_ensureDir adds_trans [OF adds_fold adds_fold]])
qed

lemma adds_migrate_file: "adds_to d (migrate_file src dest d)"
  by (auto simp: migrate_file_def adds_write split: option.split)

lemma adds_migrate_dir: "adds_to d (migrate_dir src dest d)"
  by (simp add: migrate_dir_def adds_copy)

lemma adds_layout: "adds_to d (createThreeSpaceLayout ws d)"
  unfolding createThreeSpaceLayout_def by (rule adds_fold) (rule adds_ensureDir)

lemma adds_exists: "adds_to d d' \<Longrightarrow> existsSync d p \<Longrightarrow> existsSync d' p"
  by (auto simp: adds_to_def existsSync_def is_dir_def)

lemma adds_read: "adds_to d d' \<Longrightarrow> read_file d p = Some c \<Longrightarrow> read_file d' p = Some c"
  by (simp add: adds_to_def)

text \<open>The disk of a migration is the disk of its steps.\<close>

definition identity_step :: "disk \<Rightarrow> segments \<times> segments \<Rightarrow> disk" where
  "identity_step d sd = migrate_file (fst sd) (snd sd) d"

lemma disk_identity [simp]: "mg_disk (move_identity m sd) = identity_step (mg_disk m) sd"
  by (simp add: move_identity_def identity_step_def migrate_file_def Let_def)

lemma disk_identities: "mg_disk (foldl move_identity m xs) = foldl identity_step (mg_disk m) xs"
  by (induction xs arbitrary: m) simp_all

lemma disk_dir [simp]: "mg_disk (move_dir src dest m) = migrate_dir src dest (mg_disk m)"
  by (simp add: move_dir_def migrate_dir_def)

lemma disk_session [simp]: "mg_disk (move_session src dest m) = migrate_file src dest (mg_disk m)"
  by (simp add: move_session_def migrate_file_def Let_def)

definition stage1 :: "segments \<Rightarrow> disk \<Rightarrow> disk" where
  "stage1 ws d = foldl identity_step (createThreeSpaceLayout ws d) (identity_moves ws)"

definition stage2 :: "segments \<Rightarrow> disk \<Rightarrow> disk" where
  "stage2 ws d = migrate_dir (ws @ [''skills'']) (knowledgePath ws [''skills'']) (stage1 ws d)"

definition stage3 :: "segments \<Rightarrow> disk \<Rightarrow> disk" where
  "stage3 ws d = migrate_dir (ws @ [''artifacts'', ''playbooks'']) (knowledgePath ws [''playbooks'']) (stage2 ws d)"

definition stage4 :: "segments \<Rightarrow> disk \<Rightarrow> disk" where
  "stage4 ws d = migrate_dir (ws @ [''traces'']) (opsPath ws [''traces'']) (stage3 ws d)"

lemma migration_stages:
  "mg_disk (migrateWorkspaceLayout ws d) = migrate_file (ws @ [''session.json'']) (opsPath ws [''session.json'']) (stage4 ws d)"
  by (simp add: migrateWorkspaceLayout_def Let_def disk_identities stage1_def stage2_def stage3_def stage4_def)

lemma adds_stages:
  "adds_to d (stage1 ws d)" "adds_to (stage1 ws d) (stage2 ws d)"
  "adds_to (stage2 ws d) (stage3 ws d)" "adds_to (stage3 ws d) (stage4 ws d)"
  "adds_to (stage4 ws d) (mg_disk (migrateWorkspaceLayout ws d))"
proof -
  have "adds_to (createThreeSpaceLayout ws d) (stage1 ws d)"
    unfolding stage1_def identity_step_def by (rule adds_fold) (rule adds_migrate_file)
  then show "adds_to d (stage1 ws d)" by (rule adds_trans [OF adds_layout])
qed (simp_all add: stage2_def stage3_def stage4_def migration_stages adds_migrate_dir adds_migrate_file)

lemma adds_migration: "adds_to d (mg_disk (migrateWorkspaceLayout ws d))"
  by (rule adds_trans [OF adds_stages(1) adds_trans [OF adds_stages(2) adds_trans [OF adds_stages(3)
      adds_trans [OF adds_stages(4) adds_stages(5)]]]])

section \<open>What an operation leaves alone\<close>

text \<open>An operation touches only paths on the way to, or below, its target.\<close>

definition unchanged :: "disk \<Rightarrow> disk \<Rightarrow> segments \<Rightarrow> bool" where
  "unchanged d d' q \<longleftrightarrow> read_file d' q = read_file d q \<and> is_dir d' q = is_dir d q"

definition along :: "segments \<Rightarrow> segments \<Rightarrow> bool" where
  "along p q \<longleftrightarrow> prefix q p \<or> prefix p q"

lemma unchanged_refl [simp]: "unchanged d d q"
  by (simp add: unchanged_def)

lemma unchanged_trans: "unchanged a b q \<Longrightarrow> unchanged b c q \<Longrightarrow> unchanged a c q"
  by (simp add: unchanged_def)

lemma unchanged_exists: "unchanged d d' q \<Longrightarrow> existsSync d' q = existsSync d q"
  by (simp add: unchanged_def existsSync_def)

lemma unchanged_fold: "(\<And>d x. x \<in> set xs \<Longrightarrow> unchanged d (f d x) q) \<Longrightarrow> unchanged d (foldl f d xs) q"
  by (induction xs arbitrary: d) (auto intro: unchanged_trans)

lemma unchanged_ensureDir: "\<not> prefix q p \<Longrightarrow> unchanged d (ensureDir p d) q"
  by (auto simp: unchanged_def is_dir_def ensureDir_def dirs_make take_is_prefix)

lemma unchanged_write: "\<not> prefix q p \<Longrightarrow> unchanged d (writeFileSafe p c d) q"
proof -
  assume no: "\<not> prefix q p"
  then have "\<not> prefix q (butlast p)" using prefixeq_butlast prefix_order.trans by blast
  from unchanged_ensureDir [OF this, of d] no show ?thesis
    by (auto simp: unchanged_def writeFileSafe_def is_dir_def)
qed

lemma unchanged_migrate_file: "\<not> prefix q dest \<Longrightarrow> unchanged d (migrate_file src dest d) q"
  by (auto simp: migrate_file_def unchanged_write split: option.splits)

lemma along_append: "prefix q (p @ r) \<Longrightarrow> along p q"
  by (auto simp: along_def dest: prefix_same_cases [of q "p @ r" p])

lemma unchanged_copy: "\<not> along dest q \<Longrightarrow> unchanged d (copyDirContents src dest d) q"
proof -
  assume no: "\<not> along dest q"
  then have "unchanged d' (ensureDir dest d') q" "unchanged d' (copy_dir src dest d' p) q"
    "unchanged d' (copy_file src dest d' pc) q" for d' p pc
    by (auto simp: copy_dir_def copy_file_def along_def
        intro!: unchanged_ensureDir unchanged_write dest: along_append split: option.split)
  then show ?thesis
    unfolding copyDirContents_def Let_def
    by (intro unchanged_trans [OF _ unchanged_trans [OF unchanged_fold unchanged_fold]])
qed

lemma unchanged_migrate_dir: "\<not> along dest q \<Longrightarrow> unchanged d (migrate_dir src dest d) q"
  by (simp add: migrate_dir_def unchanged_copy)

text \<open>The paths below the workspace that the first stage may create.\<close>

definition created :: "segments list" where
  "created = [[], [''self''], [''self'', ''constitution.v1.json''], [''self'', ''guardrails.v1.yaml''],
     [''self'', ''memory.v1.yaml''], [''knowledge''], [''knowledge'', ''skills''], [''knowledge'', ''playbooks''],
     [''ops''], [''ops'', ''traces''], [''ops'', ''drift''], [''ops'', ''observations''], [''ops'', ''sessions'']]"

lemma prefix_pair: "prefix s [a, b] \<longleftrightarrow> s = [] \<or> s = [a] \<or> s = [a, b]"
  by (auto simp: prefix_Cons)

lemma prefix_single: "prefix s [a] \<longleftrightarrow> s = [] \<or> s = [a]"
  by (auto simp: prefix_Cons)

lemma unchanged_layout: "s \<notin> set created \<Longrightarrow> unchanged d (createThreeSpaceLayout ws d) (ws @ s)"
  unfolding createThreeSpaceLayout_def selfPath_def knowledgePath_def opsPath_def
  by (rule unchanged_fold, rule unchanged_ensureDir) (auto simp: created_def prefix_pair prefix_single)

lemma unchanged_stage1: "s \<notin> set created \<Longrightarrow> unchanged d (stage1 ws d) (ws @ s)"
  unfolding stage1_def identity_step_def identity_moves_def selfPath_def
  by (rule unchanged_trans [OF unchanged_layout], assumption, rule unchanged_fold, rule unchanged_migrate_file)
     (auto simp: created_def prefix_pair)

section \<open>A copied file reads the same\<close>

lemma below_iff [simp]: "below src q = Some r \<longleftrightarrow> q = src @ r"
  by (induction src q rule: below.induct) auto

lemma below_append [simp]: "below src (src @ r) = Some r"
  by simp

lemma copy_files_cover:
  "p = src @ r \<Longrightarrow> p \<in> fst ` set fs \<Longrightarrow> existsSync (foldl (copy_file src dest) d fs) (dest @ r)"
proof (induction fs arbitrary: d)
  case (Cons f fs)
  have keep: "adds_to d' (foldl (copy_file src dest) d' fs)" for d'
    by (rule adds_fold) (auto simp: copy_file_def adds_write split: option.split)
  show ?case
  proof (cases "fst f = src @ r")
    case True
    then have "existsSync (copy_file src dest d f) (dest @ r)"
      by (simp add: copy_file_def existsSync_def)
    then show ?thesis by (auto intro: adds_exists [OF keep])
  next
    case False
    with Cons show ?thesis by auto
  qed
qed simp

lemma copy_dirs_cover: "src @ r \<in> set ps \<Longrightarrow> existsSync (foldl (copy_dir src dest) d ps) (dest @ r)"
proof (induction ps arbitrary: d)
  case (Cons p ps)
  have keep: "adds_to d' (foldl (copy_dir src dest) d' ps)" for d'
    by (rule adds_fold) (auto simp: copy_dir_def adds_ensureDir split: option.split)
  show ?case
  proof (cases "p = src @ r")
    case True
    then have "existsSync (copy_dir src dest d p) (dest @ r)" by (simp add: copy_dir_def)
    then show ?thesis by (auto intro: adds_exists [OF keep])
  next
    case False
    with Cons show ?thesis by auto
  qed
qed simp

lemma copy_covers:
  assumes "existsSync d (src @ r)" shows "existsSync (copyDirContents src dest d) (dest @ r)"
proof -
  have keep: "adds_to d' (foldl (copy_file src dest) d' fs)" for d' fs
    by (rule adds_fold) (auto simp: copy_file_def adds_write split: option.split)
  from assms have "src @ r \<in> fst ` set (dk_files d) \<or> src @ r \<in> set (dk_dirs d)"
    by (auto simp: existsSync_def is_dir_def read_file_def dest!: map_of_SomeD intro: rev_image_eqI)
  then show ?thesis
    unfolding copyDirContents_def Let_def
    by (auto intro: copy_files_cover adds_exists [OF keep copy_dirs_cover])
qed

text \<open>A regular file of a tree: nothing lies below it and it is not a directory.\<close>

definition regular :: "disk \<Rightarrow> segments \<Rightarrow> bool" where
  "regular d p \<longleftrightarrow> \<not> is_dir d p \<and> (\<forall>q. existsSync d q \<longrightarrow> prefix p q \<longrightarrow> q = p)"

lemma copy_files_read:
  assumes "map_of fs (src @ r) = Some c" "\<not> existsSync d (dest @ r)"
    and "\<forall>f \<in> set fs. prefix (src @ r) (fst f) \<longrightarrow> fst f = src @ r"
  shows "read_file (foldl (copy_file src dest) d fs) (dest @ r) = Some c"
  using assms
proof (induction fs arbitrary: d)
  case (Cons f fs)
  have keep: "adds_to d' (foldl (copy_file src dest) d' fs)" for d'
    by (rule adds_fold) (auto simp: copy_file_def adds_write split: option.split)
  show ?case
  proof (cases "fst f = src @ r")
    case True
    with Cons.prems have "read_file (copy_file src dest d f) (dest @ r) = Some c"
      by (cases f) (auto simp: copy_file_def)
    then show ?thesis by (auto intro: adds_read [OF keep])
  next
    case False
    with Cons.prems have "unchanged d (copy_file src dest d f) (dest @ r)"
      by (auto simp: copy_file_def intro!: unchanged_write split: option.split)
    with Cons.prems False have "\<not> existsSync (copy_file src dest d f) (dest @ r)"
      by (simp add: unchanged_exists)
    with Cons False show ?thesis by (cases f) auto
  qed
qed simp

lemma copy_reads:
  assumes src: "read_file d (src @ r) = Some c" and free: "\<not> existsSync d (dest @ r)"
    and reg: "regular d (src @ r)" and r: "r \<noteq> []"
  shows "read_file (copyDirContents src dest d) (dest @ r) = Some c"
proof -
  have ex: "existsSync d p" if "p \<in> set (dk_dirs d) \<or> p \<in> fst ` set (dk_files d)" for p
    using that by (auto simp: existsSync_def is_dir_def read_file_def weak_map_of_SomeI)
  have "unchanged d (foldl (copy_dir src dest) (ensureDir dest d) (dk_dirs d)) (dest @ r)"
  proof (rule unchanged_trans [OF unchanged_ensureDir unchanged_fold])
    show "\<not> prefix (dest @ r) dest" using r by (auto dest: prefix_length_le)
    show "unchanged d' (copy_dir src dest d' p) (dest @ r)" if "p \<in> set (dk_dirs d)" for d' p
      using that reg ex [of p] by (auto simp: copy_dir_def regular_def is_dir_def
          intro!: unchanged_ensureDir split: option.split)
  qed
  with free have "\<not> existsSync (foldl (copy_dir src dest) (ensureDir dest d) (dk_dirs d)) (dest @ r)"
    by (simp add: unchanged_exists)
  moreover have "\<forall>f \<in> set (dk_files d). prefix (src @ r) (fst f) \<longrightarrow> fst f = src @ r"
    using reg ex by (auto simp: regular_def)
  ultimately show ?thesis
    using src unfolding copyDirContents_def Let_def read_file_def [of d]
    by (intro copy_files_read)
qed

section \<open>Migration keeps what the resolvers read\<close>

lemma migrate_file_reads:
  "read_file d src = Some c \<Longrightarrow> \<not> existsSync d dest \<Longrightarrow> read_file (migrate_file src dest d) dest = Some c"
  by (simp add: migrate_file_def existsSync_def)

lemma artifact_moved:
  assumes src: "read_file d (ws @ [''artifacts'', artifact_name a]) = Some c"
    and dest: "\<not> existsSync d (selfPath ws [artifact_name a])"
  shows "read_file (stage1 ws d) (selfPath ws [artifact_name a]) = Some c"
proof -
  let ?as = "[Constitution_file, Guardrails_file, Memory_file]"
  let ?src = "\<lambda>a. ws @ [''artifacts'', artifact_name a]" and ?dest = "\<lambda>a. selfPath ws [artifact_name a]"
  have keep: "adds_to d' (foldl identity_step d' xs)" for d' xs
    unfolding identity_step_def by (rule adds_fold) (rule adds_migrate_file)
  have "read_file (foldl identity_step d' (map (\<lambda>a. (?src a, ?dest a)) xs)) (?dest a) = Some c"
    if "a \<in> set xs" "read_file d' (?src a) = Some c" "\<not> existsSync d' (?dest a)" for xs d'
    using that
  proof (induction xs arbitrary: d')
    case (Cons b xs)
    show ?case
    proof (cases "b = a")
      case True
      have "read_file (identity_step d' (?src a, ?dest a)) (?dest a) = Some c"
        using Cons.prems by (simp add: identity_step_def migrate_file_reads)
      with True show ?thesis by (auto intro: adds_read [OF keep])
    next
      case False
      then have "unchanged d' (identity_step d' (?src b, ?dest b)) (?dest a)"
        by (cases a; cases b) (auto simp: identity_step_def selfPath_def intro!: unchanged_migrate_file)
      moreover have "read_file (identity_step d' (?src b, ?dest b)) (?src a) = Some c"
        using Cons.prems(2) by (auto simp: identity_step_def intro: adds_read [OF adds_migrate_file])
      ultimately show ?thesis using Cons False by (simp add: unchanged_exists)
    qed
  qed simp
  moreover have "a \<in> set ?as" by (cases a) auto
  moreover have "unchanged d (createThreeSpaceLayout ws d) (?dest a)"
    unfolding createThreeSpaceLayout_def selfPath_def knowledgePath_def opsPath_def
    by (rule unchanged_fold, rule unchanged_ensureDir) (cases a, auto simp: prefix_pair)
  moreover have "read_file (createThreeSpaceLayout ws d) (?src a) = Some c"
    by (rule adds_read [OF adds_layout src])
  ultimately have "read_file (foldl identity_step (createThreeSpaceLayout ws d) (map (\<lambda>a. (?src a, ?dest a)) ?as)) (?dest a) = Some c"
    using dest by (simp only: unchanged_exists not_False_eq_True)
  then show ?thesis unfolding stage1_def identity_moves_def .
qed

lemma stage4_unchanged:
  "s \<notin> set created \<Longrightarrow> \<not> along [''knowledge'', ''skills''] s \<Longrightarrow> \<not> along [''knowledge'', ''playbooks''] s
     \<Longrightarrow> \<not> along [''ops'', ''traces''] s \<Longrightarrow> unchanged d (stage4 ws d) (ws @ s)"
  unfolding stage4_def stage3_def stage2_def knowledgePath_def opsPath_def
  by (intro unchanged_trans [OF _ unchanged_migrate_dir] unchanged_stage1) (auto simp: along_def)

text \<open>The three directories that are copied, with their two places and the stages around the copy.\<close>

datatype moved_dir = Skills_dir | Playbooks_dir | Traces_dir

fun old_place :: "moved_dir \<Rightarrow> segments" where
  "old_place Skills_dir = [''skills'']"
| "old_place Playbooks_dir = [''artifacts'', ''playbooks'']"
| "old_place Traces_dir = [''traces'']"

fun new_place :: "moved_dir \<Rightarrow> segments" where
  "new_place Skills_dir = [''knowledge'', ''skills'']"
| "new_place Playbooks_dir = [''knowledge'', ''playbooks'']"
| "new_place Traces_dir = [''ops'', ''traces'']"

fun resolver :: "moved_dir \<Rightarrow> disk \<Rightarrow> segments \<Rightarrow> segments" where
  "resolver Skills_dir = resolveSkillsPath"
| "resolver Playbooks_dir = resolvePlaybooksPath"
| "resolver Traces_dir = resolveTracesPath"

lemma resolver_places:
  "resolver m d ws = first_existing (existsSync d) [ws @ new_place m, ws @ old_place m] (ws @ new_place m)"
  by (cases m) (simp_all add: resolveSkillsPath_def resolvePlaybooksPath_def resolveTracesPath_def
      knowledgePath_def opsPath_def Let_def)

fun stage_before :: "moved_dir \<Rightarrow> segments \<Rightarrow> disk \<Rightarrow> disk" where
  "stage_before Skills_dir = stage1"
| "stage_before Playbooks_dir = stage2"
| "stage_before Traces_dir = stage3"

definition stage_after :: "moved_dir \<Rightarrow> segments \<Rightarrow> disk \<Rightarrow> disk" where
  "stage_after m ws d = migrate_dir (ws @ old_place m) (ws @ new_place m) (stage_before m ws d)"

lemma stages_after: "stage_after Skills_dir = stage2" "stage_after Playbooks_dir = stage3" "stage_after Traces_dir = stage4"
  by (auto simp: fun_eq_iff stage_after_def stage2_def stage3_def stage4_def knowledgePath_def opsPath_def)

lemma adds_before: "adds_to d (stage_before m ws d)"
proof -
  have "adds_to d (stage2 ws d)" by (rule adds_trans [OF adds_stages(1,2)])
  then show ?thesis
    by (cases m) (auto intro: adds_stages(1) adds_trans [OF _ adds_stages(3)])
qed

lemma adds_after: "adds_to (stage_after m ws d) (mg_disk (migrateWorkspaceLayout ws d))"
proof -
  have "adds_to (stage3 ws d) (mg_disk (migrateWorkspaceLayout ws d))"
    by (rule adds_trans [OF adds_stages(4,5)])
  then show ?thesis
    by (cases m) (auto simp: stages_after intro: adds_stages(5) adds_trans [OF adds_stages(3)])
qed

lemma before_unchanged:
  "unchanged d (stage_before m ws d) (ws @ old_place m @ r)"
  "r \<noteq> [] \<Longrightarrow> unchanged d (stage_before m ws d) (ws @ new_place m @ r)"
  by (cases m; auto simp: created_def along_def prefix_pair stage2_def stage3_def knowledgePath_def opsPath_def
      intro!: unchanged_stage1 unchanged_trans [OF _ unchanged_migrate_dir])+

text \<open>A disk is a tree when the parent of everything on it is a directory and no directory is a
  file.\<close>

definition tree :: "disk \<Rightarrow> bool" where
  "tree d \<longleftrightarrow> (\<forall>p \<in> set (map fst (dk_files d) @ dk_dirs d). p \<noteq> [] \<longrightarrow> butlast p \<in> set (dk_dirs d))
     \<and> (\<forall>p \<in> set (dk_dirs d). p \<notin> fst ` set (dk_files d))"

lemma tree_parent: "tree d \<Longrightarrow> existsSync d (p @ r) \<Longrightarrow> r \<noteq> [] \<Longrightarrow> is_dir d p"
proof (induction r rule: rev_induct)
  case (snoc x r)
  have "p @ r @ [x] \<in> set (map fst (dk_files d) @ dk_dirs d)"
    using snoc.prems(2) by (auto simp: existsSync_def is_dir_def read_file_def dest!: map_of_SomeD intro: rev_image_eqI)
  then have "is_dir d (butlast (p @ r @ [x]))"
    using snoc.prems(1) by (simp only: tree_def is_dir_def) blast
  then have "is_dir d (p @ r)" by (simp only: append_assoc [symmetric] butlast_snoc)
  then show ?case
    using snoc.IH snoc.prems(1) by (cases "r = []") (auto simp: existsSync_def)
qed simp

lemma tree_regular: "tree d \<Longrightarrow> read_file d p = Some c \<Longrightarrow> regular d p"
proof -
  assume t: "tree d" and "read_file d p = Some c"
  then have "p \<in> fst ` set (dk_files d)"
    by (auto simp: read_file_def dest!: map_of_SomeD intro: rev_image_eqI)
  with t have "\<not> is_dir d p" by (auto simp: tree_def is_dir_def)
  with t show ?thesis
    by (auto simp: regular_def prefix_def dest: tree_parent)
qed

lemma artifact_read_kept:
  assumes r: "read_file d (resolveArtifactPath d ws a) = Some c" and d': "d' = mg_disk (migrateWorkspaceLayout ws d)"
  shows "read_file d' (resolveArtifactPath d' ws a) = Some c"
proof -
  let ?v1 = "ws @ [''artifacts'', artifact_name a]" and ?v2 = "selfPath ws [artifact_name a]"
  have "read_file d' ?v2 = Some c"
  proof (cases "existsSync d ?v2")
    case True
    with r show ?thesis unfolding d' by (auto simp: resolveArtifactPath_def Let_def intro: adds_read [OF adds_migration])
  next
    case False
    then have "read_file d ?v1 = Some c"
      using r by (auto simp: resolveArtifactPath_def Let_def existsSync_def split: if_splits)
    from artifact_moved [OF this False] show ?thesis
      unfolding d' by (auto intro: adds_read [OF adds_trans [OF adds_stages(2) adds_trans [OF adds_stages(3)
          adds_trans [OF adds_stages(4,5)]]]])
  qed
  then show ?thesis by (simp add: resolveArtifactPath_def Let_def existsSync_def)
qed

lemma session_read_kept:
  assumes r: "read_file d (resolveSessionPath d ws) = Some c" and d': "d' = mg_disk (migrateWorkspaceLayout ws d)"
  shows "read_file d' (resolveSessionPath d' ws) = Some c"
proof -
  let ?v1 = "ws @ [''session.json'']" and ?v2 = "opsPath ws [''session.json'']"
  have "read_file d' ?v2 = Some c"
  proof (cases "existsSync d ?v2")
    case True
    with r show ?thesis unfolding d' by (auto simp: resolveSessionPath_def Let_def intro: adds_read [OF adds_migration])
  next
    case False
    then have v1: "read_file d ?v1 = Some c"
      using r by (auto simp: resolveSessionPath_def Let_def existsSync_def split: if_splits)
    have "unchanged d (stage4 ws d) (ws @ [''session.json''])" "unchanged d (stage4 ws d) (ws @ [''ops'', ''session.json''])"
      by (rule stage4_unchanged; simp add: created_def along_def)+
    with False v1 show ?thesis unfolding d' migration_stages
      by (intro migrate_file_reads) (auto simp: unchanged_def existsSync_def opsPath_def)
  qed
  then show ?thesis by (simp add: resolveSessionPath_def Let_def existsSync_def)
qed

lemma dir_read_kept:
  assumes t: "tree d" and r: "r \<noteq> []" "read_file d (resolver m d ws @ r) = Some c"
    and d': "d' = mg_disk (migrateWorkspaceLayout ws d)"
  shows "read_file d' (resolver m d' ws @ r) = Some c"
proof (cases "existsSync d (ws @ new_place m)")
  case True
  then have "existsSync d' (ws @ new_place m)" unfolding d' by (rule adds_exists [OF adds_migration])
  with True r(2) show ?thesis unfolding d' by (auto simp: resolver_places intro: adds_read [OF adds_migration])
next
  case False
  have free: "\<not> existsSync d (ws @ new_place m @ s)" for s
  proof
    assume "existsSync d (ws @ new_place m @ s)"
    then have "s = [] \<or> is_dir d (ws @ new_place m)"
      using tree_parent [OF t, of "ws @ new_place m" s] by auto
    with False \<open>existsSync d (ws @ new_place m @ s)\<close> show False by (auto simp: existsSync_def)
  qed
  with False r(2) have src: "read_file d (ws @ old_place m @ r) = Some c"
    by (auto simp: resolver_places existsSync_def split: if_splits)
  let ?b = "stage_before m ws d"
  have reg: "regular ?b ((ws @ old_place m) @ r)"
    unfolding regular_def
  proof (intro conjI allI impI)
    have "regular d (ws @ old_place m @ r)" by (rule tree_regular [OF t src])
    then show "\<not> is_dir ?b ((ws @ old_place m) @ r)"
      using before_unchanged(1) [of d m ws r] by (simp add: regular_def unchanged_def)
    fix q assume ex: "existsSync ?b q" and "prefix ((ws @ old_place m) @ r) q"
    then obtain z where q: "q = ws @ old_place m @ (r @ z)" by (auto simp: prefix_def)
    with ex have "existsSync d q"
      using unchanged_exists [OF before_unchanged(1) [of d m ws "r @ z"]] by simp
    moreover have "prefix (ws @ old_place m @ r) q" by (simp add: q)
    ultimately show "q = (ws @ old_place m) @ r"
      using \<open>regular d (ws @ old_place m @ r)\<close> by (metis regular_def append_assoc)
  qed
  have src': "read_file ?b ((ws @ old_place m) @ r) = Some c"
    using before_unchanged(1) [of d m ws r] src by (simp add: unchanged_def)
  have free': "\<not> existsSync ?b ((ws @ new_place m) @ r)"
    using free [of r] unchanged_exists [OF before_unchanged(2) [OF r(1), of d m ws]] by simp
  have old: "existsSync ?b (ws @ old_place m)"
    using tree_parent [OF t, of "ws @ old_place m" r] src r(1) before_unchanged(1) [of d m ws "[]"]
    by (auto simp: existsSync_def unchanged_def)
  have "read_file (stage_after m ws d) ((ws @ new_place m) @ r) = Some c"
    using copy_reads [OF src' free' reg r(1)] old by (simp add: stage_after_def migrate_dir_def)
  moreover have "existsSync (stage_after m ws d) (ws @ new_place m)"
    using copy_covers [of ?b "ws @ old_place m" "[]" "ws @ new_place m"] old
    by (simp add: stage_after_def migrate_dir_def)
  ultimately show ?thesis
    unfolding d' by (auto simp: resolver_places dest: adds_read [OF adds_after] adds_exists [OF adds_after])
qed

definition layout_dirs :: "segments \<Rightarrow> segments list" where
  "layout_dirs ws = [selfPath ws [], knowledgePath ws [''skills''], knowledgePath ws [''playbooks''],
     opsPath ws [''traces''], opsPath ws [''drift''], opsPath ws [''observations''], opsPath ws [''sessions'']]"

lemma layout_made: "p \<in> set (layout_dirs ws) \<Longrightarrow> existsSync (createThreeSpaceLayout ws d) p"
proof -
  have keep: "adds_to d' (foldl (\<lambda>d p. ensureDir p d) d' ps)" for d' ps
    by (rule adds_fold) (rule adds_ensureDir)
  have "p \<in> set ps \<Longrightarrow> existsSync (foldl (\<lambda>d p. ensureDir p d) d' ps) p" for d' ps
    by (induction ps arbitrary: d') (auto intro: adds_exists [OF keep])
  then show "p \<in> set (layout_dirs ws) \<Longrightarrow> ?thesis"
    unfolding createThreeSpaceLayout_def layout_dirs_def .
qed

lemma layout_present:
  assumes "p \<in> set (layout_dirs ws)" shows "existsSync (mg_disk (migrateWorkspaceLayout ws d)) p"
proof -
  have "adds_to (createThreeSpaceLayout ws d) (stage1 ws d)"
    unfolding stage1_def identity_step_def by (rule adds_fold) (rule adds_migrate_file)
  from adds_exists [OF this layout_made [OF assms]] show ?thesis
    by (rule adds_exists [OF adds_trans [OF adds_stages(2) adds_trans [OF adds_stages(3)
        adds_trans [OF adds_stages(4,5)]]]])
qed

text \<open>
  C11. Migrating a workspace loses nothing that its readers see. Whatever the disk held stays on it
  with the same content; each of the three identity artifacts and the session file, if it could be
  read through its resolver before, is read through the resolver afterwards with the same content,
  wherever it was; so is every file below the skills, playbooks and traces directories; and the
  workspace is in the new layout.
\<close>

theorem migration_preserves_reads:
  assumes "tree d" "d' = mg_disk (migrateWorkspaceLayout ws d)"
  shows "(\<forall>p c. read_file d p = Some c \<longrightarrow> read_file d' p = Some c)
     \<and> (\<forall>a c. read_file d (resolveArtifactPath d ws a) = Some c \<longrightarrow> read_file d' (resolveArtifactPath d' ws a) = Some c)
     \<and> (\<forall>c. read_file d (resolveSessionPath d ws) = Some c \<longrightarrow> read_file d' (resolveSessionPath d' ws) = Some c)
     \<and> (\<forall>m r c. r \<noteq> [] \<longrightarrow> read_file d (resolver m d ws @ r) = Some c \<longrightarrow> read_file d' (resolver m d' ws @ r) = Some c)
     \<and> detectLayoutVersion d' ws = V2"
proof -
  have "existsSync d' (ws @ [''self''])"
    unfolding assms(2) by (rule layout_present) (simp add: layout_dirs_def selfPath_def)
  moreover have "\<forall>p c. read_file d p = Some c \<longrightarrow> read_file d' p = Some c"
    unfolding assms(2) using adds_read [OF adds_migration] by blast
  ultimately show ?thesis
    using artifact_read_kept session_read_kept dir_read_kept assms by (simp add: detectLayoutVersion_def)
qed

lemma migration_preserves_reads_witness:
  defines "d \<equiv> \<lparr>dk_files = [([''w'', ''artifacts'', ''memory.v1.yaml''], ''m''), ([''w'', ''skills'', ''a'', ''SKILL.md''], ''s'')],
     dk_dirs = [[], [''w''], [''w'', ''artifacts''], [''w'', ''skills''], [''w'', ''skills'', ''a'']]\<rparr>"
  defines "d' \<equiv> mg_disk (migrateWorkspaceLayout [''w''] d)"
  shows "read_file d' (resolveArtifactPath d' [''w''] Memory_file) = Some ''m''
     \<and> read_file d' (resolver Skills_dir d' [''w''] @ [''a'', ''SKILL.md'']) = Some ''s''
     \<and> detectLayoutVersion d' [''w''] = V2"
proof -
  have t: "tree d" unfolding d_def by code_simp
  have "read_file d (resolveArtifactPath d [''w''] Memory_file) = Some ''m''"
    "read_file d (resolver Skills_dir d [''w''] @ [''a'', ''SKILL.md'']) = Some ''s''"
    unfolding d_def by code_simp+
  with migration_preserves_reads [OF t meta_eq_to_obj_eq [OF d'_def]] show ?thesis
    by (simp del: resolver.simps)
qed

section \<open>Migrating twice\<close>

lemma ensure_nothing: "existsSync d p \<Longrightarrow> ensureDir p d = d"
  by (simp add: ensureDir_def)

lemma fold_nothing: "(\<And>x. x \<in> set xs \<Longrightarrow> f d x = d) \<Longrightarrow> foldl f d xs = d"
  by (induction xs) auto

lemma copy_nothing:
  assumes dest: "existsSync d dest" and all: "\<And>r. existsSync d (src @ r) \<Longrightarrow> existsSync d (dest @ r)"
  shows "copyDirContents src dest d = d"
proof -
  have ex: "existsSync d p" if "p \<in> set (dk_dirs d) \<or> p \<in> fst ` set (dk_files d)" for p
    using that by (auto simp: existsSync_def is_dir_def read_file_def weak_map_of_SomeI)
  have "foldl (copy_dir src dest) d (dk_dirs d) = d"
    using ex all by (intro fold_nothing) (auto simp: copy_dir_def ensure_nothing split: option.split)
  moreover have "foldl (copy_file src dest) d (dk_files d) = d"
    using ex all by (intro fold_nothing) (fastforce simp: copy_file_def split: option.split)
  ultimately show ?thesis by (simp add: copyDirContents_def ensure_nothing [OF dest])
qed

lemma migrate_file_nothing: "existsSync d src \<longrightarrow> existsSync d dest \<or> read_file d src = None \<Longrightarrow> migrate_file src dest d = d"
  by (auto simp: migrate_file_def split: option.split)

lemma unchanged_later:
  "\<not> along [''knowledge'', ''playbooks''] s \<Longrightarrow> unchanged (stage2 ws d) (stage3 ws d) (ws @ s)"
  "\<not> along [''ops'', ''traces''] s \<Longrightarrow> unchanged (stage3 ws d) (stage4 ws d) (ws @ s)"
  "\<not> prefix s [''ops'', ''session.json''] \<Longrightarrow> unchanged (stage4 ws d) (mg_disk (migrateWorkspaceLayout ws d)) (ws @ s)"
  by (auto simp: stage3_def stage4_def migration_stages along_def knowledgePath_def opsPath_def
      intro!: unchanged_migrate_dir unchanged_migrate_file)

lemma move_covered:
  assumes d': "d' = mg_disk (migrateWorkspaceLayout ws d)"
  shows "migrate_dir (ws @ old_place m) (ws @ new_place m) d' = d'"
proof -
  let ?b = "stage_before m ws d" and ?o = "ws @ old_place m" and ?n = "ws @ new_place m"
  have "unchanged ?b (stage_after m ws d) (?o @ r)" for r
    unfolding stage_after_def by (rule unchanged_migrate_dir) (cases m; simp add: along_def)
  moreover have "unchanged (stage_after m ws d) d' (?o @ r)" for r
    unfolding d' using unchanged_later [of "old_place m @ r" ws d]
    by (cases m) (auto simp: stages_after along_def intro: unchanged_trans)
  ultimately have same: "existsSync d' (?o @ r) = existsSync ?b (?o @ r)" for r
    by (metis unchanged_exists unchanged_trans)
  have "existsSync d' (?n @ r)" if "existsSync d' ?o" "existsSync d' (?o @ r)" for r
  proof -
    have "existsSync (stage_after m ws d) (?n @ r)"
      using that same [of r] same [of "[]"] copy_covers [of ?b ?o r ?n]
      by (simp add: stage_after_def migrate_dir_def)
    then show ?thesis unfolding d' by (rule adds_exists [OF adds_after])
  qed
  from this [of "[]"] this show ?thesis
    by (auto simp: migrate_dir_def intro!: copy_nothing)
qed

lemma adds_stage1_end: "adds_to (stage1 ws d) (mg_disk (migrateWorkspaceLayout ws d))"
  by (rule adds_trans [OF adds_stages(2) adds_trans [OF adds_stages(3) adds_trans [OF adds_stages(4,5)]]])

lemma artifact_covered:
  assumes d': "d' = mg_disk (migrateWorkspaceLayout ws d)"
  shows "migrate_file (ws @ [''artifacts'', artifact_name a]) (selfPath ws [artifact_name a]) d' = d'"
proof (rule migrate_file_nothing, rule impI)
  let ?o = "ws @ [''artifacts'', artifact_name a]" and ?n = "selfPath ws [artifact_name a]"
  have "unchanged d (stage1 ws d) ?o"
    by (rule unchanged_stage1) (simp add: created_def)
  moreover have "unchanged (stage1 ws d) (stage2 ws d) ?o"
    by (auto simp: stage2_def knowledgePath_def along_def intro!: unchanged_migrate_dir)
  ultimately have same: "unchanged d d' ?o"
    unfolding d' using unchanged_later [of "[''artifacts'', artifact_name a]" ws d]
    by (cases a) (simp_all add: along_def unchanged_def)
  show "existsSync d' ?n \<or> read_file d' ?o = None"
  proof (cases "read_file d' ?o")
    case (Some c)
    with same have c: "read_file d ?o = Some c" by (simp add: unchanged_def)
    have "existsSync (stage1 ws d) ?n"
    proof (cases "existsSync d ?n")
      case True
      then show ?thesis by (rule adds_exists [OF adds_stages(1)])
    next
      case False
      from artifact_moved [OF c False] show ?thesis by (simp add: existsSync_def)
    qed
    then show ?thesis unfolding d' by (blast intro: adds_exists [OF adds_stage1_end])
  qed simp
qed

lemma session_covered:
  assumes d': "d' = mg_disk (migrateWorkspaceLayout ws d)"
  shows "migrate_file (ws @ [''session.json'']) (opsPath ws [''session.json'']) d' = d'"
proof (rule migrate_file_nothing, rule impI)
  let ?o = "ws @ [''session.json'']" and ?n = "opsPath ws [''session.json'']"
  have same: "unchanged (stage4 ws d) d' ?o"
    unfolding d' by (rule unchanged_later) simp
  show "existsSync d' ?n \<or> read_file d' ?o = None"
  proof (cases "read_file d' ?o")
    case (Some c)
    with same have "read_file (stage4 ws d) ?o = Some c" by (simp add: unchanged_def)
    then show ?thesis
      unfolding d' migration_stages by (simp add: migrate_file_def existsSync_def)
  qed simp
qed

text \<open>
  The migration is idempotent: run again on the workspace it has produced, it copies, creates
  and overwrites nothing, so a workspace that was edited after its migration is safe from the old
  files left behind.
\<close>

theorem migration_idempotent:
  "mg_disk (migrateWorkspaceLayout ws (mg_disk (migrateWorkspaceLayout ws d))) = mg_disk (migrateWorkspaceLayout ws d)"
proof -
  define d' where "d' = mg_disk (migrateWorkspaceLayout ws d)"
  have "createThreeSpaceLayout ws d' = d'"
    unfolding createThreeSpaceLayout_def layout_dirs_def [symmetric]
    by (rule fold_nothing) (simp add: ensure_nothing d'_def layout_present)
  moreover have "identity_step d' x = d'" if "x \<in> set (identity_moves ws)" for x
    using that unfolding identity_moves_def set_map
    by (elim imageE) (simp add: identity_step_def artifact_covered [OF d'_def] del: artifact_name.simps)
  ultimately have "stage1 ws d' = d'"
    unfolding stage1_def by (simp only: fold_nothing)
  with move_covered [OF d'_def, of Skills_dir] move_covered [OF d'_def, of Playbooks_dir]
    move_covered [OF d'_def, of Traces_dir] session_covered [OF d'_def]
  show ?thesis
    unfolding d'_def [symmetric]
    by (simp add: migration_stages stage2_def stage3_def stage4_def knowledgePath_def opsPath_def)
qed

end
