(* ===== verification/Host.thy ===== *)
theory Host
  imports Layout Json "HOL-Library.State_Monad"
begin

text \<open>
  The machine that the command-line programs run on: its disk, the commands they spawn
  (QuickClaw, src/core/shell.ts), the HTTP requests they send, and the environment they read. What a
  spawned command does is not in the repository: its outcome and its effect on the disk are a field
  of the machine, a function of the whole world so that it may depend on everything done before.
  The programs are actions of the state monad over the world.
\<close>

section \<open>The world\<close>

record shell_call =
  sc_command :: string
  sc_args :: "string list"
  sc_cwd :: "segments option"
  sc_input :: "string option"

record shell_result =
  sr_code :: int
  sr_stdout :: string
  sr_stderr :: string
  sr_command :: string

text \<open>A command that cannot be started, or one that ends with an exit code, \<open>None\<close> when a signal
  killed it.\<close>

datatype spawned =
    Not_spawned string
  | Closed "int option" string string

record http_request =
  rq_method :: string
  rq_url :: string
  rq_token :: string
  rq_body :: "json option"

record http_response =
  rp_ok :: bool
  rp_status :: int
  rp_text :: string
  rp_json :: "string + json"

record world =
  wd_disk :: disk
  wd_calls :: "shell_call list"
  wd_requests :: "http_request list"

record machine =
  hm_spawn :: "world \<Rightarrow> shell_call \<Rightarrow> spawned \<times> disk"
  hm_fetch :: "world \<Rightarrow> http_request \<Rightarrow> string + http_response"
  hm_env :: "string \<Rightarrow> string option"
  hm_home :: segments
  hm_cwd :: segments
  hm_node :: string
  hm_now :: "world \<Rightarrow> string"
  hm_jparse :: "string \<Rightarrow> string + json"
  hm_yparse :: "string \<Rightarrow> string + json"
  hm_stringify :: "json \<Rightarrow> string"
  hm_yaml :: "json \<Rightarrow> string"

text \<open>A machine with an empty environment, on which no command and no request succeeds; the witnesses
  give it the abilities they need.\<close>

definition blank_machine :: machine where
  "blank_machine = \<lparr>hm_spawn = (\<lambda>w c. (Not_spawned ''not found'', wd_disk w)), hm_fetch = (\<lambda>w r. Inl ''unreachable''),
     hm_env = (\<lambda>_. None), hm_home = [''home''], hm_cwd = [''home''], hm_node = ''v22.12.0'', hm_now = (\<lambda>_. ''2026-01-01T00:00:00.000Z''),
     hm_jparse = (\<lambda>_. Inl ''unexpected token''), hm_yparse = (\<lambda>_. Inl ''bad indentation''),
     hm_stringify = (\<lambda>_. ''{}''), hm_yaml = (\<lambda>_. ''{}'')\<rparr>"

definition blank_world :: world where
  "blank_world = \<lparr>wd_disk = \<lparr>dk_files = [], dk_dirs = []\<rparr>, wd_calls = [], wd_requests = []\<rparr>"

section \<open>Paths and numbers as text\<close>

definition norm_step :: "segments \<Rightarrow> string \<Rightarrow> segments" where
  "norm_step p s = (if s = [] \<or> s = ''.'' then p else if s = ''..'' then butlast p else p @ [s])"

text \<open>\<open>path.resolve\<close> and \<open>path.join\<close> on an absolute path: the segments that remain.\<close>

definition resolve_path :: "segments \<Rightarrow> string \<Rightarrow> segments" where
  "resolve_path cwd p = foldl norm_step (if starts_with p ''/'' then [] else cwd) (split_on (CHR ''/'') p)"

definition join_path :: "segments \<Rightarrow> string \<Rightarrow> segments" where
  "join_path p r = foldl norm_step p (split_on (CHR ''/'') r)"

definition show_path :: "segments \<Rightarrow> string" where
  "show_path p = (if p = [] then ''/'' else concat (map (\<lambda>s. CHR ''/'' # s) p))"

definition file_extension :: "path \<Rightarrow> string" where
  "file_extension p =
     (let b = basename p; r = dropWhile (\<lambda>c. c \<noteq> CHR ''.'') (rev b)
      in if b = ''..'' \<or> r = [] \<or> tl r = [] then []
         else CHR ''.'' # rev (takeWhile (\<lambda>c. c \<noteq> CHR ''.'') (rev b)))"

definition show_int :: "int \<Rightarrow> string" where
  "show_int n = (if n < 0 then CHR ''-'' # show_nat (nat (- n)) else show_nat (nat n))"

text \<open>\<open>process.env[name]\<close> in a condition: set and not empty.\<close>

definition env_set :: "machine \<Rightarrow> string \<Rightarrow> bool" where
  "env_set m name \<longleftrightarrow> hm_env m name \<noteq> None \<and> hm_env m name \<noteq> Some []"

section \<open>Actions\<close>

definition get_disk :: "(world, disk) state" where
  "get_disk = State (\<lambda>w. (wd_disk w, w))"

definition on_disk :: "(disk \<Rightarrow> disk) \<Rightarrow> (world, unit) state" where
  "on_disk f = State (\<lambda>w. ((), w\<lparr>wd_disk := f (wd_disk w)\<rparr>))"

definition get_now :: "machine \<Rightarrow> (world, string) state" where
  "get_now m = State (\<lambda>w. (hm_now m w, w))"

definition shell_line :: "shell_call \<Rightarrow> string" where
  "shell_line c = join '' '' (sc_command c # sc_args c)"

definition shell_outcome :: "shell_call \<Rightarrow> bool \<Rightarrow> spawned \<Rightarrow> string + shell_result" where
  "shell_outcome c allowFailure s =
     (case s of
        Not_spawned e \<Rightarrow> Inl (''Failed to run '' @ sc_command c @ '': '' @ e)
      | Closed code out err \<Rightarrow>
          let n = (case code of None \<Rightarrow> 0 | Some k \<Rightarrow> k)
          in if \<not> allowFailure \<and> n \<noteq> 0
             then Inl (shell_line c @ '' failed ('' @ show_int n @ ''): '' @ (if err \<noteq> [] then err else out))
             else Inr \<lparr>sr_code = n, sr_stdout = out, sr_stderr = err, sr_command = shell_line c\<rparr>)"

definition runShell :: "machine \<Rightarrow> shell_call \<Rightarrow> bool \<Rightarrow> (world, string + shell_result) state" where
  "runShell m c allowFailure = State (\<lambda>w.
     case hm_spawn m w c of
       (s, d) \<Rightarrow> (shell_outcome c allowFailure s, w\<lparr>wd_disk := d, wd_calls := wd_calls w @ [c]\<rparr>))"

definition cmd_call :: "string \<Rightarrow> string list \<Rightarrow> shell_call" where
  "cmd_call command args = \<lparr>sc_command = command, sc_args = args, sc_cwd = None, sc_input = None\<rparr>"

definition lookup_call :: "string \<Rightarrow> shell_call" where
  "lookup_call binary = cmd_call ''bash'' [''-lc'', ''command -v '' @ binary]"

definition succeeded :: "'e + 'a \<Rightarrow> bool" where
  "succeeded r = (case r of Inl _ \<Rightarrow> False | Inr _ \<Rightarrow> True)"

definition commandExists :: "machine \<Rightarrow> string \<Rightarrow> (world, bool) state" where
  "commandExists m binary = do {
     r \<leftarrow> runShell m (lookup_call binary) False;
     State_Monad.return (succeeded r) }"

definition send :: "machine \<Rightarrow> http_request \<Rightarrow> (world, string + http_response) state" where
  "send m r = State (\<lambda>w. (hm_fetch m w r, w\<lparr>wd_requests := wd_requests w @ [r]\<rparr>))"

text \<open>A loop over a list that runs an action for each element and collects the results.\<close>

fun each :: "('a \<Rightarrow> ('s, 'b) state) \<Rightarrow> 'a list \<Rightarrow> ('s, 'b list) state" where
  "each f [] = State_Monad.return []"
| "each f (x # xs) = do { y \<leftarrow> f x; ys \<leftarrow> each f xs; State_Monad.return (y # ys) }"

section \<open>Frame rules\<close>

text \<open>\<open>state_io_rel\<close> relates the worlds before and after an action; for a reflexive and transitive
  relation it follows from the parts of the action.\<close>

named_theorems io \<open>frame rules of actions\<close>

definition preorder_rel :: "('s \<Rightarrow> 's \<Rightarrow> bool) \<Rightarrow> bool" where
  "preorder_rel P \<longleftrightarrow> reflp P \<and> transp P"

lemma io_return [io]: "preorder_rel P \<Longrightarrow> state_io_rel P (State_Monad.return x)"
  by (auto simp: preorder_rel_def reflp_def)

lemma io_bind [io]:
  assumes "preorder_rel P" "state_io_rel P m" "\<And>x. state_io_rel P (f x)"
  shows "state_io_rel P (State_Monad.bind m f)"
proof
  fix a s s'
  assume "run_state (State_Monad.bind m f) s = (a, s')"
  then obtain b t where "run_state m s = (b, t)" "run_state (f b) t = (a, s')" by (auto split: prod.splits)
  with assms(2,3) have "P s t" "P t s'" by auto
  with assms(1) show "P s s'" by (auto simp: preorder_rel_def dest: transpD)
qed

lemma io_each [io]: "preorder_rel P \<Longrightarrow> (\<And>x. x \<in> set xs \<Longrightarrow> state_io_rel P (f x)) \<Longrightarrow> state_io_rel P (each f xs)"
  by (induction xs) (auto intro!: io_return io_bind)

lemma io_if [io]: "(b \<Longrightarrow> state_io_rel P m) \<Longrightarrow> (\<not> b \<Longrightarrow> state_io_rel P n) \<Longrightarrow> state_io_rel P (if b then m else n)"
  by simp

lemma io_option [io]:
  "(x = None \<Longrightarrow> state_io_rel P m) \<Longrightarrow> (\<And>y. x = Some y \<Longrightarrow> state_io_rel P (f y)) \<Longrightarrow> state_io_rel P (case x of None \<Rightarrow> m | Some y \<Rightarrow> f y)"
  by (cases x) auto

lemma io_sum [io]:
  "(\<And>e. x = Inl e \<Longrightarrow> state_io_rel P (f e)) \<Longrightarrow> (\<And>y. x = Inr y \<Longrightarrow> state_io_rel P (g y)) \<Longrightarrow> state_io_rel P (case x of Inl e \<Rightarrow> f e | Inr y \<Rightarrow> g y)"
  by (cases x) auto

lemma io_get_disk [io]: "preorder_rel P \<Longrightarrow> state_io_rel P get_disk"
  by (auto simp: get_disk_def preorder_rel_def reflp_def)

lemma io_get_now [io]: "preorder_rel P \<Longrightarrow> state_io_rel P (get_now m)"
  by (auto simp: get_now_def preorder_rel_def reflp_def)

lemma io_on_disk: "(\<And>w. P w (w\<lparr>wd_disk := f (wd_disk w)\<rparr>)) \<Longrightarrow> state_io_rel P (on_disk f)"
  by (simp add: on_disk_def state_io_rel_def)

lemma io_commandExists: "preorder_rel P \<Longrightarrow> state_io_rel P (runShell m (lookup_call b) False) \<Longrightarrow> state_io_rel P (commandExists m b)"
  unfolding commandExists_def by (intro io)

lemma run_get_disk [simp]: "run_state get_disk w = (wd_disk w, w)"
  by (simp add: get_disk_def)

lemma run_on_disk [simp]: "run_state (on_disk f) w = ((), w\<lparr>wd_disk := f (wd_disk w)\<rparr>)"
  by (simp add: on_disk_def)

lemma run_get_now [simp]: "run_state (get_now m) w = (hm_now m w, w)"
  by (simp add: get_now_def)

lemma run_send [simp]: "run_state (send m r) w = (hm_fetch m w r, w\<lparr>wd_requests := wd_requests w @ [r]\<rparr>)"
  by (simp add: send_def)

lemma runShell_world:
  "snd (run_state (runShell m c b) w) = w\<lparr>wd_disk := snd (hm_spawn m w c), wd_calls := wd_calls w @ [c]\<rparr>"
  by (simp add: runShell_def split: prod.split)

end
