(* ===== verification/QuickConfig.thy ===== *)
theory QuickConfig
  imports Host
begin

text \<open>
  QuickClaw, src/config: the configuration of an agent installation (schema.ts), its default, its
  reading from a JSON or YAML text through the schema, its printing (commands/export-config.ts), and
  the wizard that asks for one (wizard.ts). The schema library reports issues as texts of its own; a
  rejected value is \<open>None\<close> here.
\<close>

section \<open>The configuration\<close>

datatype engine_policy = Claude_plan_codex_exec | Claude_only | Codex_only
datatype openclaw_mode = Local_mode | Remote_mode
datatype gateway_bind = Loopback | Lan | Tailnet
datatype trust_level = Read_only | Draft_approve | Bounded_act
datatype sentry_mode = Slack_first | Webhook_direct

record project_config =
  pj_agentName :: string
  pj_workspace :: string
  pj_timezone :: string

record advanced_config =
  av_multiAgentScaffold :: bool
  av_tailscaleNotes :: bool
  av_modelAliasTemplate :: bool

record openclaw_config =
  oc_mode :: openclaw_mode
  oc_authChoice :: string
  oc_gatewayPort :: int
  oc_gatewayBind :: gateway_bind
  oc_advanced :: advanced_config

record identity_config =
  ic_role :: string
  ic_vibe :: string
  ic_toneKeywords :: "string list"
  ic_antiPatterns :: "string list"
  ic_boundaries :: "string list"

record decay_config =
  dy_hotDays :: int
  dy_warmDays :: int

record memory_config =
  mm_longTermRules :: "string list"
  mm_nightlyExtractionCron :: string
  mm_dailyCheckinCron :: string
  mm_knowledgePaths :: "string list"
  mm_decay :: decay_config

record safety_config =
  sf_trustedCommandChannels :: "string list"
  sf_approvalRequired :: "string list"
  sf_autonomousAllowed :: "string list"
  sf_trustLadderLevel :: trust_level

record coding_config =
  cd_worktreeRoot :: string
  cd_tmuxSocket :: string
  cd_stalledCheckWindowMinutes :: int
  cd_maxRestartsPerSession :: int

record sentry_config =
  sy_org :: string
  sy_project :: string
  sy_authTokenEnv :: string
  sy_slackChannelId :: string
  sy_webhookPath :: string
  sy_mode :: sentry_mode

record automation_config =
  am_autoInstallMissingCli :: bool
  am_allowGlobalConfigWrites :: bool

type_synonym refs = "(string \<times> string) list"

record quick_config =
  qc_project :: project_config
  qc_openclaw :: openclaw_config
  qc_identity :: identity_config
  qc_memory :: memory_config
  qc_safety :: safety_config
  qc_codingOps :: coding_config
  qc_sentry :: sentry_config
  qc_automation :: automation_config
  qc_refs :: refs

text \<open>The words of the enumerations.\<close>

definition engine_policies :: "(string \<times> engine_policy) list" where
  "engine_policies = [(''claude-plan-codex-exec'', Claude_plan_codex_exec), (''claude-only'', Claude_only), (''codex-only'', Codex_only)]"

definition openclaw_modes :: "(string \<times> openclaw_mode) list" where
  "openclaw_modes = [(''local'', Local_mode), (''remote'', Remote_mode)]"

definition gateway_binds :: "(string \<times> gateway_bind) list" where
  "gateway_binds = [(''loopback'', Loopback), (''lan'', Lan), (''tailnet'', Tailnet)]"

definition trust_levels :: "(string \<times> trust_level) list" where
  "trust_levels = [(''read-only'', Read_only), (''draft-approve'', Draft_approve), (''bounded-act'', Bounded_act)]"

definition sentry_modes :: "(string \<times> sentry_mode) list" where
  "sentry_modes = [(''slack-first'', Slack_first), (''webhook-direct'', Webhook_direct)]"

definition word_for :: "(string \<times> 'a) list \<Rightarrow> 'a \<Rightarrow> string" where
  "word_for ws x = (case List.find (\<lambda>(w, y). y = x) ws of None \<Rightarrow> [] | Some (w, _) \<Rightarrow> w)"

section \<open>The schema\<close>

text \<open>One parser for each schema constructor; a property is read by \<open>zget\<close>, one with a default by
  \<open>zdef\<close>.\<close>

definition zget :: "string \<Rightarrow> (json \<Rightarrow> 'a option) \<Rightarrow> json \<Rightarrow> 'a option" where
  "zget k p j = Option.bind (jfield k j) p"

definition zdef :: "string \<Rightarrow> 'a \<Rightarrow> (json \<Rightarrow> 'a option) \<Rightarrow> json \<Rightarrow> 'a option" where
  "zdef k x p j = (case jfield k j of None \<Rightarrow> Some x | Some v \<Rightarrow> p v)"

fun ztext :: "json \<Rightarrow> string option" where
  "ztext (JStr s) = (if s = [] then None else Some s)"
| "ztext _ = None"

fun zbool :: "json \<Rightarrow> bool option" where
  "zbool (JBool b) = Some b"
| "zbool _ = None"

fun zint :: "int \<Rightarrow> int option \<Rightarrow> json \<Rightarrow> int option" where
  "zint lo hi (JNum x) =
     (let n = \<lfloor>x\<rfloor> in if of_int n = x \<and> lo \<le> n \<and> (case hi of None \<Rightarrow> True | Some h \<Rightarrow> n \<le> h) then Some n else None)"
| "zint lo hi _ = None"

fun zenum :: "(string \<times> 'a) list \<Rightarrow> json \<Rightarrow> 'a option" where
  "zenum ws (JStr s) = map_of ws s"
| "zenum ws _ = None"

definition zliteral :: "json \<Rightarrow> json \<Rightarrow> unit option" where
  "zliteral v j = (if j = v then Some () else None)"

fun ztexts :: "nat \<Rightarrow> json \<Rightarrow> string list option" where
  "ztexts least (JArr xs) = (if least \<le> length xs then those (map ztext xs) else None)"
| "ztexts least _ = None"

fun zrefs :: "json \<Rightarrow> refs option" where
  "zrefs (JObj kvs) = those (map (\<lambda>(k, v). map_option (Pair k) (ztext v)) kvs)"
| "zrefs _ = None"

fun zobject :: "(json \<Rightarrow> 'a option) \<Rightarrow> json \<Rightarrow> 'a option" where
  "zobject p (JObj kvs) = p (JObj kvs)"
| "zobject p _ = None"

definition zproject :: "json \<Rightarrow> project_config option" where
  "zproject = zobject (\<lambda>j. do {
     a \<leftarrow> zget ''agentName'' ztext j;
     w \<leftarrow> zget ''workspace'' ztext j;
     t \<leftarrow> zget ''timezone'' ztext j;
     Some \<lparr>pj_agentName = a, pj_workspace = w, pj_timezone = t\<rparr> })"

definition default_advanced :: advanced_config where
  "default_advanced = \<lparr>av_multiAgentScaffold = True, av_tailscaleNotes = True, av_modelAliasTemplate = True\<rparr>"

definition zadvanced :: "json \<Rightarrow> advanced_config option" where
  "zadvanced = zobject (\<lambda>j. do {
     s \<leftarrow> zdef ''multiAgentScaffold'' True zbool j;
     t \<leftarrow> zdef ''tailscaleNotes'' True zbool j;
     a \<leftarrow> zdef ''modelAliasTemplate'' True zbool j;
     Some \<lparr>av_multiAgentScaffold = s, av_tailscaleNotes = t, av_modelAliasTemplate = a\<rparr> })"

definition zopenclaw :: "json \<Rightarrow> openclaw_config option" where
  "zopenclaw = zobject (\<lambda>j. do {
     m \<leftarrow> zget ''mode'' (zenum openclaw_modes) j;
     a \<leftarrow> zget ''authChoice'' ztext j;
     p \<leftarrow> zget ''gatewayPort'' (zint 1 (Some 65535)) j;
     b \<leftarrow> zget ''gatewayBind'' (zenum gateway_binds) j;
     v \<leftarrow> zdef ''advanced'' default_advanced zadvanced j;
     Some \<lparr>oc_mode = m, oc_authChoice = a, oc_gatewayPort = p, oc_gatewayBind = b, oc_advanced = v\<rparr> })"

definition zidentity :: "json \<Rightarrow> identity_config option" where
  "zidentity = zobject (\<lambda>j. do {
     r \<leftarrow> zget ''role'' ztext j;
     v \<leftarrow> zget ''vibe'' ztext j;
     t \<leftarrow> zget ''toneKeywords'' (ztexts 1) j;
     a \<leftarrow> zget ''antiPatterns'' (ztexts 1) j;
     b \<leftarrow> zget ''boundaries'' (ztexts 1) j;
     Some \<lparr>ic_role = r, ic_vibe = v, ic_toneKeywords = t, ic_antiPatterns = a, ic_boundaries = b\<rparr> })"

definition default_decay :: decay_config where
  "default_decay = \<lparr>dy_hotDays = 7, dy_warmDays = 30\<rparr>"

definition zdecay :: "json \<Rightarrow> decay_config option" where
  "zdecay = zobject (\<lambda>j. do {
     h \<leftarrow> zdef ''hotDays'' 7 (zint 1 None) j;
     w \<leftarrow> zdef ''warmDays'' 30 (zint 1 None) j;
     Some \<lparr>dy_hotDays = h, dy_warmDays = w\<rparr> })"

definition zmemory :: "json \<Rightarrow> memory_config option" where
  "zmemory = zobject (\<lambda>j. do {
     r \<leftarrow> zget ''longTermRules'' (ztexts 1) j;
     n \<leftarrow> zget ''nightlyExtractionCron'' ztext j;
     c \<leftarrow> zget ''dailyCheckinCron'' ztext j;
     k \<leftarrow> zdef ''knowledgePaths'' [] (ztexts 0) j;
     d \<leftarrow> zdef ''decay'' default_decay zdecay j;
     Some \<lparr>mm_longTermRules = r, mm_nightlyExtractionCron = n, mm_dailyCheckinCron = c, mm_knowledgePaths = k, mm_decay = d\<rparr> })"

definition zsafety :: "json \<Rightarrow> safety_config option" where
  "zsafety = zobject (\<lambda>j. do {
     zget ''profile'' (zliteral (JStr ''balanced'')) j;
     t \<leftarrow> zget ''trustedCommandChannels'' (ztexts 1) j;
     a \<leftarrow> zget ''approvalRequired'' (ztexts 1) j;
     u \<leftarrow> zget ''autonomousAllowed'' (ztexts 1) j;
     l \<leftarrow> zdef ''trustLadderLevel'' Draft_approve (zenum trust_levels) j;
     Some \<lparr>sf_trustedCommandChannels = t, sf_approvalRequired = a, sf_autonomousAllowed = u, sf_trustLadderLevel = l\<rparr> })"

definition zcoding :: "json \<Rightarrow> coding_config option" where
  "zcoding = zobject (\<lambda>j. do {
     zget ''enabled'' (zliteral (JBool True)) j;
     zget ''planningEngine'' (zliteral (JStr ''claude'')) j;
     zget ''executionEngine'' (zliteral (JStr ''codex'')) j;
     w \<leftarrow> zget ''worktreeRoot'' ztext j;
     t \<leftarrow> zget ''tmuxSocket'' ztext j;
     s \<leftarrow> zdef ''stalledCheckWindowMinutes'' 10 (zint 1 None) j;
     r \<leftarrow> zdef ''maxRestartsPerSession'' 3 (zint 1 None) j;
     Some \<lparr>cd_worktreeRoot = w, cd_tmuxSocket = t, cd_stalledCheckWindowMinutes = s, cd_maxRestartsPerSession = r\<rparr> })"

definition zsentry :: "json \<Rightarrow> sentry_config option" where
  "zsentry = zobject (\<lambda>j. do {
     zget ''enabled'' (zliteral (JBool True)) j;
     g \<leftarrow> zget ''org'' ztext j;
     p \<leftarrow> zget ''project'' ztext j;
     a \<leftarrow> zget ''authTokenEnv'' ztext j;
     c \<leftarrow> zget ''slackChannelId'' ztext j;
     w \<leftarrow> zget ''webhookPath'' ztext j;
     m \<leftarrow> zdef ''mode'' Slack_first (zenum sentry_modes) j;
     Some \<lparr>sy_org = g, sy_project = p, sy_authTokenEnv = a, sy_slackChannelId = c, sy_webhookPath = w, sy_mode = m\<rparr> })"

definition default_automation :: automation_config where
  "default_automation = \<lparr>am_autoInstallMissingCli = False, am_allowGlobalConfigWrites = False\<rparr>"

definition zautomation :: "json \<Rightarrow> automation_config option" where
  "zautomation = zobject (\<lambda>j. do {
     i \<leftarrow> zdef ''autoInstallMissingCli'' False zbool j;
     g \<leftarrow> zdef ''allowGlobalConfigWrites'' False zbool j;
     Some \<lparr>am_autoInstallMissingCli = i, am_allowGlobalConfigWrites = g\<rparr> })"

definition QuickClawConfigSchema :: "json \<Rightarrow> quick_config option" where
  "QuickClawConfigSchema = zobject (\<lambda>j. do {
     zget ''version'' (zliteral (JStr ''quickclaw.v1'')) j;
     p \<leftarrow> zget ''project'' zproject j;
     c \<leftarrow> zget ''openclaw'' zopenclaw j;
     i \<leftarrow> zget ''identity'' zidentity j;
     m \<leftarrow> zget ''memory'' zmemory j;
     s \<leftarrow> zget ''safety'' zsafety j;
     g \<leftarrow> zget ''codingOps'' zcoding j;
     y \<leftarrow> zget ''sentry'' zsentry j;
     a \<leftarrow> zdef ''automation'' default_automation zautomation j;
     r \<leftarrow> zget ''credentials'' (zobject (zget ''refs'' zrefs)) j;
     Some \<lparr>qc_project = p, qc_openclaw = c, qc_identity = i, qc_memory = m, qc_safety = s, qc_codingOps = g,
           qc_sentry = y, qc_automation = a, qc_refs = r\<rparr> })"

section \<open>The configuration as JSON\<close>

definition jtexts :: "string list \<Rightarrow> json" where
  "jtexts xs = JArr (map JStr xs)"

definition jint :: "int \<Rightarrow> json" where
  "jint n = JNum (of_int n)"

definition project_json :: "project_config \<Rightarrow> json" where
  "project_json p = JObj [(''agentName'', JStr (pj_agentName p)), (''workspace'', JStr (pj_workspace p)),
     (''timezone'', JStr (pj_timezone p))]"

definition openclaw_json :: "openclaw_config \<Rightarrow> json" where
  "openclaw_json c = JObj [(''mode'', JStr (word_for openclaw_modes (oc_mode c))), (''authChoice'', JStr (oc_authChoice c)),
     (''gatewayPort'', jint (oc_gatewayPort c)), (''gatewayBind'', JStr (word_for gateway_binds (oc_gatewayBind c))),
     (''advanced'', JObj [(''multiAgentScaffold'', JBool (av_multiAgentScaffold (oc_advanced c))),
       (''tailscaleNotes'', JBool (av_tailscaleNotes (oc_advanced c))),
       (''modelAliasTemplate'', JBool (av_modelAliasTemplate (oc_advanced c)))])]"

definition persona_json :: "identity_config \<Rightarrow> json" where
  "persona_json i = JObj [(''role'', JStr (ic_role i)), (''vibe'', JStr (ic_vibe i)), (''toneKeywords'', jtexts (ic_toneKeywords i)),
     (''antiPatterns'', jtexts (ic_antiPatterns i)), (''boundaries'', jtexts (ic_boundaries i))]"

definition memory_json :: "memory_config \<Rightarrow> json" where
  "memory_json m = JObj [(''longTermRules'', jtexts (mm_longTermRules m)),
     (''nightlyExtractionCron'', JStr (mm_nightlyExtractionCron m)), (''dailyCheckinCron'', JStr (mm_dailyCheckinCron m)),
     (''knowledgePaths'', jtexts (mm_knowledgePaths m)),
     (''decay'', JObj [(''hotDays'', jint (dy_hotDays (mm_decay m))), (''warmDays'', jint (dy_warmDays (mm_decay m)))])]"

definition safety_json :: "safety_config \<Rightarrow> json" where
  "safety_json s = JObj [(''profile'', JStr ''balanced''), (''trustedCommandChannels'', jtexts (sf_trustedCommandChannels s)),
     (''approvalRequired'', jtexts (sf_approvalRequired s)), (''autonomousAllowed'', jtexts (sf_autonomousAllowed s)),
     (''trustLadderLevel'', JStr (word_for trust_levels (sf_trustLadderLevel s)))]"

definition coding_json :: "coding_config \<Rightarrow> json" where
  "coding_json c = JObj [(''enabled'', JBool True), (''planningEngine'', JStr ''claude''), (''executionEngine'', JStr ''codex''),
     (''worktreeRoot'', JStr (cd_worktreeRoot c)), (''tmuxSocket'', JStr (cd_tmuxSocket c)),
     (''stalledCheckWindowMinutes'', jint (cd_stalledCheckWindowMinutes c)),
     (''maxRestartsPerSession'', jint (cd_maxRestartsPerSession c))]"

definition sentry_json :: "sentry_config \<Rightarrow> json" where
  "sentry_json y = JObj [(''enabled'', JBool True), (''org'', JStr (sy_org y)), (''project'', JStr (sy_project y)),
     (''authTokenEnv'', JStr (sy_authTokenEnv y)), (''slackChannelId'', JStr (sy_slackChannelId y)),
     (''webhookPath'', JStr (sy_webhookPath y)), (''mode'', JStr (word_for sentry_modes (sy_mode y)))]"

definition automation_json :: "automation_config \<Rightarrow> json" where
  "automation_json a = JObj [(''autoInstallMissingCli'', JBool (am_autoInstallMissingCli a)),
     (''allowGlobalConfigWrites'', JBool (am_allowGlobalConfigWrites a))]"

definition config_json :: "quick_config \<Rightarrow> json" where
  "config_json c = JObj [(''version'', JStr ''quickclaw.v1''), (''project'', project_json (qc_project c)),
     (''openclaw'', openclaw_json (qc_openclaw c)), (''identity'', persona_json (qc_identity c)),
     (''memory'', memory_json (qc_memory c)), (''safety'', safety_json (qc_safety c)),
     (''codingOps'', coding_json (qc_codingOps c)), (''sentry'', sentry_json (qc_sentry c)),
     (''automation'', automation_json (qc_automation c)),
     (''credentials'', JObj [(''refs'', JObj (map (\<lambda>(k, v). (k, JStr v)) (qc_refs c)))])]"

section \<open>Reading and writing a configuration\<close>

datatype config_error =
    Unreadable path
  | Not_parsed path string
  | Invalid_config path

definition parseConfigText :: "machine \<Rightarrow> string \<Rightarrow> path \<Rightarrow> config_error + quick_config" where
  "parseConfigText m content fileHint =
     (case (if to_lower (file_extension fileHint) = ''.json'' then hm_jparse m content else hm_yparse m content) of
        Inl e \<Rightarrow> Inl (Not_parsed fileHint e)
      | Inr parsed \<Rightarrow>
          (case QuickClawConfigSchema parsed of None \<Rightarrow> Inl (Invalid_config fileHint) | Some c \<Rightarrow> Inr c))"

definition loadConfigFile :: "machine \<Rightarrow> disk \<Rightarrow> path \<Rightarrow> config_error + quick_config" where
  "loadConfigFile m d configPath =
     (case read_file d (resolve_path (hm_cwd m) configPath) of
        None \<Rightarrow> Inl (Unreadable configPath)
      | Some raw \<Rightarrow> parseConfigText m raw configPath)"

definition resolveCredentialRef :: "machine \<Rightarrow> quick_config \<Rightarrow> string \<Rightarrow> string option" where
  "resolveCredentialRef m c refKey =
     (case map_of (qc_refs c) refKey of None \<Rightarrow> None | Some envName \<Rightarrow> if envName = [] then None else hm_env m envName)"

definition default_config :: "machine \<Rightarrow> quick_config" where
  "default_config m =
     (let home = (case hm_env m ''HOME'' of None \<Rightarrow> ''~'' | Some h \<Rightarrow> h);
          tmp = (case hm_env m ''TMPDIR'' of None \<Rightarrow> ''/tmp'' | Some t \<Rightarrow> t)
      in \<lparr>qc_project = \<lparr>pj_agentName = ''QuickClaw Agent'', pj_workspace = home @ ''/.openclaw/workspace'',
             pj_timezone = ''America/New_York''\<rparr>,
          qc_openclaw = \<lparr>oc_mode = Local_mode, oc_authChoice = ''apiKey'', oc_gatewayPort = 18789, oc_gatewayBind = Loopback,
             oc_advanced = \<lparr>av_multiAgentScaffold = True, av_tailscaleNotes = True, av_modelAliasTemplate = True\<rparr>\<rparr>,
          qc_identity = \<lparr>ic_role = ''AI Chief of Staff'', ic_vibe = ''Sharp, pragmatic, collaborative'',
             ic_toneKeywords = [''concise'', ''direct'', ''high-signal''],
             ic_antiPatterns = [''sycophantic praise'', ''hedging without evidence''],
             ic_boundaries = [''Never execute high-risk external actions without explicit approval'']\<rparr>,
          qc_memory = \<lparr>mm_longTermRules = [''Capture durable preferences and decision rationale in MEMORY.md'',
               ''Keep daily event logs in memory/YYYY-MM-DD.md''],
             mm_nightlyExtractionCron = ''0 23 * * *'', mm_dailyCheckinCron = ''0 9 * * *'', mm_knowledgePaths = [],
             mm_decay = \<lparr>dy_hotDays = 7, dy_warmDays = 30\<rparr>\<rparr>,
          qc_safety = \<lparr>sf_trustedCommandChannels = [''telegram'', ''slack''],
             sf_approvalRequired = [''external_comms'', ''financial_actions'', ''prod_changes''],
             sf_autonomousAllowed = [''research'', ''drafting'', ''workspace_file_management''],
             sf_trustLadderLevel = Draft_approve\<rparr>,
          qc_codingOps = \<lparr>cd_worktreeRoot = home @ ''/Development/agent-worktrees'', cd_tmuxSocket = tmp @ ''/quickclaw-tmux.sock'',
             cd_stalledCheckWindowMinutes = 10, cd_maxRestartsPerSession = 3\<rparr>,
          qc_sentry = \<lparr>sy_org = ''your-org'', sy_project = ''your-project'', sy_authTokenEnv = ''SENTRY_AUTH_TOKEN'',
             sy_slackChannelId = ''channel:C1234567890'', sy_webhookPath = ''sentry'', sy_mode = Slack_first\<rparr>,
          qc_automation = \<lparr>am_autoInstallMissingCli = False, am_allowGlobalConfigWrites = False\<rparr>,
          qc_refs = [(''anthropic_api_key'', ''ANTHROPIC_API_KEY''), (''openai_api_key'', ''OPENAI_API_KEY''),
             (''openclaw_hook_token'', ''OPENCLAW_HOOKS_TOKEN''), (''sentry_auth_token'', ''SENTRY_AUTH_TOKEN''),
             (''slack_bot_token'', ''SLACK_BOT_TOKEN''), (''slack_app_token'', ''SLACK_APP_TOKEN'')]\<rparr>)"

text \<open>\<open>buildDefaultConfig(partial)\<close>: a given section replaces the default one, as its type makes it
  complete; the credential references are merged.\<close>

record partial_config =
  pt_project :: "project_config option"
  pt_openclaw :: "openclaw_config option"
  pt_identity :: "identity_config option"
  pt_memory :: "memory_config option"
  pt_safety :: "safety_config option"
  pt_codingOps :: "coding_config option"
  pt_sentry :: "sentry_config option"
  pt_automation :: "automation_config option"
  pt_refs :: "refs option"

definition or_default :: "'a \<Rightarrow> 'a option \<Rightarrow> 'a" where
  "or_default x y = (case y of None \<Rightarrow> x | Some z \<Rightarrow> z)"

definition buildDefaultConfig :: "machine \<Rightarrow> partial_config option \<Rightarrow> quick_config" where
  "buildDefaultConfig m given =
     (let d = default_config m
      in case given of
           None \<Rightarrow> d
         | Some p \<Rightarrow>
             \<lparr>qc_project = or_default (qc_project d) (pt_project p), qc_openclaw = or_default (qc_openclaw d) (pt_openclaw p),
              qc_identity = or_default (qc_identity d) (pt_identity p), qc_memory = or_default (qc_memory d) (pt_memory p),
              qc_safety = or_default (qc_safety d) (pt_safety p), qc_codingOps = or_default (qc_codingOps d) (pt_codingOps p),
              qc_sentry = or_default (qc_sentry d) (pt_sentry p), qc_automation = or_default (qc_automation d) (pt_automation p),
              qc_refs = foldl (\<lambda>rs (k, v). AList.update k v rs) (qc_refs d) (or_default [] (pt_refs p))\<rparr>)"

text \<open>\<open>quickclaw export-config\<close>.\<close>

datatype export_format = Json_format | Yaml_format

definition export_config :: "machine \<Rightarrow> path option \<Rightarrow> export_format \<Rightarrow> (world, path) state" where
  "export_config m out format = do {
     let outPath = resolve_path (hm_cwd m) (or_default ''quickclaw.config.yaml'' out);
     let config = config_json (buildDefaultConfig m None);
     on_disk (put_file outPath (case format of Json_format \<Rightarrow> hm_stringify m config | Yaml_format \<Rightarrow> hm_yaml m config));
     State_Monad.return (show_path outPath) }"

section \<open>The wizard\<close>

datatype question_kind = Input | Choice | Number | Confirm

type_synonym question = "question_kind \<times> string \<times> string \<times> json \<times> string list"

definition parseList :: "string \<Rightarrow> string list" where
  "parseList input = filter (\<lambda>item. item \<noteq> []) (map trim (split_on (CHR '','') input))"

definition wizard_questions :: "quick_config \<Rightarrow> string \<Rightarrow> question list" where
  "wizard_questions base zone = [
      (Input, ''agentName'', ''Agent name'', JStr (pj_agentName (qc_project base)), []),
      (Input, ''workspace'', ''OpenClaw workspace path'', JStr (pj_workspace (qc_project base)), []),
      (Input, ''timezone'', ''Timezone'', JStr zone, []),
      (Choice, ''authChoice'', ''OpenClaw auth choice for onboard --non-interactive'', JStr (oc_authChoice (qc_openclaw base)), [''apiKey'', ''anthropic-api-key'', ''openai-api-key'', ''openai-code-oauth'', ''custom-api-key'']),
      (Number, ''gatewayPort'', ''Gateway port'', jint (oc_gatewayPort (qc_openclaw base)), []),
      (Choice, ''gatewayBind'', ''Gateway bind mode'', JStr (word_for gateway_binds (oc_gatewayBind (qc_openclaw base))), [''loopback'', ''lan'', ''tailnet'']),
      (Input, ''role'', ''Identity role'', JStr (ic_role (qc_identity base)), []),
      (Input, ''vibe'', ''Identity vibe'', JStr (ic_vibe (qc_identity base)), []),
      (Input, ''toneKeywords'', ''Tone keywords (comma separated)'', JStr (join '', '' (ic_toneKeywords (qc_identity base))), []),
      (Input, ''antiPatterns'', ''Anti-patterns (comma separated)'', JStr (join '', '' (ic_antiPatterns (qc_identity base))), []),
      (Input, ''boundaries'', ''Boundaries (comma separated)'', JStr (join '', '' (ic_boundaries (qc_identity base))), []),
      (Input, ''nightlyExtractionCron'', ''Nightly extraction cron expression'', JStr (mm_nightlyExtractionCron (qc_memory base)), []),
      (Input, ''dailyCheckinCron'', ''Daily check-in cron expression'', JStr (mm_dailyCheckinCron (qc_memory base)), []),
      (Input, ''longTermRules'', ''Long-term memory rules (comma separated)'', JStr (join '', '' (mm_longTermRules (qc_memory base))), []),
      (Input, ''knowledgePaths'', ''Layer-3 knowledge paths (comma separated, optional)'', JStr (join '', '' (mm_knowledgePaths (qc_memory base))), []),
      (Number, ''decayHotDays'', ''Memory decay hot window (days)'', jint (dy_hotDays (mm_decay (qc_memory base))), []),
      (Number, ''decayWarmDays'', ''Memory decay warm window (days)'', jint (dy_warmDays (mm_decay (qc_memory base))), []),
      (Input, ''trustedCommandChannels'', ''Trusted command channels (comma separated)'', JStr (join '', '' (sf_trustedCommandChannels (qc_safety base))), []),
      (Input, ''approvalRequired'', ''Approval-required categories (comma separated)'', JStr (join '', '' (sf_approvalRequired (qc_safety base))), []),
      (Input, ''autonomousAllowed'', ''Autonomous categories (comma separated)'', JStr (join '', '' (sf_autonomousAllowed (qc_safety base))), []),
      (Choice, ''trustLadderLevel'', ''Trust ladder level'', JStr (word_for trust_levels (sf_trustLadderLevel (qc_safety base))), [''read-only'', ''draft-approve'', ''bounded-act'']),
      (Input, ''worktreeRoot'', ''Coding ops worktree root'', JStr (cd_worktreeRoot (qc_codingOps base)), []),
      (Input, ''tmuxSocket'', ''Coding ops tmux socket path'', JStr (cd_tmuxSocket (qc_codingOps base)), []),
      (Number, ''stalledCheckWindowMinutes'', ''Coding ops stalled check window (minutes)'', jint (cd_stalledCheckWindowMinutes (qc_codingOps base)), []),
      (Number, ''maxRestartsPerSession'', ''Coding ops max restarts per session'', jint (cd_maxRestartsPerSession (qc_codingOps base)), []),
      (Input, ''sentryOrg'', ''Sentry organization slug'', JStr (sy_org (qc_sentry base)), []),
      (Input, ''sentryProject'', ''Sentry project slug'', JStr (sy_project (qc_sentry base)), []),
      (Input, ''sentryAuthTokenEnv'', ''Sentry auth token env var'', JStr (sy_authTokenEnv (qc_sentry base)), []),
      (Input, ''slackChannelId'', ''Slack bugs channel target (channel:<id>)'', JStr (sy_slackChannelId (qc_sentry base)), []),
      (Input, ''webhookPath'', ''OpenClaw sentry webhook path (without /hooks/)'', JStr (sy_webhookPath (qc_sentry base)), []),
      (Choice, ''sentryMode'', ''Sentry ingestion mode'', JStr (word_for sentry_modes (sy_mode (qc_sentry base))), [''slack-first'', ''webhook-direct'']),
      (Confirm, ''autoInstallMissingCli'', ''Auto-install missing CLIs during preflight?'', JBool (am_autoInstallMissingCli (qc_automation base)), []),
      (Confirm, ''allowGlobalConfigWrites'', ''Allow writes to global OpenClaw config on this host?'', JBool (am_allowGlobalConfigWrites (qc_automation base)), [])
     ]"

text \<open>The answers by kind; a number answer is \<open>None\<close> when it is no number.\<close>

record wizard_answers =
  wa_text :: "string \<Rightarrow> string"
  wa_number :: "string \<Rightarrow> rat option"
  wa_flag :: "string \<Rightarrow> bool"

definition wizard_number :: "wizard_answers \<Rightarrow> string \<Rightarrow> json" where
  "wizard_number a k = (case wa_number a k of None \<Rightarrow> JNull | Some x \<Rightarrow> JNum x)"

definition wizard_json :: "quick_config \<Rightarrow> wizard_answers \<Rightarrow> json" where
  "wizard_json base a =
     (let str = (\<lambda>k. JStr (wa_text a k)); lst = (\<lambda>k. jtexts (parseList (wa_text a k))); num = wizard_number a
      in JObj [
       (''version'', JStr ''quickclaw.v1''),
       (''project'', JObj [(''agentName'', str ''agentName''), (''workspace'', str ''workspace''), (''timezone'', str ''timezone'')]),
       (''openclaw'', JObj [(''mode'', JStr ''local''), (''authChoice'', str ''authChoice''), (''gatewayPort'', num ''gatewayPort''),
          (''gatewayBind'', str ''gatewayBind''),
          (''advanced'', JObj [(''multiAgentScaffold'', JBool (av_multiAgentScaffold (oc_advanced (qc_openclaw base)))),
             (''tailscaleNotes'', JBool (av_tailscaleNotes (oc_advanced (qc_openclaw base)))),
             (''modelAliasTemplate'', JBool (av_modelAliasTemplate (oc_advanced (qc_openclaw base))))])]),
       (''identity'', JObj [(''role'', str ''role''), (''vibe'', str ''vibe''), (''toneKeywords'', lst ''toneKeywords''),
          (''antiPatterns'', lst ''antiPatterns''), (''boundaries'', lst ''boundaries'')]),
       (''memory'', JObj [(''longTermRules'', lst ''longTermRules''), (''nightlyExtractionCron'', str ''nightlyExtractionCron''),
          (''dailyCheckinCron'', str ''dailyCheckinCron''), (''knowledgePaths'', lst ''knowledgePaths''),
          (''decay'', JObj [(''hotDays'', num ''decayHotDays''), (''warmDays'', num ''decayWarmDays'')])]),
       (''safety'', JObj [(''profile'', JStr ''balanced''), (''trustedCommandChannels'', lst ''trustedCommandChannels''),
          (''approvalRequired'', lst ''approvalRequired''), (''autonomousAllowed'', lst ''autonomousAllowed''),
          (''trustLadderLevel'', str ''trustLadderLevel'')]),
       (''codingOps'', JObj [(''enabled'', JBool True), (''planningEngine'', JStr ''claude''), (''executionEngine'', JStr ''codex''),
          (''worktreeRoot'', str ''worktreeRoot''), (''tmuxSocket'', str ''tmuxSocket''),
          (''stalledCheckWindowMinutes'', num ''stalledCheckWindowMinutes''),
          (''maxRestartsPerSession'', num ''maxRestartsPerSession'')]),
       (''sentry'', JObj [(''enabled'', JBool True), (''org'', str ''sentryOrg''), (''project'', str ''sentryProject''),
          (''authTokenEnv'', str ''sentryAuthTokenEnv''), (''slackChannelId'', str ''slackChannelId''),
          (''webhookPath'', str ''webhookPath''), (''mode'', str ''sentryMode'')]),
       (''automation'', JObj [(''autoInstallMissingCli'', JBool (wa_flag a ''autoInstallMissingCli'')),
          (''allowGlobalConfigWrites'', JBool (wa_flag a ''allowGlobalConfigWrites''))]),
       (''credentials'', JObj [(''refs'', JObj (map (\<lambda>(k, v). (k, JStr v)) (qc_refs base)))])])"

definition wizard_zone :: "machine \<Rightarrow> string \<Rightarrow> string" where
  "wizard_zone m zone = (if zone = [] then pj_timezone (qc_project (buildDefaultConfig m None)) else zone)"

definition runWizard :: "machine \<Rightarrow> string \<Rightarrow> (question list \<Rightarrow> wizard_answers) \<Rightarrow> quick_config option" where
  "runWizard m zone inquirer =
     (let base = buildDefaultConfig m None
      in QuickClawConfigSchema (wizard_json base (inquirer (wizard_questions base (wizard_zone m zone)))))"

section \<open>Facts\<close>

definition texts_ok :: "nat \<Rightarrow> string list \<Rightarrow> bool" where
  "texts_ok least xs \<longleftrightarrow> least \<le> length xs \<and> (\<forall>x \<in> set xs. x \<noteq> [])"

definition valid_config :: "quick_config \<Rightarrow> bool" where
  "valid_config c \<longleftrightarrow>
     (case qc_project c of p \<Rightarrow> pj_agentName p \<noteq> [] \<and> pj_workspace p \<noteq> [] \<and> pj_timezone p \<noteq> [])
     \<and> (case qc_openclaw c of p \<Rightarrow> oc_authChoice p \<noteq> [] \<and> 1 \<le> oc_gatewayPort p \<and> oc_gatewayPort p \<le> 65535)
     \<and> (case qc_identity c of i \<Rightarrow> ic_role i \<noteq> [] \<and> ic_vibe i \<noteq> [] \<and> texts_ok 1 (ic_toneKeywords i)
          \<and> texts_ok 1 (ic_antiPatterns i) \<and> texts_ok 1 (ic_boundaries i))
     \<and> (case qc_memory c of m \<Rightarrow> texts_ok 1 (mm_longTermRules m) \<and> mm_nightlyExtractionCron m \<noteq> [] \<and> mm_dailyCheckinCron m \<noteq> []
          \<and> texts_ok 0 (mm_knowledgePaths m) \<and> 1 \<le> dy_hotDays (mm_decay m) \<and> 1 \<le> dy_warmDays (mm_decay m))
     \<and> (case qc_safety c of s \<Rightarrow> texts_ok 1 (sf_trustedCommandChannels s) \<and> texts_ok 1 (sf_approvalRequired s)
          \<and> texts_ok 1 (sf_autonomousAllowed s))
     \<and> (case qc_codingOps c of g \<Rightarrow> cd_worktreeRoot g \<noteq> [] \<and> cd_tmuxSocket g \<noteq> [] \<and> 1 \<le> cd_stalledCheckWindowMinutes g
          \<and> 1 \<le> cd_maxRestartsPerSession g)
     \<and> (case qc_sentry c of y \<Rightarrow> sy_org y \<noteq> [] \<and> sy_project y \<noteq> [] \<and> sy_authTokenEnv y \<noteq> [] \<and> sy_slackChannelId y \<noteq> []
          \<and> sy_webhookPath y \<noteq> [])
     \<and> (\<forall>(k, v) \<in> set (qc_refs c). v \<noteq> [])"

named_theorems schema \<open>the parsers on printed sections\<close>

lemma zget_simp [simp]: "zget k p (JObj kvs) = (case map_of kvs k of None \<Rightarrow> None | Some v \<Rightarrow> p v)"
  by (simp add: zget_def split: option.split)

lemma zdef_simp [simp]: "zdef k x p (JObj kvs) = (case map_of kvs k of None \<Rightarrow> Some x | Some v \<Rightarrow> p v)"
  by (simp add: zdef_def)

lemma zliteral_simp [simp]: "zliteral v v = Some ()"
  by (simp add: zliteral_def)

lemma ztexts_jtexts [schema]: "texts_ok n xs \<Longrightarrow> ztexts n (jtexts xs) = Some xs"
proof -
  assume ok: "texts_ok n xs"
  have "\<forall>x \<in> set xs. x \<noteq> [] \<Longrightarrow> those (map ztext (map JStr xs)) = Some xs" by (induction xs) auto
  with ok show ?thesis by (simp add: texts_ok_def jtexts_def)
qed

lemma ztexts_ok: "ztexts n j = Some xs \<Longrightarrow> texts_ok n xs"
proof (cases j)
  case (JArr js)
  have "those (map ztext js) = Some xs \<Longrightarrow> length xs = length js \<and> (\<forall>x \<in> set xs. x \<noteq> [])"
  proof (induction js arbitrary: xs)
    case (Cons a js)
    then show ?case by (cases a) (auto split: if_splits option.splits)
  qed simp
  moreover assume "ztexts n j = Some xs"
  ultimately show ?thesis using JArr by (auto simp: texts_ok_def split: if_splits)
qed auto

lemma zint_jint [schema]: "lo \<le> n \<Longrightarrow> (case hi of None \<Rightarrow> True | Some h \<Rightarrow> n \<le> h) \<Longrightarrow> zint lo hi (jint n) = Some n"
  by (simp add: jint_def)

lemma zint_ok: "zint lo hi j = Some n \<Longrightarrow> lo \<le> n \<and> (case hi of None \<Rightarrow> True | Some h \<Rightarrow> n \<le> h)"
  by (cases j) (auto simp: Let_def split: if_splits option.splits)

lemma ztext_JStr [schema]: "s \<noteq> [] \<Longrightarrow> ztext (JStr s) = Some s"
  by simp

lemma ztext_ok: "ztext j = Some s \<Longrightarrow> s \<noteq> []"
  by (cases j) (auto split: if_splits)

lemma zenum_word [schema]:
  "zenum openclaw_modes (JStr (word_for openclaw_modes x1)) = Some x1"
  "zenum gateway_binds (JStr (word_for gateway_binds x2)) = Some x2"
  "zenum trust_levels (JStr (word_for trust_levels x3)) = Some x3"
  "zenum sentry_modes (JStr (word_for sentry_modes x4)) = Some x4"
     apply (cases x1; simp add: openclaw_modes_def word_for_def)
    apply (cases x2; simp add: gateway_binds_def word_for_def)
   apply (cases x3; simp add: trust_levels_def word_for_def)
  apply (cases x4; simp add: sentry_modes_def word_for_def)
  done

lemma zrefs_print [schema]:
  "\<forall>(k, v) \<in> set rs. v \<noteq> [] \<Longrightarrow> zrefs (JObj (map (\<lambda>(k, v). (k, JStr v)) rs)) = Some rs"
  by (induction rs) auto

lemma zrefs_ok: "zrefs j = Some rs \<Longrightarrow> \<forall>(k, v) \<in> set rs. v \<noteq> []"
proof (cases j)
  case (JObj kvs)
  have "those (map (\<lambda>(k, v). map_option (Pair k) (ztext v)) kvs) = Some rs \<Longrightarrow> \<forall>(k, v) \<in> set rs. v \<noteq> []"
  proof (induction kvs arbitrary: rs)
    case (Cons kv kvs)
    then show ?case by (cases kv) (fastforce dest: ztext_ok split: option.splits)
  qed simp
  moreover assume "zrefs j = Some rs"
  ultimately show ?thesis using JObj by simp
qed auto

lemmas section_defs = zproject_def zopenclaw_def zadvanced_def zidentity_def zmemory_def zdecay_def zsafety_def zcoding_def
  zsentry_def zautomation_def

lemmas section_json_defs = project_json_def openclaw_json_def persona_json_def memory_json_def safety_json_def coding_json_def
  sentry_json_def automation_json_def

lemma schema_reads_print: "valid_config c \<Longrightarrow> QuickClawConfigSchema (config_json c) = Some c"
proof -
  assume v: "valid_config c"
  note ok = v [unfolded valid_config_def]
  have "zproject (project_json (qc_project c)) = Some (qc_project c)"
    "zopenclaw (openclaw_json (qc_openclaw c)) = Some (qc_openclaw c)"
    "zidentity (persona_json (qc_identity c)) = Some (qc_identity c)"
    "zmemory (memory_json (qc_memory c)) = Some (qc_memory c)"
    "zsafety (safety_json (qc_safety c)) = Some (qc_safety c)"
    "zcoding (coding_json (qc_codingOps c)) = Some (qc_codingOps c)"
    "zsentry (sentry_json (qc_sentry c)) = Some (qc_sentry c)"
    "zautomation (automation_json (qc_automation c)) = Some (qc_automation c)"
    "zrefs (JObj (map (\<lambda>(k, v). (k, JStr v)) (qc_refs c))) = Some (qc_refs c)"
    using ok by (simp_all add: section_defs section_json_defs schema del: ztext.simps zint.simps ztexts.simps zenum.simps zrefs.simps)
  then show ?thesis
    by (simp add: QuickClawConfigSchema_def config_json_def del: zrefs.simps)
qed

lemma zget_Some: "zget k p j = Some x \<longleftrightarrow> (\<exists>v. jfield k j = Some v \<and> p v = Some x)"
  by (auto simp: zget_def bind_eq_Some_conv)

lemma zobject_Some: "zobject p j = Some x \<longleftrightarrow> (\<exists>kvs. j = JObj kvs \<and> p j = Some x)"
  by (cases j) auto

lemma zdef_int_ok: "zdef k n (zint lo hi) j = Some x \<Longrightarrow> lo \<le> n \<Longrightarrow> hi = None \<Longrightarrow> lo \<le> x"
  by (auto simp: zdef_def dest: zint_ok split: option.splits)

lemma zdef_texts_ok: "zdef k [] (ztexts 0) j = Some xs \<Longrightarrow> texts_ok 0 xs"
  by (auto simp: zdef_def dest: ztexts_ok split: option.splits) (simp add: texts_ok_def)

lemmas open_section = zobject_Some zget_Some bind_eq_Some_conv

lemma zdecay_ok: "zdecay j = Some x \<Longrightarrow> 1 \<le> dy_hotDays x \<and> 1 \<le> dy_warmDays x"
  by (auto simp: zdecay_def open_section simp del: zget_simp zdef_simp dest!: zdef_int_ok)

lemma zdef_decay_ok: "zdef k default_decay zdecay j = Some x \<Longrightarrow> 1 \<le> dy_hotDays x \<and> 1 \<le> dy_warmDays x"
  by (auto simp: zdef_def default_decay_def dest: zdecay_ok split: option.splits)

lemma zproject_ok: "zproject j = Some p \<Longrightarrow> pj_agentName p \<noteq> [] \<and> pj_workspace p \<noteq> [] \<and> pj_timezone p \<noteq> []"
  by (auto simp: zproject_def open_section simp del: zget_simp dest: ztext_ok)

lemma zopenclaw_ok: "zopenclaw j = Some p \<Longrightarrow> oc_authChoice p \<noteq> [] \<and> 1 \<le> oc_gatewayPort p \<and> oc_gatewayPort p \<le> 65535"
  by (auto simp: zopenclaw_def open_section simp del: zget_simp zdef_simp dest: ztext_ok zint_ok)

lemma zidentity_ok:
  "zidentity j = Some i \<Longrightarrow> ic_role i \<noteq> [] \<and> ic_vibe i \<noteq> [] \<and> texts_ok 1 (ic_toneKeywords i)
     \<and> texts_ok 1 (ic_antiPatterns i) \<and> texts_ok 1 (ic_boundaries i)"
  by (auto simp: zidentity_def open_section simp del: zget_simp One_nat_def ztexts.simps dest: ztext_ok ztexts_ok)

lemma zmemory_ok:
  "zmemory j = Some m \<Longrightarrow> texts_ok 1 (mm_longTermRules m) \<and> mm_nightlyExtractionCron m \<noteq> [] \<and> mm_dailyCheckinCron m \<noteq> []
     \<and> texts_ok 0 (mm_knowledgePaths m) \<and> 1 \<le> dy_hotDays (mm_decay m) \<and> 1 \<le> dy_warmDays (mm_decay m)"
  by (auto simp: zmemory_def open_section simp del: zget_simp zdef_simp One_nat_def ztexts.simps
      dest: ztext_ok ztexts_ok zdef_texts_ok zdef_decay_ok)

lemma zsafety_ok:
  "zsafety j = Some s \<Longrightarrow> texts_ok 1 (sf_trustedCommandChannels s) \<and> texts_ok 1 (sf_approvalRequired s)
     \<and> texts_ok 1 (sf_autonomousAllowed s)"
  by (auto simp: zsafety_def open_section simp del: zget_simp zdef_simp One_nat_def ztexts.simps dest: ztexts_ok)

lemma zcoding_ok:
  "zcoding j = Some g \<Longrightarrow> cd_worktreeRoot g \<noteq> [] \<and> cd_tmuxSocket g \<noteq> [] \<and> 1 \<le> cd_stalledCheckWindowMinutes g
     \<and> 1 \<le> cd_maxRestartsPerSession g"
  by (auto simp: zcoding_def open_section simp del: zget_simp zdef_simp dest: ztext_ok zdef_int_ok)

lemma zsentry_ok:
  "zsentry j = Some y \<Longrightarrow> sy_org y \<noteq> [] \<and> sy_project y \<noteq> [] \<and> sy_authTokenEnv y \<noteq> [] \<and> sy_slackChannelId y \<noteq> []
     \<and> sy_webhookPath y \<noteq> []"
  by (auto simp: zsentry_def open_section simp del: zget_simp zdef_simp dest: ztext_ok)

lemma schema_sound: "QuickClawConfigSchema j = Some c \<Longrightarrow> valid_config c"
proof -
  assume "QuickClawConfigSchema j = Some c"
  then obtain p w i e s g y r where "zproject p = Some (qc_project c)" "zopenclaw w = Some (qc_openclaw c)"
    "zidentity i = Some (qc_identity c)" "zmemory e = Some (qc_memory c)" "zsafety s = Some (qc_safety c)"
    "zcoding g = Some (qc_codingOps c)" "zsentry y = Some (qc_sentry c)" "zrefs r = Some (qc_refs c)"
    by (auto simp: QuickClawConfigSchema_def open_section simp del: zget_simp zdef_simp)
  then show ?thesis
    unfolding valid_config_def
    by (intro conjI zproject_ok zopenclaw_ok zidentity_ok zmemory_ok zsafety_ok zcoding_ok zsentry_ok zrefs_ok)
qed

lemma default_valid: "valid_config (buildDefaultConfig m None)"
  by (simp add: valid_config_def buildDefaultConfig_def default_config_def Let_def texts_ok_def split: option.split)

text \<open>The wizard answered by its defaults.\<close>

definition default_for :: "question list \<Rightarrow> string \<Rightarrow> json" where
  "default_for qs k = (case List.find (\<lambda>q. fst (snd q) = k) qs of None \<Rightarrow> JNull | Some (_, _, _, d, _) \<Rightarrow> d)"

definition accept_defaults :: "question list \<Rightarrow> wizard_answers" where
  "accept_defaults qs = \<lparr>wa_text = (\<lambda>k. case default_for qs k of JStr s \<Rightarrow> s | _ \<Rightarrow> []),
     wa_number = (\<lambda>k. as_num (default_for qs k)), wa_flag = (\<lambda>k. default_for qs k = JBool True)\<rparr>"

lemma default_for_Nil [simp]: "default_for [] k = JNull"
  by (simp add: default_for_def)

lemma default_for_Cons [simp]: "default_for ((q, n, t, d, cs) # qs) k = (if n = k then d else default_for qs k)"
  by (simp add: default_for_def)

lemma split_join:
  assumes "xs \<noteq> []" "\<forall>x \<in> set xs. CHR '','' \<notin> set x"
  shows "split_on (CHR '','') (join '', '' xs) = hd xs # map (\<lambda>x. CHR '' '' # x) (tl xs)"
  using assms
proof (induction xs rule: induct_list012)
  case (3 x y zs)
  have "split_on (CHR '','') (join '', '' (x # y # zs)) = split_on (CHR '','') x @ split_on (CHR '','') (CHR '' '' # join '', '' (y # zs))"
    using split_on_append_sep [of "CHR '',''" x "CHR '' '' # join '', '' (y # zs)"] by simp
  also have "split_on (CHR '','') x = [x]" using 3 by (simp add: split_on_no_sep)
  also have "split_on (CHR '','') (CHR '' '' # join '', '' (y # zs)) = (CHR '' '' # y) # map (\<lambda>x. CHR '' '' # x) zs"
    using 3 by simp
  finally show ?case by simp
qed (simp_all add: split_on_no_sep)

definition plain_item :: "string \<Rightarrow> bool" where
  "plain_item x \<longleftrightarrow> x \<noteq> [] \<and> CHR '','' \<notin> set x \<and> \<not> is_ws (hd x) \<and> \<not> is_ws (last x)"

lemma trim_plain: "plain_item x \<Longrightarrow> trim x = x \<and> trim (CHR '' '' # x) = x"
proof -
  assume p: "plain_item x"
  then obtain c cs where "x = c # cs" "\<not> is_ws c" by (cases x) (auto simp: plain_item_def)
  then have "dropWhile is_ws x = x" "dropWhile is_ws (CHR '' '' # x) = x" by (simp_all add: is_ws_def)
  moreover have "rev (dropWhile is_ws (rev x)) = x"
    using p by (cases x rule: rev_cases) (auto simp: plain_item_def)
  ultimately show ?thesis by (simp add: trim_def trim_start_def trim_end_def)
qed

lemma parseList_join: "\<forall>x \<in> set xs. plain_item x \<Longrightarrow> parseList (join '', '' xs) = xs"
proof (cases xs)
  case Nil
  then show ?thesis by (simp add: parseList_def trim_def trim_start_def trim_end_def)
next
  case (Cons x ys)
  assume ok: "\<forall>x \<in> set xs. plain_item x"
  have "map trim (split_on (CHR '','') (join '', '' xs)) = trim x # map (\<lambda>x. trim (CHR '' '' # x)) ys"
    using ok split_join [of xs] Cons by (simp add: plain_item_def comp_def)
  also have "\<dots> = xs" using ok Cons by (simp add: trim_plain map_idI)
  finally show ?thesis using ok by (simp add: parseList_def plain_item_def filter_id_conv)
qed

text \<open>
  C26. A configuration survives its text. Whatever text the reader accepts gives a configuration that
  satisfies every constraint of the schema; a configuration that satisfies them, printed as JSON or as
  YAML, is read back unchanged, the file extension deciding between the two; and the starter file that
  \<open>export-config\<close> writes, by default quickclaw.config.yaml, is read back by \<open>create --config\<close> as the
  default configuration, for every output path and format but YAML in a file named .json. Given that
  the JSON and YAML libraries read what they print for the configurations concerned, and that YAML
  reads the JSON text of the starter, as JSON is a part of YAML.
\<close>

theorem config_roundtrip:
  assumes print: "hm_jparse m (hm_stringify m (config_json c)) = Inr (config_json c)"
    "hm_yparse m (hm_yaml m (config_json c)) = Inr (config_json c)"
    and starter: "hm_jparse m (hm_stringify m (config_json (default_config m))) = Inr (config_json (default_config m))"
    "hm_yparse m (hm_yaml m (config_json (default_config m))) = Inr (config_json (default_config m))"
    "hm_yparse m (hm_stringify m (config_json (default_config m))) = Inr (config_json (default_config m))"
    and named: "format = Yaml_format \<Longrightarrow> to_lower (file_extension (or_default ''quickclaw.config.yaml'' out)) \<noteq> ''.json''"
  shows "(parseConfigText m t hint = Inr c \<longrightarrow> valid_config c)
     \<and> (valid_config c \<longrightarrow> parseConfigText m (if to_lower (file_extension hint) = ''.json'' then hm_stringify m (config_json c)
          else hm_yaml m (config_json c)) hint = Inr c)
     \<and> loadConfigFile m (wd_disk (snd (run_state (export_config m out format) w))) (or_default ''quickclaw.config.yaml'' out)
          = Inr (buildDefaultConfig m None)"
proof (intro conjI impI)
  show "valid_config c" if "parseConfigText m t hint = Inr c"
    using that by (auto simp: parseConfigText_def split: sum.splits option.splits dest: schema_sound)
  show "parseConfigText m (if to_lower (file_extension hint) = ''.json'' then hm_stringify m (config_json c)
      else hm_yaml m (config_json c)) hint = Inr c" if "valid_config c"
    using schema_reads_print [OF that] print by (simp add: parseConfigText_def)
  let ?out = "or_default ''quickclaw.config.yaml'' out"
  have d: "buildDefaultConfig m None = default_config m" by (simp add: buildDefaultConfig_def)
  have "read_file (wd_disk (snd (run_state (export_config m out format) w))) (resolve_path (hm_cwd m) ?out)
      = Some (case format of Json_format \<Rightarrow> hm_stringify m (config_json (default_config m))
          | Yaml_format \<Rightarrow> hm_yaml m (config_json (default_config m)))"
    by (simp add: export_config_def Let_def d put_file_def read_file_def update_conv')
  then show "loadConfigFile m (wd_disk (snd (run_state (export_config m out format) w))) ?out = Inr (buildDefaultConfig m None)"
    using schema_reads_print [OF default_valid, of m] starter named
    by (cases format) (simp_all add: loadConfigFile_def parseConfigText_def d)
qed

theorem config_roundtrip_witness:
  "let c = default_config blank_machine;
       m = blank_machine\<lparr>hm_jparse := (\<lambda>_. Inr (config_json c)), hm_yparse := (\<lambda>_. Inr (config_json c))\<rparr>
   in parseConfigText m ''{}'' ''quick.yaml'' = Inr c
      \<and> loadConfigFile m (wd_disk (snd (run_state (export_config m None Yaml_format) blank_world))) ''quickclaw.config.yaml''
          = Inr (buildDefaultConfig m None)"
proof -
  let ?c = "default_config blank_machine"
  let ?m = "blank_machine\<lparr>hm_jparse := (\<lambda>_. Inr (config_json ?c)), hm_yparse := (\<lambda>_. Inr (config_json ?c))\<rparr>"
  have d: "default_config ?m = ?c" by (simp add: default_config_def)
  have o: "or_default ''quickclaw.config.yaml'' None = ''quickclaw.config.yaml''" by (simp add: or_default_def)
  have ext: "to_lower (file_extension ''quickclaw.config.yaml'') \<noteq> ''.json''"
    "to_lower (file_extension ''quick.yaml'') = ''.yaml''" by code_simp+
  have print: "hm_jparse ?m (hm_stringify ?m (config_json ?c)) = Inr (config_json ?c)"
    "hm_yparse ?m (hm_yaml ?m (config_json ?c)) = Inr (config_json ?c)"
    "hm_jparse ?m (hm_stringify ?m (config_json (default_config ?m))) = Inr (config_json (default_config ?m))"
    "hm_yparse ?m (hm_yaml ?m (config_json (default_config ?m))) = Inr (config_json (default_config ?m))"
    "hm_yparse ?m (hm_stringify ?m (config_json (default_config ?m))) = Inr (config_json (default_config ?m))"
    by (simp_all add: d)
  have v: "valid_config ?c" using default_valid [of blank_machine] by (simp add: buildDefaultConfig_def)
  have y: "hm_yaml blank_machine x = ''{}''" for x by (simp add: blank_machine_def)
  from config_roundtrip [OF print, of Yaml_format None "''{}''" "''quick.yaml''" blank_world] v ext
  show ?thesis by (simp add: Let_def o y)
qed

text \<open>
  The wizard answered with its defaults. Accepting the proposed answer of every question gives the
  default configuration with the time zone of the machine: each question offers the value its answer
  is read back as, the comma-separated lists included.
\<close>

theorem wizard_defaults:
  "runWizard m zone accept_defaults =
     Some ((buildDefaultConfig m None)\<lparr>qc_project := (qc_project (buildDefaultConfig m None))\<lparr>pj_timezone := wizard_zone m zone\<rparr>\<rparr>)"
proof -
  let ?base = "buildDefaultConfig m None" let ?z = "wizard_zone m zone"
  let ?c = "?base\<lparr>qc_project := (qc_project ?base)\<lparr>pj_timezone := ?z\<rparr>\<rparr>"
  have z: "?z \<noteq> []"
    using default_valid [of m] by (simp add: wizard_zone_def valid_config_def)
  have lists: "parseList (join '', '' (ic_toneKeywords (qc_identity ?base))) = ic_toneKeywords (qc_identity ?base)"
    "parseList (join '', '' (ic_antiPatterns (qc_identity ?base))) = ic_antiPatterns (qc_identity ?base)"
    "parseList (join '', '' (ic_boundaries (qc_identity ?base))) = ic_boundaries (qc_identity ?base)"
    "parseList (join '', '' (mm_longTermRules (qc_memory ?base))) = mm_longTermRules (qc_memory ?base)"
    "parseList (join '', '' (mm_knowledgePaths (qc_memory ?base))) = mm_knowledgePaths (qc_memory ?base)"
    "parseList (join '', '' (sf_trustedCommandChannels (qc_safety ?base))) = sf_trustedCommandChannels (qc_safety ?base)"
    "parseList (join '', '' (sf_approvalRequired (qc_safety ?base))) = sf_approvalRequired (qc_safety ?base)"
    "parseList (join '', '' (sf_autonomousAllowed (qc_safety ?base))) = sf_autonomousAllowed (qc_safety ?base)"
    by (rule parseList_join, simp add: buildDefaultConfig_def default_config_def Let_def plain_item_def is_ws_def)+
  have "oc_mode (qc_openclaw ?base) = Local_mode" by (simp add: buildDefaultConfig_def default_config_def Let_def)
  then have "wizard_json ?base (accept_defaults (wizard_questions ?base ?z)) = config_json ?c"
    by (simp add: wizard_json_def Let_def accept_defaults_def wizard_questions_def lists wizard_number_def
        config_json_def section_json_defs jint_def) (simp add: openclaw_modes_def word_for_def)
  moreover have "valid_config ?c" using default_valid [of m] z by (simp add: valid_config_def)
  ultimately show ?thesis by (simp add: runWizard_def Let_def schema_reads_print)
qed

end
