(* ===== verification/QuickShell.thy ===== *)
theory QuickShell
  imports QuickConfig
begin

text \<open>
  QuickClaw, the steps that run commands on the host: core/preflight.ts (which tools and secrets are
  there, and the installation of missing tools), core/openclaw-onboard.ts, core/ops/hooks.ts,
  core/ops/cron.ts, core/tastekit-bridge.ts, and the reports of core/reports.ts.
\<close>

section \<open>Preflight\<close>

record check =
  ck_name :: string
  ck_ok :: bool
  ck_details :: "string option"

record preflight =
  pf_checks :: "check list"
  pf_binary :: "string option"

definition CLI_INSTALL_COMMANDS :: "(string \<times> string) list" where
  "CLI_INSTALL_COMMANDS = [(''openclaw'', ''npm install -g openclaw''), (''tastekit'', ''npm install -g @tastekit/cli''),
     (''claude'', ''npm install -g @anthropic-ai/claude-code''), (''codex'', ''npm install -g @openai/codex''),
     (''tmux'', ''brew install tmux''), (''git'', ''brew install git'')]"

definition installCommandForBinary :: "string \<Rightarrow> string option" where
  "installCommandForBinary binary = map_of CLI_INSTALL_COMMANDS binary"

definition withInstallHint :: "string \<Rightarrow> string \<Rightarrow> string" where
  "withInstallHint binary msg =
     (case installCommandForBinary binary of None \<Rightarrow> msg | Some i \<Rightarrow> msg @ ''. Install: '' @ i)"

definition missingBinaries :: "preflight \<Rightarrow> string list" where
  "missingBinaries result = set_of (List.map_filter (\<lambda>c.
     if ck_ok c then None
     else if ck_name c = ''openclaw_binary'' then Some ''openclaw''
     else if starts_with (ck_name c) ''binary_'' \<and> ck_name c \<noteq> ''binary_'' then Some (drop 7 (ck_name c))
     else None) (pf_checks result))"

record auto_install =
  ai_attempted :: "string list"
  ai_installed :: "string list"
  ai_failed :: "(string \<times> string option \<times> string) list"

fun install_each :: "machine \<Rightarrow> string list \<Rightarrow> auto_install \<Rightarrow> (world, auto_install) state" where
  "install_each m [] r = State_Monad.return r"
| "install_each m (b # bs) r =
     (case installCommandForBinary b of
        None \<Rightarrow> install_each m bs (r\<lparr>ai_failed := ai_failed r @ [(b, None, ''No auto-install command configured for '' @ b)]\<rparr>)
      | Some command \<Rightarrow> do {
          out \<leftarrow> runShell m (cmd_call ''bash'' [''-lc'', command]) False;
          let r' = r\<lparr>ai_attempted := ai_attempted r @ [b]\<rparr>;
          install_each m bs
            (case out of
               Inl e \<Rightarrow> r'\<lparr>ai_failed := ai_failed r @ [(b, Some command, e)]\<rparr>
             | Inr _ \<Rightarrow> r'\<lparr>ai_installed := ai_installed r @ [b]\<rparr>) })"

definition autoInstallMissingBinaries :: "machine \<Rightarrow> preflight \<Rightarrow> (world, auto_install) state" where
  "autoInstallMissingBinaries m result =
     install_each m (missingBinaries result) \<lparr>ai_attempted = [], ai_installed = [], ai_failed = []\<rparr>"

text \<open>\<open>Number(part)\<close> for a part of a version: \<open>None\<close> is \<open>NaN\<close>.\<close>

definition part_number :: "string \<Rightarrow> nat option" where
  "part_number s = (let t = trim s in if list_all is_digit t then Some (read_digits t) else None)"

definition parseVersion :: "string \<Rightarrow> nat option list" where
  "parseVersion version =
     (let t = trim version;
          parts = split_on (CHR ''.'') (if starts_with t ''v'' then tl t else t)
      in map (\<lambda>i. if i < length parts then part_number (parts ! i) else Some 0) [0, 1, 2])"

fun gteVersion :: "nat option list \<Rightarrow> nat option list \<Rightarrow> bool" where
  "gteVersion (Some a # as) (Some b # bs) = (if a > b then True else if a < b then False else gteVersion as bs)"
| "gteVersion (None # as) (b # bs) = gteVersion as bs"
| "gteVersion (a # as) (None # bs) = gteVersion as bs"
| "gteVersion _ _ = True"

definition ref_or :: "quick_config \<Rightarrow> string \<Rightarrow> string \<Rightarrow> string" where
  "ref_or c k d = (case map_of (qc_refs c) k of None \<Rightarrow> d | Some n \<Rightarrow> n)"

definition requiredSecrets :: "quick_config \<Rightarrow> string list" where
  "requiredSecrets c =
     set_of (filter (\<lambda>n. n \<noteq> []) (sy_authTokenEnv (qc_sentry c)
         # List.map_filter (map_of (qc_refs c)) [''openclaw_hook_token'', ''slack_bot_token'', ''slack_app_token''])
       @ (if str_includes (oc_authChoice (qc_openclaw c)) ''anthropic'' then [ref_or c ''anthropic_api_key'' ''ANTHROPIC_API_KEY''] else [])
       @ (if str_includes (oc_authChoice (qc_openclaw c)) ''openai'' then [ref_or c ''openai_api_key'' ''OPENAI_API_KEY''] else []))"

definition binary_check :: "machine \<Rightarrow> string \<Rightarrow> (world, check) state" where
  "binary_check m b = do {
     ok \<leftarrow> commandExists m b;
     State_Monad.return \<lparr>ck_name = ''binary_'' @ b, ck_ok = ok,
       ck_details = Some (if ok then b @ '' detected'' else withInstallHint b (b @ '' missing from PATH''))\<rparr> }"

definition node_check :: "machine \<Rightarrow> check" where
  "node_check m = \<lparr>ck_name = ''node_version'', ck_ok = gteVersion (parseVersion (hm_node m)) [Some 22, Some 12, Some 0],
     ck_details = Some (''node='' @ hm_node m @ '' required>=v22.12.0'')\<rparr>"

definition secret_check :: "machine \<Rightarrow> string \<Rightarrow> check" where
  "secret_check m n = \<lparr>ck_name = ''secret_'' @ n, ck_ok = env_set m n,
     ck_details = Some (if env_set m n then n @ '' available'' else n @ '' missing'')\<rparr>"

definition provider_check :: "machine \<Rightarrow> quick_config \<Rightarrow> check list" where
  "provider_check m c =
     (if oc_authChoice (qc_openclaw c) = ''apiKey'' then
        let a = ref_or c ''anthropic_api_key'' ''ANTHROPIC_API_KEY''; p = ref_or c ''openai_api_key'' ''OPENAI_API_KEY''
        in [\<lparr>ck_name = ''secret_apiKey_provider'', ck_ok = env_set m a \<or> env_set m p,
             ck_details = Some (if env_set m a \<or> env_set m p
               then ''Provider API key available ('' @ join '', '' (filter (\<lambda>x. x \<noteq> [])
                      [if env_set m a then a else [], if env_set m p then p else []]) @ '')''
               else ''At least one provider API key is required for authChoice=apiKey. Set '' @ a @ '' or '' @ p)\<rparr>]
      else [])"

definition runPreflight :: "machine \<Rightarrow> quick_config \<Rightarrow> (world, preflight) state" where
  "runPreflight m c = do {
     hasOpenClaw \<leftarrow> commandExists m ''openclaw'';
     hasClawdbot \<leftarrow> commandExists m ''clawdbot'';
     let binary = (if hasOpenClaw then Some ''openclaw'' else if hasClawdbot then Some ''clawdbot'' else None);
     tools \<leftarrow> each (binary_check m) [''tastekit'', ''claude'', ''codex'', ''tmux'', ''git''];
     State_Monad.return \<lparr>pf_checks =
         \<lparr>ck_name = ''openclaw_binary'', ck_ok = binary \<noteq> None,
          ck_details = Some (case binary of Some b \<Rightarrow> ''Using '' @ b
            | None \<Rightarrow> withInstallHint ''openclaw'' ''Neither openclaw nor clawdbot is installed'')\<rparr>
         # tools @ [node_check m] @ map (secret_check m) (requiredSecrets c) @ provider_check m c,
       pf_binary = binary\<rparr> }"

definition assertPreflight :: "preflight \<Rightarrow> string option" where
  "assertPreflight result =
     (let failing = filter (\<lambda>c. \<not> ck_ok c) (pf_checks result)
      in if failing = [] then None
         else Some (''Preflight failed:'' @ [nl] @ join [nl]
           (map (\<lambda>c. ck_name c @ '': '' @ or_default ''failed'' (ck_details c)) failing)))"

section \<open>Onboarding\<close>

definition AUTH_FLAG_BY_CHOICE :: "(string \<times> string) list" where
  "AUTH_FLAG_BY_CHOICE = [(''anthropic-api-key'', ''--anthropic-api-key''), (''openai-api-key'', ''--openai-api-key''),
     (''gemini-api-key'', ''--gemini-api-key''), (''zai-api-key'', ''--zai-api-key''), (''moonshot-api-key'', ''--moonshot-api-key''),
     (''synthetic-api-key'', ''--synthetic-api-key''), (''ai-gateway-api-key'', ''--ai-gateway-api-key''),
     (''cloudflare-ai-gateway-api-key'', ''--cloudflare-ai-gateway-api-key''), (''opencode-zen'', ''--opencode-zen-api-key''),
     (''custom-api-key'', ''--custom-api-key'')]"

definition flag_refs :: "(string \<times> string) list" where
  "flag_refs = [(''--anthropic-api-key'', ''anthropic_api_key''), (''--openai-api-key'', ''openai_api_key''),
     (''--custom-api-key'', ''custom_api_key''), (''--ai-gateway-api-key'', ''ai_gateway_api_key''),
     (''--cloudflare-ai-gateway-api-key'', ''cloudflare_ai_gateway_api_key''), (''--opencode-zen-api-key'', ''opencode_api_key''),
     (''--gemini-api-key'', ''gemini_api_key''), (''--zai-api-key'', ''zai_api_key''), (''--moonshot-api-key'', ''moonshot_api_key''),
     (''--synthetic-api-key'', ''synthetic_api_key'')]"

text \<open>The value of the environment variable that a credential reference names.\<close>

definition ref_value :: "machine \<Rightarrow> quick_config \<Rightarrow> string \<Rightarrow> string option" where
  "ref_value m c k =
     (case map_of (qc_refs c) k of None \<Rightarrow> None | Some n \<Rightarrow> if n = [] then None else hm_env m n)"

definition resolveAuthFlag :: "machine \<Rightarrow> quick_config \<Rightarrow> (string \<times> string option) option" where
  "resolveAuthFlag m c =
     (let choice = oc_authChoice (qc_openclaw c); set = (\<lambda>k. case ref_value m c k of None \<Rightarrow> False | Some v \<Rightarrow> v \<noteq> [])
      in if choice = ''apiKey'' then
           if set ''anthropic_api_key'' then Some (''--anthropic-api-key'', ref_value m c ''anthropic_api_key'')
           else if set ''openai_api_key'' then Some (''--openai-api-key'', ref_value m c ''openai_api_key'')
           else None
         else (case map_of AUTH_FLAG_BY_CHOICE choice of
             None \<Rightarrow> None
           | Some flag \<Rightarrow> Some (flag, Option.bind (map_of flag_refs flag) (ref_value m c))))"

definition buildOnboardCommand :: "machine \<Rightarrow> quick_config \<Rightarrow> string \<Rightarrow> string option \<Rightarrow> shell_call" where
  "buildOnboardCommand m c binary workspaceOverride = cmd_call binary
     ([''onboard'', ''--non-interactive'', ''--json'', ''--mode'', word_for openclaw_modes (oc_mode (qc_openclaw c)),
       ''--auth-choice'', oc_authChoice (qc_openclaw c), ''--gateway-port'', show_int (oc_gatewayPort (qc_openclaw c)),
       ''--gateway-bind'', word_for gateway_binds (oc_gatewayBind (qc_openclaw c)),
       ''--workspace'', or_default (pj_workspace (qc_project c)) workspaceOverride,
       ''--skip-skills'', ''--install-daemon'', ''--daemon-runtime'', ''node'']
      @ (case resolveAuthFlag m c of
           Some (flag, Some v) \<Rightarrow> if v = [] then [] else [flag, v]
         | _ \<Rightarrow> []))"

definition runOpenClawOnboard :: "machine \<Rightarrow> quick_config \<Rightarrow> string \<Rightarrow> string option \<Rightarrow> (world, string + string) state" where
  "runOpenClawOnboard m c binary workspaceOverride = do {
     r \<leftarrow> runShell m (buildOnboardCommand m c binary workspaceOverride) False;
     State_Monad.return (map_sum id sr_stdout r) }"

section \<open>Hooks\<close>

definition REQUIRED_HOOKS :: "string list" where
  "REQUIRED_HOOKS = [''session-memory'', ''command-logger'', ''boot-md'', ''bootstrap-extra-files'']"

record step_result =
  sp_name :: string
  sp_ok :: bool
  sp_details :: string

definition enable_hook :: "machine \<Rightarrow> string \<Rightarrow> string \<Rightarrow> (world, step_result) state" where
  "enable_hook m binary hook = do {
     r \<leftarrow> runShell m (cmd_call binary [''hooks'', ''enable'', hook]) False;
     State_Monad.return (case r of
         Inr _ \<Rightarrow> \<lparr>sp_name = hook, sp_ok = True, sp_details = ''enabled''\<rparr>
       | Inl e \<Rightarrow> \<lparr>sp_name = hook, sp_ok = False, sp_details = e\<rparr>) }"

definition setupHooks :: "machine \<Rightarrow> string \<Rightarrow> (world, step_result list) state" where
  "setupHooks m binary = each (enable_hook m binary) REQUIRED_HOOKS"

text \<open>A command whose failure is allowed still raises when it cannot be started.\<close>

definition checkHooks :: "machine \<Rightarrow> string \<Rightarrow> (world, string + shell_result) state" where
  "checkHooks m binary = runShell m (cmd_call binary [''hooks'', ''check'']) True"

section \<open>Cron jobs\<close>

definition scheduleIntentToCron :: "rat \<Rightarrow> rat \<Rightarrow> string" where
  "scheduleIntentToCron hour minute =
     show_int (max 0 (min 59 \<lfloor>minute\<rfloor>)) @ '' '' @ show_int (max 0 (min 23 \<lfloor>hour\<rfloor>)) @ '' * * *''"

text \<open>\<open>/name\s*[:=]\s*(.+)$/i\<close> on one line, the captured text trimmed.\<close>

definition cron_tail :: "string \<Rightarrow> string option" where
  "cron_tail r =
     (let x = dropWhile is_ws r
      in if x \<noteq> [] then (if CHR 0x0D \<in> set x then None else Some (trim x))
         else if r \<noteq> [] \<and> last r \<noteq> CHR 0x0D then Some [] else None)"

fun cron_name_line :: "string \<Rightarrow> string option" where
  "cron_name_line [] = None"
| "cron_name_line (x # xs) =
     (case (if to_lower (take 4 (x # xs)) = ''name'' then
              (case dropWhile is_ws (drop 4 (x # xs)) of
                 [] \<Rightarrow> None
               | s # r \<Rightarrow> if s = CHR '':'' \<or> s = CHR ''='' then cron_tail r else None)
            else None) of
        Some n \<Rightarrow> Some n
      | None \<Rightarrow> cron_name_line xs)"

text \<open>The names of the listed jobs. In a list below \<open>jobs\<close>, a \<open>null\<close> raises and the text is scanned as
  lines after all, on top of the names found before.\<close>

definition array_names :: "json list \<Rightarrow> string list" where
  "array_names xs = List.map_filter (\<lambda>j. case jfield ''name'' j of Some (JStr s) \<Rightarrow> Some s | _ \<Rightarrow> None) xs"

fun jobs_names :: "json list \<Rightarrow> string list \<times> bool" where
  "jobs_names [] = ([], False)"
| "jobs_names (JNull # xs) = ([], True)"
| "jobs_names (j # xs) =
     (case jobs_names xs of (ns, raised) \<Rightarrow>
        ((case jfield ''name'' j of Some (JStr s) \<Rightarrow> if s = [] then ns else s # ns | _ \<Rightarrow> ns), raised))"

definition line_names :: "string \<Rightarrow> string list" where
  "line_names raw = List.map_filter cron_name_line (split_on nl raw)"

definition parseCronNames :: "machine \<Rightarrow> string \<Rightarrow> string list" where
  "parseCronNames m raw =
     (case hm_jparse m raw of
        Inl _ \<Rightarrow> line_names raw
      | Inr (JArr xs) \<Rightarrow> array_names xs
      | Inr j \<Rightarrow>
          (case jfield ''jobs'' j of
             Some (JArr xs) \<Rightarrow> (case jobs_names xs of (ns, raised) \<Rightarrow> ns @ (if raised then line_names raw else []))
           | _ \<Rightarrow> []))"

definition listExisting :: "machine \<Rightarrow> string \<Rightarrow> (world, string + string list) state" where
  "listExisting m binary = do {
     r \<leftarrow> runShell m (cmd_call binary [''cron'', ''list'', ''--json'']) True;
     State_Monad.return (case r of
         Inl e \<Rightarrow> Inl e
       | Inr out \<Rightarrow> Inr (if sr_code out \<noteq> 0 then [] else parseCronNames m (sr_stdout out))) }"

record cron_job =
  cj_name :: string
  cj_cron :: string
  cj_message :: string

definition cron_jobs :: "quick_config \<Rightarrow> cron_job list" where
  "cron_jobs c =
     (let window = show_int (cd_stalledCheckWindowMinutes (qc_codingOps c)); restarts = show_int (cd_maxRestartsPerSession (qc_codingOps c))
      in [\<lparr>cj_name = ''quickclaw-nightly-extraction'', cj_cron = mm_nightlyExtractionCron (qc_memory c),
           cj_message = ''Review today's conversations. Extract durable facts, update memory/YYYY-MM-DD.md and MEMORY.md, then summarize critical updates.''\<rparr>,
          \<lparr>cj_name = ''quickclaw-morning-priorities'', cj_cron = mm_dailyCheckinCron (qc_memory c),
           cj_message = ''Generate morning priorities, pending approvals, and high-risk alerts for today.''\<rparr>,
          \<lparr>cj_name = ''quickclaw-ops-monitor'', cj_cron = ''*/30 * * * *'',
           cj_message = ''Check coding sessions, webhook health, and recent errors. Restart stalled coding sessions after ''
             @ window @ ''m with max '' @ restarts @ '' restarts.''\<rparr>,
          \<lparr>cj_name = ''quickclaw-coding-heartbeat'', cj_cron = ''*/15 * * * *'',
           cj_message = ''Run ops/scripts/tmux-heartbeat.sh for active coding sessions. Window='' @ window @ ''m maxRestarts=''
             @ restarts @ ''.''\<rparr>])"

definition add_call :: "string \<Rightarrow> quick_config \<Rightarrow> cron_job \<Rightarrow> shell_call" where
  "add_call binary c j = cmd_call binary [''cron'', ''add'', ''--name'', cj_name j, ''--cron'', cj_cron j,
     ''--tz'', pj_timezone (qc_project c), ''--session'', ''isolated'', ''--message'', cj_message j, ''--no-deliver'']"

definition add_job :: "machine \<Rightarrow> string \<Rightarrow> quick_config \<Rightarrow> string list \<Rightarrow> cron_job \<Rightarrow> (world, step_result) state" where
  "add_job m binary c names j =
     (if cj_name j \<in> set names
      then State_Monad.return \<lparr>sp_name = cj_name j, sp_ok = True, sp_details = ''already exists''\<rparr>
      else do {
        r \<leftarrow> runShell m (add_call binary c j) False;
        State_Monad.return (case r of
            Inr _ \<Rightarrow> \<lparr>sp_name = cj_name j, sp_ok = True, sp_details = ''created''\<rparr>
          | Inl e \<Rightarrow> \<lparr>sp_name = cj_name j, sp_ok = False, sp_details = e\<rparr>) })"

definition setupCronJobs :: "machine \<Rightarrow> string \<Rightarrow> quick_config \<Rightarrow> (world, string + step_result list) state" where
  "setupCronJobs m binary c = do {
     names \<leftarrow> listExisting m binary;
     case names of
       Inl e \<Rightarrow> State_Monad.return (Inl e)
     | Inr ns \<Rightarrow> do { rs \<leftarrow> each (add_job m binary c ns) (cron_jobs c); State_Monad.return (Inr rs) } }"

definition verifyCron :: "machine \<Rightarrow> string \<Rightarrow> (world, string + shell_result) state" where
  "verifyCron m binary = runShell m (cmd_call binary [''cron'', ''list'']) True"

section \<open>The TasteKit bridge\<close>

definition runTasteKitBridge :: "machine \<Rightarrow> segments \<Rightarrow> (world, step_result) state" where
  "runTasteKitBridge m ws = do {
     let exportDir = ws @ [''ops'', ''tastekit-export''];
     on_disk (ensureDir exportDir);
     r \<leftarrow> runShell m \<lparr>sc_command = ''tastekit'', sc_args = [''import'', ''--target'', ''soul-md'', ''--source'', show_path ws],
        sc_cwd = Some ws, sc_input = None\<rparr> False;
     s \<leftarrow> (case r of
         Inl e \<Rightarrow> State_Monad.return (Inl e)
       | Inr _ \<Rightarrow> runShell m \<lparr>sc_command = ''tastekit'', sc_args = [''export'', ''--target'', ''agents-md'', ''--out'', show_path exportDir],
           sc_cwd = Some ws, sc_input = None\<rparr> False);
     State_Monad.return (case s of
         Inr _ \<Rightarrow> \<lparr>sp_name = ''tastekit_bridge'', sp_ok = True, sp_details = ''TasteKit bridge complete: '' @ show_path exportDir\<rparr>
       | Inl e \<Rightarrow> \<lparr>sp_name = ''tastekit_bridge'', sp_ok = False, sp_details = ''TasteKit bridge skipped: '' @ e\<rparr>) }"

section \<open>Reports\<close>

definition check_json :: "check \<Rightarrow> json" where
  "check_json c = obj_of [(''name'', Some (JStr (ck_name c))), (''ok'', Some (JBool (ck_ok c))),
     (''details'', map_option JStr (ck_details c))]"

definition ensureQuickClawDir :: "segments \<Rightarrow> (world, segments) state" where
  "ensureQuickClawDir ws = do { on_disk (ensureDir (ws @ [''.quickclaw''])); State_Monad.return (ws @ [''.quickclaw'']) }"

definition write_report :: "machine \<Rightarrow> segments \<Rightarrow> string \<Rightarrow> json \<Rightarrow> (world, segments) state" where
  "write_report m ws name report = do {
     dir \<leftarrow> ensureQuickClawDir ws;
     on_disk (put_file (dir @ [name]) (hm_stringify m report));
     State_Monad.return (dir @ [name]) }"

definition report_json :: "string \<Rightarrow> segments \<Rightarrow> (string \<times> json option) list \<Rightarrow> json" where
  "report_json now ws entries = obj_of ([(''version'', Some (JStr ''quickclaw-report.v1'')), (''generatedAt'', Some (JStr now)),
     (''workspace'', Some (JStr (show_path ws)))] @ entries)"

section \<open>Which cron jobs are added\<close>

lemma runShell_calls: "run_state (runShell m c b) w = (r, w') \<Longrightarrow> wd_calls w' = wd_calls w @ [c]"
  using runShell_world [of m c b w] by simp

lemma add_jobs_calls:
  "run_state (each (add_job m b c names) js) w = (rs, w') \<Longrightarrow>
     wd_calls w' = wd_calls w @ map (add_call b c) (filter (\<lambda>j. cj_name j \<notin> set names) js)
     \<and> map sp_name rs = map cj_name js
     \<and> list_all2 (\<lambda>j r. cj_name j \<in> set names \<longrightarrow> sp_ok r \<and> sp_details r = ''already exists'') js rs"
proof (induction js arbitrary: w rs)
  case (Cons j js)
  obtain r w1 where r: "run_state (add_job m b c names j) w = (r, w1)" by (rule prod.exhaust)
  obtain rs' where rs': "run_state (each (add_job m b c names) js) w1 = (rs', w')" "rs = r # rs'"
    using Cons.prems r by (auto split: prod.splits)
  have "wd_calls w1 = wd_calls w @ (if cj_name j \<in> set names then [] else [add_call b c j]) \<and> sp_name r = cj_name j
      \<and> (cj_name j \<in> set names \<longrightarrow> sp_ok r \<and> sp_details r = ''already exists'')"
  proof (cases "cj_name j \<in> set names")
    case True
    with r show ?thesis by (auto simp: add_job_def)
  next
    case False
    with r obtain out where "run_state (runShell m (add_call b c j) False) w = (out, w1)" "sp_name r = cj_name j"
      by (auto simp: add_job_def split: prod.splits sum.splits)
    with False runShell_calls show ?thesis by simp
  qed
  with Cons.IH [OF rs'(1)] rs'(2) show ?case by simp
qed simp

text \<open>
  Cron jobs are added once. When the listing of the jobs can be run, exactly the jobs whose names it does
  not show are added, in the order of the table, each with its schedule and time zone; the listed
  ones are reported as existing and not touched. A listing that exits with an error counts as empty,
  and all jobs are added again.
\<close>

theorem cron_adds_missing:
  assumes spawn: "hm_spawn m w (cmd_call b [''cron'', ''list'', ''--json'']) = (Closed code out err, d)"
    and names: "names = (if code = None \<or> code = Some 0 then parseCronNames m out else [])"
    and run: "run_state (setupCronJobs m b c) w = (result, w')"
  shows "\<exists>rs. result = Inr rs
     \<and> wd_calls w' = wd_calls w @ cmd_call b [''cron'', ''list'', ''--json'']
          # map (add_call b c) (filter (\<lambda>j. cj_name j \<notin> set names) (cron_jobs c))
     \<and> map sp_name rs = map cj_name (cron_jobs c)
     \<and> list_all2 (\<lambda>j r. cj_name j \<in> set names \<longrightarrow> sp_ok r \<and> sp_details r = ''already exists'') (cron_jobs c) rs"
proof -
  have list: "run_state (listExisting m b) w = (Inr names, w\<lparr>wd_disk := d, wd_calls := wd_calls w @ [cmd_call b [''cron'', ''list'', ''--json'']]\<rparr>)"
    by (simp add: listExisting_def runShell_def shell_outcome_def spawn names Let_def split: option.split)
  obtain rs w2 where w2: "run_state (each (add_job m b c names) (cron_jobs c))
      (w\<lparr>wd_disk := d, wd_calls := wd_calls w @ [cmd_call b [''cron'', ''list'', ''--json'']]\<rparr>) = (rs, w2)"
    by (rule prod.exhaust)
  have "result = Inr rs \<and> w' = w2" using run list w2 by (simp add: setupCronJobs_def)
  with add_jobs_calls [OF w2] show ?thesis by simp
qed

theorem cron_adds_missing_witness:
  "let m = blank_machine\<lparr>hm_spawn := (\<lambda>w c. (Closed (Some 0) ''[]'' [], wd_disk w)),
         hm_jparse := (\<lambda>_. Inr (JArr [JObj [(''name'', JStr ''quickclaw-nightly-extraction'')]]))\<rparr>
   in map (\<lambda>k. sc_args k ! 3) (tl (wd_calls (snd (run_state (setupCronJobs m ''openclaw'' (default_config blank_machine)) blank_world))))
      = [''quickclaw-morning-priorities'', ''quickclaw-ops-monitor'', ''quickclaw-coding-heartbeat'']"
proof -
  let ?m = "blank_machine\<lparr>hm_spawn := (\<lambda>w c. (Closed (Some 0) ''[]'' [], wd_disk w)),
         hm_jparse := (\<lambda>_. Inr (JArr [JObj [(''name'', JStr ''quickclaw-nightly-extraction'')]]))\<rparr>"
  have spawn: "hm_spawn ?m blank_world (cmd_call ''openclaw'' [''cron'', ''list'', ''--json'']) = (Closed (Some 0) ''[]'' [], wd_disk blank_world)"
    by simp
  have names: "[''quickclaw-nightly-extraction''] = (if Some 0 = None \<or> Some 0 = Some (0 :: int) then parseCronNames ?m ''[]'' else [])"
    by (simp add: parseCronNames_def array_names_def List.map_filter_def)
  from cron_adds_missing [OF spawn names prod.collapse [symmetric], of "default_config blank_machine"]
  show ?thesis by (auto simp: Let_def blank_world_def cron_jobs_def add_call_def cmd_call_def)
qed

end
