(* ===== verification/QuickOps.thy ===== *)
theory QuickOps
  imports QuickConfig
begin

text \<open>
  QuickClaw, src/core/ops: the scripts of coding.ts and the alert pipeline of sentry.ts, with its patch
  of the global OpenClaw configuration and its requests to the Sentry service. A script is given by
  its lines. File modes are not part of the disk.
\<close>

section \<open>Coding scripts\<close>

definition backslash :: string where
  "backslash = [CHR 0x5C]"

definition create_worktree_script :: "quick_config \<Rightarrow> string" where
  \<open>create_worktree_script c = join [nl] [
       ''#!/usr/bin/env bash'',
       ''set -euo pipefail'',
       [],
       ''if [[ $# -lt 2 ]]; then'',
       ''  echo "Usage: $0 <repo> <scope> [base]"'',
       ''  exit 1'',
       ''fi'',
       [],
       ''REPO="$1"'',
       ''SCOPE="$2"'',
       ''BASE="${3:-main}"'',
       ''ROOT="'' @ cd_worktreeRoot (qc_codingOps c) @ ''"'',
       ''BRANCH="codex/${SCOPE}"'',
       ''PATH_OUT="${ROOT}/${SCOPE}"'',
       [],
       ''mkdir -p "${ROOT}"'',
       [],
       ''git -C "${REPO}" worktree add -b "${BRANCH}" "${PATH_OUT}" "${BASE}"'',
       ''echo "Created ${PATH_OUT}"'',
       []]\<close>

definition ralph_loop_script :: "string" where
  \<open>ralph_loop_script = join [nl] [
       ''#!/usr/bin/env bash'',
       ''set -euo pipefail'',
       [],
       ''if [[ $# -lt 2 ]]; then'',
       ''  echo "Usage: $0 <prd_file> <workdir>"'',
       ''  exit 1'',
       ''fi'',
       [],
       ''PRD="$1"'',
       ''WORKDIR="$2"'',
       ''MAX_RUNS="${MAX_RUNS:-20}"'',
       ''SLEEP_SECS="${SLEEP_SECS:-3}"'',
       [],
       ''for ((i=1; i<=MAX_RUNS; i++)); do'',
       ''  echo "[ralph-loop] run $i/$MAX_RUNS"'',
       ''  (cd "$WORKDIR" && codex exec --json --skip-git-repo-check - "Implement remaining items in $PRD. Write failing tests first, then make tests pass.") || true'',
       [],
       ''  if ! rg -q "^- [ ]" "$PRD"; then'',
       ''    echo "[ralph-loop] All checklist items complete"'',
       ''    exit 0'',
       ''  fi'',
       [],
       ''  sleep "$SLEEP_SECS"'',
       ''done'',
       [],
       ''echo "[ralph-loop] max runs reached without completion"'',
       ''exit 1'',
       []]\<close>

definition verify_checklist_script :: "string" where
  \<open>verify_checklist_script = join [nl] [
       ''#!/usr/bin/env bash'',
       ''set -euo pipefail'',
       [],
       ''if [[ $# -lt 1 ]]; then'',
       ''  echo "Usage: $0 <prd_file>"'',
       ''  exit 1'',
       ''fi'',
       [],
       ''PRD="$1"'',
       ''if rg -q "^- '' @ backslash @ ''[ '' @ backslash @ '']" "$PRD"; then'',
       ''  echo "[verify-prd] unchecked tasks remain in $PRD"'',
       ''  rg "^- '' @ backslash @ ''[ '' @ backslash @ '']" "$PRD" || true'',
       ''  exit 2'',
       ''fi'',
       [],
       ''echo "[verify-prd] all checklist items complete"'',
       []]\<close>

definition health_check_script :: "quick_config \<Rightarrow> string" where
  \<open>health_check_script c = join [nl] [
       ''#!/usr/bin/env bash'',
       ''set -euo pipefail'',
       [],
       ''SOCKET="'' @ cd_tmuxSocket (qc_codingOps c) @ ''"'',
       ''SESSION="$1"'',
       [],
       ''if ! tmux -S "$SOCKET" has-session -t "$SESSION" 2>/dev/null; then'',
       ''  echo "dead"'',
       ''  exit 2'',
       ''fi'',
       [],
       ''OUT="$(tmux -S "$SOCKET" capture-pane -p -J -t "$SESSION":0.0 -S -40)"'',
       ''echo "$OUT"'',
       []]\<close>

definition notify_script :: "string" where
  \<open>notify_script = join [nl] [
       ''#!/usr/bin/env bash'',
       ''set -euo pipefail'',
       [],
       ''MESSAGE="${1:-Ralph loop finished}"'',
       ''if command -v openclaw >/dev/null 2>&1; then'',
       ''  openclaw system event --text "$MESSAGE" --mode now || true'',
       ''else'',
       ''  echo "$MESSAGE"'',
       ''fi'',
       []]\<close>

definition heartbeat_script :: "quick_config \<Rightarrow> string" where
  \<open>heartbeat_script c = join [nl] [
       ''#!/usr/bin/env bash'',
       ''set -euo pipefail'',
       [],
       ''if [[ $# -lt 2 ]]; then'',
       ''  echo "Usage: $0 <session> <restart_command>"'',
       ''  exit 1'',
       ''fi'',
       [],
       ''SOCKET="'' @ cd_tmuxSocket (qc_codingOps c) @ ''"'',
       ''SESSION="$1"'',
       ''RESTART_CMD="$2"'',
       ''WINDOW_MINS="'' @ show_int (cd_stalledCheckWindowMinutes (qc_codingOps c)) @ ''"'',
       ''MAX_RESTARTS="'' @ show_int (cd_maxRestartsPerSession (qc_codingOps c)) @ ''"'',
       ''STATE_DIR="${TMPDIR:-/tmp}/quickclaw-heartbeat"'',
       ''STATE_FILE="$STATE_DIR/$SESSION.state"'',
       ''NOW_EPOCH="$(date +%s)"'',
       ''mkdir -p "$STATE_DIR"'',
       [],
       ''touch "$STATE_FILE"'',
       ''IFS='|' read -r LAST_HASH LAST_STALE_SINCE LAST_RESTARTS < "$STATE_FILE" || true'',
       ''LAST_HASH="${LAST_HASH:-}"'',
       ''LAST_STALE_SINCE="${LAST_STALE_SINCE:-0}"'',
       ''LAST_RESTARTS="${LAST_RESTARTS:-0}"'',
       [],
       ''if ! tmux -S "$SOCKET" has-session -t "$SESSION" 2>/dev/null; then'',
       ''  if (( LAST_RESTARTS >= MAX_RESTARTS )); then'',
       ''    echo "[heartbeat] session $SESSION dead and restart budget exhausted"'',
       ''    exit 3'',
       ''  fi'',
       ''  tmux -S "$SOCKET" new -d -s "$SESSION" "$RESTART_CMD"'',
       ''  echo "dead|$NOW_EPOCH|$((LAST_RESTARTS + 1))" > "$STATE_FILE"'',
       ''  echo "[heartbeat] restarted dead session $SESSION"'',
       ''  exit 0'',
       ''fi'',
       [],
       ''OUT="$(tmux -S "$SOCKET" capture-pane -p -J -t "$SESSION":0.0 -S -120)"'',
       ''HASH="$(printf '%s' "$OUT" | shasum | awk '{print $1}')"'',
       ''if [[ "$HASH" == "$LAST_HASH" ]]; then'',
       ''  STALE_SINCE="$LAST_STALE_SINCE"'',
       ''  if [[ "$STALE_SINCE" == "0" ]]; then'',
       ''    STALE_SINCE="$NOW_EPOCH"'',
       ''  fi'',
       ''  ELAPSED_MINS=$(( (NOW_EPOCH - STALE_SINCE) / 60 ))'',
       ''  if (( ELAPSED_MINS < WINDOW_MINS )); then'',
       ''    echo "$HASH|$STALE_SINCE|$LAST_RESTARTS" > "$STATE_FILE"'',
       ''    echo "[heartbeat] unchanged output for $ELAPSED_MINS min (<$WINDOW_MINS), no restart"'',
       ''    exit 0'',
       ''  fi'',
       ''  if (( LAST_RESTARTS >= MAX_RESTARTS )); then'',
       ''    echo "[heartbeat] stalled session $SESSION and restart budget exhausted"'',
       ''    exit 4'',
       ''  fi'',
       ''  tmux -S "$SOCKET" kill-session -t "$SESSION" || true'',
       ''  tmux -S "$SOCKET" new -d -s "$SESSION" "$RESTART_CMD"'',
       ''  echo "$HASH|$NOW_EPOCH|$((LAST_RESTARTS + 1))" > "$STATE_FILE"'',
       ''  echo "[heartbeat] restarted stalled session $SESSION (window=$WINDOW_MINS min)"'',
       ''  exit 0'',
       ''fi'',
       [],
       ''echo "$HASH|0|$LAST_RESTARTS" > "$STATE_FILE"'',
       ''echo "[heartbeat] healthy session $SESSION"'',
       []]\<close>

definition wake_session_script :: "string" where
  \<open>wake_session_script = join [nl] [
       ''#!/usr/bin/env bash'',
       ''set -euo pipefail'',
       [],
       ''MESSAGE="${1:-Coding session requires attention}"'',
       ''if command -v openclaw >/dev/null 2>&1; then'',
       ''  openclaw system event --text "$MESSAGE" --mode now || true'',
       ''elif command -v clawdbot >/dev/null 2>&1; then'',
       ''  clawdbot system event --text "$MESSAGE" --mode now || true'',
       ''else'',
       ''  echo "[wake-coding-session] $MESSAGE"'',
       ''fi'',
       []]\<close>

definition nightly_extract_script :: "string" where
  \<open>nightly_extract_script = join [nl] [
       ''#!/usr/bin/env bash'',
       ''set -euo pipefail'',
       [],
       ''WORKSPACE="${1:-$(pwd)}"'',
       ''TODAY="$(date +%F)"'',
       ''TARGET="$WORKSPACE/memory/$TODAY.md"'',
       ''mkdir -p "$(dirname "$TARGET")"'',
       [],
       ''{'',
       ''  echo "# $TODAY"'',
       ''  echo'',
       ''  echo "## Nightly Extraction"'',
       ''  echo "- Review today's conversations and extract durable facts."'',
       ''  echo "- Update MEMORY.md with stable preferences, rules, and trust boundaries."'',
       ''  echo "- Keep transient chatter out of long-term memory."'',
       ''} >> "$TARGET"'',
       [],
       ''echo "[nightly-memory] updated $TARGET"'',
       []]\<close>


definition scripts_dir :: "segments \<Rightarrow> segments" where
  "scripts_dir ws = ws @ [''ops'', ''scripts'']"

definition coding_scripts :: "quick_config \<Rightarrow> (string \<times> string) list" where
  "coding_scripts c =
     [(''create-worktree.sh'', create_worktree_script c), (''ralph-loop.sh'', ralph_loop_script),
      (''verify-prd-checklist.sh'', verify_checklist_script), (''tmux-health-check.sh'', health_check_script c),
      (''notify-complete.sh'', notify_script), (''tmux-heartbeat.sh'', heartbeat_script c),
      (''wake-coding-session.sh'', wake_session_script), (''nightly-memory-extract.sh'', nightly_extract_script)]"

definition setupCodingOps :: "segments \<Rightarrow> quick_config \<Rightarrow> (world, segments list) state" where
  "setupCodingOps ws c = do {
     on_disk (ensureDir (scripts_dir ws));
     each (\<lambda>(n, t). on_disk (put_file (scripts_dir ws @ [n]) t)) (coding_scripts c);
     State_Monad.return (map (\<lambda>(n, t). scripts_dir ws @ [n]) (coding_scripts c)) }"

section \<open>The OpenClaw configuration\<close>

definition sentryTransformModuleSource :: "string \<Rightarrow> sentry_mode \<Rightarrow> string" where
  \<open>sentryTransformModuleSource channel md = join [nl] [
       [],
       ''function normalize(payload) {'',
       ''  const data = (payload && payload.data) || {};'',
       ''  const title = typeof data.title === 'string' ? data.title : 'Sentry alert';'',
       ''  const culprit = typeof data.culprit === 'string' ? data.culprit : 'unknown culprit';'',
       ''  const level = typeof data.level === 'string' ? data.level : 'error';'',
       ''  const issueId = typeof data.id === 'string' ? data.id : 'unknown';'',
       [],
       ''  return {'',
       ''    name: 'Sentry','',
       ''    wakeMode: 'now','',
       ''    deliver: true,'',
       ''    channel: 'slack','',
       ''    to: '' @ [CHR 0x27] @ channel @ [CHR 0x27] @ '','',
       ''    message: ['',
       ''      'Sentry alert received (level=' + level + ')','',
       ''      'Issue ID: ' + issueId,'',
       ''      'Title: ' + title,'',
       ''      'Culprit: ' + culprit,'',
       ''      'Mode: '' @ word_for sentry_modes md @ [CHR 0x27] @ '','',
       ''      'Apply triage policy: auto-fix low-risk code defects; escalate architecture/security/uncertain cases.','',
       ''      'If auto-fixing: create isolated worktree, write failing tests first, implement fix, run tests+linter, open PR, notify human.'' @ [CHR 0x27],
       ''    ].join('' @ [CHR 0x27] @ backslash @ ''n')'',
       ''  };'',
       ''}'',
       [],
       ''module.exports = normalize;'',
       ''module.exports.default = normalize;'',
       []]\<close>

definition resolveIssueScriptSource :: "string" where
  \<open>resolveIssueScriptSource = join [nl] [
       ''#!/usr/bin/env bash'',
       ''set -euo pipefail'',
       [],
       ''if [[ $# -lt 1 ]]; then'',
       ''  echo "Usage: $0 <issue_id> [status]"'',
       ''  exit 1'',
       ''fi'',
       [],
       ''if [[ -z "${SENTRY_AUTH_TOKEN:-}" ]]; then'',
       ''  echo "SENTRY_AUTH_TOKEN is required"'',
       ''  exit 1'',
       ''fi'',
       [],
       ''ISSUE_ID="$1"'',
       ''STATUS="${2:-resolved}"'',
       [],
       ''curl -sS -X PUT "https://sentry.io/api/0/issues/$ISSUE_ID/"   -H "Authorization: Bearer $SENTRY_AUTH_TOKEN"   -H "Content-Type: application/json"   -d "{'' @ backslash @ ''"status'' @ backslash @ ''": '' @ backslash @ ''"$STATUS'' @ backslash @ ''"}"'',
       []]\<close>

definition resolveOpenClawConfigPath :: "machine \<Rightarrow> segments" where
  "resolveOpenClawConfigPath m =
     (case hm_env m ''OPENCLAW_CONFIG'' of
        Some p \<Rightarrow> if trim p \<noteq> [] then resolve_path (hm_cwd m) p else hm_home m @ [''.openclaw'', ''openclaw.json'']
      | None \<Rightarrow> hm_home m @ [''.openclaw'', ''openclaw.json''])"

definition loadOpenClawConfig :: "machine \<Rightarrow> disk \<Rightarrow> segments \<Rightarrow> json" where
  "loadOpenClawConfig m d p =
     (case read_file d p of
        None \<Rightarrow> JObj []
      | Some raw \<Rightarrow> (case hm_jparse m raw of Inl _ \<Rightarrow> JObj [] | Inr j \<Rightarrow> j))"

definition text_field :: "string \<Rightarrow> json \<Rightarrow> string \<Rightarrow> string" where
  "text_field k j d = (case jfield k j of Some (JStr s) \<Rightarrow> s | _ \<Rightarrow> d)"

definition transformSentryPayload :: "json \<Rightarrow> sentry_mode \<Rightarrow> json" where
  "transformSentryPayload payload md =
     (let issue = (case jfield ''data'' payload of None \<Rightarrow> JObj [] | Some JNull \<Rightarrow> JObj [] | Some j \<Rightarrow> j)
      in JObj [(''name'', JStr ''Sentry''), (''wakeMode'', JStr ''now''), (''deliver'', JBool True), (''channel'', JStr ''slack''),
        (''to'', JStr ''last''),
        (''message'', JStr (join [nl]
          [''Sentry alert received (level='' @ text_field ''level'' issue ''error'' @ '')'',
           ''Issue ID: '' @ text_field ''id'' issue ''unknown'',
           ''Title: '' @ text_field ''title'' issue ''Sentry alert'',
           ''Culprit: '' @ text_field ''culprit'' issue ''unknown culprit'',
           ''Mode: '' @ word_for sentry_modes md,
           ''Apply triage policy: auto-fix low-risk code defects; escalate architecture/security/uncertain cases.'',
           ''If auto-fixing: create isolated worktree, write failing tests first, implement fix, run tests+linter, open PR, notify human.'']))])"

text \<open>\<open>replace(/^\/+/, '')\<close>, and the channel with and without its prefix.\<close>

definition strip_leading_slashes :: "string \<Rightarrow> string" where
  "strip_leading_slashes s = dropWhile (\<lambda>c. c = CHR ''/'') s"

definition slack_channel :: "quick_config \<Rightarrow> string" where
  "slack_channel c =
     (let s = sy_slackChannelId (qc_sentry c) in if starts_with s ''channel:'' then s else ''channel:'' @ s)"

definition createConfigPatch :: "quick_config \<Rightarrow> segments \<Rightarrow> string option \<Rightarrow> string option \<Rightarrow> string option \<Rightarrow> json \<times> (string \<times> json) list" where
  "createConfigPatch c ws appToken botToken hookToken =
     (obj_of [(''slack'', Some (obj_of [(''enabled'', Some (JBool True)), (''mode'', Some (JStr ''socket'')),
         (''appToken'', map_option JStr appToken), (''botToken'', map_option JStr botToken),
         (''groupPolicy'', Some (JStr ''allowlist'')),
         (''channels'', Some (JObj [(drop 8 (slack_channel c),
            JObj [(''enabled'', JBool True), (''requireMention'', JBool False)])]))]))],
      [(''enabled'', JBool True)] @ (case hookToken of None \<Rightarrow> [] | Some t \<Rightarrow> [(''token'', JStr t)])
      @ [(''path'', JStr ''/hooks''), (''transformsDir'', JStr (show_path (ws @ [''ops'', ''hooks'']))),
         (''mappings'', JArr [JObj [(''id'', JStr ''sentry''),
            (''match'', JObj [(''path'', JStr (strip_leading_slashes (sy_webhookPath (qc_sentry c))))]),
            (''transform'', JObj [(''module'', JStr ''sentry-hook/hook-transform.js'')]), (''action'', JStr ''agent'')]])])"

definition patch_json :: "json \<times> (string \<times> json) list \<Rightarrow> json" where
  "patch_json p = JObj [(''channels'', fst p), (''hooks'', JObj (snd p))]"

text \<open>The entries that an object spread takes from a possibly absent value, and the spread of two.\<close>

definition spread :: "json option \<Rightarrow> (string \<times> json) list" where
  "spread j =
     (case j of
        Some (JObj kvs) \<Rightarrow> kvs
      | Some (JArr xs) \<Rightarrow> zip (map show_nat [0..<length xs]) xs
      | Some (JStr s) \<Rightarrow> zip (map show_nat [0..<length s]) (map (\<lambda>c. JStr [c]) s)
      | _ \<Rightarrow> [])"

definition overwrite :: "(string \<times> json) list \<Rightarrow> (string \<times> json) list \<Rightarrow> (string \<times> json) list" where
  "overwrite old new = foldl (\<lambda>o1 (k, v). AList.update k v o1) old new"

definition is_sentry_mapping :: "json \<Rightarrow> bool" where
  "is_sentry_mapping item \<longleftrightarrow> jfield ''id'' item = Some (JStr ''sentry'')"

definition merged_mappings :: "(string \<times> json) list \<Rightarrow> (string \<times> json) list \<Rightarrow> json" where
  "merged_mappings existingHooks patchHooks =
     JArr (filter (\<lambda>i. \<not> is_sentry_mapping i) (case map_of existingHooks ''mappings'' of Some (JArr xs) \<Rightarrow> xs | _ \<Rightarrow> [])
       @ (case map_of patchHooks ''mappings'' of Some (JArr xs) \<Rightarrow> xs | _ \<Rightarrow> []))"

text \<open>The patch applied to a loaded configuration. A value that is no object raises, except an array,
  whose printed form has no properties.\<close>

definition apply_patch :: "json \<times> (string \<times> json) list \<Rightarrow> json \<Rightarrow> json option" where
  "apply_patch p ocConfig =
     (case ocConfig of
        JObj kvs \<Rightarrow>
          let existingHooks = spread (map_of kvs ''hooks'');
              channels = JObj (overwrite (spread (map_of kvs ''channels'')) (spread (Some (fst p))));
              hooks = JObj (AList.update ''mappings'' (merged_mappings existingHooks (snd p)) (overwrite existingHooks (snd p)))
          in Some (JObj (AList.update ''hooks'' hooks (AList.update ''channels'' channels kvs)))
      | JArr xs \<Rightarrow> Some (JArr xs)
      | _ \<Rightarrow> None)"

section \<open>The Sentry service\<close>

definition sentryApiRequest :: "machine \<Rightarrow> string \<Rightarrow> string \<Rightarrow> string \<Rightarrow> json option \<Rightarrow> (world, string + json) state" where
  "sentryApiRequest m token verb url body = do {
     r \<leftarrow> send m \<lparr>rq_method = verb, rq_url = url, rq_token = token, rq_body = body\<rparr>;
     State_Monad.return (case r of
         Inl e \<Rightarrow> Inl e
       | Inr response \<Rightarrow>
           if \<not> rp_ok response
           then Inl (''Sentry API '' @ show_int (rp_status response) @ '' '' @ url @ '': '' @ rp_text response)
           else rp_json response) }"

definition project_url :: "sentry_config \<Rightarrow> string \<Rightarrow> string" where
  "project_url y rest = ''https://sentry.io/api/0/projects/'' @ sy_org y @ ''/'' @ sy_project y @ ''/'' @ rest"

definition validateSentryProject :: "machine \<Rightarrow> string \<Rightarrow> sentry_config \<Rightarrow> (world, string + json) state" where
  "validateSentryProject m token y = sentryApiRequest m token ''GET'' (project_url y []) None"

definition rule_name :: string where
  "rule_name = ''QuickClaw AutoFix Alerts''"

definition alert_rule :: "string \<Rightarrow> json" where
  "alert_rule channel = JObj [(''name'', JStr rule_name), (''actionMatch'', JStr ''any''), (''filterMatch'', JStr ''all''),
     (''frequency'', JNum 5),
     (''conditions'', JArr [JObj [(''id'', JStr ''sentry.rules.conditions.first_seen_event.FirstSeenEventCondition'')]]),
     (''filters'', JArr [JObj [(''id'', JStr ''sentry.rules.filters.level.LevelFilter''), (''level'', JStr ''40'')]]),
     (''actions'', JArr [JObj [(''id'', JStr ''sentry.rules.actions.notify_event_service.NotifyEventServiceAction''),
        (''service'', JStr ''slack''), (''channel'', JStr channel)]])]"

text \<open>\<open>rules.find\<close> by name: \<open>None\<close> where it raises, on a \<open>null\<close> before the match or on no list.\<close>

fun has_rule :: "json list \<Rightarrow> bool option" where
  "has_rule [] = Some False"
| "has_rule (JNull # rs) = None"
| "has_rule (r # rs) = (if jfield ''name'' r = Some (JStr rule_name) then Some True else has_rule rs)"

definition ensureAlertRule :: "machine \<Rightarrow> string \<Rightarrow> sentry_config \<Rightarrow> string \<Rightarrow> (world, string + unit) state" where
  "ensureAlertRule m token y channel = do {
     rules \<leftarrow> sentryApiRequest m token ''GET'' (project_url y ''rules/'') None;
     case rules of
       Inl e \<Rightarrow> State_Monad.return (Inl e)
     | Inr j \<Rightarrow>
         (case (case j of JArr rs \<Rightarrow> has_rule rs | _ \<Rightarrow> None) of
            None \<Rightarrow> State_Monad.return (Inl ''rules.find is not a function'')
          | Some True \<Rightarrow> State_Monad.return (Inr ())
          | Some False \<Rightarrow> do {
              created \<leftarrow> sentryApiRequest m token ''POST'' (project_url y ''rules/'') (Some (alert_rule channel));
              State_Monad.return (map_sum id (\<lambda>_. ()) created) }) }"

definition smokeTestWebhook :: "machine \<Rightarrow> quick_config \<Rightarrow> string \<Rightarrow> (world, string + bool) state" where
  "smokeTestWebhook m c hookToken = do {
     r \<leftarrow> send m \<lparr>rq_method = ''POST'',
        rq_url = ''http://127.0.0.1:'' @ show_int (oc_gatewayPort (qc_openclaw c)) @ ''/hooks/''
          @ strip_leading_slashes (sy_webhookPath (qc_sentry c)),
        rq_token = hookToken,
        rq_body = Some (JObj [(''source'', JStr ''sentry''), (''data'', JObj [(''id'', JStr ''quickclaw-smoke-test''),
          (''title'', JStr ''QuickClaw webhook smoke test''), (''culprit'', JStr ''quickclaw/smoke''), (''level'', JStr ''error'')])])\<rparr>;
     State_Monad.return (map_sum id rp_ok r) }"

section \<open>The pipeline\<close>

record sentry_result =
  st_configPath :: "segments option"
  st_patchPath :: "segments option"
  st_transformPath :: segments
  st_apiValidated :: bool
  st_alertRule :: bool
  st_smokeTest :: bool
  st_blocked :: bool
  st_warnings :: "string list"
  st_details :: "string list"

definition set_env :: "machine \<Rightarrow> string \<Rightarrow> string option" where
  "set_env m n = (case hm_env m n of None \<Rightarrow> None | Some v \<Rightarrow> if v = [] then None else Some v)"

definition env_ref :: "machine \<Rightarrow> quick_config \<Rightarrow> string \<Rightarrow> string \<Rightarrow> string option" where
  "env_ref m c k d = hm_env m (or_default d (map_of (qc_refs c) k))"

definition patch_path :: "segments \<Rightarrow> segments" where
  "patch_path ws = ws @ [''.quickclaw'', ''openclaw.config.patch.json'']"

definition blocked_warning :: "segments \<Rightarrow> string" where
  "blocked_warning ws = ''Global OpenClaw config writes are disabled by policy. Apply '' @ show_path (patch_path ws)
     @ '' on target host or set automation.allowGlobalConfigWrites=true.''"

text \<open>The patch goes into the global configuration, or into a file of the workspace when the policy
  blocks that; \<open>None\<close> where the global file holds no object.\<close>

definition install_patch :: "machine \<Rightarrow> segments \<Rightarrow> quick_config \<Rightarrow> json \<times> (string \<times> json) list \<Rightarrow> (world, (string list \<times> string list) option) state" where
  "install_patch m ws c p =
     (let configPath = resolveOpenClawConfigPath m
      in if am_allowGlobalConfigWrites (qc_automation c) then do {
           d \<leftarrow> get_disk;
           case apply_patch p (loadOpenClawConfig m d configPath) of
             None \<Rightarrow> State_Monad.return None
           | Some j \<Rightarrow> do {
               on_disk (writeFileSafe configPath (hm_stringify m j));
               State_Monad.return (Some ([], [''Updated OpenClaw config at '' @ show_path configPath])) } }
         else do {
           on_disk (writeFileSafe (patch_path ws) (hm_stringify m (patch_json p)));
           State_Monad.return (Some ([blocked_warning ws], [blocked_warning ws])) })"

definition sentry_api_steps :: "machine \<Rightarrow> quick_config \<Rightarrow> (world, bool \<times> bool \<times> string list) state" where
  "sentry_api_steps m c =
     (let y = qc_sentry c
      in case set_env m (sy_authTokenEnv y) of
           None \<Rightarrow> State_Monad.return (False, False, [''Missing '' @ sy_authTokenEnv y @ ''; Sentry API setup skipped''])
         | Some token \<Rightarrow> do {
             v \<leftarrow> validateSentryProject m token y;
             case v of
               Inl e \<Rightarrow> State_Monad.return (False, False, [''Sentry project validation failed: '' @ e])
             | Inr _ \<Rightarrow> do {
                 a \<leftarrow> ensureAlertRule m token y (slack_channel c);
                 State_Monad.return (True, succeeded a, [''Validated Sentry project access'',
                   case a of Inl e \<Rightarrow> ''Sentry alert rule configuration failed: '' @ e
                   | Inr _ \<Rightarrow> ''Sentry alert rule configured or already present'']) } })"

definition smoke_steps :: "machine \<Rightarrow> quick_config \<Rightarrow> (world, bool \<times> string) state" where
  "smoke_steps m c =
     (let hookTokenEnv = or_default ''OPENCLAW_HOOKS_TOKEN'' (map_of (qc_refs c) ''openclaw_hook_token'')
      in if \<not> am_allowGlobalConfigWrites (qc_automation c)
         then State_Monad.return (False, ''Webhook smoke test skipped because global OpenClaw config writes are blocked by policy'')
         else (case set_env m hookTokenEnv of
             None \<Rightarrow> State_Monad.return (False, ''Missing '' @ hookTokenEnv @ ''; webhook smoke test skipped'')
           | Some token \<Rightarrow> do {
               r \<leftarrow> smokeTestWebhook m c token;
               State_Monad.return (case r of
                   Inl e \<Rightarrow> (False, ''Webhook smoke test error: '' @ e)
                 | Inr ok \<Rightarrow> (ok, ''Webhook smoke test '' @ (if ok then ''passed'' else ''failed''))) }))"

definition transform_path :: "segments \<Rightarrow> segments" where
  "transform_path ws = ws @ [''ops'', ''hooks'', ''sentry-hook'', ''hook-transform.js'']"

definition resolve_issue_path :: "segments \<Rightarrow> segments" where
  "resolve_issue_path ws = ws @ [''ops'', ''sentry'', ''resolve-sentry-issue.sh'']"

definition setupSentryPipeline :: "machine \<Rightarrow> segments \<Rightarrow> quick_config \<Rightarrow> (world, string + sentry_result) state" where
  "setupSentryPipeline m ws c = do {
     let allowed = am_allowGlobalConfigWrites (qc_automation c);
     i \<leftarrow> install_patch m ws c (createConfigPatch c ws (env_ref m c ''slack_app_token'' ''SLACK_APP_TOKEN'')
         (env_ref m c ''slack_bot_token'' ''SLACK_BOT_TOKEN'') (env_ref m c ''openclaw_hook_token'' ''OPENCLAW_HOOKS_TOKEN''));
     case i of
       None \<Rightarrow> State_Monad.return (Inl ''OpenClaw config is not an object'')
     | Some (warnings, details) \<Rightarrow> do {
         on_disk (writeFileSafe (transform_path ws) (sentryTransformModuleSource (slack_channel c) (sy_mode (qc_sentry c))));
         on_disk (writeFileSafe (resolve_issue_path ws) resolveIssueScriptSource);
         api \<leftarrow> sentry_api_steps m c;
         smoke \<leftarrow> smoke_steps m c;
         State_Monad.return (Inr \<lparr>
           st_configPath = (if allowed then Some (resolveOpenClawConfigPath m) else None),
           st_patchPath = (if allowed then None else Some (patch_path ws)),
           st_transformPath = transform_path ws, st_apiValidated = fst api, st_alertRule = fst (snd api),
           st_smokeTest = fst smoke, st_blocked = \<not> allowed, st_warnings = warnings,
           st_details = details @ [''Wrote transform module '' @ show_path (transform_path ws),
             ''Wrote issue resolution helper '' @ show_path (resolve_issue_path ws)] @ snd (snd api) @ [snd smoke]\<rparr>) } }"

definition verifySentryEndpoint :: "machine \<Rightarrow> quick_config \<Rightarrow> (world, bool \<times> string) state" where
  "verifySentryEndpoint m c =
     (let hookTokenEnv = or_default ''OPENCLAW_HOOKS_TOKEN'' (map_of (qc_refs c) ''openclaw_hook_token'')
      in case set_env m hookTokenEnv of
           None \<Rightarrow> State_Monad.return (False, ''Missing '' @ hookTokenEnv)
         | Some token \<Rightarrow> do {
             r \<leftarrow> smokeTestWebhook m c token;
             State_Monad.return (case r of
                 Inl e \<Rightarrow> (False, e)
               | Inr ok \<Rightarrow> (ok, if ok then ''Sentry webhook route test passed'' else ''Sentry webhook route test failed'')) })"

section \<open>The patch of the global configuration\<close>

lemma overwrite_Nil [simp]: "overwrite old [] = old"
  by (simp add: overwrite_def)

lemma overwrite_snoc [simp]: "overwrite old (new @ [(k, v)]) = AList.update k v (overwrite old new)"
  by (simp add: overwrite_def)

lemma overwrite_lookup: "map_of (overwrite old new) k = (case map_of (rev new) k of None \<Rightarrow> map_of old k | Some v \<Rightarrow> Some v)"
  by (induction new rule: rev_induct) (auto simp: update_conv' split: option.split)

lemma overwrite_same: "\<forall>(k, v) \<in> set new. map_of old k = Some v \<Longrightarrow> overwrite old new = old"
  by (induction new rule: rev_induct) (auto simp: update_triv)

lemma map_of_rev: "distinct (map fst xs) \<Longrightarrow> map_of (rev xs) = map_of xs"
  by (rule map_of_inject_set [THEN iffD2]) (auto simp: rev_map [symmetric])

definition hook_front :: "quick_config \<Rightarrow> segments \<Rightarrow> string option \<Rightarrow> (string \<times> json) list" where
  "hook_front c ws hookToken =
     [(''enabled'', JBool True)] @ (case hookToken of None \<Rightarrow> [] | Some t \<Rightarrow> [(''token'', JStr t)])
      @ [(''path'', JStr ''/hooks''), (''transformsDir'', JStr (show_path (ws @ [''ops'', ''hooks''])))]"

definition sentry_mapping :: "quick_config \<Rightarrow> json" where
  "sentry_mapping c = JObj [(''id'', JStr ''sentry''),
            (''match'', JObj [(''path'', JStr (strip_leading_slashes (sy_webhookPath (qc_sentry c))))]),
            (''transform'', JObj [(''module'', JStr ''sentry-hook/hook-transform.js'')]), (''action'', JStr ''agent'')]"

lemma patch_hooks:
  "snd (createConfigPatch c ws a b h) = hook_front c ws h @ [(''mappings'', JArr [sentry_mapping c])]"
  "distinct (map fst (hook_front c ws h))" "''mappings'' \<notin> fst ` set (hook_front c ws h)" "is_sentry_mapping (sentry_mapping c)"
  by (auto simp: createConfigPatch_def hook_front_def sentry_mapping_def is_sentry_mapping_def split: option.split)

lemma patch_channels: "\<exists>s. fst (createConfigPatch c ws a b h) = JObj [(''slack'', s)]"
  by (simp add: createConfigPatch_def obj_of_def)

definition mappings_of :: "json \<Rightarrow> json list" where
  "mappings_of hooks = (case jfield ''mappings'' hooks of Some (JArr xs) \<Rightarrow> xs | _ \<Rightarrow> [])"

lemma hooks_again:
  assumes new: "new = front @ [(''mappings'', JArr [m])]" "distinct (map fst front)" "''mappings'' \<notin> fst ` set front"
    and m: "is_sentry_mapping m" and hooks: "hooks = AList.update ''mappings'' (merged_mappings old new) (overwrite old new)"
  shows "AList.update ''mappings'' (merged_mappings hooks new) (overwrite hooks new) = hooks"
proof -
  let ?ms = "case map_of old ''mappings'' of Some (JArr xs) \<Rightarrow> xs | _ \<Rightarrow> []"
  have nn: "map_of new ''mappings'' = Some (JArr [m])"
    using new(3) map_of_eq_None_iff [of front "''mappings''"] by (simp add: new(1) map_add_def)
  have mm: "merged_mappings old new = JArr (filter (\<lambda>i. \<not> is_sentry_mapping i) ?ms @ [m])"
    by (simp add: merged_mappings_def nn)
  have look: "map_of hooks ''mappings'' = Some (merged_mappings old new)" by (simp add: hooks update_conv')
  have again: "merged_mappings hooks new = merged_mappings old new"
    using m by (simp add: merged_mappings_def [of hooks] look mm nn)
  have "map_of hooks k = Some v" if "(k, v) \<in> set front" for k v
  proof -
    have "k \<noteq> ''mappings''" using that new(3) by force
    moreover have "map_of (rev new) k = Some v"
      using that new(2) \<open>k \<noteq> _\<close> by (simp add: new(1) map_of_rev)
    ultimately show ?thesis by (simp add: hooks update_conv' overwrite_lookup)
  qed
  then have "overwrite hooks front = hooks" by (intro overwrite_same) auto
  then have "overwrite hooks new = AList.update ''mappings'' (JArr [m]) hooks" by (simp add: new(1))
  then show ?thesis unfolding again by (simp add: hooks)
qed

text \<open>
  The patch of the global configuration. Applied to a configuration, it leaves exactly one mapping
  with the id sentry, the new one, after all mappings with other ids in their order; it changes no top-level entry
  but channels and hooks, no channel but Slack, and no hook setting but its own; the Slack settings
  are replaced as a whole; and applying it again changes nothing.
\<close>

theorem config_patch_idempotent:
  assumes "p = createConfigPatch c ws appToken botToken hookToken"
    and "hooks = spread (map_of kvs ''hooks'')" "channels = spread (map_of kvs ''channels'')"
  shows "\<exists>hs cs j. apply_patch p (JObj kvs) = Some j \<and> apply_patch p j = Some j
     \<and> jfield ''hooks'' j = Some (JObj hs) \<and> jfield ''channels'' j = Some (JObj cs)
     \<and> filter is_sentry_mapping (mappings_of (JObj hs)) = [sentry_mapping c]
     \<and> filter (\<lambda>x. \<not> is_sentry_mapping x) (mappings_of (JObj hs)) = filter (\<lambda>x. \<not> is_sentry_mapping x) (mappings_of (JObj hooks))
     \<and> (\<forall>k. k \<notin> {''hooks'', ''channels''} \<longrightarrow> jfield k j = map_of kvs k)
     \<and> (\<forall>k. k \<noteq> ''slack'' \<longrightarrow> map_of cs k = map_of channels k)
     \<and> map_of cs ''slack'' = jfield ''slack'' (fst p)
     \<and> (\<forall>k. k \<notin> fst ` set (snd p) \<longrightarrow> map_of hs k = map_of hooks k)"
proof -
  let ?new = "snd p"
  let ?hs = "AList.update ''mappings'' (merged_mappings hooks ?new) (overwrite hooks ?new)"
  obtain s where s: "fst p = JObj [(''slack'', s)]" using patch_channels assms(1) by blast
  let ?cs = "AList.update ''slack'' s channels"
  let ?j = "JObj (AList.update ''hooks'' (JObj ?hs) (AList.update ''channels'' (JObj ?cs) kvs))"
  have new: "?new = hook_front c ws hookToken @ [(''mappings'', JArr [sentry_mapping c])]" "distinct (map fst (hook_front c ws hookToken))"
      "''mappings'' \<notin> fst ` set (hook_front c ws hookToken)" "is_sentry_mapping (sentry_mapping c)"
    unfolding assms(1) by (rule patch_hooks)+
  have one: "overwrite old (spread (Some (fst p))) = AList.update ''slack'' s old" for old
    by (simp add: s spread_def overwrite_def)
  have j: "apply_patch p (JObj kvs) = Some ?j"
    by (simp add: apply_patch_def Let_def one assms(2,3))
  have hooks': "spread (map_of (AList.update ''hooks'' (JObj ?hs) (AList.update ''channels'' (JObj ?cs) kvs)) ''hooks'') = ?hs"
    and channels': "spread (map_of (AList.update ''hooks'' (JObj ?hs) (AList.update ''channels'' (JObj ?cs) kvs)) ''channels'') = ?cs"
    by (simp_all add: update_conv' spread_def)
  have "apply_patch p ?j = Some ?j"
    unfolding apply_patch_def json.case Let_def hooks' channels' one hooks_again [OF new(1-4) refl]
    by (simp add: update_triv update_conv')
  moreover have nm: "map_of ?new ''mappings'' = Some (JArr [sentry_mapping c])"
    using new(3) map_of_eq_None_iff [of "hook_front c ws hookToken" "''mappings''"] by (simp add: new(1) map_add_def)
  then have ms: "mappings_of (JObj ?hs) = filter (\<lambda>x. \<not> is_sentry_mapping x) (mappings_of (JObj hooks)) @ [sentry_mapping c]"
    by (simp add: mappings_of_def update_conv' merged_mappings_def)
  moreover have "map_of ?hs k = map_of hooks k" if "k \<notin> fst ` set ?new" for k
  proof -
    have "k \<noteq> ''mappings''" using that by (auto simp: new(1))
    moreover have "map_of (rev ?new) k = None" using that by (simp add: map_of_eq_None_iff)
    ultimately show ?thesis by (simp add: update_conv' overwrite_lookup)
  qed
  ultimately show ?thesis
    using j new(4)
    by (intro exI [of _ ?hs] exI [of _ ?cs] exI [of _ ?j]) (simp add: update_conv' s filter_empty_conv)
qed

theorem config_patch_idempotent_witness:
  "\<exists>j. apply_patch (createConfigPatch (default_config blank_machine) [''w''] None None None) (JObj [(''theme'', JStr ''dark'')]) = Some j
     \<and> jfield ''theme'' j = Some (JStr ''dark'')"
  using config_patch_idempotent [OF refl refl refl, of "default_config blank_machine" "[''w'']" None None None "[(''theme'', JStr ''dark'')]"]
  by (auto dest!: spec [of _ "''theme''"])

end
