(* ===== verification/QuickClaw.thy ===== *)
theory QuickClaw
  imports QuickDocs QuickShell QuickOps
begin

text \<open>
  QuickClaw, src/commands/create.ts and verify.ts: the two commands that set up an agent on a machine
  and check the result. What is printed on the console is left out; the value of a command is the
  report it leaves, or the message of the error that ends it.
\<close>

section \<open>create\<close>

record create_options =
  cr_config :: "path option"
  cr_workspace :: "string option"
  cr_preview :: bool
  cr_confirm :: bool
  cr_enginePolicy :: string

record apply_action =
  aa_id :: string
  aa_ok :: bool
  aa_details :: string

datatype create_result =
    Previewed segments "check list" "(string \<times> nat) list"
  | Cancelled segments
  | Applied segments segments "check list" bool "apply_action list" "string list"

definition PREVIEW_MUTATIONS_SKIPPED :: "string list" where
  "PREVIEW_MUTATIONS_SKIPPED = [''auto_install_cli'', ''onboard'', ''workspace_materialization'', ''coding_ops'', ''hooks'',
     ''cron'', ''sentry_pipeline'', ''tastekit_bridge'']"

definition config_error_text :: "config_error \<Rightarrow> string" where
  "config_error_text e =
     (case e of
        Unreadable p \<Rightarrow> ''cannot read '' @ p
      | Not_parsed p msg \<Rightarrow> ''Failed to parse config '' @ p @ '': '' @ msg
      | Invalid_config p \<Rightarrow> ''Invalid quickclaw config '' @ p)"

definition resolveConfig :: "machine \<Rightarrow> quick_config option \<Rightarrow> create_options \<Rightarrow> disk \<Rightarrow> string + quick_config" where
  "resolveConfig m wizard opts d =
     (case (case cr_config opts of None \<Rightarrow> None | Some p \<Rightarrow> if p = [] then None else Some p) of
        Some p \<Rightarrow> map_sum config_error_text id (loadConfigFile m d p)
      | None \<Rightarrow> (case wizard of None \<Rightarrow> Inl ''Invalid quickclaw config'' | Some c \<Rightarrow> Inr c))"

definition applyWorkspaceOverride :: "quick_config \<Rightarrow> string option \<Rightarrow> quick_config" where
  "applyWorkspaceOverride c workspace =
     (case workspace of
        None \<Rightarrow> c
      | Some w \<Rightarrow> if w = [] then c else c\<lparr>qc_project := (qc_project c)\<lparr>pj_workspace := w\<rparr>\<rparr>)"

definition remove_bootstrap :: "segments \<Rightarrow> disk \<Rightarrow> disk" where
  "remove_bootstrap ws d =
     (let b = ws @ [''BOOTSTRAP.md''] in if existsSync d b then remove_file b d else d)"

definition workspace_files :: "string \<Rightarrow> documents \<Rightarrow> documents" where
  "workspace_files today docs =
     filter (\<lambda>(n, t). n \<noteq> ''memory-seed'') docs
     @ [(''memory/'' @ today @ ''.md'', case map_of docs ''memory-seed'' of None \<Rightarrow> [] | Some t \<Rightarrow> t)]"

definition writeWorkspaceDocs :: "machine \<Rightarrow> segments \<Rightarrow> documents \<Rightarrow> (world, segments list) state" where
  "writeWorkspaceDocs m ws docs = do {
     now \<leftarrow> get_now m;
     files \<leftarrow> each (\<lambda>(n, t). do {
         on_disk (writeFileSafe (join_path ws n) t);
         State_Monad.return (join_path ws n) }) (workspace_files (take 10 now) docs);
     on_disk (remove_bootstrap ws);
     State_Monad.return files }"

definition plan_actions :: "quick_config \<Rightarrow> (string \<times> string \<times> string) list" where
  "plan_actions c =
     [(''preflight'', ''Validate binaries/node/secrets'', ''plan''),
      (''onboard'', ''Run openclaw onboard --non-interactive'', ''apply''),
      (''templates'', ''Generate SOUL/AGENTS/MEMORY and workspace docs'', ''apply''),
      (''coding_ops'', ''Generate coding ops scripts and policy'', ''apply''),
      (''hooks_cron'', ''Enable hooks and configure cron jobs'', ''apply''),
      (''sentry'', ''Configure Sentry + Slack + webhook transform'', ''apply''),
      (''tastekit_bridge'', ''Reuse TasteKit import/export bridge'', ''apply'')]
     @ (if am_autoInstallMissingCli (qc_automation c)
        then [(''auto_install_cli'', ''Auto-install missing CLI binaries when available'', ''apply'')] else [])"

definition writePlanReport :: "machine \<Rightarrow> segments \<Rightarrow> quick_config \<Rightarrow> preflight \<Rightarrow> (world, segments) state" where
  "writePlanReport m ws c pf = do {
     now \<leftarrow> get_now m;
     write_report m ws ''plan-report.v1.json'' (report_json now ws
       [(''checks'', Some (JArr (map check_json (pf_checks pf)))),
        (''actions'', Some (JArr (map (\<lambda>(i, t, md). JObj [(''id'', JStr i), (''description'', JStr t), (''mode'', JStr md)]) (plan_actions c))))]) }"

definition preview :: "machine \<Rightarrow> quick_config \<Rightarrow> segments \<Rightarrow> preflight \<Rightarrow> (world, create_result) state" where
  "preview m c planPath pf = do {
     now \<leftarrow> get_now m;
     State_Monad.return (Previewed planPath (pf_checks pf)
       (map (\<lambda>(n, t). (n, length t)) (generateDeterministicDocuments (take 10 now) c))) }"

text \<open>The missing tools are installed and the checks repeated.\<close>

definition install_missing :: "machine \<Rightarrow> quick_config \<Rightarrow> preflight \<Rightarrow> (world, auto_install option \<times> preflight) state" where
  "install_missing m c pf =
     (if am_autoInstallMissingCli (qc_automation c) \<and> missingBinaries pf \<noteq> [] then do {
        r \<leftarrow> autoInstallMissingBinaries m pf;
        pf' \<leftarrow> runPreflight m c;
        State_Monad.return (Some r, pf') }
      else State_Monad.return (None, pf))"

definition join_or_none :: "string \<Rightarrow> string" where
  "join_or_none s = (if s = [] then ''none'' else s)"

definition install_action :: "auto_install \<Rightarrow> apply_action" where
  "install_action r = \<lparr>aa_id = ''auto_install_cli'', aa_ok = ai_failed r = [],
     aa_details = join '' '' [''attempted='' @ join_or_none (join '','' (ai_attempted r)), ''installed='' @ join_or_none (join '','' (ai_installed r)),
       ''failed='' @ join_or_none (join '','' (map fst (ai_failed r)))]\<rparr>"

definition hooks_action :: "step_result list \<Rightarrow> apply_action" where
  "hooks_action rs = \<lparr>aa_id = ''hooks'', aa_ok = filter (\<lambda>r. \<not> sp_ok r) rs = [],
     aa_details = join '', '' (map (\<lambda>r. sp_name r @ '':'' @ (if sp_ok r then ''ok'' else ''fail'')) rs)\<rparr>"

definition cron_action :: "step_result list \<Rightarrow> apply_action" where
  "cron_action rs = \<lparr>aa_id = ''cron'', aa_ok = filter (\<lambda>r. \<not> sp_ok r) rs = [],
     aa_details = join '' | '' (map (\<lambda>r. sp_name r @ '':'' @ sp_details r) rs)\<rparr>"

definition sentry_action :: "quick_config \<Rightarrow> sentry_result \<Rightarrow> apply_action" where
  "sentry_action c r = \<lparr>aa_id = ''sentry_pipeline'', aa_ok = st_apiValidated r \<and> st_alertRule r \<and> st_smokeTest r,
     aa_details = join '' | '' (st_details r
       @ (if st_apiValidated r then [] else [''Sentry API validation failed. Check '' @ sy_authTokenEnv (qc_sentry c) @ '', org, and project.''])
       @ (if st_alertRule r then [] else [''Sentry alert rule was not configured. Verify Sentry permissions and Slack integration.''])
       @ (if st_smokeTest r then []
          else [if st_blocked r then ''Webhook smoke test skipped/failed because global OpenClaw config writes are blocked by policy.''
            else ''Webhook smoke test failed. Verify OPENCLAW_HOOKS_TOKEN and gateway route /hooks/''
              @ strip_leading_slashes (sy_webhookPath (qc_sentry c)) @ ''.'']))\<rparr>"

definition action_json :: "apply_action \<Rightarrow> json" where
  "action_json a = JObj [(''id'', JStr (aa_id a)), (''ok'', JBool (aa_ok a)), (''details'', JStr (aa_details a))]"

definition writeApplyReport :: "machine \<Rightarrow> segments \<Rightarrow> apply_action list \<Rightarrow> (world, segments) state" where
  "writeApplyReport m ws actions = do {
     now \<leftarrow> get_now m;
     write_report m ws ''apply-report.v1.json'' (report_json now ws
       [(''success'', Some (JBool (list_all aa_ok actions))), (''actions'', Some (JArr (map action_json actions)))]) }"

text \<open>The steps after onboarding, in the order of the source; generating the documents, listing the cron
  jobs or a global configuration that is no object can end them.\<close>

definition apply_steps :: "machine \<Rightarrow> quick_config \<Rightarrow> engine_policy \<Rightarrow> segments \<Rightarrow> string \<Rightarrow> apply_action list \<Rightarrow>
    (world, string + apply_action list \<times> string list) state" where
  "apply_steps m c enginePolicy ws binary actions = do {
     generated \<leftarrow> generateDocuments m c enginePolicy;
     case generated of
       Inl e \<Rightarrow> State_Monad.return (Inl e)
     | Inr docs \<Rightarrow> do {
     written \<leftarrow> writeWorkspaceDocs m ws docs;
     scripts \<leftarrow> setupCodingOps ws c;
     hooks \<leftarrow> setupHooks m binary;
     jobs \<leftarrow> setupCronJobs m binary c;
     case jobs of
       Inl e \<Rightarrow> State_Monad.return (Inl e)
     | Inr js \<Rightarrow> do {
     pipeline \<leftarrow> setupSentryPipeline m ws c;
     case pipeline of
       Inl e \<Rightarrow> State_Monad.return (Inl e)
     | Inr s \<Rightarrow> do {
     bridge \<leftarrow> runTasteKitBridge m ws;
     State_Monad.return (Inr (actions
       @ [\<lparr>aa_id = ''workspace_materialization'', aa_ok = True, aa_details = show_nat (length written) @ '' files written''\<rparr>,
          \<lparr>aa_id = ''coding_ops'', aa_ok = True, aa_details = show_nat (length scripts) @ '' scripts generated''\<rparr>,
          hooks_action hooks, cron_action js, sentry_action c s,
          \<lparr>aa_id = ''tastekit_bridge'', aa_ok = sp_ok bridge, aa_details = sp_details bridge\<rparr>], st_warnings s)) } } } }"

definition apply_plan :: "machine \<Rightarrow> quick_config \<Rightarrow> engine_policy \<Rightarrow> segments \<Rightarrow> segments \<Rightarrow> preflight \<Rightarrow> auto_install option \<Rightarrow>
    (world, string + create_result) state" where
  "apply_plan m c enginePolicy ws planPath pf installed =
     (case assertPreflight pf of
        Some e \<Rightarrow> State_Monad.return (Inl e)
      | None \<Rightarrow>
          (case pf_binary pf of
             None \<Rightarrow> State_Monad.return (Inl ''openclaw/clawdbot binary missing after preflight'')
           | Some binary \<Rightarrow> do {
               onboarded \<leftarrow> runOpenClawOnboard m c binary (Some (show_path ws));
               case onboarded of
                 Inl e \<Rightarrow> State_Monad.return (Inl e)
               | Inr out \<Rightarrow> do {
                   r \<leftarrow> apply_steps m c enginePolicy ws binary
                     ((case installed of None \<Rightarrow> [] | Some i \<Rightarrow> [install_action i])
                      @ [\<lparr>aa_id = ''onboard'', aa_ok = True, aa_details = take 500 out\<rparr>]);
                   case r of
                     Inl e \<Rightarrow> State_Monad.return (Inl e)
                   | Inr (actions, warnings) \<Rightarrow> do {
                       report \<leftarrow> writeApplyReport m ws actions;
                       State_Monad.return (Inr (Applied planPath report (pf_checks pf) (list_all aa_ok actions) actions warnings)) } } }))"

definition confirm_and_apply :: "machine \<Rightarrow> quick_config \<Rightarrow> engine_policy \<Rightarrow> segments \<Rightarrow> segments \<Rightarrow> preflight \<Rightarrow> create_options \<Rightarrow>
    bool \<Rightarrow> (world, string + create_result) state" where
  "confirm_and_apply m c enginePolicy ws planPath pf opts agreed = do {
     (installed, pf') \<leftarrow> install_missing m c pf;
     if cr_confirm opts \<and> \<not> agreed
     then State_Monad.return (Inr (Cancelled planPath))
     else apply_plan m c enginePolicy ws planPath pf' installed }"

text \<open>\<open>quickclaw create\<close>; \<open>wizard\<close> is the outcome of the wizard, \<open>agreed\<close> the answer to the confirmation.\<close>

definition create :: "machine \<Rightarrow> quick_config option \<Rightarrow> bool \<Rightarrow> create_options \<Rightarrow> (world, string + create_result) state" where
  "create m wizard agreed opts =
     (case map_of engine_policies (cr_enginePolicy opts) of
        None \<Rightarrow> State_Monad.return (Inl (''Invalid engine policy: '' @ cr_enginePolicy opts))
      | Some enginePolicy \<Rightarrow> do {
          d \<leftarrow> get_disk;
          case resolveConfig m wizard opts d of
            Inl e \<Rightarrow> State_Monad.return (Inl e)
          | Inr rawConfig \<Rightarrow> do {
              let c = applyWorkspaceOverride rawConfig (cr_workspace opts);
              let ws = resolve_path (hm_cwd m) (pj_workspace (qc_project c));
              on_disk (ensureDir ws);
              pf \<leftarrow> runPreflight m c;
              planPath \<leftarrow> writePlanReport m ws c pf;
              if cr_preview opts
              then do { p \<leftarrow> preview m c planPath pf; State_Monad.return (Inr p) }
              else confirm_and_apply m c enginePolicy ws planPath pf opts agreed } })"

definition create_exit_code :: "string + create_result \<Rightarrow> nat" where
  "create_exit_code r =
     (case r of
        Inl _ \<Rightarrow> 1
      | Inr (Applied _ _ _ success _ _) \<Rightarrow> if success then 0 else 1
      | Inr _ \<Rightarrow> 0)"

section \<open>verify\<close>

record verify_options =
  vo_config :: "path option"
  vo_workspace :: "string option"

definition verify_config :: "machine \<Rightarrow> verify_options \<Rightarrow> disk \<Rightarrow> string + quick_config" where
  "verify_config m opts d =
     (case (case vo_config opts of None \<Rightarrow> None | Some p \<Rightarrow> if p = [] then None else Some p) of
        Some p \<Rightarrow> map_sum config_error_text id (loadConfigFile m d p)
      | None \<Rightarrow> Inr (applyWorkspaceOverride (buildDefaultConfig m None) (vo_workspace opts)))"

definition requiredFiles :: "(string \<times> segments \<times> string) list" where
  "requiredFiles =
     [(''workspace_memory_readme'', [''memory'', ''README.md''],
       ''Re-run quickclaw create to materialize memory architecture docs.''),
      (''workspace_trust_ladder'', [''ops'', ''safety'', ''trust-ladder.md''],
       ''Re-run quickclaw create to generate trust ladder policy.''),
      (''workspace_approval_queue'', [''ops'', ''safety'', ''approval-queue.md''],
       ''Re-run quickclaw create to generate approval queue routing.''),
      (''workspace_tmux_heartbeat_script'', [''ops'', ''scripts'', ''tmux-heartbeat.sh''],
       ''Re-run quickclaw create to regenerate coding health scripts.''),
      (''workspace_wake_session_script'', [''ops'', ''scripts'', ''wake-coding-session.sh''],
       ''Re-run quickclaw create to regenerate coding health scripts.'')]"

definition file_check :: "disk \<Rightarrow> segments \<Rightarrow> string \<times> segments \<times> string \<Rightarrow> check" where
  "file_check d ws f =
     (case f of (name, relPath, remediation) \<Rightarrow>
        let target = ws @ relPath; present = existsSync d target
        in \<lparr>ck_name = name, ck_ok = present,
            ck_details = Some (if present then show_path target else ''Missing '' @ show_path target @ ''. '' @ remediation)\<rparr>)"

definition patch_checks :: "disk \<Rightarrow> segments \<Rightarrow> quick_config \<Rightarrow> check list" where
  "patch_checks d ws c =
     (if am_allowGlobalConfigWrites (qc_automation c) then []
      else let p = patch_path ws; present = existsSync d p
           in [\<lparr>ck_name = ''workspace_openclaw_config_patch'', ck_ok = present,
                ck_details = Some (if present then show_path p
                  else ''Missing '' @ show_path p @ ''. Re-run quickclaw create to generate target-host patch artifact.'')\<rparr>])"

definition or_else :: "string \<Rightarrow> string \<Rightarrow> string" where
  "or_else a b = (if a \<noteq> [] then a else b)"

definition command_check :: "string \<Rightarrow> (shell_result \<Rightarrow> string) \<Rightarrow> string \<Rightarrow> shell_result \<Rightarrow> check" where
  "command_check name good remedy r =
     \<lparr>ck_name = name, ck_ok = sr_code r = 0,
      ck_details = Some (if sr_code r = 0 then good r else or_else (sr_stderr r) (sr_stdout r) @ remedy)\<rparr>"

definition requiredCronJobs :: "string list" where
  "requiredCronJobs = [''quickclaw-nightly-extraction'', ''quickclaw-morning-priorities'', ''quickclaw-ops-monitor'', ''quickclaw-coding-heartbeat'']"

definition cron_checks :: "shell_result \<Rightarrow> check list" where
  "cron_checks r =
     command_check ''openclaw_cron_list'' (\<lambda>r. trim (sr_stdout r))
       '' Remediation: rerun quickclaw create or openclaw cron add for quickclaw jobs.'' r
     # (if sr_code r = 0 then
          let missing = filter (\<lambda>j. \<not> str_includes (sr_stdout r) j) requiredCronJobs
          in [\<lparr>ck_name = ''openclaw_cron_required_jobs'', ck_ok = missing = [],
               ck_details = Some (if missing = [] then join '', '' requiredCronJobs
                 else ''Missing cron jobs: '' @ join '', '' missing @ ''. Remediation: rerun quickclaw create.'')\<rparr>]
        else [])"

definition runtime_checks :: "machine \<Rightarrow> string option \<Rightarrow> (world, string + check list) state" where
  "runtime_checks m binary =
     (case binary of
        None \<Rightarrow> State_Monad.return (Inr [\<lparr>ck_name = ''openclaw_runtime'', ck_ok = False,
            ck_details = Some ''openclaw/clawdbot not found; runtime checks skipped''\<rparr>])
      | Some b \<Rightarrow> do {
          health \<leftarrow> runShell m (cmd_call b [''health'']) True;
          case health of
            Inl e \<Rightarrow> State_Monad.return (Inl e)
          | Inr h \<Rightarrow> do {
          hooks \<leftarrow> checkHooks m b;
          case hooks of
            Inl e \<Rightarrow> State_Monad.return (Inl e)
          | Inr k \<Rightarrow> do {
          cron \<leftarrow> verifyCron m b;
          case cron of
            Inl e \<Rightarrow> State_Monad.return (Inl e)
          | Inr r \<Rightarrow> State_Monad.return (Inr (
              [command_check ''openclaw_health'' (\<lambda>_. ''ok'') '' Remediation: verify daemon/runtime and rerun openclaw health.'' h,
               command_check ''openclaw_hooks_check'' (\<lambda>r. trim (sr_stdout r))
                 '' Remediation: run openclaw hooks enable session-memory command-logger boot-md bootstrap-extra-files.'' k]
              @ cron_checks r)) } } })"

definition verify :: "machine \<Rightarrow> verify_options \<Rightarrow> (world, string + check list) state" where
  "verify m opts = do {
     d \<leftarrow> get_disk;
     case verify_config m opts d of
       Inl e \<Rightarrow> State_Monad.return (Inl e)
     | Inr c \<Rightarrow> do {
         let ws = resolve_path (hm_cwd m) (or_default (pj_workspace (qc_project c)) (vo_workspace opts));
         pf \<leftarrow> runPreflight m c;
         d' \<leftarrow> get_disk;
         rt \<leftarrow> runtime_checks m (pf_binary pf);
         case rt of
           Inl e \<Rightarrow> State_Monad.return (Inl e)
         | Inr rs \<Rightarrow> do {
             route \<leftarrow> verifySentryEndpoint m c;
             let checks = pf_checks pf @ map (file_check d' ws) requiredFiles @ patch_checks d' ws c @ rs
               @ [\<lparr>ck_name = ''sentry_webhook_route_test'', ck_ok = fst route, ck_details = Some (snd route)\<rparr>];
             now \<leftarrow> get_now m;
             write_report m ws ''verification-report.v1.json'' (report_json now ws [(''checks'', Some (JArr (map check_json checks)))]);
             State_Monad.return (Inr checks) } } }"

section \<open>What a preview touches\<close>

text \<open>Two worlds that differ by lookups of commands and by the content of one file.\<close>

definition only_looked :: "segments \<Rightarrow> world \<Rightarrow> world \<Rightarrow> bool" where
  "only_looked q w w' \<longleftrightarrow>
     wd_requests w' = wd_requests w
     \<and> (\<exists>bs. wd_calls w' = wd_calls w @ map lookup_call bs)
     \<and> (\<forall>p. p \<noteq> q \<longrightarrow> read_file (wd_disk w') p = read_file (wd_disk w) p)"

lemma only_looked_preorder: "preorder_rel (only_looked q)"
proof -
  have "only_looked q w w" for w by (auto simp: only_looked_def intro: exI [of _ "[]"])
  moreover have "only_looked q u w" if "only_looked q u v" "only_looked q v w" for u v w
  proof -
    from that obtain bs cs where "wd_calls v = wd_calls u @ map lookup_call bs" "wd_calls w = wd_calls v @ map lookup_call cs"
      by (auto simp: only_looked_def)
    then have "wd_calls w = wd_calls u @ map lookup_call (bs @ cs)" by simp
    then show ?thesis using that unfolding only_looked_def by metis
  qed
  ultimately show ?thesis by (auto simp: preorder_rel_def reflp_def transp_def)
qed

definition quiet_lookups :: "machine \<Rightarrow> bool" where
  "quiet_lookups m \<longleftrightarrow> (\<forall>w b. snd (hm_spawn m w (lookup_call b)) = wd_disk w)"

lemma looked_lookup: "quiet_lookups m \<Longrightarrow> state_io_rel (only_looked q) (runShell m (lookup_call b) False)"
proof
  fix r w w'
  assume q: "quiet_lookups m" and run: "run_state (runShell m (lookup_call b) False) w = (r, w')"
  from run have "w' = w\<lparr>wd_disk := snd (hm_spawn m w (lookup_call b)), wd_calls := wd_calls w @ [lookup_call b]\<rparr>"
    using runShell_world [of m "lookup_call b" False w] by simp
  with q show "only_looked q w w'"
    by (auto simp: quiet_lookups_def only_looked_def intro: exI [of _ "[b]"])
qed

lemma looked_preflight: "quiet_lookups m \<Longrightarrow> state_io_rel (only_looked q) (runPreflight m c)"
  unfolding runPreflight_def Let_def binary_check_def
  by (intro io io_commandExists only_looked_preorder looked_lookup)

lemma looked_disk: "(\<And>d p. p \<noteq> q \<Longrightarrow> read_file (f d) p = read_file d p) \<Longrightarrow> state_io_rel (only_looked q) (on_disk f)"
  by (rule io_on_disk) (auto simp: only_looked_def intro: exI [of _ "[]"])

lemma looked_plan:
  "q = ws @ [''.quickclaw'', ''plan-report.v1.json''] \<Longrightarrow> state_io_rel (only_looked q) (writePlanReport m ws c pf)"
proof -
  assume q: "q = ws @ [''.quickclaw'', ''plan-report.v1.json'']"
  have dir: "run_state (ensureQuickClawDir ws) w = (ws @ [''.quickclaw''], w\<lparr>wd_disk := ensureDir (ws @ [''.quickclaw'']) (wd_disk w)\<rparr>)" for w
    by (simp add: ensureQuickClawDir_def)
  show ?thesis
    by (rule state_io_relI) (auto simp: writePlanReport_def write_report_def dir only_looked_def q intro: exI [of _ "[]"])
qed

definition plan_file :: "machine \<Rightarrow> create_options \<Rightarrow> quick_config \<Rightarrow> segments" where
  "plan_file m opts c =
     resolve_path (hm_cwd m) (pj_workspace (qc_project (applyWorkspaceOverride c (cr_workspace opts))))
       @ [''.quickclaw'', ''plan-report.v1.json'']"

text \<open>
  C24. A preview does not touch the host. With \<open>--preview\<close>, and also when the user declines the
  confirmation and no tool is to be installed, \<open>create\<close> sends no request, runs no command but the lookups
  of commands, and changes no file but the plan report in the workspace of the resolved configuration,
  if there is one; it ends with the preview or the cancellation, or with the error of an unknown engine
  policy or of a configuration that does not resolve. Given that looking a command up does not itself
  change files.
\<close>

theorem preview_touches_nothing:
  assumes quiet: "quiet_lookups m"
    and how: "cr_preview opts \<or> cr_confirm opts \<and> \<not> agreed
      \<and> (\<forall>c. resolveConfig m wizard opts (wd_disk w) = Inr c \<longrightarrow> \<not> am_autoInstallMissingCli (qc_automation c))"
    and run: "run_state (create m wizard agreed opts) w = (r, w')"
  shows "wd_requests w' = wd_requests w
     \<and> (\<exists>bs. wd_calls w' = wd_calls w @ map lookup_call bs)
     \<and> (\<forall>p. (\<forall>c. resolveConfig m wizard opts (wd_disk w) = Inr c \<longrightarrow> p \<noteq> plan_file m opts c)
          \<longrightarrow> read_file (wd_disk w') p = read_file (wd_disk w) p)
     \<and> (case r of
          Inr (Previewed planPath _ _) \<Rightarrow>
            cr_preview opts \<and> map_sum id (plan_file m opts) (resolveConfig m wizard opts (wd_disk w)) = Inr planPath
        | Inr (Cancelled planPath) \<Rightarrow>
            \<not> agreed \<and> map_sum id (plan_file m opts) (resolveConfig m wizard opts (wd_disk w)) = Inr planPath
        | Inr (Applied _ _ _ _ _ _) \<Rightarrow> False
        | Inl e \<Rightarrow> map_of engine_policies (cr_enginePolicy opts) = None
            \<or> resolveConfig m wizard opts (wd_disk w) = Inl e)"
proof (cases "map_of engine_policies (cr_enginePolicy opts)")
  case None
  with run show ?thesis by (auto simp: create_def intro: exI [of _ "[]"])
next
  case (Some policy)
  show ?thesis
  proof (cases "resolveConfig m wizard opts (wd_disk w)")
    case (Inl e)
    with run Some show ?thesis by (auto simp: create_def intro: exI [of _ "[]"])
  next
    case config: (Inr c)
    let ?c = "applyWorkspaceOverride c (cr_workspace opts)" and ?q = "plan_file m opts c"
    let ?ws = "resolve_path (hm_cwd m) (pj_workspace (qc_project ?c))"
    have same: "qc_automation ?c = qc_automation c" by (simp add: applyWorkspaceOverride_def split: option.split)
    obtain pf w1 where w1: "run_state (runPreflight m ?c) (w\<lparr>wd_disk := ensureDir ?ws (wd_disk w)\<rparr>) = (pf, w1)" by force
    obtain pp w2 where w2: "run_state (writePlanReport m ?ws ?c pf) w1 = (pp, w2)" by force
    have pp: "pp = ?q" using w2 by (auto simp: writePlanReport_def write_report_def ensureQuickClawDir_def plan_file_def)
    have "only_looked ?q w (w\<lparr>wd_disk := ensureDir ?ws (wd_disk w)\<rparr>)"
      by (auto simp: only_looked_def intro: exI [of _ "[]"])
    moreover have "only_looked ?q (w\<lparr>wd_disk := ensureDir ?ws (wd_disk w)\<rparr>) w1"
      using looked_preflight [OF quiet] w1 by blast
    moreover have "only_looked ?q w1 w2" using looked_plan [OF plan_file_def] w2 by blast
    ultimately have looked: "only_looked ?q w w2"
      using only_looked_preorder [of ?q] unfolding preorder_rel_def by (meson transpD)
    have "w' = w2 \<and> (if cr_preview opts then \<exists>k l. r = Inr (Previewed pp k l) else r = Inr (Cancelled pp) \<and> \<not> agreed)"
    proof (cases "cr_preview opts")
      case True
      then show ?thesis using run Some config w1 w2 by (auto simp: create_def Let_def preview_def)
    next
      case False
      with how config same have "cr_confirm opts" "\<not> agreed" "\<not> am_autoInstallMissingCli (qc_automation ?c)" by auto
      then show ?thesis using False run Some config w1 w2 by (auto simp: create_def confirm_and_apply_def Let_def install_missing_def)
    qed
    with looked pp config show ?thesis by (auto simp: only_looked_def split: if_splits)
  qed
qed

section \<open>What a finished installation leaves\<close>

text \<open>Nothing that is there disappears, but the bootstrap file.\<close>

definition keeps_files :: "segments \<Rightarrow> world \<Rightarrow> world \<Rightarrow> bool" where
  "keeps_files ws w w' \<longleftrightarrow>
     (\<forall>p. p \<noteq> ws @ [''BOOTSTRAP.md''] \<longrightarrow> read_file (wd_disk w) p \<noteq> None \<longrightarrow> read_file (wd_disk w') p \<noteq> None)"

definition careful_commands :: "machine \<Rightarrow> bool" where
  "careful_commands m \<longleftrightarrow> (\<forall>w c p. read_file (wd_disk w) p \<noteq> None \<longrightarrow> read_file (snd (hm_spawn m w c)) p \<noteq> None)"

lemma keeps_preorder: "preorder_rel (keeps_files ws)"
  unfolding preorder_rel_def reflp_def transp_def keeps_files_def by blast

lemma keeps_trans: "keeps_files ws u v \<Longrightarrow> keeps_files ws v w \<Longrightarrow> keeps_files ws u w"
  by (simp add: keeps_files_def)

named_theorems keeps \<open>actions that keep the files\<close>

lemma keeps_shell [keeps]: "careful_commands m \<Longrightarrow> state_io_rel (keeps_files ws) (runShell m c b)"
proof
  fix r w w'
  assume "careful_commands m" "run_state (runShell m c b) w = (r, w')"
  then show "keeps_files ws w w'"
    using runShell_world [of m c b w] by (auto simp: careful_commands_def keeps_files_def)
qed

lemma keeps_send [keeps]: "state_io_rel (keeps_files ws) (send m r)"
  by (rule state_io_relI) (auto simp: keeps_files_def)

lemma keeps_disk: "(\<And>d p. p \<noteq> ws @ [''BOOTSTRAP.md''] \<Longrightarrow> read_file d p \<noteq> None \<Longrightarrow> read_file (f d) p \<noteq> None) \<Longrightarrow>
    state_io_rel (keeps_files ws) (on_disk f)"
  by (rule io_on_disk) (auto simp: keeps_files_def)

lemma keeps_writes [keeps]:
  "state_io_rel (keeps_files ws) (on_disk (put_file q t))"
  "state_io_rel (keeps_files ws) (on_disk (writeFileSafe q t))"
  "state_io_rel (keeps_files ws) (on_disk (ensureDir q))"
  "state_io_rel (keeps_files ws) (on_disk (remove_bootstrap ws))"
  by (rule keeps_disk, simp add: remove_bootstrap_def Let_def)+

lemma keeps_steps [keeps]:
  assumes m: "careful_commands m"
  shows "state_io_rel (keeps_files ws) (commandExists m b)"
    "state_io_rel (keeps_files ws) (runPreflight m c)"
    "state_io_rel (keeps_files ws) (generateDocuments m c p)"
    "state_io_rel (keeps_files ws) (writeWorkspaceDocs m ws docs)"
    "state_io_rel (keeps_files ws) (setupHooks m b)"
    "state_io_rel (keeps_files ws) (setupCronJobs m b c)"
    "state_io_rel (keeps_files ws) (runTasteKitBridge m ws)"
    "state_io_rel (keeps_files ws) (write_report m q n j)"
proof -
  note rules = io keeps keeps_preorder m io_commandExists io_generateDocuments
  show ce: "state_io_rel (keeps_files ws) (commandExists m b)" for b by (intro rules)
  show "state_io_rel (keeps_files ws) (runPreflight m c)"
    unfolding runPreflight_def Let_def binary_check_def by (intro io ce keeps_preorder)
  show "state_io_rel (keeps_files ws) (generateDocuments m c p)" by (intro rules)
  show "state_io_rel (keeps_files ws) (writeWorkspaceDocs m ws docs)"
    unfolding writeWorkspaceDocs_def case_prod_beta by (intro rules)
  show "state_io_rel (keeps_files ws) (setupHooks m b)"
    unfolding setupHooks_def enable_hook_def by (intro rules)
  show "state_io_rel (keeps_files ws) (setupCronJobs m b c)"
    unfolding setupCronJobs_def listExisting_def add_job_def by (intro rules)
  show "state_io_rel (keeps_files ws) (runTasteKitBridge m ws)"
    unfolding runTasteKitBridge_def Let_def by (intro rules)
  show "state_io_rel (keeps_files ws) (write_report m q n j)"
    unfolding write_report_def ensureQuickClawDir_def by (intro rules)
qed

text \<open>A file written by one pass of a loop is there after the loop, when the other passes keep it.\<close>

definition has_file :: "segments \<Rightarrow> world \<Rightarrow> bool" where
  "has_file p w \<longleftrightarrow> read_file (wd_disk w) p \<noteq> None"

lemma has_file_kept: "keeps_files ws w w' \<Longrightarrow> p \<noteq> ws @ [''BOOTSTRAP.md''] \<Longrightarrow> has_file p w \<Longrightarrow> has_file p w'"
  by (auto simp: keeps_files_def has_file_def)

lemma each_has_file:
  assumes "\<And>x. state_io_rel (keeps_files ws) (act x)" "p \<noteq> ws @ [''BOOTSTRAP.md'']"
    and "\<And>w. has_file p (snd (run_state (act x) w))" "x \<in> set xs"
  shows "has_file p (snd (run_state (each act xs) w))"
  using assms(4)
proof (induction xs arbitrary: w)
  case (Cons y ys)
  let ?w = "snd (run_state (act y) w)"
  have split: "snd (run_state (each act (y # ys)) w) = snd (run_state (each act ys) ?w)"
    by (simp split: prod.split)
  show ?case
  proof (cases "x = y")
    case True
    have "state_io_rel (keeps_files ws) (each act ys)" by (intro io keeps_preorder assms(1))
    then have "keeps_files ws ?w (snd (run_state (each act ys) ?w))"
      by (rule state_io_relD) (rule prod.collapse [symmetric])
    then show ?thesis unfolding split using has_file_kept assms(2,3) True by blast
  next
    case False
    with Cons show ?thesis unfolding split by simp
  qed
qed simp

lemma docs_written:
  assumes "(n, t) \<in> set docs" "n \<noteq> ''memory-seed''" "join_path ws n \<noteq> ws @ [''BOOTSTRAP.md'']"
    and "run_state (writeWorkspaceDocs m ws docs) w = (fs, w')"
  shows "has_file (join_path ws n) w'"
proof -
  let ?act = "\<lambda>(n, t). do { on_disk (writeFileSafe (join_path ws n) t); State_Monad.return (join_path ws n) }"
  have keep: "state_io_rel (keeps_files ws) (?act x)" for x
    unfolding case_prod_beta by (intro io keeps keeps_preorder)
  have "has_file (join_path ws n) (snd (run_state (each ?act (workspace_files (take 10 (hm_now m w)) docs)) w))"
    by (rule each_has_file [OF keep assms(3), where x = "(n, t)"])
      (use assms(1,2) in \<open>auto simp: workspace_files_def has_file_def\<close>)
  moreover have "w' = (let v = snd (run_state (each ?act (workspace_files (take 10 (hm_now m w)) docs)) w)
      in v\<lparr>wd_disk := remove_bootstrap ws (wd_disk v)\<rparr>)"
    using assms(4) by (auto simp: writeWorkspaceDocs_def Let_def split: prod.splits)
  ultimately show ?thesis
    using assms(3) by (simp add: has_file_def remove_bootstrap_def Let_def)
qed

lemma scripts_written:
  assumes "n \<in> set (map fst (coding_scripts c))" "run_state (setupCodingOps ws c) w = (fs, w')"
  shows "has_file (ws @ [''ops'', ''scripts'', n]) w'"
proof -
  let ?act = "\<lambda>(n, t). on_disk (put_file (scripts_dir ws @ [n]) t)"
  from assms(1) obtain t where t: "(n, t) \<in> set (coding_scripts c)" by auto
  have "has_file (ws @ [''ops'', ''scripts'', n]) (snd (run_state (each ?act (coding_scripts c)) v))" for v
    by (rule each_has_file [where x = "(n, t)" and ws = ws])
      (use t in \<open>auto simp: has_file_def scripts_dir_def case_prod_beta intro: keeps\<close>)
  then show ?thesis using assms(2) by (auto simp: setupCodingOps_def split: prod.splits) (metis snd_conv)
qed

lemma keeps_coding [keeps]: "state_io_rel (keeps_files ws) (setupCodingOps ws c)"
  unfolding setupCodingOps_def case_prod_beta by (intro io keeps keeps_preorder)

lemma keeps_sentry [keeps]:
  "state_io_rel (keeps_files ws) (install_patch m ws c p)"
  "state_io_rel (keeps_files ws) (sentry_api_steps m c)"
  "state_io_rel (keeps_files ws) (smoke_steps m c)"
  "state_io_rel (keeps_files ws) (verifySentryEndpoint m c)"
  unfolding install_patch_def sentry_api_steps_def smoke_steps_def validateSentryProject_def ensureAlertRule_def
    sentryApiRequest_def smokeTestWebhook_def verifySentryEndpoint_def Let_def
  by (intro io keeps keeps_preorder; auto split: option.splits bool.splits intro!: io keeps keeps_preorder)+

lemma patch_written:
  assumes "run_state (setupSentryPipeline m ws c) w = (Inr s, w')" "\<not> am_allowGlobalConfigWrites (qc_automation c)"
  shows "has_file (patch_path ws) w' \<and> \<not> st_smokeTest s"
proof -
  from assms obtain api w2 where api: "run_state (sentry_api_steps m c)
      (w\<lparr>wd_disk := writeFileSafe (resolve_issue_path ws) resolveIssueScriptSource
         (writeFileSafe (transform_path ws) (sentryTransformModuleSource (slack_channel c) (sy_mode (qc_sentry c)))
           (writeFileSafe (patch_path ws) (hm_stringify m (patch_json (createConfigPatch c ws (env_ref m c ''slack_app_token'' ''SLACK_APP_TOKEN'')
             (env_ref m c ''slack_bot_token'' ''SLACK_BOT_TOKEN'') (env_ref m c ''openclaw_hook_token'' ''OPENCLAW_HOOKS_TOKEN'')))) (wd_disk w)))\<rparr>) = (api, w2)"
    and rest: "w' = w2" "\<not> st_smokeTest s"
    by (auto simp: setupSentryPipeline_def install_patch_def smoke_steps_def Let_def split: prod.splits)
  have "keeps_files ws (w\<lparr>wd_disk := writeFileSafe (resolve_issue_path ws) resolveIssueScriptSource
         (writeFileSafe (transform_path ws) (sentryTransformModuleSource (slack_channel c) (sy_mode (qc_sentry c)))
           (writeFileSafe (patch_path ws) (hm_stringify m (patch_json (createConfigPatch c ws (env_ref m c ''slack_app_token'' ''SLACK_APP_TOKEN'')
             (env_ref m c ''slack_bot_token'' ''SLACK_BOT_TOKEN'') (env_ref m c ''openclaw_hook_token'' ''OPENCLAW_HOOKS_TOKEN'')))) (wd_disk w)))\<rparr>) w2"
    using keeps_sentry(2) api by (rule state_io_relD)
  with rest show ?thesis by (auto simp: keeps_files_def has_file_def patch_path_def)
qed

lemma keeps_pipeline: "state_io_rel (keeps_files ws) (setupSentryPipeline m ws c)"
  unfolding setupSentryPipeline_def Let_def case_prod_beta by (intro io keeps keeps_preorder)

lemma docs_required:
  "n \<in> {''memory/README.md'', ''ops/safety/trust-ladder.md'', ''ops/safety/approval-queue.md''} \<Longrightarrow>
     n \<in> set (map fst (generateDeterministicDocuments t c))"
  by (elim insertE emptyE) (simp_all add: generateDeterministicDocuments_def)

text \<open>The files that the steps after onboarding leave.\<close>

lemma apply_steps_files:
  assumes m: "careful_commands m" and run: "run_state (apply_steps m c policy ws binary actions) w = (Inr x, w')"
  shows "(\<forall>f \<in> set requiredFiles. has_file (ws @ fst (snd f)) w')
     \<and> (\<not> am_allowGlobalConfigWrites (qc_automation c) \<longrightarrow> has_file (patch_path ws) w' \<and> \<not> list_all aa_ok (fst x))"
proof -
  from run obtain docs w1 ws2 w2 scripts w3 hooks w4 js w5 s w6 bridge where
    steps: "run_state (generateDocuments m c policy) w = (Inr docs, w1)" "run_state (writeWorkspaceDocs m ws docs) w1 = (ws2, w2)"
      "run_state (setupCodingOps ws c) w2 = (scripts, w3)" "run_state (setupHooks m binary) w3 = (hooks, w4)"
      "run_state (setupCronJobs m binary c) w4 = (Inr js, w5)" "run_state (setupSentryPipeline m ws c) w5 = (Inr s, w6)"
      "run_state (runTasteKitBridge m ws) w6 = (bridge, w')"
    and x: "sentry_action c s \<in> set (fst x)"
    by (auto simp: apply_steps_def split: prod.splits sum.splits)
  have k36: "keeps_files ws w3 w6"
    by (rule keeps_trans [OF keeps_trans [OF state_io_relD [OF keeps_steps(5) [OF m] steps(4)]
          state_io_relD [OF keeps_steps(6) [OF m] steps(5)]] state_io_relD [OF keeps_pipeline steps(6)]])
  have k67: "keeps_files ws w6 w'" using keeps_steps(7) [OF m] steps(7) by (rule state_io_relD)
  have k37: "keeps_files ws w3 w'" using k36 k67 by (rule keeps_trans)
  have k27: "keeps_files ws w2 w'" using state_io_relD [OF keeps_coding steps(3)] k37 by (rule keeps_trans)
  have doc: "has_file (ws @ r) w'" if "n \<in> {''memory/README.md'', ''ops/safety/trust-ladder.md'', ''ops/safety/approval-queue.md''}"
    "join_path ws n = ws @ r" "r \<noteq> [''BOOTSTRAP.md'']" for n r
  proof -
    have keys: "map fst docs = map fst (generateDeterministicDocuments [] c)"
      using generateDocuments_keys [of m c policy w docs] steps(1) by simp
    have "n \<in> set (map fst docs)" unfolding keys by (rule docs_required [OF that(1)])
    then obtain t where t: "(n, t) \<in> set docs" unfolding set_map by (elim imageE) (metis prod.collapse)
    have "n \<noteq> ''memory-seed''" using that(1) by auto
    from docs_written [OF t this _ steps(2)] that(2,3) have "has_file (ws @ r) w2" by simp
    with has_file_kept [OF k27] that(3) show ?thesis by simp
  qed
  have "has_file (ws @ [''memory'', ''README.md'']) w'" by (rule doc [of "''memory/README.md''"]) (simp_all add: join_path_def norm_step_def)
  moreover have "has_file (ws @ [''ops'', ''safety'', ''trust-ladder.md'']) w'"
    by (rule doc [of "''ops/safety/trust-ladder.md''"]) (simp_all add: join_path_def norm_step_def)
  moreover have "has_file (ws @ [''ops'', ''safety'', ''approval-queue.md'']) w'"
    by (rule doc [of "''ops/safety/approval-queue.md''"]) (simp_all add: join_path_def norm_step_def)
  moreover have "has_file (ws @ [''ops'', ''scripts'', n]) w'" if "n \<in> set (map fst (coding_scripts c))" for n
    using has_file_kept [OF k37] scripts_written [OF that steps(3)] by simp
  moreover have "has_file (patch_path ws) w' \<and> \<not> list_all aa_ok (fst x)" if "\<not> am_allowGlobalConfigWrites (qc_automation c)"
  proof -
    from patch_written [OF steps(6) that] have "has_file (patch_path ws) w6" "\<not> aa_ok (sentry_action c s)"
      by (simp_all add: sentry_action_def)
    with x has_file_kept [OF k67] show ?thesis by (auto simp: patch_path_def list_all_iff)
  qed
  ultimately show ?thesis by (simp add: requiredFiles_def coding_scripts_def)
qed

section \<open>A machine on which everything works\<close>

definition obliging :: "machine \<Rightarrow> bool" where
  "obliging m \<longleftrightarrow> (\<forall>w c. \<exists>out err d. hm_spawn m w c = (Closed (Some 0) out err, d))"

lemma obliging_shell: "obliging m \<Longrightarrow> \<exists>r w'. run_state (runShell m c b) w = (Inr r, w')"
proof -
  assume "obliging m"
  then obtain out err d where "hm_spawn m w c = (Closed (Some 0) out err, d)" unfolding obliging_def by blast
  then show ?thesis by (simp add: runShell_def shell_outcome_def Let_def)
qed

lemma obliging_exists: "obliging m \<Longrightarrow> \<exists>w'. run_state (commandExists m b) w = (True, w')"
  using obliging_shell [of m "lookup_call b" False w] by (auto simp: commandExists_def succeeded_def)

lemma each_all:
  assumes "\<And>x w. x \<in> set xs \<Longrightarrow> \<exists>y w'. run_state (act x) w = (y, w') \<and> Q y"
  shows "\<exists>ys w'. run_state (each act xs) w = (ys, w') \<and> list_all Q ys"
  using assms
proof (induction xs arbitrary: w)
  case (Cons x xs)
  obtain y w1 where y: "run_state (act x) w = (y, w1)" "Q y" using Cons.prems [of x w] by auto
  obtain ys w2 where "run_state (each act xs) w1 = (ys, w2)" "list_all Q ys" using Cons.IH [of w1] Cons.prems by auto
  with y show ?case by simp
qed simp

definition ready :: "machine \<Rightarrow> quick_config \<Rightarrow> bool" where
  "ready m c \<longleftrightarrow> obliging m \<and> gteVersion (parseVersion (hm_node m)) [Some 22, Some 12, Some 0]
     \<and> (\<forall>n \<in> set (requiredSecrets c). env_set m n)
     \<and> (oc_authChoice (qc_openclaw c) = ''apiKey'' \<longrightarrow> env_set m (ref_or c ''anthropic_api_key'' ''ANTHROPIC_API_KEY'')
          \<or> env_set m (ref_or c ''openai_api_key'' ''OPENAI_API_KEY''))"

lemma ready_preflight:
  assumes "ready m c"
  shows "\<exists>pf w'. run_state (runPreflight m c) w = (pf, w') \<and> pf_binary pf = Some ''openclaw'' \<and> assertPreflight pf = None"
proof -
  from assms have m: "obliging m" by (simp add: ready_def)
  obtain w1 where w1: "run_state (commandExists m ''openclaw'') w = (True, w1)" using obliging_exists [OF m] by blast
  obtain w2 where w2: "run_state (commandExists m ''clawdbot'') w1 = (True, w2)" using obliging_exists [OF m] by blast
  have "\<exists>k w'. run_state (binary_check m b) v = (k, w') \<and> ck_ok k" for b v
    using obliging_exists [OF m, of b v] by (auto simp: binary_check_def)
  then obtain ks w3 where w3: "run_state (each (binary_check m) [''tastekit'', ''claude'', ''codex'', ''tmux'', ''git'']) w2 = (ks, w3)"
      "list_all ck_ok ks"
    using each_all [of "[''tastekit'', ''claude'', ''codex'', ''tmux'', ''git'']" "binary_check m" ck_ok w2] by blast
  from w3(2) have "filter (\<lambda>c. \<not> ck_ok c) ks = []" by (simp add: list_all_iff)
  moreover have "filter (\<lambda>c. \<not> ck_ok c) (map (secret_check m) (requiredSecrets c)) = []"
    using assms by (auto simp: ready_def secret_check_def filter_empty_conv)
  moreover have "filter (\<lambda>c. \<not> ck_ok c) (provider_check m c) = []"
    using assms by (simp add: ready_def provider_check_def Let_def)
  moreover have "ck_ok (node_check m)" using assms by (simp add: ready_def node_check_def)
  ultimately show ?thesis using w1 w2 w3(1)
    by (simp add: runPreflight_def Let_def assertPreflight_def del: each.simps)
qed

lemma first_problem_None: "first_problem docs = None \<longleftrightarrow> (\<forall>d \<in> set docs. validateDoc d = None)"
  by (induction docs) (auto simp: first_problem_def map_filter_simps split: option.split)

lemma update_subset: "d \<in> set (AList.update k v al) \<Longrightarrow> d = (k, v) \<or> d \<in> set al"
  by (induction al) (auto split: if_splits)

lemma synthesize_valid:
  "\<forall>d \<in> set docs. validateDoc d = None \<Longrightarrow> \<forall>d \<in> set (fst (run_state (synthesize ask ns docs) w)). validateDoc d = None"
proof (induction ns arbitrary: docs w)
  case (Cons n ns)
  obtain r w' where ask: "run_state (ask n) w = (r, w')" by force
  have "\<forall>d \<in> set (case r of Inl _ \<Rightarrow> docs | Inr g \<Rightarrow> if validateDoc (n, g) = None then AList.update n g docs else docs).
      validateDoc d = None"
    using Cons.prems by (auto split: sum.split dest!: update_subset)
  from Cons.IH [OF this, of w'] ask show ?case by simp
qed simp

lemma documents_generated:
  assumes "\<And>v. first_problem (generateDeterministicDocuments (take 10 (hm_now m v)) c) = None"
  shows "\<exists>docs w'. run_state (generateDocuments m c p) w = (Inr docs, w')"
proof -
  let ?ask = "\<lambda>n. if p = Codex_only then runCodexPrompt m (synthesisPrompt m c n) None
            else runClaudePrompt m (synthesisPrompt m c n) (Some ''plan'') None"
  obtain docs w' where run: "run_state (synthesize ?ask planDocs (generateDeterministicDocuments (take 10 (hm_now m w)) c)) w = (docs, w')"
    by force
  have "\<forall>d \<in> set docs. validateDoc d = None"
    using synthesize_valid [of "generateDeterministicDocuments (take 10 (hm_now m w)) c" ?ask planDocs w] assms run
    by (simp add: first_problem_None)
  then have "first_problem docs = None" by (simp add: first_problem_None)
  with run show ?thesis by (simp add: generateDocuments_def)
qed

lemma obliging_hooks: "obliging m \<Longrightarrow> \<exists>rs w'. run_state (setupHooks m b) w = (rs, w') \<and> list_all sp_ok rs"
  unfolding setupHooks_def
proof (rule each_all)
  fix h v
  assume "obliging m"
  then show "\<exists>y w'. run_state (enable_hook m b h) v = (y, w') \<and> sp_ok y"
    using obliging_shell [of m "cmd_call b [''hooks'', ''enable'', h]" False v] by (auto simp: enable_hook_def)
qed

lemma obliging_cron: "obliging m \<Longrightarrow> \<exists>rs w'. run_state (setupCronJobs m b c) w = (Inr rs, w') \<and> list_all sp_ok rs"
proof -
  assume m: "obliging m"
  obtain ns w1 where w1: "run_state (listExisting m b) w = (Inr ns, w1)"
    using obliging_shell [OF m, of "cmd_call b [''cron'', ''list'', ''--json'']" True w] by (auto simp: listExisting_def)
  have "\<exists>y w'. run_state (add_job m b c ns j) v = (y, w') \<and> sp_ok y" for j v
    using obliging_shell [OF m, of "add_call b c j" False v] by (auto simp: add_job_def)
  then obtain rs w2 where "run_state (each (add_job m b c ns) (cron_jobs c)) w1 = (rs, w2)" "list_all sp_ok rs"
    using each_all [of "cron_jobs c" "add_job m b c ns" sp_ok w1] by blast
  with w1 show ?thesis by (simp add: setupCronJobs_def)
qed

lemma obliging_bridge: "obliging m \<Longrightarrow> \<exists>r w'. run_state (runTasteKitBridge m ws) w = (r, w') \<and> sp_ok r"
proof -
  assume m: "obliging m"
  let ?d = "w\<lparr>wd_disk := ensureDir (ws @ [''ops'', ''tastekit-export'']) (wd_disk w)\<rparr>"
  let ?i = "\<lparr>sc_command = ''tastekit'', sc_args = [''import'', ''--target'', ''soul-md'', ''--source'', show_path ws], sc_cwd = Some ws, sc_input = None\<rparr>"
  let ?e = "\<lparr>sc_command = ''tastekit'', sc_args = [''export'', ''--target'', ''agents-md'', ''--out'', show_path (ws @ [''ops'', ''tastekit-export''])],
    sc_cwd = Some ws, sc_input = None\<rparr>"
  obtain r1 w1 where "run_state (runShell m ?i False) ?d = (Inr r1, w1)" using obliging_shell [OF m] by blast
  moreover obtain r2 w2 where "run_state (runShell m ?e False) w1 = (Inr r2, w2)" using obliging_shell [OF m] by blast
  ultimately show ?thesis by (simp add: runTasteKitBridge_def Let_def)
qed

lemma blocked_pipeline:
  "\<not> am_allowGlobalConfigWrites (qc_automation c) \<Longrightarrow>
     \<exists>s w'. run_state (setupSentryPipeline m ws c) w = (Inr s, w') \<and> \<not> st_smokeTest s"
  by (simp add: setupSentryPipeline_def install_patch_def smoke_steps_def Let_def split: prod.split)

lemma all_ok_filter: "list_all P xs \<Longrightarrow> filter (\<lambda>x. \<not> P x) xs = []"
  by (simp add: list_all_iff filter_empty_conv)

lemma blocked_steps:
  assumes m: "obliging m" and blocked: "\<not> am_allowGlobalConfigWrites (qc_automation c)"
    and docs: "\<And>v. first_problem (generateDeterministicDocuments (take 10 (hm_now m v)) c) = None" and given: "list_all aa_ok actions"
  shows "\<exists>actions' warnings w'. run_state (apply_steps m c policy ws binary actions) w = (Inr (actions', warnings), w')
     \<and> map aa_id (filter (\<lambda>a. \<not> aa_ok a) actions') = [''sentry_pipeline'']"
proof -
  obtain ds w1 where w1: "run_state (generateDocuments m c policy) w = (Inr ds, w1)"
    using documents_generated [OF docs] by blast
  obtain fs w2 where w2: "run_state (writeWorkspaceDocs m ws ds) w1 = (fs, w2)" by force
  obtain ss w3 where w3: "run_state (setupCodingOps ws c) w2 = (ss, w3)" by force
  obtain hs w4 where w4: "run_state (setupHooks m binary) w3 = (hs, w4)" "list_all sp_ok hs" using obliging_hooks [OF m] by blast
  obtain js w5 where w5: "run_state (setupCronJobs m binary c) w4 = (Inr js, w5)" "list_all sp_ok js" using obliging_cron [OF m] by blast
  obtain s w6 where w6: "run_state (setupSentryPipeline m ws c) w5 = (Inr s, w6)" "\<not> st_smokeTest s"
    using blocked_pipeline [OF blocked] by blast
  obtain b w7 where w7: "run_state (runTasteKitBridge m ws) w6 = (b, w7)" "sp_ok b" using obliging_bridge [OF m] by blast
  show ?thesis
    using w1 w2 w3 w4(1) w5(1) w6(1) w7(1) w6(2) w7(2) all_ok_filter [OF w4(2)] all_ok_filter [OF w5(2)] all_ok_filter [OF given]
    by (simp add: apply_steps_def hooks_action_def cron_action_def sentry_action_def)
qed

lemma passed_no_missing: "assertPreflight pf = None \<Longrightarrow> missingBinaries pf = []"
proof -
  assume "assertPreflight pf = None"
  then have "\<forall>c \<in> set (pf_checks pf). ck_ok c" by (simp add: assertPreflight_def Let_def filter_empty_conv split: if_splits)
  then have "List.map_filter (\<lambda>c. if ck_ok c then None
     else if ck_name c = ''openclaw_binary'' then Some ''openclaw''
     else if starts_with (ck_name c) ''binary_'' \<and> ck_name c \<noteq> ''binary_'' then Some (drop 7 (ck_name c))
     else None) (pf_checks pf) = []"
    by (induction "pf_checks pf" arbitrary: pf rule: list.induct) (auto simp: List.map_filter_def)
  then show ?thesis by (simp add: missingBinaries_def)
qed

lemma blocked_create:
  assumes policy: "map_of engine_policies (cr_enginePolicy opts) = Some policy"
    and config: "resolveConfig m wizard opts (wd_disk w) = Inr c0" "c = applyWorkspaceOverride c0 (cr_workspace opts)"
    and ready: "ready m c" and docs: "\<And>v. first_problem (generateDeterministicDocuments (take 10 (hm_now m v)) c) = None"
    and go: "\<not> cr_preview opts" "cr_confirm opts \<longrightarrow> agreed"
    and blocked: "\<not> am_allowGlobalConfigWrites (qc_automation c)"
  shows "\<exists>planPath report checks actions warnings w'.
       run_state (create m wizard agreed opts) w = (Inr (Applied planPath report checks False actions warnings), w')
     \<and> map aa_id (filter (\<lambda>a. \<not> aa_ok a) actions) = [''sentry_pipeline'']"
proof -
  let ?ws = "resolve_path (hm_cwd m) (pj_workspace (qc_project c))"
  have m: "obliging m" using ready by (simp add: ready_def)
  obtain pf w1 where w1: "run_state (runPreflight m c) (w\<lparr>wd_disk := ensureDir ?ws (wd_disk w)\<rparr>) = (pf, w1)"
      "pf_binary pf = Some ''openclaw''" "assertPreflight pf = None"
    using ready_preflight [OF ready] by blast
  obtain pp w2 where w2: "run_state (writePlanReport m ?ws c pf) w1 = (pp, w2)" by force
  obtain onb w3 where w3: "run_state (runOpenClawOnboard m c ''openclaw'' (Some (show_path ?ws))) w2 = (Inr onb, w3)"
    using obliging_shell [OF m, of "buildOnboardCommand m c ''openclaw'' (Some (show_path ?ws))" False w2]
    by (auto simp: runOpenClawOnboard_def)
  obtain actions warnings w4 where w4: "run_state (apply_steps m c policy ?ws ''openclaw''
      [\<lparr>aa_id = ''onboard'', aa_ok = True, aa_details = take 500 onb\<rparr>]) w3 = (Inr (actions, warnings), w4)"
      "map aa_id (filter (\<lambda>a. \<not> aa_ok a) actions) = [''sentry_pipeline'']"
    using blocked_steps [OF m blocked docs, where policy = policy and ws = ?ws and binary = "''openclaw''" and w = w3
        and actions = "[\<lparr>aa_id = ''onboard'', aa_ok = True, aa_details = take 500 onb\<rparr>]"] by auto
  obtain rp w5 where w5: "run_state (writeApplyReport m ?ws actions) w4 = (rp, w5)" by force
  have "filter (\<lambda>a. \<not> aa_ok a) actions \<noteq> []" using w4(2) by auto
  then have fail: "\<not> list_all aa_ok actions" using all_ok_filter by blast
  have "run_state (create m wizard agreed opts) w = (Inr (Applied pp rp (pf_checks pf) False actions warnings), w5)"
    using policy config go w1 w2 w3 w4(1) w5 fail passed_no_missing [OF w1(3)]
    by (simp add: create_def confirm_and_apply_def Let_def install_missing_def apply_plan_def)
  with w4(2) show ?thesis by (intro exI conjI)
qed

text \<open>
  C25. The default policy cannot succeed. On a machine where every command succeeds and every secret is
  set, \<open>create\<close> under the policy that blocks writes of the global configuration, which is the default,
  runs to its end; every step is reported as done except the alert pipeline, whose smoke test is
  skipped for the same policy, and so the report is no success and the exit code is 1.
\<close>

theorem blocked_policy_never_succeeds:
  assumes "map_of engine_policies (cr_enginePolicy opts) = Some policy"
    and "resolveConfig m wizard opts (wd_disk w) = Inr c0" "c = applyWorkspaceOverride c0 (cr_workspace opts)"
    and "ready m c" and "\<And>v. first_problem (generateDeterministicDocuments (take 10 (hm_now m v)) c) = None"
    and "\<not> cr_preview opts" "cr_confirm opts \<longrightarrow> agreed"
    and "\<not> am_allowGlobalConfigWrites (qc_automation c)"
  shows "\<exists>planPath report checks actions warnings.
       fst (run_state (create m wizard agreed opts) w) = Inr (Applied planPath report checks False actions warnings)
     \<and> map aa_id (filter (\<lambda>a. \<not> aa_ok a) actions) = [''sentry_pipeline'']
     \<and> create_exit_code (fst (run_state (create m wizard agreed opts) w)) = 1"
  using blocked_create [OF assms] by (auto simp: create_exit_code_def)

text \<open>The witnesses run on a machine where every command succeeds and changes nothing.\<close>

definition working_machine :: machine where
  "working_machine = blank_machine\<lparr>hm_spawn := (\<lambda>w c. (Closed (Some 0) [] [], wd_disk w)), hm_env := (\<lambda>_. Some ''x'')\<rparr>"

definition plain_options :: create_options where
  "plain_options = \<lparr>cr_config = None, cr_workspace = None, cr_preview = False, cr_confirm = False, cr_enginePolicy = ''claude-plan-codex-exec''\<rparr>"

lemma working_documents: "first_problem (generateDeterministicDocuments ''2026-01-01'' (default_config working_machine)) = None"
  by code_simp

lemma working_ready: "ready working_machine (default_config working_machine)"
proof -
  have "gteVersion (parseVersion ''v22.12.0'') [Some 22, Some 12, Some 0]" by code_simp
  then show ?thesis by (auto simp: ready_def obliging_def working_machine_def blank_machine_def env_set_def)
qed

lemma working_now: "take 10 (hm_now working_machine v) = ''2026-01-01''"
  by (simp add: working_machine_def blank_machine_def)

lemma working_policy: "map_of engine_policies (cr_enginePolicy plain_options) = Some Claude_plan_codex_exec"
  by (simp add: plain_options_def engine_policies_def)

lemma working_config:
  "resolveConfig m (Some c) plain_options d = Inr c" "applyWorkspaceOverride c (cr_workspace plain_options) = c"
  "\<not> cr_preview plain_options" "cr_confirm plain_options \<longrightarrow> agreed"
  "\<not> am_allowGlobalConfigWrites (qc_automation (default_config m))"
  by (simp_all add: resolveConfig_def plain_options_def applyWorkspaceOverride_def default_config_def Let_def)

theorem blocked_policy_never_succeeds_witness:
  "create_exit_code (fst (run_state (create working_machine (Some (default_config working_machine)) True plain_options) blank_world)) = 1"
proof -
  have docs: "first_problem (generateDeterministicDocuments (take 10 (hm_now working_machine v)) (default_config working_machine)) = None" for v
    using working_documents by (simp only: working_now)
  show ?thesis
    using blocked_policy_never_succeeds [OF working_policy working_config(1) working_config(2) [symmetric] working_ready docs
        working_config(3,4) working_config(5)] by blast
qed

theorem preview_touches_nothing_witness:
  "let r = run_state (create working_machine (Some (default_config working_machine)) True (plain_options\<lparr>cr_preview := True\<rparr>)) blank_world
   in wd_requests (snd r) = [] \<and> (\<exists>bs. wd_calls (snd r) = map lookup_call bs)"
proof -
  let ?o = "plain_options\<lparr>cr_preview := True\<rparr>"
  let ?r = "run_state (create working_machine (Some (default_config working_machine)) True ?o) blank_world"
  have quiet: "quiet_lookups working_machine" by (simp add: quiet_lookups_def working_machine_def)
  have "wd_requests (snd ?r) = wd_requests blank_world \<and> (\<exists>bs. wd_calls (snd ?r) = wd_calls blank_world @ map lookup_call bs)"
    using preview_touches_nothing [OF quiet _ prod.collapse [symmetric], where agreed = True] by simp
  then show ?thesis by (simp add: Let_def blank_world_def)
qed

section \<open>create, then verify\<close>

lemma workspace_name: "starts_with n ''workspace_'' \<Longrightarrow> hd n = CHR ''w''"
  by (cases n) auto

lemma preflight_names:
  assumes "run_state (runPreflight m c) w = (pf, w')" "k \<in> set (pf_checks pf)"
  shows "\<not> starts_with (ck_name k) ''workspace_''"
proof -
  let ?Q = "\<lambda>k. hd (ck_name k) \<noteq> CHR ''w''"
  obtain b1 w1 where w1: "run_state (commandExists m ''openclaw'') w = (b1, w1)" by (rule prod.exhaust)
  obtain b2 w2 where w2: "run_state (commandExists m ''clawdbot'') w1 = (b2, w2)" by (rule prod.exhaust)
  have "\<exists>k v'. run_state (binary_check m b) v = (k, v') \<and> ?Q k" for b v
    by (simp add: binary_check_def split: prod.split)
  then obtain ks w3 where w3: "run_state (each (binary_check m) [''tastekit'', ''claude'', ''codex'', ''tmux'', ''git'']) w2 = (ks, w3)"
      "list_all ?Q ks"
    using each_all [of "[''tastekit'', ''claude'', ''codex'', ''tmux'', ''git'']" "binary_check m" ?Q w2] by blast
  have "list_all ?Q (map (secret_check m) ns)" for ns by (simp add: list_all_iff secret_check_def)
  moreover have "list_all ?Q (provider_check m c)" by (simp add: provider_check_def Let_def)
  moreover have "?Q (node_check m)" by (simp add: node_check_def)
  ultimately have "list_all ?Q (pf_checks pf)"
    using assms(1) w1 w2 w3 by (auto simp: runPreflight_def Let_def simp del: each.simps)
  with assms(2) have "?Q k" by (simp add: list_all_iff)
  then show ?thesis using workspace_name by blast
qed

lemma runtime_names:
  "run_state (runtime_checks m b) w = (Inr rs, w') \<Longrightarrow> k \<in> set rs \<Longrightarrow> \<not> starts_with (ck_name k) ''workspace_''"
  by (auto simp: runtime_checks_def cron_checks_def command_check_def Let_def split: option.splits prod.splits sum.splits if_splits)

lemma keeps_create_applied:
  assumes m: "careful_commands m" and config: "resolveConfig m wizard opts (wd_disk w) = Inr c0"
      "c = applyWorkspaceOverride c0 (cr_workspace opts)" "ws = resolve_path (hm_cwd m) (pj_workspace (qc_project c))"
    and created: "run_state (create m wizard agreed opts) w = (Inr (Applied planPath report cs success actions warnings), w')"
  shows "(\<forall>f \<in> set requiredFiles. has_file (ws @ fst (snd f)) w')
     \<and> (\<not> am_allowGlobalConfigWrites (qc_automation c) \<longrightarrow> has_file (patch_path ws) w')"
proof -
  obtain policy where policy: "map_of engine_policies (cr_enginePolicy opts) = Some policy"
    using created by (auto simp: create_def split: option.splits)
  obtain pf w1 pp w2 where w12: "run_state (runPreflight m c) (w\<lparr>wd_disk := ensureDir ws (wd_disk w)\<rparr>) = (pf, w1)"
      "run_state (writePlanReport m ws c pf) w1 = (pp, w2)" by force
  obtain i pf' w3 where w3: "run_state (install_missing m c pf) w2 = ((i, pf'), w3)" by (metis prod.collapse)
  have "run_state (apply_plan m c policy ws pp pf' i) w3 = (Inr (Applied planPath report cs success actions warnings), w')"
    using created policy config w12 w3 by (auto simp: create_def confirm_and_apply_def Let_def preview_def split: if_splits)
  then obtain binary acts w4 x w5 where steps: "run_state (apply_steps m c policy ws binary acts) w4 = (Inr x, w5)"
      and report: "run_state (writeApplyReport m ws (fst x)) w5 = (report, w')"
    by (auto simp: apply_plan_def split: option.splits sum.splits prod.splits)
  have "state_io_rel (keeps_files ws) (writeApplyReport m ws (fst x))"
    unfolding writeApplyReport_def by (intro io keeps keeps_preorder m)
  then have "keeps_files ws w5 w'" using report by (rule state_io_relD)
  from has_file_kept [OF this] apply_steps_files [OF m steps] show ?thesis
    by (auto simp: requiredFiles_def patch_path_def)
qed

text \<open>
  C23. What \<open>create\<close> made, \<open>verify\<close> finds. After a run of \<open>create\<close> to its end, whatever the report says of
  the single steps, a \<open>verify\<close> of the same workspace and policy passes every check of the workspace: the memory
  readme, the trust ladder, the approval queue, the two coding scripts, and, when global writes are
  blocked, the configuration patch. It rests on the commands that both programs run deleting no file.
\<close>

theorem created_workspace_verifies:
  assumes careful: "careful_commands m"
    and config: "resolveConfig m wizard opts (wd_disk w) = Inr c0" "c = applyWorkspaceOverride c0 (cr_workspace opts)"
      "ws = resolve_path (hm_cwd m) (pj_workspace (qc_project c))"
    and created: "run_state (create m wizard agreed opts) w = (Inr (Applied planPath report cs success actions warnings), w')"
    and same: "verify_config m vo (wd_disk w') = Inr c'" "qc_automation c' = qc_automation c"
      "resolve_path (hm_cwd m) (or_default (pj_workspace (qc_project c')) (vo_workspace vo)) = ws"
    and verified: "run_state (verify m vo) w' = (Inr checks, w'')"
  shows "map fst requiredFiles = filter (\<lambda>n. n \<noteq> ''workspace_openclaw_config_patch'')
         (filter (\<lambda>n. starts_with n ''workspace_'') (map ck_name checks))
     \<and> (\<forall>k \<in> set checks. starts_with (ck_name k) ''workspace_'' \<longrightarrow> ck_ok k)"
proof -
  obtain pf v1 where v1: "run_state (runPreflight m c') w' = (pf, v1)" by force
  obtain rt v2 where v2: "run_state (runtime_checks m (pf_binary pf)) v1 = (Inr rt, v2)"
    using verified same v1 by (auto simp: verify_def Let_def split: prod.splits sum.splits)
  obtain route v3 where v3: "run_state (verifySentryEndpoint m c') v2 = (route, v3)" by (rule prod.exhaust)
  have checks: "checks = pf_checks pf @ map (file_check (wd_disk v1) ws) requiredFiles @ patch_checks (wd_disk v1) ws c' @ rt
      @ [\<lparr>ck_name = ''sentry_webhook_route_test'', ck_ok = fst route, ck_details = Some (snd route)\<rparr>]"
    using verified same v1 v2 v3 by (auto simp: verify_def Let_def split: prod.splits)
  have keep: "keeps_files ws w' v1" using keeps_steps(2) [OF careful] v1 by (rule state_io_relD)
  note left = keeps_create_applied [OF careful config created]
  have required: "\<forall>f \<in> set requiredFiles. has_file (ws @ fst (snd f)) v1"
    using left has_file_kept [OF keep] by (auto simp: requiredFiles_def)
  have patch: "\<not> am_allowGlobalConfigWrites (qc_automation c') \<longrightarrow> has_file (patch_path ws) v1"
    using left has_file_kept [OF keep] same(2) by (simp add: patch_path_def)
  have exists: "existsSync (wd_disk v1) p" if "has_file p v1" for p
    using that by (simp add: existsSync_def has_file_def)
  have none: "filter (\<lambda>n. starts_with n ''workspace_'') (map ck_name (pf_checks pf)) = []"
      "filter (\<lambda>n. starts_with n ''workspace_'') (map ck_name rt) = []"
    using preflight_names [OF v1] runtime_names [OF v2] by (auto simp: filter_empty_conv)
  have "map fst requiredFiles = filter (\<lambda>n. n \<noteq> ''workspace_openclaw_config_patch'')
         (filter (\<lambda>n. starts_with n ''workspace_'') (map ck_name checks))"
    using none by (simp add: checks requiredFiles_def file_check_def Let_def patch_checks_def)
  moreover have "ck_ok k" if "k \<in> set checks" "starts_with (ck_name k) ''workspace_''" for k
    using that preflight_names [OF v1] runtime_names [OF v2] required patch exists
    by (auto simp: checks file_check_def Let_def patch_checks_def split: if_splits)
  ultimately show ?thesis by blast
qed

lemma obliging_runtime: "obliging m \<Longrightarrow> \<exists>rs w'. run_state (runtime_checks m b) w = (Inr rs, w')"
proof (cases b)
  case (Some n)
  assume m: "obliging m"
  obtain r1 w1 where "run_state (runShell m (cmd_call n [''health'']) True) w = (Inr r1, w1)" using obliging_shell [OF m] by blast
  moreover obtain r2 w2 where "run_state (checkHooks m n) w1 = (Inr r2, w2)"
    using obliging_shell [OF m] unfolding checkHooks_def by blast
  moreover obtain r3 w3 where "run_state (verifyCron m n) w2 = (Inr r3, w3)"
    using obliging_shell [OF m] unfolding verifyCron_def by blast
  ultimately show ?thesis using Some by (simp add: runtime_checks_def)
qed (simp add: runtime_checks_def)

lemma verify_completes:
  assumes m: "obliging m" and c: "verify_config m vo (wd_disk w) = Inr c"
  shows "\<exists>checks w'. run_state (verify m vo) w = (Inr checks, w')"
proof -
  obtain pf v1 where v1: "run_state (runPreflight m c) w = (pf, v1)" by (rule prod.exhaust)
  obtain rs v2 where v2: "run_state (runtime_checks m (pf_binary pf)) v1 = (Inr rs, v2)" using obliging_runtime [OF m] by blast
  obtain route v3 where v3: "run_state (verifySentryEndpoint m c) v2 = (route, v3)" by (rule prod.exhaust)
  show ?thesis using c v1 v2 v3 by (simp add: verify_def Let_def split: prod.split)
qed

theorem created_workspace_verifies_witness:
  "\<exists>w' checks w''. run_state (verify working_machine \<lparr>vo_config = None, vo_workspace = None\<rparr>) w' = (Inr checks, w'')
     \<and> (\<forall>k \<in> set checks. starts_with (ck_name k) ''workspace_'' \<longrightarrow> ck_ok k)"
proof -
  let ?m = working_machine let ?c = "default_config ?m" let ?vo = "\<lparr>vo_config = None, vo_workspace = None\<rparr>"
  have careful: "careful_commands ?m" by (simp add: careful_commands_def working_machine_def)
  have docs: "first_problem (generateDeterministicDocuments (take 10 (hm_now ?m v)) ?c) = None" for v
    using working_documents by (simp only: working_now)
  obtain planPath report cs actions warnings w' where
    created: "run_state (create ?m (Some ?c) True plain_options) blank_world = (Inr (Applied planPath report cs False actions warnings), w')"
    using blocked_create [OF working_policy working_config(1) working_config(2) [symmetric] working_ready docs
        working_config(3,4) working_config(5)] by blast
  have c: "verify_config ?m ?vo (wd_disk w') = Inr ?c"
    by (simp add: verify_config_def applyWorkspaceOverride_def buildDefaultConfig_def)
  have m: "obliging ?m" using working_ready by (simp add: ready_def)
  obtain checks w'' where verified: "run_state (verify ?m ?vo) w' = (Inr checks, w'')" using verify_completes [OF m c] by blast
  have ws: "resolve_path (hm_cwd ?m) (or_default (pj_workspace (qc_project ?c)) (vo_workspace ?vo))
      = resolve_path (hm_cwd ?m) (pj_workspace (qc_project ?c))"
    by (simp add: or_default_def)
  from created_workspace_verifies [OF careful working_config(1) working_config(2) [symmetric] refl created c refl ws verified] verified
  show ?thesis by blast
qed

end
