(* ===== verification/McpClient.thy ===== *)
theory McpClient
  imports Json "HOL-Library.AList"
begin

text \<open>
  TasteKit core, mcp/client.ts and mcp/inspector.ts: the client of a tool server over the protocol
  library. The library is the parameter \<open>sdk\<close>: what its modules, transports and requests answer,
  the n-th request of a client by its number, so a server may answer differently each time. A
  raised exception is a \<open>failure\<close>; every operation returns a failure or a result, and the client.
\<close>

section \<open>Data\<close>

datatype transport = Stdio | Streamable_http

record mcp_config =
  cf_name :: string
  cf_command :: "string option"
  cf_args :: "string list option"
  cf_env :: "(string \<times> string) list option"
  cf_url :: "string option"
  cf_transport :: "transport option"
  cf_fingerprint :: "string option"

record tool_annotations =
  an_risk :: "string option"
  an_destructive :: "bool option"
  an_readOnlyHint :: "bool option"
  an_openWorldHint :: "bool option"

record mcp_tool =
  tl_name :: string
  tl_description :: "string option"
  tl_inputSchema :: "json option"
  tl_annotations :: "tool_annotations option"

record mcp_resource =
  rs_uri :: string
  rs_name :: "string option"
  rs_mimeType :: "string option"
  rs_description :: "string option"

record mcp_prompt =
  pr_name :: string
  pr_description :: "string option"
  pr_arguments :: "json option"

record tool_result =
  tr_content :: "json list"
  tr_isError :: "bool option"

record capabilities =
  cap_tools :: bool
  cap_resources :: bool
  cap_prompts :: bool
  cap_logging :: bool

section \<open>The protocol library\<close>

datatype failure = Module_not_found | Raised string

datatype transport_spec = Stdio_spec string "string list" "(string \<times> string) list" | Http_spec string

record sdk =
  sdk_client_module :: "failure option"
  sdk_has_stdio :: bool
  sdk_has_http :: bool
  sdk_process_env :: "(string \<times> string) list"
  sdk_valid_url :: "string \<Rightarrow> bool"
  sdk_handshake :: "nat \<Rightarrow> transport_spec \<Rightarrow> failure option"
  sdk_tools :: "nat \<Rightarrow> failure + mcp_tool list option"
  sdk_resources :: "nat \<Rightarrow> failure + mcp_resource list option"
  sdk_prompts :: "nat \<Rightarrow> failure + mcp_prompt list option"
  sdk_call :: "nat \<Rightarrow> string \<Rightarrow> json \<Rightarrow> failure + (json list option \<times> bool option)"
  sdk_capabilities :: "nat \<Rightarrow> json option"
  sdk_close_client :: "nat \<Rightarrow> failure option"
  sdk_close_transport :: "nat \<Rightarrow> failure option"

section \<open>The client\<close>

text \<open>\<open>mc_sdk_client\<close> is whether \<open>sdkClient\<close> is set; \<open>mc_calls\<close> numbers the requests of this client.\<close>

record mcp_client =
  mc_config :: mcp_config
  mc_connected :: bool
  mc_sdk_client :: bool
  mc_sdk_transport :: "transport_spec option"
  mc_calls :: nat

definition new_client :: "mcp_config \<Rightarrow> mcp_client" where
  "new_client cfg = \<lparr>mc_config = cfg, mc_connected = False, mc_sdk_client = False, mc_sdk_transport = None, mc_calls = 0\<rparr>"

type_synonym 'a outcome = "(failure + 'a) \<times> mcp_client"

definition next_call :: "mcp_client \<Rightarrow> mcp_client" where
  "next_call c = c\<lparr>mc_calls := Suc (mc_calls c)\<rparr>"

definition on_ok :: "'a outcome \<Rightarrow> ('a \<Rightarrow> mcp_client \<Rightarrow> 'b outcome) \<Rightarrow> 'b outcome" where
  "on_ok r k = (case r of (Inl e, c) \<Rightarrow> (Inl e, c) | (Inr x, c) \<Rightarrow> k x c)"

definition text_truthy :: "string option \<Rightarrow> bool" where
  "text_truthy s \<longleftrightarrow> (case s of None \<Rightarrow> False | Some t \<Rightarrow> t \<noteq> [])"

definition resolveTransport :: "mcp_config \<Rightarrow> failure + transport" where
  "resolveTransport cfg =
     (case cf_transport cfg of
        Some t \<Rightarrow> Inr t
      | None \<Rightarrow>
          if text_truthy (cf_command cfg) then Inr Stdio
          else if text_truthy (cf_url cfg) then Inr Streamable_http
          else Inl (Raised ''MCPServerConfig must specify either command (stdio) or url (http)''))"

definition not_connected :: failure where
  "not_connected = Raised ''MCPClient is not connected. Call connect() first.''"

definition not_installed :: failure where
  "not_installed = Raised (''MCP SDK not installed. Run: npm install @modelcontextprotocol/sdk'' @ [nl] @
     ''The official SDK provides stdio and HTTP transports for MCP servers.'')"

definition merged_env :: "(string \<times> string) list \<Rightarrow> (string \<times> string) list option \<Rightarrow> (string \<times> string) list" where
  "merged_env penv env = foldl (\<lambda>e (k, v). AList.update k v e) penv (list_or_empty env)"

definition open_transport :: "sdk \<Rightarrow> mcp_config \<Rightarrow> transport \<Rightarrow> failure + transport_spec" where
  "open_transport s cfg t =
     (case sdk_client_module s of
        Some e \<Rightarrow> Inl e
      | None \<Rightarrow>
          (case t of
             Stdio \<Rightarrow>
               if \<not> text_truthy (cf_command cfg) then Inl (Raised ''stdio transport requires a command'')
               else if \<not> sdk_has_stdio s then Inl (Raised ''StdioClientTransport is not a constructor'')
               else Inr (Stdio_spec (the (cf_command cfg)) (list_or_empty (cf_args cfg))
                           (merged_env (sdk_process_env s) (cf_env cfg)))
           | Streamable_http \<Rightarrow>
               if \<not> text_truthy (cf_url cfg) then Inl (Raised ''streamable-http transport requires a url'')
               else if \<not> sdk_valid_url s (the (cf_url cfg)) then Inl (Raised ''Invalid URL'')
               else if \<not> sdk_has_http s then Inl (Raised ''StreamableHTTPClientTransport is not a constructor'')
               else Inr (Http_spec (the (cf_url cfg)))))"

definition connect_error :: "failure \<Rightarrow> failure" where
  "connect_error e = (if e = Module_not_found then not_installed else e)"

definition connect :: "sdk \<Rightarrow> mcp_client \<Rightarrow> unit outcome" where
  "connect s c =
     (if mc_connected c then (Inr (), c)
      else (case resolveTransport (mc_config c) of
              Inl e \<Rightarrow> (Inl e, c)
            | Inr t \<Rightarrow>
                (case open_transport s (mc_config c) t of
                   Inl e \<Rightarrow> (Inl (connect_error e), c)
                 | Inr spec \<Rightarrow>
                     let c' = next_call (c\<lparr>mc_sdk_transport := Some spec, mc_sdk_client := True\<rparr>)
                     in case sdk_handshake s (mc_calls c) spec of
                          Some e \<Rightarrow> (Inl (connect_error e), c')
                        | None \<Rightarrow> (Inr (), c'\<lparr>mc_connected := True\<rparr>))))"

text \<open>Both closes may raise; the \<open>finally\<close> block resets the client in every case.\<close>

definition disconnect :: "sdk \<Rightarrow> mcp_client \<Rightarrow> unit outcome" where
  "disconnect s c =
     (if \<not> mc_connected c then (Inr (), c)
      else let c' = (next_call c)\<lparr>mc_connected := False, mc_sdk_client := False, mc_sdk_transport := None\<rparr>
           in case sdk_close_client s (mc_calls c) of
                Some e \<Rightarrow> (Inl e, c')
              | None \<Rightarrow> (case sdk_close_transport s (mc_calls c) of Some e \<Rightarrow> (Inl e, c') | None \<Rightarrow> (Inr (), c')))"

definition ensureConnected :: "mcp_client \<Rightarrow> failure option" where
  "ensureConnected c = (if \<not> mc_connected c \<or> \<not> mc_sdk_client c then Some not_connected else None)"

definition request :: "mcp_client \<Rightarrow> (nat \<Rightarrow> failure + 'a) \<Rightarrow> 'a outcome" where
  "request c reply =
     (case ensureConnected c of
        Some e \<Rightarrow> (Inl e, c)
      | None \<Rightarrow> (reply (mc_calls c), next_call c))"

definition listTools :: "sdk \<Rightarrow> mcp_client \<Rightarrow> mcp_tool list outcome" where
  "listTools s c = request c (\<lambda>n. map_sum id list_or_empty (sdk_tools s n))"

text \<open>A server without resources or prompts raises; the client then reports none.\<close>

definition or_none :: "failure + 'a list option \<Rightarrow> failure + 'a list" where
  "or_none r = (case r of Inl _ \<Rightarrow> Inr [] | Inr xs \<Rightarrow> Inr (list_or_empty xs))"

definition listResources :: "sdk \<Rightarrow> mcp_client \<Rightarrow> mcp_resource list outcome" where
  "listResources s c = request c (\<lambda>n. or_none (sdk_resources s n))"

definition listPrompts :: "sdk \<Rightarrow> mcp_client \<Rightarrow> mcp_prompt list outcome" where
  "listPrompts s c = request c (\<lambda>n. or_none (sdk_prompts s n))"

definition callTool :: "sdk \<Rightarrow> string \<Rightarrow> json \<Rightarrow> mcp_client \<Rightarrow> tool_result outcome" where
  "callTool s n args c =
     request c (\<lambda>k. map_sum id (\<lambda>(content, isError). \<lparr>tr_content = list_or_empty content, tr_isError = isError\<rparr>)
                      (sdk_call s k n args))"

text \<open>The identity that is hashed: \<open>hash\<close> is \<open>hashString\<close>, \<open>stringify\<close> is \<open>JSON.stringify\<close>.\<close>

definition identity_json :: "string \<Rightarrow> mcp_tool list \<Rightarrow> mcp_resource list \<Rightarrow> mcp_prompt list \<Rightarrow> json" where
  "identity_json n tools resources prompts =
     obj_of [(''name'', Some (JStr n)),
       (''tools'', Some (JArr (map (\<lambda>t. obj_of [(''name'', Some (JStr (tl_name t))), (''inputSchema'', tl_inputSchema t)]) tools))),
       (''resources'', Some (JArr (map (\<lambda>r. obj_of [(''uri'', Some (JStr (rs_uri r)))]) resources))),
       (''prompts'', Some (JArr (map (\<lambda>p. obj_of [(''name'', Some (JStr (pr_name p)))]) prompts)))]"

definition getFingerprint :: "(string \<Rightarrow> string) \<Rightarrow> (json \<Rightarrow> string) \<Rightarrow> sdk \<Rightarrow> mcp_client \<Rightarrow> string outcome" where
  "getFingerprint hash stringify s c =
     (case ensureConnected c of
        Some e \<Rightarrow> (Inl e, c)
      | None \<Rightarrow>
          on_ok (listTools s c) (\<lambda>tools c.
          on_ok (listResources s c) (\<lambda>resources c.
          on_ok (listPrompts s c) (\<lambda>prompts c.
            (Inr (hash (stringify (identity_json (cf_name (mc_config c)) tools resources prompts))), c)))))"

definition getCapabilities :: "sdk \<Rightarrow> mcp_client \<Rightarrow> capabilities outcome" where
  "getCapabilities s c =
     (case ensureConnected c of
        Some e \<Rightarrow> (Inl e, c)
      | None \<Rightarrow>
          let caps = (case sdk_capabilities s (mc_calls c) of None \<Rightarrow> JObj [] | Some j \<Rightarrow> j)
          in (Inr \<lparr>cap_tools = truthy (jfield ''tools'' caps), cap_resources = truthy (jfield ''resources'' caps),
                cap_prompts = truthy (jfield ''prompts'' caps), cap_logging = truthy (jfield ''logging'' caps)\<rparr>, c))"

section \<open>The inspector\<close>

datatype risk_level = Low_risk | Medium_risk | High_risk

record inspected_tool =
  it_name :: string
  it_description :: "string option"
  it_risk_level :: risk_level
  it_destructive :: bool

record inspection =
  in_server :: mcp_config
  in_tools :: "inspected_tool list"
  in_resources :: "(string \<times> string option) list"
  in_prompts :: "(string \<times> string option) list"
  in_fingerprint :: string

definition tool_risk :: "mcp_tool \<Rightarrow> string option" where
  "tool_risk t = Option.bind (tl_annotations t) an_risk"

definition tool_destructive :: "mcp_tool \<Rightarrow> bool" where
  "tool_destructive t \<longleftrightarrow> Option.bind (tl_annotations t) an_destructive = Some True"

definition assessRiskLevel :: "mcp_tool \<Rightarrow> risk_level" where
  "assessRiskLevel t =
     (if tool_risk t = Some ''high'' \<or> tool_destructive t then High_risk
      else if tool_risk t = Some ''medium'' then Medium_risk
      else Low_risk)"

definition inspect_body :: "(string \<Rightarrow> string) \<Rightarrow> (json \<Rightarrow> string) \<Rightarrow> sdk \<Rightarrow> mcp_config \<Rightarrow> mcp_client \<Rightarrow> inspection outcome" where
  "inspect_body hash stringify s server c =
     on_ok (connect s c) (\<lambda>_ c.
     on_ok (listTools s c) (\<lambda>tools c.
     on_ok (listResources s c) (\<lambda>resources c.
     on_ok (listPrompts s c) (\<lambda>prompts c.
     on_ok (getFingerprint hash stringify s c) (\<lambda>fp c.
       (Inr \<lparr>in_server = server,
             in_tools = map (\<lambda>t. \<lparr>it_name = tl_name t, it_description = tl_description t,
                                 it_risk_level = assessRiskLevel t, it_destructive = tool_destructive t\<rparr>) tools,
             in_resources = map (\<lambda>r. (rs_uri r, rs_name r)) resources,
             in_prompts = map (\<lambda>p. (pr_name p, pr_description p)) prompts,
             in_fingerprint = fp\<rparr>, c))))))"

definition inspect :: "(string \<Rightarrow> string) \<Rightarrow> (json \<Rightarrow> string) \<Rightarrow> sdk \<Rightarrow> mcp_config \<Rightarrow> inspection outcome" where
  "inspect hash stringify s server =
     (let (r, c) = inspect_body hash stringify s server (new_client server);
          (d, c') = disconnect s c
      in (case d of Inl e \<Rightarrow> Inl e | Inr _ \<Rightarrow> r, c'))"

section \<open>The life of a client\<close>

datatype client_op =
    Connect
  | Disconnect
  | List_tools
  | List_resources
  | List_prompts
  | Call_tool string json
  | Get_fingerprint
  | Get_capabilities

definition ended :: "'a outcome \<Rightarrow> failure option \<times> mcp_client" where
  "ended r = (case fst r of Inl e \<Rightarrow> Some e | Inr _ \<Rightarrow> None, snd r)"

fun perform :: "(string \<Rightarrow> string) \<Rightarrow> (json \<Rightarrow> string) \<Rightarrow> sdk \<Rightarrow> client_op \<Rightarrow> mcp_client \<Rightarrow> failure option \<times> mcp_client" where
  "perform hash stringify s Connect c = ended (connect s c)"
| "perform hash stringify s Disconnect c = ended (disconnect s c)"
| "perform hash stringify s List_tools c = ended (listTools s c)"
| "perform hash stringify s List_resources c = ended (listResources s c)"
| "perform hash stringify s List_prompts c = ended (listPrompts s c)"
| "perform hash stringify s (Call_tool n args) c = ended (callTool s n args c)"
| "perform hash stringify s Get_fingerprint c = ended (getFingerprint hash stringify s c)"
| "perform hash stringify s Get_capabilities c = ended (getCapabilities s c)"

definition client_inv :: "sdk \<Rightarrow> mcp_config \<Rightarrow> mcp_client \<Rightarrow> bool" where
  "client_inv s cfg c \<longleftrightarrow> mc_config c = cfg
     \<and> (mc_connected c \<longrightarrow> mc_sdk_client c
          \<and> (\<exists>t spec. resolveTransport cfg = Inr t \<and> open_transport s cfg t = Inr spec \<and> mc_sdk_transport c = Some spec))"

lemma next_call_simps [simp]:
  "mc_config (next_call c) = mc_config c" "mc_connected (next_call c) = mc_connected c"
  "mc_sdk_client (next_call c) = mc_sdk_client c" "mc_sdk_transport (next_call c) = mc_sdk_transport c"
  "mc_calls (next_call c) = Suc (mc_calls c)"
  by (simp_all add: next_call_def)

text \<open>Only the number of requests changes in an operation on a live client.\<close>

definition same_session :: "mcp_client \<Rightarrow> mcp_client \<Rightarrow> bool" where
  "same_session c c' \<longleftrightarrow> mc_config c' = mc_config c \<and> mc_connected c' = mc_connected c
     \<and> mc_sdk_client c' = mc_sdk_client c \<and> mc_sdk_transport c' = mc_sdk_transport c \<and> mc_calls c \<le> mc_calls c'"

lemma same_session_refl [simp]: "same_session c c"
  by (simp add: same_session_def)

lemma same_session_trans: "same_session a b \<Longrightarrow> same_session b c \<Longrightarrow> same_session a c"
  by (simp add: same_session_def)

lemma same_session_inv: "same_session c c' \<Longrightarrow> client_inv s cfg c \<Longrightarrow> client_inv s cfg c'"
  by (auto simp: same_session_def client_inv_def)

lemma request_session: "same_session c (snd (request c reply))"
  by (auto simp: request_def same_session_def split: option.splits)

lemma on_ok_session:
  "same_session c (snd r) \<Longrightarrow> (\<And>x c'. same_session c c' \<Longrightarrow> same_session c (snd (k x c'))) \<Longrightarrow> same_session c (snd (on_ok r k))"
  by (auto simp: on_ok_def split: prod.splits sum.splits)

lemma lists_session:
  "same_session c c' \<Longrightarrow> same_session c (snd (listTools s c'))"
  "same_session c c' \<Longrightarrow> same_session c (snd (listResources s c'))"
  "same_session c c' \<Longrightarrow> same_session c (snd (listPrompts s c'))"
  "same_session c c' \<Longrightarrow> same_session c (snd (callTool s n args c'))"
  by (auto simp: listTools_def listResources_def listPrompts_def callTool_def intro: same_session_trans request_session)

lemma fingerprint_session: "same_session c c' \<Longrightarrow> same_session c (snd (getFingerprint hash stringify s c'))"
  by (auto simp: getFingerprint_def intro!: on_ok_session lists_session split: option.split)

lemma capabilities_session: "snd (getCapabilities s c) = c"
  by (simp add: getCapabilities_def Let_def split: option.split)

definition needs_connection :: "client_op \<Rightarrow> bool" where
  "needs_connection op \<longleftrightarrow> op \<noteq> Connect \<and> op \<noteq> Disconnect"

lemma perform_session: "needs_connection op \<Longrightarrow> same_session c (snd (perform hash stringify s op c))"
  by (cases op) (auto simp: needs_connection_def ended_def capabilities_session
      intro: lists_session fingerprint_session)

lemma perform_unconnected:
  "needs_connection op \<Longrightarrow> \<not> mc_connected c \<Longrightarrow> perform hash stringify s op c = (Some not_connected, c)"
  by (cases op) (auto simp: needs_connection_def ended_def request_def ensureConnected_def listTools_def
      listResources_def listPrompts_def callTool_def getFingerprint_def getCapabilities_def)

lemma connect_cases:
  "connect s c = (r, c') \<Longrightarrow>
     c' = c \<and> (\<exists>e. r = Inl e) \<and> \<not> mc_connected c
   \<or> c' = c \<and> r = Inr () \<and> mc_connected c
   \<or> \<not> mc_connected c \<and> (\<exists>t spec. resolveTransport (mc_config c) = Inr t \<and> open_transport s (mc_config c) t = Inr spec
        \<and> mc_config c' = mc_config c \<and> mc_sdk_transport c' = Some spec \<and> mc_sdk_client c' \<and> mc_calls c' = Suc (mc_calls c)
        \<and> (mc_connected c' \<longleftrightarrow> r = Inr ()))"
  by (auto simp: connect_def Let_def split: if_splits sum.splits option.splits)

lemma connect_inv: "client_inv s cfg c \<Longrightarrow> client_inv s cfg (snd (connect s c))"
  using connect_cases [of s c "fst (connect s c)" "snd (connect s c)"] by (auto simp: client_inv_def)

lemma disconnect_connected [simp]: "\<not> mc_connected (snd (disconnect s c))"
  by (simp add: disconnect_def Let_def split: option.split)

lemma disconnect_config [simp]: "mc_config (snd (disconnect s c)) = mc_config c"
  by (simp add: disconnect_def Let_def split: option.split)

lemma disconnect_inv: "client_inv s cfg c \<Longrightarrow> client_inv s cfg (snd (disconnect s c))"
  by (simp add: client_inv_def)

lemma perform_inv: "client_inv s cfg c \<Longrightarrow> client_inv s cfg (snd (perform hash stringify s op c))"
proof (cases "needs_connection op")
  case False
  assume "client_inv s cfg c"
  with False show ?thesis by (auto simp: needs_connection_def ended_def connect_inv disconnect_inv)
qed (auto intro: same_session_inv perform_session)

interpretation living: stateful "\<lambda>c op. snd (perform hash stringify s op c)" "client_inv s cfg" "\<lambda>_. True" for hash stringify s cfg
  by unfold_locales (rule perform_inv)

lemma new_client_inv: "client_inv s cfg (new_client cfg)"
  by (simp add: client_inv_def new_client_def)

text \<open>
  C16. The life of a client. After any sequence of operations on a new client, a connected client has
  the protocol client and the transport that its configuration selects. While it is not connected,
  every listing, call, fingerprint and capability query fails with the same message and sends no
  request. Connecting connects exactly when it does not fail, disconnecting always ends the
  connection, also when closing raises, and nothing else changes whether it is connected.
\<close>

theorem client_lifecycle:
  assumes "c = foldl (\<lambda>c op. snd (perform hash stringify s op c)) (new_client cfg) ops"
    and "perform hash stringify s op c = (err, c')"
  shows "(mc_connected c \<longrightarrow> mc_sdk_client c \<and> (\<exists>t. resolveTransport cfg = Inr t
            \<and> map_sum id Some (open_transport s cfg t) = Inr (mc_sdk_transport c)))
     \<and> (needs_connection op \<and> \<not> mc_connected c \<longrightarrow> err = Some not_connected \<and> c' = c)
     \<and> mc_connected c' = (if op = Connect then mc_connected c \<or> err = None
                          else if op = Disconnect then False else mc_connected c)
     \<and> mc_calls c \<le> mc_calls c'"
proof -
  have inv: "client_inv s cfg c"
    using living.run_inv [OF new_client_inv, of ops s cfg hash stringify] assms(1) by (simp add: list_all_iff)
  have calls: "mc_calls c \<le> mc_calls c' \<and> mc_connected c' = (if op = Connect then mc_connected c \<or> err = None
                          else if op = Disconnect then False else mc_connected c)"
  proof (cases "needs_connection op")
    case True
    with perform_session [OF True, of c hash stringify s] assms(2) show ?thesis
      by (auto simp: same_session_def needs_connection_def)
  next
    case False
    then consider "op = Connect" | "op = Disconnect" by (auto simp: needs_connection_def)
    then show ?thesis
    proof cases
      case 1
      obtain r d where cn: "connect s c = (r, d)" by fastforce
      with 1 assms(2) have "d = c'" "err = None \<longleftrightarrow> r = Inr ()" by (auto simp: ended_def split: sum.splits)
      with 1 connect_cases [OF cn] show ?thesis by auto
    next
      case 2
      with assms(2) show ?thesis
        by (auto simp: ended_def disconnect_def Let_def split: if_splits option.splits)
    qed
  qed
  from inv have "mc_connected c \<longrightarrow> mc_sdk_client c \<and> (\<exists>t. resolveTransport cfg = Inr t
      \<and> map_sum id Some (open_transport s cfg t) = Inr (mc_sdk_transport c))"
    by (auto simp: client_inv_def)
  with calls perform_unconnected [of op c hash stringify s] assms(2) show ?thesis by auto
qed

text \<open>A sample library and two sample servers, for the witnesses.\<close>

definition sample_tool :: mcp_tool where
  "sample_tool = \<lparr>tl_name = ''delete_file'', tl_description = None, tl_inputSchema = Some (JObj []),
     tl_annotations = Some \<lparr>an_risk = None, an_destructive = Some True, an_readOnlyHint = None, an_openWorldHint = None\<rparr>\<rparr>"

definition sample_sdk :: sdk where
  "sample_sdk = \<lparr>sdk_client_module = None, sdk_has_stdio = True, sdk_has_http = True, sdk_process_env = [],
     sdk_valid_url = (\<lambda>u. starts_with u ''http''), sdk_handshake = (\<lambda>_ _. None),
     sdk_tools = (\<lambda>_. Inr (Some [sample_tool])), sdk_resources = (\<lambda>_. Inl (Raised ''no resources'')),
     sdk_prompts = (\<lambda>_. Inr None), sdk_call = (\<lambda>_ _ _. Inr (None, None)), sdk_capabilities = (\<lambda>_. None),
     sdk_close_client = (\<lambda>_. Some (Raised ''broken pipe'')), sdk_close_transport = (\<lambda>_. None)\<rparr>"

definition sample_config :: mcp_config where
  "sample_config = \<lparr>cf_name = ''files'', cf_command = Some ''server'', cf_args = None, cf_env = None, cf_url = None,
     cf_transport = None, cf_fingerprint = None\<rparr>"

theorem client_lifecycle_witness:
  "\<exists>c. c = foldl (\<lambda>c op. snd (perform id (\<lambda>_. ''j'') sample_sdk op c)) (new_client sample_config) [Connect, List_tools, Disconnect]
     \<and> mc_calls c = 3 \<and> \<not> mc_connected c
     \<and> perform id (\<lambda>_. ''j'') sample_sdk Get_fingerprint c = (Some not_connected, c)"
proof -
  let ?c = "foldl (\<lambda>c op. snd (perform id (\<lambda>_. ''j'') sample_sdk op c)) (new_client sample_config) [Connect, List_tools, Disconnect]"
  obtain err c' where p: "perform id (\<lambda>_. ''j'') sample_sdk Get_fingerprint ?c = (err, c')" by fastforce
  have c: "mc_calls ?c = 3 \<and> \<not> mc_connected ?c"
    by (simp add: ended_def connect_def disconnect_def listTools_def request_def ensureConnected_def resolveTransport_def
        open_transport_def next_call_def new_client_def sample_sdk_def sample_config_def text_truthy_def Let_def)
  from client_lifecycle [OF refl p] c have "err = Some not_connected \<and> c' = ?c" by (simp add: needs_connection_def)
  with p c show ?thesis by auto
qed

end
