(* ===== verification/Answers.thy ===== *)
theory Answers
  imports Json
begin

text \<open>
  TasteKit core, interview/interviewer.ts (\<open>StructuredAnswers\<close>) and schemas/workspace.ts: what the
  compilers read of a finished session. The structured answers are taken at their declared
  TypeScript type; the flat answers of old sessions are the fields that the
  compilers look up, next to the whole object (\<open>fa_raw\<close>), which the trace map keeps.
\<close>

record principle_answer =
  pa_statement :: string
  pa_rationale :: string
  pa_priority :: int
  pa_applies_to :: "string list"
  pa_examples_good :: "string list option"
  pa_examples_bad :: "string list option"
  pa_source_dimension :: string

record tone_answer =
  ta_voice_keywords :: "string list"
  ta_forbidden_phrases :: "string list"
  ta_formatting_rules :: "string list"
  ta_source_dimensions :: "string list"

record tradeoff_answer =
  accuracy_vs_speed :: rat
  cost_sensitivity :: rat
  autonomy_level :: rat
  tr_source_dimensions :: "string list"

record evidence_answer =
  require_citations_for :: "string list"
  uncertainty_language_rules :: "string list"
  ea_source_dimensions :: "string list"

record taboo_answer =
  never_do :: "string list"
  must_escalate :: "string list"
  tb_source_dimensions :: "string list"

record structured_answers =
  sa_principles :: "principle_answer list"
  sa_tone :: tone_answer
  sa_tradeoffs :: tradeoff_answer
  sa_evidence :: evidence_answer
  sa_taboos :: taboo_answer
  sa_domain_specific :: json

record flat_answers =
  fa_key_principles :: "string option"
  fa_primary_goal :: "string option"
  fa_voice_keywords :: "string list option"
  fa_forbidden_phrases :: "string option"
  fa_accuracy_vs_speed :: "rat option"
  fa_autonomy_level :: "rat option"
  fa_raw :: json

record session =
  ss_session_id :: string
  ss_domain_id :: "string option"
  ss_answers :: flat_answers
  ss_structured :: "structured_answers option"
  ss_llm_provider :: "json option"

text \<open>\<open>x || d\<close> for an optional number and for an optional string.\<close>

definition num_or :: "rat \<Rightarrow> rat option \<Rightarrow> rat" where
  "num_or d x = (case x of None \<Rightarrow> d | Some y \<Rightarrow> if y = 0 then d else y)"

definition text_or :: "string \<Rightarrow> string option \<Rightarrow> string" where
  "text_or d x = (case x of None \<Rightarrow> d | Some y \<Rightarrow> if y = [] then d else y)"

text \<open>\<open>Math.round\<close>: the nearest integer, halves upwards.\<close>

definition js_round :: "rat \<Rightarrow> int" where
  "js_round x = \<lfloor>x + 1 / 2\<rfloor>"

text \<open>\<open>table[key] || table['general-agent']\<close>.\<close>

definition preset_for :: "(string \<times> 'p) list \<Rightarrow> string \<Rightarrow> 'p" where
  "preset_for table k = (case map_of table k of Some p \<Rightarrow> p | None \<Rightarrow> the (map_of table ''general-agent''))"

text \<open>\<open>s.toLowerCase().replace(/[^a-z0-9]+/g, '_').slice(0, 40)\<close>.\<close>

definition is_slug_char :: "char \<Rightarrow> bool" where
  "is_slug_char c \<longleftrightarrow> is_digit c \<or> (97 \<le> (of_char c :: nat) \<and> (of_char c :: nat) \<le> 122)"

function slug_runs :: "string \<Rightarrow> string" where
  "slug_runs [] = []"
| "slug_runs (c # cs) =
     (if is_slug_char c then c # slug_runs cs
      else CHR ''_'' # slug_runs (dropWhile (\<lambda>c. \<not> is_slug_char c) cs))"
  by pat_completeness auto

termination
  by (relation "measure length") (auto simp: le_imp_less_Suc length_dropWhile_le)

definition slug :: "string \<Rightarrow> string" where
  "slug s = take 40 (slug_runs (to_lower s))"

lemma slug_eval: "slug ''Never: share PII!'' = ''never_share_pii_''"
  by code_simp

end
