(* ===== verification/Guardrails.thy ===== *)
theory Guardrails
  imports Answers
begin

text \<open>
  TasteKit core, compiler/guardrails-compiler.ts over schemas/guardrails.ts: permissions, approval
  rules and rate limits from the answers, with the presets of the six domains.
\<close>

section \<open>The artifact\<close>

datatype operation = Op_read | Op_write | Op_delete | Op_execute | Op_post | Op_publish | Op_admin

datatype approval_action = Require_approval | Block | Allow

datatype approval_channel = Cli | Ui | Webhook

record permission =
  scope_id :: string
  pm_tool_ref :: string
  pm_resources :: "string list"
  pm_ops :: "operation list"

record approval =
  rule_id :: string
  rule_when :: string
  rule_action :: approval_action
  rule_channel :: approval_channel

record rate_limit =
  rl_tool_ref :: string
  rl_limit :: int
  rl_window :: string

record guardrails =
  gr_permissions :: "permission list"
  gr_approvals :: "approval list"
  gr_rate_limits :: "rate_limit list"
  gr_rollback :: "string option"

record guard_preset =
  gp_permissions :: "permission list"
  extraApprovals :: "approval list"
  rateLimitMultiplier :: rat
  rollbackPlaybook :: "string option"

section \<open>Presets\<close>

definition guard_content :: guard_preset where
  \<open>guard_content = \<lparr>
    gp_permissions = [\<lparr>scope_id = ''content_read'', pm_tool_ref = ''*:*'', pm_resources = [''content/*'', ''analytics/*'', ''trends/*''],
         pm_ops = [Op_read]\<rparr>,
      \<lparr>scope_id = ''content_write'', pm_tool_ref = ''*:*'', pm_resources = [''drafts/*'', ''content/*''],
         pm_ops = [Op_write]\<rparr>,
      \<lparr>scope_id = ''content_publish'', pm_tool_ref = ''*:*'', pm_resources = [''posts/*'', ''social/*''],
         pm_ops = [Op_publish, Op_post]\<rparr>],
    extraApprovals = [\<lparr>rule_id = ''approve_publish'',
         rule_when = ''action.ops contains "publish" || action.ops contains "post"'',
         rule_action = Require_approval, rule_channel = Cli\<rparr>],
    rateLimitMultiplier = 3 / 2,
    rollbackPlaybook = Some ''content-rollback''\<rparr>\<close>

definition guard_sales :: guard_preset where
  \<open>guard_sales = \<lparr>
    gp_permissions = [\<lparr>scope_id = ''crm_read'', pm_tool_ref = ''*:*'', pm_resources = [''leads/*'', ''contacts/*'', ''deals/*''],
         pm_ops = [Op_read]\<rparr>,
      \<lparr>scope_id = ''crm_write'', pm_tool_ref = ''*:*'', pm_resources = [''leads/*'', ''contacts/*'', ''deals/*''],
         pm_ops = [Op_write]\<rparr>,
      \<lparr>scope_id = ''outreach'', pm_tool_ref = ''*:*'', pm_resources = [''emails/*'', ''messages/*''],
         pm_ops = [Op_write, Op_execute]\<rparr>],
    extraApprovals = [\<lparr>rule_id = ''approve_outreach'',
         rule_when = ''action.ops contains "execute" && action.resources matches "emails/*"'',
         rule_action = Require_approval, rule_channel = Cli\<rparr>,
      \<lparr>rule_id = ''approve_deal_changes'',
         rule_when = ''action.resources matches "deals/*" && action.ops contains "write"'',
         rule_action = Require_approval, rule_channel = Cli\<rparr>],
    rateLimitMultiplier = 1,
    rollbackPlaybook = Some ''sales-rollback''\<rparr>\<close>

definition guard_development :: guard_preset where
  \<open>guard_development = \<lparr>
    gp_permissions = [\<lparr>scope_id = ''code_read'', pm_tool_ref = ''*:*'', pm_resources = [''src/*'', ''tests/*'', ''docs/*'', ''config/*''],
         pm_ops = [Op_read]\<rparr>,
      \<lparr>scope_id = ''code_write'', pm_tool_ref = ''*:*'', pm_resources = [''src/*'', ''tests/*'', ''docs/*''],
         pm_ops = [Op_write]\<rparr>,
      \<lparr>scope_id = ''code_execute'', pm_tool_ref = ''*:*'', pm_resources = [''tests/*'', ''scripts/*''],
         pm_ops = [Op_execute]\<rparr>],
    extraApprovals = [\<lparr>rule_id = ''approve_deploy'',
         rule_when = ''action.ops contains "execute" && action.resources matches "deploy/*"'',
         rule_action = Require_approval, rule_channel = Cli\<rparr>],
    rateLimitMultiplier = 2,
    rollbackPlaybook = Some ''dev-rollback''\<rparr>\<close>

definition guard_research :: guard_preset where
  \<open>guard_research = \<lparr>
    gp_permissions = [\<lparr>scope_id = ''research_read'', pm_tool_ref = ''*:*'', pm_resources = [''sources/*'', ''papers/*'', ''data/*''],
         pm_ops = [Op_read]\<rparr>,
      \<lparr>scope_id = ''research_write'', pm_tool_ref = ''*:*'', pm_resources = [''notes/*'', ''reports/*'', ''analysis/*''],
         pm_ops = [Op_write]\<rparr>],
    extraApprovals = [\<lparr>rule_id = ''approve_data_export'',
         rule_when = ''action.ops contains "publish" || action.resources matches "reports/*"'',
         rule_action = Require_approval, rule_channel = Cli\<rparr>],
    rateLimitMultiplier = 2,
    rollbackPlaybook = None\<rparr>\<close>

definition guard_support :: guard_preset where
  \<open>guard_support = \<lparr>
    gp_permissions = [\<lparr>scope_id = ''support_read'', pm_tool_ref = ''*:*'', pm_resources = [''tickets/*'', ''knowledge-base/*'', ''customers/*''],
         pm_ops = [Op_read]\<rparr>,
      \<lparr>scope_id = ''support_write'', pm_tool_ref = ''*:*'', pm_resources = [''tickets/*'', ''responses/*''],
         pm_ops = [Op_write]\<rparr>],
    extraApprovals = [\<lparr>rule_id = ''approve_customer_response'',
         rule_when = ''action.ops contains "write" && action.resources matches "responses/*"'',
         rule_action = Require_approval, rule_channel = Cli\<rparr>,
      \<lparr>rule_id = ''approve_escalation'',
         rule_when = ''action.tags contains "escalation"'',
         rule_action = Require_approval, rule_channel = Cli\<rparr>],
    rateLimitMultiplier = 1,
    rollbackPlaybook = Some ''support-rollback''\<rparr>\<close>

definition guard_general :: guard_preset where
  \<open>guard_general = \<lparr>
    gp_permissions = [\<lparr>scope_id = ''general_read'', pm_tool_ref = ''*:*'', pm_resources = [''*''],
         pm_ops = [Op_read]\<rparr>,
      \<lparr>scope_id = ''general_write'', pm_tool_ref = ''*:*'', pm_resources = [''*''],
         pm_ops = [Op_write]\<rparr>],
    extraApprovals = [],
    rateLimitMultiplier = 1,
    rollbackPlaybook = None\<rparr>\<close>

definition DOMAIN_PRESETS :: "(string \<times> guard_preset) list" where
  "DOMAIN_PRESETS = [(''content-agent'', guard_content),
     (''sales-agent'', guard_sales),
     (''development-agent'', guard_development),
     (''research-agent'', guard_research),
     (''support-agent'', guard_support),
     (''general-agent'', guard_general)]"

section \<open>Approval rules\<close>

definition cli_rule :: "string \<Rightarrow> string \<Rightarrow> approval_action \<Rightarrow> approval" where
  "cli_rule k w a = \<lparr>rule_id = k, rule_when = w, rule_action = a, rule_channel = Cli\<rparr>"

text \<open>Tier 1, from the autonomy level.\<close>

definition base_rules :: "rat \<Rightarrow> approval list" where
  \<open>base_rules autonomyLevel =
     (if autonomyLevel < 3 / 10 then
        [cli_rule ''approve_all_writes''
           ''action.ops contains "write" || action.ops contains "delete" || action.ops contains "execute"''
           Require_approval]
      else if autonomyLevel < 5 / 10 then
        [cli_rule ''approve_writes_and_deletes''
           ''action.ops contains "write" || action.ops contains "delete"'' Require_approval]
      else if autonomyLevel < 7 / 10 then
        [cli_rule ''approve_destructive''
           ''action.ops contains "delete" || action.risk_score > 0.7'' Require_approval]
      else [])\<close>

definition high_risk_rule :: approval where
  "high_risk_rule = cli_rule ''approve_high_risk'' ''action.risk_score > 0.9'' Require_approval"

definition taboo_rule :: "nat \<Rightarrow> string \<Rightarrow> approval" where
  \<open>taboo_rule i taboo = cli_rule (''block_taboo_'' @ slug taboo @ ''_'' @ show_nat i)
     (''action.description matches "'' @ taboo @ ''"'') Block\<close>

definition escalation_rule :: "nat \<Rightarrow> string \<Rightarrow> approval" where
  \<open>escalation_rule i escalation = cli_rule (''escalate_'' @ slug escalation @ ''_'' @ show_nat i)
     (''action.tags contains "'' @ escalation @ ''"'') Require_approval\<close>

definition buildApprovalRules :: "rat \<Rightarrow> guard_preset \<Rightarrow> structured_answers \<Rightarrow> approval list" where
  "buildApprovalRules autonomyLevel preset sa =
     base_rules autonomyLevel
     @ [high_risk_rule]
     @ filter (\<lambda>rule. \<not> 8 / 10 \<le> autonomyLevel) (extraApprovals preset)
     @ map (\<lambda>(i, t). taboo_rule i t) (List.enumerate 0 (never_do (sa_taboos sa)))
     @ map (\<lambda>(i, t). escalation_rule i t) (List.enumerate 0 (must_escalate (sa_taboos sa)))"

section \<open>Compilation\<close>

definition guard_structured :: "structured_answers \<Rightarrow> session \<Rightarrow> guardrails" where
  "guard_structured sa session =
     (let preset = preset_for DOMAIN_PRESETS (text_or ''general-agent'' (ss_domain_id session));
          autonomyLevel = autonomy_level (sa_tradeoffs sa);
          costFactor = (if cost_sensitivity (sa_tradeoffs sa) > 7 / 10 then 1 / 2 else 1);
          effectiveLimit = js_round (100 * rateLimitMultiplier preset * costFactor)
      in \<lparr>gr_permissions = gp_permissions preset,
          gr_approvals = buildApprovalRules autonomyLevel preset sa,
          gr_rate_limits = \<lparr>rl_tool_ref = ''*:*'', rl_limit = effectiveLimit, rl_window = ''1h''\<rparr>
            # (if autonomyLevel < 1 / 2 then
                 [\<lparr>rl_tool_ref = ''*:delete'', rl_limit = 10, rl_window = ''1h''\<rparr>,
                  \<lparr>rl_tool_ref = ''*:execute'', rl_limit = 25, rl_window = ''1h''\<rparr>] else []),
          gr_rollback = rollbackPlaybook preset\<rparr>)"

definition legacy_base_rules :: "rat \<Rightarrow> approval list" where
  \<open>legacy_base_rules autonomyLevel =
     (if autonomyLevel < 3 / 10 then
        [cli_rule ''approve_all_writes''
           ''action.type == "write" || action.type == "delete" || action.type == "execute"'' Require_approval]
      else if autonomyLevel < 5 / 10 then
        [cli_rule ''approve_writes_and_deletes''
           ''action.type == "write" || action.type == "delete"'' Require_approval]
      else if autonomyLevel < 7 / 10 then
        [cli_rule ''approve_destructive''
           ''action.type == "delete" || action.risk_score > 0.7'' Require_approval]
      else [])\<close>

definition guard_legacy :: "session \<Rightarrow> guardrails" where
  "guard_legacy session =
     (let autonomyLevel = num_or (1 / 2) (fa_autonomy_level (ss_answers session));
          preset = preset_for DOMAIN_PRESETS (text_or ''general-agent'' (ss_domain_id session))
      in \<lparr>gr_permissions = gp_permissions preset,
          gr_approvals = legacy_base_rules autonomyLevel @ [high_risk_rule]
            @ (if autonomyLevel < 8 / 10 then extraApprovals preset else []),
          gr_rate_limits = [\<lparr>rl_tool_ref = ''*:*'',
            rl_limit = js_round (100 * rateLimitMultiplier preset), rl_window = ''1h''\<rparr>],
          gr_rollback = rollbackPlaybook preset\<rparr>)"

definition compileGuardrails :: "session \<Rightarrow> guardrails" where
  "compileGuardrails session =
     (case ss_structured session of
        Some sa \<Rightarrow> guard_structured sa session
      | None \<Rightarrow> guard_legacy session)"

section \<open>Well-formed presets\<close>

text \<open>The ids that the compiler itself uses, and the prefixes it builds ids with.\<close>

definition fixed_ids :: "string list" where
  "fixed_ids = [''approve_all_writes'', ''approve_writes_and_deletes'', ''approve_destructive'', ''approve_high_risk'']"

definition preset_ok :: "guard_preset \<Rightarrow> bool" where
  "preset_ok p \<longleftrightarrow> distinct (map scope_id (gp_permissions p))
     \<and> distinct (map rule_id (extraApprovals p))
     \<and> list_all (\<lambda>k. starts_with k ''approve_'' \<and> k \<notin> set fixed_ids) (map rule_id (extraApprovals p))
     \<and> 1 \<le> rateLimitMultiplier p"

lemma guard_content_ok: "preset_ok guard_content"
proof -
  have "map scope_id (gp_permissions guard_content) = [''content_read'', ''content_write'', ''content_publish'']"
    "map rule_id (extraApprovals guard_content) = [''approve_publish'']"
    "1 \<le> rateLimitMultiplier guard_content"
    by (simp_all add: guard_content_def)
  then show ?thesis by (simp add: preset_ok_def fixed_ids_def)
qed

lemma guard_sales_ok: "preset_ok guard_sales"
proof -
  have "map scope_id (gp_permissions guard_sales) = [''crm_read'', ''crm_write'', ''outreach'']"
    "map rule_id (extraApprovals guard_sales) = [''approve_outreach'', ''approve_deal_changes'']"
    "1 \<le> rateLimitMultiplier guard_sales"
    by (simp_all add: guard_sales_def)
  then show ?thesis by (simp add: preset_ok_def fixed_ids_def)
qed

lemma guard_development_ok: "preset_ok guard_development"
proof -
  have "map scope_id (gp_permissions guard_development) = [''code_read'', ''code_write'', ''code_execute'']"
    "map rule_id (extraApprovals guard_development) = [''approve_deploy'']"
    "1 \<le> rateLimitMultiplier guard_development"
    by (simp_all add: guard_development_def)
  then show ?thesis by (simp add: preset_ok_def fixed_ids_def)
qed

lemma guard_research_ok: "preset_ok guard_research"
proof -
  have "map scope_id (gp_permissions guard_research) = [''research_read'', ''research_write'']"
    "map rule_id (extraApprovals guard_research) = [''approve_data_export'']"
    "1 \<le> rateLimitMultiplier guard_research"
    by (simp_all add: guard_research_def)
  then show ?thesis by (simp add: preset_ok_def fixed_ids_def)
qed

lemma guard_support_ok: "preset_ok guard_support"
proof -
  have "map scope_id (gp_permissions guard_support) = [''support_read'', ''support_write'']"
    "map rule_id (extraApprovals guard_support) = [''approve_customer_response'', ''approve_escalation'']"
    "1 \<le> rateLimitMultiplier guard_support"
    by (simp_all add: guard_support_def)
  then show ?thesis by (simp add: preset_ok_def fixed_ids_def)
qed

lemma guard_general_ok: "preset_ok guard_general"
proof -
  have "map scope_id (gp_permissions guard_general) = [''general_read'', ''general_write'']"
    "map rule_id (extraApprovals guard_general) = []"
    "1 \<le> rateLimitMultiplier guard_general"
    by (simp_all add: guard_general_def)
  then show ?thesis by (simp add: preset_ok_def fixed_ids_def)
qed

lemmas guard_presets_ok = guard_content_ok guard_sales_ok guard_development_ok guard_research_ok
  guard_support_ok guard_general_ok

lemma preset_for_ok: "preset_ok (preset_for DOMAIN_PRESETS k)"
proof -
  have "map_of DOMAIN_PRESETS k = Some p \<Longrightarrow> preset_ok p" for p
    by (simp add: DOMAIN_PRESETS_def split: if_splits) (use guard_presets_ok in auto)
  moreover have "map_of DOMAIN_PRESETS ''general-agent'' = Some guard_general"
    by (simp add: DOMAIN_PRESETS_def)
  ultimately show ?thesis
    using guard_general_ok by (cases "map_of DOMAIN_PRESETS k") (simp_all add: preset_for_def)
qed

lemma guard_preset_actions:
  "list_all (\<lambda>r. rule_action r = Require_approval) (extraApprovals p)"
  if "p \<in> {guard_content, guard_sales, guard_development, guard_research, guard_support, guard_general}"
  using that by (auto simp: guard_content_def guard_sales_def guard_development_def guard_research_def
      guard_support_def guard_general_def)

lemma preset_for_cases: "preset_for DOMAIN_PRESETS k
    \<in> {guard_content, guard_sales, guard_development, guard_research, guard_support, guard_general}"
  by (simp add: preset_for_def DOMAIN_PRESETS_def)

lemma preset_for_actions:
  "list_all (\<lambda>r. rule_action r = Require_approval) (extraApprovals (preset_for DOMAIN_PRESETS k))"
  by (rule guard_preset_actions) (rule preset_for_cases)

section \<open>Rule ids\<close>

lemma rule_id_cli [simp]: "rule_id (cli_rule k w a) = k"
  by (simp add: cli_rule_def)

lemma base_ids: "map rule_id (base_rules a) \<in> {[''approve_all_writes''], [''approve_writes_and_deletes''],
    [''approve_destructive''], []}"
  by (simp add: base_rules_def)

lemma legacy_base_ids: "map rule_id (legacy_base_rules a) = map rule_id (base_rules a)"
  by (simp add: base_rules_def legacy_base_rules_def)

lemma enumerated_distinct:
  assumes "\<And>i j x y. f i x = f j y \<Longrightarrow> i = j"
  shows "distinct (map (\<lambda>(i, x). f i x) (List.enumerate n xs))"
proof (induction xs arbitrary: n)
  case (Cons x xs)
  have "f n x \<noteq> f i y" if "(i, y) \<in> set (List.enumerate (Suc n) xs)" for i y
    using assms [of n x i y] that by (auto simp: in_set_enumerate_eq)
  with Cons show ?case by auto
qed simp

lemma numbered_id_inject:
  "p @ s @ ''_'' @ show_nat i = p @ t @ ''_'' @ show_nat j \<Longrightarrow> i = j"
  using append_sep_digits_inject [of "CHR ''_''" s i t j] by (simp add: is_digit_def)

lemma taboo_ids_distinct:
  "distinct (map rule_id (map (\<lambda>(i, t). taboo_rule i t) (List.enumerate n ts)))"
proof -
  have "distinct (map (\<lambda>(i, t). rule_id (taboo_rule i t)) (List.enumerate n ts))"
    by (rule enumerated_distinct) (simp only: taboo_rule_def rule_id_cli, rule numbered_id_inject)
  then show ?thesis by (simp add: o_def case_prod_beta')
qed

lemma escalation_ids_distinct:
  "distinct (map rule_id (map (\<lambda>(i, t). escalation_rule i t) (List.enumerate n ts)))"
proof -
  have "distinct (map (\<lambda>(i, t). rule_id (escalation_rule i t)) (List.enumerate n ts))"
    by (rule enumerated_distinct) (simp only: escalation_rule_def rule_id_cli, rule numbered_id_inject)
  then show ?thesis by (simp add: o_def case_prod_beta')
qed

lemma prefixed_ids:
  "k \<in> rule_id ` (\<lambda>(i, t). taboo_rule i t) ` A \<Longrightarrow> hd k = CHR ''b''"
  "k \<in> rule_id ` (\<lambda>(i, t). escalation_rule i t) ` A \<Longrightarrow> hd k = CHR ''e''"
  by (auto simp: taboo_rule_def escalation_rule_def)

lemma fixed_or_preset_ids:
  assumes "preset_ok p"
  shows "distinct (map rule_id (base_rules a @ [high_risk_rule] @ filter (\<lambda>r. Q) (extraApprovals p)))"
    and "k \<in> set (map rule_id (base_rules a @ [high_risk_rule] @ filter (\<lambda>r. Q) (extraApprovals p)))
      \<Longrightarrow> hd k = CHR ''a''"
proof -
  have "set (map rule_id (base_rules a @ [high_risk_rule])) \<subseteq> set fixed_ids"
    using base_ids [of a] by (auto simp: fixed_ids_def high_risk_rule_def)
  moreover have "distinct (map rule_id (base_rules a @ [high_risk_rule]))"
    using base_ids [of a] by (auto simp: high_risk_rule_def)
  moreover have "set (map rule_id (filter (\<lambda>r. Q) (extraApprovals p))) \<inter> set fixed_ids = {}"
    using assms by (auto simp: preset_ok_def list_all_iff)
  moreover have "distinct (map rule_id (filter (\<lambda>r. Q) (extraApprovals p)))"
    using assms by (simp add: preset_ok_def distinct_map_filter)
  ultimately show "distinct (map rule_id (base_rules a @ [high_risk_rule] @ filter (\<lambda>r. Q) (extraApprovals p)))"
    unfolding append_assoc [symmetric] map_append distinct_append by blast
  have "r \<in> set (extraApprovals p) \<Longrightarrow> hd (rule_id r) = CHR ''a''" for r
    using assms by (auto simp: preset_ok_def list_all_iff starts_with_iff)
  moreover have "k \<in> set fixed_ids \<Longrightarrow> hd k = CHR ''a''" by (auto simp: fixed_ids_def)
  ultimately show "k \<in> set (map rule_id (base_rules a @ [high_risk_rule] @ filter (\<lambda>r. Q) (extraApprovals p)))
      \<Longrightarrow> hd k = CHR ''a''"
    using \<open>set (map rule_id (base_rules a @ [high_risk_rule])) \<subseteq> set fixed_ids\<close> by auto
qed

lemma hd_letters:
  "hd k = CHR ''a'' \<Longrightarrow> hd k = CHR ''b'' \<Longrightarrow> False"
  "hd k = CHR ''a'' \<Longrightarrow> hd k = CHR ''e'' \<Longrightarrow> False"
  "hd k = CHR ''b'' \<Longrightarrow> hd k = CHR ''e'' \<Longrightarrow> False"
  by simp_all

lemma approval_ids_distinct:
  assumes "preset_ok p"
  shows "distinct (map rule_id (buildApprovalRules a p sa))"
proof -
  let ?A = "base_rules a @ [high_risk_rule] @ filter (\<lambda>rule. \<not> 8 / 10 \<le> a) (extraApprovals p)"
  let ?T = "map (\<lambda>(i, t). taboo_rule i t) (List.enumerate 0 (never_do (sa_taboos sa)))"
  let ?E = "map (\<lambda>(i, t). escalation_rule i t) (List.enumerate 0 (must_escalate (sa_taboos sa)))"
  have "hd k = CHR ''a''" if "k \<in> set (map rule_id ?A)" for k
    using fixed_or_preset_ids(2) [OF assms that] .
  moreover have "hd k = CHR ''b''" if "k \<in> set (map rule_id ?T)" for k
    using prefixed_ids(1) that by auto
  moreover have "hd k = CHR ''e''" if "k \<in> set (map rule_id ?E)" for k
    using prefixed_ids(2) that by auto
  ultimately have "set (map rule_id ?A) \<inter> set (map rule_id ?T) = {}"
    "set (map rule_id ?A) \<inter> set (map rule_id ?E) = {}" "set (map rule_id ?T) \<inter> set (map rule_id ?E) = {}"
    by (blast dest: hd_letters)+
  moreover have "distinct (map rule_id ?A)" by (rule fixed_or_preset_ids(1) [OF assms])
  ultimately have "distinct (map rule_id (?A @ ?T @ ?E))"
    using taboo_ids_distinct [of 0] escalation_ids_distinct [of 0]
    unfolding map_append distinct_append set_append by blast
  then show ?thesis by (simp add: buildApprovalRules_def)
qed

section \<open>Properties\<close>

text \<open>
  Every compiled guardrails file is well formed, for any session (structured or old, any domain
  id, any answers): the approval rules have pairwise distinct ids although some are built from
  user text, the permission scopes are distinct, every rate limit is positive, and the rule that
  stops actions with a risk above 0.9 is always there.
\<close>

theorem guardrails_well_formed:
  "distinct (map rule_id (gr_approvals (compileGuardrails session)))
   \<and> distinct (map scope_id (gr_permissions (compileGuardrails session)))
   \<and> list_all (\<lambda>l. 0 < rl_limit l) (gr_rate_limits (compileGuardrails session))
   \<and> high_risk_rule \<in> set (gr_approvals (compileGuardrails session))"
proof -
  let ?p = "preset_for DOMAIN_PRESETS (text_or ''general-agent'' (ss_domain_id session))"
  have p: "preset_ok ?p" by (rule preset_for_ok)
  then have m: "1 \<le> rateLimitMultiplier ?p" by (simp add: preset_ok_def)
  have pos: "0 < js_round x" if "1 \<le> x" for x
    using that by (simp add: js_round_def)
  show ?thesis
  proof (cases "ss_structured session")
    case (Some sa)
    have "0 < js_round (100 * rateLimitMultiplier ?p * c)" if c: "c = 1 \<or> c = 1 / 2" for c
    proof (rule pos)
      have "1 / 2 \<le> c" using c by auto
      with m have "1 * (1 / 2) \<le> rateLimitMultiplier ?p * c" by (intro mult_mono) auto
      then show "1 \<le> 100 * rateLimitMultiplier ?p * c" by simp
    qed
    with Some p show ?thesis
      using approval_ids_distinct [OF p, of "autonomy_level (sa_tradeoffs sa)" sa]
      by (simp add: compileGuardrails_def guard_structured_def Let_def preset_ok_def)
        (simp add: buildApprovalRules_def)
  next
    case None
    let ?a = "num_or (1 / 2) (fa_autonomy_level (ss_answers session))"
    have "(if ?a < 8 / 10 then extraApprovals ?p else []) = filter (\<lambda>r. ?a < 8 / 10) (extraApprovals ?p)"
      by simp
    then have "map rule_id (gr_approvals (guard_legacy session)) =
        map rule_id (base_rules ?a @ [high_risk_rule] @ filter (\<lambda>r. ?a < 8 / 10) (extraApprovals ?p))"
      by (simp add: guard_legacy_def Let_def legacy_base_ids)
    then have "distinct (map rule_id (gr_approvals (guard_legacy session)))"
      by (simp only: fixed_or_preset_ids(1) [OF p])
    moreover have "0 < js_round (100 * rateLimitMultiplier ?p)" using m by (intro pos) simp
    ultimately show ?thesis
      using None p by (simp add: compileGuardrails_def) (simp add: guard_legacy_def Let_def preset_ok_def)
  qed
qed

text \<open>
  C9. The stated taboos are enforced, whatever the autonomy level: every \<open>never_do\<close> answer has a
  blocking rule that quotes it and every \<open>must_escalate\<close> answer a rule that asks for approval; no
  other rule blocks, and no rule allows.
\<close>

theorem taboos_enforced:
  assumes "ss_structured session = Some sa"
  shows "(\<forall>i < length (never_do (sa_taboos sa)).
      taboo_rule i (never_do (sa_taboos sa) ! i) \<in> set (gr_approvals (compileGuardrails session)))
    \<and> (\<forall>i < length (must_escalate (sa_taboos sa)).
      escalation_rule i (must_escalate (sa_taboos sa) ! i) \<in> set (gr_approvals (compileGuardrails session)))
    \<and> length (filter (\<lambda>r. rule_action r = Block) (gr_approvals (compileGuardrails session)))
        = length (never_do (sa_taboos sa))
    \<and> list_all (\<lambda>r. rule_action r \<noteq> Allow) (gr_approvals (compileGuardrails session))"
proof -
  let ?p = "preset_for DOMAIN_PRESETS (text_or ''general-agent'' (ss_domain_id session))"
  have in_enum: "f i (xs ! i) \<in> (\<lambda>(i, t). f i t) ` set (List.enumerate 0 xs)" if "i < length xs"
    for f :: "nat \<Rightarrow> string \<Rightarrow> approval" and i xs
    using that by (force simp: in_set_enumerate_eq)
  have actions: "list_all (\<lambda>r. rule_action r = Require_approval) (extraApprovals ?p)"
    by (rule preset_for_actions)
  have base: "list_all (\<lambda>r. rule_action r = Require_approval) (base_rules a @ [high_risk_rule])" for a
    by (simp add: base_rules_def high_risk_rule_def cli_rule_def)
  have enum: "filter (\<lambda>r. rule_action r = Block) (map (\<lambda>(i, t). taboo_rule i t) es) = map (\<lambda>(i, t). taboo_rule i t) es"
    "filter (\<lambda>r. rule_action r = Block) (map (\<lambda>(i, t). escalation_rule i t) es) = []" for es
    by (auto simp: filter_id_conv filter_empty_conv taboo_rule_def escalation_rule_def cli_rule_def)
  have none: "filter (\<lambda>r. rule_action r = Block) rs = []" if "list_all (\<lambda>r. rule_action r = Require_approval) rs" for rs
    using that by (auto simp: list_all_iff filter_empty_conv)
  have "length (filter (\<lambda>r. rule_action r = Block) (buildApprovalRules a ?p sa)) = length (never_do (sa_taboos sa))" for a
  proof -
    have "list_all (\<lambda>r. rule_action r = Require_approval)
        (base_rules a @ [high_risk_rule] @ filter (\<lambda>r. \<not> 8 / 10 \<le> a) (extraApprovals ?p))"
      using base [of a] actions by (auto simp: list_all_iff)
    from none [OF this] show ?thesis
      unfolding buildApprovalRules_def append_assoc [symmetric]
      by (simp only: filter_append enum) simp
  qed
  moreover have "list_all (\<lambda>r. rule_action r \<noteq> Allow) (buildApprovalRules a ?p sa)" for a
    using base [of a] actions
    by (auto simp: buildApprovalRules_def list_all_iff taboo_rule_def escalation_rule_def cli_rule_def)
  ultimately show ?thesis
    using in_enum assms
    by (auto simp: compileGuardrails_def guard_structured_def Let_def buildApprovalRules_def)
qed

text \<open>
  The two compilation paths agree: an old session with a nonzero autonomy level gets the same
  permissions, rule ids in the same order, general rate limit and rollback as a structured one with
  the same domain and autonomy, no taboos and no high cost sensitivity.
\<close>

theorem legacy_guardrails_agree:
  assumes "ss_structured old = None" "ss_structured new = Some sa" "ss_domain_id old = ss_domain_id new"
    and "fa_autonomy_level (ss_answers old) = Some (autonomy_level (sa_tradeoffs sa))"
    and "autonomy_level (sa_tradeoffs sa) \<noteq> 0" "cost_sensitivity (sa_tradeoffs sa) \<le> 7 / 10"
    and "never_do (sa_taboos sa) = []" "must_escalate (sa_taboos sa) = []"
  shows "gr_permissions (compileGuardrails old) = gr_permissions (compileGuardrails new)
    \<and> map rule_id (gr_approvals (compileGuardrails old)) = map rule_id (gr_approvals (compileGuardrails new))
    \<and> hd (gr_rate_limits (compileGuardrails old)) = hd (gr_rate_limits (compileGuardrails new))
    \<and> gr_rollback (compileGuardrails old) = gr_rollback (compileGuardrails new)"
  using assms by (simp add: compileGuardrails_def guard_legacy_def guard_structured_def Let_def
      num_or_def buildApprovalRules_def legacy_base_ids not_le)

section \<open>Concrete sessions\<close>

definition sample_answers :: structured_answers where
  "sample_answers = \<lparr>sa_principles = [],
     sa_tone = \<lparr>ta_voice_keywords = [], ta_forbidden_phrases = [], ta_formatting_rules = [], ta_source_dimensions = []\<rparr>,
     sa_tradeoffs = \<lparr>accuracy_vs_speed = 1 / 2, cost_sensitivity = 1 / 2, autonomy_level = 1 / 5, tr_source_dimensions = []\<rparr>,
     sa_evidence = \<lparr>require_citations_for = [], uncertainty_language_rules = [], ea_source_dimensions = []\<rparr>,
     sa_taboos = \<lparr>never_do = [], must_escalate = [], tb_source_dimensions = []\<rparr>, sa_domain_specific = JNull\<rparr>"

definition sample_session :: "structured_answers option \<Rightarrow> session" where
  "sample_session sa = \<lparr>ss_session_id = ''s'', ss_domain_id = Some ''sales-agent'',
     ss_answers = \<lparr>fa_key_principles = None, fa_primary_goal = None, fa_voice_keywords = None,
       fa_forbidden_phrases = None, fa_accuracy_vs_speed = None, fa_autonomy_level = Some (1 / 5), fa_raw = JObj []\<rparr>,
     ss_structured = sa, ss_llm_provider = None\<rparr>"

theorem taboos_enforced_witness:
  "taboo_rule 0 ''spam'' \<in> set (gr_approvals (compileGuardrails (sample_session
     (Some (sample_answers\<lparr>sa_taboos := \<lparr>never_do = [''spam''], must_escalate = [], tb_source_dimensions = []\<rparr>\<rparr>)))))"
  using taboos_enforced [of "sample_session (Some (sample_answers\<lparr>sa_taboos :=
      \<lparr>never_do = [''spam''], must_escalate = [], tb_source_dimensions = []\<rparr>\<rparr>))"]
  by (simp add: sample_session_def)

theorem legacy_guardrails_agree_witness:
  "map rule_id (gr_approvals (compileGuardrails (sample_session None)))
    = map rule_id (gr_approvals (compileGuardrails (sample_session (Some sample_answers))))"
  using legacy_guardrails_agree [of "sample_session None" "sample_session (Some sample_answers)" sample_answers]
  by (simp add: sample_session_def sample_answers_def)

end
