(* ===== verification/Trust.thy ===== *)
theory Trust
  imports McpClient Guardrails
begin

text \<open>
  TasteKit core, schemas/bindings.ts, schemas/trust.ts, mcp/binder.ts, trust/manager.ts and
  trust/auditor.ts, with the bind command of the command line (cli/src/commands/mcp.ts): binding the
  tools of a server, pinning its fingerprint, and auditing the bindings against the pins.
\<close>

section \<open>Bindings\<close>

record bindings_tool =
  bt_tool_ref :: string
  bt_risk_hints :: "string list option"
  bt_default_permission_scope_id :: "string option"

record bindings_resource =
  br_resource_ref :: string
  br_uri_pattern :: "string option"

record bindings_prompt =
  bp_prompt_ref :: string
  bp_description :: "string option"

record bindings_server =
  bs_name :: string
  bs_url :: string
  bs_pinned_fingerprint :: "string option"
  bs_auth :: "(string \<times> string) list option"
  bs_tools :: "bindings_tool list"
  bs_resources :: "bindings_resource list option"
  bs_prompts :: "bindings_prompt list option"
  bs_last_bind_at :: string

record bindings =
  bd_servers :: "bindings_server list"

section \<open>The binder\<close>

record binding_options =
  bo_interactive :: bool
  bo_autoApproveRead :: bool
  bo_toolSelector :: "(mcp_tool list \<Rightarrow> failure + mcp_tool list) option"

definition createToolBinding :: "mcp_tool \<Rightarrow> bindings_tool" where
  "createToolBinding t =
     (let hints = (if tool_destructive t then [''destructive''] else [])
                @ (if text_truthy (tool_risk t) then [the (tool_risk t)] else [])
      in \<lparr>bt_tool_ref = tl_name t, bt_risk_hints = (if hints \<noteq> [] then Some hints else None),
          bt_default_permission_scope_id = None\<rparr>)"

definition tool_rule :: "string \<Rightarrow> approval_action \<Rightarrow> string \<Rightarrow> mcp_tool \<Rightarrow> approval" where
  \<open>tool_rule prefix action server t =
     \<lparr>rule_id = prefix @ server @ ''_'' @ tl_name t,
      rule_when = ''tool_ref == "'' @ server @ '':'' @ tl_name t @ ''"'',
      rule_action = action, rule_channel = Cli\<rparr>\<close>

definition guardrail_of :: "string \<Rightarrow> binding_options \<Rightarrow> mcp_tool \<Rightarrow> approval list" where
  "guardrail_of server opts t =
     (if tool_destructive t then [tool_rule ''approve_'' Require_approval server t]
      else if tool_risk t = Some ''high'' then [tool_rule ''approve_'' Require_approval server t]
      else if \<not> bo_autoApproveRead opts then [tool_rule ''allow_'' Allow server t]
      else [])"

definition generateGuardrailsFromMetadata :: "mcp_tool list \<Rightarrow> string \<Rightarrow> binding_options \<Rightarrow> approval list" where
  "generateGuardrailsFromMetadata tools server opts = concat (map (guardrail_of server opts) tools)"

definition selectTools :: "binding_options \<Rightarrow> mcp_tool list \<Rightarrow> failure + mcp_tool list" where
  "selectTools opts tools =
     (case bo_toolSelector opts of
        Some select \<Rightarrow> if bo_interactive opts then select tools else Inr tools
      | None \<Rightarrow> Inr tools)"

definition server_bindings ::
  "string \<Rightarrow> string \<Rightarrow> string \<Rightarrow> mcp_tool list \<Rightarrow> mcp_resource list \<Rightarrow> mcp_prompt list \<Rightarrow> string \<Rightarrow> bindings_server" where
  "server_bindings server url fp selected resources prompts now =
     \<lparr>bs_name = server, bs_url = url, bs_pinned_fingerprint = Some fp, bs_auth = None,
      bs_tools = map createToolBinding selected,
      bs_resources = Some (map (\<lambda>r. \<lparr>br_resource_ref = server @ '':'' @ rs_uri r, br_uri_pattern = Some (rs_uri r)\<rparr>) resources),
      bs_prompts = Some (map (\<lambda>p. \<lparr>bp_prompt_ref = server @ '':'' @ pr_name p, bp_description = pr_description p\<rparr>) prompts),
      bs_last_bind_at = now\<rparr>"

definition bindServer ::
  "(string \<Rightarrow> string) \<Rightarrow> (json \<Rightarrow> string) \<Rightarrow> sdk \<Rightarrow> string \<Rightarrow> string \<Rightarrow> binding_options \<Rightarrow> string \<Rightarrow> mcp_client
     \<Rightarrow> (bindings_server \<times> approval list) outcome" where
  "bindServer hash stringify s server url opts now c =
     on_ok (listTools s c) (\<lambda>tools c.
     on_ok (listResources s c) (\<lambda>resources c.
     on_ok (listPrompts s c) (\<lambda>prompts c.
     on_ok (getFingerprint hash stringify s c) (\<lambda>fp c.
     on_ok (selectTools opts tools, c) (\<lambda>selected c.
       (Inr (server_bindings server url fp selected resources prompts now,
             generateGuardrailsFromMetadata selected server opts), c))))))"

text \<open>The bind command: one client per configured server; a failure is reported and skipped.\<close>

definition cli_options :: binding_options where
  "cli_options = \<lparr>bo_interactive = False, bo_autoApproveRead = True, bo_toolSelector = None\<rparr>"

record bind_run =
  run_bindings :: "bindings_server list"
  run_guardrails :: "approval list"
  run_skipped :: "(string \<times> failure) list"
  run_clients :: "mcp_client list"

definition server_url :: "mcp_config \<Rightarrow> string" where
  "server_url cfg = (if text_truthy (cf_url cfg) then the (cf_url cfg)
     else if text_truthy (cf_command cfg) then the (cf_command cfg) else [])"

definition bind_one ::
  "(string \<Rightarrow> string) \<Rightarrow> (json \<Rightarrow> string) \<Rightarrow> (mcp_config \<Rightarrow> sdk) \<Rightarrow> string \<Rightarrow> bind_run \<Rightarrow> mcp_config \<Rightarrow> bind_run" where
  "bind_one hash stringify sdk_of now acc cfg =
     (let s = sdk_of cfg; (r, c) = connect s (new_client cfg)
      in case r of
           Inl e \<Rightarrow> acc\<lparr>run_skipped := run_skipped acc @ [(cf_name cfg, e)], run_clients := run_clients acc @ [c]\<rparr>
         | Inr _ \<Rightarrow>
             let (b, c) = bindServer hash stringify s (cf_name cfg) (server_url cfg) cli_options now c
             in case b of
                  Inl e \<Rightarrow> acc\<lparr>run_skipped := run_skipped acc @ [(cf_name cfg, e)], run_clients := run_clients acc @ [c]\<rparr>
                | Inr (binding, rules) \<Rightarrow>
                    let acc = acc\<lparr>run_bindings := run_bindings acc @ [binding], run_guardrails := run_guardrails acc @ rules\<rparr>;
                        (d, c) = disconnect s c
                    in acc\<lparr>run_skipped := run_skipped acc @ (case d of Inl e \<Rightarrow> [(cf_name cfg, e)] | Inr _ \<Rightarrow> []),
                           run_clients := run_clients acc @ [c]\<rparr>)"

definition mcp_bind ::
  "(string \<Rightarrow> string) \<Rightarrow> (json \<Rightarrow> string) \<Rightarrow> (mcp_config \<Rightarrow> sdk) \<Rightarrow> string \<Rightarrow> mcp_config list \<Rightarrow> bind_run" where
  "mcp_bind hash stringify sdk_of now servers =
     foldl (bind_one hash stringify sdk_of now)
       \<lparr>run_bindings = [], run_guardrails = [], run_skipped = [], run_clients = []\<rparr> servers"

section \<open>The trust policy\<close>

datatype pin_mode = Strict | Warn

record trust_server =
  ts_url :: string
  ts_fingerprint :: string
  ts_pin_mode :: pin_mode

datatype source_type = Local_source | Git_source

record skill_source =
  sk_type :: source_type
  sk_path :: "string option"
  sk_url :: "string option"
  sk_commit :: "string option"
  sk_hash :: "string option"
  sk_pin_mode :: pin_mode

record update_policy =
  allow_auto_updates :: bool
  require_review :: bool

record trust =
  tp_mcp_servers :: "trust_server list"
  tp_skill_sources :: "skill_source list"
  tp_update_policy :: update_policy

definition DEFAULT_TRUST_POLICY :: trust where
  "DEFAULT_TRUST_POLICY = \<lparr>tp_mcp_servers = [], tp_skill_sources = [],
     tp_update_policy = \<lparr>allow_auto_updates = False, require_review = True\<rparr>\<rparr>"

definition pinned :: "trust \<Rightarrow> string \<Rightarrow> trust_server option" where
  "pinned p url = List.find (\<lambda>s. ts_url s = url) (tp_mcp_servers p)"

definition pinMCPServer :: "string \<Rightarrow> string \<Rightarrow> pin_mode \<Rightarrow> trust \<Rightarrow> trust" where
  "pinMCPServer url fp mode p =
     p\<lparr>tp_mcp_servers :=
        (case pinned p url of
           Some _ \<Rightarrow> update_first (\<lambda>s. ts_url s = url) (\<lambda>s. s\<lparr>ts_fingerprint := fp, ts_pin_mode := mode\<rparr>) (tp_mcp_servers p)
         | None \<Rightarrow> tp_mcp_servers p @ [\<lparr>ts_url = url, ts_fingerprint = fp, ts_pin_mode = mode\<rparr>])\<rparr>"

definition pinSkillSource :: "source_type \<Rightarrow> string \<Rightarrow> string \<Rightarrow> pin_mode \<Rightarrow> trust \<Rightarrow> trust" where
  "pinSkillSource ty loc hash mode p =
     p\<lparr>tp_skill_sources := tp_skill_sources p @
        [if ty = Local_source
         then \<lparr>sk_type = ty, sk_path = Some loc, sk_url = None, sk_commit = None, sk_hash = Some hash, sk_pin_mode = mode\<rparr>
         else \<lparr>sk_type = ty, sk_path = None, sk_url = Some loc, sk_commit = Some hash, sk_hash = None, sk_pin_mode = mode\<rparr>]\<rparr>"

text \<open>The verdict, with the reason of a refusal.\<close>

definition verifyMCPServer :: "trust \<Rightarrow> string \<Rightarrow> string \<Rightarrow> bool \<times> string option" where
  "verifyMCPServer p url current =
     (case pinned p url of
        None \<Rightarrow> (False, Some ''Server not pinned in trust policy'')
      | Some s \<Rightarrow>
          if ts_fingerprint s \<noteq> current
          then (False, Some (''Fingerprint mismatch (expected: '' @ ts_fingerprint s @ '', got: '' @ current @ '')''))
          else (True, None))"

section \<open>The auditor\<close>

datatype violation_type = Fingerprint_mismatch | Unpinned_server | Unpinned_skill | New_tool

datatype violation_severity = Violation_error | Violation_warning

record violation =
  vi_type :: violation_type
  vi_severity :: violation_severity
  vi_message :: string
  vi_details :: "json option"

record audit_report =
  rp_timestamp :: string
  rp_violations :: "violation list"
  rp_passed :: bool

definition server_violations :: "trust \<Rightarrow> bindings_server \<Rightarrow> violation list" where
  "server_violations trust server =
     (case pinned trust (bs_url server) of
        None \<Rightarrow>
          [\<lparr>vi_type = Unpinned_server, vi_severity = Violation_warning,
            vi_message = ''MCP server not pinned: '' @ bs_name server,
            vi_details = Some (JObj [(''url'', JStr (bs_url server))])\<rparr>]
      | Some p \<Rightarrow>
          if text_truthy (bs_pinned_fingerprint server) \<and> the (bs_pinned_fingerprint server) \<noteq> ts_fingerprint p
          then [\<lparr>vi_type = Fingerprint_mismatch,
                 vi_severity = (if ts_pin_mode p = Strict then Violation_error else Violation_warning),
                 vi_message = ''Fingerprint mismatch for server: '' @ bs_name server,
                 vi_details = Some (JObj [(''expected'', JStr (ts_fingerprint p)),
                                          (''actual'', JStr (the (bs_pinned_fingerprint server)))])\<rparr>]
          else if \<not> text_truthy (bs_pinned_fingerprint server) \<and> ts_fingerprint p \<noteq> []
          then [\<lparr>vi_type = Unpinned_server, vi_severity = Violation_warning,
                 vi_message = ''Server binding has no pinned fingerprint but trust policy expects one: '' @ bs_name server,
                 vi_details = Some (JObj [(''url'', JStr (bs_url server)), (''expected_fingerprint'', JStr (ts_fingerprint p))])\<rparr>]
          else [])"

definition qualified_ref :: "bindings_server \<Rightarrow> bindings_tool \<Rightarrow> string" where
  "qualified_ref server t = bs_name server @ '':'' @ bt_tool_ref t"

definition tool_refs :: "bindings \<Rightarrow> string list" where
  "tool_refs b = set_of (concat (map (\<lambda>s. map (qualified_ref s) (bs_tools s)) (bd_servers b)))"

definition new_tool_violations :: "string list \<Rightarrow> bindings_server \<Rightarrow> bindings_tool \<Rightarrow> violation list" where
  "new_tool_violations baseline server t =
     (if qualified_ref server t \<in> set baseline then []
      else [\<lparr>vi_type = New_tool, vi_severity = Violation_warning,
             vi_message = ''New tool detected: '' @ qualified_ref server t,
             vi_details = Some (obj_of [(''server'', Some (JStr (bs_name server))), (''tool_ref'', Some (JStr (bt_tool_ref t))),
               (''risk_hints'', map_option (\<lambda>hs. JArr (map JStr hs)) (bt_risk_hints t))])\<rparr>])"

definition audit :: "trust \<Rightarrow> bindings \<Rightarrow> bindings option \<Rightarrow> string \<Rightarrow> audit_report" where
  "audit trust b previous now =
     (let vs = concat (map (server_violations trust) (bd_servers b))
             @ (case previous of
                  None \<Rightarrow> []
                | Some p \<Rightarrow>
                    let baseline = tool_refs p
                    in concat (map (\<lambda>s. concat (map (new_tool_violations baseline s) (bs_tools s))) (bd_servers b)))
      in \<lparr>rp_timestamp = now, rp_violations = vs,
          rp_passed = (length (filter (\<lambda>v. vi_severity v = Violation_error) vs) = 0)\<rparr>)"

section \<open>Facts about the binder\<close>

lemma on_ok_Inr: "on_ok r k = (Inr y, c') \<longleftrightarrow> (\<exists>x c. r = (Inr x, c) \<and> k x c = (Inr y, c'))"
  by (auto simp: on_ok_def split: prod.splits sum.splits)

lemma getFingerprint_hash:
  "getFingerprint hash stringify s c = (Inr fp, c') \<Longrightarrow> \<exists>j. fp = hash j"
  by (auto simp: getFingerprint_def on_ok_Inr split: option.splits)

lemma bindServer_result:
  assumes "bindServer hash stringify s server url opts now c = (Inr (b, rules), c')"
  obtains tools selected j where "selectTools opts tools = Inr selected"
    "bs_name b = server" "bs_url b = url" "bs_pinned_fingerprint b = Some (hash j)"
    "bs_tools b = map createToolBinding selected" "rules = generateGuardrailsFromMetadata selected server opts"
  using assms by (auto simp: bindServer_def on_ok_Inr server_bindings_def dest!: getFingerprint_hash)

lemma tool_rule_inject:
  "CHR ''_'' \<notin> set server \<Longrightarrow> tool_rule p a server t = tool_rule p a' server t' \<longleftrightarrow> a = a' \<and> tl_name t = tl_name t'"
  by (auto simp: tool_rule_def)

lemma guardrail_of_risk:
  "guardrail_of server opts t =
     (if assessRiskLevel t = High_risk then [tool_rule ''approve_'' Require_approval server t]
      else if bo_autoApproveRead opts then [] else [tool_rule ''allow_'' Allow server t])"
  by (simp add: guardrail_of_def assessRiskLevel_def)

lemma rule_of_tool: "rule_when (tool_rule p a server t) = rule_when (tool_rule p' a' server t') \<longleftrightarrow> tl_name t = tl_name t'"
  by (simp add: tool_rule_def)

text \<open>
  The binder guards what the inspector warns about. Whatever the server answers, the tools of a
  successful binding are those that were selected, in order, and the rules speak about them only.
  Each selected tool that the inspector rates high gets a rule that requires approval. When the
  selected names are distinct, such a tool has no rule that allows it. A rule that allows a tool is
  only made without automatic approval, for every tool that is not rated high.
\<close>

theorem binder_guards_tools:
  assumes "bindServer hash stringify s server url opts now c = (Inr (b, rules), c')"
  shows "\<exists>selected. bs_tools b = map createToolBinding selected
     \<and> (\<forall>r \<in> set rules. \<exists>t \<in> set selected. rule_when r = rule_when (tool_rule [] Block server t))
     \<and> (\<forall>t \<in> set selected. assessRiskLevel t = High_risk \<longrightarrow>
          tool_rule ''approve_'' Require_approval server t \<in> set rules
          \<and> (distinct (map tl_name selected) \<longrightarrow>
               \<not> (\<exists>r \<in> set rules. rule_action r = Allow \<and> rule_when r = rule_when (tool_rule [] Block server t))))
     \<and> (\<forall>t \<in> set selected. assessRiskLevel t \<noteq> High_risk \<and> \<not> bo_autoApproveRead opts \<longrightarrow>
          tool_rule ''allow_'' Allow server t \<in> set rules)
     \<and> (bo_autoApproveRead opts \<longrightarrow> list_all (\<lambda>r. rule_action r = Require_approval) rules)"
proof -
  from assms obtain selected where sel: "bs_tools b = map createToolBinding selected"
    "rules = generateGuardrailsFromMetadata selected server opts"
    by (rule bindServer_result)
  have rules: "r \<in> set rules \<longleftrightarrow> (\<exists>t \<in> set selected. r \<in> set (guardrail_of server opts t))" for r
    by (simp add: sel generateGuardrailsFromMetadata_def)
  have about: "rule_when r = rule_when (tool_rule [] Block server t)" if "r \<in> set (guardrail_of server opts t)" for r t
    using that by (auto simp: guardrail_of_risk rule_of_tool split: if_splits)
  have allow: "assessRiskLevel t \<noteq> High_risk \<and> \<not> bo_autoApproveRead opts"
    if "r \<in> set (guardrail_of server opts t)" "rule_action r = Allow" for r t
    using that by (auto simp: guardrail_of_risk tool_rule_def split: if_splits)
  have excl: False if "t \<in> set selected" "assessRiskLevel t = High_risk" "distinct (map tl_name selected)"
      "r \<in> set rules" "rule_action r = Allow" "rule_when r = rule_when (tool_rule [] Block server t)" for t r
  proof -
    from that(4) rules obtain t' where t': "t' \<in> set selected" "r \<in> set (guardrail_of server opts t')" by blast
    with about that(6) have "tl_name t = tl_name t'" by (simp add: rule_of_tool)
    with that(1,3) t'(1) have "t = t'" by (auto simp: distinct_map inj_on_def)
    with allow [OF t'(2) that(5)] that(2) show False by simp
  qed
  have req: "list_all (\<lambda>r. rule_action r = Require_approval) rules" if "bo_autoApproveRead opts"
    using that by (auto simp: list_all_iff rules guardrail_of_risk tool_rule_def split: if_splits)
  have "\<forall>t \<in> set selected. assessRiskLevel t = High_risk \<longrightarrow> tool_rule ''approve_'' Require_approval server t \<in> set rules"
    by (auto simp: rules guardrail_of_risk)
  moreover have "\<forall>t \<in> set selected. assessRiskLevel t \<noteq> High_risk \<and> \<not> bo_autoApproveRead opts \<longrightarrow>
      tool_rule ''allow_'' Allow server t \<in> set rules"
    by (auto simp: rules guardrail_of_risk)
  ultimately show ?thesis using sel(1) about excl req rules by (intro exI [of _ selected]) blast
qed

section \<open>Facts about the bind command\<close>

lemma bind_one_bindings:
  "\<exists>bound. run_bindings (bind_one hash stringify sdk_of now acc cfg) = run_bindings acc @ bound
     \<and> (bound = [] \<or> (\<exists>b j. bound = [b] \<and> bs_name b = cf_name cfg \<and> bs_url b = server_url cfg
          \<and> bs_pinned_fingerprint b = Some (hash j)))"
proof -
  obtain r c where cn: "connect (sdk_of cfg) (new_client cfg) = (r, c)" by fastforce
  obtain b c2 where bs: "bindServer hash stringify (sdk_of cfg) (cf_name cfg) (server_url cfg) cli_options now c = (b, c2)"
    by fastforce
  obtain d c3 where dn: "disconnect (sdk_of cfg) c2 = (d, c3)" by fastforce
  show ?thesis
  proof (cases r)
    case (Inl e)
    with cn show ?thesis by (simp add: bind_one_def Let_def)
  next
    case ok: (Inr u)
    show ?thesis
    proof (cases b)
      case (Inl e)
      with cn bs ok show ?thesis by (simp add: bind_one_def Let_def)
    next
      case (Inr br)
      obtain bind rules where br: "br = (bind, rules)" by fastforce
      from bs [unfolded Inr br] obtain j where "bs_name bind = cf_name cfg" "bs_url bind = server_url cfg"
        "bs_pinned_fingerprint bind = Some (hash j)"
        by (rule bindServer_result) blast
      with cn bs dn ok Inr br show ?thesis by (auto simp: bind_one_def Let_def)
    qed
  qed
qed

lemma bind_runs:
  "\<exists>bound. run_bindings (foldl (bind_one hash stringify sdk_of now) acc servers) = run_bindings acc @ bound
     \<and> list_all (\<lambda>b. \<exists>j. bs_pinned_fingerprint b = Some (hash j)) bound
     \<and> set (map bs_url bound) \<subseteq> set (map server_url servers)
     \<and> (distinct (map server_url servers) \<longrightarrow> distinct (map bs_url bound))"
proof (induction servers arbitrary: acc)
  case (Cons cfg servers)
  obtain one where one: "run_bindings (bind_one hash stringify sdk_of now acc cfg) = run_bindings acc @ one"
    "one = [] \<or> (\<exists>b j. one = [b] \<and> bs_name b = cf_name cfg \<and> bs_url b = server_url cfg \<and> bs_pinned_fingerprint b = Some (hash j))"
    using bind_one_bindings by blast
  obtain bound where bound: "run_bindings (foldl (bind_one hash stringify sdk_of now) (bind_one hash stringify sdk_of now acc cfg) servers)
      = run_bindings (bind_one hash stringify sdk_of now acc cfg) @ bound"
    "list_all (\<lambda>b. \<exists>j. bs_pinned_fingerprint b = Some (hash j)) bound" "set (map bs_url bound) \<subseteq> set (map server_url servers)"
    "distinct (map server_url servers) \<longrightarrow> distinct (map bs_url bound)"
    using Cons.IH by blast
  show ?case
    using one bound by (intro exI [of _ "one @ bound"]) auto
qed simp

section \<open>Pinning and verifying\<close>

lemma pinned_pin: "pinned (pinMCPServer url fp mode p) u =
    (if u = url then Some \<lparr>ts_url = url, ts_fingerprint = fp, ts_pin_mode = mode\<rparr> else pinned p u)"
proof (cases "pinned p url")
  case None
  then show ?thesis
    by (auto simp: pinned_def pinMCPServer_def find_append split: option.splits)
next
  case (Some s)
  have "ts_url s = url" using find_SomeD [OF Some [unfolded pinned_def]] by simp
  show ?thesis
  proof (cases "u = url")
    case True
    with Some \<open>ts_url s = url\<close> show ?thesis
      by (simp add: pinned_def pinMCPServer_def find_update_first)
  next
    case False
    then have "List.find (\<lambda>s. ts_url s = u) (update_first (\<lambda>s. ts_url s = url)
        (\<lambda>s. s\<lparr>ts_fingerprint := fp, ts_pin_mode := mode\<rparr>) (tp_mcp_servers p)) = List.find (\<lambda>s. ts_url s = u) (tp_mcp_servers p)"
      by (intro find_update_first_other) simp
    with Some False show ?thesis by (simp add: pinned_def pinMCPServer_def)
  qed
qed

lemma verify_iff: "fst (verifyMCPServer p url fp) \<longleftrightarrow> map_option ts_fingerprint (pinned p url) = Some fp"
  by (simp add: verifyMCPServer_def split: option.split)

section \<open>Facts about the audit\<close>

definition bound_fingerprint :: "bindings_server \<Rightarrow> string" where
  "bound_fingerprint s = (case bs_pinned_fingerprint s of None \<Rightarrow> [] | Some f \<Rightarrow> f)"

lemma server_clean:
  "server_violations trust s = [] \<longleftrightarrow> fst (verifyMCPServer trust (bs_url s) (bound_fingerprint s))"
  by (auto simp: server_violations_def verify_iff bound_fingerprint_def text_truthy_def split: option.splits)

lemma server_error:
  "(\<exists>v \<in> set (server_violations trust s). vi_severity v = Violation_error) \<longleftrightarrow>
     (\<exists>p. pinned trust (bs_url s) = Some p \<and> ts_pin_mode p = Strict \<and> bound_fingerprint s \<noteq> []
        \<and> bound_fingerprint s \<noteq> ts_fingerprint p)"
  by (auto simp: server_violations_def bound_fingerprint_def text_truthy_def split: option.splits)

lemma sep_inject:
  "c \<notin> set a \<Longrightarrow> c \<notin> set a' \<Longrightarrow> a @ c # b = a' @ c # b' \<longleftrightarrow> a = a' \<and> b = b'"
proof (induction a arbitrary: a')
  case Nil
  then show ?case by (cases a') auto
next
  case (Cons x a)
  then show ?case by (cases a') auto
qed

definition colon_free :: "bindings \<Rightarrow> bool" where
  "colon_free b \<longleftrightarrow> list_all (\<lambda>s. CHR '':'' \<notin> set (bs_name s)) (bd_servers b)"

definition bound_tools :: "bindings \<Rightarrow> (string \<times> string) set" where
  "bound_tools b = (\<Union>s \<in> set (bd_servers b). (\<lambda>t. (bs_name s, bt_tool_ref t)) ` set (bs_tools s))"

lemma tool_refs_iff:
  assumes "colon_free b" "CHR '':'' \<notin> set (bs_name s)"
  shows "qualified_ref s t \<in> set (tool_refs b) \<longleftrightarrow> (bs_name s, bt_tool_ref t) \<in> bound_tools b"
proof
  assume "qualified_ref s t \<in> set (tool_refs b)"
  then obtain s' t' where st: "s' \<in> set (bd_servers b)" "t' \<in> set (bs_tools s')" "qualified_ref s t = qualified_ref s' t'"
    by (auto simp: tool_refs_def)
  with assms have "bs_name s = bs_name s' \<and> bt_tool_ref t = bt_tool_ref t'"
    by (auto simp: qualified_ref_def colon_free_def list_all_iff sep_inject)
  with st show "(bs_name s, bt_tool_ref t) \<in> bound_tools b" by (auto simp: bound_tools_def)
next
  assume "(bs_name s, bt_tool_ref t) \<in> bound_tools b"
  then show "qualified_ref s t \<in> set (tool_refs b)" by (force simp: bound_tools_def tool_refs_def qualified_ref_def)
qed

lemma new_tool_warns: "v \<in> set (new_tool_violations base s t) \<Longrightarrow> vi_severity v = Violation_warning"
  by (simp add: new_tool_violations_def split: if_splits)

lemma no_new_tools:
  assumes "colon_free b" "colon_free p"
  shows "concat (map (\<lambda>s. concat (map (new_tool_violations (tool_refs p) s) (bs_tools s))) (bd_servers b)) = []
    \<longleftrightarrow> bound_tools b \<subseteq> bound_tools p"
proof -
  have "new_tool_violations (tool_refs p) s t = [] \<longleftrightarrow> (bs_name s, bt_tool_ref t) \<in> bound_tools p"
    if "s \<in> set (bd_servers b)" for s t
    using tool_refs_iff [OF assms(2), of s t] assms(1) that
    by (auto simp: new_tool_violations_def colon_free_def list_all_iff)
  then have "concat (map (\<lambda>s. concat (map (new_tool_violations (tool_refs p) s) (bs_tools s))) (bd_servers b)) = []
    \<longleftrightarrow> (\<forall>s \<in> set (bd_servers b). \<forall>t \<in> set (bs_tools s). (bs_name s, bt_tool_ref t) \<in> bound_tools p)"
    by simp
  also have "\<dots> \<longleftrightarrow> bound_tools b \<subseteq> bound_tools p"
    unfolding bound_tools_def [of b] by blast
  finally show ?thesis .
qed

lemma audit_passed:
  "rp_passed (audit trust b previous now) \<longleftrightarrow>
     \<not> (\<exists>s \<in> set (bd_servers b). \<exists>v \<in> set (server_violations trust s). vi_severity v = Violation_error)"
proof -
  have "v \<notin> set (concat (map (\<lambda>s. concat (map (new_tool_violations base s) (bs_tools s))) ss))"
    if "vi_severity v = Violation_error" for v base ss
    using that new_tool_warns by fastforce
  then show ?thesis by (auto simp: audit_def Let_def filter_empty_conv split: option.splits)
qed

lemma audit_clean:
  assumes "colon_free b" "\<And>p. previous = Some p \<Longrightarrow> colon_free p"
  shows "rp_violations (audit trust b previous now) = [] \<longleftrightarrow>
    (\<forall>s \<in> set (bd_servers b). fst (verifyMCPServer trust (bs_url s) (bound_fingerprint s)))
      \<and> (case previous of None \<Rightarrow> True | Some p \<Rightarrow> bound_tools b \<subseteq> bound_tools p)"
proof (cases previous)
  case None
  then show ?thesis by (auto simp: audit_def Let_def server_clean)
next
  case (Some p)
  with no_new_tools [OF assms(1) assms(2) [OF Some]] show ?thesis by (auto simp: audit_def Let_def server_clean)
qed

text \<open>
  What an audit reports. When no server name has a colon (the separator of a qualified tool
  reference), the list of violations is empty exactly if the trust manager verifies the bound
  fingerprint of every bound server and no tool is bound that the baseline, if one is given, did not
  have. The audit passes exactly if no strictly pinned server is bound with another fingerprint;
  everything else is a warning.
\<close>

theorem audit_exact:
  assumes "colon_free b" "\<And>p. previous = Some p \<Longrightarrow> colon_free p"
  shows "(rp_violations (audit trust b previous now) = [] \<longleftrightarrow>
      (\<forall>s \<in> set (bd_servers b). fst (verifyMCPServer trust (bs_url s) (bound_fingerprint s)))
        \<and> (case previous of None \<Rightarrow> True | Some p \<Rightarrow> bound_tools b \<subseteq> bound_tools p))
     \<and> (rp_passed (audit trust b previous now) \<longleftrightarrow>
      \<not> (\<exists>s \<in> set (bd_servers b). \<exists>p. pinned trust (bs_url s) = Some p \<and> ts_pin_mode p = Strict
            \<and> bound_fingerprint s \<noteq> [] \<and> bound_fingerprint s \<noteq> ts_fingerprint p))"
  using audit_clean [OF assms] by (simp add: audit_passed server_error)

section \<open>Bind, pin, audit\<close>

definition pin_bound :: "pin_mode \<Rightarrow> trust \<Rightarrow> bindings_server \<Rightarrow> trust" where
  "pin_bound mode p b = pinMCPServer (bs_url b) (bound_fingerprint b) mode p"

lemma pinned_all:
  "distinct (map bs_url bs) \<Longrightarrow> pinned (foldl (pin_bound mode) p bs) u =
     (case List.find (\<lambda>b. bs_url b = u) bs of
        Some b \<Rightarrow> Some \<lparr>ts_url = u, ts_fingerprint = bound_fingerprint b, ts_pin_mode = mode\<rparr>
      | None \<Rightarrow> pinned p u)"
proof (induction bs arbitrary: p)
  case (Cons b bs)
  have "List.find (\<lambda>x. bs_url x = bs_url b) bs = None"
    using Cons.prems by (auto simp: find_None_iff' image_iff)
  with Cons show ?case by (cases "u = bs_url b") (simp_all add: pin_bound_def pinned_pin split: option.splits)
qed simp

lemma find_url: "distinct (map bs_url bs) \<Longrightarrow> b \<in> set bs \<Longrightarrow> List.find (\<lambda>x. bs_url x = bs_url b) bs = Some b"
  by (induction bs) auto

text \<open>
  Pinning what was bound. After the bind command over servers with distinct addresses, and
  pinning each bound fingerprint, whatever the policy was before: the trust manager verifies every
  bound server, and the pins of all other addresses are as before. The audit of the bindings passes,
  without a violation when no server name has a colon. The audit of any later run of the command over
  pinned addresses passes if and only if the pins are not strict, or each server bound again has the
  fingerprint it was pinned with.
\<close>

theorem pinned_bindings_audit:
  assumes "run_bindings (mcp_bind hash stringify sdk_of now servers) = bs" "distinct (map server_url servers)"
    and "run_bindings (mcp_bind hash stringify' sdk_of' now' servers') = bs'" "\<And>x. hash x \<noteq> []"
    and "trust = foldl (pin_bound mode) trust0 bs"
  shows "list_all (\<lambda>b. verifyMCPServer trust (bs_url b) (bound_fingerprint b) = (True, None)) bs
     \<and> (\<forall>u fp. u \<notin> bs_url ` set bs \<longrightarrow> verifyMCPServer trust u fp = verifyMCPServer trust0 u fp)
     \<and> rp_passed (audit trust \<lparr>bd_servers = bs\<rparr> None now)
     \<and> (colon_free \<lparr>bd_servers = bs\<rparr> \<longrightarrow> rp_violations (audit trust \<lparr>bd_servers = bs\<rparr> (Some \<lparr>bd_servers = bs\<rparr>) now) = [])
     \<and> (bs_url ` set bs' \<subseteq> bs_url ` set bs \<longrightarrow>
          rp_passed (audit trust \<lparr>bd_servers = bs'\<rparr> (Some \<lparr>bd_servers = bs\<rparr>) now') = (mode = Warn \<or> (\<forall>b \<in> set bs. \<forall>b' \<in> set bs'. bs_url b' = bs_url b \<longrightarrow> bound_fingerprint b' = bound_fingerprint b)))"
proof -
  from assms(1) have dist: "distinct (map bs_url bs)"
    using bind_runs [of hash stringify sdk_of now "\<lparr>run_bindings = [], run_guardrails = [], run_skipped = [], run_clients = []\<rparr>" servers]
      assms(2) by (auto simp: mcp_bind_def)
  have fps: "bound_fingerprint b \<noteq> []" if "b \<in> set bs'" for b
    using bind_runs [of hash stringify' sdk_of' now' "\<lparr>run_bindings = [], run_guardrails = [], run_skipped = [], run_clients = []\<rparr>" servers']
      that assms(3,4) by (force simp: mcp_bind_def list_all_iff bound_fingerprint_def)
  note pins = pinned_all [OF dist, of mode trust0, folded assms(5)]
  have here: "pinned trust (bs_url b) = Some \<lparr>ts_url = bs_url b, ts_fingerprint = bound_fingerprint b, ts_pin_mode = mode\<rparr>"
    if "b \<in> set bs" for b
    using find_url [OF dist that] pins by simp
  have elsewhere: "pinned trust u = pinned trust0 u" if "u \<notin> bs_url ` set bs" for u
    using that pins [of u] by (auto simp: find_None_iff' split: option.splits dest: find_SomeD)
  have ver: "list_all (\<lambda>b. verifyMCPServer trust (bs_url b) (bound_fingerprint b) = (True, None)) bs"
    by (simp add: list_all_iff verifyMCPServer_def here)
  have others: "verifyMCPServer trust u fp = verifyMCPServer trust0 u fp" if "u \<notin> bs_url ` set bs" for u fp
    by (simp add: verifyMCPServer_def elsewhere [OF that])
  have passed: "rp_passed (audit trust \<lparr>bd_servers = bs\<rparr> None now)"
    by (auto simp: audit_passed server_error here)
  have clean: "rp_violations (audit trust \<lparr>bd_servers = bs\<rparr> (Some \<lparr>bd_servers = bs\<rparr>) now) = []"
    if "colon_free \<lparr>bd_servers = bs\<rparr>"
    using audit_clean [OF that, of "Some \<lparr>bd_servers = bs\<rparr>" trust now] ver that by (simp add: list_all_iff)
  have "(\<exists>b' \<in> set bs'. \<exists>p. pinned trust (bs_url b') = Some p \<and> ts_pin_mode p = Strict
            \<and> bound_fingerprint b' \<noteq> [] \<and> bound_fingerprint b' \<noteq> ts_fingerprint p)
     \<longleftrightarrow> mode \<noteq> Warn \<and> (\<exists>b \<in> set bs. \<exists>b' \<in> set bs'. bs_url b' = bs_url b \<and> bound_fingerprint b' \<noteq> bound_fingerprint b)"
    (is "?l \<longleftrightarrow> ?r") if sub: "bs_url ` set bs' \<subseteq> bs_url ` set bs"
  proof
    assume ?l
    then obtain b' p where l: "b' \<in> set bs'" "pinned trust (bs_url b') = Some p" "ts_pin_mode p = Strict"
      "bound_fingerprint b' \<noteq> ts_fingerprint p" by blast
    with sub obtain b where b: "b \<in> set bs" "bs_url b' = bs_url b" by auto
    with l here [OF b(1)] have "mode = Strict" "bound_fingerprint b' \<noteq> bound_fingerprint b" by auto
    with b l(1) show ?r by auto
  next
    assume ?r
    then obtain b b' where r: "mode \<noteq> Warn" "b \<in> set bs" "b' \<in> set bs'" "bs_url b' = bs_url b"
      "bound_fingerprint b' \<noteq> bound_fingerprint b" by blast
    from r(1) have "mode = Strict" by (cases mode) auto
    with r here [OF r(2)] fps [OF r(3)] show ?l by (intro bexI [of _ b']) auto
  qed
  then have "rp_passed (audit trust \<lparr>bd_servers = bs'\<rparr> (Some \<lparr>bd_servers = bs\<rparr>) now') =
      (mode = Warn \<or> (\<forall>b \<in> set bs. \<forall>b' \<in> set bs'. bs_url b' = bs_url b \<longrightarrow> bound_fingerprint b' = bound_fingerprint b))"
    if "bs_url ` set bs' \<subseteq> bs_url ` set bs"
    using that by (auto simp: audit_passed server_error)
  with ver others passed clean show ?thesis by blast
qed

section \<open>Witnesses\<close>

lemma sample_bound:
  "run_bindings (mcp_bind (\<lambda>x. CHR ''h'' # x) (\<lambda>_. ''j'') (\<lambda>_. sample_sdk) ''t'' [sample_config]) =
     [server_bindings ''files'' ''server'' ''hj'' [sample_tool] [] [] ''t'']"
  by (simp add: mcp_bind_def bind_one_def Let_def connect_def disconnect_def resolveTransport_def open_transport_def
      new_client_def next_call_def sample_sdk_def sample_config_def text_truthy_def bindServer_def on_ok_def listTools_def
      listResources_def listPrompts_def getFingerprint_def request_def ensureConnected_def or_none_def list_or_empty_def
      selectTools_def cli_options_def server_url_def server_bindings_def)

theorem binder_guards_tools_witness:
  "\<exists>b rules c'. bindServer id (\<lambda>_. ''j'') sample_sdk ''files'' ''server'' cli_options ''t''
       (snd (connect sample_sdk (new_client sample_config))) = (Inr (b, rules), c')
     \<and> bs_tools b \<noteq> [] \<and> list_all (\<lambda>r. rule_action r = Require_approval) rules"
proof -
  let ?c = "snd (connect sample_sdk (new_client sample_config))"
  have "fst (bindServer id (\<lambda>_. ''j'') sample_sdk ''files'' ''server'' cli_options ''t'' ?c) =
      Inr (server_bindings ''files'' ''server'' ''j'' [sample_tool] [] [] ''t'',
           generateGuardrailsFromMetadata [sample_tool] ''files'' cli_options)"
    by (simp add: connect_def resolveTransport_def open_transport_def Let_def
      new_client_def next_call_def sample_sdk_def sample_config_def text_truthy_def bindServer_def on_ok_def listTools_def
      listResources_def listPrompts_def getFingerprint_def request_def ensureConnected_def or_none_def list_or_empty_def
      selectTools_def cli_options_def)
  then obtain b rules c' where r: "bindServer id (\<lambda>_. ''j'') sample_sdk ''files'' ''server'' cli_options ''t'' ?c = (Inr (b, rules), c')"
    "bs_tools b = [createToolBinding sample_tool]"
    by (cases "bindServer id (\<lambda>_. ''j'') sample_sdk ''files'' ''server'' cli_options ''t'' ?c") (auto simp: server_bindings_def)
  from binder_guards_tools [OF r(1)] r show ?thesis by (auto simp: cli_options_def)
qed

theorem audit_exact_witness:
  "\<not> rp_passed (audit (pinMCPServer ''server'' ''other'' Strict DEFAULT_TRUST_POLICY)
       \<lparr>bd_servers = [server_bindings ''files'' ''server'' ''hj'' [sample_tool] [] [] ''t'']\<rparr> None ''now'')"
proof -
  let ?b = "\<lparr>bd_servers = [server_bindings ''files'' ''server'' ''hj'' [sample_tool] [] [] ''t'']\<rparr>"
  have b: "colon_free ?b" by (simp add: colon_free_def server_bindings_def)
  have "bound_fingerprint (server_bindings ''files'' ''server'' ''hj'' [sample_tool] [] [] ''t'') = ''hj''"
    "bs_url (server_bindings ''files'' ''server'' ''hj'' [sample_tool] [] [] ''t'') = ''server''"
    by (simp_all add: bound_fingerprint_def server_bindings_def)
  then show ?thesis
    using audit_exact [of ?b None "pinMCPServer ''server'' ''other'' Strict DEFAULT_TRUST_POLICY" "''now''"] b
    by (simp add: pinned_pin)
qed

theorem pinned_bindings_audit_witness:
  "\<exists>bs trust. bs \<noteq> [] \<and> trust = foldl (pin_bound Strict) DEFAULT_TRUST_POLICY bs
     \<and> rp_passed (audit trust \<lparr>bd_servers = bs\<rparr> None ''t'')"
proof -
  let ?h = "\<lambda>x. CHR ''h'' # x"
  have d: "distinct (map server_url [sample_config])" by simp
  let ?bs = "[server_bindings ''files'' ''server'' ''hj'' [sample_tool] [] [] ''t'']"
  have "rp_passed (audit (foldl (pin_bound Strict) DEFAULT_TRUST_POLICY ?bs) \<lparr>bd_servers = ?bs\<rparr> None ''t'')"
    using pinned_bindings_audit [OF sample_bound d sample_bound, of "foldl (pin_bound Strict) DEFAULT_TRUST_POLICY ?bs" Strict DEFAULT_TRUST_POLICY]
    by (simp add: DEFAULT_TRUST_POLICY_def)
  then show ?thesis by blast
qed

end
