(* ===== verification/MemoryPolicy.thy ===== *)
theory MemoryPolicy
  imports Answers
begin

text \<open>
  TasteKit core, compiler/memory-compiler.ts over schemas/memory.ts: the memory policy from the
  answers, with the presets of the six domains.
\<close>

section \<open>The artifact\<close>

record salience_rule =
  sr_rule_id :: string
  sr_pattern :: string
  sr_score :: rat
  sr_reason :: "string option"

record pii_handling =
  pii_detect :: bool
  pii_redact :: bool
  pii_store_separately :: bool

datatype update_mode = Append | Revise | Consolidate

datatype prune_strategy = Oldest | Least_salient | Manual

record memory_store =
  ms_store_id :: string
  ms_type :: string
  ms_config :: json

record memory_policy =
  mp_runtime_target :: string
  mp_stores :: "memory_store list"
  mp_salience_rules :: "salience_rule list"
  mp_pii :: pii_handling
  mp_update_mode :: update_mode
  mp_schedule :: string
  mp_revisit_triggers :: "string list"
  mp_ttl_days :: int
  mp_prune :: prune_strategy

record memory_preset =
  salienceRules :: "salience_rule list"
  revisitTriggers :: "string list"
  defaultTTLDays :: int
  piiSensitive :: bool

section \<open>Presets\<close>

definition SHARED_SALIENCE_RULES :: "salience_rule list" where
  \<open>SHARED_SALIENCE_RULES = [\<lparr>sr_rule_id = ''user_preferences'', sr_pattern = ''preference|like|dislike|prefer|want|need'',
         sr_score = 9 / 10, sr_reason = Some ''User preferences are highly salient across all domains''\<rparr>,
      \<lparr>sr_rule_id = ''corrections'', sr_pattern = ''actually|correction|mistake|wrong|fix|update'',
         sr_score = 19 / 20, sr_reason = Some ''Corrections are critical to remember to avoid repeating errors''\<rparr>,
      \<lparr>sr_rule_id = ''feedback'', sr_pattern = ''good|bad|better|worse|improve|great|terrible'',
         sr_score = 4 / 5, sr_reason = Some ''Feedback signals help calibrate future behavior''\<rparr>]\<close>

definition memory_content :: memory_preset where
  \<open>memory_content = \<lparr>
    salienceRules = [\<lparr>sr_rule_id = ''brand_voice'', sr_pattern = ''brand|voice|tone|style|personality'',
         sr_score = 19 / 20, sr_reason = Some ''Brand voice consistency is critical for content agents''\<rparr>,
      \<lparr>sr_rule_id = ''audience_signals'', sr_pattern = ''audience|follower|engagement|reach|impression'',
         sr_score = 17 / 20, sr_reason = Some ''Audience insights inform content strategy''\<rparr>,
      \<lparr>sr_rule_id = ''content_performance'', sr_pattern = ''performed|viral|trending|popular|engagement rate'',
         sr_score = 4 / 5, sr_reason = Some ''Content performance data guides future creation''\<rparr>,
      \<lparr>sr_rule_id = ''platform_rules'', sr_pattern = ''algorithm|policy|limit|character|format'',
         sr_score = 7 / 10, sr_reason = Some ''Platform-specific rules evolve frequently''\<rparr>],
    revisitTriggers = [''user_correction'', ''principle_violation'', ''brand_drift'', ''platform_change''],
    defaultTTLDays = 90,
    piiSensitive = False\<rparr>\<close>

definition memory_sales :: memory_preset where
  \<open>memory_sales = \<lparr>
    salienceRules = [\<lparr>sr_rule_id = ''deal_context'', sr_pattern = ''deal|opportunity|pipeline|revenue|close'',
         sr_score = 19 / 20, sr_reason = Some ''Deal context is the highest-value memory for sales agents''\<rparr>,
      \<lparr>sr_rule_id = ''customer_relationship'', sr_pattern = ''relationship|rapport|trust|concern|objection'',
         sr_score = 9 / 10, sr_reason = Some ''Relationship context drives effective selling''\<rparr>,
      \<lparr>sr_rule_id = ''pricing_terms'', sr_pattern = ''price|discount|terms|contract|proposal'',
         sr_score = 17 / 20, sr_reason = Some ''Accurate pricing recall prevents deal-breaking errors''\<rparr>,
      \<lparr>sr_rule_id = ''competitive_intel'', sr_pattern = ''competitor|alternative|comparison|switch'',
         sr_score = 3 / 4, sr_reason = Some ''Competitive context helps position effectively''\<rparr>],
    revisitTriggers = [''user_correction'', ''deal_stage_change'', ''pricing_update'', ''lost_deal''],
    defaultTTLDays = 180,
    piiSensitive = True\<rparr>\<close>

definition memory_development :: memory_preset where
  \<open>memory_development = \<lparr>
    salienceRules = [\<lparr>sr_rule_id = ''code_patterns'', sr_pattern = ''pattern|architecture|convention|style guide|standard'',
         sr_score = 9 / 10, sr_reason = Some ''Coding patterns and conventions ensure consistency''\<rparr>,
      \<lparr>sr_rule_id = ''bug_context'', sr_pattern = ''bug|error|issue|regression|failure|crash'',
         sr_score = 17 / 20, sr_reason = Some ''Bug context prevents re-introduction of known issues''\<rparr>,
      \<lparr>sr_rule_id = ''tech_decisions'', sr_pattern = ''decision|chose|tradeoff|migration|deprecat'',
         sr_score = 9 / 10, sr_reason = Some ''Technical decisions provide important context for future work''\<rparr>,
      \<lparr>sr_rule_id = ''test_results'', sr_pattern = ''test|coverage|assertion|spec|fixture'',
         sr_score = 7 / 10, sr_reason = Some ''Test outcomes guide quality focus areas''\<rparr>],
    revisitTriggers = [''user_correction'', ''test_failure'', ''build_failure'', ''dependency_update''],
    defaultTTLDays = 120,
    piiSensitive = False\<rparr>\<close>

definition memory_research :: memory_preset where
  \<open>memory_research = \<lparr>
    salienceRules = [\<lparr>sr_rule_id = ''source_quality'', sr_pattern = ''source|citation|reference|paper|study|evidence'',
         sr_score = 19 / 20, sr_reason = Some ''Source quality tracking is essential for research integrity''\<rparr>,
      \<lparr>sr_rule_id = ''methodology'', sr_pattern = ''method|approach|framework|analysis|hypothesis'',
         sr_score = 9 / 10, sr_reason = Some ''Methodological choices must be consistently remembered''\<rparr>,
      \<lparr>sr_rule_id = ''findings'', sr_pattern = ''finding|result|conclusion|insight|discovery'',
         sr_score = 17 / 20, sr_reason = Some ''Research findings are core output to preserve''\<rparr>,
      \<lparr>sr_rule_id = ''contradictions'', sr_pattern = ''contradict|conflict|disagree|inconsisten|debate'',
         sr_score = 9 / 10, sr_reason = Some ''Contradictions require careful tracking for balanced analysis''\<rparr>],
    revisitTriggers = [''user_correction'', ''source_retraction'', ''new_evidence'', ''methodology_change''],
    defaultTTLDays = 365,
    piiSensitive = False\<rparr>\<close>

definition memory_support :: memory_preset where
  \<open>memory_support = \<lparr>
    salienceRules = [\<lparr>sr_rule_id = ''customer_issue'', sr_pattern = ''issue|problem|ticket|complaint|request'',
         sr_score = 9 / 10, sr_reason = Some ''Customer issue context drives resolution quality''\<rparr>,
      \<lparr>sr_rule_id = ''resolution_pattern'', sr_pattern = ''resolved|fixed|solution|workaround|steps'',
         sr_score = 17 / 20, sr_reason = Some ''Successful resolutions create reusable knowledge''\<rparr>,
      \<lparr>sr_rule_id = ''customer_sentiment'', sr_pattern = ''frustrated|happy|angry|satisfied|urgent'',
         sr_score = 4 / 5, sr_reason = Some ''Sentiment awareness enables appropriate response tone''\<rparr>,
      \<lparr>sr_rule_id = ''escalation_context'', sr_pattern = ''escalat|manager|supervisor|priority|SLA'',
         sr_score = 19 / 20, sr_reason = Some ''Escalation context must be preserved for continuity''\<rparr>],
    revisitTriggers = [''user_correction'', ''escalation'', ''repeated_issue'', ''customer_churn''],
    defaultTTLDays = 90,
    piiSensitive = True\<rparr>\<close>

definition memory_general :: memory_preset where
  \<open>memory_general = \<lparr>
    salienceRules = [],
    revisitTriggers = [''user_correction'', ''principle_violation'', ''repeated_failure''],
    defaultTTLDays = 90,
    piiSensitive = False\<rparr>\<close>

definition DOMAIN_MEMORY_PRESETS :: "(string \<times> memory_preset) list" where
  "DOMAIN_MEMORY_PRESETS = [(''content-agent'', memory_content),
     (''sales-agent'', memory_sales),
     (''development-agent'', memory_development),
     (''research-agent'', memory_research),
     (''support-agent'', memory_support),
     (''general-agent'', memory_general)]"

section \<open>Compilation\<close>

text \<open>\<open>/personal information|pii|privacy|confidential/i\<close>.\<close>

definition mentions_pii :: "string \<Rightarrow> bool" where
  "mentions_pii t \<longleftrightarrow>
     list_ex (\<lambda>w. str_includes (to_lower t) w) [''personal information'', ''pii'', ''privacy'', ''confidential'']"

definition generic_stores :: "memory_store list" where
  "generic_stores = [\<lparr>ms_store_id = ''default'', ms_type = ''runtime_managed'', ms_config = JObj []\<rparr>]"

definition schedule_for :: "rat \<Rightarrow> string" where
  "schedule_for autonomy = (if 7 / 10 \<le> autonomy then ''0 0 2 * * *'' else ''0 0 2 * * 0'')"

definition update_mode_for :: "rat \<Rightarrow> update_mode" where
  "update_mode_for autonomy = (if 6 / 10 \<le> autonomy then Consolidate else Revise)"

definition ttl_for :: "int \<Rightarrow> rat \<Rightarrow> int" where
  "ttl_for dflt cost =
     (if 7 / 10 < cost then js_round (of_int dflt * (6 / 10))
      else if cost < 3 / 10 then js_round (of_int dflt * (3 / 2)) else dflt)"

definition memory_structured :: "structured_answers \<Rightarrow> session \<Rightarrow> memory_policy" where
  "memory_structured sa session =
     (let preset = preset_for DOMAIN_MEMORY_PRESETS (text_or ''general-agent'' (ss_domain_id session));
          hasPIITaboos = list_ex mentions_pii (never_do (sa_taboos sa));
          autonomy = autonomy_level (sa_tradeoffs sa)
      in \<lparr>mp_runtime_target = ''generic'', mp_stores = generic_stores,
          mp_salience_rules = SHARED_SALIENCE_RULES @ salienceRules preset,
          mp_pii = \<lparr>pii_detect = True, pii_redact = piiSensitive preset \<or> hasPIITaboos,
            pii_store_separately = piiSensitive preset \<or> hasPIITaboos\<rparr>,
          mp_update_mode = update_mode_for autonomy, mp_schedule = schedule_for autonomy,
          mp_revisit_triggers = revisitTriggers preset,
          mp_ttl_days = ttl_for (defaultTTLDays preset) (cost_sensitivity (sa_tradeoffs sa)),
          mp_prune = Least_salient\<rparr>)"

definition memory_legacy :: "session \<Rightarrow> memory_policy" where
  "memory_legacy session =
     (let preset = preset_for DOMAIN_MEMORY_PRESETS (text_or ''general-agent'' (ss_domain_id session));
          autonomy = num_or (1 / 2) (fa_autonomy_level (ss_answers session))
      in \<lparr>mp_runtime_target = ''generic'', mp_stores = generic_stores,
          mp_salience_rules = SHARED_SALIENCE_RULES @ salienceRules preset,
          mp_pii = \<lparr>pii_detect = True, pii_redact = piiSensitive preset,
            pii_store_separately = piiSensitive preset\<rparr>,
          mp_update_mode = update_mode_for autonomy, mp_schedule = schedule_for autonomy,
          mp_revisit_triggers = revisitTriggers preset,
          mp_ttl_days = defaultTTLDays preset, mp_prune = Least_salient\<rparr>)"

definition compileMemoryPolicy :: "session \<Rightarrow> memory_policy" where
  "compileMemoryPolicy session =
     (case ss_structured session of
        Some sa \<Rightarrow> memory_structured sa session
      | None \<Rightarrow> memory_legacy session)"

section \<open>Well-formed presets\<close>

definition memory_preset_ok :: "memory_preset \<Rightarrow> bool" where
  "memory_preset_ok p \<longleftrightarrow>
     distinct (map sr_rule_id (SHARED_SALIENCE_RULES @ salienceRules p))
     \<and> list_all (\<lambda>x. 0 \<le> x \<and> x \<le> 1) (map sr_score (SHARED_SALIENCE_RULES @ salienceRules p))
     \<and> 2 \<le> defaultTTLDays p \<and> ''user_correction'' \<in> set (revisitTriggers p)"

lemma shared_rule_facts:
  "map sr_rule_id SHARED_SALIENCE_RULES = [''user_preferences'', ''corrections'', ''feedback'']"
  "map sr_score SHARED_SALIENCE_RULES = [9 / 10, 19 / 20, 4 / 5]"
  by (simp_all add: SHARED_SALIENCE_RULES_def)

lemma memory_content_ok: "memory_preset_ok memory_content"
proof -
  have "map sr_rule_id (salienceRules memory_content) = [''brand_voice'', ''audience_signals'', ''content_performance'', ''platform_rules'']"
    "map sr_score (salienceRules memory_content) = [19 / 20, 17 / 20, 4 / 5, 7 / 10]"
    "2 \<le> defaultTTLDays memory_content" "''user_correction'' \<in> set (revisitTriggers memory_content)"
    by (simp_all add: memory_content_def)
  then show ?thesis by (simp add: memory_preset_ok_def shared_rule_facts)
qed

lemma memory_sales_ok: "memory_preset_ok memory_sales"
proof -
  have "map sr_rule_id (salienceRules memory_sales) = [''deal_context'', ''customer_relationship'', ''pricing_terms'', ''competitive_intel'']"
    "map sr_score (salienceRules memory_sales) = [19 / 20, 9 / 10, 17 / 20, 3 / 4]"
    "2 \<le> defaultTTLDays memory_sales" "''user_correction'' \<in> set (revisitTriggers memory_sales)"
    by (simp_all add: memory_sales_def)
  then show ?thesis by (simp add: memory_preset_ok_def shared_rule_facts)
qed

lemma memory_development_ok: "memory_preset_ok memory_development"
proof -
  have "map sr_rule_id (salienceRules memory_development) = [''code_patterns'', ''bug_context'', ''tech_decisions'', ''test_results'']"
    "map sr_score (salienceRules memory_development) = [9 / 10, 17 / 20, 9 / 10, 7 / 10]"
    "2 \<le> defaultTTLDays memory_development" "''user_correction'' \<in> set (revisitTriggers memory_development)"
    by (simp_all add: memory_development_def)
  then show ?thesis by (simp add: memory_preset_ok_def shared_rule_facts)
qed

lemma memory_research_ok: "memory_preset_ok memory_research"
proof -
  have "map sr_rule_id (salienceRules memory_research) = [''source_quality'', ''methodology'', ''findings'', ''contradictions'']"
    "map sr_score (salienceRules memory_research) = [19 / 20, 9 / 10, 17 / 20, 9 / 10]"
    "2 \<le> defaultTTLDays memory_research" "''user_correction'' \<in> set (revisitTriggers memory_research)"
    by (simp_all add: memory_research_def)
  then show ?thesis by (simp add: memory_preset_ok_def shared_rule_facts)
qed

lemma memory_support_ok: "memory_preset_ok memory_support"
proof -
  have "map sr_rule_id (salienceRules memory_support) = [''customer_issue'', ''resolution_pattern'', ''customer_sentiment'', ''escalation_context'']"
    "map sr_score (salienceRules memory_support) = [9 / 10, 17 / 20, 4 / 5, 19 / 20]"
    "2 \<le> defaultTTLDays memory_support" "''user_correction'' \<in> set (revisitTriggers memory_support)"
    by (simp_all add: memory_support_def)
  then show ?thesis by (simp add: memory_preset_ok_def shared_rule_facts)
qed

lemma memory_general_ok: "memory_preset_ok memory_general"
proof -
  have "map sr_rule_id (salienceRules memory_general) = []"
    "map sr_score (salienceRules memory_general) = []"
    "2 \<le> defaultTTLDays memory_general" "''user_correction'' \<in> set (revisitTriggers memory_general)"
    by (simp_all add: memory_general_def)
  then show ?thesis by (simp add: memory_preset_ok_def shared_rule_facts)
qed

lemmas memory_presets_ok = memory_content_ok memory_sales_ok memory_development_ok memory_research_ok memory_support_ok memory_general_ok


lemma memory_preset_cases: "preset_for DOMAIN_MEMORY_PRESETS k
    \<in> {memory_content, memory_sales, memory_development, memory_research, memory_support, memory_general}"
  by (simp add: preset_for_def DOMAIN_MEMORY_PRESETS_def)

lemma memory_preset_for_ok: "memory_preset_ok (preset_for DOMAIN_MEMORY_PRESETS k)"
  using memory_preset_cases [of k] memory_presets_ok by auto

lemma ttl_positive: "2 \<le> d \<Longrightarrow> 0 < ttl_for d c"
proof -
  assume d: "2 \<le> d"
  have "1 \<le> x \<Longrightarrow> 0 < js_round x" for x by (simp add: js_round_def)
  moreover have "1 \<le> rat_of_int d * (6 / 10)" "1 \<le> rat_of_int d * (3 / 2)" using d by simp_all
  ultimately show ?thesis using d by (simp add: ttl_for_def)
qed

lemma ttl_antitone: "0 \<le> d \<Longrightarrow> c \<le> c' \<Longrightarrow> ttl_for d c' \<le> ttl_for d c"
proof -
  assume d: "0 \<le> d" and c: "c \<le> c'"
  have "js_round (of_int d * (6 / 10)) \<le> js_round (of_int d)" "js_round (of_int d) \<le> js_round (of_int d * (3 / 2))"
    using d unfolding js_round_def by (intro floor_mono; simp)+
  moreover have "js_round (of_int d) = d" by (simp add: js_round_def) linarith
  ultimately show ?thesis using c by (auto simp: ttl_for_def)
qed

section \<open>Properties\<close>

text \<open>
  Every compiled memory policy is well formed, for any session: the salience rules have distinct
  ids and scores between 0 and 1, the retention is a positive number of days, user corrections always
  trigger a revisit, and PII that is redacted is stored separately.
\<close>

theorem memory_policy_well_formed:
  "distinct (map sr_rule_id (mp_salience_rules (compileMemoryPolicy session)))
   \<and> list_all (\<lambda>r. 0 \<le> sr_score r \<and> sr_score r \<le> 1) (mp_salience_rules (compileMemoryPolicy session))
   \<and> 0 < mp_ttl_days (compileMemoryPolicy session)
   \<and> ''user_correction'' \<in> set (mp_revisit_triggers (compileMemoryPolicy session))
   \<and> pii_redact (mp_pii (compileMemoryPolicy session)) = pii_store_separately (mp_pii (compileMemoryPolicy session))"
proof -
  let ?p = "preset_for DOMAIN_MEMORY_PRESETS (text_or ''general-agent'' (ss_domain_id session))"
  have p: "memory_preset_ok ?p" by (rule memory_preset_for_ok)
  then have "list_all (\<lambda>r. 0 \<le> sr_score r \<and> sr_score r \<le> 1) (SHARED_SALIENCE_RULES @ salienceRules ?p)"
    by (auto simp: memory_preset_ok_def list_all_iff)
  with p show ?thesis
    by (cases "ss_structured session")
      (simp_all add: compileMemoryPolicy_def memory_structured_def memory_legacy_def Let_def
        memory_preset_ok_def ttl_positive)
qed

text \<open>
  The answers move the policy in the intended direction: among sessions of one domain, a higher
  cost sensitivity never keeps memories longer, and a session whose taboos include those of another
  one redacts whenever the other does.
\<close>

theorem memory_policy_monotone:
  assumes "ss_structured s = Some a" "ss_structured s' = Some a'" "ss_domain_id s = ss_domain_id s'"
    and "cost_sensitivity (sa_tradeoffs a) \<le> cost_sensitivity (sa_tradeoffs a')"
    and "set (never_do (sa_taboos a)) \<subseteq> set (never_do (sa_taboos a'))"
  shows "mp_ttl_days (compileMemoryPolicy s') \<le> mp_ttl_days (compileMemoryPolicy s)
    \<and> (pii_redact (mp_pii (compileMemoryPolicy s)) \<longrightarrow> pii_redact (mp_pii (compileMemoryPolicy s')))"
proof -
  have "memory_preset_ok (preset_for DOMAIN_MEMORY_PRESETS (text_or ''general-agent'' (ss_domain_id s')))"
    by (rule memory_preset_for_ok)
  then have "0 \<le> defaultTTLDays (preset_for DOMAIN_MEMORY_PRESETS (text_or ''general-agent'' (ss_domain_id s')))"
    by (simp add: memory_preset_ok_def)
  with assms show ?thesis
    by (auto simp: compileMemoryPolicy_def memory_structured_def Let_def ttl_antitone list_ex_iff)
qed

definition cost_answers :: "rat \<Rightarrow> string list \<Rightarrow> structured_answers" where
  "cost_answers c ts = \<lparr>sa_principles = [],
     sa_tone = \<lparr>ta_voice_keywords = [], ta_forbidden_phrases = [], ta_formatting_rules = [], ta_source_dimensions = []\<rparr>,
     sa_tradeoffs = \<lparr>accuracy_vs_speed = 1 / 2, cost_sensitivity = c, autonomy_level = 1 / 2, tr_source_dimensions = []\<rparr>,
     sa_evidence = \<lparr>require_citations_for = [], uncertainty_language_rules = [], ea_source_dimensions = []\<rparr>,
     sa_taboos = \<lparr>never_do = ts, must_escalate = [], tb_source_dimensions = []\<rparr>, sa_domain_specific = JNull\<rparr>"

definition memory_session :: "rat \<Rightarrow> string list \<Rightarrow> session" where
  "memory_session c ts = \<lparr>ss_session_id = ''s'', ss_domain_id = None,
     ss_answers = \<lparr>fa_key_principles = None, fa_primary_goal = None, fa_voice_keywords = None,
       fa_forbidden_phrases = None, fa_accuracy_vs_speed = None, fa_autonomy_level = None, fa_raw = JObj []\<rparr>,
     ss_structured = Some (cost_answers c ts), ss_llm_provider = None\<rparr>"

theorem memory_policy_monotone_witness:
  "mp_ttl_days (compileMemoryPolicy (memory_session 1 [''leak PII''])) \<le> mp_ttl_days (compileMemoryPolicy (memory_session 0 []))"
  using memory_policy_monotone [of "memory_session 0 []" "cost_answers 0 []" "memory_session 1 [''leak PII'']"
      "cost_answers 1 [''leak PII'']"]
  by (simp add: memory_session_def cost_answers_def)

end
