(* ===== verification/SkillGraph.thy ===== *)
theory SkillGraph
  imports Prelude
begin

text \<open>
  TasteKit core, skills/graph.ts over schemas/skills.ts: the graph of the skills of a manifest,
  its cycles, pipelines, orphans and hubs. The depth-first search carries fuel, one unit per
  nested call; the number of skills is enough because every nested call turns a white node gray.
\<close>

section \<open>Manifest\<close>

datatype skill_risk = Risk_low | Risk_med | Risk_high

datatype context_model = Inherit | Fork

record skill =
  skill_id :: string
  skill_name :: string
  skill_description :: string
  skill_tags :: "string list"
  risk_level :: skill_risk
  required_tools :: "string list"
  compatible_runtimes :: "string list"
  playbook_ref :: "string option"
  prerequisites :: "string list option"
  feeds_into :: "string list option"
  alternatives :: "string list option"
  pipeline_phase :: "string option"
  context_model :: "context_model option"
  model_hint :: "string option"

section \<open>Adjacency\<close>

type_synonym adjacency = "(string \<times> string list) list"

datatype relationship = Feeds_into | Prerequisites | Alternatives

record missing_ref =
  mr_skill_id :: string
  mr_missing_ref :: string
  mr_relationship :: relationship

record graph_acc =
  ga_out :: adjacency
  ga_in :: adjacency
  ga_connections :: "(string \<times> nat) list"
  ga_missing :: "missing_ref list"

definition get_or :: "'v \<Rightarrow> ('k \<times> 'v) list \<Rightarrow> 'k \<Rightarrow> 'v" where
  "get_or d m k = (case map_of m k of None \<Rightarrow> d | Some v \<Rightarrow> v)"

definition ensure :: "'k \<Rightarrow> 'v \<Rightarrow> ('k \<times> 'v) list \<Rightarrow> ('k \<times> 'v) list" where
  "ensure k d m = (if map_of m k = None then AList.update k d m else m)"

definition add_to :: "string \<Rightarrow> string \<Rightarrow> adjacency \<Rightarrow> adjacency" where
  "add_to k x m = AList.update k (set_add x (get_or [] m k)) m"

definition bump :: "string \<Rightarrow> (string \<times> nat) list \<Rightarrow> (string \<times> nat) list" where
  "bump k m = AList.update k (get_or 0 m k + 1) m"

definition add_edge :: "string \<Rightarrow> string \<Rightarrow> graph_acc \<Rightarrow> graph_acc" where
  "add_edge u v acc = acc\<lparr>ga_out := add_to u v (ga_out acc), ga_in := add_to v u (ga_in acc)\<rparr>"

definition add_missing :: "string \<Rightarrow> string \<Rightarrow> relationship \<Rightarrow> graph_acc \<Rightarrow> graph_acc" where
  "add_missing k x r acc = acc\<lparr>ga_missing := ga_missing acc
     @ [\<lparr>mr_skill_id = k, mr_missing_ref = x, mr_relationship = r\<rparr>]\<rparr>"

definition add_feed :: "string list \<Rightarrow> string \<Rightarrow> graph_acc \<Rightarrow> string \<Rightarrow> graph_acc" where
  "add_feed ids s acc target =
     (if target \<notin> set ids then add_missing s target Feeds_into acc
      else (add_edge s target acc)\<lparr>ga_connections := bump target (bump s (ga_connections acc))\<rparr>)"

definition add_prerequisite :: "string list \<Rightarrow> string \<Rightarrow> graph_acc \<Rightarrow> string \<Rightarrow> graph_acc" where
  "add_prerequisite ids s acc prereq =
     (if prereq \<notin> set ids then add_missing s prereq Prerequisites acc
      else (add_edge prereq s acc)\<lparr>ga_connections := bump prereq (bump s (ga_connections acc))\<rparr>)"

definition add_alternative :: "string list \<Rightarrow> string \<Rightarrow> graph_acc \<Rightarrow> string \<Rightarrow> graph_acc" where
  "add_alternative ids s acc alt =
     (if alt \<notin> set ids then add_missing s alt Alternatives acc else acc)"

definition add_skill :: "string list \<Rightarrow> graph_acc \<Rightarrow> skill \<Rightarrow> graph_acc" where
  "add_skill ids acc s =
     (let k = skill_id s;
          acc1 = acc\<lparr>ga_out := ensure k [] (ga_out acc), ga_in := ensure k [] (ga_in acc),
                     ga_connections := ensure k 0 (ga_connections acc)\<rparr>;
          acc2 = foldl (add_feed ids k) acc1 (list_or_empty (feeds_into s));
          acc3 = foldl (add_prerequisite ids k) acc2 (list_or_empty (prerequisites s))
      in foldl (add_alternative ids k) acc3 (list_or_empty (alternatives s)))"

definition empty_acc :: graph_acc where
  "empty_acc = \<lparr>ga_out = [], ga_in = [], ga_connections = [], ga_missing = []\<rparr>"

definition build_graph :: "skill list \<Rightarrow> graph_acc" where
  "build_graph skills = foldl (add_skill (set_of (map skill_id skills))) empty_acc skills"

definition arrow :: string where
  "arrow = [CHR 0xE2, CHR 0x86, CHR 0x92]"

text \<open>The second count of the edges: the distinct keys \<open>source -> target\<close>.\<close>

definition count_edges :: "adjacency \<Rightarrow> nat" where
  "count_edges out = length (set_of (concat (map (\<lambda>(s, ts). map (\<lambda>t. s @ arrow @ t) ts) out)))"

section \<open>Cycles\<close>

datatype color = White | Gray | Black

record dfs_state =
  ds_color :: "string \<Rightarrow> color option"
  ds_cycles :: "string list list"

definition set_color :: "string \<Rightarrow> color \<Rightarrow> dfs_state \<Rightarrow> dfs_state" where
  "set_color v c st = st\<lparr>ds_color := (ds_color st)(v \<mapsto> c)\<rparr>"

definition report_cycle :: "string list \<Rightarrow> string \<Rightarrow> dfs_state \<Rightarrow> dfs_state" where
  "report_cycle path v st =
     (case index_of v path of None \<Rightarrow> st | Some i \<Rightarrow> st\<lparr>ds_cycles := ds_cycles st @ [drop i path]\<rparr>)"

text \<open>\<open>dfs\<close> is the inner function, \<open>visit\<close> its loop over the neighbours.\<close>

fun dfs :: "(string \<Rightarrow> string list) \<Rightarrow> nat \<Rightarrow> string \<Rightarrow> string list \<Rightarrow> dfs_state \<Rightarrow> dfs_state option"
and visit :: "(string \<Rightarrow> string list) \<Rightarrow> nat \<Rightarrow> string list \<Rightarrow> string list \<Rightarrow> dfs_state \<Rightarrow> dfs_state option"
where
  "dfs out 0 v path st = None"
| "dfs out (Suc n) v path st =
     map_option (set_color v Black) (visit out n (out v) (path @ [v]) (set_color v Gray st))"
| "visit out n [] path st = Some st"
| "visit out n (w # ws) path st =
     (if ds_color st w = Some Gray then visit out n ws path (report_cycle path w st)
      else if ds_color st w = Some White then
        (case dfs out n w path st of None \<Rightarrow> None | Some st' \<Rightarrow> visit out n ws path st')
      else visit out n ws path st)"

text \<open>The outer loop.\<close>

fun search_all :: "(string \<Rightarrow> string list) \<Rightarrow> nat \<Rightarrow> string list \<Rightarrow> dfs_state \<Rightarrow> dfs_state option" where
  "search_all out n [] st = Some st"
| "search_all out n (k # ks) st =
     (if ds_color st k = Some White then
        (case dfs out n k [] st of None \<Rightarrow> None | Some st' \<Rightarrow> search_all out n ks st')
      else search_all out n ks st)"

definition initial_dfs :: "string list \<Rightarrow> dfs_state" where
  "initial_dfs ids = \<lparr>ds_color = (\<lambda>k. if k \<in> set ids then Some White else None), ds_cycles = []\<rparr>"

definition detectCycles :: "string list \<Rightarrow> adjacency \<Rightarrow> string list list option" where
  "detectCycles ids out =
     map_option ds_cycles (search_all (get_or [] out) (length ids) ids (initial_dfs ids))"

section \<open>Pipelines\<close>

text \<open>The loop of \<open>followChain\<close>; it ends when there is no unvisited target, or when that target
  is the empty string. It returns the rest of the chain and the visited nodes.\<close>

fun follow :: "(string \<Rightarrow> string list) \<Rightarrow> nat \<Rightarrow> string \<Rightarrow> string list \<Rightarrow> (string list \<times> string list) option" where
  "follow out 0 current visited = None"
| "follow out (Suc n) current visited =
     (case List.find (\<lambda>t. t \<notin> set visited) (out current) of
        None \<Rightarrow> Some ([], visited)
      | Some t \<Rightarrow>
          if t = [] then Some ([], visited)
          else map_option (\<lambda>(r, vs). (t # r, vs)) (follow out n t (set_add t visited)))"

definition followChain ::
  "(string \<Rightarrow> string list) \<Rightarrow> nat \<Rightarrow> string \<Rightarrow> string list \<Rightarrow> (string list \<times> string list) option" where
  "followChain out n start visited =
     map_option (\<lambda>(r, vs). (start # r, vs)) (follow out n start (set_add start visited))"

fun pipelines_from :: "graph_acc \<Rightarrow> nat \<Rightarrow> string list \<Rightarrow> string list \<Rightarrow> string list list option" where
  "pipelines_from g n [] visited = Some []"
| "pipelines_from g n (k # ks) visited =
     (if get_or [] (ga_in g) k = [] \<and> get_or [] (ga_out g) k \<noteq> [] then
        (case followChain (get_or [] (ga_out g)) n k visited of
           None \<Rightarrow> None
         | Some (chain, visited') \<Rightarrow>
             map_option (\<lambda>ps. if 2 \<le> length chain then chain # ps else ps) (pipelines_from g n ks visited'))
      else pipelines_from g n ks visited)"

definition detectPipelines :: "string list \<Rightarrow> graph_acc \<Rightarrow> string list list option" where
  "detectPipelines ids g = pipelines_from g (Suc (length ids)) ids []"

section \<open>The analysis\<close>

record analysis =
  node_count :: nat
  edge_count :: nat
  density :: rat
  orphans :: "string list"
  hubs :: "string list"
  pipelines :: "string list list"
  cycles :: "string list list"
  missing_refs :: "missing_ref list"

definition analyzeSkillGraph :: "skill list \<Rightarrow> analysis option" where
  "analyzeSkillGraph skills =
     (let ids = map skill_id skills; g = build_graph skills; n = length skills; e = count_edges (ga_out g) in
      case (detectPipelines ids g, detectCycles ids (ga_out g)) of
        (Some ps, Some cs) \<Rightarrow>
          Some \<lparr>node_count = n, edge_count = e,
            density = (if 1 < n then of_nat e / (of_nat n * (of_nat n - 1)) else 0),
            orphans = map skill_id (filter (\<lambda>s. get_or 0 (ga_connections g) (skill_id s) = 0) skills),
            hubs = map fst (filter (\<lambda>(k, c). 3 \<le> c) (ga_connections g)),
            pipelines = ps, cycles = cs, missing_refs = ga_missing g\<rparr>
      | _ \<Rightarrow> None)"

section \<open>Paths and recommendations\<close>

text \<open>\<open>new Map(skills.map(s => [s.skill_id, s]))\<close>: the last skill of an id wins.\<close>

definition skill_map :: "skill list \<Rightarrow> string \<Rightarrow> skill option" where
  "skill_map skills k = map_of (rev (map (\<lambda>s. (skill_id s, s)) skills)) k"

fun path_from :: "(string \<Rightarrow> skill option) \<Rightarrow> nat \<Rightarrow> string \<Rightarrow> string list \<Rightarrow> string list option" where
  "path_from m 0 current visited = None"
| "path_from m (Suc n) current visited =
     (case m current of
        None \<Rightarrow> Some []
      | Some s \<Rightarrow>
          (case list_or_empty (feeds_into s) of
             [] \<Rightarrow> Some []
           | t # _ \<Rightarrow>
               if t \<in> set visited \<or> m t = None then Some []
               else map_option ((#) t) (path_from m n t (set_add t visited))))"

definition getPipelinePath :: "skill list \<Rightarrow> string \<Rightarrow> string list option" where
  "getPipelinePath skills startSkill =
     map_option ((#) startSkill)
       (path_from (skill_map skills) (Suc (length skills)) startSkill [startSkill])"

definition recommendNextSkill :: "skill list \<Rightarrow> string \<Rightarrow> string list" where
  "recommendNextSkill skills completed =
     (case List.find (\<lambda>s. skill_id s = completed) skills of
        None \<Rightarrow> []
      | Some s \<Rightarrow>
          foldl (\<lambda>acc s. if completed \<in> set (list_or_empty (prerequisites s)) \<and> skill_id s \<notin> set acc
                         then acc @ [skill_id s] else acc)
            (list_or_empty (feeds_into s)) skills)"

section \<open>The edges that are built\<close>

definition edges_of :: "adjacency \<Rightarrow> (string \<times> string) set" where
  "edges_of m = {(u, v). v \<in> set (get_or [] m u)}"

lemma get_or_update [simp]: "get_or d (AList.update k v m) j = (if j = k then v else get_or d m j)"
  by (simp add: get_or_def update_conv')

lemma get_or_ensure [simp]: "get_or d (ensure k d m) = get_or d m"
  by (rule ext, simp add: ensure_def, simp add: get_or_def)

lemma edges_add_to [simp]: "edges_of (add_to u v m) = insert (u, v) (edges_of m)"
  by (auto simp: edges_of_def add_to_def split: if_splits)

lemma edges_ensure [simp]: "edges_of (ensure k [] m) = edges_of m"
  by (simp add: edges_of_def)

lemma edges_empty [simp]: "edges_of [] = {}"
  by (simp add: edges_of_def get_or_def)

text \<open>The relations that a skill states to skills of the manifest.\<close>

definition stated_edges :: "string set \<Rightarrow> skill \<Rightarrow> (string \<times> string) set" where
  "stated_edges ids s =
     {(skill_id s, t) | t. t \<in> set (list_or_empty (feeds_into s)) \<and> t \<in> ids}
     \<union> {(p, skill_id s) | p. p \<in> set (list_or_empty (prerequisites s)) \<and> p \<in> ids}"

definition touched :: "(string \<times> string) set \<Rightarrow> string \<Rightarrow> bool" where
  "touched E k \<longleftrightarrow> k \<in> Domain E \<union> Range E"

lemma touched_iff: "touched E k \<longleftrightarrow> (\<exists>j. (k, j) \<in> E \<or> (j, k) \<in> E)"
  by (auto simp: touched_def)

text \<open>The state of the building loop agrees with a set of edges: forward and backward lists hold
  it, and the skills with a positive count are those it touches.\<close>

definition graph_is :: "(string \<times> string) set \<Rightarrow> graph_acc \<Rightarrow> bool" where
  "graph_is E acc \<longleftrightarrow> edges_of (ga_out acc) = E \<and> edges_of (ga_in acc) = E\<inverse>
     \<and> (\<forall>k. 0 < get_or 0 (ga_connections acc) k \<longleftrightarrow> touched E k)"

lemma graph_is_add:
  assumes "graph_is E acc" "{a, b} = {u, v}"
  shows "graph_is (insert (u, v) E) ((add_edge u v acc)\<lparr>ga_connections := bump a (bump b (ga_connections acc))\<rparr>)"
  using assms by (auto simp: graph_is_def add_edge_def bump_def touched_def doubleton_eq_iff)

lemma graph_is_missing [simp]: "graph_is E (add_missing k x r acc) = graph_is E acc"
  by (simp add: graph_is_def add_missing_def)

lemma graph_is_feeds: "graph_is E acc \<Longrightarrow>
    graph_is (E \<union> {(k, t) | t. t \<in> set ts \<and> t \<in> set ids}) (foldl (add_feed ids k) acc ts)"
proof (induction ts arbitrary: E acc)
  case (Cons t ts)
  let ?E = "if t \<in> set ids then insert (k, t) E else E"
  have "graph_is ?E (add_feed ids k acc t)"
    using Cons.prems by (auto simp: add_feed_def intro: graph_is_add)
  from Cons.IH [OF this]
  have "graph_is (?E \<union> {(k, t) | t. t \<in> set ts \<and> t \<in> set ids}) (foldl (add_feed ids k) acc (t # ts))" by simp
  moreover have "?E \<union> {(k, t) | t. t \<in> set ts \<and> t \<in> set ids} = E \<union> {(k, t') | t'. t' \<in> set (t # ts) \<and> t' \<in> set ids}"
    by auto
  ultimately show ?case by simp
qed simp

lemma graph_is_prerequisites: "graph_is E acc \<Longrightarrow>
    graph_is (E \<union> {(p, k) | p. p \<in> set ps \<and> p \<in> set ids}) (foldl (add_prerequisite ids k) acc ps)"
proof (induction ps arbitrary: E acc)
  case (Cons t ts)
  let ?E = "if t \<in> set ids then insert (t, k) E else E"
  have "graph_is ?E (add_prerequisite ids k acc t)"
    using Cons.prems by (auto simp: add_prerequisite_def intro: graph_is_add)
  from Cons.IH [OF this]
  have "graph_is (?E \<union> {(p, k) | p. p \<in> set ts \<and> p \<in> set ids}) (foldl (add_prerequisite ids k) acc (t # ts))" by simp
  moreover have "?E \<union> {(p, k) | p. p \<in> set ts \<and> p \<in> set ids} = E \<union> {(p, k) | p. p \<in> set (t # ts) \<and> p \<in> set ids}"
    by auto
  ultimately show ?case by simp
qed simp

lemma graph_is_alternatives: "graph_is E acc \<Longrightarrow> graph_is E (foldl (add_alternative ids k) acc xs)"
  by (induction xs arbitrary: acc) (auto simp: add_alternative_def)

lemma graph_is_skill: "graph_is E acc \<Longrightarrow> graph_is (E \<union> stated_edges (set ids) s) (add_skill ids acc s)"
proof -
  assume "graph_is E acc"
  then have "graph_is E (acc\<lparr>ga_out := ensure (skill_id s) [] (ga_out acc), ga_in := ensure (skill_id s) [] (ga_in acc),
      ga_connections := ensure (skill_id s) 0 (ga_connections acc)\<rparr>)"
    by (simp add: graph_is_def)
  from graph_is_alternatives [OF graph_is_prerequisites [OF graph_is_feeds [OF this]]]
  show ?thesis by (simp add: add_skill_def Let_def stated_edges_def Un_assoc)
qed

lemma graph_is_skills: "graph_is E acc \<Longrightarrow>
    graph_is (E \<union> (\<Union>s \<in> set skills. stated_edges (set ids) s)) (foldl (add_skill ids) acc skills)"
proof (induction skills arbitrary: E acc)
  case (Cons s skills)
  from Cons.IH [OF graph_is_skill [OF Cons.prems, of ids s]] show ?case by (simp add: Un_assoc)
qed simp

definition skill_edges :: "skill list \<Rightarrow> (string \<times> string) set" where
  "skill_edges skills = (\<Union>s \<in> set skills. stated_edges (skill_id ` set skills) s)"

lemma graph_is_build: "graph_is (skill_edges skills) (build_graph skills)"
proof -
  have "graph_is {} empty_acc"
    by (simp add: graph_is_def empty_acc_def touched_def) (simp add: get_or_def)
  from graph_is_skills [OF this, where skills = skills and ids = "set_of (map skill_id skills)"] show ?thesis
    by (simp add: build_graph_def skill_edges_def)
qed

lemma skill_edges_known: "(u, v) \<in> skill_edges skills \<Longrightarrow> u \<in> skill_id ` set skills \<and> v \<in> skill_id ` set skills"
  by (auto simp: skill_edges_def stated_edges_def)

section \<open>The search\<close>

definition with_color :: "color \<Rightarrow> dfs_state \<Rightarrow> string set" where
  "with_color c st = {k. ds_color st k = Some c}"

lemma with_color_set [simp]: "with_color c (set_color v d st) =
    (if c = d then insert v (with_color c st) else with_color c st - {v})"
  by (auto simp: with_color_def set_color_def)

lemma with_color_report [simp]: "with_color c (report_cycle p v st) = with_color c st"
  by (simp add: with_color_def report_cycle_def split: option.split)

lemma color_report [simp]: "ds_color (report_cycle p v st) = ds_color st"
  by (simp add: report_cycle_def split: option.split)

text \<open>A path along edges, and a cycle.\<close>

fun walk :: "(string \<Rightarrow> string list) \<Rightarrow> string list \<Rightarrow> bool" where
  "walk out [] = True"
| "walk out [u] = True"
| "walk out (u # v # p) = (v \<in> set (out u) \<and> walk out (v # p))"

definition is_cycle :: "(string \<Rightarrow> string list) \<Rightarrow> string list \<Rightarrow> bool" where
  "is_cycle out c \<longleftrightarrow> c \<noteq> [] \<and> distinct c \<and> walk out c \<and> hd c \<in> set (out (last c))"

lemma walk_append: "walk out (p @ [v]) \<longleftrightarrow> walk out p \<and> (p \<noteq> [] \<longrightarrow> v \<in> set (out (last p)))"
  by (induction out p rule: walk.induct) auto

lemma walk_drop: "walk out p \<Longrightarrow> walk out (drop i p)"
proof (induction i arbitrary: p)
  case (Suc i)
  then show ?case by (cases "(out, p)" rule: walk.cases) auto
qed simp

text \<open>Finished nodes, latest first: the successors of each were finished before it.\<close>

fun topo :: "(string \<Rightarrow> string list) \<Rightarrow> string list \<Rightarrow> bool" where
  "topo out [] = True"
| "topo out (v # L) = (set (out v) \<subseteq> set L \<and> topo out L)"

definition extends :: "(string \<Rightarrow> string list) \<Rightarrow> string set \<Rightarrow> string set \<Rightarrow> bool" where
  "extends out B B' \<longleftrightarrow> (\<forall>L. topo out L \<and> set L = B \<longrightarrow> (\<exists>L'. topo out (L' @ L) \<and> set (L' @ L) = B'))"

lemma extends_refl: "extends out B B"
  by (auto simp: extends_def intro: exI [of _ "[]"])

lemma extends_trans:
  assumes "extends out A B" "extends out B C"
  shows "extends out A C"
  unfolding extends_def
proof (intro allI impI)
  fix L
  assume "topo out L \<and> set L = A"
  then obtain L1 where "topo out (L1 @ L) \<and> set (L1 @ L) = B"
    using assms(1) by (auto simp only: extends_def)
  then obtain L2 where "topo out (L2 @ L1 @ L) \<and> set (L2 @ L1 @ L) = C"
    using assms(2) by (auto simp only: extends_def)
  then show "\<exists>L'. topo out (L' @ L) \<and> set (L' @ L) = C"
    by (intro exI [of _ "L2 @ L1"]) simp
qed

text \<open>What a call guarantees, for the path it is called with.\<close>

definition path_ok :: "(string \<Rightarrow> string list) \<Rightarrow> string list \<Rightarrow> dfs_state \<Rightarrow> bool" where
  "path_ok out p st \<longleftrightarrow> walk out p \<and> distinct p \<and> set p = with_color Gray st"

definition dfs_post :: "(string \<Rightarrow> string list) \<Rightarrow> string list \<Rightarrow> dfs_state \<Rightarrow> dfs_state \<Rightarrow> bool" where
  "dfs_post out ws st st' \<longleftrightarrow>
     with_color Gray st' = with_color Gray st
     \<and> with_color Black st \<subseteq> with_color Black st'
     \<and> with_color White st' \<union> with_color Black st' = with_color White st \<union> with_color Black st
     \<and> (\<exists>new. ds_cycles st' = ds_cycles st @ new \<and> list_all (is_cycle out) new
          \<and> (new = [] \<longrightarrow> set ws \<subseteq> with_color Black st'
              \<and> extends out (with_color Black st) (with_color Black st')))"

lemma dfs_postE:
  assumes "dfs_post out ws st st'"
  obtains new where "ds_cycles st' = ds_cycles st @ new" "list_all (is_cycle out) new"
    "new = [] \<longrightarrow> set ws \<subseteq> with_color Black st'"
    "new = [] \<longrightarrow> extends out (with_color Black st) (with_color Black st')"
  using assms unfolding dfs_post_def by blast

lemma dfs_post_Nil: "dfs_post out [] st st"
  by (auto simp: dfs_post_def extends_refl intro: exI [of _ "[]"])

lemma dfs_post_trans:
  assumes "dfs_post out [w] st st1" "dfs_post out ws st1 st2"
  shows "dfs_post out (w # ws) st st2"
proof -
  obtain n1 where n1: "ds_cycles st1 = ds_cycles st @ n1" "list_all (is_cycle out) n1"
    "n1 = [] \<longrightarrow> set [w] \<subseteq> with_color Black st1"
    "n1 = [] \<longrightarrow> extends out (with_color Black st) (with_color Black st1)"
    by (rule dfs_postE [OF assms(1)])
  obtain n2 where n2: "ds_cycles st2 = ds_cycles st1 @ n2" "list_all (is_cycle out) n2"
    "n2 = [] \<longrightarrow> set ws \<subseteq> with_color Black st2"
    "n2 = [] \<longrightarrow> extends out (with_color Black st1) (with_color Black st2)"
    by (rule dfs_postE [OF assms(2)])
  have "with_color Black st1 \<subseteq> with_color Black st2" using assms(2) by (simp add: dfs_post_def)
  then have "n1 @ n2 = [] \<Longrightarrow> set (w # ws) \<subseteq> with_color Black st2"
    using n1(3) n2(3) by auto
  moreover have "n1 @ n2 = [] \<Longrightarrow> extends out (with_color Black st) (with_color Black st2)"
    using n1(4) n2(4) extends_trans by blast
  moreover have "ds_cycles st2 = ds_cycles st @ (n1 @ n2)" "list_all (is_cycle out) (n1 @ n2)"
    using n1 n2 by simp_all
  ultimately show ?thesis
    using assms unfolding dfs_post_def by blast
qed

text \<open>A gray neighbour closes a cycle with the end of the path.\<close>

lemma report_cycle_post:
  assumes "path_ok out p st" "p \<noteq> []" "w \<in> set (out (last p))" "ds_color st w = Some Gray"
  shows "dfs_post out [w] st (report_cycle p w st)"
proof -
  have "w \<in> set p" using assms(1,4) by (simp add: path_ok_def with_color_def)
  then obtain i where i: "index_of w p = Some i"
    by (cases "index_of w p") (simp_all add: index_of_None)
  then have "i < length p" "p ! i = w" by (simp_all add: index_of_Some)
  then have "hd (drop i p) = w" "drop i p \<noteq> []" "last (drop i p) = last p"
    by (simp_all add: hd_drop_conv_nth)
  then have "is_cycle out (drop i p)"
    using assms(1,3) by (simp add: is_cycle_def path_ok_def walk_drop)
  then show ?thesis
    using i unfolding dfs_post_def by (auto simp: report_cycle_def with_color_def)
qed

lemma extends_finish:
  assumes "extends out A B" "set (out v) \<subseteq> B"
  shows "extends out A (insert v B)"
  unfolding extends_def
proof (intro allI impI)
  fix L
  assume "topo out L \<and> set L = A"
  then obtain L1 where "topo out (L1 @ L) \<and> set (L1 @ L) = B"
    using assms(1) by (auto simp only: extends_def)
  then show "\<exists>L'. topo out (L' @ L) \<and> set (L' @ L) = insert v B"
    using assms(2) by (intro exI [of _ "v # L1"]) auto
qed

text \<open>Every neighbour is a node of the search.\<close>

definition closed_graph :: "(string \<Rightarrow> string list) \<Rightarrow> dfs_state \<Rightarrow> bool" where
  "closed_graph out st \<longleftrightarrow> (\<forall>u. \<forall>w \<in> set (out u). ds_color st w \<noteq> None)"

lemma color_cases: "ds_color st w = None \<or> ds_color st w = Some White \<or> ds_color st w = Some Gray
    \<or> ds_color st w = Some Black"
  by (metis color.exhaust option.exhaust)

lemma dom_colors: "ds_color st w \<noteq> None \<longleftrightarrow>
    w \<in> with_color White st \<union> with_color Black st \<union> with_color Gray st"
  using color_cases [of st w] by (auto simp: with_color_def)

lemma dfs_post_closed: "dfs_post out ws st st' \<Longrightarrow> closed_graph out st' = closed_graph out st"
  unfolding closed_graph_def dom_colors dfs_post_def by auto

lemma dfs_post_path: "dfs_post out ws st st' \<Longrightarrow> path_ok out p st' = path_ok out p st"
  by (simp add: path_ok_def dfs_post_def)

lemma closed_set [simp]: "ds_color st v \<noteq> None \<Longrightarrow> closed_graph out (set_color v c st) = closed_graph out st"
  by (simp add: closed_graph_def set_color_def) metis

lemma dfs_and_visit:
  "dfs out n v p st = Some st' \<Longrightarrow> path_ok out p st \<Longrightarrow> closed_graph out st \<Longrightarrow>
     ds_color st v = Some White \<Longrightarrow> (p \<noteq> [] \<longrightarrow> v \<in> set (out (last p))) \<Longrightarrow> dfs_post out [v] st st'"
  "visit out n ws p st = Some st' \<Longrightarrow> path_ok out p st \<Longrightarrow> closed_graph out st \<Longrightarrow> p \<noteq> [] \<Longrightarrow>
     set ws \<subseteq> set (out (last p)) \<Longrightarrow> dfs_post out ws st st'"
proof (induction out n v p st and out n ws p st arbitrary: st' and st' rule: dfs_visit.induct)
  case (1 out v path st)
  then show ?case by simp
next
  case (2 out n v path st)
  then obtain st1 where v: "visit out n (out v) (path @ [v]) (set_color v Gray st) = Some st1"
    and st': "st' = set_color v Black st1" by auto
  have nv: "v \<notin> with_color Gray st" "v \<in> with_color White st" "v \<notin> with_color Black st"
    using 2(5) by (simp_all add: with_color_def)
  then have "path_ok out (path @ [v]) (set_color v Gray st)"
    using 2(3,6) by (auto simp: path_ok_def walk_append)
  moreover have "closed_graph out (set_color v Gray st)" using 2(4,5) by simp
  ultimately have post: "dfs_post out (out v) (set_color v Gray st) st1"
    using 2(1) [OF v] by simp
  obtain new where new: "ds_cycles st1 = ds_cycles (set_color v Gray st) @ new" "list_all (is_cycle out) new"
    "new = [] \<longrightarrow> set (out v) \<subseteq> with_color Black st1"
    "new = [] \<longrightarrow> extends out (with_color Black (set_color v Gray st)) (with_color Black st1)"
    by (rule dfs_postE [OF post])
  have "new = [] \<Longrightarrow> extends out (with_color Black st) (with_color Black st')"
    using new(3,4) nv(3) extends_finish by (simp add: st')
  moreover have "ds_cycles st' = ds_cycles st @ new" using new(1) by (simp add: st' set_color_def)
  moreover have "with_color Gray st' = with_color Gray st"
    "with_color Black st \<subseteq> with_color Black st'"
    "with_color White st' \<union> with_color Black st' = with_color White st \<union> with_color Black st"
    using post nv by (auto simp: st' dfs_post_def)
  ultimately show ?case
    using new(2) unfolding dfs_post_def by (auto simp: st')
next
  case (3 out n path st)
  then show ?case by (simp add: dfs_post_Nil)
next
  case (4 out n w ws path st)
  have known: "ds_color st w \<noteq> None"
    using "4.prems"(3,5) by (auto simp: closed_graph_def simp del: not_None_eq)
  consider (gray) "ds_color st w = Some Gray" | (white) "ds_color st w = Some White"
    | (black) "ds_color st w = Some Black"
    using color_cases [of st w] known by auto
  then show ?case
  proof cases
    case gray
    have r: "dfs_post out [w] st (report_cycle path w st)"
      using 4 gray by (intro report_cycle_post) auto
    have "dfs_post out ws (report_cycle path w st) st'"
      using 4 gray r dfs_post_path [OF r] dfs_post_closed [OF r] by simp
    with r show ?thesis by (rule dfs_post_trans)
  next
    case white
    then obtain st1 where d: "dfs out n w path st = Some st1" "visit out n ws path st1 = Some st'"
      using "4.prems"(1) by (auto split: option.splits)
    have r: "dfs_post out [w] st st1"
      using 4 white d by auto
    have "dfs_post out ws st1 st'"
      using 4 white d r dfs_post_path [OF r] dfs_post_closed [OF r] by simp
    with r show ?thesis by (rule dfs_post_trans)
  next
    case black
    have r: "dfs_post out [w] st st"
      using black by (auto simp: dfs_post_def extends_refl with_color_def intro: exI [of _ "[]"])
    have "dfs_post out ws st st'" using 4 black by simp
    with r show ?thesis by (rule dfs_post_trans)
  qed
qed

text \<open>The outer loop starts every search with an empty path and no gray node.\<close>

lemma search_all_post:
  "search_all out n ks st = Some st' \<Longrightarrow> with_color Gray st = {} \<Longrightarrow> closed_graph out st \<Longrightarrow>
     (\<forall>k \<in> set ks. ds_color st k \<noteq> None) \<Longrightarrow> dfs_post out ks st st'"
proof (induction ks arbitrary: st)
  case Nil
  then show ?case by (simp add: dfs_post_Nil)
next
  case (Cons k ks)
  show ?case
  proof (cases "ds_color st k = Some White")
    case True
    then obtain st1 where d: "dfs out n k [] st = Some st1" "search_all out n ks st1 = Some st'"
      using Cons.prems(1) by (auto split: option.splits)
    have r: "dfs_post out [k] st st1"
      by (rule dfs_and_visit(1) [OF d(1)]) (use Cons.prems True in \<open>auto simp: path_ok_def\<close>)
    have "ds_color st1 w \<noteq> None \<longleftrightarrow> ds_color st w \<noteq> None" for w
      using r unfolding dom_colors dfs_post_def by auto
    then have "dfs_post out ks st1 st'"
      using Cons.IH [OF d(2)] Cons.prems r dfs_post_closed [OF r] by (auto simp: dfs_post_def)
    with r show ?thesis by (rule dfs_post_trans)
  next
    case False
    then have "ds_color st k = Some Black"
      using Cons.prems(2,4) color_cases [of st k] by (auto simp: with_color_def)
    then have r: "dfs_post out [k] st st"
      by (auto simp: dfs_post_def extends_refl with_color_def intro: exI [of _ "[]"])
    have "dfs_post out ks st st'" using Cons False by simp
    with r show ?thesis by (rule dfs_post_trans)
  qed
qed

section \<open>Enough fuel\<close>

lemma dfs_white:
  "dfs out n v p st = Some st' \<Longrightarrow> with_color White st' \<subseteq> with_color White st"
  "visit out n ws p st = Some st' \<Longrightarrow> with_color White st' \<subseteq> with_color White st"
proof (induction out n v p st and out n ws p st arbitrary: st' and st' rule: dfs_visit.induct)
  case (2 out n v path st)
  then obtain st1 where "visit out n (out v) (path @ [v]) (set_color v Gray st) = Some st1"
    "st' = set_color v Black st1" by auto
  with 2(1) [of st1] show ?case by auto
next
  case (4 out n w ws path st)
  then show ?case by (fastforce split: if_splits option.splits)
qed simp_all

lemma dfs_fuel:
  "finite (with_color White st) \<Longrightarrow> ds_color st v = Some White \<Longrightarrow> card (with_color White st) \<le> n \<Longrightarrow>
     dfs out n v p st \<noteq> None"
  "finite (with_color White st) \<Longrightarrow> card (with_color White st) \<le> n \<Longrightarrow> visit out n ws p st \<noteq> None"
proof (induction out n v p st and out n ws p st rule: dfs_visit.induct)
  case (1 out v path st)
  then show ?case by (auto simp: with_color_def)
next
  case (2 out n v path st)
  then have v: "v \<in> with_color White st" by (simp add: with_color_def)
  then have "card (with_color White st - {v}) \<le> n"
    using 2 by (simp add: card_Diff_singleton)
  with 2(1) 2(2) show ?case by auto
next
  case (3 out n path st)
  then show ?case by simp
next
  case (4 out n w ws path st)
  show ?case
  proof (cases "ds_color st w = Some White")
    case True
    then obtain st1 where d: "dfs out n w path st = Some st1" using 4 by auto
    have w: "with_color White st1 \<subseteq> with_color White st" by (rule dfs_white(1) [OF d])
    then have "finite (with_color White st1)" "card (with_color White st1) \<le> n"
      using "4.prems" by (auto intro: finite_subset order_trans [OF card_mono])
    with 4 True d show ?thesis by simp
  next
    case False
    with 4 show ?thesis by auto
  qed
qed

lemma search_all_fuel:
  "finite (with_color White st) \<Longrightarrow> card (with_color White st) \<le> n \<Longrightarrow> search_all out n ks st \<noteq> None"
proof (induction ks arbitrary: st)
  case (Cons k ks)
  show ?case
  proof (cases "ds_color st k = Some White")
    case True
    then obtain st1 where d: "dfs out n k [] st = Some st1" using Cons dfs_fuel(1) by blast
    have w: "with_color White st1 \<subseteq> with_color White st" by (rule dfs_white(1) [OF d])
    then have "finite (with_color White st1)" "card (with_color White st1) \<le> n"
      using Cons.prems by (auto intro: finite_subset order_trans [OF card_mono])
    with Cons True d show ?thesis by simp
  qed (use Cons in auto)
qed simp

section \<open>Acyclic graphs\<close>

definition graph_rel :: "(string \<Rightarrow> string list) \<Rightarrow> (string \<times> string) set" where
  "graph_rel out = {(u, v). v \<in> set (out u)}"

lemma topo_closed: "topo out L \<Longrightarrow> (u, v) \<in> (graph_rel out)\<^sup>+ \<Longrightarrow> u \<in> set L \<Longrightarrow> v \<in> set L"
proof -
  assume t: "topo out L"
  have step: "u \<in> set L \<Longrightarrow> v \<in> set (out u) \<Longrightarrow> v \<in> set L" for u v
    using t by (induction L) auto
  assume "(u, v) \<in> (graph_rel out)\<^sup>+" "u \<in> set L"
  then show "v \<in> set L" by induction (auto simp: graph_rel_def intro: step)
qed

lemma topo_acyclic: "topo out L \<Longrightarrow> u \<in> set L \<Longrightarrow> (u, u) \<notin> (graph_rel out)\<^sup>+"
proof (induction L)
  case (Cons v L)
  show ?case
  proof (cases "u \<in> set L")
    case True
    with Cons show ?thesis by simp
  next
    case False
    show ?thesis
    proof
      assume "(u, u) \<in> (graph_rel out)\<^sup>+"
      then obtain w where w: "(u, w) \<in> graph_rel out" "w = u \<or> (w, u) \<in> (graph_rel out)\<^sup>+"
        by (meson tranclD rtranclD)
      moreover have "u = v" using Cons.prems(2) False by simp
      ultimately have "w \<in> set L" using Cons.prems(1) by (auto simp: graph_rel_def)
      then have "u \<in> set L" using w(2) topo_closed [of out L w u] Cons.prems(1) by auto
      with False show False ..
    qed
  qed
qed simp

lemma walk_trancl: "walk out (u # p) \<Longrightarrow> p \<noteq> [] \<Longrightarrow> (u, last p) \<in> (graph_rel out)\<^sup>+"
proof (induction p arbitrary: u)
  case (Cons v p)
  then have "(u, v) \<in> graph_rel out" by (simp add: graph_rel_def)
  with Cons show ?case by (cases "p = []") (auto intro: trancl_into_trancl2)
qed simp

lemma is_cycle_trancl: "is_cycle out c \<Longrightarrow> (hd c, hd c) \<in> (graph_rel out)\<^sup>+"
proof -
  assume c: "is_cycle out c"
  then obtain u p where u: "c = u # p" by (cases c) (auto simp: is_cycle_def)
  have e: "(last c, u) \<in> graph_rel out" using c u by (simp add: is_cycle_def graph_rel_def)
  show ?thesis
  proof (cases "p = []")
    case True
    with e u show ?thesis by auto
  next
    case False
    with c u have "(u, last c) \<in> (graph_rel out)\<^sup>+" using walk_trancl by (simp add: is_cycle_def)
    with e u show ?thesis by (simp add: trancl_into_trancl)
  qed
qed

lemma graph_rel_edges: "graph_rel (get_or [] m) = edges_of m"
  by (simp add: graph_rel_def edges_of_def)

lemma detectCycles_spec:
  assumes "\<And>u v. (u, v) \<in> edges_of out \<Longrightarrow> v \<in> set ids \<and> u \<in> set ids"
  obtains cs where "detectCycles ids out = Some cs" "list_all (is_cycle (get_or [] out)) cs"
    "cs = [] \<longleftrightarrow> acyclic (edges_of out)"
proof -
  let ?st = "initial_dfs ids" and ?o = "get_or [] out"
  have white: "with_color White ?st = set ids" and empty: "with_color Gray ?st = {}" "with_color Black ?st = {}"
    by (auto simp: with_color_def initial_dfs_def split: if_splits)
  have "search_all ?o (length ids) ids ?st \<noteq> None"
    by (rule search_all_fuel) (simp_all add: white card_length)
  then obtain st' where s: "search_all ?o (length ids) ids ?st = Some st'" by blast
  have post: "dfs_post ?o ids ?st st'"
    by (rule search_all_post [OF s])
      (use assms empty in \<open>auto simp: closed_graph_def initial_dfs_def edges_of_def\<close>)
  obtain new where new: "ds_cycles st' = ds_cycles ?st @ new" "list_all (is_cycle ?o) new"
    "new = [] \<longrightarrow> set ids \<subseteq> with_color Black st'"
    "new = [] \<longrightarrow> extends ?o (with_color Black ?st) (with_color Black st')"
    by (rule dfs_postE [OF post])
  have "acyclic (edges_of out)" if n: "new = []"
  proof -
    obtain L where L: "topo ?o L" "set L = with_color Black st'"
      using new(4) n empty by (auto simp: extends_def)
    have "(u, u) \<notin> (edges_of out)\<^sup>+" for u
    proof (cases "u \<in> set ids")
      case True
      with new(3) n L have "u \<in> set L" by auto
      with topo_acyclic [OF L(1)] show ?thesis by (simp add: graph_rel_edges)
    next
      case False
      with assms show ?thesis by (meson tranclD)
    qed
    then show ?thesis by (simp add: acyclic_def)
  qed
  moreover have "new = []" if "acyclic (edges_of out)"
  proof (rule ccontr)
    assume "new \<noteq> []"
    then obtain c where "is_cycle ?o c" using new(2) by (cases new) auto
    from is_cycle_trancl [OF this] that show False by (auto simp: graph_rel_edges acyclic_def)
  qed
  moreover have "detectCycles ids out = Some new"
    using s new(1) by (simp add: detectCycles_def initial_dfs_def)
  ultimately show ?thesis using that new(2) by blast
qed

section \<open>Pipelines and paths\<close>

lemma card_visit:
  assumes "card (set ids - set visited) < Suc n" "t \<in> set ids" "t \<notin> set visited"
  shows "card (set ids - insert t (set visited)) < n"
proof -
  have "set ids - insert t (set visited) \<subset> set ids - set visited" using assms(2,3) by auto
  then have "card (set ids - insert t (set visited)) < card (set ids - set visited)"
    by (intro psubset_card_mono) auto
  with assms(1) show ?thesis by simp
qed

lemma path_from_spec:
  assumes "card (set ids - set visited) < n" "\<And>k. m k \<noteq> None \<Longrightarrow> k \<in> set ids" "current \<in> set visited"
  obtains p where "path_from m n current visited = Some p" "distinct p" "set p \<inter> set visited = {}"
    "\<And>i. i < length p \<Longrightarrow> m (p ! i) \<noteq> None
       \<and> (\<exists>s r. m ((current # p) ! i) = Some s \<and> list_or_empty (feeds_into s) = (p ! i) # r)"
  using assms
proof (induction m n current visited arbitrary: thesis rule: path_from.induct)
  case (1 m current visited)
  then show ?case by simp
next
  case (2 m n current visited)
  show ?case
  proof (cases "\<exists>s t r. m current = Some s \<and> list_or_empty (feeds_into s) = t # r \<and> t \<notin> set visited \<and> m t \<noteq> None")
    case False
    then have "path_from m (Suc n) current visited = Some []"
      by (fastforce split: option.split list.split)
    then show ?thesis by (rule 2(2)) simp_all
  next
    case True
    then obtain s t r where s: "m current = Some s" "list_or_empty (feeds_into s) = t # r"
      and t: "t \<notin> set visited" "m t \<noteq> None" by blast
    have "t \<in> set ids" using 2(4) t(2) by blast
    then have "card (set ids - insert t (set visited)) < n"
      using 2(3) t(1) by (intro card_visit)
    then obtain p where p: "path_from m n t (set_add t visited) = Some p" "distinct p"
        "set p \<inter> set (set_add t visited) = {}"
        "\<And>i. i < length p \<Longrightarrow> m (p ! i) \<noteq> None
           \<and> (\<exists>s r. m ((t # p) ! i) = Some s \<and> list_or_empty (feeds_into s) = (p ! i) # r)"
      using 2(1) [OF s(1,2)] t 2(4) by (metis insertI1 set_set_add)
    show ?thesis
    proof (rule 2(2) [of "t # p"])
      show "path_from m (Suc n) current visited = Some (t # p)" using s t p(1) by simp
      show "distinct (t # p)" "set (t # p) \<inter> set visited = {}" using p(2,3) t(1) by auto
      show "m ((t # p) ! i) \<noteq> None
          \<and> (\<exists>s r. m ((current # t # p) ! i) = Some s \<and> list_or_empty (feeds_into s) = ((t # p) ! i) # r)"
        if "i < length (t # p)" for i
        using that p(4) s t(2) by (cases i) auto
    qed
  qed
qed

lemma skill_map_known: "skill_map skills k \<noteq> None \<Longrightarrow> k \<in> set (map skill_id skills)"
  by (auto simp: skill_map_def dest!: map_of_SomeD)

lemma skill_map_id: "skill_map skills k = Some s \<Longrightarrow> s \<in> set skills \<and> skill_id s = k"
  by (auto simp: skill_map_def dest!: map_of_SomeD)

lemma follow_total:
  "card (set ids - set visited) < n \<Longrightarrow> (\<And>u v. v \<in> set (out u) \<Longrightarrow> v \<in> set ids) \<Longrightarrow>
     \<exists>c vs. follow out n current visited = Some (c, vs) \<and> set visited \<subseteq> set vs"
proof (induction out n current visited rule: follow.induct)
  case (1 out current visited)
  then show ?case by simp
next
  case (2 out n current visited)
  show ?case
  proof (cases "List.find (\<lambda>t. t \<notin> set visited) (out current)")
    case None
    then show ?thesis by simp
  next
    case (Some t)
    then have t: "t \<in> set (out current)" "t \<notin> set visited" by (auto dest: find_SomeD)
    then have "t \<in> set ids" using 2(3) by blast
    then have "card (set ids - insert t (set visited)) < n"
      using 2(2) t(2) by (intro card_visit)
    then show ?thesis using 2(1) [OF Some] 2(3) Some by fastforce
  qed
qed

lemma card_diff_mono: "set v \<subseteq> set w \<Longrightarrow> card (set ids - set w) \<le> card (set ids - set v)"
  by (intro card_mono) auto

lemma pipelines_total:
  "card (set ids - set visited) < n \<Longrightarrow> (\<And>u v. v \<in> set (get_or [] (ga_out g) u) \<Longrightarrow> v \<in> set ids) \<Longrightarrow>
     pipelines_from g n ks visited \<noteq> None"
proof (induction ks arbitrary: visited)
  case (Cons k ks)
  have "card (set ids - set (set_add k visited)) < n"
    by (rule le_less_trans [OF card_diff_mono Cons.prems(1)]) auto
  from follow_total [OF this, where out = "get_or [] (ga_out g)" and current = k] Cons.prems(2)
  obtain c vs where c: "follow (get_or [] (ga_out g)) n k (set_add k visited) = Some (c, vs)"
    "set (set_add k visited) \<subseteq> set vs" by blast
  then have "card (set ids - set vs) < n"
    by (intro le_less_trans [OF card_diff_mono Cons.prems(1)]) auto
  with Cons c show ?case by (auto simp: followChain_def)
qed simp

lemma walk_nth: "walk out c \<Longrightarrow> Suc i < length c \<Longrightarrow> c ! Suc i \<in> set (out (c ! i))"
proof (induction out c arbitrary: i rule: walk.induct)
  case (3 out u v p)
  then show ?case by (cases i) auto
qed simp_all

text \<open>A cycle step by step, the last node leading back to the first.\<close>

lemma is_cycle_steps:
  assumes "is_cycle out c" "i < length c"
  shows "c ! (Suc i mod length c) \<in> set (out (c ! i))"
proof (cases "Suc i < length c")
  case True
  with assms(1) show ?thesis by (simp add: is_cycle_def walk_nth)
next
  case False
  then have i: "i = length c - 1" "Suc i = length c" using assms(2) by auto
  then have "c ! i = last c" using assms(1) by (simp add: is_cycle_def last_conv_nth)
  with i assms(1) show ?thesis by (auto simp: is_cycle_def hd_conv_nth)
qed

lemma built_edges: "edges_of (ga_out (build_graph skills)) = skill_edges skills"
  using graph_is_build by (simp add: graph_is_def)

lemma analysis_parts:
  obtains ps cs where "analyzeSkillGraph skills = Some
      \<lparr>node_count = length skills, edge_count = count_edges (ga_out (build_graph skills)),
        density = (if 1 < length skills then of_nat (count_edges (ga_out (build_graph skills)))
            / (of_nat (length skills) * (of_nat (length skills) - 1)) else 0),
        orphans = map skill_id (filter (\<lambda>s. get_or 0 (ga_connections (build_graph skills)) (skill_id s) = 0) skills),
        hubs = map fst (filter (\<lambda>(k, c). 3 \<le> c) (ga_connections (build_graph skills))),
        pipelines = ps, cycles = cs, missing_refs = ga_missing (build_graph skills)\<rparr>"
    "list_all (is_cycle (get_or [] (ga_out (build_graph skills)))) cs"
    "cs = [] \<longleftrightarrow> acyclic (skill_edges skills)"
proof -
  let ?ids = "map skill_id skills" and ?g = "build_graph skills"
  have known: "(u, v) \<in> edges_of (ga_out ?g) \<Longrightarrow> v \<in> set ?ids \<and> u \<in> set ?ids" for u v
    using skill_edges_known [of u v skills] by (auto simp: built_edges)
  obtain cs where cs: "detectCycles ?ids (ga_out ?g) = Some cs"
    "list_all (is_cycle (get_or [] (ga_out ?g))) cs" "cs = [] \<longleftrightarrow> acyclic (edges_of (ga_out ?g))"
    using detectCycles_spec [OF known] by blast
  have "pipelines_from ?g (Suc (length ?ids)) ?ids [] \<noteq> None"
    using known card_length [of ?ids]
    by (intro pipelines_total [of ?ids]) (auto simp: edges_of_def le_imp_less_Suc simp del: card_length)
  then obtain ps where "detectPipelines ?ids ?g = Some ps" by (auto simp: detectPipelines_def)
  with cs show ?thesis
    by (intro that [of ps cs]) (simp_all add: analyzeSkillGraph_def Let_def built_edges)
qed

section \<open>Properties\<close>

text \<open>
  C8. Cycle detection is exact: for every manifest, also with repeated ids, self references,
  references to missing skills and relations stated from either side, the analysis returns (the
  search ends within its fuel); it reports no cycle exactly when the graph of the stated relations
  is acyclic; and each reported cycle is one: distinct skills, each leading to the next and the
  last to the first.
\<close>

theorem skill_cycles_exact:
  "\<exists>a. analyzeSkillGraph skills = Some a
     \<and> (cycles a = [] \<longleftrightarrow> acyclic (skill_edges skills))
     \<and> (\<forall>c \<in> set (cycles a). c \<noteq> [] \<and> distinct c
          \<and> (\<forall>i < length c. (c ! i, c ! (Suc i mod length c)) \<in> skill_edges skills))"
proof -
  obtain ps cs where a: "analyzeSkillGraph skills = Some
      \<lparr>node_count = length skills, edge_count = count_edges (ga_out (build_graph skills)),
        density = (if 1 < length skills then of_nat (count_edges (ga_out (build_graph skills)))
            / (of_nat (length skills) * (of_nat (length skills) - 1)) else 0),
        orphans = map skill_id (filter (\<lambda>s. get_or 0 (ga_connections (build_graph skills)) (skill_id s) = 0) skills),
        hubs = map fst (filter (\<lambda>(k, c). 3 \<le> c) (ga_connections (build_graph skills))),
        pipelines = ps, cycles = cs, missing_refs = ga_missing (build_graph skills)\<rparr>"
    and c: "list_all (is_cycle (get_or [] (ga_out (build_graph skills)))) cs"
    and e: "cs = [] \<longleftrightarrow> acyclic (skill_edges skills)"
    by (rule analysis_parts)
  have "(c ! i, c ! (Suc i mod length c)) \<in> skill_edges skills" if "c \<in> set cs" "i < length c" for c i
  proof -
    have "is_cycle (get_or [] (ga_out (build_graph skills))) c" using c that(1) by (simp add: list_all_iff)
    from is_cycle_steps [OF this that(2)] show ?thesis
      unfolding built_edges [symmetric] by (simp add: edges_of_def)
  qed
  then show ?thesis
    using a c e by (auto simp: list_all_iff is_cycle_def)
qed

text \<open>
  The orphans are exactly the skills without a relation: a skill is listed when no skill of the
  manifest feeds into it or is fed by it, in either way of stating it, and the others are not.
\<close>

theorem skill_orphans_exact:
  "map_option orphans (analyzeSkillGraph skills) =
     Some (filter (\<lambda>k. \<not> (\<exists>j. (k, j) \<in> skill_edges skills \<or> (j, k) \<in> skill_edges skills))
       (map skill_id skills))"
proof -
  have "get_or 0 (ga_connections (build_graph skills)) k = 0 \<longleftrightarrow>
      \<not> (\<exists>j. (k, j) \<in> skill_edges skills \<or> (j, k) \<in> skill_edges skills)" for k
    using graph_is_build [of skills] unfolding graph_is_def touched_iff by (metis neq0_conv)
  then show ?thesis
    by (rule_tac analysis_parts [of skills]) (simp add: filter_map o_def)
qed

text \<open>
  C10. The path from a skill always ends, also in a cyclic manifest: it starts at the skill, visits no
  skill twice, and every further skill is in the manifest and is the first one its predecessor
  feeds into.
\<close>

theorem pipeline_path_simple:
  "\<exists>p. getPipelinePath skills start = Some (start # p) \<and> distinct (start # p)
     \<and> (\<forall>i < length p. p ! i \<in> skill_id ` set skills
          \<and> (\<exists>s r. s \<in> set skills \<and> skill_id s = (start # p) ! i \<and> list_or_empty (feeds_into s) = (p ! i) # r))"
proof -
  have "card (set (map skill_id skills) - set [start]) < Suc (length skills)"
  proof -
    have "card (set (map skill_id skills) - set [start]) \<le> card (set (map skill_id skills))"
      by (rule card_mono) auto
    also have "\<dots> \<le> length (map skill_id skills)" by (rule card_length)
    finally show ?thesis by simp
  qed
  note fuel = this
  obtain p where p: "path_from (skill_map skills) (Suc (length skills)) start [start] = Some p"
      "distinct p" "set p \<inter> set [start] = {}"
      "\<And>i. i < length p \<Longrightarrow> skill_map skills (p ! i) \<noteq> None
         \<and> (\<exists>s r. skill_map skills ((start # p) ! i) = Some s \<and> list_or_empty (feeds_into s) = (p ! i) # r)"
    by (rule path_from_spec [OF fuel skill_map_known, where current = start]) auto
  have "p ! i \<in> skill_id ` set skills
      \<and> (\<exists>s r. s \<in> set skills \<and> skill_id s = (start # p) ! i \<and> list_or_empty (feeds_into s) = (p ! i) # r)"
    if "i < length p" for i
    using p(4) [OF that] skill_map_known [of skills "p ! i"] skill_map_id by fastforce
  then show ?thesis using p(1-3) by (auto simp: getPipelinePath_def)
qed

section \<open>A concrete manifest\<close>

definition sample_skill :: "string \<Rightarrow> string list \<Rightarrow> skill" where
  "sample_skill k feeds = \<lparr>skill_id = k, skill_name = k, skill_description = [], skill_tags = [],
     risk_level = Risk_low, required_tools = [], compatible_runtimes = [], playbook_ref = None,
     prerequisites = None, feeds_into = Some feeds, alternatives = None, pipeline_phase = None,
     context_model = None, model_hint = None\<rparr>"

definition sample_manifest :: "skill list" where
  "sample_manifest = [sample_skill ''a'' [''b''], sample_skill ''b'' [''a'', ''missing'']]"

lemma sample_edges: "(''a'', ''b'') \<in> skill_edges sample_manifest" "(''b'', ''a'') \<in> skill_edges sample_manifest"
  by (auto simp: skill_edges_def stated_edges_def sample_manifest_def sample_skill_def list_or_empty_def)

theorem skill_cycles_exact_witness:
  "\<exists>a c. analyzeSkillGraph sample_manifest = Some a \<and> c \<in> set (cycles a) \<and> c \<noteq> [] \<and> distinct c"
proof -
  have "(''a'', ''a'') \<in> (skill_edges sample_manifest)\<^sup>+"
    using sample_edges by (meson r_into_trancl trancl_into_trancl)
  then have "\<not> acyclic (skill_edges sample_manifest)" by (auto simp: acyclic_def)
  with skill_cycles_exact [of sample_manifest] show ?thesis
    by (metis list.set_intros(1) neq_Nil_conv)
qed

theorem pipeline_path_simple_witness:
  "\<exists>p. getPipelinePath sample_manifest ''a'' = Some (''a'' # p) \<and> distinct (''a'' # p)"
  using pipeline_path_simple [of sample_manifest "''a''"] by blast

end
