(* ===== verification/Texts.thy ===== *)
theory Texts
  imports Prelude
begin

text \<open>
  Occurrences of a fragment in a text given by its lines: a fragment without a newline lies within
  one line, and a fragment with a hash sign in a line with a hash sign. The section headings that
  skills/linter.ts requires of a SKILL.md, and the check of a text by its heading lines.
\<close>

section \<open>Texts by lines\<close>

lemma str_includes_Nil: "str_includes [] p \<longleftrightarrow> p = []"
  by (simp add: str_includes_def)

lemma str_includes_Cons: "str_includes (x # s) p \<longleftrightarrow> starts_with (x # s) p \<or> str_includes s p"
  by (auto simp: str_includes_def split: option.splits)

lemmas includes_eval = str_includes_Nil str_includes_Cons

lemma includes_part: "str_includes x p \<Longrightarrow> p \<noteq> [] \<Longrightarrow> str_includes (a @ x @ b) p"
  by (auto simp: str_includes_iff) (metis append.assoc)

lemma includes_prefix_sep:
  assumes "c \<notin> set p" "a @ p @ b = x @ c # y"
  shows "(\<exists>u v. x = u @ p @ v) \<or> (\<exists>u v. y = u @ p @ v)"
proof -
  have "length a + length p \<le> length x \<or> length x < length a"
  proof (rule ccontr)
    assume no: "\<not> ?thesis"
    have "(a @ p @ b) ! length x = c" by (simp add: assms(2))
    moreover from no have at: "\<not> length x < length a" "length x - length a < length p" by linarith+
    then have "(a @ p @ b) ! length x = p ! (length x - length a)"
      by (simp add: nth_append)
    moreover from at have "p ! (length x - length a) \<in> set p" by simp
    ultimately show False using assms(1) by simp
  qed
  then show ?thesis
  proof
    assume len: "length a + length p \<le> length x"
    have "x = take (length x) (a @ p @ b)" by (simp add: assms(2))
    also have "\<dots> = a @ p @ take (length x - length a - length p) b" using len by simp
    finally show ?thesis by blast
  next
    assume len: "length x < length a"
    have "y = drop (Suc (length x)) (a @ p @ b)" by (simp add: assms(2))
    also have "\<dots> = drop (Suc (length x)) a @ p @ b" using len by simp
    finally show ?thesis by blast
  qed
qed

lemma includes_sep:
  assumes "p \<noteq> []" "c \<notin> set p"
  shows "str_includes (x @ c # y) p \<longleftrightarrow> str_includes x p \<or> str_includes y p"
proof
  assume "str_includes (x @ c # y) p"
  then show "str_includes x p \<or> str_includes y p"
    using includes_prefix_sep [OF assms(2)] assms(1) by (simp add: str_includes_iff) metis
next
  assume "str_includes x p \<or> str_includes y p"
  then show "str_includes (x @ c # y) p"
    using includes_part [of x p "[]" "c # y"] includes_part [of y p "x @ [c]" "[]"] assms(1) by auto
qed

lemma includes_join:
  assumes "p \<noteq> []" "c \<notin> set p"
  shows "str_includes (join [c] ls) p \<longleftrightarrow> (\<exists>l \<in> set ls. str_includes l p)"
proof (induction ls rule: induct_list012)
  case 1
  from assms show ?case by (simp add: str_includes_def)
next
  case (3 x y ls)
  then show ?case by (simp add: includes_sep [OF assms])
qed simp

lemma includes_member: "str_includes l p \<Longrightarrow> p \<noteq> [] \<Longrightarrow> \<forall>c \<in> set p. c \<in> set l"
  by (auto simp: str_includes_iff)

text \<open>The lines of a text with a hash sign: only they can hold a section heading.\<close>

fun headings :: "string list \<Rightarrow> string list" where
  "headings [] = []"
| "headings (l # ls) = (if list_ex (\<lambda>c. c = CHR ''#'') l then l # headings ls else headings ls)"

lemma headings_set: "set (headings ls) = {l \<in> set ls. CHR ''#'' \<in> set l}"
  by (induction ls) (auto simp: list_ex_iff)

lemma headings_append [simp]: "headings (xs @ ys) = headings xs @ headings ys"
  by (induction xs) auto

lemma includes_heading:
  assumes "CHR ''#'' \<in> set p" "nl \<notin> set p"
  shows "str_includes (join [nl] ls) p \<longleftrightarrow> (\<exists>l \<in> set (headings ls). str_includes l p)"
proof -
  from assms(1) have "p \<noteq> []" by auto
  from includes_join [OF this assms(2), of ls] includes_member [OF _ this] assms(1) show ?thesis
    by (auto simp: headings_set)
qed

section \<open>Required sections\<close>

definition REQUIRED_SECTIONS :: "string list" where
  "REQUIRED_SECTIONS = [''Purpose'', ''When to use'', ''When not to use'', ''Inputs'', ''Outputs'',
     ''Procedure'', ''Quality checks'', ''Guardrail notes'', ''Progressive disclosure'']"

definition sections_missing :: "string \<Rightarrow> string list" where
  "sections_missing content = filter (\<lambda>s. \<not> str_includes content (''## '' @ s)) REQUIRED_SECTIONS"

definition missing_in :: "string list \<Rightarrow> string list" where
  "missing_in hs = filter (\<lambda>s. \<not> list_ex (\<lambda>l. str_includes l (''## '' @ s)) hs) REQUIRED_SECTIONS"

lemma missing_from_headings:
  assumes "headings ls = hs" "missing_in hs = ms"
  shows "sections_missing (join [nl] ls) = ms"
proof -
  have plain: "nl \<notin> set (''## '' @ s)" if "s \<in> set REQUIRED_SECTIONS" for s
    using that by (auto simp: REQUIRED_SECTIONS_def)
  have "sections_missing (join [nl] ls) = missing_in hs"
    unfolding sections_missing_def missing_in_def
    by (rule filter_cong [OF refl])
       (simp add: includes_heading plain [simplified] assms(1) list_ex_iff)
  with assms(2) show ?thesis by simp
qed

end
