(* ===== verification/Domain_Skills.thy ===== *)
theory Domain_Skills
  imports SkillGraph Texts
begin

text \<open>
  TasteKit core, domains/*/skills/*.ts: the skills that the six domains ship, with their metadata
  and the text of their SKILL.md, and the libraries in the order of each index.ts. A text is the
  join of its lines. Next to the data, the sections that skills/linter.ts requires and those that
  each shipped text lacks.
\<close>

section \<open>Data\<close>

text \<open>\<open>DomainSkill\<close> of compiler/skills-compiler.ts.\<close>

record domain_skill =
  ds_skill_id :: string
  ds_name :: string
  ds_description :: string
  ds_tags :: "string list option"
  ds_risk_level :: skill_risk
  ds_required_tools :: "string list"
  ds_compatible_runtimes :: "string list option"
  ds_playbook_ref :: "string option"
  ds_prerequisites :: "string list option"
  ds_feeds_into :: "string list option"
  ds_alternatives :: "string list option"
  ds_pipeline_phase :: "string option"
  ds_context_model :: "context_model option"
  ds_model_hint :: "string option"
  ds_skill_md_content :: string

section \<open>The shipped skills\<close>

definition research_trends_skill_lines :: "string list" where
  \<open>research_trends_skill_lines = [''# Research Trends'',
    [],
    ''## Purpose'',
    [],
    ''Analyze what content is currently performing well in your niche or on your target platform to inform content strategy.'',
    [],
    ''## When to use'',
    [],
    ''- Before planning a content calendar'',
    ''- When you need fresh ideas'',
    ''- When performance is declining and you need to adapt'',
    ''- When entering a new topic area'',
    [],
    ''## When NOT to use'',
    [],
    ''- For evergreen content that doesn't depend on trends'',
    ''- When you have a specific, time-sensitive topic to cover'',
    ''- If you already have a validated content plan'',
    [],
    ''## Inputs'',
    [],
    ''- **niche**: The topic area or industry (e.g., "AI agents", "productivity tools")'',
    ''- **platform**: The target platform (e.g., "twitter", "linkedin")'',
    ''- **timeframe**: How recent (e.g., "past week", "past month")'',
    [],
    ''## Outputs'',
    [],
    ''- **trending_topics**: List of trending topics in the niche'',
    ''- **winning_formats**: Content formats that are performing well'',
    ''- **example_posts**: Links to high-performing posts'',
    ''- **insights**: Key takeaways and patterns'',
    [],
    ''## Procedure'',
    [],
    ''### Step 1: Search for recent high-performing content'',
    [],
    ''Use the web-search tool to find:'',
    ''- Top posts in the niche from the past [timeframe]'',
    ''- Viral content on [platform] related to [niche]'',
    ''- Trending hashtags or topics'',
    [],
    ''### Step 2: Analyze patterns'',
    [],
    ''Look for:'',
    ''- Common themes or topics'',
    ''- Content formats (threads, videos, carousels, etc.)'',
    ''- Hook styles (questions, bold statements, storytelling)'',
    ''- Engagement patterns (what gets comments vs. shares)'',
    [],
    ''### Step 3: Extract insights'',
    [],
    ''Identify:'',
    ''- 3-5 trending topics worth covering'',
    ''- 2-3 content formats to try'',
    ''- Specific hooks or angles that are working'',
    [],
    ''### Step 4: Document findings'',
    [],
    ''Save the research to a file in the workspace:'',
    ''- `.tastekit/research/trends-[date].md`'',
    [],
    ''## Quality checks'',
    [],
    ''- [ ] Found at least 5 high-performing examples'',
    ''- [ ] Identified clear patterns (not just random posts)'',
    ''- [ ] Insights are actionable (can be turned into content ideas)'',
    ''- [ ] Research is recent (within specified timeframe)'',
    [],
    ''## Guardrail notes'',
    [],
    ''This skill requires web search access. No approval needed as it's read-only research.'',
    [],
    ''## Progressive Disclosure'',
    [],
    ''### Minimal Context (Always Load)'',
    ''- Purpose: Analyze trending content in your niche'',
    ''- When to use: Before content planning or when needing fresh ideas'',
    [],
    ''### On Invoke (Load When Skill is Invoked)'',
    ''- Full procedure with search strategies'',
    ''- Quality checks and output format'',
    [],
    ''### On Demand Resources'',
    ''- Example research reports'',
    ''- Platform-specific search strategies'',
    []]\<close>

definition research_trends_skill :: domain_skill where
  \<open>research_trends_skill = \<lparr>
    ds_skill_id = ''research-trends'', ds_name = ''Research Trends'',
    ds_description = ''Analyze what content is performing well in your niche'',
    ds_tags = Some [''research'', ''trends'', ''content-strategy''], ds_risk_level = Risk_low, ds_required_tools = [''web-search''],
    ds_compatible_runtimes = Some [''claude-code'', ''openclaw'', ''manus''],
    ds_playbook_ref = None, ds_prerequisites = None, ds_feeds_into = Some [''generate-post-options''], ds_alternatives = None,
    ds_pipeline_phase = Some ''capture'', ds_context_model = Some Inherit, ds_model_hint = None,
    ds_skill_md_content = join [nl] research_trends_skill_lines\<rparr>\<close>

definition generate_post_options_skill_lines :: "string list" where
  \<open>generate_post_options_skill_lines = [''# Generate Post Options'',
    [],
    ''## Purpose'',
    [],
    ''Create multiple distinct variations of a social media post based on a topic or situation, allowing the user to choose the best option.'',
    [],
    ''## When to use'',
    [],
    ''- Quick content creation for immediate posting'',
    ''- When you have a clear topic but need different angles'',
    ''- For A/B testing different hooks or styles'',
    ''- When you want options to choose from'',
    [],
    ''## When NOT to use'',
    [],
    ''- For complex, multi-step content workflows'',
    ''- When you need research before writing'',
    ''- For long-form content (use specialized skills instead)'',
    [],
    ''## Inputs'',
    [],
    ''- **topic**: The subject or situation to write about'',
    ''- **platform**: Target platform (twitter, linkedin, etc.)'',
    ''- **tone**: Desired tone (from constitution, can be overridden)'',
    ''- **num_options**: Number of variations (default: 3)'',
    ''- **constraints**: Character limits, hashtag requirements, etc.'',
    [],
    ''## Outputs'',
    [],
    ''- **options**: Array of post variations with:'',
    ''  - **text**: The post content'',
    ''  - **hook_style**: The approach used (question, statement, story, etc.)'',
    ''  - **rationale**: Why this variation might work'',
    [],
    ''## Procedure'',
    [],
    ''### Step 1: Understand the context'',
    [],
    ''Review:'',
    ''- The topic or situation provided'',
    ''- Platform constraints (character limits, format)'',
    ''- Brand voice from constitution'',
    ''- Any specific tone override'',
    [],
    ''### Step 2: Generate diverse variations'',
    [],
    ''Create [num_options] distinct posts, each using a different approach:'',
    [],
    ''1. **Question Hook**: Start with an engaging question'',
    ''2. **Bold Statement**: Make a strong, attention-grabbing claim'',
    ''3. **Personal Story**: Share a relatable anecdote'',
    ''4. **Data/Stat**: Lead with a surprising number'',
    ''5. **Contrarian Take**: Challenge conventional wisdom'',
    [],
    ''Ensure each variation:'',
    ''- Stays true to brand voice'',
    ''- Fits platform constraints'',
    ''- Uses different angles (not just rewording)'',
    [],
    ''### Step 3: Add context for each option'',
    [],
    ''For each variation, explain:'',
    ''- What hook style was used'',
    ''- Why it might resonate with the audience'',
    ''- Any tradeoffs (e.g., more engaging but riskier)'',
    [],
    ''### Step 4: Present options clearly'',
    [],
    ''Format output as:'',
    ''```'',
    ''Option 1: [Hook Style]'',
    ''[Post text]'',
    [],
    ''Rationale: [Why this works]'',
    [],
    ''---'',
    [],
    ''Option 2: [Hook Style]'',
    ''...'',
    ''```'',
    [],
    ''## Quality checks'',
    [],
    ''- [ ] Each option is meaningfully different (not just reworded)'',
    ''- [ ] All options fit platform constraints'',
    ''- [ ] Tone matches brand voice'',
    ''- [ ] Hooks are attention-grabbing'',
    ''- [ ] No forbidden phrases used'',
    ''- [ ] Grammar and spelling are correct'',
    [],
    ''## Guardrail notes'',
    [],
    ''This skill generates text only. No approval required unless the topic is sensitive or the autonomy level is set to require approval for all content.'',
    [],
    ''## Progressive Disclosure'',
    [],
    ''### Minimal Context (Always Load)'',
    ''- Purpose: Create 3-5 post variations for user selection'',
    ''- When to use: Quick content creation with options'',
    [],
    ''### On Invoke (Load When Skill is Invoked)'',
    ''- Full procedure with hook styles'',
    ''- Quality checks and output format'',
    [],
    ''### On Demand Resources'',
    ''- Examples of effective hooks by platform'',
    ''- Platform-specific best practices'',
    []]\<close>

definition generate_post_options_skill :: domain_skill where
  \<open>generate_post_options_skill = \<lparr>
    ds_skill_id = ''generate-post-options'', ds_name = ''Generate Post Options'',
    ds_description = ''Create 3-5 variations of a post for user selection'',
    ds_tags = Some [''content-creation'', ''social-media'', ''writing''], ds_risk_level = Risk_low, ds_required_tools = [],
    ds_compatible_runtimes = Some [''claude-code'', ''openclaw'', ''manus''],
    ds_playbook_ref = None, ds_prerequisites = Some [''research-trends''], ds_feeds_into = None, ds_alternatives = None,
    ds_pipeline_phase = Some ''process'', ds_context_model = Some Inherit, ds_model_hint = None,
    ds_skill_md_content = join [nl] generate_post_options_skill_lines\<rparr>\<close>

definition ContentAgentSkills :: "domain_skill list" where
  "ContentAgentSkills = [research_trends_skill, generate_post_options_skill]"

definition web_research_skill_lines :: "string list" where
  \<open>web_research_skill_lines = [''# Web Research'',
    [],
    ''## Purpose'',
    [],
    ''Gather, evaluate, and synthesize information from web sources on a given topic, producing a structured research output.'',
    [],
    ''## When to use'',
    [],
    ''- Answering factual questions requiring current information'',
    ''- Background research on a topic, company, or person'',
    ''- Gathering data points for analysis or reporting'',
    ''- Fact-checking claims or verifying information'',
    [],
    ''## When NOT to use'',
    [],
    ''- For academic literature reviews (use specialized academic tools)'',
    ''- When the user already has all the data and needs analysis only'',
    ''- For real-time monitoring (use monitoring workflows instead)'',
    [],
    ''## Inputs'',
    [],
    ''- **topic**: The subject to research'',
    ''- **scope**: Breadth of research (narrow, moderate, broad)'',
    ''- **source_preferences**: Preferred source types (optional, from constitution)'',
    ''- **max_sources**: Maximum number of sources to consult (default: 10)'',
    [],
    ''## Outputs'',
    [],
    ''- **findings**: Structured research findings with:'',
    ''  - **summary**: Executive summary of findings'',
    ''  - **key_points**: Bullet-point key findings'',
    ''  - **sources**: List of sources with titles, URLs, and relevance notes'',
    ''  - **confidence**: Overall confidence level in findings'',
    [],
    ''## Procedure'',
    [],
    ''### Step 1: Scope the research'',
    [],
    ''Review:'',
    ''- The topic and any constraints'',
    ''- Source preferences from constitution'',
    ''- Time constraints or recency requirements'',
    [],
    ''### Step 2: Search and gather'',
    [],
    ''Execute web searches with:'',
    ''- Multiple query variations for breadth'',
    ''- Source type filtering based on preferences'',
    ''- Recency filtering based on temporal scope'',
    [],
    ''### Step 3: Evaluate sources'',
    [],
    ''For each source:'',
    ''- Assess authority and credibility'',
    ''- Check publication date and relevance'',
    ''- Note potential bias or limitations'',
    [],
    ''### Step 4: Synthesize findings'',
    [],
    ''Combine information across sources:'',
    ''- Identify consensus points'',
    ''- Note conflicting information'',
    ''- Highlight gaps in available data'',
    [],
    ''### Step 5: Format output'',
    [],
    ''Structure findings according to user's synthesis style and output format preferences.'',
    [],
    ''## Quality checks'',
    [],
    ''- [ ] Multiple independent sources consulted'',
    ''- [ ] Source credibility assessed'',
    ''- [ ] Conflicting information noted'',
    ''- [ ] Findings are relevant to the original topic'',
    ''- [ ] Output format matches user preferences'',
    ''- [ ] Citations included per citation standards'',
    [],
    ''## Guardrail notes'',
    [],
    (''Low risk '' @ [CHR 0xE2, CHR 0x80, CHR 0x94] @ '' read-only web research. No approval needed unless accessing sensitive or restricted sources.''),
    [],
    ''## Progressive Disclosure'',
    [],
    ''### Minimal Context (Always Load)'',
    ''- Purpose: Web research and information synthesis'',
    ''- When to use: Answering questions requiring current web information'',
    [],
    ''### On Invoke (Load When Skill is Invoked)'',
    ''- Full procedure with source evaluation criteria'',
    ''- Quality checks and output formatting rules'',
    [],
    ''### On Demand Resources'',
    ''- Source credibility assessment frameworks'',
    ''- Search query optimization techniques'',
    []]\<close>

definition web_research_skill :: domain_skill where
  \<open>web_research_skill = \<lparr>
    ds_skill_id = ''web-research'', ds_name = ''Web Research'',
    ds_description = ''Gather and synthesize information from web sources on a given topic'',
    ds_tags = Some [''research'', ''web-search'', ''information-gathering''], ds_risk_level = Risk_low, ds_required_tools = [''web-search''],
    ds_compatible_runtimes = Some [''claude-code'', ''openclaw'', ''manus''],
    ds_playbook_ref = None, ds_prerequisites = None, ds_feeds_into = Some [''competitive-analysis''], ds_alternatives = None,
    ds_pipeline_phase = Some ''capture'', ds_context_model = Some Inherit, ds_model_hint = None,
    ds_skill_md_content = join [nl] web_research_skill_lines\<rparr>\<close>

definition competitive_analysis_skill_lines :: "string list" where
  \<open>competitive_analysis_skill_lines = [''# Competitive Analysis'',
    [],
    ''## Purpose'',
    [],
    ''Research and analyze competitors or market landscape, producing structured comparisons and strategic insights.'',
    [],
    ''## When to use'',
    [],
    ''- Evaluating competitors before a strategic decision'',
    ''- Understanding market positioning and gaps'',
    ''- Comparing features, pricing, or approaches across players'',
    ''- Due diligence on companies or products'',
    [],
    ''## When NOT to use'',
    [],
    ''- For general topic research (use web-research instead)'',
    ''- When user already has all competitive data and just needs formatting'',
    ''- For real-time competitive monitoring'',
    [],
    ''## Inputs'',
    [],
    ''- **subject**: The company, product, or market to analyze'',
    ''- **competitors**: Known competitors to include (optional, agent can discover)'',
    ''- **framework**: Analysis framework (swot, feature_matrix, porters, custom)'',
    ''- **focus_areas**: Specific aspects to compare (pricing, features, market_share, etc.)'',
    [],
    ''## Outputs'',
    [],
    ''- **analysis**: Structured competitive analysis with:'',
    ''  - **overview**: Market landscape summary'',
    ''  - **comparison_matrix**: Feature/attribute comparison table'',
    ''  - **strengths_weaknesses**: Per-competitor assessment'',
    ''  - **opportunities**: Identified gaps or opportunities'',
    ''  - **sources**: Research sources used'',
    [],
    ''## Procedure'',
    [],
    ''### Step 1: Define the competitive landscape'',
    [],
    ''- Identify the market segment'',
    ''- List known competitors (user-provided + discovered)'',
    ''- Define comparison dimensions'',
    [],
    ''### Step 2: Research each competitor'',
    [],
    ''For each competitor:'',
    ''- Company overview and positioning'',
    ''- Key products/features'',
    ''- Pricing model (if available)'',
    ''- Market presence and reputation'',
    ''- Recent news or developments'',
    [],
    ''### Step 3: Build comparison framework'',
    [],
    ''Apply the requested framework:'',
    ''- **SWOT**: Strengths, Weaknesses, Opportunities, Threats per competitor'',
    ''- **Feature Matrix**: Feature-by-feature comparison table'',
    ''- **Porter's Five Forces**: Industry structure analysis'',
    ''- **Custom**: User-defined comparison dimensions'',
    [],
    ''### Step 4: Identify insights'',
    [],
    ''- Common strengths across competitors'',
    ''- Gaps no competitor addresses'',
    ''- Differentiation opportunities'',
    ''- Market trends and direction'',
    [],
    ''### Step 5: Format deliverable'',
    [],
    ''Structure according to user's output format preferences with appropriate visualizations.'',
    [],
    ''## Quality checks'',
    [],
    ''- [ ] All specified competitors researched'',
    ''- [ ] Comparison is fair and based on verifiable information'',
    ''- [ ] Sources are cited for key claims'',
    ''- [ ] Framework is consistently applied'',
    ''- [ ] Insights are actionable, not just descriptive'',
    ''- [ ] Bias toward or against any competitor is avoided'',
    [],
    ''## Guardrail notes'',
    [],
    (''Low risk '' @ [CHR 0xE2, CHR 0x80, CHR 0x94] @ '' read-only research. Ensure ethical boundaries are respected (no accessing private/confidential competitor data). Flag if the user asks for information that would require unauthorized access.''),
    [],
    ''## Progressive Disclosure'',
    [],
    ''### Minimal Context (Always Load)'',
    ''- Purpose: Structured competitive and market analysis'',
    ''- When to use: Evaluating competitors, market positioning'',
    [],
    ''### On Invoke (Load When Skill is Invoked)'',
    ''- Full procedure with framework options'',
    ''- Quality checks and ethical guidelines'',
    [],
    ''### On Demand Resources'',
    ''- Framework templates (SWOT, Porter's, feature matrix)'',
    ''- Industry-specific comparison dimensions'',
    []]\<close>

definition competitive_analysis_skill :: domain_skill where
  \<open>competitive_analysis_skill = \<lparr>
    ds_skill_id = ''competitive-analysis'', ds_name = ''Competitive Analysis'',
    ds_description = ''Analyze competitors and market landscape with structured comparison frameworks'',
    ds_tags = Some [''research'', ''competitive-intelligence'', ''market-analysis''], ds_risk_level = Risk_low, ds_required_tools = [''web-search''],
    ds_compatible_runtimes = Some [''claude-code'', ''openclaw'', ''manus''],
    ds_playbook_ref = None, ds_prerequisites = Some [''web-research''], ds_feeds_into = None, ds_alternatives = None,
    ds_pipeline_phase = Some ''process'', ds_context_model = Some Inherit, ds_model_hint = None,
    ds_skill_md_content = join [nl] competitive_analysis_skill_lines\<rparr>\<close>

definition ResearchAgentSkills :: "domain_skill list" where
  "ResearchAgentSkills = [web_research_skill, competitive_analysis_skill]"

definition lead_qualification_skill_lines :: "string list" where
  \<open>lead_qualification_skill_lines = [''# Lead Qualification'',
    [],
    ''## Purpose'',
    [],
    ''Evaluate inbound leads against the user's ideal customer profile and qualification criteria, producing a score and recommendation.'',
    [],
    ''## When to use'',
    [],
    ''- New lead comes in and needs initial assessment'',
    ''- Batch evaluation of a lead list'',
    ''- Re-qualifying leads after new information surfaces'',
    ''- Prioritizing leads in the pipeline'',
    [],
    ''## When NOT to use'',
    [],
    ''- For lead generation or prospecting (use outreach skills)'',
    ''- When the lead is already a customer (use account management)'',
    ''- For deal negotiation or closing'',
    [],
    ''## Inputs'',
    [],
    ''- **lead_data**: Available information about the lead (company, role, source, etc.)'',
    ''- **qualification_criteria**: From constitution (ideal customer profile, deal-breakers)'',
    ''- **scoring_model**: Optional custom scoring weights'',
    [],
    ''## Outputs'',
    [],
    ''- **qualification**: Assessment with:'',
    ''  - **score**: 0-100 qualification score'',
    ''  - **grade**: A/B/C/D rating'',
    ''  - **fit_analysis**: How the lead matches ideal customer profile'',
    ''  - **gaps**: Missing information needed for full qualification'',
    ''  - **recommendation**: Next action (pursue, nurture, disqualify)'',
    ''  - **rationale**: Explanation of the scoring'',
    [],
    ''## Procedure'',
    [],
    ''### Step 1: Gather available data'',
    [],
    ''Review all available lead information:'',
    ''- Company details (size, industry, location)'',
    ''- Contact details (role, seniority, department)'',
    ''- Source and context (how they arrived)'',
    ''- Any prior interactions'',
    [],
    ''### Step 2: Score against criteria'',
    [],
    ''Evaluate each qualification dimension:'',
    ''- Budget/financial fit'',
    ''- Authority (decision-making power)'',
    ''- Need (pain point alignment)'',
    ''- Timeline (urgency)'',
    ''- Fit (industry, size, use case match)'',
    [],
    ''### Step 3: Identify gaps'',
    [],
    ''Note any missing information that would improve the assessment:'',
    ''- Unknown budget range'',
    ''- Unclear decision-making process'',
    ''- Unconfirmed timeline'',
    [],
    ''### Step 4: Generate recommendation'',
    [],
    ''Based on score and gaps:'',
    ''- **A leads**: Immediate outreach, high priority'',
    ''- **B leads**: Qualified, schedule follow-up'',
    ''- **C leads**: Nurture, needs more qualification'',
    ''- **D leads**: Disqualify or park'',
    [],
    ''## Quality checks'',
    [],
    ''- [ ] All available data points considered'',
    ''- [ ] Scoring is consistent with qualification criteria'',
    ''- [ ] Gaps are clearly identified'',
    ''- [ ] Recommendation is actionable'',
    ''- [ ] Rationale is transparent and explainable'',
    [],
    ''## Guardrail notes'',
    [],
    (''Low risk '' @ [CHR 0xE2, CHR 0x80, CHR 0x94] @ '' assessment only, no customer contact. No approval needed.''),
    [],
    ''## Progressive Disclosure'',
    [],
    ''### Minimal Context (Always Load)'',
    ''- Purpose: Score and qualify inbound leads'',
    ''- When to use: New lead assessment and prioritization'',
    [],
    ''### On Invoke (Load When Skill is Invoked)'',
    ''- Full scoring procedure and criteria'',
    ''- Quality checks and gap analysis'',
    [],
    ''### On Demand Resources'',
    ''- BANT/MEDDIC framework templates'',
    ''- Industry-specific qualification criteria'',
    []]\<close>

definition lead_qualification_skill :: domain_skill where
  \<open>lead_qualification_skill = \<lparr>
    ds_skill_id = ''lead-qualification'', ds_name = ''Lead Qualification'',
    ds_description = ''Assess and score inbound leads against ideal customer profile and qualification criteria'',
    ds_tags = Some [''sales'', ''lead-scoring'', ''qualification''], ds_risk_level = Risk_low, ds_required_tools = [],
    ds_compatible_runtimes = Some [''claude-code'', ''openclaw'', ''manus''],
    ds_playbook_ref = None, ds_prerequisites = None, ds_feeds_into = Some [''outreach-email''], ds_alternatives = None,
    ds_pipeline_phase = Some ''capture'', ds_context_model = Some Inherit, ds_model_hint = None,
    ds_skill_md_content = join [nl] lead_qualification_skill_lines\<rparr>\<close>

definition outreach_email_skill_lines :: "string list" where
  \<open>outreach_email_skill_lines = [''# Outreach Email'',
    [],
    ''## Purpose'',
    [],
    ''Draft personalized sales outreach emails that match the user's communication style, sales philosophy, and brand voice.'',
    [],
    ''## When to use'',
    [],
    ''- Initial cold outreach to a new prospect'',
    ''- Follow-up emails in a sequence'',
    ''- Re-engagement emails to cold leads'',
    ''- Personalized responses to inbound inquiries'',
    [],
    ''## When NOT to use'',
    [],
    ''- For mass email blasts (use marketing automation)'',
    ''- For customer support responses (use support skills)'',
    ''- For internal team communication'',
    [],
    ''## Inputs'',
    [],
    ''- **recipient**: Prospect information (name, company, role, context)'',
    ''- **purpose**: Email type (cold_outreach, follow_up, re_engagement, inquiry_response)'',
    ''- **context**: Any relevant context (prior interaction, trigger event, referral)'',
    ''- **sequence_position**: Position in outreach sequence (1st, 2nd, 3rd, etc.)'',
    ''- **tone_override**: Optional tone override for this specific email'',
    [],
    ''## Outputs'',
    [],
    ''- **email**: Drafted email with:'',
    ''  - **subject**: Subject line (with A/B variant)'',
    ''  - **body**: Email body text'',
    ''  - **cta**: Call to action'',
    ''  - **personalization_notes**: What was personalized and why'',
    ''  - **send_timing**: Recommended send time'',
    [],
    ''## Procedure'',
    [],
    ''### Step 1: Research the recipient'',
    [],
    ''Review available information:'',
    ''- Company and role context'',
    ''- Recent news or triggers'',
    ''- LinkedIn or public profile insights'',
    ''- Prior interaction history'',
    [],
    ''### Step 2: Choose approach'',
    [],
    ''Based on sales philosophy and email purpose:'',
    ''- **Consultative**: Lead with insight about their challenges'',
    ''- **Challenger**: Lead with a surprising insight or contrarian view'',
    ''- **Relationship**: Lead with a personal connection or mutual contact'',
    ''- **Value**: Lead with a specific value proposition'',
    [],
    ''### Step 3: Draft the email'',
    [],
    ''Write the email following constitution guidelines:'',
    ''- Match communication style (tone, formality)'',
    ''- Keep subject line compelling and concise'',
    ''- Personalize beyond just {{first_name}}'',
    ''- Include a clear, low-friction CTA'',
    ''- Respect length preferences'',
    [],
    ''### Step 4: Create variants'',
    [],
    ''Generate subject line variants for testing:'',
    ''- One direct/clear variant'',
    ''- One curiosity-driven variant'',
    [],
    ''### Step 5: Review against guidelines'',
    [],
    ''Check against:'',
    ''- Anti-spam compliance'',
    ''- Brand voice consistency'',
    ''- Forbidden phrases from constitution'',
    ''- Appropriate level of assertiveness'',
    [],
    ''## Quality checks'',
    [],
    ''- [ ] Email is genuinely personalized (not just name-swapped)'',
    ''- [ ] Subject line is compelling and appropriate'',
    ''- [ ] CTA is clear and low-friction'',
    ''- [ ] Tone matches sales communication style'',
    ''- [ ] Compliant with email regulations (CAN-SPAM, GDPR)'',
    ''- [ ] No forbidden phrases used'',
    ''- [ ] Appropriate length for email type'',
    [],
    ''## Guardrail notes'',
    [],
    (''Medium risk '' @ [CHR 0xE2, CHR 0x80, CHR 0x94] @ '' generates customer-facing communication. Requires approval before sending unless autonomy level is high. Always check compliance rules before any send operation.''),
    [],
    ''## Progressive Disclosure'',
    [],
    ''### Minimal Context (Always Load)'',
    ''- Purpose: Draft personalized sales outreach emails'',
    ''- When to use: Cold outreach, follow-ups, re-engagement'',
    [],
    ''### On Invoke (Load When Skill is Invoked)'',
    ''- Full procedure with approach options'',
    ''- Quality checks and compliance guidelines'',
    [],
    ''### On Demand Resources'',
    ''- Email templates by type and industry'',
    ''- Subject line best practices'',
    ''- Compliance requirement checklists'',
    []]\<close>

definition outreach_email_skill :: domain_skill where
  \<open>outreach_email_skill = \<lparr>
    ds_skill_id = ''outreach-email'', ds_name = ''Outreach Email'',
    ds_description = ''Draft personalized sales outreach emails matching the user's communication style and sales philosophy'',
    ds_tags = Some [''sales'', ''email'', ''outreach'', ''prospecting''], ds_risk_level = Risk_med, ds_required_tools = [''email-sender''],
    ds_compatible_runtimes = Some [''claude-code'', ''openclaw'', ''manus''],
    ds_playbook_ref = None, ds_prerequisites = Some [''lead-qualification''], ds_feeds_into = None, ds_alternatives = None,
    ds_pipeline_phase = Some ''process'', ds_context_model = Some Inherit, ds_model_hint = None,
    ds_skill_md_content = join [nl] outreach_email_skill_lines\<rparr>\<close>

definition SalesAgentSkills :: "domain_skill list" where
  "SalesAgentSkills = [lead_qualification_skill, outreach_email_skill]"

definition ticket_triage_skill_lines :: "string list" where
  \<open>ticket_triage_skill_lines = [''# Ticket Triage'',
    [],
    ''## Purpose'',
    [],
    ''Quickly assess incoming support tickets, categorize them by type and priority, and route them appropriately.'',
    [],
    ''## When to use'',
    [],
    ''- New ticket arrives and needs initial assessment'',
    ''- Batch triage of unprocessed tickets'',
    ''- Re-prioritization of existing tickets when context changes'',
    ''- Queue management and workload balancing'',
    [],
    ''## When NOT to use'',
    [],
    ''- For actually resolving tickets (use response-draft skill)'',
    ''- For escalation (use escalation workflows)'',
    ''- When the ticket is already triaged and in progress'',
    [],
    ''## Inputs'',
    [],
    ''- **ticket**: Ticket content (subject, body, customer info, channel)'',
    ''- **triage_rules**: From constitution (priority criteria, category definitions)'',
    ''- **context**: Optional context (customer history, known issues, SLA status)'',
    [],
    ''## Outputs'',
    [],
    ''- **triage_result**: Assessment with:'',
    ''  - **priority**: critical/high/medium/low'',
    ''  - **category**: Issue type (bug, feature_request, how_to, billing, account, etc.)'',
    ''  - **sentiment**: Customer sentiment (frustrated, neutral, positive)'',
    ''  - **summary**: One-line issue summary'',
    ''  - **suggested_response_type**: template/personalized/escalation'',
    ''  - **routing**: Suggested team or agent'',
    ''  - **sla_deadline**: Calculated response deadline based on priority'',
    [],
    ''## Procedure'',
    [],
    ''### Step 1: Parse the ticket'',
    [],
    ''Extract key information:'',
    ''- What is the customer asking about?'',
    ''- What product/feature is involved?'',
    ''- What is the urgency level?'',
    ''- Is there emotional content?'',
    [],
    ''### Step 2: Classify priority'',
    [],
    ''Apply priority rules:'',
    ''- **Critical**: Service down, data loss, security breach'',
    ''- **High**: Major feature broken, blocking issue, VIP customer'',
    ''- **Medium**: Feature not working as expected, workaround available'',
    ''- **Low**: How-to question, feature request, minor inconvenience'',
    [],
    ''### Step 3: Categorize'',
    [],
    ''Assign category based on content:'',
    ''- Bug report'',
    ''- Feature request'',
    ''- How-to / Documentation'',
    ''- Billing / Account'',
    ''- Security'',
    ''- Feedback'',
    [],
    ''### Step 4: Assess sentiment'',
    [],
    ''Evaluate customer tone:'',
    ''- Frustrated: Urgent language, multiple exclamation marks, negative words'',
    ''- Neutral: Standard inquiry, no emotional language'',
    ''- Positive: Praise, constructive feedback'',
    [],
    ''### Step 5: Generate routing recommendation'',
    [],
    ''Based on category, priority, and available context:'',
    ''- Route to appropriate team/queue'',
    ''- Flag for escalation if needed'',
    ''- Suggest response approach'',
    [],
    ''## Quality checks'',
    [],
    ''- [ ] Priority accurately reflects urgency'',
    ''- [ ] Category matches the actual issue type'',
    ''- [ ] Sentiment assessment is reasonable'',
    ''- [ ] SLA deadline is calculated correctly'',
    ''- [ ] Routing recommendation makes sense'',
    [],
    ''## Guardrail notes'',
    [],
    (''Low risk '' @ [CHR 0xE2, CHR 0x80, CHR 0x94] @ '' assessment only, no customer contact. No approval needed.''),
    [],
    ''## Progressive Disclosure'',
    [],
    ''### Minimal Context (Always Load)'',
    ''- Purpose: Triage and prioritize incoming support tickets'',
    ''- When to use: New ticket assessment and routing'',
    [],
    ''### On Invoke (Load When Skill is Invoked)'',
    ''- Full triage procedure and priority definitions'',
    ''- Sentiment analysis and routing logic'',
    [],
    ''### On Demand Resources'',
    ''- Priority escalation matrix'',
    ''- Category taxonomy reference'',
    []]\<close>

definition ticket_triage_skill :: domain_skill where
  \<open>ticket_triage_skill = \<lparr>
    ds_skill_id = ''ticket-triage'', ds_name = ''Ticket Triage'',
    ds_description = ''Assess, categorize, and prioritize incoming support tickets based on urgency and type'',
    ds_tags = Some [''support'', ''triage'', ''prioritization''], ds_risk_level = Risk_low, ds_required_tools = [''ticket-system''],
    ds_compatible_runtimes = Some [''claude-code'', ''openclaw'', ''manus''],
    ds_playbook_ref = None, ds_prerequisites = None, ds_feeds_into = Some [''response-draft''], ds_alternatives = None,
    ds_pipeline_phase = Some ''capture'', ds_context_model = Some Inherit, ds_model_hint = None,
    ds_skill_md_content = join [nl] ticket_triage_skill_lines\<rparr>\<close>

definition response_draft_skill_lines :: "string list" where
  \<open>response_draft_skill_lines = [''# Response Draft'',
    [],
    ''## Purpose'',
    [],
    ''Draft customer support responses that match the user's tone, empathy approach, and support philosophy for any support channel.'',
    [],
    ''## When to use'',
    [],
    ''- Responding to a new support ticket'',
    ''- Follow-up responses in an ongoing conversation'',
    ''- Proactive outreach about known issues or status updates'',
    ''- Crafting responses for different channels (email, chat, social)'',
    [],
    ''## When NOT to use'',
    [],
    ''- For ticket triage (use ticket-triage skill)'',
    ''- For internal team communication'',
    ''- When a template response is explicitly required with no customization'',
    [],
    ''## Inputs'',
    [],
    ''- **ticket**: The customer's message (subject, body, context)'',
    ''- **channel**: Support channel (email, chat, phone_script, social_media)'',
    ''- **triage**: Optional triage result (priority, category, sentiment)'',
    ''- **customer_history**: Optional prior interaction context'',
    ''- **resolution**: The actual solution or answer to provide'',
    ''- **tone_override**: Optional tone override for this response'',
    [],
    ''## Outputs'',
    [],
    ''- **response**: Drafted response with:'',
    ''  - **greeting**: Appropriate opening'',
    ''  - **body**: Main response content'',
    ''  - **closing**: Sign-off and next steps'',
    ''  - **internal_notes**: Notes for the support team (not sent to customer)'',
    ''  - **follow_up_suggestion**: Recommended follow-up action'',
    [],
    ''## Procedure'',
    [],
    ''### Step 1: Understand the context'',
    [],
    ''Review:'',
    ''- What the customer is asking'',
    ''- Their emotional state (from triage or analysis)'',
    ''- Channel-specific format requirements'',
    ''- Prior interaction history'',
    [],
    ''### Step 2: Match tone to context'',
    [],
    ''Based on constitution and customer state:'',
    ''- **Frustrated customer**: Lead with empathy, acknowledge the issue, then solve'',
    ''- **Confused customer**: Be patient, use simple language, provide step-by-step'',
    ''- **Neutral inquiry**: Be helpful and efficient'',
    ''- **Positive feedback**: Express genuine appreciation'',
    [],
    ''### Step 3: Draft the response'',
    [],
    ''Structure based on channel:'',
    [],
    ''**Email**: Full greeting, structured body, clear next steps, professional closing'',
    ''**Chat**: Shorter, conversational, can use multiple messages'',
    ''**Social**: Concise, public-appropriate, offer to move to private channel if needed'',
    [],
    ''### Step 4: Include resolution'',
    [],
    ''Present the solution:'',
    ''- Clear, actionable steps'',
    ''- Screenshots or links if relevant'',
    ''- Alternative solutions if the primary one might not work'',
    ''- Set expectations for resolution timeline'',
    [],
    ''### Step 5: Add follow-up'',
    [],
    ''Include appropriate follow-up:'',
    ''- "Is there anything else I can help with?"'',
    ''- Schedule check-in for complex issues'',
    ''- Link to relevant knowledge base articles'',
    [],
    ''## Quality checks'',
    [],
    ''- [ ] Tone matches the customer's emotional state'',
    ''- [ ] Response answers the actual question asked'',
    ''- [ ] Technical level is appropriate for the customer'',
    ''- [ ] Channel format is respected (length, formality)'',
    ''- [ ] No forbidden phrases from constitution'',
    ''- [ ] Follow-up actions are clear'',
    ''- [ ] Internal notes are separate from customer-facing content'',
    [],
    ''## Guardrail notes'',
    [],
    (''Medium risk '' @ [CHR 0xE2, CHR 0x80, CHR 0x94] @ '' generates customer-facing communication. Requires approval before sending unless autonomy level allows direct responses. Never promise timelines or refunds without authorization.''),
    [],
    ''## Progressive Disclosure'',
    [],
    ''### Minimal Context (Always Load)'',
    ''- Purpose: Draft customer support responses matching tone'',
    ''- When to use: Responding to tickets, chat messages, or social inquiries'',
    [],
    ''### On Invoke (Load When Skill is Invoked)'',
    ''- Full procedure with channel-specific formatting'',
    ''- Quality checks and tone matching rules'',
    [],
    ''### On Demand Resources'',
    ''- Response templates by category and channel'',
    ''- Empathy phrase library'',
    ''- Escalation language guidelines'',
    []]\<close>

definition response_draft_skill :: domain_skill where
  \<open>response_draft_skill = \<lparr>
    ds_skill_id = ''response-draft'', ds_name = ''Response Draft'',
    ds_description = ''Draft customer support responses matching the user's tone, empathy style, and support philosophy'',
    ds_tags = Some [''support'', ''customer-communication'', ''writing''], ds_risk_level = Risk_med, ds_required_tools = [],
    ds_compatible_runtimes = Some [''claude-code'', ''openclaw'', ''manus''],
    ds_playbook_ref = None, ds_prerequisites = Some [''ticket-triage''], ds_feeds_into = None, ds_alternatives = None,
    ds_pipeline_phase = Some ''process'', ds_context_model = Some Inherit, ds_model_hint = None,
    ds_skill_md_content = join [nl] response_draft_skill_lines\<rparr>\<close>

definition SupportAgentSkills :: "domain_skill list" where
  "SupportAgentSkills = [ticket_triage_skill, response_draft_skill]"

definition code_review_skill_lines :: "string list" where
  \<open>code_review_skill_lines = [''# Code Review'',
    [],
    ''## Purpose'',
    [],
    ''Review code changes for quality, standards compliance, and alignment with the user's engineering principles. Produce actionable feedback.'',
    [],
    ''## When to use'',
    [],
    ''- Reviewing pull requests or code changes'',
    ''- Auditing code quality against team standards'',
    ''- Pre-commit review of own changes'',
    ''- Onboarding review of unfamiliar codebases'',
    [],
    ''## When NOT to use'',
    [],
    ''- For automated linting (use linter tools directly)'',
    ''- For performance benchmarking (use profiling tools)'',
    ''- When the user wants code written, not reviewed (use refactor-plan instead)'',
    [],
    ''## Inputs'',
    [],
    ''- **target**: File paths, diff, or PR reference to review'',
    ''- **focus**: Review focus areas (optional: security, performance, readability, architecture)'',
    ''- **depth**: Review depth (quick, standard, thorough)'',
    [],
    ''## Outputs'',
    [],
    ''- **findings**: Structured review findings with:'',
    ''  - **summary**: Overall assessment'',
    ''  - **issues**: List of issues found, with severity (critical, warning, suggestion)'',
    ''  - **principle_alignment**: How the code aligns with user's engineering principles'',
    ''  - **positive_notes**: Things done well (important for balanced feedback)'',
    [],
    ''## Procedure'',
    [],
    ''### Step 1: Understand context'',
    [],
    ''- Read the code changes and surrounding context'',
    ''- Identify the purpose of the changes'',
    ''- Check which engineering principles are most relevant'',
    [],
    ''### Step 2: Review against principles'',
    [],
    ''For each user principle that applies:'',
    ''- Check if the code follows the principle'',
    ''- Note violations with specific line references'',
    ''- Note positive alignment'',
    [],
    ''### Step 3: Check for common issues'',
    [],
    ''- Security vulnerabilities (injection, auth, data exposure)'',
    ''- Error handling gaps'',
    ''- Edge cases not covered'',
    ''- Naming and readability'',
    ''- Test coverage gaps'',
    [],
    ''### Step 4: Assess architecture'',
    [],
    ''- Does the change fit the existing architecture?'',
    ''- Are there unnecessary dependencies introduced?'',
    ''- Is the abstraction level appropriate?'',
    [],
    ''### Step 5: Format feedback'',
    [],
    ''Structure findings by severity. Lead with the most important issues. Include positive notes.'',
    [],
    ''## Quality checks'',
    [],
    ''- [ ] All changed files reviewed'',
    ''- [ ] Feedback references specific lines/sections'',
    ''- [ ] Issues categorized by severity'',
    ''- [ ] Positive aspects noted alongside issues'',
    ''- [ ] Feedback aligns with user's engineering principles'',
    ''- [ ] Suggestions are actionable'',
    [],
    ''## Guardrail notes'',
    [],
    (''Low risk '' @ [CHR 0xE2, CHR 0x80, CHR 0x94] @ '' read-only analysis. No approval needed.''),
    [],
    ''## Progressive Disclosure'',
    [],
    ''### Minimal Context (Always Load)'',
    ''- Purpose: Code review against engineering principles'',
    ''- When to use: Reviewing PRs, code changes, or codebases'',
    [],
    ''### On Invoke (Load When Skill is Invoked)'',
    ''- Full review procedure with principle checking'',
    ''- Common issue checklist and severity classification'',
    [],
    ''### On Demand Resources'',
    ''- Security vulnerability patterns'',
    ''- Architecture assessment frameworks'',
    []]\<close>

definition code_review_skill :: domain_skill where
  \<open>code_review_skill = \<lparr>
    ds_skill_id = ''code-review'', ds_name = ''Code Review'',
    ds_description = ''Review code for quality, standards compliance, and alignment with engineering principles'',
    ds_tags = Some [''development'', ''code-review'', ''quality''], ds_risk_level = Risk_low, ds_required_tools = [''file-system''],
    ds_compatible_runtimes = Some [''claude-code'', ''openclaw'', ''manus''],
    ds_playbook_ref = None, ds_prerequisites = None, ds_feeds_into = Some [''refactor-plan''], ds_alternatives = None,
    ds_pipeline_phase = Some ''verify'', ds_context_model = Some Inherit, ds_model_hint = None,
    ds_skill_md_content = join [nl] code_review_skill_lines\<rparr>\<close>

definition refactor_plan_skill_lines :: "string list" where
  \<open>refactor_plan_skill_lines = [''# Refactor Plan'',
    [],
    ''## Purpose'',
    [],
    ''Analyze existing code and propose a structured refactoring plan that improves code quality while aligning with the user's engineering principles and standards.'',
    [],
    ''## When to use'',
    [],
    ''- Code has accumulated technical debt'',
    ''- Architecture needs to evolve for new requirements'',
    ''- Readability or maintainability needs improvement'',
    ''- Preparing for a major feature that requires cleaner foundations'',
    [],
    ''## When NOT to use'',
    [],
    (''- For cosmetic-only changes (formatting, naming) '' @ [CHR 0xE2, CHR 0x80, CHR 0x94] @ '' use linter''),
    (''- When the user wants a code review without changes '' @ [CHR 0xE2, CHR 0x80, CHR 0x94] @ '' use code-review''),
    ''- For greenfield development (no existing code to refactor)'',
    [],
    ''## Inputs'',
    [],
    ''- **target**: File paths or module to refactor'',
    ''- **goal**: What the refactoring should achieve (readability, performance, extensibility, etc.)'',
    ''- **constraints**: Things that must not change (public API, behavior, etc.)'',
    ''- **budget**: Scope limit (small: single file, medium: module, large: cross-cutting)'',
    [],
    ''## Outputs'',
    [],
    ''- **plan**: Structured refactoring plan with:'',
    ''  - **assessment**: Current state analysis and identified problems'',
    ''  - **steps**: Ordered list of refactoring steps, each with:'',
    ''    - description of the change'',
    ''    - files affected'',
    ''    - risk level'',
    ''    - estimated scope'',
    ''  - **principle_alignment**: How the refactoring serves user's engineering principles'',
    ''  - **risks**: What could go wrong and mitigation strategies'',
    ''  - **testing_strategy**: How to verify the refactoring didn't break anything'',
    [],
    ''## Procedure'',
    [],
    ''### Step 1: Analyze current state'',
    [],
    ''- Read the target code thoroughly'',
    ''- Map dependencies (what depends on this code, what it depends on)'',
    ''- Identify code smells and structural issues'',
    ''- Note what works well (don't refactor unnecessarily)'',
    [],
    ''### Step 2: Align with principles'',
    [],
    ''- Review user's engineering principles'',
    ''- Determine which principles the refactoring should serve'',
    ''- Ensure the proposed changes don't violate other principles'',
    [],
    ''### Step 3: Design the refactoring'',
    [],
    ''- Break into small, independently testable steps'',
    ''- Order steps to minimize risk (safest changes first)'',
    ''- Identify which steps require approval (behavior changes, API changes)'',
    ''- Ensure each step leaves the code in a working state'',
    [],
    ''### Step 4: Assess risks'',
    [],
    ''- What tests exist? What's the coverage?'',
    ''- What downstream dependencies could break?'',
    ''- Is there a rollback strategy?'',
    [],
    ''### Step 5: Present the plan'',
    [],
    ''Structure the plan so the user can approve step-by-step. Each step should be independently executable.'',
    [],
    ''## Quality checks'',
    [],
    ''- [ ] Current state thoroughly analyzed'',
    ''- [ ] All affected files identified'',
    ''- [ ] Steps are ordered by risk (safest first)'',
    ''- [ ] Each step leaves code in a working state'',
    ''- [ ] Testing strategy covers refactored code'',
    ''- [ ] Plan aligns with user's engineering principles'',
    ''- [ ] Risks identified with mitigation strategies'',
    [],
    ''## Guardrail notes'',
    [],
    (''Medium risk '' @ [CHR 0xE2, CHR 0x80, CHR 0x94] @ '' the plan itself is read-only, but executing it modifies code. The plan should be reviewed before execution. Each step with risk_level >= medium requires approval.''),
    [],
    ''## Progressive Disclosure'',
    [],
    ''### Minimal Context (Always Load)'',
    ''- Purpose: Propose refactoring plans aligned with engineering principles'',
    ''- When to use: Technical debt, architecture evolution, maintainability improvement'',
    [],
    ''### On Invoke (Load When Skill is Invoked)'',
    ''- Full analysis and planning procedure'',
    ''- Risk assessment and testing strategy requirements'',
    [],
    ''### On Demand Resources'',
    ''- Refactoring pattern catalog'',
    ''- Risk mitigation strategies'',
    []]\<close>

definition refactor_plan_skill :: domain_skill where
  \<open>refactor_plan_skill = \<lparr>
    ds_skill_id = ''refactor-plan'', ds_name = ''Refactor Plan'',
    ds_description = ''Analyze code and propose a refactoring plan following engineering principles'',
    ds_tags = Some [''development'', ''refactoring'', ''architecture''], ds_risk_level = Risk_med, ds_required_tools = [''file-system''],
    ds_compatible_runtimes = Some [''claude-code'', ''openclaw'', ''manus''],
    ds_playbook_ref = None, ds_prerequisites = Some [''code-review''], ds_feeds_into = None, ds_alternatives = None,
    ds_pipeline_phase = Some ''process'', ds_context_model = Some Inherit, ds_model_hint = None,
    ds_skill_md_content = join [nl] refactor_plan_skill_lines\<rparr>\<close>

definition DevelopmentAgentSkills :: "domain_skill list" where
  "DevelopmentAgentSkills = [code_review_skill, refactor_plan_skill]"

definition context_synthesis_skill_lines :: "string list" where
  \<open>context_synthesis_skill_lines = [''# Context Synthesis'',
    [],
    ''## Purpose'',
    [],
    ''Turn scattered notes, files, traces, and references into a trustworthy context brief before execution begins.'',
    [],
    ''## When to use'',
    [],
    ''- Inputs are fragmented across multiple sources'',
    ''- Requirements are ambiguous or conflicting'',
    ''- You need an explicit assumptions list before acting'',
    ''- Work requires source-backed context and confidence levels'',
    [],
    ''## When NOT to use'',
    [],
    ''- Context is already complete and validated'',
    ''- The request is trivial and does not need synthesis overhead'',
    [],
    ''## Inputs'',
    [],
    ''- **sources**: Files, notes, links, traces, or prior outputs'',
    ''- **question**: What decision or task the synthesis supports'',
    ''- **time_horizon**: Optional recency requirement'',
    [],
    ''## Outputs'',
    [],
    ''- **context_brief**: Consolidated facts, assumptions, risks, and open questions'',
    ''- **confidence_map**: Confidence per key claim (high/med/low)'',
    ''- **next_questions**: Clarifications required before execution'',
    [],
    ''## Procedure'',
    [],
    ''### Step 1: Gather and classify inputs'',
    [],
    ''- Group inputs by reliability, recency, and relevance'',
    ''- Separate facts, assumptions, and unknowns'',
    [],
    ''### Step 2: Reconcile conflicts'',
    [],
    ''- Identify contradictory claims'',
    ''- Prefer higher-quality and more recent sources when possible'',
    ''- Mark unresolved conflicts explicitly'',
    [],
    ''### Step 3: Produce an operator-ready brief'',
    [],
    ''- Include key facts, critical assumptions, and unresolved questions'',
    ''- Add confidence markers per major claim'',
    ''- Flag risks that can invalidate downstream work'',
    [],
    ''### Step 4: Hand off cleanly'',
    [],
    ''- Provide a concise brief designed for planning/execution skills'',
    (''- Include explicit '' @ [CHR 0xE2, CHR 0x80, CHR 0x9C] @ ''needs decision'' @ [CHR 0xE2, CHR 0x80, CHR 0x9D] @ '' items when blocking ambiguity remains''),
    [],
    ''## Quality checks'',
    [],
    ''- [ ] Facts vs assumptions are clearly separated'',
    ''- [ ] Conflicts are either resolved or explicitly flagged'',
    ''- [ ] Confidence levels are attached to key claims'',
    ''- [ ] Open questions are concrete and answerable'',
    [],
    ''## Guardrail notes'',
    [],
    ''Do not present weakly sourced assumptions as established facts.'',
    [],
    ''## Progressive Disclosure'',
    [],
    ''### Minimal Context (Always Load)'',
    ''- Primary question, source list, and recency requirements'',
    [],
    ''### On Invoke (Load When Skill is Invoked)'',
    ''- Conflict-resolution and confidence-annotation workflow'',
    [],
    ''### On Demand Resources'',
    ''- Source quality rubric and reusable synthesis template'',
    []]\<close>

definition context_synthesis_skill :: domain_skill where
  \<open>context_synthesis_skill = \<lparr>
    ds_skill_id = ''context-synthesis'', ds_name = ''Context Synthesis'',
    ds_description = ''Collect and normalize fragmented context into an actionable brief with assumptions and confidence'',
    ds_tags = Some [''general'', ''context'', ''analysis''], ds_risk_level = Risk_low, ds_required_tools = [''file-system'', ''web-search''],
    ds_compatible_runtimes = Some [''claude-code'', ''openclaw'', ''manus'', ''autopilots''],
    ds_playbook_ref = None, ds_prerequisites = None, ds_feeds_into = Some [''task-orchestration''], ds_alternatives = None,
    ds_pipeline_phase = Some ''capture'', ds_context_model = Some Inherit, ds_model_hint = None,
    ds_skill_md_content = join [nl] context_synthesis_skill_lines\<rparr>\<close>

definition task_orchestration_skill_lines :: "string list" where
  \<open>task_orchestration_skill_lines = [''# Task Orchestration'',
    [],
    ''## Purpose'',
    [],
    ''Convert a goal into a concrete execution plan, then drive progress with explicit checkpoints, guardrails, and status updates.'',
    [],
    ''## When to use'',
    [],
    ''- Multi-step tasks with dependencies'',
    ''- Requests that combine planning, research, and execution'',
    ''- Work that needs milestones, handoffs, and risk tracking'',
    ''- Ongoing operator workflows with periodic reprioritization'',
    [],
    ''## When NOT to use'',
    [],
    ''- Single-step tasks that can be completed immediately'',
    ''- Work requiring deep domain-specific expertise where a specialized skill exists'',
    ''- Situations with insufficient context and no permission to clarify'',
    [],
    ''## Inputs'',
    [],
    ''- **goal**: Desired outcome'',
    ''- **constraints**: Time, budget, policy, tooling, or scope constraints'',
    ''- **context_snapshot**: Current state, assumptions, and known dependencies'',
    ''- **priority_rule**: Optional prioritization criteria (impact/urgency/risk)'',
    [],
    ''## Outputs'',
    [],
    ''- **execution_plan**: Ordered steps with dependencies and owners'',
    ''- **checkpoint_log**: Milestone updates, blockers, and next actions'',
    ''- **escalation_events**: Issues requiring approval or human decision'',
    [],
    ''## Procedure'',
    [],
    ''### Step 1: Frame the objective'',
    [],
    ''- Restate goal and success criteria in one concise block'',
    ''- Identify constraints and unknowns before execution'',
    [],
    ''### Step 2: Decompose and order work'',
    [],
    ''- Break into phases with step-level outputs'',
    ''- Mark dependencies and parallelizable tracks'',
    ''- Highlight irreversible or high-risk actions'',
    [],
    ''### Step 3: Execute with checkpoints'',
    [],
    ''- Run one step at a time unless safe parallelization is clear'',
    ''- After each checkpoint, report status, artifacts, and blockers'',
    ''- Re-prioritize if constraints or context change'',
    [],
    ''### Step 4: Escalate intentionally'',
    [],
    ''- Escalate on policy risk, destructive actions, missing authority, or ambiguity'',
    ''- Present options with tradeoffs when escalation is needed'',
    [],
    ''### Step 5: Close with a decision-ready summary'',
    [],
    ''- Report completed steps, residual risks, and recommended next action'',
    [],
    ''## Quality checks'',
    [],
    ''- [ ] Plan includes clear success criteria and constraints'',
    ''- [ ] Dependencies and ordering are explicit'',
    ''- [ ] Checkpoints include concrete evidence of progress'',
    ''- [ ] Escalation triggers were respected'',
    ''- [ ] Final summary is decision-ready and actionable'',
    [],
    ''## Guardrail notes'',
    [],
    ''Do not perform destructive or irreversible actions without explicit approval when guardrails require it.'',
    [],
    ''## Progressive Disclosure'',
    [],
    ''### Minimal Context (Always Load)'',
    ''- Goal, constraints, and current priority policy'',
    [],
    ''### On Invoke (Load When Skill is Invoked)'',
    ''- Full decomposition/checkpoint workflow and escalation rules'',
    [],
    ''### On Demand Resources'',
    ''- Reusable checklist templates and incident-style escalation format'',
    []]\<close>

definition task_orchestration_skill :: domain_skill where
  \<open>task_orchestration_skill = \<lparr>
    ds_skill_id = ''task-orchestration'', ds_name = ''Task Orchestration'',
    ds_description = ''Plan and execute mixed tasks with explicit checkpoints, constraints, and escalation points'',
    ds_tags = Some [''general'', ''planning'', ''execution''], ds_risk_level = Risk_low, ds_required_tools = [''file-system''],
    ds_compatible_runtimes = Some [''claude-code'', ''openclaw'', ''manus'', ''autopilots''],
    ds_playbook_ref = None, ds_prerequisites = Some [''context-synthesis''], ds_feeds_into = None, ds_alternatives = None,
    ds_pipeline_phase = Some ''process'', ds_context_model = Some Inherit, ds_model_hint = None,
    ds_skill_md_content = join [nl] task_orchestration_skill_lines\<rparr>\<close>

definition GeneralAgentSkills :: "domain_skill list" where
  "GeneralAgentSkills = [context_synthesis_skill, task_orchestration_skill]"

section \<open>What the shipped texts lack\<close>

lemma research_trends_skill_headings: "headings research_trends_skill_lines = [''# Research Trends'', ''## Purpose'', ''## When to use'', ''## When NOT to use'', ''## Inputs'', ''## Outputs'', ''## Procedure'', ''### Step 1: Search for recent high-performing content'', ''### Step 2: Analyze patterns'', ''### Step 3: Extract insights'', ''### Step 4: Document findings'', ''## Quality checks'', ''## Guardrail notes'', ''## Progressive Disclosure'', ''### Minimal Context (Always Load)'', ''### On Invoke (Load When Skill is Invoked)'', ''### On Demand Resources'']"
  by (simp add: research_trends_skill_lines_def)

lemma research_trends_skill_sections: "sections_missing (join [nl] research_trends_skill_lines) = [''When not to use'', ''Progressive disclosure'']"
  by (rule missing_from_headings, rule research_trends_skill_headings) (simp add: missing_in_def REQUIRED_SECTIONS_def includes_eval)

lemma generate_post_options_skill_headings: "headings generate_post_options_skill_lines = [''# Generate Post Options'', ''## Purpose'', ''## When to use'', ''## When NOT to use'', ''## Inputs'', ''## Outputs'', ''## Procedure'', ''### Step 1: Understand the context'', ''### Step 2: Generate diverse variations'', ''### Step 3: Add context for each option'', ''### Step 4: Present options clearly'', ''## Quality checks'', ''## Guardrail notes'', ''## Progressive Disclosure'', ''### Minimal Context (Always Load)'', ''### On Invoke (Load When Skill is Invoked)'', ''### On Demand Resources'']"
  by (simp add: generate_post_options_skill_lines_def)

lemma generate_post_options_skill_sections: "sections_missing (join [nl] generate_post_options_skill_lines) = [''When not to use'', ''Progressive disclosure'']"
  by (rule missing_from_headings, rule generate_post_options_skill_headings) (simp add: missing_in_def REQUIRED_SECTIONS_def includes_eval)

lemma web_research_skill_headings: "headings web_research_skill_lines = [''# Web Research'', ''## Purpose'', ''## When to use'', ''## When NOT to use'', ''## Inputs'', ''## Outputs'', ''## Procedure'', ''### Step 1: Scope the research'', ''### Step 2: Search and gather'', ''### Step 3: Evaluate sources'', ''### Step 4: Synthesize findings'', ''### Step 5: Format output'', ''## Quality checks'', ''## Guardrail notes'', ''## Progressive Disclosure'', ''### Minimal Context (Always Load)'', ''### On Invoke (Load When Skill is Invoked)'', ''### On Demand Resources'']"
  by (simp add: web_research_skill_lines_def)

lemma web_research_skill_sections: "sections_missing (join [nl] web_research_skill_lines) = [''When not to use'', ''Progressive disclosure'']"
  by (rule missing_from_headings, rule web_research_skill_headings) (simp add: missing_in_def REQUIRED_SECTIONS_def includes_eval)

lemma competitive_analysis_skill_headings: "headings competitive_analysis_skill_lines = [''# Competitive Analysis'', ''## Purpose'', ''## When to use'', ''## When NOT to use'', ''## Inputs'', ''## Outputs'', ''## Procedure'', ''### Step 1: Define the competitive landscape'', ''### Step 2: Research each competitor'', ''### Step 3: Build comparison framework'', ''### Step 4: Identify insights'', ''### Step 5: Format deliverable'', ''## Quality checks'', ''## Guardrail notes'', ''## Progressive Disclosure'', ''### Minimal Context (Always Load)'', ''### On Invoke (Load When Skill is Invoked)'', ''### On Demand Resources'']"
  by (simp add: competitive_analysis_skill_lines_def)

lemma competitive_analysis_skill_sections: "sections_missing (join [nl] competitive_analysis_skill_lines) = [''When not to use'', ''Progressive disclosure'']"
  by (rule missing_from_headings, rule competitive_analysis_skill_headings) (simp add: missing_in_def REQUIRED_SECTIONS_def includes_eval)

lemma lead_qualification_skill_headings: "headings lead_qualification_skill_lines = [''# Lead Qualification'', ''## Purpose'', ''## When to use'', ''## When NOT to use'', ''## Inputs'', ''## Outputs'', ''## Procedure'', ''### Step 1: Gather available data'', ''### Step 2: Score against criteria'', ''### Step 3: Identify gaps'', ''### Step 4: Generate recommendation'', ''## Quality checks'', ''## Guardrail notes'', ''## Progressive Disclosure'', ''### Minimal Context (Always Load)'', ''### On Invoke (Load When Skill is Invoked)'', ''### On Demand Resources'']"
  by (simp add: lead_qualification_skill_lines_def)

lemma lead_qualification_skill_sections: "sections_missing (join [nl] lead_qualification_skill_lines) = [''When not to use'', ''Progressive disclosure'']"
  by (rule missing_from_headings, rule lead_qualification_skill_headings) (simp add: missing_in_def REQUIRED_SECTIONS_def includes_eval)

lemma outreach_email_skill_headings: "headings outreach_email_skill_lines = [''# Outreach Email'', ''## Purpose'', ''## When to use'', ''## When NOT to use'', ''## Inputs'', ''## Outputs'', ''## Procedure'', ''### Step 1: Research the recipient'', ''### Step 2: Choose approach'', ''### Step 3: Draft the email'', ''### Step 4: Create variants'', ''### Step 5: Review against guidelines'', ''## Quality checks'', ''## Guardrail notes'', ''## Progressive Disclosure'', ''### Minimal Context (Always Load)'', ''### On Invoke (Load When Skill is Invoked)'', ''### On Demand Resources'']"
  by (simp add: outreach_email_skill_lines_def)

lemma outreach_email_skill_sections: "sections_missing (join [nl] outreach_email_skill_lines) = [''When not to use'', ''Progressive disclosure'']"
  by (rule missing_from_headings, rule outreach_email_skill_headings) (simp add: missing_in_def REQUIRED_SECTIONS_def includes_eval)

lemma ticket_triage_skill_headings: "headings ticket_triage_skill_lines = [''# Ticket Triage'', ''## Purpose'', ''## When to use'', ''## When NOT to use'', ''## Inputs'', ''## Outputs'', ''## Procedure'', ''### Step 1: Parse the ticket'', ''### Step 2: Classify priority'', ''### Step 3: Categorize'', ''### Step 4: Assess sentiment'', ''### Step 5: Generate routing recommendation'', ''## Quality checks'', ''## Guardrail notes'', ''## Progressive Disclosure'', ''### Minimal Context (Always Load)'', ''### On Invoke (Load When Skill is Invoked)'', ''### On Demand Resources'']"
  by (simp add: ticket_triage_skill_lines_def)

lemma ticket_triage_skill_sections: "sections_missing (join [nl] ticket_triage_skill_lines) = [''When not to use'', ''Progressive disclosure'']"
  by (rule missing_from_headings, rule ticket_triage_skill_headings) (simp add: missing_in_def REQUIRED_SECTIONS_def includes_eval)

lemma response_draft_skill_headings: "headings response_draft_skill_lines = [''# Response Draft'', ''## Purpose'', ''## When to use'', ''## When NOT to use'', ''## Inputs'', ''## Outputs'', ''## Procedure'', ''### Step 1: Understand the context'', ''### Step 2: Match tone to context'', ''### Step 3: Draft the response'', ''### Step 4: Include resolution'', ''### Step 5: Add follow-up'', ''## Quality checks'', ''## Guardrail notes'', ''## Progressive Disclosure'', ''### Minimal Context (Always Load)'', ''### On Invoke (Load When Skill is Invoked)'', ''### On Demand Resources'']"
  by (simp add: response_draft_skill_lines_def)

lemma response_draft_skill_sections: "sections_missing (join [nl] response_draft_skill_lines) = [''When not to use'', ''Progressive disclosure'']"
  by (rule missing_from_headings, rule response_draft_skill_headings) (simp add: missing_in_def REQUIRED_SECTIONS_def includes_eval)

lemma code_review_skill_headings: "headings code_review_skill_lines = [''# Code Review'', ''## Purpose'', ''## When to use'', ''## When NOT to use'', ''## Inputs'', ''## Outputs'', ''## Procedure'', ''### Step 1: Understand context'', ''### Step 2: Review against principles'', ''### Step 3: Check for common issues'', ''### Step 4: Assess architecture'', ''### Step 5: Format feedback'', ''## Quality checks'', ''## Guardrail notes'', ''## Progressive Disclosure'', ''### Minimal Context (Always Load)'', ''### On Invoke (Load When Skill is Invoked)'', ''### On Demand Resources'']"
  by (simp add: code_review_skill_lines_def)

lemma code_review_skill_sections: "sections_missing (join [nl] code_review_skill_lines) = [''When not to use'', ''Progressive disclosure'']"
  by (rule missing_from_headings, rule code_review_skill_headings) (simp add: missing_in_def REQUIRED_SECTIONS_def includes_eval)

lemma refactor_plan_skill_headings: "headings refactor_plan_skill_lines = [''# Refactor Plan'', ''## Purpose'', ''## When to use'', ''## When NOT to use'', ''## Inputs'', ''## Outputs'', ''## Procedure'', ''### Step 1: Analyze current state'', ''### Step 2: Align with principles'', ''### Step 3: Design the refactoring'', ''### Step 4: Assess risks'', ''### Step 5: Present the plan'', ''## Quality checks'', ''## Guardrail notes'', ''## Progressive Disclosure'', ''### Minimal Context (Always Load)'', ''### On Invoke (Load When Skill is Invoked)'', ''### On Demand Resources'']"
  by (simp add: refactor_plan_skill_lines_def)

lemma refactor_plan_skill_sections: "sections_missing (join [nl] refactor_plan_skill_lines) = [''When not to use'', ''Progressive disclosure'']"
  by (rule missing_from_headings, rule refactor_plan_skill_headings) (simp add: missing_in_def REQUIRED_SECTIONS_def includes_eval)

lemma context_synthesis_skill_headings: "headings context_synthesis_skill_lines = [''# Context Synthesis'', ''## Purpose'', ''## When to use'', ''## When NOT to use'', ''## Inputs'', ''## Outputs'', ''## Procedure'', ''### Step 1: Gather and classify inputs'', ''### Step 2: Reconcile conflicts'', ''### Step 3: Produce an operator-ready brief'', ''### Step 4: Hand off cleanly'', ''## Quality checks'', ''## Guardrail notes'', ''## Progressive Disclosure'', ''### Minimal Context (Always Load)'', ''### On Invoke (Load When Skill is Invoked)'', ''### On Demand Resources'']"
  by (simp add: context_synthesis_skill_lines_def)

lemma context_synthesis_skill_sections: "sections_missing (join [nl] context_synthesis_skill_lines) = [''When not to use'', ''Progressive disclosure'']"
  by (rule missing_from_headings, rule context_synthesis_skill_headings) (simp add: missing_in_def REQUIRED_SECTIONS_def includes_eval)

lemma task_orchestration_skill_headings: "headings task_orchestration_skill_lines = [''# Task Orchestration'', ''## Purpose'', ''## When to use'', ''## When NOT to use'', ''## Inputs'', ''## Outputs'', ''## Procedure'', ''### Step 1: Frame the objective'', ''### Step 2: Decompose and order work'', ''### Step 3: Execute with checkpoints'', ''### Step 4: Escalate intentionally'', ''### Step 5: Close with a decision-ready summary'', ''## Quality checks'', ''## Guardrail notes'', ''## Progressive Disclosure'', ''### Minimal Context (Always Load)'', ''### On Invoke (Load When Skill is Invoked)'', ''### On Demand Resources'']"
  by (simp add: task_orchestration_skill_lines_def)

lemma task_orchestration_skill_sections: "sections_missing (join [nl] task_orchestration_skill_lines) = [''When not to use'', ''Progressive disclosure'']"
  by (rule missing_from_headings, rule task_orchestration_skill_headings) (simp add: missing_in_def REQUIRED_SECTIONS_def includes_eval)

end
