(* ===== verification/Constitution.thy ===== *)
theory Constitution
  imports Answers
begin

text \<open>
  TasteKit core, compiler/constitution-compiler.ts and schemas/constitution.ts: the constitution
  compiled from the structured answers of an interview, or from the flat answers of an old session.
  The clock is the argument \<open>now\<close>.
\<close>

section \<open>Data\<close>

record principle =
  pr_id :: string
  pr_priority :: int
  pr_statement :: string
  pr_rationale :: "string option"
  pr_applies_to :: "string list"
  pr_examples_good :: "string list option"
  pr_examples_bad :: "string list option"

record tone =
  tn_voice_keywords :: "string list"
  tn_forbidden_phrases :: "string list"
  tn_formatting_rules :: "string list"

record tradeoffs =
  to_accuracy_vs_speed :: rat
  to_cost_sensitivity :: rat
  to_autonomy_level :: rat

record evidence_policy =
  ep_require_citations_for :: "string list"
  ep_uncertainty_language_rules :: "string list"

record taboos =
  tb_never_do :: "string list"
  tb_must_escalate :: "string list"

record constitution =
  cn_generated_at :: string
  cn_generator_version :: string
  cn_principles :: "principle list"
  cn_tone :: tone
  cn_tradeoffs :: tradeoffs
  cn_evidence :: evidence_policy
  cn_taboos :: taboos
  cn_trace_map :: "(string \<times> json) list"

section \<open>From the structured answers\<close>

definition principle_of :: "nat \<Rightarrow> principle_answer \<Rightarrow> principle" where
  "principle_of i p =
     \<lparr>pr_id = ''principle_'' @ show_nat i, pr_priority = pa_priority p, pr_statement = pa_statement p,
      pr_rationale = Some (pa_rationale p), pr_applies_to = pa_applies_to p,
      pr_examples_good = pa_examples_good p, pr_examples_bad = pa_examples_bad p\<rparr>"

definition strs_json :: "string list \<Rightarrow> json" where
  "strs_json xs = JArr (map JStr xs)"

definition dims_entry :: "string list \<Rightarrow> json" where
  "dims_entry xs = JObj [(''source_dimensions'', strs_json xs)]"

text \<open>The trace map: session facts, one entry per principle, one per section, assigned in order.\<close>

definition session_entries :: "session \<Rightarrow> (string \<times> json) list" where
  "session_entries session =
     [(''_session_id'', JStr (ss_session_id session))]
     @ (case ss_llm_provider session of None \<Rightarrow> [] | Some p \<Rightarrow> [(''_llm_provider'', p)])
     @ (case ss_domain_id session of None \<Rightarrow> [] | Some d \<Rightarrow> [(''_domain_id'', JStr d)])"

definition trace_map_of :: "structured_answers \<Rightarrow> session \<Rightarrow> principle list \<Rightarrow> (string \<times> json) list" where
  "trace_map_of sa session ps =
     (let m1 = foldl (\<lambda>m (p, a). AList.update (pr_id p) (JObj [(''source_dimension'', JStr (pa_source_dimension a))]) m)
                 (session_entries session) (zip ps (sa_principles sa));
          m2 = AList.update ''_tone'' (dims_entry (ta_source_dimensions (sa_tone sa))) m1;
          m3 = AList.update ''_tradeoffs'' (dims_entry (tr_source_dimensions (sa_tradeoffs sa))) m2;
          m4 = AList.update ''_evidence_policy'' (dims_entry (ea_source_dimensions (sa_evidence sa))) m3
      in AList.update ''_taboos'' (dims_entry (tb_source_dimensions (sa_taboos sa))) m4)"

definition constitution_structured :: "structured_answers \<Rightarrow> session \<Rightarrow> string \<Rightarrow> string \<Rightarrow> constitution" where
  "constitution_structured sa session version now =
     (let principles = map (\<lambda>(i, p). principle_of i p) (List.enumerate 0 (sa_principles sa))
      in \<lparr>cn_generated_at = now, cn_generator_version = version, cn_principles = principles,
          cn_tone = \<lparr>tn_voice_keywords = ta_voice_keywords (sa_tone sa),
            tn_forbidden_phrases = ta_forbidden_phrases (sa_tone sa),
            tn_formatting_rules = ta_formatting_rules (sa_tone sa)\<rparr>,
          cn_tradeoffs = \<lparr>to_accuracy_vs_speed = accuracy_vs_speed (sa_tradeoffs sa),
            to_cost_sensitivity = cost_sensitivity (sa_tradeoffs sa),
            to_autonomy_level = autonomy_level (sa_tradeoffs sa)\<rparr>,
          cn_evidence = \<lparr>ep_require_citations_for = require_citations_for (sa_evidence sa),
            ep_uncertainty_language_rules = uncertainty_language_rules (sa_evidence sa)\<rparr>,
          cn_taboos = \<lparr>tb_never_do = never_do (sa_taboos sa), tb_must_escalate = must_escalate (sa_taboos sa)\<rparr>,
          cn_trace_map = trace_map_of sa session principles\<rparr>)"

section \<open>From the flat answers\<close>

definition comma_list :: "string \<Rightarrow> string list" where
  "comma_list s = map trim (split_on (CHR '','') s)"

definition legacy_principle :: "session \<Rightarrow> nat \<Rightarrow> string \<Rightarrow> principle" where
  "legacy_principle session i statement =
     \<lparr>pr_id = ''principle_'' @ show_nat (i + 1), pr_priority = int i + 1, pr_statement = statement,
      pr_rationale = Some (''Derived from onboarding session '' @ ss_session_id session),
      pr_applies_to = [''*''], pr_examples_good = None, pr_examples_bad = None\<rparr>"

definition goal_principle :: "string \<Rightarrow> principle" where
  "goal_principle goal =
     \<lparr>pr_id = ''principle_0'', pr_priority = 1, pr_statement = ''Primary goal: '' @ goal,
      pr_rationale = Some ''User-defined primary goal'', pr_applies_to = [''*''],
      pr_examples_good = None, pr_examples_bad = None\<rparr>"

definition renumber :: "principle list \<Rightarrow> principle list" where
  "renumber ps = map (\<lambda>(i, p). p\<lparr>pr_priority := int i + 1\<rparr>) (List.enumerate 0 ps)"

definition legacy_statements :: "flat_answers \<Rightarrow> string list" where
  "legacy_statements fa =
     (if text_or [] (fa_key_principles fa) \<noteq> [] then comma_list (the (fa_key_principles fa)) else [])"

definition legacy_principles :: "session \<Rightarrow> principle list" where
  "legacy_principles session =
     (let fa = ss_answers session;
          ps = map (\<lambda>(i, s). legacy_principle session i s) (List.enumerate 0 (legacy_statements fa))
      in if text_or [] (fa_primary_goal fa) \<noteq> []
         then renumber (goal_principle (the (fa_primary_goal fa)) # ps) else ps)"

definition constitution_legacy :: "session \<Rightarrow> string \<Rightarrow> string \<Rightarrow> constitution" where
  \<open>constitution_legacy session version now =
     (let fa = ss_answers session in
      \<lparr>cn_generated_at = now, cn_generator_version = version, cn_principles = legacy_principles session,
       cn_tone = \<lparr>tn_voice_keywords = (case fa_voice_keywords fa of None \<Rightarrow> [] | Some ks \<Rightarrow> ks),
         tn_forbidden_phrases = (if text_or [] (fa_forbidden_phrases fa) \<noteq> []
           then filter (\<lambda>p. p \<noteq> []) (comma_list (the (fa_forbidden_phrases fa))) else []),
         tn_formatting_rules = []\<rparr>,
       cn_tradeoffs = \<lparr>to_accuracy_vs_speed = num_or (1 / 2) (fa_accuracy_vs_speed fa),
         to_cost_sensitivity = 1 / 2, to_autonomy_level = num_or (1 / 2) (fa_autonomy_level fa)\<rparr>,
       cn_evidence = \<lparr>ep_require_citations_for = [''facts'', ''statistics'', ''claims''],
         ep_uncertainty_language_rules =
           [''Use "likely" or "probably" for uncertain statements'',
            ''Use "I don't know" when information is unavailable'']\<rparr>,
       cn_taboos = \<lparr>tb_never_do = [''Share personal information without consent'',
           ''Make decisions with irreversible consequences without approval''],
         tb_must_escalate = [''Financial transactions'', ''Legal decisions'', ''Medical advice'']\<rparr>,
       cn_trace_map = [(''_session_id'', JStr (ss_session_id session)), (''_answers'', fa_raw fa)]\<rparr>)\<close>

definition compileConstitution :: "session \<Rightarrow> string \<Rightarrow> string \<Rightarrow> constitution" where
  "compileConstitution session version now =
     (case ss_structured session of
        Some sa \<Rightarrow> constitution_structured sa session version now
      | None \<Rightarrow> constitution_legacy session version now)"

section \<open>Well-formedness\<close>

text \<open>The ranges of the schema, which the types do not express, and distinct principle ids; and the
  same ranges for what the session answers.\<close>

definition unit_interval :: "rat \<Rightarrow> bool" where
  "unit_interval x \<longleftrightarrow> 0 \<le> x \<and> x \<le> 1"

definition constitution_ok :: "constitution \<Rightarrow> bool" where
  "constitution_ok c \<longleftrightarrow> distinct (map pr_id (cn_principles c)) \<and> list_all (\<lambda>p. 0 < pr_priority p) (cn_principles c)
     \<and> unit_interval (to_accuracy_vs_speed (cn_tradeoffs c)) \<and> unit_interval (to_cost_sensitivity (cn_tradeoffs c))
     \<and> unit_interval (to_autonomy_level (cn_tradeoffs c))"

definition session_ok :: "session \<Rightarrow> bool" where
  "session_ok session \<longleftrightarrow>
     (case ss_structured session of
        Some sa \<Rightarrow> list_all (\<lambda>p. 0 < pa_priority p) (sa_principles sa) \<and> unit_interval (accuracy_vs_speed (sa_tradeoffs sa))
          \<and> unit_interval (cost_sensitivity (sa_tradeoffs sa)) \<and> unit_interval (autonomy_level (sa_tradeoffs sa))
      | None \<Rightarrow> pred_option unit_interval (fa_accuracy_vs_speed (ss_answers session))
          \<and> pred_option unit_interval (fa_autonomy_level (ss_answers session)))"

text \<open>Where each principle comes from: its statement, in order.\<close>

definition source_statements :: "session \<Rightarrow> string list" where
  "source_statements session =
     (case ss_structured session of
        Some sa \<Rightarrow> map pa_statement (sa_principles sa)
      | None \<Rightarrow> (if text_or [] (fa_primary_goal (ss_answers session)) \<noteq> []
                 then [''Primary goal: '' @ the (fa_primary_goal (ss_answers session))] else [])
               @ legacy_statements (ss_answers session))"

lemma num_or_unit [simp]: "unit_interval (num_or (1 / 2) x) \<longleftrightarrow> pred_option unit_interval x"
  by (cases x) (auto simp: num_or_def unit_interval_def)

lemma map_enumerate_snd: "map (\<lambda>x. f (snd x)) (List.enumerate n xs) = map f xs"
  by (induction xs arbitrary: n) auto

lemma map_enumerate_fst: "map (\<lambda>x. f (fst x)) (List.enumerate n xs) = map f [n..<n + length xs]"
  by (simp add: comp_def flip: map_map [of f fst] map_fst_enumerate)

lemma enumerate_ids_distinct:
  assumes "\<And>i x. g (f i x) = ''principle_'' @ show_nat (i + k)"
  shows "distinct (map g (map (\<lambda>(i, x). f i x) (List.enumerate n xs)))
     \<and> (\<forall>y \<in> set (map g (map (\<lambda>(i, x). f i x) (List.enumerate n xs))). \<exists>j \<ge> n + k. y = ''principle_'' @ show_nat j)"
proof (induction xs arbitrary: n)
  case (Cons x xs)
  let ?tl = "map g (map (\<lambda>(i, x). f i x) (List.enumerate (Suc n) xs))"
  from Cons.IH [of "Suc n"] have d: "distinct ?tl"
    and m: "\<forall>y \<in> set ?tl. \<exists>j \<ge> Suc n + k. y = ''principle_'' @ show_nat j" by auto
  have "''principle_'' @ show_nat (n + k) \<notin> set ?tl"
  proof
    assume "''principle_'' @ show_nat (n + k) \<in> set ?tl"
    then obtain j where "j \<ge> Suc n + k" "''principle_'' @ show_nat (n + k) = ''principle_'' @ show_nat j"
      using m by blast
    then show False by simp
  qed
  with d m show ?case by (auto simp: assms intro: Suc_leD)
qed simp

lemma renumber_facts [simp]:
  "map pr_id (renumber ps) = map pr_id ps" "map pr_statement (renumber ps) = map pr_statement ps"
  "map pr_priority (renumber ps) = map (\<lambda>i. int i + 1) [0..<length ps]"
  by (simp_all add: renumber_def comp_def case_prod_unfold map_enumerate_snd
      map_enumerate_fst [of "\<lambda>i. int i + 1" 0, simplified])

lemma length_renumber [simp]: "length (renumber ps) = length ps"
  by (simp add: renumber_def)

lemma structured_ids:
  "map pr_id (map (\<lambda>(i, p). principle_of i p) (List.enumerate 0 xs)) = map (\<lambda>i. ''principle_'' @ show_nat i) [0..<length xs]"
  by (simp add: comp_def case_prod_unfold principle_of_def map_enumerate_fst [of "\<lambda>i. ''principle_'' @ show_nat i" 0, simplified])

lemma legacy_ids:
  "map pr_id (map (\<lambda>(i, s). legacy_principle session i s) (List.enumerate 0 xs)) = map (\<lambda>i. ''principle_'' @ show_nat (i + 1)) [0..<length xs]"
  by (simp add: comp_def case_prod_unfold legacy_principle_def map_enumerate_fst [of "\<lambda>i. ''principle_'' @ show_nat (Suc i)" 0, simplified])

lemma numbered_distinct: "distinct (map (\<lambda>i. ''principle_'' @ show_nat (i + k)) [0..<n])"
  by (simp add: distinct_map inj_on_def)

lemma legacy_statement_list: "map pr_statement (legacy_principles session) = source_statements session"
  if "ss_structured session = None"
  using that by (simp add: legacy_principles_def source_statements_def Let_def comp_def case_prod_unfold
      legacy_principle_def goal_principle_def map_enumerate_snd [of "\<lambda>x. x", simplified])

lemma legacy_principle_ids: "distinct (map pr_id (legacy_principles session))"
proof -
  let ?ps = "map (\<lambda>(i, s). legacy_principle session i s) (List.enumerate 0 (legacy_statements (ss_answers session)))"
  have d: "distinct (map pr_id ?ps)" unfolding legacy_ids by (rule numbered_distinct)
  have zero: "show_nat 0 = ''0''" by code_simp
  have "''principle_0'' \<notin> set (map pr_id ?ps)"
  proof
    assume "''principle_0'' \<in> set (map pr_id ?ps)"
    then obtain i where "''principle_0'' = ''principle_'' @ show_nat (i + 1)"
      unfolding legacy_ids by auto
    then have "show_nat 0 = show_nat (i + 1)" by (simp add: zero)
    then show False by simp
  qed
  with d show ?thesis
    by (simp add: legacy_principles_def Let_def goal_principle_def del: map_map)
qed

lemma legacy_priorities:
  "map pr_priority (legacy_principles session) = map (\<lambda>i. int i + 1) [0..<length (legacy_principles session)]"
proof -
  have "map pr_priority (map (\<lambda>(i, s). legacy_principle session i s) (List.enumerate 0 xs)) = map (\<lambda>i. int i + 1) [0..<length xs]"
    for xs
    by (simp add: comp_def case_prod_unfold legacy_principle_def map_enumerate_fst [of "\<lambda>i. int i + 1" 0, simplified])
  from this [of "legacy_statements (ss_answers session)"] show ?thesis
    by (simp add: legacy_principles_def Let_def del: map_map)
qed

text \<open>A later assignment under another key leaves an entry of the trace map alone.\<close>

lemma trace_fold:
  assumes "distinct (map pr_id ps)" "length ps = length as" "i < length ps"
  shows "map_of (foldl (\<lambda>m (p, a). AList.update (pr_id p) (JObj [(''source_dimension'', JStr (pa_source_dimension a))]) m) m
      (zip ps as)) (pr_id (ps ! i)) = Some (JObj [(''source_dimension'', JStr (pa_source_dimension (as ! i)))])"
  using assms
proof (induction ps as arbitrary: m i rule: list_induct2')
  case (4 p ps a as)
  have keep: "map_of (foldl (\<lambda>m (p, a). AList.update (pr_id p) (g a) m) m (zip ps as)) k = map_of m k"
    if "k \<notin> set (map pr_id ps)" for g m k
    using that by (induction ps as arbitrary: m rule: list_induct2') (auto simp: update_conv')
  show ?case
  proof (cases i)
    case 0
    with "4.prems" show ?thesis by (simp add: keep update_conv')
  next
    case (Suc j)
    with 4 show ?thesis by simp
  qed
qed simp_all

section \<open>Property\<close>

text \<open>
  C12. A compiled constitution, on both compilation paths and for any answers of the declared types:
  its principle ids are distinct; the principles are the answered statements, in order, with the
  primary goal of an old session in front; the priorities of an old session count from 1 without a
  gap, and after an interview every principle is traced to the dimension it was taken from. Nothing
  in the program checks the numbers of an answer, so the ranges of the schema (positive priorities,
  tradeoffs between 0 and 1) hold of the constitution exactly when they hold of the answers.
\<close>

theorem constitution_well_formed:
  assumes "c = compileConstitution session version now"
  shows "distinct (map pr_id (cn_principles c)) \<and> (constitution_ok c \<longleftrightarrow> session_ok session)
     \<and> map pr_statement (cn_principles c) = source_statements session
     \<and> (ss_structured session = None \<longrightarrow>
          map pr_priority (cn_principles c) = map (\<lambda>i. int i + 1) [0..<length (cn_principles c)])
     \<and> (\<forall>sa i. ss_structured session = Some sa \<longrightarrow> i < length (sa_principles sa) \<longrightarrow>
          map_of (cn_trace_map c) (pr_id (cn_principles c ! i)) =
            Some (JObj [(''source_dimension'', JStr (pa_source_dimension (sa_principles sa ! i)))]))"
proof (cases "ss_structured session")
  case None
  note pr = legacy_priorities [of session]
  have "list_all (\<lambda>p. 0 < pr_priority p) (legacy_principles session)"
  proof -
    have "list_all (\<lambda>x. 0 < x) (map pr_priority (legacy_principles session))"
      unfolding pr by (simp add: list_all_iff)
    then show ?thesis by (simp add: list_all_iff)
  qed
  with None assms pr legacy_principle_ids legacy_statement_list [OF None] show ?thesis
    by (simp add: compileConstitution_def constitution_legacy_def constitution_ok_def session_ok_def Let_def)
      (auto simp: unit_interval_def)
next
  case (Some sa)
  let ?ps = "map (\<lambda>(i, p). principle_of i p) (List.enumerate 0 (sa_principles sa))"
  have ids: "distinct (map pr_id ?ps)"
    unfolding structured_ids using numbered_distinct [of 0] by simp
  have pos: "list_all (\<lambda>p. 0 < pr_priority p) ?ps \<longleftrightarrow> list_all (\<lambda>p. 0 < pa_priority p) (sa_principles sa)"
  proof -
    have "pr_priority (?ps ! i) = pa_priority (sa_principles sa ! i)" if "i < length (sa_principles sa)" for i
      using that by (simp add: nth_enumerate_eq principle_of_def)
    then show ?thesis by (simp add: list_all_length)
  qed
  have st: "map pr_statement ?ps = map pa_statement (sa_principles sa)"
    by (simp add: comp_def case_prod_unfold principle_of_def map_enumerate_snd)
  have tr: "map_of (cn_trace_map c) (pr_id (?ps ! i)) =
      Some (JObj [(''source_dimension'', JStr (pa_source_dimension (sa_principles sa ! i)))])"
    if "i < length (sa_principles sa)" for i
  proof -
    have "pr_id (?ps ! i) = ''principle_'' @ show_nat i"
      using that by (simp add: nth_enumerate_eq principle_of_def)
    with trace_fold [OF ids, of "sa_principles sa" i] that Some assms show ?thesis
      by (simp add: compileConstitution_def constitution_structured_def trace_map_of_def Let_def update_conv')
  qed
  from Some assms ids pos st tr show ?thesis
    by (simp add: compileConstitution_def constitution_structured_def constitution_ok_def session_ok_def
        source_statements_def Let_def)
qed

definition old_session :: session where
  "old_session = \<lparr>ss_session_id = ''s1'', ss_domain_id = None,
     ss_answers = \<lparr>fa_key_principles = Some ''be brief, cite sources'', fa_primary_goal = Some ''ship'',
       fa_voice_keywords = None, fa_forbidden_phrases = Some ''synergy, ,'', fa_accuracy_vs_speed = Some 1,
       fa_autonomy_level = None, fa_raw = JObj []\<rparr>,
     ss_structured = None, ss_llm_provider = None\<rparr>"

lemma constitution_well_formed_witness:
  "map pr_statement (cn_principles (compileConstitution old_session ''1'' ''t'')) = [''Primary goal: ship'', ''be brief'', ''cite sources'']
   \<and> map pr_priority (cn_principles (compileConstitution old_session ''1'' ''t'')) = [1, 2, 3]
   \<and> constitution_ok (compileConstitution old_session ''1'' ''t'')"
proof -
  have ok: "session_ok old_session" by (simp add: session_ok_def old_session_def unit_interval_def)
  have "source_statements old_session = [''Primary goal: ship'', ''be brief'', ''cite sources'']"
    "ss_structured old_session = None" by code_simp+
  moreover have "length (cn_principles (compileConstitution old_session ''1'' ''t'')) = 3"
    by code_simp
  ultimately show ?thesis
    using ok constitution_well_formed [OF refl, of old_session "''1''" "''t''"] by (simp add: upt_rec)
qed

end
