(* ===== verification/SkillsLibrary.thy ===== *)
theory SkillsLibrary
  imports Domain_Skills Constitution Layout
begin

text \<open>
  TasteKit core, compiler/skills-compiler.ts, skills/generator.ts, skills/linter.ts and
  skills/packer.ts: the skill library that a compilation writes, the older generator, the linter
  that checks a library, and the export. The YAML printer is the parameter \<open>yaml\<close>.
\<close>

section \<open>Compiler\<close>

definition metadata_of :: "domain_skill \<Rightarrow> skill" where
  "metadata_of s =
     \<lparr>skill_id = ds_skill_id s, skill_name = ds_name s, skill_description = ds_description s,
      skill_tags = (case ds_tags s of None \<Rightarrow> [ds_skill_id s] | Some ts \<Rightarrow> ts),
      risk_level = ds_risk_level s, required_tools = ds_required_tools s,
      compatible_runtimes = (case ds_compatible_runtimes s of None \<Rightarrow> [''claude-code'', ''openclaw''] | Some rs \<Rightarrow> rs),
      playbook_ref = ds_playbook_ref s, prerequisites = ds_prerequisites s, feeds_into = ds_feeds_into s,
      alternatives = ds_alternatives s, pipeline_phase = ds_pipeline_phase s,
      context_model = ds_context_model s, model_hint = ds_model_hint s\<rparr>"

definition resolveDomainSkills :: "string option \<Rightarrow> domain_skill list" where
  "resolveDomainSkills domainId =
     (if domainId = Some ''content-agent'' then ContentAgentSkills
      else if domainId = Some ''research-agent'' then ResearchAgentSkills
      else if domainId = Some ''sales-agent'' then SalesAgentSkills
      else if domainId = Some ''support-agent'' then SupportAgentSkills
      else if domainId = Some ''development-agent'' then DevelopmentAgentSkills
      else if domainId = Some ''general-agent'' then GeneralAgentSkills
      else [])"

definition generic_metadata :: skill where
  "generic_metadata =
     \<lparr>skill_id = ''general-task'', skill_name = ''General Task Execution'',
      skill_description = ''Execute tasks following user principles and tone preferences'',
      skill_tags = [''general'', ''task-execution''], risk_level = Risk_low, required_tools = [],
      compatible_runtimes = [''claude-code'', ''openclaw'', ''manus''], playbook_ref = None,
      prerequisites = None, feeds_into = None, alternatives = None, pipeline_phase = None,
      context_model = None, model_hint = None\<rparr>"

definition or_text :: "string \<Rightarrow> string \<Rightarrow> string" where
  "or_text s d = (if s = [] then d else s)"

definition generic_lines :: "constitution \<Rightarrow> string list" where
  \<open>generic_lines c =
     (let principlesList = join [nl] (map (\<lambda>p. ''- '' @ pr_statement p) (take 5 (cn_principles c)));
          voiceKeywords = or_text (join '', '' (tn_voice_keywords (cn_tone c))) ''not specified'';
          forbiddenPhrases = or_text (join '', '' (tn_forbidden_phrases (cn_tone c))) ''none''
      in [''# '' @ skill_name generic_metadata,
    [],
    ''## Purpose'',
    [],
    skill_description generic_metadata,
    [],
    ''## When to use'',
    [],
    ''Use this skill for general tasks that don't have a specialized skill.'',
    [],
    ''## When not to use'',
    [],
    ''When a domain-specific skill exists for the task type.'',
    [],
    ''## Inputs'',
    [],
    ''- **task**: Description of the task to perform'',
    ''- **context**: Any relevant context or constraints'',
    [],
    ''## Outputs'',
    [],
    ''- Task result following user's principles and tone'',
    [],
    ''## Procedure'',
    [],
    ''### Minimal context (always load)'',
    [],
    ''Apply these principles:'',
    principlesList,
    [],
    ''Voice: '' @ voiceKeywords,
    ''Avoid: '' @ forbiddenPhrases,
    [],
    ''### On invoke (load when skill is invoked)'',
    [],
    ''1. Understand the task requirements'',
    ''2. Plan approach following principles'',
    ''3. Execute while respecting tone preferences'',
    ''4. Check output against quality criteria'',
    [],
    ''### On demand resources'',
    [],
    ''- User constitution for full principle details'',
    ''- Guardrails for approval requirements'',
    [],
    ''## Quality checks'',
    [],
    ''- [ ] Output follows user principles'',
    ''- [ ] Tone matches voice keywords'',
    ''- [ ] No forbidden phrases used'',
    ''- [ ] Task requirements fully addressed'',
    [],
    ''## Guardrail notes'',
    [],
    ''Check autonomy level before taking irreversible actions.'',
    []])\<close>

text \<open>The files of a compilation: the metadata and the text of each skill.\<close>

definition library_skills :: "session \<Rightarrow> constitution \<Rightarrow> (skill \<times> string) list" where
  "library_skills session c =
     (let ds = resolveDomainSkills (ss_domain_id session)
      in if ds = [] then [(generic_metadata, join [nl] (generic_lines c))]
         else map (\<lambda>s. (metadata_of s, ds_skill_md_content s)) ds)"

definition skill_md :: "segments \<Rightarrow> string \<Rightarrow> segments" where
  "skill_md skillsPath k = skillsPath @ [k, ''SKILL.md'']"

definition manifest_file :: "segments \<Rightarrow> segments" where
  "manifest_file skillsPath = skillsPath @ [''manifest.v1.yaml'']"

definition write_skill :: "segments \<Rightarrow> disk \<Rightarrow> skill \<times> string \<Rightarrow> disk" where
  "write_skill skillsPath d s = writeFileSafe (skill_md skillsPath (skill_id (fst s))) (snd s) d"

definition compileSkills ::
  "(skill list \<Rightarrow> string) \<Rightarrow> segments \<Rightarrow> session \<Rightarrow> constitution \<Rightarrow> disk \<Rightarrow> disk \<times> string list" where
  "compileSkills yaml ws session c d =
     (let skillsPath = resolveSkillsPath d ws;
          allSkills = library_skills session c;
          d1 = foldl (write_skill skillsPath) d allSkills
      in (writeFileSafe (manifest_file skillsPath) (yaml (map fst allSkills)) d1,
          [''skills/manifest.v1.yaml'']))"

section \<open>Linter\<close>

datatype severity = Error | Warning

record lint_message =
  lm_skill_id :: string
  lm_message :: string
  lm_severity :: severity

record lint_result =
  lr_errors :: "lint_message list"
  lr_warnings :: "lint_message list"

definition lr_valid :: "lint_result \<Rightarrow> bool" where
  "lr_valid r \<longleftrightarrow> lr_errors r = []"

definition MAX_SKILL_SIZE :: nat where
  "MAX_SKILL_SIZE = 50 * 1024"

definition lint_content :: "string \<Rightarrow> string \<Rightarrow> lint_result \<Rightarrow> lint_result" where
  "lint_content k content r =
     (let size = utf16_length content;
          r1 = (if size > MAX_SKILL_SIZE
                then r\<lparr>lr_warnings := lr_warnings r @ [\<lparr>lm_skill_id = k, lm_message =
                  ''SKILL.md exceeds recommended size ('' @ show_nat size @ '' > '' @ show_nat MAX_SKILL_SIZE @ '' bytes)'',
                  lm_severity = Warning\<rparr>]\<rparr> else r);
          r2 = r1\<lparr>lr_errors := lr_errors r1 @ map (\<lambda>section. \<lparr>lm_skill_id = k,
                  lm_message = ''Missing required section: '' @ section, lm_severity = Error\<rparr>) (sections_missing content)\<rparr>
      in if \<not> str_includes content ''### Minimal context'' \<or> \<not> str_includes content ''### On invoke''
            \<or> \<not> str_includes content ''### On demand''
         then r2\<lparr>lr_warnings := lr_warnings r2 @ [\<lparr>lm_skill_id = k,
                lm_message = ''Progressive disclosure sections incomplete'', lm_severity = Warning\<rparr>]\<rparr>
         else r2)"

text \<open>The directories directly below a directory.\<close>

definition subdirs :: "disk \<Rightarrow> segments \<Rightarrow> string list" where
  "subdirs d p = List.map_filter (\<lambda>q. if q \<noteq> [] \<and> butlast q = p then Some (last q) else None) (dk_dirs d)"

definition lint_skill :: "disk \<Rightarrow> segments \<Rightarrow> lint_result \<Rightarrow> string \<Rightarrow> lint_result" where
  "lint_skill d skillsPath r k =
     (case read_file d (skill_md skillsPath k) of
        None \<Rightarrow> r\<lparr>lr_errors := lr_errors r @ [\<lparr>lm_skill_id = k, lm_message = ''SKILL.md not found'', lm_severity = Error\<rparr>]\<rparr>
      | Some content \<Rightarrow> lint_content k content r)"

definition lintSkills :: "disk \<Rightarrow> segments \<Rightarrow> lint_result" where
  "lintSkills d skillsPath =
     (if \<not> existsSync d skillsPath
      then \<lparr>lr_errors = [\<lparr>lm_skill_id = ''_global'', lm_message = ''Skills directory does not exist'', lm_severity = Error\<rparr>],
            lr_warnings = []\<rparr>
      else foldl (lint_skill d skillsPath) \<lparr>lr_errors = [], lr_warnings = []\<rparr> (subdirs d skillsPath))"

section \<open>Generator and packer\<close>

definition content_skill :: skill where
  "content_skill =
     \<lparr>skill_id = ''content_creation'', skill_name = ''Content Creation'',
      skill_description = ''Create written content following user taste and principles'',
      skill_tags = [''writing'', ''content'', ''creative''], risk_level = Risk_low, required_tools = [],
      compatible_runtimes = [''claude-code'', ''manus'', ''openclaw''], playbook_ref = None,
      prerequisites = None, feeds_into = None, alternatives = None, pipeline_phase = None,
      context_model = None, model_hint = None\<rparr>"

definition generated_lines :: "skill \<Rightarrow> constitution \<Rightarrow> string list" where
  \<open>generated_lines skill c =
   [''# '' @ skill_name skill,
    [],
    ''## Purpose'',
    [],
    skill_description skill,
    [],
    ''## When to use'',
    [],
    ''Use this skill when you need to create written content that follows the user's taste profile and principles.'',
    [],
    ''## When not to use'',
    [],
    ''Do not use this skill for:'',
    ''- Technical documentation (use technical writing skill instead)'',
    ''- Code generation (use code generation skill instead)'',
    ''- Data analysis reports (use data analysis skill instead)'',
    [],
    ''## Inputs'',
    [],
    ''- **topic**: The topic or subject to write about'',
    ''- **format**: Desired format (article, blog post, email, etc.)'',
    ''- **length**: Target length (short, medium, long)'',
    [],
    ''## Outputs'',
    [],
    ''- Written content following user's tone and principles'',
    ''- Metadata about the content (word count, reading time, etc.)'',
    [],
    ''## Procedure'',
    [],
    ''### Minimal context (always load)'',
    [],
    ''1. Review user's top principles:'',
    join [nl] (map (\<lambda>p. ''   - '' @ pr_statement p) (take 3 (cn_principles c))),
    [],
    ''2. Apply tone preferences:'',
    ''   - Voice: '' @ join '', '' (tn_voice_keywords (cn_tone c)),
    ''   - Avoid: '' @ or_text (join '', '' (tn_forbidden_phrases (cn_tone c))) ''none specified'',
    [],
    ''### On invoke (load when skill is invoked)'',
    [],
    ''3. Analyze the topic and determine appropriate structure'',
    ''4. Draft content following principles and tone'',
    ''5. Review for forbidden phrases and principle violations'',
    ''6. Refine and polish'',
    [],
    ''### On demand resources (load only if needed)'',
    [],
    ''- **examples.md**: Example content in user's preferred style'',
    ''- **templates/**: Content templates for different formats'',
    [],
    ''## Quality checks'',
    [],
    ''- [ ] Content follows top 3 principles'',
    ''- [ ] Tone matches voice keywords'',
    ''- [ ] No forbidden phrases used'',
    ''- [ ] Appropriate length for format'',
    ''- [ ] Clear structure and flow'',
    [],
    ''## Guardrail notes'',
    [],
    ''This skill does not require approval for:'',
    ''- Draft generation'',
    ''- Content refinement'',
    [],
    ''This skill requires approval for:'',
    ''- Publishing content externally'',
    ''- Sending content via email or messaging'',
    [],
    ''## Progressive disclosure'',
    [],
    ''This skill uses progressive disclosure to minimize context:'',
    ''- **Minimal context**: Top principles and tone (always loaded)'',
    ''- **On invoke**: Full procedure and quality checks (loaded when skill runs)'',
    ''- **On demand**: Examples and templates (loaded only if explicitly needed)'',
    []]\<close>

definition generateSkills :: "(skill list \<Rightarrow> string) \<Rightarrow> segments \<Rightarrow> constitution \<Rightarrow> disk \<Rightarrow> disk \<times> skill list" where
  "generateSkills yaml ws c d =
     (let skillsPath = ws @ [''skills''];
          d1 = writeFileSafe (skill_md skillsPath ''content_creation'') (join [nl] (generated_lines content_skill c)) d
      in (writeFileSafe (manifest_file skillsPath) (yaml [content_skill]) d1, [content_skill]))"

datatype pack_format = Zip | Dir

text \<open>\<open>cpSync\<close> with its default \<open>force: true\<close>: files of the source replace those of the target.\<close>

definition copy_over :: "segments \<Rightarrow> segments \<Rightarrow> disk \<Rightarrow> disk" where
  "copy_over src dest d =
     foldl (\<lambda>d pc. case below src (fst pc) of None \<Rightarrow> d | Some r \<Rightarrow> writeFileSafe (dest @ r) (snd pc) d)
       (foldl (copy_dir src dest) (ensureDir dest d) (dk_dirs d)) (dk_files d)"

definition packSkills :: "segments \<Rightarrow> segments \<Rightarrow> pack_format \<Rightarrow> disk \<Rightarrow> string + disk \<times> segments" where
  "packSkills skillsPath outputPath format d =
     (if \<not> existsSync d skillsPath then Inl ''Skills directory does not exist''
      else if format = Dir then Inr (copy_over skillsPath outputPath (make_dirs outputPath d), outputPath)
      else Inl ''ZIP format not yet implemented'')"

section \<open>The compiled library\<close>

lemma library_cases:
  "resolveDomainSkills k \<in> {ContentAgentSkills, ResearchAgentSkills, SalesAgentSkills, SupportAgentSkills,
     DevelopmentAgentSkills, GeneralAgentSkills, []}"
  by (simp add: resolveDomainSkills_def)

lemmas library_defs = ContentAgentSkills_def ResearchAgentSkills_def SalesAgentSkills_def SupportAgentSkills_def
  DevelopmentAgentSkills_def GeneralAgentSkills_def

lemma metadata_id [simp]: "skill_id (metadata_of s) = ds_skill_id s"
  by (simp add: metadata_of_def)

text \<open>Every shipped library is a pair of skills, the first of which feeds into the second, stated
  from both sides.\<close>

definition chained :: "domain_skill \<Rightarrow> domain_skill \<Rightarrow> bool" where
  "chained s t \<longleftrightarrow> ds_skill_id s \<noteq> ds_skill_id t
     \<and> ds_feeds_into s = Some [ds_skill_id t] \<and> ds_prerequisites s = None \<and> ds_alternatives s = None
     \<and> ds_feeds_into t = None \<and> ds_prerequisites t = Some [ds_skill_id s] \<and> ds_alternatives t = None"

lemma shipped_chained:
  "chained research_trends_skill generate_post_options_skill"
  "chained web_research_skill competitive_analysis_skill"
  "chained lead_qualification_skill outreach_email_skill"
  "chained ticket_triage_skill response_draft_skill"
  "chained code_review_skill refactor_plan_skill"
  "chained context_synthesis_skill task_orchestration_skill"
  by (simp_all add: chained_def research_trends_skill_def generate_post_options_skill_def web_research_skill_def
      competitive_analysis_skill_def lead_qualification_skill_def outreach_email_skill_def ticket_triage_skill_def
      response_draft_skill_def code_review_skill_def refactor_plan_skill_def context_synthesis_skill_def
      task_orchestration_skill_def)

lemma resolved_pair:
  assumes "resolveDomainSkills k \<noteq> []"
  obtains s t where "resolveDomainSkills k = [s, t]" "chained s t"
  using library_cases [of k] assms shipped_chained by (auto simp: library_defs)

text \<open>The graph of such a pair.\<close>

lemma pair_analysis:
  assumes "chained s t"
  shows "\<exists>r. analyzeSkillGraph [metadata_of s, metadata_of t] = Some r \<and> cycles r = [] \<and> missing_refs r = []"
proof -
  let ?ms = "[metadata_of s, metadata_of t]"
  have "skill_edges ?ms = {(ds_skill_id s, ds_skill_id t)}"
    using assms by (auto simp: skill_edges_def stated_edges_def chained_def metadata_of_def list_or_empty_def)
  then have "acyclic (skill_edges ?ms)"
    using assms by (auto simp: acyclic_def chained_def dest: tranclD2 elim: trancl.cases)
  moreover have "ga_missing (build_graph ?ms) = []"
    using assms by (simp add: build_graph_def add_skill_def add_feed_def add_prerequisite_def chained_def
        metadata_of_def list_or_empty_def empty_acc_def add_edge_def Let_def set_of_def set_add_def)
  ultimately show ?thesis
    by (rule_tac analysis_parts [of ?ms]) simp
qed

lemma generic_analysis:
  "\<exists>r. analyzeSkillGraph [generic_metadata] = Some r \<and> cycles r = [] \<and> missing_refs r = []"
proof -
  have "skill_edges [generic_metadata] = {}"
    by (simp add: skill_edges_def stated_edges_def generic_metadata_def list_or_empty_def)
  then have "acyclic (skill_edges [generic_metadata])" by (simp add: acyclic_def)
  moreover have "ga_missing (build_graph [generic_metadata]) = []"
    by (simp add: build_graph_def add_skill_def generic_metadata_def list_or_empty_def empty_acc_def Let_def set_of_def)
  ultimately show ?thesis
    by (rule_tac analysis_parts [of "[generic_metadata]"]) simp
qed

lemma library_facts:
  "library_skills session c \<noteq> []" "distinct (map (skill_id \<circ> fst) (library_skills session c))"
  "\<exists>r. analyzeSkillGraph (map fst (library_skills session c)) = Some r \<and> cycles r = [] \<and> missing_refs r = []"
proof -
  let ?ds = "resolveDomainSkills (ss_domain_id session)"
  have "library_skills session c \<noteq> [] \<and> distinct (map (skill_id \<circ> fst) (library_skills session c))
     \<and> (\<exists>r. analyzeSkillGraph (map fst (library_skills session c)) = Some r \<and> cycles r = [] \<and> missing_refs r = [])"
  proof (cases "?ds = []")
    case True
    with generic_analysis show ?thesis by (simp add: library_skills_def Let_def)
  next
    case False
    then obtain s t where "?ds = [s, t]" "chained s t" by (rule resolved_pair)
    with pair_analysis show ?thesis by (simp add: library_skills_def Let_def chained_def)
  qed
  then show "library_skills session c \<noteq> []" "distinct (map (skill_id \<circ> fst) (library_skills session c))"
    "\<exists>r. analyzeSkillGraph (map fst (library_skills session c)) = Some r \<and> cycles r = [] \<and> missing_refs r = []"
    by blast+
qed

section \<open>The written files\<close>

lemma unchanged_write_skill: "\<not> prefix q (skill_md p (skill_id (fst s))) \<Longrightarrow> unchanged d (write_skill p d s) q"
  by (simp add: write_skill_def unchanged_write)

lemma read_written:
  "read_file (foldl (write_skill p) d xs) q =
     (case map_of (rev (map (\<lambda>s. (skill_md p (skill_id (fst s)), snd s)) xs)) q of
        Some t \<Rightarrow> Some t | None \<Rightarrow> read_file d q)"
  by (induction xs rule: rev_induct) (auto simp: write_skill_def split: option.split)

lemma skill_md_inject [simp]: "skill_md p k = skill_md p k' \<longleftrightarrow> k = k'"
  by (simp add: skill_md_def)

lemma written_content:
  assumes "distinct (map (skill_id \<circ> fst) xs)" "s \<in> set xs"
  shows "read_file (foldl (write_skill p) d xs) (skill_md p (skill_id (fst s))) = Some (snd s)"
proof -
  have "map_of (rev (map (\<lambda>s. (skill_md p (skill_id (fst s)), snd s)) xs)) (skill_md p (skill_id (fst s))) = Some (snd s)"
    using assms by (intro map_of_is_SomeI) (auto simp: rev_map [symmetric] comp_def distinct_map inj_on_def)
  then show ?thesis by (simp add: read_written)
qed

lemma manifest_not_skill [simp]: "manifest_file p \<noteq> skill_md p k" "skill_md p k \<noteq> manifest_file p"
  by (simp_all add: manifest_file_def skill_md_def)

lemma unchanged_library: "\<not> along p q \<Longrightarrow> unchanged d (foldl (write_skill p) d xs) q"
  by (rule unchanged_fold, rule unchanged_write_skill) (auto simp: skill_md_def dest: along_append)

lemma unchanged_compile:
  "compileSkills yaml ws session c d = (d', arts) \<Longrightarrow> \<not> along (resolveSkillsPath d ws) q \<Longrightarrow> unchanged d d' q"
  by (auto simp: compileSkills_def Let_def manifest_file_def intro!: unchanged_trans [OF unchanged_library unchanged_write]
      dest: along_append)

lemma exists_write: "existsSync d q \<Longrightarrow> existsSync (writeFileSafe p t d) q"
  by (auto simp: existsSync_def writeFileSafe_def is_dir_def dest: is_dir_ensureDir [unfolded is_dir_def])

lemma is_dir_write: "is_dir d q \<Longrightarrow> is_dir (writeFileSafe p t d) q"
  by (auto simp: writeFileSafe_def is_dir_def dest: is_dir_ensureDir [unfolded is_dir_def])

lemma exists_library: "existsSync d q \<Longrightarrow> existsSync (foldl (write_skill p) d xs) q"
  by (induction xs arbitrary: d) (simp_all add: write_skill_def exists_write)

lemma is_dir_library: "is_dir d q \<Longrightarrow> is_dir (foldl (write_skill p) d xs) q"
  by (induction xs arbitrary: d) (simp_all add: write_skill_def is_dir_write)

lemma tree_above: "tree d \<Longrightarrow> existsSync d (p @ r) \<Longrightarrow> existsSync d p"
  using tree_parent [of d p r] by (cases "r = []") (auto simp: existsSync_def)

lemma write_exists_below:
  assumes "tree d" "r \<noteq> []"
  shows "existsSync (writeFileSafe (p @ r) t d) p"
proof (cases "existsSync d p")
  case True
  then show ?thesis by (rule exists_write)
next
  case False
  have bl: "butlast (p @ r) = p @ butlast r" using assms(2) by (simp add: butlast_append)
  have "\<not> existsSync d (p @ butlast r)"
    using False tree_above [OF assms(1), of p "butlast r"] by blast
  moreover have "p \<in> set (dk_dirs (make_dirs (p @ butlast r) d))"
    by (auto simp: dirs_make intro!: exI [of _ "length p"])
  ultimately show ?thesis
    by (simp add: existsSync_def is_dir_def writeFileSafe_def bl ensureDir_def)
qed

lemma skills_path_stays:
  assumes t: "tree d" and c: "compileSkills yaml ws session c d = (d', arts)"
  shows "resolveSkillsPath d' ws = resolveSkillsPath d ws"
proof -
  let ?p = "resolveSkillsPath d ws" and ?new = "knowledgePath ws [''skills'']" and ?old = "ws @ [''skills'']"
  obtain x xs where lib: "library_skills session c = x # xs"
    using library_facts(1) by (cases "library_skills session c") auto
  have "existsSync (write_skill ?p d x) ?p"
    unfolding write_skill_def skill_md_def by (rule write_exists_below [OF t]) simp
  with c lib have p: "existsSync d' ?p"
    by (auto simp: compileSkills_def Let_def intro: exists_write exists_library)
  show ?thesis
  proof (cases "existsSync d ?new \<or> \<not> existsSync d ?old")
    case True
    then have "?p = ?new" by (auto simp: resolveSkillsPath_def Let_def)
    with p show ?thesis by (simp add: resolveSkillsPath_def Let_def)
  next
    case False
    then have "?p = ?old" by (simp add: resolveSkillsPath_def Let_def)
    moreover from this have "\<not> along ?p ?new" by (simp add: along_def knowledgePath_def)
    from unchanged_exists [OF unchanged_compile [OF c this]] False have "\<not> existsSync d' ?new" by simp
    ultimately show ?thesis using p by (simp add: resolveSkillsPath_def Let_def)
  qed
qed

text \<open>
  C13. A compilation leaves a complete skill library, whatever the domain of the session: there is
  always a skill; each one has its SKILL.md with the text the compiler chose, and the manifest lists
  exactly these skills, with distinct ids; the graph of the manifest has no cycle and refers to no
  missing skill. Nothing outside the skills directory changes, and the directory is the one that
  later readers resolve.
\<close>

theorem compiled_library_complete:
  assumes "tree d" "compileSkills yaml ws session c d = (d', arts)" "p = resolveSkillsPath d ws"
    "lib = library_skills session c"
  shows "lib \<noteq> [] \<and> distinct (map (skill_id \<circ> fst) lib)
     \<and> (\<forall>(m, t) \<in> set lib. read_file d' (skill_md p (skill_id m)) = Some t)
     \<and> read_file d' (manifest_file p) = Some (yaml (map fst lib))
     \<and> (\<exists>r. analyzeSkillGraph (map fst lib) = Some r \<and> cycles r = [] \<and> missing_refs r = [])
     \<and> (\<forall>q. \<not> prefix p q \<longrightarrow> read_file d' q = read_file d q)
     \<and> resolveSkillsPath d' ws = p"
proof -
  have d': "d' = writeFileSafe (manifest_file p) (yaml (map fst lib)) (foldl (write_skill p) d lib)"
    using assms by (simp add: compileSkills_def Let_def)
  have dist: "distinct (map (skill_id \<circ> fst) lib)" unfolding assms(4) by (rule library_facts)
  have "read_file d' q = read_file d q" if "\<not> prefix p q" for q
  proof -
    have "map_of (rev (map (\<lambda>s. (skill_md p (skill_id (fst s)), snd s)) lib)) q = None"
      using that by (auto simp: map_of_eq_None_iff skill_md_def)
    moreover have "manifest_file p \<noteq> q" using that by (auto simp: manifest_file_def)
    ultimately show ?thesis by (simp add: d' read_written)
  qed
  with library_facts [of session c] skills_path_stays [OF assms(1,2)] written_content [OF dist] show ?thesis
    unfolding assms(3,4) [symmetric] by (auto simp: d')
qed

section \<open>Linting what was written\<close>

definition errors_of :: "disk \<Rightarrow> segments \<Rightarrow> string \<Rightarrow> string list" where
  "errors_of d p k =
     (case read_file d (skill_md p k) of None \<Rightarrow> [''SKILL.md not found'']
      | Some content \<Rightarrow> map (\<lambda>section. ''Missing required section: '' @ section) (sections_missing content))"

lemma lint_errors_fold:
  "lr_errors (foldl (lint_skill d p) r ks) =
     lr_errors r @ concat (map (\<lambda>k. map (\<lambda>m. \<lparr>lm_skill_id = k, lm_message = m, lm_severity = Error\<rparr>) (errors_of d p k)) ks)"
proof (induction ks arbitrary: r)
  case (Cons k ks)
  have "lr_errors (lint_skill d p r k) =
      lr_errors r @ map (\<lambda>m. \<lparr>lm_skill_id = k, lm_message = m, lm_severity = Error\<rparr>) (errors_of d p k)"
    by (simp add: lint_skill_def lint_content_def errors_of_def Let_def comp_def split: option.split)
  with Cons show ?case by simp
qed simp

lemma lint_errors_set:
  assumes "existsSync d p"
  shows "set (lr_errors (lintSkills d p)) =
     {\<lparr>lm_skill_id = k, lm_message = m, lm_severity = Error\<rparr> | k m. is_dir d (p @ [k]) \<and> m \<in> set (errors_of d p k)}"
proof -
  have "set (subdirs d p) = {last q | q. q \<in> set (dk_dirs d) \<and> q \<noteq> [] \<and> butlast q = p}"
    unfolding subdirs_def List.map_filter_def by auto
  then have "k \<in> set (subdirs d p) \<longleftrightarrow> is_dir d (p @ [k])" for k
    unfolding is_dir_def by (auto intro: exI [of _ "p @ [k]"])
  with assms show ?thesis by (auto simp: lintSkills_def lint_errors_fold)
qed

lemma written_dir:
  assumes "read_file d (p @ [skill_id (fst s)]) = None" "s \<in> set xs"
  shows "is_dir (foldl (write_skill p) d xs) (p @ [skill_id (fst s)])"
  using assms
proof (induction xs arbitrary: d)
  case (Cons x xs)
  have none: "read_file (write_skill p d x) (p @ [skill_id (fst s)]) = None"
    using Cons.prems(1) by (simp add: write_skill_def skill_md_def)
  show ?case
  proof (cases "s = x")
    case True
    have "is_dir (write_skill p d x) (p @ [skill_id (fst x)])"
      using Cons.prems(1) True
      by (auto simp: write_skill_def skill_md_def writeFileSafe_def is_dir_def ensureDir_def existsSync_def
          dirs_make butlast_append intro: exI [of _ "Suc (length p)"])
    with True show ?thesis by (auto intro: is_dir_library)
  next
    case False
    with Cons none show ?thesis by simp
  qed
qed simp

lemma shipped_sections:
  "m \<in> set (resolveDomainSkills k) \<Longrightarrow>
     sections_missing (ds_skill_md_content m) = [''When not to use'', ''Progressive disclosure'']"
  using library_cases [of k]
  by (auto simp: library_defs research_trends_skill_sections generate_post_options_skill_sections
      web_research_skill_sections competitive_analysis_skill_sections lead_qualification_skill_sections
      outreach_email_skill_sections ticket_triage_skill_sections response_draft_skill_sections
      code_review_skill_sections refactor_plan_skill_sections context_synthesis_skill_sections
      task_orchestration_skill_sections research_trends_skill_def generate_post_options_skill_def
      web_research_skill_def competitive_analysis_skill_def lead_qualification_skill_def outreach_email_skill_def
      ticket_triage_skill_def response_draft_skill_def code_review_skill_def refactor_plan_skill_def
      context_synthesis_skill_def task_orchestration_skill_def)

text \<open>The generic text quotes principles, voice keywords and forbidden phrases: one of them can hold the
  heading that is missing.\<close>

definition disclosure_heading :: string where
  "disclosure_heading = ''## Progressive disclosure''"

definition quotes_section :: "constitution \<Rightarrow> bool" where
  "quotes_section c \<longleftrightarrow> list_ex (\<lambda>s. str_includes s disclosure_heading)
     (map pr_statement (take 5 (cn_principles c)) @ tn_voice_keywords (cn_tone c) @ tn_forbidden_phrases (cn_tone c))"

lemma disclosure_split: "''## '' @ ''Progressive disclosure'' = disclosure_heading"
  by (simp add: disclosure_heading_def)

lemma heading_member [simp]: "nl \<notin> set disclosure_heading" "CHR '','' \<notin> set disclosure_heading" "disclosure_heading \<noteq> []"
  by (simp_all add: disclosure_heading_def)

lemma heading_later: "c \<noteq> CHR ''#'' \<Longrightarrow> str_includes (c # s) disclosure_heading \<longleftrightarrow> str_includes s disclosure_heading"
  by (simp add: str_includes_Cons disclosure_heading_def)

lemma heading_comma: "str_includes (join '', '' xs) disclosure_heading \<longleftrightarrow> list_ex (\<lambda>x. str_includes x disclosure_heading) xs"
proof (induction "'', ''" xs rule: join.induct)
  case (3 x y ys)
  have "str_includes (x @ CHR '','' # CHR '' '' # join '', '' (y # ys)) disclosure_heading
      \<longleftrightarrow> str_includes x disclosure_heading \<or> str_includes (CHR '' '' # join '', '' (y # ys)) disclosure_heading"
    by (rule includes_sep) simp_all
  with 3 show ?case by (simp add: heading_later del: join.simps) (simp add: heading_later)
qed (simp_all add: str_includes_Nil)

lemma generic_heading:
  "str_includes (join [nl] (generic_lines c)) disclosure_heading \<longleftrightarrow> quotes_section c"
proof -
  let ?inc = "\<lambda>s. str_includes s disclosure_heading"
  let ?ps = "join [nl] (map (\<lambda>p. ''- '' @ pr_statement p) (take 5 (cn_principles c)))"
  let ?or = "\<lambda>ks d. or_text (join '', '' ks) d"
  have or: "?inc (?or ks d) \<longleftrightarrow> list_ex ?inc ks" if "\<not> ?inc d" for ks d
    using that heading_comma [of ks] by (auto simp: or_text_def str_includes_Nil)
  have none: "\<not> ?inc ''not specified''" "\<not> ?inc ''none''" by (simp_all add: heading_later str_includes_Nil)
  have ps: "?inc ?ps \<longleftrightarrow> list_ex ?inc (map pr_statement (take 5 (cn_principles c)))"
    by (simp add: includes_join list_ex_iff heading_later)
  have gen: "list_ex ?inc (generic_lines c) \<longleftrightarrow> ?inc ?ps \<or> ?inc (?or (tn_voice_keywords (cn_tone c)) ''not specified'')
      \<or> ?inc (?or (tn_forbidden_phrases (cn_tone c)) ''none'')"
    by (simp add: generic_lines_def Let_def generic_metadata_def heading_later str_includes_Nil)
      (simp add: includes_eval disclosure_heading_def)
  show ?thesis
    using gen unfolding ps or [OF none(1)] or [OF none(2)] by (auto simp: includes_join quotes_section_def list_ex_iff)
qed

lemma section_present: "(''## '' @ s) \<in> set ls \<Longrightarrow> str_includes (join [nl] ls) (''## '' @ s)"
  if "s \<in> set REQUIRED_SECTIONS"
proof -
  assume "(''## '' @ s) \<in> set ls"
  moreover have "nl \<notin> set (''## '' @ s)" using that by (auto simp: REQUIRED_SECTIONS_def)
  moreover have "str_includes (''## '' @ s) (''## '' @ s)"
    by (simp add: str_includes_Cons del: starts_with.simps) (metis append_Cons append_Nil append_Nil2 starts_with_append)
  ultimately show ?thesis by (subst includes_join) auto
qed

lemma generic_sections:
  "sections_missing (join [nl] (generic_lines c)) = (if quotes_section c then [] else [''Progressive disclosure''])"
proof -
  let ?t = "join [nl] (generic_lines c)"
  have "list_all (\<lambda>s. (''## '' @ s) \<in> set (generic_lines c)) (butlast REQUIRED_SECTIONS)"
    unfolding REQUIRED_SECTIONS_def generic_lines_def by (simp add: Let_def)
  then have "\<forall>s \<in> set (butlast REQUIRED_SECTIONS). str_includes ?t (''## '' @ s)"
    by (auto simp only: list_all_iff intro!: section_present dest: in_set_butlastD)
  then have "filter (\<lambda>s. \<not> str_includes ?t (''## '' @ s)) (butlast REQUIRED_SECTIONS) = []"
    by (simp only: filter_empty_conv not_not)
  moreover have "REQUIRED_SECTIONS = butlast REQUIRED_SECTIONS @ [''Progressive disclosure'']"
    by (simp add: REQUIRED_SECTIONS_def)
  ultimately have "sections_missing ?t =
      filter (\<lambda>s. \<not> str_includes ?t (''## '' @ s)) [''Progressive disclosure'']"
    unfolding sections_missing_def by (metis append_Nil filter_append)
  then show ?thesis
    by (simp only: filter.simps disclosure_split generic_heading) simp
qed

lemma generated_sections: "sections_missing (join [nl] (generated_lines k c)) = []"
proof -
  have "list_all (\<lambda>s. (''## '' @ s) \<in> set (generated_lines k c)) REQUIRED_SECTIONS"
    unfolding REQUIRED_SECTIONS_def generated_lines_def by simp
  then have "str_includes (join [nl] (generated_lines k c)) (''## '' @ s)" if "s \<in> set REQUIRED_SECTIONS" for s
    using that section_present [OF that] by (simp add: list_all_iff)
  then show ?thesis by (simp add: sections_missing_def filter_empty_conv)
qed

definition messages_about :: "lint_result \<Rightarrow> string \<Rightarrow> string set" where
  "messages_about r k = lm_message ` {e \<in> set (lr_errors r). lm_skill_id e = k}"

lemma compiled_messages:
  assumes "tree d" "compileSkills yaml ws session c d = (d', arts)" "p = resolveSkillsPath d ws"
    "(m, t) \<in> set (library_skills session c)" "read_file d (p @ [skill_id m]) = None"
  shows "messages_about (lintSkills d' p) (skill_id m) = (\<lambda>s. ''Missing required section: '' @ s) ` set (sections_missing t)"
proof -
  let ?lib = "library_skills session c"
  have d': "d' = writeFileSafe (manifest_file p) (yaml (map fst ?lib)) (foldl (write_skill p) d ?lib)"
    using assms(2,3) by (simp add: compileSkills_def Let_def)
  have dir: "is_dir d' (p @ [skill_id m])"
    unfolding d' by (rule is_dir_write) (use written_dir [of d p "(m, t)" ?lib] assms(4,5) in simp)
  have "read_file d' (skill_md p (skill_id m)) = Some t"
    using written_content [OF library_facts(2) assms(4)] by (simp add: d')
  then have e: "errors_of d' p (skill_id m) = map (\<lambda>s. ''Missing required section: '' @ s) (sections_missing t)"
    by (simp add: errors_of_def)
  have "existsSync d' p"
  proof -
    obtain x xs where lib: "?lib = x # xs" using library_facts(1) by (cases ?lib) auto
    have "existsSync (write_skill p d x) p"
      unfolding write_skill_def skill_md_def by (rule write_exists_below [OF assms(1)]) simp
    then show ?thesis by (simp add: d' lib exists_write exists_library)
  qed
  from lint_errors_set [OF this] dir e show ?thesis
    by (force simp: messages_about_def)
qed

text \<open>
  C14. The compiled skills do not pass the linter of the same library. After a compilation for any
  of the six domains, into a skills directory without a file in the place of a skill, linting the
  directory is invalid, and the errors about each shipped skill are exactly two: the sections "When
  not to use" and "Progressive disclosure" are reported missing, because the shipped texts spell them
  with other capitals. The generic skill of a session without a known domain lacks "Progressive
  disclosure", unless one of the principles, voice keywords or forbidden phrases that its text quotes
  happens to contain that heading; the text of the older generator has every section, for every
  constitution.
\<close>

theorem compiled_skills_fail_lint:
  assumes "tree d" "compileSkills yaml ws session c d = (d', arts)" "p = resolveSkillsPath d ws"
    "\<forall>(m, t) \<in> set (library_skills session c). read_file d (p @ [skill_id m]) = None"
  shows "(resolveDomainSkills (ss_domain_id session) \<noteq> [] \<longrightarrow> \<not> lr_valid (lintSkills d' p)
       \<and> (\<forall>s \<in> set (resolveDomainSkills (ss_domain_id session)). messages_about (lintSkills d' p) (ds_skill_id s) =
            {''Missing required section: When not to use'', ''Missing required section: Progressive disclosure''}))
     \<and> (resolveDomainSkills (ss_domain_id session) = [] \<longrightarrow>
          messages_about (lintSkills d' p) ''general-task'' =
            (if quotes_section c then {} else {''Missing required section: Progressive disclosure''}))
     \<and> sections_missing (join [nl] (generated_lines content_skill c)) = []"
proof (intro conjI impI)
  let ?ds = "resolveDomainSkills (ss_domain_id session)"
  have msgs: "messages_about (lintSkills d' p) (ds_skill_id s) =
      {''Missing required section: When not to use'', ''Missing required section: Progressive disclosure''}"
    if "s \<in> set ?ds" for s
  proof -
    have "(metadata_of s, ds_skill_md_content s) \<in> set (library_skills session c)"
      using that by (auto simp: library_skills_def Let_def)
    moreover from bspec [OF assms(4) this] have "read_file d (p @ [skill_id (metadata_of s)]) = None" by simp
    ultimately show ?thesis using compiled_messages [OF assms(1-3)] shipped_sections [OF that] by fastforce
  qed
  then show "\<forall>s \<in> set ?ds. messages_about (lintSkills d' p) (ds_skill_id s) =
      {''Missing required section: When not to use'', ''Missing required section: Progressive disclosure''}"
    by blast
  show "\<not> lr_valid (lintSkills d' p)" if "?ds \<noteq> []"
  proof -
    from that obtain s where "s \<in> set ?ds" by (cases ?ds) auto
    from msgs [OF this] have "messages_about (lintSkills d' p) (ds_skill_id s) \<noteq> {}" by simp
    then show ?thesis by (simp only: messages_about_def lr_valid_def) auto
  qed
  show "messages_about (lintSkills d' p) ''general-task'' =
      (if quotes_section c then {} else {''Missing required section: Progressive disclosure''})"
    if "?ds = []"
  proof -
    have l: "(generic_metadata, join [nl] (generic_lines c)) \<in> set (library_skills session c)"
      using that by (simp add: library_skills_def Let_def)
    have "skill_id generic_metadata = ''general-task''" by (simp add: generic_metadata_def)
    moreover have "read_file d (p @ [skill_id generic_metadata]) = None" using bspec [OF assms(4) l] by simp
    from compiled_messages [OF assms(1-3) l this] have "messages_about (lintSkills d' p) (skill_id generic_metadata) =
        (if quotes_section c then {} else {''Missing required section: Progressive disclosure''})"
      by (simp add: generic_sections)
    ultimately show ?thesis by simp
  qed
qed (rule generated_sections)

definition empty_disk :: disk where
  "empty_disk = \<lparr>dk_files = [], dk_dirs = [[], [''w'']]\<rparr>"

definition sales_session :: session where
  "sales_session = \<lparr>ss_session_id = ''s1'', ss_domain_id = Some ''sales-agent'',
     ss_answers = \<lparr>fa_key_principles = None, fa_primary_goal = None, fa_voice_keywords = None,
       fa_forbidden_phrases = None, fa_accuracy_vs_speed = None, fa_autonomy_level = None, fa_raw = JObj []\<rparr>,
     ss_structured = None, ss_llm_provider = None\<rparr>"

lemma sales_skills: "resolveDomainSkills (ss_domain_id sales_session) = [lead_qualification_skill, outreach_email_skill]"
  by (simp add: resolveDomainSkills_def sales_session_def library_defs)

lemma empty_disk_tree: "tree empty_disk"
  by (simp add: tree_def empty_disk_def)

theorem compiled_library_complete_witness:
  "\<exists>d' arts t. compileSkills (\<lambda>_. ''m'') [''w''] sales_session (compileConstitution sales_session ''1'' ''t'') empty_disk = (d', arts)
     \<and> read_file d' [''w'', ''knowledge'', ''skills'', ''outreach-email'', ''SKILL.md''] = Some t"
proof -
  let ?c = "compileConstitution sales_session ''1'' ''t''"
  obtain d' arts where r: "compileSkills (\<lambda>_. ''m'') [''w''] sales_session ?c empty_disk = (d', arts)"
    by fastforce
  have p: "resolveSkillsPath empty_disk [''w''] = [''w'', ''knowledge'', ''skills'']"
    by (simp add: resolveSkillsPath_def empty_disk_def knowledgePath_def existsSync_def read_file_def is_dir_def Let_def)
  have "ds_skill_id outreach_email_skill = ''outreach-email''" by (simp add: outreach_email_skill_def)
  with compiled_library_complete [OF empty_disk_tree r refl refl] r show ?thesis
    by (auto simp: p library_skills_def sales_skills Let_def skill_md_def)
qed

theorem compiled_skills_fail_lint_witness:
  "\<exists>d' arts. compileSkills (\<lambda>_. ''m'') [''w''] sales_session (compileConstitution sales_session ''1'' ''t'') empty_disk = (d', arts)
     \<and> \<not> lr_valid (lintSkills d' [''w'', ''knowledge'', ''skills''])"
proof -
  let ?c = "compileConstitution sales_session ''1'' ''t''"
  obtain d' arts where r: "compileSkills (\<lambda>_. ''m'') [''w''] sales_session ?c empty_disk = (d', arts)"
    by fastforce
  have p: "resolveSkillsPath empty_disk [''w''] = [''w'', ''knowledge'', ''skills'']"
    by (simp add: resolveSkillsPath_def empty_disk_def knowledgePath_def existsSync_def read_file_def is_dir_def Let_def)
  have "\<forall>(m, t) \<in> set (library_skills sales_session ?c). read_file empty_disk (q @ [skill_id m]) = None" for q
    by (simp add: empty_disk_def read_file_def)
  from compiled_skills_fail_lint [OF empty_disk_tree r refl this] r show ?thesis
    by (auto simp: p sales_skills)
qed

end
