(* ===== verification/Generators.thy ===== *)
theory Generators
  imports Host Trust MemoryPolicy SkillsLibrary
begin

text \<open>
  TasteKit core, generators/*.ts: the blocks of a CLAUDE.md, its generator, and the hook scripts with
  their manifest. Every block is a function of the context that gives the lines of a section, or
  nothing. \<open>num\<close> prints a number.
\<close>

section \<open>Context\<close>

record vocabulary =
  vo_principles_heading :: "string option"
  vo_guardrails_heading :: "string option"
  vo_skills_heading :: "string option"
  vo_constitution_label :: "string option"
  vo_skill_label :: "string option"
  vo_playbook_label :: "string option"
  vo_compile_verb :: "string option"
  vo_drift_verb :: "string option"
  vo_custom :: "(string \<times> string) list option"

record generator_context =
  gx_generator_version :: string
  gx_constitution :: "constitution option"
  gx_guardrails :: "guardrails option"
  gx_memory :: "memory_policy option"
  gx_bindings :: "bindings option"
  gx_skills :: "skill list option"
  gx_domain_id :: "string option"
  gx_vocabulary :: "vocabulary option"
  gx_has_playbooks :: bool
  gx_has_evalpack :: bool

type_synonym block = "generator_context \<Rightarrow> string list option"

definition em_dash :: string where "em_dash = [CHR 0xE2, CHR 0x80, CHR 0x94]"
definition arrow_right :: string where "arrow_right = [CHR 0xE2, CHR 0x86, CHR 0x92]"
definition ellipsis :: string where "ellipsis = [CHR 0xE2, CHR 0x80, CHR 0xA6]"
definition backtick :: string where "backtick = [CHR 0x60]"

text \<open>\<open>ctx.vocabulary?.name ?? fallback\<close>.\<close>

definition term_or :: "(vocabulary \<Rightarrow> string option) \<Rightarrow> string \<Rightarrow> generator_context \<Rightarrow> string" where
  "term_or sel dflt ctx = (case Option.bind (gx_vocabulary ctx) sel of None \<Rightarrow> dflt | Some s \<Rightarrow> s)"

definition truthy_text :: "string option \<Rightarrow> bool" where
  "truthy_text t \<longleftrightarrow> t \<noteq> None \<and> t \<noteq> Some []"

section \<open>Blocks\<close>

definition principle_lines :: "principle \<Rightarrow> string list" where
  "principle_lines p =
     (show_int (pr_priority p) @ ''. **['' @ pr_id p @ '']** '' @ pr_statement p)
     # (case pr_rationale p of Some r \<Rightarrow> if r \<noteq> [] then [''   _'' @ r @ ''_''] else [] | None \<Rightarrow> [])"

definition quoted :: "string \<Rightarrow> string" where
  "quoted s = ''\"'' @ s @ ''\"''"

definition tone_lines :: "tone \<Rightarrow> string list" where
  "tone_lines t =
     (''**Voice:** '' @ join '', '' (tn_voice_keywords t))
     # (if tn_forbidden_phrases t \<noteq> [] then [''**Never say:** '' @ join '', '' (map quoted (tn_forbidden_phrases t))] else [])
     @ (if tn_formatting_rules t \<noteq> [] then [''**Formatting:** '' @ join ''. '' (tn_formatting_rules t)] else [])"

definition tradeoff_line :: "(rat \<Rightarrow> string) \<Rightarrow> tradeoffs \<Rightarrow> string" where
  "tradeoff_line num t =
     (let acc = to_accuracy_vs_speed t; cost = to_cost_sensitivity t; auto = to_autonomy_level t;
          accLabel = (if 6 / 10 \<le> acc then ''Accuracy over speed'' else if acc \<le> 4 / 10 then ''Speed over accuracy'' else ''Balanced accuracy/speed'');
          costLabel = (if 6 / 10 \<le> cost then ''High cost sensitivity'' else if cost \<le> 3 / 10 then ''Low cost sensitivity'' else ''Moderate cost sensitivity'');
          autoLabel = (if 7 / 10 \<le> auto then ''Mostly autonomous'' else if auto \<le> 3 / 10 then ''Always ask first'' else ''Moderate autonomy'')
      in ''**Tradeoffs:** '' @ accLabel @ '' ('' @ num acc @ ''). '' @ costLabel @ '' ('' @ num cost @ ''). '' @ autoLabel @ '' ('' @ num auto @ '').'')"

definition identityBlock :: "(rat \<Rightarrow> string) \<Rightarrow> block" where
  "identityBlock num ctx =
     (case gx_constitution ctx of
        None \<Rightarrow> None
      | Some c \<Rightarrow> Some (
          [''## '' @ term_or vo_principles_heading ''Identity & Principles'' ctx, []]
          @ concat (map principle_lines (take 5 (cn_principles c)))
          @ (if 5 < length (cn_principles c)
             then [[nl] @ ''_'' @ ellipsis @ ''and '' @ show_nat (length (cn_principles c) - 5) @ '' more principles (see full constitution)._''] else [])
          @ [[]] @ tone_lines (cn_tone c) @ [[], tradeoff_line num (cn_tradeoffs c)]))"

definition bullet :: "string \<Rightarrow> string" where
  "bullet s = ''- '' @ s"

definition titled :: "string \<Rightarrow> string list \<Rightarrow> string list" where
  "titled title items = (if items \<noteq> [] then title # items @ [[]] else [])"

definition taboo_lines :: "taboos \<Rightarrow> string list" where
  "taboo_lines t = titled ''### Always require approval'' (map bullet (tb_must_escalate t))
     @ titled ''### Never do'' (map bullet (tb_never_do t))"

fun action_name :: "approval_action \<Rightarrow> string" where
  "action_name Require_approval = ''require_approval''"
| "action_name Block = ''block''"
| "action_name Allow = ''allow''"

fun channel_name :: "approval_channel \<Rightarrow> string" where
  "channel_name Cli = ''cli''"
| "channel_name Ui = ''ui''"
| "channel_name Webhook = ''webhook''"

fun operation_name :: "operation \<Rightarrow> string" where
  "operation_name Op_read = ''read''"
| "operation_name Op_write = ''write''"
| "operation_name Op_delete = ''delete''"
| "operation_name Op_execute = ''execute''"
| "operation_name Op_post = ''post''"
| "operation_name Op_publish = ''publish''"
| "operation_name Op_admin = ''admin''"

definition approval_line :: "approval \<Rightarrow> string" where
  "approval_line r = ''- **'' @ rule_id r @ ''**: When '' @ rule_when r @ '' '' @ arrow_right @ '' '' @ action_name (rule_action r)
     @ '' (via '' @ channel_name (rule_channel r) @ '')''"

definition limit_line :: "rate_limit \<Rightarrow> string" where
  "limit_line r = ''- '' @ rl_tool_ref r @ '' '' @ em_dash @ '' max '' @ show_int (rl_limit r) @ ''/'' @ rl_window r"

definition guardrailsBlock :: block where
  "guardrailsBlock ctx =
     (if gx_guardrails ctx = None \<and> gx_constitution ctx = None then None
      else Some (
        [''## '' @ term_or vo_guardrails_heading ''Guardrails'' ctx, []]
        @ (case gx_constitution ctx of None \<Rightarrow> [] | Some c \<Rightarrow> taboo_lines (cn_taboos c))
        @ (case gx_guardrails ctx of None \<Rightarrow> []
           | Some g \<Rightarrow> titled ''### Approval rules'' (map approval_line (gr_approvals g))
               @ titled ''### Rate limits'' (map limit_line (gr_rate_limits g)))))"

definition DOMAIN_GUIDANCE :: "(string \<times> string list) list" where
  "DOMAIN_GUIDANCE =
    [(''content-agent'',
      [''This agent specializes in content creation and brand management.'',
       ''- Follow platform-specific guidelines for each channel'',
       ''- Maintain brand voice consistency across all content'',
       ''- Check content against brand archetype before publishing'',
       ''- Track engagement metrics and adapt strategy accordingly'']),
     (''research-agent'',
      [''This agent specializes in research and analysis.'',
       ''- Always cite sources with verifiable references'',
       ''- Distinguish between primary and secondary sources'',
       ''- Flag confidence levels for findings'',
       ''- Maintain methodological rigor in analysis'']),
     (''sales-agent'',
      [''This agent specializes in sales and outreach.'',
       ''- Respect CAN-SPAM and GDPR compliance rules'',
       ''- Personalize outreach beyond basic name-swapping'',
       ''- Follow the sales methodology defined in principles'',
       ''- Track pipeline stages and follow-up cadence'']),
     (''support-agent'',
      [''This agent specializes in customer support.'',
       ''- Match response tone to customer emotional state'',
       ''- Follow SLA deadlines based on ticket priority'',
       ''- Escalate appropriately '' @ em_dash @ '' never promise what cannot be delivered'',
       ''- Maintain separate internal notes from customer-facing content'']),
     (''development-agent'',
      [''This agent specializes in software development.'',
       ''- Review code against engineering standards before suggesting changes'',
       ''- Prioritize correctness and security over cleverness'',
       ''- Follow existing codebase patterns and conventions'',
       ''- Write tests for new functionality''])]"

definition domainContextBlock :: block where
  "domainContextBlock ctx =
     (case gx_domain_id ctx of
        None \<Rightarrow> None
      | Some k \<Rightarrow>
          if k = [] then None
          else map_option (\<lambda>guidance. [''## Domain Context'', [], join [nl] guidance]) (map_of DOMAIN_GUIDANCE k))"

fun risk_name :: "skill_risk \<Rightarrow> string" where
  "risk_name Risk_low = ''low''"
| "risk_name Risk_med = ''med''"
| "risk_name Risk_high = ''high''"

text \<open>Only a text of more than 60 units is cut.\<close>

definition short_description :: "string \<Rightarrow> string" where
  "short_description s = (if 60 < utf16_length s then take_units 57 s @ ''...'' else s)"

definition skill_row :: "skill \<Rightarrow> string" where
  "skill_row s = ''| '' @ skill_name s @ '' | '' @ risk_name (risk_level s) @ '' | '' @ short_description (skill_description s) @ '' |''"

definition pipeline_names :: "skill list \<Rightarrow> string list" where
  "pipeline_names skills =
     concat (map (\<lambda>s. concat (map (\<lambda>target.
        case List.find (\<lambda>t. skill_id t = target) skills of
          None \<Rightarrow> [] | Some t \<Rightarrow> [skill_name s @ '' '' @ arrow_right @ '' '' @ skill_name t])
        (list_or_empty (feeds_into s)))) skills)"

definition skillsIndexBlock :: block where
  "skillsIndexBlock ctx =
     (case gx_skills ctx of
        None \<Rightarrow> None
      | Some skills \<Rightarrow>
          if skills = [] then None
          else let pipelines = pipeline_names skills
               in Some ([''## '' @ term_or vo_skills_heading ''Available Skills'' ctx, [],
                   ''| '' @ term_or vo_skill_label ''Skill'' ctx @ '' | Risk | When to use |'', ''|-------|------|-------------|'']
                 @ map skill_row skills
                 @ (if pipelines \<noteq> [] then [[], ''**Pipelines:**''] @ map bullet pipelines else [])))"

definition in_backticks :: "string \<Rightarrow> string" where
  "in_backticks s = backtick @ s @ backtick"

definition tool_line :: "bindings_tool \<Rightarrow> string" where
  "tool_line t = ''- '' @ in_backticks (bt_tool_ref t)
     @ (case bt_risk_hints t of Some hs \<Rightarrow> if hs \<noteq> [] then '' _('' @ join '', '' hs @ '')_'' else [] | None \<Rightarrow> [])"

definition server_lines :: "bindings_server \<Rightarrow> string list" where
  "server_lines s =
     [''### '' @ bs_name s]
     @ (if bs_tools s \<noteq> [] then ''**Tools:**'' # map tool_line (bs_tools s) else [])
     @ (case list_or_empty (bs_resources s) of [] \<Rightarrow> []
        | rs \<Rightarrow> ''**Resources:**'' # map (\<lambda>r. ''- '' @ in_backticks (br_resource_ref r)) rs)
     @ [[]]"

definition permission_line :: "permission \<Rightarrow> string" where
  "permission_line p = ''- **'' @ scope_id p @ ''**: '' @ pm_tool_ref p @ '' '' @ em_dash @ '' ''
     @ join '', '' (map operation_name (pm_ops p)) @ '' on '' @ join '', '' (pm_resources p)"

definition toolUsageBlock :: block where
  "toolUsageBlock ctx =
     (case gx_bindings ctx of
        None \<Rightarrow> None
      | Some b \<Rightarrow>
          if bd_servers b = [] then None
          else Some ([''## Tool Usage'', []] @ concat (map server_lines (bd_servers b))
            @ (case gx_guardrails ctx of None \<Rightarrow> []
               | Some g \<Rightarrow> if gr_permissions g \<noteq> [] then ''### Permission Scopes'' # map permission_line (gr_permissions g) else [])))"

fun prune_name :: "prune_strategy \<Rightarrow> string" where
  "prune_name Oldest = ''oldest''"
| "prune_name Least_salient = ''least_salient''"
| "prune_name Manual = ''manual''"

fun update_name :: "update_mode \<Rightarrow> string" where
  "update_name Append = ''append''"
| "update_name Revise = ''revise''"
| "update_name Consolidate = ''consolidate''"

definition pii_line :: "pii_handling \<Rightarrow> string list" where
  "pii_line p =
     (if pii_detect p \<or> pii_redact p
      then [''- **PII:** '' @ join '', '' ((if pii_detect p then [''detect''] else []) @ (if pii_redact p then [''redact''] else [])
             @ (if pii_store_separately p then [''store separately''] else []))]
      else [])"

definition memoryPolicyBlock :: block where
  "memoryPolicyBlock ctx =
     (case gx_memory ctx of
        None \<Rightarrow> None
      | Some m \<Rightarrow> Some (
          [''## Memory Policy'', [],
           ''- **Retention:** '' @ (if mp_ttl_days m \<noteq> 0 then show_int (mp_ttl_days m) @ '' days'' else ''indefinite'')
             @ '', prune by '' @ prune_name (mp_prune m)]
          @ (if mp_schedule m \<noteq> [] then [''- **Consolidation:** '' @ mp_schedule m] else [])
          @ [''- **Update mode:** '' @ update_name (mp_update_mode m)]
          @ pii_line (mp_pii m)
          @ (if mp_revisit_triggers m \<noteq> [] then [''- **Revisit on:** '' @ join '', '' (mp_revisit_triggers m)] else [])))"

definition sessionRhythmBlock :: block where
  "sessionRhythmBlock ctx = Some
     [''## Session Rhythm'', [],
      ''1. **Orient**: Read workspace state. Check '' @ in_backticks ''ops/drift/'' @ '' for pending proposals. Review recent observations.'',
      ''2. **Work**: Execute tasks following the principles above. When something unexpected happens, log an observation.'',
      ''3. **Persist**: Update session state. Commit changes. Capture session metadata.'']"

definition driftAwarenessBlock :: block where
  "driftAwarenessBlock ctx = Some (
     [''## '' @ term_or vo_drift_verb ''Drift'' ctx @ '' Awareness'', [],
      ''Monitor your own behavior against the principles above. When you notice:'', [],
      ''- **Repeated user corrections** '' @ arrow_right @ '' log as observation (category: friction)'',
      ''- **Contradictions between principles and actions** '' @ arrow_right @ '' log as tension'',
      ''- **Unexpected outcomes** '' @ arrow_right @ '' log as observation (category: surprise)'',
      ''- **Process bottlenecks** '' @ arrow_right @ '' log as observation (category: process)'', [],
      ''Review triggers: 10+ observations or 5+ unresolved tensions '' @ arrow_right @ '' suggest a drift review.'']
     @ (case gx_constitution ctx of None \<Rightarrow> []
        | Some c \<Rightarrow>
            (let ep = cn_evidence c
             in (if ep_require_citations_for ep \<noteq> [] then [[], ''**Citation required for:** '' @ join '', '' (ep_require_citations_for ep)] else [])
              @ (if ep_uncertainty_language_rules ep \<noteq> [] then [''**Uncertainty language:** '' @ join ''. '' (ep_uncertainty_language_rules ep)] else []))))"

definition playbookIndexBlock :: block where
  "playbookIndexBlock ctx =
     (if \<not> gx_has_playbooks ctx then None
      else let label = term_or vo_playbook_label ''Playbook'' ctx
           in Some [''## Available '' @ label @ ''s'', [],
             label @ ''s are multi-step workflows for complex tasks. Check the '' @ in_backticks ''knowledge/playbooks/'' @ '' directory for available ''
               @ to_lower label @ ''s.'', [],
             ''Each '' @ to_lower label @ '' contains trigger conditions, step-by-step instructions, and rollback procedures.''])"

definition label_line :: "string \<Rightarrow> string option \<Rightarrow> string list" where
  "label_line what t = (if truthy_text t then [''- **'' @ what @ ''** is called '' @ quoted (the t) @ '' in this domain''] else [])"

definition drift_line :: "string option \<Rightarrow> string list" where
  "drift_line t = (if truthy_text t then [''- **Drift** is referred to as '' @ quoted (the t)] else [])"

definition vocabularyBlock :: block where
  "vocabularyBlock ctx =
     (case gx_vocabulary ctx of
        None \<Rightarrow> None
      | Some v \<Rightarrow>
          let custom = list_or_empty (vo_custom v);
              hasLabels = list_ex truthy_text [vo_constitution_label v, vo_skill_label v, vo_playbook_label v, vo_compile_verb v, vo_drift_verb v]
          in if custom = [] \<and> \<not> hasLabels then None
             else Some ([''## Vocabulary'', [], ''Domain-specific terminology used in this workspace:'', []]
               @ label_line ''Constitution'' (vo_constitution_label v)
               @ label_line ''Skill'' (vo_skill_label v)
               @ label_line ''Playbook'' (vo_playbook_label v)
               @ drift_line (vo_drift_verb v)
               @ (if custom \<noteq> [] then [] # map (\<lambda>(k, m). ''- **'' @ k @ ''**: '' @ m) custom else [])))"

definition evaluationCriteriaBlock :: block where
  "evaluationCriteriaBlock ctx =
     (if \<not> gx_has_evalpack ctx then None
      else Some [''## Evaluation Criteria'', [],
        ''An evaluation pack is configured for this workspace. After completing tasks, self-evaluate:'', [],
        ''1. **Principle alignment** '' @ em_dash @ '' Does the output follow the principles above?'',
        ''2. **Quality gates** '' @ em_dash @ '' Does the output pass the skill-specific quality checks?'',
        ''3. **Tone consistency** '' @ em_dash @ '' Does the output match the voice and formatting rules?'',
        ''4. **Guardrail compliance** '' @ em_dash @ '' Were all approval rules and rate limits respected?'', [],
        ''Run '' @ in_backticks ''tastekit eval'' @ '' to execute the full evaluation suite against recent traces.''])"

section \<open>CLAUDE.md\<close>

definition BLOCKS :: "(rat \<Rightarrow> string) \<Rightarrow> block list" where
  "BLOCKS num = [identityBlock num, guardrailsBlock, domainContextBlock, skillsIndexBlock, toolUsageBlock, memoryPolicyBlock,
     sessionRhythmBlock, driftAwarenessBlock, playbookIndexBlock, vocabularyBlock, evaluationCriteriaBlock]"

text \<open>An empty text is falsy, so a section without text is left out.\<close>

definition section_of :: "generator_context \<Rightarrow> block \<Rightarrow> string list" where
  "section_of ctx b =
     (case b ctx of None \<Rightarrow> [] | Some ls \<Rightarrow> if join [nl] ls \<noteq> [] then [join [nl] ls, []] else [])"

definition generateClaudeMd :: "(rat \<Rightarrow> string) \<Rightarrow> generator_context \<Rightarrow> string" where
  "generateClaudeMd num ctx =
     join [nl]
       ([''# CLAUDE.md '' @ em_dash @ '' Generated by TasteKit v'' @ gx_generator_version ctx, []]
        @ concat (map (section_of ctx) (BLOCKS num))
        @ [''---'', ''_Generated by TasteKit v'' @ gx_generator_version ctx @ ''. Do not edit manually '' @ em_dash @ '' re-run ''
             @ in_backticks ''tastekit compile'' @ '' to regenerate._'', []])"

section \<open>Hook scripts\<close>

record generated_hook =
  gh_filename :: string
  gh_content :: string
  gh_executable :: bool

definition bslash :: string where "bslash = [CHR 0x5C]"
definition squote :: string where "squote = [CHR 0x27]"

definition guard_script :: string where
  \<open>guard_script = join [nl]
    [''#!/usr/bin/env bash'',
     ''# TasteKit Guard '' @ em_dash @ '' prevents hooks from firing in non-TasteKit directories.'',
     ''# Generated by TasteKit. Do not edit manually.'',
     [],
     ''if [ ! -d ".tastekit" ]; then'',
     ''  exit 0'',
     ''fi'',
     [],
     ''# TasteKit workspace detected '' @ em_dash @ '' allow hook to proceed'',
     ''exit 0'',
     []]\<close>

definition session_orient_script :: string where
  \<open>session_orient_script = join [nl]
    [''#!/usr/bin/env bash'',
     ''# TasteKit Session Orient '' @ em_dash @ '' injects workspace context at session start.'',
     ''# Generated by TasteKit. Do not edit manually.'',
     [],
     ''# Guard: only run in TasteKit workspaces'',
     ''if [ ! -d ".tastekit" ]; then'',
     ''  exit 0'',
     ''fi'',
     [],
     ''CONTEXT=""'',
     [],
     ''# Show workspace tree (2 levels)'',
     ''if command -v tree &> /dev/null; then'',
     ''  TREE=$(tree -L 2 .tastekit --noreport 2>/dev/null)'',
     ''  if [ -n "$TREE" ]; then'',
     ''    CONTEXT="Workspace structure:'' @ bslash @ ''n$TREE"'',
     ''  fi'',
     ''fi'',
     [],
     ''# Surface pending drift proposals'',
     ''DRIFT_DIR=".tastekit/ops/drift"'',
     ''if [ -d "$DRIFT_DIR" ]; then'',
     ''  DRIFT_COUNT=$(find "$DRIFT_DIR" -name "*.json" 2>/dev/null | wc -l | tr -d '' @ squote @ '' '' @ squote @ '')'',
     ''  if [ "$DRIFT_COUNT" -gt 0 ]; then'',
     ''    CONTEXT="$CONTEXT'' @ bslash @ ''n'' @ bslash @ ''nPending drift proposals: $DRIFT_COUNT"'',
     ''  fi'',
     ''fi'',
     [],
     ''# Count observations and tensions'',
     ''OBS_DIR=".tastekit/ops/observations"'',
     ''if [ -d "$OBS_DIR" ]; then'',
     ''  OBS_COUNT=$(find "$OBS_DIR" -name "*.json" 2>/dev/null | wc -l | tr -d '' @ squote @ '' '' @ squote @ '')'',
     ''  if [ "$OBS_COUNT" -gt 0 ]; then'',
     ''    CONTEXT="$CONTEXT'' @ bslash @ ''nObservations recorded: $OBS_COUNT"'',
     ''  fi'',
     ''fi'',
     [],
     ''if [ -n "$CONTEXT" ]; then'',
     ''  echo "{'' @ bslash @ ''"additionalContext'' @ bslash @ ''": '' @ bslash @ ''"$CONTEXT'' @ bslash @ ''"}"'',
     ''fi'',
     []]\<close>

definition artifact_validate_script :: string where
  \<open>artifact_validate_script = join [nl]
    [''#!/usr/bin/env bash'',
     ''# TasteKit Artifact Validate '' @ em_dash @ '' validates writes to managed directories.'',
     ''# Generated by TasteKit. Do not edit manually.'',
     [],
     ''if [ ! -d ".tastekit" ]; then'',
     ''  exit 0'',
     ''fi'',
     [],
     ''# Read the file path from stdin (Claude Code passes tool input as JSON)'',
     ''INPUT=$(cat)'',
     ''FILE_PATH=$(echo "$INPUT" | grep -o '' @ squote @ ''"file_path"[[:space:]]*:[[:space:]]*"[^"]*"'' @ squote @ '' | head -1 | sed '' @ squote @ ''s/.*"file_path"[[:space:]]*:[[:space:]]*"'' @ bslash @ ''(.*'' @ bslash @ '')"/'' @ bslash @ ''1/'' @ squote @ '')'',
     [],
     ''if [ -z "$FILE_PATH" ]; then'',
     ''  exit 0'',
     ''fi'',
     [],
     ''# Check if writing to managed TasteKit directories'',
     ''case "$FILE_PATH" in'',
     ''  *.tastekit/self/*)'',
     ''    # Validate identity artifact writes'',
     ''    if [[ "$FILE_PATH" == *.json ]]; then'',
     ''      # Basic JSON validation'',
     ''      if command -v python3 &> /dev/null; then'',
     ''        echo "$INPUT" | python3 -c "import json,sys; json.load(sys.stdin)" 2>/dev/null'',
     ''        if [ $? -ne 0 ]; then'',
     ''          echo "{'' @ bslash @ ''"additionalContext'' @ bslash @ ''": '' @ bslash @ ''"Warning: Writing invalid JSON to identity directory'' @ bslash @ ''"}"'',
     ''        fi'',
     ''      fi'',
     ''    fi'',
     ''    ;;'',
     ''  *.tastekit/knowledge/*)'',
     ''    # Knowledge directory writes are fine'',
     ''    ;;'',
     ''esac'',
     [],
     ''exit 0'',
     []]\<close>

definition auto_commit_script :: string where
  \<open>auto_commit_script = join [nl]
    [''#!/usr/bin/env bash'',
     ''# TasteKit Auto-Commit '' @ em_dash @ '' non-blocking git commit after TasteKit file changes.'',
     ''# Generated by TasteKit. Do not edit manually.'',
     [],
     ''if [ ! -d ".tastekit" ]; then'',
     ''  exit 0'',
     ''fi'',
     [],
     ''# Only commit changes within .tastekit/'',
     ''CHANGES=$(git diff --name-only .tastekit/ 2>/dev/null)'',
     ''UNTRACKED=$(git ls-files --others --exclude-standard .tastekit/ 2>/dev/null)'',
     [],
     ''if [ -z "$CHANGES" ] && [ -z "$UNTRACKED" ]; then'',
     ''  exit 0'',
     ''fi'',
     [],
     ''# Stage and commit TasteKit changes'',
     ''git add .tastekit/ 2>/dev/null'',
     ''STAT=$(git diff --cached --stat .tastekit/ 2>/dev/null)'',
     ''if [ -n "$STAT" ]; then'',
     ''  git commit -m "tastekit: auto-save workspace changes" --no-verify 2>/dev/null'',
     ''fi'',
     [],
     ''exit 0'',
     []]\<close>

definition session_capture_script :: string where
  \<open>session_capture_script = join [nl]
    [''#!/usr/bin/env bash'',
     ''# TasteKit Session Capture '' @ em_dash @ '' saves session metadata on session end.'',
     ''# Generated by TasteKit. Do not edit manually.'',
     [],
     ''if [ ! -d ".tastekit" ]; then'',
     ''  exit 0'',
     ''fi'',
     [],
     ''SESSIONS_DIR=".tastekit/ops/sessions"'',
     ''mkdir -p "$SESSIONS_DIR"'',
     [],
     ''TIMESTAMP=$(date -u +"%Y-%m-%dT%H:%M:%SZ")'',
     ''FILENAME="$SESSIONS_DIR/$(date -u +"%Y%m%d-%H%M%S").json"'',
     [],
     ''# Capture basic session info'',
     ''cat > "$FILENAME" << ENDJSON'',
     ''{'',
     ''  "ended_at": "$TIMESTAMP",'',
     ''  "workspace": "$(pwd)",'',
     ''  "git_branch": "$(git rev-parse --abbrev-ref HEAD 2>/dev/null || echo '' @ squote @ ''none'' @ squote @ '')",'',
     ''  "git_hash": "$(git rev-parse --short HEAD 2>/dev/null || echo '' @ squote @ ''none'' @ squote @ '')"'',
     ''}'',
     ''ENDJSON'',
     [],
     ''# Stage session file'',
     ''git add "$FILENAME" 2>/dev/null'',
     ''git commit -m "tastekit: capture session $TIMESTAMP" --no-verify 2>/dev/null'',
     [],
     ''exit 0'',
     []]\<close>

definition hook_script :: "string \<Rightarrow> string \<Rightarrow> generated_hook" where
  "hook_script name content = \<lparr>gh_filename = name, gh_content = content, gh_executable = True\<rparr>"

definition hook_scripts :: "generated_hook list" where
  "hook_scripts =
     [hook_script ''tastekit-guard.sh'' guard_script,
      hook_script ''session-orient.sh'' session_orient_script,
      hook_script ''artifact-validate.sh'' artifact_validate_script,
      hook_script ''auto-commit.sh'' auto_commit_script,
      hook_script ''session-capture.sh'' session_capture_script]"

record hook_entry =
  he_type :: string
  he_command :: string
  he_matcher :: "string option"

type_synonym hooks_table = "(string \<times> hook_entry list) list"

definition hook_command :: "string \<Rightarrow> string option \<Rightarrow> hook_entry" where
  "hook_command c m = \<lparr>he_type = ''command'', he_command = c, he_matcher = m\<rparr>"

definition hooks_manifest :: hooks_table where
  "hooks_manifest =
     [(''SessionStart'', [hook_command ''.tastekit/hooks/session-orient.sh'' None]),
      (''PostToolUse'', [hook_command ''.tastekit/hooks/artifact-validate.sh'' (Some ''Write''),
         hook_command ''.tastekit/hooks/auto-commit.sh'' (Some ''Write'')]),
      (''Stop'', [hook_command ''.tastekit/hooks/session-capture.sh'' None])]"

definition generateHooks :: "generated_hook list \<times> hooks_table" where
  "generateHooks = (hook_scripts, hooks_manifest)"

section \<open>The rules in a CLAUDE.md\<close>

lemma join_Nil_iff: "join [c] ls = [] \<longleftrightarrow> ls = [] \<or> ls = [[]]"
  by (induction ls rule: induct_list012) auto

text \<open>A line of a block is a line of the document.\<close>

lemma block_line:
  assumes "b \<in> set (BLOCKS num)" "b ctx = Some ls" "l \<in> set ls" "l \<noteq> []" "nl \<notin> set l"
  shows "l \<in> set (split_on nl (generateClaudeMd num ctx))"
proof -
  have "join [nl] ls \<noteq> []" using assms(3,4) by (auto simp: join_Nil_iff)
  then have "join [nl] ls \<in> set (section_of ctx b)" using assms(2) by (simp add: section_of_def)
  with assms(1) have "join [nl] ls \<in> set (concat (map (section_of ctx) (BLOCKS num)))" by auto
  moreover have "l \<in> set (split_on nl (join [nl] ls))" by (rule split_on_join_lines [OF assms(3,5)])
  ultimately show ?thesis
    unfolding generateClaudeMd_def by (subst split_on_join) auto
qed

lemma guardrails_line:
  assumes "l \<in> set (case gx_constitution ctx of None \<Rightarrow> [] | Some c \<Rightarrow> taboo_lines (cn_taboos c))
      \<or> l \<in> set (case gx_guardrails ctx of None \<Rightarrow> [] | Some g \<Rightarrow> titled ''### Approval rules'' (map approval_line (gr_approvals g))
               @ titled ''### Rate limits'' (map limit_line (gr_rate_limits g)))"
    and "l \<noteq> []" "nl \<notin> set l"
  shows "l \<in> set (split_on nl (generateClaudeMd num ctx))"
proof (rule block_line)
  show "guardrailsBlock \<in> set (BLOCKS num)" by (simp add: BLOCKS_def)
  show "guardrailsBlock ctx = Some ([''## '' @ term_or vo_guardrails_heading ''Guardrails'' ctx, []]
        @ (case gx_constitution ctx of None \<Rightarrow> [] | Some c \<Rightarrow> taboo_lines (cn_taboos c))
        @ (case gx_guardrails ctx of None \<Rightarrow> []
           | Some g \<Rightarrow> titled ''### Approval rules'' (map approval_line (gr_approvals g))
               @ titled ''### Rate limits'' (map limit_line (gr_rate_limits g))))"
    using assms(1) by (auto simp: guardrailsBlock_def split: option.splits)
qed (use assms in auto)

lemma taboo_line_mem:
  "t \<in> set (tb_never_do tb) \<union> set (tb_must_escalate tb) \<Longrightarrow> bullet t \<in> set (taboo_lines tb)"
  by (auto simp: taboo_lines_def titled_def)

lemma claude_states_taboo:
  assumes "gx_constitution ctx = Some c" "t \<in> set (tb_never_do (cn_taboos c)) \<union> set (tb_must_escalate (cn_taboos c))" "nl \<notin> set t"
  shows "bullet t \<in> set (split_on nl (generateClaudeMd num ctx))"
  using assms taboo_line_mem [OF assms(2)] by (intro guardrails_line) (auto simp: bullet_def)

lemma claude_states_approval:
  assumes "gx_guardrails ctx = Some g" "r \<in> set (gr_approvals g)" "nl \<notin> set (approval_line r)"
  shows "approval_line r \<in> set (split_on nl (generateClaudeMd num ctx))"
  using assms by (intro guardrails_line) (auto simp: titled_def approval_line_def)

lemma claude_states_principle:
  assumes "gx_constitution ctx = Some c" "p \<in> set (take 5 (cn_principles c))" "nl \<notin> set (hd (principle_lines p))"
  shows "hd (principle_lines p) \<in> set (split_on nl (generateClaudeMd num ctx))"
proof (rule block_line)
  show "identityBlock num \<in> set (BLOCKS num)" by (simp add: BLOCKS_def)
  show "identityBlock num ctx = Some (
          [''## '' @ term_or vo_principles_heading ''Identity & Principles'' ctx, []]
          @ concat (map principle_lines (take 5 (cn_principles c)))
          @ (if 5 < length (cn_principles c)
             then [[nl] @ ''_'' @ ellipsis @ ''and '' @ show_nat (length (cn_principles c) - 5) @ '' more principles (see full constitution)._''] else [])
          @ [[]] @ tone_lines (cn_tone c) @ [[], tradeoff_line num (cn_tradeoffs c)])"
    by (simp add: identityBlock_def assms(1))
  have "hd (principle_lines p) \<in> set (concat (map principle_lines (take 5 (cn_principles c))))"
    using assms(2) by (auto simp: principle_lines_def intro!: bexI [of _ p])
  then show "hd (principle_lines p) \<in> set ([''## '' @ term_or vo_principles_heading ''Identity & Principles'' ctx, []]
          @ concat (map principle_lines (take 5 (cn_principles c)))
          @ (if 5 < length (cn_principles c)
             then [[nl] @ ''_'' @ ellipsis @ ''and '' @ show_nat (length (cn_principles c) - 5) @ '' more principles (see full constitution)._''] else [])
          @ [[]] @ tone_lines (cn_tone c) @ [[], tradeoff_line num (cn_tradeoffs c)])"
    by simp
qed (use assms in \<open>auto simp: principle_lines_def\<close>)

end
