(* ===== verification/Domain_Playbooks.thy ===== *)
theory Domain_Playbooks
  imports Json
begin

text \<open>
  TasteKit core, schemas/playbook.ts and the data of compiler/playbook-compiler.ts: the playbooks
  that the domains ship.
\<close>

section \<open>Data\<close>

datatype trigger_type = Cron_trigger | Event_trigger | Manual_trigger

record trigger =
  tg_type :: trigger_type
  tg_schedule :: "string option"
  tg_event_pattern :: "string option"

record playbook_input =
  pi_name :: string
  pi_type :: string
  pi_required :: bool
  pi_description :: "string option"

datatype step_type = Think_step | Tool_step | Transform_step | Write_step | Approval_gate

record playbook_step =
  ps_id :: string
  ps_type :: step_type
  ps_tool_ref :: "string option"
  ps_params :: "(string \<times> json) list option"
  ps_outputs :: "string list option"

datatype check_type = Taste_check | Safety_check | Format_check | Facts_check

record playbook_check =
  ck_id :: string
  ck_type :: check_type
  ck_rubric_ref :: "string option"
  ck_condition :: string

record stop_condition =
  so_condition :: string
  so_reason :: string

record escalation =
  es_id :: string
  es_trigger :: string
  es_approval_ref :: string

record playbook =
  pb_id :: string
  pb_name :: string
  pb_description :: string
  pb_triggers :: "trigger list"
  pb_inputs :: "playbook_input list"
  pb_steps :: "playbook_step list"
  pb_checks :: "playbook_check list"
  pb_stop_conditions :: "stop_condition list"
  pb_escalations :: "escalation list"

section \<open>The shipped playbooks\<close>

definition playbook_simple_post :: playbook where
  \<open>playbook_simple_post = \<lparr>
    pb_id = ''simple-post'', pb_name = ''Simple Post Creation'',
    pb_description = ''Quick workflow: research optional, generate options, user picks, publish.'',
    pb_triggers = [\<lparr>tg_type = Manual_trigger, tg_schedule = None, tg_event_pattern = None\<rparr>],
    pb_inputs = [\<lparr>pi_name = ''topic'', pi_type = ''string'', pi_required = True, pi_description = Some ''Topic or subject for the post''\<rparr>,
      \<lparr>pi_name = ''platform'', pi_type = ''string'', pi_required = True, pi_description = Some ''Target platform (twitter, linkedin, etc.)''\<rparr>,
      \<lparr>pi_name = ''tone_override'', pi_type = ''string'', pi_required = False, pi_description = Some ''Override default voice tone''\<rparr>],
    pb_steps = [\<lparr>ps_id = ''understand-context'', ps_type = Think_step, ps_tool_ref = None,
        ps_params = None,
        ps_outputs = Some [''context_summary'']\<rparr>,
      \<lparr>ps_id = ''generate-options'', ps_type = Tool_step, ps_tool_ref = Some ''skill:generate-post-options'',
        ps_params = Some [(''topic'', JStr ''{{topic}}''), (''platform'', JStr ''{{platform}}''), (''num_options'', JNum 3)],
        ps_outputs = Some [''post_options'']\<rparr>,
      \<lparr>ps_id = ''user-selects'', ps_type = Approval_gate, ps_tool_ref = None,
        ps_params = Some [(''message'', JStr ''Choose a post option or request modifications.''), (''options'', JStr ''{{post_options}}'')],
        ps_outputs = Some [''selected_post'']\<rparr>,
      \<lparr>ps_id = ''finalize'', ps_type = Write_step, ps_tool_ref = None,
        ps_params = Some [(''content'', JStr ''{{selected_post}}''), (''format'', JStr ''{{platform}}_post'')],
        ps_outputs = Some [''final_post'']\<rparr>],
    pb_checks = [\<lparr>ck_id = ''voice-match'', ck_type = Taste_check, ck_rubric_ref = None,
        ck_condition = ''Post matches constitution voice_keywords and avoids forbidden_phrases''\<rparr>,
      \<lparr>ck_id = ''platform-fit'', ck_type = Format_check, ck_rubric_ref = None,
        ck_condition = ''Post fits platform character limits and format requirements''\<rparr>],
    pb_stop_conditions = [\<lparr>so_condition = ''User cancels or rejects all options'',
        so_reason = ''User does not want to proceed with any variation''\<rparr>],
    pb_escalations = [\<lparr>es_id = ''sensitive-topic'',
        es_trigger = ''Topic involves controversy, politics, or sensitive subjects'',
        es_approval_ref = ''guardrails.approval_rules.content_review''\<rparr>]\<rparr>\<close>

definition playbook_research_and_post :: playbook where
  \<open>playbook_research_and_post = \<lparr>
    pb_id = ''research-and-post'', pb_name = ''Research-Driven Post'',
    pb_description = ''Full workflow: research trends, generate ideas informed by research, create and review.'',
    pb_triggers = [\<lparr>tg_type = Manual_trigger, tg_schedule = None, tg_event_pattern = None\<rparr>],
    pb_inputs = [\<lparr>pi_name = ''niche'', pi_type = ''string'', pi_required = True, pi_description = Some ''Topic area or industry''\<rparr>,
      \<lparr>pi_name = ''platform'', pi_type = ''string'', pi_required = True, pi_description = Some ''Target platform''\<rparr>,
      \<lparr>pi_name = ''timeframe'', pi_type = ''string'', pi_required = False, pi_description = Some ''Trend timeframe (default: past week)''\<rparr>],
    pb_steps = [\<lparr>ps_id = ''research-trends'', ps_type = Tool_step, ps_tool_ref = Some ''skill:research-trends'',
        ps_params = Some [(''niche'', JStr ''{{niche}}''), (''platform'', JStr ''{{platform}}''), (''timeframe'', JStr ''{{timeframe || "past week"}}'')],
        ps_outputs = Some [''trend_data'']\<rparr>,
      \<lparr>ps_id = ''analyze-findings'', ps_type = Think_step, ps_tool_ref = None,
        ps_params = Some [(''research'', JStr ''{{trend_data}}''), (''instruction'', JStr ''Identify the best angle based on research findings and user principles'')],
        ps_outputs = Some [''selected_angle'']\<rparr>,
      \<lparr>ps_id = ''generate-options'', ps_type = Tool_step, ps_tool_ref = Some ''skill:generate-post-options'',
        ps_params = Some [(''topic'', JStr ''{{selected_angle}}''), (''platform'', JStr ''{{platform}}''), (''num_options'', JNum 3)],
        ps_outputs = Some [''post_options'']\<rparr>,
      \<lparr>ps_id = ''user-review'', ps_type = Approval_gate, ps_tool_ref = None,
        ps_params = Some [(''message'', JStr ''Review options based on trend research. Choose or request changes.''), (''options'', JStr ''{{post_options}}''), (''context'', JStr ''{{trend_data}}'')],
        ps_outputs = Some [''selected_post'']\<rparr>,
      \<lparr>ps_id = ''finalize'', ps_type = Write_step, ps_tool_ref = None,
        ps_params = Some [(''content'', JStr ''{{selected_post}}''), (''format'', JStr ''{{platform}}_post'')],
        ps_outputs = Some [''final_post'']\<rparr>],
    pb_checks = [\<lparr>ck_id = ''voice-match'', ck_type = Taste_check, ck_rubric_ref = None,
        ck_condition = ''Post matches constitution voice_keywords and avoids forbidden_phrases''\<rparr>,
      \<lparr>ck_id = ''trend-relevance'', ck_type = Facts_check, ck_rubric_ref = None,
        ck_condition = ''Post is informed by actual research findings, not generic advice''\<rparr>,
      \<lparr>ck_id = ''platform-fit'', ck_type = Format_check, ck_rubric_ref = None,
        ck_condition = ''Post fits platform character limits and format requirements''\<rparr>],
    pb_stop_conditions = [\<lparr>so_condition = ''No relevant trends found in research'',
        so_reason = ''Research did not yield actionable insights''\<rparr>,
      \<lparr>so_condition = ''User cancels'',
        so_reason = ''User does not want to proceed''\<rparr>],
    pb_escalations = [\<lparr>es_id = ''sensitive-topic'',
        es_trigger = ''Research reveals sensitive or controversial trending topics'',
        es_approval_ref = ''guardrails.approval_rules.content_review''\<rparr>]\<rparr>\<close>

definition playbook_content_calendar :: playbook where
  \<open>playbook_content_calendar = \<lparr>
    pb_id = ''content-calendar'', pb_name = ''Content Calendar Planning'',
    pb_description = ''Plan a week of content: research trends, map to themes, schedule posts.'',
    pb_triggers = [\<lparr>tg_type = Manual_trigger, tg_schedule = None, tg_event_pattern = None\<rparr>,
      \<lparr>tg_type = Cron_trigger, tg_schedule = Some ''0 9 * * 1'', tg_event_pattern = None\<rparr>],
    pb_inputs = [\<lparr>pi_name = ''niche'', pi_type = ''string'', pi_required = True, pi_description = Some ''Topic area''\<rparr>,
      \<lparr>pi_name = ''platforms'', pi_type = ''string'', pi_required = True, pi_description = Some ''Target platforms (comma-separated)''\<rparr>,
      \<lparr>pi_name = ''posts_per_week'', pi_type = ''number'', pi_required = False, pi_description = Some ''Posts per week (default: 5)''\<rparr>],
    pb_steps = [\<lparr>ps_id = ''research-trends'', ps_type = Tool_step, ps_tool_ref = Some ''skill:research-trends'',
        ps_params = Some [(''niche'', JStr ''{{niche}}''), (''platform'', JStr ''{{platforms}}''), (''timeframe'', JStr ''past week'')],
        ps_outputs = Some [''trend_data'']\<rparr>,
      \<lparr>ps_id = ''plan-themes'', ps_type = Think_step, ps_tool_ref = None,
        ps_params = Some [(''research'', JStr ''{{trend_data}}''), (''instruction'', JStr ''Map trends to daily themes for {{posts_per_week || 5}} posts across {{platforms}}'')],
        ps_outputs = Some [''theme_plan'']\<rparr>,
      \<lparr>ps_id = ''review-plan'', ps_type = Approval_gate, ps_tool_ref = None,
        ps_params = Some [(''message'', JStr ''Review the proposed content calendar. Approve or adjust.''), (''plan'', JStr ''{{theme_plan}}'')],
        ps_outputs = Some [''approved_plan'']\<rparr>,
      \<lparr>ps_id = ''write-calendar'', ps_type = Write_step, ps_tool_ref = None,
        ps_params = Some [(''content'', JStr ''{{approved_plan}}''), (''format'', JStr ''content_calendar_md'')],
        ps_outputs = Some [''calendar_file'']\<rparr>],
    pb_checks = [\<lparr>ck_id = ''variety'', ck_type = Taste_check, ck_rubric_ref = None,
        ck_condition = ''Calendar has varied topics and formats, not repetitive''\<rparr>,
      \<lparr>ck_id = ''coverage'', ck_type = Format_check, ck_rubric_ref = None,
        ck_condition = ''All target platforms are represented in the calendar''\<rparr>],
    pb_stop_conditions = [\<lparr>so_condition = ''No research data available'',
        so_reason = ''Cannot plan without trend data''\<rparr>],
    pb_escalations = [\<lparr>es_id = ''high-volume'',
        es_trigger = ''Posts per week exceeds 10'',
        es_approval_ref = ''guardrails.approval_rules.resource_usage''\<rparr>]\<rparr>\<close>

definition getContentAgentPlaybooks :: "playbook list" where
  "getContentAgentPlaybooks = [playbook_simple_post, playbook_research_and_post, playbook_content_calendar]"

definition playbook_quick_lookup :: playbook where
  \<open>playbook_quick_lookup = \<lparr>
    pb_id = ''quick-lookup'', pb_name = ''Quick Lookup'',
    pb_description = ''Simple fact-finding: research a question, synthesize findings, present answer.'',
    pb_triggers = [\<lparr>tg_type = Manual_trigger, tg_schedule = None, tg_event_pattern = None\<rparr>],
    pb_inputs = [\<lparr>pi_name = ''question'', pi_type = ''string'', pi_required = True, pi_description = Some ''The question to research''\<rparr>,
      \<lparr>pi_name = ''source_preferences'', pi_type = ''string'', pi_required = False, pi_description = Some ''Preferred source types''\<rparr>],
    pb_steps = [\<lparr>ps_id = ''research'', ps_type = Tool_step, ps_tool_ref = Some ''skill:web-research'',
        ps_params = Some [(''topic'', JStr ''{{question}}''), (''scope'', JStr ''narrow''), (''max_sources'', JNum 5)],
        ps_outputs = Some [''research_findings'']\<rparr>,
      \<lparr>ps_id = ''synthesize'', ps_type = Think_step, ps_tool_ref = None,
        ps_params = Some [(''findings'', JStr ''{{research_findings}}''), (''instruction'', JStr ''Synthesize findings into a concise answer'')],
        ps_outputs = Some [''answer'']\<rparr>,
      \<lparr>ps_id = ''format-output'', ps_type = Write_step, ps_tool_ref = None,
        ps_params = Some [(''content'', JStr ''{{answer}}''), (''format'', JStr ''research_summary'')],
        ps_outputs = Some [''final_answer'']\<rparr>],
    pb_checks = [\<lparr>ck_id = ''source-quality'', ck_type = Facts_check, ck_rubric_ref = None,
        ck_condition = ''Answer is supported by credible sources''\<rparr>,
      \<lparr>ck_id = ''completeness'', ck_type = Taste_check, ck_rubric_ref = None,
        ck_condition = ''Answer addresses the original question fully''\<rparr>],
    pb_stop_conditions = [\<lparr>so_condition = ''No relevant sources found'',
        so_reason = ''Cannot answer without credible sources''\<rparr>],
    pb_escalations = []\<rparr>\<close>

definition playbook_deep_dive_analysis :: playbook where
  \<open>playbook_deep_dive_analysis = \<lparr>
    pb_id = ''deep-dive-analysis'', pb_name = ''Deep Dive Analysis'',
    pb_description = ''Multi-source research: plan scope, gather sources, cross-reference, synthesize, and review.'',
    pb_triggers = [\<lparr>tg_type = Manual_trigger, tg_schedule = None, tg_event_pattern = None\<rparr>],
    pb_inputs = [\<lparr>pi_name = ''topic'', pi_type = ''string'', pi_required = True, pi_description = Some ''Research topic''\<rparr>,
      \<lparr>pi_name = ''scope'', pi_type = ''string'', pi_required = False, pi_description = Some ''Research scope and boundaries''\<rparr>,
      \<lparr>pi_name = ''output_format'', pi_type = ''string'', pi_required = False, pi_description = Some ''Desired output format''\<rparr>],
    pb_steps = [\<lparr>ps_id = ''plan-scope'', ps_type = Think_step, ps_tool_ref = None,
        ps_params = Some [(''topic'', JStr ''{{topic}}''), (''instruction'', JStr ''Define research scope, key questions, and source strategy'')],
        ps_outputs = Some [''research_plan'']\<rparr>,
      \<lparr>ps_id = ''gather-sources'', ps_type = Tool_step, ps_tool_ref = Some ''skill:web-research'',
        ps_params = Some [(''topic'', JStr ''{{topic}}''), (''scope'', JStr ''broad''), (''max_sources'', JNum 15)],
        ps_outputs = Some [''raw_findings'']\<rparr>,
      \<lparr>ps_id = ''cross-reference'', ps_type = Think_step, ps_tool_ref = None,
        ps_params = Some [(''findings'', JStr ''{{raw_findings}}''), (''instruction'', JStr ''Cross-reference findings, identify consensus and conflicts'')],
        ps_outputs = Some [''verified_findings'']\<rparr>,
      \<lparr>ps_id = ''synthesize'', ps_type = Think_step, ps_tool_ref = None,
        ps_params = Some [(''findings'', JStr ''{{verified_findings}}''), (''plan'', JStr ''{{research_plan}}''), (''instruction'', JStr ''Synthesize into structured analysis with citations'')],
        ps_outputs = Some [''analysis'']\<rparr>,
      \<lparr>ps_id = ''review'', ps_type = Approval_gate, ps_tool_ref = None,
        ps_params = Some [(''message'', JStr ''Review the research analysis. Approve or request deeper investigation.''), (''analysis'', JStr ''{{analysis}}'')],
        ps_outputs = Some [''approved_analysis'']\<rparr>,
      \<lparr>ps_id = ''finalize'', ps_type = Write_step, ps_tool_ref = None,
        ps_params = Some [(''content'', JStr ''{{approved_analysis}}''), (''format'', JStr ''{{output_format || "detailed_report"}}'')],
        ps_outputs = Some [''final_report'']\<rparr>],
    pb_checks = [\<lparr>ck_id = ''multi-source'', ck_type = Facts_check, ck_rubric_ref = None,
        ck_condition = ''Key claims supported by multiple independent sources''\<rparr>,
      \<lparr>ck_id = ''bias-check'', ck_type = Taste_check, ck_rubric_ref = None,
        ck_condition = ''Analysis presents balanced perspectives where applicable''\<rparr>,
      \<lparr>ck_id = ''citation-quality'', ck_type = Format_check, ck_rubric_ref = None,
        ck_condition = ''All claims properly cited per user citation standards''\<rparr>],
    pb_stop_conditions = [\<lparr>so_condition = ''Insufficient credible sources on the topic'',
        so_reason = ''Cannot produce reliable analysis without adequate sourcing''\<rparr>],
    pb_escalations = [\<lparr>es_id = ''sensitive-research'',
        es_trigger = ''Research involves confidential, proprietary, or ethically sensitive data'',
        es_approval_ref = ''guardrails.approval_rules.research_ethics''\<rparr>]\<rparr>\<close>

definition getResearchAgentPlaybooks :: "playbook list" where
  "getResearchAgentPlaybooks = [playbook_quick_lookup, playbook_deep_dive_analysis]"

definition playbook_lead_outreach :: playbook where
  \<open>playbook_lead_outreach = \<lparr>
    pb_id = ''lead-outreach'', pb_name = ''Lead Outreach'',
    pb_description = ''Initial outreach to a new lead: research, qualify, draft email, review, send.'',
    pb_triggers = [\<lparr>tg_type = Manual_trigger, tg_schedule = None, tg_event_pattern = None\<rparr>],
    pb_inputs = [\<lparr>pi_name = ''lead_data'', pi_type = ''string'', pi_required = True, pi_description = Some ''Lead information (name, company, role, context)''\<rparr>,
      \<lparr>pi_name = ''outreach_type'', pi_type = ''string'', pi_required = False, pi_description = Some ''Type of outreach (cold, warm, referral)''\<rparr>],
    pb_steps = [\<lparr>ps_id = ''qualify-lead'', ps_type = Tool_step, ps_tool_ref = Some ''skill:lead-qualification'',
        ps_params = Some [(''lead_data'', JStr ''{{lead_data}}'')],
        ps_outputs = Some [''qualification'']\<rparr>,
      \<lparr>ps_id = ''assess-fit'', ps_type = Think_step, ps_tool_ref = None,
        ps_params = Some [(''qualification'', JStr ''{{qualification}}''), (''instruction'', JStr ''Determine if lead is worth pursuing and best approach'')],
        ps_outputs = Some [''approach_decision'']\<rparr>,
      \<lparr>ps_id = ''draft-email'', ps_type = Tool_step, ps_tool_ref = Some ''skill:outreach-email'',
        ps_params = Some [(''recipient'', JStr ''{{lead_data}}''), (''purpose'', JStr ''{{outreach_type || "cold_outreach"}}''), (''context'', JStr ''{{approach_decision}}''), (''sequence_position'', JNum 1)],
        ps_outputs = Some [''draft_email'']\<rparr>,
      \<lparr>ps_id = ''review-email'', ps_type = Approval_gate, ps_tool_ref = None,
        ps_params = Some [(''message'', JStr ''Review outreach email before sending.''), (''email'', JStr ''{{draft_email}}''), (''qualification'', JStr ''{{qualification}}'')],
        ps_outputs = Some [''approved_email'']\<rparr>,
      \<lparr>ps_id = ''send'', ps_type = Tool_step, ps_tool_ref = Some ''email-sender'',
        ps_params = Some [(''email'', JStr ''{{approved_email}}'')],
        ps_outputs = Some [''send_result'']\<rparr>],
    pb_checks = [\<lparr>ck_id = ''qualification-check'', ck_type = Taste_check, ck_rubric_ref = None,
        ck_condition = ''Lead meets minimum qualification criteria before outreach''\<rparr>,
      \<lparr>ck_id = ''compliance-check'', ck_type = Safety_check, ck_rubric_ref = None,
        ck_condition = ''Email complies with CAN-SPAM/GDPR regulations''\<rparr>,
      \<lparr>ck_id = ''tone-check'', ck_type = Taste_check, ck_rubric_ref = None,
        ck_condition = ''Email matches sales communication style from constitution''\<rparr>],
    pb_stop_conditions = [\<lparr>so_condition = ''Lead scores D or is disqualified'',
        so_reason = ''Lead does not meet minimum qualification criteria''\<rparr>],
    pb_escalations = [\<lparr>es_id = ''high-value-lead'',
        es_trigger = ''Lead is enterprise-tier or strategic account'',
        es_approval_ref = ''guardrails.approval_rules.strategic_outreach''\<rparr>]\<rparr>\<close>

definition playbook_proposal_workflow :: playbook where
  \<open>playbook_proposal_workflow = \<lparr>
    pb_id = ''proposal-workflow'', pb_name = ''Proposal Workflow'',
    pb_description = ''Create and deliver a sales proposal: gather requirements, draft, review, deliver.'',
    pb_triggers = [\<lparr>tg_type = Manual_trigger, tg_schedule = None, tg_event_pattern = None\<rparr>],
    pb_inputs = [\<lparr>pi_name = ''prospect'', pi_type = ''string'', pi_required = True, pi_description = Some ''Prospect information and deal context''\<rparr>,
      \<lparr>pi_name = ''requirements'', pi_type = ''string'', pi_required = True, pi_description = Some ''Gathered requirements and pain points''\<rparr>,
      \<lparr>pi_name = ''proposal_format'', pi_type = ''string'', pi_required = False, pi_description = Some ''Desired format (doc, deck, email)''\<rparr>],
    pb_steps = [\<lparr>ps_id = ''analyze-requirements'', ps_type = Think_step, ps_tool_ref = None,
        ps_params = Some [(''prospect'', JStr ''{{prospect}}''), (''requirements'', JStr ''{{requirements}}''), (''instruction'', JStr ''Analyze requirements and map to solution components'')],
        ps_outputs = Some [''solution_mapping'']\<rparr>,
      \<lparr>ps_id = ''draft-proposal'', ps_type = Write_step, ps_tool_ref = None,
        ps_params = Some [(''content'', JStr ''{{solution_mapping}}''), (''format'', JStr ''{{proposal_format || "detailed_document"}}'')],
        ps_outputs = Some [''draft_proposal'']\<rparr>,
      \<lparr>ps_id = ''review-proposal'', ps_type = Approval_gate, ps_tool_ref = None,
        ps_params = Some [(''message'', JStr ''Review proposal before delivering to prospect.''), (''proposal'', JStr ''{{draft_proposal}}''), (''context'', JStr ''{{requirements}}'')],
        ps_outputs = Some [''approved_proposal'']\<rparr>,
      \<lparr>ps_id = ''deliver'', ps_type = Write_step, ps_tool_ref = None,
        ps_params = Some [(''content'', JStr ''{{approved_proposal}}''), (''format'', JStr ''final_proposal'')],
        ps_outputs = Some [''delivered_proposal'']\<rparr>],
    pb_checks = [\<lparr>ck_id = ''requirements-coverage'', ck_type = Taste_check, ck_rubric_ref = None,
        ck_condition = ''Proposal addresses all stated requirements''\<rparr>,
      \<lparr>ck_id = ''pricing-check'', ck_type = Safety_check, ck_rubric_ref = None,
        ck_condition = ''Pricing is within approved ranges and discount policies''\<rparr>,
      \<lparr>ck_id = ''brand-consistency'', ck_type = Format_check, ck_rubric_ref = None,
        ck_condition = ''Proposal follows brand guidelines and formatting standards''\<rparr>],
    pb_stop_conditions = [\<lparr>so_condition = ''Requirements are unclear or contradictory'',
        so_reason = ''Cannot create proposal without clear requirements''\<rparr>],
    pb_escalations = [\<lparr>es_id = ''custom-pricing'',
        es_trigger = ''Proposal requires pricing outside standard range'',
        es_approval_ref = ''guardrails.approval_rules.pricing_override''\<rparr>]\<rparr>\<close>

definition getSalesAgentPlaybooks :: "playbook list" where
  "getSalesAgentPlaybooks = [playbook_lead_outreach, playbook_proposal_workflow]"

definition playbook_standard_ticket :: playbook where
  \<open>playbook_standard_ticket = \<lparr>
    pb_id = ''standard-ticket'', pb_name = ''Standard Ticket Resolution'',
    pb_description = ''Standard ticket flow: triage, research, draft response, review, send.'',
    pb_triggers = [\<lparr>tg_type = Manual_trigger, tg_schedule = None, tg_event_pattern = None\<rparr>,
      \<lparr>tg_type = Event_trigger, tg_schedule = None, tg_event_pattern = Some ''ticket.created''\<rparr>],
    pb_inputs = [\<lparr>pi_name = ''ticket'', pi_type = ''string'', pi_required = True, pi_description = Some ''Ticket content and customer info''\<rparr>,
      \<lparr>pi_name = ''channel'', pi_type = ''string'', pi_required = False, pi_description = Some ''Support channel (email, chat, etc.)''\<rparr>],
    pb_steps = [\<lparr>ps_id = ''triage'', ps_type = Tool_step, ps_tool_ref = Some ''skill:ticket-triage'',
        ps_params = Some [(''ticket'', JStr ''{{ticket}}'')],
        ps_outputs = Some [''triage_result'']\<rparr>,
      \<lparr>ps_id = ''research-solution'', ps_type = Think_step, ps_tool_ref = None,
        ps_params = Some [(''ticket'', JStr ''{{ticket}}''), (''triage'', JStr ''{{triage_result}}''), (''instruction'', JStr ''Research the issue and identify the best resolution'')],
        ps_outputs = Some [''resolution'']\<rparr>,
      \<lparr>ps_id = ''draft-response'', ps_type = Tool_step, ps_tool_ref = Some ''skill:response-draft'',
        ps_params = Some [(''ticket'', JStr ''{{ticket}}''), (''channel'', JStr ''{{channel || "email"}}''), (''triage'', JStr ''{{triage_result}}''), (''resolution'', JStr ''{{resolution}}'')],
        ps_outputs = Some [''draft_response'']\<rparr>,
      \<lparr>ps_id = ''review'', ps_type = Approval_gate, ps_tool_ref = None,
        ps_params = Some [(''message'', JStr ''Review response before sending to customer.''), (''response'', JStr ''{{draft_response}}''), (''triage'', JStr ''{{triage_result}}'')],
        ps_outputs = Some [''approved_response'']\<rparr>,
      \<lparr>ps_id = ''send'', ps_type = Write_step, ps_tool_ref = None,
        ps_params = Some [(''content'', JStr ''{{approved_response}}''), (''format'', JStr ''{{channel}}_response'')],
        ps_outputs = Some [''sent_response'']\<rparr>],
    pb_checks = [\<lparr>ck_id = ''tone-match'', ck_type = Taste_check, ck_rubric_ref = None,
        ck_condition = ''Response matches support tone and empathy requirements''\<rparr>,
      \<lparr>ck_id = ''resolution-quality'', ck_type = Taste_check, ck_rubric_ref = None,
        ck_condition = ''Response actually resolves the issue or clearly explains next steps''\<rparr>,
      \<lparr>ck_id = ''channel-format'', ck_type = Format_check, ck_rubric_ref = None,
        ck_condition = ''Response is appropriate for the support channel''\<rparr>],
    pb_stop_conditions = [\<lparr>so_condition = ''Ticket requires escalation based on triage'',
        so_reason = ''Issue is beyond agent capability or requires human intervention''\<rparr>],
    pb_escalations = [\<lparr>es_id = ''angry-customer'',
        es_trigger = ''Customer sentiment is very negative or threatening'',
        es_approval_ref = ''guardrails.approval_rules.escalation''\<rparr>,
      \<lparr>es_id = ''billing-dispute'',
        es_trigger = ''Ticket involves billing, refunds, or financial matters'',
        es_approval_ref = ''guardrails.approval_rules.financial''\<rparr>]\<rparr>\<close>

definition playbook_escalation_workflow :: playbook where
  \<open>playbook_escalation_workflow = \<lparr>
    pb_id = ''escalation-workflow'', pb_name = ''Escalation Workflow'',
    pb_description = ''Escalation flow: assess severity, gather context, create escalation package, hand off.'',
    pb_triggers = [\<lparr>tg_type = Manual_trigger, tg_schedule = None, tg_event_pattern = None\<rparr>],
    pb_inputs = [\<lparr>pi_name = ''ticket'', pi_type = ''string'', pi_required = True, pi_description = Some ''Ticket requiring escalation''\<rparr>,
      \<lparr>pi_name = ''reason'', pi_type = ''string'', pi_required = True, pi_description = Some ''Reason for escalation''\<rparr>,
      \<lparr>pi_name = ''target_team'', pi_type = ''string'', pi_required = False, pi_description = Some ''Target team for escalation''\<rparr>],
    pb_steps = [\<lparr>ps_id = ''assess-severity'', ps_type = Think_step, ps_tool_ref = None,
        ps_params = Some [(''ticket'', JStr ''{{ticket}}''), (''reason'', JStr ''{{reason}}''), (''instruction'', JStr ''Assess severity and determine appropriate escalation level'')],
        ps_outputs = Some [''severity_assessment'']\<rparr>,
      \<lparr>ps_id = ''gather-context'', ps_type = Think_step, ps_tool_ref = None,
        ps_params = Some [(''ticket'', JStr ''{{ticket}}''), (''assessment'', JStr ''{{severity_assessment}}''), (''instruction'', JStr ''Compile all relevant context, customer history, and attempted resolutions'')],
        ps_outputs = Some [''escalation_context'']\<rparr>,
      \<lparr>ps_id = ''create-package'', ps_type = Write_step, ps_tool_ref = None,
        ps_params = Some [(''content'', JStr ''{{escalation_context}}''), (''format'', JStr ''escalation_package'')],
        ps_outputs = Some [''escalation_package'']\<rparr>,
      \<lparr>ps_id = ''notify-customer'', ps_type = Tool_step, ps_tool_ref = Some ''skill:response-draft'',
        ps_params = Some [(''ticket'', JStr ''{{ticket}}''), (''channel'', JStr ''email''), (''resolution'', JStr ''escalation_notification'')],
        ps_outputs = Some [''customer_notification'']\<rparr>,
      \<lparr>ps_id = ''approve-handoff'', ps_type = Approval_gate, ps_tool_ref = None,
        ps_params = Some [(''message'', JStr ''Review escalation package and customer notification before handoff.''), (''package'', JStr ''{{escalation_package}}''), (''notification'', JStr ''{{customer_notification}}'')],
        ps_outputs = Some [''approved_handoff'']\<rparr>],
    pb_checks = [\<lparr>ck_id = ''context-completeness'', ck_type = Taste_check, ck_rubric_ref = None,
        ck_condition = ''Escalation package includes all relevant context and attempted resolutions''\<rparr>,
      \<lparr>ck_id = ''customer-communication'', ck_type = Taste_check, ck_rubric_ref = None,
        ck_condition = ''Customer is notified about the escalation with appropriate empathy''\<rparr>],
    pb_stop_conditions = [\<lparr>so_condition = ''Issue is resolved during escalation preparation'',
        so_reason = ''Resolution found, escalation no longer needed''\<rparr>],
    pb_escalations = [\<lparr>es_id = ''critical-severity'',
        es_trigger = ''Severity is critical (data loss, security breach, complete outage)'',
        es_approval_ref = ''guardrails.approval_rules.critical_escalation''\<rparr>]\<rparr>\<close>

definition getSupportAgentPlaybooks :: "playbook list" where
  "getSupportAgentPlaybooks = [playbook_standard_ticket, playbook_escalation_workflow]"

definition playbook_general_task_execution :: playbook where
  \<open>playbook_general_task_execution = \<lparr>
    pb_id = ''general-task-execution'', pb_name = ''General Task Execution'',
    pb_description = ''Synthesize context, orchestrate execution, and close with a concise delivery summary.'',
    pb_triggers = [\<lparr>tg_type = Manual_trigger, tg_schedule = None, tg_event_pattern = None\<rparr>],
    pb_inputs = [\<lparr>pi_name = ''goal'', pi_type = ''string'', pi_required = True, pi_description = Some ''Desired outcome to achieve''\<rparr>,
      \<lparr>pi_name = ''context_sources'', pi_type = ''string'', pi_required = False, pi_description = Some ''Relevant files/notes/links to ground the task''\<rparr>,
      \<lparr>pi_name = ''constraints'', pi_type = ''string'', pi_required = False, pi_description = Some ''Policy, timeline, budget, or tooling constraints''\<rparr>],
    pb_steps = [\<lparr>ps_id = ''synthesize-context'', ps_type = Tool_step, ps_tool_ref = Some ''skill:context-synthesis'',
        ps_params = Some [(''question'', JStr ''{{goal}}''), (''sources'', JStr ''{{context_sources}}'')],
        ps_outputs = Some [''context_brief'']\<rparr>,
      \<lparr>ps_id = ''plan-work'', ps_type = Think_step, ps_tool_ref = None,
        ps_params = Some [(''goal'', JStr ''{{goal}}''), (''constraints'', JStr ''{{constraints}}''), (''context'', JStr ''{{context_brief}}'')],
        ps_outputs = Some [''execution_plan'']\<rparr>,
      \<lparr>ps_id = ''execute-work'', ps_type = Tool_step, ps_tool_ref = Some ''skill:task-orchestration'',
        ps_params = Some [(''goal'', JStr ''{{goal}}''), (''constraints'', JStr ''{{constraints}}''), (''context_snapshot'', JStr ''{{context_brief}}'')],
        ps_outputs = Some [''execution_result'']\<rparr>,
      \<lparr>ps_id = ''approval-checkpoint'', ps_type = Approval_gate, ps_tool_ref = None,
        ps_params = Some [(''message'', JStr ''Review execution summary before final delivery.''), (''summary'', JStr ''{{execution_result}}'')],
        ps_outputs = Some [''approved_result'']\<rparr>,
      \<lparr>ps_id = ''finalize'', ps_type = Write_step, ps_tool_ref = None,
        ps_params = Some [(''content'', JStr ''{{approved_result}}''), (''format'', JStr ''operator_summary'')],
        ps_outputs = Some [''final_output'']\<rparr>],
    pb_checks = [\<lparr>ck_id = ''goal-alignment'', ck_type = Taste_check, ck_rubric_ref = None,
        ck_condition = ''Execution result directly addresses the user goal and operating principles''\<rparr>,
      \<lparr>ck_id = ''risk-compliance'', ck_type = Safety_check, ck_rubric_ref = None,
        ck_condition = ''No taboo or high-risk action was executed without required escalation''\<rparr>,
      \<lparr>ck_id = ''evidence-quality'', ck_type = Facts_check, ck_rubric_ref = None,
        ck_condition = ''Claims in the final output reflect context synthesis confidence and citation expectations''\<rparr>],
    pb_stop_conditions = [\<lparr>so_condition = ''Critical context gaps remain unresolved after synthesis'',
        so_reason = ''Cannot continue safely without additional user input''\<rparr>],
    pb_escalations = [\<lparr>es_id = ''high-risk-action'',
        es_trigger = ''Execution requires destructive, irreversible, legal, or financial actions'',
        es_approval_ref = ''guardrails.approval_rules.approve_high_risk''\<rparr>]\<rparr>\<close>

definition playbook_research_then_act :: playbook where
  \<open>playbook_research_then_act = \<lparr>
    pb_id = ''research-then-act'', pb_name = ''Research Then Act'',
    pb_description = ''Gather context, choose an execution path, and deliver an evidence-backed recommendation or action plan.'',
    pb_triggers = [\<lparr>tg_type = Manual_trigger, tg_schedule = None, tg_event_pattern = None\<rparr>],
    pb_inputs = [\<lparr>pi_name = ''question'', pi_type = ''string'', pi_required = True, pi_description = Some ''Decision or task question to resolve''\<rparr>,
      \<lparr>pi_name = ''sources'', pi_type = ''string'', pi_required = False, pi_description = Some ''Optional initial sources to bootstrap synthesis''\<rparr>,
      \<lparr>pi_name = ''decision_deadline'', pi_type = ''string'', pi_required = False, pi_description = Some ''Optional timing constraint for recommendation''\<rparr>],
    pb_steps = [\<lparr>ps_id = ''capture-context'', ps_type = Tool_step, ps_tool_ref = Some ''skill:context-synthesis'',
        ps_params = Some [(''question'', JStr ''{{question}}''), (''sources'', JStr ''{{sources}}'')],
        ps_outputs = Some [''brief'', ''confidence_map'', ''open_questions'']\<rparr>,
      \<lparr>ps_id = ''select-path'', ps_type = Think_step, ps_tool_ref = None,
        ps_params = Some [(''brief'', JStr ''{{brief}}''), (''confidence_map'', JStr ''{{confidence_map}}''), (''deadline'', JStr ''{{decision_deadline}}''), (''instruction'', JStr ''Select a recommended path with two alternatives and explicit tradeoffs.'')],
        ps_outputs = Some [''recommended_path'']\<rparr>,
      \<lparr>ps_id = ''execute-path'', ps_type = Tool_step, ps_tool_ref = Some ''skill:task-orchestration'',
        ps_params = Some [(''goal'', JStr ''{{question}}''), (''context_snapshot'', JStr ''{{brief}}''), (''constraints'', JStr ''{{decision_deadline}}'')],
        ps_outputs = Some [''path_result'']\<rparr>,
      \<lparr>ps_id = ''deliver'', ps_type = Write_step, ps_tool_ref = None,
        ps_params = Some [(''content'', JStr ''{{path_result}}''), (''include'', JArr [JStr ''recommended_path'', JStr ''confidence_map'', JStr ''open_questions''])],
        ps_outputs = Some [''delivery_packet'']\<rparr>],
    pb_checks = [\<lparr>ck_id = ''traceability'', ck_type = Facts_check, ck_rubric_ref = None,
        ck_condition = ''Recommendation and actions are traceable to synthesized context and confidence markers''\<rparr>,
      \<lparr>ck_id = ''format-quality'', ck_type = Format_check, ck_rubric_ref = None,
        ck_condition = ''Delivery packet clearly separates facts, assumptions, risks, and next actions''\<rparr>],
    pb_stop_conditions = [\<lparr>so_condition = ''No viable path can be recommended from available evidence'',
        so_reason = ''Insufficient confidence to proceed responsibly''\<rparr>],
    pb_escalations = [\<lparr>es_id = ''policy-or-risk-blocker'',
        es_trigger = ''Recommended path conflicts with trust/guardrail policy or crosses high-risk thresholds'',
        es_approval_ref = ''guardrails.approval_rules.approve_high_risk''\<rparr>]\<rparr>\<close>

definition getGeneralAgentPlaybooks :: "playbook list" where
  "getGeneralAgentPlaybooks = [playbook_general_task_execution, playbook_research_then_act]"

end
