(* ===== verification/Playbooks.thy ===== *)
theory Playbooks
  imports Domain_Playbooks SkillsLibrary Guardrails
begin

text \<open>
  TasteKit core, compiler/playbook-compiler.ts: the playbooks that a compilation writes. What makes
  a playbook runnable is stated on its data: every template variable of a step is an input or the
  output of an earlier step, and every skill it calls is in the compiled skill library.
\<close>

section \<open>Compiler\<close>

definition resolveDomainPlaybooks :: "string option \<Rightarrow> playbook list" where
  "resolveDomainPlaybooks domainId =
     (if domainId = Some ''content-agent'' then getContentAgentPlaybooks
      else if domainId = Some ''research-agent'' then getResearchAgentPlaybooks
      else if domainId = Some ''sales-agent'' then getSalesAgentPlaybooks
      else if domainId = Some ''support-agent'' then getSupportAgentPlaybooks
      else if domainId = Some ''general-agent'' then getGeneralAgentPlaybooks
      else [])"

definition generateGenericPlaybook :: "constitution \<Rightarrow> playbook" where
  \<open>generateGenericPlaybook c =
     (let approvalStep = to_autonomy_level (cn_tradeoffs c) < 1 / 2 in
      \<lparr>pb_id = ''general-task'', pb_name = ''General Task Execution'',
       pb_description = ''Generic task workflow that follows user principles and tone preferences.'',
       pb_triggers = [\<lparr>tg_type = Manual_trigger, tg_schedule = None, tg_event_pattern = None\<rparr>],
       pb_inputs =
         [\<lparr>pi_name = ''task'', pi_type = ''string'', pi_required = True, pi_description = Some ''The task to perform''\<rparr>,
          \<lparr>pi_name = ''context'', pi_type = ''string'', pi_required = False, pi_description = Some ''Additional context''\<rparr>],
       pb_steps =
         [\<lparr>ps_id = ''understand-task'', ps_type = Think_step, ps_tool_ref = None, ps_params = None,
           ps_outputs = Some [''task_analysis'']\<rparr>,
          \<lparr>ps_id = ''execute-task'', ps_type = Tool_step, ps_tool_ref = None,
           ps_params = Some [(''instruction'', JStr ''Execute the task based on analysis'')],
           ps_outputs = Some [''task_result'']\<rparr>]
         @ (if approvalStep then
              [\<lparr>ps_id = ''review-result'', ps_type = Approval_gate, ps_tool_ref = None,
                ps_params = Some [(''message'', JStr ''Review the result before finalizing.'')],
                ps_outputs = Some [''approved_result'']\<rparr>] else [])
         @ [\<lparr>ps_id = ''finalize'', ps_type = Write_step, ps_tool_ref = None,
             ps_params = Some [(''content'', JStr (if approvalStep then ''{{approved_result}}'' else ''{{task_result}}''))],
             ps_outputs = Some [''final_output'']\<rparr>],
       pb_checks =
         [\<lparr>ck_id = ''principles-check'', ck_type = Taste_check, ck_rubric_ref = None,
           ck_condition = ''Output follows user constitution principles''\<rparr>,
          \<lparr>ck_id = ''safety-check'', ck_type = Safety_check, ck_rubric_ref = None,
           ck_condition = ''No taboo actions taken, escalation rules respected''\<rparr>],
       pb_stop_conditions =
         [\<lparr>so_condition = ''Task cannot be completed with available tools'',
           so_reason = ''Required capabilities not available''\<rparr>],
       pb_escalations =
         [\<lparr>es_id = ''irreversible-action'',
           es_trigger = ''Task involves irreversible actions (delete, publish, send)'',
           es_approval_ref = ''guardrails.approval_rules.irreversible''\<rparr>]\<rparr>)\<close>

definition all_playbooks :: "session \<Rightarrow> constitution \<Rightarrow> playbook list" where
  "all_playbooks session c =
     (let ps = resolveDomainPlaybooks (ss_domain_id session)
      in if ps = [] then [generateGenericPlaybook c] else ps)"

definition playbook_file :: "playbook \<Rightarrow> string" where
  "playbook_file p = pb_id p @ ''.v1.yaml''"

definition write_playbook :: "(playbook \<Rightarrow> string) \<Rightarrow> segments \<Rightarrow> disk \<times> string list \<Rightarrow> playbook \<Rightarrow> disk \<times> string list" where
  "write_playbook yaml path acc p =
     (writeFileSafe (path @ [playbook_file p]) (yaml p) (fst acc), snd acc @ [''playbooks/'' @ playbook_file p])"

definition compilePlaybooks ::
  "(playbook \<Rightarrow> string) \<Rightarrow> segments \<Rightarrow> session \<Rightarrow> constitution \<Rightarrow> disk \<Rightarrow> disk \<times> string list" where
  "compilePlaybooks yaml ws session c d =
     (let path = resolvePlaybooksPath d ws
      in foldl (write_playbook yaml path) (d, []) (all_playbooks session c))"

section \<open>Runnable playbooks\<close>

text \<open>The variables of a template: in \<open>{{name}}\<close> and \<open>{{name || default}}\<close>.\<close>

function template_vars :: "string \<Rightarrow> string list" where
  "template_vars s =
     (case cut_at ''{{'' s of
        None \<Rightarrow> []
      | Some (_, r) \<Rightarrow>
          (case cut_at ''}}'' r of
             None \<Rightarrow> []
           | Some (v, r') \<Rightarrow> takeWhile (\<lambda>c. c \<noteq> CHR '' '') v # template_vars r'))"
  by pat_completeness auto

termination
  by (relation "measure length") (auto dest!: cut_at_Some)

declare template_vars.simps [simp del]

fun json_vars :: "json \<Rightarrow> string list" where
  "json_vars (JStr s) = template_vars s"
| "json_vars (JArr xs) = concat (map json_vars xs)"
| "json_vars (JObj kvs) = concat (map (\<lambda>kv. json_vars (snd kv)) kvs)"
| "json_vars _ = []"

definition step_vars :: "playbook_step \<Rightarrow> string list" where
  "step_vars s = concat (map (\<lambda>kv. json_vars (snd kv)) (list_or_empty (ps_params s)))"

fun bound_steps :: "string list \<Rightarrow> playbook_step list \<Rightarrow> bool" where
  "bound_steps avail [] = True"
| "bound_steps avail (s # ss) =
     (list_all (\<lambda>v. v \<in> set avail) (step_vars s) \<and> bound_steps (list_or_empty (ps_outputs s) @ avail) ss)"

text \<open>A tool that is no skill acts on the outside world, and so may a tool step that leaves the tool open:
  it may run only after an approval gate.\<close>

definition is_skill_ref :: "string \<Rightarrow> bool" where
  "is_skill_ref r = starts_with r ''skill:''"

fun gated :: "bool \<Rightarrow> playbook_step list \<Rightarrow> bool" where
  "gated approved [] = True"
| "gated approved (s # ss) =
     ((case ps_tool_ref s of None \<Rightarrow> ps_type s \<noteq> Tool_step \<or> approved | Some r \<Rightarrow> is_skill_ref r \<or> approved)
      \<and> gated (approved \<or> ps_type s = Approval_gate) ss)"

definition skill_refs :: "playbook \<Rightarrow> string list" where
  "skill_refs p = map (drop 6) (filter is_skill_ref (List.map_filter ps_tool_ref (pb_steps p)))"

definition playbook_ok :: "playbook \<Rightarrow> bool" where
  "playbook_ok p \<longleftrightarrow> distinct (map ps_id (pb_steps p))
     \<and> bound_steps (map pi_name (pb_inputs p)) (pb_steps p)"

lemmas playbook_eval = playbook_ok_def step_vars_def list_or_empty_def is_skill_ref_def
  template_vars.simps [of "_ # _"] template_vars.simps [of "[]"]

lemma playbook_simple_post_facts:
  "playbook_ok playbook_simple_post" "gated False (pb_steps playbook_simple_post)" "pb_id playbook_simple_post = ''simple-post''"
  "skill_refs playbook_simple_post = [''generate-post-options'']"
  "map es_approval_ref (pb_escalations playbook_simple_post) = [''guardrails.approval_rules.content_review'']"
  by (simp_all add: playbook_simple_post_def playbook_eval skill_refs_def List.map_filter_def)

lemma playbook_research_and_post_facts:
  "playbook_ok playbook_research_and_post" "gated False (pb_steps playbook_research_and_post)" "pb_id playbook_research_and_post = ''research-and-post''"
  "skill_refs playbook_research_and_post = [''research-trends'', ''generate-post-options'']"
  "map es_approval_ref (pb_escalations playbook_research_and_post) = [''guardrails.approval_rules.content_review'']"
  by (simp_all add: playbook_research_and_post_def playbook_eval skill_refs_def List.map_filter_def)

lemma playbook_content_calendar_facts:
  "playbook_ok playbook_content_calendar" "gated False (pb_steps playbook_content_calendar)" "pb_id playbook_content_calendar = ''content-calendar''"
  "skill_refs playbook_content_calendar = [''research-trends'']"
  "map es_approval_ref (pb_escalations playbook_content_calendar) = [''guardrails.approval_rules.resource_usage'']"
  by (simp_all add: playbook_content_calendar_def playbook_eval skill_refs_def List.map_filter_def)

lemma playbook_quick_lookup_facts:
  "playbook_ok playbook_quick_lookup" "gated False (pb_steps playbook_quick_lookup)" "pb_id playbook_quick_lookup = ''quick-lookup''"
  "skill_refs playbook_quick_lookup = [''web-research'']"
  "map es_approval_ref (pb_escalations playbook_quick_lookup) = []"
  by (simp_all add: playbook_quick_lookup_def playbook_eval skill_refs_def List.map_filter_def)

lemma playbook_deep_dive_analysis_facts:
  "playbook_ok playbook_deep_dive_analysis" "gated False (pb_steps playbook_deep_dive_analysis)" "pb_id playbook_deep_dive_analysis = ''deep-dive-analysis''"
  "skill_refs playbook_deep_dive_analysis = [''web-research'']"
  "map es_approval_ref (pb_escalations playbook_deep_dive_analysis) = [''guardrails.approval_rules.research_ethics'']"
  by (simp_all add: playbook_deep_dive_analysis_def playbook_eval skill_refs_def List.map_filter_def)

lemma playbook_lead_outreach_facts:
  "playbook_ok playbook_lead_outreach" "gated False (pb_steps playbook_lead_outreach)" "pb_id playbook_lead_outreach = ''lead-outreach''"
  "skill_refs playbook_lead_outreach = [''lead-qualification'', ''outreach-email'']"
  "map es_approval_ref (pb_escalations playbook_lead_outreach) = [''guardrails.approval_rules.strategic_outreach'']"
  by (simp_all add: playbook_lead_outreach_def playbook_eval skill_refs_def List.map_filter_def)

lemma playbook_proposal_workflow_facts:
  "playbook_ok playbook_proposal_workflow" "gated False (pb_steps playbook_proposal_workflow)" "pb_id playbook_proposal_workflow = ''proposal-workflow''"
  "skill_refs playbook_proposal_workflow = []"
  "map es_approval_ref (pb_escalations playbook_proposal_workflow) = [''guardrails.approval_rules.pricing_override'']"
  by (simp_all add: playbook_proposal_workflow_def playbook_eval skill_refs_def List.map_filter_def)

lemma playbook_standard_ticket_facts:
  "playbook_ok playbook_standard_ticket" "gated False (pb_steps playbook_standard_ticket)" "pb_id playbook_standard_ticket = ''standard-ticket''"
  "skill_refs playbook_standard_ticket = [''ticket-triage'', ''response-draft'']"
  "map es_approval_ref (pb_escalations playbook_standard_ticket) = [''guardrails.approval_rules.escalation'',
     ''guardrails.approval_rules.financial'']"
  by (simp_all add: playbook_standard_ticket_def playbook_eval skill_refs_def List.map_filter_def)

lemma playbook_escalation_workflow_facts:
  "playbook_ok playbook_escalation_workflow" "gated False (pb_steps playbook_escalation_workflow)" "pb_id playbook_escalation_workflow = ''escalation-workflow''"
  "skill_refs playbook_escalation_workflow = [''response-draft'']"
  "map es_approval_ref (pb_escalations playbook_escalation_workflow) = [''guardrails.approval_rules.critical_escalation'']"
  by (simp_all add: playbook_escalation_workflow_def playbook_eval skill_refs_def List.map_filter_def)

lemma playbook_general_task_execution_facts:
  "playbook_ok playbook_general_task_execution" "gated False (pb_steps playbook_general_task_execution)" "pb_id playbook_general_task_execution = ''general-task-execution''"
  "skill_refs playbook_general_task_execution = [''context-synthesis'', ''task-orchestration'']"
  "map es_approval_ref (pb_escalations playbook_general_task_execution) = [''guardrails.approval_rules.approve_high_risk'']"
  by (simp_all add: playbook_general_task_execution_def playbook_eval skill_refs_def List.map_filter_def)

lemma playbook_research_then_act_facts:
  "playbook_ok playbook_research_then_act" "gated False (pb_steps playbook_research_then_act)" "pb_id playbook_research_then_act = ''research-then-act''"
  "skill_refs playbook_research_then_act = [''context-synthesis'', ''task-orchestration'']"
  "map es_approval_ref (pb_escalations playbook_research_then_act) = [''guardrails.approval_rules.approve_high_risk'']"
  by (simp_all add: playbook_research_then_act_def playbook_eval skill_refs_def List.map_filter_def)

lemmas playbook_facts =
  playbook_simple_post_facts playbook_research_and_post_facts
  playbook_content_calendar_facts playbook_quick_lookup_facts
  playbook_deep_dive_analysis_facts playbook_lead_outreach_facts
  playbook_proposal_workflow_facts playbook_standard_ticket_facts
  playbook_escalation_workflow_facts playbook_general_task_execution_facts
  playbook_research_then_act_facts

lemmas playbook_lists = getContentAgentPlaybooks_def getResearchAgentPlaybooks_def getSalesAgentPlaybooks_def
  getSupportAgentPlaybooks_def getGeneralAgentPlaybooks_def

lemma generic_playbook_facts:
  "playbook_ok (generateGenericPlaybook c)" "\<not> gated False (pb_steps (generateGenericPlaybook c))" "pb_id (generateGenericPlaybook c) = ''general-task''"
  "skill_refs (generateGenericPlaybook c) = []"
  "map es_approval_ref (pb_escalations (generateGenericPlaybook c)) = [''guardrails.approval_rules.irreversible'']"
  by (cases "to_autonomy_level (cn_tradeoffs c) < 1 / 2";
      simp add: generateGenericPlaybook_def Let_def playbook_eval skill_refs_def List.map_filter_def)+

text \<open>The ids of the shipped skills, by domain.\<close>

lemma shipped_ids:
  "map ds_skill_id ContentAgentSkills = [''research-trends'', ''generate-post-options'']"
  "map ds_skill_id ResearchAgentSkills = [''web-research'', ''competitive-analysis'']"
  "map ds_skill_id SalesAgentSkills = [''lead-qualification'', ''outreach-email'']"
  "map ds_skill_id SupportAgentSkills = [''ticket-triage'', ''response-draft'']"
  "map ds_skill_id GeneralAgentSkills = [''context-synthesis'', ''task-orchestration'']"
  by (simp_all add: library_defs research_trends_skill_def generate_post_options_skill_def web_research_skill_def
      competitive_analysis_skill_def lead_qualification_skill_def outreach_email_skill_def ticket_triage_skill_def
      response_draft_skill_def context_synthesis_skill_def task_orchestration_skill_def)

lemmas shipped_id_sets = shipped_ids [THEN arg_cong [where f = set], unfolded set_map list.set]

lemma library_ids:
  "resolveDomainSkills (ss_domain_id session) \<noteq> [] \<Longrightarrow>
     map (skill_id \<circ> fst) (library_skills session c) = map ds_skill_id (resolveDomainSkills (ss_domain_id session))"
  by (simp add: library_skills_def Let_def comp_def)

text \<open>One case per domain with playbooks, and the generic playbook.\<close>

lemma all_playbooks_cases:
  obtains (shipped) k where "ss_domain_id session = Some k" "all_playbooks session c = resolveDomainPlaybooks (Some k)"
      "k \<in> {''content-agent'', ''research-agent'', ''sales-agent'', ''support-agent'', ''general-agent''}"
    | (generic) "all_playbooks session c = [generateGenericPlaybook c]" "resolveDomainPlaybooks (ss_domain_id session) = []" "ss_domain_id session \<noteq> Some ''general-agent''"
proof (cases "resolveDomainPlaybooks (ss_domain_id session) = []")
  case True
  then have "ss_domain_id session \<noteq> Some ''general-agent''"
    by (auto simp: resolveDomainPlaybooks_def playbook_lists)
  with True show ?thesis by (intro generic) (simp_all add: all_playbooks_def Let_def)
next
  case False
  then obtain k where "ss_domain_id session = Some k"
    "k \<in> {''content-agent'', ''research-agent'', ''sales-agent'', ''support-agent'', ''general-agent''}"
    by (auto simp: resolveDomainPlaybooks_def split: if_splits)
  with False show ?thesis by (intro shipped) (simp_all add: all_playbooks_def Let_def)
qed

lemma shipped_playbooks_ok:
  assumes "k \<in> {''content-agent'', ''research-agent'', ''sales-agent'', ''support-agent'', ''general-agent''}"
  shows "resolveDomainPlaybooks (Some k) \<noteq> []" "distinct (map pb_id (resolveDomainPlaybooks (Some k)))"
    "list_all playbook_ok (resolveDomainPlaybooks (Some k))"
    "list_all (\<lambda>p. gated False (pb_steps p)) (resolveDomainPlaybooks (Some k))"
    "list_all (\<lambda>p. set (skill_refs p) \<subseteq> set (map ds_skill_id (resolveDomainSkills (Some k)))) (resolveDomainPlaybooks (Some k))"
  using assms
  by (auto simp only: insert_iff empty_iff resolveDomainPlaybooks_def resolveDomainSkills_def shipped_ids option.inject)
     (simp_all add: playbook_lists playbook_facts shipped_id_sets)

section \<open>The written files\<close>

lemma write_playbooks_fst:
  "fst (foldl (write_playbook yaml path) acc ps) = foldl (\<lambda>d p. writeFileSafe (path @ [playbook_file p]) (yaml p) d) (fst acc) ps"
  by (induction ps arbitrary: acc) (simp_all add: write_playbook_def)

lemma write_playbooks_snd:
  "snd (foldl (write_playbook yaml path) acc ps) = snd acc @ map (\<lambda>p. ''playbooks/'' @ playbook_file p) ps"
  by (induction ps arbitrary: acc) (simp_all add: write_playbook_def)

lemma read_playbooks:
  assumes "distinct (map pb_id ps)"
  shows "read_file (foldl (\<lambda>d p. writeFileSafe (path @ [playbook_file p]) (yaml p) d) d ps) q =
    (case map_of (map (\<lambda>p. (path @ [playbook_file p], yaml p)) ps) q of Some t \<Rightarrow> Some t | None \<Rightarrow> read_file d q)"
  using assms
proof (induction ps arbitrary: d)
  case (Cons p ps)
  have "path @ [playbook_file p] \<notin> fst ` set (map (\<lambda>p. (path @ [playbook_file p], yaml p)) ps)"
    using Cons.prems by (auto simp: playbook_file_def)
  then have "map_of (map (\<lambda>p. (path @ [playbook_file p], yaml p)) ps) (path @ [playbook_file p]) = None"
    by (simp add: map_of_eq_None_iff)
  with Cons show ?case by (auto split: option.splits)
qed simp

text \<open>
  C15. Every compiled playbook can be run. Whatever the session, there is a playbook, each one is in
  its file under the playbooks directory and in the list of artifacts, and the ids are distinct. In
  each playbook the step ids are distinct, every template variable is an input or the output of an
  earlier step, and every skill that is called is in the skill library that the same session
  compiles. In the playbooks of a domain, a tool that is not a skill comes after an approval gate;
  the generic playbook, which a session without such a domain gets, executes its task by a tool step
  that names no tool, before any gate.
\<close>

theorem compiled_playbooks_runnable:
  assumes "compilePlaybooks yaml ws session c d = (d', arts)" "path = resolvePlaybooksPath d ws"
  shows "all_playbooks session c \<noteq> [] \<and> distinct (map pb_id (all_playbooks session c))
     \<and> arts = map (\<lambda>p. ''playbooks/'' @ playbook_file p) (all_playbooks session c)
     \<and> (\<forall>p \<in> set (all_playbooks session c). playbook_ok p
          \<and> (gated False (pb_steps p) \<longleftrightarrow> resolveDomainPlaybooks (ss_domain_id session) \<noteq> [])
          \<and> read_file d' (path @ [playbook_file p]) = Some (yaml p)
          \<and> set (skill_refs p) \<subseteq> (skill_id \<circ> fst) ` set (library_skills session c'))"
proof -
  have facts: "all_playbooks session c \<noteq> [] \<and> distinct (map pb_id (all_playbooks session c))
     \<and> list_all playbook_ok (all_playbooks session c)
     \<and> list_all (\<lambda>p. gated False (pb_steps p) \<longleftrightarrow> resolveDomainPlaybooks (ss_domain_id session) \<noteq> []) (all_playbooks session c)
     \<and> list_all (\<lambda>p. set (skill_refs p) \<subseteq> (skill_id \<circ> fst) ` set (library_skills session c')) (all_playbooks session c)"
  proof (cases rule: all_playbooks_cases [of session c])
    case (shipped k)
    have "resolveDomainSkills (Some k) \<noteq> []"
      using shipped(3) by (auto simp: resolveDomainSkills_def library_defs)
    with library_ids [of session c'] shipped(1)
    have "set (map ds_skill_id (resolveDomainSkills (Some k))) = (skill_id \<circ> fst) ` set (library_skills session c')"
      by (metis list.set_map)
    with shipped_playbooks_ok [OF shipped(3)] shipped(1,2) show ?thesis by simp
  next
    case generic
    then show ?thesis by (simp add: generic_playbook_facts)
  qed
  have r: "foldl (write_playbook yaml path) (d, []) (all_playbooks session c) = (d', arts)"
    using assms by (simp add: compilePlaybooks_def Let_def)
  have d': "d' = foldl (\<lambda>d p. writeFileSafe (path @ [playbook_file p]) (yaml p) d) d (all_playbooks session c)"
    using write_playbooks_fst [of yaml path "(d, [])" "all_playbooks session c"] unfolding r by simp
  have arts: "arts = map (\<lambda>p. ''playbooks/'' @ playbook_file p) (all_playbooks session c)"
    using write_playbooks_snd [of yaml path "(d, [])" "all_playbooks session c"] unfolding r by simp
  have "read_file d' (path @ [playbook_file p]) = Some (yaml p)" if "p \<in> set (all_playbooks session c)" for p
  proof -
    have "map_of (map (\<lambda>p. (path @ [playbook_file p], yaml p)) (all_playbooks session c)) (path @ [playbook_file p]) = Some (yaml p)"
      using that facts by (intro map_of_is_SomeI) (auto simp: comp_def distinct_map inj_on_def playbook_file_def)
    then show ?thesis using facts by (simp add: d' read_playbooks)
  qed
  with facts arts show ?thesis by (simp add: list_all_iff)
qed

section \<open>Approval references\<close>

definition approval_prefix :: string where
  "approval_prefix = ''guardrails.approval_rules.''"

definition approval_target :: "escalation \<Rightarrow> string" where
  "approval_target e = drop (length approval_prefix) (es_approval_ref e)"

lemma guard_rule_ids:
  assumes "r \<in> set (gr_approvals (compileGuardrails session))"
  shows "hd (rule_id r) = CHR ''a'' \<and> starts_with (rule_id r) ''approve_''
    \<or> starts_with (rule_id r) ''block_taboo_'' \<or> starts_with (rule_id r) ''escalate_''"
proof -
  let ?p = "preset_for DOMAIN_PRESETS (text_or ''general-agent'' (ss_domain_id session))"
  have extra: "starts_with (rule_id r) ''approve_''" if "r \<in> set (extraApprovals ?p)" for r
    using preset_for_ok [of "text_or ''general-agent'' (ss_domain_id session)"] that
    by (auto simp: preset_ok_def list_all_iff)
  have base: "starts_with (rule_id r) ''approve_''" if "r \<in> set (base_rules a @ legacy_base_rules a @ [high_risk_rule])" for r a
    using that by (auto simp: base_rules_def legacy_base_rules_def high_risk_rule_def split: if_splits)
  have taboo: "starts_with (rule_id (taboo_rule i t)) ''block_taboo_''"
    and esc: "starts_with (rule_id (escalation_rule i t)) ''escalate_''" for i t
    by (simp_all add: taboo_rule_def escalation_rule_def)
  have a: "hd k = CHR ''a''" if "starts_with k ''approve_''" for k
    using that by (cases k) auto
  show ?thesis
  proof (cases "ss_structured session")
    case None
    with assms have "r \<in> set (legacy_base_rules (num_or (1 / 2) (fa_autonomy_level (ss_answers session))) @ [high_risk_rule])
        \<or> r \<in> set (extraApprovals ?p)"
      by (auto simp: compileGuardrails_def guard_legacy_def Let_def split: if_splits)
    then show ?thesis using extra base a by auto
  next
    case (Some sa)
    with assms have "r \<in> set (base_rules (autonomy_level (sa_tradeoffs sa)) @ [high_risk_rule]) \<or> r \<in> set (extraApprovals ?p)
        \<or> (\<exists>i t. r = taboo_rule i t) \<or> (\<exists>i t. r = escalation_rule i t)"
      by (auto simp: compileGuardrails_def guard_structured_def buildApprovalRules_def Let_def)
    then show ?thesis using extra base a taboo esc by auto
  qed
qed

lemma high_risk_present: "''approve_high_risk'' \<in> rule_id ` set (gr_approvals (compileGuardrails session))"
  by (auto simp: compileGuardrails_def guard_structured_def guard_legacy_def buildApprovalRules_def high_risk_rule_def
      Let_def split: option.split)

lemma no_such_rule:
  assumes "\<not> starts_with k ''approve_''" "\<not> starts_with k ''block_taboo_''" "\<not> starts_with k ''escalate_''"
  shows "k \<notin> rule_id ` set (gr_approvals (compileGuardrails session))"
  using guard_rule_ids [of _ session] assms by fastforce

definition dead_refs :: "string list" where
  "dead_refs = map (\<lambda>r. approval_prefix @ r)
     [''content_review'', ''resource_usage'', ''research_ethics'', ''strategic_outreach'', ''pricing_override'',
      ''escalation'', ''financial'', ''critical_escalation'', ''irreversible'']"

lemma dead_ref:
  assumes "es_approval_ref e \<in> set dead_refs"
  shows "starts_with (es_approval_ref e) approval_prefix
    \<and> approval_target e \<notin> rule_id ` set (gr_approvals (compileGuardrails session))"
proof -
  have "list_all (\<lambda>r. starts_with r approval_prefix \<and> \<not> starts_with (drop (length approval_prefix) r) ''approve_''
      \<and> \<not> starts_with (drop (length approval_prefix) r) ''block_taboo_''
      \<and> \<not> starts_with (drop (length approval_prefix) r) ''escalate_'') dead_refs"
    by (simp add: dead_refs_def approval_prefix_def)
  with assms have "starts_with (es_approval_ref e) approval_prefix"
    "\<not> starts_with (approval_target e) ''approve_''" "\<not> starts_with (approval_target e) ''block_taboo_''"
    "\<not> starts_with (approval_target e) ''escalate_''"
    unfolding approval_target_def list_all_iff by blast+
  then show ?thesis using no_such_rule by simp
qed

lemma live_ref:
  assumes "es_approval_ref e = ''guardrails.approval_rules.approve_high_risk''"
  shows "starts_with (es_approval_ref e) approval_prefix
    \<and> approval_target e \<in> rule_id ` set (gr_approvals (compileGuardrails session))"
  using high_risk_present [of session] by (simp add: assms approval_target_def approval_prefix_def)

definition refs_in :: "string list \<Rightarrow> playbook list \<Rightarrow> bool" where
  "refs_in rs ps = list_all (\<lambda>p. list_all (\<lambda>r. r \<in> set rs) (map es_approval_ref (pb_escalations p))) ps"

lemma refs_in_mem: "refs_in rs ps \<Longrightarrow> p \<in> set ps \<Longrightarrow> e \<in> set (pb_escalations p) \<Longrightarrow> es_approval_ref e \<in> set rs"
  by (auto simp: refs_in_def list_all_iff)

lemma domain_refs:
  "refs_in dead_refs getContentAgentPlaybooks" "refs_in dead_refs getResearchAgentPlaybooks"
  "refs_in dead_refs getSalesAgentPlaybooks" "refs_in dead_refs getSupportAgentPlaybooks"
  "refs_in [''guardrails.approval_rules.approve_high_risk''] getGeneralAgentPlaybooks"
  "refs_in dead_refs [generateGenericPlaybook c]"
  by (simp_all only: refs_in_def playbook_lists list.pred_inject playbook_facts generic_playbook_facts)
     (simp_all add: dead_refs_def approval_prefix_def)

lemma domain_playbook_refs:
  "k \<in> {''content-agent'', ''research-agent'', ''sales-agent'', ''support-agent''} \<Longrightarrow>
     refs_in dead_refs (resolveDomainPlaybooks (Some k))"
  "refs_in [''guardrails.approval_rules.approve_high_risk''] (resolveDomainPlaybooks (Some ''general-agent''))"
  by (elim insertE emptyE; simp add: resolveDomainPlaybooks_def domain_refs)
     (simp add: resolveDomainPlaybooks_def domain_refs)

text \<open>
  Only the general agent's escalations can be approved. An escalation of a playbook names an
  approval rule of the guardrails. For every session, with any answers, the named rule is among the
  rules that the guardrails compiler makes for the same session exactly when the domain is the
  general agent; the playbooks of all the other domains, and the generic playbook, refer to rules
  that no compilation produces.
\<close>

theorem escalation_rules_dangling:
  assumes "p \<in> set (all_playbooks session c)" "e \<in> set (pb_escalations p)"
  shows "starts_with (es_approval_ref e) approval_prefix
     \<and> (approval_target e \<in> rule_id ` set (gr_approvals (compileGuardrails session))
          \<longleftrightarrow> ss_domain_id session = Some ''general-agent'')"
proof (cases rule: all_playbooks_cases [of session c])
  case (shipped k)
  show ?thesis
  proof (cases "k = ''general-agent''")
    case True
    with assms shipped(2) have "es_approval_ref e = ''guardrails.approval_rules.approve_high_risk''"
      using refs_in_mem [OF domain_playbook_refs(2)] by simp
    from live_ref [OF this, of session] shipped(1) True show ?thesis by simp
  next
    case False
    with shipped(3) have "k \<in> {''content-agent'', ''research-agent'', ''sales-agent'', ''support-agent''}" by simp
    from domain_playbook_refs(1) [OF this] assms shipped(2) have "es_approval_ref e \<in> set dead_refs"
      by (metis refs_in_mem)
    from dead_ref [OF this, of session] shipped(1) False show ?thesis by simp
  qed
next
  case generic
  with assms have "es_approval_ref e \<in> set dead_refs"
    using refs_in_mem [OF domain_refs(6)] by simp
  from dead_ref [OF this, of session] generic(3) show ?thesis by simp
qed

theorem compiled_playbooks_runnable_witness:
  "\<exists>d' arts. compilePlaybooks pb_id [''w''] sales_session (compileConstitution sales_session ''1'' ''t'') empty_disk = (d', arts)
     \<and> list_all playbook_ok (all_playbooks sales_session (compileConstitution sales_session ''1'' ''t''))"
proof -
  let ?c = "compileConstitution sales_session ''1'' ''t''"
  obtain d' arts where r: "compilePlaybooks pb_id [''w''] sales_session ?c empty_disk = (d', arts)"
    by fastforce
  from compiled_playbooks_runnable [OF r refl, of ?c] r show ?thesis by (auto simp: list_all_iff)
qed

theorem escalation_rules_dangling_witness:
  "''strategic_outreach'' \<notin> rule_id ` set (gr_approvals (compileGuardrails sales_session))"
proof -
  have p: "playbook_lead_outreach \<in> set (all_playbooks sales_session (compileConstitution sales_session ''1'' ''t''))"
    by (simp add: all_playbooks_def resolveDomainPlaybooks_def sales_session_def playbook_lists)
  obtain e where e: "e \<in> set (pb_escalations playbook_lead_outreach)"
    "es_approval_ref e = ''guardrails.approval_rules.strategic_outreach''"
    by (simp add: playbook_lead_outreach_def)
  from escalation_rules_dangling [OF p e(1)] e(2) show ?thesis
    by (simp add: approval_target_def approval_prefix_def sales_session_def)
qed

end
