(* ===== verification/Compile.thy ===== *)
theory Compile
  imports Playbooks MemoryPolicy Interview "HOL-Library.Countable"
begin

text \<open>
  TasteKit core, compiler/compiler.ts and compiler/derivation.ts: the compilation of a session in
  five steps, with its progress in a derivation file so that an interrupted run can be resumed. The
  printers and parsers of JSON and YAML are the fields of \<open>formats\<close>. An operating system error during
  a step is the parameter \<open>fault\<close>: the message that is raised and the disk that is left behind.
\<close>

section \<open>Derivation state\<close>

record resolution =
  dr_dimension_id :: string
  dr_confidence :: json
  dr_summary :: json
  dr_extracted_facts :: json
  dr_anti_signals :: json

record derivation =
  dv_created_at :: string
  dv_session_id :: string
  dv_domain_id :: "string option"
  dv_generator_version :: string
  dv_resolutions :: "resolution list"
  dv_structured_answers :: "structured_answers option"
  dv_completed_steps :: "string list"
  dv_artifacts_written :: "string list"
  dv_vocabulary_map :: "(string \<times> string) list option"

text \<open>A stored session: what the compilers read, and the coverage of its interview.\<close>

record stored_session =
  st_session :: session
  st_coverage :: "coverage list option"

record formats =
  fm_constitution :: "constitution \<Rightarrow> string"
  fm_guardrails :: "guardrails \<Rightarrow> string"
  fm_memory :: "memory_policy \<Rightarrow> string"
  fm_skills :: "skill list \<Rightarrow> string"
  fm_playbook :: "playbook \<Rightarrow> string"
  fm_derivation :: "derivation \<Rightarrow> string"
  fm_parse_constitution :: "string \<Rightarrow> constitution option"
  fm_parse_derivation :: "string \<Rightarrow> derivation option"
  fm_missing :: "segments \<Rightarrow> string"
  fm_malformed :: "string \<Rightarrow> string"

definition json_or :: "json \<Rightarrow> json option \<Rightarrow> json" where
  "json_or d v = (case v of None \<Rightarrow> d | Some JNull \<Rightarrow> d | Some x \<Rightarrow> x)"

definition resolution_of :: "coverage \<Rightarrow> resolution" where
  "resolution_of c =
     \<lparr>dr_dimension_id = cv_id c,
      dr_confidence = json_or (JNum (if cv_status c = Covered then 3 / 2 else 0)) (cv_confidence c),
      dr_summary = json_or (JStr []) (cv_summary c),
      dr_extracted_facts = json_or (JArr []) (cv_facts c),
      dr_anti_signals = JArr (list_or_empty (cv_anti_signals c))\<rparr>"

definition buildDerivationState :: "stored_session \<Rightarrow> string \<Rightarrow> string \<Rightarrow> derivation" where
  "buildDerivationState st version now =
     \<lparr>dv_created_at = now,
      dv_session_id = ss_session_id (st_session st),
      dv_domain_id = ss_domain_id (st_session st),
      dv_generator_version = version,
      dv_resolutions = (case st_coverage st of None \<Rightarrow> [] | Some cs \<Rightarrow> map resolution_of cs),
      dv_structured_answers = ss_structured (st_session st),
      dv_completed_steps = [],
      dv_artifacts_written = [],
      dv_vocabulary_map = None\<rparr>"

definition getDerivationPath :: "segments \<Rightarrow> segments" where
  "getDerivationPath ws = ws @ [''ops'', ''derivation.v1.yaml'']"

definition writeDerivationState :: "formats \<Rightarrow> segments \<Rightarrow> derivation \<Rightarrow> disk \<Rightarrow> disk" where
  "writeDerivationState fm ws dv d = writeFileSafe (getDerivationPath ws) (fm_derivation fm dv) d"

definition readDerivationState :: "formats \<Rightarrow> segments \<Rightarrow> disk \<Rightarrow> derivation option" where
  "readDerivationState fm ws d =
     (case readFileIfExists d (getDerivationPath ws) of
        None \<Rightarrow> None
      | Some content \<Rightarrow> if content = [] then None else fm_parse_derivation fm content)"

definition ALL_STEPS :: "string list" where
  "ALL_STEPS = [''constitution'', ''guardrails'', ''memory'', ''skills'', ''playbooks'']"

definition canResume :: "formats \<Rightarrow> segments \<Rightarrow> disk \<Rightarrow> bool" where
  "canResume fm ws d =
     (case readDerivationState fm ws d of
        None \<Rightarrow> False
      | Some dv \<Rightarrow> \<not> list_all (\<lambda>s. s \<in> set (dv_completed_steps dv)) ALL_STEPS)"

section \<open>Steps\<close>

type_synonym fault = "string \<Rightarrow> disk \<Rightarrow> (string \<times> disk) option"

definition constitution_path :: "segments \<Rightarrow> segments" where
  "constitution_path ws = selfPath ws [''constitution.v1.json'']"

definition read_constitution :: "formats \<Rightarrow> segments \<Rightarrow> disk \<Rightarrow> string + constitution" where
  "read_constitution fm ws d =
     (case read_file d (constitution_path ws) of
        None \<Rightarrow> Inl (fm_missing fm (constitution_path ws))
      | Some text \<Rightarrow> (case fm_parse_constitution fm text of None \<Rightarrow> Inl (fm_malformed fm text) | Some c \<Rightarrow> Inr c))"

definition runStep ::
  "formats \<Rightarrow> fault \<Rightarrow> string \<Rightarrow> string \<Rightarrow> segments \<Rightarrow> session \<Rightarrow> string \<Rightarrow> disk \<Rightarrow> (string + string list) \<times> disk" where
  "runStep fm fault now stepId ws session version d =
     (case fault stepId d of
        Some (msg, d') \<Rightarrow> (Inl msg, d')
      | None \<Rightarrow>
          if stepId = ''constitution'' then
            (Inr [''self/constitution.v1.json''],
             atomicWrite (constitution_path ws) (fm_constitution fm (compileConstitution session version now)) d)
          else if stepId = ''guardrails'' then
            (Inr [''self/guardrails.v1.yaml''],
             atomicWrite (selfPath ws [''guardrails.v1.yaml'']) (fm_guardrails fm (compileGuardrails session)) d)
          else if stepId = ''memory'' then
            (Inr [''self/memory.v1.yaml''],
             atomicWrite (selfPath ws [''memory.v1.yaml'']) (fm_memory fm (compileMemoryPolicy session)) d)
          else if stepId = ''skills'' then
            (case read_constitution fm ws d of
               Inl e \<Rightarrow> (Inl e, d)
             | Inr c \<Rightarrow> (case compileSkills (fm_skills fm) ws session c d of (d', arts) \<Rightarrow> (Inr arts, d')))
          else if stepId = ''playbooks'' then
            (case read_constitution fm ws d of
               Inl e \<Rightarrow> (Inl e, d)
             | Inr c \<Rightarrow> (case compilePlaybooks (fm_playbook fm) ws session c d of (d', arts) \<Rightarrow> (Inr arts, d')))
          else (Inr [], d))"

section \<open>The compiler\<close>

record compilation_result =
  cr_success :: bool
  cr_artifacts :: "string list"
  cr_errors :: "string list option"
  cr_resumed :: bool

definition complete_step :: "string \<Rightarrow> string list \<Rightarrow> derivation \<Rightarrow> derivation" where
  "complete_step stepId arts dv =
     dv\<lparr>dv_completed_steps := dv_completed_steps dv @ [stepId], dv_artifacts_written := dv_artifacts_written dv @ arts\<rparr>"

fun compile_loop ::
  "formats \<Rightarrow> fault \<Rightarrow> string \<Rightarrow> segments \<Rightarrow> session \<Rightarrow> string \<Rightarrow> string list \<Rightarrow> derivation \<times> disk
     \<Rightarrow> string option \<times> derivation \<times> disk" where
  "compile_loop fm fault now ws session version [] (dv, d) = (None, dv, d)"
| "compile_loop fm fault now ws session version (stepId # steps) (dv, d) =
     (if stepId \<in> set (dv_completed_steps dv) then compile_loop fm fault now ws session version steps (dv, d)
      else (case runStep fm fault now stepId ws session version d of
              (Inl e, d') \<Rightarrow> (Some e, dv, d')
            | (Inr arts, d') \<Rightarrow>
                let dv' = complete_step stepId arts dv
                in compile_loop fm fault now ws session version steps (dv', writeDerivationState fm ws dv' d')))"

definition compile ::
  "formats \<Rightarrow> fault \<Rightarrow> string \<Rightarrow> segments \<Rightarrow> stored_session \<Rightarrow> string \<Rightarrow> bool \<Rightarrow> disk \<Rightarrow> compilation_result \<times> disk" where
  "compile fm fault now ws st version resume d =
     (let fresh = buildDerivationState st version now;
          start = (fresh, writeDerivationState fm ws fresh d, False);
          (dv, d1, resumed) =
            (if resume then
               (case readDerivationState fm ws d of
                  Some existing \<Rightarrow> if dv_completed_steps existing \<noteq> [] then (existing, d, True) else start
                | None \<Rightarrow> start)
             else start);
          (err, dv', d2) = compile_loop fm fault now ws (st_session st) version ALL_STEPS (dv, d1)
      in (case err of
            Some e \<Rightarrow> (\<lparr>cr_success = False, cr_artifacts = dv_artifacts_written dv', cr_errors = Some [e], cr_resumed = resumed\<rparr>, d2)
          | None \<Rightarrow> (\<lparr>cr_success = True, cr_artifacts = dv_artifacts_written dv', cr_errors = None, cr_resumed = resumed\<rparr>, d2)))"

section \<open>Facts about the disk\<close>

definition no_fault :: fault where
  "no_fault = (\<lambda>_ _. None)"

definition resolvers :: "segments \<Rightarrow> disk \<Rightarrow> segments \<times> segments" where
  "resolvers ws d = (resolveSkillsPath d ws, resolvePlaybooksPath d ws)"

lemma read_atomicWrite [simp]:
  "read_file (atomicWrite p c d) q = (if p = q then Some c else if temp_path p = q then None else read_file d q)"
  by (simp add: atomicWrite_def atomic_states_def Let_def)

lemma unchanged_atomic: "\<not> prefix q p \<Longrightarrow> \<not> prefix q (temp_path p) \<Longrightarrow> unchanged d (atomicWrite p c d) q"
proof -
  assume a: "\<not> prefix q p" "\<not> prefix q (temp_path p)"
  then have "\<not> prefix q (butlast p)" using prefixeq_butlast prefix_order.trans by blast
  from unchanged_ensureDir [OF this, of d] a have "unchanged d (ensureDir (butlast p) d) q" by simp
  moreover have "is_dir (atomicWrite p c d) q = is_dir (ensureDir (butlast p) d) q"
    by (simp add: atomicWrite_def atomic_states_def Let_def is_dir_def put_file_def remove_file_def)
  ultimately show ?thesis using a by (auto simp: unchanged_def)
qed

text \<open>A write elsewhere leaves the resolved directories; so does a write inside one of them.\<close>

lemma first_existing_pair:
  "(\<And>p. p \<in> {a, b} \<Longrightarrow> existsSync d' p = existsSync d p) \<Longrightarrow>
     first_existing (existsSync d') [a, b] a = first_existing (existsSync d) [a, b] a"
  by simp

lemma first_existing_inside:
  assumes "R = first_existing (existsSync d) [a, b] a" "\<not> prefix a (b @ r)" "\<not> prefix b (a @ r)"
    and "\<And>q. existsSync d q \<Longrightarrow> existsSync d' q" "\<And>q. \<not> prefix q (R @ r) \<Longrightarrow> existsSync d' q = existsSync d q"
  shows "first_existing (existsSync d') [a, b] a = R"
  using assms by (auto split: if_splits)

lemmas place_defs = resolveSkillsPath_def resolvePlaybooksPath_def knowledgePath_def selfPath_def Let_def

lemma resolvers_outside:
  assumes "\<And>p. p \<in> {ws @ [''knowledge'', ''skills''], ws @ [''skills''], ws @ [''knowledge'', ''playbooks''], ws @ [''artifacts'', ''playbooks'']}
      \<Longrightarrow> unchanged d d' p"
  shows "resolvers ws d' = resolvers ws d"
proof -
  have "existsSync d' p = existsSync d p"
    if "p \<in> {ws @ [''knowledge'', ''skills''], ws @ [''skills''], ws @ [''knowledge'', ''playbooks''], ws @ [''artifacts'', ''playbooks'']}" for p
    using unchanged_exists [OF assms [OF that]] .
  then show ?thesis by (simp add: resolvers_def place_defs del: append_assoc)
qed

lemma resolvers_atomic: "resolvers ws (atomicWrite (selfPath ws [f]) c d) = resolvers ws d"
  by (rule resolvers_outside, rule unchanged_atomic)
     (auto simp: selfPath_def temp_path_def butlast_append)

lemma resolvers_derivation: "resolvers ws (writeDerivationState fm ws dv d) = resolvers ws d"
  unfolding writeDerivationState_def
  by (rule resolvers_outside, rule unchanged_write) (auto simp: getDerivationPath_def)

lemma place_cases:
  "resolveSkillsPath d ws \<in> {ws @ [''knowledge'', ''skills''], ws @ [''skills'']}"
  "resolvePlaybooksPath d ws \<in> {ws @ [''knowledge'', ''playbooks''], ws @ [''artifacts'', ''playbooks'']}"
  by (simp_all add: place_defs)

lemma resolvers_skills:
  assumes "fst (resolvers ws d) = S" "r \<noteq> []"
  shows "resolvers ws (writeFileSafe (S @ r) c d) = resolvers ws d"
proof -
  let ?d = "writeFileSafe (S @ r) c d"
  have S: "S \<in> {ws @ [''knowledge'', ''skills''], ws @ [''skills'']}"
    using assms(1) place_cases(1) [of d ws] by (simp add: resolvers_def)
  have "resolveSkillsPath ?d ws = S"
    unfolding place_defs
  proof (rule first_existing_inside [where r = r])
    show "S = first_existing (existsSync d) [ws @ [''knowledge'', ''skills''], ws @ [''skills'']] (ws @ [''knowledge'', ''skills''])"
      using assms(1) by (simp add: resolvers_def place_defs)
    show "existsSync ?d q = existsSync d q" if "\<not> prefix q (S @ r)" for q
      using unchanged_exists [OF unchanged_write [OF that]] .
  qed (auto intro: exists_write)
  moreover have "resolvePlaybooksPath ?d ws = resolvePlaybooksPath d ws"
    unfolding place_defs
  proof (rule first_existing_pair)
    show "existsSync ?d p = existsSync d p" if "p \<in> {ws @ [''knowledge'', ''playbooks''], ws @ [''artifacts'', ''playbooks'']}" for p
      by (rule unchanged_exists, rule unchanged_write) (use that S in auto)
  qed
  ultimately show ?thesis using assms(1) by (simp add: resolvers_def)
qed

lemma resolvers_playbooks:
  assumes "snd (resolvers ws d) = P" "r \<noteq> []"
  shows "resolvers ws (writeFileSafe (P @ r) c d) = resolvers ws d"
proof -
  let ?d = "writeFileSafe (P @ r) c d"
  have P: "P \<in> {ws @ [''knowledge'', ''playbooks''], ws @ [''artifacts'', ''playbooks'']}"
    using assms(1) place_cases(2) [of d ws] by (simp add: resolvers_def)
  have "resolvePlaybooksPath ?d ws = P"
    unfolding place_defs
  proof (rule first_existing_inside [where r = r])
    show "P = first_existing (existsSync d) [ws @ [''knowledge'', ''playbooks''], ws @ [''artifacts'', ''playbooks'']] (ws @ [''knowledge'', ''playbooks''])"
      using assms(1) by (simp add: resolvers_def place_defs)
    show "existsSync ?d q = existsSync d q" if "\<not> prefix q (P @ r)" for q
      using unchanged_exists [OF unchanged_write [OF that]] .
  qed (auto intro: exists_write)
  moreover have "resolveSkillsPath ?d ws = resolveSkillsPath d ws"
    unfolding place_defs
  proof (rule first_existing_pair)
    show "existsSync ?d p = existsSync d p" if "p \<in> {ws @ [''knowledge'', ''skills''], ws @ [''skills'']}" for p
      by (rule unchanged_exists, rule unchanged_write) (use that P in auto)
  qed
  ultimately show ?thesis using assms(1) by (simp add: resolvers_def)
qed

section \<open>Disks that agree\<close>

text \<open>Two disks on which the compiler does the same: the resolved directories are the same, and the
  files outside the given set.\<close>

definition agree_off :: "segments set \<Rightarrow> segments \<Rightarrow> disk \<Rightarrow> disk \<Rightarrow> bool" where
  "agree_off Q ws d1 d2 \<longleftrightarrow> resolvers ws d1 = resolvers ws d2 \<and> (\<forall>q. q \<notin> Q \<longrightarrow> read_file d1 q = read_file d2 q)"

lemma agree_refl [simp]: "agree_off Q ws d d"
  by (simp add: agree_off_def)

lemma agree_mono: "agree_off Q ws d1 d2 \<Longrightarrow> Q \<subseteq> Q' \<Longrightarrow> agree_off Q' ws d1 d2"
  by (auto simp: agree_off_def)

lemma agree_skill_files:
  assumes "agree_off Q ws d1 d2" "fst (resolvers ws d1) = S"
  shows "agree_off (Q - (\<lambda>s. skill_md S (skill_id (fst s))) ` set xs) ws (foldl (write_skill S) d1 xs) (foldl (write_skill S) d2 xs)
     \<and> resolvers ws (foldl (write_skill S) d1 xs) = resolvers ws d1"
  using assms
proof (induction xs arbitrary: d1 d2 Q)
  case (Cons x xs)
  have S2: "fst (resolvers ws d2) = S" using Cons.prems by (simp add: agree_off_def)
  have keep: "resolvers ws (write_skill S d1 x) = resolvers ws d1" "resolvers ws (write_skill S d2 x) = resolvers ws d2"
    using resolvers_skills [OF Cons.prems(2)] resolvers_skills [OF S2] by (simp_all add: write_skill_def skill_md_def)
  have "agree_off (Q - {skill_md S (skill_id (fst x))}) ws (write_skill S d1 x) (write_skill S d2 x)"
    using Cons.prems(1) keep by (auto simp: agree_off_def write_skill_def)
  from Cons.IH [OF this] keep Cons.prems(2) show ?case by (auto simp: agree_off_def)
qed simp

lemma agree_playbook_files:
  assumes "agree_off Q ws d1 d2" "snd (resolvers ws d1) = P"
  shows "agree_off (Q - (\<lambda>p. P @ [playbook_file p]) ` set ps) ws
       (foldl (\<lambda>d p. writeFileSafe (P @ [playbook_file p]) (yaml p) d) d1 ps)
       (foldl (\<lambda>d p. writeFileSafe (P @ [playbook_file p]) (yaml p) d) d2 ps)
     \<and> resolvers ws (foldl (\<lambda>d p. writeFileSafe (P @ [playbook_file p]) (yaml p) d) d1 ps) = resolvers ws d1"
  using assms
proof (induction ps arbitrary: d1 d2 Q)
  case (Cons x ps)
  let ?w = "\<lambda>d. writeFileSafe (P @ [playbook_file x]) (yaml x) d"
  have P2: "snd (resolvers ws d2) = P" using Cons.prems by (simp add: agree_off_def)
  have keep: "resolvers ws (?w d1) = resolvers ws d1" "resolvers ws (?w d2) = resolvers ws d2"
    using resolvers_playbooks [OF Cons.prems(2)] resolvers_playbooks [OF P2] by simp_all
  have "agree_off (Q - {P @ [playbook_file x]}) ws (?w d1) (?w d2)"
    using Cons.prems(1) keep by (auto simp: agree_off_def)
  from Cons.IH [OF this] keep Cons.prems(2) show ?case by (auto simp: agree_off_def)
qed simp

text \<open>The files that a step writes; their names do not depend on the constitution.\<close>

definition any_constitution :: "session \<Rightarrow> constitution" where
  "any_constitution session = compileConstitution session [] []"

definition atomic_outs :: "segments \<Rightarrow> segments set" where
  "atomic_outs p = {p, temp_path p}"

definition step_outs :: "segments \<Rightarrow> segments \<times> segments \<Rightarrow> session \<Rightarrow> string \<Rightarrow> segments set" where
  "step_outs ws R session s =
     (if s = ''constitution'' then atomic_outs (constitution_path ws)
      else if s = ''guardrails'' then atomic_outs (selfPath ws [''guardrails.v1.yaml''])
      else if s = ''memory'' then atomic_outs (selfPath ws [''memory.v1.yaml''])
      else if s = ''skills'' then
        insert (manifest_file (fst R)) ((\<lambda>s. skill_md (fst R) (skill_id (fst s))) ` set (library_skills session (any_constitution session)))
      else if s = ''playbooks'' then
        (\<lambda>p. snd R @ [playbook_file p]) ` set (all_playbooks session (any_constitution session))
      else {})"

lemma library_names: "(\<lambda>s. f (skill_id (fst s))) ` set (library_skills session c) = (\<lambda>s. f (skill_id (fst s))) ` set (library_skills session c')"
  by (simp add: library_skills_def Let_def)

lemma playbook_names: "(\<lambda>p. f (playbook_file p)) ` set (all_playbooks session c) = (\<lambda>p. f (playbook_file p)) ` set (all_playbooks session c')"
  by (simp add: all_playbooks_def Let_def playbook_file_def generic_playbook_facts)

lemma resolvers_cases:
  "fst (resolvers ws d) \<in> {ws @ [''knowledge'', ''skills''], ws @ [''skills'']}"
  "snd (resolvers ws d) \<in> {ws @ [''knowledge'', ''playbooks''], ws @ [''artifacts'', ''playbooks'']}"
  using place_cases by (simp_all add: resolvers_def)

lemma outs_elsewhere:
  "getDerivationPath ws \<notin> step_outs ws (resolvers ws d) session s"
  "s \<noteq> ''constitution'' \<Longrightarrow> constitution_path ws \<notin> step_outs ws (resolvers ws d) session s"
proof -
  have "fst (resolvers ws d) = ws @ [''knowledge'', ''skills''] \<or> fst (resolvers ws d) = ws @ [''skills'']"
    "snd (resolvers ws d) = ws @ [''knowledge'', ''playbooks''] \<or> snd (resolvers ws d) = ws @ [''artifacts'', ''playbooks'']"
    using resolvers_cases [of ws d] by simp_all
  then show "getDerivationPath ws \<notin> step_outs ws (resolvers ws d) session s"
    "s \<noteq> ''constitution'' \<Longrightarrow> constitution_path ws \<notin> step_outs ws (resolvers ws d) session s"
    by (elim disjE; simp add: step_outs_def atomic_outs_def getDerivationPath_def constitution_path_def selfPath_def temp_path_def
      butlast_append manifest_file_def skill_md_def image_iff)+
qed

lemma agree_read_constitution:
  "agree_off Q ws d1 d2 \<Longrightarrow> constitution_path ws \<notin> Q \<Longrightarrow> read_constitution fm ws d1 = read_constitution fm ws d2"
  by (simp add: agree_off_def read_constitution_def)

lemma agree_atomic:
  assumes "agree_off (atomic_outs (selfPath ws [f])) ws d1 d2"
  shows "agree_off {} ws (atomicWrite (selfPath ws [f]) c d1) (atomicWrite (selfPath ws [f]) c d2)"
  using assms by (auto simp: agree_off_def resolvers_atomic atomic_outs_def)

lemma agree_skills:
  assumes "agree_off (step_outs ws (resolvers ws d1) session ''skills'') ws d1 d2"
    "compileSkills yaml ws session c d1 = (d1', a1)" "compileSkills yaml ws session c d2 = (d2', a2)"
  shows "a1 = a2 \<and> agree_off {} ws d1' d2' \<and> resolvers ws d1' = resolvers ws d1"
proof -
  let ?xs = "library_skills session c"
  obtain S where S1: "fst (resolvers ws d1) = S" by blast
  let ?w = "\<lambda>d. foldl (write_skill S) d ?xs"
  let ?Q = "insert (manifest_file S) ((\<lambda>s. skill_md S (skill_id (fst s))) ` set ?xs)"
  have res: "resolvers ws d1 = resolvers ws d2" using assms(1) by (simp add: agree_off_def)
  with S1 have S2: "fst (resolvers ws d2) = S" by simp
  have Q: "agree_off ?Q ws d1 d2"
    using assms(1) library_names [of "skill_md S" session c "any_constitution session"] by (simp add: step_outs_def S1)
  have f: "agree_off (?Q - (\<lambda>s. skill_md S (skill_id (fst s))) ` set ?xs) ws (?w d1) (?w d2)"
    and keep1: "resolvers ws (?w d1) = resolvers ws d1"
    by (rule agree_skill_files [OF Q S1, of ?xs, THEN conjunct1], rule agree_skill_files [OF Q S1, of ?xs, THEN conjunct2])
  have eq: "resolvers ws (?w d1) = resolvers ws (?w d2)"
    by (rule f [unfolded agree_off_def, THEN conjunct1])
  have rd: "read_file (?w d1) q = read_file (?w d2) q" if "manifest_file S \<noteq> q" for q
    by (rule f [unfolded agree_off_def, THEN conjunct2, rule_format]) (use that in simp)
  have w1: "fst (resolvers ws (?w d1)) = S" unfolding keep1 by (rule S1)
  have w2: "fst (resolvers ws (?w d2)) = S" unfolding eq [symmetric] by (rule w1)
  have m: "resolvers ws (writeFileSafe (manifest_file S) t (?w d1)) = resolvers ws (?w d1)"
    "resolvers ws (writeFileSafe (manifest_file S) t (?w d2)) = resolvers ws (?w d2)" for t
    unfolding manifest_file_def by (rule resolvers_skills [OF w1], simp) (rule resolvers_skills [OF w2], simp)
  have ag: "agree_off {} ws (writeFileSafe (manifest_file S) t (?w d1)) (writeFileSafe (manifest_file S) t (?w d2))" for t
    unfolding agree_off_def m read_writeFileSafe using eq rd by simp
  have "resolveSkillsPath d1 ws = S" "resolveSkillsPath d2 ws = S" using S1 S2 by (simp_all add: resolvers_def)
  then have "d1' = writeFileSafe (manifest_file S) (yaml (map fst ?xs)) (?w d1)" "a1 = [''skills/manifest.v1.yaml'']"
    "d2' = writeFileSafe (manifest_file S) (yaml (map fst ?xs)) (?w d2)" "a2 = [''skills/manifest.v1.yaml'']"
    using assms(2,3) by (simp_all add: compileSkills_def Let_def)
  then show ?thesis using ag m(1) keep1 by (simp only: simp_thms)
qed

lemma compilePlaybooks_eq:
  "compilePlaybooks yaml ws session c d =
     (foldl (\<lambda>d p. writeFileSafe (resolvePlaybooksPath d0 ws @ [playbook_file p]) (yaml p) d) d (all_playbooks session c),
      map (\<lambda>p. ''playbooks/'' @ playbook_file p) (all_playbooks session c))" if "d0 = d"
  using write_playbooks_fst [of yaml "resolvePlaybooksPath d ws" "(d, [])" "all_playbooks session c"]
    write_playbooks_snd [of yaml "resolvePlaybooksPath d ws" "(d, [])" "all_playbooks session c"]
  unfolding that compilePlaybooks_def Let_def by (simp add: prod_eq_iff)

lemma agree_playbooks:
  assumes "agree_off (step_outs ws (resolvers ws d1) session ''playbooks'') ws d1 d2"
    "compilePlaybooks yaml ws session c d1 = (d1', a1)" "compilePlaybooks yaml ws session c d2 = (d2', a2)"
  shows "a1 = a2 \<and> agree_off {} ws d1' d2' \<and> resolvers ws d1' = resolvers ws d1"
proof -
  let ?ps = "all_playbooks session c"
  obtain P where P1: "snd (resolvers ws d1) = P" by blast
  let ?w = "\<lambda>d. foldl (\<lambda>d p. writeFileSafe (P @ [playbook_file p]) (yaml p) d) d ?ps"
  have "resolvers ws d1 = resolvers ws d2" using assms(1) by (simp add: agree_off_def)
  with P1 have P: "resolvePlaybooksPath d1 ws = P" "resolvePlaybooksPath d2 ws = P" by (simp_all add: resolvers_def)
  have Q: "agree_off ((\<lambda>p. P @ [playbook_file p]) ` set ?ps) ws d1 d2"
    using assms(1) playbook_names [of "\<lambda>f. P @ [f]" session c "any_constitution session"] by (simp add: step_outs_def P1)
  have "agree_off {} ws (?w d1) (?w d2) \<and> resolvers ws (?w d1) = resolvers ws d1"
    using agree_playbook_files [OF Q P1, of ?ps yaml] by simp
  moreover have "d1' = ?w d1" "d2' = ?w d2" "a1 = a2"
    using assms(2,3) by (simp_all add: compilePlaybooks_eq [OF refl] P)
  ultimately show ?thesis by (simp only: simp_thms)
qed

text \<open>A step does the same on two disks that differ at most in what it writes.\<close>

lemma agree_step:
  assumes "agree_off (step_outs ws (resolvers ws d1) session s) ws d1 d2"
    "runStep fm no_fault now s ws session version d1 = (r1, d1')" "runStep fm no_fault now s ws session version d2 = (r2, d2')"
  shows "r1 = r2 \<and> (\<forall>arts. r1 = Inr arts \<longrightarrow> agree_off {} ws d1' d2') \<and> resolvers ws d1' = resolvers ws d1"
proof -
  have ro: "read_constitution fm ws d1 = read_constitution fm ws d2" if "s \<noteq> ''constitution''"
    using agree_read_constitution [OF assms(1) outs_elsewhere(2) [OF that]] .
  consider "s = ''constitution''" | "s = ''guardrails''" | "s = ''memory''" | "s = ''skills''" | "s = ''playbooks''"
    | "s \<notin> set ALL_STEPS"
    by (auto simp: ALL_STEPS_def)
  then show ?thesis
  proof cases
    case 1
    then have "agree_off (atomic_outs (constitution_path ws)) ws d1 d2" using assms(1) by (simp add: step_outs_def)
    from agree_atomic [OF this [unfolded constitution_path_def]] 1 assms(2,3) show ?thesis
      by (auto simp: runStep_def no_fault_def constitution_path_def resolvers_atomic)
  next
    case 2
    then have "agree_off (atomic_outs (selfPath ws [''guardrails.v1.yaml''])) ws d1 d2" using assms(1) by (simp add: step_outs_def)
    from agree_atomic [OF this] 2 assms(2,3) show ?thesis
      by (auto simp: runStep_def no_fault_def resolvers_atomic)
  next
    case 3
    then have "agree_off (atomic_outs (selfPath ws [''memory.v1.yaml''])) ws d1 d2" using assms(1) by (simp add: step_outs_def)
    from agree_atomic [OF this] 3 assms(2,3) show ?thesis
      by (auto simp: runStep_def no_fault_def resolvers_atomic)
  next
    case 4
    show ?thesis
    proof (cases "read_constitution fm ws d2")
      case (Inr k)
      obtain e1 a1 e2 a2 where c: "compileSkills (fm_skills fm) ws session k d1 = (e1, a1)" "compileSkills (fm_skills fm) ws session k d2 = (e2, a2)"
        by fastforce
      from agree_skills [OF assms(1) [unfolded 4] c] 4 Inr ro c assms(2,3) show ?thesis by (auto simp: runStep_def no_fault_def)
    qed (use 4 ro assms(2,3) in \<open>auto simp: runStep_def no_fault_def\<close>)
  next
    case 5
    show ?thesis
    proof (cases "read_constitution fm ws d2")
      case (Inr k)
      obtain e1 a1 e2 a2 where c: "compilePlaybooks (fm_playbook fm) ws session k d1 = (e1, a1)" "compilePlaybooks (fm_playbook fm) ws session k d2 = (e2, a2)"
        by fastforce
      from agree_playbooks [OF assms(1) [unfolded 5] c] 5 Inr ro c assms(2,3) show ?thesis by (auto simp: runStep_def no_fault_def)
    qed (use 5 ro assms(2,3) in \<open>auto simp: runStep_def no_fault_def\<close>)
  next
    case 6
    then have n: "s \<noteq> ''constitution''" "s \<noteq> ''guardrails''" "s \<noteq> ''memory''" "s \<noteq> ''skills''" "s \<noteq> ''playbooks''"
      by (simp_all add: ALL_STEPS_def)
    then have "agree_off {} ws d1 d2" using assms(1) by (simp add: step_outs_def)
    with n assms(2,3) show ?thesis by (simp add: runStep_def no_fault_def)
  qed
qed

section \<open>What a step leaves alone\<close>

lemma skill_files_leave:
  "q \<notin> (\<lambda>s. skill_md S (skill_id (fst s))) ` set xs \<Longrightarrow> read_file (foldl (write_skill S) d xs) q = read_file d q"
  by (induction xs arbitrary: d) (auto simp: write_skill_def)

lemma playbook_files_leave:
  "q \<notin> (\<lambda>p. P @ [playbook_file p]) ` set ps \<Longrightarrow>
     read_file (foldl (\<lambda>d p. writeFileSafe (P @ [playbook_file p]) (yaml p) d) d ps) q = read_file d q"
  by (induction ps arbitrary: d) auto

lemma skills_leave:
  assumes "compileSkills yaml ws session c d = (d', arts)" "q \<notin> step_outs ws (resolvers ws d) session ''skills''"
  shows "read_file d' q = read_file d q"
proof -
  let ?S = "resolveSkillsPath d ws"
  have "q \<noteq> manifest_file ?S" and q: "q \<notin> (\<lambda>s. skill_md ?S (skill_id (fst s))) ` set (library_skills session c)"
    using assms(2) library_names [of "skill_md ?S" session c "any_constitution session"]
    by (simp_all add: step_outs_def resolvers_def)
  with assms(1) skill_files_leave [OF q] show ?thesis by (auto simp: compileSkills_def Let_def)
qed

lemma playbooks_leave:
  assumes "compilePlaybooks yaml ws session c d = (d', arts)" "q \<notin> step_outs ws (resolvers ws d) session ''playbooks''"
  shows "read_file d' q = read_file d q"
proof -
  have "q \<notin> (\<lambda>p. resolvePlaybooksPath d ws @ [playbook_file p]) ` set (all_playbooks session c)"
    using assms(2) playbook_names [of "\<lambda>f. resolvePlaybooksPath d ws @ [f]" session c "any_constitution session"]
    by (simp add: step_outs_def resolvers_def)
  from playbook_files_leave [OF this] assms(1) show ?thesis by (auto simp: compilePlaybooks_eq [OF refl])
qed

lemma step_leaves:
  assumes "runStep fm no_fault now s ws session version d = (r, d')" "q \<notin> step_outs ws (resolvers ws d) session s"
  shows "read_file d' q = read_file d q"
proof -
  consider "s = ''skills''" | "s = ''playbooks''" | "s \<noteq> ''skills''" "s \<noteq> ''playbooks''" by blast
  then show ?thesis
  proof cases
    case 1
    with assms skills_leave show ?thesis by (auto simp: runStep_def no_fault_def split: sum.splits prod.splits)
  next
    case 2
    with assms playbooks_leave show ?thesis by (auto simp: runStep_def no_fault_def split: sum.splits prod.splits)
  next
    case 3
    with assms show ?thesis
      by (auto simp: runStep_def no_fault_def step_outs_def atomic_outs_def constitution_path_def split: if_splits)
  qed
qed

lemma step_resolvers: "runStep fm no_fault now s ws session version d = (r, d') \<Longrightarrow> resolvers ws d' = resolvers ws d"
  using agree_step [OF agree_refl] by blast

lemma step_error: "runStep fm no_fault now s ws session version d = (Inl e, d') \<Longrightarrow> d' = d"
  by (auto simp: runStep_def no_fault_def split: if_splits sum.splits prod.splits)

lemma derivation_read [simp]:
  "read_file (writeDerivationState fm ws dv d) q = (if getDerivationPath ws = q then Some (fm_derivation fm dv) else read_file d q)"
  by (simp add: writeDerivationState_def)

lemma agree_derivation:
  "agree_off Q ws d1 d2 \<Longrightarrow> agree_off (Q - {getDerivationPath ws}) ws (writeDerivationState fm ws dv d1) (writeDerivationState fm ws dv d2)"
  by (auto simp: agree_off_def resolvers_derivation)

section \<open>Runs of the loop\<close>

text \<open>What is relied on of the printers and parsers: a constitution compiled from the session, and a
  derivation of it with any progress, are read back as they were printed.\<close>

definition progressed :: "derivation \<Rightarrow> string list \<Rightarrow> string list \<Rightarrow> derivation" where
  "progressed dv steps arts = dv\<lparr>dv_completed_steps := steps, dv_artifacts_written := arts\<rparr>"

definition formats_ok :: "formats \<Rightarrow> stored_session \<Rightarrow> string \<Rightarrow> bool" where
  "formats_ok fm st version \<longleftrightarrow>
     (\<forall>t. fm_parse_constitution fm (fm_constitution fm (compileConstitution (st_session st) version t))
            = Some (compileConstitution (st_session st) version t))
     \<and> (\<forall>t steps arts. let dv = progressed (buildDerivationState st version t) steps arts
          in fm_derivation fm dv \<noteq> [] \<and> fm_parse_derivation fm (fm_derivation fm dv) = Some dv)"

lemma progressed_again: "progressed (progressed dv xs as) ys bs = progressed dv ys bs"
  by (simp add: progressed_def)

lemma complete_progressed: "complete_step s arts dv = progressed dv (dv_completed_steps dv @ [s]) (dv_artifacts_written dv @ arts)"
  by (simp add: complete_step_def progressed_def)

lemma loop_progressed:
  "compile_loop fm fault now ws session version xs (dv, d) = (e, dv', d') \<Longrightarrow> \<exists>steps arts. dv' = progressed dv steps arts"
proof (induction xs arbitrary: dv d)
  case Nil
  then show ?case by (intro exI [of _ "dv_completed_steps dv"] exI [of _ "dv_artifacts_written dv"]) (simp add: progressed_def)
next
  case (Cons s xs)
  have same: "\<exists>steps arts. dv = progressed dv steps arts"
    by (intro exI [of _ "dv_completed_steps dv"] exI [of _ "dv_artifacts_written dv"]) (simp add: progressed_def)
  show ?case
  proof (cases "s \<in> set (dv_completed_steps dv)")
    case True
    with Cons show ?thesis by simp
  next
    case False
    obtain r f where run: "runStep fm fault now s ws session version d = (r, f)" by fastforce
    show ?thesis
    proof (cases r)
      case (Inl m)
      with Cons.prems False run same show ?thesis by auto
    next
      case (Inr arts)
      with Cons.prems False run have
        "compile_loop fm fault now ws session version xs (complete_step s arts dv, writeDerivationState fm ws (complete_step s arts dv) f) = (e, dv', d')"
        by (simp add: Let_def)
      from Cons.IH [OF this] show ?thesis by (auto simp: complete_progressed progressed_again)
    qed
  qed
qed

lemma saved_read:
  assumes "formats_ok fm st version" "dv = progressed (buildDerivationState st version t) steps arts"
    "read_file d (getDerivationPath ws) = Some (fm_derivation fm dv)"
  shows "readDerivationState fm ws d = Some dv"
  using assms by (auto simp: readDerivationState_def readFileIfExists_def formats_ok_def Let_def)

lemma loop_append:
  "compile_loop fm fault now ws session version (xs @ ys) (dv, d) =
     (case compile_loop fm fault now ws session version xs (dv, d) of
        (None, dv', d') \<Rightarrow> compile_loop fm fault now ws session version ys (dv', d')
      | (Some e, dv', d') \<Rightarrow> (Some e, dv', d'))"
  by (induction xs arbitrary: dv d) (simp_all add: Let_def split: sum.split prod.split option.split)

lemma loop_skip:
  "set xs \<subseteq> set (dv_completed_steps dv) \<Longrightarrow> compile_loop fm fault now ws session version xs (dv, d) = (None, dv, d)"
  by (induction xs) auto

lemma loop_completed:
  "compile_loop fm fault now ws session version xs (dv, d) = (None, dv', d') \<Longrightarrow> distinct xs \<Longrightarrow>
     dv_completed_steps dv' = dv_completed_steps dv @ filter (\<lambda>s. s \<notin> set (dv_completed_steps dv)) xs"
proof (induction xs arbitrary: dv d)
  case (Cons s xs)
  show ?case
  proof (cases "s \<in> set (dv_completed_steps dv)")
    case True
    with Cons show ?thesis by simp
  next
    case False
    with Cons.prems(1) obtain arts e where run: "runStep fm fault now s ws session version d = (Inr arts, e)"
      by (auto split: sum.splits prod.splits)
    have "dv_completed_steps dv' = dv_completed_steps (complete_step s arts dv)
        @ filter (\<lambda>t. t \<notin> set (dv_completed_steps (complete_step s arts dv))) xs"
      using Cons.prems False run by (intro Cons.IH) (simp_all add: Let_def)
    moreover have "filter (\<lambda>t. t \<notin> set (dv_completed_steps dv @ [s])) xs = filter (\<lambda>t. t \<notin> set (dv_completed_steps dv)) xs"
      using Cons.prems(2) by (intro filter_cong) auto
    ultimately show ?thesis using False by (simp add: complete_step_def)
  qed
qed simp

lemma loop_agree:
  assumes "agree_off {} ws d1 d2"
    "compile_loop fm no_fault now ws session version xs (dv, d1) = (e1, dv1, d1')"
    "compile_loop fm no_fault now ws session version xs (dv, d2) = (e2, dv2, d2')"
  shows "e1 = e2 \<and> dv1 = dv2 \<and> agree_off {} ws d1' d2'"
  using assms
proof (induction xs arbitrary: dv d1 d2)
  case (Cons s xs)
  obtain r1 f1 r2 f2 where run: "runStep fm no_fault now s ws session version d1 = (r1, f1)"
    "runStep fm no_fault now s ws session version d2 = (r2, f2)" by fastforce
  have "agree_off (step_outs ws (resolvers ws d1) session s) ws d1 d2" using Cons.prems(1) agree_mono by blast
  from agree_step [OF this run] have r: "r1 = r2" "\<And>arts. r1 = Inr arts \<Longrightarrow> agree_off {} ws f1 f2" by blast+
  show ?case
  proof (cases "s \<in> set (dv_completed_steps dv)")
    case True
    with Cons show ?thesis by simp
  next
    case False
    show ?thesis
    proof (cases r1)
      case (Inl e)
      with r(1) have r2: "r2 = Inl e" by simp
      with Inl run step_error have "f1 = d1" "f2 = d2" by blast+
      with Cons.prems False run Inl r2 show ?thesis by auto
    next
      case (Inr arts)
      from agree_derivation [OF r(2) [OF Inr], of fm "complete_step s arts dv"]
      have "agree_off {} ws (writeDerivationState fm ws (complete_step s arts dv) f1) (writeDerivationState fm ws (complete_step s arts dv) f2)"
        by simp
      note ag = this
      from r(1) Inr have r2: "r2 = Inr arts" by simp
      from Cons.prems(2,3) False run have
        "compile_loop fm no_fault now ws session version xs (complete_step s arts dv, writeDerivationState fm ws (complete_step s arts dv) f1) = (e1, dv1, d1')"
        "compile_loop fm no_fault now ws session version xs (complete_step s arts dv, writeDerivationState fm ws (complete_step s arts dv) f2) = (e2, dv2, d2')"
        by (simp_all add: Let_def Inr r2)
      from Cons.IH [OF ag this] show ?thesis .
    qed
  qed
qed simp

text \<open>A failing run is a clean run of the steps before the failing one.\<close>

lemma loop_failure:
  "compile_loop fm fault now ws session version xs (dv, d) = (Some e, dv', d') \<Longrightarrow>
     \<exists>xs1 s xs2 dm. xs = xs1 @ s # xs2 \<and> compile_loop fm no_fault now ws session version xs1 (dv, d) = (None, dv', dm)
       \<and> s \<notin> set (dv_completed_steps dv')
       \<and> (fault s dm = Some (e, d') \<or> runStep fm no_fault now s ws session version dm = (Inl e, d'))"
proof (induction xs arbitrary: dv d)
  case (Cons s xs)
  show ?case
  proof (cases "s \<in> set (dv_completed_steps dv)")
    case True
    with Cons.prems have "compile_loop fm fault now ws session version xs (dv, d) = (Some e, dv', d')" by simp
    from Cons.IH [OF this] obtain xs1 t xs2 dm where "xs = xs1 @ t # xs2"
      "compile_loop fm no_fault now ws session version xs1 (dv, d) = (None, dv', dm)" "t \<notin> set (dv_completed_steps dv')"
      "fault t dm = Some (e, d') \<or> runStep fm no_fault now t ws session version dm = (Inl e, d')" by blast
    with True show ?thesis by (intro exI [of _ "s # xs1"] exI [of _ t] exI [of _ xs2] exI [of _ dm]) simp
  next
    case False
    show ?thesis
    proof (cases "fault s d")
      case (Some f)
      with Cons.prems False have "fault s d = Some (e, d')" "dv' = dv" by (auto simp: runStep_def split: prod.splits)
      with False show ?thesis by (intro exI [of _ "[]"] exI [of _ s] exI [of _ xs] exI [of _ d]) simp
    next
      case None
      then have same: "runStep fm fault now s ws session version d = runStep fm no_fault now s ws session version d"
        by (simp add: runStep_def no_fault_def)
      obtain r g where run: "runStep fm no_fault now s ws session version d = (r, g)" by fastforce
      show ?thesis
      proof (cases r)
        case (Inl m)
        with Cons.prems False same run have "m = e" "dv' = dv" "g = d'" by simp_all
        with False run Inl show ?thesis by (intro exI [of _ "[]"] exI [of _ s] exI [of _ xs] exI [of _ d]) simp
      next
        case (Inr arts)
        let ?dv = "complete_step s arts dv" let ?g = "writeDerivationState fm ws ?dv g"
        from Cons.prems False same run Inr
        have "compile_loop fm fault now ws session version xs (?dv, ?g) = (Some e, dv', d')" by (simp add: Let_def)
        from Cons.IH [OF this] obtain xs1 t xs2 dm where "xs = xs1 @ t # xs2"
          "compile_loop fm no_fault now ws session version xs1 (?dv, ?g) = (None, dv', dm)" "t \<notin> set (dv_completed_steps dv')"
          "fault t dm = Some (e, d') \<or> runStep fm no_fault now t ws session version dm = (Inl e, d')" by blast
        with False run Inr show ?thesis
          by (intro exI [of _ "s # xs1"] exI [of _ t] exI [of _ xs2] exI [of _ dm]) (simp add: Let_def)
      qed
    qed
  qed
qed simp

lemma loop_saved:
  "read_file d (getDerivationPath ws) = Some (fm_derivation fm dv) \<Longrightarrow>
   compile_loop fm no_fault now ws session version xs (dv, d) = (None, dv', d') \<Longrightarrow>
     read_file d' (getDerivationPath ws) = Some (fm_derivation fm dv')"
proof (induction xs arbitrary: dv d)
  case (Cons s xs)
  show ?case
  proof (cases "s \<in> set (dv_completed_steps dv)")
    case False
    obtain r e where run: "runStep fm no_fault now s ws session version d = (r, e)" by fastforce
    with False Cons.prems(2) obtain arts where r: "r = Inr arts" by (cases r) auto
    show ?thesis
      by (rule Cons.IH [of "writeDerivationState fm ws (complete_step s arts dv) e" "complete_step s arts dv"])
         (use False Cons.prems(2) run r in \<open>simp_all add: Let_def\<close>)
  qed (use Cons in simp)
qed simp

lemma loop_resolvers:
  "compile_loop fm no_fault now ws session version xs (dv, d) = (e, dv', d') \<Longrightarrow> resolvers ws d' = resolvers ws d"
proof (induction xs arbitrary: dv d)
  case (Cons s xs)
  then show ?case
    by (cases "s \<in> set (dv_completed_steps dv)")
       (auto simp: Let_def resolvers_derivation dest: step_resolvers split: sum.splits prod.splits)
qed simp

text \<open>With a constitution on disk no step fails.\<close>

lemma step_runs:
  assumes "formats_ok fm st version" "read_constitution fm ws d = Inr c \<or> s = ''constitution''"
  shows "\<exists>arts d' c'. runStep fm no_fault now s ws (st_session st) version d = (Inr arts, d') \<and> read_constitution fm ws d' = Inr c'"
proof (cases "s = ''constitution''")
  case True
  with assms(1) show ?thesis by (simp add: runStep_def no_fault_def read_constitution_def formats_ok_def)
next
  case False
  with assms(2) have c: "read_constitution fm ws d = Inr c" by simp
  obtain r d' where run: "runStep fm no_fault now s ws (st_session st) version d = (r, d')" by fastforce
  from step_leaves [OF run outs_elsewhere(2) [OF False]] c have "read_constitution fm ws d' = Inr c"
    by (simp add: read_constitution_def)
  moreover have "\<exists>arts. r = Inr arts"
    using run c by (auto simp: runStep_def no_fault_def split: if_splits prod.splits)
  ultimately show ?thesis using run by auto
qed

lemma read_constitution_derivation [simp]:
  "read_constitution fm ws (writeDerivationState fm ws dv d) = read_constitution fm ws d"
  by (simp add: read_constitution_def getDerivationPath_def constitution_path_def selfPath_def)

lemma loop_runs:
  "formats_ok fm st version \<Longrightarrow> read_constitution fm ws d = Inr c \<Longrightarrow>
     fst (compile_loop fm no_fault now ws (st_session st) version xs (dv, d)) = None"
proof (induction xs arbitrary: dv d c)
  case (Cons s xs)
  from step_runs [OF Cons.prems(1), of ws d c s] Cons.prems(2)
  obtain arts d' c' where run: "runStep fm no_fault now s ws (st_session st) version d = (Inr arts, d')" "read_constitution fm ws d' = Inr c'"
    by blast
  have "read_constitution fm ws (writeDerivationState fm ws (complete_step s arts dv) d') = Inr c'" using run(2) by simp
  from Cons.IH [OF Cons.prems(1) this] Cons.IH [OF Cons.prems] run(1) show ?case by (simp add: Let_def)
qed simp

lemma fresh_loop_runs:
  assumes "formats_ok fm st version" "dv_completed_steps dv = []"
  shows "fst (compile_loop fm no_fault now ws (st_session st) version ALL_STEPS (dv, d)) = None"
proof -
  obtain arts d' c' where run: "runStep fm no_fault now ''constitution'' ws (st_session st) version d = (Inr arts, d')" "read_constitution fm ws d' = Inr c'"
    using step_runs [OF assms(1)] by blast
  have "read_constitution fm ws (writeDerivationState fm ws (complete_step ''constitution'' arts dv) d') = Inr c'" using run(2) by simp
  from loop_runs [OF assms(1) this] run(1) assms(2) show ?thesis by (simp add: ALL_STEPS_def Let_def del: compile_loop.simps(2) add: compile_loop.simps(2) [of _ _ _ _ _ _ "''constitution''"])
qed

lemma loop_agree_head:
  assumes "agree_off (step_outs ws (resolvers ws d1) session s) ws d1 d2" "s \<notin> set (dv_completed_steps dv)"
    "compile_loop fm no_fault now ws session version (s # xs) (dv, d1) = (None, dv1, d1')"
    "compile_loop fm no_fault now ws session version (s # xs) (dv, d2) = (e2, dv2, d2')"
  shows "e2 = None \<and> dv1 = dv2 \<and> agree_off {} ws d1' d2'"
proof -
  obtain r1 f1 r2 f2 where run: "runStep fm no_fault now s ws session version d1 = (r1, f1)"
    "runStep fm no_fault now s ws session version d2 = (r2, f2)" by fastforce
  from assms(2,3) run(1) obtain arts where r1: "r1 = Inr arts" by (cases r1) auto
  from agree_step [OF assms(1) run] r1 have r2: "r2 = Inr arts" and ag: "agree_off {} ws f1 f2" by auto
  from agree_derivation [OF ag, of fm "complete_step s arts dv"]
  have "agree_off {} ws (writeDerivationState fm ws (complete_step s arts dv) f1) (writeDerivationState fm ws (complete_step s arts dv) f2)"
    by simp
  note ag = this
  from assms(2-4) run have
    "compile_loop fm no_fault now ws session version xs (complete_step s arts dv, writeDerivationState fm ws (complete_step s arts dv) f1) = (None, dv1, d1')"
    "compile_loop fm no_fault now ws session version xs (complete_step s arts dv, writeDerivationState fm ws (complete_step s arts dv) f2) = (e2, dv2, d2')"
    by (simp_all add: Let_def r1 r2)
  from loop_agree [OF ag this] show ?thesis by blast
qed

text \<open>Only the constitution depends on the time.\<close>

lemma loop_time:
  "''constitution'' \<in> set (dv_completed_steps dv) \<Longrightarrow>
     compile_loop fm fault now ws session version xs (dv, d) = compile_loop fm fault now' ws session version xs (dv, d)"
proof (induction xs arbitrary: dv d)
  case (Cons s xs)
  show ?case
  proof (cases "s \<in> set (dv_completed_steps dv)")
    case False
    with Cons.prems have "runStep fm fault now s ws session version d = runStep fm fault now' s ws session version d"
      by (auto simp: runStep_def)
    moreover have "''constitution'' \<in> set (dv_completed_steps (complete_step s arts dv))" for arts
      using Cons.prems by (simp add: complete_step_def)
    ultimately show ?thesis using False Cons.IH by (simp add: Let_def split: sum.split prod.split)
  qed (use Cons in simp)
qed simp

section \<open>Failing and resuming\<close>

text \<open>An error of the operating system may leave the files of the step that failed in any state,
  nothing else.\<close>

definition local_fault :: "fault \<Rightarrow> segments \<Rightarrow> session \<Rightarrow> bool" where
  "local_fault fault ws session \<longleftrightarrow>
     (\<forall>s d e d'. fault s d = Some (e, d') \<longrightarrow> agree_off (step_outs ws (resolvers ws d) session s) ws d d')"

text \<open>
  C17. A compilation that fails can be resumed as if it had not failed. Let a run fail at any step, by
  an error of the operating system that leaves the files of that step in any state. The derivation
  file then lists exactly the steps before the failing one and the artifacts reported, and the
  command line sees that it can resume. Resuming succeeds, and afterwards every file of the disk and
  the list of artifacts are those of an uninterrupted compilation: one at the time of the first run,
  or at the time of the second when the very first step had failed.
\<close>

theorem failed_compilation_resumes:
  assumes "formats_ok fm st version" "local_fault fault ws (st_session st)"
    and "compile fm fault t1 ws st version False d0 = (r1, d1)" "\<not> cr_success r1"
    and "compile fm no_fault t2 ws st version True d1 = (r2, d2)"
    and "compile fm no_fault (if cr_resumed r2 then t1 else t2) ws st version False d0 = (r3, d3)"
  shows "(\<exists>dv k. readDerivationState fm ws d1 = Some dv \<and> k < length ALL_STEPS \<and> dv_completed_steps dv = take k ALL_STEPS
          \<and> dv_artifacts_written dv = cr_artifacts r1 \<and> (cr_resumed r2 \<longleftrightarrow> 0 < k))
     \<and> canResume fm ws d1
     \<and> cr_success r2 \<and> cr_artifacts r2 = cr_artifacts r3 \<and> (\<forall>q. read_file d2 q = read_file d3 q)"
proof -
  let ?s = "st_session st" let ?dv = "\<lambda>t. buildDerivationState st version t"
  let ?w = "\<lambda>t d. writeDerivationState fm ws (?dv t) d"
  let ?loop = "\<lambda>f t xs p. compile_loop fm f t ws ?s version xs p"
  obtain e dv where run1: "?loop fault t1 ALL_STEPS (?dv t1, ?w t1 d0) = (Some e, dv, d1)" "cr_artifacts r1 = dv_artifacts_written dv"
    using assms(3,4) by (auto simp: compile_def Let_def split: option.splits prod.splits)
  from loop_failure [OF run1(1)] obtain xs1 s xs2 dm where split: "ALL_STEPS = xs1 @ s # xs2"
    and clean: "?loop no_fault t1 xs1 (?dv t1, ?w t1 d0) = (None, dv, dm)" and s: "s \<notin> set (dv_completed_steps dv)"
    and fail: "fault s dm = Some (e, d1) \<or> runStep fm no_fault t1 s ws ?s version dm = (Inl e, d1)" by blast
  have ref: "fst (?loop no_fault t ALL_STEPS (?dv t, ?w t d0)) = None" for t
    using fresh_loop_runs [OF assms(1)] by (simp add: buildDerivationState_def)
  have cont: "?loop no_fault t1 ALL_STEPS (?dv t1, ?w t1 d0) = ?loop no_fault t1 (s # xs2) (dv, dm)"
    unfolding split loop_append clean by simp
  have off: "agree_off (step_outs ws (resolvers ws dm) ?s s) ws dm d1"
  proof (cases "fault s dm = Some (e, d1)")
    case False
    with fail step_error have "d1 = dm" by blast
    then show ?thesis by simp
  qed (use assms(2) in \<open>auto simp: local_fault_def\<close>)
  have "distinct ALL_STEPS" by (simp add: ALL_STEPS_def)
  then have fin: "dv_completed_steps dv = xs1"
    using loop_completed [OF clean] unfolding split by (simp add: buildDerivationState_def)
  have "read_file dm (getDerivationPath ws) = Some (fm_derivation fm dv)" using loop_saved [OF _ clean] by simp
  with off outs_elsewhere(1) have "read_file d1 (getDerivationPath ws) = Some (fm_derivation fm dv)"
    by (simp add: agree_off_def)
  with saved_read [OF assms(1)] loop_progressed [OF clean] have saved: "readDerivationState fm ws d1 = Some dv" by blast
  have k: "xs1 = take (length xs1) ALL_STEPS" "length xs1 < length ALL_STEPS" unfolding split by simp_all
  have can: "canResume fm ws d1" using saved s unfolding canResume_def split by simp
  show ?thesis
  proof (cases "xs1 = []")
    case True
    obtain e2 dv2 where l2: "?loop no_fault t2 ALL_STEPS (?dv t2, ?w t2 d1) = (e2, dv2, d2)"
      and r2: "cr_success r2 = (e2 = None)" "cr_artifacts r2 = dv_artifacts_written dv2" "\<not> cr_resumed r2"
      using assms(5) saved fin True by (auto simp: compile_def Let_def split: option.splits prod.splits)
    obtain e3 dv3 where l3: "?loop no_fault t2 ALL_STEPS (?dv t2, ?w t2 d0) = (e3, dv3, d3)"
      and r3: "cr_artifacts r3 = dv_artifacts_written dv3"
      using assms(6) r2(3) by (auto simp: compile_def Let_def split: option.splits prod.splits)
    from clean True have dv: "dv = ?dv t1" "dm = ?w t1 d0" by auto
    have "agree_off (insert (getDerivationPath ws) (step_outs ws (resolvers ws d0) ?s s)) ws d0 d1"
      using off unfolding dv(2) by (auto simp: agree_off_def resolvers_derivation)
    from agree_derivation [OF this, of fm "?dv t2"]
    have start: "agree_off (step_outs ws (resolvers ws (?w t2 d0)) ?s s) ws (?w t2 d0) (?w t2 d1)"
      by (rule agree_mono) (auto simp: resolvers_derivation)
    have "e3 = None" using ref [of t2] l3 by (metis (no_types, lifting) fst_conv resolvers_derivation)
    with l3 l2 have "e2 = None \<and> dv3 = dv2 \<and> agree_off {} ws d3 d2"
      using loop_agree_head [OF start, of "?dv t2"] unfolding split True append_Nil by (simp add: buildDerivationState_def)
    then show ?thesis using saved k fin can r2 r3 run1(2) True by (auto simp: agree_off_def)
  next
    case False
    then have c: "''constitution'' \<in> set (dv_completed_steps dv)"
      using split unfolding fin by (cases xs1) (auto simp: ALL_STEPS_def)
    obtain e2 dv2 where l2: "?loop no_fault t2 ALL_STEPS (dv, d1) = (e2, dv2, d2)"
      and r2: "cr_success r2 = (e2 = None)" "cr_artifacts r2 = dv_artifacts_written dv2" "cr_resumed r2"
      using assms(5) saved fin False by (auto simp: compile_def Let_def split: option.splits prod.splits)
    obtain e3 dv3 where l3: "?loop no_fault t1 ALL_STEPS (?dv t1, ?w t1 d0) = (e3, dv3, d3)"
      and r3: "cr_artifacts r3 = dv_artifacts_written dv3"
      using assms(6) r2(3) by (auto simp: compile_def Let_def split: option.splits prod.splits)
    have "?loop no_fault t2 ALL_STEPS (dv, d1) = ?loop no_fault t2 (s # xs2) (dv, d1)"
      unfolding split loop_append using loop_skip [of xs1 dv] fin by simp
    with l2 loop_time [OF c] have l2': "?loop no_fault t1 (s # xs2) (dv, d1) = (e2, dv2, d2)" by metis
    have "e3 = None" using ref [of t1] l3 by simp
    with l3 cont have l3': "?loop no_fault t1 (s # xs2) (dv, dm) = (None, dv3, d3)" by simp
    from loop_agree_head [OF off s l3' l2'] have "e2 = None \<and> dv3 = dv2 \<and> agree_off {} ws d3 d2" .
    then show ?thesis using saved k fin can r2 r3 run1(2) False by (auto simp: agree_off_def)
  qed
qed

text \<open>
  C19. A finished compilation is never repeated by resuming. After a successful compilation, resuming
  with any other session, version and time, and whatever errors could occur, reports success with the
  old artifacts and leaves the disk as it is: the new session is not compiled.
\<close>

theorem resume_ignores_session:
  assumes "formats_ok fm st version" "compile fm no_fault t1 ws st version False d0 = (r1, d1)"
  shows "compile fm fault t2 ws st' version' True d1 =
      (\<lparr>cr_success = True, cr_artifacts = cr_artifacts r1, cr_errors = None, cr_resumed = True\<rparr>, d1)"
proof -
  let ?dv = "buildDerivationState st version t1"
  obtain dv where run: "compile_loop fm no_fault t1 ws (st_session st) version ALL_STEPS (?dv, writeDerivationState fm ws ?dv d0) = (None, dv, d1)"
    "cr_artifacts r1 = dv_artifacts_written dv"
  proof -
    obtain e dv where l: "compile_loop fm no_fault t1 ws (st_session st) version ALL_STEPS (?dv, writeDerivationState fm ws ?dv d0) = (e, dv, d1)"
      "cr_artifacts r1 = dv_artifacts_written dv"
      using assms(2) by (auto simp: compile_def Let_def split: option.splits prod.splits)
    have "fst (compile_loop fm no_fault t1 ws (st_session st) version ALL_STEPS (?dv, writeDerivationState fm ws ?dv d0)) = None"
      by (rule fresh_loop_runs [OF assms(1)]) (simp add: buildDerivationState_def)
    with l(1) have "e = None" by simp
    with l show ?thesis by (intro that) simp_all
  qed
  have "distinct ALL_STEPS" by (simp add: ALL_STEPS_def)
  with loop_completed [OF run(1)] have fin: "dv_completed_steps dv = ALL_STEPS" by (simp add: buildDerivationState_def)
  have "read_file d1 (getDerivationPath ws) = Some (fm_derivation fm dv)" using loop_saved [OF _ run(1)] by simp
  with saved_read [OF assms(1)] loop_progressed [OF run(1)] have saved: "readDerivationState fm ws d1 = Some dv" by blast
  have "compile_loop fm fault t2 ws (st_session st') version' ALL_STEPS (dv, d1) = (None, dv, d1)"
    by (rule loop_skip) (simp add: fin)
  moreover have "ALL_STEPS \<noteq> []" by (simp add: ALL_STEPS_def)
  ultimately show ?thesis using saved fin run(2) by (simp add: compile_def Let_def)
qed

section \<open>What a compilation writes\<close>

lemma outs_apart:
  assumes "R = resolvers ws d"
  shows "selfPath ws [''guardrails.v1.yaml''] \<notin> step_outs ws R session ''memory''"
    "selfPath ws [''guardrails.v1.yaml''] \<notin> step_outs ws R session ''skills''"
    "selfPath ws [''guardrails.v1.yaml''] \<notin> step_outs ws R session ''playbooks''"
    "selfPath ws [''memory.v1.yaml''] \<notin> step_outs ws R session ''skills''"
    "selfPath ws [''memory.v1.yaml''] \<notin> step_outs ws R session ''playbooks''"
    "fst R @ r \<notin> step_outs ws R session ''playbooks''"
proof -
  have "fst R = ws @ [''knowledge'', ''skills''] \<or> fst R = ws @ [''skills'']"
    "snd R = ws @ [''knowledge'', ''playbooks''] \<or> snd R = ws @ [''artifacts'', ''playbooks'']"
    using resolvers_cases [of ws d] unfolding assms by simp_all
  then show "selfPath ws [''guardrails.v1.yaml''] \<notin> step_outs ws R session ''memory''"
    "selfPath ws [''guardrails.v1.yaml''] \<notin> step_outs ws R session ''skills''"
    "selfPath ws [''guardrails.v1.yaml''] \<notin> step_outs ws R session ''playbooks''"
    "selfPath ws [''memory.v1.yaml''] \<notin> step_outs ws R session ''skills''"
    "selfPath ws [''memory.v1.yaml''] \<notin> step_outs ws R session ''playbooks''"
    "fst R @ r \<notin> step_outs ws R session ''playbooks''"
    by (elim disjE; simp add: step_outs_def atomic_outs_def selfPath_def temp_path_def butlast_append manifest_file_def
      skill_md_def image_iff)+
qed

lemma playbook_ids_distinct: "distinct (map pb_id (all_playbooks session c))"
proof (cases rule: all_playbooks_cases [of session c])
  case (shipped k)
  with shipped_playbooks_ok(2) show ?thesis by simp
qed simp

lemma compiled_workspace:
  assumes "formats_ok fm st version" "compile fm no_fault now ws st version False d = (r, d')"
    and "session = st_session st" "c = compileConstitution session version now"
  shows "cr_success r \<and> cr_errors r = None
     \<and> cr_artifacts r = [''self/constitution.v1.json'', ''self/guardrails.v1.yaml'', ''self/memory.v1.yaml'', ''skills/manifest.v1.yaml'']
          @ map (\<lambda>p. ''playbooks/'' @ playbook_file p) (all_playbooks session c)
     \<and> read_file d' (selfPath ws [''constitution.v1.json'']) = Some (fm_constitution fm c)
     \<and> read_file d' (selfPath ws [''guardrails.v1.yaml'']) = Some (fm_guardrails fm (compileGuardrails session))
     \<and> read_file d' (selfPath ws [''memory.v1.yaml'']) = Some (fm_memory fm (compileMemoryPolicy session))
     \<and> read_file d' (manifest_file (resolveSkillsPath d ws)) = Some (fm_skills fm (map fst (library_skills session c)))
     \<and> list_all (\<lambda>p. read_file d' (resolvePlaybooksPath d ws @ [playbook_file p]) = Some (fm_playbook fm p)) (all_playbooks session c)
     \<and> \<not> canResume fm ws d'"
proof -
  let ?w = "\<lambda>dv d. writeDerivationState fm ws dv d" let ?run = "\<lambda>s d. runStep fm no_fault now s ws session version d"
  let ?R = "resolvers ws d" let ?G = "selfPath ws [''guardrails.v1.yaml'']" let ?M = "selfPath ws [''memory.v1.yaml'']"
  let ?ps = "all_playbooks session c"
  define dv0 where "dv0 = buildDerivationState st version now"
  define dv1 where "dv1 = complete_step ''constitution'' [''self/constitution.v1.json''] dv0"
  define dv2 where "dv2 = complete_step ''guardrails'' [''self/guardrails.v1.yaml''] dv1"
  define dv3 where "dv3 = complete_step ''memory'' [''self/memory.v1.yaml''] dv2"
  define dv4 where "dv4 = complete_step ''skills'' [''skills/manifest.v1.yaml''] dv3"
  define dv5 where "dv5 = complete_step ''playbooks'' (map (\<lambda>p. ''playbooks/'' @ playbook_file p) ?ps) dv4"
  note dvs = dv5_def dv4_def dv3_def dv2_def dv1_def dv0_def complete_step_def buildDerivationState_def
  obtain e0 where e0: "e0 = ?w dv0 d" by blast
  obtain f1 where f1: "?run ''constitution'' e0 = (Inr [''self/constitution.v1.json''], f1)"
    "f1 = atomicWrite (constitution_path ws) (fm_constitution fm c) e0"
    by (simp add: runStep_def no_fault_def assms(4))
  obtain e1 where e1: "e1 = ?w dv1 f1" by blast
  obtain f2 where f2: "?run ''guardrails'' e1 = (Inr [''self/guardrails.v1.yaml''], f2)"
    "f2 = atomicWrite ?G (fm_guardrails fm (compileGuardrails session)) e1"
    by (simp add: runStep_def no_fault_def)
  obtain e2 where e2: "e2 = ?w dv2 f2" by blast
  obtain f3 where f3: "?run ''memory'' e2 = (Inr [''self/memory.v1.yaml''], f3)"
    "f3 = atomicWrite ?M (fm_memory fm (compileMemoryPolicy session)) e2"
    by (simp add: runStep_def no_fault_def)
  obtain e3 where e3: "e3 = ?w dv3 f3" by blast
  have R1: "resolvers ws e0 = ?R" by (simp add: e0 resolvers_derivation)
  have R2: "resolvers ws e1 = ?R" using step_resolvers [OF f1(1)] R1 by (simp add: e1 resolvers_derivation)
  have R3: "resolvers ws e2 = ?R" using step_resolvers [OF f2(1)] R2 by (simp add: e2 resolvers_derivation)
  have R4: "resolvers ws e3 = ?R" using step_resolvers [OF f3(1)] R3 by (simp add: e3 resolvers_derivation)
  have neq: "getDerivationPath ws \<noteq> constitution_path ws" "getDerivationPath ws \<noteq> ?G" "getDerivationPath ws \<noteq> ?M"
    by (simp_all add: getDerivationPath_def constitution_path_def selfPath_def)
  have c1: "read_file e1 (constitution_path ws) = Some (fm_constitution fm c)" by (simp add: e1 f1(2) neq)
  have c2: "read_file e2 (constitution_path ws) = Some (fm_constitution fm c)"
    using step_leaves [OF f2(1) outs_elsewhere(2)] c1 by (simp add: e2 neq)
  have c3: "read_file e3 (constitution_path ws) = Some (fm_constitution fm c)"
    using step_leaves [OF f3(1) outs_elsewhere(2)] c2 by (simp add: e3 neq)
  then have rc3: "read_constitution fm ws e3 = Inr c" using assms(1,3,4) by (simp add: read_constitution_def formats_ok_def)
  obtain f4 where f4: "compileSkills (fm_skills fm) ws session c e3 = (f4, [''skills/manifest.v1.yaml''])"
    "f4 = writeFileSafe (manifest_file (fst ?R)) (fm_skills fm (map fst (library_skills session c))) (foldl (write_skill (fst ?R)) e3 (library_skills session c))"
    using R4 by (simp add: compileSkills_def Let_def resolvers_def)
  then have run4: "?run ''skills'' e3 = (Inr [''skills/manifest.v1.yaml''], f4)" by (simp add: runStep_def no_fault_def rc3)
  obtain e4 where e4: "e4 = ?w dv4 f4" by blast
  have R5: "resolvers ws e4 = ?R" using step_resolvers [OF run4] R4 by (simp add: e4 resolvers_derivation)
  have c4: "read_file e4 (constitution_path ws) = Some (fm_constitution fm c)"
    using step_leaves [OF run4 outs_elsewhere(2)] c3 by (simp add: e4 neq)
  then have rc4: "read_constitution fm ws e4 = Inr c" using assms(1,3,4) by (simp add: read_constitution_def formats_ok_def)
  obtain f5 where f5: "compilePlaybooks (fm_playbook fm) ws session c e4 = (f5, map (\<lambda>p. ''playbooks/'' @ playbook_file p) ?ps)"
    "f5 = foldl (\<lambda>d p. writeFileSafe (snd ?R @ [playbook_file p]) (fm_playbook fm p) d) e4 ?ps"
    using R5 by (simp add: compilePlaybooks_eq [OF refl] resolvers_def)
  then have run5: "?run ''playbooks'' e4 = (Inr (map (\<lambda>p. ''playbooks/'' @ playbook_file p) ?ps), f5)"
    by (simp add: runStep_def no_fault_def rc4)
  have loop: "compile_loop fm no_fault now ws session version ALL_STEPS (dv0, e0) = (None, dv5, ?w dv5 f5)"
    using f1(1) f2(1) f3(1) run4 run5
    by (simp add: ALL_STEPS_def Let_def e1 e2 e3 e4 dv5_def dv4_def dv3_def dv2_def dv1_def complete_step_def dv0_def buildDerivationState_def)
  then have d': "d' = ?w dv5 f5" and res: "cr_success r" "cr_errors r = None" "cr_artifacts r = dv_artifacts_written dv5"
    using assms(2) by (auto simp: compile_def Let_def assms(3) dv0_def e0)
  have late: "read_file d' q = read_file f4 q" if "q \<noteq> getDerivationPath ws" "q \<notin> step_outs ws ?R session ''playbooks''" for q
    using step_leaves [OF run5, of q] that R5 by (simp add: d' e4)
  have self: "read_file d' q = read_file f3 q" if "q \<noteq> getDerivationPath ws" "q \<notin> step_outs ws ?R session ''playbooks''"
    "q \<notin> step_outs ws ?R session ''skills''" for q
    using late [OF that(1,2)] step_leaves [OF run4, of q] that R4 by (simp add: e3)
  note apart = outs_apart [OF refl, of ws d]
  have "read_file d' (constitution_path ws) = Some (fm_constitution fm c)"
    using step_leaves [OF run5 outs_elsewhere(2)] c4 by (simp add: d' neq)
  moreover have "read_file f3 ?G = Some (fm_guardrails fm (compileGuardrails session))"
    using step_leaves [OF f3(1), of ?G] apart(1) R3 by (simp add: e2 f2(2) neq)
  then have "read_file d' ?G = Some (fm_guardrails fm (compileGuardrails session))" using self [of ?G] apart neq by metis
  moreover have "read_file d' ?M = Some (fm_memory fm (compileMemoryPolicy session))" using self [of ?M] apart neq by (simp add: f3(2))
  moreover have "getDerivationPath ws \<noteq> manifest_file (fst ?R)"
    using resolvers_cases(1) [of ws d] by (auto simp: getDerivationPath_def manifest_file_def)
  then have "read_file d' (manifest_file (fst ?R)) = Some (fm_skills fm (map fst (library_skills session c)))"
    using late [of "manifest_file (fst ?R)"] apart(6) [of "[''manifest.v1.yaml'']"] by (simp add: f4(2) manifest_file_def)
  moreover have "read_file d' (snd ?R @ [playbook_file p]) = Some (fm_playbook fm p)" if "p \<in> set ?ps" for p
  proof -
    have "getDerivationPath ws \<noteq> snd ?R @ [playbook_file p]"
      using resolvers_cases(2) [of ws d] by (auto simp: getDerivationPath_def)
    moreover have "map_of (map (\<lambda>p. (snd ?R @ [playbook_file p], fm_playbook fm p)) ?ps) (snd ?R @ [playbook_file p]) = Some (fm_playbook fm p)"
      using that playbook_ids_distinct [of session c]
      by (intro map_of_is_SomeI) (auto simp: comp_def distinct_map inj_on_def playbook_file_def)
    ultimately show ?thesis using read_playbooks [OF playbook_ids_distinct] by (simp add: d' f5(2))
  qed
  moreover have "readDerivationState fm ws d' = Some dv5"
    using saved_read [OF assms(1)] loop_progressed [OF loop] unfolding dv0_def d' by (auto simp: derivation_read)
  then have "\<not> canResume fm ws d'" by (simp add: canResume_def ALL_STEPS_def dvs)
  ultimately show ?thesis using res by (simp add: list_all_iff dvs resolvers_def constitution_path_def)
qed

text \<open>
  C18. A compilation without errors succeeds and writes the workspace. The constitution, the guardrails
  and the memory policy on disk are those that the compilers make of the session; the manifest lists
  the skills, and there is a file for each playbook, both personalised with the constitution of the
  same run as it is read back from the disk. The result lists these artifacts, the derivation lists
  all steps, and there is nothing to resume.
\<close>

theorem compilation_writes_workspace:
  assumes "formats_ok fm st version" "compile fm no_fault now ws st version False d = (r, d')"
    and "session = st_session st" "c = compileConstitution session version now"
  shows "cr_success r \<and> cr_errors r = None
     \<and> cr_artifacts r = [''self/constitution.v1.json'', ''self/guardrails.v1.yaml'', ''self/memory.v1.yaml'', ''skills/manifest.v1.yaml'']
          @ map (\<lambda>p. ''playbooks/'' @ playbook_file p) (all_playbooks session c)
     \<and> read_file d' (selfPath ws [''constitution.v1.json'']) = Some (fm_constitution fm c)
     \<and> read_file d' (selfPath ws [''guardrails.v1.yaml'']) = Some (fm_guardrails fm (compileGuardrails session))
     \<and> read_file d' (selfPath ws [''memory.v1.yaml'']) = Some (fm_memory fm (compileMemoryPolicy session))
     \<and> read_file d' (manifest_file (resolveSkillsPath d ws)) = Some (fm_skills fm (map fst (library_skills session c)))
     \<and> list_all (\<lambda>p. read_file d' (resolvePlaybooksPath d ws @ [playbook_file p]) = Some (fm_playbook fm p)) (all_playbooks session c)
     \<and> \<not> canResume fm ws d'"
  using assms by (rule compiled_workspace)

section \<open>The directories that a compilation makes\<close>

definition compile_dir :: "segments \<Rightarrow> segments \<Rightarrow> bool" where
  "compile_dir ws p \<longleftrightarrow> prefix p (ws @ [''artifacts''])
     \<or> (\<exists>x \<in> {[''self''], [''knowledge''], [''skills''], [''ops''], [''artifacts'', ''playbooks'']}. prefix (ws @ x) p)"

definition makes :: "segments \<Rightarrow> disk \<Rightarrow> disk \<Rightarrow> bool" where
  "makes ws d d' \<longleftrightarrow> (\<forall>p. is_dir d' p \<longrightarrow> is_dir d p \<or> compile_dir ws p)"

lemma makes_refl [simp]: "makes ws d d"
  by (simp add: makes_def)

lemma makes_trans: "makes ws a b \<Longrightarrow> makes ws b c \<Longrightarrow> makes ws a c"
  by (auto simp: makes_def)

lemma makes_foldl: "(\<And>d x. makes ws d (f d x)) \<Longrightarrow> makes ws d (foldl f d xs)"
  by (induction xs arbitrary: d) (auto intro: makes_trans)

lemma is_dir_ensured: "is_dir (ensureDir p d) q \<Longrightarrow> is_dir d q \<or> prefix q p"
  by (auto simp: ensureDir_def is_dir_def dirs_make take_is_prefix split: if_splits)

lemma compile_dir_below:
  assumes "x \<in> {[''self''], [''knowledge''], [''skills''], [''ops''], [''artifacts'', ''playbooks'']}" "prefix p (ws @ x @ r)"
  shows "compile_dir ws p"
proof -
  from assms(2) have "prefix p (ws @ x) \<or> prefix (ws @ x) p"
    using prefix_same_cases [of p "(ws @ x) @ r" "ws @ x"] by simp
  then show ?thesis
  proof
    assume "prefix p (ws @ x)"
    then have "p = ws @ x \<or> prefix p (butlast (ws @ x))"
      using assms(1) by (cases "ws @ x" rule: rev_cases) auto
    with assms(1) show ?thesis unfolding compile_dir_def by (auto simp: butlast_append prefix_append)
  qed (use assms(1) in \<open>auto simp: compile_dir_def\<close>)
qed

lemma makes_write:
  assumes "x \<in> {[''self''], [''knowledge''], [''skills''], [''ops''], [''artifacts'', ''playbooks'']}" "r \<noteq> []"
  shows "makes ws d (writeFileSafe (ws @ x @ r) c d)"
proof -
  have "compile_dir ws p" if "prefix p (butlast (ws @ x @ r))" for p
    using compile_dir_below [OF assms(1), of p ws "butlast r"] that assms(2) by (simp add: butlast_append)
  then show ?thesis
    by (auto simp: makes_def writeFileSafe_def is_dir_def put_file_def dest!: is_dir_ensured [unfolded is_dir_def])
qed

lemma makes_self: "makes ws d (atomicWrite (selfPath ws [f]) c d)"
  using compile_dir_below [of "[''self'']" _ ws "[]"]
  by (auto simp: makes_def atomicWrite_def atomic_states_def Let_def is_dir_def put_file_def remove_file_def selfPath_def butlast_append
      dest!: is_dir_ensured [unfolded is_dir_def])

lemma makes_derivation: "makes ws d (writeDerivationState fm ws dv d)"
  using makes_write [of "[''ops'']" "[''derivation.v1.yaml'']"] by (simp add: writeDerivationState_def getDerivationPath_def)

lemma makes_skill: "makes ws d (writeFileSafe (resolveSkillsPath d0 ws @ r) c d)" if "r \<noteq> []"
  using place_cases(1) [of d0 ws] makes_write [of "[''knowledge'']" "''skills'' # r" ws d c] makes_write [of "[''skills'']" r ws d c] that by auto

lemma makes_playbook: "makes ws d (writeFileSafe (resolvePlaybooksPath d0 ws @ r) c d)" if "r \<noteq> []"
  using place_cases(2) [of d0 ws] makes_write [of "[''knowledge'']" "''playbooks'' # r" ws d c] makes_write [of "[''artifacts'', ''playbooks'']" r ws d c] that by auto

lemma makes_skills: "makes ws d (foldl (write_skill (resolveSkillsPath d0 ws)) d xs)"
  by (rule makes_foldl) (simp add: write_skill_def skill_md_def makes_skill)

lemma makes_step: "runStep fm no_fault now s ws session version d = (r, d') \<Longrightarrow> makes ws d d'"
  unfolding runStep_def no_fault_def compileSkills_def compilePlaybooks_eq [OF refl] Let_def manifest_file_def
  by (auto simp: constitution_path_def split: if_splits sum.splits
      intro!: makes_self makes_playbook makes_foldl makes_trans [OF makes_skills makes_skill])

lemma makes_loop:
  "compile_loop fm no_fault now ws session version xs (dv, d) = (e, dv', d') \<Longrightarrow> makes ws d d'"
proof (induction xs arbitrary: dv d)
  case (Cons s xs)
  then show ?case
    by (auto simp: Let_def split: if_splits prod.splits sum.splits)
       (blast dest: makes_step intro: makes_trans makes_derivation)+
qed simp

lemma makes_compile: "compile fm no_fault now ws st version resume d = (r, d') \<Longrightarrow> makes ws d d'"
  by (auto simp: compile_def Let_def split: if_splits option.splits prod.splits)
     (blast dest: makes_loop intro: makes_trans makes_derivation)+

lemma compiled_resolvers:
  "compile fm no_fault now ws st version False d = (r, d') \<Longrightarrow> resolvers ws d' = resolvers ws d"
  by (auto simp: compile_def Let_def split: option.splits prod.splits dest: loop_resolvers simp: resolvers_derivation)

section \<open>The artifacts of the old layout\<close>

text \<open>A compilation does not write \<open>artifacts/constitution.v1.json\<close>, whatever it does to a file there.\<close>

definition leaves_old :: "segments \<Rightarrow> disk \<Rightarrow> disk \<Rightarrow> bool" where
  "leaves_old ws d d' \<longleftrightarrow> unchanged d d' (ws @ [''artifacts'', ''constitution.v1.json''])"

lemma leaves_old_refl [simp]: "leaves_old ws d d"
  by (simp add: leaves_old_def)

lemma leaves_old_trans: "leaves_old ws a b \<Longrightarrow> leaves_old ws b c \<Longrightarrow> leaves_old ws a c"
  unfolding leaves_old_def by (rule unchanged_trans)

lemma leaves_old_foldl: "(\<And>d x. leaves_old ws d (f d x)) \<Longrightarrow> leaves_old ws d (foldl f d xs)"
  unfolding leaves_old_def by (rule unchanged_fold)

lemma leaves_old_write:
  "leaves_old ws d (writeFileSafe (resolveSkillsPath d0 ws @ r) c d)"
  "leaves_old ws d (writeFileSafe (resolvePlaybooksPath d0 ws @ r) c d)"
  "leaves_old ws d (writeDerivationState fm ws dv d)"
  "leaves_old ws d (atomicWrite (selfPath ws [f]) c d)"
  unfolding leaves_old_def writeDerivationState_def using place_cases [of d0 ws]
  by (intro unchanged_write unchanged_atomic; auto simp: getDerivationPath_def selfPath_def temp_path_def butlast_append)+

lemma leaves_old_step: "runStep fm no_fault now s ws session version d = (r, d') \<Longrightarrow> leaves_old ws d d'"
  unfolding runStep_def no_fault_def compileSkills_def compilePlaybooks_eq [OF refl] Let_def manifest_file_def
  by (auto simp: constitution_path_def write_skill_def skill_md_def split: if_splits sum.splits
      intro!: leaves_old_write leaves_old_foldl leaves_old_trans [OF leaves_old_foldl leaves_old_write(1)])

lemma leaves_old_loop: "compile_loop fm no_fault now ws session version xs (dv, d) = (e, dv', d') \<Longrightarrow> leaves_old ws d d'"
proof (induction xs arbitrary: dv d)
  case (Cons s xs)
  then show ?case
    by (auto simp: Let_def split: if_splits prod.splits sum.splits)
       (blast dest: leaves_old_step intro: leaves_old_trans leaves_old_write(3))+
qed simp

lemma leaves_old_compile: "compile fm no_fault now ws st version resume d = (r, d') \<Longrightarrow> leaves_old ws d d'"
  by (auto simp: compile_def Let_def split: if_splits option.splits prod.splits)
     (blast dest: leaves_old_loop intro: leaves_old_trans leaves_old_write(3))+

section \<open>Witnesses\<close>

text \<open>Formats that keep what the hypothesis needs: the time of a constitution, and the time and progress
  of a derivation as a number.\<close>

definition sample_stored :: stored_session where
  "sample_stored = \<lparr>st_session = sales_session, st_coverage = None\<rparr>"

definition formats_at :: "string \<Rightarrow> stored_session \<Rightarrow> formats" where
  "formats_at version st =
     \<lparr>fm_constitution = cn_generated_at, fm_guardrails = (\<lambda>_. ''g''), fm_memory = (\<lambda>_. ''m''), fm_skills = (\<lambda>_. ''s''),
      fm_playbook = pb_id,
      fm_derivation = (\<lambda>dv. CHR ''d'' # show_nat (to_nat (dv_created_at dv, dv_completed_steps dv, dv_artifacts_written dv))),
      fm_parse_constitution = (\<lambda>t. Some (compileConstitution (st_session st) version t)),
      fm_parse_derivation = (\<lambda>s. case from_nat (read_digits (tl s)) of (t, steps, arts) \<Rightarrow>
         Some (progressed (buildDerivationState st version t) steps arts)),
      fm_missing = (\<lambda>_. ''ENOENT''), fm_malformed = (\<lambda>_. ''SyntaxError'')\<rparr>"

definition formats_for :: "stored_session \<Rightarrow> formats" where
  "formats_for st = formats_at ''1'' st"

definition sample_formats :: formats where
  "sample_formats = formats_for sample_stored"

definition sample_fault :: fault where
  "sample_fault s d = (if s = ''skills'' then Some (''ENOSPC'', d) else None)"

lemma formats_at_ok: "formats_ok (formats_at version st) st version"
proof -
  have "cn_generated_at (compileConstitution session version t) = t" for session version t
    by (simp add: compileConstitution_def constitution_structured_def constitution_legacy_def Let_def split: option.split)
  moreover have "dv_created_at (progressed (buildDerivationState st version t) steps arts) = t"
    "dv_completed_steps (progressed (buildDerivationState st version t) steps arts) = steps"
    "dv_artifacts_written (progressed (buildDerivationState st version t) steps arts) = arts" for st version t steps arts
    by (simp_all add: progressed_def buildDerivationState_def)
  ultimately show ?thesis
    by (simp add: formats_ok_def formats_at_def Let_def read_show_nat)
qed

lemma formats_for_ok: "formats_ok (formats_for st) st ''1''"
  by (simp add: formats_for_def formats_at_ok)

lemma sample_formats_ok: "formats_ok sample_formats sample_stored ''1''"
  by (simp add: sample_formats_def formats_for_ok)

lemma sample_fault_local: "local_fault sample_fault ws session"
  by (simp add: local_fault_def sample_fault_def)

lemma sample_run_fails:
  "\<not> cr_success (fst (compile sample_formats sample_fault ''1'' [''w''] sample_stored ''1'' False empty_disk))"
  by (simp add: compile_def Let_def ALL_STEPS_def runStep_def sample_fault_def complete_step_def buildDerivationState_def)

theorem failed_compilation_resumes_witness:
  "\<exists>r1 d1 r2 d2. compile sample_formats sample_fault ''1'' [''w''] sample_stored ''1'' False empty_disk = (r1, d1)
     \<and> \<not> cr_success r1 \<and> canResume sample_formats [''w''] d1
     \<and> compile sample_formats no_fault ''2'' [''w''] sample_stored ''1'' True d1 = (r2, d2) \<and> cr_success r2"
proof -
  obtain r1 d1 where c1: "compile sample_formats sample_fault ''1'' [''w''] sample_stored ''1'' False empty_disk = (r1, d1)"
    by fastforce
  obtain r2 d2 where c2: "compile sample_formats no_fault ''2'' [''w''] sample_stored ''1'' True d1 = (r2, d2)"
    by fastforce
  obtain r3 d3 where c3: "compile sample_formats no_fault (if cr_resumed r2 then ''1'' else ''2'') [''w''] sample_stored ''1'' False empty_disk = (r3, d3)"
    by fastforce
  have f: "\<not> cr_success r1" using sample_run_fails c1 by simp
  from failed_compilation_resumes [OF sample_formats_ok sample_fault_local c1 f c2 c3] c1 c2 f show ?thesis by blast
qed

theorem resume_ignores_session_witness:
  "\<exists>r1 d1. compile sample_formats no_fault ''1'' [''w''] sample_stored ''1'' False empty_disk = (r1, d1)
     \<and> compile sample_formats no_fault ''2'' [''w''] \<lparr>st_session = sales_session\<lparr>ss_session_id := ''s2''\<rparr>, st_coverage = None\<rparr> ''1'' True d1
        = (\<lparr>cr_success = True, cr_artifacts = cr_artifacts r1, cr_errors = None, cr_resumed = True\<rparr>, d1)"
proof -
  obtain r1 d1 where c1: "compile sample_formats no_fault ''1'' [''w''] sample_stored ''1'' False empty_disk = (r1, d1)"
    by fastforce
  from resume_ignores_session [OF sample_formats_ok c1] c1 show ?thesis by blast
qed

theorem compilation_writes_workspace_witness:
  "\<exists>r d. compile sample_formats no_fault ''1'' [''w''] sample_stored ''1'' False empty_disk = (r, d)
     \<and> cr_success r \<and> read_file d [''w'', ''self'', ''guardrails.v1.yaml''] = Some ''g''"
proof -
  obtain r d where c: "compile sample_formats no_fault ''1'' [''w''] sample_stored ''1'' False empty_disk = (r, d)"
    by fastforce
  have "fm_guardrails sample_formats x = ''g''" for x by (simp add: sample_formats_def formats_for_def formats_at_def)
  with compilation_writes_workspace [OF sample_formats_ok c refl refl] c show ?thesis by (auto simp: selfPath_def)
qed

end
