(* ===== verification/Dynamic.thy ===== *)
theory Dynamic
  imports Layout Json
begin

text \<open>
  Untyped access to parsed values: property reads that raise a TypeError, the text of a value in a
  template, and loops of steps that may fail. A thrown exception is a value on the left, with its
  message. \<open>shown\<close> is the text of a number, an array or an object.
\<close>

section \<open>Steps that may fail\<close>

definition sum_bind :: "'e + 'a \<Rightarrow> ('a \<Rightarrow> 'e + 'b) \<Rightarrow> 'e + 'b" where
  "sum_bind m f = (case m of Inl e \<Rightarrow> Inl e | Inr x \<Rightarrow> f x)"

lemma sum_bind_simps [simp]: "sum_bind (Inl e) f = Inl e" "sum_bind (Inr x) f = f x"
  by (simp_all add: sum_bind_def)

lemma sum_bind_Inr: "sum_bind m f = Inr y \<longleftrightarrow> (\<exists>x. m = Inr x \<and> f x = Inr y)"
  by (cases m) auto

lemma sum_bind_cong [fundef_cong]: "m = m' \<Longrightarrow> (\<And>x. m' = Inr x \<Longrightarrow> f x = g x) \<Longrightarrow> sum_bind m f = sum_bind m' g"
  by (cases m') auto

lemma map_sum_Inr: "map_sum f g x = Inr y \<longleftrightarrow> (\<exists>z. x = Inr z \<and> y = g z)"
  by (cases x) auto

fun traverse :: "('a \<Rightarrow> 'e + 'b) \<Rightarrow> 'a list \<Rightarrow> 'e + 'b list" where
  "traverse f [] = Inr []"
| "traverse f (x # xs) =
     (case f x of Inl e \<Rightarrow> Inl e
      | Inr y \<Rightarrow> (case traverse f xs of Inl e \<Rightarrow> Inl e | Inr ys \<Rightarrow> Inr (y # ys)))"

lemma traverse_cong [fundef_cong]:
  "xs = ys \<Longrightarrow> (\<And>x. x \<in> set ys \<Longrightarrow> f x = g x) \<Longrightarrow> traverse f xs = traverse g ys"
  by (induction xs arbitrary: ys) (auto split: sum.splits)

lemma traverse_Inr_iff: "traverse f xs = Inr ys \<longleftrightarrow> list_all2 (\<lambda>x y. f x = Inr y) xs ys"
proof (induction xs arbitrary: ys)
  case (Cons x xs)
  show ?case
    by (cases "f x"; cases "traverse f xs") (auto simp: list_all2_Cons1 Cons.IH [symmetric])
qed auto

lemma traverse_map: "(\<And>x. x \<in> set xs \<Longrightarrow> f x = Inr (g x)) \<Longrightarrow> traverse f xs = Inr (map g xs)"
  by (induction xs) auto

section \<open>Values\<close>

definition truthy_field :: "string \<Rightarrow> json \<Rightarrow> json option" where
  "truthy_field k desc = (if truthy (jfield k desc) then jfield k desc else None)"

definition read_error :: "string \<Rightarrow> json option \<Rightarrow> string" where
  "read_error k v = ''Cannot read properties of '' @ (if v = None then ''undefined'' else ''null'')
     @ '' (reading '' @ [CHR 0x27] @ k @ [CHR 0x27] @ '')''"

text \<open>\<open>v.k\<close>.\<close>

definition dot :: "string \<Rightarrow> json option \<Rightarrow> string + json option" where
  "dot k v = (case v of None \<Rightarrow> Inl (read_error k v) | Some JNull \<Rightarrow> Inl (read_error k v) | Some j \<Rightarrow> Inr (jfield k j))"

text \<open>\<open>v?.k\<close>.\<close>

definition dot_opt :: "string \<Rightarrow> json option \<Rightarrow> json option" where
  "dot_opt k v = Option.bind v (jfield k)"

text \<open>The array that a method of arrays is called on; \<open>src\<close> is the text of the call.\<close>

definition as_array :: "string \<Rightarrow> string \<Rightarrow> json option \<Rightarrow> string + json list" where
  "as_array src meth v =
     (case v of
        None \<Rightarrow> Inl (read_error meth v)
      | Some JNull \<Rightarrow> Inl (read_error meth v)
      | Some (JArr xs) \<Rightarrow> Inr xs
      | Some _ \<Rightarrow> Inl (src @ ''.'' @ meth @ '' is not a function''))"

text \<open>A value in a template literal.\<close>

fun text_of :: "(json \<Rightarrow> string) \<Rightarrow> json option \<Rightarrow> string" where
  "text_of shown None = ''undefined''"
| "text_of shown (Some JNull) = ''null''"
| "text_of shown (Some (JBool b)) = (if b then ''true'' else ''false'')"
| "text_of shown (Some (JStr s)) = s"
| "text_of shown (Some j) = shown j"

text \<open>An element in \<open>Array.join\<close>.\<close>

fun join_item :: "(json \<Rightarrow> string) \<Rightarrow> json \<Rightarrow> string" where
  "join_item shown JNull = []"
| "join_item shown (JStr s) = s"
| "join_item shown j = shown j"

definition join_values :: "(json \<Rightarrow> string) \<Rightarrow> string \<Rightarrow> json list \<Rightarrow> string" where
  "join_values shown sep xs = join sep (map (join_item shown) xs)"

lemma join_item_JStr [simp]: "map (join_item shown \<circ> JStr) xs = xs"
  by (induction xs) auto

lemma join_values_strs [simp]: "join_values shown sep (map JStr xs) = join sep xs"
  by (simp add: join_values_def)

lemma dot_simps [simp]: "dot k (Some (JObj kvs)) = Inr (map_of kvs k)"
  by (simp add: dot_def)

lemma as_array_JArr [simp]: "as_array src meth (Some (JArr xs)) = Inr xs"
  by (simp add: as_array_def)

section \<open>Steps on the disk\<close>

type_synonym disk_step = "disk \<Rightarrow> string option \<times> disk"

fun run_steps :: "disk_step list \<Rightarrow> disk_step" where
  "run_steps [] d = (None, d)"
| "run_steps (s # ss) d = (case s d of (Some e, d') \<Rightarrow> (Some e, d') | (None, d') \<Rightarrow> run_steps ss d')"

text \<open>\<open>writeFileSync\<close>: the directory must exist. \<open>oserr\<close> is the message of the operating system.\<close>

definition write_step :: "(segments \<Rightarrow> string) \<Rightarrow> segments \<Rightarrow> string \<Rightarrow> disk_step" where
  "write_step oserr p t d = (if is_dir d (butlast p) \<and> \<not> is_dir d p then (None, put_file p t d) else (Some (oserr p), d))"

definition mkdir_step :: "segments \<Rightarrow> disk_step" where
  "mkdir_step p d = (None, make_dirs p d)"

lemma run_steps_append: "run_steps (xs @ ys) d = (case run_steps xs d of (Some e, d') \<Rightarrow> (Some e, d') | (None, d') \<Rightarrow> run_steps ys d')"
  by (induction xs arbitrary: d) (auto split: option.splits prod.splits)

lemma prefix_take_iff: "prefix q p \<longleftrightarrow> (\<exists>i \<le> length p. q = take i p)"
proof
  assume "prefix q p"
  then obtain r where "p = q @ r" by (auto simp: prefix_def)
  then show "\<exists>i \<le> length p. q = take i p" by (intro exI [of _ "length q"]) simp
qed (auto simp: take_is_prefix)

lemma is_dir_make_dirs: "is_dir (make_dirs p d) q \<longleftrightarrow> is_dir d q \<or> prefix q p"
  by (auto simp: is_dir_def dirs_make prefix_take_iff)

lemma is_dir_put [simp]: "is_dir (put_file p t d) q = is_dir d q"
  by (simp add: is_dir_def)

end
