(* ===== verification/Adapters.thy ===== *)
theory Adapters
  imports Generators Compile Dynamic
begin

text \<open>
  TasteKit adapters, packages/adapters/*: the exports of a workspace to Claude Code, Manus, OpenClaw
  and Autopilots, with detection and installation. The readers of the artifacts, \<open>JSON.parse\<close>, the
  printer and the messages of the operating system are the fields of \<open>adapter_env\<close>; file modes are
  left out.
\<close>

section \<open>Environment\<close>

record adapter_env =
  ae_constitution :: "string \<Rightarrow> constitution option"
  ae_guardrails :: "string \<Rightarrow> guardrails option"
  ae_memory :: "string \<Rightarrow> memory_policy option"
  ae_skills :: "string \<Rightarrow> skill list option"
  ae_bindings :: "string \<Rightarrow> bindings option"
  ae_domain_id :: "string \<Rightarrow> string option"
  ae_jparse :: "string \<Rightarrow> string + json"
  ae_stringify :: "json \<Rightarrow> string"
  ae_num :: "rat \<Rightarrow> string"
  ae_shown :: "json \<Rightarrow> string"
  ae_oserr :: "segments \<Rightarrow> string"

definition adapter_ids :: "(string \<times> string) list" where
  "adapter_ids = [(''claude-code'', ''2.0.0''), (''manus'', ''1.0.0''), (''openclaw'', ''1.0.0''), (''autopilots'', ''1.0.0'')]"

text \<open>The file by which an adapter recognises a target.\<close>

definition adapter_detect :: "string \<Rightarrow> segments \<Rightarrow> disk \<Rightarrow> bool" where
  "adapter_detect adapter target d =
     (if adapter = ''claude-code'' then existsSync d (target @ [''.claude'', ''config.json''])
      else if adapter = ''manus'' then existsSync d (target @ [''skills''])
      else if adapter = ''openclaw'' then existsSync d (target @ [''openclaw.config.json''])
      else existsSync d (target @ [''autopilots.yaml'']))"

definition adapter_install :: "string \<Rightarrow> segments \<Rightarrow> segments \<Rightarrow> disk \<Rightarrow> disk" where
  "adapter_install adapter outDir target d =
     (if adapter = ''manus''
      then (if existsSync d (outDir @ [''skills'']) then copy_over (outDir @ [''skills'']) (target @ [''skills'']) d else d)
      else copy_over outDir target d)"

section \<open>Claude Code\<close>

text \<open>An artifact that may be absent; one that does not parse counts as absent too.\<close>

definition read_artifact :: "adapter_env \<Rightarrow> (string \<Rightarrow> 'a option) \<Rightarrow> segments \<Rightarrow> disk \<Rightarrow> string + 'a option" where
  "read_artifact env parse p d =
     (if existsSync d p then (case read_file d p of None \<Rightarrow> Inl (ae_oserr env p) | Some t \<Rightarrow> Inr (parse t)) else Inr None)"

definition buildContext :: "adapter_env \<Rightarrow> segments \<Rightarrow> disk \<Rightarrow> string + generator_context" where
  "buildContext env profilePath d =
     sum_bind (read_artifact env (ae_constitution env) (resolveArtifactPath d profilePath Constitution_file) d) (\<lambda>c.
     sum_bind (read_artifact env (ae_guardrails env) (resolveArtifactPath d profilePath Guardrails_file) d) (\<lambda>g.
     sum_bind (read_artifact env (ae_memory env) (resolveArtifactPath d profilePath Memory_file) d) (\<lambda>m.
     sum_bind (read_artifact env (ae_skills env) (manifest_file (resolveSkillsPath d profilePath)) d) (\<lambda>s.
     sum_bind (read_artifact env (ae_bindings env) (resolveBindingsPath d profilePath) d) (\<lambda>b.
     sum_bind (read_artifact env (ae_domain_id env) (profilePath @ [''tastekit.yaml'']) d) (\<lambda>k.
     Inr \<lparr>gx_generator_version = ''0.5.0'', gx_constitution = c, gx_guardrails = g, gx_memory = m, gx_bindings = b, gx_skills = s,
          gx_domain_id = k, gx_vocabulary = None,
          gx_has_playbooks = existsSync d (profilePath @ [''knowledge'', ''playbooks'']) \<or> existsSync d (profilePath @ [''playbooks'']),
          gx_has_evalpack = False\<rparr>))))))"

definition entry_json :: "hook_entry \<Rightarrow> json" where
  "entry_json e = obj_of [(''type'', Some (JStr (he_type e))), (''command'', Some (JStr (he_command e))), (''matcher'', map_option JStr (he_matcher e))]"

definition manifest_json :: "hooks_table \<Rightarrow> json" where
  "manifest_json m = JObj [(''hooks'', JObj (map (\<lambda>(k, es). (k, JArr (map entry_json es))) m))]"

definition hooks_dir :: "segments \<Rightarrow> segments" where
  "hooks_dir outDir = outDir @ [''.tastekit'', ''hooks'']"

definition copy_step :: "segments \<Rightarrow> segments \<Rightarrow> disk_step" where
  "copy_step profilePath dest d =
     (let skillsDir = resolveSkillsPath d profilePath
      in (None, if existsSync d skillsDir then copy_over skillsDir dest d else d))"

definition claude_steps :: "adapter_env \<Rightarrow> segments \<Rightarrow> segments \<Rightarrow> bool \<Rightarrow> generator_context \<Rightarrow> disk_step list" where
  "claude_steps env profilePath outDir includeSkills ctx =
     [write_step (ae_oserr env) (outDir @ [''CLAUDE.md'']) (generateClaudeMd (ae_num env) ctx),
      mkdir_step (hooks_dir outDir)]
     @ map (\<lambda>s. write_step (ae_oserr env) (hooks_dir outDir @ [gh_filename s]) (gh_content s)) (fst generateHooks)
     @ [mkdir_step (outDir @ [''.claude'']),
        write_step (ae_oserr env) (outDir @ [''.claude'', ''settings.local.json'']) (ae_stringify env (manifest_json (snd generateHooks)))]
     @ (if includeSkills then [copy_step profilePath (outDir @ [''skills''])] else [])"

definition claude_export :: "adapter_env \<Rightarrow> segments \<Rightarrow> segments \<Rightarrow> bool \<Rightarrow> disk_step" where
  "claude_export env profilePath outDir includeSkills d =
     (case buildContext env profilePath d of
        Inl e \<Rightarrow> (Some e, d)
      | Inr ctx \<Rightarrow> run_steps (claude_steps env profilePath outDir includeSkills ctx) d)"

section \<open>The other adapters\<close>

definition read_json :: "adapter_env \<Rightarrow> segments \<Rightarrow> disk \<Rightarrow> string + json" where
  "read_json env p d = (case read_file d p of None \<Rightarrow> Inl (ae_oserr env p) | Some t \<Rightarrow> ae_jparse env t)"

definition statement_lines :: "(json \<Rightarrow> string) \<Rightarrow> json list \<Rightarrow> string + string list" where
  "statement_lines shown ps =
     traverse (\<lambda>(i, p). map_sum id (\<lambda>s. show_nat (i + 1) @ ''. '' @ text_of shown s) (dot ''statement'' (Some p))) (enumerate 0 ps)"

definition generateManusReadme :: "(json \<Rightarrow> string) \<Rightarrow> json \<Rightarrow> string + string" where
  "generateManusReadme shown c =
     sum_bind (dot ''principles'' (Some c)) (\<lambda>ps.
     sum_bind (as_array ''constitution.principles'' ''map'' ps) (\<lambda>ps.
     sum_bind (statement_lines shown ps) (\<lambda>principles.
     sum_bind (dot ''tone'' (Some c)) (\<lambda>tone.
     sum_bind (dot ''voice_keywords'' tone) (\<lambda>ks.
     sum_bind (as_array ''constitution.tone.voice_keywords'' ''join'' ks) (\<lambda>ks.
     Inr (join [nl]
       [''# TasteKit Skills for Manus'', [], ''This directory contains skills exported from TasteKit.'', [], ''## Principles'', [],
        join [nl] principles, [], ''## Tone'', [], ''Voice: '' @ join_values shown '', '' ks, [], ''## Usage'', [],
        ''These skills follow the Manus Skills format with progressive disclosure:'',
        ''- **Minimal context**: Always loaded (top principles and tone)'',
        ''- **On invoke**: Loaded when skill is invoked'',
        ''- **On demand**: Loaded only when explicitly needed'', [],
        ''Refer to individual SKILL.md files for detailed instructions.'', []])))))))"

definition manus_export :: "adapter_env \<Rightarrow> segments \<Rightarrow> segments \<Rightarrow> disk_step" where
  "manus_export env profilePath outDir d =
     (let skillsPath = resolveSkillsPath d profilePath
      in if \<not> existsSync d skillsPath then (Some ''Skills not found. Run tastekit compile first.'', d)
         else let d1 = copy_over skillsPath (outDir @ [''skills'']) d;
                  cp = resolveArtifactPath d1 profilePath Constitution_file
              in if existsSync d1 cp
                 then (case sum_bind (read_json env cp d1) (generateManusReadme (ae_shown env)) of
                         Inl e \<Rightarrow> (Some e, d1)
                       | Inr readme \<Rightarrow> write_step (ae_oserr env) (outDir @ [''README.md'']) readme d1)
                 else (None, d1))"

definition generateOpenClawConfig :: "json \<Rightarrow> string + json" where
  "generateOpenClawConfig c =
     sum_bind (dot ''principles'' (Some c)) (\<lambda>principles.
     sum_bind (dot ''tone'' (Some c)) (\<lambda>tone.
     sum_bind (dot ''tradeoffs'' (Some c)) (\<lambda>tradeoffs.
     sum_bind (dot ''autonomy_level'' tradeoffs) (\<lambda>autonomy.
     sum_bind (dot ''evidence_policy'' (Some c)) (\<lambda>evidence.
     sum_bind (dot ''require_citations_for'' evidence) (\<lambda>citations.
     sum_bind (dot ''forbidden_phrases'' tone) (\<lambda>forbidden.
     sum_bind (dot ''taboos'' (Some c)) (\<lambda>taboos.
     Inr (JObj [(''version'', JStr ''1.0''),
       (''profile'', obj_of [(''principles'', principles), (''tone'', tone), (''tradeoffs'', tradeoffs)]),
       (''behavior'', obj_of [(''autonomy_level'', autonomy), (''require_citations'', citations)]),
       (''safety'', obj_of [(''forbidden_phrases'', forbidden), (''taboos'', taboos)])])))))))))"

definition openclaw_export :: "adapter_env \<Rightarrow> segments \<Rightarrow> segments \<Rightarrow> bool \<Rightarrow> disk_step" where
  "openclaw_export env profilePath outDir includeSkills d =
     (let cp = resolveArtifactPath d profilePath Constitution_file
      in if \<not> existsSync d cp then (Some ''Constitution not found. Run tastekit compile first.'', d)
         else (case sum_bind (read_json env cp d) generateOpenClawConfig of
                 Inl e \<Rightarrow> (Some e, d)
               | Inr config \<Rightarrow>
                   run_steps (write_step (ae_oserr env) (outDir @ [''openclaw.config.json'']) (ae_stringify env config)
                     # (if includeSkills then [copy_step profilePath (outDir @ [''skills''])] else [])) d))"

definition yaml_principle :: "(json \<Rightarrow> string) \<Rightarrow> json \<Rightarrow> string + string" where
  "yaml_principle shown p =
     sum_bind (dot ''id'' (Some p)) (\<lambda>i.
     sum_bind (dot ''statement'' (Some p)) (\<lambda>s.
     sum_bind (dot ''priority'' (Some p)) (\<lambda>k.
     Inr (join [nl] [''  - id: '' @ text_of shown i, ''    statement: '' @ text_of shown s, ''    priority: '' @ text_of shown k]))))"

definition quoted_list :: "(json \<Rightarrow> string) \<Rightarrow> json list \<Rightarrow> string" where
  "quoted_list shown xs = ''['' @ join '', '' (map (\<lambda>x. quoted (text_of shown (Some x))) xs) @ '']''"

definition generateAutopilotsYAML :: "(json \<Rightarrow> string) \<Rightarrow> json \<Rightarrow> string + string" where
  "generateAutopilotsYAML shown c =
     sum_bind (dot ''principles'' (Some c)) (\<lambda>ps.
     sum_bind (as_array ''constitution.principles'' ''map'' ps) (\<lambda>ps.
     sum_bind (traverse (yaml_principle shown) ps) (\<lambda>principles.
     sum_bind (dot ''tone'' (Some c)) (\<lambda>tone.
     sum_bind (dot ''voice_keywords'' tone) (\<lambda>ks.
     sum_bind (as_array ''constitution.tone.voice_keywords'' ''map'' ks) (\<lambda>ks.
     sum_bind (dot ''forbidden_phrases'' tone) (\<lambda>fs.
     sum_bind (as_array ''constitution.tone.forbidden_phrases'' ''map'' fs) (\<lambda>fs.
     sum_bind (dot ''tradeoffs'' (Some c)) (\<lambda>tradeoffs.
     sum_bind (dot ''accuracy_vs_speed'' tradeoffs) (\<lambda>acc.
     sum_bind (dot ''autonomy_level'' tradeoffs) (\<lambda>auto.
     Inr (join [nl]
       [''# Autopilots Configuration (Generated by TasteKit)'', [], ''principles:'', join [nl] principles, [], ''tone:'',
        ''  voice_keywords: '' @ quoted_list shown ks, ''  forbidden_phrases: '' @ quoted_list shown fs, [], ''tradeoffs:'',
        ''  accuracy_vs_speed: '' @ text_of shown acc, ''  autonomy_level: '' @ text_of shown auto, []]))))))))))))"

definition autopilots_export :: "adapter_env \<Rightarrow> segments \<Rightarrow> segments \<Rightarrow> disk_step" where
  "autopilots_export env profilePath outDir d =
     (let cp = resolveArtifactPath d profilePath Constitution_file
      in if \<not> existsSync d cp then (Some ''Constitution not found. Run tastekit compile first.'', d)
         else (case sum_bind (read_json env cp d) (generateAutopilotsYAML (ae_shown env)) of
                 Inl e \<Rightarrow> (Some e, d)
               | Inr yaml \<Rightarrow> write_step (ae_oserr env) (outDir @ [''autopilots.yaml'']) yaml d))"

definition adapter_export :: "adapter_env \<Rightarrow> string \<Rightarrow> segments \<Rightarrow> segments \<Rightarrow> bool \<Rightarrow> disk_step" where
  "adapter_export env adapter profilePath outDir includeSkills =
     (if adapter = ''claude-code'' then claude_export env profilePath outDir includeSkills
      else if adapter = ''manus'' then manus_export env profilePath outDir
      else if adapter = ''openclaw'' then openclaw_export env profilePath outDir includeSkills
      else if adapter = ''autopilots'' then autopilots_export env profilePath outDir
      else (\<lambda>d. (Some (''Unknown adapter: '' @ adapter), d)))"

section \<open>Exports leave the rest of the disk alone\<close>

definition stays_below :: "segments \<Rightarrow> disk_step \<Rightarrow> bool" where
  "stays_below outDir s \<longleftrightarrow> (\<forall>d q. \<not> prefix outDir q \<longrightarrow> read_file (snd (s d)) q = read_file d q)"

lemma run_steps_below: "list_all (stays_below outDir) ss \<Longrightarrow> stays_below outDir (run_steps ss)"
proof (induction ss)
  case (Cons s ss)
  then have s: "stays_below outDir s" and ss: "stays_below outDir (run_steps ss)" by simp_all
  show ?case
  proof (unfold stays_below_def, intro allI impI)
    fix d q assume q: "\<not> prefix outDir q"
    obtain e d' where sd: "s d = (e, d')" by (rule prod.exhaust)
    from s q have "read_file d' q = read_file d q" unfolding stays_below_def by (metis sd snd_conv)
    with ss q show "read_file (snd (run_steps (s # ss) d)) q = read_file d q"
      by (simp add: sd stays_below_def split: option.split)
  qed
qed (simp add: stays_below_def)

lemma write_below: "stays_below outDir (write_step f (outDir @ r) t)"
  by (auto simp: stays_below_def write_step_def)

lemma mkdir_below: "stays_below outDir (mkdir_step p)"
  by (simp add: stays_below_def mkdir_step_def)

lemma read_copy_over: "\<not> prefix dest q \<Longrightarrow> read_file (copy_over src dest d) q = read_file d q"
proof -
  assume q: "\<not> prefix dest q"
  have dirs: "read_file (foldl (copy_dir src dest) x ps) q = read_file x q" for x ps
    by (induction ps arbitrary: x) (auto simp: copy_dir_def split: option.split)
  have "read_file (foldl (\<lambda>d pc. case below src (fst pc) of None \<Rightarrow> d | Some r \<Rightarrow> writeFileSafe (dest @ r) (snd pc) d) x fs) q = read_file x q" for x fs
    using q by (induction fs arbitrary: x) (auto split: option.split)
  then show ?thesis by (simp add: copy_over_def dirs)
qed

lemma copy_below: "stays_below outDir (copy_step ws (outDir @ r))"
  by (auto simp: stays_below_def copy_step_def Let_def intro!: read_copy_over dest: append_prefixD)

lemma claude_below: "stays_below outDir (run_steps (claude_steps env ws outDir b ctx))"
proof (rule run_steps_below)
  show "list_all (stays_below outDir) (claude_steps env ws outDir b ctx)"
    by (auto simp: claude_steps_def mkdir_below write_below copy_below list_all_iff hooks_dir_def)
qed

text \<open>Where the export writes, no directory is in the way.\<close>

definition claude_files :: "segments list" where
  "claude_files = [''CLAUDE.md''] # [''.claude'', ''settings.local.json''] # map (\<lambda>s. [''.tastekit'', ''hooks'', gh_filename s]) hook_scripts"

definition can_write :: "disk \<Rightarrow> segments \<Rightarrow> bool" where
  "can_write d outDir \<longleftrightarrow> is_dir d outDir \<and> list_all (\<lambda>r. \<not> is_dir d (outDir @ r)) claude_files"

definition claude_text :: "adapter_env \<Rightarrow> generator_context \<Rightarrow> segments \<Rightarrow> string" where
  "claude_text env ctx r = (if r = [''CLAUDE.md''] then generateClaudeMd (ae_num env) ctx
     else if r = [''.claude'', ''settings.local.json''] then ae_stringify env (manifest_json hooks_manifest)
     else the (map_of (map (\<lambda>s. ([''.tastekit'', ''hooks'', gh_filename s], gh_content s)) hook_scripts) r))"

lemma claude_written:
  assumes "can_write d outDir"
  shows "\<exists>d'. run_steps (claude_steps env ws outDir b ctx) d = (None, d')
     \<and> (\<forall>r \<in> set claude_files. read_file d' (outDir @ r) = Some (claude_text env ctx r))"
proof -
  have dirs: "is_dir d outDir" "\<not> is_dir d (outDir @ [''CLAUDE.md''])" "\<not> is_dir d (outDir @ [''.claude'', ''settings.local.json''])"
    "\<not> is_dir d (outDir @ [''.tastekit'', ''hooks'', ''tastekit-guard.sh''])" "\<not> is_dir d (outDir @ [''.tastekit'', ''hooks'', ''session-orient.sh''])"
    "\<not> is_dir d (outDir @ [''.tastekit'', ''hooks'', ''artifact-validate.sh''])" "\<not> is_dir d (outDir @ [''.tastekit'', ''hooks'', ''auto-commit.sh''])"
    "\<not> is_dir d (outDir @ [''.tastekit'', ''hooks'', ''session-capture.sh''])"
    using assms by (simp_all add: can_write_def claude_files_def hook_scripts_def hook_script_def)
  obtain d1 where d1: "run_steps (claude_steps env ws outDir False ctx) d = (None, d1)"
    and files: "\<forall>r \<in> set claude_files. read_file d1 (outDir @ r) = Some (claude_text env ctx r)"
    using dirs
    by (simp add: claude_steps_def generateHooks_def hook_scripts_def hook_script_def write_step_def mkdir_step_def hooks_dir_def
        is_dir_make_dirs butlast_append claude_files_def claude_text_def)
  show ?thesis
  proof (cases b)
    case False
    with d1 files show ?thesis by simp
  next
    case True
    have "claude_steps env ws outDir True ctx = claude_steps env ws outDir False ctx @ [copy_step ws (outDir @ [''skills''])]"
      by (simp add: claude_steps_def)
    then have "run_steps (claude_steps env ws outDir True ctx) d = (None, snd (copy_step ws (outDir @ [''skills'']) d1))"
      by (simp add: run_steps_append d1 copy_step_def Let_def)
    moreover have "read_file (snd (copy_step ws (outDir @ [''skills'']) d1)) (outDir @ r) = read_file d1 (outDir @ r)" if "r \<in> set claude_files" for r
      using that by (auto simp: copy_step_def Let_def claude_files_def hook_scripts_def hook_script_def intro!: read_copy_over)
    ultimately show ?thesis using True files by simp
  qed
qed

section \<open>From the session to CLAUDE.md\<close>

lemma read_artifact_file: "read_file d p = Some t \<Longrightarrow> read_artifact env parse p d = Inr (parse t)"
  by (simp add: read_artifact_def existsSync_def)

lemma read_artifact_total: "\<not> is_dir d p \<Longrightarrow> \<exists>x. read_artifact env parse p d = Inr x"
  by (auto simp: read_artifact_def existsSync_def split: option.split)

lemma artifact_in_self: "read_file d (selfPath ws [artifact_name a]) = Some t \<Longrightarrow> resolveArtifactPath d ws a = selfPath ws [artifact_name a]"
  by (simp add: resolveArtifactPath_def existsSync_def)

lemma compiled_taboos:
  "ss_structured session = Some sa \<Longrightarrow> tb_never_do (cn_taboos (compileConstitution session version now)) = never_do (sa_taboos sa)
     \<and> tb_must_escalate (cn_taboos (compileConstitution session version now)) = must_escalate (sa_taboos sa)"
  by (simp add: compileConstitution_def constitution_structured_def Let_def)

text \<open>Directories that a compilation does not make are not in the way afterwards.\<close>

definition top_files :: "segments list" where
  "top_files = [[''bindings.v1.json''], [''bindings.v1.yaml''], [''artifacts'', ''bindings.v1.json''], [''artifacts'', ''bindings.v1.yaml''], [''tastekit.yaml'']]"

lemma top_files_free: "r \<in> set top_files \<Longrightarrow> \<not> compile_dir ws (ws @ r)"
  by (auto simp: top_files_def compile_dir_def prefix_append)

lemma bindings_place:
  obtains x where "resolveBindingsPath d ws = ws @ x" "x \<in> set top_files"
proof -
  have "resolveBindingsPath d ws \<in> (@) ws ` {[''bindings.v1.json''], [''bindings.v1.yaml''], [''artifacts'', ''bindings.v1.json''], [''artifacts'', ''bindings.v1.yaml'']}"
    using first_existing_mem [of "existsSync d" "[ws @ [''bindings.v1.json''], ws @ [''bindings.v1.yaml''],
      ws @ [''artifacts'', ''bindings.v1.json''], ws @ [''artifacts'', ''bindings.v1.yaml'']]" "ws @ [''bindings.v1.json'']"]
    unfolding resolveBindingsPath_def by (simp del: first_existing.simps)
  then show ?thesis by (auto simp: top_files_def intro: that)
qed

text \<open>
  C30. From the interview to the instructions of the agent. Let a compilation of a session run to its
  end, let the artifacts be read back as they were printed, and let the command line make the output
  directory, which lies outside the workspace. Then the export to Claude Code succeeds. The CLAUDE.md
  has a line for every taboo of the session, for every approval rule that the guardrails compiler
  made, and for the first five principles, provided the text is one line; every command of the hook
  settings is one of the scripts that are written with it; and outside the output directory no file
  of the disk has changed.
\<close>

theorem claude_export_states_rules:
  assumes compiled: "formats_ok fm st version" "compile fm no_fault now ws st version False d = (r, d')"
    and session: "ss_structured (st_session st) = Some sa" "c = compileConstitution (st_session st) version now" "g = compileGuardrails (st_session st)"
    and read_back: "ae_constitution env (fm_constitution fm c) = Some c" "ae_guardrails env (fm_guardrails fm g) = Some g"
    and outside: "\<not> prefix ws outDir" "\<forall>x \<in> set claude_files. \<not> compile_dir ws (outDir @ x)"
    and free: "\<forall>x \<in> set top_files. \<not> is_dir d (ws @ x)" "\<forall>x \<in> set claude_files. \<not> is_dir d (outDir @ x)"
    and run: "claude_export env ws outDir withSkills (make_dirs outDir d') = (e, d'')"
  shows "e = None
     \<and> (\<exists>doc. read_file d'' (outDir @ [''CLAUDE.md'']) = Some doc
          \<and> (\<forall>t \<in> set (never_do (sa_taboos sa)) \<union> set (must_escalate (sa_taboos sa)). nl \<notin> set t \<longrightarrow> bullet t \<in> set (split_on nl doc))
          \<and> (\<forall>r \<in> set (gr_approvals g). nl \<notin> set (approval_line r) \<longrightarrow> approval_line r \<in> set (split_on nl doc))
          \<and> (\<forall>p \<in> set (take 5 (cn_principles c)). nl \<notin> set (hd (principle_lines p)) \<longrightarrow> hd (principle_lines p) \<in> set (split_on nl doc)))
     \<and> read_file d'' (outDir @ [''.claude'', ''settings.local.json'']) = Some (ae_stringify env (manifest_json hooks_manifest))
     \<and> (\<forall>(k, es) \<in> set hooks_manifest. \<forall>h \<in> set es. \<exists>s \<in> set hook_scripts. he_command h = ''.tastekit/hooks/'' @ gh_filename s
          \<and> read_file d'' (outDir @ [''.tastekit'', ''hooks'', gh_filename s]) = Some (gh_content s))
     \<and> (\<forall>q. \<not> prefix outDir q \<longrightarrow> read_file d'' q = read_file d' q)"
proof -
  let ?d = "make_dirs outDir d'"
  have made: "is_dir d' p \<Longrightarrow> is_dir d p \<or> compile_dir ws p" for p
    using makes_compile [OF compiled(2)] by (auto simp: makes_def)
  have below: "existsSync ?d (ws @ x) = existsSync d' (ws @ x)" "is_dir ?d (ws @ x) = is_dir d' (ws @ x)" for x
    using outside(1) by (auto simp: existsSync_def is_dir_make_dirs dest: append_prefixD)
  note files = compiled_workspace [OF compiled refl session(2)]
  have c: "read_file ?d (selfPath ws [''constitution.v1.json'']) = Some (fm_constitution fm c)"
    and g: "read_file ?d (selfPath ws [''guardrails.v1.yaml'']) = Some (fm_guardrails fm g)"
    and m: "read_file ?d (selfPath ws [''memory.v1.yaml'']) = Some (fm_memory fm (compileMemoryPolicy (st_session st)))"
    using files by (simp_all add: session)
  have paths: "resolveArtifactPath ?d ws Constitution_file = selfPath ws [''constitution.v1.json'']"
    "resolveArtifactPath ?d ws Guardrails_file = selfPath ws [''guardrails.v1.yaml'']"
    "resolveArtifactPath ?d ws Memory_file = selfPath ws [''memory.v1.yaml'']"
    using artifact_in_self [of ?d ws Constitution_file] artifact_in_self [of ?d ws Guardrails_file] artifact_in_self [of ?d ws Memory_file] c g m by simp_all
  have "resolveSkillsPath ?d ws = resolveSkillsPath d' ws"
    by (simp add: resolveSkillsPath_def knowledgePath_def Let_def below)
  also have "\<dots> = resolveSkillsPath d ws" using compiled_resolvers [OF compiled(2)] by (simp add: resolvers_def)
  finally have skills: "read_file ?d (manifest_file (resolveSkillsPath ?d ws)) = Some (fm_skills fm (map fst (library_skills (st_session st) c)))"
    using files by simp
  have plain: "\<not> is_dir ?d (ws @ x)" if "x \<in> set top_files" for x
    using made [of "ws @ x"] top_files_free [OF that] free(1) that by (auto simp: below)
  obtain x where x: "resolveBindingsPath ?d ws = ws @ x" "x \<in> set top_files" by (rule bindings_place)
  have yaml: "[''tastekit.yaml''] \<in> set top_files" by (simp add: top_files_def)
  have plain': "\<not> is_dir ?d (resolveBindingsPath ?d ws)" "\<not> is_dir ?d (ws @ [''tastekit.yaml''])"
    using plain [OF x(2)] plain [OF yaml] by (simp_all add: x(1))
  obtain ctx where ctx: "buildContext env ws ?d = Inr ctx" "gx_constitution ctx = Some c" "gx_guardrails ctx = Some g"
    using read_artifact_total [OF plain'(1), of env "ae_bindings env"] read_artifact_total [OF plain'(2), of env "ae_domain_id env"]
    by (auto simp: buildContext_def paths read_artifact_file [OF c] read_artifact_file [OF g] read_artifact_file [OF m]
        read_artifact_file [OF skills] read_back)
  have "\<not> is_dir ?d (outDir @ x)" if "x \<in> set claude_files" for x
  proof -
    have "x \<noteq> []" using that by (auto simp: claude_files_def)
    then have "\<not> prefix (outDir @ x) outDir" by (auto simp: prefix_def)
    then show ?thesis using made [of "outDir @ x"] outside(2) free(2) that by (simp add: is_dir_make_dirs) blast
  qed
  then have "can_write ?d outDir" by (simp add: can_write_def is_dir_make_dirs list_all_iff)
  from claude_written [OF this, of env ws withSkills ctx] run ctx(1) have e: "e = None"
    and written: "\<And>r. r \<in> set claude_files \<Longrightarrow> read_file d'' (outDir @ r) = Some (claude_text env ctx r)"
    by (auto simp: claude_export_def)
  have frame: "\<not> prefix outDir q \<Longrightarrow> read_file d'' q = read_file d' q" for q
    using claude_below [unfolded stays_below_def, rule_format, of outDir q env ws withSkills ctx ?d] run ctx(1) by (simp add: claude_export_def)
  have hooks: "\<forall>(k, es) \<in> set hooks_manifest. \<forall>h \<in> set es. \<exists>s \<in> set hook_scripts. he_command h = ''.tastekit/hooks/'' @ gh_filename s
          \<and> read_file d'' (outDir @ [''.tastekit'', ''hooks'', gh_filename s]) = Some (gh_content s)"
    by (simp add: hooks_manifest_def hook_command_def hook_scripts_def hook_script_def written claude_files_def claude_text_def)
  have doc: "read_file d'' (outDir @ [''CLAUDE.md'']) = Some (generateClaudeMd (ae_num env) ctx)"
    and settings: "read_file d'' (outDir @ [''.claude'', ''settings.local.json'']) = Some (ae_stringify env (manifest_json hooks_manifest))"
    by (simp_all add: written claude_files_def claude_text_def)
  show ?thesis
    using e doc settings hooks frame claude_states_taboo [OF ctx(2)] claude_states_approval [OF ctx(3)] claude_states_principle [OF ctx(2)]
      compiled_taboos [OF session(1), of version now]
    by (auto simp: session(2))
qed

definition taboo_session :: stored_session where
  "taboo_session = \<lparr>st_session = sample_session (Some (sample_answers\<lparr>sa_taboos :=
     \<lparr>never_do = [''spam''], must_escalate = [''refunds''], tb_source_dimensions = []\<rparr>\<rparr>)), st_coverage = None\<rparr>"

definition sample_adapter :: adapter_env where
  "sample_adapter = \<lparr>ae_constitution = (\<lambda>t. Some (compileConstitution (st_session taboo_session) ''1'' t)),
     ae_guardrails = (\<lambda>_. Some (compileGuardrails (st_session taboo_session))), ae_memory = (\<lambda>_. None), ae_skills = (\<lambda>_. None),
     ae_bindings = (\<lambda>_. None), ae_domain_id = (\<lambda>_. None), ae_jparse = (\<lambda>_. Inl ''SyntaxError''), ae_stringify = (\<lambda>_. ''{}''),
     ae_num = (\<lambda>_. ''0.5''), ae_shown = (\<lambda>_. ''0.5''), ae_oserr = (\<lambda>_. ''ENOENT'')\<rparr>"

theorem claude_export_states_rules_witness:
  "\<exists>r d' d'' doc. compile (formats_for taboo_session) no_fault ''now'' [''w''] taboo_session ''1'' False empty_disk = (r, d')
     \<and> claude_export sample_adapter [''w''] [''out''] True (make_dirs [''out''] d') = (None, d'')
     \<and> read_file d'' [''out'', ''CLAUDE.md''] = Some doc \<and> ''- spam'' \<in> set (split_on nl doc) \<and> ''- refunds'' \<in> set (split_on nl doc)"
proof -
  obtain r d' where c: "compile (formats_for taboo_session) no_fault ''now'' [''w''] taboo_session ''1'' False empty_disk = (r, d')"
    by (rule prod.exhaust)
  obtain e d'' where x: "claude_export sample_adapter [''w''] [''out''] True (make_dirs [''out''] d') = (e, d'')"
    by (rule prod.exhaust)
  let ?sa = "sample_answers\<lparr>sa_taboos := \<lparr>never_do = [''spam''], must_escalate = [''refunds''], tb_source_dimensions = []\<rparr>\<rparr>"
  have sa: "ss_structured (st_session taboo_session) = Some ?sa" by (simp add: taboo_session_def sample_session_def)
  have "fm_constitution (formats_for taboo_session) (compileConstitution (st_session taboo_session) ''1'' ''now'') = ''now''"
    by (simp add: formats_for_def formats_at_def compileConstitution_def constitution_structured_def constitution_legacy_def Let_def split: option.split)
  then have rb: "ae_constitution sample_adapter (fm_constitution (formats_for taboo_session) (compileConstitution (st_session taboo_session) ''1'' ''now''))
      = Some (compileConstitution (st_session taboo_session) ''1'' ''now'')"
    "ae_guardrails sample_adapter (fm_guardrails (formats_for taboo_session) (compileGuardrails (st_session taboo_session)))
      = Some (compileGuardrails (st_session taboo_session))"
    by (simp_all add: sample_adapter_def)
  have out: "\<not> prefix [''w''] [''out'']" "\<forall>x \<in> set claude_files. \<not> compile_dir [''w''] ([''out''] @ x)"
    by (auto simp: claude_files_def compile_dir_def)
  have free: "\<forall>x \<in> set top_files. \<not> is_dir empty_disk ([''w''] @ x)" "\<forall>x \<in> set claude_files. \<not> is_dir empty_disk ([''out''] @ x)"
    by (simp_all add: is_dir_def empty_disk_def top_files_def)
  from claude_export_states_rules [OF formats_for_ok c sa refl refl rb out free x] c x
  show ?thesis by (auto simp: bullet_def sample_answers_def)
qed

end
