(* ===== verification/AgentFile.thy ===== *)
theory AgentFile
  imports Adapters
begin

text \<open>
  TasteKit command line, commands/export.ts and commands/import.ts: the exports of the artifacts to
  adapters, to AGENTS.md and to an Agent File, and the imports from SOUL.md and from an Agent File.
  The values are untyped JSON. An object with a property \<open>length\<close> of its own is left out: a list is
  an array or a string.
\<close>

section \<open>Untyped lists\<close>

text \<open>\<open>if (v?.length > 0) for (const x of v)\<close>.\<close>

fun items :: "json option \<Rightarrow> json list" where
  "items (Some (JArr xs)) = xs"
| "items (Some (JStr s)) = map (\<lambda>c. JStr [c]) s"
| "items _ = []"

text \<open>\<open>v.meth(sep)\<close> of a list that has elements.\<close>

definition joined :: "(json \<Rightarrow> string) \<Rightarrow> string \<Rightarrow> json option \<Rightarrow> string + string" where
  "joined shown src v = map_sum id (join_values shown '', '') (as_array src ''join'' v)"

text \<open>\<open>a || b\<close>.\<close>

definition first_truthy :: "json option \<Rightarrow> json option \<Rightarrow> json option" where
  "first_truthy a b = (if truthy a then a else b)"

text \<open>A method of strings.\<close>

definition as_string :: "string \<Rightarrow> string \<Rightarrow> json option \<Rightarrow> string + string" where
  "as_string src meth v =
     (case v of
        None \<Rightarrow> Inl (read_error meth v)
      | Some JNull \<Rightarrow> Inl (read_error meth v)
      | Some (JStr s) \<Rightarrow> Inr s
      | Some _ \<Rightarrow> Inl (src @ ''.'' @ meth @ '' is not a function''))"

lemma as_string_JStr [simp]: "as_string src meth (Some (JStr s)) = Inr s"
  by (simp add: as_string_def)

lemma items_strs [simp]: "items (Some (strs_json xs)) = map JStr xs"
  by (simp add: strs_json_def)

section \<open>AGENTS.md\<close>

definition agents_principle :: "(json \<Rightarrow> string) \<Rightarrow> json \<Rightarrow> string + string" where
  "agents_principle shown p =
     sum_bind (dot ''id'' (Some p)) (\<lambda>i.
     sum_bind (dot ''statement'' (Some p)) (\<lambda>s.
     Inr (''- **'' @ text_of shown i @ ''**: '' @ text_of shown s)))"

definition phrase_lines :: "(json \<Rightarrow> string) \<Rightarrow> json list \<Rightarrow> string list" where
  "phrase_lines shown xs = map (\<lambda>x. ''- '' @ quoted (text_of shown (Some x))) xs"

definition agents_tone :: "(json \<Rightarrow> string) \<Rightarrow> json option \<Rightarrow> string + string list" where
  "agents_tone shown tone =
     (if truthy tone
      then sum_bind (if items (dot_opt ''voice_keywords'' tone) = [] then Inr []
             else map_sum id (\<lambda>s. [''Voice: '' @ s]) (joined shown ''constitution.tone.voice_keywords'' (dot_opt ''voice_keywords'' tone))) (\<lambda>voice.
           let phrases = items (dot_opt ''forbidden_phrases'' tone) in
           Inr ([''## Tone & Voice'', []] @ voice
             @ (if phrases = [] then [] else [[], ''**Avoid these phrases:**''] @ phrase_lines shown phrases)
             @ [[]]))
      else Inr [])"

definition agents_behavior :: "(json \<Rightarrow> string) \<Rightarrow> json option \<Rightarrow> string list" where
  "agents_behavior shown tradeoffs =
     (if truthy tradeoffs
      then [''## Behavior'', []]
           @ (let a = dot_opt ''autonomy_level'' tradeoffs in if truthy a then [''Autonomy level: '' @ text_of shown a] else [])
           @ [[]]
      else [])"

definition generator_version_of :: "(json \<Rightarrow> string) \<Rightarrow> json \<Rightarrow> string" where
  "generator_version_of shown c = text_of shown (first_truthy (jfield ''generator_version'' c) (Some (JStr ''0.5.0'')))"

definition generateAgentsMd :: "(json \<Rightarrow> string) \<Rightarrow> string \<Rightarrow> bool \<Rightarrow> json \<Rightarrow> string + string" where
  "generateAgentsMd shown now has_skills c =
     sum_bind (dot ''principles'' (Some c)) (\<lambda>ps.
     sum_bind (traverse (agents_principle shown) (items ps)) (\<lambda>principles.
     sum_bind (agents_tone shown (jfield ''tone'' c)) (\<lambda>tone.
     let taboos = items (jfield ''taboos'' c) in
     Inr (join [nl]
       ([''# AGENTS.md'', [], ''> Generated by TasteKit. Do not edit manually.'', []]
        @ (if items ps = [] then [] else [''## Principles'', []] @ principles @ [[]])
        @ tone
        @ agents_behavior shown (jfield ''tradeoffs'' c)
        @ (if taboos = [] then [] else [''## Restrictions'', []] @ map (\<lambda>t. ''- '' @ text_of shown (Some t)) taboos @ [[]])
        @ (if has_skills then [''## Skills'', [], ''See `.tastekit/skills/` for available skills with progressive disclosure.'', []] else [])
        @ [''---'', ''*Generated by TasteKit v'' @ generator_version_of shown c @ '' on '' @ hd (split_on CHR ''T'' now) @ ''*''])))))"

section \<open>Agent File\<close>

definition block_json :: "nat \<Rightarrow> string \<Rightarrow> string \<Rightarrow> string \<Rightarrow> bool \<Rightarrow> json" where
  "block_json i label val desc read_only =
     JObj [(''id'', JStr (''block-'' @ show_nat i)), (''label'', JStr label), (''value'', JStr val), (''limit'', JNum 5000),
       (''description'', JStr desc), (''read_only'', JBool read_only), (''is_template'', JBool False), (''template_name'', JNull)]"

definition statement_line :: "(json \<Rightarrow> string) \<Rightarrow> json \<Rightarrow> string + string" where
  "statement_line shown p = map_sum id (\<lambda>s. ''- '' @ text_of shown s) (dot ''statement'' (Some p))"

definition persona_text :: "(json \<Rightarrow> string) \<Rightarrow> json \<Rightarrow> string + string" where
  "persona_text shown c =
     sum_bind (dot ''principles'' (Some c)) (\<lambda>ps.
     sum_bind (traverse (statement_line shown) (items ps)) (\<lambda>principles.
     let keywords = dot_opt ''voice_keywords'' (jfield ''tone'' c) in
     sum_bind (if items keywords = [] then Inr []
       else map_sum id (\<lambda>s. [[], ''Voice: '' @ s]) (joined shown ''constitution.tone.voice_keywords'' keywords)) (\<lambda>voice.
     let t = join [nl] (principles @ voice) in
     Inr (if t = [] then ''A helpful assistant.'' else t))))"

definition preference_lines :: "(json \<Rightarrow> string) \<Rightarrow> json \<Rightarrow> string list" where
  "preference_lines shown c =
     (let phrases = items (dot_opt ''forbidden_phrases'' (jfield ''tone'' c));
          rules = items (dot_opt ''formatting_rules'' (jfield ''tone'' c))
      in (if phrases = [] then [] else ''Avoid these phrases:'' # phrase_lines shown phrases)
         @ (if rules = [] then [] else [[], ''Formatting:''] @ map (\<lambda>r. ''- '' @ text_of shown (Some r)) rules))"

text \<open>\<open>stringify\<close> is \<open>JSON.stringify\<close> without indentation.\<close>

definition taboo_line :: "(json \<Rightarrow> string) \<Rightarrow> (json \<Rightarrow> string) \<Rightarrow> json \<Rightarrow> string + string" where
  "taboo_line shown stringify t =
     (case t of
        JStr s \<Rightarrow> Inr (''- '' @ s)
      | _ \<Rightarrow> map_sum id (\<lambda>s. ''- '' @ (if truthy s then text_of shown s else stringify t)) (dot ''statement'' (Some t)))"

definition constraint_lines :: "(json \<Rightarrow> string) \<Rightarrow> (json \<Rightarrow> string) \<Rightarrow> json \<Rightarrow> string + string list" where
  "constraint_lines shown stringify c =
     (let taboos = jfield ''taboos'' c;
          never = items (first_truthy (dot_opt ''never_do'' taboos) taboos)
      in if never = [] then Inr []
         else map_sum id (\<lambda>ls.
             (let escalate = items (dot_opt ''must_escalate'' taboos)
              in ''Restrictions (never do):'' # ls
                 @ (if escalate = [] then [] else [[], ''Must escalate to human:''] @ map (\<lambda>x. ''- '' @ text_of shown (Some x)) escalate)))
           (traverse (taboo_line shown stringify) never))"

definition system_text :: "(json \<Rightarrow> string) \<Rightarrow> json \<Rightarrow> string + string" where
  "system_text shown c =
     (let evidence = jfield ''evidence_policy'' c;
          citations = dot_opt ''require_citations_for'' evidence;
          rules = items (dot_opt ''uncertainty_language_rules'' evidence)
      in map_sum id (\<lambda>cite. join_values shown [nl] (map JStr (''You are an AI assistant configured via TasteKit.'' # cite) @ rules))
           (if items citations = [] then Inr []
            else map_sum id (\<lambda>s. [''You must provide citations for: '' @ s @ ''.''])
                   (joined shown ''constitution.evidence_policy.require_citations_for'' citations)))"

text \<open>\<open>for (const a of v)\<close> of a value that is not nullish.\<close>

fun iterated :: "string \<Rightarrow> json \<Rightarrow> string + json list" where
  "iterated src (JArr xs) = Inr xs"
| "iterated src (JStr s) = Inr (map (\<lambda>c. JStr [c]) s)"
| "iterated src _ = Inl (src @ '' is not iterable'')"

definition approval_rule_json :: "json \<Rightarrow> string + json list" where
  "approval_rule_json approval =
     sum_bind (dot ''action'' (Some approval)) (\<lambda>a.
     Inr (if a = Some (JStr ''require_approval'')
          then [obj_of [(''type'', Some (JStr ''require_approval'')), (''tool_name'', Some (JStr ''*'')), (''condition'', jfield ''when'' approval)]]
          else []))"

definition tool_rules :: "json option \<Rightarrow> string + json list" where
  "tool_rules guardrails =
     (let approvals = dot_opt ''approvals'' guardrails
      in if truthy approvals
         then sum_bind (iterated ''guardrails.approvals'' (the approvals)) (\<lambda>as. map_sum id concat (traverse approval_rule_json as))
         else Inr [])"

definition number_blocks :: "(nat \<Rightarrow> json) list \<Rightarrow> json list" where
  "number_blocks bs = map (\<lambda>(i, b). b i) (List.enumerate 1 bs)"

definition generateAgentFile :: "(json \<Rightarrow> string) \<Rightarrow> (json \<Rightarrow> string) \<Rightarrow> string \<Rightarrow> json \<Rightarrow> json option \<Rightarrow> string + json" where
  "generateAgentFile shown stringify now c guardrails =
     sum_bind (persona_text shown c) (\<lambda>persona.
     sum_bind (constraint_lines shown stringify c) (\<lambda>constraints.
     sum_bind (system_text shown c) (\<lambda>system.
     sum_bind (tool_rules guardrails) (\<lambda>rules.
     let prefs = preference_lines shown c;
         blocks = number_blocks
           ([\<lambda>i. block_json i ''persona'' persona ''Agent personality and behavioral guidance. Generated by TasteKit.'' False]
            @ (if prefs = [] then []
               else [\<lambda>i. block_json i ''preferences'' (join [nl] prefs) ''User preferences and constraints. Generated by TasteKit.'' True])
            @ (if constraints = [] then []
               else [\<lambda>i. block_json i ''custom_instructions'' (join [nl] constraints) ''Safety constraints and escalation rules. Generated by TasteKit.'' True]));
         agent = obj_of
           [(''id'', Some (JStr ''agent-1'')), (''name'', Some (JStr ''tastekit-agent'')), (''agent_type'', Some (JStr ''letta_v1_agent'')),
            (''system'', Some (JStr system)),
            (''description'', Some (JStr (''Agent generated from TasteKit constitution (v'' @ generator_version_of shown c @ '')''))),
            (''block_ids'', Some (JArr (map (\<lambda>b. the (jfield ''id'' b)) blocks))), (''tool_ids'', Some (JArr [])),
            (''tool_rules'', if rules = [] then None else Some (JArr rules)), (''tags'', Some (JArr [JStr ''origin:tastekit''])),
            (''messages'', Some (JArr []))]
     in Inr (JObj [(''agents'', JArr [agent]), (''groups'', JArr []), (''blocks'', JArr blocks), (''files'', JArr []), (''sources'', JArr []),
          (''tools'', JArr []), (''mcp_servers'', JArr []),
          (''metadata'', JObj [(''generator'', JStr ''tastekit''),
             (''generator_version'', the (first_truthy (jfield ''generator_version'' c) (Some (JStr ''0.5.0'')))), (''exported_at'', JStr now)]),
          (''created_at'', JStr now)])))))"

section \<open>The export command\<close>

record export_env =
  xe_adapter :: adapter_env
  xe_yaml :: "string \<Rightarrow> string + json"
  xe_compact :: "json \<Rightarrow> string"
  xe_now :: string

text \<open>What the command ends with: success, or \<open>process.exit(1)\<close> after a message.\<close>

datatype exit_result = Exported | Exit_one string

definition parseYamlOrJson :: "export_env \<Rightarrow> segments \<Rightarrow> disk \<Rightarrow> string + json" where
  "parseYamlOrJson env p d =
     (case read_file d p of
        None \<Rightarrow> Inl (ae_oserr (xe_adapter env) p)
      | Some t \<Rightarrow> (case ae_jparse (xe_adapter env) t of Inr j \<Rightarrow> Inr j | Inl _ \<Rightarrow> xe_yaml env t))"

definition ADAPTERS :: "(string \<times> string) list" where
  "ADAPTERS = [(''claude-code'', ''Claude Code''), (''manus'', ''Manus''), (''openclaw'', ''OpenClaw''), (''autopilots'', ''Autopilots'')]"

definition handled :: "string option \<times> disk \<Rightarrow> exit_result \<times> disk" where
  "handled r = (case fst r of None \<Rightarrow> Exported | Some e \<Rightarrow> Exit_one e, snd r)"

text \<open>\<open>out = None\<close> is the default of the option, \<open>./export\<close>.\<close>

definition out_or :: "segments \<Rightarrow> segments option \<Rightarrow> segments" where
  "out_or dflt out = (case out of None \<Rightarrow> dflt | Some p \<Rightarrow> p)"

definition export_agent_file :: "export_env \<Rightarrow> segments \<Rightarrow> segments option \<Rightarrow> disk_step" where
  "export_agent_file env cwd out d =
     (let ws = cwd @ [''.tastekit'']; g = resolveArtifactPath d ws Guardrails_file; shown = ae_shown (xe_adapter env) in
      case sum_bind (parseYamlOrJson env (resolveArtifactPath d ws Constitution_file) d) (\<lambda>c.
           sum_bind (if existsSync d g then map_sum id Some (parseYamlOrJson env g d) else Inr None) (\<lambda>gr.
           generateAgentFile shown (xe_compact env) (xe_now env) c gr)) of
        Inl e \<Rightarrow> (Some e, d)
      | Inr af \<Rightarrow> run_steps [mkdir_step (out_or cwd out),
          write_step (ae_oserr (xe_adapter env)) (out_or cwd out @ [''agent.af'']) (ae_stringify (xe_adapter env) af)] d)"

definition export_agents_md :: "export_env \<Rightarrow> segments \<Rightarrow> segments option \<Rightarrow> disk_step" where
  "export_agents_md env cwd out d =
     (let ws = cwd @ [''.tastekit''] in
      case sum_bind (parseYamlOrJson env (resolveArtifactPath d ws Constitution_file) d)
             (generateAgentsMd (ae_shown (xe_adapter env)) (xe_now env) (existsSync d (resolveSkillsPath d ws @ [''manifest.v1.yaml'']))) of
        Inl e \<Rightarrow> (Some e, d)
      | Inr md \<Rightarrow> run_steps [mkdir_step (out_or cwd out),
          write_step (ae_oserr (xe_adapter env)) (out_or cwd out @ [''AGENTS.md'']) md] d)"

definition exportCommand :: "export_env \<Rightarrow> segments \<Rightarrow> string option \<Rightarrow> segments option \<Rightarrow> disk \<Rightarrow> exit_result \<times> disk" where
  "exportCommand env cwd target out d =
     (let ws = cwd @ [''.tastekit'']; outDir = out_or (cwd @ [''export'']) out in
      case target of
        None \<Rightarrow> (Exit_one ''Please specify a target adapter with --target'', d)
      | Some t \<Rightarrow>
          if \<not> existsSync d ws then (Exit_one ''No .tastekit directory found. Run `tastekit init` first.'', d)
          else if \<not> existsSync d (resolveArtifactPath d ws Constitution_file)
               then (Exit_one ''No compiled artifacts found. Run `tastekit compile` first.'', d)
          else if t = ''agent-file'' then handled (export_agent_file env cwd out d)
          else if t = ''agents-md'' then handled (export_agents_md env cwd out d)
          else (case map_of ADAPTERS t of
                  None \<Rightarrow> (Exit_one (''Unknown adapter: '' @ t), d)
                | Some _ \<Rightarrow> handled (run_steps [mkdir_step outDir, adapter_export (xe_adapter env) t ws outDir True] d)))"

section \<open>Lines of Markdown\<close>

definition is_bullet :: "string \<Rightarrow> bool" where
  "is_bullet l \<longleftrightarrow> starts_with (trim l) ''-'' \<or> starts_with (trim l) ''*''"

text \<open>\<open>l.replace(/^[\s*-]+/, '').trim()\<close>.\<close>

definition unbullet :: "string \<Rightarrow> string" where
  "unbullet l = trim (dropWhile (\<lambda>c. is_ws c \<or> c = CHR ''*'' \<or> c = CHR ''-'') l)"

definition bullets_of :: "string \<Rightarrow> string list" where
  "bullets_of t = filter (\<lambda>l. l \<noteq> []) (map unbullet (filter is_bullet (split_on nl t)))"

text \<open>\<open>t.split(/[,\n]/)\<close> and the words that are short enough.\<close>

definition words_of :: "string \<Rightarrow> string list" where
  "words_of t = filter (\<lambda>w. w \<noteq> [] \<and> utf16_length w < 30) (map unbullet (concat (map (split_on CHR '','') (split_on nl t))))"

text \<open>The title of a line that matches \<open>/^#{1,3}\s+(.+)/\<close>, trimmed and in lower case; \<open>.\<close> stops at a carriage return.\<close>

definition heading_of :: "string \<Rightarrow> string option" where
  "heading_of line =
     (let h = length (takeWhile (\<lambda>c. c = CHR ''#'') line); r = drop h line; t = dropWhile is_ws r
      in if 1 \<le> h \<and> h \<le> 3 \<and> r \<noteq> [] \<and> is_ws (hd r)
         then (if t \<noteq> [] then Some (to_lower (trim (takeWhile (\<lambda>c. c \<noteq> CHR 0x0D) t)))
               else if list_ex (\<lambda>c. c \<noteq> CHR 0x0D) (tl r) then Some [] else None)
         else None)"

record md_state =
  md_sections :: "(string \<times> string) list"
  md_current :: string
  md_content :: "string list"

text \<open>\<open>sections[k] = t\<close>: a text assigned to \<open>__proto__\<close> is ignored.\<close>

definition set_property :: "string \<Rightarrow> string \<Rightarrow> (string \<times> string) list \<Rightarrow> (string \<times> string) list" where
  "set_property k t m = (if k = ''__proto__'' then m else AList.update k t m)"

definition close_section :: "md_state \<Rightarrow> (string \<times> string) list" where
  "close_section st =
     (if md_content st \<noteq> [] then set_property (md_current st) (trim (join [nl] (md_content st))) (md_sections st) else md_sections st)"

definition md_line :: "md_state \<Rightarrow> string \<Rightarrow> md_state" where
  "md_line st line =
     (case heading_of line of
        Some title \<Rightarrow> \<lparr>md_sections = close_section st, md_current = title, md_content = []\<rparr>
      | None \<Rightarrow> st\<lparr>md_content := md_content st @ [line]\<rparr>)"

definition md_start :: md_state where
  "md_start = \<lparr>md_sections = [], md_current = ''_preamble'', md_content = []\<rparr>"

definition parseMdSections :: "string \<Rightarrow> (string \<times> string) list" where
  "parseMdSections content = close_section (foldl md_line md_start (split_on nl content))"

section \<open>From SOUL.md\<close>

text \<open>\<open>s.replace(/\s+/g, '_')\<close>.\<close>

function squash :: "string \<Rightarrow> string" where
  "squash [] = []"
| "squash (c # s) = (if is_ws c then CHR ''_'' # squash (dropWhile is_ws s) else c # squash s)"
  by pat_completeness auto
termination
  by (relation "measure length") (auto simp: le_imp_less_Suc length_dropWhile_le)

text \<open>\<open>Object.entries\<close>: keys that are array indices come first, in numerical order.\<close>

definition is_index :: "string \<Rightarrow> bool" where
  "is_index k \<longleftrightarrow> k \<noteq> [] \<and> list_all is_digit k \<and> (k = ''0'' \<or> hd k \<noteq> CHR ''0'') \<and> read_digits k < 2 ^ 32 - 1"

definition section_entries :: "(string \<times> string) list \<Rightarrow> (string \<times> string) list" where
  "section_entries m = sort_key (\<lambda>kv. read_digits (fst kv)) (filter (\<lambda>kv. is_index (fst kv)) m) @ filter (\<lambda>kv. \<not> is_index (fst kv)) m"

text \<open>A statement with the stem of its id, and whether the priority is appended to the id.\<close>

definition soul_statements :: "string \<times> string \<Rightarrow> (string \<times> bool \<times> string) list" where
  "soul_statements = (\<lambda>(section, content).
     if section = ''_preamble'' then []
     else if bullets_of content \<noteq> [] then map (\<lambda>b. (''soul_'' @ squash section, True, b)) (bullets_of content)
     else if trim content \<noteq> [] then [(''soul_'' @ squash section, False, hd (split_on nl (trim content)))]
     else [])"

definition soul_principle :: "nat \<times> string \<times> bool \<times> string \<Rightarrow> json" where
  "soul_principle = (\<lambda>(k, stem, numbered, statement).
     JObj [(''id'', JStr (if numbered then stem @ ''_'' @ show_nat k else stem)), (''statement'', JStr statement), (''priority'', JNum (of_nat k))])"

definition voice_sections :: "string list" where
  "voice_sections = [''voice'', ''tone'', ''personality'', ''communication style'']"

definition avoid_sections :: "string list" where
  "avoid_sections = [''avoid'', ''don'' @ [CHR 0x27] @ ''t'', ''never'', ''restrictions'', ''taboos'']"

text \<open>\<open>soul[key] || identity[key]\<close>, the empty text where there is none.\<close>

definition section_text :: "(string \<times> string) list \<Rightarrow> string \<Rightarrow> string" where
  "section_text m key = (case map_of m key of None \<Rightarrow> [] | Some t \<Rightarrow> t)"

definition imported_json :: "json list \<Rightarrow> string list \<Rightarrow> string list \<Rightarrow> string \<Rightarrow> string \<Rightarrow> (string \<times> json option) list \<Rightarrow> json" where
  "imported_json principles voice forbidden origin now rest =
     obj_of ([(''schema_version'', Some (JStr ''constitution.v1'')), (''generator_version'', Some (JStr ''0.5.0'')),
       (''principles'', Some (JArr (take 20 principles))),
       (''tone'', Some (JObj [(''voice_keywords'', strs_json (take 10 voice)), (''forbidden_phrases'', strs_json (take 10 forbidden))])),
       (''tradeoffs'', Some (JObj [(''autonomy_level'', JStr ''medium'')])),
       (''evidence_policy'', Some (JObj [(''require_citations_for'', JArr [])])),
       (''taboos'', Some (strs_json (take 5 forbidden))),
       (''imported_from'', Some (JStr origin)), (''imported_at'', Some (JStr now))] @ rest)"

definition buildConstitutionFromSoul :: "string \<Rightarrow> (string \<times> string) list \<Rightarrow> (string \<times> string) list \<Rightarrow> json" where
  "buildConstitutionFromSoul now soul identity =
     (let statements = concat (map soul_statements (section_entries soul));
          principles = map soul_principle (List.enumerate 1 statements);
          voice = concat (map (\<lambda>key. words_of (let s = section_text soul key in if s \<noteq> [] then s else section_text identity key)) voice_sections);
          forbidden = concat (map (\<lambda>key. bullets_of (section_text soul key)) avoid_sections)
      in imported_json principles voice forbidden ''soul-md'' now [])"

section \<open>From an Agent File\<close>

definition personality_blocks :: "string list" where
  "personality_blocks = [''persona'', ''soul'', ''custom_instructions'']"

definition preference_blocks :: "string list" where
  "preference_blocks = [''preferences'', ''conversation_patterns'']"

definition has_label :: "string list \<Rightarrow> json option \<Rightarrow> bool" where
  "has_label labels v = (case v of Some (JStr l) \<Rightarrow> l \<in> set labels | _ \<Rightarrow> False)"

definition text_statements :: "string \<Rightarrow> string list" where
  "text_statements t =
     (if bullets_of t \<noteq> [] then bullets_of t
      else if trim t \<noteq> [] then map trim (filter (\<lambda>l. trim l \<noteq> []) (split_on nl t))
      else [])"

definition block_statements :: "json \<Rightarrow> string + (string \<times> string) list" where
  "block_statements b =
     sum_bind (dot ''label'' (Some b)) (\<lambda>label.
     if has_label personality_blocks label
     then map_sum id (\<lambda>t. map (\<lambda>s. (''af_'' @ the (as_str (the label)), s)) (text_statements t))
            (as_string ''block.value'' ''split'' (jfield ''value'' b))
     else Inr [])"

definition system_statements :: "json \<Rightarrow> string + (string \<times> string) list" where
  "system_statements agent =
     (let sys = jfield ''system'' agent in
      if truthy sys
      then map_sum id (\<lambda>t. map (\<lambda>l. (''af_system'', trim l)) (take 10 (filter (\<lambda>l. 10 < utf16_length (trim l)) (split_on nl t))))
             (as_string ''agent.system'' ''split'' sys)
      else Inr [])"

definition af_principle :: "nat \<times> string \<times> string \<Rightarrow> json" where
  "af_principle = (\<lambda>(k, stem, statement).
     JObj [(''id'', JStr (stem @ ''_'' @ show_nat k)), (''statement'', JStr statement), (''priority'', JNum (of_nat k)),
       (''applies_to'', JArr [JStr ''*''])])"

definition block_words :: "json \<Rightarrow> string + string list" where
  "block_words b =
     sum_bind (dot ''label'' (Some b)) (\<lambda>label.
     if has_label preference_blocks label
     then map_sum id (\<lambda>t. take 5 (words_of t)) (as_string ''block.value'' ''split'' (jfield ''value'' b))
     else Inr [])"

definition prohibits :: "string \<Rightarrow> bool" where
  "prohibits l \<longleftrightarrow> list_ex (str_includes (to_lower l)) [''never'', ''avoid'', ''don'' @ [CHR 0x27] @ ''t'']"

definition block_phrases :: "json \<Rightarrow> string + string list" where
  "block_phrases b =
     sum_bind (dot ''read_only'' (Some b)) (\<lambda>read_only.
     if truthy read_only \<and> jfield ''label'' b \<noteq> Some (JStr ''persona'')
     then map_sum id (\<lambda>t. take 5 (filter prohibits (bullets_of t))) (as_string ''block.value'' ''split'' (jfield ''value'' b))
     else Inr [])"

definition buildConstitutionFromAgentFile :: "string \<Rightarrow> json \<Rightarrow> json list \<Rightarrow> string + json" where
  "buildConstitutionFromAgentFile now agent blocks =
     sum_bind (map_sum id concat (traverse block_statements blocks)) (\<lambda>from_blocks.
     sum_bind (if from_blocks = [] then system_statements agent else Inr from_blocks) (\<lambda>statements.
     sum_bind (map_sum id concat (traverse block_words blocks)) (\<lambda>voice.
     sum_bind (map_sum id concat (traverse block_phrases blocks)) (\<lambda>forbidden.
     Inr (imported_json (map af_principle (List.enumerate 1 statements)) voice forbidden ''agent-file'' now
       [(''agent_name'', truthy_field ''name'' agent), (''agent_description'', truthy_field ''description'' agent)])))))"

text \<open>Membership in a \<open>Set\<close>: values are compared as they are, objects by identity.\<close>

fun same_value :: "json option \<Rightarrow> json \<Rightarrow> bool" where
  "same_value None v = False"
| "same_value (Some (JArr _)) v = False"
| "same_value (Some (JObj _)) v = False"
| "same_value (Some j) v = (j = v)"

definition referenced :: "json list \<Rightarrow> json list \<Rightarrow> string + json list" where
  "referenced ids blocks =
     map_sum id concat (traverse (\<lambda>b. map_sum id (\<lambda>i. if list_ex (same_value i) ids then [b] else []) (dot ''id'' (Some b))) blocks)"

text \<open>The first agent: an old file is itself the agent.\<close>

definition first_agent :: "json \<Rightarrow> string + json option" where
  "first_agent af =
     sum_bind (dot ''agents'' (Some af)) (\<lambda>agents.
     if truthy agents
     then (case the agents of JArr xs \<Rightarrow> Inr (if xs = [] then None else Some (hd xs))
           | JStr s \<Rightarrow> Inr (Some (JStr [hd s]))
           | _ \<Rightarrow> Inl (read_error ''block_ids'' None))
     else Inr (if truthy (jfield ''agent_type'' af) then Some af else None))"

text \<open>The result is the constitution and the number of blocks that is reported; without an agent the command fails.\<close>

definition agent_file_constitution :: "string \<Rightarrow> json \<Rightarrow> string + json" where
  "agent_file_constitution now af =
     sum_bind (first_agent af) (\<lambda>a.
     case a of
       None \<Rightarrow> Inl ''No agents found in the .af file''
     | Some agent \<Rightarrow>
         sum_bind (dot ''block_ids'' (Some agent)) (\<lambda>ids.
         sum_bind (if truthy ids then iterated ''agent.block_ids'' (the ids) else Inr []) (\<lambda>ids.
         sum_bind (if truthy (jfield ''blocks'' af) then as_array ''blocks'' ''filter'' (jfield ''blocks'' af) else Inr []) (\<lambda>blocks.
         sum_bind (referenced ids blocks) (\<lambda>found.
         buildConstitutionFromAgentFile now agent (if found = [] then blocks else found))))))"

section \<open>The import command\<close>

definition write_imported :: "export_env \<Rightarrow> segments \<Rightarrow> json \<Rightarrow> disk_step" where
  "write_imported env cwd c =
     run_steps [mkdir_step (cwd @ [''.tastekit'', ''artifacts'']),
       write_step (ae_oserr (xe_adapter env)) (cwd @ [''.tastekit'', ''artifacts'', ''constitution.v1.json''])
         (ae_stringify (xe_adapter env) c)]"

definition read_text :: "export_env \<Rightarrow> segments \<Rightarrow> disk \<Rightarrow> string + string" where
  "read_text env p d = (case read_file d p of None \<Rightarrow> Inl (ae_oserr (xe_adapter env) p) | Some t \<Rightarrow> Inr t)"

definition soul_path :: "segments \<Rightarrow> disk \<Rightarrow> segments option" where
  "soul_path source d =
     (if existsSync d (source @ [''SOUL.md'']) then Some (source @ [''SOUL.md''])
      else if existsSync d source \<and> source \<noteq> [] \<and> ends_with (last source) ''.md'' then Some source
      else None)"

text \<open>What is read from the source: the constitution that is written when nothing throws.\<close>

definition soul_constitution :: "export_env \<Rightarrow> segments \<Rightarrow> disk \<Rightarrow> string + json" where
  "soul_constitution env p d =
     (let identity = butlast p @ [''IDENTITY.md''] in
      sum_bind (read_text env p d) (\<lambda>soul.
      sum_bind (if existsSync d identity then read_text env identity d else Inr []) (\<lambda>ident.
      Inr (buildConstitutionFromSoul (xe_now env) (parseMdSections soul) (if ident = [] then [] else parseMdSections ident)))))"

definition af_constitution :: "export_env \<Rightarrow> segments \<Rightarrow> disk \<Rightarrow> string + json" where
  "af_constitution env p d =
     sum_bind (read_text env p d) (\<lambda>t. sum_bind (ae_jparse (xe_adapter env) t) (agent_file_constitution (xe_now env)))"

definition importSoulMd :: "export_env \<Rightarrow> segments \<Rightarrow> segments \<Rightarrow> disk_step" where
  "importSoulMd env cwd source d =
     (case soul_path source d of
        None \<Rightarrow> (Some ''SOUL.md not found'', d)
      | Some p \<Rightarrow>
          (case soul_constitution env p d of
             Inl e \<Rightarrow> (Some e, d)
           | Inr c \<Rightarrow> write_imported env cwd c d))"

definition importAgentFile :: "export_env \<Rightarrow> segments \<Rightarrow> segments \<Rightarrow> disk_step" where
  "importAgentFile env cwd source d =
     (if \<not> existsSync d source then (Some ''File not found'', d)
      else (case af_constitution env source d of
              Inl e \<Rightarrow> (Some e, d)
            | Inr c \<Rightarrow> write_imported env cwd c d))"

definition importCommand :: "export_env \<Rightarrow> segments \<Rightarrow> string option \<Rightarrow> segments option \<Rightarrow> disk \<Rightarrow> exit_result \<times> disk" where
  "importCommand env cwd target source d =
     (case (target, source) of
        (None, _) \<Rightarrow> (Exit_one ''Please specify a source format with --target'', d)
      | (Some _, None) \<Rightarrow> (Exit_one ''Please specify a source path with --source'', d)
      | (Some t, Some p) \<Rightarrow>
          if t = ''soul-md'' then handled (importSoulMd env cwd p d)
          else if t = ''agent-file'' then handled (importAgentFile env cwd p d)
          else (Exit_one (''Import from '' @ t @ '' adapter format not yet implemented.''), d))"

section \<open>What the exports leave out\<close>

text \<open>The artifact as it is written.\<close>

definition principle_json :: "principle \<Rightarrow> json" where
  "principle_json p =
     obj_of [(''id'', Some (JStr (pr_id p))), (''priority'', Some (JNum (of_int (pr_priority p)))), (''statement'', Some (JStr (pr_statement p))),
       (''rationale'', map_option JStr (pr_rationale p)), (''applies_to'', Some (strs_json (pr_applies_to p))),
       (''examples_good'', map_option strs_json (pr_examples_good p)), (''examples_bad'', map_option strs_json (pr_examples_bad p))]"

definition tone_json :: "tone \<Rightarrow> json" where
  "tone_json t = JObj [(''voice_keywords'', strs_json (tn_voice_keywords t)), (''forbidden_phrases'', strs_json (tn_forbidden_phrases t)),
     (''formatting_rules'', strs_json (tn_formatting_rules t))]"

definition tradeoffs_json :: "tradeoffs \<Rightarrow> json" where
  "tradeoffs_json t = JObj [(''accuracy_vs_speed'', JNum (to_accuracy_vs_speed t)), (''cost_sensitivity'', JNum (to_cost_sensitivity t)),
     (''autonomy_level'', JNum (to_autonomy_level t))]"

definition evidence_json :: "evidence_policy \<Rightarrow> json" where
  "evidence_json e = JObj [(''require_citations_for'', strs_json (ep_require_citations_for e)),
     (''uncertainty_language_rules'', strs_json (ep_uncertainty_language_rules e))]"

definition taboos_json :: "taboos \<Rightarrow> json" where
  "taboos_json t = JObj [(''never_do'', strs_json (tb_never_do t)), (''must_escalate'', strs_json (tb_must_escalate t))]"

definition constitution_json :: "constitution \<Rightarrow> json" where
  "constitution_json c =
     JObj [(''schema_version'', JStr ''constitution.v1''), (''generated_at'', JStr (cn_generated_at c)),
       (''generator_version'', JStr (cn_generator_version c)), (''user_scope'', JStr ''single_user''),
       (''principles'', JArr (map principle_json (cn_principles c))), (''tone'', tone_json (cn_tone c)),
       (''tradeoffs'', tradeoffs_json (cn_tradeoffs c)), (''evidence_policy'', evidence_json (cn_evidence c)),
       (''taboos'', taboos_json (cn_taboos c)), (''trace_map'', JObj (cn_trace_map c))]"

lemma constitution_fields [simp]:
  "dot ''principles'' (Some (constitution_json c)) = Inr (Some (JArr (map principle_json (cn_principles c))))"
  "jfield ''tone'' (constitution_json c) = Some (tone_json (cn_tone c))"
  "jfield ''tradeoffs'' (constitution_json c) = Some (tradeoffs_json (cn_tradeoffs c))"
  "jfield ''evidence_policy'' (constitution_json c) = Some (evidence_json (cn_evidence c))"
  "jfield ''taboos'' (constitution_json c) = Some (taboos_json (cn_taboos c))"
  "jfield ''generator_version'' (constitution_json c) = Some (JStr (cn_generator_version c))"
  by (simp_all add: constitution_json_def)

lemma section_fields [simp]:
  "dot_opt ''voice_keywords'' (Some (tone_json t)) = Some (strs_json (tn_voice_keywords t))"
  "dot_opt ''forbidden_phrases'' (Some (tone_json t)) = Some (strs_json (tn_forbidden_phrases t))"
  "dot_opt ''formatting_rules'' (Some (tone_json t)) = Some (strs_json (tn_formatting_rules t))"
  "dot_opt ''never_do'' (Some (taboos_json b)) = Some (strs_json (tb_never_do b))"
  "dot_opt ''must_escalate'' (Some (taboos_json b)) = Some (strs_json (tb_must_escalate b))"
  "dot_opt ''require_citations_for'' (Some (evidence_json e)) = Some (strs_json (ep_require_citations_for e))"
  "dot_opt ''uncertainty_language_rules'' (Some (evidence_json e)) = Some (strs_json (ep_uncertainty_language_rules e))"
  by (simp_all add: dot_opt_def tone_json_def taboos_json_def evidence_json_def)

lemma principle_fields [simp]:
  "dot ''id'' (Some (principle_json p)) = Inr (Some (JStr (pr_id p)))"
  "dot ''statement'' (Some (principle_json p)) = Inr (Some (JStr (pr_statement p)))"
  by (simp_all add: principle_json_def dot_def obj_of_def split: option.split)

lemma joined_strs [simp]: "joined shown src (Some (strs_json xs)) = Inr (join '', '' xs)"
  by (simp add: joined_def strs_json_def)

lemma truthy_json [simp]: "truthy (Some (strs_json xs))" "truthy (Some (tone_json t))" "truthy (Some (tradeoffs_json r))"
  by (simp_all add: strs_json_def tone_json_def tradeoffs_json_def)

lemma phrase_lines_strs [simp]: "phrase_lines shown (map JStr xs) = map (\<lambda>x. bullet (quoted x)) xs"
  by (simp add: phrase_lines_def bullet_def)

lemma preferences_of_constitution:
  "preference_lines shown (constitution_json c) =
     (let t = cn_tone c in
      (if tn_forbidden_phrases t = [] then [] else ''Avoid these phrases:'' # map (\<lambda>x. bullet (quoted x)) (tn_forbidden_phrases t))
      @ (if tn_formatting_rules t = [] then [] else [[], ''Formatting:''] @ map bullet (tn_formatting_rules t)))"
  by (simp add: preference_lines_def bullet_def [abs_def] comp_def Let_def)

lemma persona_of_constitution:
  "persona_text shown (constitution_json c) =
     (let t = join [nl] (map (bullet \<circ> pr_statement) (cn_principles c)
            @ (if tn_voice_keywords (cn_tone c) = [] then [] else [[], ''Voice: '' @ join '', '' (tn_voice_keywords (cn_tone c))]))
      in Inr (if t = [] then ''A helpful assistant.'' else t))"
proof -
  have "traverse (statement_line shown) (map principle_json ps) = Inr (map (bullet \<circ> pr_statement) ps)" for ps
    by (induction ps) (simp_all add: statement_line_def bullet_def)
  then show ?thesis by (simp add: persona_text_def Let_def)
qed

lemma constraints_of_constitution:
  "constraint_lines shown stringify (constitution_json c) = Inr
     (let b = cn_taboos c in
      if tb_never_do b = [] then []
      else ''Restrictions (never do):'' # map bullet (tb_never_do b)
        @ (if tb_must_escalate b = [] then [] else [[], ''Must escalate to human:''] @ map bullet (tb_must_escalate b)))"
proof -
  have "traverse (taboo_line shown stringify) (map JStr xs) = Inr (map bullet xs)" for xs
    by (induction xs) (simp_all add: taboo_line_def bullet_def)
  then show ?thesis by (simp add: constraint_lines_def first_truthy_def Let_def bullet_def)
qed

lemma system_of_constitution: "\<exists>t. system_text shown (constitution_json c) = Inr t"
  by (simp add: system_text_def)

lemma taboos_no_list [simp]: "items (Some (taboos_json b)) = []"
  by (simp add: taboos_json_def)

text \<open>
  The restrictions that the two text exports lose. AGENTS.md of a constitution, as the compiler
  writes it, is the same whatever its taboos are: no taboo of the user reaches it. The Agent File is
  the same whatever must be escalated, if the constitution forbids nothing outright.
\<close>

theorem exports_lose_restrictions:
  "generateAgentsMd shown now skills (constitution_json (c\<lparr>cn_taboos := t\<rparr>)) = generateAgentsMd shown now skills (constitution_json c)
   \<and> generateAgentFile shown stringify now (constitution_json (c\<lparr>cn_taboos := \<lparr>tb_never_do = [], tb_must_escalate = e\<rparr>\<rparr>)) g
       = generateAgentFile shown stringify now (constitution_json (c\<lparr>cn_taboos := \<lparr>tb_never_do = [], tb_must_escalate = e'\<rparr>\<rparr>)) g"
  by (simp add: generateAgentsMd_def generateAgentFile_def persona_of_constitution constraints_of_constitution preferences_of_constitution
      system_text_def generator_version_of_def)

section \<open>Through an Agent File and back\<close>

lemma lines_of_document: "list_all (\<lambda>l. nl \<notin> set l) ls \<Longrightarrow> ls \<noteq> [] \<Longrightarrow> split_on nl (join [nl] ls) = ls"
proof -
  assume plain: "list_all (\<lambda>l. nl \<notin> set l) ls" and "ls \<noteq> []"
  have "concat (map (split_on nl) ls) = ls" using plain by (induction ls) (auto simp: split_on_no_sep)
  then show ?thesis by (simp add: split_on_join [OF \<open>ls \<noteq> []\<close>])
qed

lemma trim_end_Cons: "\<not> is_ws c \<Longrightarrow> trim_end (c # t) = c # trim_end t"
  by (simp add: trim_end_def dropWhile_append)

lemma trim_Cons: "\<not> is_ws c \<Longrightarrow> trim (c # t) = c # trim_end t"
  by (simp add: trim_def trim_start_def trim_end_Cons)

lemma is_bullet_Cons: "\<not> is_ws c \<Longrightarrow> is_bullet (c # t) \<longleftrightarrow> c = CHR ''-'' \<or> c = CHR ''*''"
  by (simp add: is_bullet_def trim_Cons)

lemma is_bullet_Nil [simp]: "\<not> is_bullet []"
  by (simp add: is_bullet_def trim_def trim_start_def trim_end_def)

lemma is_bullet_bullet [simp]: "is_bullet (bullet s)"
  by (simp add: bullet_def is_bullet_Cons is_ws_def)

lemma unbullet_bullet: "unbullet (bullet s) = unbullet s"
  by (simp add: unbullet_def bullet_def is_ws_def)

text \<open>A text that survives as a list item.\<close>

definition clean :: "string \<Rightarrow> bool" where
  "clean s \<longleftrightarrow> nl \<notin> set s \<and> s \<noteq> [] \<and> unbullet s = s"

lemma bullets_of_lines:
  assumes "list_all (\<lambda>l. nl \<notin> set l) ls"
  shows "bullets_of (join [nl] ls) = filter (\<lambda>l. l \<noteq> []) (map unbullet (filter is_bullet ls))"
  using lines_of_document [OF assms] by (cases "ls = []") (simp_all add: bullets_of_def)

lemma bullets_of_clean:
  assumes "list_all clean xs"
  shows "filter (\<lambda>l. l \<noteq> []) (map unbullet (filter is_bullet (map bullet xs))) = xs"
  using assms by (induction xs) (auto simp: unbullet_bullet clean_def)

lemma bullet_plain [simp]: "nl \<in> set (bullet s) \<longleftrightarrow> nl \<in> set s"
  by (simp add: bullet_def)

lemma clean_plain: "list_all clean xs \<Longrightarrow> list_all (\<lambda>l. nl \<notin> set l) (map bullet xs)"
  by (auto simp: list_all_iff clean_def)

lemma plain_lines [simp]:
  "list_all (\<lambda>l. nl \<notin> set l) [''Restrictions (never do):'']" "nl \<notin> set ''Must escalate to human:''" "nl \<notin> set ''Restrictions (never do):''"
  "nl \<notin> set ''Avoid these phrases:''" "nl \<notin> set ''Formatting:''" "nl \<notin> set ''Voice: ''" "nl \<notin> set '', ''"
  by simp_all

lemma no_bullets [simp]:
  "\<not> is_bullet ''Restrictions (never do):''" "\<not> is_bullet ''Must escalate to human:''" "\<not> is_bullet ''Avoid these phrases:''"
  "\<not> is_bullet ''Formatting:''" "\<not> is_bullet (''Voice: '' @ s)"
  by (simp_all add: is_bullet_Cons is_ws_def)

lemma set_join_plain: "nl \<notin> set sep \<Longrightarrow> list_all (\<lambda>l. nl \<notin> set l) xs \<Longrightarrow> nl \<notin> set (join sep xs)"
  by (induction sep xs rule: join.induct) auto

definition restriction_items :: "taboos \<Rightarrow> string list" where
  "restriction_items b = (if tb_never_do b = [] then [] else tb_never_do b @ tb_must_escalate b)"

lemma persona_bullets:
  assumes "list_all clean (map pr_statement ps)" "list_all (\<lambda>k. nl \<notin> set k) ks"
  shows "bullets_of (join [nl] (map (bullet \<circ> pr_statement) ps @ (if ks = [] then [] else [[], ''Voice: '' @ join '', '' ks])))
    = map pr_statement ps"
proof -
  have plain: "list_all (\<lambda>l. nl \<notin> set l) (map (bullet \<circ> pr_statement) ps @ (if ks = [] then [] else [[], ''Voice: '' @ join '', '' ks]))"
    using clean_plain [OF assms(1)] set_join_plain [OF _ assms(2), of "'', ''"] by (simp add: list_all_iff)
  show ?thesis using bullets_of_clean [OF assms(1)] unfolding bullets_of_lines [OF plain] by (simp add: comp_def is_bullet_Cons is_ws_def)
qed

definition constraints_text :: "taboos \<Rightarrow> string" where
  "constraints_text b = join [nl] (''Restrictions (never do):'' # map bullet (tb_never_do b)
     @ (if tb_must_escalate b = [] then [] else [[], ''Must escalate to human:''] @ map bullet (tb_must_escalate b)))"

lemma constraint_bullets:
  assumes "list_all clean (tb_never_do b)" "list_all clean (tb_must_escalate b)"
  shows "bullets_of (constraints_text b) = tb_never_do b @ tb_must_escalate b"
proof -
  have plain: "list_all (\<lambda>l. nl \<notin> set l) (''Restrictions (never do):'' # map bullet (tb_never_do b)
     @ (if tb_must_escalate b = [] then [] else [[], ''Must escalate to human:''] @ map bullet (tb_must_escalate b)))"
    using clean_plain [OF assms(1)] clean_plain [OF assms(2)] by simp
  show ?thesis
    using bullets_of_clean [OF assms(1)] bullets_of_clean [OF assms(2)]
    unfolding constraints_text_def bullets_of_lines [OF plain] by simp
qed

definition preferences_text :: "tone \<Rightarrow> string" where
  "preferences_text t = join [nl]
     ((if tn_forbidden_phrases t = [] then [] else ''Avoid these phrases:'' # map (\<lambda>x. bullet (quoted x)) (tn_forbidden_phrases t))
      @ (if tn_formatting_rules t = [] then [] else [[], ''Formatting:''] @ map bullet (tn_formatting_rules t)))"

lemma preference_bullets:
  assumes "list_all clean (map quoted (tn_forbidden_phrases t))" "list_all clean (tn_formatting_rules t)"
  shows "bullets_of (preferences_text t) = map quoted (tn_forbidden_phrases t) @ tn_formatting_rules t"
proof -
  let ?ls = "(if tn_forbidden_phrases t = [] then [] else ''Avoid these phrases:'' # map (\<lambda>x. bullet (quoted x)) (tn_forbidden_phrases t))
      @ (if tn_formatting_rules t = [] then [] else [[], ''Formatting:''] @ map bullet (tn_formatting_rules t))"
  have plain: "list_all (\<lambda>l. nl \<notin> set l) ?ls"
    using clean_plain [OF assms(1)] clean_plain [OF assms(2)] by (auto simp: list_all_iff)
  show ?thesis
    using bullets_of_clean [OF assms(1)] bullets_of_clean [OF assms(2)]
    unfolding preferences_text_def bullets_of_lines [OF plain] by (simp add: comp_def)
qed

definition short_phrase :: "string \<Rightarrow> bool" where
  "short_phrase p \<longleftrightarrow> clean (quoted p) \<and> CHR '','' \<notin> set p \<and> utf16_length (quoted p) < 30"

definition is_word :: "string \<Rightarrow> bool" where
  "is_word w \<longleftrightarrow> w \<noteq> [] \<and> utf16_length w < 30"

lemma words_of_lines:
  assumes "list_all (\<lambda>l. nl \<notin> set l) ls" "ls \<noteq> []"
  shows "words_of (join [nl] ls) = filter is_word (map unbullet (concat (map (split_on CHR '','') ls)))"
  by (simp add: words_of_def lines_of_document [OF assms] is_word_def [abs_def])

lemma phrase_words:
  "list_all short_phrase ps \<Longrightarrow> filter is_word (map unbullet (concat (map (split_on CHR '','') (map (\<lambda>x. bullet (quoted x)) ps)))) = map quoted ps"
proof (induction ps)
  case (Cons p ps)
  then have "CHR '','' \<notin> set (bullet (quoted p))" by (simp add: short_phrase_def bullet_def quoted_def)
  then have "split_on CHR '','' (bullet (quoted p)) = [bullet (quoted p)]" by (rule split_on_no_sep)
  with Cons show ?case by (simp add: unbullet_bullet short_phrase_def clean_def is_word_def)
qed simp

lemma preference_words:
  assumes "list_all short_phrase (tn_forbidden_phrases t)" "tn_forbidden_phrases t \<noteq> []" "list_all clean (tn_formatting_rules t)"
  shows "\<exists>ws. words_of (preferences_text t) = ''Avoid these phrases:'' # map quoted (tn_forbidden_phrases t) @ ws"
proof -
  let ?P = "tn_forbidden_phrases t"
  let ?ls = "(''Avoid these phrases:'' # map (\<lambda>x. bullet (quoted x)) ?P)
      @ (if tn_formatting_rules t = [] then [] else [[], ''Formatting:''] @ map bullet (tn_formatting_rules t))"
  have "list_all clean (map quoted ?P)" using assms(1) by (simp add: list_all_iff short_phrase_def)
  then have plain: "list_all (\<lambda>l. nl \<notin> set l) ?ls"
    using clean_plain [of "map quoted ?P"] clean_plain [OF assms(3)] by (auto simp: list_all_iff)
  have whole: "preferences_text t = join [nl] ?ls" using assms(2) by (simp add: preferences_text_def)
  have first: "filter is_word (map unbullet (split_on CHR '','' ''Avoid these phrases:'')) = [''Avoid these phrases:'']"
    by (simp add: is_word_def unbullet_def is_ws_def trim_def trim_start_def trim_end_def utf16_length_def)
  have "words_of (preferences_text t) = filter is_word (map unbullet (split_on CHR '','' ''Avoid these phrases:''))
      @ filter is_word (map unbullet (concat (map (split_on CHR '','') (map (\<lambda>x. bullet (quoted x)) ?P))))
      @ filter is_word (map unbullet (concat (map (split_on CHR '','') (if tn_formatting_rules t = [] then [] else [[], ''Formatting:''] @ map bullet (tn_formatting_rules t)))))"
    unfolding whole by (subst words_of_lines [OF plain]) (simp_all del: split_on.simps)
  then show ?thesis unfolding first phrase_words [OF assms(1)] by simp
qed

text \<open>The blocks of the file, and what the import reads from each.\<close>

definition file_blocks :: "constitution \<Rightarrow> string \<Rightarrow> (nat \<Rightarrow> json) list" where
  "file_blocks c persona =
     [\<lambda>i. block_json i ''persona'' persona ''Agent personality and behavioral guidance. Generated by TasteKit.'' False]
     @ (if tn_forbidden_phrases (cn_tone c) = [] \<and> tn_formatting_rules (cn_tone c) = [] then []
        else [\<lambda>i. block_json i ''preferences'' (preferences_text (cn_tone c)) ''User preferences and constraints. Generated by TasteKit.'' True])
     @ (if tb_never_do (cn_taboos c) = [] then []
        else [\<lambda>i. block_json i ''custom_instructions'' (constraints_text (cn_taboos c)) ''Safety constraints and escalation rules. Generated by TasteKit.'' True])"

lemma block_fields [simp]:
  "jfield ''id'' (block_json i l t d r) = Some (JStr (''block-'' @ show_nat i))"
  "jfield ''label'' (block_json i l t d r) = Some (JStr l)"
  "jfield ''value'' (block_json i l t d r) = Some (JStr t)"
  "jfield ''read_only'' (block_json i l t d r) = Some (JBool r)"
  "dot k (Some (block_json i l t d r)) = Inr (jfield k (block_json i l t d r))"
  by (simp_all add: block_json_def dot_def)

lemma block_reads [simp]:
  "block_statements (block_json i l t d r) =
     Inr (if l \<in> set personality_blocks then map (\<lambda>s. (''af_'' @ l, s)) (text_statements t) else [])"
  "block_words (block_json i l t d r) = Inr (if l \<in> set preference_blocks then take 5 (words_of t) else [])"
  "block_phrases (block_json i l t d r) = Inr (if r \<and> l \<noteq> ''persona'' then take 5 (filter prohibits (bullets_of t)) else [])"
  by (simp_all add: block_statements_def block_words_def block_phrases_def has_label_def)

lemma referenced_own: "list_all (\<lambda>b. is_object b \<and> (\<exists>s. dot ''id'' (Some b) = Inr (Some (JStr s)) \<and> jfield ''id'' b = Some (JStr s))) blocks
   \<Longrightarrow> referenced (map (\<lambda>b. the (jfield ''id'' b)) blocks) blocks = Inr blocks"
proof -
  assume ok: "list_all (\<lambda>b. is_object b \<and> (\<exists>s. dot ''id'' (Some b) = Inr (Some (JStr s)) \<and> jfield ''id'' b = Some (JStr s))) blocks"
  have "traverse (\<lambda>b. map_sum id (\<lambda>i. if list_ex (same_value i) (map (\<lambda>b. the (jfield ''id'' b)) blocks) then [b] else []) (dot ''id'' (Some b))) blocks
      = Inr (map (\<lambda>b. [b]) blocks)"
  proof (rule traverse_map)
    fix b assume b: "b \<in> set blocks"
    with ok obtain s where s: "dot ''id'' (Some b) = Inr (Some (JStr s))" "jfield ''id'' b = Some (JStr s)" by (auto simp: list_all_iff)
    have "list_ex (same_value (Some (JStr s))) (map (\<lambda>b. the (jfield ''id'' b)) blocks)"
      using b s(2) by (auto simp: list_ex_iff intro!: rev_image_eqI [of b])
    then show "map_sum id (\<lambda>i. if list_ex (same_value i) (map (\<lambda>b. the (jfield ''id'' b)) blocks) then [b] else []) (dot ''id'' (Some b)) = Inr [b]"
      by (simp add: s(1))
  qed
  then show ?thesis by (simp add: referenced_def concat_map_singleton)
qed

lemma prefs_are:
  "preference_lines shown (constitution_json c) = []
     \<longleftrightarrow> tn_forbidden_phrases (cn_tone c) = [] \<and> tn_formatting_rules (cn_tone c) = []"
  "join [nl] (preference_lines shown (constitution_json c)) = preferences_text (cn_tone c)"
  by (simp_all add: preferences_of_constitution preferences_text_def Let_def)

lemma exported_file:
  assumes "tool_rules g = Inr rules" "persona_text shown (constitution_json c) = Inr persona"
  shows "\<exists>agent rest. generateAgentFile shown stringify now (constitution_json c) g
       = Inr (JObj ([(''agents'', JArr [agent]), (''groups'', JArr []), (''blocks'', JArr (number_blocks (file_blocks c persona)))] @ rest))
     \<and> is_object agent \<and> dot ''block_ids'' (Some agent) = Inr (Some (JArr (map (\<lambda>b. the (jfield ''id'' b)) (number_blocks (file_blocks c persona)))))"
proof -
  obtain sys where sys: "system_text shown (constitution_json c) = Inr sys" using system_of_constitution by blast
  show ?thesis
    by (simp add: generateAgentFile_def assms sys constraints_of_constitution Let_def prefs_are file_blocks_def constraints_text_def
        dot_def obj_of_def)
qed

lemma imported_file:
  assumes "is_object agent" "dot ''block_ids'' (Some agent) = Inr (Some (JArr (map (\<lambda>b. the (jfield ''id'' b)) blocks)))" "blocks \<noteq> []"
    and "referenced (map (\<lambda>b. the (jfield ''id'' b)) blocks) blocks = Inr blocks"
  shows "agent_file_constitution now (JObj ([(''agents'', JArr [agent]), (''groups'', JArr []), (''blocks'', JArr blocks)] @ rest))
       = buildConstitutionFromAgentFile now agent blocks"
  using assms by (simp add: agent_file_constitution_def first_agent_def)

lemma take_enumerate_1: "take n (List.enumerate k xs) = List.enumerate k (take n xs)"
  by (induction xs arbitrary: n k) (auto simp: take_Cons split: nat.split)

lemma imported_fields [simp]:
  "jfield ''principles'' (imported_json ps v f origin now r) = Some (JArr (take 20 ps))"
  "jfield ''tone'' (imported_json ps v f origin now r) = Some (JObj [(''voice_keywords'', strs_json (take 10 v)), (''forbidden_phrases'', strs_json (take 10 f))])"
  "jfield ''taboos'' (imported_json ps v f origin now r) = Some (strs_json (take 5 f))"
  "jfield ''tradeoffs'' (imported_json ps v f origin now r) = Some (JObj [(''autonomy_level'', JStr ''medium'')])"
  by (simp_all add: imported_json_def)

lemma number_blocks_simps [simp]:
  "number_blocks (file_blocks c persona) \<noteq> []"
  "list_all (\<lambda>b. is_object b \<and> (\<exists>s. dot ''id'' (Some b) = Inr (Some (JStr s)) \<and> jfield ''id'' b = Some (JStr s))) (number_blocks (file_blocks c persona))"
  by (simp_all add: number_blocks_def file_blocks_def) (auto simp: block_json_def)

lemma text_statements_bullets: "bullets_of t \<noteq> [] \<Longrightarrow> text_statements t = bullets_of t"
  by (simp add: text_statements_def)

lemma blocks_imported:
  assumes "bullets_of persona = st" "st \<noteq> []"
    and "bullets_of (constraints_text (cn_taboos c)) = tb_never_do (cn_taboos c) @ tb_must_escalate (cn_taboos c)"
    and "bullets_of (preferences_text (cn_tone c)) = map quoted (tn_forbidden_phrases (cn_tone c)) @ tn_formatting_rules (cn_tone c)"
  shows "map_sum id concat (traverse block_statements (number_blocks (file_blocks c persona)))
       = (Inr (map (Pair ''af_persona'') st @ map (Pair ''af_custom_instructions'') (restriction_items (cn_taboos c))) :: string + (string \<times> string) list)"
    "map_sum id concat (traverse block_words (number_blocks (file_blocks c persona)))
       = (Inr (if tn_forbidden_phrases (cn_tone c) = [] \<and> tn_formatting_rules (cn_tone c) = [] then [] else take 5 (words_of (preferences_text (cn_tone c)))) :: string + string list)"
    "map_sum id concat (traverse block_phrases (number_blocks (file_blocks c persona)))
       = (Inr (take 5 (filter prohibits (map quoted (tn_forbidden_phrases (cn_tone c)) @ tn_formatting_rules (cn_tone c)))
          @ take 5 (filter prohibits (restriction_items (cn_taboos c)))) :: string + string list)"
  using assms
  by (simp_all add: number_blocks_def file_blocks_def personality_blocks_def preference_blocks_def text_statements_bullets restriction_items_def
      del: filter_append)

lemma statement_of_principle [simp]: "jfield ''statement'' (af_principle (k, stem, s)) = Some (JStr s)"
  by (simp add: af_principle_def)

text \<open>
  C31. What comes back from an Agent File. Take a constitution with at least one principle and at least one
  forbidden phrase, whose statements, restrictions and formatting rules survive as list items, whose
  forbidden phrases are short and free of commas and whose voice keywords have no line break, and
  guardrails, if there are any, whose tool rules can be read. The export succeeds, and the import of
  the exported file succeeds. Its principles are the principles of the constitution, in their order and
  numbered from one, followed by the restrictions that were exported, at most twenty in all: when
  something is forbidden outright these are all that is forbidden and then all that must be escalated,
  and when nothing is, none comes back, not even what must be escalated. The title of the list of
  phrases and the first four forbidden phrases come back as voice keywords. As restrictions come back
  only those texts that say never, avoid or don't.
\<close>

theorem agent_file_round_trip:
  assumes statements: "cn_principles c \<noteq> []" "list_all clean (map pr_statement (cn_principles c))"
    and voice: "list_all (\<lambda>k. nl \<notin> set k) (tn_voice_keywords (cn_tone c))"
    and restrictions: "list_all clean (tb_never_do (cn_taboos c))" "list_all clean (tb_must_escalate (cn_taboos c))"
    and phrases: "tn_forbidden_phrases (cn_tone c) \<noteq> []" "list_all short_phrase (tn_forbidden_phrases (cn_tone c))"
      "list_all clean (tn_formatting_rules (cn_tone c))"
    and guardrails: "tool_rules g = Inr rules"
  shows "\<exists>af c' ws. generateAgentFile shown stringify now (constitution_json c) g = Inr af \<and> agent_file_constitution now' af = Inr c'
     \<and> jfield ''principles'' c' = Some (JArr (map af_principle (List.enumerate 1 (take 20
          (map (Pair ''af_persona'') (map pr_statement (cn_principles c)) @ map (Pair ''af_custom_instructions'') (restriction_items (cn_taboos c)))))))
     \<and> items (dot_opt ''voice_keywords'' (jfield ''tone'' c'))
         = map JStr (take 5 (''Avoid these phrases:'' # map quoted (tn_forbidden_phrases (cn_tone c)) @ ws))
     \<and> jfield ''taboos'' c' = Some (strs_json (take 5
          (take 5 (filter prohibits (map quoted (tn_forbidden_phrases (cn_tone c)) @ tn_formatting_rules (cn_tone c)))
           @ filter prohibits (restriction_items (cn_taboos c)))))"
proof -
  define persona where "persona = join [nl] (map (bullet \<circ> pr_statement) (cn_principles c)
      @ (if tn_voice_keywords (cn_tone c) = [] then [] else [[], ''Voice: '' @ join '', '' (tn_voice_keywords (cn_tone c))]))"
  have bullets: "bullets_of persona = map pr_statement (cn_principles c)"
    unfolding persona_def by (rule persona_bullets [OF statements(2) voice])
  then have "persona \<noteq> []" using statements(1) by (auto simp: bullets_of_def)
  then have persona: "persona_text shown (constitution_json c) = Inr persona"
    by (simp add: persona_of_constitution Let_def flip: persona_def)
  have "list_all clean (map quoted (tn_forbidden_phrases (cn_tone c)))"
    using phrases(2) by (simp add: list_all_iff short_phrase_def)
  note imported = blocks_imported [OF bullets _ constraint_bullets [OF restrictions] preference_bullets [OF this phrases(3)]]
  obtain ws where ws: "words_of (preferences_text (cn_tone c)) = ''Avoid these phrases:'' # map quoted (tn_forbidden_phrases (cn_tone c)) @ ws"
    using preference_words [OF phrases(2,1,3)] by blast
  obtain agent rest where "generateAgentFile shown stringify now (constitution_json c) g
       = Inr (JObj ([(''agents'', JArr [agent]), (''groups'', JArr []), (''blocks'', JArr (number_blocks (file_blocks c persona)))] @ rest))"
    and agent: "is_object agent" "dot ''block_ids'' (Some agent) = Inr (Some (JArr (map (\<lambda>b. the (jfield ''id'' b)) (number_blocks (file_blocks c persona)))))"
    using exported_file [OF guardrails persona] by blast
  moreover define W where "W = ''Avoid these phrases:'' # map quoted (tn_forbidden_phrases (cn_tone c)) @ ws"
  moreover define S where "S = map (Pair ''af_persona'') (map pr_statement (cn_principles c)) @ map (Pair ''af_custom_instructions'') (restriction_items (cn_taboos c))"
  moreover define A where "A = take 5 (filter prohibits (map quoted (tn_forbidden_phrases (cn_tone c)) @ tn_formatting_rules (cn_tone c)))"
  moreover define B where "B = filter prohibits (restriction_items (cn_taboos c))"
  moreover have "buildConstitutionFromAgentFile now' agent (number_blocks (file_blocks c persona))
      = Inr (imported_json (map af_principle (List.enumerate 1 S)) (take 5 W) (A @ take 5 B) ''agent-file'' now'
          [(''agent_name'', truthy_field ''name'' agent), (''agent_description'', truthy_field ''description'' agent)])"
  proof -
    have "S \<noteq> []" "map pr_statement (cn_principles c) \<noteq> []" using statements(1) by (simp_all add: S_def)
    then show ?thesis
      by (simp only: buildConstitutionFromAgentFile_def imported [OF \<open>map pr_statement (cn_principles c) \<noteq> []\<close>] phrases(1) ws sum_bind_simps if_False simp_thms
          flip: W_def S_def A_def B_def)
  qed
  moreover have "take 5 (A @ take 5 B) = take 5 (A @ B)" by simp
  moreover note imported_file [OF agent number_blocks_simps(1) referenced_own [OF number_blocks_simps(2)], of now' rest]
  ultimately show ?thesis
    by (intro exI [of _ "JObj ([(''agents'', JArr [agent]), (''groups'', JArr []), (''blocks'', JArr (number_blocks (file_blocks c persona)))] @ rest)"]
          exI [of _ "imported_json (map af_principle (List.enumerate 1 S)) (take 5 W) (A @ take 5 B) ''agent-file'' now'
          [(''agent_name'', truthy_field ''name'' agent), (''agent_description'', truthy_field ''description'' agent)]"] exI [of _ ws])
       (simp only: imported_fields dot_opt_def Option.bind.simps jfield.simps map_of.simps fst_conv snd_conv simp_thms if_True items_strs
          take_take take_map take_enumerate_1 min_def fun_upd_same; simp)
qed

definition sample_constitution :: constitution where
  "sample_constitution =
     \<lparr>cn_generated_at = ''now'', cn_generator_version = ''1'',
      cn_principles = [\<lparr>pr_id = ''principle_0'', pr_priority = 1, pr_statement = ''Be brief'', pr_rationale = None, pr_applies_to = [''*''],
        pr_examples_good = None, pr_examples_bad = None\<rparr>],
      cn_tone = \<lparr>tn_voice_keywords = [''calm''], tn_forbidden_phrases = [''synergy''], tn_formatting_rules = []\<rparr>,
      cn_tradeoffs = \<lparr>to_accuracy_vs_speed = 1 / 2, to_cost_sensitivity = 1 / 2, to_autonomy_level = 1 / 2\<rparr>,
      cn_evidence = \<lparr>ep_require_citations_for = [], ep_uncertainty_language_rules = []\<rparr>,
      cn_taboos = \<lparr>tb_never_do = [''Never spam''], tb_must_escalate = [''Refunds'']\<rparr>, cn_trace_map = []\<rparr>"

lemma sample_parts:
  "cn_principles sample_constitution \<noteq> []" "list_all clean (map pr_statement (cn_principles sample_constitution))"
  "list_all (\<lambda>k. nl \<notin> set k) (tn_voice_keywords (cn_tone sample_constitution))"
  "list_all clean (tb_never_do (cn_taboos sample_constitution))" "list_all clean (tb_must_escalate (cn_taboos sample_constitution))"
  "tn_forbidden_phrases (cn_tone sample_constitution) \<noteq> []" "list_all short_phrase (tn_forbidden_phrases (cn_tone sample_constitution))"
  "list_all clean (tn_formatting_rules (cn_tone sample_constitution))" "tool_rules None = Inr []"
  by code_simp+

theorem agent_file_round_trip_witness:
  "\<exists>af c' ws. generateAgentFile (\<lambda>_. []) (\<lambda>_. []) ''now'' (constitution_json sample_constitution) None = Inr af
     \<and> agent_file_constitution ''later'' af = Inr c'
     \<and> jfield ''principles'' c' = Some (JArr [af_principle (1, ''af_persona'', ''Be brief''), af_principle (2, ''af_custom_instructions'', ''Never spam''),
         af_principle (3, ''af_custom_instructions'', ''Refunds'')])
     \<and> items (dot_opt ''voice_keywords'' (jfield ''tone'' c')) = map JStr (take 5 (''Avoid these phrases:'' # quoted ''synergy'' # ws))"
proof -
  have parts: "map pr_statement (cn_principles sample_constitution) = [''Be brief'']" "tn_forbidden_phrases (cn_tone sample_constitution) = [''synergy'']"
    "restriction_items (cn_taboos sample_constitution) = [''Never spam'', ''Refunds'']"
    by (simp_all add: sample_constitution_def restriction_items_def)
  obtain af c' ws where "generateAgentFile (\<lambda>_. []) (\<lambda>_. []) ''now'' (constitution_json sample_constitution) None = Inr af"
    "agent_file_constitution ''later'' af = Inr c'"
    "jfield ''principles'' c' = Some (JArr (map af_principle (List.enumerate 1 (take 20
       (map (Pair ''af_persona'') [''Be brief''] @ map (Pair ''af_custom_instructions'') [''Never spam'', ''Refunds''])))))"
    "items (dot_opt ''voice_keywords'' (jfield ''tone'' c')) = map JStr (take 5 (''Avoid these phrases:'' # map quoted [''synergy''] @ ws))"
    using agent_file_round_trip [OF sample_parts, of "\<lambda>_. []" "\<lambda>_. []" "''now''" "''later''"] unfolding parts by blast
  then show ?thesis by (intro exI [of _ af] exI [of _ c'] exI [of _ ws]) (simp add: numeral_2_eq_2 numeral_3_eq_3)
qed

section \<open>An import beside compiled artifacts\<close>

definition imported_file_path :: "segments \<Rightarrow> segments" where
  "imported_file_path cwd = cwd @ [''.tastekit'', ''artifacts'', ''constitution.v1.json'']"

lemma write_imported_frame: "q \<noteq> imported_file_path cwd \<Longrightarrow> read_file (snd (write_imported env cwd c d)) q = read_file d q"
  by (auto simp: write_imported_def imported_file_path_def mkdir_step_def write_step_def)

lemma import_frame: "q \<noteq> imported_file_path cwd \<Longrightarrow> read_file (snd (importCommand env cwd target source d)) q = read_file d q"
  by (auto simp: importCommand_def importSoulMd_def importAgentFile_def handled_def write_imported_frame Let_def split: option.split sum.split)

lemma write_imported_done:
  "fst (write_imported env cwd c d) = None \<Longrightarrow> read_file (snd (write_imported env cwd c d)) (imported_file_path cwd) = Some (ae_stringify (xe_adapter env) c)"
  by (auto simp: write_imported_def imported_file_path_def mkdir_step_def write_step_def split: if_splits)

text \<open>The constitution that an import takes from its source.\<close>

definition imported_from :: "export_env \<Rightarrow> string option \<Rightarrow> segments option \<Rightarrow> disk \<Rightarrow> string + json" where
  "imported_from env target source d =
     (if target = Some ''soul-md''
      then (case soul_path (the source) d of None \<Rightarrow> Inl ''SOUL.md not found'' | Some p \<Rightarrow> soul_constitution env p d)
      else af_constitution env (the source) d)"

lemma import_done:
  assumes "importCommand env cwd target source d = (Exported, d')"
  shows "\<exists>c. imported_from env target source d = Inr c \<and> read_file d' (imported_file_path cwd) = Some (ae_stringify (xe_adapter env) c)"
proof -
  obtain t p where tp: "target = Some t" "source = Some p" using assms by (auto simp: importCommand_def split: option.splits)
  consider "t = ''soul-md''" "handled (importSoulMd env cwd p d) = (Exported, d')"
    | "t = ''agent-file''" "handled (importAgentFile env cwd p d) = (Exported, d')"
    using assms by (auto simp: importCommand_def tp split: if_splits)
  then show ?thesis
  proof cases
    case 1
    then show ?thesis
      by (auto simp: handled_def importSoulMd_def imported_from_def tp split: option.splits sum.splits prod.splits simp: write_imported_done)
  next
    case 2
    then show ?thesis
      by (auto simp: handled_def importAgentFile_def imported_from_def tp split: option.splits sum.splits prod.splits if_splits simp: write_imported_done)
  qed
qed

text \<open>
  C33. An import beside compiled artifacts parts the readers of the constitution. Take a workspace whose
  constitution is in \<open>self/\<close>, where the compiler writes it. Every import, whatever its outcome, leaves
  every file but \<open>artifacts/constitution.v1.json\<close> as it was. What is read through the resolver of the
  artifacts, as the export and the adapters do, is still the file in \<open>self/\<close>, and unchanged. When the
  import reports success, \<open>artifacts/constitution.v1.json\<close>, which \<open>eval replay\<close> and \<open>drift apply\<close> read
  without the resolver, holds the constitution that was taken from the source.
\<close>

theorem import_is_shadowed:
  assumes "read_file d (selfPath (cwd @ [''.tastekit'']) [''constitution.v1.json'']) = Some t"
    and "importCommand env cwd target source d = (r, d')"
  shows "(\<forall>q. q \<noteq> imported_file_path cwd \<longrightarrow> read_file d' q = read_file d q)
     \<and> resolveArtifactPath d' (cwd @ [''.tastekit'']) Constitution_file = selfPath (cwd @ [''.tastekit'']) [''constitution.v1.json'']
     \<and> parseYamlOrJson env (resolveArtifactPath d' (cwd @ [''.tastekit'']) Constitution_file) d'
         = parseYamlOrJson env (resolveArtifactPath d (cwd @ [''.tastekit'']) Constitution_file) d
     \<and> (r = Exported \<longrightarrow> (\<exists>c. imported_from env target source d = Inr c
          \<and> read_file d' (imported_file_path cwd) = Some (ae_stringify (xe_adapter env) c)))"
proof -
  let ?p = "selfPath (cwd @ [''.tastekit'']) [''constitution.v1.json'']"
  have frame: "q \<noteq> imported_file_path cwd \<Longrightarrow> read_file d' q = read_file d q" for q
    using import_frame [of q cwd env target source d] assms(2) by simp
  have "?p \<noteq> imported_file_path cwd" by (simp add: selfPath_def imported_file_path_def)
  with frame assms(1) have t: "read_file d' ?p = Some t" by simp
  have "resolveArtifactPath d (cwd @ [''.tastekit'']) Constitution_file = ?p" "resolveArtifactPath d' (cwd @ [''.tastekit'']) Constitution_file = ?p"
    using artifact_in_self [of d "cwd @ [''.tastekit'']" Constitution_file] artifact_in_self [of d' "cwd @ [''.tastekit'']" Constitution_file] assms(1) t
    by simp_all
  then show ?thesis using frame assms t import_done [of env cwd target source d d'] by (simp add: parseYamlOrJson_def)
qed

definition sample_export_env :: export_env where
  "sample_export_env = \<lparr>xe_adapter = sample_adapter, xe_yaml = (\<lambda>_. Inl ''YAMLError''), xe_compact = (\<lambda>_. ''{}''), xe_now = ''now''\<rparr>"

definition soul_disk :: disk where
  "soul_disk = put_file [''.tastekit'', ''self'', ''constitution.v1.json''] ''old''
     (make_dirs [''.tastekit'', ''self''] (put_file [''SOUL.md''] ''# Rules'' empty_disk))"

lemma soul_import_runs: "fst (importCommand sample_export_env [] (Some ''soul-md'') (Some []) soul_disk) = Exported"
  by code_simp

theorem import_is_shadowed_witness:
  "\<exists>d' c. importCommand sample_export_env [] (Some ''soul-md'') (Some []) soul_disk = (Exported, d')
     \<and> read_file d' [''.tastekit'', ''self'', ''constitution.v1.json''] = Some ''old''
     \<and> resolveArtifactPath d' [''.tastekit''] Constitution_file = [''.tastekit'', ''self'', ''constitution.v1.json'']
     \<and> imported_from sample_export_env (Some ''soul-md'') (Some []) soul_disk = Inr c
     \<and> read_file d' [''.tastekit'', ''artifacts'', ''constitution.v1.json''] = Some (ae_stringify (xe_adapter sample_export_env) c)"
proof -
  obtain d' where run: "importCommand sample_export_env [] (Some ''soul-md'') (Some []) soul_disk = (Exported, d')"
    using soul_import_runs by (metis prod.collapse)
  have old: "read_file soul_disk (selfPath ([] @ [''.tastekit'']) [''constitution.v1.json'']) = Some ''old''"
    by (simp add: soul_disk_def selfPath_def)
  from import_is_shadowed [OF old run] obtain c where "imported_from sample_export_env (Some ''soul-md'') (Some []) soul_disk = Inr c"
    "read_file d' (imported_file_path []) = Some (ae_stringify (xe_adapter sample_export_env) c)" by blast
  with import_is_shadowed [OF old run] old run show ?thesis
    by (intro exI [of _ d'] exI [of _ c]) (simp add: selfPath_def imported_file_path_def)
qed

section \<open>A document of sections\<close>

text \<open>Lines before the first title, then titles with the lines that follow them.\<close>

definition soul_lines :: "string list \<Rightarrow> (string \<times> string list) list \<Rightarrow> string list" where
  "soul_lines pre xs = pre @ concat (map (\<lambda>(h, ls). h # ls) xs)"

definition content_line :: "string \<Rightarrow> bool" where
  "content_line l \<longleftrightarrow> nl \<notin> set l \<and> heading_of l = None"

definition title_of :: "string \<Rightarrow> string" where
  "title_of h = (case heading_of h of None \<Rightarrow> [] | Some t \<Rightarrow> t)"

definition section_ok :: "string \<times> string list \<Rightarrow> bool" where
  "section_ok = (\<lambda>(h, ls). nl \<notin> set h \<and> heading_of h \<noteq> None \<and> title_of h \<noteq> ''_preamble'' \<and> title_of h \<noteq> ''__proto__''
     \<and> \<not> is_index (title_of h) \<and> list_all content_line ls)"

definition section_body :: "string list \<Rightarrow> string" where
  "section_body ls = trim (join [nl] ls)"

definition items_of :: "string list \<Rightarrow> string list" where
  "items_of ls = filter (\<lambda>l. l \<noteq> []) (map unbullet (filter is_bullet ls))"

definition blank :: "string \<Rightarrow> bool" where
  "blank l \<longleftrightarrow> list_all is_ws l"

text \<open>The first line with text, without white space at its ends that ends the whole text.\<close>

definition first_text :: "string list \<Rightarrow> string" where
  "first_text ls = (case dropWhile blank ls of [] \<Rightarrow> [] | l # rest \<Rightarrow> if list_all blank rest then trim l else trim_start l)"

lemma trim_blank: "trim s = [] \<longleftrightarrow> blank s"
proof (cases "dropWhile is_ws s = []")
  case True
  then show ?thesis by (auto simp: trim_def trim_start_def trim_end_def blank_def list_all_iff dest: set_dropWhileD)
next
  case False
  then have "\<not> is_ws (hd (dropWhile is_ws s))" "hd (dropWhile is_ws s) \<in> set (dropWhile is_ws s)"
    by (simp_all add: hd_dropWhile)
  then have "dropWhile is_ws (rev (dropWhile is_ws s)) \<noteq> []" by (auto simp: dropWhile_eq_Nil_conv simp del: set_dropWhileD)
  with False show ?thesis by (auto simp: trim_def trim_start_def trim_end_def blank_def list_all_iff)
qed

lemma is_ws_nl [simp]: "is_ws nl"
  by (simp add: is_ws_def)

lemma trim_self: "s \<noteq> [] \<Longrightarrow> \<not> is_ws (hd s) \<Longrightarrow> \<not> is_ws (last s) \<Longrightarrow> trim s = s"
proof -
  assume "s \<noteq> []" "\<not> is_ws (hd s)" "\<not> is_ws (last s)"
  then have "dropWhile is_ws s = s" "dropWhile is_ws (rev s) = rev s"
    by (simp_all add: dropWhile_eq_self_iff hd_rev)
  then show ?thesis by (simp add: trim_def trim_start_def trim_end_def)
qed

lemma trim_trim [simp]: "trim (trim s) = trim s"
proof (cases "trim s = []")
  case False
  let ?t = "dropWhile is_ws s"
  have t: "?t \<noteq> []" using False unfolding trim_def trim_start_def trim_end_def by (metis dropWhile.simps(1) rev.simps(1))
  have "?t = trim s @ rev (takeWhile is_ws (rev ?t))"
    by (simp add: trim_def trim_start_def trim_end_def flip: rev_append)
  then have "hd ?t = hd (trim s)" using False by (metis hd_append2)
  moreover have "last (trim s) = hd (dropWhile is_ws (rev ?t))" using False by (simp add: trim_def trim_start_def trim_end_def last_rev)
  ultimately show ?thesis
    using False t hd_dropWhile [OF t] hd_dropWhile [of is_ws "rev ?t"] by (intro trim_self) (auto simp: trim_def trim_start_def trim_end_def)
next
  case True
  then show ?thesis by (simp only: True) (simp add: trim_def trim_start_def trim_end_def)
qed

text \<open>The list items of a text do not depend on the white space around it.\<close>

lemma bullets_of_sep: "bullets_of (s @ nl # t) = bullets_of s @ bullets_of t"
  by (simp add: bullets_of_def split_on_append_sep)

lemma bullets_of_plain: "nl \<notin> set s \<Longrightarrow> bullets_of s = items_of [s]"
  by (simp add: bullets_of_def items_of_def split_on_no_sep)

lemma bullets_of_Nil [simp]: "bullets_of [] = []"
  by (simp add: bullets_of_def)

lemma trim_first: "is_ws c \<Longrightarrow> trim (c # s) = trim s"
  by (simp add: trim_def trim_start_def)

lemma trim_last: "is_ws c \<Longrightarrow> trim (s @ [c]) = trim s"
proof (cases "blank s")
  case True
  then have "blank (s @ [c])" if "is_ws c" using that by (simp add: blank_def)
  then show "is_ws c \<Longrightarrow> trim (s @ [c]) = trim s" using True trim_blank by metis
next
  case False
  then show "is_ws c \<Longrightarrow> trim (s @ [c]) = trim s"
    by (auto simp: trim_def trim_start_def trim_end_def dropWhile_append blank_def list_all_iff)
qed

lemma items_first: "is_ws c \<Longrightarrow> items_of [c # s] = items_of [s]"
  by (simp add: items_of_def is_bullet_def trim_first unbullet_def)

lemma items_last: "is_ws c \<Longrightarrow> items_of [s @ [c]] = items_of [s]"
proof -
  assume c: "is_ws c"
  have "unbullet (s @ [c]) = unbullet s"
  proof (cases "dropWhile (\<lambda>c. is_ws c \<or> c = CHR ''*'' \<or> c = CHR ''-'') s = []")
    case True
    then have "dropWhile (\<lambda>c. is_ws c \<or> c = CHR ''*'' \<or> c = CHR ''-'') (s @ [c]) = []"
      using c by (simp only: dropWhile_eq_Nil_conv) simp
    with True show ?thesis by (simp only: unbullet_def)
  next
    case False
    then have "dropWhile (\<lambda>c. is_ws c \<or> c = CHR ''*'' \<or> c = CHR ''-'') (s @ [c])
        = dropWhile (\<lambda>c. is_ws c \<or> c = CHR ''*'' \<or> c = CHR ''-'') s @ [c]"
      by (simp only: dropWhile_eq_Nil_conv) (auto simp: dropWhile_append)
    with c show ?thesis by (simp only: unbullet_def trim_last)
  qed
  then show ?thesis using c by (simp add: items_of_def is_bullet_def trim_last)
qed

lemma bullets_first:
  assumes "is_ws c" shows "bullets_of (c # t) = bullets_of t"
proof (cases "c = nl")
  case True
  then show ?thesis using bullets_of_sep [of "[]" t] by simp
next
  case False
  show ?thesis
  proof (cases "nl \<in> set t")
    case True
    then obtain l r where t: "t = l @ nl # r" "nl \<notin> set l" by (meson split_list_first)
    have "bullets_of ((c # l) @ nl # r) = bullets_of (l @ nl # r)"
      using assms False t(2) by (simp only: bullets_of_sep) (simp add: bullets_of_plain items_first)
    then show ?thesis by (simp add: t(1))
  next
    case False': False
    then show ?thesis using assms False by (simp add: bullets_of_plain items_first)
  qed
qed

lemma bullets_last:
  assumes "is_ws c" shows "bullets_of (t @ [c]) = bullets_of t"
proof (cases "c = nl")
  case True
  then show ?thesis using bullets_of_sep [of t "[]"] by simp
next
  case False
  show ?thesis
  proof (cases "nl \<in> set t")
    case True
    then obtain l r where t: "t = l @ nl # r" "nl \<notin> set r" by (meson split_list_last)
    have "bullets_of (l @ nl # (r @ [c])) = bullets_of (l @ nl # r)"
      using assms False t(2) by (simp only: bullets_of_sep) (simp add: bullets_of_plain items_last)
    then show ?thesis by (simp add: t(1))
  next
    case False': False
    then show ?thesis using assms False by (simp add: bullets_of_plain items_last)
  qed
qed

lemma bullets_of_trim [simp]: "bullets_of (trim t) = bullets_of t"
proof -
  have start: "bullets_of (trim_start t) = bullets_of t" for t
    by (induction t) (simp_all add: trim_start_def bullets_first)
  have "bullets_of (trim_end t) = bullets_of t" for t
    by (induction t rule: rev_induct) (simp_all add: trim_end_def bullets_last)
  then show ?thesis by (simp add: trim_def start)
qed

lemma content_plain: "list_all content_line ls \<Longrightarrow> list_all (\<lambda>l. nl \<notin> set l) ls"
  by (auto simp: list_all_iff content_line_def)

lemma body_items: "list_all content_line ls \<Longrightarrow> bullets_of (section_body ls) = items_of ls"
  by (simp add: section_body_def bullets_of_lines [OF content_plain] items_of_def)

text \<open>A text without items counts as its first line.\<close>

lemma trim_end_blank: "blank r \<Longrightarrow> trim_end (s @ r) = trim_end s"
  by (simp add: trim_end_def blank_def dropWhile_append list_all_iff)

lemma trim_end_keep: "\<not> blank r \<Longrightarrow> trim_end (s @ r) = s @ trim_end r"
  by (auto simp: trim_end_def blank_def dropWhile_append list_all_iff)

lemma blank_lines: "blank (join [nl] ls) \<longleftrightarrow> list_all blank ls"
  by (induction ls rule: induct_list012) (auto simp: blank_def)

lemma trim_lines_first: "blank l \<Longrightarrow> trim (join [nl] (l # ls)) = trim (join [nl] ls)"
proof -
  assume l: "blank l"
  have "trim (l @ s) = trim s" for s
    using l by (induction l) (simp_all add: trim_first blank_def)
  from this [of "[]"] this [of "nl # join [nl] ls"] show ?thesis by (cases ls) (simp_all add: trim_first)
qed

lemma first_text_line:
  "list_all (\<lambda>l. nl \<notin> set l) ls \<Longrightarrow> hd (split_on nl (trim (join [nl] ls))) = first_text ls"
proof (induction ls)
  case Nil
  then show ?case by (simp add: first_text_def trim_def trim_start_def trim_end_def)
next
  case (Cons l ls)
  show ?case
  proof (cases "blank l")
    case True
    then show ?thesis using Cons trim_lines_first [of l ls] by (simp add: first_text_def)
  next
    case False
    have plain: "nl \<notin> set (trim_start l)" using Cons.prems by (auto simp: trim_start_def dest: set_dropWhileD)
    have start: "trim_start (l @ s) = trim_start l @ s" for s
      using False by (auto simp: trim_start_def dropWhile_append blank_def list_all_iff)
    show ?thesis
    proof (cases "list_all blank ls")
      case True
      have "trim (join [nl] (l # ls)) = trim l"
      proof (cases ls)
        case ls: (Cons a list)
        have "blank (nl # join [nl] ls)" using True by (simp add: blank_lines blank_def flip: blank_lines)
        then show ?thesis by (simp add: ls trim_def start trim_end_blank)
      qed simp
      moreover have "nl \<notin> set (trim l)"
        using plain by (auto simp: trim_def trim_end_def dest: set_dropWhileD)
      ultimately show ?thesis using True False by (simp add: first_text_def split_on_no_sep)
    next
      case more: False
      then obtain a r where ls: "ls = a # r" by (cases ls) auto
      have "\<not> blank (nl # join [nl] ls)" using more by (simp add: blank_lines blank_def flip: blank_lines)
      have "\<not> blank (join [nl] ls)" using more by (simp add: blank_lines)
      then have "trim (join [nl] (l # ls)) = trim_start l @ nl # trim_end (join [nl] ls)"
        using trim_end_keep [of "join [nl] ls" "trim_start l @ [nl]"] by (simp add: ls trim_def start)
      then show ?thesis using plain more False by (simp add: first_text_def split_on_append_sep split_on_no_sep)
    qed
  qed
qed

text \<open>What the parser keeps: the text under each title, and under \<open>_preamble\<close> the lines before the first
  one; a title that is followed by the next one at once is dropped.\<close>

definition soul_sections :: "string list \<Rightarrow> (string \<times> string list) list \<Rightarrow> (string \<times> string) list" where
  "soul_sections pre xs = (if pre = [] then [] else [(''_preamble'', section_body pre)])
     @ map (\<lambda>(h, ls). (title_of h, section_body ls)) (filter (\<lambda>(h, ls). ls \<noteq> []) xs)"

lemma content_lines: "list_all content_line ls \<Longrightarrow> foldl md_line st ls = st\<lparr>md_content := md_content st @ ls\<rparr>"
  by (induction ls arbitrary: st) (simp_all add: md_line_def content_line_def)

lemma section_parsed:
  "section_ok (h, ls) \<Longrightarrow> foldl md_line st (h # ls) = \<lparr>md_sections = close_section st, md_current = title_of h, md_content = ls\<rparr>"
  by (auto simp: section_ok_def content_lines md_line_def title_of_def)

lemma update_new: "k \<notin> fst ` set m \<Longrightarrow> AList.update k v m = m @ [(k, v)]" for m :: "('a \<times> 'b) list"
  by (induction m) auto

lemma section_closed:
  assumes "section_ok (h, ls)" "title_of h \<notin> fst ` set m"
  shows "close_section \<lparr>md_sections = m, md_current = title_of h, md_content = ls\<rparr>
    = m @ map (\<lambda>(h, ls). (title_of h, section_body ls)) (filter (\<lambda>(h, ls). ls \<noteq> []) [(h, ls)])"
  using assms by (simp add: close_section_def section_body_def set_property_def section_ok_def update_new)

lemma sections_parsed:
  "list_all section_ok xs \<Longrightarrow> distinct (map (title_of \<circ> fst) xs) \<Longrightarrow> (title_of \<circ> fst) ` set xs \<inter> fst ` set (close_section st) = {} \<Longrightarrow>
     close_section (foldl md_line st (concat (map (\<lambda>(h, ls). h # ls) xs)))
       = close_section st @ map (\<lambda>(h, ls). (title_of h, section_body ls)) (filter (\<lambda>(h, ls). ls \<noteq> []) xs)"
proof (induction xs arbitrary: st)
  case (Cons x xs)
  obtain h ls where x: "x = (h, ls)" by fastforce
  let ?st = "\<lparr>md_sections = close_section st, md_current = title_of h, md_content = ls\<rparr>"
  have ok: "section_ok (h, ls)" "title_of h \<notin> fst ` set (close_section st)" using Cons.prems by (auto simp: x)
  then have closed: "close_section ?st = close_section st @ map (\<lambda>(h, ls). (title_of h, section_body ls)) (filter (\<lambda>(h, ls). ls \<noteq> []) [(h, ls)])"
    by (rule section_closed)
  have "close_section (foldl md_line ?st (concat (map (\<lambda>(h, ls). h # ls) xs)))
      = close_section ?st @ map (\<lambda>(h, ls). (title_of h, section_body ls)) (filter (\<lambda>(h, ls). ls \<noteq> []) xs)"
    by (rule Cons.IH) (use Cons.prems in \<open>auto simp: x closed\<close>)
  moreover have "foldl md_line st (concat (map (\<lambda>(h, ls). h # ls) (x # xs))) = foldl md_line ?st (concat (map (\<lambda>(h, ls). h # ls) xs))"
    using section_parsed [OF ok(1)] by (simp add: x)
  ultimately show ?case using closed by (simp add: x)
qed simp

lemma document_parsed:
  assumes "list_all content_line pre" "list_all section_ok xs" "distinct (map (title_of \<circ> fst) xs)" "xs \<noteq> []"
  shows "parseMdSections (join [nl] (soul_lines pre xs)) = soul_sections pre xs"
proof -
  have "list_all (\<lambda>l. nl \<notin> set l) (soul_lines pre xs)"
    using content_plain [OF assms(1)] assms(2) by (auto simp: list_all_iff soul_lines_def section_ok_def content_line_def)
  moreover have "soul_lines pre xs \<noteq> []" using assms(4) by (cases xs) (auto simp: soul_lines_def)
  ultimately have lines: "split_on nl (join [nl] (soul_lines pre xs)) = soul_lines pre xs" by (rule lines_of_document)
  let ?st = "foldl md_line md_start pre"
  have start: "close_section ?st = (if pre = [] then [] else [(''_preamble'', section_body pre)])"
    by (simp add: content_lines [OF assms(1)] close_section_def md_start_def set_property_def section_body_def)
  have "close_section (foldl md_line ?st (concat (map (\<lambda>(h, ls). h # ls) xs)))
      = close_section ?st @ map (\<lambda>(h, ls). (title_of h, section_body ls)) (filter (\<lambda>(h, ls). ls \<noteq> []) xs)"
    using assms(2) by (intro sections_parsed assms(2,3)) (auto simp: start list_all_iff section_ok_def)
  then show ?thesis unfolding parseMdSections_def lines by (simp add: start soul_lines_def soul_sections_def)
qed

text \<open>The statements of a section: its items, else its first line.\<close>

definition section_statements :: "string \<times> string list \<Rightarrow> (string \<times> bool \<times> string) list" where
  "section_statements = (\<lambda>(h, ls).
     if items_of ls \<noteq> [] then map (\<lambda>b. (''soul_'' @ squash (title_of h), True, b)) (items_of ls)
     else if list_all blank ls then [] else [(''soul_'' @ squash (title_of h), False, first_text ls)])"

lemma statements_of_section:
  assumes "section_ok (h, ls)"
  shows "soul_statements (title_of h, section_body ls) = section_statements (h, ls)"
proof -
  have ls: "list_all content_line ls" using assms by (simp add: section_ok_def)
  have body: "trim (section_body ls) = section_body ls" by (simp add: section_body_def)
  show ?thesis
    using assms by (simp add: soul_statements_def section_statements_def body body_items [OF ls] section_ok_def)
      (simp add: section_body_def trim_blank blank_lines first_text_line [OF content_plain [OF ls]])
qed

definition section_items :: "(string \<times> string list) list \<Rightarrow> string \<Rightarrow> string list" where
  "section_items xs k = (case map_of (map (\<lambda>(h, ls). (title_of h, items_of ls)) xs) k of None \<Rightarrow> [] | Some bs \<Rightarrow> bs)"

lemma items_of_sections:
  "list_all section_ok xs \<Longrightarrow> distinct (map (title_of \<circ> fst) xs) \<Longrightarrow>
     bullets_of (section_text (map (\<lambda>(h, ls). (title_of h, section_body ls)) (filter (\<lambda>(h, ls). ls \<noteq> []) xs)) k) = section_items xs k"
proof (induction xs)
  case Nil
  then show ?case by (simp add: section_text_def section_items_def)
next
  case (Cons x xs)
  obtain h ls where x: "x = (h, ls)" by fastforce
  have ls: "bullets_of (section_body ls) = items_of ls"
    using Cons.prems(1) by (intro body_items) (simp add: x section_ok_def)
  have "ls = [] \<Longrightarrow> k = title_of h \<Longrightarrow> map_of (map (\<lambda>(h, ls). (title_of h, items_of ls)) xs) k = None"
    using Cons.prems(2) by (force simp: x map_of_eq_None_iff)
  then show ?case using Cons ls by (auto simp: x section_text_def section_items_def items_of_def)
qed

lemma filled_items:
  assumes "list_all section_ok xs" "distinct (map (title_of \<circ> fst) xs)" "k \<noteq> ''_preamble''"
  shows "bullets_of (section_text (soul_sections pre xs) k) = section_items xs k"
  using items_of_sections [OF assms(1,2), of k] assms(3) by (simp add: soul_sections_def section_text_def)

lemma preamble_no_index: "\<not> is_index ''_preamble''"
  by code_simp

text \<open>
  C32. What an import takes from SOUL.md. Take any document that has a title, with or without text before
  the first one, whose titles differ also when case is ignored and are not \<open>_preamble\<close>, \<open>__proto__\<close> or a
  number. Its statements become principles in the order of the document, numbered from one, the first
  twenty of them: of each section its list items, or, where it has none, its first line of text; the
  items of the sections that say what to avoid are among them. The items of \<open>avoid\<close>, \<open>don't\<close>,
  \<open>never\<close>, \<open>restrictions\<close> and \<open>taboos\<close>, in this order, are the forbidden phrases, the first ten of them,
  and the first five of them are the taboos.
\<close>

theorem soul_document_imported:
  assumes "list_all content_line pre" "list_all section_ok xs" "distinct (map (title_of \<circ> fst) xs)" "xs \<noteq> []"
    and "c = buildConstitutionFromSoul now (parseMdSections (join [nl] (soul_lines pre xs))) identity"
  shows "jfield ''principles'' c = Some (JArr (map soul_principle (List.enumerate 1 (take 20 (concat (map section_statements xs))))))
     \<and> items (dot_opt ''forbidden_phrases'' (jfield ''tone'' c)) = map JStr (take 10 (concat (map (section_items xs) avoid_sections)))
     \<and> jfield ''taboos'' c = Some (strs_json (take 5 (concat (map (section_items xs) avoid_sections))))"
proof -
  let ?m = "soul_sections pre xs"
  have "filter (\<lambda>kv. is_index (fst kv)) ?m = []" "filter (\<lambda>kv. \<not> is_index (fst kv)) ?m = ?m"
    using assms(2) by (auto simp: soul_sections_def filter_empty_conv filter_id_conv list_all_iff section_ok_def preamble_no_index)
  then have entries: "section_entries ?m = ?m" by (simp add: section_entries_def)
  have preamble: "soul_statements (''_preamble'', t) = []" for t by (simp add: soul_statements_def)
  have "concat (map soul_statements (map (\<lambda>(h, ls). (title_of h, section_body ls)) (filter (\<lambda>(h, ls). ls \<noteq> []) xs))) = concat (map section_statements xs)"
    using assms(2) by (induction xs) (auto simp: statements_of_section section_statements_def items_of_def)
  then have "concat (map soul_statements ?m) = concat (map section_statements xs)"
    by (simp add: soul_sections_def preamble)
  moreover have "map (\<lambda>key. bullets_of (section_text ?m key)) avoid_sections = map (section_items xs) avoid_sections"
    by (rule map_cong [OF refl], rule filled_items [OF assms(2,3)]) (auto simp: avoid_sections_def)
  then have "concat (map (\<lambda>key. bullets_of (section_text ?m key)) avoid_sections) = concat (map (section_items xs) avoid_sections)"
    by (simp only:)
  ultimately show ?thesis
    unfolding assms(5) document_parsed [OF assms(1-4)] buildConstitutionFromSoul_def
    by (simp add: entries Let_def dot_opt_def take_map take_enumerate_1)
qed

definition sample_soul :: "(string \<times> string list) list" where
  "sample_soul = [(''# My Agent'', [[], ''Helpful and brief.'', []]), (''## Rules'', [[], ''- Be kind'', []]), (''## Avoid'', [[], ''* jargon'', [], []])]"

theorem soul_document_imported_witness:
  "jfield ''principles'' (buildConstitutionFromSoul ''now'' (parseMdSections (join [nl] (soul_lines [''hello''] sample_soul))) [])
     = Some (JArr [soul_principle (1, ''soul_my_agent'', False, ''Helpful and brief.''),
         soul_principle (2, ''soul_rules'', True, ''Be kind''), soul_principle (3, ''soul_avoid'', True, ''jargon'')])
   \<and> items (dot_opt ''forbidden_phrases'' (jfield ''tone'' (buildConstitutionFromSoul ''now'' (parseMdSections (join [nl] (soul_lines [''hello''] sample_soul))) []))) = [JStr ''jargon'']"
proof -
  have "list_all content_line [''hello'']" "list_all section_ok sample_soul" "distinct (map (title_of \<circ> fst) sample_soul)" "sample_soul \<noteq> []"
    by code_simp+
  note result = soul_document_imported [OF this refl, of "''now''" "[]"]
  have "concat (map section_statements sample_soul) = [(''soul_my_agent'', False, ''Helpful and brief.''), (''soul_rules'', True, ''Be kind''), (''soul_avoid'', True, ''jargon'')]"
    "concat (map (section_items sample_soul) avoid_sections) = [''jargon'']"
    by code_simp+
  with result show ?thesis by (simp add: numeral_2_eq_2 numeral_3_eq_3)
qed

end
