(* ===== verification/Tracer.thy ===== *)
theory Tracer
  imports Parser Layout
begin

text \<open>
  TasteKit core, tracing/tracer.ts, and the file reader of tracing/reader.ts: the trace file of a run,
  from the calls of the agent to the events that a reader, and the ingestion of autoManage, get from
  it. \<open>stringify\<close> and \<open>jparse\<close> are \<open>JSON.stringify\<close> and \<open>JSON.parse\<close>, \<open>hash\<close> is \<open>hashObject\<close>.
\<close>

section \<open>The tracer\<close>

record tracer =
  tc_run_id :: string
  tc_path :: segments

definition new_tracer :: "string \<Rightarrow> segments \<Rightarrow> string option \<Rightarrow> disk \<Rightarrow> tracer \<times> disk" where
  "new_tracer uuid ws runId d =
     (let run = (case runId of None \<Rightarrow> uuid | Some r \<Rightarrow> if r = [] then uuid else r);
          tracesDir = resolveTracesPath d ws
      in (\<lparr>tc_run_id = run, tc_path = tracesDir @ [run @ ''.trace.v1.jsonl'']\<rparr>, ensureDir tracesDir d))"

text \<open>One constructor per public method; the first is \<open>trace\<close> itself, which takes an event of the declared
  type (its run and time are not looked at) with the properties in an order of the caller's.\<close>

datatype trace_op =
    Trace_event "string list" trace_event
  | Trace_plan json
  | Trace_think json "string option"
  | Trace_tool_call string json "string option" "string option"
  | Trace_tool_result string json "string option" "string option"
  | Trace_approval_request json "rat option"
  | Trace_approval_response bool "string option"
  | Trace_artifact_written string string
  | Trace_error string "string option" "json option"

definition js :: "string option \<Rightarrow> json option" where
  "js x = map_option JStr x"

definition event_fields :: "trace_event \<Rightarrow> (string \<times> json option) list" where
  "event_fields e =
     [(''actor'', Some (JStr (actor_str (actor e)))), (''skill_id'', js (skill_id e)), (''playbook_id'', js (playbook_id e)),
      (''step_id'', js (step_id e)), (''event_type'', Some (JStr (event_type_str (event_type e)))), (''tool_ref'', js (tool_ref e)),
      (''input_hash'', js (input_hash e)), (''output_hash'', js (output_hash e)), (''risk_score'', map_option JNum (risk_score e)),
      (''principle_refs'', map_option strs_to_json (principle_refs e)), (''cost'', map_option cost_to_json (cost e)),
      (''data'', map_option JObj (data e)), (''error'', js (error e)),
      (''observation_category'', map_option (JStr \<circ> category_str) (observation_category e)),
      (''tension'', map_option tension_to_json (tension e))]"

definition in_order :: "string list \<Rightarrow> (string \<times> 'a) list \<Rightarrow> (string \<times> 'a) list" where
  "in_order ks kvs = sort_key (\<lambda>kv. length (takeWhile (\<lambda>k. k \<noteq> fst kv) ks)) kvs"

fun op_fields :: "(json \<Rightarrow> string) \<Rightarrow> trace_op \<Rightarrow> (string \<times> json option) list" where
  "op_fields hash (Trace_event ks e) = in_order ks (event_fields e)"
| "op_fields hash (Trace_plan d) =
     [(''actor'', Some (JStr ''agent'')), (''event_type'', Some (JStr ''plan'')), (''data'', Some d)]"
| "op_fields hash (Trace_think d skillId) =
     [(''actor'', Some (JStr ''agent'')), (''event_type'', Some (JStr ''think'')), (''skill_id'', js skillId), (''data'', Some d)]"
| "op_fields hash (Trace_tool_call toolRef input skillId stepId) =
     [(''actor'', Some (JStr ''agent'')), (''event_type'', Some (JStr ''tool_call'')), (''tool_ref'', Some (JStr toolRef)),
      (''skill_id'', js skillId), (''step_id'', js stepId), (''input_hash'', Some (JStr (hash input))),
      (''data'', Some (obj_of [(''input'', Some input)]))]"
| "op_fields hash (Trace_tool_result toolRef output skillId stepId) =
     [(''actor'', Some (JStr ''agent'')), (''event_type'', Some (JStr ''tool_result'')), (''tool_ref'', Some (JStr toolRef)),
      (''skill_id'', js skillId), (''step_id'', js stepId), (''output_hash'', Some (JStr (hash output))),
      (''data'', Some (obj_of [(''output'', Some output)]))]"
| "op_fields hash (Trace_approval_request d riskScore) =
     [(''actor'', Some (JStr ''agent'')), (''event_type'', Some (JStr ''approval_requested'')),
      (''risk_score'', map_option JNum riskScore), (''data'', Some d)]"
| "op_fields hash (Trace_approval_response approved reason) =
     [(''actor'', Some (JStr ''user'')), (''event_type'', Some (JStr ''approval_response'')),
      (''data'', Some (obj_of [(''approved'', Some (JBool approved)), (''reason'', js reason)]))]"
| "op_fields hash (Trace_artifact_written artifactPath h) =
     [(''actor'', Some (JStr ''agent'')), (''event_type'', Some (JStr ''artifact_written'')), (''output_hash'', Some (JStr h)),
      (''data'', Some (obj_of [(''path'', Some (JStr artifactPath))]))]"
| "op_fields hash (Trace_error message stack context) =
     [(''actor'', Some (JStr ''system'')), (''event_type'', Some (JStr ''error'')), (''error'', Some (JStr message)),
      (''data'', Some (obj_of [(''stack'', js stack), (''context'', context)]))]"

definition trace_json :: "(json \<Rightarrow> string) \<Rightarrow> string \<Rightarrow> string \<Rightarrow> trace_op \<Rightarrow> json" where
  "trace_json hash run now op =
     obj_of ([(''schema_version'', Some (JStr ''trace_event.v1'')), (''run_id'', Some (JStr run)), (''timestamp'', Some (JStr now))]
             @ op_fields hash op)"

definition append_file :: "segments \<Rightarrow> string \<Rightarrow> disk \<Rightarrow> disk" where
  "append_file p t d = put_file p (case read_file d p of None \<Rightarrow> t | Some c \<Rightarrow> c @ t) d"

definition trace :: "(json \<Rightarrow> string) \<Rightarrow> (json \<Rightarrow> string) \<Rightarrow> tracer \<Rightarrow> disk \<Rightarrow> string \<times> trace_op \<Rightarrow> disk" where
  "trace hash stringify tr d nop =
     append_file (tc_path tr) (stringify (trace_json hash (tc_run_id tr) (fst nop) (snd nop)) @ [nl]) d"

text \<open>\<open>TraceReader.readTrace\<close> of the content of a file; \<open>None\<close> where a line does not parse.\<close>

definition readTrace :: "(string \<Rightarrow> json option) \<Rightarrow> string \<Rightarrow> json list option" where
  "readTrace jparse content =
     those (map jparse (filter (\<lambda>line. length line > 0) (split_on nl (trim content))))"

section \<open>The events of a run\<close>

definition present :: "(string \<times> json option) list \<Rightarrow> (string \<times> json) list" where
  "present kvs = concat (map (\<lambda>(k, v). case v of None \<Rightarrow> [] | Some x \<Rightarrow> [(k, x)]) kvs)"

definition bare_event :: "string \<Rightarrow> string \<Rightarrow> actor \<Rightarrow> event_type \<Rightarrow> (string \<times> json) list \<Rightarrow> trace_event" where
  "bare_event run now a t d =
     \<lparr>run_id = run, timestamp = now, actor = a, skill_id = None, playbook_id = None, step_id = None, event_type = t,
      tool_ref = None, input_hash = None, output_hash = None, risk_score = None, principle_refs = None, cost = None,
      data = Some d, error = None, observation_category = None, tension = None\<rparr>"

definition entries :: "json \<Rightarrow> (string \<times> json) list" where
  "entries j = (case as_record j of None \<Rightarrow> [] | Some kvs \<Rightarrow> kvs)"

fun traced_event :: "(json \<Rightarrow> string) \<Rightarrow> string \<Rightarrow> string \<Rightarrow> trace_op \<Rightarrow> trace_event" where
  "traced_event hash run now (Trace_event ks e) = e\<lparr>run_id := run, timestamp := now\<rparr>"
| "traced_event hash run now (Trace_plan d) = bare_event run now Agent Plan (entries d)"
| "traced_event hash run now (Trace_think d skillId) = (bare_event run now Agent Think (entries d))\<lparr>skill_id := skillId\<rparr>"
| "traced_event hash run now (Trace_tool_call toolRef input skillId stepId) =
     (bare_event run now Agent Tool_call [(''input'', input)])
       \<lparr>tool_ref := Some toolRef, skill_id := skillId, step_id := stepId, input_hash := Some (hash input)\<rparr>"
| "traced_event hash run now (Trace_tool_result toolRef output skillId stepId) =
     (bare_event run now Agent Tool_result [(''output'', output)])
       \<lparr>tool_ref := Some toolRef, skill_id := skillId, step_id := stepId, output_hash := Some (hash output)\<rparr>"
| "traced_event hash run now (Trace_approval_request d riskScore) =
     (bare_event run now Agent Approval_requested (entries d))\<lparr>risk_score := riskScore\<rparr>"
| "traced_event hash run now (Trace_approval_response approved reason) =
     bare_event run now User Approval_response (present [(''approved'', Some (JBool approved)), (''reason'', js reason)])"
| "traced_event hash run now (Trace_artifact_written artifactPath h) =
     (bare_event run now Agent Artifact_written [(''path'', JStr artifactPath)])\<lparr>output_hash := Some h\<rparr>"
| "traced_event hash run now (Trace_error message stack context) =
     (bare_event run now System Error (present [(''stack'', js stack), (''context'', context)]))\<lparr>error := Some message\<rparr>"

text \<open>What the schema demands of the caller: data that is an object, and a risk between 0 and 1.\<close>

fun valid_op :: "trace_op \<Rightarrow> bool" where
  "valid_op (Trace_event _ e) = (case risk_score e of None \<Rightarrow> True | Some x \<Rightarrow> 0 \<le> x \<and> x \<le> 1)"
| "valid_op (Trace_plan d) = (as_record d \<noteq> None)"
| "valid_op (Trace_think d _) = (as_record d \<noteq> None)"
| "valid_op (Trace_approval_request d r) = (as_record d \<noteq> None \<and> (case r of None \<Rightarrow> True | Some x \<Rightarrow> 0 \<le> x \<and> x \<le> 1))"
| "valid_op _ = True"

lemma obj_of_present: "obj_of kvs = JObj (present kvs)"
  by (simp add: obj_of_def present_def)

lemma as_record_Some: "as_record d = Some kvs \<longleftrightarrow> d = JObj kvs"
  by (cases d) auto

lemma opt_none [simp]: "jfield k j = None \<Longrightarrow> opt k p j = Some None"
  by (simp add: opt_def)

lemma js_simps [simp]: "js None = None" "js (Some x) = Some (JStr x)"
  by (simp_all add: js_def)

text \<open>The order of the properties does not matter to a reader.\<close>

lemma jfield_obj_of: "distinct (map fst kvs) \<Longrightarrow> jfield k (obj_of kvs) = Option.bind (map_of kvs k) id"
proof (induction kvs)
  case (Cons kv kvs)
  obtain k' v where kv: "kv = (k', v)" by (cases kv)
  have "map_of kvs k' = None" using Cons.prems by (simp add: kv map_of_eq_None_iff)
  with Cons show ?case by (auto simp: kv)
qed simp

lemma in_order_same:
  assumes "distinct (map fst (hs @ kvs))"
  shows "jfield k (obj_of (hs @ in_order ks kvs)) = jfield k (obj_of (hs @ kvs))"
proof -
  have d: "distinct (map fst (hs @ in_order ks kvs))"
    using assms by (auto simp: in_order_def distinct_map)
  have "map_of (in_order ks kvs) = map_of kvs"
    using assms d by (intro map_of_eqI) (auto simp: in_order_def distinct_map)
  with jfield_obj_of [OF d] jfield_obj_of [OF assms] show ?thesis by (simp add: map_of_append)
qed

lemma event_to_json_fields:
  "event_to_json e = obj_of ([(''schema_version'', Some (JStr ''trace_event.v1'')), (''run_id'', Some (JStr (run_id e))),
     (''timestamp'', Some (JStr (timestamp e)))] @ event_fields e)"
  by (simp add: event_to_json_def event_fields_def js_def)

lemma parse_fields: "(\<And>k. jfield k j = jfield k j') \<Longrightarrow> parse_trace_event is_dt j = parse_trace_event is_dt j'"
  by (simp add: parse_trace_event_def req_def opt_def)

lemma generic_fields:
  "jfield k (trace_json hash run now (Trace_event ks e)) = jfield k (event_to_json (e\<lparr>run_id := run, timestamp := now\<rparr>))"
proof -
  let ?h = "[(''schema_version'', Some (JStr ''trace_event.v1'')), (''run_id'', Some (JStr run)), (''timestamp'', Some (JStr now))]"
  have "event_fields (e\<lparr>run_id := run, timestamp := now\<rparr>) = event_fields e" by (simp add: event_fields_def)
  moreover have "distinct (map fst (?h @ event_fields e))" by (simp add: event_fields_def)
  ultimately show ?thesis
    using in_order_same [of ?h "event_fields e" k ks] by (simp add: trace_json_def event_to_json_fields del: jfield_obj_of_Cons)
qed

lemma generic_event_valid:
  assumes "valid_op (Trace_event ks e)" "is_dt now"
  shows "parse_trace_event is_dt (trace_json hash run now (Trace_event ks e)) = Some (e\<lparr>run_id := run, timestamp := now\<rparr>)"
proof -
  have "wf_event is_dt (e\<lparr>run_id := run, timestamp := now\<rparr>)" using assms by (simp add: wf_event_def)
  from parse_stored_event [OF this] parse_fields [OF generic_fields] show ?thesis by metis
qed

lemma traced_event_valid:
  assumes "valid_op op" "is_dt now"
  shows "parse_trace_event is_dt (trace_json hash run now op) = Some (traced_event hash run now op)"
proof -
  let ?j = "trace_json hash run now op"
  have enums: "enum_of actor_str actors (JStr ''agent'') = Some Agent" "enum_of actor_str actors (JStr ''user'') = Some User"
    "enum_of actor_str actors (JStr ''system'') = Some System"
    using enum_actor [of Agent] enum_actor [of User] enum_actor [of System] by simp_all
  have types: "enum_of event_type_str event_types (JStr (event_type_str t)) = Some t" for t by simp
  note ts = types [of Plan] types [of Think] types [of Tool_call] types [of Tool_result] types [of Approval_requested]
    types [of Approval_response] types [of Artifact_written] types [of Error]
  show ?thesis
  proof (cases op)
    case (Trace_event ks e)
    with generic_event_valid assms show ?thesis by simp
  qed (use assms ts in \<open>auto simp: parse_trace_event_def trace_json_def req_def opt_def schema_literal_def parse_datetime_def enums
         bare_event_def entries_def as_record_Some obj_of_present [of "[(_, _)]"] obj_of_present [of "[(_, _), (_, _)]"] present_def
         parse_risk_def js_def split: option.splits\<close>)
qed

section \<open>The file of a run\<close>

text \<open>What is relied on of \<open>JSON.stringify\<close> and \<open>JSON.parse\<close>, for one object: one line between braces
  that parses to the object again.\<close>

definition json_line_ok :: "(string \<Rightarrow> json option) \<Rightarrow> (json \<Rightarrow> string) \<Rightarrow> json \<Rightarrow> bool" where
  "json_line_ok jparse stringify j \<longleftrightarrow> jparse (stringify j) = Some j \<and> nl \<notin> set (stringify j)
     \<and> starts_with (stringify j) ''{'' \<and> ends_with (stringify j) ''}''"

definition lines_text :: "string list \<Rightarrow> string" where
  "lines_text ls = concat (map (\<lambda>l. l @ [nl]) ls)"

lemma read_trace_fold:
  "read_file (foldl (trace hash stringify tr) d nops) q =
     (if q = tc_path tr \<and> nops \<noteq> []
      then Some ((case read_file d q of None \<Rightarrow> [] | Some c \<Rightarrow> c)
        @ lines_text (map (\<lambda>nop. stringify (trace_json hash (tc_run_id tr) (fst nop) (snd nop))) nops))
      else read_file d q)"
  by (induction nops arbitrary: d) (auto simp: trace_def append_file_def lines_text_def split: option.split)

lemma split_lines:
  "list_all (\<lambda>l. nl \<notin> set l) ls \<Longrightarrow> split_on nl (lines_text ls) = ls @ [[]]"
proof (induction ls)
  case (Cons l ls)
  have "split_on nl (lines_text (l # ls)) = split_on nl (l @ nl # lines_text ls)" by (simp add: lines_text_def)
  also have "\<dots> = l # split_on nl (lines_text ls)" using Cons.prems by (simp add: split_on_append_sep split_on_no_sep)
  finally show ?case using Cons by simp
qed (simp add: lines_text_def)

definition braced :: "string \<Rightarrow> bool" where
  "braced l \<longleftrightarrow> starts_with l ''{'' \<and> ends_with l ''}''"

lemma braced_ends: "braced l \<Longrightarrow> l \<noteq> [] \<and> hd l = CHR ''{'' \<and> last l = CHR ''}''"
  by (auto simp: braced_def ends_with_single starts_with_iff)

lemma trim_keep: "l \<noteq> [] \<Longrightarrow> \<not> is_ws (hd l) \<Longrightarrow> \<not> is_ws (last l) \<Longrightarrow> trim l = l"
proof -
  assume a: "l \<noteq> []" "\<not> is_ws (hd l)" "\<not> is_ws (last l)"
  then have "trim_start l = l" by (cases l) (simp_all add: trim_start_def)
  moreover have "trim_end l = l" using a by (cases l rule: rev_cases) (simp_all add: trim_end_def)
  ultimately show ?thesis by (simp add: trim_def)
qed

lemma trim_braced: "braced l \<Longrightarrow> trim l = l"
  using braced_ends [of l] by (intro trim_keep) (auto simp: is_ws_def)

lemma trim_lines:
  assumes "ls \<noteq> []" "list_all braced ls"
  shows "lines_text ls = trim (lines_text ls) @ [nl]"
proof -
  obtain xs l where ls: "ls = xs @ [l]" using assms(1) by (cases ls rule: rev_cases) auto
  let ?c = "lines_text xs @ l"
  have l: "l \<noteq> []" "last l = CHR ''}''" using assms(2) braced_ends [of l] by (auto simp: ls)
  have "?c \<noteq> [] \<and> hd ?c = CHR ''{''"
  proof (cases xs)
    case Nil
    with assms(2) braced_ends [of l] show ?thesis by (simp add: ls lines_text_def)
  next
    case (Cons x ys)
    with assms(2) braced_ends [of x] show ?thesis by (simp add: ls lines_text_def)
  qed
  then obtain r where c: "?c = CHR ''{'' # r" by (cases ?c) auto
  have "lines_text ls = ?c @ [nl]" by (simp add: ls lines_text_def)
  moreover have "trim (?c @ [nl]) = ?c"
  proof -
    have "trim_start (?c @ [nl]) = ?c @ [nl]" unfolding c by (simp add: trim_start_def is_ws_def)
    moreover have "trim_end (?c @ [nl]) = ?c"
      using l by (cases "rev l") (auto simp: trim_end_def is_ws_def)
    ultimately show ?thesis by (simp add: trim_def)
  qed
  ultimately show ?thesis by simp
qed

lemma nonempty_lines: "list_all braced ls \<Longrightarrow> filter (\<lambda>l. length l > 0) ls = ls"
  using braced_ends by (auto simp: filter_id_conv list_all_iff)

lemma those_map_Some: "(\<And>x. x \<in> set xs \<Longrightarrow> f x = Some (g x)) \<Longrightarrow> those (map f xs) = Some (map g xs)"
  by (induction xs) auto

lemma count_parsed:
  "foldl (\<lambda>acc r. count_line r acc) (es, st) (map Parsed xs) = (es @ xs, st\<lparr>totalLines := totalLines st + length xs\<rparr>)"
  by (induction xs arbitrary: es st) auto

text \<open>The file after a run of a new tracer, and what a reader gets from it.\<close>

lemma traced_lines:
  assumes "new_tracer uuid ws runId d = (tr, d0)" "read_file d (tc_path tr) = None" "nops \<noteq> []"
    and "jsons = map (\<lambda>(now, op). trace_json hash (tc_run_id tr) now op) nops"
    and "list_all (json_line_ok jparse stringify) jsons" "d1 = foldl (trace hash stringify tr) d0 nops"
  shows "read_file d1 (tc_path tr) = Some (lines_text (map stringify jsons))"
    and "split_on nl (lines_text (map stringify jsons)) = map stringify jsons @ [[]]"
    and "readTrace jparse (lines_text (map stringify jsons)) = Some jsons"
    and "q \<noteq> tc_path tr \<Longrightarrow> read_file d1 q = read_file d q"
proof -
  let ?ls = "map stringify jsons" let ?c = "lines_text ?ls"
  have d0: "read_file d0 q = read_file d q" for q
    using assms(1) by (auto simp: new_tracer_def Let_def)
  have jsons: "map (\<lambda>nop. stringify (trace_json hash (tc_run_id tr) (fst nop) (snd nop))) nops = ?ls"
    unfolding assms(4) by (simp add: case_prod_beta)
  show "read_file d1 (tc_path tr) = Some ?c" "q \<noteq> tc_path tr \<Longrightarrow> read_file d1 q = read_file d q"
    using assms(2,3) unfolding assms(6) read_trace_fold jsons d0 by simp_all
  have br: "list_all braced ?ls" and line: "list_all (\<lambda>l. nl \<notin> set l) ?ls"
    using assms(5) by (auto simp: list_all_iff json_line_ok_def braced_def)
  show split: "split_on nl ?c = ?ls @ [[]]" by (rule split_lines [OF line])
  have "?ls \<noteq> []" using assms(3,4) by simp
  from trim_lines [OF this br] have c: "?c = trim ?c @ nl # []" .
  have "split_on nl (trim ?c) = ?ls" using split unfolding split_on_append_sep [of nl "trim ?c" "[]", folded c] by simp
  then have "readTrace jparse ?c = those (map jparse ?ls)" by (simp only: readTrace_def nonempty_lines [OF br])
  also have "\<dots> = Some jsons"
    using those_map_Some [of jsons "jparse \<circ> stringify" id] assms(5) by (simp add: list_all_iff json_line_ok_def)
  finally show "readTrace jparse ?c = Some jsons" .
qed


definition sample_stringify :: "json \<Rightarrow> string" where
  "sample_stringify j = (if jfield ''error'' j = None then ''{1}'' else ''{2}'')"


end
