(* ===== verification/Drift.thy ===== *)
theory Drift
  imports Tracer
begin

text \<open>
  TasteKit core, drift/detector.ts over drift/proposal.ts: drift signals from the trace events of an
  agent, and the proposals made of them. An event is taken at its declared type (\<open>parse_event\<close> is
  \<open>JSON.parse\<close> at that type), \<open>ms\<close> gives the milliseconds of a timestamp, \<open>None\<close> for an invalid date,
  with which every comparison is false. Free-form values are compared by value. The random ids of the
  proposals and the conversion of a value to text are parameters.
\<close>

section \<open>Signals and proposals\<close>

datatype signal_type =
    Repeated_edit
  | Principle_violation
  | User_correction
  | Tool_change
  | Staleness
  | Coverage_gap
  | Assertion_mismatch

record drift_signal =
  dg_type :: signal_type
  dg_frequency :: int
  dg_context :: "(string \<times> json) list"

datatype risk_rating = Low_rating | Medium_rating | High_rating

record drift_evidence =
  ev_reason :: "json option"
  ev_occurrences :: int
  ev_context :: "(string \<times> json) list"

record drift_proposal =
  dp_id :: string
  dp_created_at :: string
  dp_signal_type :: signal_type
  dp_frequency :: int
  dp_rationale :: string
  dp_proposed_changes :: json
  dp_risk_rating :: risk_rating
  dp_evidence :: drift_evidence

record drift_env =
  de_ms :: "string \<Rightarrow> int option"
  de_date :: "json option \<Rightarrow> int option"
  de_now :: int
  de_jparse :: "string \<Rightarrow> json option"
  de_text :: "json \<Rightarrow> string"
  de_iso :: "int \<Rightarrow> string"
  de_id :: "nat \<Rightarrow> string"

record drift_options =
  do_since :: "int option"
  do_skillId :: "string option"
  do_constitutionPath :: "segments option"
  do_knownSkillIds :: "string list option"
  do_knownToolRefs :: "string list option"

definition event_field :: "string \<Rightarrow> trace_event \<Rightarrow> json option" where
  "event_field k e = Option.bind (data e) (\<lambda>kvs. map_of kvs k)"

section \<open>Detection\<close>

text \<open>\<open>counts.set(k, (counts.get(k) || 0) + 1)\<close> on a map in insertion order.\<close>

definition count_up :: "('k \<times> int) list \<Rightarrow> 'k \<Rightarrow> ('k \<times> int) list" where
  "count_up counts k = AList.update k ((case map_of counts k of None \<Rightarrow> 0 | Some n \<Rightarrow> n) + 1) counts"

definition is_rejection :: "trace_event \<Rightarrow> bool" where
  "is_rejection e \<longleftrightarrow> event_field ''approved'' e = Some (JBool False)"

definition rejection_reason :: "trace_event \<Rightarrow> json" where
  "rejection_reason e =
     (if truthy (event_field ''reason'' e) then the (event_field ''reason'' e) else JStr ''unknown'')"

definition detectRepeatedEdits :: "trace_event list \<Rightarrow> drift_signal list" where
  "detectRepeatedEdits events =
     (let rejections = filter is_rejection (filterByEventType events Approval_response)
      in if rejections = [] then []
         else map (\<lambda>(reason, count). \<lparr>dg_type = Repeated_edit, dg_frequency = count, dg_context = [(''reason'', reason)]\<rparr>)
                (foldl (\<lambda>counts r. count_up counts (rejection_reason r)) [] rejections))"

definition error_text :: "trace_event \<Rightarrow> json" where
  "error_text e = JStr (case error e of None \<Rightarrow> ''unknown'' | Some m \<Rightarrow> m)"

definition detectPrincipleViolations :: "trace_event list \<Rightarrow> drift_signal list" where
  "detectPrincipleViolations events =
     (let errors = getErrors events
      in if errors = [] then []
         else [\<lparr>dg_type = Principle_violation, dg_frequency = int (length errors),
                dg_context = [(''errors'', JArr (map error_text (take 5 errors)))]\<rparr>])"

definition is_correction :: "drift_env \<Rightarrow> trace_event \<times> trace_event \<Rightarrow> bool" where
  "is_correction env pc =
     (case pc of (prev, cur) \<Rightarrow>
        event_type prev = Artifact_written \<and> actor prev = Agent \<and> event_type cur = Artifact_written \<and> actor cur = User
        \<and> (case (de_ms env (timestamp cur), de_ms env (timestamp prev)) of
             (Some t, Some s) \<Rightarrow> t - s < 5 * 60 * 1000 | _ \<Rightarrow> False))"

definition corrected_artifact :: "trace_event \<Rightarrow> json" where
  "corrected_artifact prev =
     (case event_field ''path'' prev of None \<Rightarrow> JStr ''unknown'' | Some JNull \<Rightarrow> JStr ''unknown'' | Some p \<Rightarrow> p)"

definition detectUserCorrections :: "drift_env \<Rightarrow> trace_event list \<Rightarrow> drift_signal list" where
  "detectUserCorrections env events =
     (let found = filter (is_correction env) (zip events (tl events))
      in if found = [] then []
         else [\<lparr>dg_type = User_correction, dg_frequency = int (length found),
                dg_context = [(''corrected_artifacts'', JArr (set_of (map (corrected_artifact \<circ> fst) found)))]\<rparr>])"

definition is_tool_call :: "trace_event \<Rightarrow> bool" where
  "is_tool_call e \<longleftrightarrow> event_type e = Tool_call \<and> tool_ref e \<noteq> None \<and> tool_ref e \<noteq> Some []"

definition skill_key :: "trace_event \<Rightarrow> string" where
  "skill_key e = (case skill_id e of None \<Rightarrow> ''_global'' | Some s \<Rightarrow> s)"

definition add_tool :: "(string \<times> string list) list \<Rightarrow> trace_event \<Rightarrow> (string \<times> string list) list" where
  "add_tool toolsBySkill e =
     AList.update (skill_key e)
       (set_add (the (tool_ref e)) (case map_of toolsBySkill (skill_key e) of None \<Rightarrow> [] | Some ts \<Rightarrow> ts)) toolsBySkill"

definition detectToolChanges :: "trace_event list \<Rightarrow> drift_signal list" where
  "detectToolChanges events =
     map (\<lambda>(skill, tools). \<lparr>dg_type = Tool_change, dg_frequency = int (length tools),
             dg_context = [(''skill_id'', JStr skill), (''tools_used'', JArr (map JStr tools))]\<rparr>)
       (filter (\<lambda>(skill, tools). length tools > 1) (foldl add_tool [] (filter is_tool_call events)))"

definition detectStaleness :: "drift_env \<Rightarrow> disk \<Rightarrow> trace_event list \<Rightarrow> segments \<Rightarrow> drift_signal list" where
  "detectStaleness env d events constitutionPath =
     (case readFileIfExists d constitutionPath of
        None \<Rightarrow> []
      | Some content \<Rightarrow>
          if content = [] then []
          else (case de_jparse env content of
             None \<Rightarrow> []
           | Some constitution \<Rightarrow>
               let generated = jfield ''generated_at'' constitution;
                   latest = (if events \<noteq> [] then de_ms env (timestamp (last events)) else Some (de_now env))
               in (case (latest, de_date env generated) of
                     (Some t, Some g) \<Rightarrow>
                       let days = (of_int (t - g) :: rat) / (1000 * 60 * 60 * 24)
                       in if days > 30
                          then [\<lparr>dg_type = Staleness, dg_frequency = \<lfloor>days\<rfloor>,
                                 dg_context = [(''generated_at'', the generated), (''days_since'', JNum (of_int \<lfloor>days\<rfloor>))]\<rparr>]
                          else []
                   | _ \<Rightarrow> [])))"

definition used :: "(trace_event \<Rightarrow> string option) \<Rightarrow> trace_event list \<Rightarrow> string list" where
  "used ref events = set_of (filter (\<lambda>s. s \<noteq> []) (List.map_filter ref events))"

definition detectCoverageGaps :: "trace_event list \<Rightarrow> string list \<Rightarrow> string list \<Rightarrow> drift_signal list" where
  "detectCoverageGaps events knownSkillIds knownToolRefs =
     (let unknownSkills = filter (\<lambda>s. s \<notin> set knownSkillIds) (used skill_id events);
          unknownTools = filter (\<lambda>t. t \<notin> set knownToolRefs) (used tool_ref events)
      in if length unknownSkills + length unknownTools > 0
         then [\<lparr>dg_type = Coverage_gap, dg_frequency = int (length unknownSkills + length unknownTools),
                dg_context = [(''unknown_skills'', JArr (map JStr unknownSkills)), (''unknown_tools'', JArr (map JStr unknownTools))]\<rparr>]
         else [])"

definition detectAssertionMismatches :: "trace_event list \<Rightarrow> drift_signal list" where
  "detectAssertionMismatches events =
     (let found = filter (\<lambda>e. event_type e = Error) (filter (\<lambda>e. list_or_empty (principle_refs e) \<noteq> []) events)
      in if found = [] then []
         else [\<lparr>dg_type = Assertion_mismatch, dg_frequency = int (length found),
                dg_context =
                  [(''affected_principles'', JArr (map JStr (set_of (concat (map (\<lambda>e. list_or_empty (principle_refs e)) found))))),
                   (''sample_errors'', JArr (map error_text (take 3 found)))]\<rparr>])"

definition detectSignals :: "drift_env \<Rightarrow> disk \<Rightarrow> trace_event list \<Rightarrow> drift_options \<Rightarrow> drift_signal list" where
  "detectSignals env d events opts =
     detectRepeatedEdits events @ detectPrincipleViolations events @ detectUserCorrections env events @ detectToolChanges events
     @ (case do_constitutionPath opts of None \<Rightarrow> [] | Some p \<Rightarrow> detectStaleness env d events p)
     @ (if do_knownSkillIds opts \<noteq> None \<or> do_knownToolRefs opts \<noteq> None
        then detectCoverageGaps events (list_or_empty (do_knownSkillIds opts)) (list_or_empty (do_knownToolRefs opts)) else [])
     @ detectAssertionMismatches events"

section \<open>Proposals\<close>

text \<open>\<open>${v}\<close> in a template, and \<open>(v as string[])?.join(', ')\<close>.\<close>

definition show_value :: "drift_env \<Rightarrow> json \<Rightarrow> string" where
  "show_value env j = (case j of JStr s \<Rightarrow> s | _ \<Rightarrow> de_text env j)"

definition ctx :: "string \<Rightarrow> drift_signal \<Rightarrow> json" where
  "ctx k s = (case map_of (dg_context s) k of None \<Rightarrow> JNull | Some v \<Rightarrow> v)"

definition ctx_items :: "string \<Rightarrow> drift_signal \<Rightarrow> json list" where
  "ctx_items k s = (case ctx k s of JArr xs \<Rightarrow> xs | _ \<Rightarrow> [])"

definition ctx_join :: "drift_env \<Rightarrow> string \<Rightarrow> drift_signal \<Rightarrow> string" where
  "ctx_join env k s = join '', '' (map (show_value env) (ctx_items k s))"

definition show_count :: "drift_env \<Rightarrow> drift_signal \<Rightarrow> string" where
  "show_count env s = show_value env (JNum (of_int (dg_frequency s)))"

definition rationale_of :: "drift_env \<Rightarrow> drift_signal \<Rightarrow> string" where
  \<open>rationale_of env s =
     (case dg_type s of
        Repeated_edit \<Rightarrow> ''User repeatedly rejected actions with reason: "'' @ show_value env (ctx ''reason'' s)
          @ ''". This suggests a principle or preference that should be captured.''
      | Principle_violation \<Rightarrow> ''Multiple errors detected ('' @ show_count env s
          @ '' occurrences). Review and update guardrails or principles.''
      | User_correction \<Rightarrow> ''User corrected agent output '' @ show_count env s @ '' times on: '' @ ctx_join env ''corrected_artifacts'' s
          @ ''. The agent may be misunderstanding preferences.''
      | Tool_change \<Rightarrow> ''Multiple tools used for skill "'' @ show_value env (ctx ''skill_id'' s) @ ''": '' @ ctx_join env ''tools_used'' s
          @ ''. Consider binding a preferred tool.''
      | Staleness \<Rightarrow> ''Constitution was compiled '' @ show_value env (ctx ''days_since'' s)
          @ '' days ago. Consider recompiling to reflect any evolved preferences.''
      | Coverage_gap \<Rightarrow> ''Used skills/tools not in manifest: skills=['' @ ctx_join env ''unknown_skills'' s @ ''], tools=[''
          @ ctx_join env ''unknown_tools'' s @ '']. Consider adding to configuration.''
      | Assertion_mismatch \<Rightarrow> ''Principles were violated '' @ show_count env s @ '' times (principles: ''
          @ ctx_join env ''affected_principles'' s @ ''). Either the principles are wrong or enforcement is broken.'')\<close>

text \<open>The dash of the suggested principle is the three bytes of its UTF-8 form.\<close>

definition review_statement :: string where
  "review_statement = ''Review output carefully before submitting '' @ [char_of (226 :: nat), char_of (128 :: nat), char_of (148 :: nat)]
     @ '' user has corrected similar work before''"

definition changes_of :: "drift_env \<Rightarrow> drift_signal \<Rightarrow> json" where
  "changes_of env s =
     (case dg_type s of
        Repeated_edit \<Rightarrow>
          JObj [(''constitution'', JObj [(''add_principle'', JObj
            [(''statement'', JStr (''Avoid: '' @ show_value env (ctx ''reason'' s))), (''priority'', JNum 10),
             (''applies_to'', JArr [JStr ''*''])])])]
      | Principle_violation \<Rightarrow>
          JObj [(''guardrails'', JObj [(''add_approval'', JObj
            [(''rule_id'', JStr ''auto-detected-violation''), (''when'', JStr ''Similar error pattern detected''),
             (''action'', JStr ''require_approval'')])])]
      | User_correction \<Rightarrow>
          JObj [(''constitution'', JObj [(''add_principle'', JObj
            [(''statement'', JStr review_statement), (''priority'', JNum 5), (''applies_to'', JArr (ctx_items ''corrected_artifacts'' s))])])]
      | Tool_change \<Rightarrow>
          JObj [(''skills'', JObj [(''modify_skill'', JObj
            [(''skill_id'', ctx ''skill_id'' s), (''changes'', JStr (''Bind to preferred tool from: '' @ ctx_join env ''tools_used'' s))])])]
      | Staleness \<Rightarrow> JObj []
      | Coverage_gap \<Rightarrow>
          if ctx_items ''unknown_skills'' s \<noteq> [] then
            JObj [(''skills'', JObj [(''suggest_skill'', JObj
              [(''description'', JStr (''Add skill definitions for: '' @ ctx_join env ''unknown_skills'' s)),
               (''reason'', JStr ''Used in traces but not configured'')])])]
          else JObj []
      | Assertion_mismatch \<Rightarrow>
          JObj [(''constitution'', JObj [(''modify_principle'', JObj
            [(''id'', case ctx_items ''affected_principles'' s of [] \<Rightarrow> JStr ''unknown'' | p # _ \<Rightarrow> p),
             (''changes'', JObj [(''rationale'', JStr ''Review: this principle is being violated in practice'')])])])])"

definition createProposalFromSignal :: "drift_env \<Rightarrow> nat \<Rightarrow> drift_signal \<Rightarrow> drift_proposal" where
  "createProposalFromSignal env n s =
     \<lparr>dp_id = de_id env n, dp_created_at = de_iso env (de_now env), dp_signal_type = dg_type s, dp_frequency = dg_frequency s,
      dp_rationale = rationale_of env s, dp_proposed_changes = changes_of env s,
      dp_risk_rating = (if dg_frequency s > 10 then High_rating else if dg_frequency s > 5 then Medium_rating else Low_rating),
      dp_evidence = \<lparr>ev_reason = map_of (dg_context s) ''reason'', ev_occurrences = dg_frequency s, ev_context = dg_context s\<rparr>\<rparr>"

text \<open>The events of the trace files in order; \<open>None\<close> where a file is missing or a line does not parse.\<close>

fun read_events :: "(string \<Rightarrow> trace_event option) \<Rightarrow> disk \<Rightarrow> segments list \<Rightarrow> trace_event list option" where
  "read_events parse_event d [] = Some []"
| "read_events parse_event d (p # ps) =
     (case read_file d p of
        None \<Rightarrow> None
      | Some content \<Rightarrow>
          (case those (map parse_event (filter (\<lambda>line. length line > 0) (split_on nl (trim content)))) of
             None \<Rightarrow> None
           | Some es \<Rightarrow> map_option ((@) es) (read_events parse_event d ps)))"

definition filter_events :: "drift_env \<Rightarrow> drift_options \<Rightarrow> trace_event list \<Rightarrow> trace_event list" where
  "filter_events env opts events =
     (let recent = (case do_since opts of
           None \<Rightarrow> events
         | Some s \<Rightarrow> filter (\<lambda>e. case de_ms env (timestamp e) of None \<Rightarrow> False | Some t \<Rightarrow> s \<le> t) events)
      in (case do_skillId opts of None \<Rightarrow> recent | Some k \<Rightarrow> if k = [] then recent else filterBySkill recent k))"

definition proposals_from :: "drift_env \<Rightarrow> drift_signal list \<Rightarrow> drift_proposal list" where
  "proposals_from env signals =
     (let frequent = filter (\<lambda>s. dg_frequency s \<ge> 3) signals
      in map (\<lambda>(n, s). createProposalFromSignal env n s) (zip [0..<length frequent] frequent))"

definition detectFromTraces ::
  "drift_env \<Rightarrow> (string \<Rightarrow> trace_event option) \<Rightarrow> disk \<Rightarrow> segments list \<Rightarrow> drift_options \<Rightarrow> drift_proposal list option" where
  "detectFromTraces env parse_event d tracePaths opts =
     map_option (\<lambda>events. proposals_from env (detectSignals env d (filter_events env opts events) opts))
       (read_events parse_event d tracePaths)"

section \<open>Observations and tensions\<close>

record observation_summary =
  os_total :: nat
  os_by_category :: "(string \<times> int) list"
  os_recent :: "trace_event list"

record tension_summary =
  tm_total :: nat
  tm_pending :: nat
  tm_recent :: "trace_event list"

definition category_key :: "trace_event \<Rightarrow> string" where
  "category_key e = (case observation_category e of None \<Rightarrow> ''uncategorized'' | Some c \<Rightarrow> category_str c)"

definition aggregateObservations :: "trace_event list \<Rightarrow> observation_summary" where
  "aggregateObservations events =
     (let observations = filter (\<lambda>e. event_type e = Observation) events
      in \<lparr>os_total = length observations,
          os_by_category = foldl (\<lambda>counts e. count_up counts (category_key e)) [] observations,
          os_recent = take_last 10 observations\<rparr>)"

definition aggregateTensions :: "trace_event list \<Rightarrow> tension_summary" where
  "aggregateTensions events =
     (let tensions = filter (\<lambda>e. event_type e = Tension) events;
          pending = filter (\<lambda>e. map_option tn_status (tension e) = Some Pending) tensions
      in \<lparr>tm_total = length tensions, tm_pending = length pending, tm_recent = take_last 10 tensions\<rparr>)"

definition shouldTriggerReview :: "observation_summary \<Rightarrow> tension_summary \<Rightarrow> bool" where
  "shouldTriggerReview obs ts \<longleftrightarrow> os_total obs \<ge> 10 \<or> tm_pending ts \<ge> 5"

section \<open>Facts\<close>

lemma count_up_keys: "distinct (map fst counts) \<Longrightarrow> distinct (map fst (count_up counts k)) \<and> set (map fst (count_up counts k)) = insert k (set (map fst counts))"
  by (auto simp: count_up_def update_keys intro!: distinct_update)

lemma count_up_lookup:
  "map_of (count_up counts k) j = (if j = k then Some ((case map_of counts k of None \<Rightarrow> 0 | Some n \<Rightarrow> n) + 1) else map_of counts j)"
  by (simp add: count_up_def update_conv')

lemma counts_of:
  "distinct (map fst counts) \<Longrightarrow> counts' = foldl (\<lambda>c x. count_up c (f x)) counts xs \<Longrightarrow>
     distinct (map fst counts')
     \<and> map_of counts' j = (if map_of counts j = None \<and> j \<notin> f ` set xs then None
          else Some ((case map_of counts j of None \<Rightarrow> 0 | Some n \<Rightarrow> n) + int (count_list (map f xs) j)))"
proof (induction xs arbitrary: counts)
  case (Cons x xs)
  from Cons.IH [of "count_up counts (f x)"] Cons.prems count_up_keys [of counts "f x"] show ?case
    by (auto simp: count_up_lookup split: option.splits)
qed (auto split: option.split)

lemma proposals_from_ex:
  "(\<exists>p \<in> set (proposals_from env sigs). Q (dp_signal_type p) (dp_frequency p) (ev_context (dp_evidence p))) \<longleftrightarrow>
   (\<exists>s \<in> set sigs. dg_frequency s \<ge> 3 \<and> Q (dg_type s) (dg_frequency s) (dg_context s))"
proof -
  let ?f = "filter (\<lambda>s. dg_frequency s \<ge> 3) sigs" let ?z = "zip [0..<length ?f] ?f"
  have "(\<exists>p \<in> set (proposals_from env sigs). Q (dp_signal_type p) (dp_frequency p) (ev_context (dp_evidence p))) \<longleftrightarrow>
      (\<exists>ns \<in> set ?z. Q (dg_type (snd ns)) (dg_frequency (snd ns)) (dg_context (snd ns)))"
    by (simp add: proposals_from_def Let_def createProposalFromSignal_def case_prod_beta)
  also have "\<dots> \<longleftrightarrow> (\<exists>s \<in> set (map snd ?z). Q (dg_type s) (dg_frequency s) (dg_context s))"
    unfolding set_map by blast
  also have "map snd ?z = ?f" by simp
  finally show ?thesis by auto
qed

lemma proposals_from_all:
  "p \<in> set (proposals_from env sigs) \<Longrightarrow> dp_frequency p \<ge> 3
     \<and> dp_risk_rating p = (if dp_frequency p > 10 then High_rating else if dp_frequency p > 5 then Medium_rating else Low_rating)"
  by (auto simp: proposals_from_def Let_def createProposalFromSignal_def dest: set_zip_rightD)

lemmas detector_defs = detectRepeatedEdits_def detectPrincipleViolations_def detectUserCorrections_def detectToolChanges_def
  detectCoverageGaps_def detectAssertionMismatches_def

lemma detector_types:
  "x \<in> set (detectRepeatedEdits es) \<Longrightarrow> dg_type x = Repeated_edit"
  "x \<in> set (detectPrincipleViolations es) \<Longrightarrow> dg_type x = Principle_violation"
  "x \<in> set (detectUserCorrections env es) \<Longrightarrow> dg_type x = User_correction"
  "x \<in> set (detectToolChanges es) \<Longrightarrow> dg_type x = Tool_change"
  "x \<in> set (detectStaleness env d es q) \<Longrightarrow> dg_type x = Staleness"
  "x \<in> set (detectCoverageGaps es ks ts) \<Longrightarrow> dg_type x = Coverage_gap"
  "x \<in> set (detectAssertionMismatches es) \<Longrightarrow> dg_type x = Assertion_mismatch"
  by (auto simp: detector_defs detectStaleness_def Let_def split: if_splits option.splits)

lemma signals_of_type:
  "x \<in> set (detectSignals env d es opts) \<and> dg_type x = Repeated_edit \<longleftrightarrow> x \<in> set (detectRepeatedEdits es)"
  "x \<in> set (detectSignals env d es opts) \<and> dg_type x = Principle_violation \<longleftrightarrow> x \<in> set (detectPrincipleViolations es)"
  "x \<in> set (detectSignals env d es opts) \<and> dg_type x = User_correction \<longleftrightarrow> x \<in> set (detectUserCorrections env es)"
  "x \<in> set (detectSignals env d es opts) \<and> dg_type x = Tool_change \<longleftrightarrow> x \<in> set (detectToolChanges es)"
  "x \<in> set (detectSignals env d es opts) \<and> dg_type x = Assertion_mismatch \<longleftrightarrow> x \<in> set (detectAssertionMismatches es)"
  using detector_types [where x = x]
  by (auto simp: detectSignals_def split: option.splits if_splits dest: detector_types)

text \<open>What the detectors count.\<close>

definition rejected :: "trace_event list \<Rightarrow> json \<Rightarrow> nat" where
  "rejected es r = count_list (map rejection_reason (filter is_rejection (filterByEventType es Approval_response))) r"

definition tools_of :: "trace_event list \<Rightarrow> string \<Rightarrow> string set" where
  "tools_of es k = {t. \<exists>e \<in> set es. is_tool_call e \<and> skill_key e = k \<and> tool_ref e = Some t}"

lemma repeated_edits:
  "(\<exists>x \<in> set (detectRepeatedEdits es). dg_frequency x = n \<and> dg_context x = [(''reason'', r)]) \<longleftrightarrow> n = int (rejected es r) \<and> 0 < n"
proof -
  let ?rs = "filter is_rejection (filterByEventType es Approval_response)"
  let ?c = "foldl (\<lambda>c x. count_up c (rejection_reason x)) [] ?rs"
  have c: "distinct (map fst ?c)" "map_of ?c r = (if r \<notin> rejection_reason ` set ?rs then None else Some (int (rejected es r)))"
    using counts_of [of "[]" ?c rejection_reason ?rs r] by (simp_all add: rejected_def del: set_filter)
  have "(\<exists>x \<in> set (detectRepeatedEdits es). dg_frequency x = n \<and> dg_context x = [(''reason'', r)]) \<longleftrightarrow> (r, n) \<in> set ?c"
  proof (cases "?rs = []")
    case False
    then have "detectRepeatedEdits es = map (\<lambda>rn. \<lparr>dg_type = Repeated_edit, dg_frequency = snd rn, dg_context = [(''reason'', fst rn)]\<rparr>) ?c"
      by (simp add: detectRepeatedEdits_def Let_def case_prod_beta)
    then show ?thesis by (auto simp: Bex_def)
  qed (simp add: detectRepeatedEdits_def Let_def)
  also have "\<dots> \<longleftrightarrow> map_of ?c r = Some n" using c(1) by (simp add: map_of_eq_Some_iff)
  also have "r \<in> rejection_reason ` set ?rs \<longleftrightarrow> rejected es r \<noteq> 0"
    by (simp add: rejected_def count_list_0_iff del: set_filter)
  then have "map_of ?c r = Some n \<longleftrightarrow> n = int (rejected es r) \<and> 0 < n"
    using c(2) by auto
  finally show ?thesis .
qed

lemma list_or_empty_simps [simp]: "list_or_empty None = []" "list_or_empty (Some xs) = xs"
  by (simp_all add: list_or_empty_def)

lemma set_add_not_Nil: "set_add x xs \<noteq> []"
  by (cases xs) (simp_all add: set_add_def)

lemma list_all_update: "list_all P acc \<Longrightarrow> P (k, v) \<Longrightarrow> list_all P (AList.update k v acc)"
  by (induction acc) auto

lemma add_tools:
  "distinct (map fst acc) \<Longrightarrow> list_all (\<lambda>(k, ts). distinct ts \<and> ts \<noteq> []) acc \<Longrightarrow> list_all is_tool_call es \<Longrightarrow>
   acc' = foldl add_tool acc es \<Longrightarrow>
     distinct (map fst acc') \<and> list_all (\<lambda>(k, ts). distinct ts \<and> ts \<noteq> []) acc'
     \<and> set (list_or_empty (map_of acc' k)) = set (list_or_empty (map_of acc k)) \<union> tools_of es k"
proof (induction es arbitrary: acc)
  case Nil
  then show ?case by (simp add: tools_of_def)
next
  case (Cons e es)
  let ?ts = "case map_of acc (skill_key e) of None \<Rightarrow> [] | Some ts \<Rightarrow> ts"
  obtain t where t: "tool_ref e = Some t" using Cons.prems(3) by (auto simp: is_tool_call_def)
  have upd: "add_tool acc e = AList.update (skill_key e) (set_add t ?ts) acc" by (simp add: add_tool_def t)
  have old: "distinct ?ts"
    using Cons.prems(2) by (auto simp: list_all_iff split: option.split dest: map_of_SomeD)
  have "distinct (set_add t ?ts) \<and> set_add t ?ts \<noteq> []" using distinct_set_add [OF old, of t] set_add_not_Nil by (rule conjI)
  then have ok: "list_all (\<lambda>(k, ts). distinct ts \<and> ts \<noteq> []) (add_tool acc e)"
    unfolding upd by (intro list_all_update Cons.prems(2)) simp
  have dist: "distinct (map fst (add_tool acc e))" unfolding upd by (rule distinct_update [OF Cons.prems(1)])
  have look: "set (list_or_empty (map_of (add_tool acc e) k)) = set (list_or_empty (map_of acc k)) \<union> tools_of [e] k"
    using Cons.prems(3) t by (auto simp: upd update_conv' list_or_empty_def tools_of_def split: option.splits)
  have "tools_of (e # es) k = tools_of [e] k \<union> tools_of es k" by (auto simp: tools_of_def)
  with Cons.IH [OF dist ok] Cons.prems(3,4) look show ?case by auto
qed

lemma tool_changes:
  "(\<exists>x \<in> set (detectToolChanges es). dg_frequency x = n \<and> map_of (dg_context x) ''skill_id'' = Some (JStr k)) \<longleftrightarrow>
     n = int (card (tools_of es k)) \<and> 1 < n"
proof -
  let ?c = "foldl add_tool [] (filter is_tool_call es)"
  have calls: "tools_of (filter is_tool_call es) k = tools_of es k" by (auto simp: tools_of_def)
  have c: "distinct (map fst ?c)" "list_all (\<lambda>(k, ts). distinct ts \<and> ts \<noteq> []) ?c" "set (list_or_empty (map_of ?c k)) = tools_of es k"
    using add_tools [of "[]" "filter is_tool_call es" ?c k] calls by (simp_all add: list_all_iff)
  have "(\<exists>x \<in> set (detectToolChanges es). dg_frequency x = n \<and> map_of (dg_context x) ''skill_id'' = Some (JStr k)) \<longleftrightarrow>
      (\<exists>ts. (k, ts) \<in> set ?c \<and> length ts > 1 \<and> n = int (length ts))"
    by (auto simp: detectToolChanges_def)
  also have "\<dots> \<longleftrightarrow> (\<exists>ts. map_of ?c k = Some ts \<and> length ts > 1 \<and> n = int (length ts))"
    using c(1) by (simp add: map_of_eq_Some_iff)
  also have "\<dots> \<longleftrightarrow> n = int (card (tools_of es k)) \<and> 1 < n"
  proof (cases "map_of ?c k")
    case None
    with c(3) show ?thesis by auto
  next
    case (Some ts)
    then have "distinct ts" using c(2) by (auto simp: list_all_iff dest: map_of_SomeD)
    moreover have "set ts = tools_of es k" using c(3) Some by simp
    ultimately have "length ts = card (tools_of es k)" by (metis distinct_card)
    with Some show ?thesis by auto
  qed
  finally show ?thesis .
qed

lemma violations:
  "(\<exists>x \<in> set (detectPrincipleViolations es). dg_frequency x = n) \<longleftrightarrow> n = int (length (getErrors es)) \<and> 0 < n"
  by (auto simp: detectPrincipleViolations_def Let_def)

definition corrections :: "drift_env \<Rightarrow> trace_event list \<Rightarrow> nat set" where
  "corrections env es = {i. Suc i < length es
     \<and> event_type (es ! i) = Artifact_written \<and> actor (es ! i) = Agent
     \<and> event_type (es ! Suc i) = Artifact_written \<and> actor (es ! Suc i) = User
     \<and> (\<exists>s t. de_ms env (timestamp (es ! i)) = Some s \<and> de_ms env (timestamp (es ! Suc i)) = Some t \<and> t < s + 300000)}"

lemma corrections_alt: "corrections env es = {i. Suc i < length es \<and> is_correction env (es ! i, es ! Suc i)}"
  unfolding corrections_def is_correction_def by (rule Collect_cong) (auto split: option.splits)

lemma user_corrections:
  "(\<exists>x \<in> set (detectUserCorrections env es). dg_frequency x = n) \<longleftrightarrow> n = int (card (corrections env es)) \<and> 0 < n"
proof -
  let ?z = "zip es (tl es)"
  have "length (filter (is_correction env) ?z) = card {i. i < length ?z \<and> is_correction env (?z ! i)}"
    by (rule length_filter_conv_card)
  also have "{i. i < length ?z \<and> is_correction env (?z ! i)} = corrections env es"
    by (auto simp: corrections_alt nth_tl)
  finally have n: "card (corrections env es) = length (filter (is_correction env) ?z)" ..
  show ?thesis
    unfolding n by (cases "filter (is_correction env) ?z") (auto simp: detectUserCorrections_def Let_def)
qed

lemma typed_ex:
  assumes "\<And>x. x \<in> set sigs \<and> dg_type x = t \<longleftrightarrow> x \<in> set found"
    and "\<And>n. (\<exists>x \<in> set found. dg_frequency x = n \<and> R (dg_context x)) \<longleftrightarrow> n = int m \<and> k < n" and "k \<le> (2 :: int)"
  shows "(\<exists>s \<in> set sigs. 3 \<le> dg_frequency s \<and> dg_type s = t \<and> dg_frequency s = n \<and> R (dg_context s)) \<longleftrightarrow> n = int m \<and> 3 \<le> n"
proof -
  have "(\<exists>s \<in> set sigs. 3 \<le> dg_frequency s \<and> dg_type s = t \<and> dg_frequency s = n \<and> R (dg_context s))
      \<longleftrightarrow> (\<exists>x \<in> set found. dg_frequency x = n \<and> R (dg_context x)) \<and> 3 \<le> n"
    using assms(1) by blast
  with assms(2,3) show ?thesis by auto
qed

text \<open>
  C22. Which drift is proposed. For every set of readable trace files and every option, a proposal is
  made exactly when its signal occurs at least three times among the selected events, with the exact
  count: rejections with the same reason; errors; user edits that follow an agent's artifact within
  five minutes; different tools called for one skill, so that switching between two tools is never
  proposed. The risk rating of each proposal follows from its count.
\<close>

theorem drift_proposals_exact:
  assumes "detectFromTraces env parse_event d paths opts = Some ps" "read_events parse_event d paths = Some es"
    and "ev = filter_events env opts es"
  shows "(\<forall>r n. (\<exists>p \<in> set ps. dp_signal_type p = Repeated_edit \<and> dp_frequency p = n \<and> ev_context (dp_evidence p) = [(''reason'', r)])
            \<longleftrightarrow> n = int (rejected ev r) \<and> 3 \<le> n)
     \<and> (\<forall>n. (\<exists>p \<in> set ps. dp_signal_type p = Principle_violation \<and> dp_frequency p = n) \<longleftrightarrow> n = int (length (getErrors ev)) \<and> 3 \<le> n)
     \<and> (\<forall>n. (\<exists>p \<in> set ps. dp_signal_type p = User_correction \<and> dp_frequency p = n) \<longleftrightarrow> n = int (card (corrections env ev)) \<and> 3 \<le> n)
     \<and> (\<forall>k n. (\<exists>p \<in> set ps. dp_signal_type p = Tool_change \<and> dp_frequency p = n
              \<and> map_of (ev_context (dp_evidence p)) ''skill_id'' = Some (JStr k)) \<longleftrightarrow> n = int (card (tools_of ev k)) \<and> 3 \<le> n)
     \<and> (\<forall>p \<in> set ps. 3 \<le> dp_frequency p
          \<and> dp_risk_rating p = (if dp_frequency p > 10 then High_rating else if dp_frequency p > 5 then Medium_rating else Low_rating))"
proof -
  let ?sigs = "detectSignals env d ev opts"
  have ps: "ps = proposals_from env ?sigs" using assms by (simp add: detectFromTraces_def)
  note ex = proposals_from_ex [of env ?sigs, folded ps]
  have "(\<exists>p \<in> set ps. dp_signal_type p = Repeated_edit \<and> dp_frequency p = n \<and> ev_context (dp_evidence p) = [(''reason'', r)])
      \<longleftrightarrow> n = int (rejected ev r) \<and> 3 \<le> n" for r n
    using ex [of "\<lambda>t f c. t = Repeated_edit \<and> f = n \<and> c = [(''reason'', r)]"]
      typed_ex [OF signals_of_type(1) repeated_edits, where n = n] by simp
  moreover have "(\<exists>p \<in> set ps. dp_signal_type p = Principle_violation \<and> dp_frequency p = n) \<longleftrightarrow> n = int (length (getErrors ev)) \<and> 3 \<le> n" for n
    using ex [of "\<lambda>t f c. t = Principle_violation \<and> f = n"]
      typed_ex [OF signals_of_type(2), where R = "\<lambda>_. True" and n = n and k = 0] violations [of ev] by simp
  moreover have "(\<exists>p \<in> set ps. dp_signal_type p = User_correction \<and> dp_frequency p = n) \<longleftrightarrow> n = int (card (corrections env ev)) \<and> 3 \<le> n" for n
    using ex [of "\<lambda>t f c. t = User_correction \<and> f = n"]
      typed_ex [OF signals_of_type(3), where R = "\<lambda>_. True" and n = n and k = 0] user_corrections [of env ev] by simp
  moreover have "(\<exists>p \<in> set ps. dp_signal_type p = Tool_change \<and> dp_frequency p = n
              \<and> map_of (ev_context (dp_evidence p)) ''skill_id'' = Some (JStr k)) \<longleftrightarrow> n = int (card (tools_of ev k)) \<and> 3 \<le> n" for k n
    using ex [of "\<lambda>t f c. t = Tool_change \<and> f = n \<and> map_of c ''skill_id'' = Some (JStr k)"]
      typed_ex [OF signals_of_type(4) tool_changes, where n = n] by simp
  moreover have "\<forall>p \<in> set ps. 3 \<le> dp_frequency p
          \<and> dp_risk_rating p = (if dp_frequency p > 10 then High_rating else if dp_frequency p > 5 then Medium_rating else Low_rating)"
    unfolding ps by (intro ballI) (rule proposals_from_all)
  ultimately show ?thesis by (intro conjI allI)
qed

definition sample_env :: drift_env where
  "sample_env = \<lparr>de_ms = (\<lambda>_. Some 0), de_date = (\<lambda>_. None), de_now = 0, de_jparse = (\<lambda>_. None), de_text = (\<lambda>_. ''?''),
     de_iso = (\<lambda>_. ''now''), de_id = show_nat\<rparr>"

definition sample_options :: drift_options where
  "sample_options = \<lparr>do_since = None, do_skillId = None, do_constitutionPath = None, do_knownSkillIds = None, do_knownToolRefs = None\<rparr>"

definition sample_rejection :: trace_event where
  "sample_rejection = bare_event ''r'' ''t'' User Approval_response [(''approved'', JBool False), (''reason'', JStr ''too long'')]"

theorem drift_proposals_exact_witness:
  "\<exists>ps. detectFromTraces sample_env (\<lambda>_. Some sample_rejection) \<lparr>dk_files = [([''f''], [CHR ''x'', nl, CHR ''x'', nl, CHR ''x'', nl])], dk_dirs = []\<rparr> [[''f'']] sample_options = Some ps
     \<and> (\<exists>p \<in> set ps. dp_signal_type p = Repeated_edit \<and> dp_frequency p = 3 \<and> ev_context (dp_evidence p) = [(''reason'', JStr ''too long'')])"
proof -
  let ?d = "\<lparr>dk_files = [([''f''], [CHR ''x'', nl, CHR ''x'', nl, CHR ''x'', nl])], dk_dirs = []\<rparr>"
  let ?es = "[sample_rejection, sample_rejection, sample_rejection]"
  have es: "read_events (\<lambda>_. Some sample_rejection) ?d [[''f'']] = Some ?es"
    by (simp add: read_file_def trim_def trim_start_def trim_end_def is_ws_def)
  then obtain ps where ps: "detectFromTraces sample_env (\<lambda>_. Some sample_rejection) ?d [[''f'']] sample_options = Some ps"
    by (simp add: detectFromTraces_def)
  have "filter_events sample_env sample_options ?es = ?es" by (simp add: filter_events_def sample_options_def)
  moreover have "rejected ?es (JStr ''too long'') = 3"
    by (simp add: rejected_def filterByEventType_def sample_rejection_def bare_event_def is_rejection_def event_field_def rejection_reason_def)
  ultimately show ?thesis using drift_proposals_exact [OF ps es refl] ps by auto
qed

end
