(* ===== verification/Consolidate.thy ===== *)
theory Consolidate
  imports Prelude "HOL-Library.Multiset"
begin

text \<open>
  TasteKit core, drift/consolidator.ts: which memories are kept, pruned and merged. \<open>ms\<close> gives the
  milliseconds of a timestamp, \<open>None\<close> for an invalid date, with which every comparison is false.
\<close>

section \<open>Memories and plans\<close>

record memory_entry =
  me_id :: string
  me_content :: string
  me_salience :: rat
  me_timestamp :: string

record merge =
  mr_source_ids :: "string list"
  mr_merged_content :: string

record consolidation_plan =
  pl_timestamp :: string
  pl_keep :: "string list"
  pl_prune :: "string list"
  pl_merge :: "merge list"

section \<open>Similarity of texts\<close>

lemma dropWhile_word:
  "dropWhile is_ws s = c # cs \<Longrightarrow> length (dropWhile (\<lambda>x. \<not> is_ws x) (c # cs)) < length s"
proof -
  assume a: "dropWhile is_ws s = c # cs"
  then have "\<not> is_ws c" by (metis hd_dropWhile list.discI list.sel(1))
  then have "length (dropWhile (\<lambda>x. \<not> is_ws x) (c # cs)) \<le> length cs" by (simp add: length_dropWhile_le)
  also have "\<dots> < length s" using length_dropWhile_le [of is_ws s] a by simp
  finally show ?thesis .
qed

text \<open>The words of \<open>split(/\s+/)\<close>; empty ones are dropped by the filter on the length anyway.\<close>

function ws_words :: "string \<Rightarrow> string list" where
  "ws_words s =
     (case dropWhile is_ws s of
        [] \<Rightarrow> []
      | c # cs \<Rightarrow> takeWhile (\<lambda>x. \<not> is_ws x) (c # cs) # ws_words (dropWhile (\<lambda>x. \<not> is_ws x) (c # cs)))"
  by pat_completeness auto

termination
  by (relation "measure length") (auto dest: dropWhile_word)

declare ws_words.simps [simp del]

definition tokenize :: "string \<Rightarrow> string list" where
  "tokenize text = filter (\<lambda>w. utf16_length w > 2) (ws_words (to_lower text))"

definition jaccardSimilarity :: "string \<Rightarrow> string \<Rightarrow> rat" where
  "jaccardSimilarity a b =
     (let wordsA = set_of (tokenize a); wordsB = set_of (tokenize b)
      in if wordsA = [] \<and> wordsB = [] then 1
         else if wordsA = [] \<or> wordsB = [] then 0
         else let inter = length (filter (\<lambda>w. w \<in> set wordsB) wordsA);
                  union = length wordsA + length wordsB - inter
              in if union = 0 then 0 else of_nat inter / of_nat union)"

definition extractUniqueContent :: "string \<Rightarrow> string \<Rightarrow> string" where
  "extractUniqueContent source primary =
     join '' '' (filter (\<lambda>w. w \<notin> set (tokenize primary)) (tokenize source))"

section \<open>Merging\<close>

definition add_similar :: "memory_entry \<Rightarrow> memory_entry list \<times> string set \<Rightarrow> memory_entry \<Rightarrow> memory_entry list \<times> string set" where
  "add_similar m acc x =
     (case acc of (grp, merged) \<Rightarrow>
        if me_id x \<in> merged then (grp, merged)
        else if jaccardSimilarity (me_content m) (me_content x) \<ge> 3 / 5 then (grp @ [x], insert (me_id x) merged)
        else (grp, merged))"

text \<open>\<open>sort((a, b) => b.salience - a.salience)\<close> is stable.\<close>

definition by_salience :: "memory_entry list \<Rightarrow> memory_entry list" where
  "by_salience grp = sort_key (\<lambda>m. - me_salience m) grp"

definition merge_group :: "memory_entry list \<Rightarrow> merge" where
  "merge_group grp =
     (let sorted = by_salience grp;
          primary = hd sorted;
          additionalDetails = filter (\<lambda>d. d \<noteq> [])
            (map (\<lambda>m. extractUniqueContent (me_content m) (me_content primary)) (tl sorted))
      in \<lparr>mr_source_ids = map me_id sorted,
          mr_merged_content = (if additionalDetails \<noteq> []
             then me_content primary @ [nl, nl] @ ''Additional context: '' @ join ''; '' additionalDetails
             else me_content primary)\<rparr>)"

fun merges_from :: "memory_entry list \<Rightarrow> string set \<Rightarrow> merge list" where
  "merges_from [] merged = []"
| "merges_from (m # ms) merged =
     (if me_id m \<in> merged then merges_from ms merged
      else let (grp, merged') = foldl (add_similar m) ([m], merged) ms
           in if length grp > 1 then merge_group grp # merges_from ms (insert (me_id m) merged')
              else merges_from ms merged')"

definition detectMerges :: "memory_entry list \<Rightarrow> merge list" where
  "detectMerges memories = merges_from memories {}"

section \<open>The plan\<close>

definition retained :: "(string \<Rightarrow> int option) \<Rightarrow> int \<Rightarrow> memory_entry \<Rightarrow> bool" where
  "retained ms cutoff m \<longleftrightarrow>
     (case ms (me_timestamp m) of None \<Rightarrow> False | Some t \<Rightarrow> cutoff \<le> t) \<or> me_salience m > 7 / 10"

definition generateConsolidationPlan ::
  "(string \<Rightarrow> int option) \<Rightarrow> (int \<Rightarrow> string) \<Rightarrow> int \<Rightarrow> memory_entry list \<Rightarrow> int \<Rightarrow> consolidation_plan" where
  "generateConsolidationPlan ms to_iso now memories retentionDays =
     (let cutoff = now - retentionDays * 24 * 60 * 60 * 1000;
          toKeep = filter (retained ms cutoff) memories;
          toPrune = map me_id (filter (\<lambda>m. \<not> retained ms cutoff m) memories);
          merges = detectMerges toKeep;
          mergedIds = set (concat (map mr_source_ids merges))
      in \<lparr>pl_timestamp = to_iso now,
          pl_keep = map me_id (filter (\<lambda>m. me_id m \<notin> mergedIds) toKeep),
          pl_prune = toPrune, pl_merge = merges\<rparr>)"

section \<open>Facts\<close>

definition similar_to :: "memory_entry \<Rightarrow> string set \<Rightarrow> memory_entry \<Rightarrow> bool" where
  "similar_to m merged x \<longleftrightarrow> me_id x \<notin> merged \<and> jaccardSimilarity (me_content m) (me_content x) \<ge> 3 / 5"

lemma add_similar_eq:
  "add_similar m (g, merged) x = (if similar_to m merged x then (g @ [x], insert (me_id x) merged) else (g, merged))"
  by (simp add: add_similar_def similar_to_def)

lemma group_of:
  "distinct (map me_id ms) \<Longrightarrow>
     foldl (add_similar m) (g, merged) ms =
       (g @ filter (similar_to m merged) ms, merged \<union> me_id ` set (filter (similar_to m merged) ms))"
proof (induction ms arbitrary: g merged)
  case (Cons x ms)
  have "me_id y \<noteq> me_id x" if "y \<in> set ms" for y
    using Cons.prems that by (auto simp: image_iff)
  then have "filter (similar_to m (insert (me_id x) merged)) ms = filter (similar_to m merged) ms"
    by (intro filter_cong) (auto simp: similar_to_def)
  with Cons show ?case by (simp add: add_similar_eq del: set_filter)
qed simp

lemma mset_sources: "mset (mr_source_ids (merge_group g)) = mset (map me_id g)"
  by (simp add: merge_group_def Let_def by_salience_def)

text \<open>Every merge joins an anchor with the later, still unmerged memories that are similar to it.\<close>

definition merge_ok :: "memory_entry list \<Rightarrow> merge \<Rightarrow> bool" where
  "merge_ok memories g \<longleftrightarrow> (\<exists>anchor xs. anchor \<in> set memories \<and> set xs \<subseteq> set memories \<and> xs \<noteq> []
     \<and> list_all (\<lambda>x. jaccardSimilarity (me_content anchor) (me_content x) \<ge> 3 / 5) xs
     \<and> mset (mr_source_ids g) = mset (map me_id (anchor # xs))
     \<and> (\<exists>best \<in> set (anchor # xs). starts_with (mr_merged_content g) (me_content best)
          \<and> list_all (\<lambda>x. me_salience x \<le> me_salience best) (anchor # xs)))"

lemma merge_ok_mono: "merge_ok ms g \<Longrightarrow> set ms \<subseteq> set ms' \<Longrightarrow> merge_ok ms' g"
  unfolding merge_ok_def by blast

lemma merge_group_ok:
  assumes "xs \<noteq> []" "list_all (\<lambda>x. jaccardSimilarity (me_content m) (me_content x) \<ge> 3 / 5) xs"
    "m \<in> set memories" "set xs \<subseteq> set memories"
  shows "merge_ok memories (merge_group (m # xs))"
proof -
  let ?s = "by_salience (m # xs)"
  obtain best rest where s: "?s = best # rest"
    by (cases ?s) (auto simp: by_salience_def dest: arg_cong [where f = length])
  have set: "set ?s = set (m # xs)" unfolding by_salience_def by (rule set_sort)
  have "sorted (map (\<lambda>m. - me_salience m) ?s)" unfolding by_salience_def by (rule sorted_sort_key)
  then have "\<forall>x \<in> set ?s. me_salience x \<le> me_salience best" unfolding s by auto
  then have "list_all (\<lambda>x. me_salience x \<le> me_salience best) (m # xs)" unfolding set by (simp add: list_all_iff)
  moreover have "best \<in> set (m # xs)" using s set by (metis list.set_intros(1))
  moreover have "starts_with (mr_merged_content (merge_group (m # xs))) (me_content best)"
    by (simp add: merge_group_def Let_def s) (simp add: starts_with_iff)
  moreover have "mset (mr_source_ids (merge_group (m # xs))) = mset (map me_id (m # xs))" by (rule mset_sources)
  ultimately show ?thesis using assms unfolding merge_ok_def by blast
qed

lemma merges_from_facts:
  "distinct (map me_id ms) \<Longrightarrow>
     distinct (concat (map mr_source_ids (merges_from ms merged)))
     \<and> set (concat (map mr_source_ids (merges_from ms merged))) \<subseteq> me_id ` set ms - merged
     \<and> list_all (merge_ok ms) (merges_from ms merged)"
proof (induction ms arbitrary: merged)
  case (Cons m ms)
  then have dist: "distinct (map me_id ms)" and new: "me_id m \<notin> me_id ` set ms" by simp_all
  have mono: "list_all (merge_ok (m # ms)) xs" if "list_all (merge_ok ms) xs" for xs
    using that by (auto simp: list_all_iff intro: merge_ok_mono)
  let ?xs = "filter (similar_to m merged) ms" let ?M = "merged \<union> me_id ` set ?xs"
  show ?case
  proof (cases "me_id m \<in> merged")
    case True
    with Cons.IH [OF dist, of merged] mono show ?thesis by auto
  next
    case False
    have fold: "foldl (add_similar m) ([m], merged) ms = (m # ?xs, ?M)"
      using group_of [OF dist, of m "[m]" merged] by simp
    show ?thesis
    proof (cases "?xs = []")
      case True
      with Cons.IH [OF dist, of merged] mono False fold show ?thesis by auto
    next
      case some: False
      let ?rest = "merges_from ms (insert (me_id m) ?M)"
      have eq: "merges_from (m # ms) merged = merge_group (m # ?xs) # ?rest"
        using False fold some by simp
      note IH = Cons.IH [OF dist, of "insert (me_id m) ?M"]
      have src: "set (mr_source_ids (merge_group (m # ?xs))) = insert (me_id m) (me_id ` set ?xs)"
        using arg_cong [OF mset_sources [of "m # ?xs"], of set_mset] by (simp only: set_mset_mset list.map list.set set_map)
      have "distinct (map me_id (m # ?xs))" using dist new by (auto simp: distinct_map intro: inj_on_subset)
      then have "distinct (mr_source_ids (merge_group (m # ?xs)))"
        unfolding mset_eq_imp_distinct_iff [OF mset_sources] .
      moreover have "merge_ok (m # ms) (merge_group (m # ?xs))"
        by (rule merge_group_ok [OF some]) (auto simp: list_all_iff similar_to_def)
      moreover have "set (concat (map mr_source_ids ?rest)) \<inter> set (mr_source_ids (merge_group (m # ?xs))) = {}"
        using IH unfolding src by blast
      moreover have "set (mr_source_ids (merge_group (m # ?xs))) \<subseteq> me_id ` set (m # ms) - merged"
        using False unfolding src by (auto simp: similar_to_def)
      moreover have "set (concat (map mr_source_ids ?rest)) \<subseteq> me_id ` set (m # ms) - merged" using IH by auto
      moreover have "list_all (merge_ok (m # ms)) ?rest" using IH mono by blast
      ultimately show ?thesis using IH unfolding eq
        by (simp only: list.map concat.simps distinct_append set_append list.pred_inject Int_commute simp_thms Un_subset_iff)
    qed
  qed
qed simp

text \<open>
  C21. A consolidation loses no memory. For memories with distinct ids, every id is in exactly one place
  of the plan: kept, pruned, or a source of exactly one merge. A memory is pruned exactly if it is
  older than the retention (or its date is invalid) and its salience is at most 0.7. Every merge joins
  at least two retained memories, each of which has a word similarity of at least 0.6 to one of them,
  and its text begins with the whole text of a source of the highest salience.
\<close>

theorem consolidation_partitions:
  assumes "distinct (map me_id memories)" "plan = generateConsolidationPlan ms to_iso now memories retentionDays"
    and "cutoff = now - retentionDays * 86400000"
  shows "mset (pl_keep plan @ pl_prune plan @ concat (map mr_source_ids (pl_merge plan))) = mset (map me_id memories)
     \<and> (\<forall>m \<in> set memories. me_id m \<in> set (pl_prune plan) \<longleftrightarrow>
          \<not> (\<exists>t. ms (me_timestamp m) = Some t \<and> cutoff \<le> t) \<and> me_salience m \<le> 7 / 10)
     \<and> list_all (merge_ok (filter (retained ms cutoff) memories)) (pl_merge plan)"
proof -
  let ?keep = "filter (retained ms cutoff) memories" let ?prune = "filter (\<lambda>m. \<not> retained ms cutoff m) memories"
  let ?src = "concat (map mr_source_ids (detectMerges ?keep))"
  let ?kept = "filter (\<lambda>m. me_id m \<notin> set ?src) ?keep"
  have cut: "now - retentionDays * 24 * 60 * 60 * 1000 = cutoff" unfolding assms(3) by simp
  have plan: "pl_keep plan = map me_id ?kept" "pl_prune plan = map me_id ?prune" "pl_merge plan = detectMerges ?keep"
    unfolding assms(2) generateConsolidationPlan_def Let_def cut by simp_all
  have "distinct (map me_id ?keep)" using assms(1) by (auto simp: distinct_map intro: inj_on_subset)
  from merges_from_facts [OF this, of "{}"] have facts: "distinct ?src" "set ?src \<subseteq> me_id ` set ?keep"
    "list_all (merge_ok ?keep) (detectMerges ?keep)"
    by (simp_all add: detectMerges_def)
  have inj: "inj_on me_id (set memories)" using assms(1) by (simp add: distinct_map)
  have "distinct (map me_id ?kept @ map me_id ?prune @ ?src)"
  proof -
    have "distinct (map me_id ?kept)" "distinct (map me_id ?prune)"
      using assms(1) by (auto simp: distinct_map intro: inj_on_subset)
    moreover have "set (map me_id ?prune) \<inter> set (map me_id ?keep) = {}"
      using inj by (auto dest: inj_onD)
    moreover have "set (map me_id ?kept) \<subseteq> set (map me_id ?keep)" "set (map me_id ?kept) \<inter> set ?src = {}" by auto
    moreover have "set ?src \<subseteq> set (map me_id ?keep)" using facts(2) by (simp only: set_map)
    ultimately show ?thesis using facts(1) unfolding distinct_append set_append by blast
  qed
  moreover have "set (map me_id ?kept @ map me_id ?prune @ ?src) = set (map me_id memories)"
    using facts(2) by (auto simp del: set_concat)
  ultimately have "mset (map me_id ?kept @ map me_id ?prune @ ?src) = mset (map me_id memories)"
    using assms(1) set_eq_iff_mset_eq_distinct by blast
  moreover have "me_id m \<in> set (map me_id ?prune) \<longleftrightarrow> \<not> retained ms cutoff m" if "m \<in> set memories" for m
    using that inj by (auto dest: inj_onD)
  moreover have "\<not> retained ms cutoff m \<longleftrightarrow> \<not> (\<exists>t. ms (me_timestamp m) = Some t \<and> cutoff \<le> t) \<and> me_salience m \<le> 7 / 10" for m
    by (auto simp: retained_def split: option.split)
  ultimately show ?thesis using facts(3) unfolding plan by simp
qed

theorem consolidation_partitions_witness:
  "mset (pl_keep (generateConsolidationPlan (\<lambda>_. Some 0) (\<lambda>_. []) 86400001
       [\<lparr>me_id = ''a'', me_content = ''likes short replies'', me_salience = 9 / 10, me_timestamp = ''x''\<rparr>,
        \<lparr>me_id = ''b'', me_content = ''uses tabs'', me_salience = 1 / 10, me_timestamp = ''x''\<rparr>] 1)
     @ pl_prune (generateConsolidationPlan (\<lambda>_. Some 0) (\<lambda>_. []) 86400001
       [\<lparr>me_id = ''a'', me_content = ''likes short replies'', me_salience = 9 / 10, me_timestamp = ''x''\<rparr>,
        \<lparr>me_id = ''b'', me_content = ''uses tabs'', me_salience = 1 / 10, me_timestamp = ''x''\<rparr>] 1)) = {#''a'', ''b''#}"
proof -
  let ?ms = "[\<lparr>me_id = ''a'', me_content = ''likes short replies'', me_salience = 9 / 10, me_timestamp = ''x''\<rparr>,
        \<lparr>me_id = ''b'', me_content = ''uses tabs'', me_salience = 1 / 10, me_timestamp = ''x''\<rparr>]"
  have "distinct (map me_id ?ms)" by simp
  from consolidation_partitions [OF this refl refl, of "\<lambda>_. Some 0" "\<lambda>_. []" 86400001 1]
  show ?thesis by (simp add: generateConsolidationPlan_def Let_def retained_def detectMerges_def)
qed

end
