(* ===== verification/Evaluate.thy ===== *)
theory Evaluate
  imports Tracer Constitution Dynamic
begin

text \<open>
  TasteKit core, eval/*.ts and schemas/evalpack.ts: evaluation packs, the judge with its four kinds of
  rules, the runner, and the replay of a trace against a constitution. The schema library, the
  engine of regular expressions that rules name, \<open>JSON.stringify\<close>, the judging model and the agent
  that executes a scenario are parameters, and so is the rounding of numbers to doubles, which scores
  and averages go through. A thrown exception is a value on the left.
\<close>

section \<open>Evaluation packs\<close>

record eval_rule =
  er_rule_id :: string
  er_type :: string
  er_pattern :: "string option"
  er_template :: "string option"
  er_weight :: rat

record eval_judging =
  ej_rules :: "eval_rule list"
  ej_output_format :: string

record eval_setup =
  es_inputs :: "(string \<times> json) list"
  es_resources :: "string list option"
  es_context :: "string option"

record eval_expected =
  ee_rubrics :: "string list"
  ee_thresholds :: "(string \<times> rat) list"
  ee_required_outputs :: "string list option"

record eval_scenario =
  en_scenario_id :: string
  en_name :: string
  en_description :: string
  en_setup :: eval_setup
  en_expected :: eval_expected

record evalpack =
  ep_id :: string
  ep_name :: string
  ep_description :: string
  ep_scenarios :: "eval_scenario list"
  ep_judging :: eval_judging

record judgment_result =
  ju_rule_id :: string
  ju_passed :: bool
  ju_score :: rat
  ju_reason :: "string option"

text \<open>The schemas that the judge builds; objects keep unknown properties.\<close>

datatype zschema =
    ZAny
  | ZString
  | ZNumber
  | ZBoolean
  | ZArray zschema
  | ZObject "(string \<times> zschema) list"
  | ZOptional zschema

datatype eval_error =
    Type_error
  | Bad_regexp string
  | Executor_failed string

record judge_env =
  jd_stringify :: "json \<Rightarrow> string"
  jd_pretty :: "json \<Rightarrow> string"
  jd_jparse :: "string \<Rightarrow> string + json"
  jd_regexp :: "string \<Rightarrow> string + (string \<Rightarrow> bool)"
  jd_safeParse :: "zschema \<Rightarrow> json option \<Rightarrow> (string list \<times> string) list option"
  jd_not_iterable :: "json \<Rightarrow> string"
  jd_round :: "rat \<Rightarrow> rat"
  jd_complete :: "(nat \<Rightarrow> string \<Rightarrow> string + string) option"

section \<open>Deterministic rules\<close>

text \<open>The operator \<open>in\<close> also finds what an object inherits.\<close>

definition object_prototype :: "string list" where
  "object_prototype = [''constructor'', ''__defineGetter__'', ''__defineSetter__'', ''hasOwnProperty'', ''__lookupGetter__'',
     ''__lookupSetter__'', ''isPrototypeOf'', ''propertyIsEnumerable'', ''toString'', ''valueOf'', ''__proto__'', ''toLocaleString'']"

definition array_prototype :: "string list" where
  "array_prototype = [''length'', ''at'', ''concat'', ''copyWithin'', ''fill'', ''find'', ''findIndex'', ''findLast'', ''findLastIndex'',
     ''lastIndexOf'', ''pop'', ''push'', ''reverse'', ''shift'', ''unshift'', ''slice'', ''sort'', ''splice'', ''includes'', ''indexOf'',
     ''join'', ''keys'', ''entries'', ''values'', ''forEach'', ''filter'', ''flat'', ''flatMap'', ''map'', ''every'', ''some'', ''reduce'',
     ''reduceRight'', ''toReversed'', ''toSorted'', ''toSpliced'', ''with'']"

fun has_property :: "string \<Rightarrow> json \<Rightarrow> bool" where
  "has_property k (JObj kvs) = (k \<in> set (map fst kvs) \<or> k \<in> set object_prototype)"
| "has_property k (JArr xs) = (k \<in> set (map show_nat [0..<length xs]) \<or> k \<in> set array_prototype \<or> k \<in> set object_prototype)"
| "has_property k _ = False"

text \<open>\<open>typeof outputs === 'string' ? outputs : JSON.stringify(outputs)\<close>; \<open>undefined\<close> stays undefined.\<close>

fun output_text :: "(json \<Rightarrow> string) \<Rightarrow> json option \<Rightarrow> string option" where
  "output_text str None = None"
| "output_text str (Some (JStr s)) = Some s"
| "output_text str (Some j) = Some (str j)"

definition judged :: "eval_rule \<Rightarrow> bool \<Rightarrow> string \<Rightarrow> judgment_result" where
  "judged rule ok reason = \<lparr>ju_rule_id = er_rule_id rule, ju_passed = ok, ju_score = (if ok then 1 else 0),
     ju_reason = (if ok then None else Some reason)\<rparr>"

definition missing_outputs :: "json \<Rightarrow> string \<Rightarrow> string list \<Rightarrow> string list" where
  "missing_outputs out outStr required =
     filter (\<lambda>field. if is_object out then \<not> has_property field out else \<not> str_includes outStr field) required"

definition applyDeterministicRule :: "judge_env \<Rightarrow> eval_rule \<Rightarrow> json option \<Rightarrow> eval_expected \<Rightarrow> eval_error + judgment_result" where
  "applyDeterministicRule env rule outputs expected =
     (case (outputs, output_text (jd_stringify env) outputs) of
        (Some out, Some outputStr) \<Rightarrow>
          let missing = missing_outputs out outputStr (list_or_empty (ee_required_outputs expected));
              rubricId = (case er_pattern rule of None \<Rightarrow> [] | Some p \<Rightarrow> p)
          in Inr (if missing \<noteq> [] then judged rule False (''Missing required outputs: '' @ join '', '' missing)
                  else if rubricId \<noteq> [] \<and> (rubricId \<in> set (map fst (ee_thresholds expected)) \<or> rubricId \<in> set object_prototype)
                  then judged rule (str_includes (to_lower outputStr) (to_lower rubricId))
                         (''Rubric \"'' @ rubricId @ ''\" not satisfied in output'')
                  else judged rule (outputStr \<noteq> [] \<and> outputStr \<noteq> ''{}'' \<and> outputStr \<noteq> ''null'') ''Output is empty'')
      | _ \<Rightarrow> Inl Type_error)"

section \<open>Patterns\<close>

text \<open>\<open>regex.test(undefined)\<close> tests the text undefined.\<close>

definition text_or_undefined :: "string option \<Rightarrow> string" where
  "text_or_undefined t = (case t of None \<Rightarrow> ''undefined'' | Some s \<Rightarrow> s)"

definition applyRegexRule :: "judge_env \<Rightarrow> eval_rule \<Rightarrow> json option \<Rightarrow> eval_error + judgment_result" where
  "applyRegexRule env rule outputs =
     (case er_pattern rule of
        None \<Rightarrow> Inr (judged rule False ''No pattern specified'')
      | Some p \<Rightarrow>
          if p = [] then Inr (judged rule False ''No pattern specified'')
          else case jd_regexp env p of
                 Inl e \<Rightarrow> Inl (Bad_regexp e)
               | Inr test \<Rightarrow> Inr (judged rule (test (text_or_undefined (output_text (jd_stringify env) outputs)))
                   (''Pattern /'' @ p @ ''/ did not match output'')))"

section \<open>Schema rules\<close>

lemma size_field: "map_of kvs k = Some v \<Longrightarrow> size v < size (JObj kvs)"
  by (induction kvs) (auto split: if_splits)

lemma size_entry: "(k, v) \<in> set kvs \<Longrightarrow> size v < size (JObj kvs)"
  by (induction kvs) auto

lemma size_item: "v \<in> set xs \<Longrightarrow> size v < size (JArr xs)"
  by (induction xs) auto

text \<open>\<open>Object.entries\<close> of a property that is present.\<close>

definition chars_of :: "string \<Rightarrow> json list" where
  "chars_of s = map (\<lambda>c. JStr [c]) s"

fun object_entries :: "json \<Rightarrow> (string \<times> json) list" where
  "object_entries (JObj kvs) = kvs"
| "object_entries (JArr xs) = zip (map show_nat [0..<length xs]) xs"
| "object_entries (JStr s) = zip (map show_nat [0..<length s]) (chars_of s)"
| "object_entries _ = []"

lemma size_object_entries: "(k, v) \<in> set (object_entries p) \<Longrightarrow> size v \<le> size p"
proof (cases p)
  case (JArr xs)
  assume "(k, v) \<in> set (object_entries p)"
  then have "v \<in> set xs" by (auto simp: JArr dest: set_zip_rightD)
  from size_item [OF this] show ?thesis by (simp add: JArr)
next
  case (JStr s)
  assume "(k, v) \<in> set (object_entries p)"
  then have "v \<in> set (chars_of s)" by (auto simp: JStr dest: set_zip_rightD)
  then show ?thesis by (auto simp: chars_of_def JStr)
qed (auto dest: size_entry)

text \<open>\<open>new Set(desc.required ?? [])\<close>: the names it holds, an error where the value is not iterable.\<close>

fun required_names :: "(json \<Rightarrow> string) \<Rightarrow> json option \<Rightarrow> string + string list" where
  "required_names bad None = Inr []"
| "required_names bad (Some JNull) = Inr []"
| "required_names bad (Some (JArr xs)) = Inr (List.map_filter as_str xs)"
| "required_names bad (Some (JStr s)) = Inr (map (\<lambda>c. [c]) s)"
| "required_names bad (Some j) = Inl (bad j)"

lemma size_truthy_field: "truthy_field k desc = Some v \<Longrightarrow> size v < size desc"
  by (cases desc) (auto simp: truthy_field_def split: if_splits dest: size_field)

function jsonToZodSchema :: "(json \<Rightarrow> string) \<Rightarrow> json \<Rightarrow> string + zschema" where
  "jsonToZodSchema bad desc =
     (case truthy_field ''type'' desc of
        None \<Rightarrow> Inr ZAny
      | Some t \<Rightarrow>
          if t = JStr ''string'' then Inr ZString
          else if t = JStr ''number'' then Inr ZNumber
          else if t = JStr ''boolean'' then Inr ZBoolean
          else if t = JStr ''array''
          then (case truthy_field ''items'' desc of
                  None \<Rightarrow> Inr (ZArray ZAny)
                | Some items \<Rightarrow> map_sum id ZArray (jsonToZodSchema bad items))
          else if t = JStr ''object''
          then (case truthy_field ''properties'' desc of
                  None \<Rightarrow> Inr (ZObject [])
                | Some props \<Rightarrow>
                    (case required_names bad (jfield ''required'' desc) of
                       Inl e \<Rightarrow> Inl e
                     | Inr required \<Rightarrow>
                         map_sum id ZObject (traverse (\<lambda>(key, propDesc).
                           map_sum id (\<lambda>s. (key, if key \<in> set required then s else ZOptional s)) (jsonToZodSchema bad propDesc))
                           (object_entries props))))
          else Inr ZAny)"
  by pat_completeness auto
termination
  by (relation "measure (\<lambda>(bad, desc). size desc)")
     (auto dest!: size_truthy_field size_object_entries)

declare jsonToZodSchema.simps [simp del]

definition issue_text :: "string list \<times> string \<Rightarrow> string" where
  "issue_text i = join ''.'' (fst i) @ '': '' @ snd i"

definition rule_schema :: "judge_env \<Rightarrow> string \<Rightarrow> string + zschema" where
  "rule_schema env p =
     (case jd_jparse env p of Inl e \<Rightarrow> Inl e | Inr desc \<Rightarrow> jsonToZodSchema (jd_not_iterable env) desc)"

definition applySchemaRule :: "judge_env \<Rightarrow> eval_rule \<Rightarrow> json option \<Rightarrow> judgment_result" where
  "applySchemaRule env rule outputs =
     (case er_pattern rule of
        None \<Rightarrow> judged rule False ''No schema pattern specified''
      | Some p \<Rightarrow>
          if p = [] then judged rule False ''No schema pattern specified''
          else (case rule_schema env p of
                  Inl e \<Rightarrow> judged rule False (''Schema parse error: '' @ e)
                | Inr schema \<Rightarrow>
                    (case jd_safeParse env schema outputs of
                       None \<Rightarrow> judged rule True []
                     | Some issues \<Rightarrow> judged rule False (''Schema validation failed: '' @ join ''; '' (map issue_text issues)))))"

section \<open>The judging model\<close>

text \<open>\<open>template.replace('{{output}}', text)\<close>: the first occurrence; a dollar sign in the replacement text
  starts a reference to the match or to what surrounds it.\<close>

fun replacement_text :: "string \<Rightarrow> string \<Rightarrow> string \<Rightarrow> string \<Rightarrow> string" where
  "replacement_text a m b (c # d # r) =
     (if c = CHR ''$'' \<and> d = CHR ''$'' then CHR ''$'' # replacement_text a m b r
      else if c = CHR ''$'' \<and> d = CHR ''&'' then m @ replacement_text a m b r
      else if c = CHR ''$'' \<and> d = CHR 0x60 then a @ replacement_text a m b r
      else if c = CHR ''$'' \<and> d = CHR 0x27 then b @ replacement_text a m b r
      else c # replacement_text a m b (d # r))"
| "replacement_text a m b r = r"

definition fill_template :: "string \<Rightarrow> string \<Rightarrow> string" where
  "fill_template template output =
     (case cut_at ''{{output}}'' template of
        None \<Rightarrow> template
      | Some (a, b) \<Rightarrow> a @ replacement_text a ''{{output}}'' b output @ b)"

text \<open>The number at the start of a text: \<open>[0-9]*\.?[0-9]+\<close>, read by \<open>parseFloat\<close>.\<close>

definition read_decimal :: "string \<Rightarrow> rat option" where
  "read_decimal s =
     (let d = takeWhile is_digit s;
          fr = (case dropWhile is_digit s of c # r \<Rightarrow> if c = CHR ''.'' then takeWhile is_digit r else [] | [] \<Rightarrow> [])
      in if d = [] \<and> fr = [] then None
         else Some (of_nat (read_digits d) + of_nat (read_digits fr) / 10 ^ length fr))"

definition score_words :: "string list" where
  "score_words = [''score'', ''rating'']"

definition after_word :: "string \<Rightarrow> string \<Rightarrow> rat option" where
  "after_word s w = (if starts_with (to_lower s) w
     then read_decimal (dropWhile (\<lambda>c. is_ws c \<or> c = CHR '':'') (drop (length w) s)) else None)"

text \<open>\<open>response.match(/(?:score|rating)[\s:]*([0-9]*\.?[0-9]+)/i)\<close>, the number of the first match.\<close>

fun find_score :: "string \<Rightarrow> rat option" where
  "find_score [] = None"
| "find_score (c # s) =
     (case List.find (\<lambda>x. x \<noteq> None) (map (after_word (c # s)) score_words) of
        Some (Some x) \<Rightarrow> Some x
      | _ \<Rightarrow> find_score s)"

definition word_char :: "char \<Rightarrow> bool" where
  "word_char c \<longleftrightarrow> (let n = of_char c :: nat in is_digit c \<or> 65 \<le> n \<and> n \<le> 90 \<or> 97 \<le> n \<and> n \<le> 122 \<or> n = 95)"

definition word_at :: "string \<Rightarrow> string \<Rightarrow> bool" where
  "word_at s w \<longleftrightarrow> starts_with s w \<and> (case drop (length w) s of [] \<Rightarrow> True | c # _ \<Rightarrow> \<not> word_char c)"

text \<open>\<open>/\b(...)\b/i.test(s)\<close>; the first argument says whether a word character stands before the text.\<close>

fun has_word :: "bool \<Rightarrow> string list \<Rightarrow> string \<Rightarrow> bool" where
  "has_word before ws [] = False"
| "has_word before ws (c # s) =
     (\<not> before \<and> list_ex (word_at (to_lower (c # s))) ws \<or> has_word (word_char c) ws s)"

definition passSignals :: "string list" where
  "passSignals = [''pass'', ''passed'', ''yes'', ''good'', ''correct'', ''acceptable'']"

definition failSignals :: "string list" where
  "failSignals = [''fail'', ''failed'', ''no'', ''bad'', ''incorrect'', ''unacceptable'']"

text \<open>\<open>r\<close> rounds a decimal number to a double.\<close>

definition llm_judgment :: "(rat \<Rightarrow> rat) \<Rightarrow> eval_rule \<Rightarrow> string \<Rightarrow> judgment_result" where
  "llm_judgment r rule response =
     (let score = map_option (\<lambda>x. min 1 (max 0 (r x))) (find_score response);
          passed = (case score of
             Some x \<Rightarrow> r (7 / 10) \<le> x
           | None \<Rightarrow> has_word False passSignals response \<and> \<not> has_word False failSignals response)
      in \<lparr>ju_rule_id = er_rule_id rule, ju_passed = passed,
          ju_score = (case score of Some x \<Rightarrow> x | None \<Rightarrow> if passed then r (8 / 10) else r (2 / 10)),
          ju_reason = Some (take_units 500 response)\<rparr>)"

text \<open>\<open>n\<close> counts the prompts sent so far.\<close>

definition applyLLMJudge :: "judge_env \<Rightarrow> nat \<Rightarrow> eval_rule \<Rightarrow> json option \<Rightarrow> judgment_result \<times> nat" where
  "applyLLMJudge env n rule outputs =
     (case jd_complete env of
        None \<Rightarrow> (judged rule False ''LLM judge requires an LLMJudgeProvider. Pass one to the Judge constructor.'', n)
      | Some ask \<Rightarrow>
          (case er_template rule of
             None \<Rightarrow> (judged rule False ''LLM judge rule requires a template'', n)
           | Some template \<Rightarrow>
               if template = [] then (judged rule False ''LLM judge rule requires a template'', n)
               else (case ask n (fill_template template (text_or_undefined (output_text (jd_pretty env) outputs))) of
                       Inl e \<Rightarrow> (judged rule False (''LLM judge error: '' @ e), Suc n)
                     | Inr response \<Rightarrow> (llm_judgment (jd_round env) rule response, Suc n))))"

section \<open>Judge and runner\<close>

definition applyRule :: "judge_env \<Rightarrow> nat \<Rightarrow> eval_rule \<Rightarrow> json option \<Rightarrow> eval_expected \<Rightarrow> eval_error + judgment_result \<times> nat" where
  "applyRule env n rule outputs expected =
     (if er_type rule = ''deterministic'' then map_sum id (\<lambda>j. (j, n)) (applyDeterministicRule env rule outputs expected)
      else if er_type rule = ''regex'' then map_sum id (\<lambda>j. (j, n)) (applyRegexRule env rule outputs)
      else if er_type rule = ''schema'' then Inr (applySchemaRule env rule outputs, n)
      else if er_type rule = ''llm_judge'' then Inr (applyLLMJudge env n rule outputs)
      else Inr (judged rule False (''Unknown rule type: '' @ er_type rule), n))"

fun judgeOutputs :: "judge_env \<Rightarrow> nat \<Rightarrow> json option \<Rightarrow> eval_rule list \<Rightarrow> eval_expected \<Rightarrow> eval_error + judgment_result list \<times> nat" where
  "judgeOutputs env n outputs [] expected = Inr ([], n)"
| "judgeOutputs env n outputs (rule # rules) expected =
     (case applyRule env n rule outputs expected of
        Inl e \<Rightarrow> Inl e
      | Inr (j, n') \<Rightarrow>
          (case judgeOutputs env n' outputs rules expected of
             Inl e \<Rightarrow> Inl e
           | Inr (jds, n'') \<Rightarrow> Inr (j # jds, n'')))"

record eval_result =
  vr_scenario_id :: string
  vr_passed :: bool
  vr_score :: rat
  vr_judgments :: "judgment_result list"
  vr_outputs :: "json option"

record eval_report =
  vp_evalpack_id :: string
  vp_timestamp :: string
  vp_results :: "eval_result list"
  vp_overall_score :: rat
  vp_passed :: bool

text \<open>\<open>xs.reduce((sum, x) => sum + x, 0) / xs.length\<close>, each operation rounded.\<close>

definition rounded_sum :: "(rat \<Rightarrow> rat) \<Rightarrow> rat list \<Rightarrow> rat" where
  "rounded_sum r xs = foldl (\<lambda>s x. r (s + x)) 0 xs"

definition average :: "(rat \<Rightarrow> rat) \<Rightarrow> rat list \<Rightarrow> rat" where
  "average r xs = (if xs = [] then 0 else r (rounded_sum r xs / of_nat (length xs)))"

text \<open>The executor of a runner, if it has one: the answer of the agent to the i-th scenario it is given.\<close>

type_synonym executor = "(nat \<Rightarrow> eval_scenario \<Rightarrow> string + json option) option"

definition scenario_outputs :: "executor \<Rightarrow> nat \<Rightarrow> eval_scenario \<Rightarrow> eval_error + json option" where
  "scenario_outputs executor i scenario =
     (case executor of
        Some run \<Rightarrow> map_sum Executor_failed id (run i scenario)
      | None \<Rightarrow> Inr (Some (JObj (es_inputs (en_setup scenario)))))"

definition runScenario :: "judge_env \<Rightarrow> executor \<Rightarrow> nat \<Rightarrow> nat \<Rightarrow> evalpack \<Rightarrow> eval_scenario \<Rightarrow> eval_error + eval_result \<times> nat" where
  "runScenario env executor i n evalPack scenario =
     (case scenario_outputs executor i scenario of
        Inl e \<Rightarrow> Inl e
      | Inr outputs \<Rightarrow>
          (case judgeOutputs env n outputs (ej_rules (ep_judging evalPack)) (en_expected scenario) of
             Inl e \<Rightarrow> Inl e
           | Inr (jds, n') \<Rightarrow>
               Inr (\<lparr>vr_scenario_id = en_scenario_id scenario, vr_passed = (jds \<noteq> [] \<and> list_all ju_passed jds),
                     vr_score = average (jd_round env) (map ju_score jds), vr_judgments = jds, vr_outputs = outputs\<rparr>, n')))"

fun runScenarios :: "judge_env \<Rightarrow> executor \<Rightarrow> nat \<Rightarrow> nat \<Rightarrow> evalpack \<Rightarrow> eval_scenario list \<Rightarrow> eval_error + eval_result list" where
  "runScenarios env executor i n evalPack [] = Inr []"
| "runScenarios env executor i n evalPack (scenario # rest) =
     (case runScenario env executor i n evalPack scenario of
        Inl e \<Rightarrow> Inl e
      | Inr (r, n') \<Rightarrow> map_sum id (\<lambda>rs. r # rs) (runScenarios env executor (Suc i) n' evalPack rest))"

definition report_of :: "(rat \<Rightarrow> rat) \<Rightarrow> evalpack \<Rightarrow> string \<Rightarrow> eval_result list \<Rightarrow> eval_report" where
  "report_of r evalPack now results =
     \<lparr>vp_evalpack_id = ep_id evalPack, vp_timestamp = now, vp_results = results,
      vp_overall_score = average r (map vr_score results), vp_passed = (results \<noteq> [] \<and> list_all vr_passed results)\<rparr>"

definition runEvalPack :: "judge_env \<Rightarrow> executor \<Rightarrow> string \<Rightarrow> evalpack \<Rightarrow> eval_error + eval_report" where
  "runEvalPack env executor now evalPack =
     map_sum id (report_of (jd_round env) evalPack now) (runScenarios env executor 0 0 evalPack (ep_scenarios evalPack))"

section \<open>Replay\<close>

record replay_violation =
  rv_event :: json
  rv_violation_type :: string
  rv_reason :: string

record replay_result =
  rr_trace_path :: segments
  rr_profile_version :: string
  rr_violations :: "replay_violation list"
  rr_passed :: bool

definition phrase_violations :: "(json \<Rightarrow> string) \<Rightarrow> string list \<Rightarrow> json \<Rightarrow> replay_violation list" where
  "phrase_violations str phrases event =
     (case Option.bind (jfield ''data'' event) (truthy_field ''output'') of
        Some out \<Rightarrow>
          if jfield ''event_type'' event = Some (JStr ''tool_result'')
          then map (\<lambda>phrase. \<lparr>rv_event = event, rv_violation_type = ''forbidden_phrase'',
                   rv_reason = ''Output contains forbidden phrase: \"'' @ phrase @ ''\"''\<rparr>)
                 (filter (\<lambda>phrase. str_includes (to_lower (str out)) (to_lower phrase)) phrases)
          else []
      | None \<Rightarrow> [])"

text \<open>\<open>None\<close> is a TypeError: references that are set and no array, or an event that is \<open>null\<close>.\<close>

definition principle_violations :: "(json \<Rightarrow> string) \<Rightarrow> json \<Rightarrow> replay_violation list option" where
  "principle_violations shown event =
     (if jfield ''event_type'' event = Some (JStr ''error'')
      then (case truthy_field ''principle_refs'' event of
              None \<Rightarrow> Some []
            | Some (JArr refs) \<Rightarrow> Some [\<lparr>rv_event = event, rv_violation_type = ''principle_violation'',
                rv_reason = ''Error occurred while following principles: '' @ join '', '' (map (join_item shown) refs)\<rparr>]
            | Some _ \<Rightarrow> None)
      else Some [])"

definition event_violations :: "(json \<Rightarrow> string) \<Rightarrow> (json \<Rightarrow> string) \<Rightarrow> string list \<Rightarrow> json \<Rightarrow> replay_violation list option" where
  "event_violations str shown phrases event =
     (if event = JNull then None
      else map_option (\<lambda>vs. phrase_violations str phrases event @ vs) (principle_violations shown event))"

text \<open>\<open>Replay.replayTrace\<close> on the content of a trace file; \<open>None\<close> where an exception leaves it.\<close>

definition replayTrace ::
    "(string \<Rightarrow> json option) \<Rightarrow> (json \<Rightarrow> string) \<Rightarrow> (json \<Rightarrow> string) \<Rightarrow> segments \<Rightarrow> string \<Rightarrow> constitution \<Rightarrow> replay_result option" where
  "replayTrace jparse str shown tracePath content constitution =
     Option.bind (readTrace jparse content) (\<lambda>events.
     Option.bind (those (map (event_violations str shown (tn_forbidden_phrases (cn_tone constitution))) events)) (\<lambda>vss.
     Some \<lparr>rr_trace_path = tracePath, rr_profile_version = cn_generator_version constitution,
           rr_violations = concat vss, rr_passed = (concat vss = [])\<rparr>))"

section \<open>Scores\<close>

text \<open>What is relied on of doubles: rounding keeps the order, and whole numbers up to \<open>n\<close> are exact.\<close>

definition whole_numbers :: "(rat \<Rightarrow> rat) \<Rightarrow> nat \<Rightarrow> bool" where
  "whole_numbers r n \<longleftrightarrow> mono r \<and> (\<forall>k \<le> n. r (of_nat k) = of_nat k)"

lemma whole_less: "whole_numbers r n \<Longrightarrow> m \<le> n \<Longrightarrow> whole_numbers r m"
  by (simp add: whole_numbers_def)

lemma whole_between:
  assumes "whole_numbers r n" "k \<le> n" "0 \<le> x" "x \<le> of_nat k"
  shows "0 \<le> r x \<and> r x \<le> of_nat k"
proof -
  have "r 0 = 0" "r (of_nat k) = of_nat k" using assms(1,2) by (auto simp: whole_numbers_def dest: spec [of _ 0])
  moreover have "mono r" using assms(1) by (simp add: whole_numbers_def)
  from monoD [OF this assms(3)] monoD [OF this assms(4)] have "r 0 \<le> r x" "r x \<le> r (of_nat k)" .
  ultimately show ?thesis by simp
qed

lemma whole_unit: "whole_numbers r n \<Longrightarrow> 1 \<le> n \<Longrightarrow> 0 \<le> x \<Longrightarrow> x \<le> 1 \<Longrightarrow> 0 \<le> r x \<and> r x \<le> 1"
  using whole_between [of r n 1 x] by simp

lemma rounded_sum_snoc [simp]: "rounded_sum r [] = 0" "rounded_sum r (xs @ [x]) = r (rounded_sum r xs + x)"
  by (simp_all add: rounded_sum_def)

lemma rounded_sum_bounds:
  "whole_numbers r (length xs) \<Longrightarrow> list_all (\<lambda>x. 0 \<le> x \<and> x \<le> 1) xs \<Longrightarrow>
     0 \<le> rounded_sum r xs \<and> rounded_sum r xs \<le> of_nat (length xs)"
proof (induction xs rule: rev_induct)
  case (snoc x xs)
  have "whole_numbers r (length xs)" using snoc.prems(1) by (rule whole_less) simp
  with snoc have "0 \<le> rounded_sum r xs \<and> rounded_sum r xs \<le> of_nat (length xs)" by simp
  with snoc.prems show ?case using whole_between [of r "length (xs @ [x])" "length (xs @ [x])" "rounded_sum r xs + x"] by auto
qed simp

lemma average_unit:
  assumes "whole_numbers r (max 1 (length xs))" "list_all (\<lambda>x. 0 \<le> x \<and> x \<le> 1) xs"
  shows "0 \<le> average r xs \<and> average r xs \<le> 1"
proof (cases "xs = []")
  case False
  have "0 \<le> rounded_sum r xs \<and> rounded_sum r xs \<le> of_nat (length xs)"
    using assms by (intro rounded_sum_bounds) (auto intro: whole_less)
  with False have "0 \<le> rounded_sum r xs / of_nat (length xs) \<and> rounded_sum r xs / of_nat (length xs) \<le> 1"
    by (simp add: pos_divide_le_eq)
  with False whole_unit [OF assms(1)] show ?thesis by (simp add: average_def)
qed (simp add: average_def)

lemma rounded_sum_ones:
  "whole_numbers r (length xs) \<Longrightarrow> list_all (\<lambda>x. x = 1) xs \<Longrightarrow> rounded_sum r xs = of_nat (length xs)"
proof (induction xs rule: rev_induct)
  case (snoc x xs)
  have "whole_numbers r (length xs)" using snoc.prems(1) by (rule whole_less) simp
  with snoc have "rounded_sum r xs = of_nat (length xs)" by simp
  moreover have "r (of_nat (length (xs @ [x]))) = of_nat (length (xs @ [x]))"
    using snoc.prems(1) unfolding whole_numbers_def by blast
  ultimately show ?case using snoc.prems(2) by (simp add: add.commute)
qed simp

lemma average_ones:
  assumes "whole_numbers r (max 1 (length xs))" "xs \<noteq> []" "list_all (\<lambda>x. x = 1) xs"
  shows "average r xs = 1"
proof -
  have "rounded_sum r xs = of_nat (length xs)"
    using assms by (intro rounded_sum_ones) (auto intro: whole_less)
  moreover have "r 1 = 1"
    using assms(1) unfolding whole_numbers_def by (metis max.cobounded1 of_nat_1)
  ultimately show ?thesis using assms(2) by (simp add: average_def)
qed

definition scored :: "(rat \<Rightarrow> rat) \<Rightarrow> eval_rule \<Rightarrow> judgment_result \<Rightarrow> bool" where
  "scored r rule j \<longleftrightarrow> ju_rule_id j = er_rule_id rule \<and> 0 \<le> ju_score j \<and> ju_score j \<le> 1
     \<and> (ju_passed j \<longrightarrow> r (7 / 10) \<le> ju_score j) \<and> (er_type rule \<noteq> ''llm_judge'' \<longrightarrow> ju_score j = (if ju_passed j then 1 else 0))"

lemma scored_judged: "whole_numbers r n \<Longrightarrow> 1 \<le> n \<Longrightarrow> scored r rule (judged rule ok reason)"
  using whole_unit [of r n "7 / 10"] by (simp add: scored_def judged_def)

lemma scored_llm:
  assumes "whole_numbers r n" "1 \<le> n" "er_type rule = ''llm_judge''"
  shows "scored r rule (llm_judgment r rule response)"
proof -
  have "r (7 / 10) \<le> r (8 / 10)" using assms(1) by (auto simp: whole_numbers_def intro: monoD)
  with whole_unit [OF assms(1,2), of "8 / 10"] whole_unit [OF assms(1,2), of "2 / 10"] assms(3) show ?thesis
    by (auto simp: scored_def llm_judgment_def Let_def split: option.split)
qed

lemma applyRule_scored:
  assumes "whole_numbers (jd_round env) k" "1 \<le> k" "applyRule env n rule outputs expected = Inr (j, n')"
  shows "scored (jd_round env) rule j"
  using assms(3) scored_judged [OF assms(1,2)] scored_llm [OF assms(1,2)]
  by (auto simp: applyRule_def applyDeterministicRule_def applyRegexRule_def applySchemaRule_def applyLLMJudge_def Let_def
      split: if_splits option.splits sum.splits prod.splits)

lemma judgeOutputs_scored:
  "judgeOutputs env n outputs rules expected = Inr (jds, n') \<Longrightarrow> whole_numbers (jd_round env) k \<Longrightarrow> 1 \<le> k \<Longrightarrow>
     list_all2 (scored (jd_round env)) rules jds"
  by (induction env n outputs rules expected arbitrary: jds n' rule: judgeOutputs.induct)
     (auto dest: applyRule_scored split: sum.splits prod.splits)

lemma scored_parts:
  "list_all2 (scored r) rules jds \<Longrightarrow> map ju_rule_id jds = map er_rule_id rules \<and> (jds = [] \<longleftrightarrow> rules = [])
     \<and> list_all (\<lambda>j. 0 \<le> ju_score j \<and> ju_score j \<le> 1 \<and> (ju_passed j \<longrightarrow> r (7 / 10) \<le> ju_score j)) jds"
  by (induction rules jds rule: list_all2_induct) (auto simp: scored_def)

lemma passed_ones:
  "list_all2 (scored r) rules jds \<Longrightarrow> \<forall>r \<in> set rules. er_type r \<noteq> ''llm_judge'' \<Longrightarrow> list_all ju_passed jds
   \<Longrightarrow> list_all (\<lambda>x. x = 1) (map ju_score jds)"
  by (induction rules jds rule: list_all2_induct) (auto simp: scored_def)

definition result_ok :: "(rat \<Rightarrow> rat) \<Rightarrow> evalpack \<Rightarrow> eval_scenario \<Rightarrow> eval_result \<Rightarrow> bool" where
  "result_ok r evalPack scenario v \<longleftrightarrow> vr_scenario_id v = en_scenario_id scenario
     \<and> list_all2 (scored r) (ej_rules (ep_judging evalPack)) (vr_judgments v)
     \<and> (vr_passed v \<longleftrightarrow> vr_judgments v \<noteq> [] \<and> list_all ju_passed (vr_judgments v))
     \<and> 0 \<le> vr_score v \<and> vr_score v \<le> 1
     \<and> (vr_passed v \<and> (\<forall>rule \<in> set (ej_rules (ep_judging evalPack)). er_type rule \<noteq> ''llm_judge'') \<longrightarrow> vr_score v = 1)"

lemma runScenario_ok:
  assumes "runScenario env executor i n evalPack scenario = Inr (v, n')"
    and w: "whole_numbers (jd_round env) (max 1 (length (ej_rules (ep_judging evalPack))))"
  shows "result_ok (jd_round env) evalPack scenario v"
proof -
  let ?r = "jd_round env" and ?rules = "ej_rules (ep_judging evalPack)"
  obtain outputs jds where run: "judgeOutputs env n outputs ?rules (en_expected scenario) = Inr (jds, n')"
    and v: "v = \<lparr>vr_scenario_id = en_scenario_id scenario, vr_passed = (jds \<noteq> [] \<and> list_all ju_passed jds),
      vr_score = average ?r (map ju_score jds), vr_judgments = jds, vr_outputs = outputs\<rparr>"
    using assms(1) by (auto simp: runScenario_def split: sum.splits prod.splits)
  from judgeOutputs_scored [OF run w] have scored: "list_all2 (scored ?r) ?rules jds" by simp
  then have len: "length jds = length ?rules" by (simp add: list_all2_lengthD)
  have unit: "list_all (\<lambda>x. 0 \<le> x \<and> x \<le> 1) (map ju_score jds)"
    using scored_parts [OF scored] by (auto simp: list_all_iff)
  have avg: "0 \<le> average ?r (map ju_score jds) \<and> average ?r (map ju_score jds) \<le> 1"
    using average_unit [OF _ unit] w by (simp add: len)
  have ones: "average ?r (map ju_score jds) = 1"
    if "jds \<noteq> []" "list_all ju_passed jds" "\<forall>rule \<in> set ?rules. er_type rule \<noteq> ''llm_judge''"
    using average_ones [OF _ _ passed_ones [OF scored that(3,2)]] that(1) w by (simp add: len)
  show ?thesis using scored avg ones by (simp add: result_ok_def v)
qed

lemma runScenarios_ok:
  "runScenarios env executor i n evalPack scenarios = Inr rs \<Longrightarrow>
     whole_numbers (jd_round env) (max 1 (length (ej_rules (ep_judging evalPack)))) \<Longrightarrow>
     list_all2 (result_ok (jd_round env) evalPack) scenarios rs"
  by (induction env executor i n evalPack scenarios arbitrary: rs rule: runScenarios.induct)
     (auto dest: runScenario_ok simp: map_sum_Inr split: sum.splits prod.splits)


section \<open>Schema rules check a JSON schema\<close>

text \<open>The validation of JSON Schema for the keywords \<open>type\<close>, \<open>items\<close>, \<open>properties\<close> and \<open>required\<close>: each is
  an assertion of its own, and the last three concern only the kind of value they are made for.\<close>

definition type_is :: "string \<Rightarrow> json \<Rightarrow> bool" where
  "type_is t v \<longleftrightarrow>
     (case v of
        JNull \<Rightarrow> t = ''null''
      | JBool _ \<Rightarrow> t = ''boolean''
      | JNum x \<Rightarrow> t = ''number'' \<or> t = ''integer'' \<and> of_int \<lfloor>x\<rfloor> = x
      | JStr _ \<Rightarrow> t = ''string''
      | JArr _ \<Rightarrow> t = ''array''
      | JObj _ \<Rightarrow> t = ''object'')"

fun type_matches :: "json \<Rightarrow> json \<Rightarrow> bool" where
  "type_matches (JStr t) v = type_is t v"
| "type_matches (JArr ts) v = list_ex (\<lambda>t. case t of JStr n \<Rightarrow> type_is n v | _ \<Rightarrow> False) ts"
| "type_matches _ v = False"

lemma size_jfield: "jfield k desc = Some v \<Longrightarrow> size v < size desc"
  by (cases desc) (auto dest: size_field)

function valid_json :: "json \<Rightarrow> json \<Rightarrow> bool" where
  "valid_json desc v \<longleftrightarrow> desc \<noteq> JBool False
     \<and> (case jfield ''type'' desc of None \<Rightarrow> True | Some t \<Rightarrow> type_matches t v)
     \<and> (case jfield ''items'' desc of
          None \<Rightarrow> True
        | Some items \<Rightarrow> (case v of JArr xs \<Rightarrow> list_all (valid_json items) xs | _ \<Rightarrow> True))
     \<and> (case jfield ''required'' desc of
          None \<Rightarrow> True
        | Some rq \<Rightarrow> (case v of JObj ws \<Rightarrow> list_all (\<lambda>k. k \<in> set (map fst ws)) (list_or_empty (as_strs rq)) | _ \<Rightarrow> True))
     \<and> (case jfield ''properties'' desc of
          None \<Rightarrow> True
        | Some props \<Rightarrow>
            (case v of
               JObj ws \<Rightarrow> list_all (\<lambda>(k, p). case map_of ws k of None \<Rightarrow> True | Some w \<Rightarrow> valid_json p w) (object_entries props)
             | _ \<Rightarrow> True))"
  by pat_completeness auto
termination
  by (relation "measure (\<lambda>(desc, v). size desc)")
     (auto dest!: size_jfield size_object_entries)

declare valid_json.simps [simp del]

text \<open>The descriptions for which the judge is complete: besides annotations only the four keywords, with
  them one of the five types that the judge knows, and every required name a property that has a type
  and a name no object inherits.\<close>

definition json_types :: "string list" where
  "json_types = [''string'', ''number'', ''boolean'', ''array'', ''object'']"

definition json_keywords :: "string list" where
  "json_keywords = [''type'', ''items'', ''properties'', ''required'', ''title'', ''description'', ''default'', ''examples'', ''$schema'']"

definition typed :: "json \<Rightarrow> bool" where
  "typed desc \<longleftrightarrow> list_ex (\<lambda>t. jfield ''type'' desc = Some (JStr t)) json_types"

definition untyped :: "json \<Rightarrow> bool" where
  "untyped desc \<longleftrightarrow> jfield ''type'' desc = None \<and> jfield ''items'' desc = None \<and> jfield ''properties'' desc = None
     \<and> jfield ''required'' desc = None"

function wf_desc :: "json \<Rightarrow> bool" where
  "wf_desc desc \<longleftrightarrow> (case desc of JObj kvs \<Rightarrow> list_all (\<lambda>kv. fst kv \<in> set json_keywords) kvs | _ \<Rightarrow> False)
     \<and> (typed desc \<or> untyped desc)
     \<and> (case jfield ''items'' desc of None \<Rightarrow> True | Some items \<Rightarrow> wf_desc items)
     \<and> (case jfield ''required'' desc of None \<Rightarrow> True | Some rq \<Rightarrow>
          (case as_strs rq of None \<Rightarrow> False | Some ks \<Rightarrow>
            list_all (\<lambda>k. \<exists>props pd. jfield ''properties'' desc = Some props \<and> (k, pd) \<in> set (object_entries props) \<and> typed pd) ks))
     \<and> (case jfield ''properties'' desc of None \<Rightarrow> True
        | Some props \<Rightarrow> (case props of JObj _ \<Rightarrow> True | _ \<Rightarrow> False) \<and> distinct (map fst (object_entries props))
            \<and> list_all (\<lambda>(k, pd). k \<notin> set object_prototype \<and> wf_desc pd) (object_entries props))"
  by pat_completeness auto
termination
  by (relation "measure size") (auto dest!: size_jfield size_object_entries)

declare wf_desc.simps [simp del]

lemma wf_object: "wf_desc desc \<Longrightarrow> \<exists>kvs. desc = JObj kvs"
  by (subst (asm) wf_desc.simps) (auto split: json.splits)

text \<open>In such a description the fields that the judge looks at are present or absent, never falsy.\<close>

lemma wf_truthy:
  assumes "wf_desc desc"
  shows "truthy_field ''type'' desc = jfield ''type'' desc" "truthy_field ''items'' desc = jfield ''items'' desc"
    "truthy_field ''properties'' desc = jfield ''properties'' desc"
proof -
  show "truthy_field ''type'' desc = jfield ''type'' desc"
    using assms by (subst (asm) wf_desc.simps) (auto simp: truthy_field_def typed_def untyped_def json_types_def)
  have "items \<noteq> JNull \<Longrightarrow> (\<exists>kvs. items = JObj kvs) \<Longrightarrow> truthy (Some items)" for items by auto
  moreover have "\<exists>kvs. items = JObj kvs" if "jfield ''items'' desc = Some items" for items
    using assms that by (subst (asm) wf_desc.simps) (auto intro: wf_object)
  ultimately show "truthy_field ''items'' desc = jfield ''items'' desc"
    by (cases "jfield ''items'' desc") (fastforce simp: truthy_field_def)+
  show "truthy_field ''properties'' desc = jfield ''properties'' desc"
    using assms by (subst (asm) wf_desc.simps) (auto simp: truthy_field_def split: option.splits json.splits)
qed

text \<open>What the schema library documents of the combinators that the judge uses; a property with the name
  of one that every object inherits is left open.\<close>

definition zod_laws :: "(zschema \<Rightarrow> json option \<Rightarrow> (string list \<times> string) list option) \<Rightarrow> bool" where
  "zod_laws p \<longleftrightarrow>
     (\<forall>v. p ZAny v = None)
     \<and> (\<forall>v. p ZString v = None \<longleftrightarrow> (\<exists>x. v = Some (JStr x)))
     \<and> (\<forall>v. p ZNumber v = None \<longleftrightarrow> (\<exists>x. v = Some (JNum x)))
     \<and> (\<forall>v. p ZBoolean v = None \<longleftrightarrow> (\<exists>x. v = Some (JBool x)))
     \<and> (\<forall>s v. p (ZArray s) v = None \<longleftrightarrow> (\<exists>xs. v = Some (JArr xs) \<and> (\<forall>x \<in> set xs. p s (Some x) = None)))
     \<and> (\<forall>sh v. set (map fst sh) \<inter> set object_prototype = {} \<longrightarrow> (p (ZObject sh) v = None \<longleftrightarrow> (\<exists>ws. v = Some (JObj ws) \<and> (\<forall>(k, s) \<in> set sh. p s (map_of ws k) = None))))
     \<and> (\<forall>s v. p (ZOptional s) v = None \<longleftrightarrow> v = None \<or> p s v = None)"

lemma zod_simps:
  assumes "zod_laws p"
  shows "p ZAny v = None" "p ZString v = None \<longleftrightarrow> (\<exists>x. v = Some (JStr x))" "p ZNumber v = None \<longleftrightarrow> (\<exists>x. v = Some (JNum x))"
    "p ZBoolean v = None \<longleftrightarrow> (\<exists>x. v = Some (JBool x))"
    "p (ZArray s) v = None \<longleftrightarrow> (\<exists>xs. v = Some (JArr xs) \<and> (\<forall>x \<in> set xs. p s (Some x) = None))"
    "set (map fst sh) \<inter> set object_prototype = {} \<Longrightarrow> p (ZObject sh) v = None \<longleftrightarrow> (\<exists>ws. v = Some (JObj ws) \<and> (\<forall>(k, s) \<in> set sh. p s (map_of ws k) = None))"
    "p (ZOptional s) v = None \<longleftrightarrow> v = None \<or> p s v = None"
  using assms by (auto simp: zod_laws_def)

definition agrees :: "(zschema \<Rightarrow> json option \<Rightarrow> (string list \<times> string) list option) \<Rightarrow> json \<Rightarrow> zschema \<Rightarrow> bool" where
  "agrees p desc s \<longleftrightarrow> (\<forall>v. p s (Some v) = None \<longleftrightarrow> valid_json desc v) \<and> (typed desc \<longrightarrow> p s None \<noteq> None)"

lemma required_strings: "as_strs rq = Some ks \<Longrightarrow> required_names bad (Some rq) = Inr ks"
proof (cases rq)
  case (JArr xs)
  assume "as_strs rq = Some ks"
  then have "those (map as_str xs) = Some ks" by (simp add: JArr)
  then have "List.map_filter as_str xs = ks"
    by (induction xs arbitrary: ks) (auto simp: List.map_filter_def split: option.splits)
  then show ?thesis by (simp add: JArr)
qed auto

lemma agrees_type:
  assumes "jfield ''type'' desc = Some (JStr t)" "\<not> type_is t v" "desc \<noteq> JBool False"
  shows "\<not> valid_json desc v"
  using assms by (subst valid_json.simps) simp

lemma object_agrees:
  assumes laws: "zod_laws p" and obj_type: "jfield ''type'' desc = Some (JStr ''object'')"
    and props: "jfield ''properties'' desc = Some props" and wf: "wf_desc desc"
    and req: "(case jfield ''required'' desc of None \<Rightarrow> ks = [] | Some rq \<Rightarrow> as_strs rq = Some ks)"
    and each: "\<And>k pd. (k, pd) \<in> set (object_entries props) \<Longrightarrow> agrees p pd (g pd)"
  shows "agrees p desc (ZObject (map (\<lambda>(k, pd). (k, if k \<in> set ks then g pd else ZOptional (g pd))) (object_entries props)))"
    (is "agrees p desc (ZObject ?sh)")
proof -
  note z = zod_simps [OF laws]
  have obj: "desc \<noteq> JBool False" using wf_object [OF wf] by auto
  have dist: "distinct (map fst (object_entries props))"
    and known: "\<And>k. k \<in> set ks \<Longrightarrow> \<exists>pd. (k, pd) \<in> set (object_entries props) \<and> typed pd"
    and names: "\<And>k pd. (k, pd) \<in> set (object_entries props) \<Longrightarrow> k \<notin> set object_prototype"
    using wf req props by (subst (asm) wf_desc.simps, auto simp: list_all_iff split: option.splits)+
  have own: "set (map fst ?sh) \<inter> set object_prototype = {}" using names by auto
  have typed: "typed pd" if "(k, pd) \<in> set (object_entries props)" "k \<in> set ks" for k pd
    using known [OF that(2)] that(1) dist by (metis map_of_eq_Some_iff option.inject)
  have fields: "p (if k \<in> set ks then g pd else ZOptional (g pd)) (map_of ws k) = None
      \<longleftrightarrow> (case map_of ws k of None \<Rightarrow> k \<notin> set ks | Some w \<Rightarrow> valid_json pd w)"
    if "(k, pd) \<in> set (object_entries props)" for k pd ws
    using each [OF that] typed [OF that] by (auto simp: agrees_def z split: option.split)
  let ?a = "\<lambda>ws. \<forall>k \<in> set ks. map_of ws k \<noteq> None"
  let ?b = "\<lambda>ws. \<forall>(k, pd) \<in> set (object_entries props). case map_of ws k of None \<Rightarrow> True | Some w \<Rightarrow> valid_json pd w"
  have valid: "valid_json desc (JObj ws) \<longleftrightarrow> ?a ws \<and> ?b ws" for ws
  proof -
    have "jfield ''items'' desc = Some items \<Longrightarrow> (case JObj ws of JArr xs \<Rightarrow> list_all (valid_json items) xs | _ \<Rightarrow> True)" for items
      by simp
    then show ?thesis
      using req by (subst valid_json.simps)
        (auto simp: obj obj_type props type_is_def list_all_iff list_or_empty_def map_of_eq_None_iff image_iff split: option.splits)
  qed
  have accepts: "p (ZObject ?sh) (Some (JObj ws)) = None \<longleftrightarrow> ?a ws \<and> ?b ws" for ws
  proof -
    have "p (ZObject ?sh) (Some (JObj ws)) = None
        \<longleftrightarrow> (\<forall>(k, pd) \<in> set (object_entries props). p (if k \<in> set ks then g pd else ZOptional (g pd)) (map_of ws k) = None)"
      by (simp only: z(6) [OF own] set_map ball_simps) (simp add: case_prod_beta)
    also have "\<dots> \<longleftrightarrow> (\<forall>(k, pd) \<in> set (object_entries props). case map_of ws k of None \<Rightarrow> k \<notin> set ks | Some w \<Rightarrow> valid_json pd w)"
      by (rule ball_cong [OF refl]) (simp only: case_prod_beta fields prod.collapse)
    also have "\<dots> \<longleftrightarrow> ?a ws \<and> ?b ws"
    proof
      assume all: "\<forall>(k, pd) \<in> set (object_entries props). case map_of ws k of None \<Rightarrow> k \<notin> set ks | Some w \<Rightarrow> valid_json pd w"
      have "?a ws" using all known by (fastforce split: option.splits)
      moreover have "?b ws" using all by (auto split: option.splits)
      ultimately show "?a ws \<and> ?b ws" ..
    next
      assume "?a ws \<and> ?b ws"
      then show "\<forall>(k, pd) \<in> set (object_entries props). case map_of ws k of None \<Rightarrow> k \<notin> set ks | Some w \<Rightarrow> valid_json pd w"
        by (auto split: option.splits)
    qed
    finally show ?thesis .
  qed
  have "p (ZObject ?sh) (Some v) = None \<longleftrightarrow> valid_json desc v" for v
  proof (cases "\<exists>ws. v = JObj ws")
    case True
    with valid accepts show ?thesis by auto
  next
    case False
    then have "\<not> valid_json desc v"
      using agrees_type [OF obj_type _ obj, of v] by (cases v) (auto simp: type_is_def)
    with False show ?thesis by (simp add: z(6) [OF own])
  qed
  moreover have "p (ZObject ?sh) None \<noteq> None" by (simp add: z(6) [OF own])
  ultimately show ?thesis unfolding agrees_def by blast
qed

text \<open>For a type without parts the other keywords of the description say nothing.\<close>

lemma flat_agrees:
  assumes "wf_desc desc" "jfield ''type'' desc = Some (JStr t)" "t \<in> {''string'', ''number'', ''boolean''}"
  shows "valid_json desc v = type_is t v"
proof (cases "type_is t v")
  case True
  with assms(3) have "\<And>xs. v \<noteq> JArr xs" "\<And>ws. v \<noteq> JObj ws" by (auto simp: type_is_def)
  then have "(case v of JArr xs \<Rightarrow> list_all (valid_json i) xs | _ \<Rightarrow> True)"
    "(case v of JObj ws \<Rightarrow> q ws | _ \<Rightarrow> True)" for i q by (auto split: json.split)
  with True assms(2) wf_object [OF assms(1)] show ?thesis by (subst valid_json.simps) (auto split: option.split)
next
  case False
  with agrees_type [OF assms(2)] wf_object [OF assms(1)] show ?thesis by auto
qed

lemma array_agrees:
  assumes "wf_desc desc" "jfield ''type'' desc = Some (JStr ''array'')"
  shows "valid_json desc v \<longleftrightarrow> (\<exists>xs. v = JArr xs
    \<and> (case jfield ''items'' desc of None \<Rightarrow> True | Some items \<Rightarrow> \<forall>x \<in> set xs. valid_json items x))"
proof (cases v)
  case (JArr xs)
  then show ?thesis
    using assms(2) wf_object [OF assms(1)] by (subst valid_json.simps) (auto simp: type_is_def list_all_iff split: option.split)
qed (use agrees_type [OF assms(2)] wf_object [OF assms(1)] in \<open>auto simp: type_is_def\<close>)

lemma bare_object_agrees:
  assumes "wf_desc desc" "jfield ''type'' desc = Some (JStr ''object'')" "jfield ''properties'' desc = None"
    "case jfield ''required'' desc of None \<Rightarrow> True | Some rq \<Rightarrow> as_strs rq = Some []"
  shows "valid_json desc v \<longleftrightarrow> (\<exists>ws. v = JObj ws)"
proof (cases v)
  case (JObj ws)
  then show ?thesis
    using assms(2-4) wf_object [OF assms(1)] by (subst valid_json.simps) (auto simp: type_is_def list_or_empty_def split: option.splits)
qed (use agrees_type [OF assms(2)] wf_object [OF assms(1)] in \<open>auto simp: type_is_def\<close>)

lemma schema_agrees:
  assumes "zod_laws p" "wf_desc desc"
  shows "\<exists>s. jsonToZodSchema bad desc = Inr s \<and> agrees p desc s"
  using assms(2)
proof (induction "size desc" arbitrary: desc rule: less_induct)
  case less
  note z = zod_simps [OF assms(1)] and tr = wf_truthy [OF less.prems]
  show ?case
  proof (cases "jfield ''type'' desc")
    case None
    have "jsonToZodSchema bad desc = Inr ZAny" by (subst jsonToZodSchema.simps) (simp add: tr None)
    moreover have "untyped desc" using less.prems None by (subst (asm) wf_desc.simps) (simp add: typed_def list_ex_iff)
    then have "agrees p desc ZAny"
      using wf_object [OF less.prems] None
      by (subst agrees_def, subst valid_json.simps) (auto simp: z typed_def list_ex_iff untyped_def)
    ultimately show ?thesis by blast
  next
    case (Some t)
    with less.prems have "t \<in> JStr ` set json_types"
      by (subst (asm) wf_desc.simps) (auto simp: typed_def untyped_def list_ex_iff)
    then consider (string) "t = JStr ''string''" | (number) "t = JStr ''number''" | (boolean) "t = JStr ''boolean''"
      | (array) "t = JStr ''array''" | (object) "t = JStr ''object''"
      by (simp only: json_types_def list.set image_insert image_empty insert_iff empty_iff) metis
    then show ?thesis
    proof cases
      case string
      then have "jsonToZodSchema bad desc = Inr ZString" by (subst jsonToZodSchema.simps) (simp add: tr Some)
      moreover have "agrees p desc ZString"
        using flat_agrees [OF less.prems] Some string by (simp add: agrees_def z type_is_def split: json.split)
      ultimately show ?thesis by blast
    next
      case number
      then have "jsonToZodSchema bad desc = Inr ZNumber" by (subst jsonToZodSchema.simps) (simp add: tr Some)
      moreover have "agrees p desc ZNumber"
        using flat_agrees [OF less.prems] Some number by (simp add: agrees_def z type_is_def split: json.split)
      ultimately show ?thesis by blast
    next
      case boolean
      then have "jsonToZodSchema bad desc = Inr ZBoolean" by (subst jsonToZodSchema.simps) (simp add: tr Some)
      moreover have "agrees p desc ZBoolean"
        using flat_agrees [OF less.prems] Some boolean by (simp add: agrees_def z type_is_def split: json.split)
      ultimately show ?thesis by blast
    next
      case array
      with Some have a: "jfield ''type'' desc = Some (JStr ''array'')" by simp
      show ?thesis
      proof (cases "jfield ''items'' desc")
        case None
        with array have "jsonToZodSchema bad desc = Inr (ZArray ZAny)" by (subst jsonToZodSchema.simps) (simp add: tr Some)
        moreover have "agrees p desc (ZArray ZAny)"
          by (simp add: agrees_def array_agrees [OF less.prems a] z None)
        ultimately show ?thesis by blast
      next
        case items: (Some items)
        have "wf_desc items" using less.prems items by (subst (asm) wf_desc.simps) simp
        from less.hyps [OF size_jfield [OF items] this] obtain s where
          s: "jsonToZodSchema bad items = Inr s" "agrees p items s" by blast
        have "jsonToZodSchema bad desc = Inr (ZArray s)"
          using array items s by (subst jsonToZodSchema.simps) (simp add: tr Some)
        moreover have "agrees p desc (ZArray s)"
          using s(2) by (auto simp: agrees_def array_agrees [OF less.prems a] z items)
        ultimately show ?thesis by blast
      qed
    next
      case object
      with Some have o: "jfield ''type'' desc = Some (JStr ''object'')" by simp
      obtain ks where ks: "case jfield ''required'' desc of None \<Rightarrow> ks = [] | Some rq \<Rightarrow> as_strs rq = Some ks"
        using less.prems by (subst (asm) wf_desc.simps) (auto split: option.splits)
      then have names: "required_names bad (jfield ''required'' desc) = Inr ks"
        by (auto split: option.splits intro: required_strings)
      show ?thesis
      proof (cases "jfield ''properties'' desc")
        case None
        then have "ks = []" using less.prems ks by (subst (asm) wf_desc.simps) (cases ks, auto split: option.splits)
        with ks have none: "case jfield ''required'' desc of None \<Rightarrow> True | Some rq \<Rightarrow> as_strs rq = Some []"
          by (auto split: option.split)
        then have "agrees p desc (ZObject [])"
          by (simp add: agrees_def bare_object_agrees [OF less.prems o None none] z)
        moreover have "jsonToZodSchema bad desc = Inr (ZObject [])" using object None by (subst jsonToZodSchema.simps) (simp add: tr Some)
        ultimately show ?thesis by blast
      next
        case props: (Some props)
        have "\<exists>s. jsonToZodSchema bad pd = Inr s \<and> agrees p pd s" if "(k, pd) \<in> set (object_entries props)" for k pd
        proof (rule less.hyps)
          from size_object_entries [OF that] size_jfield [OF props] show "size pd < size desc" by simp
          show "wf_desc pd" using less.prems props that by (subst (asm) wf_desc.simps) (auto simp: list_all_iff)
        qed
        then have g: "jsonToZodSchema bad pd = Inr (projr (jsonToZodSchema bad pd)) \<and> agrees p pd (projr (jsonToZodSchema bad pd))"
          if "(k, pd) \<in> set (object_entries props)" for k pd
          using that by fastforce
        let ?g = "\<lambda>pd. projr (jsonToZodSchema bad pd)"
        have "jsonToZodSchema bad desc
            = Inr (ZObject (map (\<lambda>(k, pd). (k, if k \<in> set ks then ?g pd else ZOptional (?g pd))) (object_entries props)))"
          using object props names g by (subst jsonToZodSchema.simps) (auto simp: tr Some map_sum_Inr intro!: traverse_map)
        moreover have "agrees p desc (ZObject (map (\<lambda>(k, pd). (k, if k \<in> set ks then ?g pd else ZOptional (?g pd))) (object_entries props)))"
          using g by (intro object_agrees [OF assms(1) o props less.prems ks]) auto
        ultimately show ?thesis by blast
      qed
    qed
  qed
qed

text \<open>
  C28. A schema rule checks a JSON schema. Let the description that the pattern of the rule holds use,
  besides annotations, only the keywords type, items, properties and required; let every part of it
  that uses one of them name one of the types string, number, boolean, array and object, every required
  name be a property with a type, and no property have a name that every object inherits. Then the rule
  passes, with the score 1, exactly when the output is valid against the description as a JSON schema,
  and it scores 0 otherwise, given what the schema library documents. Outside this class the two
  differ: without a type the other keywords are not looked at, keywords such as enum never, and a
  required name without a typed property is not asked for.
\<close>

theorem schema_rule_is_json_schema:
  assumes "zod_laws (jd_safeParse env)" "er_pattern rule = Some p" "p \<noteq> []" "jd_jparse env p = Inr desc" "wf_desc desc"
    and "er_type rule = ''schema''"
  shows "\<exists>j. applyRule env n rule (Some out) expected = Inr (j, n)
     \<and> ju_passed j = valid_json desc out \<and> ju_score j = (if valid_json desc out then 1 else 0) \<and> (ju_reason j = None \<longleftrightarrow> valid_json desc out)"
proof -
  from schema_agrees [OF assms(1,5), of "jd_not_iterable env"] obtain s where
    s: "rule_schema env p = Inr s" "jd_safeParse env s (Some out) = None \<longleftrightarrow> valid_json desc out"
    by (auto simp: rule_schema_def assms(4) agrees_def)
  show ?thesis
    using s assms(2,3,6) by (cases "jd_safeParse env s (Some out)") (simp_all add: applyRule_def applySchemaRule_def judged_def)
qed

fun zod_accepts :: "zschema \<Rightarrow> json option \<Rightarrow> bool" where
  "zod_accepts ZAny v = True"
| "zod_accepts ZString v = (case v of Some (JStr _) \<Rightarrow> True | _ \<Rightarrow> False)"
| "zod_accepts ZNumber v = (case v of Some (JNum _) \<Rightarrow> True | _ \<Rightarrow> False)"
| "zod_accepts ZBoolean v = (case v of Some (JBool _) \<Rightarrow> True | _ \<Rightarrow> False)"
| "zod_accepts (ZArray s) v = (case v of Some (JArr xs) \<Rightarrow> list_all (\<lambda>x. zod_accepts s (Some x)) xs | _ \<Rightarrow> False)"
| "zod_accepts (ZObject sh) v = (case v of Some (JObj ws) \<Rightarrow> list_all (\<lambda>(k, s). zod_accepts s (map_of ws k)) sh | _ \<Rightarrow> False)"
| "zod_accepts (ZOptional s) v = (v = None \<or> zod_accepts s v)"

definition sample_desc :: json where
  "sample_desc = JObj [(''type'', JStr ''object''),
     (''properties'', JObj [(''answer'', JObj [(''type'', JStr ''string'')]), (''sources'', JObj [(''type'', JStr ''array''), (''items'', JObj [(''type'', JStr ''string'')])])]),
     (''required'', JArr [JStr ''answer''])]"

text \<open>A rounding to ten binary places.\<close>

definition sample_round :: "rat \<Rightarrow> rat" where
  "sample_round x = of_int \<lfloor>x * 1024 + 1 / 2\<rfloor> / 1024"

lemma sample_round_whole: "whole_numbers sample_round n"
proof -
  have "\<lfloor>of_nat k * 1024 + 1 / 2 :: rat\<rfloor> = int k * 1024" for k by (rule floor_unique) auto
  then have "sample_round (of_nat k) = of_nat k" for k by (simp add: sample_round_def)
  moreover have "mono sample_round"
    by (intro monoI) (simp add: sample_round_def divide_right_mono floor_mono)
  ultimately show ?thesis by (simp add: whole_numbers_def)
qed

definition sample_judge :: judge_env where
  "sample_judge = \<lparr>jd_stringify = (\<lambda>_. ''{}''), jd_pretty = (\<lambda>_. ''{}''), jd_jparse = (\<lambda>_. Inr sample_desc), jd_regexp = (\<lambda>_. Inl ''invalid''),
     jd_safeParse = (\<lambda>s v. if zod_accepts s v then None else Some [([], ''Invalid input'')]), jd_not_iterable = (\<lambda>_. ''not iterable''), jd_round = sample_round,
     jd_complete = Some (\<lambda>_ _. Inr ''Score: 0.9'')\<rparr>"

definition schema_rule :: eval_rule where
  "schema_rule = \<lparr>er_rule_id = ''shape'', er_type = ''schema'', er_pattern = Some ''{...}'', er_template = None, er_weight = 1\<rparr>"

lemma zod_accepts_laws: "zod_laws (\<lambda>s v. if zod_accepts s v then None else Some [([], ''Invalid input'')])"
  by (auto simp: zod_laws_def list_all_iff split: option.splits json.splits)

theorem schema_rule_is_json_schema_witness:
  "map (\<lambda>out. map_sum id (ju_passed \<circ> fst) (applyRule sample_judge 0 schema_rule (Some out) \<lparr>ee_rubrics = [], ee_thresholds = [], ee_required_outputs = None\<rparr>))
     [JObj [(''answer'', JStr ''yes'')], JObj [(''sources'', JArr [])], JObj [(''answer'', JStr ''yes''), (''sources'', JArr [JNum 1])]]
   = [Inr True, Inr False, Inr False]"
proof -
  have env: "zod_laws (jd_safeParse sample_judge)" "er_pattern schema_rule = Some ''{...}''" "''{...}'' \<noteq> []"
    "jd_jparse sample_judge ''{...}'' = Inr sample_desc" "er_type schema_rule = ''schema''"
    using zod_accepts_laws by (simp_all add: sample_judge_def schema_rule_def)
  have wf: "wf_desc sample_desc"
    by (simp add: sample_desc_def wf_desc.simps typed_def json_types_def json_keywords_def object_prototype_def)
  have valid: "valid_json sample_desc (JObj [(''answer'', JStr ''yes'')])" "\<not> valid_json sample_desc (JObj [(''sources'', JArr [])])"
    "\<not> valid_json sample_desc (JObj [(''answer'', JStr ''yes''), (''sources'', JArr [JNum 1])])"
    by (simp_all add: sample_desc_def valid_json.simps type_is_def list_or_empty_def)
  note r = schema_rule_is_json_schema [OF env(1-4) wf env(5), of 0 _ "\<lparr>ee_rubrics = [], ee_thresholds = [], ee_required_outputs = None\<rparr>"]
  from r [of "JObj [(''answer'', JStr ''yes'')]"] r [of "JObj [(''sources'', JArr [])]"]
    r [of "JObj [(''answer'', JStr ''yes''), (''sources'', JArr [JNum 1])]"] valid
  show ?thesis by auto
qed


section \<open>Replay of traced runs\<close>

text \<open>What a replay looks at in a call: the output of a tool result, and the principles that an error
  refers to. Only an event given to \<open>trace\<close> as a whole can have such references.\<close>

fun result_output :: "trace_op \<Rightarrow> json option" where
  "result_output (Trace_tool_result _ output _ _) = Some output"
| "result_output (Trace_event _ e) =
     (if event_type e = Tool_result then Option.bind (data e) (\<lambda>kvs. map_of kvs ''output'') else None)"
| "result_output _ = None"

fun cited :: "trace_op \<Rightarrow> string list option" where
  "cited (Trace_event _ e) = (if event_type e = event_type.Error then principle_refs e else None)"
| "cited _ = None"

definition replayed :: "(json \<Rightarrow> string) \<Rightarrow> (json \<Rightarrow> string) \<Rightarrow> (json \<Rightarrow> string) \<Rightarrow> string list \<Rightarrow> string \<Rightarrow> string \<times> trace_op \<Rightarrow>
    replay_violation list" where
  "replayed hash stringify shown phrases run nop =
     (case result_output (snd nop) of
        None \<Rightarrow> []
      | Some output \<Rightarrow>
          if truthy (Some output)
          then map (\<lambda>phrase. \<lparr>rv_event = trace_json hash run (fst nop) (snd nop), rv_violation_type = ''forbidden_phrase'',
                   rv_reason = ''Output contains forbidden phrase: \"'' @ phrase @ ''\"''\<rparr>)
                 (filter (\<lambda>phrase. str_includes (to_lower (stringify output)) (to_lower phrase)) phrases)
          else [])
     @ (case cited (snd nop) of
          None \<Rightarrow> []
        | Some refs \<Rightarrow> [\<lparr>rv_event = trace_json hash run (fst nop) (snd nop), rv_violation_type = ''principle_violation'',
            rv_reason = ''Error occurred while following principles: '' @ join '', '' (map (\<lambda>r. join_item shown (JStr r)) refs)\<rparr>])"

lemma trace_json_object: "trace_json hash run now op \<noteq> JNull"
  by (simp add: trace_json_def obj_of_def)

lemma event_json_fields:
  "jfield ''event_type'' (event_to_json e) = Some (JStr (event_type_str (event_type e)))"
  "jfield ''data'' (event_to_json e) = map_option JObj (data e)"
  "jfield ''principle_refs'' (event_to_json e) = map_option strs_to_json (principle_refs e)"
  by (simp_all add: event_to_json_def)

lemma event_type_names:
  "event_type_str t = ''tool_result'' \<longleftrightarrow> t = Tool_result" "event_type_str t = ''error'' \<longleftrightarrow> t = event_type.Error"
  by (cases t; simp)+

lemma generic_violations:
  "event_violations stringify shown phrases (trace_json hash run now (Trace_event ks e))
     = Some (replayed hash stringify shown phrases run (now, Trace_event ks e))"
proof -
  let ?j = "trace_json hash run now (Trace_event ks e)"
  have f: "jfield ''event_type'' ?j = Some (JStr (event_type_str (event_type e)))" "jfield ''data'' ?j = map_option JObj (data e)"
    "jfield ''principle_refs'' ?j = map_option strs_to_json (principle_refs e)"
    unfolding generic_fields event_json_fields by simp_all
  have p: "principle_violations shown ?j = Some (case cited (Trace_event ks e) of
          None \<Rightarrow> []
        | Some refs \<Rightarrow> [\<lparr>rv_event = ?j, rv_violation_type = ''principle_violation'',
            rv_reason = ''Error occurred while following principles: '' @ join '', '' (map (\<lambda>r. join_item shown (JStr r)) refs)\<rparr>])"
    unfolding principle_violations_def truthy_field_def f
    by (cases "principle_refs e") (simp_all add: event_type_names strs_to_json_def comp_def)
  have q: "phrase_violations stringify phrases ?j = (case result_output (Trace_event ks e) of
        None \<Rightarrow> []
      | Some output \<Rightarrow>
          if truthy (Some output)
          then map (\<lambda>phrase. \<lparr>rv_event = ?j, rv_violation_type = ''forbidden_phrase'',
                   rv_reason = ''Output contains forbidden phrase: \"'' @ phrase @ ''\"''\<rparr>)
                 (filter (\<lambda>phrase. str_includes (to_lower (stringify output)) (to_lower phrase)) phrases)
          else [])"
    unfolding phrase_violations_def f
    by (cases "data e") (auto simp: event_type_names truthy_field_def split: option.split)
  show ?thesis
    by (simp only: event_violations_def trace_json_object if_False p q option.map replayed_def fst_conv snd_conv)
qed

lemma traced_violations:
  "event_violations stringify shown phrases (trace_json hash run now op) = Some (replayed hash stringify shown phrases run (now, op))"
proof (cases op)
  case (Trace_event ks e)
  then show ?thesis by (simp only: generic_violations)
qed (use trace_json_object [of hash run now op] in \<open>auto simp: event_violations_def principle_violations_def phrase_violations_def
      replayed_def trace_json_def truthy_field_def split: option.split\<close>)

definition replays_clean :: "(json \<Rightarrow> string) \<Rightarrow> string list \<Rightarrow> trace_op \<Rightarrow> bool" where
  "replays_clean stringify phrases op \<longleftrightarrow> cited op = None
     \<and> (\<forall>output phrase. result_output op = Some output \<longrightarrow> truthy (Some output) \<longrightarrow> phrase \<in> set phrases \<longrightarrow>
          \<not> str_includes (to_lower (stringify output)) (to_lower phrase))"

lemma replayed_clean: "replayed hash stringify shown phrases run nop = [] \<longleftrightarrow> replays_clean stringify phrases (snd nop)"
  by (auto simp: replayed_def replays_clean_def filter_empty_conv split: option.splits)


definition sample_print :: "json \<Rightarrow> string" where
  "sample_print j = (case j of JStr s \<Rightarrow> s | _ \<Rightarrow> sample_stringify j)"


end
