(* ===== verification/Commands.thy ===== *)
theory Commands
  imports AgentFile Drift Consolidate Evaluate "HOL-Library.List_Lexorder" "HOL-Library.Char_ord"
begin

text \<open>
  TasteKit command line, commands/drift.ts, commands/eval.ts and commands/compile.ts, with the output
  helpers of ui.ts. A command ends with the exit code of the process, the value that it printed as
  JSON, if any, and the disk; the coloured text on the terminal is left out. \<open>jsonOutput\<close> ends the
  process, so what follows it in a command is not reached with \<open>--json\<close>. Names of proposals hold no slash.
\<close>

section \<open>The end of a command\<close>

record cli_result =
  cx_code :: nat
  cx_json :: "json option"
  cx_disk :: disk

definition finish :: "disk \<Rightarrow> cli_result" where
  "finish d = \<lparr>cx_code = 0, cx_json = None, cx_disk = d\<rparr>"

text \<open>\<open>handleError\<close> and \<open>process.exit(1)\<close>.\<close>

definition exit_one :: "disk \<Rightarrow> cli_result" where
  "exit_one d = \<lparr>cx_code = 1, cx_json = None, cx_disk = d\<rparr>"

definition jsonOutput :: "json \<Rightarrow> disk \<Rightarrow> cli_result" where
  "jsonOutput j d = \<lparr>cx_code = 0, cx_json = Some j, cx_disk = d\<rparr>"

text \<open>\<open>if (globals.json) jsonOutput(j); rest\<close>.\<close>

definition json_or_else :: "bool \<Rightarrow> json \<Rightarrow> cli_result \<Rightarrow> cli_result" where
  "json_or_else json_mode j rest = (if json_mode then jsonOutput j (cx_disk rest) else rest)"

text \<open>The options \<open>--json\<close> and \<open>--verbose\<close> may stand at any level of a command.\<close>

definition getGlobalOptions :: "(bool \<times> bool) list \<Rightarrow> bool \<times> bool" where
  "getGlobalOptions levels = (list_ex fst levels, list_ex snd levels)"

definition stepped :: "string option \<times> disk \<Rightarrow> (disk \<Rightarrow> cli_result) \<Rightarrow> cli_result" where
  "stepped r k = (case fst r of Some e \<Rightarrow> exit_one (snd r) | None \<Rightarrow> k (snd r))"

text \<open>The names in a directory, and the write of a JSON value.\<close>

definition child_names :: "disk \<Rightarrow> segments \<Rightarrow> string list" where
  "child_names d p = map last (filter (\<lambda>q. q \<noteq> [] \<and> butlast q = p) (map fst (dk_files d) @ dk_dirs d))"

definition write_json :: "export_env \<Rightarrow> segments \<Rightarrow> json \<Rightarrow> disk_step" where
  "write_json env p j = write_step (ae_oserr (xe_adapter env)) p (ae_stringify (xe_adapter env) j)"

definition read_json_file :: "export_env \<Rightarrow> segments \<Rightarrow> disk \<Rightarrow> string + json" where
  "read_json_file env = read_json (xe_adapter env)"

section \<open>drift detect\<close>

fun signal_name :: "signal_type \<Rightarrow> string" where
  "signal_name Repeated_edit = ''repeated_edit''"
| "signal_name Principle_violation = ''principle_violation''"
| "signal_name User_correction = ''user_correction''"
| "signal_name Tool_change = ''tool_change''"
| "signal_name Staleness = ''staleness''"
| "signal_name Coverage_gap = ''coverage_gap''"
| "signal_name Assertion_mismatch = ''assertion_mismatch''"

fun rating_name :: "risk_rating \<Rightarrow> string" where
  "rating_name Low_rating = ''low''"
| "rating_name Medium_rating = ''medium''"
| "rating_name High_rating = ''high''"

definition proposal_json :: "drift_proposal \<Rightarrow> json" where
  "proposal_json p =
     JObj [(''proposal_id'', JStr (dp_id p)), (''created_at'', JStr (dp_created_at p)), (''signal_type'', JStr (signal_name (dp_signal_type p))),
       (''frequency'', JNum (of_int (dp_frequency p))), (''rationale'', JStr (dp_rationale p)), (''proposed_changes'', dp_proposed_changes p),
       (''risk_rating'', JStr (rating_name (dp_risk_rating p))),
       (''evidence'', obj_of [(''reason'', ev_reason (dp_evidence p)), (''occurrences'', Some (JNum (of_int (ev_occurrences (dp_evidence p))))),
          (''context'', Some (JObj (ev_context (dp_evidence p))))])]"

definition proposals_json :: "drift_proposal list \<Rightarrow> json" where
  "proposals_json ps = JObj [(''proposals'', JArr (map proposal_json ps))]"

text \<open>A date that does not parse is after every event.\<close>

definition detect_proposals ::
  "drift_env \<Rightarrow> (string \<Rightarrow> trace_event option) \<Rightarrow> disk \<Rightarrow> segments list \<Rightarrow> string option \<Rightarrow> string option \<Rightarrow> drift_proposal list option" where
  "detect_proposals denv parse_event d traceFiles since skill =
     (let opts = \<lparr>do_since = None, do_skillId = (if text_or [] skill = [] then None else skill), do_constitutionPath = None,
                  do_knownSkillIds = None, do_knownToolRefs = None\<rparr>
      in if text_or [] since = [] then detectFromTraces denv parse_event d traceFiles opts
         else (case de_ms denv (the since) of
                 Some t \<Rightarrow> detectFromTraces denv parse_event d traceFiles (opts\<lparr>do_since := Some t\<rparr>)
               | None \<Rightarrow> map_option (\<lambda>_. proposals_from denv (detectSignals denv d [] opts)) (read_events parse_event d traceFiles)))"

definition proposal_path :: "segments \<Rightarrow> string \<Rightarrow> segments" where
  "proposal_path cwd k = cwd @ [''.tastekit'', ''proposals'', k @ ''.json'']"

definition drift_detect ::
  "export_env \<Rightarrow> drift_env \<Rightarrow> (string \<Rightarrow> trace_event option) \<Rightarrow> segments \<Rightarrow> string option \<Rightarrow> string option \<Rightarrow> bool \<Rightarrow> disk \<Rightarrow> cli_result" where
  "drift_detect env denv parse_event cwd since skill json_mode d =
     (let tracesDir = resolveTracesPath d (cwd @ [''.tastekit'']);
          traceFiles = map (\<lambda>f. tracesDir @ [f]) (filter (\<lambda>f. ends_with f ''.jsonl'') (child_names d tracesDir))
      in if \<not> existsSync d tracesDir then finish d
         else if \<not> is_dir d tracesDir then exit_one d
         else if traceFiles = [] then finish d
         else (case detect_proposals denv parse_event d traceFiles since skill of
                 None \<Rightarrow> exit_one d
               | Some [] \<Rightarrow> json_or_else json_mode (proposals_json []) (finish d)
               | Some proposals \<Rightarrow>
                   stepped (run_steps (mkdir_step (cwd @ [''.tastekit'', ''proposals''])
                       # map (\<lambda>p. write_json env (proposal_path cwd (dp_id p)) (proposal_json p)) proposals) d)
                     (\<lambda>d'. json_or_else json_mode (proposals_json proposals) (finish d'))))"

section \<open>drift apply\<close>

definition old_constitution :: "segments \<Rightarrow> segments" where
  "old_constitution cwd = cwd @ [''.tastekit'', ''artifacts'', ''constitution.v1.json'']"

text \<open>\<open>constitution.principles.push(p)\<close>.\<close>

definition push_principle :: "json \<Rightarrow> json \<Rightarrow> string + json" where
  "push_principle p c =
     sum_bind (dot ''principles'' (Some c)) (\<lambda>ps.
     sum_bind (as_array ''constitution.principles'' ''push'' ps) (\<lambda>ps.
     Inr (case c of JObj kvs \<Rightarrow> JObj (AList.update ''principles'' (JArr (ps @ [p])) kvs) | _ \<Rightarrow> c)))"

text \<open>The constitution that a proposal makes of another one; \<open>None\<close> where the proposal has no change of it.\<close>

definition changed_constitution :: "export_env \<Rightarrow> segments \<Rightarrow> json \<Rightarrow> disk \<Rightarrow> string + json option" where
  "changed_constitution env cwd proposal d =
     (if existsSync d (old_constitution cwd)
      then sum_bind (dot ''proposed_changes'' (Some proposal)) (\<lambda>changes.
           sum_bind (dot ''constitution'' changes) (\<lambda>change.
           if truthy change
           then sum_bind (read_json_file env (old_constitution cwd) d) (\<lambda>c.
                let p = dot_opt ''add_principle'' change in
                if truthy p then map_sum id Some (push_principle (the p) c) else Inr (Some c))
           else Inr None))
      else Inr None)"

text \<open>\<open>proposal.applied_at = now\<close>; on a value that is no object it throws, on an array it is not printed.\<close>

definition mark_applied :: "string \<Rightarrow> json \<Rightarrow> string + json" where
  "mark_applied now proposal =
     (case proposal of
        JObj kvs \<Rightarrow> Inr (JObj (AList.update ''applied_at'' (JStr now) kvs))
      | JArr xs \<Rightarrow> Inr proposal
      | _ \<Rightarrow> Inl ''Cannot set properties'')"

definition drift_apply :: "export_env \<Rightarrow> segments \<Rightarrow> string \<Rightarrow> bool \<Rightarrow> disk \<Rightarrow> cli_result" where
  "drift_apply env cwd proposalId json_mode d =
     (let path = proposal_path cwd proposalId in
      if \<not> existsSync d path then exit_one d
      else (case read_json_file env path d of
              Inl e \<Rightarrow> exit_one d
            | Inr proposal \<Rightarrow>
                (case changed_constitution env cwd proposal d of
                   Inl e \<Rightarrow> exit_one d
                 | Inr change \<Rightarrow>
                     stepped (case change of None \<Rightarrow> (None, d) | Some c \<Rightarrow> write_json env (old_constitution cwd) c d) (\<lambda>d1.
                     case mark_applied (xe_now env) proposal of
                       Inl e \<Rightarrow> exit_one d1
                     | Inr marked \<Rightarrow>
                         stepped (write_json env path marked d1) (\<lambda>d2.
                         json_or_else json_mode (JObj [(''applied'', JStr proposalId), (''applied_at'', JStr (xe_now env))]) (finish d2))))))"

section \<open>drift memory-consolidate\<close>

text \<open>The name of a memory file without the first \<open>.json\<close>.\<close>

definition memory_id :: "string \<Rightarrow> string" where
  "memory_id f = (case cut_at ''.json'' f of None \<Rightarrow> f | Some (a, b) \<Rightarrow> a @ b)"

text \<open>A content that is no text, a salience that is no number or a timestamp that is no text are outside the model.\<close>

definition memory_of :: "export_env \<Rightarrow> string \<Rightarrow> json \<Rightarrow> string + memory_entry" where
  "memory_of env f content =
     sum_bind (dot ''content'' (Some content)) (\<lambda>t.
     let body = first_truthy t (Some (JStr (xe_compact env content))); salience = first_truthy (jfield ''salience'' content) (Some (JNum (1 / 2)));
         stamp = first_truthy (jfield ''timestamp'' content) (Some (JStr (xe_now env)))
     in case (body, salience, stamp) of
          (Some (JStr b), Some (JNum x), Some (JStr s)) \<Rightarrow>
            Inr \<lparr>me_id = memory_id f, me_content = b, me_salience = x, me_timestamp = s\<rparr>
        | _ \<Rightarrow> Inl ''unexpected memory entry'')"

definition merge_json :: "merge \<Rightarrow> json" where
  "merge_json m = JObj [(''source_ids'', strs_json (mr_source_ids m)), (''merged_content'', JStr (mr_merged_content m))]"

definition plan_json :: "consolidation_plan \<Rightarrow> json" where
  "plan_json p = JObj [(''timestamp'', JStr (pl_timestamp p)), (''memories_to_keep'', strs_json (pl_keep p)),
     (''memories_to_prune'', strs_json (pl_prune p)), (''memories_to_merge'', JArr (map merge_json (pl_merge p)))]"

definition plan_path :: "segments \<Rightarrow> segments" where
  "plan_path cwd = cwd @ [''.tastekit'', ''consolidation-plan.json'']"

definition memory_consolidate ::
  "export_env \<Rightarrow> (string \<Rightarrow> int option) \<Rightarrow> (int \<Rightarrow> string) \<Rightarrow> int \<Rightarrow> segments \<Rightarrow> int \<Rightarrow> bool \<Rightarrow> disk \<Rightarrow> cli_result" where
  "memory_consolidate env ms to_iso now cwd retention json_mode d =
     (let memoryDir = cwd @ [''.tastekit'', ''memory''];
          memoryFiles = filter (\<lambda>f. ends_with f ''.json'') (child_names d memoryDir)
      in if \<not> existsSync d memoryDir then finish d
         else if \<not> is_dir d memoryDir then exit_one d
         else if memoryFiles = [] then finish d
         else (case traverse (\<lambda>f. sum_bind (read_json_file env (memoryDir @ [f]) d) (memory_of env f)) memoryFiles of
                 Inl e \<Rightarrow> exit_one d
               | Inr memories \<Rightarrow>
                   let plan = generateConsolidationPlan ms to_iso now memories retention
                   in if json_mode then jsonOutput (plan_json plan) d
                      else stepped (write_json env (plan_path cwd) (plan_json plan) d) finish))"

section \<open>eval run\<close>

definition judgment_json :: "judgment_result \<Rightarrow> json" where
  "judgment_json j = obj_of [(''rule_id'', Some (JStr (ju_rule_id j))), (''passed'', Some (JBool (ju_passed j))), (''score'', Some (JNum (ju_score j))),
     (''reason'', map_option JStr (ju_reason j))]"

definition result_json :: "eval_result \<Rightarrow> json" where
  "result_json r = obj_of [(''scenario_id'', Some (JStr (vr_scenario_id r))), (''passed'', Some (JBool (vr_passed r))), (''score'', Some (JNum (vr_score r))),
     (''judgments'', Some (JArr (map judgment_json (vr_judgments r)))), (''outputs'', vr_outputs r)]"

definition eval_report_json :: "eval_report \<Rightarrow> json" where
  "eval_report_json r = JObj [(''evalpack_id'', JStr (vp_evalpack_id r)), (''timestamp'', JStr (vp_timestamp r)),
     (''results'', JArr (map result_json (vp_results r))), (''overall_score'', JNum (vp_overall_score r)), (''passed'', JBool (vp_passed r))]"

definition default_pack :: "segments \<Rightarrow> disk \<Rightarrow> segments option" where
  "default_pack cwd d =
     (let evalsDir = cwd @ [''.tastekit'', ''evals''];
          files = filter (\<lambda>f. ends_with f ''.json'' \<or> ends_with f ''.yaml'') (child_names d evalsDir)
      in if existsSync d evalsDir \<and> files \<noteq> [] then Some (evalsDir @ [hd files]) else None)"

text \<open>The readers of a pack, for YAML and for JSON, and the milliseconds of the name of the report.\<close>

record eval_env =
  ee_judge :: judge_env
  ee_yaml_pack :: "string \<Rightarrow> string + evalpack"
  ee_json_pack :: "string \<Rightarrow> string + evalpack"
  ee_ms :: string

definition report_path :: "segments \<Rightarrow> eval_env \<Rightarrow> eval_report \<Rightarrow> segments" where
  "report_path cwd ev r = cwd @ [''.tastekit'', ''eval-reports'', vp_evalpack_id r @ ''_'' @ ee_ms ev @ ''.json'']"

definition eval_run :: "export_env \<Rightarrow> eval_env \<Rightarrow> segments \<Rightarrow> segments option \<Rightarrow> string \<Rightarrow> bool \<Rightarrow> disk \<Rightarrow> cli_result" where
  "eval_run env ev cwd pack format json_mode d =
     (case (case pack of Some p \<Rightarrow> Some p | None \<Rightarrow> default_pack cwd d) of
        None \<Rightarrow> exit_one d
      | Some p \<Rightarrow>
          if \<not> existsSync d p then exit_one d
          else (case sum_bind (read_text env p d)
                       (if ends_with (last p) ''.yaml'' \<or> ends_with (last p) ''.yml'' then ee_yaml_pack ev else ee_json_pack ev) of
                  Inl e \<Rightarrow> exit_one d
                | Inr evalPack \<Rightarrow>
                    (case runEvalPack (ee_judge ev) None (xe_now env) evalPack of
                       Inl e \<Rightarrow> exit_one d
                     | Inr report \<Rightarrow>
                         if format = ''json'' \<or> json_mode then jsonOutput (eval_report_json report) d
                         else stepped (run_steps [mkdir_step (cwd @ [''.tastekit'', ''eval-reports'']),
                                write_json env (report_path cwd ev report) (eval_report_json report)] d) finish)))"

section \<open>eval replay\<close>

definition newest_trace :: "segments \<Rightarrow> disk \<Rightarrow> segments option" where
  "newest_trace cwd d =
     (let tracesDir = cwd @ [''.tastekit'', ''traces'']; files = filter (\<lambda>f. ends_with f ''.jsonl'') (child_names d tracesDir)
      in if existsSync d tracesDir \<and> files \<noteq> [] then Some (tracesDir @ [last (sort files)]) else None)"

definition violation_json :: "replay_violation \<Rightarrow> json" where
  "violation_json v = JObj [(''event'', rv_event v), (''violation_type'', JStr (rv_violation_type v)), (''reason'', JStr (rv_reason v))]"

text \<open>\<open>shown_path\<close> is the text of a path.\<close>

definition replay_json :: "(segments \<Rightarrow> string) \<Rightarrow> replay_result \<Rightarrow> json" where
  "replay_json shown_path r = JObj [(''trace_path'', JStr (shown_path (rr_trace_path r))), (''profile_version'', JStr (rr_profile_version r)),
     (''violations'', JArr (map violation_json (rr_violations r))), (''passed'', JBool (rr_passed r))]"

definition eval_replay ::
  "export_env \<Rightarrow> (string \<Rightarrow> json option) \<Rightarrow> (segments \<Rightarrow> string) \<Rightarrow> segments \<Rightarrow> segments option \<Rightarrow> bool \<Rightarrow> disk \<Rightarrow> cli_result" where
  "eval_replay env jparse shown_path cwd tr json_mode d =
     (if \<not> existsSync d (old_constitution cwd) then exit_one d
      else (case (case tr of Some p \<Rightarrow> Some p | None \<Rightarrow> newest_trace cwd d) of
              None \<Rightarrow> exit_one d
            | Some p \<Rightarrow>
                if \<not> existsSync d p then exit_one d
                else (case sum_bind (read_text env (old_constitution cwd) d) (\<lambda>t.
                         case ae_constitution (xe_adapter env) t of
                           None \<Rightarrow> Inl ''SyntaxError''
                         | Some c \<Rightarrow> sum_bind (read_text env p d) (\<lambda>content.
                             case replayTrace jparse (xe_compact env) (ae_shown (xe_adapter env)) p content c of
                               None \<Rightarrow> Inl ''TypeError'' | Some r \<Rightarrow> Inr r)) of
                        Inl e \<Rightarrow> exit_one d
                      | Inr result \<Rightarrow> json_or_else json_mode (replay_json shown_path result) (finish d))))"

section \<open>compile\<close>

definition compilation_json :: "compilation_result \<Rightarrow> json" where
  "compilation_json r = JObj [(''success'', JBool True), (''artifacts'', strs_json (cr_artifacts r)), (''resumed'', JBool (cr_resumed r))]"

definition compileCommand ::
  "formats \<Rightarrow> fault \<Rightarrow> string \<Rightarrow> (string \<Rightarrow> stored_session option) \<Rightarrow> segments \<Rightarrow> bool \<Rightarrow> bool \<Rightarrow> disk \<Rightarrow> cli_result" where
  "compileCommand fm fault now parse_session cwd resume json_mode d =
     (let ws = cwd @ [''.tastekit'']; sessionPath = resolveSessionPath d ws in
      if \<not> existsSync d ws then exit_one d
      else if \<not> existsSync d sessionPath then exit_one d
      else let shouldResume = resume \<or> canResume fm ws d
           in (case Option.bind (read_file d sessionPath) parse_session of
                 None \<Rightarrow> exit_one d
               | Some session \<Rightarrow>
                   let (result, d') = compile fm fault now ws session ''0.5.0'' shouldResume d
                   in if cr_success result then json_or_else json_mode (compilation_json result) (finish d')
                      else exit_one d'))"

section \<open>What drift apply changes\<close>

lemma write_json_frame: "q \<noteq> p \<Longrightarrow> read_file (snd (write_json env p j d)) q = read_file d q" "dk_dirs (snd (write_json env p j d)) = dk_dirs d"
  by (auto simp: write_json_def write_step_def)

lemma stepped_cases: "cx_code (stepped r k) = 0 \<Longrightarrow> fst r = None \<and> stepped r k = k (snd r)"
  by (auto simp: stepped_def exit_one_def split: option.splits)

lemma disk_json_or_else [simp]: "cx_disk (json_or_else b j (finish d)) = d" "cx_code (json_or_else b j (finish d)) = 0"
  by (simp_all add: json_or_else_def jsonOutput_def finish_def)

lemma disk_exit_one [simp]: "cx_disk (exit_one d) = d" "cx_code (exit_one d) = 1"
  by (simp_all add: exit_one_def)

lemma frame_eq: "(\<And>q. q \<notin> Q \<Longrightarrow> read_file d' q = read_file d q) \<Longrightarrow> dk_dirs d' = dk_dirs d \<Longrightarrow> q \<notin> Q \<Longrightarrow> existsSync d' q = existsSync d q"
  by (simp add: existsSync_def is_dir_def)

lemma apply_frame:
  "q \<noteq> old_constitution cwd \<Longrightarrow> q \<noteq> proposal_path cwd k \<Longrightarrow> read_file (cx_disk (drift_apply env cwd k jm d)) q = read_file d q"
  "dk_dirs (cx_disk (drift_apply env cwd k jm d)) = dk_dirs d"
  by (auto simp: drift_apply_def Let_def stepped_def write_json_frame split: option.split sum.split)

lemma apply_success:
  assumes "cx_code (drift_apply env cwd k jm d) = 0"
  shows "\<exists>proposal change d1 marked. read_json_file env (proposal_path cwd k) d = Inr proposal \<and> changed_constitution env cwd proposal d = Inr change
     \<and> (case change of None \<Rightarrow> (None, d) | Some c \<Rightarrow> write_json env (old_constitution cwd) c d) = (None, d1)
     \<and> mark_applied (xe_now env) proposal = Inr marked \<and> write_json env (proposal_path cwd k) marked d1 = (None, cx_disk (drift_apply env cwd k jm d))"
proof -
  from assms obtain proposal where proposal: "read_json_file env (proposal_path cwd k) d = Inr proposal"
    by (auto simp: drift_apply_def Let_def split: sum.splits if_splits)
  from assms proposal obtain change where change: "changed_constitution env cwd proposal d = Inr change"
    by (auto simp: drift_apply_def Let_def split: sum.splits if_splits)
  obtain e d1 where d1: "(case change of None \<Rightarrow> (None, d) | Some c \<Rightarrow> write_json env (old_constitution cwd) c d) = (e, d1)"
    by (rule prod.exhaust)
  from assms proposal change d1 have e: "e = None"
    by (auto simp: drift_apply_def Let_def stepped_def split: if_splits option.splits)
  from assms proposal change d1 e obtain marked where marked: "mark_applied (xe_now env) proposal = Inr marked"
    by (auto simp: drift_apply_def Let_def stepped_def split: if_splits sum.splits)
  obtain e2 d2 where d2: "write_json env (proposal_path cwd k) marked d1 = (e2, d2)" by (rule prod.exhaust)
  from assms proposal change d1 e marked d2 have "e2 = None" "cx_disk (drift_apply env cwd k jm d) = d2"
    by (auto simp: drift_apply_def Let_def stepped_def split: if_splits option.splits)
  with proposal change d1 e marked d2 show ?thesis by blast
qed

lemma write_json_done: "write_json env p j d = (None, d') \<Longrightarrow> read_file d' p = Some (ae_stringify (xe_adapter env) j)"
  by (auto simp: write_json_def write_step_def split: if_splits)

lemma compile_command_runs:
  assumes "existsSync d (cwd @ [''.tastekit''])" "read_file d (resolveSessionPath d (cwd @ [''.tastekit''])) = Some t" "parse_session t = Some st"
    and "formats_ok fm st ''0.5.0''" "\<not> canResume fm (cwd @ [''.tastekit'']) d"
    and "r = compileCommand fm no_fault now parse_session cwd False jm d"
  shows "cx_code r = 0 \<and> (\<exists>result. compile fm no_fault now (cwd @ [''.tastekit'']) st ''0.5.0'' False d = (result, cx_disk r))
     \<and> resolveArtifactPath (cx_disk r) (cwd @ [''.tastekit'']) Constitution_file = constitution_path (cwd @ [''.tastekit''])
     \<and> read_file (cx_disk r) (constitution_path (cwd @ [''.tastekit''])) = Some (fm_constitution fm (compileConstitution (st_session st) ''0.5.0'' now))"
proof -
  let ?ws = "cwd @ [''.tastekit'']"
  obtain result d' where run: "compile fm no_fault now ?ws st ''0.5.0'' False d = (result, d')" by (rule prod.exhaust)
  note files = compiled_workspace [OF assms(4) run refl refl]
  have "existsSync d (resolveSessionPath d ?ws)" using assms(2) by (simp add: existsSync_def)
  then have r: "r = json_or_else jm (compilation_json result) (finish d')"
    using assms run files by (simp add: compileCommand_def Let_def)
  have "resolveArtifactPath d' ?ws Constitution_file = constitution_path ?ws"
    using files artifact_in_self [of d' ?ws Constitution_file] by (simp add: constitution_path_def)
  with r run files show ?thesis by (simp add: constitution_path_def)
qed

lemma resolve_same: "(\<And>q. q \<in> {ws @ [''ops'', ''session.json''], ws @ [''session.json'']} \<Longrightarrow> existsSync d' q = existsSync d q)
   \<Longrightarrow> resolveSessionPath d' ws = resolveSessionPath d ws"
  by (simp add: resolveSessionPath_def opsPath_def Let_def)

text \<open>
  C35. A drift proposal that is applied does not reach the compiled constitution. Let the command that
  applies a proposal succeed in a workspace with a session of the interview and without an interrupted
  compilation to resume. Then the file of the proposal says that it is applied, and beside it the
  command changes at most \<open>artifacts/constitution.v1.json\<close>: when this file exists and the proposal
  has a change of it, the changed constitution is written there. After the command that compiles, which the other one hints at, what is read through the
  resolver of the artifacts is the constitution compiled from the session alone; and
  \<open>artifacts/constitution.v1.json\<close>, which \<open>eval replay\<close> and \<open>drift apply\<close> read without the
  resolver, is what the application left.
\<close>

theorem applied_drift_is_lost:
  assumes applied: "cx_code (drift_apply env cwd k jm d) = 0" "d1 = cx_disk (drift_apply env cwd k jm d)"
    and workspace: "ws = cwd @ [''.tastekit'']" "existsSync d ws" "read_file d (resolveSessionPath d ws) = Some t"
    and session: "parse_session t = Some st" "formats_ok fm st ''0.5.0''" "\<not> canResume fm ws d"
    and compiled: "r = compileCommand fm no_fault now parse_session cwd False jm' d1"
  shows "(\<exists>proposal marked change. read_json_file env (proposal_path cwd k) d = Inr proposal \<and> mark_applied (xe_now env) proposal = Inr marked
       \<and> changed_constitution env cwd proposal d = Inr change
       \<and> read_file d1 (proposal_path cwd k) = Some (ae_stringify (xe_adapter env) marked)
       \<and> read_file d1 (old_constitution cwd) = (case change of None \<Rightarrow> read_file d (old_constitution cwd) | Some c \<Rightarrow> Some (ae_stringify (xe_adapter env) c)))
     \<and> (\<forall>q. q \<noteq> old_constitution cwd \<and> q \<noteq> proposal_path cwd k \<longrightarrow> read_file d1 q = read_file d q)
     \<and> cx_code r = 0 \<and> resolveArtifactPath (cx_disk r) ws Constitution_file = constitution_path ws
     \<and> read_file (cx_disk r) (constitution_path ws) = Some (fm_constitution fm (compileConstitution (st_session st) ''0.5.0'' now))
     \<and> read_file (cx_disk r) (old_constitution cwd) = read_file d1 (old_constitution cwd)"
proof -
  have frame: "q \<noteq> old_constitution cwd \<Longrightarrow> q \<noteq> proposal_path cwd k \<Longrightarrow> read_file d1 q = read_file d q" "dk_dirs d1 = dk_dirs d" for q
    by (simp_all add: applied(2) apply_frame)
  have exists: "q \<noteq> old_constitution cwd \<Longrightarrow> q \<noteq> proposal_path cwd k \<Longrightarrow> existsSync d1 q = existsSync d q" for q
    using frame by (simp add: existsSync_def is_dir_def)
  have paths: "q \<noteq> old_constitution cwd \<and> q \<noteq> proposal_path cwd k"
    if "q \<in> {ws, ws @ [''ops'', ''session.json''], ws @ [''session.json''], getDerivationPath ws}" for q
    using that by (auto simp: workspace(1) old_constitution_def proposal_path_def getDerivationPath_def)
  have place: "resolveSessionPath d1 ws = resolveSessionPath d ws" by (rule resolve_same) (use paths exists in auto)
  have "resolveSessionPath d ws = ws @ [''ops'', ''session.json''] \<or> resolveSessionPath d ws = ws @ [''session.json'']"
    by (simp add: resolveSessionPath_def opsPath_def Let_def)
  then have "resolveSessionPath d ws \<noteq> old_constitution cwd \<and> resolveSessionPath d ws \<noteq> proposal_path cwd k"
    by (rule disjE) (simp_all add: paths)
  then have stored: "read_file d1 (resolveSessionPath d1 ws) = Some t"
    unfolding place by (simp add: frame(1) workspace(3))
  have resume: "canResume fm ws d1 = canResume fm ws d"
    using paths [of "getDerivationPath ws"] frame(1) by (simp add: canResume_def readDerivationState_def readFileIfExists_def existsSync_def)
  have there: "existsSync d1 ws" using paths [of ws] exists workspace(2) by simp
  obtain proposal change d0 marked where p: "read_json_file env (proposal_path cwd k) d = Inr proposal" "mark_applied (xe_now env) proposal = Inr marked"
    "write_json env (proposal_path cwd k) marked d0 = (None, d1)" "changed_constitution env cwd proposal d = Inr change"
    "(case change of None \<Rightarrow> (None, d) | Some c \<Rightarrow> write_json env (old_constitution cwd) c d) = (None, d0)"
    using apply_success [OF applied(1)] applied(2) by blast
  have "old_constitution cwd \<noteq> proposal_path cwd k" by (simp add: old_constitution_def proposal_path_def)
  then have "read_file d1 (old_constitution cwd) = read_file d0 (old_constitution cwd)"
    using write_json_frame(1) [of "old_constitution cwd" "proposal_path cwd k" env marked d0] p(3) by simp
  moreover have "read_file d0 (old_constitution cwd) = (case change of None \<Rightarrow> read_file d (old_constitution cwd) | Some c \<Rightarrow> Some (ae_stringify (xe_adapter env) c))"
    using p(5) by (auto simp: write_json_done split: option.splits)
  ultimately have old: "read_file d1 (old_constitution cwd) = (case change of None \<Rightarrow> read_file d (old_constitution cwd) | Some c \<Rightarrow> Some (ae_stringify (xe_adapter env) c))"
    by (rule trans)
  have kept: "read_file (cx_disk r) (old_constitution cwd) = read_file d1 (old_constitution cwd)"
    using compile_command_runs [OF there [unfolded workspace(1)] stored [unfolded workspace(1)] session(1,2) _ compiled] resume session(3)
    by (auto simp: workspace(1) old_constitution_def dest!: leaves_old_compile simp: leaves_old_def unchanged_def)
  show ?thesis
    using old kept p(4) compile_command_runs [OF there [unfolded workspace(1)] stored [unfolded workspace(1)] session(1,2) _ compiled] resume session(3)
      frame(1) p(1,2) write_json_done [OF p(3)]
    by (auto simp: workspace(1))
qed

text \<open>The import writes the same file.\<close>

lemma import_writes_old: "imported_file_path cwd = old_constitution cwd"
  by (simp add: imported_file_path_def old_constitution_def)

section \<open>From detection to application\<close>

lemma run_Cons_None: "run_steps (x # xs) d = (None, d') \<longleftrightarrow> (\<exists>d1. x d = (None, d1) \<and> run_steps xs d1 = (None, d'))"
  by (cases "x d") (auto split: option.splits)

lemma writes_frame:
  "run_steps (map (\<lambda>p. write_json env (f p) (g p)) ps) d = (None, d') \<Longrightarrow> q \<notin> f ` set ps \<Longrightarrow> read_file d' q = read_file d q"
  "run_steps (map (\<lambda>p. write_json env (f p) (g p)) ps) d = (None, d') \<Longrightarrow> dk_dirs d' = dk_dirs d"
proof (induction ps arbitrary: d)
  case (Cons p ps)
  { case 1
    then obtain d1 where d1: "write_json env (f p) (g p) d = (None, d1)" "run_steps (map (\<lambda>p. write_json env (f p) (g p)) ps) d1 = (None, d')"
      unfolding list.map run_Cons_None by blast
    with Cons.IH(1) [OF d1(2)] 1(2) write_json_frame(1) [of q "f p" env "g p" d] show ?case by simp }
  { case 2
    then obtain d1 where d1: "write_json env (f p) (g p) d = (None, d1)" "run_steps (map (\<lambda>p. write_json env (f p) (g p)) ps) d1 = (None, d')"
      unfolding list.map run_Cons_None by blast
    with Cons.IH(2) [OF d1(2)] write_json_frame(2) [of env "f p" "g p" d] show ?case by simp }
qed simp_all

lemma writes_done:
  "run_steps (map (\<lambda>p. write_json env (f p) (g p)) ps) d = (None, d') \<Longrightarrow> distinct (map f ps) \<Longrightarrow> p \<in> set ps
     \<Longrightarrow> read_file d' (f p) = Some (ae_stringify (xe_adapter env) (g p)) \<and> is_dir d (butlast (f p)) \<and> \<not> is_dir d (f p)"
proof (induction ps arbitrary: d)
  case (Cons x ps)
  from Cons.prems(1) obtain d1 where d1: "write_json env (f x) (g x) d = (None, d1)" "run_steps (map (\<lambda>p. write_json env (f p) (g p)) ps) d1 = (None, d')"
    unfolding list.map run_Cons_None by blast
  have dirs: "is_dir d1 = is_dir d" using write_json_frame(2) [of env "f x" "g x" d] d1(1) by (auto simp: is_dir_def fun_eq_iff)
  show ?case
  proof (cases "p = x")
    case True
    have "f x \<notin> f ` set ps" using Cons.prems(2) by auto
    with writes_frame(1) [OF d1(2)] write_json_done [OF d1(1)] d1(1) True show ?thesis
      by (auto simp: write_json_def write_step_def split: if_splits)
  next
    case False
    with Cons.IH [OF d1(2)] Cons.prems dirs show ?thesis by simp
  qed
qed simp

lemma proposal_from: "p \<in> set (proposals_from denv signals) \<Longrightarrow> \<exists>n s. p = createProposalFromSignal denv n s"
  unfolding proposals_from_def Let_def set_map by (elim imageE) (clarsimp, blast)

lemma proposal_of_signal:
  assumes "detect_proposals denv parse_event d files since skill = Some ps" "p \<in> set ps"
  shows "\<exists>n s. p = createProposalFromSignal denv n s"
  using assms
  by (auto simp: detect_proposals_def detectFromTraces_def Let_def split: if_splits option.splits intro: proposal_from)

text \<open>What a proposal does to a constitution: the principle it adds, if it changes the constitution at all.\<close>

definition change_by :: "drift_proposal \<Rightarrow> json option" where
  "change_by p = jfield ''constitution'' (dp_proposed_changes p)"

definition principle_by :: "drift_proposal \<Rightarrow> json option" where
  "principle_by p = dot_opt ''add_principle'' (change_by p)"

lemma proposal_changes:
  assumes "p = createProposalFromSignal denv n s"
  shows "dp_signal_type p \<in> {Repeated_edit, User_correction} \<longleftrightarrow> principle_by p \<noteq> None"
    "dp_signal_type p \<in> {Repeated_edit, User_correction, Assertion_mismatch} \<longleftrightarrow> change_by p \<noteq> None"
    "truthy (change_by p) \<longleftrightarrow> change_by p \<noteq> None" "truthy (principle_by p) \<longleftrightarrow> principle_by p \<noteq> None"
    "dot_opt ''id'' (principle_by p) = None" "dot ''constitution'' (Some (dp_proposed_changes p)) = Inr (change_by p)"
  by (cases "dg_type s"; simp add: assms createProposalFromSignal_def changes_of_def change_by_def principle_by_def dot_opt_def)+

definition applied_json :: "string \<Rightarrow> drift_proposal \<Rightarrow> json" where
  "applied_json now p = (case proposal_json p of JObj kvs \<Rightarrow> JObj (AList.update ''applied_at'' (JStr now) kvs) | j \<Rightarrow> j)"

lemma marked_proposal: "mark_applied now (proposal_json p) = Inr (applied_json now p)"
  by (simp add: mark_applied_def applied_json_def proposal_json_def)

lemma proposal_fields: "dot ''proposed_changes'' (Some (proposal_json p)) = Inr (Some (dp_proposed_changes p))"
  by (simp add: proposal_json_def)

lemma read_json_eq: "read_file d p = Some t \<Longrightarrow> read_json_file env p d = ae_jparse (xe_adapter env) t"
  by (simp add: read_json_file_def read_json_def)

text \<open>
  C34. Every detected proposal can be applied. Let \<open>drift detect\<close> succeed with proposals of distinct ids,
  let JSON be read back as it was printed, and let the workspace have a readable constitution in the old
  layout. Then \<open>drift apply\<close> succeeds for each of them and marks its file. The constitution is written
  again for repeated edits, corrections and assertion mismatches only; a principle is added for the first
  two, at the end of the list and without an id, the constitution keeps all else it has.
\<close>

theorem detected_proposals_apply:
  assumes detect: "r = drift_detect env denv parse_event cwd since skill jm d" "cx_code r = 0"
    and files: "tracesDir = resolveTracesPath d (cwd @ [''.tastekit''])"
      "traceFiles = map (\<lambda>f. tracesDir @ [f]) (filter (\<lambda>f. ends_with f ''.jsonl'') (child_names d tracesDir))" "is_dir d tracesDir" "traceFiles \<noteq> []"
    and proposals: "detect_proposals denv parse_event d traceFiles since skill = Some ps" "distinct (map dp_id ps)" "p \<in> set ps"
    and printed: "ae_jparse (xe_adapter env) (ae_stringify (xe_adapter env) (proposal_json p)) = Inr (proposal_json p)"
    and constitution: "read_file d (old_constitution cwd) = Some t" "ae_jparse (xe_adapter env) t = Inr (JObj kvs)"
      "map_of kvs ''principles'' = Some (JArr qs)" "is_dir d (butlast (old_constitution cwd))" "\<not> is_dir d (old_constitution cwd)"
      "\<not> is_dir d (proposal_path cwd (dp_id p))"
    and run: "a = drift_apply env cwd (dp_id p) jm' (cx_disk r)"
  shows "cx_code a = 0 \<and> read_file (cx_disk a) (proposal_path cwd (dp_id p)) = Some (ae_stringify (xe_adapter env) (applied_json (xe_now env) p))
     \<and> read_file (cx_disk a) (old_constitution cwd) = Some
         (if dp_signal_type p \<in> {Repeated_edit, User_correction}
          then ae_stringify (xe_adapter env) (JObj (AList.update ''principles'' (JArr (qs @ [the (principle_by p)])) kvs))
          else if dp_signal_type p = Assertion_mismatch then ae_stringify (xe_adapter env) (JObj kvs)
          else t)
     \<and> dot_opt ''id'' (principle_by p) = None"
proof -
  let ?S = "ae_stringify (xe_adapter env)" let ?path = "\<lambda>p. proposal_path cwd (dp_id p)"
  have "ps \<noteq> []" using proposals(3) by auto
  have dir: "existsSync d (resolveTracesPath d (cwd @ [''.tastekit'']))" using files(1,3) by (simp add: existsSync_def)
  obtain e d1 where steps: "run_steps (mkdir_step (cwd @ [''.tastekit'', ''proposals'']) # map (\<lambda>p. write_json env (?path p) (proposal_json p)) ps) d = (e, d1)"
    by (rule prod.exhaust)
  have r: "r = stepped (e, d1) (\<lambda>d'. json_or_else jm (proposals_json ps) (finish d'))"
    using detect(1) files(3,4) dir proposals(1) \<open>ps \<noteq> []\<close> steps unfolding drift_detect_def Let_def files(1)[symmetric] files(2)[symmetric]
    by (cases ps) (simp_all del: run_steps.simps list.map)
  with detect(2) have e: "e = None" by (cases e) (auto simp: stepped_def)
  with r have d1: "cx_disk r = d1" by (simp add: stepped_def)
  define d0 where "d0 = make_dirs (cwd @ [''.tastekit'', ''proposals'']) d"
  have writes: "run_steps (map (\<lambda>p. write_json env (?path p) (proposal_json p)) ps) d0 = (None, d1)"
    using steps e by (simp add: run_Cons_None mkdir_step_def d0_def del: run_steps.simps)
  have inj: "distinct (map ?path ps)" using proposals(2) by (simp add: proposal_path_def distinct_map inj_on_def)
  note stored = writes_done [OF writes inj proposals(3)]
  have other: "old_constitution cwd \<notin> ?path ` set ps" by (auto simp: old_constitution_def proposal_path_def)
  have old: "read_file d1 (old_constitution cwd) = Some t"
    using writes_frame(1) [OF writes other] constitution(1) by (simp add: d0_def)
  have dirs: "is_dir d1 q \<longleftrightarrow> is_dir d q \<or> prefix q (cwd @ [''.tastekit'', ''proposals''])" for q
    using writes_frame(2) [OF writes] by (simp add: is_dir_def d0_def flip: is_dir_make_dirs [unfolded is_dir_def])
  have plain: "\<not> is_dir d1 (old_constitution cwd)" "is_dir d1 (butlast (old_constitution cwd))" "\<not> is_dir d1 (?path p)" "is_dir d1 (butlast (?path p))"
    using constitution(4-6) stored dirs
    by (auto simp: old_constitution_def proposal_path_def butlast_append prefix_def d0_def is_dir_make_dirs)
  obtain n s where p: "p = createProposalFromSignal denv n s" using proposal_of_signal [OF proposals(1,3)] by blast
  note kinds = proposal_changes [OF p]
  have c: "read_json_file env (old_constitution cwd) d1 = Inr (JObj kvs)" using read_json_eq [OF old] constitution(2) by simp
  have push: "push_principle x (JObj kvs) = Inr (JObj (AList.update ''principles'' (JArr (qs @ [x])) kvs))" for x
    using constitution(3) by (simp add: push_principle_def)
  define new where "new = (if change_by p = None then None
      else Some (if principle_by p = None then JObj kvs else JObj (AList.update ''principles'' (JArr (qs @ [the (principle_by p)])) kvs)))"
  have "changed_constitution env cwd (proposal_json p) d1 = Inr new"
    using old
    by (simp add: changed_constitution_def existsSync_def proposal_fields kinds(3,4,6) c new_def push flip: principle_by_def)
  moreover define d2 where "d2 = (case new of None \<Rightarrow> d1 | Some j \<Rightarrow> put_file (old_constitution cwd) (?S j) d1)"
  moreover have "(case new of None \<Rightarrow> (None, d1) | Some j \<Rightarrow> write_json env (old_constitution cwd) j d1) = (None, d2)"
    using plain(1,2) by (simp add: d2_def write_json_def write_step_def split: option.split)
  moreover have "write_json env (?path p) (applied_json (xe_now env) p) d2 = (None, put_file (?path p) (?S (applied_json (xe_now env) p)) d2)"
    using plain(3,4) by (simp add: d2_def write_json_def write_step_def split: option.split)
  moreover have "read_json_file env (?path p) d1 = Inr (proposal_json p)" using read_json_eq [of d1 "?path p"] stored printed by simp
  moreover have "existsSync d1 (?path p)" using stored by (simp add: existsSync_def)
  ultimately have a: "cx_code a = 0" "cx_disk a = put_file (?path p) (?S (applied_json (xe_now env) p)) d2"
    using run by (simp_all add: drift_apply_def d1 Let_def marked_proposal stepped_def)
  have "?path p \<noteq> old_constitution cwd" by (simp add: old_constitution_def proposal_path_def)
  moreover have "read_file d2 (old_constitution cwd) = Some
      (if change_by p = None then t else ?S (if principle_by p = None then JObj kvs else JObj (AList.update ''principles'' (JArr (qs @ [the (principle_by p)])) kvs)))"
    using old by (simp add: d2_def new_def)
  ultimately show ?thesis using a kinds(1,2,5) by auto
qed

section \<open>Witnesses\<close>

text \<open>A workspace of the old layout, with three rejections in its trace.\<close>

definition noisy_disk :: disk where
  "noisy_disk = \<lparr>dk_files = [([''.tastekit'', ''traces'', ''t.jsonl''], [CHR ''x'', nl, CHR ''x'', nl, CHR ''x'', nl]),
       ([''.tastekit'', ''artifacts'', ''constitution.v1.json''], ''c'')],
     dk_dirs = [[], [''.tastekit''], [''.tastekit'', ''traces''], [''.tastekit'', ''artifacts'']]\<rparr>"

definition noisy_proposal :: drift_proposal where
  "noisy_proposal = createProposalFromSignal Drift.sample_env 0
     \<lparr>dg_type = Repeated_edit, dg_frequency = 3, dg_context = [(''reason'', JStr ''too long'')]\<rparr>"

definition noisy_env :: export_env where
  "noisy_env = sample_export_env\<lparr>xe_adapter := sample_adapter\<lparr>
     ae_jparse := (\<lambda>t. if t = ''c'' then Inr (JObj [(''principles'', JArr [])]) else Inr (proposal_json noisy_proposal)),
     ae_stringify := (\<lambda>_. ''p'')\<rparr>\<rparr>"

lemma noisy_detected:
  "detect_proposals Drift.sample_env (\<lambda>_. Some sample_rejection) noisy_disk [[''.tastekit'', ''traces'', ''t.jsonl'']] None None = Some [noisy_proposal]"
proof -
  have "read_events (\<lambda>_. Some sample_rejection) noisy_disk [[''.tastekit'', ''traces'', ''t.jsonl'']] = Some [sample_rejection, sample_rejection, sample_rejection]"
    by (simp add: noisy_disk_def read_file_def trim_def trim_start_def trim_end_def is_ws_def)
  moreover have "detectSignals Drift.sample_env noisy_disk [sample_rejection, sample_rejection, sample_rejection] Drift.sample_options
      = [\<lparr>dg_type = Repeated_edit, dg_frequency = 3, dg_context = [(''reason'', JStr ''too long'')]\<rparr>]"
    by code_simp
  ultimately show ?thesis
    by (simp add: detect_proposals_def detectFromTraces_def filter_events_def proposals_from_def noisy_proposal_def Drift.sample_options_def
        text_or_def Let_def del: read_events.simps)
qed

theorem detected_proposals_apply_witness:
  "\<exists>r a. r = drift_detect noisy_env Drift.sample_env (\<lambda>_. Some sample_rejection) [] None None False noisy_disk \<and> cx_code r = 0
     \<and> a = drift_apply noisy_env [] (dp_id noisy_proposal) False (cx_disk r) \<and> cx_code a = 0
     \<and> read_file (cx_disk a) [''.tastekit'', ''artifacts'', ''constitution.v1.json''] = Some ''p''"
proof -
  define r where "r = drift_detect noisy_env Drift.sample_env (\<lambda>_. Some sample_rejection) [] None None False noisy_disk"
  have place: "resolveTracesPath noisy_disk ([] @ [''.tastekit'']) = [''.tastekit'', ''traces'']"
    by (simp add: resolveTracesPath_def opsPath_def noisy_disk_def existsSync_def read_file_def is_dir_def)
  have files: "map (\<lambda>f. [''.tastekit'', ''traces''] @ [f]) (filter (\<lambda>f. ends_with f ''.jsonl'') (child_names noisy_disk [''.tastekit'', ''traces'']))
      = [[''.tastekit'', ''traces'', ''t.jsonl'']]"
    by (simp add: child_names_def noisy_disk_def ends_with_def)
  have there: "existsSync noisy_disk [''.tastekit'', ''traces'']" "is_dir noisy_disk [''.tastekit'', ''traces'']"
    by (simp_all add: noisy_disk_def existsSync_def read_file_def is_dir_def)
  have "is_dir (make_dirs [''.tastekit'', ''proposals''] noisy_disk) [''.tastekit'', ''proposals'']"
    "\<not> is_dir (make_dirs [''.tastekit'', ''proposals''] noisy_disk) (proposal_path [] (dp_id noisy_proposal))"
    unfolding is_dir_make_dirs by (simp_all add: proposal_path_def noisy_disk_def is_dir_def)
  then have code: "cx_code r = 0"
    unfolding r_def drift_detect_def Let_def place files append_Nil noisy_detected [simplified] place [simplified]
    by (simp add: there noisy_detected mkdir_step_def write_json_def write_step_def stepped_def proposal_path_def json_or_else_def finish_def
        files [simplified])
  have old: "read_file noisy_disk (old_constitution []) = Some ''c''" "is_dir noisy_disk (butlast (old_constitution []))"
    "\<not> is_dir noisy_disk (old_constitution [])" "\<not> is_dir noisy_disk (proposal_path [] (dp_id noisy_proposal))"
    by (simp_all add: noisy_disk_def old_constitution_def proposal_path_def read_file_def is_dir_def)
  have kind: "dp_signal_type noisy_proposal = Repeated_edit" by (simp add: noisy_proposal_def createProposalFromSignal_def)
  have printed: "ae_stringify (xe_adapter noisy_env) j = ''p''" "ae_jparse (xe_adapter noisy_env) ''p'' = Inr (proposal_json noisy_proposal)"
    "ae_jparse (xe_adapter noisy_env) ''c'' = Inr (JObj [(''principles'', JArr [])])" for j
    by (simp_all add: noisy_env_def)
  have "cx_code (drift_apply noisy_env [] (dp_id noisy_proposal) False (cx_disk r)) = 0
     \<and> read_file (cx_disk (drift_apply noisy_env [] (dp_id noisy_proposal) False (cx_disk r))) (old_constitution []) = Some ''p''"
    using detected_proposals_apply [OF r_def code place [symmetric] files [symmetric] there(2) _ _ _ _ _ old(1) _ _ old(2-4) refl,
      where kvs = "[(''principles'', JArr [])]" and qs = "[]" and ps = "[noisy_proposal]" and jm' = False]
    by (simp add: noisy_detected printed kind)
  then show ?thesis using code r_def by (simp add: old_constitution_def)
qed

definition stored_disk :: disk where
  "stored_disk = \<lparr>dk_files = [([''.tastekit'', ''proposals'', ''p.json''], ''p''), ([''.tastekit'', ''ops'', ''session.json''], ''s'')],
     dk_dirs = [[], [''.tastekit''], [''.tastekit'', ''proposals''], [''.tastekit'', ''ops'']]\<rparr>"

theorem applied_drift_is_lost_witness:
  "\<exists>d1 r. d1 = cx_disk (drift_apply noisy_env [] ''p'' False stored_disk) \<and> cx_code (drift_apply noisy_env [] ''p'' False stored_disk) = 0
     \<and> r = compileCommand (formats_at ''0.5.0'' sample_stored) no_fault ''now'' (\<lambda>_. Some sample_stored) [] False False d1 \<and> cx_code r = 0
     \<and> read_file (cx_disk r) [''.tastekit'', ''self'', ''constitution.v1.json''] = Some ''now''
     \<and> read_file (cx_disk r) [''.tastekit'', ''artifacts'', ''constitution.v1.json''] = read_file d1 [''.tastekit'', ''artifacts'', ''constitution.v1.json'']"
proof -
  let ?fm = "formats_at ''0.5.0'' sample_stored"
  have applied: "cx_code (drift_apply noisy_env [] ''p'' False stored_disk) = 0"
    by (simp add: drift_apply_def stored_disk_def noisy_env_def proposal_path_def existsSync_def read_file_def read_json_file_def read_json_def
        changed_constitution_def old_constitution_def is_dir_def marked_proposal stepped_def write_json_def write_step_def Let_def)
  have place: "resolveSessionPath stored_disk [''.tastekit''] = [''.tastekit'', ''ops'', ''session.json'']"
    by (simp add: resolveSessionPath_def opsPath_def stored_disk_def existsSync_def read_file_def)
  have files: "existsSync stored_disk [''.tastekit'']" "read_file stored_disk (resolveSessionPath stored_disk [''.tastekit'']) = Some ''s''"
    unfolding place by (simp_all add: stored_disk_def existsSync_def read_file_def is_dir_def)
  have resume: "\<not> canResume ?fm [''.tastekit''] stored_disk"
    by (simp add: canResume_def readDerivationState_def readFileIfExists_def getDerivationPath_def stored_disk_def read_file_def)
  have "fm_constitution ?fm (compileConstitution (st_session sample_stored) ''0.5.0'' ''now'') = ''now''"
    by (simp add: formats_at_def compileConstitution_def constitution_structured_def constitution_legacy_def Let_def split: option.split)
  then show ?thesis
    using applied_drift_is_lost [OF applied refl _ files, of "(\<lambda>_. Some sample_stored)" sample_stored ?fm, OF _ refl formats_at_ok resume refl, of "''now''" False]
      applied
    by (simp add: constitution_path_def selfPath_def old_constitution_def)
qed

end
