(* ===== verification/TrustCommands.thy ===== *)
theory TrustCommands
  imports Commands Trust
begin

text \<open>
  TasteKit command line, commands/trust.ts and commands/mcp.ts: the trust policy and the registry of
  servers on disk, and the commands that change them. The readers and printers of the files are the
  fields of \<open>store_env\<close>; a pin mode is one of the two that the policy knows.
\<close>

section \<open>Stored policies, registries and bindings\<close>

record registry_entry =
  re_config :: mcp_config
  re_pinned :: bool
  re_added_at :: string

type_synonym registry = "(string \<times> registry_entry) list"

record store_env =
  so_trust :: "string \<Rightarrow> string + trust"
  so_print_trust :: "trust \<Rightarrow> string"
  so_bindings :: "string \<Rightarrow> string + bindings"
  so_print_bindings :: "bindings \<Rightarrow> string"
  so_bindings_json :: "bindings \<Rightarrow> json"
  so_registry :: "string \<Rightarrow> string + registry"
  so_print_registry :: "registry \<Rightarrow> string"
  so_entry_json :: "registry_entry \<Rightarrow> json"
  so_oserr :: "segments \<Rightarrow> string"

definition trust_root :: "segments \<Rightarrow> segments" where
  "trust_root cwd = cwd @ [''.tastekit'']"

definition read_stored :: "store_env \<Rightarrow> (string \<Rightarrow> string + 'a) \<Rightarrow> segments \<Rightarrow> disk \<Rightarrow> string + 'a" where
  "read_stored env parse p d = (case read_file d p of None \<Rightarrow> Inl (so_oserr env p) | Some t \<Rightarrow> parse t)"

text \<open>A file in a directory that is made if need be.\<close>

definition save_stored :: "store_env \<Rightarrow> segments \<Rightarrow> string \<Rightarrow> disk_step" where
  "save_stored env p t = run_steps [mkdir_step (butlast p), write_step (so_oserr env) p t]"

definition getTrustReadPath :: "segments \<Rightarrow> disk \<Rightarrow> segments" where
  "getTrustReadPath cwd d = resolveTrustPath d (trust_root cwd)"

definition getCanonicalTrustPath :: "segments \<Rightarrow> segments" where
  "getCanonicalTrustPath cwd = trust_root cwd @ [''trust.v1.json'']"

definition loadTrustPolicy :: "store_env \<Rightarrow> segments \<Rightarrow> disk \<Rightarrow> string + trust" where
  "loadTrustPolicy env cwd d =
     (let p = getTrustReadPath cwd d in if existsSync d p then read_stored env (so_trust env) p d else Inr DEFAULT_TRUST_POLICY)"

definition saveTrustPolicy :: "store_env \<Rightarrow> segments \<Rightarrow> trust \<Rightarrow> disk_step" where
  "saveTrustPolicy env cwd policy = save_stored env (getCanonicalTrustPath cwd) (so_print_trust env policy)"

section \<open>trust\<close>

definition trust_init :: "store_env \<Rightarrow> segments \<Rightarrow> disk \<Rightarrow> cli_result" where
  "trust_init env cwd d =
     (if existsSync d (getTrustReadPath cwd d) then finish d
      else stepped (saveTrustPolicy env cwd DEFAULT_TRUST_POLICY d) finish)"

definition update_policy_file :: "store_env \<Rightarrow> segments \<Rightarrow> (trust \<Rightarrow> trust) \<Rightarrow> disk \<Rightarrow> cli_result" where
  "update_policy_file env cwd f d =
     (case loadTrustPolicy env cwd d of
        Inl e \<Rightarrow> exit_one d
      | Inr policy \<Rightarrow> stepped (saveTrustPolicy env cwd (f policy) d) finish)"

definition trust_pin_mcp :: "store_env \<Rightarrow> segments \<Rightarrow> string \<Rightarrow> string option \<Rightarrow> pin_mode \<Rightarrow> disk \<Rightarrow> cli_result" where
  "trust_pin_mcp env cwd serverUrl fingerprint mode d =
     (if text_or [] fingerprint = [] then exit_one d
      else update_policy_file env cwd (pinMCPServer serverUrl (the fingerprint) mode) d)"

definition is_git_source :: "string \<Rightarrow> bool" where
  "is_git_source pathOrUrl \<longleftrightarrow> starts_with pathOrUrl ''http'' \<or> starts_with pathOrUrl ''git@''"

definition trust_pin_skill ::
  "store_env \<Rightarrow> segments \<Rightarrow> string \<Rightarrow> string option \<Rightarrow> string option \<Rightarrow> pin_mode \<Rightarrow> disk \<Rightarrow> cli_result" where
  "trust_pin_skill env cwd pathOrUrl commit hash mode d =
     (let isGit = is_git_source pathOrUrl; h = (if isGit then commit else hash)
      in if text_or [] h = [] then exit_one d
         else update_policy_file env cwd (pinSkillSource (if isGit then Git_source else Local_source) pathOrUrl (the h) mode) d)"

fun severity_name :: "violation_severity \<Rightarrow> string" where
  "severity_name Violation_error = ''error''"
| "severity_name Violation_warning = ''warning''"

fun violation_name :: "violation_type \<Rightarrow> string" where
  "violation_name Fingerprint_mismatch = ''fingerprint_mismatch''"
| "violation_name Unpinned_server = ''unpinned_server''"
| "violation_name Unpinned_skill = ''unpinned_skill''"
| "violation_name New_tool = ''new_tool''"

definition violation_object :: "violation \<Rightarrow> json" where
  "violation_object v = obj_of [(''type'', Some (JStr (violation_name (vi_type v)))), (''severity'', Some (JStr (severity_name (vi_severity v)))),
     (''message'', Some (JStr (vi_message v))), (''details'', vi_details v)]"

definition audit_json :: "trust \<Rightarrow> audit_report \<Rightarrow> json" where
  "audit_json trust report = JObj [(''passed'', JBool (rp_passed report)), (''violations'', JArr (map violation_object (rp_violations report))),
     (''pinned_mcp_servers'', JNum (of_nat (length (tp_mcp_servers trust)))), (''pinned_skill_sources'', JNum (of_nat (length (tp_skill_sources trust)))),
     (''auto_updates'', JBool (allow_auto_updates (tp_update_policy trust)))]"

definition load_bindings :: "store_env \<Rightarrow> segments \<Rightarrow> disk \<Rightarrow> string + bindings" where
  "load_bindings env cwd d =
     (let p = resolveBindingsPath d (trust_root cwd)
      in if existsSync d p then read_stored env (so_bindings env) p d else Inr \<lparr>bd_servers = []\<rparr>)"

definition trust_audit :: "store_env \<Rightarrow> string \<Rightarrow> segments \<Rightarrow> bool \<Rightarrow> disk \<Rightarrow> cli_result" where
  "trust_audit env now cwd json_mode d =
     (let p = getTrustReadPath cwd d in
      if \<not> existsSync d p then finish d
      else (case sum_bind (read_stored env (so_trust env) p d) (\<lambda>trust. map_sum id (Pair trust) (load_bindings env cwd d)) of
              Inl e \<Rightarrow> exit_one d
            | Inr (trust, bindings) \<Rightarrow>
                json_or_else json_mode (audit_json trust (audit trust bindings None now)) (finish d)))"

section \<open>mcp\<close>

definition getRegistryPath :: "segments \<Rightarrow> segments" where
  "getRegistryPath cwd = cwd @ [''.tastekit'', ''mcp'', ''servers.json'']"

definition loadRegistry :: "store_env \<Rightarrow> segments \<Rightarrow> disk \<Rightarrow> string + registry" where
  "loadRegistry env cwd d =
     (let p = getRegistryPath cwd in if existsSync d p then read_stored env (so_registry env) p d else Inr [])"

definition saveRegistry :: "store_env \<Rightarrow> segments \<Rightarrow> registry \<Rightarrow> disk_step" where
  "saveRegistry env cwd registry = save_stored env (getRegistryPath cwd) (so_print_registry env registry)"

text \<open>The characters that \<open>/[^a-zA-Z0-9-]/g\<close> keeps.\<close>

definition is_name_char :: "char \<Rightarrow> bool" where
  "is_name_char c \<longleftrightarrow> is_digit c \<or> c = CHR ''-''
     \<or> (let n = of_char c :: nat in 65 \<le> n \<and> n \<le> 90 \<or> 97 \<le> n \<and> n \<le> 122)"

definition server_name :: "string \<Rightarrow> string option \<Rightarrow> string" where
  "server_name serverRef name =
     (if text_or [] name \<noteq> [] then the name
      else let short = filter is_name_char (last (split_on CHR ''/'' serverRef)) in if short \<noteq> [] then short else ''server'')"

definition is_url :: "string \<Rightarrow> bool" where
  "is_url serverRef \<longleftrightarrow> starts_with serverRef ''http://'' \<or> starts_with serverRef ''https://''"

definition added_entry :: "string \<Rightarrow> string \<Rightarrow> string \<Rightarrow> string option \<Rightarrow> registry_entry" where
  "added_entry now name serverRef args =
     \<lparr>re_config = \<lparr>cf_name = name, cf_command = (if is_url serverRef then None else Some serverRef),
        cf_args = (if is_url serverRef then None else Some (if text_or [] args = [] then [] else split_on CHR '','' (the args))),
        cf_env = None, cf_url = (if is_url serverRef then Some serverRef else None),
        cf_transport = Some (if is_url serverRef then Streamable_http else Stdio), cf_fingerprint = None\<rparr>,
      re_pinned = False, re_added_at = now\<rparr>"

definition transport_name :: "string \<Rightarrow> string" where
  "transport_name serverRef = (if is_url serverRef then ''streamable-http'' else ''stdio'')"

definition mcp_add :: "store_env \<Rightarrow> string \<Rightarrow> segments \<Rightarrow> string \<Rightarrow> string option \<Rightarrow> string option \<Rightarrow> bool \<Rightarrow> disk \<Rightarrow> cli_result" where
  "mcp_add env now cwd serverRef name args json_mode d =
     (case loadRegistry env cwd d of
        Inl e \<Rightarrow> exit_one d
      | Inr registry \<Rightarrow>
          let k = server_name serverRef name in
          stepped (saveRegistry env cwd (AList.update k (added_entry now k serverRef args) registry) d) (\<lambda>d'.
          json_or_else json_mode (JObj [(''name'', JStr k), (''transport'', JStr (transport_name serverRef)), (''ref'', JStr serverRef)]) (finish d')))"

definition mcp_list :: "store_env \<Rightarrow> segments \<Rightarrow> bool \<Rightarrow> disk \<Rightarrow> cli_result" where
  "mcp_list env cwd json_mode d =
     (case loadRegistry env cwd d of
        Inl e \<Rightarrow> exit_one d
      | Inr registry \<Rightarrow> json_or_else json_mode (JObj [(''servers'', JArr (map (so_entry_json env \<circ> snd) registry))]) (finish d))"

text \<open>The answers of a server; a failure leaves the client as it is and ends the process.\<close>

definition inspected ::
  "(string \<Rightarrow> string) \<Rightarrow> (json \<Rightarrow> string) \<Rightarrow> sdk \<Rightarrow> mcp_client \<Rightarrow> (mcp_tool list \<times> mcp_resource list \<times> mcp_prompt list \<times> string) outcome" where
  "inspected hash stringify s c =
     on_ok (connect s c) (\<lambda>_ c.
     on_ok (listTools s c) (\<lambda>tools c.
     on_ok (listResources s c) (\<lambda>resources c.
     on_ok (listPrompts s c) (\<lambda>prompts c.
     on_ok (getFingerprint hash stringify s c) (\<lambda>fp c.
     on_ok (disconnect s c) (\<lambda>_ c. (Inr (tools, resources, prompts, fp), c)))))))"

text \<open>\<open>shown\<close> prints what was discovered.\<close>

definition mcp_inspect ::
  "store_env \<Rightarrow> (string \<Rightarrow> string) \<Rightarrow> (json \<Rightarrow> string) \<Rightarrow> (mcp_config \<Rightarrow> sdk)
     \<Rightarrow> (string \<Rightarrow> mcp_tool list \<times> mcp_resource list \<times> mcp_prompt list \<times> string \<Rightarrow> json) \<Rightarrow> segments \<Rightarrow> string \<Rightarrow> bool \<Rightarrow> disk \<Rightarrow> cli_result" where
  "mcp_inspect env hash stringify sdk_of shown cwd serverName json_mode d =
     (case loadRegistry env cwd d of
        Inl e \<Rightarrow> exit_one d
      | Inr registry \<Rightarrow>
          (case map_of registry serverName of
             None \<Rightarrow> exit_one d
           | Some e \<Rightarrow>
               (case fst (inspected hash stringify (sdk_of (re_config e)) (new_client (re_config e))) of
                  Inl f \<Rightarrow> exit_one d
                | Inr r \<Rightarrow> json_or_else json_mode (shown serverName r) (finish d))))"

definition selected_servers :: "registry \<Rightarrow> string option \<Rightarrow> mcp_config list" where
  "selected_servers registry server =
     (if text_or [] server \<noteq> [] then (case map_of registry (the server) of None \<Rightarrow> [] | Some e \<Rightarrow> [re_config e])
      else map (re_config \<circ> snd) registry)"

definition bindings_path :: "segments \<Rightarrow> segments" where
  "bindings_path cwd = cwd @ [''.tastekit'', ''bindings.v1.json'']"

text \<open>The approval rules that the binder makes, \<open>run_guardrails\<close>, are collected and not used.\<close>

definition bind_command ::
  "store_env \<Rightarrow> (string \<Rightarrow> string) \<Rightarrow> (json \<Rightarrow> string) \<Rightarrow> (mcp_config \<Rightarrow> sdk) \<Rightarrow> string \<Rightarrow> segments \<Rightarrow> string option \<Rightarrow> bool \<Rightarrow> disk \<Rightarrow> cli_result" where
  "bind_command env hash stringify sdk_of now cwd server json_mode d =
     (case loadRegistry env cwd d of
        Inl e \<Rightarrow> exit_one d
      | Inr registry \<Rightarrow>
          let servers = selected_servers registry server in
          if servers = [] then finish d
          else let artifact = \<lparr>bd_servers = run_bindings (mcp_bind hash stringify sdk_of now servers)\<rparr>
               in stepped (save_stored env (bindings_path cwd) (so_print_bindings env artifact) d) (\<lambda>d'.
                  json_or_else json_mode (so_bindings_json env artifact) (finish d')))"

section \<open>Facts about stored files\<close>

lemma save_stored:
  assumes "p \<noteq> []" "\<not> is_dir d p"
  shows "\<exists>d'. save_stored env p t d = (None, d') \<and> (\<forall>q. read_file d' q = (if q = p then Some t else read_file d q))
     \<and> (\<forall>q. is_dir d' q \<longleftrightarrow> is_dir d q \<or> prefix q (butlast p))"
proof -
  have "\<not> prefix p (butlast p)"
  proof
    assume "prefix p (butlast p)"
    from prefix_length_le [OF this] assms(1) show False by (cases p rule: rev_cases) simp_all
  qed
  then show ?thesis using assms(2)
    by (auto simp: save_stored_def mkdir_step_def write_step_def is_dir_make_dirs)
qed

lemma save_stored_frame: "q \<noteq> p \<Longrightarrow> read_file (snd (save_stored env p t d)) q = read_file d q"
  by (simp add: save_stored_def mkdir_step_def write_step_def)

lemma saved_policy:
  assumes "so_trust env (so_print_trust env pol) = Inr pol" "read_file d (getCanonicalTrustPath cwd) = Some (so_print_trust env pol)"
  shows "getTrustReadPath cwd d = getCanonicalTrustPath cwd" "loadTrustPolicy env cwd d = Inr pol"
proof -
  show "getTrustReadPath cwd d = getCanonicalTrustPath cwd"
    using assms(2) by (simp add: getTrustReadPath_def resolveTrustPath_def getCanonicalTrustPath_def existsSync_def)
  then show "loadTrustPolicy env cwd d = Inr pol"
    using assms by (simp add: loadTrustPolicy_def read_stored_def existsSync_def)
qed

lemma pin_stored:
  assumes law: "so_trust env (so_print_trust env (pinMCPServer url fp mode pol)) = Inr (pinMCPServer url fp mode pol)"
    and "loadTrustPolicy env cwd d = Inr pol" "fp \<noteq> []" "\<not> is_dir d (getCanonicalTrustPath cwd)"
  shows "\<exists>d'. trust_pin_mcp env cwd url (Some fp) mode d = finish d' \<and> loadTrustPolicy env cwd d' = Inr (pinMCPServer url fp mode pol)
     \<and> existsSync d' (getTrustReadPath cwd d') \<and> \<not> is_dir d' (getCanonicalTrustPath cwd)
     \<and> (\<forall>q. q \<noteq> getCanonicalTrustPath cwd \<longrightarrow> read_file d' q = read_file d q) \<and> (\<forall>q. is_dir d' q \<longleftrightarrow> is_dir d q \<or> prefix q (trust_root cwd))"
proof -
  let ?p = "getCanonicalTrustPath cwd"
  have p: "?p \<noteq> []" "butlast ?p = trust_root cwd" by (simp_all add: getCanonicalTrustPath_def trust_root_def butlast_append)
  obtain d' where d': "save_stored env ?p (so_print_trust env (pinMCPServer url fp mode pol)) d = (None, d')"
    "\<And>q. read_file d' q = (if q = ?p then Some (so_print_trust env (pinMCPServer url fp mode pol)) else read_file d q)"
    "\<And>q. is_dir d' q \<longleftrightarrow> is_dir d q \<or> prefix q (trust_root cwd)"
    using save_stored [OF p(1) assms(4)] unfolding p(2) by blast
  have "read_file d' ?p = Some (so_print_trust env (pinMCPServer url fp mode pol))" by (simp add: d'(2))
  note saved = saved_policy [OF law this]
  have "\<not> prefix ?p (trust_root cwd)" by (auto simp: getCanonicalTrustPath_def prefix_def)
  moreover have "existsSync d' ?p" by (simp add: existsSync_def d'(2))
  ultimately show ?thesis
    using assms(2-4) d' saved
    by (intro exI [of _ d']) (simp add: trust_pin_mcp_def text_or_def update_policy_file_def saveTrustPolicy_def stepped_def)
qed

definition pin_command :: "store_env \<Rightarrow> segments \<Rightarrow> pin_mode \<Rightarrow> cli_result \<Rightarrow> bindings_server \<Rightarrow> cli_result" where
  "pin_command env cwd mode r b =
     (let r' = trust_pin_mcp env cwd (bs_url b) (Some (bound_fingerprint b)) mode (cx_disk r)
      in r'\<lparr>cx_code := max (cx_code r) (cx_code r')\<rparr>)"

text \<open>The policies that are stored on the way are read back.\<close>

definition pins_readable :: "store_env \<Rightarrow> pin_mode \<Rightarrow> trust \<Rightarrow> bindings_server list \<Rightarrow> bool" where
  "pins_readable env mode pol bs \<longleftrightarrow> (\<forall>i \<in> set [1..<Suc (length bs)]. let p = foldl (pin_bound mode) pol (take i bs)
     in so_trust env (so_print_trust env p) = Inr p)"

lemma pins_readable_Cons:
  "pins_readable env mode pol (b # bs) \<Longrightarrow> so_trust env (so_print_trust env (pin_bound mode pol b)) = Inr (pin_bound mode pol b)
     \<and> pins_readable env mode (pin_bound mode pol b) bs"
proof -
  assume all: "pins_readable env mode pol (b # bs)"
  have "so_trust env (so_print_trust env (pin_bound mode pol b)) = Inr (pin_bound mode pol b)"
  proof -
    have "1 \<in> set [1..<Suc (length (b # bs))]" by (simp only: set_upt atLeastLessThan_iff list.size) simp
    from bspec [OF all [unfolded pins_readable_def] this] show ?thesis by (simp add: Let_def)
  qed
  moreover have "let p = foldl (pin_bound mode) (pin_bound mode pol b) (take i bs) in so_trust env (so_print_trust env p) = Inr p"
    if "i \<in> set [1..<Suc (length bs)]" for i
  proof -
    have "Suc i \<in> set [1..<Suc (length (b # bs))]" using that by (simp only: set_upt atLeastLessThan_iff list.size) simp
    from bspec [OF all [unfolded pins_readable_def] this] show ?thesis by (simp add: Let_def)
  qed
  ultimately show ?thesis by (simp add: pins_readable_def)
qed

lemma pins_stored:
  "pins_readable env mode pol bs \<Longrightarrow> loadTrustPolicy env cwd (cx_disk r) = Inr pol \<Longrightarrow> \<forall>b \<in> set bs. bound_fingerprint b \<noteq> [] \<Longrightarrow> \<not> is_dir (cx_disk r) (getCanonicalTrustPath cwd) \<Longrightarrow> cx_code r = 0
    \<Longrightarrow> r' = foldl (pin_command env cwd mode) r bs
    \<Longrightarrow> cx_code r' = 0 \<and> loadTrustPolicy env cwd (cx_disk r') = Inr (foldl (pin_bound mode) pol bs)
      \<and> (bs \<noteq> [] \<longrightarrow> existsSync (cx_disk r') (getTrustReadPath cwd (cx_disk r')))
      \<and> (\<forall>q. q \<noteq> getCanonicalTrustPath cwd \<longrightarrow> read_file (cx_disk r') q = read_file (cx_disk r) q)
      \<and> (\<forall>q. is_dir (cx_disk r') q \<longrightarrow> is_dir (cx_disk r) q \<or> prefix q (trust_root cwd))"
proof (induction bs arbitrary: r pol r')
  case (Cons b bs)
  from Cons.prems(3) have fp: "bound_fingerprint b \<noteq> []" by simp
  note laws = pins_readable_Cons [OF Cons.prems(1)]
  from pin_stored [OF laws [THEN conjunct1, unfolded pin_bound_def] Cons.prems(2) fp Cons.prems(4)] obtain d1 where
    d1: "trust_pin_mcp env cwd (bs_url b) (Some (bound_fingerprint b)) mode (cx_disk r) = finish d1"
    "loadTrustPolicy env cwd d1 = Inr (pin_bound mode pol b)" "existsSync d1 (getTrustReadPath cwd d1)"
    "\<not> is_dir d1 (getCanonicalTrustPath cwd)" "\<And>q. q \<noteq> getCanonicalTrustPath cwd \<Longrightarrow> read_file d1 q = read_file (cx_disk r) q"
    "\<And>q. is_dir d1 q \<longleftrightarrow> is_dir (cx_disk r) q \<or> prefix q (trust_root cwd)"
    unfolding pin_bound_def by blast
  define r1 where "r1 = pin_command env cwd mode r b"
  have r1: "cx_disk r1 = d1" "cx_code r1 = 0" using Cons.prems(5) by (simp_all add: r1_def pin_command_def Let_def d1(1) finish_def)
  from Cons.prems(6) have r': "r' = foldl (pin_command env cwd mode) r1 bs" by (simp add: r1_def)
  note IH = Cons.IH [OF laws [THEN conjunct2], of r1 r', unfolded r1, OF d1(2) _ d1(4) refl r']
  show ?case
    using IH d1(3,5,6) Cons.prems(3) r' r1 by (cases "bs = []") auto
qed simp

section \<open>Bind, pin, audit on disk\<close>

lemma bound_facts:
  assumes "bs = run_bindings (mcp_bind hash stringify sdk_of now servers)" "distinct (map server_url servers)" "\<And>x. hash x \<noteq> []"
  shows "distinct (map bs_url bs)" "\<forall>b \<in> set bs. bound_fingerprint b \<noteq> []"
proof -
  let ?start = "\<lparr>run_bindings = [], run_guardrails = [], run_skipped = [], run_clients = []\<rparr>"
  show "distinct (map bs_url bs)"
    using bind_runs [of hash stringify sdk_of now ?start servers] assms(1,2) by (auto simp: mcp_bind_def)
  show "\<forall>b \<in> set bs. bound_fingerprint b \<noteq> []"
    using bind_runs [of hash stringify sdk_of now ?start servers] assms(1,3) by (force simp: mcp_bind_def list_all_iff bound_fingerprint_def)
qed

lemma pinned_audit_passes:
  assumes "distinct (map bs_url bs)"
  shows "rp_passed (audit (foldl (pin_bound mode) pol bs) \<lparr>bd_servers = bs\<rparr> None now)"
  using find_url [OF assms] by (auto simp: audit_passed server_error pinned_all [OF assms])

lemma trust_place:
  obtains x where "getTrustReadPath cwd d = trust_root cwd @ x"
    "x \<in> {[''trust.v1.json''], [''trust.v1.yaml''], [''artifacts'', ''trust.v1.json''], [''artifacts'', ''trust.v1.yaml'']}"
proof -
  let ?w = "trust_root cwd"
  have "getTrustReadPath cwd d \<in> (@) ?w ` {[''trust.v1.json''], [''trust.v1.yaml''], [''artifacts'', ''trust.v1.json''], [''artifacts'', ''trust.v1.yaml'']}"
    using first_existing_mem [of "existsSync d" "[?w @ [''trust.v1.json''], ?w @ [''trust.v1.yaml''], ?w @ [''artifacts'', ''trust.v1.json''],
      ?w @ [''artifacts'', ''trust.v1.yaml'']]" "?w @ [''trust.v1.json'']"]
    unfolding getTrustReadPath_def resolveTrustPath_def by (simp del: first_existing.simps)
  then show ?thesis using that by blast
qed

text \<open>
  C36. From bound servers to a passing audit. Let \<open>mcp bind\<close> run over the registry of a workspace, whose
  servers have distinct addresses, and let \<open>trust pin-mcp\<close> pin each bound server, in either mode, on top
  of any earlier policy, also one in an old place. Every command succeeds; \<open>trust audit\<close> then reads the
  pinned policy and the bindings, and reports that the audit is passed. Beside the bindings and the trust
  policy no file changes: the approval rules that the binder made for risky tools are not stored.
\<close>

theorem bound_workspace_passes_audit:
  assumes laws: "pins_readable env mode trust0 bs" "so_bindings env (so_print_bindings env \<lparr>bd_servers = bs\<rparr>) = Inr \<lparr>bd_servers = bs\<rparr>" "\<And>x. hash x \<noteq> []"
    and registry: "loadRegistry env cwd d = Inr registry" "servers = selected_servers registry None" "servers \<noteq> []" "distinct (map server_url servers)"
    and bind: "r = bind_command env hash stringify sdk_of now cwd None False d" "bs = run_bindings (mcp_bind hash stringify sdk_of now servers)" "bs \<noteq> []"
    and policy: "loadTrustPolicy env cwd d = Inr trust0" "\<not> is_dir d (getCanonicalTrustPath cwd)" "\<not> is_dir d (bindings_path cwd)"
    and pins: "r' = foldl (pin_command env cwd mode) r bs"
  shows "cx_code r' = 0 \<and> loadTrustPolicy env cwd (cx_disk r') = Inr (foldl (pin_bound mode) trust0 bs)
     \<and> rp_passed (audit (foldl (pin_bound mode) trust0 bs) \<lparr>bd_servers = bs\<rparr> None later)
     \<and> trust_audit env later cwd True (cx_disk r')
         = jsonOutput (audit_json (foldl (pin_bound mode) trust0 bs) (audit (foldl (pin_bound mode) trust0 bs) \<lparr>bd_servers = bs\<rparr> None later)) (cx_disk r')
     \<and> (\<forall>q. q \<noteq> bindings_path cwd \<and> q \<noteq> getCanonicalTrustPath cwd \<longrightarrow> read_file (cx_disk r') q = read_file d q)"
proof -
  let ?b = "bindings_path cwd" and ?t = "so_print_bindings env \<lparr>bd_servers = bs\<rparr>"
  have b: "?b \<noteq> []" "butlast ?b = trust_root cwd" by (simp_all add: bindings_path_def trust_root_def butlast_append)
  obtain d1 where d1: "save_stored env ?b ?t d = (None, d1)" "\<And>q. read_file d1 q = (if q = ?b then Some ?t else read_file d q)"
    "\<And>q. is_dir d1 q \<longleftrightarrow> is_dir d q \<or> prefix q (trust_root cwd)"
    using save_stored [OF b(1) policy(3), of env ?t] unfolding b(2) by blast
  have r: "cx_disk r = d1" "cx_code r = 0"
    using registry(1,3) d1(1) by (simp_all add: bind(1) bind_command_def registry(2)[symmetric] bind(2)[symmetric] stepped_def json_or_else_def finish_def)
  let ?X = "{[''trust.v1.json''], [''trust.v1.yaml''], [''artifacts'', ''trust.v1.json''], [''artifacts'', ''trust.v1.yaml'']}"
  have below: "\<not> prefix (trust_root cwd @ x) (trust_root cwd)" if "x \<noteq> []" for x
    using that by (auto simp: prefix_def)
  have other: "trust_root cwd @ x \<noteq> ?b" "x \<noteq> []" if "x \<in> ?X" for x
    using that by (auto simp: bindings_path_def trust_root_def)
  have files: "read_file d1 (trust_root cwd @ x) = read_file d (trust_root cwd @ x)" if "x \<in> ?X" for x
    using other [OF that] by (simp add: d1(2))
  have same: "existsSync d1 (trust_root cwd @ x) = existsSync d (trust_root cwd @ x)" if "x \<in> ?X" for x
    using files [OF that] below [OF other(2) [OF that]] by (simp add: existsSync_def d1(3))
  have place: "getTrustReadPath cwd d1 = getTrustReadPath cwd d"
    unfolding getTrustReadPath_def resolveTrustPath_def by (simp add: same)
  obtain x where x: "getTrustReadPath cwd d = trust_root cwd @ x" "x \<in> ?X" by (rule trust_place)
  have pol: "loadTrustPolicy env cwd d1 = Inr trust0"
    using policy(1) unfolding loadTrustPolicy_def read_stored_def Let_def place x(1) by (simp add: same [OF x(2)] files [OF x(2)] split: if_splits)
  have "\<not> is_dir d1 (getCanonicalTrustPath cwd)"
    using policy(2) below by (simp add: d1(3) getCanonicalTrustPath_def)
  note facts = bound_facts [OF bind(2) registry(4) laws(3)]
  have p: "cx_code r' = 0" "loadTrustPolicy env cwd (cx_disk r') = Inr (foldl (pin_bound mode) trust0 bs)"
    "existsSync (cx_disk r') (getTrustReadPath cwd (cx_disk r'))" "\<And>q. q \<noteq> getCanonicalTrustPath cwd \<Longrightarrow> read_file (cx_disk r') q = read_file d1 q"
    using pins_stored [where r = r and bs = bs and r' = r', unfolded r, OF laws(1) pol facts(2) \<open>\<not> is_dir d1 _\<close> refl] pins bind(3) by blast+
  have "?b \<noteq> getCanonicalTrustPath cwd" by (simp add: bindings_path_def getCanonicalTrustPath_def trust_root_def)
  with p(4) d1(2) have stored: "read_file (cx_disk r') ?b = Some ?t" by simp
  then have "resolveBindingsPath (cx_disk r') (trust_root cwd) = ?b"
    by (simp add: resolveBindingsPath_def bindings_path_def trust_root_def existsSync_def)
  with stored laws(2) have "load_bindings env cwd (cx_disk r') = Inr \<lparr>bd_servers = bs\<rparr>"
    by (simp add: load_bindings_def read_stored_def existsSync_def)
  with p(2,3) have "trust_audit env later cwd True (cx_disk r')
         = jsonOutput (audit_json (foldl (pin_bound mode) trust0 bs) (audit (foldl (pin_bound mode) trust0 bs) \<lparr>bd_servers = bs\<rparr> None later)) (cx_disk r')"
    by (simp add: trust_audit_def loadTrustPolicy_def Let_def json_or_else_def finish_def)
  with p d1(2) pinned_audit_passes [OF facts(1)] show ?thesis by simp
qed

definition pinned_sample :: trust where
  "pinned_sample = pin_bound Strict DEFAULT_TRUST_POLICY (server_bindings ''files'' ''server'' ''hj'' [sample_tool] [] [] ''t'')"

definition sample_store :: store_env where
  "sample_store = \<lparr>so_trust = (\<lambda>_. Inr pinned_sample), so_print_trust = (\<lambda>_. ''t''),
     so_bindings = (\<lambda>_. Inr \<lparr>bd_servers = [server_bindings ''files'' ''server'' ''hj'' [sample_tool] [] [] ''t'']\<rparr>), so_print_bindings = (\<lambda>_. ''b''),
     so_bindings_json = (\<lambda>_. JNull),
     so_registry = (\<lambda>_. Inr [(''files'', \<lparr>re_config = sample_config, re_pinned = False, re_added_at = ''t''\<rparr>)]), so_print_registry = (\<lambda>_. ''r''),
     so_entry_json = (\<lambda>_. JNull), so_oserr = (\<lambda>_. ''ENOENT'')\<rparr>"

definition registry_disk :: disk where
  "registry_disk = \<lparr>dk_files = [([''.tastekit'', ''mcp'', ''servers.json''], ''r'')], dk_dirs = [[], [''.tastekit''], [''.tastekit'', ''mcp'']]\<rparr>"

theorem bound_workspace_passes_audit_witness:
  "\<exists>r r' j. r = bind_command sample_store (\<lambda>x. CHR ''h'' # x) (\<lambda>_. ''j'') (\<lambda>_. sample_sdk) ''t'' [] None False registry_disk
     \<and> r' = pin_command sample_store [] Strict r (server_bindings ''files'' ''server'' ''hj'' [sample_tool] [] [] ''t'') \<and> cx_code r' = 0
     \<and> trust_audit sample_store ''u'' [] True (cx_disk r') = jsonOutput j (cx_disk r') \<and> jfield ''passed'' j = Some (JBool True)"
proof -
  let ?b = "server_bindings ''files'' ''server'' ''hj'' [sample_tool] [] [] ''t''"
  have loads: "loadRegistry sample_store [] registry_disk = Inr [(''files'', \<lparr>re_config = sample_config, re_pinned = False, re_added_at = ''t''\<rparr>)]"
    "loadTrustPolicy sample_store [] registry_disk = Inr DEFAULT_TRUST_POLICY"
    by (simp_all add: loadRegistry_def loadTrustPolicy_def read_stored_def sample_store_def registry_disk_def getRegistryPath_def existsSync_def
        read_file_def getTrustReadPath_def resolveTrustPath_def trust_root_def is_dir_def Let_def)
  have servers: "[sample_config] = selected_servers [(''files'', \<lparr>re_config = sample_config, re_pinned = False, re_added_at = ''t''\<rparr>)] None"
    by (simp add: selected_servers_def text_or_def)
  have free: "\<not> is_dir registry_disk (getCanonicalTrustPath [])" "\<not> is_dir registry_disk (bindings_path [])"
    by (simp_all add: registry_disk_def is_dir_def getCanonicalTrustPath_def trust_root_def bindings_path_def)
  have bound: "bound_fingerprint ?b = ''hj''" "bs_url ?b = ''server''" by (simp_all add: bound_fingerprint_def server_bindings_def)
  have readable: "pins_readable sample_store Strict DEFAULT_TRUST_POLICY [?b]"
    "so_bindings sample_store (so_print_bindings sample_store \<lparr>bd_servers = [?b]\<rparr>) = Inr \<lparr>bd_servers = [?b]\<rparr>"
    by (simp_all add: pins_readable_def sample_store_def pinned_sample_def Let_def)
  note result = bound_workspace_passes_audit [OF readable _ loads(1) servers _ _ refl sample_bound [symmetric] _ loads(2) free refl, of "''u''"]
  show ?thesis
    using result by (auto simp: audit_json_def)
qed

end
