(* ===== verification/Providers.thy ===== *)
theory Providers
  imports Interviews Dynamic
begin

text \<open>
  TasteKit core, llm/provider.ts, llm/resolve.ts and the three clients llm/providers/*.ts. A request
  is a value; \<open>fetch\<close>, the reading of a JSON body and the text of a network error are parameters. The
  theorem says that the clients are interchangeable: whichever service answers, a caller that talks
  the way the interview does gets the answer to the same conversation.
\<close>

section \<open>Interface\<close>

record completion_options =
  co_max_tokens :: "nat option"
  co_temperature :: "rat option"
  co_stop :: "string list option"

record completion_result =
  cm_content :: json
  cm_input_tokens :: "json option"
  cm_output_tokens :: "json option"

record provider_config =
  pc_provider :: string
  pc_model :: "string option"
  pc_api_key_env :: "string option"
  pc_base_url :: "string option"

record llm_request =
  lr_method :: string
  lr_url :: string
  lr_headers :: "(string \<times> string) list"
  lr_body :: "json option"

record llm_reply =
  ly_ok :: bool
  ly_status :: nat
  ly_text :: string

record net_env =
  nt_fetch :: "llm_request \<Rightarrow> string + llm_reply"
  nt_parse :: "string \<Rightarrow> string + json"

datatype provider_kind = Anthropic | OpenAI | Ollama

record llm_client =
  lc_kind :: provider_kind
  lc_api_key :: string
  lc_model :: string
  lc_base_url :: string

text \<open>The property \<open>name\<close> of a client.\<close>

fun provider_name :: "provider_kind \<Rightarrow> string" where
  "provider_name Anthropic = ''anthropic''"
| "provider_name OpenAI = ''openai''"
| "provider_name Ollama = ''ollama''"

fun role_name :: "llm_role \<Rightarrow> string" where
  "role_name System_role = ''system''"
| "role_name User_role = ''user''"
| "role_name Assistant_role = ''assistant''"

definition value_or :: "'a \<Rightarrow> 'a option \<Rightarrow> 'a" where
  "value_or d v = (case v of None \<Rightarrow> d | Some x \<Rightarrow> x)"

text \<open>\<open>v ?? d\<close>.\<close>

definition nullish_or :: "json \<Rightarrow> json option \<Rightarrow> json" where
  "nullish_or d v = (case v of None \<Rightarrow> d | Some JNull \<Rightarrow> d | Some x \<Rightarrow> x)"

section \<open>Requests\<close>

definition message_json :: "llm_message \<Rightarrow> json" where
  "message_json m = JObj [(''role'', JStr (role_name (fst m))), (''content'', JStr (snd m))]"

definition messages_json :: "llm_message list \<Rightarrow> json" where
  "messages_json ms = JArr (map message_json ms)"

definition stop_json :: "completion_options \<Rightarrow> json option" where
  "stop_json opts = map_option (\<lambda>ss. JArr (map JStr ss)) (co_stop opts)"

definition anthropic_body :: "string \<Rightarrow> llm_message list \<Rightarrow> completion_options \<Rightarrow> json" where
  "anthropic_body model messages opts = obj_of [(''model'', Some (JStr model)),
     (''max_tokens'', Some (JNum (of_nat (value_or 1024 (co_max_tokens opts))))),
     (''messages'', Some (messages_json (filter (\<lambda>m. fst m \<noteq> System_role) messages))),
     (''system'', map_option (\<lambda>m. JStr (snd m)) (find (\<lambda>m. fst m = System_role) messages)),
     (''temperature'', map_option JNum (co_temperature opts)),
     (''stop_sequences'', stop_json opts)]"

definition openai_body :: "string \<Rightarrow> llm_message list \<Rightarrow> completion_options \<Rightarrow> json" where
  "openai_body model messages opts = obj_of [(''model'', Some (JStr model)), (''messages'', Some (messages_json messages)),
     (''max_tokens'', map_option (\<lambda>n. JNum (of_nat n)) (co_max_tokens opts)),
     (''temperature'', map_option JNum (co_temperature opts)), (''stop'', stop_json opts)]"

definition ollama_body :: "string \<Rightarrow> llm_message list \<Rightarrow> completion_options \<Rightarrow> json" where
  "ollama_body model messages opts = obj_of [(''model'', Some (JStr model)), (''messages'', Some (messages_json messages)),
     (''stream'', Some (JBool False)),
     (''options'', if co_temperature opts \<noteq> None \<or> co_stop opts \<noteq> None
                   then Some (obj_of [(''temperature'', map_option JNum (co_temperature opts)), (''stop'', stop_json opts)]) else None)]"

fun request_body :: "provider_kind \<Rightarrow> string \<Rightarrow> llm_message list \<Rightarrow> completion_options \<Rightarrow> json" where
  "request_body Anthropic = anthropic_body"
| "request_body OpenAI = openai_body"
| "request_body Ollama = ollama_body"

fun request_headers :: "provider_kind \<Rightarrow> string \<Rightarrow> (string \<times> string) list" where
  "request_headers Anthropic key = [(''Content-Type'', ''application/json''), (''x-api-key'', key), (''anthropic-version'', ''2023-06-01'')]"
| "request_headers OpenAI key = [(''Content-Type'', ''application/json''), (''Authorization'', ''Bearer '' @ key)]"
| "request_headers Ollama key = [(''Content-Type'', ''application/json'')]"

fun endpoint :: "provider_kind \<Rightarrow> string" where
  "endpoint Anthropic = ''/v1/messages''"
| "endpoint OpenAI = ''/v1/chat/completions''"
| "endpoint Ollama = ''/api/chat''"

definition request_of :: "llm_client \<Rightarrow> llm_message list \<Rightarrow> completion_options \<Rightarrow> llm_request" where
  "request_of c messages opts =
     \<lparr>lr_method = ''POST'', lr_url = lc_base_url c @ endpoint (lc_kind c), lr_headers = request_headers (lc_kind c) (lc_api_key c),
       lr_body = Some (request_body (lc_kind c) (lc_model c) messages opts)\<rparr>"

section \<open>Replies\<close>

text \<open>\<open>data.content?.find((b) => b.type === 'text')\<close>.\<close>

fun find_text :: "json list \<Rightarrow> string + json option" where
  "find_text [] = Inr None"
| "find_text (b # bs) = sum_bind (dot ''type'' (Some b)) (\<lambda>t. if t = Some (JStr ''text'') then Inr (Some b) else find_text bs)"

text \<open>\<open>v?.k\<close> on a value that may be null.\<close>

definition maybe_dot :: "string \<Rightarrow> json option \<Rightarrow> json option" where
  "maybe_dot k v = (case v of None \<Rightarrow> None | Some j \<Rightarrow> jfield k j)"

definition anthropic_result :: "json \<Rightarrow> string + completion_result" where
  "anthropic_result data =
     sum_bind (dot ''content'' (Some data)) (\<lambda>content.
     sum_bind (case content of None \<Rightarrow> Inr None | Some JNull \<Rightarrow> Inr None
               | Some v \<Rightarrow> sum_bind (as_array ''data.content'' ''find'' (Some v)) find_text) (\<lambda>block.
     Inr \<lparr>cm_content = nullish_or (JStr []) (maybe_dot ''text'' block),
          cm_input_tokens = maybe_dot ''input_tokens'' (jfield ''usage'' data),
          cm_output_tokens = maybe_dot ''output_tokens'' (jfield ''usage'' data)\<rparr>))"

text \<open>\<open>choices?.[0]\<close>.\<close>

definition first_item :: "json option \<Rightarrow> json option" where
  "first_item v = (case v of Some (JArr (x # xs)) \<Rightarrow> Some x | Some (JStr (c # cs)) \<Rightarrow> Some (JStr [c])
     | Some (JObj kvs) \<Rightarrow> map_of kvs ''0'' | _ \<Rightarrow> None)"

definition openai_result :: "json \<Rightarrow> string + completion_result" where
  "openai_result data =
     sum_bind (dot ''choices'' (Some data)) (\<lambda>choices.
     Inr \<lparr>cm_content = nullish_or (JStr []) (maybe_dot ''content'' (maybe_dot ''message'' (first_item choices))),
          cm_input_tokens = maybe_dot ''prompt_tokens'' (jfield ''usage'' data),
          cm_output_tokens = maybe_dot ''completion_tokens'' (jfield ''usage'' data)\<rparr>)"

definition ollama_result :: "json \<Rightarrow> string + completion_result" where
  "ollama_result data =
     sum_bind (dot ''message'' (Some data)) (\<lambda>message.
     Inr \<lparr>cm_content = nullish_or (JStr []) (maybe_dot ''content'' message),
          cm_input_tokens = jfield ''prompt_eval_count'' data, cm_output_tokens = jfield ''eval_count'' data\<rparr>)"

fun result_of :: "provider_kind \<Rightarrow> json \<Rightarrow> string + completion_result" where
  "result_of Anthropic = anthropic_result"
| "result_of OpenAI = openai_result"
| "result_of Ollama = ollama_result"

fun error_prefix :: "provider_kind \<Rightarrow> string" where
  "error_prefix Anthropic = ''Anthropic''"
| "error_prefix OpenAI = ''OpenAI''"
| "error_prefix Ollama = ''Ollama''"

definition complete_with :: "net_env \<Rightarrow> llm_client \<Rightarrow> llm_message list \<Rightarrow> completion_options \<Rightarrow> string + completion_result" where
  "complete_with net c messages opts =
     sum_bind (nt_fetch net (request_of c messages opts)) (\<lambda>response.
     if \<not> ly_ok response
     then Inl (error_prefix (lc_kind c) @ '' API error ('' @ show_nat (ly_status response) @ ''): '' @ ly_text response)
     else sum_bind (nt_parse net (ly_text response)) (result_of (lc_kind c)))"

definition no_options :: completion_options where
  "no_options = \<lparr>co_max_tokens = None, co_temperature = None, co_stop = None\<rparr>"

definition asJudgeProvider :: "net_env \<Rightarrow> llm_client \<Rightarrow> string \<Rightarrow> string + json" where
  "asJudgeProvider net c prompt = map_sum id cm_content (complete_with net c [(User_role, prompt)] no_options)"

section \<open>Resolution\<close>

definition anthropic_client :: "string \<Rightarrow> string option \<Rightarrow> string option \<Rightarrow> llm_client" where
  "anthropic_client key model base = \<lparr>lc_kind = Anthropic, lc_api_key = key, lc_model = value_or ''claude-sonnet-4-6'' model,
     lc_base_url = value_or ''https://api.anthropic.com'' base\<rparr>"

definition openai_client :: "string \<Rightarrow> string option \<Rightarrow> string option \<Rightarrow> llm_client" where
  "openai_client key model base = \<lparr>lc_kind = OpenAI, lc_api_key = key, lc_model = value_or ''gpt-4o'' model,
     lc_base_url = value_or ''https://api.openai.com'' base\<rparr>"

definition ollama_client :: "string option \<Rightarrow> string option \<Rightarrow> llm_client" where
  "ollama_client model base = \<lparr>lc_kind = Ollama, lc_api_key = [], lc_model = value_or ''llama3.1'' model,
     lc_base_url = value_or ''http://localhost:11434'' base\<rparr>"

text \<open>The key in the environment; an empty one counts as missing. \<open>vars\<close> is \<open>process.env\<close>.\<close>

definition api_key :: "(string \<Rightarrow> string option) \<Rightarrow> string \<Rightarrow> string + string" where
  "api_key vars envVar =
     (case vars envVar of Some (c # cs) \<Rightarrow> Inr (c # cs) | _ \<Rightarrow> Inl (''Missing environment variable: '' @ envVar))"

definition resolveProvider :: "(string \<Rightarrow> string option) \<Rightarrow> provider_config \<Rightarrow> string + llm_client" where
  "resolveProvider vars config =
     (if pc_provider config = ''anthropic''
      then map_sum id (\<lambda>key. anthropic_client key (pc_model config) (pc_base_url config))
             (api_key vars (value_or ''ANTHROPIC_API_KEY'' (pc_api_key_env config)))
      else if pc_provider config = ''openai''
      then map_sum id (\<lambda>key. openai_client key (pc_model config) (pc_base_url config))
             (api_key vars (value_or ''OPENAI_API_KEY'' (pc_api_key_env config)))
      else if pc_provider config = ''ollama'' then Inr (ollama_client (pc_model config) (pc_base_url config))
      else Inl (''Unknown LLM provider: '' @ pc_provider config @ ''. Supported: anthropic, openai, ollama''))"

definition plain_config :: "string \<Rightarrow> provider_config" where
  "plain_config provider = \<lparr>pc_provider = provider, pc_model = None, pc_api_key_env = None, pc_base_url = None\<rparr>"

definition version_request :: llm_request where
  "version_request = \<lparr>lr_method = ''GET'', lr_url = ''http://localhost:11434/api/version'', lr_headers = [], lr_body = None\<rparr>"

definition not_detected :: string where
  "not_detected = ''No LLM provider detected.'' @ [nl] @ ''Set ANTHROPIC_API_KEY or OPENAI_API_KEY, or start Ollama locally.'' @ [nl]
     @ ''You can also configure a provider in .tastekit/tastekit.yaml under llm_provider.''"

definition autoDetectProvider :: "net_env \<Rightarrow> (string \<Rightarrow> string option) \<Rightarrow> string + provider_config" where
  "autoDetectProvider net vars =
     (if value_or [] (vars ''ANTHROPIC_API_KEY'') \<noteq> [] then Inr (plain_config ''anthropic'')
      else if value_or [] (vars ''OPENAI_API_KEY'') \<noteq> [] then Inr (plain_config ''openai'')
      else (case nt_fetch net version_request of
              Inr res \<Rightarrow> if ly_ok res then Inr (plain_config ''ollama'') else Inl not_detected
            | Inl e \<Rightarrow> Inl not_detected))"

section \<open>The services\<close>

text \<open>The conversation a service reads from a body, and the documented form of its reply.\<close>

definition role_of :: "string \<Rightarrow> llm_role" where
  "role_of r = (if r = ''system'' then System_role else if r = ''user'' then User_role else Assistant_role)"

definition message_of :: "json \<Rightarrow> llm_message option" where
  "message_of j =
     (case (jfield ''role'' j, jfield ''content'' j) of (Some (JStr r), Some (JStr t)) \<Rightarrow> Some (role_of r, t) | _ \<Rightarrow> None)"

definition messages_of :: "json \<Rightarrow> llm_message list option" where
  "messages_of body = (case jfield ''messages'' body of Some (JArr ms) \<Rightarrow> those (map message_of ms) | _ \<Rightarrow> None)"

fun conversation_of :: "provider_kind \<Rightarrow> json \<Rightarrow> llm_message list option" where
  "conversation_of Anthropic body =
     (case jfield ''system'' body of Some (JStr t) \<Rightarrow> map_option (Cons (System_role, t)) (messages_of body) | _ \<Rightarrow> messages_of body)"
| "conversation_of OpenAI body = messages_of body"
| "conversation_of Ollama body = messages_of body"

fun documented_reply :: "provider_kind \<Rightarrow> string \<Rightarrow> json" where
  "documented_reply Anthropic t = JObj [(''content'', JArr [JObj [(''type'', JStr ''text''), (''text'', JStr t)]])]"
| "documented_reply OpenAI t = JObj [(''choices'', JArr [JObj [(''message'', JObj [(''role'', JStr ''assistant''), (''content'', JStr t)])]])]"
| "documented_reply Ollama t = JObj [(''message'', JObj [(''role'', JStr ''assistant''), (''content'', JStr t)])]"

text \<open>The service answers a request with the answer to the conversation in it.\<close>

definition serves :: "net_env \<Rightarrow> provider_kind \<Rightarrow> (llm_message list \<Rightarrow> string) \<Rightarrow> llm_request \<Rightarrow> bool" where
  "serves net k answer req \<longleftrightarrow>
     (case Option.bind (lr_body req) (conversation_of k) of
        None \<Rightarrow> True
      | Some conv \<Rightarrow>
          (case nt_fetch net req of
             Inl e \<Rightarrow> False
           | Inr reply \<Rightarrow> ly_ok reply \<and> nt_parse net (ly_text reply) = Inr (documented_reply k (answer conv))))"

text \<open>At most one message of the system, and that the first.\<close>

definition one_system :: "llm_message list \<Rightarrow> bool" where
  "one_system ms \<longleftrightarrow> (\<forall>m \<in> set (tl ms). fst m \<noteq> System_role)"

lemma message_of_json [simp]: "message_of (message_json m) = Some m"
  by (cases m; cases "fst m") (auto simp: message_of_def message_json_def role_of_def)

lemma those_messages [simp]: "those (map message_of (map message_json ms)) = Some ms"
  by (induction ms) auto

lemma those_messages_comp [simp]: "those (map (message_of \<circ> message_json) ms) = Some ms"
  by (induction ms) auto

lemma find_system: "one_system ms \<Longrightarrow>
   (case find (\<lambda>m. fst m = System_role) ms of None \<Rightarrow> filter (\<lambda>m. fst m \<noteq> System_role) ms
      | Some m \<Rightarrow> (System_role, snd m) # filter (\<lambda>m. fst m \<noteq> System_role) ms) = ms"
proof (cases ms)
  case (Cons m rest)
  assume "one_system ms"
  then have rest: "filter (\<lambda>m. fst m \<noteq> System_role) rest = rest" "find (\<lambda>m. fst m = System_role) rest = None"
    by (auto simp: Cons one_system_def filter_id_conv find_None_iff)
  then show ?thesis by (cases m) (simp add: Cons)
qed simp

lemma conversation_of_body: "one_system ms \<Longrightarrow> conversation_of k (request_body k model ms opts) = Some ms"
proof (cases k)
  case Anthropic
  assume "one_system ms"
  note find_system [OF this]
  then show ?thesis
    by (cases "find (\<lambda>m. fst m = System_role) ms")
      (auto simp: Anthropic anthropic_body_def messages_of_def messages_json_def)
qed (simp_all add: openai_body_def ollama_body_def messages_of_def messages_json_def)

lemma result_of_documented: "map_sum id cm_content (result_of k (documented_reply k t)) = Inr (JStr t)"
  by (cases k) (simp_all add: anthropic_result_def openai_result_def ollama_result_def maybe_dot_def first_item_def nullish_or_def)

lemma complete_answers:
  assumes "one_system ms" "serves net (lc_kind c) answer (request_of c ms opts)"
  shows "map_sum id cm_content (complete_with net c ms opts) = Inr (JStr (answer ms))"
proof -
  have conv: "Option.bind (lr_body (request_of c ms opts)) (conversation_of (lc_kind c)) = Some ms"
    by (simp add: request_of_def conversation_of_body assms(1))
  with assms(2) obtain reply where "nt_fetch net (request_of c ms opts) = Inr reply" "ly_ok reply"
    "nt_parse net (ly_text reply) = Inr (documented_reply (lc_kind c) (answer ms))"
    by (auto simp: serves_def split: sum.splits)
  then show ?thesis by (simp add: complete_with_def result_of_documented)
qed

section \<open>The interview over a provider\<close>

text \<open>The options of the two calls of the engine: the questions, and the final extraction.\<close>

definition interview_options :: completion_options where
  "interview_options = \<lparr>co_max_tokens = Some 1024, co_temperature = Some (7 / 10), co_stop = None\<rparr>"

definition extraction_options :: completion_options where
  "extraction_options = \<lparr>co_max_tokens = Some 4096, co_temperature = Some (1 / 5), co_stop = None\<rparr>"

definition options_for :: "llm_message list \<Rightarrow> completion_options" where
  "options_for ms = (case ms of m # ms' \<Rightarrow> if m = (System_role, extraction_system) then extraction_options else interview_options
     | [] \<Rightarrow> interview_options)"

text \<open>The parameter \<open>llm\<close> of the engine; a content that is no text makes the engine throw.\<close>

definition provider_llm :: "net_env \<Rightarrow> llm_client \<Rightarrow> llm_message list \<Rightarrow> string option" where
  "provider_llm net c ms =
     (case complete_with net c ms (options_for ms) of Inl e \<Rightarrow> None | Inr r \<Rightarrow> as_str (cm_content r))"

lemma provider_llm_answers:
  assumes "one_system ms" "serves net (lc_kind c) answer (request_of c ms (options_for ms))"
  shows "provider_llm net c ms = Some (answer ms)"
  using complete_answers [OF assms] by (auto simp: provider_llm_def map_sum_Inr split: sum.split) (metis as_str.simps(1))

lemma history_one_system:
  "one_system (en_history (start_run en))"
  "one_system (en_history en) \<Longrightarrow> en_history en \<noteq> [] \<Longrightarrow> one_system (en_history en @ [(User_role, t)])"
  by (auto simp: one_system_def start_run_def)

text \<open>Only the answers of the model enter through \<open>llm\<close>.\<close>

lemma field_values:
  "ie_parse (env\<lparr>llm := f\<rparr>) = ie_parse env" "ie_js (env\<lparr>llm := f\<rparr>) = ie_js env" "ie_now (env\<lparr>llm := f\<rparr>) = ie_now env"
  by simp_all

lemma other_fields [simp]:
  "parseResponse (env\<lparr>llm := f\<rparr>) = parseResponse env" "addTurn (env\<lparr>llm := f\<rparr>) = addTurn env"
  unfolding parseResponse_def addTurn_def field_values by (rule refl)+

lemma take_hear_fields [simp]:
  "take_response (env\<lparr>llm := f\<rparr>) = take_response env" "hear_user (env\<lparr>llm := f\<rparr>) = hear_user env"
  unfolding take_response_def hear_user_def other_fields field_values by (rule refl)+

lemma same_facts: "facts_text (env\<lparr>llm := f\<rparr>) v = facts_text env v"
  by (cases "(env, v)" rule: facts_text.cases) (simp_all add: field_values cong: if_cong)

lemma same_prompt [simp]: "extraction_prompt (env\<lparr>llm := f\<rparr>) = extraction_prompt env"
proof -
  have covered: "covered_text (env\<lparr>llm := f\<rparr>) = covered_text env"
    unfolding covered_text_def summary_text_def same_facts field_values by (rule refl)
  show ?thesis unfolding extraction_prompt_def covered by (rule refl)
qed

definition led :: "engine \<Rightarrow> bool" where
  "led en \<longleftrightarrow> en_history en \<noteq> [] \<and> one_system (en_history en)"

lemma led_snoc: "led en \<Longrightarrow> en_history en' = en_history en @ [m] \<Longrightarrow> fst m \<noteq> System_role \<Longrightarrow> led en'"
  by (auto simp: led_def one_system_def)

lemma led_start: "led (start_run en)"
  by (auto simp: led_def one_system_def start_run_def)

lemma led_take: "led en \<Longrightarrow> led (fst (take_response env b raw en))"
proof -
  assume "led en"
  moreover have "en_history (fst (take_response env b raw en)) = (if b then en_history en @ [(Assistant_role, raw)] else en_history en)"
    by (simp add: take_response_def Let_def split: prod.split)
  ultimately show ?thesis by (cases b) (auto simp: led_def one_system_def)
qed

lemma led_hear: "led en \<Longrightarrow> led (hear_user env inp en)"
  by (auto simp: led_def one_system_def hear_user_def)

lemma led_complete [simp]: "led (en\<lparr>en_state := st\<rparr>) = led en"
  by (simp add: led_def)

lemma exchange_led: "led en \<Longrightarrow> led (fst (exchange env inp en))"
  using led_take [OF led_hear, of en env True _ env inp]
  by (auto simp: exchange_def Let_def led_hear split: option.split prod.splits) (metis fst_conv)+

definition agreeing :: "(llm_message list \<Rightarrow> string option) \<Rightarrow> (llm_message list \<Rightarrow> string option) \<Rightarrow> bool" where
  "agreeing f g \<longleftrightarrow> (\<forall>ms. one_system ms \<longrightarrow> f ms = g ms)"

lemma agreeingD: "agreeing f g \<Longrightarrow> one_system ms \<Longrightarrow> f ms = g ms"
  by (simp add: agreeing_def)

lemma open_same: "agreeing f g \<Longrightarrow> led en \<Longrightarrow> open_interview (env\<lparr>llm := f\<rparr>) en = open_interview (env\<lparr>llm := g\<rparr>) en"
  using agreeingD [of f g "en_history en @ [(User_role, kickoff)]"]
  unfolding open_interview_def take_hear_fields field_values by (auto simp: Let_def led_def one_system_def)

lemma exchange_same: "agreeing f g \<Longrightarrow> led en \<Longrightarrow> exchange (env\<lparr>llm := f\<rparr>) inp en = exchange (env\<lparr>llm := g\<rparr>) inp en"
  using agreeingD [of f g "en_history (hear_user env inp en)"] led_hear [of en env inp]
  unfolding exchange_def take_hear_fields field_values by (simp add: Let_def led_def)

lemma finish_same: "agreeing f g \<Longrightarrow> finish_run (env\<lparr>llm := f\<rparr>) = finish_run (env\<lparr>llm := g\<rparr>)"
proof -
  assume agree: "agreeing f g"
  have "f [(System_role, extraction_system), (User_role, p)] = g [(System_role, extraction_system), (User_role, p)]" for p
    by (rule agreeingD [OF agree]) (simp add: one_system_def)
  then show ?thesis by (simp add: fun_eq_iff finish_run_def extractStructuredAnswers_def split: option.split)
qed

lemma loop_same: "agreeing f g \<Longrightarrow> led en \<Longrightarrow> interview_loop (env\<lparr>llm := f\<rparr>) en inps = interview_loop (env\<lparr>llm := g\<rparr>) en inps"
proof (induction inps arbitrary: en)
  case (Cons inp inps)
  then show ?case
    using exchange_led [OF Cons.prems(2), of "env\<lparr>llm := g\<rparr>" inp]
    by (auto simp: finish_same exchange_same split: prod.splits bool.splits)
qed (simp add: finish_same)

lemma run_same: "agreeing f g \<Longrightarrow> run_interview (env\<lparr>llm := f\<rparr>) en inps = run_interview (env\<lparr>llm := g\<rparr>) en inps"
proof -
  assume agree: "agreeing f g"
  have "led (fst (open_interview (env\<lparr>llm := g\<rparr>) (start_run en)))"
  proof (cases "g (en_history (start_run en) @ [(User_role, kickoff)])")
    case None
    then show ?thesis using led_start [of en] led_snoc by (auto simp: open_interview_def Let_def)
  next
    case (Some raw)
    have "led ((start_run en)\<lparr>en_history := en_history (start_run en) @ [(User_role, kickoff)]\<rparr>)"
      using led_snoc [OF led_start, of _ en "(User_role, kickoff)"] by simp
    then show ?thesis using led_start [of en] led_take Some by (simp add: open_interview_def Let_def)
  qed
  then show ?thesis
    by (auto simp: run_interview_def open_same [OF agree led_start] loop_same [OF agree] split: prod.splits bool.splits)
qed

text \<open>
  C37. An interview does not depend on the provider. Let a service answer each request of its documented
  form with the answer to the conversation it finds in the request, whatever that answer is. Then an
  interview over the client of that service, new or resumed, takes the same course as one in which the
  answers are given directly: the messages shown, the states saved and the outcome are the same. In
  particular no message is lost on the way, although each client writes the conversation in a form of
  its own and one of them moves the message of the system out of it.
\<close>

theorem provider_independent:
  assumes "\<And>ms opts. one_system ms \<Longrightarrow> serves net (lc_kind c) answer (request_of c ms opts)"
  shows "run_interview (env\<lparr>llm := provider_llm net c\<rparr>) (new_interviewer r d u resume) inps
       = run_interview (env\<lparr>llm := (\<lambda>ms. Some (answer ms))\<rparr>) (new_interviewer r d u resume) inps"
  by (rule run_same) (use assms provider_llm_answers in \<open>auto simp: agreeing_def\<close>)

text \<open>A service that always says the same.\<close>

definition echo_net :: net_env where
  "echo_net = \<lparr>nt_fetch = (\<lambda>req. Inr \<lparr>ly_ok = True, ly_status = 200, ly_text = []\<rparr>),
     nt_parse = (\<lambda>t. Inr (documented_reply Anthropic ''Hello.''))\<rparr>"

lemma echo_serves: "serves echo_net Anthropic (\<lambda>ms. ''Hello.'') req"
  by (simp add: serves_def echo_net_def split: option.split)

theorem provider_independent_witness:
  "run_interview (talking_env\<lparr>llm := provider_llm echo_net (anthropic_client ''key'' None None)\<rparr>)
     (new_interviewer GeneralAgentRubric Quick UNIVERSAL_DIMENSIONS None) [''hi'']
   = run_interview (talking_env\<lparr>llm := (\<lambda>ms. Some ''Hello.'')\<rparr>) (new_interviewer GeneralAgentRubric Quick UNIVERSAL_DIMENSIONS None) [''hi'']"
  by (rule provider_independent [of echo_net "anthropic_client ''key'' None None" "\<lambda>ms. ''Hello.''"])
    (simp add: anthropic_client_def echo_serves)

end
