(* ===== verification/Domains.thy ===== *)
theory Domains
  imports Domain_Rubrics Playbooks Generators
begin

text \<open>
  TasteKit core, domains/*/domain.ts and questions.ts, interview/questions.ts and the registry
  domains/index.ts: the domains an agent can be built for, and the questions that can be asked
  without a language model. The theorem says that the tables which the components look up by the id of
  a domain agree: the registry, the rubrics, the shipped skills and the presets of the compilers.
\<close>

section \<open>Data\<close>

datatype question_type = Text_question | Choice | Multi_choice | Scale

record onboarding_question =
  qn_id :: string
  qn_category :: string
  qn_text :: string
  qn_type :: question_type
  qn_required :: bool
  qn_depth :: depth
  qn_choices :: "string list option"

record domain_definition =
  dd_id :: string
  dd_name :: string
  dd_description :: string
  dd_version :: string
  dd_use_cases :: "string list"
  dd_recommended_tools :: "string list"
  dd_default_autonomy_level :: rat
  dd_vocabulary :: "vocabulary option"

subsection \<open>domains/content-agent\<close>

definition ContentAgentDomain :: domain_definition where
  \<open>ContentAgentDomain = \<lparr>
    dd_id = ''content-agent'',
    dd_name = ''Content Agent'',
    dd_description = ''Social media content creation, brand management, and audience engagement'',
    dd_version = ''0.5.0'',
    dd_use_cases = [''Personal brand management (Twitter, LinkedIn, TikTok, Instagram)'',
        ''Business social media accounts'',
        ''AI influencers and content creators'',
        ''Newsletter and blog content generation''],
    dd_recommended_tools = [''image-generation'',
        ''social-media-scheduler'',
        ''web-search'',
        ''analytics-api'',
        ''file-system''],
    dd_default_autonomy_level = 3 / 5,
    dd_vocabulary = Some \<lparr>vo_principles_heading = Some ''Brand Voice Rules'', vo_guardrails_heading = Some ''Content Policies'', vo_skills_heading = Some ''Content Workflows'', vo_constitution_label = Some ''Brand Guidelines'', vo_skill_label = Some ''Workflow'', vo_playbook_label = Some ''Campaign'', vo_compile_verb = None, vo_drift_verb = Some ''Brand drift'', vo_custom = None\<rparr>\<rparr>\<close>

definition CONTENT_PLATFORMS :: "string list" where
  \<open>CONTENT_PLATFORMS = [''twitter'',
        ''linkedin'',
        ''tiktok'',
        ''instagram'',
        ''youtube'',
        ''facebook'',
        ''blog'',
        ''newsletter'']\<close>

definition CONTENT_TYPES :: "string list" where
  \<open>CONTENT_TYPES = [''short-form-text'',
        ''long-form-text'',
        ''image-post'',
        ''carousel'',
        ''video'',
        ''thread'',
        ''story'']\<close>

definition BRAND_ARCHETYPES :: "string list" where
  \<open>BRAND_ARCHETYPES = [''professional'',
        ''casual'',
        ''edgy'',
        ''humorous'',
        ''educational'',
        ''inspirational'',
        ''technical'']\<close>

definition ContentAgentQuestions :: "onboarding_question list" where
  \<open>ContentAgentQuestions = [
    \<lparr>qn_id = ''content_brand_type'', qn_category = ''brand_identity'', qn_text = ''What type of brand are you building content for?'',
      qn_type = Choice, qn_required = True, qn_depth = Quick, qn_choices = Some [''Personal brand (individual, founder, creator)'',
        ''Business brand (company, product, service)'',
        ''AI influencer (autonomous content persona)'']\<rparr>,
    \<lparr>qn_id = ''content_brand_name'', qn_category = ''brand_identity'', qn_text = ''What is the name of your brand/account?'',
      qn_type = Text_question, qn_required = True, qn_depth = Quick, qn_choices = None\<rparr>,
    \<lparr>qn_id = ''content_brand_archetype'', qn_category = ''brand_identity'', qn_text = ''Select the archetypes that best describe your brand voice (choose 1-3):'',
      qn_type = Multi_choice, qn_required = True, qn_depth = Guided, qn_choices = Some BRAND_ARCHETYPES\<rparr>,
    \<lparr>qn_id = ''content_voice_adjectives'', qn_category = ''brand_identity'', qn_text = ''List 5-10 adjectives that describe your brand voice (e.g., witty, authoritative, playful):'',
      qn_type = Text_question, qn_required = True, qn_depth = Guided, qn_choices = None\<rparr>,
    \<lparr>qn_id = ''content_example_posts'', qn_category = ''brand_identity'', qn_text = ''Paste 3-5 links to posts from OTHER accounts that exemplify the tone you want to achieve:'',
      qn_type = Text_question, qn_required = False, qn_depth = Operator, qn_choices = None\<rparr>,
    \<lparr>qn_id = ''content_forbidden_topics'', qn_category = ''brand_identity'', qn_text = ''Are there any topics, phrases, or words that are strictly off-limits? (comma-separated)'',
      qn_type = Text_question, qn_required = False, qn_depth = Guided, qn_choices = None\<rparr>,
    \<lparr>qn_id = ''content_platforms'', qn_category = ''platforms'', qn_text = ''Which platforms will you be creating content for?'',
      qn_type = Multi_choice, qn_required = True, qn_depth = Quick, qn_choices = Some CONTENT_PLATFORMS\<rparr>,
    \<lparr>qn_id = ''content_primary_platform'', qn_category = ''platforms'', qn_text = ''Which is your PRIMARY platform (where you want the most focus)?'',
      qn_type = Choice, qn_required = True, qn_depth = Guided, qn_choices = Some CONTENT_PLATFORMS\<rparr>,
    \<lparr>qn_id = ''content_posting_frequency'', qn_category = ''platforms'', qn_text = ''How often do you want to post on your primary platform? (e.g., "3 times per day", "daily", "3x per week")'',
      qn_type = Text_question, qn_required = True, qn_depth = Guided, qn_choices = None\<rparr>,
    \<lparr>qn_id = ''content_types'', qn_category = ''content_strategy'', qn_text = ''What types of content will you create?'',
      qn_type = Multi_choice, qn_required = True, qn_depth = Guided, qn_choices = Some CONTENT_TYPES\<rparr>,
    \<lparr>qn_id = ''content_primary_goal'', qn_category = ''content_strategy'', qn_text = ''What is the PRIMARY goal of your content?'',
      qn_type = Choice, qn_required = True, qn_depth = Guided, qn_choices = Some [''Drive website traffic'',
        ''Build community and engagement'',
        ''Generate leads'',
        ''Establish thought leadership'',
        ''Promote products/services'',
        ''Entertain and grow audience'']\<rparr>,
    \<lparr>qn_id = ''content_target_audience'', qn_category = ''content_strategy'', qn_text = ''Describe your target audience in 2-3 sentences (demographics, interests, pain points):'',
      qn_type = Text_question, qn_required = True, qn_depth = Guided, qn_choices = None\<rparr>,
    \<lparr>qn_id = ''content_workflow_mode'', qn_category = ''workflow'', qn_text = ''How do you want to work with your content agent?'',
      qn_type = Choice, qn_required = True, qn_depth = Quick, qn_choices = Some [''Simple: I give a topic, agent gives me 3 options, I choose one'',
        ''Assisted: Agent researches trends, proposes ideas, I approve and refine'',
        ''Autopilot: Agent ideates, plans, creates, and schedules autonomously (I review before posting)'']\<rparr>,
    \<lparr>qn_id = ''content_research_autonomy'', qn_category = ''workflow'', qn_text = ''Should the agent autonomously research trends and winning formulas?'',
      qn_type = Choice, qn_required = True, qn_depth = Guided, qn_choices = Some [''Yes'',
        ''No'']\<rparr>,
    \<lparr>qn_id = ''content_approval_required'', qn_category = ''workflow'', qn_text = ''When should the agent ask for your approval?'',
      qn_type = Choice, qn_required = True, qn_depth = Guided, qn_choices = Some [''Always - I review every piece of content before it's finalized'',
        ''Selective - Only for high-stakes content or new topics'',
        ''Rarely - Only if the agent is uncertain or detects risk'']\<rparr>,
    \<lparr>qn_id = ''content_has_image_generation'', qn_category = ''tools'', qn_text = ''Do you have access to image generation tools (DALL-E, Midjourney, etc.)?'',
      qn_type = Choice, qn_required = True, qn_depth = Guided, qn_choices = Some [''Yes'',
        ''No'']\<rparr>,
    \<lparr>qn_id = ''content_has_scheduler'', qn_category = ''tools'', qn_text = ''Do you have a social media scheduling tool (Postiz, Buffer, Hootsuite, etc.)?'',
      qn_type = Choice, qn_required = True, qn_depth = Guided, qn_choices = Some [''Yes'',
        ''No'']\<rparr>,
    \<lparr>qn_id = ''content_scheduler_name'', qn_category = ''tools'', qn_text = ''Which scheduling tool? (e.g., Postiz, Buffer)'',
      qn_type = Text_question, qn_required = False, qn_depth = Operator, qn_choices = None\<rparr>,
    \<lparr>qn_id = ''content_success_metrics'', qn_category = ''performance'', qn_text = ''Which metrics matter most to you?'',
      qn_type = Multi_choice, qn_required = True, qn_depth = Guided, qn_choices = Some [''Views/Impressions'',
        ''Engagement (likes, comments, shares)'',
        ''Followers/Subscribers growth'',
        ''Click-through rate (CTR)'',
        ''Conversions (leads, sales)'',
        ''Time spent / Watch time'']\<rparr>,
    \<lparr>qn_id = ''content_learn_from_performance'', qn_category = ''performance'', qn_text = ''Should the agent analyze performance data and learn from what works?'',
      qn_type = Choice, qn_required = True, qn_depth = Guided, qn_choices = Some [''Yes'',
        ''No'']\<rparr>]\<close>

subsection \<open>domains/research-agent\<close>

definition ResearchAgentDomain :: domain_definition where
  \<open>ResearchAgentDomain = \<lparr>
    dd_id = ''research-agent'',
    dd_name = ''Research Agent'',
    dd_description = ''Information gathering, analysis, and synthesis'',
    dd_version = ''0.5.0'',
    dd_use_cases = [''Market research and competitive analysis'',
        ''Academic research and literature reviews'',
        ''News monitoring and trend analysis'',
        ''Due diligence and fact-checking''],
    dd_recommended_tools = [''web-search'',
        ''academic-databases'',
        ''news-apis'',
        ''pdf-reader'',
        ''data-analysis''],
    dd_default_autonomy_level = 7 / 10,
    dd_vocabulary = Some \<lparr>vo_principles_heading = Some ''Research Standards'', vo_guardrails_heading = Some ''Ethics & Rigor'', vo_skills_heading = Some ''Research Methods'', vo_constitution_label = Some ''Research Principles'', vo_skill_label = Some ''Method'', vo_playbook_label = Some ''Study Protocol'', vo_compile_verb = None, vo_drift_verb = Some ''Methodology drift'', vo_custom = None\<rparr>\<rparr>\<close>

definition RESEARCH_OUTPUT_FORMATS :: "string list" where
  \<open>RESEARCH_OUTPUT_FORMATS = [''executive_summary'',
        ''detailed_report'',
        ''bullet_points'',
        ''data_table'',
        ''presentation_outline'']\<close>

definition RESEARCH_SOURCE_TYPES :: "string list" where
  \<open>RESEARCH_SOURCE_TYPES = [''academic'',
        ''news'',
        ''industry_reports'',
        ''government'',
        ''primary_interviews'',
        ''social_media'']\<close>

definition ResearchAgentQuestions :: "onboarding_question list" where
  \<open>ResearchAgentQuestions = [
    \<lparr>qn_id = ''research_approach'', qn_category = ''research_methodology'', qn_text = ''How do you typically approach a research project?'',
      qn_type = Choice, qn_required = True, qn_depth = Quick, qn_choices = Some [''Systematic: Define scope, create framework, execute methodically'',
        ''Exploratory: Start broad, follow interesting threads, let findings guide me'',
        ''Hypothesis-driven: Formulate a thesis, then seek confirming/disconfirming evidence'']\<rparr>,
    \<lparr>qn_id = ''research_sources'', qn_category = ''source_preferences'', qn_text = ''Which source types do you consider most authoritative?'',
      qn_type = Multi_choice, qn_required = True, qn_depth = Quick, qn_choices = Some RESEARCH_SOURCE_TYPES\<rparr>,
    \<lparr>qn_id = ''research_output'', qn_category = ''output_format'', qn_text = ''How do you prefer to receive research findings?'',
      qn_type = Choice, qn_required = True, qn_depth = Quick, qn_choices = Some RESEARCH_OUTPUT_FORMATS\<rparr>,
    \<lparr>qn_id = ''research_depth_preference'', qn_category = ''depth_vs_breadth'', qn_text = ''When researching a topic, do you prefer depth or breadth?'',
      qn_type = Choice, qn_required = True, qn_depth = Quick, qn_choices = Some [''Deep: Fewer sources analyzed thoroughly'',
        ''Broad: Many sources summarized quickly'',
        ''Balanced: Key sources in depth, the rest summarized'']\<rparr>,
    \<lparr>qn_id = ''research_synthesis'', qn_category = ''synthesis_style'', qn_text = ''How should the agent present synthesis of findings?'',
      qn_type = Choice, qn_required = True, qn_depth = Quick, qn_choices = Some [''Executive summary with key takeaways'',
        ''Narrative analysis with supporting evidence'',
        ''Structured bullet points with source links'',
        ''Data tables and comparison matrices'']\<rparr>,
    \<lparr>qn_id = ''research_citations'', qn_category = ''citation_standards'', qn_text = ''How rigorous should citations be?'',
      qn_type = Choice, qn_required = True, qn_depth = Guided, qn_choices = Some [''Academic: Full citations with author, date, publication'',
        ''Professional: Inline links to sources'',
        ''Casual: Source names mentioned, links optional'']\<rparr>,
    \<lparr>qn_id = ''research_verification'', qn_category = ''cross_referencing'', qn_text = ''How many independent sources should confirm a claim?'',
      qn_type = Choice, qn_required = True, qn_depth = Guided, qn_choices = Some [''One authoritative source is enough'',
        ''At least 2 independent sources'',
        ''3+ sources for important claims'']\<rparr>,
    \<lparr>qn_id = ''research_bias_handling'', qn_category = ''bias_awareness'', qn_text = ''How should the agent handle conflicting or biased sources?'',
      qn_type = Choice, qn_required = True, qn_depth = Guided, qn_choices = Some [''Present all perspectives equally and let me decide'',
        ''Flag bias but present the strongest arguments from each side'',
        ''Synthesize a balanced view and note dissenting opinions'']\<rparr>,
    \<lparr>qn_id = ''research_recency'', qn_category = ''temporal_scope'', qn_text = ''How recent should research sources be?'',
      qn_type = Choice, qn_required = True, qn_depth = Guided, qn_choices = Some [''Only last 6 months'',
        ''Last 1-2 years'',
        ''Last 5 years'',
        (''Historical context matters '' @ [CHR 0xE2, CHR 0x80, CHR 0x94] @ '' no time limit'')]\<rparr>,
    \<lparr>qn_id = ''research_data_comfort'', qn_category = ''data_interpretation'', qn_text = ''Should the agent interpret data and statistics, or present raw?'',
      qn_type = Choice, qn_required = True, qn_depth = Guided, qn_choices = Some [''Interpret: Explain what the numbers mean'',
        ''Present: Show data with minimal interpretation'',
        ''Both: Raw data with interpretation notes'']\<rparr>,
    \<lparr>qn_id = ''research_competitive'', qn_category = ''competitive_analysis_style'', qn_text = ''Will you use the agent for competitive or market analysis?'',
      qn_type = Choice, qn_required = True, qn_depth = Guided, qn_choices = Some [''Yes'',
        ''No'']\<rparr>,
    \<lparr>qn_id = ''research_tools'', qn_category = ''research_tools'', qn_text = ''What research tools/databases do you have access to? (e.g., Google Scholar, Semantic Scholar, industry databases)'',
      qn_type = Text_question, qn_required = False, qn_depth = Guided, qn_choices = None\<rparr>,
    \<lparr>qn_id = ''research_methodology_docs'', qn_category = ''methodology_documentation'', qn_text = ''Should the agent document its research methodology alongside findings?'',
      qn_type = Choice, qn_required = True, qn_depth = Operator, qn_choices = Some [''Yes'',
        ''No'']\<rparr>,
    \<lparr>qn_id = ''research_recommendations'', qn_category = ''hypothesis_framing'', qn_text = ''Should the agent make recommendations based on findings?'',
      qn_type = Choice, qn_required = True, qn_depth = Operator, qn_choices = Some [''Yes: Findings plus recommendations'',
        ''Sometimes: Only when confidence is high'',
        ''No: Neutral presentation only'']\<rparr>,
    \<lparr>qn_id = ''research_ethics_boundaries'', qn_category = ''research_ethics'', qn_text = ''Are there ethical boundaries for research? (e.g., no scraping personal data, no accessing paywalled content)'',
      qn_type = Text_question, qn_required = False, qn_depth = Operator, qn_choices = None\<rparr>]\<close>

subsection \<open>domains/sales-agent\<close>

definition SalesAgentDomain :: domain_definition where
  \<open>SalesAgentDomain = \<lparr>
    dd_id = ''sales-agent'',
    dd_name = ''Sales Agent'',
    dd_description = ''Lead generation, qualification, and deal management'',
    dd_version = ''0.5.0'',
    dd_use_cases = [''Lead qualification and outreach'',
        ''CRM management and follow-ups'',
        ''Proposal generation'',
        ''Sales analytics and forecasting''],
    dd_recommended_tools = [''crm-integration'',
        ''email-sender'',
        ''calendar-scheduler'',
        ''document-generator'',
        ''web-search''],
    dd_default_autonomy_level = 1 / 2,
    dd_vocabulary = Some \<lparr>vo_principles_heading = Some ''Sales Principles'', vo_guardrails_heading = Some ''Deal Guardrails'', vo_skills_heading = Some ''Sales Plays'', vo_constitution_label = Some ''Sales Playbook'', vo_skill_label = Some ''Play'', vo_playbook_label = Some ''Deal Flow'', vo_compile_verb = None, vo_drift_verb = Some ''Strategy drift'', vo_custom = None\<rparr>\<rparr>\<close>

definition SALES_METHODOLOGIES :: "string list" where
  \<open>SALES_METHODOLOGIES = [''consultative'',
        ''challenger'',
        ''solution'',
        ''relationship'',
        ''transactional'']\<close>

definition DEAL_STAGES :: "string list" where
  \<open>DEAL_STAGES = [''prospecting'',
        ''qualification'',
        ''discovery'',
        ''proposal'',
        ''negotiation'',
        ''closed_won'',
        ''closed_lost'']\<close>

definition SalesAgentQuestions :: "onboarding_question list" where
  \<open>SalesAgentQuestions = [
    \<lparr>qn_id = ''sales_approach'', qn_category = ''sales_philosophy'', qn_text = ''Which sales methodology best describes your approach?'',
      qn_type = Choice, qn_required = True, qn_depth = Quick, qn_choices = Some [''Consultative: Understand needs deeply, then recommend solutions'',
        ''Challenger: Teach, tailor, and take control of the conversation'',
        ''Relationship: Build trust first, sell second'',
        ''Solution: Focus on solving specific pain points'',
        ''Transactional: Efficient, high-volume, low-touch'']\<rparr>,
    \<lparr>qn_id = ''sales_tone'', qn_category = ''communication_style'', qn_text = ''How should the agent communicate with prospects?'',
      qn_type = Choice, qn_required = True, qn_depth = Quick, qn_choices = Some [''Professional and polished'',
        ''Warm and conversational'',
        ''Direct and data-driven'',
        ''Casual and friendly'']\<rparr>,
    \<lparr>qn_id = ''sales_ideal_customer'', qn_category = ''lead_qualification'', qn_text = ''Describe your ideal customer in 2-3 sentences (industry, size, pain points):'',
      qn_type = Text_question, qn_required = True, qn_depth = Quick, qn_choices = None\<rparr>,
    \<lparr>qn_id = ''sales_pipeline_style'', qn_category = ''deal_management'', qn_text = ''How do you prefer to manage your pipeline?'',
      qn_type = Choice, qn_required = True, qn_depth = Quick, qn_choices = Some [''Fast: Move deals quickly, disqualify early'',
        ''Patient: Nurture over time, build relationships'',
        ''Data-driven: Let metrics guide stage progression'']\<rparr>,
    \<lparr>qn_id = ''sales_relationship_focus'', qn_category = ''customer_relationship'', qn_text = ''What matters more: winning new deals or growing existing accounts?'',
      qn_type = Choice, qn_required = True, qn_depth = Quick, qn_choices = Some [''New business: Focus on prospecting and closing'',
        ''Account growth: Focus on expansion and retention'',
        ''Balanced: Both matter equally'']\<rparr>,
    \<lparr>qn_id = ''sales_follow_up_timing'', qn_category = ''outreach_cadence'', qn_text = ''How soon should the agent follow up after initial outreach?'',
      qn_type = Choice, qn_required = True, qn_depth = Guided, qn_choices = Some [''Next day'',
        ''2-3 days'',
        ''One week'',
        ''Only if there was engagement'']\<rparr>,
    \<lparr>qn_id = ''sales_max_touches'', qn_category = ''outreach_cadence'', qn_text = ''Maximum number of outreach attempts before moving on?'',
      qn_type = Choice, qn_required = True, qn_depth = Guided, qn_choices = Some [''3 attempts'',
        ''5 attempts'',
        ''7+ attempts'',
        ''Never give up on qualified leads'']\<rparr>,
    \<lparr>qn_id = ''sales_objection_style'', qn_category = ''objection_handling'', qn_text = ''How should the agent handle objections?'',
      qn_type = Choice, qn_required = True, qn_depth = Guided, qn_choices = Some [''Acknowledge and reframe: Validate the concern, offer a new perspective'',
        ''Data-driven: Counter with facts and case studies'',
        ''Empathetic: Focus on understanding, not convincing'',
        ''Direct: Address head-on with confidence'']\<rparr>,
    \<lparr>qn_id = ''sales_proposal_format'', qn_category = ''proposal_style'', qn_text = ''What format should sales proposals take?'',
      qn_type = Choice, qn_required = True, qn_depth = Guided, qn_choices = Some [''Detailed document with ROI analysis'',
        ''Concise one-pager with key points'',
        ''Slide deck with visuals'',
        ''Email summary with pricing'']\<rparr>,
    \<lparr>qn_id = ''sales_crm'', qn_category = ''crm_workflow'', qn_text = ''Which CRM do you use? (e.g., Salesforce, HubSpot, Pipedrive, none)'',
      qn_type = Text_question, qn_required = False, qn_depth = Guided, qn_choices = None\<rparr>,
    \<lparr>qn_id = ''sales_metrics'', qn_category = ''reporting_preferences'', qn_text = ''Which sales metrics matter most?'',
      qn_type = Multi_choice, qn_required = True, qn_depth = Guided, qn_choices = Some [''Pipeline value'',
        ''Conversion rate'',
        ''Average deal size'',
        ''Sales cycle length'',
        ''Activity volume (calls, emails)'',
        ''Win rate'']\<rparr>,
    \<lparr>qn_id = ''sales_customer_size'', qn_category = ''enterprise_vs_smb'', qn_text = ''What size customers do you primarily sell to?'',
      qn_type = Choice, qn_required = True, qn_depth = Operator, qn_choices = Some [''Enterprise (1000+ employees)'',
        ''Mid-market (100-1000 employees)'',
        ''SMB (under 100 employees)'',
        ''Mixed across segments'']\<rparr>,
    \<lparr>qn_id = ''sales_competitor_handling'', qn_category = ''competitive_positioning'', qn_text = ''How should the agent handle competitor mentions?'',
      qn_type = Choice, qn_required = True, qn_depth = Operator, qn_choices = Some [''Acknowledge competitors, differentiate on value'',
        ''Avoid mentioning competitors entirely'',
        ''Direct comparison when asked'']\<rparr>,
    \<lparr>qn_id = ''sales_discount_policy'', qn_category = ''pricing_strategy'', qn_text = ''What is the agent's discount authority?'',
      qn_type = Choice, qn_required = True, qn_depth = Operator, qn_choices = Some [''No discounts without approval'',
        ''Up to 10% discretion'',
        ''Up to 20% discretion'',
        ''Flexible based on deal size'']\<rparr>,
    \<lparr>qn_id = ''sales_compliance_notes'', qn_category = ''compliance_awareness'', qn_text = ''Any compliance requirements? (e.g., CAN-SPAM, GDPR, industry regulations)'',
      qn_type = Text_question, qn_required = False, qn_depth = Operator, qn_choices = None\<rparr>]\<close>

subsection \<open>domains/support-agent\<close>

definition SupportAgentDomain :: domain_definition where
  \<open>SupportAgentDomain = \<lparr>
    dd_id = ''support-agent'',
    dd_name = ''Support Agent'',
    dd_description = ''Customer support, troubleshooting, and user assistance'',
    dd_version = ''0.5.0'',
    dd_use_cases = [''Customer support ticket triage and response'',
        ''Knowledge base management'',
        ''Onboarding assistance'',
        ''Escalation management''],
    dd_recommended_tools = [''ticket-system'',
        ''knowledge-base'',
        ''email-sender'',
        ''chat-integration'',
        ''screen-reader''],
    dd_default_autonomy_level = 2 / 5,
    dd_vocabulary = Some \<lparr>vo_principles_heading = Some ''Support Policies'', vo_guardrails_heading = Some ''Escalation Rules'', vo_skills_heading = Some ''Support Procedures'', vo_constitution_label = Some ''Support Handbook'', vo_skill_label = Some ''Procedure'', vo_playbook_label = Some ''Resolution Flow'', vo_compile_verb = None, vo_drift_verb = Some ''Policy drift'', vo_custom = None\<rparr>\<rparr>\<close>

definition SUPPORT_CHANNELS :: "string list" where
  \<open>SUPPORT_CHANNELS = [''email'',
        ''chat'',
        ''phone'',
        ''social_media'',
        ''self_service'']\<close>

definition TICKET_PRIORITIES :: "string list" where
  \<open>TICKET_PRIORITIES = [''critical'',
        ''high'',
        ''medium'',
        ''low'']\<close>

definition SupportAgentQuestions :: "onboarding_question list" where
  \<open>SupportAgentQuestions = [
    \<lparr>qn_id = ''support_approach'', qn_category = ''support_philosophy'', qn_text = ''What is your primary support philosophy?'',
      qn_type = Choice, qn_required = True, qn_depth = Quick, qn_choices = Some [''Help-first: Solve the problem as quickly as possible'',
        ''Education-first: Teach customers to help themselves'',
        ''Empathy-first: Make customers feel heard and valued'',
        ''Efficiency-first: Handle maximum volume with consistent quality'']\<rparr>,
    \<lparr>qn_id = ''support_tone'', qn_category = ''tone_and_empathy'', qn_text = ''How should the agent communicate with customers?'',
      qn_type = Choice, qn_required = True, qn_depth = Quick, qn_choices = Some [''Warm and personal: Use first names, conversational tone'',
        ''Professional and calm: Clear, courteous, neutral'',
        ''Friendly and casual: Relaxed, approachable, emoji-okay'',
        ''Formal and precise: Corporate tone, no informality'']\<rparr>,
    \<lparr>qn_id = ''support_escalation_trigger'', qn_category = ''escalation_approach'', qn_text = ''What situations should always be escalated to a human?'',
      qn_type = Multi_choice, qn_required = True, qn_depth = Quick, qn_choices = Some [''Angry or threatening customers'',
        ''Billing/refund disputes'',
        ''Security or data privacy issues'',
        ''Legal or compliance concerns'',
        ''Unresolved after 2 attempts'',
        ''Customer explicitly requests a human'']\<rparr>,
    \<lparr>qn_id = ''support_response_format'', qn_category = ''response_style'', qn_text = ''How should the agent format responses?'',
      qn_type = Choice, qn_required = True, qn_depth = Quick, qn_choices = Some [''Concise: Short, direct answers'',
        ''Detailed: Step-by-step with explanations'',
        ''Adaptive: Match the complexity of the question'']\<rparr>,
    \<lparr>qn_id = ''support_kb_usage'', qn_category = ''knowledge_management'', qn_text = ''How should the agent use the knowledge base?'',
      qn_type = Choice, qn_required = True, qn_depth = Quick, qn_choices = Some [''Link to articles: Point customers to existing docs'',
        ''Inline answers: Extract and summarize relevant content'',
        ''Both: Inline answer with link for more detail'']\<rparr>,
    \<lparr>qn_id = ''support_channels'', qn_category = ''multi_channel'', qn_text = ''Which support channels do you operate?'',
      qn_type = Multi_choice, qn_required = True, qn_depth = Guided, qn_choices = Some SUPPORT_CHANNELS\<rparr>,
    \<lparr>qn_id = ''support_priority_criteria'', qn_category = ''ticket_triage'', qn_text = ''What makes a ticket critical vs. low priority? Describe your criteria:'',
      qn_type = Text_question, qn_required = True, qn_depth = Guided, qn_choices = None\<rparr>,
    \<lparr>qn_id = ''support_first_response_target'', qn_category = ''sla_awareness'', qn_text = ''What is your target first response time?'',
      qn_type = Choice, qn_required = True, qn_depth = Guided, qn_choices = Some [''Under 1 hour'',
        ''1-4 hours'',
        ''Same business day'',
        ''Within 24 hours'']\<rparr>,
    \<lparr>qn_id = ''support_resolution_docs'', qn_category = ''resolution_workflow'', qn_text = ''Should the agent document resolution steps for each ticket?'',
      qn_type = Choice, qn_required = True, qn_depth = Guided, qn_choices = Some [''Yes: Full resolution notes for every ticket'',
        ''Selective: Only for complex or recurring issues'',
        ''No: Just mark resolved'']\<rparr>,
    \<lparr>qn_id = ''support_templates_vs_personal'', qn_category = ''customer_communication'', qn_text = ''Template-based or personalized responses?'',
      qn_type = Choice, qn_required = True, qn_depth = Guided, qn_choices = Some [''Templates: Consistent, fast, approved messaging'',
        ''Personalized: Unique response every time'',
        ''Hybrid: Templates as starting points, personalized delivery'']\<rparr>,
    \<lparr>qn_id = ''support_csat_collection'', qn_category = ''feedback_collection'', qn_text = ''How should customer satisfaction be collected?'',
      qn_type = Choice, qn_required = True, qn_depth = Guided, qn_choices = Some [''After every interaction'',
        ''Random sampling (e.g., 25% of tickets)'',
        ''Only after escalations or complex issues'',
        ''Not collecting CSAT currently'']\<rparr>,
    \<lparr>qn_id = ''support_known_issues'', qn_category = ''known_issue_handling'', qn_text = ''When a customer reports a known issue, should the agent:'',
      qn_type = Choice, qn_required = True, qn_depth = Guided, qn_choices = Some [''Acknowledge immediately and provide the workaround'',
        ''Troubleshoot as normal, then reveal it's a known issue'',
        ''Direct to status page and provide ETA if available'']\<rparr>,
    \<lparr>qn_id = ''support_vip_treatment'', qn_category = ''vip_handling'', qn_text = ''Do you have tiered customer service (VIP/enterprise tiers)?'',
      qn_type = Choice, qn_required = True, qn_depth = Operator, qn_choices = Some [''Yes: Different SLAs and treatment by tier'',
        ''No: Everyone gets the same service'']\<rparr>,
    \<lparr>qn_id = ''support_crisis_protocol'', qn_category = ''crisis_communication'', qn_text = ''How should the agent communicate during major outages or incidents?'',
      qn_type = Text_question, qn_required = False, qn_depth = Operator, qn_choices = None\<rparr>,
    \<lparr>qn_id = ''support_pattern_detection'', qn_category = ''root_cause_analysis'', qn_text = ''Should the agent detect recurring issues and flag them for the product/engineering team?'',
      qn_type = Choice, qn_required = True, qn_depth = Operator, qn_choices = Some [''Yes'',
        ''No'']\<rparr>]\<close>

subsection \<open>domains/development-agent\<close>

definition DevelopmentAgentDomain :: domain_definition where
  \<open>DevelopmentAgentDomain = \<lparr>
    dd_id = ''development-agent'',
    dd_name = ''Development Agent'',
    dd_description = ''Software development assistance and automation'',
    dd_version = ''0.5.0'',
    dd_use_cases = [''Code review and refactoring'',
        ''Documentation generation'',
        ''Bug triage and debugging assistance'',
        ''Test generation''],
    dd_recommended_tools = [''file-system'',
        ''code-execution'',
        ''git-integration'',
        ''linter'',
        ''test-runner''],
    dd_default_autonomy_level = 3 / 5,
    dd_vocabulary = Some \<lparr>vo_principles_heading = Some ''Engineering Standards'', vo_guardrails_heading = Some ''Safety Guardrails'', vo_skills_heading = Some ''Dev Workflows'', vo_constitution_label = Some ''Engineering Handbook'', vo_skill_label = Some ''Workflow'', vo_playbook_label = Some ''Runbook'', vo_compile_verb = None, vo_drift_verb = Some ''Standards drift'', vo_custom = None\<rparr>\<rparr>\<close>

subsection \<open>domains/general-agent\<close>

definition GeneralAgentDomain :: domain_definition where
  \<open>GeneralAgentDomain = \<lparr>
    dd_id = ''general-agent'',
    dd_name = ''General Agent'',
    dd_description = ''General-purpose assistant for mixed operational, research, and execution workflows'',
    dd_version = ''0.5.0'',
    dd_use_cases = [''Cross-functional task execution across planning, research, and delivery'',
        ''Daily operator/copilot support for mixed technical and non-technical work'',
        ''Inbox, project, and decision workflow orchestration'',
        ''Rapid context synthesis and action planning under uncertainty''],
    dd_recommended_tools = [''file-system'',
        ''web-search'',
        ''code-execution'',
        ''git-integration'',
        ''calendar-or-task-manager''],
    dd_default_autonomy_level = 3 / 5,
    dd_vocabulary = Some \<lparr>vo_principles_heading = Some ''Operating Principles'', vo_guardrails_heading = Some ''Execution Guardrails'', vo_skills_heading = Some ''Operating Workflows'', vo_constitution_label = Some ''Operator Profile'', vo_skill_label = Some ''Workflow'', vo_playbook_label = Some ''Runbook'', vo_compile_verb = None, vo_drift_verb = Some ''Behavior drift'', vo_custom = None\<rparr>\<rparr>\<close>

subsection \<open>interview/questions.ts\<close>

definition ONBOARDING_QUESTIONS :: "onboarding_question list" where
  \<open>ONBOARDING_QUESTIONS = [
    \<lparr>qn_id = ''primary_goal'', qn_category = ''goals'', qn_text = ''What is your primary goal for using agents?'',
      qn_type = Text_question, qn_required = True, qn_depth = Quick, qn_choices = None\<rparr>,
    \<lparr>qn_id = ''autonomy_level'', qn_category = ''tradeoffs'', qn_text = ''How autonomous should agents be?'',
      qn_type = Choice, qn_required = True, qn_depth = Quick, qn_choices = Some [''Always ask for approval'',
        ''Ask for major decisions'',
        ''Mostly autonomous'']\<rparr>,
    \<lparr>qn_id = ''key_principles'', qn_category = ''goals'', qn_text = ''What are your top 3 guiding principles?'',
      qn_type = Text_question, qn_required = True, qn_depth = Guided, qn_choices = None\<rparr>,
    \<lparr>qn_id = ''voice_keywords'', qn_category = ''tone'', qn_text = ''Select keywords that describe your preferred communication style:'',
      qn_type = Multi_choice, qn_required = False, qn_depth = Guided, qn_choices = Some [''professional'',
        ''casual'',
        ''technical'',
        ''friendly'',
        ''concise'',
        ''detailed'',
        ''formal'',
        ''creative'']\<rparr>,
    \<lparr>qn_id = ''accuracy_vs_speed'', qn_category = ''tradeoffs'', qn_text = ''Accuracy vs Speed preference:'',
      qn_type = Scale, qn_required = True, qn_depth = Guided, qn_choices = None\<rparr>,
    \<lparr>qn_id = ''tool_risk_tolerance'', qn_category = ''safety'', qn_text = ''What level of tool risk are you comfortable with?'',
      qn_type = Scale, qn_required = True, qn_depth = Operator, qn_choices = None\<rparr>,
    \<lparr>qn_id = ''memory_consolidation_frequency'', qn_category = ''memory'', qn_text = ''How often should memory be consolidated?'',
      qn_type = Choice, qn_required = True, qn_depth = Operator, qn_choices = Some [''Daily'',
        ''Weekly'',
        ''Monthly'',
        ''Manual'']\<rparr>]\<close>

section \<open>The registry\<close>

definition AVAILABLE_DOMAINS :: "domain_definition list" where
  "AVAILABLE_DOMAINS =
     [ContentAgentDomain, ResearchAgentDomain, SalesAgentDomain, SupportAgentDomain, DevelopmentAgentDomain, GeneralAgentDomain]"

definition getDomainById :: "string \<Rightarrow> domain_definition option" where
  "getDomainById k = find (\<lambda>d. dd_id d = k) AVAILABLE_DOMAINS"

record listed_domain =
  ld_id :: string
  ld_name :: string
  ld_description :: string
  ld_version :: string
  ld_is_stub :: bool
  ld_has_rubric :: bool

definition listDomains :: "listed_domain list" where
  "listDomains = map (\<lambda>d. \<lparr>ld_id = dd_id d, ld_name = dd_name d, ld_description = dd_description d, ld_version = dd_version d,
     ld_is_stub = str_includes (dd_version d) ''stub'', ld_has_rubric = dd_id d \<in> set (map fst DOMAIN_RUBRICS)\<rparr>) AVAILABLE_DOMAINS"

definition getQuestionsForDepth :: "depth \<Rightarrow> onboarding_question list" where
  "getQuestionsForDepth depth = filter (\<lambda>q. qn_depth q \<le> depth) ONBOARDING_QUESTIONS"

section \<open>Facts\<close>

lemma domain_ids: "map dd_id AVAILABLE_DOMAINS =
     [''content-agent'', ''research-agent'', ''sales-agent'', ''support-agent'', ''development-agent'', ''general-agent'']"
  by (simp add: AVAILABLE_DOMAINS_def ContentAgentDomain_def ResearchAgentDomain_def SalesAgentDomain_def SupportAgentDomain_def
      DevelopmentAgentDomain_def GeneralAgentDomain_def)

lemma domain_versions: "map dd_version AVAILABLE_DOMAINS = replicate 6 ''0.5.0''"
  by (simp add: AVAILABLE_DOMAINS_def ContentAgentDomain_def ResearchAgentDomain_def SalesAgentDomain_def SupportAgentDomain_def
      DevelopmentAgentDomain_def GeneralAgentDomain_def numeral_eq_Suc)

lemma listed_ids [simp]: "map ld_id listDomains = map dd_id AVAILABLE_DOMAINS"
  by (simp add: listDomains_def)

lemma getDomainById_iff: "getDomainById k \<noteq> None \<longleftrightarrow> k \<in> set (map ld_id listDomains)"
  by (auto simp: getDomainById_def find_None_iff)

text \<open>A question with choices is one of the two kinds that offer them, and every such question has some.\<close>

definition question_ok :: "onboarding_question \<Rightarrow> bool" where
  "question_ok q \<longleftrightarrow> (case qn_choices q of None \<Rightarrow> qn_type q = Text_question \<or> qn_type q = Scale
      | Some cs \<Rightarrow> (qn_type q = Choice \<or> qn_type q = Multi_choice) \<and> 2 \<le> length cs \<and> distinct cs)"

text \<open>The lists of a deeper interview contain those of a shorter one, in the same order.\<close>

lemma questions_nested: "a \<le> b \<Longrightarrow> getQuestionsForDepth a = filter (\<lambda>q. qn_depth q \<le> a) (getQuestionsForDepth b)"
  by (auto simp: getQuestionsForDepth_def intro!: filter_cong)

lemma questions_complete: "getQuestionsForDepth Operator = ONBOARDING_QUESTIONS"
  proof -
  have "q \<le> Operator" for q by (cases q) (simp_all add: less_eq_depth_def)
  then show ?thesis by (simp add: getQuestionsForDepth_def)
qed

lemma questions_ok:
  "list_all question_ok ONBOARDING_QUESTIONS" "list_all question_ok ContentAgentQuestions" "list_all question_ok ResearchAgentQuestions"
  "list_all question_ok SalesAgentQuestions" "list_all question_ok SupportAgentQuestions"
  by (simp_all add: question_ok_def ONBOARDING_QUESTIONS_def ContentAgentQuestions_def ResearchAgentQuestions_def SalesAgentQuestions_def
      SupportAgentQuestions_def BRAND_ARCHETYPES_def CONTENT_PLATFORMS_def CONTENT_TYPES_def RESEARCH_SOURCE_TYPES_def
      RESEARCH_OUTPUT_FORMATS_def SUPPORT_CHANNELS_def)

lemma registry_rubrics: "list_all (\<lambda>k. map_option domain_id (getDomainRubric k) = Some k) (map dd_id AVAILABLE_DOMAINS)"
  by (simp add: domain_ids getDomainRubric_def DOMAIN_RUBRICS_def rubric_fields)

lemma registry_skills: "list_all (\<lambda>k. resolveDomainSkills (Some k) \<noteq> []) (map dd_id AVAILABLE_DOMAINS)"
  by (simp add: domain_ids resolveDomainSkills_def ContentAgentSkills_def ResearchAgentSkills_def SalesAgentSkills_def
      SupportAgentSkills_def DevelopmentAgentSkills_def GeneralAgentSkills_def)

lemma registry_playbooks: "filter (\<lambda>k. resolveDomainPlaybooks (Some k) = []) (map dd_id AVAILABLE_DOMAINS) = [''development-agent'']"
  by (simp add: domain_ids resolveDomainPlaybooks_def getContentAgentPlaybooks_def getResearchAgentPlaybooks_def
      getSalesAgentPlaybooks_def getSupportAgentPlaybooks_def getGeneralAgentPlaybooks_def)

text \<open>
  The tables that the components look up by the id of a domain agree. The domains on offer have
  different ids, none is a stub, and each id is a key of the table of rubrics, of the presets of the
  guardrails compiler and of those of the memory compiler, which have no other keys; the rubric found
  under it is the rubric of that domain, and it has shipped skills. The development agent, and no
  other domain, comes without playbooks.
\<close>

theorem domain_tables_agree:
  "distinct (map ld_id listDomains) \<and> list_all (\<lambda>d. \<not> ld_is_stub d \<and> ld_has_rubric d) listDomains
   \<and> set (map ld_id listDomains) = set (map fst DOMAIN_RUBRICS)
   \<and> set (map ld_id listDomains) = set (map fst DOMAIN_PRESETS)
   \<and> set (map ld_id listDomains) = set (map fst DOMAIN_MEMORY_PRESETS)
   \<and> list_all (\<lambda>k. map_option domain_id (getDomainRubric k) = Some k \<and> resolveDomainSkills (Some k) \<noteq> []) (map ld_id listDomains)
   \<and> filter (\<lambda>k. resolveDomainPlaybooks (Some k) = []) (map ld_id listDomains) = [''development-agent'']"
proof -
  have rubrics: "set (map dd_id AVAILABLE_DOMAINS) = set (map fst DOMAIN_RUBRICS)"
    by (auto simp: domain_ids DOMAIN_RUBRICS_def)
  have stubs: "list_all (\<lambda>v. \<not> str_includes v ''stub'') (map dd_version AVAILABLE_DOMAINS)"
    by (simp add: domain_versions str_includes_def numeral_eq_Suc)
  have "list_all (\<lambda>d. \<not> ld_is_stub d \<and> ld_has_rubric d) listDomains"
    using stubs rubrics by (auto simp: listDomains_def list_all_iff)
  moreover have "set (map dd_id AVAILABLE_DOMAINS) = set (map fst DOMAIN_PRESETS)"
    "set (map dd_id AVAILABLE_DOMAINS) = set (map fst DOMAIN_MEMORY_PRESETS)"
    by (auto simp: domain_ids DOMAIN_PRESETS_def DOMAIN_MEMORY_PRESETS_def)
  moreover have "distinct (map dd_id AVAILABLE_DOMAINS)" by (simp add: domain_ids)
  ultimately show ?thesis
    using rubrics registry_rubrics registry_skills registry_playbooks by (simp add: list_all_iff)
qed

end
