(* ===== verification/Onboard.thy ===== *)
theory Onboard
  imports Commands Providers Domains
begin

text \<open>
  TasteKit command line, commands/init.ts and commands/onboard.ts, with core/interview/session.ts: a
  workspace is created, and an interview held in it whose session is written after every answer of
  the model. Prompts of the terminal library are answered by the values of \<open>init_answers\<close> and by the
  list of lines typed; when the list ends, the user has closed the prompt, which raises. The YAML and
  JSON texts of the two records on disk are printed and parsed by parameters. Voice input only
  replaces the source of the lines and is left out.
\<close>

section \<open>Sessions\<close>

record onboarding_session =
  os_session_id :: string
  os_started_at :: string
  os_last_updated_at :: string
  os_depth :: depth
  os_current_step :: string
  os_completed_steps :: "string list"
  os_answers :: json
  os_metadata :: "json option"
  os_domain_id :: "string option"
  os_llm_name :: "string option"
  os_interview :: "interview option"
  os_structured :: "json option"

record workspace_config =
  wc_version :: string
  wc_project_name :: string
  wc_created_at :: string
  wc_domain_id :: "string option"
  wc_llm_provider :: "provider_config option"
  wc_onboarding :: "(depth \<times> bool) option"

record onboard_env =
  oe_config_print :: "workspace_config \<Rightarrow> string"
  oe_config_parse :: "string \<Rightarrow> workspace_config option"
  oe_session_print :: "onboarding_session \<Rightarrow> string"
  oe_session_parse :: "string \<Rightarrow> onboarding_session option"
  oe_oserr :: "segments \<Rightarrow> string"
  oe_uuid :: string
  oe_now :: "nat \<Rightarrow> string"
  oe_vars :: "string \<Rightarrow> string option"
  oe_net :: net_env
  oe_engine :: interview_env

text \<open>The clock is read for the start, for the creation and then once for each save.\<close>

definition createSession :: "onboard_env \<Rightarrow> depth \<Rightarrow> onboarding_session" where
  "createSession env depth = \<lparr>os_session_id = oe_uuid env, os_started_at = oe_now env 0, os_last_updated_at = oe_now env 1,
     os_depth = depth, os_current_step = ''welcome'', os_completed_steps = [], os_answers = JObj [], os_metadata = None,
     os_domain_id = None, os_llm_name = None, os_interview = None, os_structured = None\<rparr>"

definition loadSession :: "onboard_env \<Rightarrow> segments \<Rightarrow> disk \<Rightarrow> onboarding_session option" where
  "loadSession env p d = Option.bind (read_file d p) (oe_session_parse env)"

definition stamped :: "onboard_env \<Rightarrow> nat \<Rightarrow> onboarding_session \<Rightarrow> onboarding_session" where
  "stamped env k s = s\<lparr>os_last_updated_at := oe_now env (k + 2)\<rparr>"

definition saveSession :: "onboard_env \<Rightarrow> nat \<Rightarrow> segments \<Rightarrow> onboarding_session \<Rightarrow> disk_step" where
  "saveSession env k p s = write_step (oe_oserr env) p (oe_session_print env (stamped env k s))"

definition isSessionComplete :: "onboarding_session \<Rightarrow> bool" where
  "isSessionComplete s =
     (case os_interview s of
        Some iv \<Rightarrow> iv_is_complete iv
      | None \<Rightarrow> set [''welcome'', ''goals'', ''tone'', ''tradeoffs''] \<subseteq> set (os_completed_steps s))"

section \<open>init\<close>

record init_answers =
  ia_domain :: string
  ia_depth :: depth
  ia_use_detected :: bool
  ia_provider :: string
  ia_model :: "string option"

definition trimmed_var :: "(string \<Rightarrow> string option) \<Rightarrow> string \<Rightarrow> string" where
  "trimmed_var vars k = trim (value_or [] (vars k))"

text \<open>\<open>detectInstalledOllamaModel\<close>: every exception of the body ends in \<open>undefined\<close>.\<close>

definition tags_request :: "string \<Rightarrow> llm_request" where
  "tags_request baseUrl = \<lparr>lr_method = ''GET'', lr_url = baseUrl @ ''/api/tags'', lr_headers = [], lr_body = None\<rparr>"

fun named_entry :: "json list \<Rightarrow> json option" where
  "named_entry [] = None"
| "named_entry (e # es) =
     (if e = JNull then None
      else if truthy (jfield ''name'' e) \<or> truthy (jfield ''model'' e) then Some e else named_entry es)"

definition model_name :: "json \<Rightarrow> string option" where
  "model_name e =
     (case nullish_or (nullish_or JNull (jfield ''model'' e)) (jfield ''name'' e) of
        JStr t \<Rightarrow> if trim t \<noteq> [] then Some (trim t) else None
      | _ \<Rightarrow> None)"

definition detectInstalledOllamaModel :: "net_env \<Rightarrow> string \<Rightarrow> string option" where
  "detectInstalledOllamaModel net baseUrl =
     (case nt_fetch net (tags_request baseUrl) of
        Inl e \<Rightarrow> None
      | Inr response \<Rightarrow>
          if \<not> ly_ok response then None
          else (case nt_parse net (ly_text response) of
                  Inl e \<Rightarrow> None
                | Inr tags \<Rightarrow> (case jfield ''models'' tags of Some (JArr ms) \<Rightarrow> Option.bind (named_entry ms) model_name | _ \<Rightarrow> None)))"

definition resolvePreferredOllamaModel :: "net_env \<Rightarrow> (string \<Rightarrow> string option) \<Rightarrow> string option \<Rightarrow> string option" where
  "resolvePreferredOllamaModel net vars baseUrl =
     (if trimmed_var vars ''OLLAMA_MODEL'' \<noteq> [] then Some (trimmed_var vars ''OLLAMA_MODEL'')
      else detectInstalledOllamaModel net (value_or ''http://localhost:11434'' baseUrl))"

text \<open>What a text prompt with a default returns.\<close>

definition typed_or :: "string \<Rightarrow> string option \<Rightarrow> string" where
  "typed_or dflt v = (if value_or [] v = [] then dflt else the v)"

definition promptForProvider :: "net_env \<Rightarrow> (string \<Rightarrow> string option) \<Rightarrow> init_answers \<Rightarrow> provider_config" where
  "promptForProvider net vars ans =
     (if ia_provider ans = ''ollama''
      then (let model = typed_or (value_or ''llama3.1'' (resolvePreferredOllamaModel net vars None)) (ia_model ans)
            in if model \<noteq> [] then (plain_config ''ollama'')\<lparr>pc_model := Some model\<rparr> else plain_config ''ollama'')
      else plain_config (ia_provider ans))"

definition choose_provider :: "net_env \<Rightarrow> (string \<Rightarrow> string option) \<Rightarrow> init_answers \<Rightarrow> provider_config" where
  "choose_provider net vars ans =
     (if trimmed_var vars ''OLLAMA_MODEL'' \<noteq> []
      then \<lparr>pc_provider = ''ollama'', pc_model = Some (trimmed_var vars ''OLLAMA_MODEL''), pc_api_key_env = None,
            pc_base_url = (if trimmed_var vars ''OLLAMA_HOST'' \<noteq> [] then Some (trimmed_var vars ''OLLAMA_HOST'') else None)\<rparr>
      else (case autoDetectProvider net vars of
              Inl e \<Rightarrow> promptForProvider net vars ans
            | Inr detected \<Rightarrow>
                if \<not> ia_use_detected ans then promptForProvider net vars ans
                else if pc_provider detected = ''ollama''
                then detected\<lparr>pc_model := Some (value_or (typed_or ''llama3.1'' (ia_model ans))
                                (resolvePreferredOllamaModel net vars (pc_base_url detected)))\<rparr>
                else detected))"

definition init_dirs :: "segments \<Rightarrow> segments list" where
  "init_dirs ws = [ws, ws @ [''self''], ws @ [''knowledge'', ''skills''], ws @ [''knowledge'', ''playbooks''], ws @ [''ops'', ''traces''],
     ws @ [''ops'', ''drift''], ws @ [''ops'', ''observations''], ws @ [''ops'', ''sessions'']]"

definition config_path :: "segments \<Rightarrow> segments" where
  "config_path ws = ws @ [''tastekit.yaml'']"

definition init_config :: "onboard_env \<Rightarrow> string option \<Rightarrow> depth option \<Rightarrow> init_answers \<Rightarrow> workspace_config" where
  "init_config env domain depth ans =
     \<lparr>wc_version = ''1.0.0'', wc_project_name = ''my-taste-profile'', wc_created_at = oe_now env 0,
      wc_domain_id = Some (if value_or [] domain \<noteq> [] then the domain else ia_domain ans),
      wc_llm_provider = Some (choose_provider (oe_net env) (oe_vars env) ans),
      wc_onboarding = Some (value_or (ia_depth ans) depth, False)\<rparr>"

definition initCommand :: "onboard_env \<Rightarrow> segments \<Rightarrow> segments \<Rightarrow> string option \<Rightarrow> depth option \<Rightarrow> init_answers \<Rightarrow> disk \<Rightarrow> cli_result" where
  "initCommand env cwd path domain depth ans d =
     (let ws = cwd @ path @ [''.tastekit''] in
      if existsSync d ws then exit_one d
      else stepped (run_steps (map mkdir_step (init_dirs ws)
             @ [write_step (oe_oserr env) (config_path ws) (oe_config_print env (init_config env domain depth ans))]) d) finish)"

section \<open>onboard\<close>

text \<open>A property that is kept only if it is truthy.\<close>

definition nonempty :: "string option \<Rightarrow> string option" where
  "nonempty v = (if value_or [] v = [] then None else v)"

definition resolveOnboardProviderConfig :: "provider_config option \<Rightarrow> string option \<Rightarrow> provider_config option" where
  "resolveOnboardProviderConfig configured providerOverride =
     (if value_or [] providerOverride = [] then configured
      else (case configured of
              Some c \<Rightarrow>
                if pc_provider c = the providerOverride
                then Some \<lparr>pc_provider = the providerOverride, pc_model = nonempty (pc_model c),
                           pc_api_key_env = nonempty (pc_api_key_env c), pc_base_url = nonempty (pc_base_url c)\<rparr>
                else Some (plain_config (the providerOverride))
            | None \<Rightarrow> Some (plain_config (the providerOverride))))"

text \<open>An override for the provider that is configured keeps its settings, for another provider it drops all of them.\<close>

lemma override_provider:
  "provider \<noteq> [] \<Longrightarrow> pc_provider c \<noteq> provider \<Longrightarrow> resolveOnboardProviderConfig (Some c) (Some provider) = Some (plain_config provider)"
  "provider \<noteq> [] \<Longrightarrow> pc_provider c = provider \<Longrightarrow> Some [] \<notin> {pc_model c, pc_api_key_env c, pc_base_url c} \<Longrightarrow>
     resolveOnboardProviderConfig (Some c) (Some provider) = Some c"
  by (auto simp: resolveOnboardProviderConfig_def value_or_def nonempty_def split: option.split)

definition onboard_client :: "onboard_env \<Rightarrow> workspace_config \<Rightarrow> string option \<Rightarrow> string + llm_client" where
  "onboard_client env config provider =
     sum_bind (case resolveOnboardProviderConfig (wc_llm_provider config) provider of
                 Some c \<Rightarrow> Inr c | None \<Rightarrow> autoDetectProvider (oe_net env) (oe_vars env)) (resolveProvider (oe_vars env))"

definition fallback_rubric :: "string \<Rightarrow> domain_rubric" where
  "fallback_rubric domainId = \<lparr>domain_id = domainId, rubric_version = ''0.1.0'',
     interview_goal = ''Configure a '' @ domainId @ '' agent based on your preferences and principles.'',
     dimensions = [], includes_universal = True\<rparr>"

definition onboard_rubric :: "string \<Rightarrow> domain_rubric" where
  "onboard_rubric domainId = value_or (fallback_rubric domainId) (getDomainRubric domainId)"

text \<open>The session to write into, and the state to resume from; None when the stored session is malformed.\<close>

definition start_session :: "onboard_env \<Rightarrow> segments \<Rightarrow> depth \<Rightarrow> bool \<Rightarrow> disk \<Rightarrow> (onboarding_session \<times> interview option) option" where
  "start_session env sessionPath depth resume d =
     (if resume \<and> existsSync d sessionPath
      then map_option (\<lambda>s. case os_interview s of
             Some iv \<Rightarrow> if iv_is_complete iv then (createSession env depth, None) else (s, Some iv)
           | None \<Rightarrow> (s, None)) (loadSession env sessionPath d)
      else Some (createSession env depth, None))"

definition onboard_depth :: "workspace_config \<Rightarrow> depth option \<Rightarrow> depth" where
  "onboard_depth config depth = value_or (value_or Guided (map_option fst (wc_onboarding config))) depth"

text \<open>\<open>onStateChange\<close>: the k-th state of the interview is saved in the session.\<close>

definition save_state :: "onboard_env \<Rightarrow> segments \<Rightarrow> onboarding_session \<Rightarrow> nat \<times> interview \<Rightarrow> disk_step" where
  "save_state env p s = (\<lambda>(k, st). saveSession env k p (s\<lparr>os_interview := Some st, os_current_step := ''interview''\<rparr>))"

definition save_states :: "onboard_env \<Rightarrow> segments \<Rightarrow> onboarding_session \<Rightarrow> interview list \<Rightarrow> disk_step" where
  "save_states env p s sts = run_steps (map (save_state env p s) (List.enumerate 0 sts))"

definition completed_session :: "onboarding_session \<Rightarrow> interview \<Rightarrow> json \<Rightarrow> onboarding_session" where
  "completed_session s st answers = s\<lparr>os_structured := Some answers, os_completed_steps := [''welcome'', ''interview''],
     os_current_step := ''complete'', os_interview := Some st\<rparr>"

text \<open>The end of the command; \<open>structuredAnswers.principles\<close> is read for the summary.\<close>

definition close_onboarding :: "onboard_env \<Rightarrow> segments \<Rightarrow> onboarding_session \<Rightarrow> engine \<Rightarrow> run_result \<Rightarrow> disk \<Rightarrow> cli_result" where
  "close_onboarding env p s en res d =
     (let close = (\<lambda>answers. stepped (saveSession env (length (en_saved en)) p (completed_session s (en_state en) answers) d)
                    (\<lambda>d'. if answers = JNull then exit_one d' else finish d'))
      in case res of Answers a \<Rightarrow> close a | Saved a \<Rightarrow> close a | Waiting \<Rightarrow> exit_one d | Failed \<Rightarrow> exit_one d)"

text \<open>The engine of the command, its lines typed, and the session it writes.\<close>

definition typed_lines :: "string list \<Rightarrow> string list" where
  "typed_lines inps = filter (\<lambda>l. l \<noteq> []) inps"

definition onboard_interview :: "onboard_env \<Rightarrow> llm_client \<Rightarrow> string \<Rightarrow> depth \<Rightarrow> interview option \<Rightarrow> string list \<Rightarrow> engine \<times> run_result" where
  "onboard_interview env client domainId depth resumeFrom inps =
     run_interview ((oe_engine env)\<lparr>llm := provider_llm (oe_net env) client\<rparr>)
       (new_interviewer (onboard_rubric domainId) depth UNIVERSAL_DIMENSIONS resumeFrom) (typed_lines inps)"

definition hold_interview :: "onboard_env \<Rightarrow> segments \<Rightarrow> workspace_config \<Rightarrow> depth \<Rightarrow> string \<Rightarrow> bool \<Rightarrow> llm_client \<Rightarrow> string list \<Rightarrow> disk \<Rightarrow> cli_result" where
  "hold_interview env p config depth domainId resume client inps d =
     (case start_session env p depth resume d of
        None \<Rightarrow> exit_one d
      | Some (s, resumeFrom) \<Rightarrow>
          let s' = s\<lparr>os_domain_id := Some domainId, os_llm_name := Some (provider_name (lc_kind client))\<rparr>;
              (en, res) = onboard_interview env client domainId depth resumeFrom inps
          in stepped (save_states env p s' (en_saved en) d) (close_onboarding env p s' en res))"

definition onboardCommand ::
  "onboard_env \<Rightarrow> segments \<Rightarrow> depth option \<Rightarrow> bool \<Rightarrow> string option \<Rightarrow> string list \<Rightarrow> disk \<Rightarrow> cli_result" where
  "onboardCommand env cwd depth resume provider inps d =
     (let ws = cwd @ [''.tastekit'']; p = resolveSessionPath d ws in
      if \<not> existsSync d ws then exit_one d
      else if \<not> existsSync d (config_path ws) then exit_one d
      else let d1 = make_dirs (butlast p) d in
        (case Option.bind (read_file d1 (config_path ws)) (oe_config_parse env) of
           None \<Rightarrow> exit_one d1
         | Some config \<Rightarrow>
             if value_or [] (wc_domain_id config) = [] then exit_one d1
             else (case onboard_client env config provider of
                     Inl e \<Rightarrow> exit_one d1
                   | Inr client \<Rightarrow>
                       hold_interview env p config (onboard_depth config depth) (the (wc_domain_id config)) resume client inps d1)))"

section \<open>What an interview saves\<close>

text \<open>The states begin with the transcript of \<open>st\<close>, and none that was saved is complete.\<close>

definition continues :: "interview \<Rightarrow> engine \<Rightarrow> bool" where
  "continues st en \<longleftrightarrow> prefix (iv_transcript st) (iv_transcript (en_state en))
     \<and> (\<forall>s \<in> set (en_saved en). prefix (iv_transcript st) (iv_transcript s) \<and> \<not> iv_is_complete s)"

lemma take_response_state:
  "prefix (iv_transcript (en_state en)) (iv_transcript (en_state (fst (take_response env b raw en))))"
  "iv_is_complete (en_state (fst (take_response env b raw en))) = iv_is_complete (en_state en)"
  "en_saved (fst (take_response env b raw en)) = en_saved en @ [en_state (fst (take_response env b raw en))]"
  by (simp_all add: take_response_def addTurn_def Let_def split: prod.split)

lemma hear_user_state:
  "prefix (iv_transcript (en_state en)) (iv_transcript (en_state (hear_user env inp en)))"
  "iv_is_complete (en_state (hear_user env inp en)) = iv_is_complete (en_state en)" "en_saved (hear_user env inp en) = en_saved en"
  by (simp_all add: hear_user_def addTurn_def Let_def)

lemma continues_take: "continues st en \<Longrightarrow> \<not> iv_is_complete (en_state en) \<Longrightarrow> continues st (fst (take_response env b raw en))"
  using prefix_order.trans [OF _ take_response_state(1)]
  by (auto simp: continues_def take_response_state(2,3))

lemma continues_hear: "continues st en \<Longrightarrow> continues st (hear_user env inp en)"
  using prefix_order.trans [OF _ hear_user_state(1)] by (auto simp: continues_def hear_user_state(3))

lemma continues_history [simp]: "continues st (en\<lparr>en_history := h\<rparr>) = continues st en"
  by (simp add: continues_def)

lemma continues_complete [simp]: "continues st (en\<lparr>en_state := (en_state en)\<lparr>iv_is_complete := b\<rparr>\<rparr>) = continues st en"
  by (simp add: continues_def)

lemma continues_exchange:
  assumes "continues st en" "\<not> iv_is_complete (en_state en)"
  shows "continues st (fst (exchange env inp en))"
proof -
  have "continues st (hear_user env inp en)" by (rule continues_hear [OF assms(1)])
  moreover from this have "continues st (fst (take_response env True raw (hear_user env inp en)))" for raw
    by (rule continues_take) (simp add: hear_user_state(2) assms(2))
  ultimately show ?thesis by (auto simp: exchange_def Let_def split: option.split prod.splits) (metis fst_conv)+
qed

lemma continues_open:
  assumes "continues st en" "\<not> iv_is_complete (en_state en)"
  shows "continues st (fst (open_interview env en))"
  using assms continues_take [of st "en\<lparr>en_history := en_history en @ [(User_role, kickoff)]\<rparr>" env False]
  by (simp add: open_interview_def Let_def split: option.split)

text \<open>What the loop leaves: with answers the last state is complete, without them no saved one is.\<close>

definition left_by :: "interview \<Rightarrow> engine \<Rightarrow> run_result \<Rightarrow> bool" where
  "left_by st en res \<longleftrightarrow> prefix (iv_transcript st) (iv_transcript (en_state en))
     \<and> (\<forall>s \<in> set (en_saved en). prefix (iv_transcript st) (iv_transcript s))
     \<and> (case res of Answers a \<Rightarrow> iv_is_complete (en_state en)
         | Saved a \<Rightarrow> continues st en \<and> en_state en \<in> set (en_saved en) | _ \<Rightarrow> continues st en)"

lemma left_waiting: "continues st en \<Longrightarrow> left_by st en Waiting" "continues st en \<Longrightarrow> left_by st en Failed"
  by (simp_all add: left_by_def continues_def)

lemma left_finish: "continues st en \<Longrightarrow> iv_is_complete (en_state en) \<Longrightarrow> (case finish_run env en of (en', res) \<Rightarrow> left_by st en' res)"
  by (auto simp: finish_run_def left_waiting Let_def split: option.split) (auto simp: left_by_def continues_def)

lemma left_save: "continues st en \<Longrightarrow> \<not> iv_is_complete (en_state en) \<Longrightarrow> (case save_run en of (en', res) \<Rightarrow> left_by st en' res)"
  by (auto simp: save_run_def left_by_def continues_def)

lemma left_loop: "continues st en \<Longrightarrow> (case interview_loop env en inps of (en', res) \<Rightarrow> left_by st en' res)"
proof (induction inps arbitrary: en)
  case Nil
  then show ?case by (simp add: left_waiting left_finish)
next
  case (Cons inp inps)
  show ?case
  proof (cases "iv_is_complete (en_state en)")
    case True
    then show ?thesis using left_finish [OF Cons.prems] by simp
  next
    case False
    note next_one = continues_exchange [OF Cons.prems False, of env inp]
    show ?thesis
    proof (cases "is_command ''/save'' inp")
      case True
      then show ?thesis using left_save [OF Cons.prems False] False by simp
    next
      case not_save: False
      obtain en' ok where e: "exchange env inp en = (en', ok)" by (rule prod.exhaust)
      show ?thesis using False not_save e next_one Cons.IH [of en'] by (cases ok) (simp_all add: left_waiting)
    qed
  qed
qed

lemma left_run:
  assumes "continues st en" "\<not> iv_is_complete (en_state en)"
  shows "case run_interview env en inps of (en', res) \<Rightarrow> left_by st en' res"
proof -
  have "continues st (start_run en)" "\<not> iv_is_complete (en_state (start_run en))"
    using assms by (simp_all add: start_run_def continues_def)
  note opened = continues_open [OF this, of env]
  obtain en' ok where e: "open_interview env (start_run en) = (en', ok)" by (rule prod.exhaust)
  show ?thesis
    using opened e left_loop [of st en' env inps] by (cases ok) (simp_all add: run_interview_def left_waiting)
qed

text \<open>The interview that a command holds.\<close>

lemma left_onboarding:
  assumes "onboard_interview env client k depth resume inps = (en, res)" "\<And>st. resume = Some st \<Longrightarrow> \<not> iv_is_complete st"
  shows "left_by (value_or (fresh_interview []) resume) en res"
proof -
  let ?en = "new_interviewer (onboard_rubric k) depth UNIVERSAL_DIMENSIONS resume"
  have "continues (value_or (fresh_interview []) resume) ?en" "\<not> iv_is_complete (en_state ?en)"
    using assms(2) by (auto simp: continues_def new_interviewer_def Let_def value_or_def fresh_interview_def split: option.split)
  from left_run [OF this, of "(oe_engine env)\<lparr>llm := provider_llm (oe_net env) client\<rparr>" "typed_lines inps"] show ?thesis
    using assms(1) by (simp add: onboard_interview_def)
qed

section \<open>What the command leaves on the disk\<close>

definition session_left :: "onboard_env \<Rightarrow> onboarding_session \<Rightarrow> engine \<Rightarrow> run_result \<Rightarrow> onboarding_session" where
  "session_left env s en res =
     (let close = (\<lambda>a. stamped env (length (en_saved en)) (completed_session s (en_state en) a)) in
      case res of Answers a \<Rightarrow> close a | Saved a \<Rightarrow> close a
      | _ \<Rightarrow> stamped env (length (en_saved en) - 1) (s\<lparr>os_interview := Some (last (en_saved en)), os_current_step := ''interview''\<rparr>))"

definition ended_well :: "run_result \<Rightarrow> bool" where
  "ended_well res \<longleftrightarrow> (case res of Answers a \<Rightarrow> a \<noteq> JNull | Saved a \<Rightarrow> a \<noteq> JNull | _ \<Rightarrow> False)"

text \<open>A place for a file: its directory exists, and it is no directory itself.\<close>

definition writable :: "disk \<Rightarrow> segments \<Rightarrow> bool" where
  "writable d p \<longleftrightarrow> is_dir d (butlast p) \<and> \<not> is_dir d p"

lemma writable_put [simp]: "writable (put_file q t d) p = writable d p"
  by (simp add: writable_def)

lemma update_twice: "AList.update k b (AList.update k a kvs) = AList.update k b kvs"
  by (induction kvs) auto

lemma put_put [simp]: "put_file p b (put_file p a d) = put_file p b d"
  by (simp add: put_file_def update_twice)

lemma repeated_writes:
  "writable d p \<Longrightarrow> run_steps (map (\<lambda>x. write_step err p (t x)) xs) d = (None, if xs = [] then d else put_file p (t (last xs)) d)"
  by (induction xs arbitrary: d) (simp_all add: write_step_def writable_def)

lemma save_states_writes:
  assumes "writable d p" "sts \<noteq> []"
  shows "save_states env p s sts d = (None, put_file p (oe_session_print env (stamped env (length sts - 1)
     (s\<lparr>os_interview := Some (last sts), os_current_step := ''interview''\<rparr>))) d)"
proof -
  have "map (save_state env p s) xs = map (\<lambda>x. write_step (oe_oserr env) p (oe_session_print env (stamped env (fst x)
     (s\<lparr>os_interview := Some (snd x), os_current_step := ''interview''\<rparr>)))) xs" for xs
    by (simp add: save_state_def saveSession_def split: prod.split)
  moreover have "last (List.enumerate 0 sts) = (length sts - 1, last sts)"
    using assms(2) by (cases sts rule: rev_cases) (simp_all add: enumerate_append_eq)
  ultimately show ?thesis
    using assms unfolding save_states_def by (simp add: repeated_writes del: map_eq_conv) (simp add: enumerate_eq_zip)
qed

lemma close_writes:
  assumes "writable d p" "en_saved en \<noteq> []"
    and "d = put_file p (oe_session_print env (session_left env s en Waiting)) d0"
  shows "cx_code (close_onboarding env p s en res d) = (if ended_well res then 0 else 1)"
    "cx_disk (close_onboarding env p s en res d) = put_file p (oe_session_print env (session_left env s en res)) d0"
  using assms
  by (auto simp: close_onboarding_def ended_well_def saveSession_def write_step_def writable_def stepped_def session_left_def
      finish_def exit_one_def Let_def split: run_result.split)

lemma hold_interview_leaves:
  assumes "start_session env p depth resume d = Some (s, st0)" "onboard_interview env client k depth st0 inps = (en, res)"
    and "writable d p" "en_saved en \<noteq> []" "s' = s\<lparr>os_domain_id := Some k, os_llm_name := Some (provider_name (lc_kind client))\<rparr>"
  shows "cx_code (hold_interview env p config depth k resume client inps d) = (if ended_well res then 0 else 1)"
    "cx_disk (hold_interview env p config depth k resume client inps d) = put_file p (oe_session_print env (session_left env s' en res)) d"
proof -
  let ?d = "put_file p (oe_session_print env (session_left env s' en Waiting)) d"
  have "hold_interview env p config depth k resume client inps d = close_onboarding env p s' en res ?d"
    using assms by (simp add: hold_interview_def Let_def save_states_writes stepped_def session_left_def)
  then show "cx_code (hold_interview env p config depth k resume client inps d) = (if ended_well res then 0 else 1)"
    "cx_disk (hold_interview env p config depth k resume client inps d) = put_file p (oe_session_print env (session_left env s' en res)) d"
    using close_writes [of ?d p en env s' d res] assms(3,4) by simp_all
qed

text \<open>A workspace in which an interview can be held.\<close>

definition workspace_ready :: "onboard_env \<Rightarrow> segments \<Rightarrow> string option \<Rightarrow> disk \<Rightarrow> workspace_config \<Rightarrow> string \<Rightarrow> llm_client \<Rightarrow> bool" where
  "workspace_ready env cwd provider d config k client \<longleftrightarrow>
     (let ws = cwd @ [''.tastekit''] in
      existsSync d ws \<and> Option.bind (read_file d (config_path ws)) (oe_config_parse env) = Some config
      \<and> wc_domain_id config = Some k \<and> k \<noteq> [] \<and> onboard_client env config provider = Inr client
      \<and> \<not> is_dir d (resolveSessionPath d ws))"

definition attributed :: "string \<Rightarrow> llm_client \<Rightarrow> onboarding_session \<Rightarrow> onboarding_session" where
  "attributed k client s = s\<lparr>os_domain_id := Some k, os_llm_name := Some (provider_name (lc_kind client))\<rparr>"

lemma session_path_cases: "resolveSessionPath d ws = ws @ [''ops'', ''session.json''] \<or> resolveSessionPath d ws = ws @ [''session.json'']"
  by (simp add: resolveSessionPath_def opsPath_def Let_def)

lemma not_below_parent: "p \<noteq> [] \<Longrightarrow> \<not> prefix p (butlast p)"
  using prefix_length_le [of p "butlast p"] by (cases p rule: rev_cases) auto

lemma session_path_writable:
  assumes "p = resolveSessionPath d ws" "\<not> is_dir d p"
  shows "writable (make_dirs (butlast p) d) p"
proof -
  have "p \<noteq> []" using session_path_cases [of d ws] assms(1) by auto
  then have "\<not> prefix p (butlast p)" by (rule not_below_parent)
  then show ?thesis using assms(2) by (simp add: writable_def is_dir_make_dirs)
qed

lemma onboard_leaves:
  assumes "workspace_ready env cwd provider d config k client" "p = resolveSessionPath d (cwd @ [''.tastekit''])"
    and "d1 = make_dirs (butlast p) d" "start_session env p (onboard_depth config depth) resume d1 = Some (s, st0)"
    and "onboard_interview env client k (onboard_depth config depth) st0 inps = (en, res)" "en_saved en \<noteq> []"
    and "r = onboardCommand env cwd depth resume provider inps d"
  shows "cx_code r = (if ended_well res then 0 else 1) \<and> cx_disk r = put_file p (oe_session_print env (session_left env (attributed k client s) en res)) d1"
proof -
  have "existsSync d (config_path (cwd @ [''.tastekit'']))"
    using assms(1) by (auto simp: workspace_ready_def Let_def existsSync_def bind_eq_Some_conv)
  then have r: "r = hold_interview env p config (onboard_depth config depth) k resume client inps d1"
    using assms by (simp add: onboardCommand_def workspace_ready_def Let_def value_or_def)
  have "writable d1 p" unfolding assms(3) by (rule session_path_writable [OF assms(2)]) (use assms(1,2) in \<open>simp add: workspace_ready_def Let_def\<close>)
  then show ?thesis unfolding r using assms(4-6) hold_interview_leaves attributed_def by metis
qed

lemma session_path_kept:
  assumes "p = resolveSessionPath d ws" "d' = put_file p t (make_dirs (butlast p) d)"
  shows "resolveSessionPath d' ws = p"
proof -
  have there: "existsSync d' p" by (simp add: assms(2) existsSync_def)
  show ?thesis
  proof (cases "p = ws @ [''ops'', ''session.json'']")
    case True
    then show ?thesis using there by (simp add: resolveSessionPath_def opsPath_def Let_def)
  next
    case False
    then have p: "p = ws @ [''session.json'']" using session_path_cases [of d ws] assms(1) by auto
    then have "\<not> existsSync d (ws @ [''ops'', ''session.json''])"
      using assms(1) by (auto simp: resolveSessionPath_def opsPath_def Let_def split: if_splits)
    then have "\<not> existsSync d' (ws @ [''ops'', ''session.json''])"
      by (auto simp: assms(2) p existsSync_def is_dir_make_dirs dest: prefix_length_le)
    then show ?thesis using there p by (simp add: resolveSessionPath_def opsPath_def Let_def)
  qed
qed

lemma ready_again:
  assumes "workspace_ready env cwd provider d config k client" "p = resolveSessionPath d (cwd @ [''.tastekit''])"
    and "d' = put_file p t (make_dirs (butlast p) d)" "onboard_client env config provider' = Inr client'"
  shows "workspace_ready env cwd provider' d' config k client'"
proof -
  let ?ws = "cwd @ [''.tastekit'']"
  have p: "p \<noteq> config_path ?ws" "p \<noteq> []" using session_path_cases [of d ?ws] assms(2) by (auto simp: config_path_def)
  then have "\<not> prefix p (butlast p)" by (intro not_below_parent)
  moreover have "existsSync d' ?ws" using assms(1,3) by (auto simp: workspace_ready_def Let_def existsSync_def is_dir_make_dirs)
  ultimately show ?thesis
    using assms(1,2,4) p session_path_kept [OF assms(2,3)]
    by (simp add: workspace_ready_def Let_def assms(3) is_dir_make_dirs)
qed

section \<open>Interrupted interviews\<close>

lemma left_session:
  assumes "onboard_interview env client k depth resume inps = (en, res)" "en_saved en \<noteq> []" "\<And>st. resume = Some st \<Longrightarrow> \<not> iv_is_complete st"
  shows "\<exists>st. os_interview (session_left env s en res) = Some st \<and> prefix (iv_transcript (value_or (fresh_interview []) resume)) (iv_transcript st)
     \<and> ((\<forall>a. res \<noteq> Answers a) \<longrightarrow> \<not> iv_is_complete st)"
proof -
  let ?st = "value_or (fresh_interview []) resume"
  have "left_by ?st en res" by (rule left_onboarding [OF assms(1,3)])
  then show ?thesis
    using assms(2) by (cases res) (auto simp: session_left_def stamped_def completed_session_def left_by_def continues_def Let_def)
qed

text \<open>
  C38. An interview that was interrupted is continued by the next command. Let \<open>onboard\<close> be run in a
  workspace that is ready for it, let the model answer at least once, so that the interview was saved at
  least once, and let the command end in any way other than by the answers of a finished interview: the
  user saves, closes the prompt, or a later request to the model fails. Then the session on disk holds an
  interview that is not complete. If the text of the session is read back, and in \<open>onboard --resume\<close>, with
  any depth and provider given there that can be resolved, the model again answers at least once, the
  second command continues exactly that interview: the session it leaves has the same id and start, and
  its transcript begins with the one stored before, so no exchange that was saved is asked for again or
  lost. The exit code is 0 exactly if the second interview ends with answers or is saved.
\<close>

theorem interrupted_onboarding_resumes:
  assumes ready: "workspace_ready env cwd provider d config k client" "p = resolveSessionPath d (cwd @ [''.tastekit''])"
    and first: "onboard_interview env client k (onboard_depth config depth) None inps = (en, res)" "en_saved en \<noteq> []" "\<And>a. res \<noteq> Answers a"
      "s = session_left env (attributed k client (createSession env (onboard_depth config depth))) en res" "os_interview s = Some st"
      "r = onboardCommand env cwd depth False provider inps d"
    and reads: "oe_session_parse env (oe_session_print env s) = Some s"
    and second: "onboard_client env config provider' = Inr client'"
      "onboard_interview env client' k (onboard_depth config depth') (Some st) inps' = (en', res')" "en_saved en' \<noteq> []"
      "s' = session_left env (attributed k client' s) en' res'" "r' = onboardCommand env cwd depth' True provider' inps' (cx_disk r)"
  shows "read_file (cx_disk r) p = Some (oe_session_print env s) \<and> \<not> iv_is_complete st
     \<and> cx_code r' = (if ended_well res' then 0 else 1) \<and> read_file (cx_disk r') p = Some (oe_session_print env s')
     \<and> os_session_id s' = oe_uuid env \<and> os_started_at s' = oe_now env 0
     \<and> (\<exists>st'. os_interview s' = Some st' \<and> prefix (iv_transcript st) (iv_transcript st'))"
proof -
  let ?ws = "cwd @ [''.tastekit'']" and ?d1 = "make_dirs (butlast p) d"
  define d2 where "d2 = put_file p (oe_session_print env s) ?d1"
  have r: "cx_disk r = d2"
    using onboard_leaves [OF ready refl _ first(1,2,6)] first(4) by (simp add: start_session_def d2_def)
  have incomplete: "\<not> iv_is_complete st"
    using left_session [OF first(1,2), of "attributed k client (createSession env (onboard_depth config depth))"] first(3-5) by simp
  have place: "resolveSessionPath d2 ?ws = p" by (rule session_path_kept [OF ready(2) d2_def])
  have again: "workspace_ready env cwd provider' d2 config k client'" by (rule ready_again [OF ready d2_def second(1)])
  have stored: "start_session env p (onboard_depth config depth') True (make_dirs (butlast p) d2) = Some (s, Some st)"
    using first(5) incomplete reads
    by (simp add: start_session_def loadSession_def existsSync_def d2_def)
  note r' = onboard_leaves [OF again place [symmetric] refl stored second(2,3) second(5) [unfolded r]]
  have "\<exists>st'. os_interview s' = Some st' \<and> prefix (iv_transcript st) (iv_transcript st')"
    using left_session [OF second(2,3), of "attributed k client' s"] incomplete second(4) by (auto simp: value_or_def)
  moreover have "os_session_id s' = os_session_id s" "os_started_at s' = os_started_at s"
    "os_session_id s = oe_uuid env" "os_started_at s = oe_now env 0"
    by (simp_all add: second(4) first(4) session_left_def attributed_def createSession_def stamped_def completed_session_def Let_def
        split: run_result.split)
  ultimately show ?thesis using r r' incomplete second(4) by (simp add: d2_def)
qed

text \<open>A user who saves at once, over a model that answers.\<close>

lemma save_at_once:
  assumes "\<And>ms. one_system ms \<Longrightarrow> provider_llm (oe_net env) client ms \<noteq> None" "\<And>st. resume = Some st \<Longrightarrow> \<not> iv_is_complete st"
  shows "\<exists>en a. onboard_interview env client k depth resume [''/save''] = (en, Saved a) \<and> a \<noteq> JNull \<and> en_saved en \<noteq> []"
proof -
  let ?env = "(oe_engine env)\<lparr>llm := provider_llm (oe_net env) client\<rparr>"
  define en0 where "en0 = start_run (new_interviewer (onboard_rubric k) depth UNIVERSAL_DIMENSIONS resume)"
  have fresh: "\<not> iv_is_complete (en_state en0)"
    using assms(2) by (cases resume) (simp_all add: en0_def start_run_def new_interviewer_def Let_def fresh_interview_def)
  have "led (en0\<lparr>en_history := en_history en0 @ [(User_role, kickoff)]\<rparr>)"
    using led_snoc [OF led_start, of _ "new_interviewer (onboard_rubric k) depth UNIVERSAL_DIMENSIONS resume" "(User_role, kickoff)"]
    by (simp add: en0_def)
  then obtain raw where raw: "provider_llm (oe_net env) client (en_history en0 @ [(User_role, kickoff)]) = Some raw"
    using assms(1) [of "en_history en0 @ [(User_role, kickoff)]"] by (auto simp: led_def)
  obtain en1 where en1: "open_interview ?env en0 = (en1, True)" "\<not> iv_is_complete (en_state en1)"
  proof (cases "iv_transcript (en_state en0) = []")
    case True
    with raw fresh show ?thesis
      by (intro that [of "fst (take_response ?env False raw (en0\<lparr>en_history := en_history en0 @ [(User_role, kickoff)]\<rparr>))"])
        (simp_all add: open_interview_def Let_def take_response_state(2))
  next
    case False
    with fresh show ?thesis by (intro that [of en0]) (simp_all add: open_interview_def)
  qed
  have "is_command ''/save'' ''/save''" by code_simp
  with en1 show ?thesis
    by (auto simp: onboard_interview_def run_interview_def en0_def [symmetric] typed_lines_def save_run_def getEmptyAnswers_def
        split: option.split json.split)
qed

text \<open>An environment with fixed texts, and a workspace of an unknown domain.\<close>

definition sample_ws_config :: workspace_config where
  "sample_ws_config = \<lparr>wc_version = ''1.0.0'', wc_project_name = ''my-taste-profile'', wc_created_at = ''now'', wc_domain_id = Some ''x'',
     wc_llm_provider = Some (plain_config ''anthropic''), wc_onboarding = Some (Quick, False)\<rparr>"

definition sample_onboard :: "onboarding_session \<Rightarrow> onboard_env" where
  "sample_onboard s = \<lparr>oe_config_print = (\<lambda>c. ''config''), oe_config_parse = (\<lambda>t. Some sample_ws_config),
     oe_session_print = (\<lambda>s. ''session''), oe_session_parse = (\<lambda>t. Some s), oe_oserr = (\<lambda>p. ''EISDIR''), oe_uuid = ''id'',
     oe_now = (\<lambda>n. ''now''), oe_vars = (\<lambda>v. Some ''key''), oe_net = echo_net, oe_engine = talking_env\<rparr>"

definition sample_client :: llm_client where
  "sample_client = anthropic_client ''key'' None None"

lemma sample_client_of: "onboard_client (sample_onboard s) sample_ws_config None = Inr sample_client"
  by (simp add: onboard_client_def resolveOnboardProviderConfig_def value_or_def sample_ws_config_def sample_onboard_def
      resolveProvider_def plain_config_def api_key_def sample_client_def)

lemma echo_answers: "one_system ms \<Longrightarrow> provider_llm echo_net sample_client ms = Some ''Hello.''"
  by (rule provider_llm_answers) (simp_all add: sample_client_def anthropic_client_def echo_serves)

lemma sample_interview:
  assumes "\<And>st. resume = Some st \<Longrightarrow> \<not> iv_is_complete st"
  shows "\<exists>en a. onboard_interview (sample_onboard s) sample_client k depth resume [''/save''] = (en, Saved a) \<and> a \<noteq> JNull \<and> en_saved en \<noteq> []"
  by (rule save_at_once) (simp_all add: sample_onboard_def echo_answers assms)

lemma sample_same: "onboard_interview (sample_onboard s) = onboard_interview (sample_onboard s')"
  "createSession (sample_onboard s) = createSession (sample_onboard s')" "stamped (sample_onboard s) = stamped (sample_onboard s')"
  by (simp_all add: fun_eq_iff onboard_interview_def sample_onboard_def createSession_def stamped_def)

lemma sample_left: "session_left (sample_onboard s) = session_left (sample_onboard s')"
  unfolding session_left_def sample_same(3) [of s s'] by (rule refl)

definition sample_ready_disk :: disk where
  "sample_ready_disk = \<lparr>dk_files = [([''.tastekit'', ''tastekit.yaml''], ''config'')], dk_dirs = [[], [''.tastekit'']]\<rparr>"

theorem interrupted_onboarding_resumes_witness:
  "\<exists>s (s' :: onboarding_session) st st'. os_interview s = Some st \<and> os_interview s' = Some st' \<and> prefix (iv_transcript st) (iv_transcript st')
     \<and> os_session_id s' = ''id''
     \<and> cx_code (onboardCommand (sample_onboard s) [] None True None [''/save'']
          (cx_disk (onboardCommand (sample_onboard s) [] None False None [''/save''] sample_ready_disk))) = 0"
proof -
  let ?u = "sample_onboard undefined" and ?dep = "onboard_depth sample_ws_config None"
  obtain en a where first: "onboard_interview ?u sample_client ''x'' ?dep None [''/save''] = (en, Saved a)" "en_saved en \<noteq> []"
    using sample_interview by blast
  define s where "s = session_left ?u (attributed ''x'' sample_client (createSession ?u ?dep)) en (Saved a)"
  let ?env = "sample_onboard s"
  obtain st where st: "os_interview s = Some st" "\<not> iv_is_complete st"
    using left_session [OF first, of "attributed ''x'' sample_client (createSession ?u ?dep)"] by (auto simp: s_def)
  obtain en' a' where second: "onboard_interview ?env sample_client ''x'' ?dep (Some st) [''/save''] = (en', Saved a')" "a' \<noteq> JNull" "en_saved en' \<noteq> []"
    using sample_interview [of "Some st" s] st(2) by blast
  have path: "resolveSessionPath sample_ready_disk ([] @ [''.tastekit'']) = [''.tastekit'', ''ops'', ''session.json'']"
    by (simp add: resolveSessionPath_def opsPath_def sample_ready_disk_def existsSync_def read_file_def is_dir_def)
  have ready: "workspace_ready ?env [] None sample_ready_disk sample_ws_config ''x'' sample_client"
    using path by (simp add: workspace_ready_def sample_client_of Let_def)
      (simp add: sample_onboard_def sample_ws_config_def config_path_def sample_ready_disk_def existsSync_def read_file_def is_dir_def)
  have first': "onboard_interview ?env sample_client ''x'' ?dep None [''/save''] = (en, Saved a)"
    using first(1) unfolding sample_same(1) [of undefined s] .
  have s: "s = session_left ?env (attributed ''x'' sample_client (createSession ?env ?dep)) en (Saved a)"
    by (subst s_def, unfold sample_left [of undefined s] sample_same(2) [of undefined s]) (rule refl)
  have reads: "oe_session_parse ?env (oe_session_print ?env s) = Some s" by (simp add: sample_onboard_def)
  have saved: "\<And>b. Saved a \<noteq> Answers b" by simp
  note result = interrupted_onboarding_resumes [OF ready refl first' first(2) saved s st(1) refl reads
      sample_client_of second(1) second(3) refl refl]
  let ?s' = "session_left ?env (attributed ''x'' sample_client s) en' (Saved a')"
  obtain st' where "os_interview ?s' = Some st'" "prefix (iv_transcript st) (iv_transcript st')" using result by blast
  moreover have "os_session_id ?s' = ''id''" using result by (simp add: sample_onboard_def)
  moreover have "ended_well (Saved a')" using second(2) by (simp add: ended_well_def)
  ultimately have "os_interview s = Some st \<and> os_interview ?s' = Some st' \<and> prefix (iv_transcript st) (iv_transcript st') \<and> os_session_id ?s' = ''id''
     \<and> cx_code (onboardCommand ?env [] None True None [''/save''] (cx_disk (onboardCommand ?env [] None False None [''/save''] sample_ready_disk))) = 0"
    using result st(1) by simp
  then show ?thesis by blast
qed

end
