(* ===== verification/SkillCommands.thy ===== *)
theory SkillCommands
  imports Onboard
begin

text \<open>
  TasteKit command line, commands/skills.ts: list, lint, pack and graph. The manifest is read as an
  untyped value by \<open>list\<close>, and at its type by the analysis of \<open>graph\<close>. The theorem at the end follows a
  new workspace from \<open>init\<close> over the interview and the compilation to these commands.
\<close>

section \<open>skills list\<close>

definition old_skills :: "segments \<Rightarrow> segments" where
  "old_skills cwd = cwd @ [''.tastekit'', ''skills'']"

definition no_skills_json :: json where
  "no_skills_json = JObj [(''skills'', JArr [])]"

text \<open>\<open>v?.join(', ')\<close> succeeds; the text is only shown.\<close>

definition joinable :: "json option \<Rightarrow> string + unit" where
  "joinable v = (case v of None \<Rightarrow> Inr () | Some JNull \<Rightarrow> Inr () | Some (JArr xs) \<Rightarrow> Inr () | Some j \<Rightarrow> Inl ''join is not a function'')"

definition list_row :: "json \<Rightarrow> string + unit" where
  "list_row skill =
     sum_bind (dot ''name'' (Some skill)) (\<lambda>name.
     sum_bind (joinable (jfield ''tags'' skill)) (\<lambda>u. joinable (jfield ''compatible_runtimes'' skill)))"

text \<open>\<open>!manifest.skills || manifest.skills.length === 0\<close>.\<close>

definition no_skills :: "json option \<Rightarrow> bool" where
  "no_skills v \<longleftrightarrow> \<not> truthy v \<or> v = Some (JArr []) \<or> (\<exists>j. v = Some j \<and> jfield ''length'' j = Some (JNum 0))"

definition skills_list :: "export_env \<Rightarrow> segments \<Rightarrow> bool \<Rightarrow> disk \<Rightarrow> cli_result" where
  "skills_list env cwd json_mode d =
     (let manifestPath = manifest_file (old_skills cwd) in
      if \<not> existsSync d manifestPath then json_or_else json_mode no_skills_json (finish d)
      else (case sum_bind (read_text env manifestPath d) (xe_yaml env) of
              Inl e \<Rightarrow> exit_one d
            | Inr manifest \<Rightarrow>
                (case dot ''skills'' (Some manifest) of
                   Inl e \<Rightarrow> exit_one d
                 | Inr skills \<Rightarrow>
                     if no_skills skills then json_or_else json_mode no_skills_json (finish d)
                     else if json_mode then jsonOutput manifest d
                     else (case sum_bind (as_array ''manifest.skills'' ''map'' skills) (traverse list_row) of
                             Inl e \<Rightarrow> exit_one d | Inr rows \<Rightarrow> finish d))))"

section \<open>skills lint\<close>

fun lint_severity_name :: "severity \<Rightarrow> string" where
  "lint_severity_name severity.Error = ''error''"
| "lint_severity_name severity.Warning = ''warning''"

definition lint_message_json :: "lint_message \<Rightarrow> json" where
  "lint_message_json m = JObj [(''skill_id'', JStr (lm_skill_id m)), (''message'', JStr (lm_message m)),
     (''severity'', JStr (lint_severity_name (lm_severity m)))]"

definition lint_json :: "lint_result \<Rightarrow> json" where
  "lint_json r = JObj [(''valid'', JBool (lr_valid r)), (''errors'', JArr (map lint_message_json (lr_errors r))),
     (''warnings'', JArr (map lint_message_json (lr_warnings r)))]"

definition skills_lint :: "segments \<Rightarrow> bool \<Rightarrow> disk \<Rightarrow> cli_result" where
  "skills_lint cwd json_mode d =
     (let r = lintSkills d (old_skills cwd) in
      json_or_else json_mode (lint_json r) (if lr_valid r then finish d else exit_one d))"

section \<open>skills pack\<close>

definition skills_pack :: "segments \<Rightarrow> string \<Rightarrow> segments \<Rightarrow> disk \<Rightarrow> cli_result" where
  "skills_pack cwd format out d =
     (if \<not> existsSync d (old_skills cwd) then exit_one d
      else (case packSkills (old_skills cwd) (cwd @ out) (if format = ''dir'' then Dir else Zip) d of
              Inl e \<Rightarrow> exit_one d | Inr (d', path) \<Rightarrow> finish d'))"

section \<open>skills graph\<close>

fun relationship_name :: "relationship \<Rightarrow> string" where
  "relationship_name Feeds_into = ''feeds_into''"
| "relationship_name Prerequisites = ''prerequisites''"
| "relationship_name Alternatives = ''alternatives''"

definition missing_json :: "missing_ref \<Rightarrow> json" where
  "missing_json m = JObj [(''skill_id'', JStr (mr_skill_id m)), (''missing_ref'', JStr (mr_missing_ref m)),
     (''relationship'', JStr (relationship_name (mr_relationship m)))]"

definition analysis_json :: "analysis \<Rightarrow> json" where
  "analysis_json a = JObj [(''node_count'', JNum (of_nat (node_count a))), (''edge_count'', JNum (of_nat (edge_count a))),
     (''density'', JNum (density a)), (''orphans'', strs_json (orphans a)), (''hubs'', strs_json (hubs a)),
     (''pipelines'', JArr (map strs_json (pipelines a))), (''cycles'', JArr (map strs_json (cycles a))),
     (''missing_refs'', JArr (map missing_json (missing_refs a)))]"

definition empty_graph_json :: json where
  "empty_graph_json = JObj [(''graph'', JObj [(''node_count'', JNum 0)])]"

definition no_manifest_json :: json where
  "no_manifest_json = JObj [(''error'', JStr ''No skills manifest found'')]"

text \<open>\<open>parse_manifest\<close> gives the skills of a manifest, None where it raises; a manifest without skills is the empty list.\<close>

definition skills_graph :: "(string \<Rightarrow> skill list option) \<Rightarrow> segments \<Rightarrow> bool \<Rightarrow> disk \<Rightarrow> cli_result" where
  "skills_graph parse_manifest cwd json_mode d =
     (let manifestPath = manifest_file (resolveSkillsPath d (cwd @ [''.tastekit''])) in
      if \<not> existsSync d manifestPath then json_or_else json_mode no_manifest_json (finish d)
      else (case Option.bind (read_file d manifestPath) parse_manifest of
              None \<Rightarrow> exit_one d
            | Some skills \<Rightarrow>
                if skills = [] then json_or_else json_mode empty_graph_json (finish d)
                else (case analyzeSkillGraph skills of
                        None \<Rightarrow> exit_one d
                      | Some a \<Rightarrow> json_or_else json_mode (analysis_json a) (finish d))))"

section \<open>What a compilation leaves alone\<close>

text \<open>In a workspace whose skills and playbooks are below \<open>knowledge\<close>, a compilation adds nothing outside
  three directories.\<close>

definition own_place :: "segments \<Rightarrow> segments \<Rightarrow> bool" where
  "own_place ws q \<longleftrightarrow> (\<exists>x \<in> {''self'', ''knowledge'', ''ops''}. prefix (ws @ [x]) q \<or> prefix q (ws @ [x]))"

definition spares :: "segments \<Rightarrow> disk \<Rightarrow> disk \<Rightarrow> bool" where
  "spares ws d d' \<longleftrightarrow> (\<forall>q. existsSync d' q \<longrightarrow> existsSync d q \<or> own_place ws q)"

lemma spares_refl [simp]: "spares ws d d"
  by (simp add: spares_def)

lemma spares_trans: "spares ws a b \<Longrightarrow> spares ws b c \<Longrightarrow> spares ws a c"
  by (auto simp: spares_def)

lemma spares_foldl: "(\<And>d x. spares ws d (f d x)) \<Longrightarrow> spares ws d (foldl f d xs)"
  by (induction xs arbitrary: d) (auto intro: spares_trans)

lemma own_place_below: "x \<in> {''self'', ''knowledge'', ''ops''} \<Longrightarrow> prefix q (ws @ x # r) \<Longrightarrow> own_place ws q"
  using prefix_same_cases [of q "(ws @ [x]) @ r" "ws @ [x]"] by (auto simp: own_place_def)

lemma exists_ensured: "existsSync (ensureDir p d) q \<Longrightarrow> existsSync d q \<or> prefix q p"
  using is_dir_ensured [of p d q] by (auto simp: existsSync_def ensureDir_def split: if_splits)

lemma prefix_butlast: "prefix q (butlast p) \<Longrightarrow> prefix q p"
  by (metis append_butlast_last_id butlast.simps(1) prefixI prefix_order.trans)

lemma spares_write: "x \<in> {''self'', ''knowledge'', ''ops''} \<Longrightarrow> p = ws @ x # r \<Longrightarrow> spares ws d (writeFileSafe p c d)"
  using own_place_below [of x _ ws r] exists_ensured [of "butlast p" d] prefix_butlast [of _ p]
  by (auto simp: spares_def writeFileSafe_def existsSync_def)

lemma is_dir_remove [simp]: "is_dir (remove_file p d) q = is_dir d q"
  by (simp add: is_dir_def remove_file_def)

lemma spares_atomic: "spares ws d (atomicWrite (selfPath ws [f]) c d)"
proof -
  have "own_place ws q" if "prefix q (selfPath ws [f])" for q
    using own_place_below [of "''self''" q ws "[f]"] that by (simp add: selfPath_def)
  then show ?thesis
    using exists_ensured [of "butlast (selfPath ws [f])" d] prefix_butlast [of _ "selfPath ws [f]"]
    by (auto simp: spares_def atomicWrite_def atomic_states_def Let_def existsSync_def)
qed

definition in_knowledge :: "segments \<Rightarrow> disk \<Rightarrow> bool" where
  "in_knowledge ws d \<longleftrightarrow> resolvers ws d = (knowledgePath ws [''skills''], knowledgePath ws [''playbooks''])"

lemma spares_derivation: "spares ws d (writeDerivationState fm ws dv d)"
  unfolding writeDerivationState_def by (rule spares_write [of "''ops''" _ _ "[''derivation.v1.yaml'']"]) (simp_all add: getDerivationPath_def)

lemma spares_knowledge: "spares ws d (writeFileSafe (knowledgePath ws [k] @ r) c d)"
  by (rule spares_write [of "''knowledge''" _ _ "k # r"]) (simp_all add: knowledgePath_def)

lemma spares_skills: "spares ws d (foldl (write_skill (knowledgePath ws [''skills''])) d xs)"
  by (rule spares_foldl) (simp add: write_skill_def skill_md_def spares_knowledge)

lemma spares_step:
  assumes "in_knowledge ws d" "runStep fm no_fault now s ws session version d = (r, d')"
  shows "spares ws d d'"
  using assms unfolding runStep_def no_fault_def compileSkills_def compilePlaybooks_eq [OF refl] Let_def manifest_file_def in_knowledge_def resolvers_def
  by (auto simp: constitution_path_def split: if_splits sum.splits
      intro!: spares_atomic spares_knowledge spares_foldl spares_trans [OF spares_skills spares_knowledge])

lemma spares_loop:
  "compile_loop fm no_fault now ws session version xs (dv, d) = (e, dv', d') \<Longrightarrow> in_knowledge ws d \<Longrightarrow> spares ws d d'"
proof (induction xs arbitrary: dv d)
  case (Cons s xs)
  obtain r d1 where run: "runStep fm no_fault now s ws session version d = (r, d1)" by (rule prod.exhaust)
  note spared = spares_step [OF Cons.prems(2) run]
  have kept: "in_knowledge ws (writeDerivationState fm ws dv1 d1)" for dv1
    using Cons.prems(2) step_resolvers [OF run] by (simp add: in_knowledge_def resolvers_derivation)
  show ?case
  proof (cases "s \<in> set (dv_completed_steps dv)")
    case True
    then show ?thesis using Cons by simp
  next
    case False
    then show ?thesis
      using Cons.prems(1) run spared Cons.IH [OF _ kept]
      by (cases r) (auto simp: Let_def intro: spares_trans [OF spares_trans [OF spared spares_derivation]])
  qed
qed simp

lemma spares_compile:
  assumes "compile fm no_fault now ws st version False d = (r, d')" "in_knowledge ws d"
  shows "spares ws d d'"
proof -
  let ?d = "writeDerivationState fm ws (buildDerivationState st version now) d"
  have "in_knowledge ws ?d" using assms(2) by (simp add: in_knowledge_def resolvers_derivation)
  then have "spares ws ?d d'"
    using assms(1) by (auto simp: compile_def Let_def split: prod.splits option.splits dest: spares_loop)
  then show ?thesis by (rule spares_trans [OF spares_derivation])
qed

section \<open>A new workspace\<close>

lemma run_mkdirs: "run_steps (map mkdir_step ps @ ss) d = run_steps ss (foldl (\<lambda>d p. make_dirs p d) d ps)"
  by (induction ps arbitrary: d) (simp_all add: mkdir_step_def)

lemma folded_dirs:
  "is_dir (foldl (\<lambda>d p. make_dirs p d) d ps) q \<longleftrightarrow> is_dir d q \<or> (\<exists>p \<in> set ps. prefix q p)"
  "read_file (foldl (\<lambda>d p. make_dirs p d) d ps) q = read_file d q"
  by (induction ps arbitrary: d) (auto simp: is_dir_make_dirs)

text \<open>Nothing is there at or below a path.\<close>

definition untouched :: "disk \<Rightarrow> segments \<Rightarrow> bool" where
  "untouched d ws \<longleftrightarrow> (\<forall>q. prefix ws q \<longrightarrow> \<not> existsSync d q)"

lemma init_succeeds:
  assumes "untouched d ws" "ws = cwd @ path @ [''.tastekit'']" "r = initCommand env cwd path domain depth ans d"
  shows "cx_code r = 0" "read_file (cx_disk r) (config_path ws) = Some (oe_config_print env (init_config env domain depth ans))"
    "\<And>q. existsSync (cx_disk r) q \<longleftrightarrow> existsSync d q \<or> q = config_path ws \<or> (\<exists>p \<in> set (init_dirs ws). prefix q p)"
    "\<And>q. is_dir (cx_disk r) q \<longleftrightarrow> is_dir d q \<or> (\<exists>p \<in> set (init_dirs ws). prefix q p)"
proof -
  let ?d = "foldl (\<lambda>d p. make_dirs p d) d (init_dirs ws)"
  have free: "\<not> existsSync d ws" "\<not> existsSync d (config_path ws)" using assms(1) by (auto simp: untouched_def config_path_def)
  have "\<not> (\<exists>p \<in> set (init_dirs ws). prefix (config_path ws) p)" by (auto simp: init_dirs_def config_path_def)
  moreover have "is_dir ?d ws" by (auto simp: init_dirs_def is_dir_make_dirs)
  ultimately have "write_step (oe_oserr env) (config_path ws) t ?d = (None, put_file (config_path ws) t ?d)" for t
    using free by (simp add: write_step_def folded_dirs existsSync_def) (simp add: config_path_def)
  then have r: "r = finish (put_file (config_path ws) (oe_config_print env (init_config env domain depth ans)) ?d)"
    using free assms by (simp add: initCommand_def run_mkdirs stepped_def Let_def)
  show "cx_code r = 0" "read_file (cx_disk r) (config_path ws) = Some (oe_config_print env (init_config env domain depth ans))"
    "\<And>q. is_dir (cx_disk r) q \<longleftrightarrow> is_dir d q \<or> (\<exists>p \<in> set (init_dirs ws). prefix q p)"
    by (simp_all add: r finish_def folded_dirs)
  show "existsSync (cx_disk r) q \<longleftrightarrow> existsSync d q \<or> q = config_path ws \<or> (\<exists>p \<in> set (init_dirs ws). prefix q p)" for q
    by (auto simp: r finish_def folded_dirs existsSync_def)
qed

lemma init_session_path:
  assumes "untouched d ws" "ws = cwd @ path @ [''.tastekit'']" "d1 = cx_disk (initCommand env cwd path domain depth ans d)"
  shows "resolveSessionPath d1 ws = ws @ [''ops'', ''session.json'']" "\<not> is_dir d1 (ws @ [''ops'', ''session.json''])"
proof -
  have "\<not> existsSync d1 (ws @ q)" if "q \<in> {[''ops'', ''session.json''], [''session.json'']}" for q
    using assms(1) that by (auto simp: assms(3) init_succeeds(3) [OF assms(1,2) refl] untouched_def config_path_def init_dirs_def)
  from this [of "[''ops'', ''session.json'']"] this [of "[''session.json'']"]
  show "resolveSessionPath d1 ws = ws @ [''ops'', ''session.json'']" "\<not> is_dir d1 (ws @ [''ops'', ''session.json''])"
    by (simp_all add: resolveSessionPath_def opsPath_def Let_def existsSync_def)
qed

text \<open>The disk after \<open>init\<close> and \<open>onboard\<close>.\<close>

lemma onboarded_disk:
  assumes "untouched d ws" "ws = cwd @ [''.tastekit'']" "d1 = cx_disk (initCommand env cwd [] domain depth ans d)"
    and "d2 = put_file (ws @ [''ops'', ''session.json'']) t (make_dirs (ws @ [''ops'']) d1)"
  shows "resolveSessionPath d2 ws = ws @ [''ops'', ''session.json'']" "existsSync d2 ws" "\<not> canResume fm ws d2" "in_knowledge ws d2"
    "\<And>q. prefix (ws @ [''skills'']) q \<or> prefix (ws @ [''artifacts'']) q \<Longrightarrow> \<not> existsSync d2 q"
proof -
  have w: "ws = cwd @ [] @ [''.tastekit'']" using assms(2) by simp
  have ex: "existsSync d2 q \<longleftrightarrow> existsSync d q \<or> q = config_path ws \<or> (\<exists>p \<in> set (init_dirs ws). prefix q p)
      \<or> q = ws @ [''ops'', ''session.json''] \<or> prefix q (ws @ [''ops''])" for q
    using init_succeeds(3,4) [OF assms(1) w refl, of env domain depth ans q]
    by (auto simp: assms(3,4) existsSync_def is_dir_make_dirs)
  show "resolveSessionPath d2 ws = ws @ [''ops'', ''session.json'']" "existsSync d2 ws"
    by (simp_all add: resolveSessionPath_def opsPath_def Let_def ex init_dirs_def)
  show "in_knowledge ws d2"
    by (simp add: in_knowledge_def resolvers_def resolveSkillsPath_def resolvePlaybooksPath_def knowledgePath_def Let_def ex init_dirs_def)
  have "\<not> existsSync d2 (getDerivationPath ws)"
    using assms(1) by (simp add: ex getDerivationPath_def untouched_def config_path_def init_dirs_def)
  then show "\<not> canResume fm ws d2"
    by (simp add: canResume_def readDerivationState_def readFileIfExists_def existsSync_def)
  show "\<not> existsSync d2 q" if "prefix (ws @ [''skills'']) q \<or> prefix (ws @ [''artifacts'']) q" for q
    using assms(1) that by (auto simp: ex untouched_def config_path_def init_dirs_def prefix_def append_eq_append_conv2 Cons_eq_append_conv)
qed

lemma node_count_analysis: "analyzeSkillGraph skills = Some a \<Longrightarrow> node_count a = length skills"
  by (auto simp: analyzeSkillGraph_def Let_def split: option.splits)

lemma not_own: "prefix (ws @ [x]) q \<Longrightarrow> x \<notin> {''self'', ''knowledge'', ''ops''} \<Longrightarrow> \<not> own_place ws q"
  by (auto simp: own_place_def prefix_def append_eq_append_conv2 Cons_eq_append_conv)

text \<open>The commands that look only where the flat layout keeps its files.\<close>

lemma old_places_empty:
  assumes "\<And>q. prefix (cwd @ [''.tastekit'', ''skills'']) q \<or> prefix (cwd @ [''.tastekit'', ''artifacts'']) q \<Longrightarrow> \<not> existsSync d q"
  shows "skills_list xe cwd True d = jsonOutput no_skills_json d" "cx_code (skills_lint cwd lj d) = (if lj then 0 else 1)"
    "cx_code (skills_pack cwd format out d) = 1" "cx_code (eval_replay xe jparse shown cwd tr jm d) = 1"
proof -
  have "\<not> existsSync d (old_skills cwd)" "\<not> existsSync d (manifest_file (old_skills cwd))" "\<not> existsSync d (old_constitution cwd)"
    using assms by (simp_all add: old_skills_def manifest_file_def old_constitution_def)
  then show "skills_list xe cwd True d = jsonOutput no_skills_json d" "cx_code (skills_lint cwd lj d) = (if lj then 0 else 1)"
    "cx_code (skills_pack cwd format out d) = 1" "cx_code (eval_replay xe jparse shown cwd tr jm d) = 1"
    by (simp_all add: skills_list_def skills_lint_def skills_pack_def eval_replay_def json_or_else_def finish_def Let_def
        lintSkills_def lr_valid_def) (simp add: jsonOutput_def)
qed

text \<open>
  C39. From nothing to a compiled workspace, and what the commands then see. Let \<open>.tastekit\<close> not exist.
  \<open>init\<close> creates it; if a domain is chosen there and the provider can be resolved, \<open>onboard\<close> holds an interview in which
  the model replied at least once and that ends with answers or is saved, the configuration and the manifest
  of skills are read back as they were written, and the session can be read by the compiler, then all three
  commands exit with 0, also when the interview was only saved and is not complete. Afterwards the
  constitution of that session lies in \<open>self\<close>, and \<open>skills graph --json\<close> analyses the whole compiled
  library, without cycles and missing references. But \<open>skills list\<close>, \<open>skills lint\<close>, \<open>skills pack\<close> and
  \<open>eval replay\<close> look where the flat layout keeps its files: \<open>skills list --json\<close> reports that there are no
  skills; \<open>skills pack\<close> and \<open>eval replay\<close>, with and without \<open>--json\<close>, end with exit code 1, and so does
  \<open>skills lint\<close> without \<open>--json\<close>, which with \<open>--json\<close> ends with 0.
\<close>

theorem new_workspace_commands:
  assumes fresh: "untouched d ws" "ws = cwd @ [''.tastekit'']"
    and init: "r1 = initCommand env cwd [] domain depth ans d" "config = init_config env domain depth ans"
      "oe_config_parse env (oe_config_print env config) = Some config" "wc_domain_id config = Some k" "k \<noteq> []"
    and interview: "onboard_client env config None = Inr client" "dep = onboard_depth config None"
      "onboard_interview env client k dep None inps = (en, res)" "en_saved en \<noteq> []" "ended_well res"
      "r2 = onboardCommand env cwd None False None inps (cx_disk r1)"
    and session: "parse_session (oe_session_print env (session_left env (attributed k client (createSession env dep)) en res)) = Some st"
      "formats_ok fm st ''0.5.0''" "c = compileConstitution (st_session st) ''0.5.0'' now"
      "r3 = compileCommand fm no_fault now parse_session cwd False jm (cx_disk r2)" "d3 = cx_disk r3"
    and library: "lib = map fst (library_skills (st_session st) c)" "parse_manifest (fm_skills fm lib) = Some lib"
  shows "cx_code r1 = 0 \<and> cx_code r2 = 0 \<and> cx_code r3 = 0
     \<and> read_file d3 (constitution_path ws) = Some (fm_constitution fm c)
     \<and> (\<exists>a. skills_graph parse_manifest cwd True d3 = jsonOutput (analysis_json a) d3
           \<and> node_count a = length lib \<and> lib \<noteq> [] \<and> cycles a = [] \<and> missing_refs a = [])
     \<and> skills_list xe cwd True d3 = jsonOutput no_skills_json d3 \<and> cx_code (skills_lint cwd lj d3) = (if lj then 0 else 1)
     \<and> cx_code (skills_pack cwd format out d3) = 1 \<and> cx_code (eval_replay xe jparse shown cwd tr jm' d3) = 1"
proof -
  let ?p = "ws @ [''ops'', ''session.json'']" and ?s = "session_left env (attributed k client (createSession env dep)) en res"
  define d1 d2 where "d1 = cx_disk r1" and "d2 = cx_disk r2"
  have w: "ws = cwd @ [] @ [''.tastekit'']" by (simp add: fresh(2))
  note started = init_succeeds [OF fresh(1) w init(1)] and place = init_session_path [OF fresh(1) w d1_def [unfolded init(1)]]
  have ready: "workspace_ready env cwd None d1 config k client"
    using started place init(2-5) interview(1) fresh(2) by (simp add: workspace_ready_def Let_def d1_def init_dirs_def)
  have "cx_code r2 = 0 \<and> d2 = put_file ?p (oe_session_print env ?s) (make_dirs (ws @ [''ops'']) d1)"
    using onboard_leaves [OF ready place(1) [symmetric, unfolded fresh(2)] refl _ interview(3) [unfolded interview(2)] interview(4,6) [folded d1_def]]
      interview(2,5) by (simp add: start_session_def d2_def fresh(2) butlast_append)
  then have r2: "cx_code r2 = 0" and d2: "d2 = put_file ?p (oe_session_print env ?s) (make_dirs (ws @ [''ops'']) d1)" by simp_all
  note onboarded = onboarded_disk [OF fresh d1_def [unfolded init(1)] d2]
  have stored: "read_file d2 (resolveSessionPath d2 ws) = Some (oe_session_print env ?s)"
    unfolding onboarded(1) by (simp add: d2)
  note compiled = compile_command_runs [OF onboarded(2) [unfolded fresh(2)] stored [unfolded fresh(2)] session(1,2)
      onboarded(3) [unfolded fresh(2)] session(4) [folded d2_def]]
  then obtain result where run: "compile fm no_fault now ws st ''0.5.0'' False d2 = (result, d3)"
    by (auto simp: fresh(2) session(5))
  have same: "resolvers ws d3 = resolvers ws d2" by (rule compiled_resolvers [OF run])
  have "\<not> existsSync d3 q" if "prefix (ws @ [''skills'']) q \<or> prefix (ws @ [''artifacts'']) q" for q
    using spares_compile [OF run onboarded(4)] onboarded(5) [OF that] that not_own [of ws _ q] unfolding spares_def by fastforce
  then have "\<not> existsSync d3 q" if "prefix (cwd @ [''.tastekit'', ''skills'']) q \<or> prefix (cwd @ [''.tastekit'', ''artifacts'']) q" for q
    using that by (simp add: fresh(2))
  note old = old_places_empty [OF this]
  have manifest: "read_file d3 (manifest_file (resolveSkillsPath d3 ws)) = Some (fm_skills fm lib)"
    using compiled_workspace [OF session(2) run refl session(3)] same library(1) by (simp add: resolvers_def)
  have "lib \<noteq> []" using library_facts(1) by (simp add: library(1))
  moreover obtain a where "analyzeSkillGraph lib = Some a" "cycles a = []" "missing_refs a = []"
    using library_facts(3) [of "st_session st" c] by (auto simp: library(1))
  ultimately have "skills_graph parse_manifest cwd True d3 = jsonOutput (analysis_json a) d3
      \<and> node_count a = length lib \<and> lib \<noteq> [] \<and> cycles a = [] \<and> missing_refs a = []"
    using manifest library(2) by (simp add: skills_graph_def fresh(2) existsSync_def json_or_else_def finish_def node_count_analysis)
  then show ?thesis using started(1) r2 compiled old by (auto simp: fresh(2) session(3,5))
qed

text \<open>An environment with a key in it, and a user who saves at once.\<close>

definition sample_new :: onboard_env where
  "sample_new = (sample_onboard undefined)\<lparr>oe_vars := (\<lambda>v. if v = ''ANTHROPIC_API_KEY'' then Some ''key'' else None)\<rparr>"

definition sample_init_answers :: init_answers where
  "sample_init_answers = \<lparr>ia_domain = ''x'', ia_depth = Quick, ia_use_detected = True, ia_provider = ''anthropic'', ia_model = None\<rparr>"

lemma sample_init_config: "init_config sample_new (Some ''x'') (Some Quick) sample_init_answers = sample_ws_config"
  by (simp add: init_config_def sample_new_def sample_init_answers_def sample_onboard_def sample_ws_config_def choose_provider_def
      trimmed_var_def autoDetectProvider_def value_or_def plain_config_def trim_def trim_start_def trim_end_def)

lemma sample_new_client: "onboard_client sample_new sample_ws_config None = Inr sample_client"
  by (simp add: onboard_client_def resolveOnboardProviderConfig_def value_or_def sample_ws_config_def sample_new_def
      resolveProvider_def plain_config_def api_key_def sample_client_def)

theorem new_workspace_commands_witness:
  "cx_code (skills_pack [] ''dir'' [''out''] (cx_disk (compileCommand (formats_at ''0.5.0'' sample_stored) no_fault ''now'' (\<lambda>t. Some sample_stored) [] False False
      (cx_disk (onboardCommand sample_new [] None False None [''/save'']
        (cx_disk (initCommand sample_new [] [] (Some ''x'') (Some Quick) sample_init_answers empty_disk))))))) = 1"
proof -
  have free: "untouched empty_disk [''.tastekit'']"
    by (auto simp: untouched_def empty_disk_def existsSync_def read_file_def is_dir_def)
  have answers: "one_system ms \<Longrightarrow> provider_llm (oe_net sample_new) sample_client ms \<noteq> None" for ms
    by (simp add: sample_new_def sample_onboard_def echo_answers)
  obtain en a where held: "onboard_interview sample_new sample_client ''x'' (onboard_depth sample_ws_config None) None [''/save''] = (en, Saved a)"
    "a \<noteq> JNull" "en_saved en \<noteq> []"
    using save_at_once [OF answers, of None "''x''" "onboard_depth sample_ws_config None"] by auto
  have config: "oe_config_parse sample_new (oe_config_print sample_new sample_ws_config) = Some sample_ws_config"
    "wc_domain_id sample_ws_config = Some ''x''" "''x'' \<noteq> []"
    by (simp_all add: sample_new_def sample_onboard_def sample_ws_config_def)
  have ended: "ended_well (Saved a)" using held(2) by (simp add: ended_well_def)
  have ws: "[''.tastekit''] = [] @ [''.tastekit'']" by simp
  let ?lib = "map fst (library_skills (st_session sample_stored) (compileConstitution (st_session sample_stored) ''0.5.0'' ''now''))"
  show ?thesis
    using new_workspace_commands [where now = "''now''" and st = sample_stored and parse_session = "\<lambda>t. Some sample_stored"
        and parse_manifest = "\<lambda>t. Some ?lib", OF free ws refl sample_init_config [symmetric] config sample_new_client refl
        held(1,3) ended refl refl formats_at_ok refl refl refl refl refl] by simp
qed

end
