(* ===== verification/Voice.thy ===== *)
theory Voice
  imports Providers "HOL-Library.Word"
begin

text \<open>
  TasteKit, packages/voice: speech in and out for the onboarding interview. Devices, the socket of the
  speech service and the two local programs are parameters: the messages a socket delivers, the output
  of a program on a file. The wave file is a list of bytes. The theorems say which words the
  interviewer hears, and that the header written for one program is the one stripped for the other.
\<close>

section \<open>Configuration\<close>

record stt_config =
  st_provider :: string
  st_api_key_env :: string
  st_language :: string
  st_vad_silence_threshold_ms :: rat
  st_whisper_model :: string
  st_whisper_binary_path :: "string option"

record tts_config =
  tt_provider :: string
  tt_api_key_env :: string
  tt_voice_id :: string
  tt_model_id :: string
  tt_piper_binary_path :: "string option"
  tt_piper_model :: "string option"

text \<open>A field with a default, an optional field, and an enumeration; \<open>None\<close> where the schema refuses.\<close>

definition str_default :: "string \<Rightarrow> string \<Rightarrow> json \<Rightarrow> string option" where
  "str_default d k j = (case jfield k j of None \<Rightarrow> Some d | Some v \<Rightarrow> as_str v)"

definition str_optional :: "string \<Rightarrow> json \<Rightarrow> string option option" where
  "str_optional k j = (case jfield k j of None \<Rightarrow> Some None | Some v \<Rightarrow> map_option Some (as_str v))"

definition enum_default :: "string list \<Rightarrow> string \<Rightarrow> string \<Rightarrow> json \<Rightarrow> string option" where
  "enum_default xs d k j = (case str_default d k j of None \<Rightarrow> None | Some s \<Rightarrow> if s \<in> set xs then Some s else None)"

definition object_default :: "string \<Rightarrow> json \<Rightarrow> json option" where
  "object_default k j = (case jfield k j of None \<Rightarrow> Some (JObj []) | Some (JObj kvs) \<Rightarrow> Some (JObj kvs) | _ \<Rightarrow> None)"

definition parse_stt :: "json \<Rightarrow> stt_config option" where
  "parse_stt j =
     Option.bind (enum_default [''elevenlabs'', ''whisper''] ''elevenlabs'' ''provider'' j) (\<lambda>p.
     Option.bind (str_default ''ELEVENLABS_API_KEY'' ''api_key_env'' j) (\<lambda>k.
     Option.bind (str_default ''en'' ''language'' j) (\<lambda>l.
     Option.bind (case jfield ''vad_silence_threshold_ms'' j of None \<Rightarrow> Some 1500 | Some v \<Rightarrow> as_num v) (\<lambda>ms.
     Option.bind (str_default ''base.en'' ''whisper_model'' j) (\<lambda>m.
     Option.bind (str_optional ''whisper_binary_path'' j) (\<lambda>b.
     Some \<lparr>st_provider = p, st_api_key_env = k, st_language = l, st_vad_silence_threshold_ms = ms,
       st_whisper_model = m, st_whisper_binary_path = b\<rparr>))))))"

definition parse_tts :: "json \<Rightarrow> tts_config option" where
  "parse_tts j =
     Option.bind (enum_default [''elevenlabs'', ''piper''] ''elevenlabs'' ''provider'' j) (\<lambda>p.
     Option.bind (str_default ''ELEVENLABS_API_KEY'' ''api_key_env'' j) (\<lambda>k.
     Option.bind (str_default ''21m00Tcm4TlvDq8ikWAM'' ''voice_id'' j) (\<lambda>v.
     Option.bind (str_default ''eleven_multilingual_v2'' ''model_id'' j) (\<lambda>m.
     Option.bind (str_optional ''piper_binary_path'' j) (\<lambda>b.
     Option.bind (str_optional ''piper_model'' j) (\<lambda>pm.
     Some \<lparr>tt_provider = p, tt_api_key_env = k, tt_voice_id = v, tt_model_id = m,
       tt_piper_binary_path = b, tt_piper_model = pm\<rparr>))))))"

definition VoiceConfigSchema :: "json \<Rightarrow> (stt_config \<times> tts_config) option" where
  "VoiceConfigSchema j =
     (case j of
        JObj _ \<Rightarrow>
          Option.bind (object_default ''stt'' j) (\<lambda>s. Option.bind (parse_stt s) (\<lambda>stt.
          Option.bind (object_default ''tts'' j) (\<lambda>t. Option.bind (parse_tts t) (\<lambda>tts. Some (stt, tts)))))
      | _ \<Rightarrow> None)"

section \<open>Choice of the providers\<close>

datatype stt_client =
    ElevenLabsSTT (es_apiKey: string) (es_language: string) (es_vadSilenceThreshold: rat)
  | WhisperSTT (ws_binaryPath: string) (ws_model: string) (ws_language: string)

datatype tts_client =
    ElevenLabsTTS (et_apiKey: string) (et_voiceId: string) (et_modelId: string)
  | PiperTTS (pt_binaryPath: string) (pt_model: "string option")

definition env_key :: "(string \<Rightarrow> string option) \<Rightarrow> string \<Rightarrow> string \<Rightarrow> string + string" where
  "env_key env name what =
     (case env name of
        Some k \<Rightarrow> if k \<noteq> [] then Inr k
          else Inl (''Missing environment variable: '' @ name @ [nl] @ ''Set your ElevenLabs API key to enable voice '' @ what @ ''.'')
      | None \<Rightarrow> Inl (''Missing environment variable: '' @ name @ [nl] @ ''Set your ElevenLabs API key to enable voice '' @ what @ ''.''))"

definition resolveSTT :: "(string \<Rightarrow> string option) \<Rightarrow> stt_config \<Rightarrow> string + stt_client" where
  "resolveSTT env c =
     (if st_provider c = ''elevenlabs'' then
        (case env_key env (st_api_key_env c) ''STT'' of
           Inl e \<Rightarrow> Inl e
         | Inr k \<Rightarrow> Inr (ElevenLabsSTT k (st_language c) (st_vad_silence_threshold_ms c / 1000)))
      else if st_provider c = ''whisper'' then
        Inr (WhisperSTT (value_or ''whisper-cpp'' (st_whisper_binary_path c)) (st_whisper_model c) (st_language c))
      else Inl (''Unknown STT provider: '' @ st_provider c))"

definition resolveTTS :: "(string \<Rightarrow> string option) \<Rightarrow> tts_config \<Rightarrow> string + tts_client" where
  "resolveTTS env c =
     (if tt_provider c = ''elevenlabs'' then
        (case env_key env (tt_api_key_env c) ''TTS'' of
           Inl e \<Rightarrow> Inl e
         | Inr k \<Rightarrow> Inr (ElevenLabsTTS k (tt_voice_id c) (tt_model_id c)))
      else if tt_provider c = ''piper'' then
        Inr (PiperTTS (value_or ''piper'' (tt_piper_binary_path c)) (tt_piper_model c))
      else Inl (''Unknown TTS provider: '' @ tt_provider c))"

text \<open>\<open>rawConfig ?? {}\<close>; the text of a schema error is the parameter \<open>issue\<close>.\<close>

definition resolveVoiceProviders ::
  "string \<Rightarrow> (string \<Rightarrow> string option) \<Rightarrow> json option \<Rightarrow> string + (stt_client \<times> tts_client)" where
  "resolveVoiceProviders issue env rawConfig =
     (case VoiceConfigSchema (nullish_or (JObj []) rawConfig) of
        None \<Rightarrow> Inl issue
      | Some (s, t) \<Rightarrow>
          (case resolveSTT env s of Inl e \<Rightarrow> Inl e
           | Inr stt \<Rightarrow> (case resolveTTS env t of Inl e \<Rightarrow> Inl e | Inr tts \<Rightarrow> Inr (stt, tts))))"

section \<open>Wave files\<close>

type_synonym byte = "8 word"

fun le_bytes :: "nat \<Rightarrow> nat \<Rightarrow> byte list" where
  "le_bytes 0 v = []"
| "le_bytes (Suc n) v = of_nat (v mod 256) # le_bytes n (v div 256)"

definition ascii :: "string \<Rightarrow> byte list" where
  "ascii s = map (\<lambda>c. of_nat (of_char c)) s"

definition write_at :: "nat \<Rightarrow> byte list \<Rightarrow> byte list \<Rightarrow> byte list" where
  "write_at off bs buf = take off buf @ bs @ drop (off + length bs) buf"

definition wav_header :: "nat \<Rightarrow> nat \<Rightarrow> byte list" where
  "wav_header dataSize sampleRate =
     (let numChannels = 1; bitsPerSample = 16; byteRate = sampleRate * numChannels * (bitsPerSample div 8);
          blockAlign = numChannels * (bitsPerSample div 8); headerSize = 44
      in fold (\<lambda>(off, bs). write_at off bs)
          [(0, ascii ''RIFF''), (4, le_bytes 4 (dataSize + headerSize - 8)), (8, ascii ''WAVE''), (12, ascii ''fmt ''),
           (16, le_bytes 4 16), (20, le_bytes 2 1), (22, le_bytes 2 numChannels), (24, le_bytes 4 sampleRate),
           (28, le_bytes 4 byteRate), (32, le_bytes 2 blockAlign), (34, le_bytes 2 bitsPerSample),
           (36, ascii ''data''), (40, le_bytes 4 dataSize)]
          (replicate headerSize 0))"

text \<open>\<open>writeUInt32LE\<close> raises for a value of more than 32 bits.\<close>

definition writeWav :: "byte list \<Rightarrow> nat \<Rightarrow> string + byte list" where
  "writeWav pcm sampleRate =
     (if 2 ^ 32 \<le> length pcm + 44 - 8 then Inl ''ERR_OUT_OF_RANGE''
      else Inr (wav_header (length pcm) sampleRate @ pcm))"

section \<open>Whisper and Piper\<close>

datatype transcript_event = Partial string | Final string

definition whisper_args :: "string \<Rightarrow> string \<Rightarrow> string \<Rightarrow> string list" where
  "whisper_args model language wavPath = [''-m'', model, ''-l'', language, ''-f'', wavPath,
     ''--no-timestamps'', ''--print-progress'', ''false'']"

text \<open>The events of one utterance and the exception that ends them, if any. The program is run on the
  content of the file: \<open>Inl\<close> its error text, \<open>Inr\<close> its output.\<close>

definition whisper_transcribe ::
  "(byte list \<Rightarrow> string + string) \<Rightarrow> byte list list \<Rightarrow> transcript_event list \<times> string option" where
  "whisper_transcribe runWhisper chunks =
     (let rawPcm = concat chunks in
      if rawPcm = [] then ([], None)
      else (case writeWav rawPcm 16000 of
          Inl e \<Rightarrow> ([], Some e)
        | Inr wav \<Rightarrow>
            (case runWhisper wav of
               Inl e \<Rightarrow> ([], Some (''Whisper failed: '' @ e))
             | Inr t \<Rightarrow> (if trim t \<noteq> [] then [Final (trim t)] else [], None))))"

text \<open>The program runs only when the recording has ended.\<close>

definition whisper_session ::
  "(byte list \<Rightarrow> string + string) \<Rightarrow> byte list list \<Rightarrow> bool \<Rightarrow> transcript_event list \<times> (string option) option" where
  "whisper_session runWhisper chunks ended =
     (if ended then (case whisper_transcribe runWhisper chunks of (es, e) \<Rightarrow> (es, Some e)) else ([], None))"

definition piper_args :: "string option \<Rightarrow> string \<Rightarrow> string list" where
  "piper_args model outputPath = [''--output_file'', outputPath]
     @ (case model of Some m \<Rightarrow> if m \<noteq> [] then [''--model'', m] else [] | None \<Rightarrow> [])"

definition piper_synthesize :: "(string \<Rightarrow> string + byte list) \<Rightarrow> string \<Rightarrow> string + byte list list" where
  "piper_synthesize runPiper t =
     (case runPiper t of Inl e \<Rightarrow> Inl (''Piper failed: '' @ e) | Inr audioData \<Rightarrow> Inr [drop 44 audioData])"

section \<open>The speech service\<close>

definition stt_url :: "string \<Rightarrow> string \<Rightarrow> nat \<Rightarrow> string" where
  "stt_url baseUrl language sampleRate = baseUrl @ ''/v1/speech-to-text/realtime?model_id=scribe_v2_realtime&language_code=''
     @ language @ ''&audio_format=pcm_'' @ show_nat sampleRate"

record el_state =
  el_queue :: "transcript_event list"
  el_done :: bool
  el_error :: "string option"

datatype socket_event = On_message string | On_error string | On_close

text \<open>The transcripts of the service are strings; \<open>shown\<close> is the conversion of a value to text.\<close>

definition el_message :: "(json \<Rightarrow> string) \<Rightarrow> json \<Rightarrow> el_state \<Rightarrow> el_state" where
  "el_message shown msg s =
     (case (jfield ''message_type'' msg, jfield ''text'' msg) of
        (Some (JStr k), t) \<Rightarrow>
          if k = ''partial_transcript'' \<and> truthy t then
            s\<lparr>el_queue := el_queue s @ [Partial (case t of Some (JStr x) \<Rightarrow> x | _ \<Rightarrow> [])]\<rparr>
          else if k = ''committed_transcript'' \<and> truthy t then
            s\<lparr>el_queue := el_queue s @ [Final (case t of Some (JStr x) \<Rightarrow> x | _ \<Rightarrow> [])]\<rparr>
          else if k = ''error'' \<or> k = ''auth_error'' then
            s\<lparr>el_error := Some (''ElevenLabs STT error: ''
                @ shown (nullish_or (nullish_or (JStr ''unknown'') (jfield ''error'' msg)) (jfield ''message'' msg)))\<rparr>
          else s
      | _ \<Rightarrow> s)"

fun el_event :: "(json \<Rightarrow> string) \<Rightarrow> (string \<Rightarrow> json option) \<Rightarrow> socket_event \<Rightarrow> el_state \<Rightarrow> el_state" where
  "el_event shown parse (On_message raw) s = (case parse raw of None \<Rightarrow> s | Some m \<Rightarrow> el_message shown m s)"
| "el_event shown parse (On_error e) s = s\<lparr>el_error := Some e\<rparr>"
| "el_event shown parse On_close s = s\<lparr>el_done := True\<rparr>"

text \<open>One turn of the loop that yields the queued events.\<close>

datatype el_turn = Throw string | Yield transcript_event el_state | Wait | Finished

definition el_next :: "el_state \<Rightarrow> el_turn" where
  "el_next s =
     (if \<not> el_done s \<or> el_queue s \<noteq> [] then
        (case el_error s of
           Some e \<Rightarrow> Throw e
         | None \<Rightarrow> (case el_queue s of e # q \<Rightarrow> Yield e (s\<lparr>el_queue := q\<rparr>) | [] \<Rightarrow> Wait))
      else Finished)"

text \<open>How the events end: the generator returns, it raises, or it waits for the socket.\<close>

datatype el_end = Returned | Raised string | Waiting

lemma el_next_yield: "el_next s = Yield e s' \<Longrightarrow> el_queue s = e # el_queue s'"
  by (auto simp: el_next_def split: if_splits option.splits list.splits)

lemma el_event_queue: "length (el_queue (el_event shown parse ev s)) \<le> Suc (length (el_queue s))"
  by (cases ev) (auto simp: el_message_def split: option.split json.split)

function el_run :: "(json \<Rightarrow> string) \<Rightarrow> (string \<Rightarrow> json option) \<Rightarrow> el_state \<Rightarrow> socket_event list
    \<Rightarrow> transcript_event list \<times> el_end" where
  "el_run shown parse s evs =
     (case el_next s of
        Throw e \<Rightarrow> ([], Raised e)
      | Yield e s' \<Rightarrow> (case el_run shown parse s' evs of (es, r) \<Rightarrow> (e # es, r))
      | Finished \<Rightarrow> ([], Returned)
      | Wait \<Rightarrow> (case evs of [] \<Rightarrow> ([], Waiting) | ev # evs' \<Rightarrow> el_run shown parse (el_event shown parse ev s) evs'))"
  by pat_completeness auto
termination
proof (relation "measure (\<lambda>(_, _, s, evs). length (el_queue s) + 2 * length evs)", goal_cases)
  case 1
  then show ?case by simp
next
  case (2 shown parse s evs e s')
  then show ?case by (simp add: el_next_yield)
next
  case (3 shown parse s evs ev evs')
  then show ?case using el_event_queue [of shown parse ev s] by simp
qed

declare el_run.simps [simp del]

definition audio_message :: "(byte list \<Rightarrow> string) \<Rightarrow> nat \<Rightarrow> byte list \<Rightarrow> bool \<Rightarrow> bool \<Rightarrow> json" where
  "audio_message base64 sampleRate chunk commit isFirst = obj_of
     [(''message_type'', Some (JStr ''input_audio_chunk'')), (''audio_base_64'', Some (JStr (base64 chunk))),
      (''sample_rate'', Some (JNum (of_nat sampleRate))), (''commit'', Some (JBool commit)),
      (''previous_text'', if isFirst then Some (JStr []) else None)]"

text \<open>The messages sent for the recorded chunks; every chunk comes with the state of the socket then.\<close>

fun send_audio :: "(byte list \<Rightarrow> string) \<Rightarrow> nat \<Rightarrow> bool \<Rightarrow> (byte list \<times> bool) list \<Rightarrow> bool \<Rightarrow> json list" where
  "send_audio base64 rate isFirst [] openAtEnd = (if openAtEnd then [audio_message base64 rate [] True False] else [])"
| "send_audio base64 rate isFirst ((chunk, isOpen) # rest) openAtEnd =
     (if isOpen then audio_message base64 rate chunk False isFirst # send_audio base64 rate False rest openAtEnd
      else if openAtEnd then [audio_message base64 rate [] True False] else [])"

definition tts_request :: "string \<Rightarrow> string \<Rightarrow> string \<Rightarrow> string \<Rightarrow> string \<Rightarrow> llm_request" where
  "tts_request apiKey voiceId modelId baseUrl t =
     \<lparr>lr_method = ''POST'', lr_url = baseUrl @ ''/v1/text-to-speech/'' @ voiceId @ ''/stream?output_format=pcm_22050'',
      lr_headers = [(''Content-Type'', ''application/json''), (''xi-api-key'', apiKey)],
      lr_body = Some (JObj [(''text'', JStr t), (''model_id'', JStr modelId),
        (''voice_settings'', JObj [(''stability'', JNum (1 / 2)), (''similarity_boost'', JNum (3 / 4)),
          (''style'', JNum 0), (''use_speaker_boost'', JBool True)])])\<rparr>"

text \<open>\<open>body\<close> gives the chunks of the body of a reply, \<open>None\<close> for a reply without one.\<close>

definition elevenlabs_synthesize ::
  "net_env \<Rightarrow> (llm_reply \<Rightarrow> byte list list option) \<Rightarrow> string \<Rightarrow> string \<Rightarrow> string \<Rightarrow> string \<Rightarrow> string
    \<Rightarrow> string + byte list list" where
  "elevenlabs_synthesize net body apiKey voiceId modelId baseUrl t =
     (case nt_fetch net (tts_request apiKey voiceId modelId baseUrl t) of
        Inl e \<Rightarrow> Inl e
      | Inr r \<Rightarrow>
          if \<not> ly_ok r then Inl (''ElevenLabs TTS error ('' @ show_nat (ly_status r) @ ''): '' @ ly_text r)
          else (case body r of None \<Rightarrow> Inl ''ElevenLabs TTS returned no body'' | Some cs \<Rightarrow> Inr cs))"

section \<open>Devices\<close>

record mic_recorder =
  mr_sampleRate :: nat
  mr_recording :: bool
  mr_stream :: bool

record recorder_options =
  ro_sampleRate :: nat
  ro_channels :: nat
  ro_audioType :: string
  ro_recorder :: string

definition new_recorder :: "nat option \<Rightarrow> mic_recorder" where
  "new_recorder rate = \<lparr>mr_sampleRate = value_or 16000 rate, mr_recording = False, mr_stream = False\<rparr>"

definition mic_start :: "string \<Rightarrow> mic_recorder \<Rightarrow> recorder_options \<times> mic_recorder" where
  "mic_start platform m =
     (\<lparr>ro_sampleRate = mr_sampleRate m, ro_channels = 1, ro_audioType = ''raw'',
       ro_recorder = (if platform = ''darwin'' then ''sox'' else ''arecord'')\<rparr>,
      m\<lparr>mr_recording := True, mr_stream := True\<rparr>)"

definition mic_stop :: "mic_recorder \<Rightarrow> mic_recorder" where
  "mic_stop m = m\<lparr>mr_recording := False, mr_stream := False\<rparr>"

record speaker_options =
  so_sampleRate :: nat
  so_channels :: nat
  so_bitDepth :: nat

definition speaker_for :: "nat option \<Rightarrow> nat option \<Rightarrow> nat option \<Rightarrow> speaker_options" where
  "speaker_for rate channels depth =
     \<lparr>so_sampleRate = value_or 22050 rate, so_channels = value_or 1 channels, so_bitDepth = value_or 16 depth\<rparr>"

text \<open>The chunks written to the speaker, each with whether the speaker was writable then.\<close>

definition played :: "(byte list \<times> bool) list \<Rightarrow> byte list list" where
  "played chunks = map fst (takeWhile snd chunks)"

section \<open>Voice input and output\<close>

record voice_options =
  vo_showTranscription :: bool
  vo_printText :: bool

definition voice_options_of :: "bool option \<Rightarrow> bool option \<Rightarrow> voice_options" where
  "voice_options_of shown printed = \<lparr>vo_showTranscription = value_or True shown, vo_printText = value_or True printed\<rparr>"

text \<open>What the orchestrator does, in order: text on the two outputs, the devices, the callbacks.\<close>

datatype voice_action =
    Out string | Err string | Start_mic | Stop_mic | On_partial string | On_final string
  | Play "byte list list" nat | Stop_player | Dispose_stt | Dispose_tts

definition mic_sign :: string where "mic_sign = [CHR 0xF0, CHR 0x9F, CHR 0x8E, CHR 0xA4]"
definition memo_sign :: string where "memo_sign = [CHR 0xF0, CHR 0x9F, CHR 0x93, CHR 0x9D]"
definition check_sign :: string where "check_sign = [CHR 0xE2, CHR 0x9C, CHR 0x85]"
definition sound_sign :: string where "sound_sign = [CHR 0xF0, CHR 0x9F, CHR 0x94, CHR 0x8A]"
definition warn_sign :: string where "warn_sign = [CHR 0xE2, CHR 0x9A, CHR 0xA0]"

definition overwrite_line :: "string \<Rightarrow> string \<Rightarrow> string" where
  "overwrite_line sign t = CHR 0x0D # ''  '' @ sign @ '' '' @ t @ replicate 20 CHR '' ''"

text \<open>The loop over the events of the provider, up to the first final one. The generator ends as \<open>r\<close>
  says; while it waits, the call has no result.\<close>

fun hear :: "voice_options \<Rightarrow> transcript_event list \<Rightarrow> el_end \<Rightarrow> voice_action list \<times> (string + string) option" where
  "hear opts [] r = ([], (case r of Returned \<Rightarrow> Some (Inr []) | Raised e \<Rightarrow> Some (Inl e) | Waiting \<Rightarrow> None))"
| "hear opts (Partial t # es) r =
     (case hear opts es r of (acts, x) \<Rightarrow>
        ((if vo_showTranscription opts then [Out (overwrite_line memo_sign t)] else []) @ [On_partial t] @ acts, x))"
| "hear opts (Final t # es) r =
     ([Stop_mic] @ (if vo_showTranscription opts then [Out (overwrite_line check_sign t @ [nl])] else [])
       @ [On_final t], Some (Inr t))"

definition getUserInput ::
  "voice_options \<Rightarrow> transcript_event list \<Rightarrow> el_end \<Rightarrow> voice_action list \<times> (string + string) option" where
  "getUserInput opts es r =
     (let begins = (if vo_showTranscription opts
            then [Out (nl # ''  '' @ mic_sign @ '' Listening... (speak now)'' @ [nl])] else []) @ [Start_mic]
      in case hear opts es r of
           (acts, Some (Inr t)) \<Rightarrow> (begins @ acts @ [Stop_mic],
              Some (if t = [] then Inl ''No speech detected'' else Inr t))
         | (acts, x) \<Rightarrow> (begins @ acts, x))"

text \<open>The recording is handed to the provider until a transcript was final.\<close>

definition createControlledStream :: "(byte list \<times> bool) list \<Rightarrow> byte list list" where
  "createControlledStream chunks = map fst (takeWhile (\<lambda>c. \<not> snd c) chunks)"

text \<open>A failure of the synthesis or of the playback is reported and not raised.\<close>

definition onInterviewerMessage ::
  "voice_options \<Rightarrow> (string \<Rightarrow> string + byte list list) \<Rightarrow> (byte list list \<Rightarrow> string option) \<Rightarrow> string \<Rightarrow> voice_action list" where
  "onInterviewerMessage opts synthesize playStream message =
     (if vo_printText opts then [Out (nl # ''  '' @ sound_sign @ '' '' @ message @ [nl])] else [])
     @ (let failed = (\<lambda>e. [Err (''  '' @ warn_sign @ '' TTS playback failed: '' @ e @ [nl])])
        in case synthesize message of
             Inl e \<Rightarrow> failed e
           | Inr cs \<Rightarrow> [Play cs 22050] @ (case playStream cs of Some e \<Rightarrow> failed e | None \<Rightarrow> []))"

definition dispose :: "voice_action list" where
  "dispose = [Stop_mic, Stop_player, Dispose_stt, Dispose_tts]"

section \<open>The wave format\<close>

fun read_le :: "byte list \<Rightarrow> nat" where
  "read_le [] = 0"
| "read_le (b # bs) = unat b + 256 * read_le bs"

lemma length_le_bytes [simp]: "length (le_bytes n v) = n"
  by (induction n arbitrary: v) auto

lemma read_le_bytes: "v < 256 ^ n \<Longrightarrow> read_le (le_bytes n v) = v"
proof (induction n arbitrary: v)
  case 0
  then show ?case by simp
next
  case (Suc n)
  have "unat (of_nat (v mod 256) :: byte) = v mod 256"
    by (simp add: unat_of_nat)
  moreover have "v div 256 < 256 ^ n" using Suc.prems by (simp add: less_mult_imp_div_less mult.commute)
  ultimately show ?case using Suc.IH by simp
qed

lemma length_ascii [simp]: "length (ascii s) = length s"
  by (simp add: ascii_def)

text \<open>Writes at consecutive offsets put their bytes one after the other.\<close>

fun consecutive :: "nat \<Rightarrow> byte list list \<Rightarrow> (nat \<times> byte list) list" where
  "consecutive off [] = []"
| "consecutive off (b # bs) = (off, b) # consecutive (off + length b) bs"

lemma fold_writes:
  "fold (\<lambda>(off, bs). write_at off bs) (consecutive (length a) bss) (a @ rest) =
    a @ concat bss @ drop (length (concat bss)) rest"
proof (induction bss arbitrary: a rest)
  case Nil
  then show ?case by simp
next
  case (Cons b bss)
  have "write_at (length a) b (a @ rest) = (a @ b) @ drop (length b) rest"
    by (simp add: write_at_def)
  then show ?case using Cons.IH [of "a @ b" "drop (length b) rest"] by (simp add: add.commute)
qed

lemma suc_four: "Suc (Suc (Suc (Suc 0))) = 4"
  by simp

lemma wav_header_layout:
  "wav_header n rate = ascii ''RIFF'' @ le_bytes 4 (n + 36) @ ascii ''WAVE'' @ ascii ''fmt '' @ le_bytes 4 16
     @ le_bytes 2 1 @ le_bytes 2 1 @ le_bytes 4 rate @ le_bytes 4 (rate * 2) @ le_bytes 2 2 @ le_bytes 2 16
     @ ascii ''data'' @ le_bytes 4 n"
  using fold_writes [of "[]" "[ascii ''RIFF'', le_bytes 4 (n + 36), ascii ''WAVE'', ascii ''fmt '', le_bytes 4 16,
     le_bytes 2 1, le_bytes 2 1, le_bytes 4 rate, le_bytes 4 (rate * 2), le_bytes 2 2, le_bytes 2 16,
     ascii ''data'', le_bytes 4 n]" "replicate 44 0"]
  by (simp add: wav_header_def Let_def add.commute suc_four del: One_nat_def)

lemma length_wav_header: "length (wav_header n rate) = 44"
  by (simp add: wav_header_layout)

text \<open>
  A wave file is read back: the sizes in its header are those of the data, the sampling rate is the
  given one, and what is left when the 44 bytes of the header are removed, as is done with the file
  that Piper writes, is the recorded data. Longer recordings than the format can describe raise.
\<close>

lemma wav_read_back:
  assumes "writeWav pcm rate = Inr wav" "rate < 2 ^ 31"
  shows "drop 44 wav = pcm \<and> read_le (take 4 (drop 4 wav)) + 8 = length wav
    \<and> read_le (take 4 (drop 40 wav)) = length pcm \<and> read_le (take 4 (drop 24 wav)) = rate
    \<and> read_le (take 4 (drop 28 wav)) = 2 * rate"
proof -
  have l: "length pcm + 36 < 256 ^ 4" and w: "wav = wav_header (length pcm) rate @ pcm"
    using assms(1) by (auto simp: writeWav_def split: if_splits)
  have h: "take 4 (drop k wav) = take 4 (drop k (wav_header (length pcm) rate))" if "k \<le> 40" for k
    using that by (simp add: w length_wav_header)
  have "drop 44 wav = pcm" by (simp add: w length_wav_header)
  moreover have "take 4 (drop 4 wav) = le_bytes 4 (length pcm + 36)" "take 4 (drop 40 wav) = le_bytes 4 (length pcm)"
    "take 4 (drop 24 wav) = le_bytes 4 rate" "take 4 (drop 28 wav) = le_bytes 4 (rate * 2)"
    by (subst h; simp add: wav_header_layout)+
  moreover have "length wav = length pcm + 44" by (simp add: w length_wav_header)
  ultimately show ?thesis
    using l assms(2) by (simp add: read_le_bytes)
qed

section \<open>What the interviewer hears\<close>

lemma hear_final: "snd (hear opts es r) = Some (Inr t) \<and> t \<noteq> [] \<longleftrightarrow>
    (\<exists>ps fs. es = map Partial ps @ Final t # fs \<and> t \<noteq> [])"
proof (induction es)
  case Nil
  then show ?case by (auto split: el_end.split)
next
  case (Cons e es)
  show ?case
  proof (cases e)
    case (Partial p)
    then have "snd (hear opts (e # es) r) = snd (hear opts es r)" by (simp split: prod.split)
    moreover have "(\<exists>ps fs. e # es = map Partial ps @ Final t # fs) \<longleftrightarrow> (\<exists>ps fs. es = map Partial ps @ Final t # fs)"
      using Partial by (auto simp: Cons_eq_append_conv Cons_eq_map_conv)
    ultimately show ?thesis using Cons.IH by simp
  next
    case (Final f)
    then show ?thesis by (auto simp: Cons_eq_append_conv Cons_eq_map_conv)
  qed
qed

lemma getUserInput_final: "snd (getUserInput opts es r) = Some (Inr t) \<longleftrightarrow>
    (\<exists>ps fs. es = map Partial ps @ Final t # fs \<and> t \<noteq> [])"
proof -
  have "snd (getUserInput opts es r) = Some (Inr t) \<longleftrightarrow> snd (hear opts es r) = Some (Inr t) \<and> t \<noteq> []"
    by (auto simp: getUserInput_def Let_def split: prod.split option.split sum.split)
  then show ?thesis by (simp only: hear_final)
qed

text \<open>An exception of the provider leaves the microphone on.\<close>

lemma raised_mic_on:
  "Stop_mic \<notin> set (fst (getUserInput opts (map Partial ps) (Raised e)))
    \<and> snd (getUserInput opts (map Partial ps) (Raised e)) = Some (Inl e)"
proof -
  have "Stop_mic \<notin> set (fst (hear opts (map Partial ps) (Raised e)))
      \<and> snd (hear opts (map Partial ps) (Raised e)) = Some (Inl e)"
    by (induction ps) (auto split: prod.split)
  then show ?thesis by (auto simp: getUserInput_def Let_def split: prod.split)
qed

text \<open>The whole way from the socket: the answer is the first text that the service commits, whatever
  partial transcripts come before it and whatever comes after.\<close>

definition quiet :: "(string \<Rightarrow> json option) \<Rightarrow> socket_event \<Rightarrow> string option \<Rightarrow> bool" where
  "quiet parse ev p \<longleftrightarrow> (\<forall>shown s. el_event shown parse ev s =
     s\<lparr>el_queue := el_queue s @ (case p of None \<Rightarrow> [] | Some t \<Rightarrow> [Partial t])\<rparr>)"

definition talking :: "el_state" where
  "talking = \<lparr>el_queue = [], el_done = False, el_error = None\<rparr>"

lemma el_run_quiet:
  assumes "list_all2 (quiet parse) evs ps"
  shows "el_run shown parse talking (evs @ rest) =
    (case el_run shown parse talking rest of (es, r) \<Rightarrow> (map Partial (List.map_filter id ps) @ es, r))"
  using assms
proof (induction evs ps rule: list_all2_induct)
  case Nil
  then show ?case by (simp add: List.map_filter_simps split: prod.split)
next
  case (Cons ev evs p ps)
  have "el_run shown parse talking ((ev # evs) @ rest) = el_run shown parse (el_event shown parse ev talking) (evs @ rest)"
    by (subst el_run.simps) (simp add: el_next_def talking_def)
  also have "el_event shown parse ev talking = talking\<lparr>el_queue := (case p of None \<Rightarrow> [] | Some t \<Rightarrow> [Partial t])\<rparr>"
    using Cons.hyps(1) by (simp add: quiet_def talking_def)
  also have "el_run shown parse (talking\<lparr>el_queue := (case p of None \<Rightarrow> [] | Some t \<Rightarrow> [Partial t])\<rparr>) (evs @ rest) =
      (case el_run shown parse talking (evs @ rest) of (es, r) \<Rightarrow>
        ((case p of None \<Rightarrow> [] | Some t \<Rightarrow> [Partial t]) @ es, r))"
    by (cases p) (simp add: talking_def split: prod.split, subst el_run.simps, simp add: el_next_def talking_def)
  finally show ?case
    using Cons.IH by (auto simp: List.map_filter_simps split: option.split prod.split)
qed

lemma quiet_partial:
  "parse raw = Some (JObj [(''message_type'', JStr ''partial_transcript''), (''text'', JStr t)]) \<Longrightarrow> t \<noteq> [] \<Longrightarrow>
    quiet parse (On_message raw) (Some t)"
  by (simp add: quiet_def el_message_def)

lemma quiet_malformed: "parse raw = None \<Longrightarrow> quiet parse (On_message raw) None"
  by (simp add: quiet_def)

lemma spoken_answer:
  assumes "list_all2 (quiet parse) evs ps" "t \<noteq> []"
    and "parse raw = Some (JObj [(''message_type'', JStr ''committed_transcript''), (''text'', JStr t)])"
  shows "snd (case el_run shown parse talking (evs @ On_message raw # rest) of (es, r) \<Rightarrow> getUserInput opts es r) = Some (Inr t)"
proof -
  have "el_run shown parse talking (On_message raw # rest) =
      (case el_run shown parse talking rest of (es, r) \<Rightarrow> (Final t # es, r))"
    using assms(2,3)
    by (subst el_run.simps) (simp add: el_next_def talking_def el_message_def,
        subst el_run.simps, simp add: el_next_def)
  then show ?thesis
    using el_run_quiet [OF assms(1), of shown "On_message raw # rest"]
    using assms(2) by (auto simp: getUserInput_final split: prod.split)
qed

definition end_of :: "(string option) option \<Rightarrow> el_end" where
  "end_of e = (case e of None \<Rightarrow> Waiting | Some None \<Rightarrow> Returned | Some (Some x) \<Rightarrow> Raised x)"

text \<open>The recording is stopped by a final transcript, and Whisper gives one only when the recording has
  ended: with a microphone that does not end by itself there is no answer, and the microphone stays on.\<close>

lemma whisper_waits_for_silence:
  "case whisper_session run chunks False of (es, e) \<Rightarrow>
     snd (getUserInput opts es (end_of e)) = None \<and> Stop_mic \<notin> set (fst (getUserInput opts es (end_of e)))"
  by (simp add: whisper_session_def end_of_def getUserInput_def)

text \<open>Both local programs together: what a user says reaches the interview as Whisper's trimmed output.\<close>

lemma whisper_answer:
  assumes "concat chunks \<noteq> []" "length (concat chunks) + 36 < 2 ^ 32" "trim t \<noteq> []"
    and "\<And>wav. drop 44 wav = concat chunks \<Longrightarrow> run wav = Inr t"
  shows "snd (case whisper_session run chunks True of (es, e) \<Rightarrow> getUserInput opts es (end_of e)) = Some (Inr (trim t))"
proof -
  let ?wav = "wav_header (length (concat chunks)) 16000 @ concat chunks"
  have w: "writeWav (concat chunks) 16000 = Inr ?wav" using assms(2) by (simp add: writeWav_def)
  have "run ?wav = Inr t" by (rule assms(4)) (simp add: length_wav_header)
  then have "whisper_transcribe run chunks = ([Final (trim t)], None)"
    using assms(1,3) w by (simp add: whisper_transcribe_def)
  then show ?thesis using assms(3) by (simp add: whisper_session_def end_of_def getUserInput_final) (use assms(3) in \<open>auto intro: exI [of _ "[]"]\<close>)
qed

end
