(* ===== verification/Completion.thy ===== *)
theory Completion
  imports AgentFile
begin

text \<open>
  TasteKit, cli/src/commands/completion.ts, cli/src/cli.ts and simulate.ts: the completion scripts of
  three shells as texts, and the commands and subcommands that the program registers, with the places
  where the two differ.
\<close>

section \<open>The tables\<close>

definition COMMANDS :: "string list" where
  "COMMANDS = [''init'', ''onboard'', ''compile'', ''simulate'', ''mcp'', ''trust'', ''skills'', ''drift'', ''eval'', ''export'', ''import'', ''completion'']"

definition GLOBAL_OPTIONS :: "string list" where
  "GLOBAL_OPTIONS = [''--json'', ''--verbose'', ''--help'', ''--version'']"

definition EXPORT_TARGETS :: "string list" where
  "EXPORT_TARGETS = [''claude-code'', ''manus'', ''openclaw'', ''autopilots'', ''agents-md'', ''agent-file'']"

definition IMPORT_TARGETS :: "string list" where
  "IMPORT_TARGETS = [''claude-code'', ''manus'', ''openclaw'', ''autopilots'', ''soul-md'', ''agent-file'']"

definition DEPTHS :: "string list" where
  "DEPTHS = [''quick'', ''guided'', ''operator'']"

definition SUBCOMMANDS :: "(string \<times> string list) list" where
  "SUBCOMMANDS =
    [(''mcp'', [''add'', ''list'', ''inspect'', ''bind'']),
     (''trust'', [''init'', ''pin-mcp'', ''pin-skill-source'', ''audit'']),
     (''skills'', [''list'', ''lint'', ''pack'']),
     (''drift'', [''detect'', ''apply'', ''memory-consolidate'']),
     (''eval'', [''run'', ''replay''])]"

definition spaced :: "string list \<Rightarrow> string" where
  "spaced xs = join '' '' xs"

section \<open>The scripts\<close>

definition bash_case :: "string \<times> string list \<Rightarrow> string" where
  \<open>bash_case e = ''      '' @ fst e @ '') COMPREPLY=($(compgen -W "'' @ spaced (snd e) @ ''" -- "$cur")) ;;''\<close>

definition bashCompletion :: string where
  \<open>bashCompletion = join [nl] (
    [''# tastekit bash completion'',
     ''# eval "$(tastekit completion bash)"'',
     [],
     ''_tastekit_completions() {'',
     ''  local cur prev commands'',
     ''  COMPREPLY=()'',
     ''  cur="${COMP_WORDS[COMP_CWORD]}"'',
     ''  prev="${COMP_WORDS[COMP_CWORD-1]}"'',
     ''  commands="'' @ spaced COMMANDS @ ''"'',
     [],
     ''  if '' @ ''['' @ ''[ ${COMP_CWORD} -eq 1 '' @ '']'' @ '']; then'',
     ''    COMPREPLY=($(compgen -W "$commands '' @ spaced GLOBAL_OPTIONS @ ''" -- "$cur"))'',
     ''    return 0'',
     ''  fi'',
     [],
     ''  case "${COMP_WORDS[1]}" in'']
    @ map bash_case SUBCOMMANDS
    @ [''      export)'',
     ''        if '' @ ''['' @ ''[ "$prev" == "--target" '' @ '']'' @ '']; then'',
     ''          COMPREPLY=($(compgen -W "'' @ spaced EXPORT_TARGETS @ ''" -- "$cur"))'',
     ''        else'',
     ''          COMPREPLY=($(compgen -W "--target --out" -- "$cur"))'',
     ''        fi'',
     ''        ;;'',
     ''      import)'',
     ''        if '' @ ''['' @ ''[ "$prev" == "--target" '' @ '']'' @ '']; then'',
     ''          COMPREPLY=($(compgen -W "'' @ spaced IMPORT_TARGETS @ ''" -- "$cur"))'',
     ''        else'',
     ''          COMPREPLY=($(compgen -W "--target --source" -- "$cur"))'',
     ''        fi'',
     ''        ;;'',
     ''      init)'',
     ''        if '' @ ''['' @ ''[ "$prev" == "--depth" '' @ '']'' @ '']; then'',
     ''          COMPREPLY=($(compgen -W "'' @ spaced DEPTHS @ ''" -- "$cur"))'',
     ''        else'',
     ''          COMPREPLY=($(compgen -W "--domain --depth" -- "$cur"))'',
     ''        fi'',
     ''        ;;'',
     ''      onboard)'',
     ''        if '' @ ''['' @ ''[ "$prev" == "--depth" '' @ '']'' @ '']; then'',
     ''          COMPREPLY=($(compgen -W "'' @ spaced DEPTHS @ ''" -- "$cur"))'',
     ''        else'',
     ''          COMPREPLY=($(compgen -W "--depth --resume --provider" -- "$cur"))'',
     ''        fi'',
     ''        ;;'',
     ''  esac'',
     ''}'',
     [],
     ''complete -F _tastekit_completions tastekit'',
     []])\<close>

definition zsh_case :: "string \<times> string list \<Rightarrow> string" where
  \<open>zsh_case e = ''    '' @ fst e @ '') _values '' @ squote @ ''subcommand'' @ squote @ '' ''
     @ spaced (map (\<lambda>s. squote @ s @ '':'' @ s @ '' subcommand'' @ squote) (snd e)) @ '' ;;''\<close>

definition zshCompletion :: string where
  \<open>zshCompletion = join [nl] (
    [''#compdef tastekit'',
     ''# tastekit zsh completion'',
     ''# eval "$(tastekit completion zsh)"'',
     [],
     ''_tastekit() {'',
     ''  local -a commands'',
     ''  commands=('',
     ''    '' @ squote @ ''init:Initialize a new TasteKit workspace'' @ squote,
     ''    '' @ squote @ ''onboard:Run the LLM-driven onboarding interview'' @ squote,
     ''    '' @ squote @ ''compile:Compile taste artifacts'' @ squote,
     ''    '' @ squote @ ''simulate:Run simulation with dry-run mode'' @ squote,
     ''    '' @ squote @ ''mcp:Manage MCP server bindings'' @ squote,
     ''    '' @ squote @ ''trust:Manage trust and provenance'' @ squote,
     ''    '' @ squote @ ''skills:Manage skills library'' @ squote,
     ''    '' @ squote @ ''drift:Manage drift detection and memory'' @ squote,
     ''    '' @ squote @ ''eval:Run evaluations'' @ squote,
     ''    '' @ squote @ ''export:Export to runtime adapter format'' @ squote,
     ''    '' @ squote @ ''import:Import from runtime format'' @ squote,
     ''    '' @ squote @ ''completion:Generate shell completions'' @ squote,
     ''  )'',
     [],
     ''  _arguments -C '' @ bslash,
     ''    '' @ squote @ ''--json[Output in JSON format]'' @ squote @ '' '' @ bslash,
     ''    '' @ squote @ ''--verbose[Enable verbose logging]'' @ squote @ '' '' @ bslash,
     ''    '' @ squote @ ''1:command:->command'' @ squote @ '' '' @ bslash,
     ''    '' @ squote @ ''*::arg:->args'' @ squote,
     [],
     ''  case $state in'',
     ''    command)'',
     ''      _describe -t commands '' @ squote @ ''tastekit command'' @ squote @ '' commands'',
     ''      ;;'',
     ''    args)'',
     ''      case ${words[1]} in'']
    @ map zsh_case SUBCOMMANDS
    @ [''        export) _arguments '' @ squote @ ''--target[Target adapter]:target:('' @ spaced EXPORT_TARGETS @ '')'' @ squote @ '' '' @ squote @ ''--out[Output directory]:directory:_directories'' @ squote @ '' ;;'',
     ''        import) _arguments '' @ squote @ ''--target[Source format]:target:('' @ spaced IMPORT_TARGETS @ '')'' @ squote @ '' '' @ squote @ ''--source[Source path]:path:_files'' @ squote @ '' ;;'',
     ''        init) _arguments '' @ squote @ ''--domain[Domain ID]:domain:'' @ squote @ '' '' @ squote @ ''--depth[Onboarding depth]:depth:('' @ spaced DEPTHS @ '')'' @ squote @ '' ;;'',
     ''        onboard) _arguments '' @ squote @ ''--depth[Override depth]:depth:('' @ spaced DEPTHS @ '')'' @ squote @ '' '' @ squote @ ''--resume[Resume session]'' @ squote @ '' '' @ squote @ ''--provider[LLM provider]:provider:(anthropic openai ollama)'' @ squote @ '' ;;'',
     ''      esac'',
     ''      ;;'',
     ''  esac'',
     ''}'',
     [],
     ''_tastekit "$@"'',
     []])\<close>

definition cmdDescs :: "(string \<times> string) list" where
  "cmdDescs =
    [(''init'', ''Initialize a new TasteKit workspace''),
     (''onboard'', ''Run the LLM-driven onboarding interview''),
     (''compile'', ''Compile taste artifacts''),
     (''simulate'', ''Run simulation with dry-run mode''),
     (''mcp'', ''Manage MCP server bindings''),
     (''trust'', ''Manage trust and provenance''),
     (''skills'', ''Manage skills library''),
     (''drift'', ''Manage drift detection and memory''),
     (''eval'', ''Run evaluations''),
     (''export'', ''Export to runtime adapter format''),
     (''import'', ''Import from runtime format''),
     (''completion'', ''Generate shell completions'')]"

definition fish_command :: "string \<times> string \<Rightarrow> string" where
  "fish_command e = ''complete -c tastekit -n '' @ squote @ ''__fish_use_subcommand'' @ squote @ '' -a '' @ fst e
     @ '' -d '' @ squote @ snd e @ squote"

definition fish_subcommand :: "string \<Rightarrow> string \<Rightarrow> string" where
  "fish_subcommand cmd s = ''complete -c tastekit -n '' @ squote @ ''__fish_seen_subcommand_from '' @ cmd @ squote
     @ '' -a '' @ s"

definition fishCompletion :: string where
  "fishCompletion = join [nl] (
    [''# tastekit fish completion'',
     ''# tastekit completion fish | source'',
     [],
     ''# Disable file completion by default'',
     ''complete -c tastekit -f'',
     [],
     ''# Commands'']
    @ map fish_command cmdDescs
    @ [] # [''# Subcommands'']
    @ concat (map (\<lambda>(cmd, subs). map (fish_subcommand cmd) subs) SUBCOMMANDS)
    @ [] # [''# Global options'',
       ''complete -c tastekit -l json -d '' @ squote @ ''Output in JSON format'' @ squote,
       ''complete -c tastekit -l verbose -d '' @ squote @ ''Enable verbose logging'' @ squote]) @ [nl]"

text \<open>The action: the text written to the output, or the message of the error with exit code 1.\<close>

definition completionCommand :: "string option \<Rightarrow> string + string" where
  "completionCommand shell =
     (let s = (case shell of None \<Rightarrow> ''bash'' | Some s \<Rightarrow> s)
      in if s = ''bash'' then Inr bashCompletion
         else if s = ''zsh'' then Inr zshCompletion
         else if s = ''fish'' then Inr fishCompletion
         else Inl (''Unknown shell: '' @ s @ ''. Use bash, zsh, or fish.''))"

section \<open>The registered commands\<close>

text \<open>\<open>program.addCommand\<close> in cli.ts, with the names that the commands are constructed with; each group
  with the subcommands added to it.\<close>

definition program_commands :: "string list" where
  "program_commands = [''init'', ''onboard'', ''compile'', ''simulate'', ''mcp'', ''trust'', ''skills'', ''drift'',
     ''eval'', ''export'', ''import'', ''completion'']"

definition program_options :: "string list" where
  "program_options = [''--json'', ''--verbose'']"

definition registered :: "(string \<times> string list) list" where
  "registered =
    [(''mcp'', [''add'', ''list'', ''inspect'', ''bind'']),
     (''trust'', [''init'', ''pin-mcp'', ''pin-skill-source'', ''audit'']),
     (''skills'', [''list'', ''lint'', ''pack'', ''graph'']),
     (''drift'', [''detect'', ''apply'', ''memory-consolidate'']),
     (''eval'', [''run'', ''replay''])]"

definition simulate_text :: string where
  "simulate_text = join [nl]
    [''Simulation is planned for TasteKit v1.1.'',
     [],
     ''This feature will let you dry-run skills and playbooks against your'',
     ''taste profile to preview outputs without side effects.'',
     [],
     ''Track progress: https://github.com/tastekit/tastekit/issues'']"

lemma completed_commands_registered: "set COMMANDS = set program_commands \<and> set (map fst cmdDescs) = set program_commands"
  by (auto simp: COMMANDS_def program_commands_def cmdDescs_def)

lemma completed_groups_registered: "map fst SUBCOMMANDS = map fst registered"
  by (simp add: SUBCOMMANDS_def registered_def)

definition completed_subcommands :: "string \<Rightarrow> string list" where
  "completed_subcommands cmd = (case map_of SUBCOMMANDS cmd of None \<Rightarrow> [] | Some xs \<Rightarrow> xs)"

definition registered_subcommands :: "string \<Rightarrow> string list" where
  "registered_subcommands cmd = (case map_of registered cmd of None \<Rightarrow> [] | Some xs \<Rightarrow> xs)"

text \<open>
  The completion tables name exactly the commands of the program, and exactly the subcommands, with one
  exception: \<open>skills graph\<close> is not offered.
\<close>

lemma completion_differs:
  "set (registered_subcommands cmd) - set (completed_subcommands cmd)
     = (if cmd = ''skills'' then {''graph''} else {})"
  "set (completed_subcommands cmd) - set (registered_subcommands cmd)
     = {}"
  by (auto simp: completed_subcommands_def registered_subcommands_def SUBCOMMANDS_def registered_def)

text \<open>Every target offered after \<open>--target\<close> of export is one that the command knows; of those offered for
  import, the four adapters are refused by the command.\<close>

lemma export_targets_known: "t \<in> set EXPORT_TARGETS \<longleftrightarrow> t = ''agent-file'' \<or> t = ''agents-md'' \<or> t \<in> set (map fst ADAPTERS)"
  by (auto simp: EXPORT_TARGETS_def ADAPTERS_def)

lemma import_target_refused:
  "t \<in> set IMPORT_TARGETS \<Longrightarrow> t \<in> set (map fst ADAPTERS) \<Longrightarrow>
    importCommand env cwd (Some t) (Some p) d = (Exit_one (''Import from '' @ t @ '' adapter format not yet implemented.''), d)"
  by (auto simp: importCommand_def ADAPTERS_def)

end
