(* ===== verification/Spec2Isabelle.thy ===== *)
theory Spec2Isabelle
  imports Client Interviews QuickClaw TrustCommands SkillCommands Voice Completion
begin

text \<open>
  A verification library for the agent tools of this repository: TasteKit (an interview that turns a
  user's taste into the artifacts of an agent: constitution, guardrails, memory policy, skills,
  playbooks), autoManage (a dashboard that watches the trace files agents write) and QuickClaw (an
  installer that turns one configuration into a working agent workspace). The TypeScript sources are translated function by function; a definition has the name of the function it
  models, a record the fields of its interface with a prefix.

  \<^bold>\<open>How the parts interact.\<close> The interview engine asks a language model, updates the coverage of the
  rubric's dimensions, and leaves a session with structured answers. The compilers read the session
  and write the artifacts into the workspace, through the path resolvers of the layout. Agents
  append trace events as JSON lines; autoManage tails these files, parses and validates the lines,
  derives a status per agent, keeps status and recent events in SQLite, and tells the dashboards by
  a bus and a server-sent-events stream; the reducer of the dashboard replays the messages. Drift
  detection reads the same traces and proposes changes of the constitution. QuickClaw runs the tools
  of the host, TasteKit among them, and reports what each step did.

  \<^bold>\<open>Theories.\<close>
  \<^item> \<open>Prelude\<close>, \<open>Json\<close>, \<open>Paths\<close>, \<open>Texts\<close>: the parts of the JavaScript library the sources call (strings,
    arrays, maps, JSON values, POSIX paths, substring search in a text given by lines), and the
    interfaces shared by several components as locales.
  \<^item> \<open>Trace\<close>, \<open>Parser\<close>, \<open>Tailer\<close>: schemas/trace.ts, tracing/reader.ts, contracts/trace.ts,
    ingest/parser.ts, tailer.ts, watcher.ts. The tailer reads a growing file of bytes; the theorem
    says that the lines do not depend on how the file was appended.
  \<^item> \<open>Status\<close>, \<open>Store\<close>, \<open>Service\<close>, \<open>Runtime\<close>, \<open>Dashboard\<close>: status/derive.ts, storage/sqlite.ts,
    ingest/service.ts, runtime/events.ts, the stream route, ui/state.ts. The store is refined to the
    window of the last events of each agent; the dashboard is shown to agree with the store after
    every published batch.
  \<^item> \<open>Client\<close>: ui/dashboard-client.tsx, agent-card.tsx, runtime/service.ts and the routes of agents and
    events: the page as a state machine over replies, messages and clicks, composed with the service. The
    id of an agent is encoded by the page and decoded by the route; what the web framework hands over
    between them is a parameter.
  \<^item> \<open>Rubric\<close>, \<open>Domain_Rubrics\<close>, \<open>Prompts\<close>, \<open>Answers\<close>, \<open>Interview\<close>, \<open>Interviews\<close>: interview/*.ts and the
    rubrics of the six domains as data. The engine is a state machine over the replies of the model
    (the parameter \<open>llm\<close>); the invariants are kept by every exchange and lifted to saved and resumed
    conversations.
  \<^item> \<open>Layout\<close>: utils/filesystem.ts, the workspace on disk and its migration from the flat layout.
  \<^item> \<open>Constitution\<close>, \<open>Guardrails\<close>, \<open>MemoryPolicy\<close>, \<open>Domain_Skills\<close>, \<open>SkillsLibrary\<close>, \<open>Domain_Playbooks\<close>,
    \<open>Playbooks\<close>: the compilers of compiler/*.ts with the shipped skills and playbooks as data, and the
    linter, generator and packer of skills/*.ts.
  \<^item> \<open>SkillGraph\<close>: skills/graph.ts, with the exactness of the cycle report.
  \<^item> \<open>Compile\<close>: compiler/compiler.ts, derivation.ts, validator.ts and the writers: the steps of a
    compilation over the disk, with faults of the disk between them and the resumption from the
    derivation file.
  \<^item> \<open>McpClient\<close>, \<open>Trust\<close>: mcp/*.ts and trust/*.ts. The protocol library is a parameter that answers
    the n-th call; binding, pinning and auditing are definitions over its replies.
  \<^item> \<open>Tracer\<close>: tracing/tracer.ts. The events it writes are read back by its reader and accepted by the
    ingestion of autoManage, under the one condition that their data are objects.
  \<^item> \<open>Drift\<close>, \<open>Consolidate\<close>: drift/*.ts, the detectors with their proposals and the memory
    consolidation with its pruning and merging.
  \<^item> \<open>Dynamic\<close>: reads of untyped values that may raise, and loops of steps that may fail.
  \<^item> \<open>Evaluate\<close>: eval/*.ts and schemas/evalpack.ts: the judge, the runner and the replay of traces.
  \<^item> \<open>Generators\<close>, \<open>Adapters\<close>: generators/*.ts and packages/adapters: the CLAUDE.md with its blocks, the
    hook scripts, and the exports of a compiled workspace.
  \<^item> \<open>AgentFile\<close>, \<open>Commands\<close>, \<open>TrustCommands\<close>: cli/src/commands export.ts, import.ts, drift.ts, eval.ts,
    compile.ts, trust.ts and mcp.ts. A command is a function of the disk; it returns the exit code, the
    JSON it prints and the disk it leaves. The theorems follow a document through several commands.
  \<^item> \<open>Domains\<close>: domains/*/domain.ts and questions.ts, domains/index.ts: the registry of the domains, with the
    agreement of the tables that are looked up by the id of a domain.
  \<^item> \<open>Providers\<close>: llm/*.ts, the clients of three services over a network that is a parameter. The interview
    takes the same course over each of them.
  \<^item> \<open>Onboard\<close>, \<open>SkillCommands\<close>: commands/init.ts, onboard.ts and skills.ts with interview/session.ts, up to a
    theorem on the whole way from an empty directory to a compiled workspace.
  \<^item> \<open>Completion\<close>: commands/completion.ts and cli.ts: the completion scripts and the table of commands.
  \<^item> \<open>Voice\<close>: packages/voice: the speech providers, the wave files and the two callbacks of the interview.
  \<^item> \<open>Host\<close>: core/shell.ts of QuickClaw and the world its commands act on: the disk, the commands
    spawned and the requests sent so far. A \<open>machine\<close> says what a spawned command or a request does in
    a world; an action is a value of the library's state monad, and the collection \<open>io\<close> has the frame
    rules.
  \<^item> \<open>QuickConfig\<close>, \<open>QuickDocs\<close>, \<open>QuickShell\<close>, \<open>QuickOps\<close>, \<open>QuickClaw\<close>: config/*.ts, the document
    templates and their synthesis, the steps on the host (checks, installation, hooks, scheduled jobs),
    the scripts and the Sentry pipeline, and the commands create and verify built from them.

  \<^bold>\<open>Modelling choices.\<close> A number is an exact rational or integer. Where sums and averages of
  fractions decide a result, in the confidence of the interview (\<open>Interview\<close>) and in the scores of the
  evaluation (\<open>Evaluate\<close>), each operation is followed by a rounding that is a parameter, of which the
  theorems name what they need; elsewhere the sources compare, add and clamp small decimals, exactly.
  The untyped values that the model of the interview may report are added and compared as JavaScript
  does it (the record \<open>js\<close>: texts concatenate, numbers in texts are read). A string is the list of its
  UTF-8 bytes; trimming, lower case and word patterns are those of ASCII text. Values that a JavaScript
  \<open>Map\<close> keys by identity are compared as values in the detection of repeated edits. Writing the
  derivation state does not fail, and its file is of the declared form; copying a directory has one
  way, without the fallback of the sources. A disk is a list of files and directories, a path the list
  of its segments. \<open>JSON.parse\<close>, the YAML printer, \<open>Date\<close>, random ids and the language model are
  arguments of the definitions, with what a theorem needs of them as named hypotheses. Exceptions are
  values of option or sum types. A JavaScript \<open>Map\<close> or record is an association list in insertion
  order.

  \<^bold>\<open>Fuel and termination.\<close> The depth-first search of the skill graph has one unit of fuel for each
  nested call; the number of skills is enough because each nested call visits a new skill. Chains
  and pipeline paths carry the successor of the number of skills, and the theorem on them shows that
  the walk stops by itself before. All other loops are structural or have a measure.

  \<^bold>\<open>Not modelled.\<close> The static markup of autoManage's page and the audio devices behind TasteKit's voice
  package are input and output around the core. Of
  QuickClaw, the console output, file modes and the prompts library are left out. AutoClaw is a Go
  program. PROJECT.json lists each part with its state.
\<close>

end
